(* ===== verification/OrderedMap.thy ===== *)
theory OrderedMap
  imports LakePrelude
begin

section \<open>Ordered maps\<close>

text \<open>
  \<open>BTreeMap\<close> as an association list in key order: iteration is the list, \<open>insert\<close> replaces or
  inserts in place, \<open>remove\<close> and \<open>retain\<close> filter. The interface the stores rely on is the locale
  \<open>row_store\<close>; its client lemmas say how a property of all rows survives each update, which is
  how every "row scope" invariant of the catalog store is proved. Interpreted as \<open>bt\<close>.
\<close>

type_synonym ('k, 'v) btree = "('k \<times> 'v) list"

abbreviation bt_get :: "('k, 'v) btree \<Rightarrow> 'k \<Rightarrow> 'v option" where
  "bt_get \<equiv> map_of"

fun bt_insert :: "'k::linorder \<Rightarrow> 'v \<Rightarrow> ('k, 'v) btree \<Rightarrow> ('k, 'v) btree" where
  "bt_insert k v [] = [(k, v)]"
| "bt_insert k v ((k', v') # m) =
     (if k < k' then (k, v) # (k', v') # m
      else if k = k' then (k, v) # m
      else (k', v') # bt_insert k v m)"

definition bt_retain :: "('k \<Rightarrow> 'v \<Rightarrow> bool) \<Rightarrow> ('k, 'v) btree \<Rightarrow> ('k, 'v) btree" where
  "bt_retain P m = filter (\<lambda>(k, v). P k v) m"

definition bt_remove :: "'k \<Rightarrow> ('k, 'v) btree \<Rightarrow> ('k, 'v) btree" where
  "bt_remove k m = filter (\<lambda>(k', v). k' \<noteq> k) m"

definition bt_contains :: "('k, 'v) btree \<Rightarrow> 'k \<Rightarrow> bool" where
  "bt_contains m k \<longleftrightarrow> bt_get m k \<noteq> None"

text \<open>\<open>extend\<close> of one map by the entries of another.\<close>

fun bt_extend :: "('k::linorder, 'v) btree \<Rightarrow> ('k \<times> 'v) list \<Rightarrow> ('k, 'v) btree" where
  "bt_extend m [] = m"
| "bt_extend m ((k, v) # kvs) = bt_extend (bt_insert k v m) kvs"

abbreviation bt_from :: "('k::linorder \<times> 'v) list \<Rightarrow> ('k, 'v) btree" where
  "bt_from kvs \<equiv> bt_extend [] kvs"

definition bt_wf :: "('k::linorder, 'v) btree \<Rightarrow> bool" where
  "bt_wf m \<longleftrightarrow> sorted_wrt (<) (map fst m)"

subsection \<open>The interface\<close>

locale row_store =
  fixes get :: "'m \<Rightarrow> 'k \<Rightarrow> 'v option"
    and put :: "'k \<Rightarrow> 'v \<Rightarrow> 'm \<Rightarrow> 'm"
    and del :: "'k \<Rightarrow> 'm \<Rightarrow> 'm"
    and keep :: "('k \<Rightarrow> 'v \<Rightarrow> bool) \<Rightarrow> 'm \<Rightarrow> 'm"
    and wf :: "'m \<Rightarrow> bool"
  assumes get_put: "get (put k v m) = (get m)(k \<mapsto> v)"
    and get_del: "get (del k m) = (get m)(k := None)"
    and get_keep: "wf m \<Longrightarrow> get (keep P m) k =
      (case get m k of None \<Rightarrow> None | Some v \<Rightarrow> if P k v then Some v else None)"
    and wf_put: "wf m \<Longrightarrow> wf (put k v m)"
    and wf_del: "wf m \<Longrightarrow> wf (del k m)"
    and wf_keep: "wf m \<Longrightarrow> wf (keep P m)"
begin

definition all_rows :: "('k \<Rightarrow> 'v \<Rightarrow> bool) \<Rightarrow> 'm \<Rightarrow> bool" where
  "all_rows P m \<longleftrightarrow> (\<forall>k v. get m k = Some v \<longrightarrow> P k v)"

lemma all_rowsD: "all_rows P m \<Longrightarrow> get m k = Some v \<Longrightarrow> P k v"
  by (simp add: all_rows_def)

lemma all_rows_put: "all_rows P m \<Longrightarrow> P k v \<Longrightarrow> all_rows P (put k v m)"
  by (simp add: all_rows_def get_put)

lemma all_rows_del: "all_rows P m \<Longrightarrow> all_rows P (del k m)"
  by (simp add: all_rows_def get_del)

lemma all_rows_keep: "wf m \<Longrightarrow> all_rows P m \<Longrightarrow> all_rows P (keep Q m)"
  by (auto simp: all_rows_def get_keep split: option.splits if_splits)

lemma all_rows_mono: "all_rows P m \<Longrightarrow> (\<And>k v. get m k = Some v \<Longrightarrow> P k v \<Longrightarrow> Q k v) \<Longrightarrow> all_rows Q m"
  by (simp add: all_rows_def)

lemma put_put: "get (put k v (put k w m)) = get (put k v m)"
  by (simp add: get_put)

lemma del_put: "get m k = None \<Longrightarrow> get (del k (put k v m)) = get m"
  by (auto simp: get_put get_del)

lemma move_row:
  assumes "k \<noteq> k'"
  shows "get (put k' v (del k m)) k = None" "get (put k' v (del k m)) k' = Some v"
    and "j \<noteq> k \<Longrightarrow> j \<noteq> k' \<Longrightarrow> get (put k' v (del k m)) j = get m j"
  using assms by (simp_all add: get_put get_del)

end

subsection \<open>The association list provides it\<close>

lemma bt_get_insert: "bt_get (bt_insert k v m) = (bt_get m)(k \<mapsto> v)"
  by (induction k v m rule: bt_insert.induct) auto

lemma bt_get_remove: "bt_get (bt_remove k m) = (bt_get m)(k := None)"
  by (induction m) (auto simp: bt_remove_def)

lemma set_fst_bt_insert: "fst ` set (bt_insert k v m) = insert k (fst ` set m)"
  by (induction k v m rule: bt_insert.induct) auto

lemma set_bt_insert_subset: "set (bt_insert k v m) \<subseteq> insert (k, v) (set m)"
  by (induction k v m rule: bt_insert.induct) auto

lemma bt_wf_insert: "bt_wf m \<Longrightarrow> bt_wf (bt_insert k v m)"
proof (induction k v m rule: bt_insert.induct)
  case (1 k v)
  show ?case by (simp add: bt_wf_def)
next
  case (2 k v k' v' m)
  have keys: "fst p \<in> insert k (fst ` set m)" if "p \<in> set (bt_insert k v m)" for p
    using that by (metis image_eqI set_fst_bt_insert)
  show ?case
  proof (cases "k < k' \<or> k = k'")
    case True
    with 2 show ?thesis by (fastforce simp: bt_wf_def)
  next
    case False
    then have "k' < k" by auto
    moreover have "bt_wf (bt_insert k v m)"
      using 2 False by (simp add: bt_wf_def)
    moreover have "\<forall>p \<in> set (bt_insert k v m). k' < fst p"
      using keys \<open>k' < k\<close> 2(2) by (fastforce simp: bt_wf_def)
    ultimately show ?thesis
      using False by (auto simp: bt_wf_def)
  qed
qed

lemma bt_wf_filter: "bt_wf m \<Longrightarrow> bt_wf (filter P m)"
  by (induction m) (auto simp: bt_wf_def)

lemma bt_wf_remove: "bt_wf m \<Longrightarrow> bt_wf (bt_remove k m)"
  by (simp add: bt_remove_def bt_wf_filter)

lemma bt_wf_retain: "bt_wf m \<Longrightarrow> bt_wf (bt_retain P m)"
  by (simp add: bt_retain_def bt_wf_filter)

lemma bt_wf_distinct: "bt_wf m \<Longrightarrow> distinct (map fst m)"
  by (induction m) (auto simp: bt_wf_def)

lemma bt_wf_Nil [simp]: "bt_wf []"
  by (simp add: bt_wf_def)

lemma bt_wf_get_iff: "bt_wf m \<Longrightarrow> bt_get m k = Some v \<longleftrightarrow> (k, v) \<in> set m"
  by (metis bt_wf_distinct map_of_eq_Some_iff)

lemma bt_get_retain:
  assumes wf: "bt_wf m"
  shows "bt_get (bt_retain P m) k =
    (case bt_get m k of None \<Rightarrow> None | Some v \<Rightarrow> if P k v then Some v else None)"
proof (cases "bt_get m k")
  case None
  then have "bt_get (bt_retain P m) k = None"
    by (auto simp: bt_retain_def map_of_eq_None_iff)
  with None show ?thesis by simp
next
  case (Some v)
  then have "bt_get (bt_retain P m) k = Some w \<longleftrightarrow> P k v \<and> w = v" for w
    using wf bt_wf_filter [OF wf, of "\<lambda>(k, v). P k v"]
    by (auto simp: bt_retain_def bt_wf_get_iff) (metis bt_wf_get_iff option.inject)+
  with Some show ?thesis by (cases "bt_get (bt_retain P m) k") auto
qed

interpretation bt: row_store bt_get bt_insert bt_remove bt_retain bt_wf
  by unfold_locales
    (simp_all add: bt_get_insert bt_get_remove bt_get_retain bt_wf_insert bt_wf_remove bt_wf_retain)

lemmas bt_get_simps = bt_get_insert bt_get_remove

lemma bt_contains_iff: "bt_contains m k \<longleftrightarrow> k \<in> fst ` set m"
  by (auto simp: bt_contains_def map_of_eq_None_iff)

lemma bt_contains_get: "bt_contains m k \<longleftrightarrow> (\<exists>v. bt_get m k = Some v)"
  by (auto simp: bt_contains_def)

lemma bt_wf_extend: "bt_wf m \<Longrightarrow> bt_wf (bt_extend m kvs)"
  by (induction m kvs rule: bt_extend.induct) (auto intro: bt_wf_insert)

lemma bt_get_extend: "bt_get (bt_extend m kvs) = bt_get m ++ map_of (rev kvs)"
  by (induction m kvs rule: bt_extend.induct) (auto simp: bt_get_insert map_add_def fun_eq_iff split: option.splits)

lemma bt_get_extend_absent: "k \<notin> fst ` set kvs \<Longrightarrow> bt_get (bt_extend m kvs) k = bt_get m k"
  by (induction m kvs rule: bt_extend.induct) (auto simp: bt_get_insert)

lemma bt_keys_sorted: "bt_wf m \<Longrightarrow> sorted (map fst m)"
  unfolding bt_wf_def using strict_sorted_imp_sorted by blast

lemma bt_wf_ext:
  assumes "bt_wf m" "bt_wf m'" "bt_get m = bt_get m'"
  shows "m = m'"
proof -
  have "set m = set m'"
    using assms by (metis bt_wf_get_iff subrelI subset_antisym)
  with assms(1,2) show ?thesis
    by (metis bt_keys_sorted bt_wf_distinct distinct_map map_sorted_distinct_set_unique set_map
        inj_on_Un Un_absorb)
qed

subsection \<open>A predicate of all rows\<close>

definition rows_ok :: "('k::linorder \<Rightarrow> 'v \<Rightarrow> bool) \<Rightarrow> ('k, 'v) btree \<Rightarrow> bool" where
  "rows_ok P m \<longleftrightarrow> bt_wf m \<and> list_all (\<lambda>(k, v). P k v) m"

lemma rows_ok_iff: "rows_ok P m \<longleftrightarrow> bt_wf m \<and> bt.all_rows P m"
  by (auto simp: rows_ok_def bt.all_rows_def list_all_iff bt_wf_get_iff)

lemma rows_okD: "rows_ok P m \<Longrightarrow> bt_get m k = Some v \<Longrightarrow> P k v"
  by (simp add: rows_ok_iff bt.all_rows_def)

lemma rows_ok_setD: "rows_ok P m \<Longrightarrow> (k, v) \<in> set m \<Longrightarrow> P k v"
  by (auto simp: rows_ok_def list_all_iff)

lemma rows_ok_wf: "rows_ok P m \<Longrightarrow> bt_wf m"
  by (simp add: rows_ok_def)

lemma rows_ok_Nil [simp]: "rows_ok P []"
  by (simp add: rows_ok_def)

lemma rows_ok_insert: "rows_ok P m \<Longrightarrow> P k v \<Longrightarrow> rows_ok P (bt_insert k v m)"
  by (simp add: rows_ok_iff bt.all_rows_put bt_wf_insert)

lemma rows_ok_remove: "rows_ok P m \<Longrightarrow> rows_ok P (bt_remove k m)"
  by (simp add: rows_ok_iff bt.all_rows_del bt_wf_remove)

lemma rows_ok_retain: "rows_ok P m \<Longrightarrow> rows_ok P (bt_retain Q m)"
  by (simp add: rows_ok_iff bt.all_rows_keep bt_wf_retain)

lemma rows_ok_mono:
  "rows_ok P m \<Longrightarrow> (\<And>k v. bt_get m k = Some v \<Longrightarrow> P k v \<Longrightarrow> Q k v) \<Longrightarrow> rows_ok Q m"
  unfolding rows_ok_iff using bt.all_rows_mono by blast

lemma rows_ok_extend: "rows_ok P m \<Longrightarrow> list_all (\<lambda>(k, v). P k v) kvs \<Longrightarrow> rows_ok P (bt_extend m kvs)"
  by (induction m kvs rule: bt_extend.induct) (auto simp: rows_ok_insert)

text \<open>A row checked again under a predicate that may look at the changed map.\<close>

lemma rows_ok_insert_mono:
  assumes "rows_ok P m" "Q k v" "\<And>j w. j \<noteq> k \<Longrightarrow> bt_get m j = Some w \<Longrightarrow> P j w \<Longrightarrow> Q j w"
  shows "rows_ok Q (bt_insert k v m)"
  using assms by (auto simp: rows_ok_iff bt.all_rows_def bt_get_insert bt_wf_insert split: if_splits)

lemma rows_ok_remove_mono:
  assumes "rows_ok P m" "\<And>j w. j \<noteq> k \<Longrightarrow> bt_get m j = Some w \<Longrightarrow> P j w \<Longrightarrow> Q j w"
  shows "rows_ok Q (bt_remove k m)"
  using assms by (auto simp: rows_ok_iff bt.all_rows_def bt_get_remove bt_wf_remove split: if_splits)

lemma rows_ok_retain_mono:
  assumes "rows_ok P m" "\<And>j w. R j w \<Longrightarrow> bt_get m j = Some w \<Longrightarrow> P j w \<Longrightarrow> Q j w"
  shows "rows_ok Q (bt_retain R m)"
  using assms
  by (auto simp: rows_ok_iff bt.all_rows_def bt_get_retain bt_wf_retain split: if_splits option.splits)

lemma bt_contains_insert: "bt_contains (bt_insert k v m) j \<longleftrightarrow> j = k \<or> bt_contains m j"
  by (auto simp: bt_contains_def bt_get_insert)

lemma bt_contains_remove: "bt_contains (bt_remove k m) j \<longleftrightarrow> j \<noteq> k \<and> bt_contains m j"
  by (auto simp: bt_contains_def bt_get_remove)

lemma bt_insert_insert: "bt_insert k v (bt_insert k w m) = bt_insert k v m"
  by (induction k v m rule: bt_insert.induct) auto

lemma bt_insert_same: "bt_wf m \<Longrightarrow> bt_get m k = Some v \<Longrightarrow> bt_insert k v m = m"
  by (rule bt_wf_ext) (auto simp: bt_wf_insert bt_get_insert)

end
