(* ===== verification/LakeJson.thy ===== *)
theory LakeJson
  imports OrderedMap
begin

section \<open>JSON values\<close>

text \<open>
  \<open>serde_json::Value\<close> as the code uses it. Objects are ordered maps (the crate is built without
  \<open>preserve_order\<close>, so \<open>Map\<close> is a \<open>BTreeMap\<close>); an integer is its value, a float its 64 bits.
  The accessors are those of \<open>Value\<close>; the compact encoding is not here: it is a parameter of the
  model (\<open>json_encode\<close> of \<open>LakeCore\<close>).
\<close>

datatype json =
    JNull
  | JBool bool
  | JInt int
  | JFloat "64 word"
  | JStr string
  | JArr "json list"
  | JObj "(string \<times> json) list"

fun jget :: "json \<Rightarrow> string \<Rightarrow> json option" where
  "jget (JObj m) k = bt_get m k"
| "jget _ k = None"

text \<open>\<open>value["key"]\<close>: \<open>Null\<close> when absent.\<close>

definition jindex :: "json \<Rightarrow> string \<Rightarrow> json" where
  "jindex v k = (case jget v k of None \<Rightarrow> JNull | Some x \<Rightarrow> x)"

text \<open>\<open>value["key"] = x\<close>: an insertion in an object, a fresh object over \<open>Null\<close>, a panic otherwise.\<close>

fun jset :: "json \<Rightarrow> string \<Rightarrow> json \<Rightarrow> json option" where
  "jset (JObj m) k x = Some (JObj (bt_insert k x m))"
| "jset JNull k x = Some (JObj [(k, x)])"
| "jset _ k x = None"

fun is_object :: "json \<Rightarrow> bool" where
  "is_object (JObj _) = True" | "is_object _ = False"

fun is_array :: "json \<Rightarrow> bool" where
  "is_array (JArr _) = True" | "is_array _ = False"

fun as_str :: "json \<Rightarrow> string option" where
  "as_str (JStr s) = Some s" | "as_str _ = None"

fun as_array :: "json \<Rightarrow> json list option" where
  "as_array (JArr xs) = Some xs" | "as_array _ = None"

text \<open>\<open>as_i64\<close>, \<open>None\<close> for floats and for integers outside the 64-bit signed range.\<close>

fun as_i64 :: "json \<Rightarrow> int option" where
  "as_i64 (JInt n) = (if - (2 ^ 63) \<le> n \<and> n < 2 ^ 63 then Some n else None)"
| "as_i64 _ = None"

text \<open>The object a \<open>json!\<close> literal builds, and an \<open>Option\<close> in it.\<close>

definition jobj :: "(string \<times> json) list \<Rightarrow> json" where
  "jobj kvs = JObj (bt_from kvs)"

definition jopt :: "('a \<Rightarrow> json) \<Rightarrow> 'a option \<Rightarrow> json" where
  "jopt f x = (case x of None \<Rightarrow> JNull | Some a \<Rightarrow> f a)"

abbreviation jstrs :: "string list \<Rightarrow> json" where
  "jstrs xs \<equiv> JArr (map JStr xs)"

abbreviation ju64 :: "64 word \<Rightarrow> json" where
  "ju64 n \<equiv> JInt (uint n)"

text \<open>A field kept by \<open>skip_serializing_if = "Option::is_none"\<close>: absent when \<open>None\<close>.\<close>

definition jskip :: "string \<Rightarrow> ('a \<Rightarrow> json) \<Rightarrow> 'a option \<Rightarrow> (string \<times> json) list" where
  "jskip k f x = (case x of None \<Rightarrow> [] | Some a \<Rightarrow> [(k, f a)])"

text \<open>A string map, as Serde writes it.\<close>

definition jmap :: "(string, string) btree \<Rightarrow> json" where
  "jmap m = jobj (map (\<lambda>(k, v). (k, JStr v)) m)"

lemma jget_jobj [simp]: "jget (jobj kvs) k = map_of (rev kvs) k"
  by (simp add: jobj_def bt_get_extend)

lemma jindex_jobj [simp]:
  "jindex (jobj kvs) k = (case map_of (rev kvs) k of None \<Rightarrow> JNull | Some x \<Rightarrow> x)"
  by (simp add: jindex_def)

lemma is_object_jobj [simp]: "is_object (jobj kvs)"
  by (simp add: jobj_def)

lemma jskip_simps [simp]: "jskip k f None = []" "jskip k f (Some a) = [(k, f a)]"
  by (simp_all add: jskip_def)

lemma jopt_simps [simp]: "jopt f None = JNull" "jopt f (Some a) = f a"
  by (simp_all add: jopt_def)

lemma is_object_iff: "is_object v \<longleftrightarrow> (\<exists>m. v = JObj m)"
  by (cases v) auto

lemma as_str_Some [simp]: "as_str v = Some s \<longleftrightarrow> v = JStr s"
  by (cases v) auto

lemma as_array_Some: "as_array v = Some xs \<longleftrightarrow> v = JArr xs"
  by (cases v) auto

lemma jset_object: "is_object v \<Longrightarrow> \<exists>w. jset v k x = Some w \<and> is_object w"
  by (cases v) auto

lemma jget_jset: "jset v k x = Some w \<Longrightarrow> jget w j = (if j = k then Some x else jget v j)"
  by (cases v) (auto simp: bt_get_insert)

text \<open>
  Canonicalisation before a domain-separated digest (\<open>governed_scan/digest.rs\<close>): every object's
  entries in key order, at every depth. On a value whose objects already are ordered maps it
  changes nothing.
\<close>

fun canonicalize_json :: "json \<Rightarrow> json" where
  "canonicalize_json (JArr xs) = JArr (map canonicalize_json xs)"
| "canonicalize_json (JObj m) = JObj (sort_key fst (map (\<lambda>(k, v). (k, canonicalize_json v)) m))"
| "canonicalize_json v = v"

fun json_wf :: "json \<Rightarrow> bool" where
  "json_wf (JArr xs) = (\<forall>x \<in> set xs. json_wf x)"
| "json_wf (JObj m) = (bt_wf m \<and> (\<forall>p \<in> set m. json_wf (snd p)))"
| "json_wf _ = True"

lemma canonicalize_json_wf: "json_wf v \<Longrightarrow> canonicalize_json v = v"
proof (induction v rule: canonicalize_json.induct)
  case (2 m)
  have "map (\<lambda>(k, v). (k, canonicalize_json v)) m = m"
    using 2 by (auto intro!: map_idI simp: case_prod_beta)
  moreover have "sort_key fst m = m"
    using 2(2) by (simp add: sorted_sort_id bt_keys_sorted sort_key_id_if_sorted)
  ultimately show ?case by simp
qed (auto intro!: map_idI)

lemma json_wf_jobj: "(\<And>k v. (k, v) \<in> set kvs \<Longrightarrow> json_wf v) \<Longrightarrow> json_wf (jobj kvs)"
proof -
  have "set (bt_extend m kvs) \<subseteq> set m \<union> set kvs" for m :: "(string, json) btree"
    using set_bt_insert_subset by (induction m kvs rule: bt_extend.induct) fastforce+
  from this [of "[]"] show "(\<And>k v. (k, v) \<in> set kvs \<Longrightarrow> json_wf v) \<Longrightarrow> json_wf (jobj kvs)"
    by (auto simp: jobj_def bt_wf_extend)
qed

text \<open>
  The fields of a derived \<open>Deserialize\<close> struct, in declaration order: from an object with every
  field present (and no other key under \<open>deny_unknown_fields\<close>), or from an array of exactly that
  many elements. Integer fields accept a JSON integer in their range only.
\<close>

definition struct_fields :: "bool \<Rightarrow> string list \<Rightarrow> json \<Rightarrow> json list option" where
  "struct_fields deny_unknown names v =
     (case v of
        JObj m \<Rightarrow>
          if (deny_unknown \<and> list_ex (\<lambda>p. fst p \<notin> set names) m) \<or>
             list_ex (\<lambda>n. bt_get m n = None) names
          then None else Some (map (\<lambda>n. the (bt_get m n)) names)
      | JArr xs \<Rightarrow> if length xs = length names then Some xs else None
      | _ \<Rightarrow> None)"

definition u64_from_json :: "json \<Rightarrow> 64 word option" where
  "u64_from_json v =
     (case v of JInt n \<Rightarrow> (if 0 \<le> n \<and> n < 2 ^ 64 then Some (word_of_int n) else None) | _ \<Rightarrow> None)"

definition i64_from_json :: "json \<Rightarrow> int option" where
  "i64_from_json v = as_i64 v"

definition strings_from_json :: "json \<Rightarrow> string list option" where
  "strings_from_json v =
     (case v of JArr xs \<Rightarrow>
        (if list_all (\<lambda>x. as_str x \<noteq> None) xs then Some (map (the \<circ> as_str) xs) else None)
      | _ \<Rightarrow> None)"

lemma u64_from_json_ju64 [simp]: "u64_from_json (ju64 n) = Some n"
  using uint_bounded [of n] by (simp add: u64_from_json_def)

lemma strings_from_json_jstrs [simp]: "strings_from_json (jstrs xs) = Some xs"
  by (simp add: strings_from_json_def list_all_iff comp_def)

lemma map_of_rev_distinct: "distinct (map fst kvs) \<Longrightarrow> map_of (rev kvs) = map_of kvs"
  by (subst map_of_inject_set) (simp_all add: rev_map [symmetric])

lemma struct_fields_jobj:
  assumes "distinct (map fst kvs)"
  shows "struct_fields d (map fst kvs) (jobj kvs) = Some (map snd kvs)"
proof -
  have get: "bt_get (bt_from kvs) k = map_of kvs k" for k
    using assms by (simp add: bt_get_extend map_of_rev_distinct)
  have "k \<in> fst ` set kvs" if "(k, v) \<in> set (bt_from kvs)" for k v
  proof -
    from that have "bt_get (bt_from kvs) k = Some v"
      by (simp add: bt_wf_get_iff [symmetric] bt_wf_extend)
    with get show ?thesis by (metis map_of_SomeD image_eqI fst_conv)
  qed
  moreover have "map_of kvs (fst p) = Some (snd p)" if "p \<in> set kvs" for p
    using that assms by simp
  ultimately show ?thesis
    by (auto simp: struct_fields_def jobj_def list_ex_iff get)
qed

end
