(* ===== verification/LakeCore.thy ===== *)
theory LakeCore
  imports LakeJson
begin

section \<open>Identities, principals, errors and content hashes\<close>

text \<open>
  \<open>crates/lakecat-core/src/lib.rs\<close>: the error type, validated names, namespaces and their two
  renderings (\<open>path\<close> for people, \<open>storage_key\<close> for keys), table identities, principals, audit
  stamps, and the hash functions. Code outside the repository is the record \<open>env\<close>: Serde's
  compact JSON encoding, the hexadecimal SHA-256 digest, the URL parser, and the two renderings
  of a time stamp by \<open>chrono\<close>. A time stamp is an integer; the clock is an argument of the
  operations that read it. The last constructor of \<open>error\<close> is a Rust panic, not a
  \<open>LakeCatError\<close>.
\<close>

datatype error =
    InvalidArgument string
  | UnprocessableEntity string
  | NotFound string string
  | AlreadyExists string string
  | Conflict string
  | Forbidden string
  | NotSupported string
  | Unavailable string
  | Internal string
  | Panicked string

type_synonym 'a result = "error + 'a"

record url =
  url_scheme :: string
  url_username :: string
  url_password :: "string option"
  url_host_str :: "string option"
  url_port_or_known_default :: "nat option"
  url_path :: string
  url_path_segments :: "string list option"
  url_query :: "string option"
  url_fragment :: "string option"

record env =
  json_encode :: "json \<Rightarrow> string + string"
  sha256_hex :: "string \<Rightarrow> string"
  url_parse :: "string \<Rightarrow> url option"
  dt_rfc3339 :: "int \<Rightarrow> string"
  dt_json :: "int \<Rightarrow> string"

text \<open>
  What the code relies on: encoding a \<open>Value\<close> does not fail, and a SHA-256 digest is 64
  lowercase hexadecimal digits.
\<close>

definition is_lower_hexdigit :: "char \<Rightarrow> bool" where
  "is_lower_hexdigit c \<longleftrightarrow> is_ascii_digit c \<or> (97 \<le> byte c \<and> byte c \<le> 102)"

definition env_ok :: "env \<Rightarrow> bool" where
  "env_ok E \<longleftrightarrow>
     (\<forall>v. \<exists>bs. json_encode E v = Inr bs) \<and>
     (\<forall>bs. length (sha256_hex E bs) = 64 \<and> list_all is_lower_hexdigit (sha256_hex E bs))"

subsection \<open>Content hashes\<close>

definition content_hash_bytes :: "env \<Rightarrow> string \<Rightarrow> string" where
  "content_hash_bytes E bs = ''sha256:'' @ sha256_hex E bs"

definition finalize_json_hash :: "env \<Rightarrow> string \<Rightarrow> string" where
  "finalize_json_hash E written = ''sha256:'' @ sha256_hex E written"

definition content_hash_json :: "env \<Rightarrow> json \<Rightarrow> string result" where
  "content_hash_json E v =
     (case json_encode E v of
        Inl err \<Rightarrow> Err (Internal (''failed to encode JSON: '' @ err))
      | Inr bs \<Rightarrow> Ok (finalize_json_hash E bs))"

definition content_hash_domain_json :: "env \<Rightarrow> string \<Rightarrow> json \<Rightarrow> string result" where
  "content_hash_domain_json E domain v =
     (case json_encode E v of
        Inl err \<Rightarrow> Err (Internal (''failed to encode JSON: '' @ err))
      | Inr bs \<Rightarrow> Ok (finalize_json_hash E (domain @ [CHR 0x00] @ bs)))"

text \<open>The full SHA-256 evidence shape the stores demand: the prefix and 64 hexadecimal digits.\<close>

definition sha256_shape :: "string \<Rightarrow> bool" where
  "sha256_shape s \<longleftrightarrow>
     (case strip_prefix s ''sha256:'' of
        None \<Rightarrow> False
      | Some d \<Rightarrow> length d = 64 \<and> list_all is_ascii_hexdigit d)"

lemma content_hash_json_total: "env_ok E \<Longrightarrow> \<exists>h. content_hash_json E v = Ok h"
  by (auto simp: env_ok_def content_hash_json_def split: sum.splits) (metis Inl_Inr_False)

lemma lower_hexdigit_hexdigit: "is_lower_hexdigit c \<Longrightarrow> is_ascii_hexdigit c"
  by (auto simp: is_lower_hexdigit_def is_ascii_hexdigit_def)

lemma sha256_shape_evidence:
  "env_ok E \<Longrightarrow> sha256_shape (finalize_json_hash E bs)"
  "env_ok E \<Longrightarrow> sha256_shape (content_hash_bytes E bs)"
proof -
  assume E: "env_ok E"
  then have "length (sha256_hex E bs) = 64" "list_all is_ascii_hexdigit (sha256_hex E bs)"
    by (auto simp: env_ok_def list_all_iff lower_hexdigit_hexdigit)
  then show "sha256_shape (finalize_json_hash E bs)" "sha256_shape (content_hash_bytes E bs)"
    unfolding sha256_shape_def finalize_json_hash_def content_hash_bytes_def strip_prefix_append
    by simp_all
qed

lemma finalize_json_hash_eq:
  "finalize_json_hash E x = finalize_json_hash E y \<longleftrightarrow> sha256_hex E x = sha256_hex E y"
  unfolding finalize_json_hash_def same_append_eq ..

lemma content_hash_json_Ok:
  "env_ok E \<Longrightarrow> content_hash_json E v = Ok h \<Longrightarrow> sha256_shape h"
  by (auto simp: content_hash_json_def sha256_shape_evidence split: sum.splits)

subsection \<open>Names\<close>

type_synonym WarehouseName = string
type_synonym Namespace = "string list"
type_synonym TableName = string

definition name_char :: "char \<Rightarrow> bool" where
  "name_char c \<longleftrightarrow> is_ascii_alphanumeric c \<or> c = CHR ''_'' \<or> c = CHR ''-'' \<or> c = CHR ''.''"

definition validate_name :: "string \<Rightarrow> string \<Rightarrow> unit result" where
  "validate_name kind value =
     (if value = [] then Err (InvalidArgument (kind @ '' name must not be empty''))
      else if \<not> list_all name_char value then
        Err (InvalidArgument (kind @ '' name contains unsupported characters: '' @ value))
      else Ok ())"

definition warehouse_name_new :: "string \<Rightarrow> WarehouseName result" where
  "warehouse_name_new value = and_then (validate_name ''warehouse'' value) (\<lambda>_. Ok value)"

definition table_name_new :: "string \<Rightarrow> TableName result" where
  "table_name_new value = and_then (validate_name ''table'' value) (\<lambda>_. Ok value)"

definition namespace_new :: "string list \<Rightarrow> Namespace result" where
  "namespace_new parts =
     (if parts = [] then
        Err (InvalidArgument ''namespace must contain at least one component'')
      else and_then (check_all (validate_name ''namespace component'') parts) (\<lambda>_. Ok parts))"

definition namespace_root_default :: Namespace where
  "namespace_root_default = [''default'']"

definition namespace_path :: "Namespace \<Rightarrow> string" where
  "namespace_path ns = join_with ''.'' ns"

definition storage_key :: "Namespace \<Rightarrow> string" where
  "storage_key ns =
     ''v1'' @ concat (map (\<lambda>part. '':'' @ nat_str (length part) @ '':'' @ part) ns)"

definition namespace_from_str :: "string \<Rightarrow> Namespace result" where
  "namespace_from_str value =
     namespace_new (filter (\<lambda>part. part \<noteq> []) (map trim (split_on (CHR ''.'') value)))"

definition namespace_display :: "Namespace \<Rightarrow> string" where
  "namespace_display ns =
     (case ns of [] \<Rightarrow> [] | first # rest \<Rightarrow> first @ concat (map (\<lambda>part. ''.'' @ part) rest))"

record TableIdent =
  ti_warehouse :: WarehouseName
  ti_namespace :: Namespace
  ti_name :: TableName

definition table_stable_id :: "TableIdent \<Rightarrow> string" where
  "table_stable_id i =
     ''lakecat:table:'' @ ti_warehouse i @ '':'' @ namespace_display (ti_namespace i) @ '':'' @ ti_name i"

text \<open>The identities the constructors build.\<close>

definition valid_name :: "string \<Rightarrow> bool" where
  "valid_name s \<longleftrightarrow> s \<noteq> [] \<and> list_all name_char s"

definition valid_namespace :: "Namespace \<Rightarrow> bool" where
  "valid_namespace ns \<longleftrightarrow> ns \<noteq> [] \<and> list_all valid_name ns"

definition valid_ident :: "TableIdent \<Rightarrow> bool" where
  "valid_ident i \<longleftrightarrow>
     valid_name (ti_warehouse i) \<and> valid_namespace (ti_namespace i) \<and> valid_name (ti_name i)"

subsection \<open>Principals and audit stamps\<close>

datatype PrincipalKind = Anonymous | Human | Service | Agent

record Principal =
  pr_subject :: string
  pr_kind :: PrincipalKind

definition principal_anonymous :: Principal where
  "principal_anonymous = \<lparr>pr_subject = ''anonymous'', pr_kind = Anonymous\<rparr>"

definition principal_new :: "string \<Rightarrow> PrincipalKind \<Rightarrow> Principal result" where
  "principal_new subject kind =
     (if blank subject then Err (InvalidArgument ''principal subject must not be empty'')
      else Ok \<lparr>pr_subject = subject, pr_kind = kind\<rparr>)"

definition principal_kind_from_str :: "string \<Rightarrow> PrincipalKind result" where
  "principal_kind_from_str value =
     (let v = to_ascii_lowercase (trim value) in
      if v = ''anonymous'' then Ok Anonymous
      else if v \<in> set [''human'', ''user''] then Ok Human
      else if v \<in> set [''service'', ''service-account''] then Ok Service
      else if v \<in> set [''agent'', ''typedid-agent'', ''typedid'', ''did''] then Ok Agent
      else Err (InvalidArgument (''unknown principal kind: '' @ v)))"

record AuditStamp =
  as_principal :: Principal
  as_at :: int

definition audit_stamp_now :: "int \<Rightarrow> Principal \<Rightarrow> AuditStamp" where
  "audit_stamp_now now p = \<lparr>as_principal = p, as_at = now\<rparr>"

subsection \<open>Their JSON forms\<close>

fun principal_kind_name :: "PrincipalKind \<Rightarrow> string" where
  "principal_kind_name Anonymous = ''anonymous''"
| "principal_kind_name Human = ''human''"
| "principal_kind_name Service = ''service''"
| "principal_kind_name Agent = ''agent''"

definition principal_json :: "Principal \<Rightarrow> json" where
  "principal_json p =
     jobj [(''subject'', JStr (pr_subject p)), (''kind'', JStr (principal_kind_name (pr_kind p)))]"

definition ident_json :: "TableIdent \<Rightarrow> json" where
  "ident_json i =
     jobj [(''warehouse'', JStr (ti_warehouse i)), (''namespace'', jstrs (ti_namespace i)),
           (''name'', JStr (ti_name i))]"

definition audit_stamp_json :: "env \<Rightarrow> AuditStamp \<Rightarrow> json" where
  "audit_stamp_json E a =
     jobj [(''principal'', principal_json (as_principal a)), (''at'', JStr (dt_json E (as_at a)))]"

text \<open>
  Derived deserialisation from a \<open>Value\<close>: a unit variant is its name, or an object with that one
  key over \<open>Null\<close>; a struct is an object (unknown keys ignored) or the array of its fields.
  Deserialising a name does not validate it.
\<close>

definition principal_kind_of_name :: "string \<Rightarrow> PrincipalKind option" where
  "principal_kind_of_name s =
     (if s = ''anonymous'' then Some Anonymous
      else if s = ''human'' then Some Human
      else if s = ''service'' then Some Service
      else if s = ''agent'' then Some Agent
      else None)"

fun principal_kind_from_json :: "json \<Rightarrow> PrincipalKind option" where
  "principal_kind_from_json (JStr s) = principal_kind_of_name s"
| "principal_kind_from_json (JObj [(k, JNull)]) = principal_kind_of_name k"
| "principal_kind_from_json _ = None"

definition principal_of_fields :: "json \<Rightarrow> json \<Rightarrow> Principal option" where
  "principal_of_fields s k =
     (case (as_str s, principal_kind_from_json k) of
        (Some subject, Some kind) \<Rightarrow> Some \<lparr>pr_subject = subject, pr_kind = kind\<rparr>
      | _ \<Rightarrow> None)"

definition principal_from_json :: "json \<Rightarrow> Principal option" where
  "principal_from_json v =
     (case struct_fields False [''subject'', ''kind''] v of
        Some [s, k] \<Rightarrow> principal_of_fields s k
      | _ \<Rightarrow> None)"

definition ident_from_json :: "json \<Rightarrow> TableIdent option" where
  "ident_from_json v =
     (case struct_fields False [''warehouse'', ''namespace'', ''name''] v of
        Some [w, ns, n] \<Rightarrow>
          (case (as_str w, strings_from_json ns, as_str n) of
             (Some w', Some ns', Some n') \<Rightarrow>
               Some \<lparr>ti_warehouse = w', ti_namespace = ns', ti_name = n'\<rparr>
           | _ \<Rightarrow> None)
      | _ \<Rightarrow> None)"

subsection \<open>Decimal lengths and the storage key\<close>

lemma byte_digit_char: "d < 10 \<Longrightarrow> byte (digit_char d) = 48 + d"
  by (simp add: digit_char_def of_char_of)

lemma nat_str_digits: "c \<in> set (nat_str n) \<Longrightarrow> is_ascii_digit c"
proof (induction n rule: nat_str.induct)
  case (1 n)
  then show ?case
    by (subst (asm) (2) nat_str.simps)
      (auto simp: is_ascii_digit_def byte_digit_char split: if_splits)
qed

lemma nat_str_no_colon: "CHR '':'' \<notin> set (nat_str n)"
  using nat_str_digits by (fastforce simp: is_ascii_digit_def)

definition decimal_value :: "string \<Rightarrow> nat" where
  "decimal_value s = foldl (\<lambda>a c. 10 * a + (byte c - 48)) 0 s"

lemma decimal_value_nat_str: "decimal_value (nat_str n) = n"
proof (induction n rule: nat_str.induct)
  case (1 n)
  then show ?case
    by (subst nat_str.simps) (auto simp: decimal_value_def byte_digit_char)
qed

lemma nat_str_inj: "nat_str m = nat_str n \<longleftrightarrow> m = n"
  by (metis decimal_value_nat_str)

lemma append_sep_eq:
  assumes "c \<notin> set a" "c \<notin> set b" "a @ c # x = b @ c # y"
  shows "a = b \<and> x = y"
proof -
  have "takeWhile (\<lambda>d. d \<noteq> c) (a @ c # x) = a" "takeWhile (\<lambda>d. d \<noteq> c) (b @ c # y) = b"
    using assms(1,2) by (subst takeWhile_append2; auto)+
  with assms(3) show ?thesis by force
qed

lemma length_prefixed_inj:
  "concat (map (\<lambda>part. '':'' @ nat_str (length part) @ '':'' @ part) xs) =
   concat (map (\<lambda>part. '':'' @ nat_str (length part) @ '':'' @ part) ys) \<Longrightarrow> xs = ys"
proof (induction xs arbitrary: ys)
  case Nil
  then show ?case by (cases ys) auto
next
  case (Cons x xs)
  then obtain y ys' where ys: "ys = y # ys'" by (cases ys) auto
  let ?rest = "\<lambda>zs. concat (map (\<lambda>part. '':'' @ nat_str (length part) @ '':'' @ part) zs)"
  have "nat_str (length x) @ CHR '':'' # (x @ ?rest xs) = nat_str (length y) @ CHR '':'' # (y @ ?rest ys')"
    using Cons.prems ys by simp
  from append_sep_eq [OF nat_str_no_colon nat_str_no_colon this]
  have "length x = length y" "x @ ?rest xs = y @ ?rest ys'" by (simp_all add: nat_str_inj)
  then have "x = y" "?rest xs = ?rest ys'" by simp_all
  with Cons.IH ys show ?case by simp
qed

lemma storage_key_inj: "storage_key a = storage_key b \<longleftrightarrow> a = b"
  using length_prefixed_inj by (auto simp: storage_key_def)

subsection \<open>Names contain no separators and no white space\<close>

lemma name_char_byte: "name_char c \<Longrightarrow> 33 \<le> byte c \<and> byte c < 127 \<and> byte c \<noteq> 58"
  by (auto simp: name_char_def is_ascii_alphanumeric_def is_ascii_digit_def)

lemma valid_name_byte: "valid_name s \<Longrightarrow> c \<in> set s \<Longrightarrow> 33 \<le> byte c \<and> byte c < 127 \<and> byte c \<noteq> 58"
  by (auto simp: valid_name_def list_all_iff dest: name_char_byte)

lemma validate_name_ok: "validate_name kind s = Ok () \<longleftrightarrow> valid_name s"
  by (auto simp: validate_name_def valid_name_def)

lemma namespace_new_ok: "namespace_new parts = Ok ns \<longleftrightarrow> ns = parts \<and> valid_namespace parts"
  by (auto simp: namespace_new_def valid_namespace_def validate_name_ok result_simps list_all_iff)

lemma valid_name_no_colon: "valid_name s \<Longrightarrow> CHR '':'' \<notin> set s"
  using valid_name_byte by fastforce

lemma valid_name_no_unit_sep: "valid_name s \<Longrightarrow> CHR 0x1F \<notin> set s"
  using valid_name_byte by fastforce

lemma ws_bytes_graphic: "33 \<le> a \<Longrightarrow> a < 127 \<Longrightarrow> ws_bytes (a # bs) = 0"
  by (cases "a # bs" rule: ws_bytes.cases) auto

lemma ws_bytes_rev_graphic: "33 \<le> a \<Longrightarrow> a < 127 \<Longrightarrow> ws_bytes_rev (a # bs) = 0"
proof -
  assume a: "33 \<le> a" "a < 127"
  then have "ws_bytes [b, a] \<noteq> 2" "ws_bytes [c, b, a] \<noteq> 3" for b c by auto
  with a show ?thesis by (cases "a # bs" rule: ws_bytes_rev.cases) auto
qed

lemma trim_graphic:
  assumes "s \<noteq> []" "\<And>c. c \<in> set s \<Longrightarrow> 33 \<le> byte c \<and> byte c < 127"
  shows "trim s = s"
proof -
  have "ws_bytes (map byte s) = 0"
    using assms by (cases s) (auto simp: ws_bytes_graphic)
  then have start: "trim_start s = s" by (subst trim_start.simps) simp
  have "rev s \<noteq> []" "\<And>c. c \<in> set (rev s) \<Longrightarrow> 33 \<le> byte c \<and> byte c < 127"
    using assms by auto
  then have "ws_bytes_rev (map byte (rev s)) = 0"
    by (cases "rev s") (auto simp: ws_bytes_rev_graphic)
  then have "trim_rev (rev s) = rev s" by (subst trim_rev.simps) simp
  with start show ?thesis by (simp add: trim_def)
qed

lemma valid_name_trim: "valid_name s \<Longrightarrow> trim s = s"
  by (rule trim_graphic) (simp add: valid_name_def, blast dest: valid_name_byte)

lemma append_singleton: "(@) [c] = (#) c"
  by auto

lemma namespace_display_path: "namespace_display ns = namespace_path ns"
proof (cases ns)
  case (Cons x xs)
  have "join_with ''.'' (x # xs) = x @ concat (map (\<lambda>part. ''.'' @ part) xs)"
    by (induction xs arbitrary: x) auto
  with Cons show ?thesis
    by (simp add: namespace_display_def namespace_path_def append_singleton)
qed (simp add: namespace_display_def namespace_path_def)

lemma split_on_join:
  "xs \<noteq> [] \<Longrightarrow> (\<And>x. x \<in> set xs \<Longrightarrow> c \<notin> set x) \<Longrightarrow> split_on c (join_with [c] xs) = xs"
proof (induction "[c]" xs rule: join_with.induct)
  case (3 x y xs)
  then show ?case using split_on_append [of c x "join_with [c] (y # xs)"] by simp
qed (auto simp: split_on_no_sep)

lemma split_on_segments: "x \<in> set (split_on c s) \<Longrightarrow> c \<notin> set x"
  by (induction s arbitrary: x) (auto split: if_splits list.splits)

lemma set_trim: "set (trim s) \<subseteq> set s"
proof -
  have start: "set (trim_start t) \<subseteq> set t" for t
  proof (induction t rule: trim_start.induct)
    case (1 t)
    then show ?case
      by (subst trim_start.simps) (auto simp: Let_def dest!: in_set_dropD)
  qed
  have "set (trim_rev t) \<subseteq> set t" for t
  proof (induction t rule: trim_rev.induct)
    case (1 t)
    then show ?case
      by (subst trim_rev.simps) (auto simp: Let_def dest!: in_set_dropD)
  qed
  with start show ?thesis unfolding trim_def by fastforce
qed

subsection \<open>JSON round trips\<close>

lemma principal_from_json_roundtrip: "principal_from_json (principal_json p) = Some p"
proof -
  have fields: "struct_fields False [''subject'', ''kind''] (principal_json p) =
      Some [JStr (pr_subject p), JStr (principal_kind_name (pr_kind p))]"
    using struct_fields_jobj [of "[(''subject'', JStr (pr_subject p)), (''kind'', JStr (principal_kind_name (pr_kind p)))]"]
    by (simp add: principal_json_def)
  show ?thesis
    unfolding principal_from_json_def fields
    by (cases "pr_kind p") (simp_all add: principal_of_fields_def principal_kind_of_name_def)
qed

lemma ident_from_json_roundtrip: "ident_from_json (ident_json i) = Some i"
proof -
  have fields: "struct_fields False [''warehouse'', ''namespace'', ''name''] (ident_json i) =
      Some [JStr (ti_warehouse i), jstrs (ti_namespace i), JStr (ti_name i)]"
    using struct_fields_jobj [of "[(''warehouse'', JStr (ti_warehouse i)), (''namespace'', jstrs (ti_namespace i)), (''name'', JStr (ti_name i))]"]
    by (simp add: ident_json_def)
  show ?thesis unfolding ident_from_json_def fields by simp
qed

lemma ident_json_inj: "ident_json i = ident_json j \<longleftrightarrow> i = j"
  by (metis ident_from_json_roundtrip option.inject)

lemma principal_json_inj: "principal_json p = principal_json q \<longleftrightarrow> p = q"
  by (metis principal_from_json_roundtrip option.inject)

lemma is_object_ident_json [simp]: "is_object (ident_json i)"
  by (simp add: ident_json_def)

subsection \<open>Properties\<close>

text \<open>
  A concrete environment for the closed instances: an encoder that writes nothing, a constant
  digest, a URL parser that knows one HTTPS address, constant time stamps.
\<close>

definition demo_env :: env where
  "demo_env =
     \<lparr>json_encode = (\<lambda>_. Inr []),
      sha256_hex = (\<lambda>_. replicate 64 (CHR ''0'')),
      url_parse = (\<lambda>s. if s = ''https://h'' then Some \<lparr>url_scheme = ''https'', url_username = [],
                     url_password = None, url_host_str = Some ''h'', url_port_or_known_default = Some 443,
                     url_path = ''/'', url_path_segments = Some [[]], url_query = None,
                     url_fragment = None\<rparr> else None),
      dt_rfc3339 = (\<lambda>_. ''t''),
      dt_json = (\<lambda>_. ''t'')\<rparr>"

definition demo_digest :: string where
  "demo_digest = ''sha256:'' @ replicate 64 (CHR ''0'')"

lemma demo_hash:
  "finalize_json_hash demo_env bs = demo_digest" "content_hash_bytes demo_env bs = demo_digest"
  "content_hash_json demo_env v = Ok demo_digest"
  by (simp_all add: finalize_json_hash_def content_hash_bytes_def content_hash_json_def demo_env_def
      demo_digest_def)

lemma demo_env_ok: "env_ok demo_env"
  by (simp add: env_ok_def demo_env_def list_all_iff is_lower_hexdigit_def is_ascii_digit_def)

text \<open>
  Parsing the displayed form of a namespace returns the namespace exactly when no component
  contains a dot; a component with a dot is split, which is why \<open>path\<close> is no key.
\<close>

theorem namespace_from_str_roundtrip:
  assumes "valid_namespace ns"
  shows "namespace_from_str (namespace_path ns) = Ok ns \<longleftrightarrow> (\<forall>part \<in> set ns. CHR ''.'' \<notin> set part)"
proof
  assume "namespace_from_str (namespace_path ns) = Ok ns"
  then have "ns = filter (\<lambda>part. part \<noteq> []) (map trim (split_on (CHR ''.'') (namespace_path ns)))"
    unfolding namespace_from_str_def namespace_new_ok by blast
  then have "part \<in> trim ` set (split_on (CHR ''.'') (namespace_path ns))" if "part \<in> set ns" for part
    using that by (metis filter_is_subset list.set_map subsetD)
  then show "\<forall>part \<in> set ns. CHR ''.'' \<notin> set part"
    using set_trim split_on_segments by blast
next
  assume "\<forall>part \<in> set ns. CHR ''.'' \<notin> set part"
  then have "split_on (CHR ''.'') (namespace_path ns) = ns"
    using assms by (auto simp: namespace_path_def valid_namespace_def intro!: split_on_join)
  moreover have "map trim ns = ns" "filter (\<lambda>part. part \<noteq> []) ns = ns"
    using assms by (auto simp: valid_namespace_def valid_name_def list_all_iff valid_name_trim
        intro!: map_idI)
  ultimately show "namespace_from_str (namespace_path ns) = Ok ns"
    using assms by (simp add: namespace_from_str_def namespace_new_ok)
qed

theorem namespace_from_str_roundtrip_witness:
  "namespace_from_str (namespace_path [''sales'', ''eu'']) = Ok [''sales'', ''eu''] \<and>
   namespace_from_str (namespace_path [''a.b'']) \<noteq> Ok [''a.b'']"
proof -
  have "valid_namespace [''sales'', ''eu'']" "valid_namespace [''a.b'']"
    by (simp_all add: valid_namespace_def valid_name_def name_char_def is_ascii_alphanumeric_def)
  from this [THEN namespace_from_str_roundtrip] show ?thesis by simp
qed

end
