(* ===== verification/StoreValidation.thy ===== *)
theory StoreValidation
  imports LakeCore
begin

section \<open>Validation of locations, configuration and evidence shapes\<close>

text \<open>
  The checks of \<open>crates/lakecat-store/src/helpers.rs\<close> (URLs, dot segments hidden behind percent
  encoding, secret material in configuration, profile and project ids) and the evidence shapes of
  \<open>records.rs\<close> (idempotency keys, full SHA-256 digests), with the two enums they range over.
  A raw value never appears in an error: the messages carry its hash.
\<close>

subsection \<open>Enums\<close>

datatype StorageProvider = File | S3 | Gcs | Azure | Unknown

datatype CredentialIssuanceMode = GovernedReadRequired | LocalFileNoSecret | ShortLivedSecretRef

definition storage_provider_from_location :: "string \<Rightarrow> StorageProvider" where
  "storage_provider_from_location location =
     (if starts_with location ''file://'' then File
      else if starts_with location ''s3://'' \<or> starts_with location ''s3a://'' then S3
      else if starts_with location ''gs://'' then Gcs
      else if starts_with location ''az://'' \<or> starts_with location ''abfs://'' \<or>
              starts_with location ''abfss://'' then Azure
      else Unknown)"

fun storage_provider_as_str :: "StorageProvider \<Rightarrow> string" where
  "storage_provider_as_str File = ''file''"
| "storage_provider_as_str S3 = ''s3''"
| "storage_provider_as_str Gcs = ''gcs''"
| "storage_provider_as_str Azure = ''azure''"
| "storage_provider_as_str Unknown = ''unknown''"

definition storage_provider_from_str :: "string \<Rightarrow> StorageProvider result" where
  "storage_provider_from_str value =
     (let v = to_ascii_lowercase (trim value) in
      if v \<in> set [''file'', ''local-file''] then Ok File
      else if v \<in> set [''s3'', ''s3a''] then Ok S3
      else if v \<in> set [''gcs'', ''gs''] then Ok Gcs
      else if v \<in> set [''azure'', ''az'', ''abfs'', ''abfss''] then Ok Azure
      else if v = ''unknown'' then Ok Unknown
      else Err (InvalidArgument (''unknown storage provider: '' @ v)))"

fun issuance_mode_as_str :: "CredentialIssuanceMode \<Rightarrow> string" where
  "issuance_mode_as_str GovernedReadRequired = ''governed-read-required''"
| "issuance_mode_as_str LocalFileNoSecret = ''local-file-no-secret''"
| "issuance_mode_as_str ShortLivedSecretRef = ''short-lived-secret-ref''"

definition issuance_mode_from_str :: "string \<Rightarrow> CredentialIssuanceMode result" where
  "issuance_mode_from_str value =
     (let v = to_ascii_lowercase (trim value) in
      if v \<in> set [''governed-read-required'', ''governed''] then Ok GovernedReadRequired
      else if v \<in> set [''local-file-no-secret'', ''no-secret''] then Ok LocalFileNoSecret
      else if v \<in> set [''short-lived-secret-ref'', ''secret-ref'', ''short-lived''] then
        Ok ShortLivedSecretRef
      else Err (InvalidArgument (''unknown credential issuance mode: '' @ v)))"

subsection \<open>Hashed contexts of error messages\<close>

definition secret_ref_hash_context :: "env \<Rightarrow> string \<Rightarrow> string" where
  "secret_ref_hash_context E s = ''secret-ref-hash='' @ content_hash_bytes E s"

definition storage_profile_prefix_hash_context :: "env \<Rightarrow> string \<Rightarrow> string" where
  "storage_profile_prefix_hash_context E s = ''storage-profile-prefix-hash='' @ content_hash_bytes E s"

definition warehouse_storage_root_hash_context :: "env \<Rightarrow> string \<Rightarrow> string" where
  "warehouse_storage_root_hash_context E s = ''warehouse-storage-root-hash='' @ content_hash_bytes E s"

definition server_endpoint_url_hash_context :: "env \<Rightarrow> string \<Rightarrow> string" where
  "server_endpoint_url_hash_context E s = ''server-endpoint-url-hash='' @ content_hash_bytes E s"

definition project_id_hash_context :: "env \<Rightarrow> string \<Rightarrow> string" where
  "project_id_hash_context E s = ''project-id-hash='' @ content_hash_bytes E s"

definition storage_profile_id_hash_context :: "env \<Rightarrow> string \<Rightarrow> string" where
  "storage_profile_id_hash_context E s = ''storage-profile-id-hash='' @ content_hash_bytes E s"

definition policy_id_hash_context :: "env \<Rightarrow> string \<Rightarrow> string" where
  "policy_id_hash_context E s = ''policy-id-hash='' @ content_hash_bytes E s"

definition public_config_key_hash_context :: "env \<Rightarrow> string \<Rightarrow> string" where
  "public_config_key_hash_context E s = ''public-config-key-hash='' @ content_hash_bytes E s"

subsection \<open>Evidence shapes\<close>

definition idempotency_key_char :: "char \<Rightarrow> bool" where
  "idempotency_key_char c \<longleftrightarrow>
     is_ascii_alphanumeric c \<or> c \<in> set [CHR ''-'', CHR ''_'', CHR ''.'', CHR '':'']"

definition validate_idempotency_key_shape :: "string \<Rightarrow> unit result" where
  "validate_idempotency_key_shape value =
     (if value = [] \<or> 128 < length value \<or> \<not> list_all is_ascii value then
        Err (InvalidArgument ''table commit idempotency key must be 1..=128 ASCII characters'')
      else if \<not> list_all idempotency_key_char value then
        Err (InvalidArgument (''table commit idempotency key may only contain A-Z, a-z, 0-9, '' @
          [CHR 0x27] @ ''-'' @ [CHR 0x27] @ '', '' @ [CHR 0x27] @ ''_'' @ [CHR 0x27] @ '', '' @
          [CHR 0x27] @ ''.'' @ [CHR 0x27] @ '', or '' @ [CHR 0x27] @ '':'' @ [CHR 0x27]))
      else Ok ())"

definition validate_idempotency_request_hash_shape :: "string \<Rightarrow> unit result" where
  "validate_idempotency_request_hash_shape value =
     (let e = Err (InvalidArgument
                ''table commit idempotency request hash must be full SHA-256 evidence'') in
      case strip_prefix value ''sha256:'' of
        None \<Rightarrow> e
      | Some digest \<Rightarrow>
          if length digest \<noteq> 64 \<or> \<not> list_all is_ascii_hexdigit digest then e else Ok ())"

definition validate_outbox_event_id_shape :: "string \<Rightarrow> unit result" where
  "validate_outbox_event_id_shape value =
     (let e = Err (InvalidArgument ''outbox event id must be full SHA-256 evidence'') in
      case strip_prefix value ''sha256:'' of
        None \<Rightarrow> e
      | Some digest \<Rightarrow>
          if length digest \<noteq> 64 \<or> \<not> list_all is_ascii_hexdigit digest then e else Ok ())"

definition validate_sha256_evidence :: "string \<Rightarrow> string \<Rightarrow> unit result" where
  "validate_sha256_evidence value message =
     (case strip_prefix value ''sha256:'' of
        None \<Rightarrow> Err (Internal message)
      | Some digest \<Rightarrow>
          if length digest \<noteq> 64 \<or> \<not> list_all is_ascii_hexdigit digest then Err (Internal message)
          else Ok ())"

subsection \<open>Percent decoding and dot segments\<close>

definition hex_value :: "char \<Rightarrow> nat option" where
  "hex_value c =
     (if is_ascii_digit c then Some (byte c - 48)
      else if 97 \<le> byte c \<and> byte c \<le> 102 then Some (byte c - 97 + 10)
      else if 65 \<le> byte c \<and> byte c \<le> 70 then Some (byte c - 65 + 10)
      else None)"

text \<open>The decoding loop: a percent sign without two hexadecimal digits after it stays.\<close>

fun percent_decode_loop :: "string \<Rightarrow> string" where
  "percent_decode_loop (c # a # b # rest) =
     (if c = CHR ''%'' then
        (case hex_value a of
           None \<Rightarrow> c # percent_decode_loop (a # b # rest)
         | Some high \<Rightarrow>
             (case hex_value b of
                None \<Rightarrow> c # percent_decode_loop (a # b # rest)
              | Some low \<Rightarrow> char_of (16 * high + low) # percent_decode_loop rest))
      else c # percent_decode_loop (a # b # rest))"
| "percent_decode_loop s = s"

definition percent_decode_segment :: "string \<Rightarrow> string option" where
  "percent_decode_segment segment =
     (if CHR ''%'' \<notin> set segment then None else Some (percent_decode_loop segment))"

definition is_dot_path_segment :: "string \<Rightarrow> bool" where
  "is_dot_path_segment segment =
     (case percent_decode_segment segment of
        None \<Rightarrow> segment = ''.'' \<or> segment = ''..''
      | Some decoded \<Rightarrow> decoded = ''.'' \<or> decoded = ''..'')"

definition location_has_dot_path_segment :: "string \<Rightarrow> bool" where
  "location_has_dot_path_segment location =
     list_ex is_dot_path_segment (split_on (CHR ''/'') (before_any [CHR ''?'', CHR ''#''] location))"

definition location_prefix_has_dot_path_segment :: "string \<Rightarrow> bool" where
  "location_prefix_has_dot_path_segment location_prefix = location_has_dot_path_segment location_prefix"

definition secret_ref_has_dot_path_segment :: "string \<Rightarrow> bool" where
  "secret_ref_has_dot_path_segment secret_ref =
     list_ex is_dot_path_segment (split_on (CHR ''/'') (before_any [CHR ''?'', CHR ''#''] secret_ref))"

subsection \<open>URLs and locations\<close>

definition location_has_query_fragment_or_userinfo :: "env \<Rightarrow> string \<Rightarrow> bool" where
  "location_has_query_fragment_or_userinfo E location =
     ((case url_parse E location of
         None \<Rightarrow> False
       | Some u \<Rightarrow> url_query u \<noteq> None \<or> url_fragment u \<noteq> None \<or> url_username u \<noteq> [] \<or>
                   url_password u \<noteq> None) \<or>
      list_ex (\<lambda>c. c = CHR ''?'' \<or> c = CHR ''#'') location)"

definition location_prefix_has_query_fragment_or_userinfo :: "env \<Rightarrow> string \<Rightarrow> bool" where
  "location_prefix_has_query_fragment_or_userinfo E location_prefix =
     location_has_query_fragment_or_userinfo E location_prefix"

definition validate_location_prefix_path :: "env \<Rightarrow> string \<Rightarrow> unit result" where
  "validate_location_prefix_path E location_prefix =
     (if location_prefix_has_query_fragment_or_userinfo E location_prefix then
        Err (InvalidArgument (''storage profile location prefix must not include query strings, fragments, or userinfo; '' @
          storage_profile_prefix_hash_context E location_prefix))
      else if location_prefix_has_dot_path_segment location_prefix then
        Err (InvalidArgument (''storage profile location prefix must not include dot path segments; '' @
          storage_profile_prefix_hash_context E location_prefix))
      else Ok ())"

definition validate_warehouse_storage_root_path :: "env \<Rightarrow> string \<Rightarrow> unit result" where
  "validate_warehouse_storage_root_path E storage_root =
     (if location_has_query_fragment_or_userinfo E storage_root then
        Err (InvalidArgument (''warehouse storage root must not include query strings, fragments, or userinfo; '' @
          warehouse_storage_root_hash_context E storage_root))
      else if location_has_dot_path_segment storage_root then
        Err (InvalidArgument (''warehouse storage root must not include dot path segments; '' @
          warehouse_storage_root_hash_context E storage_root))
      else Ok ())"

definition validate_server_endpoint_url :: "env \<Rightarrow> string \<Rightarrow> unit result" where
  "validate_server_endpoint_url E endpoint_url =
     (case url_parse E endpoint_url of
        None \<Rightarrow> Err (InvalidArgument (''server endpoint URL must be an absolute http or https URL; '' @
                 server_endpoint_url_hash_context E endpoint_url))
      | Some u \<Rightarrow>
          if url_scheme u \<notin> set [''http'', ''https''] then
            Err (InvalidArgument (''server endpoint URL must use http or https scheme; '' @
              server_endpoint_url_hash_context E endpoint_url))
          else if location_has_query_fragment_or_userinfo E endpoint_url then
            Err (InvalidArgument (''server endpoint URL must not include query strings, fragments, or userinfo; '' @
              server_endpoint_url_hash_context E endpoint_url))
          else Ok ())"

subsection \<open>Secret material\<close>

definition embedded_secret_patterns :: "string list" where
  "embedded_secret_patterns =
     [''password='', ''secret='', ''token='', ''credential='', ''api_key='', ''apikey='',
      ''access_key='', ''private_key='', ''pass='', ''auth='', ''aws_access_key_id='',
      ''aws_secret_access_key='', ''aws_session_token='']"

definition embeds_raw_secret_material :: "string \<Rightarrow> bool" where
  "embeds_raw_secret_material value =
     (let normalized = to_ascii_lowercase value in
      list_ex (\<lambda>pattern. contains_str normalized pattern) embedded_secret_patterns)"

definition config_key_may_expose :: "string \<Rightarrow> bool" where
  "config_key_may_expose key =
     (let normalized = to_ascii_lowercase key in
      contains_str normalized ''secret'' \<or> contains_str normalized ''token'' \<or>
      contains_str normalized ''password'' \<or> contains_str normalized ''credential'')"

definition validate_public_config :: "env \<Rightarrow> (string, string) btree \<Rightarrow> unit result" where
  "validate_public_config E config =
     check_all (\<lambda>(key, value).
       if config_key_may_expose key then
         Err (InvalidArgument (''storage profile public config key may expose secret material; '' @
           public_config_key_hash_context E key))
       else if embeds_raw_secret_material value then
         Err (InvalidArgument (''storage profile public config value may expose secret material; '' @
           public_config_key_hash_context E key))
       else Ok ()) config"

definition RESERVED_STORAGE_PROFILE_PUBLIC_CONFIG_KEYS :: "string list" where
  "RESERVED_STORAGE_PROFILE_PUBLIC_CONFIG_KEYS =
     [''lakecat.storage-profile-id'', ''lakecat.storage-provider'', ''lakecat.credential-mode'',
      ''lakecat.governed-read-required'', ''lakecat.authorization-principal'',
      ''lakecat.max-credential-ttl-seconds'', ''lakecat.credential-kind'']"

definition validate_storage_profile_public_config :: "env \<Rightarrow> (string, string) btree \<Rightarrow> unit result" where
  "validate_storage_profile_public_config E config =
     and_then (validate_public_config E config) (\<lambda>_.
       check_all (\<lambda>(key, _).
         if to_ascii_lowercase key \<in> set RESERVED_STORAGE_PROFILE_PUBLIC_CONFIG_KEYS then
           Err (InvalidArgument (''storage profile public config key is reserved for LakeCat credential evidence; '' @
             public_config_key_hash_context E key))
         else Ok ()) config)"

definition validate_secret_ref :: "env \<Rightarrow> string \<Rightarrow> unit result" where
  "validate_secret_ref E secret_ref =
     (let trimmed = trim secret_ref in
      if trimmed = [] then
        Err (InvalidArgument ''storage profile secret reference must not be empty'')
      else case url_parse E trimmed of
        None \<Rightarrow> Err (InvalidArgument (''storage profile secret reference must be a valid external secret-store URI; '' @
                 secret_ref_hash_context E trimmed))
      | Some parsed \<Rightarrow>
          if url_scheme parsed \<notin> set [''typesec'', ''vault'', ''aws-sm'', ''gcp-sm'', ''azure-kv''] then
            Err (InvalidArgument (''storage profile secret reference must use an external secret-store URI; '' @
              secret_ref_hash_context E trimmed))
          else if url_query parsed \<noteq> None \<or> url_fragment parsed \<noteq> None \<or> url_username parsed \<noteq> [] then
            Err (InvalidArgument (''storage profile secret reference must not include query strings, fragments, or userinfo; '' @
              secret_ref_hash_context E trimmed))
          else if url_password parsed \<noteq> None then
            Err (InvalidArgument (''storage profile secret reference must not include query strings, fragments, or userinfo; '' @
              secret_ref_hash_context E trimmed))
          else if secret_ref_has_dot_path_segment trimmed then
            Err (InvalidArgument (''storage profile secret reference must not include dot path segments; '' @
              secret_ref_hash_context E trimmed))
          else if embeds_raw_secret_material trimmed then
            Err (InvalidArgument (''storage profile secret reference must not embed raw secret material; '' @
              secret_ref_hash_context E trimmed))
          else Ok ())"

subsection \<open>Ids, providers and issuance modes\<close>

definition validate_profile_id :: "env \<Rightarrow> string \<Rightarrow> unit result" where
  "validate_profile_id E profile_id =
     (if profile_id = [] then Err (InvalidArgument ''storage profile id must not be empty'')
      else if \<not> list_all name_char profile_id then
        Err (InvalidArgument (''storage profile id contains unsupported characters; '' @
          storage_profile_id_hash_context E profile_id))
      else Ok ())"

definition validate_project_id :: "env \<Rightarrow> string \<Rightarrow> unit result" where
  "validate_project_id E project_id =
     (if project_id = [] then Err (InvalidArgument ''project id must not be empty'')
      else if \<not> list_all name_char project_id then
        Err (InvalidArgument (''project id contains unsupported characters; '' @
          project_id_hash_context E project_id))
      else Ok ())"

definition validate_policy_id :: "env \<Rightarrow> string \<Rightarrow> unit result" where
  "validate_policy_id E policy_id =
     (if policy_id = [] then Err (InvalidArgument ''policy id must not be empty'')
      else if \<not> list_all name_char policy_id then
        Err (InvalidArgument (''policy id contains unsupported characters; '' @
          policy_id_hash_context E policy_id))
      else Ok ())"

definition quoted :: "string \<Rightarrow> string" where
  "quoted s = [CHR 0x27] @ s @ [CHR 0x27]"

definition validate_location_prefix_provider :: "env \<Rightarrow> string \<Rightarrow> StorageProvider \<Rightarrow> unit result" where
  "validate_location_prefix_provider E location_prefix provider =
     (let detected = storage_provider_from_location location_prefix in
      if detected \<noteq> Unknown \<and> detected \<noteq> provider then
        Err (InvalidArgument (''storage profile provider '' @ quoted (storage_provider_as_str provider) @
          '' does not match location prefix provider '' @ quoted (storage_provider_as_str detected) @
          ''; '' @ storage_profile_prefix_hash_context E location_prefix))
      else if detected = Unknown \<and> provider \<noteq> Unknown then
        Err (InvalidArgument (''storage profile location prefix is not supported by provider '' @
          quoted (storage_provider_as_str provider) @ ''; '' @
          storage_profile_prefix_hash_context E location_prefix))
      else Ok ())"

definition validate_issuance_mode_provider ::
  "env \<Rightarrow> CredentialIssuanceMode \<Rightarrow> StorageProvider \<Rightarrow> string \<Rightarrow> unit result" where
  "validate_issuance_mode_provider E issuance_mode provider location_prefix =
     (if issuance_mode = LocalFileNoSecret \<and> provider \<noteq> File then
        Err (InvalidArgument (''local-file-no-secret issuance mode requires file provider, got '' @
          quoted (storage_provider_as_str provider) @ ''; '' @
          storage_profile_prefix_hash_context E location_prefix))
      else if issuance_mode = ShortLivedSecretRef \<and> provider \<notin> set [S3, Gcs, Azure] then
        Err (InvalidArgument (''short-lived-secret-ref issuance mode requires s3, gcs, or azure provider, got '' @
          quoted (storage_provider_as_str provider) @ ''; '' @
          storage_profile_prefix_hash_context E location_prefix))
      else Ok ())"

definition validate_secret_ref_issuance_mode ::
  "env \<Rightarrow> string option \<Rightarrow> CredentialIssuanceMode \<Rightarrow> unit result" where
  "validate_secret_ref_issuance_mode E secret_ref issuance_mode =
     (case secret_ref of
        None \<Rightarrow> Ok ()
      | Some s \<Rightarrow>
          if issuance_mode \<noteq> ShortLivedSecretRef then
            Err (InvalidArgument (''storage profile secret reference requires short-lived-secret-ref issuance mode; '' @
              secret_ref_hash_context E s))
          else Ok ())"

subsection \<open>Facts\<close>

lemma validate_sha256_ok:
  "validate_sha256_evidence s msg = Ok () \<longleftrightarrow> sha256_shape s"
  "validate_idempotency_request_hash_shape s = Ok () \<longleftrightarrow> sha256_shape s"
  "validate_outbox_event_id_shape s = Ok () \<longleftrightarrow> sha256_shape s"
  by (auto simp: validate_sha256_evidence_def validate_idempotency_request_hash_shape_def
      validate_outbox_event_id_shape_def sha256_shape_def Let_def split: option.splits)

lemma validate_ids_ok:
  "validate_profile_id E s = Ok () \<longleftrightarrow> valid_name s"
  "validate_project_id E s = Ok () \<longleftrightarrow> valid_name s"
  "validate_policy_id E s = Ok () \<longleftrightarrow> valid_name s"
  by (auto simp: validate_profile_id_def validate_project_id_def validate_policy_id_def valid_name_def)

lemma hex_value_bound: "hex_value c = Some v \<Longrightarrow> v < 16"
  by (auto simp: hex_value_def is_ascii_digit_def split: if_splits)

lemma hex_value_hexdigit: "hex_value c \<noteq> None \<longleftrightarrow> is_ascii_hexdigit c"
  by (auto simp: hex_value_def is_ascii_hexdigit_def)

text \<open>
  Percent encoding as a relation (RFC 3986): each byte stands for itself, unless it is a percent
  sign, or is written as one followed by its two hexadecimal digits.
\<close>

inductive percent_encodes :: "string \<Rightarrow> string \<Rightarrow> bool" where
  pe_nil: "percent_encodes [] []"
| pe_raw: "c \<noteq> CHR ''%'' \<Longrightarrow> percent_encodes s t \<Longrightarrow> percent_encodes (c # s) (c # t)"
| pe_hex: "hex_value a = Some h \<Longrightarrow> hex_value b = Some l \<Longrightarrow> percent_encodes s t \<Longrightarrow>
     percent_encodes (CHR ''%'' # a # b # s) (char_of (16 * h + l) # t)"

inductive_cases percent_encodes_dot: "percent_encodes s (c # t)"
inductive_cases percent_encodes_nil: "percent_encodes s []"

lemma percent_decode_loop_raw: "c \<noteq> CHR ''%'' \<Longrightarrow> percent_decode_loop (c # s) = c # percent_decode_loop s"
  by (cases "c # s" rule: percent_decode_loop.cases) auto

lemma percent_decode_loop_encodes: "percent_encodes s t \<Longrightarrow> percent_decode_loop s = t"
  by (induction rule: percent_encodes.induct) (auto simp: percent_decode_loop_raw)

lemma percent_decode_loop_no_percent:
  "CHR ''%'' \<notin> set (percent_decode_loop s) \<Longrightarrow> percent_encodes s (percent_decode_loop s)"
proof (induction s rule: percent_decode_loop.induct)
  case (1 c a b rest)
  then show ?case
    by (auto split: option.splits if_splits intro: percent_encodes.intros)
qed (auto intro: percent_encodes.intros)

lemma percent_decode_loop_id: "CHR ''%'' \<notin> set s \<Longrightarrow> percent_decode_loop s = s"
  by (induction s) (auto simp: percent_decode_loop_raw)

lemma is_dot_path_segment_loop:
  "is_dot_path_segment s \<longleftrightarrow> percent_decode_loop s = ''.'' \<or> percent_decode_loop s = ''..''"
  by (auto simp: is_dot_path_segment_def percent_decode_segment_def percent_decode_loop_id)

end
