(* ===== verification/GovernedScan.thy ===== *)
theory GovernedScan
  imports LakeCore
begin

section \<open>Governed scan proofs\<close>

text \<open>
  \<open>crates/lakecat-core/src/governed_scan.rs\<close> with its modules \<open>validation.rs\<close>, \<open>digest.rs\<close> and
  \<open>scope.rs\<close>: the bounded, canonical evidence fields, the proof issued from them, the grant id
  that binds every field by a domain-separated digest, decoding, and the snapshot and
  source-scope digests derived from a valid proof.
\<close>

definition GOVERNED_SCAN_PROOF_VERSION :: string where
  "GOVERNED_SCAN_PROOF_VERSION = ''lakecat.governed-scan-proof.v2''"

definition PROOF_DOMAIN :: string where
  "PROOF_DOMAIN = ''lakecat.governed-scan-proof.digest.v2''"

definition PLAN_DOMAIN :: string where
  "PLAN_DOMAIN = ''lakecat.governed-scan-plan.digest.v1''"

definition AUTHORIZATION_DOMAIN :: string where
  "AUTHORIZATION_DOMAIN = ''lakecat.authorization-decision.digest.v1''"

definition POLICY_DOMAIN :: string where
  "POLICY_DOMAIN = ''lakecat.scan-policy-decision.digest.v1''"

definition SNAPSHOT_DOMAIN :: string where
  "SNAPSHOT_DOMAIN = ''lakecat.governed-scan-snapshot.digest.v1''"

definition SOURCE_SCOPE_DOMAIN :: string where
  "SOURCE_SCOPE_DOMAIN = ''lakecat.governed-scan-source-scope.digest.v1''"

definition GOVERNED_SCAN_SNAPSHOT_VERSION :: string where
  "GOVERNED_SCAN_SNAPSHOT_VERSION = ''lakecat.governed-scan-snapshot.v1''"

definition GOVERNED_SCAN_SOURCE_SCOPE_VERSION :: string where
  "GOVERNED_SCAN_SOURCE_SCOPE_VERSION = ''lakecat.governed-scan-source-scope.v1''"

subsection \<open>Bounds and validation\<close>

definition MAX_GOVERNED_SCAN_TEXT_BYTES :: nat where
  "MAX_GOVERNED_SCAN_TEXT_BYTES = 4 * 1024"

definition MAX_GOVERNED_SCAN_PROJECTION_FIELDS :: nat where
  "MAX_GOVERNED_SCAN_PROJECTION_FIELDS = 256"

definition MAX_GOVERNED_SCAN_PROJECTION_BYTES :: nat where
  "MAX_GOVERNED_SCAN_PROJECTION_BYTES = 64 * 1024"

definition MAX_GOVERNED_SCAN_NAMESPACE_COMPONENTS :: nat where
  "MAX_GOVERNED_SCAN_NAMESPACE_COMPONENTS = 256"

definition MAX_GOVERNED_SCAN_NAMESPACE_BYTES :: nat where
  "MAX_GOVERNED_SCAN_NAMESPACE_BYTES = 64 * 1024"

definition invalid :: "string \<Rightarrow> error" where
  "invalid message = InvalidArgument message"

definition validate_governed_sha256_digest :: "string \<Rightarrow> string \<Rightarrow> unit result" where
  "validate_governed_sha256_digest digest label =
     (let e = Err (InvalidArgument (''governed scan '' @ label @
                '' digest must be canonical lowercase SHA-256 evidence'')) in
      case strip_prefix digest ''sha256:'' of
        None \<Rightarrow> e
      | Some hex \<Rightarrow>
          if length hex \<noteq> 64 \<or> \<not> list_all is_lower_hexdigit hex then e else Ok ())"

definition validate_governed_scan_text :: "string \<Rightarrow> unit result" where
  "validate_governed_scan_text value =
     (if value = [] \<or> MAX_GOVERNED_SCAN_TEXT_BYTES < length value \<or> value \<noteq> trim value \<or>
         has_control value
      then Err (invalid (''governed scan text must be canonical and at most '' @
                 nat_str MAX_GOVERNED_SCAN_TEXT_BYTES @ '' UTF-8 bytes''))
      else Ok ())"

text \<open>The budget loop: every value is canonical text, the running total is a checked \<open>usize\<close>.\<close>

fun string_budget_total :: "string \<Rightarrow> nat \<Rightarrow> string list \<Rightarrow> nat result" where
  "string_budget_total label acc [] = Ok acc"
| "string_budget_total label acc (value # values) =
     and_then (validate_governed_scan_text value) (\<lambda>_.
       if acc + length value \<le> usize_max
       then string_budget_total label (acc + length value) values
       else Err (invalid (''governed scan '' @ label @ '' exceeds its byte limit'')))"

definition validate_string_budget :: "string list \<Rightarrow> string \<Rightarrow> nat \<Rightarrow> unit result" where
  "validate_string_budget values label maximum =
     and_then (string_budget_total label 0 values) (\<lambda>bytes.
       if maximum < bytes then
         Err (invalid (''governed scan '' @ label @ '' exceeds '' @ nat_str maximum @
                       '' aggregate UTF-8 bytes''))
       else Ok ())"

definition validate_projection :: "string list \<Rightarrow> bool \<Rightarrow> string \<Rightarrow> unit result" where
  "validate_projection fs allow_empty label =
     (if fs = [] then
        (if allow_empty then Ok ()
         else Err (invalid ''governed scan proof projection must not be empty''))
      else if MAX_GOVERNED_SCAN_PROJECTION_FIELDS < length fs then
        Err (invalid (''governed scan '' @ label @ '' contains more than '' @
                      nat_str MAX_GOVERNED_SCAN_PROJECTION_FIELDS @ '' fields''))
      else and_then (validate_string_budget fs label MAX_GOVERNED_SCAN_PROJECTION_BYTES) (\<lambda>_.
        if length (remdups fs) \<noteq> length fs then
          Err (invalid (''governed scan '' @ label @ '' fields must be unique''))
        else Ok ()))"

definition validate_governed_scan_projection :: "string list \<Rightarrow> unit result" where
  "validate_governed_scan_projection fs = validate_projection fs False ''proof projection''"

definition validate_governed_scan_requested_projection :: "string list \<Rightarrow> unit result" where
  "validate_governed_scan_requested_projection fs =
     validate_projection fs True ''requested projection''"

definition validate_governed_scan_table :: "TableIdent \<Rightarrow> unit result" where
  "validate_governed_scan_table table =
     and_then (validate_governed_scan_text (ti_warehouse table)) (\<lambda>_.
     and_then (validate_governed_scan_text (ti_name table)) (\<lambda>_.
     and_then (map_err (\<lambda>_. invalid ''governed scan warehouse is not a valid catalog name'')
                 (validate_name ''warehouse'' (ti_warehouse table))) (\<lambda>_.
     and_then (map_err (\<lambda>_. invalid ''governed scan table is not a valid catalog name'')
                 (validate_name ''table'' (ti_name table))) (\<lambda>_.
     let parts = ti_namespace table in
     if parts = [] \<or> MAX_GOVERNED_SCAN_NAMESPACE_COMPONENTS < length parts then
       Err (invalid (''governed scan namespace must contain at most '' @
                     nat_str MAX_GOVERNED_SCAN_NAMESPACE_COMPONENTS @ '' components''))
     else and_then (validate_string_budget parts ''namespace'' MAX_GOVERNED_SCAN_NAMESPACE_BYTES) (\<lambda>_.
       check_all (\<lambda>part.
         map_err (\<lambda>_. invalid ''governed scan namespace contains an invalid catalog name'')
           (validate_name ''namespace component'' part)) parts)))))"

definition catalog_identity_new :: "string \<Rightarrow> string result" where
  "catalog_identity_new value = and_then (validate_governed_scan_text value) (\<lambda>_. Ok value)"

definition catalog_identity_for_warehouse :: "env \<Rightarrow> WarehouseName \<Rightarrow> string" where
  "catalog_identity_for_warehouse E warehouse =
     (let readable = ''lakecat://'' @ warehouse in
      if is_ok (validate_governed_scan_text readable) then readable
      else ''lakecat://warehouse/'' @ content_hash_bytes E warehouse)"

subsection \<open>Evidence and proofs\<close>

record GovernedScanProofEvidence =
  ge_catalog_identity :: string
  ge_table :: TableIdent
  ge_table_version :: "64 word"
  ge_snapshot_id :: int
  ge_plan_task_digest :: string
  ge_principal_subject :: string
  ge_purpose :: string
  ge_effective_projection :: "string list"
  ge_identity_context_digest :: string
  ge_authorization_receipt_digest :: string
  ge_policy_decision_digest :: string

record GovernedScanProof =
  gp_version :: string
  gp_grant_id :: string
  gp_catalog_identity :: string
  gp_table :: TableIdent
  gp_table_version :: "64 word"
  gp_snapshot_id :: int
  gp_plan_task_digest :: string
  gp_principal_subject :: string
  gp_purpose :: string
  gp_effective_projection :: "string list"
  gp_identity_context_digest :: string
  gp_authorization_receipt_digest :: string
  gp_policy_decision_digest :: string

text \<open>The digested fields are those of the evidence; a proof has them all.\<close>

definition evidence_of_proof :: "GovernedScanProof \<Rightarrow> GovernedScanProofEvidence" where
  "evidence_of_proof p =
     \<lparr>ge_catalog_identity = gp_catalog_identity p,
      ge_table = gp_table p,
      ge_table_version = gp_table_version p,
      ge_snapshot_id = gp_snapshot_id p,
      ge_plan_task_digest = gp_plan_task_digest p,
      ge_principal_subject = gp_principal_subject p,
      ge_purpose = gp_purpose p,
      ge_effective_projection = gp_effective_projection p,
      ge_identity_context_digest = gp_identity_context_digest p,
      ge_authorization_receipt_digest = gp_authorization_receipt_digest p,
      ge_policy_decision_digest = gp_policy_decision_digest p\<rparr>"

definition validate_fields :: "GovernedScanProofEvidence \<Rightarrow> unit result" where
  "validate_fields f =
     (if ge_snapshot_id f < 0 then
        Err (invalid ''governed scan proof snapshot identifier must not be negative'')
      else and_then (validate_governed_scan_text (ge_catalog_identity f)) (\<lambda>_.
        and_then (validate_governed_scan_table (ge_table f)) (\<lambda>_.
        and_then (validate_governed_scan_text (ge_principal_subject f)) (\<lambda>_.
        and_then (validate_governed_scan_text (ge_purpose f)) (\<lambda>_.
        and_then (validate_governed_scan_projection (ge_effective_projection f)) (\<lambda>_.
        check_all (\<lambda>(label, digest). validate_governed_sha256_digest digest label)
          [(''plan task'', ge_plan_task_digest f),
           (''identity context'', ge_identity_context_digest f),
           (''authorization receipt'', ge_authorization_receipt_digest f),
           (''policy decision'', ge_policy_decision_digest f)]))))))"

definition validate_evidence :: "GovernedScanProofEvidence \<Rightarrow> unit result" where
  "validate_evidence evidence = validate_fields evidence"

definition validate_proof_structure :: "GovernedScanProof \<Rightarrow> unit result" where
  "validate_proof_structure p =
     (if gp_version p \<noteq> GOVERNED_SCAN_PROOF_VERSION then
        Err (invalid ''unsupported governed scan proof version'')
      else and_then (validate_governed_sha256_digest (gp_grant_id p) ''grant id'') (\<lambda>_.
        validate_fields (evidence_of_proof p)))"

subsection \<open>Digests\<close>

definition domain_hash :: "env \<Rightarrow> string \<Rightarrow> json \<Rightarrow> string result" where
  "domain_hash E domain evidence = content_hash_domain_json E domain (canonicalize_json evidence)"

definition evidence_fields_json :: "GovernedScanProofEvidence \<Rightarrow> (string \<times> json) list" where
  "evidence_fields_json f =
     [(''catalogIdentity'', JStr (ge_catalog_identity f)),
      (''table'', ident_json (ge_table f)),
      (''tableVersion'', ju64 (ge_table_version f)),
      (''snapshotId'', JInt (ge_snapshot_id f)),
      (''planTaskDigest'', JStr (ge_plan_task_digest f)),
      (''principalSubject'', JStr (ge_principal_subject f)),
      (''purpose'', JStr (ge_purpose f)),
      (''effectiveProjection'', jstrs (ge_effective_projection f)),
      (''identityContextDigest'', JStr (ge_identity_context_digest f)),
      (''authorizationReceiptDigest'', JStr (ge_authorization_receipt_digest f)),
      (''policyDecisionDigest'', JStr (ge_policy_decision_digest f))]"

definition proof_digest_fields_json :: "GovernedScanProofEvidence \<Rightarrow> json" where
  "proof_digest_fields_json f =
     jobj ((''version'', JStr GOVERNED_SCAN_PROOF_VERSION) # evidence_fields_json f)"

definition proof_digest_from_evidence :: "env \<Rightarrow> GovernedScanProofEvidence \<Rightarrow> string result" where
  "proof_digest_from_evidence E evidence =
     domain_hash E PROOF_DOMAIN (proof_digest_fields_json evidence)"

definition proof_digest_from_proof :: "env \<Rightarrow> GovernedScanProof \<Rightarrow> string result" where
  "proof_digest_from_proof E p =
     domain_hash E PROOF_DOMAIN (proof_digest_fields_json (evidence_of_proof p))"

definition governed_plan_digest :: "env \<Rightarrow> json list \<Rightarrow> string result" where
  "governed_plan_digest E plan_tasks =
     domain_hash E PLAN_DOMAIN (jobj [(''planTasks'', JArr plan_tasks)])"

definition governed_authorization_digest :: "env \<Rightarrow> json \<Rightarrow> string result" where
  "governed_authorization_digest E evidence = domain_hash E AUTHORIZATION_DOMAIN evidence"

definition governed_policy_digest :: "env \<Rightarrow> json \<Rightarrow> string result" where
  "governed_policy_digest E evidence = domain_hash E POLICY_DOMAIN evidence"

definition governed_evidence_digest :: "env \<Rightarrow> string \<Rightarrow> json \<Rightarrow> string result" where
  "governed_evidence_digest E domain evidence =
     (if blank domain \<or> CHR 0x00 \<in> set domain then
        Err (InvalidArgument
          ''governed evidence digest domain must be non-blank and contain no NUL bytes'')
      else domain_hash E domain evidence)"

subsection \<open>Issuing, validating, decoding\<close>

definition proof_of_evidence :: "string \<Rightarrow> GovernedScanProofEvidence \<Rightarrow> GovernedScanProof" where
  "proof_of_evidence grant_id e =
     \<lparr>gp_version = GOVERNED_SCAN_PROOF_VERSION,
      gp_grant_id = grant_id,
      gp_catalog_identity = ge_catalog_identity e,
      gp_table = ge_table e,
      gp_table_version = ge_table_version e,
      gp_snapshot_id = ge_snapshot_id e,
      gp_plan_task_digest = ge_plan_task_digest e,
      gp_principal_subject = ge_principal_subject e,
      gp_purpose = ge_purpose e,
      gp_effective_projection = ge_effective_projection e,
      gp_identity_context_digest = ge_identity_context_digest e,
      gp_authorization_receipt_digest = ge_authorization_receipt_digest e,
      gp_policy_decision_digest = ge_policy_decision_digest e\<rparr>"

definition governed_scan_proof_issue ::
  "env \<Rightarrow> GovernedScanProofEvidence \<Rightarrow> GovernedScanProof result" where
  "governed_scan_proof_issue E evidence =
     and_then (validate_evidence evidence) (\<lambda>_.
     and_then (proof_digest_from_evidence E evidence) (\<lambda>grant_id.
     Ok (proof_of_evidence grant_id evidence)))"

definition validate_structure :: "GovernedScanProof \<Rightarrow> unit result" where
  "validate_structure p = validate_proof_structure p"

definition validate_integrity :: "env \<Rightarrow> GovernedScanProof \<Rightarrow> unit result" where
  "validate_integrity E p =
     and_then (validate_structure p) (\<lambda>_.
     and_then (proof_digest_from_proof E p) (\<lambda>digest.
     if digest \<noteq> gp_grant_id p then
       Err (Conflict ''governed scan proof integrity validation failed'')
     else Ok ()))"

definition governed_scan_proof_json :: "GovernedScanProof \<Rightarrow> json" where
  "governed_scan_proof_json p =
     jobj ([(''version'', JStr (gp_version p)), (''grantId'', JStr (gp_grant_id p))] @
           evidence_fields_json (evidence_of_proof p))"

definition catalog_identity_from_json :: "json \<Rightarrow> string option" where
  "catalog_identity_from_json v =
     (case as_str v of None \<Rightarrow> None
      | Some s \<Rightarrow> (case catalog_identity_new s of Inl _ \<Rightarrow> None | Inr c \<Rightarrow> Some c))"

text \<open>The derived decoder of the private field struct (\<open>camelCase\<close>, \<open>deny_unknown_fields\<close>).\<close>

definition proof_fields_from_json :: "json \<Rightarrow> GovernedScanProof option" where
  "proof_fields_from_json v =
     (case struct_fields True
             [''version'', ''grantId'', ''catalogIdentity'', ''table'', ''tableVersion'',
              ''snapshotId'', ''planTaskDigest'', ''principalSubject'', ''purpose'',
              ''effectiveProjection'', ''identityContextDigest'', ''authorizationReceiptDigest'',
              ''policyDecisionDigest''] v of
        Some [v0, v1, v2, v3, v4, v5, v6, v7, v8, v9, v10, v11, v12] \<Rightarrow>
          Option.bind (as_str v0) (\<lambda>f0. Option.bind (as_str v1) (\<lambda>f1.
          Option.bind (catalog_identity_from_json v2) (\<lambda>f2.
          Option.bind (ident_from_json v3) (\<lambda>f3. Option.bind (u64_from_json v4) (\<lambda>f4.
          Option.bind (i64_from_json v5) (\<lambda>f5. Option.bind (as_str v6) (\<lambda>f6.
          Option.bind (as_str v7) (\<lambda>f7. Option.bind (as_str v8) (\<lambda>f8.
          Option.bind (strings_from_json v9) (\<lambda>f9. Option.bind (as_str v10) (\<lambda>f10.
          Option.bind (as_str v11) (\<lambda>f11. Option.bind (as_str v12) (\<lambda>f12.
          Some \<lparr>gp_version = f0, gp_grant_id = f1, gp_catalog_identity = f2, gp_table = f3,
                gp_table_version = f4, gp_snapshot_id = f5, gp_plan_task_digest = f6,
                gp_principal_subject = f7, gp_purpose = f8, gp_effective_projection = f9,
                gp_identity_context_digest = f10, gp_authorization_receipt_digest = f11,
                gp_policy_decision_digest = f12\<rparr>)))))))))))))
      | _ \<Rightarrow> None)"

definition governed_scan_proof_from_json :: "env \<Rightarrow> json \<Rightarrow> GovernedScanProof option" where
  "governed_scan_proof_from_json E v =
     Option.bind (proof_fields_from_json v) (\<lambda>p.
       if gp_version p \<noteq> GOVERNED_SCAN_PROOF_VERSION then None
       else if is_ok (validate_integrity E p) then Some p else None)"

subsection \<open>Snapshot and source scope\<close>

record GovernedScanDigests =
  gd_snapshot_digest :: string
  gd_source_scope_digest :: string

definition snapshot_digest_after_validation :: "env \<Rightarrow> GovernedScanProof \<Rightarrow> string result" where
  "snapshot_digest_after_validation E p =
     domain_hash E SNAPSHOT_DOMAIN
       (jobj [(''version'', JStr GOVERNED_SCAN_SNAPSHOT_VERSION),
              (''catalogIdentity'', JStr (gp_catalog_identity p)),
              (''table'', ident_json (gp_table p)),
              (''tableVersion'', ju64 (gp_table_version p)),
              (''snapshotId'', JInt (gp_snapshot_id p))])"

definition source_scope_digest :: "env \<Rightarrow> string \<Rightarrow> string \<Rightarrow> string result" where
  "source_scope_digest E snapshot_digest grant_id =
     domain_hash E SOURCE_SCOPE_DOMAIN
       (jobj [(''version'', JStr GOVERNED_SCAN_SOURCE_SCOPE_VERSION),
              (''snapshotDigest'', JStr snapshot_digest),
              (''grantId'', JStr grant_id)])"

definition governed_scan_digests :: "env \<Rightarrow> GovernedScanProof \<Rightarrow> GovernedScanDigests result" where
  "governed_scan_digests E p =
     and_then (validate_integrity E p) (\<lambda>_.
     and_then (snapshot_digest_after_validation E p) (\<lambda>snapshot_digest.
     and_then (source_scope_digest E snapshot_digest (gp_grant_id p)) (\<lambda>source_scope_digest'.
     Ok \<lparr>gd_snapshot_digest = snapshot_digest, gd_source_scope_digest = source_scope_digest'\<rparr>)))"

subsection \<open>What validation accepts\<close>

definition canonical_text :: "string \<Rightarrow> bool" where
  "canonical_text s \<longleftrightarrow>
     s \<noteq> [] \<and> length s \<le> MAX_GOVERNED_SCAN_TEXT_BYTES \<and> trim s = s \<and> \<not> has_control s"

lemma validate_text_ok: "validate_governed_scan_text s = Ok () \<longleftrightarrow> canonical_text s"
  by (auto simp: validate_governed_scan_text_def canonical_text_def)

lemma string_budget_total_ok:
  "string_budget_total label t xs = Ok n \<longleftrightarrow>
     list_all canonical_text xs \<and> n = t + sum_list (map length xs) \<and> (xs = [] \<or> n \<le> usize_max)"
proof (induction xs arbitrary: t)
  case (Cons x xs)
  show ?case
    by (simp add: and_then_ok validate_text_ok Cons.IH) (cases xs; force)
qed auto

lemma validate_string_budget_ok:
  "m \<le> usize_max \<Longrightarrow> validate_string_budget xs label m = Ok () \<longleftrightarrow>
     list_all canonical_text xs \<and> sum_list (map length xs) \<le> m"
  by (auto simp: validate_string_budget_def result_simps string_budget_total_ok not_less)

lemma length_remdups_distinct: "length (remdups xs) = length xs \<longleftrightarrow> distinct xs"
  by simp

lemma digest_ok_iff:
  "validate_governed_sha256_digest d label = Ok () \<longleftrightarrow>
     (\<exists>hex. d = ''sha256:'' @ hex \<and> length hex = 64 \<and> list_all is_lower_hexdigit hex)"
proof -
  have "validate_governed_sha256_digest d label = Ok () \<longleftrightarrow>
      (case strip_prefix d ''sha256:'' of None \<Rightarrow> False
       | Some hex \<Rightarrow> length hex = 64 \<and> list_all is_lower_hexdigit hex)"
    by (simp add: validate_governed_sha256_digest_def Let_def split: option.split)
  then show ?thesis unfolding strip_prefix_case .
qed

lemma domain_hash_total: "env_ok E \<Longrightarrow> \<exists>h. domain_hash E d v = Ok h"
  by (auto simp: env_ok_def domain_hash_def content_hash_domain_json_def split: sum.splits)
    (metis Inl_Inr_False)

lemma domain_hash_ok:
  "domain_hash E d v = Ok h \<longleftrightarrow>
     (\<exists>bs. json_encode E (canonicalize_json v) = Inr bs \<and> h = finalize_json_hash E (d @ [CHR 0x00] @ bs))"
  by (auto simp: domain_hash_def content_hash_domain_json_def split: sum.splits)

lemma domain_hash_digest:
  assumes "env_ok E" "domain_hash E d v = Ok h"
  shows "validate_governed_sha256_digest h label = Ok ()"
proof -
  from assms(2) obtain bs where "h = ''sha256:'' @ sha256_hex E bs"
    unfolding domain_hash_def content_hash_domain_json_def finalize_json_hash_def
    by (auto split: sum.splits)
  with assms(1) show ?thesis unfolding digest_ok_iff env_ok_def by blast
qed

lemma evidence_of_proof_of_evidence [simp]: "evidence_of_proof (proof_of_evidence g e) = e"
  by (simp add: evidence_of_proof_def proof_of_evidence_def)

lemma proof_of_evidence_simps [simp]:
  "gp_version (proof_of_evidence g e) = GOVERNED_SCAN_PROOF_VERSION"
  "gp_grant_id (proof_of_evidence g e) = g"
  by (simp_all add: proof_of_evidence_def)

lemma proof_eqI:
  "gp_version p = gp_version q \<Longrightarrow> gp_grant_id p = gp_grant_id q \<Longrightarrow>
   evidence_of_proof p = evidence_of_proof q \<Longrightarrow> p = q"
  by (cases p; cases q) (auto simp: evidence_of_proof_def)

lemma validate_integrity_ok:
  "validate_integrity E p = Ok () \<longleftrightarrow>
     gp_version p = GOVERNED_SCAN_PROOF_VERSION \<and>
     validate_governed_sha256_digest (gp_grant_id p) ''grant id'' = Ok () \<and>
     validate_fields (evidence_of_proof p) = Ok () \<and>
     proof_digest_from_proof E p = Ok (gp_grant_id p)"
  by (auto simp: validate_integrity_def validate_structure_def validate_proof_structure_def result_simps
      split: if_splits)

lemma graphic_no_control: "(\<And>c. c \<in> set s \<Longrightarrow> 33 \<le> byte c \<and> byte c < 127) \<Longrightarrow> \<not> has_control s"
proof (induction s)
  case (Cons c s)
  then have "33 \<le> byte c" "byte c < 127" by auto
  then have "\<not> byte c < 32" "byte c \<noteq> 127" "byte c \<noteq> 194" by linarith+
  moreover have "\<not> has_control s" using Cons by simp
  ultimately show ?case by (subst has_control.simps) blast
qed simp

lemma canonical_text_graphic:
  assumes "s \<noteq> []" "length s \<le> MAX_GOVERNED_SCAN_TEXT_BYTES"
    and "\<And>c. c \<in> set s \<Longrightarrow> 33 \<le> byte c \<and> byte c < 127"
  shows "canonical_text s"
  using assms trim_graphic [of s] graphic_no_control [of s] by (auto simp: canonical_text_def)

lemma evidence_eq_iff_fields: "evidence_fields_json e = evidence_fields_json f \<longleftrightarrow> e = f"
proof
  have inj: "inj JStr" by (auto intro: injI)
  assume "evidence_fields_json e = evidence_fields_json f"
  then show "e = f"
    by (cases e; cases f)
      (auto simp: evidence_fields_json_def ident_json_inj inj_map_eq_map [OF inj]
        word_uint_eq_iff)
qed simp

lemma evidence_fields_names:
  "map fst (evidence_fields_json e) =
     [''catalogIdentity'', ''table'', ''tableVersion'', ''snapshotId'', ''planTaskDigest'',
      ''principalSubject'', ''purpose'', ''effectiveProjection'', ''identityContextDigest'',
      ''authorizationReceiptDigest'', ''policyDecisionDigest'']"
  by (simp add: evidence_fields_json_def)

lemma proof_digest_fields_json_inj:
  assumes "proof_digest_fields_json e = proof_digest_fields_json f"
  shows "e = f"
proof -
  let ?kvs = "\<lambda>e. (''version'', JStr GOVERNED_SCAN_PROOF_VERSION) # evidence_fields_json e"
  have "struct_fields d (map fst (?kvs e)) (jobj (?kvs e)) = Some (map snd (?kvs e))" for d e
    by (rule struct_fields_jobj) (simp add: evidence_fields_names)
  from this [of False e] this [of False f] have "map snd (?kvs e) = map snd (?kvs f)"
    using assms unfolding proof_digest_fields_json_def by (simp add: evidence_fields_names)
  then have "evidence_fields_json e = evidence_fields_json f"
    by (simp add: evidence_fields_json_def)
  then show ?thesis by (simp add: evidence_eq_iff_fields)
qed

lemma proof_fields_from_json_roundtrip:
  assumes "canonical_text (gp_catalog_identity p)"
    and "- (2 ^ 63) \<le> gp_snapshot_id p" "gp_snapshot_id p < 2 ^ 63"
  shows "proof_fields_from_json (governed_scan_proof_json p) = Some p"
proof -
  let ?kvs = "[(''version'', JStr (gp_version p)), (''grantId'', JStr (gp_grant_id p))] @
              evidence_fields_json (evidence_of_proof p)"
  have "struct_fields True (map fst ?kvs) (jobj ?kvs) = Some (map snd ?kvs)"
    by (rule struct_fields_jobj) (simp add: evidence_fields_names)
  moreover have "catalog_identity_from_json (JStr (gp_catalog_identity p)) = Some (gp_catalog_identity p)"
    using assms(1) by (simp add: catalog_identity_from_json_def catalog_identity_new_def
        validate_text_ok [THEN iffD2])
  moreover have "i64_from_json (JInt (gp_snapshot_id p)) = Some (gp_snapshot_id p)"
    using assms by (simp add: i64_from_json_def)
  ultimately show ?thesis
    by (simp add: proof_fields_from_json_def governed_scan_proof_json_def evidence_fields_names
        evidence_fields_json_def evidence_of_proof_def ident_from_json_roundtrip)
qed

text \<open>The bytes hashed into a grant id.\<close>

definition proof_digest_input :: "env \<Rightarrow> GovernedScanProof \<Rightarrow> string + string" where
  "proof_digest_input E p =
     map_ok (\<lambda>bs. PROOF_DOMAIN @ [CHR 0x00] @ bs)
       (json_encode E (canonicalize_json (proof_digest_fields_json (evidence_of_proof p))))"

lemma json_wf_proof_fields: "json_wf (proof_digest_fields_json e)"
  unfolding proof_digest_fields_json_def
  by (rule json_wf_jobj) (auto simp: evidence_fields_json_def ident_json_def intro!: json_wf_jobj)

text \<open>Concrete evidence and its proof in \<open>demo_env\<close>.\<close>

definition demo_evidence :: GovernedScanProofEvidence where
  "demo_evidence =
     \<lparr>ge_catalog_identity = ''lakecat://w'',
      ge_table = \<lparr>ti_warehouse = ''w'', ti_namespace = [''d''], ti_name = ''t''\<rparr>,
      ge_table_version = 1, ge_snapshot_id = 7, ge_plan_task_digest = demo_digest,
      ge_principal_subject = ''alice'', ge_purpose = ''audit'', ge_effective_projection = [''id''],
      ge_identity_context_digest = demo_digest, ge_authorization_receipt_digest = demo_digest,
      ge_policy_decision_digest = demo_digest\<rparr>"

definition demo_proof :: GovernedScanProof where
  "demo_proof = proof_of_evidence demo_digest demo_evidence"

lemma demo_canonical:
  "canonical_text ''lakecat://w''" "canonical_text ''w''" "canonical_text ''d''" "canonical_text ''t''"
  "canonical_text ''alice''" "canonical_text ''audit''" "canonical_text ''id''"
  by (auto intro!: canonical_text_graphic simp: MAX_GOVERNED_SCAN_TEXT_BYTES_def)

lemma demo_digest_valid: "validate_governed_sha256_digest demo_digest l = Ok ()"
  unfolding digest_ok_iff demo_digest_def
  by (rule exI [of _ "replicate 64 (CHR ''0'')"])
    (simp add: list_all_iff is_lower_hexdigit_def is_ascii_digit_def)

lemma demo_proof_valid:
  "validate_evidence demo_evidence = Ok ()" "validate_integrity demo_env demo_proof = Ok ()"
proof -
  have "validate_fields demo_evidence = Ok ()"
    by (simp add: validate_fields_def demo_evidence_def validate_text_ok [THEN iffD2] demo_canonical
        validate_governed_scan_table_def validate_name_def name_char_def is_ascii_alphanumeric_def
        validate_string_budget_ok [THEN iffD2] usize_max_def MAX_GOVERNED_SCAN_NAMESPACE_BYTES_def
        MAX_GOVERNED_SCAN_NAMESPACE_COMPONENTS_def validate_governed_scan_projection_def
        validate_projection_def MAX_GOVERNED_SCAN_PROJECTION_FIELDS_def
        MAX_GOVERNED_SCAN_PROJECTION_BYTES_def demo_digest_valid)
  then show "validate_evidence demo_evidence = Ok ()" "validate_integrity demo_env demo_proof = Ok ()"
    by (simp_all add: validate_evidence_def validate_integrity_ok demo_proof_def demo_digest_valid
        proof_digest_from_proof_def domain_hash_ok demo_hash)
      (simp add: demo_env_def)
qed

subsection \<open>Properties\<close>

text \<open>
  Issuing fails exactly as its evidence's validation does; otherwise it returns a proof of
  exactly that evidence which passes the integrity check.
\<close>

theorem proof_issue_correct:
  assumes "env_ok E"
  shows "case validate_evidence ev of
      Inl e \<Rightarrow> governed_scan_proof_issue E ev = Err e
    | Inr _ \<Rightarrow> \<exists>p. governed_scan_proof_issue E ev = Ok p \<and> evidence_of_proof p = ev \<and>
               validate_integrity E p = Ok ()"
proof (cases "validate_evidence ev")
  case (Inl e)
  then show ?thesis by (simp add: governed_scan_proof_issue_def)
next
  case (Inr u)
  obtain g where g: "proof_digest_from_evidence E ev = Ok g"
    using domain_hash_total [OF assms] unfolding proof_digest_from_evidence_def by blast
  then have "validate_governed_sha256_digest g ''grant id'' = Ok ()"
    unfolding proof_digest_from_evidence_def by (rule domain_hash_digest [OF assms])
  with Inr g show ?thesis
    by (simp add: governed_scan_proof_issue_def validate_integrity_ok validate_evidence_def
        proof_digest_from_evidence_def proof_digest_from_proof_def)
qed

theorem proof_issue_correct_witness:
  "\<exists>p. governed_scan_proof_issue demo_env demo_evidence = Ok p \<and> evidence_of_proof p = demo_evidence \<and>
       validate_integrity demo_env p = Ok ()"
  using proof_issue_correct [OF demo_env_ok, of demo_evidence] by (simp add: demo_proof_valid)

text \<open>
  A valid proof survives its wire form: decoding its JSON returns it.
\<close>

theorem proof_json_roundtrip:
  assumes "validate_integrity E p = Ok ()" and "gp_snapshot_id p < 2 ^ 63"
  shows "governed_scan_proof_from_json E (governed_scan_proof_json p) = Some p"
proof -
  from assms(1) have "canonical_text (gp_catalog_identity p)" "0 \<le> gp_snapshot_id p"
    by (auto simp: validate_integrity_ok validate_fields_def result_simps validate_text_ok
        evidence_of_proof_def split: if_splits)
  moreover have "gp_version p = GOVERNED_SCAN_PROOF_VERSION"
    using assms(1) by (simp add: validate_integrity_ok)
  ultimately show ?thesis
    using assms by (simp add: governed_scan_proof_from_json_def proof_fields_from_json_roundtrip is_ok_unit)
qed

theorem proof_json_roundtrip_witness:
  "governed_scan_proof_from_json demo_env (governed_scan_proof_json demo_proof) = Some demo_proof"
  by (rule proof_json_roundtrip [OF demo_proof_valid(2)])
    (simp add: demo_proof_def proof_of_evidence_def demo_evidence_def)

text \<open>
  Whatever is decoded is a proof whose grant id is the digest of its fields, and its snapshot
  and source-scope digests exist and are canonical.
\<close>

theorem decoded_proof_has_digests:
  assumes "env_ok E" and "governed_scan_proof_from_json E v = Some p"
  shows "validate_integrity E p = Ok () \<and>
    (\<exists>d. governed_scan_digests E p = Ok d \<and>
         validate_governed_sha256_digest (gd_snapshot_digest d) l = Ok () \<and>
         validate_governed_sha256_digest (gd_source_scope_digest d) l' = Ok ())"
proof -
  from assms(2) have valid: "validate_integrity E p = Ok ()"
    by (auto simp: governed_scan_proof_from_json_def is_ok_unit bind_eq_Some_conv split: if_splits)
  obtain s where s: "snapshot_digest_after_validation E p = Ok s"
    using domain_hash_total [OF assms(1)] unfolding snapshot_digest_after_validation_def by blast
  obtain t where t: "source_scope_digest E s (gp_grant_id p) = Ok t"
    using domain_hash_total [OF assms(1)] unfolding source_scope_digest_def by blast
  have "validate_governed_sha256_digest s l = Ok ()" "validate_governed_sha256_digest t l' = Ok ()"
    using s t domain_hash_digest [OF assms(1)]
    unfolding snapshot_digest_after_validation_def source_scope_digest_def by blast+
  with valid s t show ?thesis by (simp add: governed_scan_digests_def)
qed

theorem decoded_proof_has_digests_witness:
  "\<exists>d. governed_scan_digests demo_env demo_proof = Ok d"
proof -
  have "governed_scan_proof_from_json demo_env (governed_scan_proof_json demo_proof) = Some demo_proof"
    using demo_proof_valid(2) demo_canonical(1)
    by (simp add: governed_scan_proof_from_json_def proof_fields_from_json_roundtrip is_ok_unit
        demo_proof_def proof_of_evidence_def demo_evidence_def)
  from decoded_proof_has_digests [OF demo_env_ok this] show ?thesis by blast
qed

text \<open>
  A grant id binds every field. Two valid proofs with the same grant id are equal, unless they
  exhibit a SHA-256 collision or two JSON values with one encoding.
\<close>

theorem grant_id_binds_proof:
  assumes "validate_integrity E p = Ok ()" and "validate_integrity E q = Ok ()"
    and "gp_grant_id p = gp_grant_id q"
  shows "p = q \<or>
    (\<exists>x y. proof_digest_input E p = Inr x \<and> proof_digest_input E q = Inr y \<and> x \<noteq> y \<and>
           sha256_hex E x = sha256_hex E y) \<or>
    (\<exists>v w. v = proof_digest_fields_json (evidence_of_proof p) \<and>
           w = proof_digest_fields_json (evidence_of_proof q) \<and> v \<noteq> w \<and>
           json_encode E v = json_encode E w)"
proof (cases "evidence_of_proof p = evidence_of_proof q")
  case True
  with assms have "p = q" by (intro proof_eqI) (auto simp: validate_integrity_ok)
  then show ?thesis by blast
next
  case False
  then have ne: "proof_digest_fields_json (evidence_of_proof p) \<noteq> proof_digest_fields_json (evidence_of_proof q)"
    using proof_digest_fields_json_inj by blast
  from assms have "proof_digest_from_proof E p = Ok (gp_grant_id p)"
      "proof_digest_from_proof E q = Ok (gp_grant_id p)"
    by (simp_all add: validate_integrity_ok)
  then obtain x y where
    x: "json_encode E (canonicalize_json (proof_digest_fields_json (evidence_of_proof p))) = Inr x"
    and y: "json_encode E (canonicalize_json (proof_digest_fields_json (evidence_of_proof q))) = Inr y"
    and "finalize_json_hash E (PROOF_DOMAIN @ [CHR 0x00] @ x) = finalize_json_hash E (PROOF_DOMAIN @ [CHR 0x00] @ y)"
    unfolding proof_digest_from_proof_def domain_hash_ok by metis
  then have eq: "sha256_hex E (PROOF_DOMAIN @ [CHR 0x00] @ x) = sha256_hex E (PROOF_DOMAIN @ [CHR 0x00] @ y)"
    unfolding finalize_json_hash_eq by blast
  show ?thesis
  proof (cases "x = y")
    case True
    with ne x y show ?thesis by (simp add: canonicalize_json_wf json_wf_proof_fields)
  next
    case False
    with x y eq show ?thesis by (simp add: proof_digest_input_def)
  qed
qed

theorem grant_id_binds_proof_witness:
  "demo_proof = demo_proof \<or>
    (\<exists>x y. proof_digest_input demo_env demo_proof = Inr x \<and> proof_digest_input demo_env demo_proof = Inr y \<and>
           x \<noteq> y \<and> sha256_hex demo_env x = sha256_hex demo_env y) \<or>
    (\<exists>v w. v = proof_digest_fields_json (evidence_of_proof demo_proof) \<and>
           w = proof_digest_fields_json (evidence_of_proof demo_proof) \<and> v \<noteq> w \<and>
           json_encode demo_env v = json_encode demo_env w)"
  by (rule grant_id_binds_proof [OF demo_proof_valid(2) demo_proof_valid(2) refl])

text \<open>
  What a proof's projection may be: not empty, at most 256 distinct canonical texts, 64 KiB in
  all. The running total cannot reach its overflow check first.
\<close>

theorem validate_projection_spec:
  "validate_governed_scan_projection fs = Ok () \<longleftrightarrow>
     fs \<noteq> [] \<and> length fs \<le> 256 \<and> list_all canonical_text fs \<and>
     sum_list (map length fs) \<le> 65536 \<and> distinct fs"
  by (auto simp: validate_governed_scan_projection_def validate_projection_def result_simps
      validate_string_budget_ok usize_max_def MAX_GOVERNED_SCAN_PROJECTION_BYTES_def
      MAX_GOVERNED_SCAN_PROJECTION_FIELDS_def)

text \<open>
  The identity derived for a warehouse is always canonical, however long the name: the
  \<open>debug_assert\<close> in the bounded branch cannot fail.
\<close>

theorem catalog_identity_for_warehouse_canonical:
  assumes "env_ok E" and "valid_name w"
  shows "validate_governed_scan_text (catalog_identity_for_warehouse E w) = Ok ()"
proof (cases "is_ok (validate_governed_scan_text (''lakecat://'' @ w))")
  case True
  then show ?thesis by (simp add: catalog_identity_for_warehouse_def Let_def is_ok_unit)
next
  case False
  let ?b = "''lakecat://warehouse/'' @ content_hash_bytes E w"
  have "length (sha256_hex E w) = 64" "list_all is_lower_hexdigit (sha256_hex E w)"
    using assms(1) by (simp_all add: env_ok_def)
  then have "canonical_text ?b"
    by (intro canonical_text_graphic)
      (auto simp: content_hash_bytes_def MAX_GOVERNED_SCAN_TEXT_BYTES_def list_all_iff
        is_lower_hexdigit_def is_ascii_digit_def)
  with False show ?thesis
    by (simp add: catalog_identity_for_warehouse_def Let_def validate_text_ok)
qed

theorem catalog_identity_for_warehouse_canonical_witness:
  "validate_governed_scan_text (catalog_identity_for_warehouse demo_env (replicate 5000 (CHR ''w''))) = Ok ()"
  by (rule catalog_identity_for_warehouse_canonical [OF demo_env_ok])
    (simp add: valid_name_def list_all_iff name_char_def is_ascii_alphanumeric_def)

end
