(* ===== verification/StoreRecords.thy ===== *)
theory StoreRecords
  imports StoreValidation GovernedScan
begin

section \<open>Catalog records\<close>

text \<open>
  The rows of the catalog store (\<open>crates/lakecat-store/src/records.rs\<close> and \<open>governed_scan.rs\<close>),
  their validation, their JSON forms where a hash or an event payload needs them, the keys they are
  stored under and the checks that a row is stored under its own key (\<open>helpers.rs\<close>). Views and
  their receipts are in \<open>ViewRecords\<close>.
\<close>

subsection \<open>Namespace properties\<close>

type_synonym NamespaceProperties = "(string, string) btree"

record NamespacePropertyUpdate =
  nu_removals :: "string list"
  nu_updates :: "(string, string) btree"

record NamespacePropertyUpdateResult =
  nr_updated :: "string list"
  nr_removed :: "string list"
  nr_missing :: "string list"

definition validate_namespace_property_keys :: "string list \<Rightarrow> unit result" where
  "validate_namespace_property_keys keys =
     (if list_ex (\<lambda>key. key = []) keys then
        Err (InvalidArgument ''namespace property keys must not be empty'')
      else Ok ())"

definition namespace_properties_new :: "(string, string) btree \<Rightarrow> NamespaceProperties result" where
  "namespace_properties_new properties =
     and_then (validate_namespace_property_keys (map fst properties)) (\<lambda>_. Ok properties)"

text \<open>The set of removals is a \<open>BTreeSet\<close>: the sorted list of the distinct keys.\<close>

definition namespace_property_update_new ::
  "string list \<Rightarrow> (string, string) btree \<Rightarrow> NamespacePropertyUpdate result" where
  "namespace_property_update_new removals updates =
     and_then (validate_namespace_property_keys removals) (\<lambda>_.
     and_then (validate_namespace_property_keys (map fst updates)) (\<lambda>_.
     let unique_removals = sort (remdups removals) in
     if length unique_removals \<noteq> length removals then
       Err (InvalidArgument ''namespace property removals must contain unique keys'')
     else case find (\<lambda>key. bt_contains updates key) unique_removals of
       Some overlap \<Rightarrow> Err (UnprocessableEntity (''namespace property key `'' @ overlap @
                        ''` cannot be both removed and updated''))
     | None \<Rightarrow> Ok \<lparr>nu_removals = unique_removals, nu_updates = updates\<rparr>))"

text \<open>The removal loop: the map, the removed keys and the missing keys.\<close>

fun remove_properties ::
  "string list \<Rightarrow> (string, string) btree \<Rightarrow> string list \<Rightarrow> string list \<Rightarrow>
     (string, string) btree \<times> string list \<times> string list" where
  "remove_properties [] properties removed missing = (properties, removed, missing)"
| "remove_properties (key # keys) properties removed missing =
     (if bt_contains properties key
      then remove_properties keys (bt_remove key properties) (removed @ [key]) missing
      else remove_properties keys properties removed (missing @ [key]))"

definition namespace_properties_apply ::
  "NamespaceProperties \<Rightarrow> NamespacePropertyUpdate \<Rightarrow>
     NamespaceProperties \<times> NamespacePropertyUpdateResult" where
  "namespace_properties_apply self update =
     (let (properties, removed, missing) = remove_properties (nu_removals update) self [] []
      in (bt_extend properties (nu_updates update),
          \<lparr>nr_updated = map fst (nu_updates update), nr_removed = removed, nr_missing = missing\<rparr>))"

subsection \<open>Tables\<close>

record TableRecord =
  tr_ident :: TableIdent
  tr_location :: string
  tr_metadata_location :: "string option"
  tr_metadata :: json
  tr_created :: AuditStamp
  tr_updated_at :: int
  tr_version :: "64 word"
  tr_staged :: bool

definition table_record_new ::
  "int \<Rightarrow> TableIdent \<Rightarrow> string \<Rightarrow> string option \<Rightarrow> json \<Rightarrow> Principal \<Rightarrow> TableRecord" where
  "table_record_new now ident location metadata_location metadata p =
     (let created = audit_stamp_now now p in
      \<lparr>tr_ident = ident, tr_location = location, tr_metadata_location = metadata_location,
       tr_metadata = metadata, tr_created = created, tr_updated_at = as_at created,
       tr_version = 0, tr_staged = False\<rparr>)"

definition table_metadata_format_version :: "json \<Rightarrow> int option" where
  "table_metadata_format_version metadata =
     Option.bind (jget metadata ''format-version'') (\<lambda>v.
     Option.bind (as_i64 v) (\<lambda>n. if - (2 ^ 31) \<le> n \<and> n < 2 ^ 31 then Some n else None))"

definition validate_table_metadata_format_version :: "json \<Rightarrow> string \<Rightarrow> unit result" where
  "validate_table_metadata_format_version metadata label =
     (case table_metadata_format_version metadata of
        None \<Rightarrow> Err (InvalidArgument (label @ '' format-version must be present''))
      | Some format_version \<Rightarrow>
          if format_version \<le> 0 then Err (InvalidArgument (label @ '' format-version must be positive''))
          else Ok ())"

definition blank_opt :: "string option \<Rightarrow> bool" where
  "blank_opt location = (case location of None \<Rightarrow> False | Some l \<Rightarrow> blank l)"

definition table_record_validate :: "TableRecord \<Rightarrow> unit result" where
  "table_record_validate t =
     (if blank (tr_location t) then Err (InvalidArgument ''table location must not be empty'')
      else if blank_opt (tr_metadata_location t) then
        Err (InvalidArgument ''table metadata location must not be empty when present'')
      else if \<not> is_object (tr_metadata t) then
        Err (InvalidArgument ''table metadata must be a JSON object'')
      else validate_table_metadata_format_version (tr_metadata t) ''table metadata'')"

record TableCommitSnapshot =
  cs_ident :: TableIdent
  cs_location :: string
  cs_metadata_location :: "string option"
  cs_created :: AuditStamp
  cs_updated_at :: int
  cs_version :: "64 word"
  cs_staged :: bool

definition commit_snapshot_try_from_table :: "TableRecord \<Rightarrow> TableCommitSnapshot result" where
  "commit_snapshot_try_from_table t =
     and_then (table_record_validate t) (\<lambda>_.
       Ok \<lparr>cs_ident = tr_ident t, cs_location = tr_location t,
           cs_metadata_location = tr_metadata_location t, cs_created = tr_created t,
           cs_updated_at = tr_updated_at t, cs_version = tr_version t, cs_staged = tr_staged t\<rparr>)"

record TableCommit =
  tc_requirements :: "json list"
  tc_updates :: "json list"
  tc_expected_previous_metadata_location :: "string option"
  tc_new_metadata_location :: "string option"
  tc_new_metadata :: "json option"
  tc_idempotency_key :: "string option"
  tc_idempotency_request_hash :: "string option"
  tc_principal :: Principal
  tc_authorization_receipt :: "json option"

definition table_commit_validate :: "TableCommit \<Rightarrow> unit result" where
  "table_commit_validate c =
     and_then
       (case tc_idempotency_key c of
          Some key \<Rightarrow> validate_idempotency_key_shape key
        | None \<Rightarrow>
            if tc_idempotency_request_hash c \<noteq> None then
              Err (InvalidArgument ''table commit idempotency request hash requires an idempotency key'')
            else Ok ()) (\<lambda>_.
     and_then
       (case tc_idempotency_request_hash c of
          Some hash \<Rightarrow> validate_idempotency_request_hash_shape hash
        | None \<Rightarrow> Ok ()) (\<lambda>_.
     if blank_opt (tc_expected_previous_metadata_location c) then
       Err (InvalidArgument ''expected table metadata location must not be empty when present'')
     else if blank_opt (tc_new_metadata_location c) then
       Err (InvalidArgument ''new table metadata location must not be empty when present'')
     else case tc_new_metadata c of
       Some metadata \<Rightarrow>
         if \<not> is_object metadata then
           Err (InvalidArgument ''new table metadata must be a JSON object'')
         else validate_table_metadata_format_version metadata ''new table metadata''
     | None \<Rightarrow> Ok ()))"

record TableCommitRecord =
  cr_table :: TableIdent
  cr_previous_metadata_location :: "string option"
  cr_new_metadata_location :: "string option"
  cr_sequence_number :: "64 word"
  cr_principal :: Principal
  cr_format_version :: "int option"
  cr_snapshot_id :: "int option"
  cr_policy_hash :: "string option"
  cr_request_hash :: string
  cr_response_hash :: string
  cr_idempotency_key_sha256 :: "string option"
  cr_committed_at :: int

definition validate_commit_record_metadata_location ::
  "env \<Rightarrow> string option \<Rightarrow> string \<Rightarrow> unit result" where
  "validate_commit_record_metadata_location E location label =
     (case location of
        None \<Rightarrow> Ok ()
      | Some l \<Rightarrow>
          if location_has_query_fragment_or_userinfo E l then
            Err (Internal (''table commit record '' @ label @
              '' metadata location must not contain decorated location material; metadata-location-hash='' @
              content_hash_bytes E l))
          else if embeds_raw_secret_material l then
            Err (Internal (''table commit record '' @ label @
              '' metadata location must not contain credential material; metadata-location-hash='' @
              content_hash_bytes E l))
          else Ok ())"

definition validate_sha256_option :: "string option \<Rightarrow> string \<Rightarrow> unit result" where
  "validate_sha256_option value message =
     (case value of None \<Rightarrow> Ok () | Some v \<Rightarrow> validate_sha256_evidence v message)"

definition commit_record_validate_for_table ::
  "env \<Rightarrow> TableCommitRecord \<Rightarrow> TableIdent \<Rightarrow> unit result" where
  "commit_record_validate_for_table E r ident =
     (if cr_table r \<noteq> ident then
        Err (Internal ''table commit record table does not match requested table'')
      else if cr_sequence_number r = 0 then
        Err (Internal ''table commit record sequence number must be positive'')
      else if blank_opt (cr_previous_metadata_location r) then
        Err (Internal ''table commit record previous metadata location must not be empty when present'')
      else if blank_opt (cr_new_metadata_location r) then
        Err (Internal ''table commit record new metadata location must not be empty when present'')
      else
        and_then (validate_commit_record_metadata_location E (cr_previous_metadata_location r) ''previous'') (\<lambda>_.
        and_then (validate_commit_record_metadata_location E (cr_new_metadata_location r) ''new'') (\<lambda>_.
        and_then
          (case cr_format_version r of
             None \<Rightarrow> Err (Internal ''table commit record format version must be present'')
           | Some v \<Rightarrow> if v \<le> 0 then Err (Internal ''table commit record format version must be positive'')
                       else Ok ()) (\<lambda>_.
        and_then
          (case cr_snapshot_id r of
             None \<Rightarrow> Err (Internal ''table commit record snapshot id must be present'')
           | Some v \<Rightarrow> if v < 0 then Err (Internal ''table commit record snapshot id must be non-negative'')
                       else Ok ()) (\<lambda>_.
        and_then (validate_sha256_evidence (cr_request_hash r)
          ''table commit record request hash must be full SHA-256 evidence'') (\<lambda>_.
        and_then (validate_sha256_evidence (cr_response_hash r)
          ''table commit record response hash must be full SHA-256 evidence'') (\<lambda>_.
        and_then (validate_sha256_option (cr_idempotency_key_sha256 r)
          ''table commit record idempotency key hash must be full SHA-256 evidence'') (\<lambda>_.
        validate_sha256_option (cr_policy_hash r)
          ''table commit record policy hash must be full SHA-256 evidence''))))))))"

definition table_commit_format_version :: "TableRecord \<Rightarrow> int option" where
  "table_commit_format_version t = table_metadata_format_version (tr_metadata t)"

definition normalize_table_commit_snapshot_id :: "int option \<Rightarrow> int option" where
  "normalize_table_commit_snapshot_id snapshot_id =
     (if snapshot_id = Some (- 1) then Some 0 else snapshot_id)"

definition table_commit_snapshot_id :: "TableRecord \<Rightarrow> int option" where
  "table_commit_snapshot_id t =
     normalize_table_commit_snapshot_id
       (Some (case Option.bind (jget (tr_metadata t) ''current-snapshot-id'') as_i64 of
                None \<Rightarrow> 0 | Some n \<Rightarrow> n))"

definition table_commit_policy_hash :: "json option \<Rightarrow> string option" where
  "table_commit_policy_hash authorization_receipt =
     Option.bind authorization_receipt (\<lambda>receipt.
     Option.bind (jget receipt ''policy_hash'') as_str)"

definition table_record_json :: "env \<Rightarrow> TableRecord \<Rightarrow> json" where
  "table_record_json E t =
     jobj [(''ident'', ident_json (tr_ident t)), (''location'', JStr (tr_location t)),
           (''metadata_location'', jopt JStr (tr_metadata_location t)), (''metadata'', tr_metadata t),
           (''created'', audit_stamp_json E (tr_created t)),
           (''updated_at'', JStr (dt_json E (tr_updated_at t))),
           (''version'', ju64 (tr_version t)), (''staged'', JBool (tr_staged t))]"

definition table_response_hash :: "env \<Rightarrow> TableRecord \<Rightarrow> string result" where
  "table_response_hash E t = content_hash_json E (table_record_json E t)"

definition commit_record_json :: "env \<Rightarrow> TableCommitRecord \<Rightarrow> json" where
  "commit_record_json E r =
     jobj ([(''table'', ident_json (cr_table r)),
            (''previous_metadata_location'', jopt JStr (cr_previous_metadata_location r)),
            (''new_metadata_location'', jopt JStr (cr_new_metadata_location r)),
            (''sequence_number'', ju64 (cr_sequence_number r)),
            (''principal'', principal_json (cr_principal r))] @
           jskip ''format_version'' JInt (cr_format_version r) @
           jskip ''snapshot_id'' JInt (cr_snapshot_id r) @
           jskip ''policy_hash'' JStr (cr_policy_hash r) @
           [(''request_hash'', JStr (cr_request_hash r)),
            (''response_hash'', JStr (cr_response_hash r))] @
           jskip ''idempotency_key_sha256'' JStr (cr_idempotency_key_sha256 r) @
           [(''committed_at'', JStr (dt_json E (cr_committed_at r)))])"

subsection \<open>Soft deletes\<close>

record SoftDeleteRecord =
  sd_table :: TableIdent
  sd_metadata_location :: "string option"
  sd_version :: "64 word"
  sd_format_version :: "int option"
  sd_principal :: Principal
  sd_authorization_receipt :: "json option"
  sd_deleted_at :: int

definition soft_delete_validate_for_table ::
  "SoftDeleteRecord \<Rightarrow> TableIdent \<Rightarrow> TableRecord \<Rightarrow> unit result" where
  "soft_delete_validate_for_table d ident t =
     and_then (table_record_validate t) (\<lambda>_.
     if sd_table d \<noteq> ident then
       Err (InvalidArgument ''soft-delete record table does not match requested table'')
     else if tr_ident t \<noteq> ident then
       Err (InvalidArgument ''soft-delete table record does not match requested table'')
     else if blank_opt (sd_metadata_location d) then
       Err (InvalidArgument ''soft-delete metadata location must not be empty when present'')
     else if sd_metadata_location d \<noteq> tr_metadata_location t then
       Err (InvalidArgument ''soft-delete metadata location does not match table record'')
     else if sd_version d \<noteq> tr_version t then
       Err (InvalidArgument ''soft-delete version does not match table record'')
     else case sd_format_version d of
       None \<Rightarrow> Err (InvalidArgument ''soft-delete format version must be present'')
     | Some v \<Rightarrow>
         if v \<le> 0 then Err (InvalidArgument ''soft-delete format version must be positive'')
         else if sd_format_version d \<noteq> table_commit_format_version t then
           Err (InvalidArgument ''soft-delete format version does not match table record'')
         else (case sd_authorization_receipt d of
             None \<Rightarrow> Ok ()
           | Some receipt \<Rightarrow>
               if \<not> is_object receipt then
                 Err (InvalidArgument ''soft-delete authorization receipt must be a JSON object when present'')
               else Ok ()))"

definition soft_delete_json :: "env \<Rightarrow> SoftDeleteRecord \<Rightarrow> json" where
  "soft_delete_json E d =
     jobj ([(''table'', ident_json (sd_table d)),
            (''metadata-location'', jopt JStr (sd_metadata_location d)),
            (''version'', ju64 (sd_version d))] @
           jskip ''format-version'' JInt (sd_format_version d) @
           [(''principal'', principal_json (sd_principal d)),
            (''authorization-receipt'', jopt (\<lambda>v. v) (sd_authorization_receipt d)),
            (''deleted-at'', JStr (dt_json E (sd_deleted_at d)))])"

subsection \<open>Servers, projects and warehouses\<close>

record ServerRecord =
  sv_server_id :: string
  sv_display_name :: "string option"
  sv_endpoint_url :: "string option"
  sv_properties :: "(string, string) btree"
  sv_created :: AuditStamp
  sv_updated_at :: int

record ProjectRecord =
  pj_project_id :: string
  pj_server_id :: "string option"
  pj_display_name :: "string option"
  pj_properties :: "(string, string) btree"
  pj_created :: AuditStamp
  pj_updated_at :: int

record WarehouseRecord =
  wr_warehouse :: WarehouseName
  wr_project_id :: string
  wr_storage_root :: "string option"
  wr_properties :: "(string, string) btree"
  wr_created :: AuditStamp
  wr_updated_at :: int

definition server_validate :: "env \<Rightarrow> ServerRecord \<Rightarrow> unit result" where
  "server_validate E r =
     and_then (validate_project_id E (sv_server_id r)) (\<lambda>_.
     if blank_opt (sv_display_name r) then
       Err (InvalidArgument ''server display name must not be empty'')
     else if blank_opt (sv_endpoint_url r) then
       Err (InvalidArgument ''server endpoint URL must not be empty'')
     else and_then
       (case sv_endpoint_url r of None \<Rightarrow> Ok () | Some u \<Rightarrow> validate_server_endpoint_url E u) (\<lambda>_.
     validate_public_config E (sv_properties r)))"

definition project_validate :: "env \<Rightarrow> ProjectRecord \<Rightarrow> unit result" where
  "project_validate E r =
     and_then (validate_project_id E (pj_project_id r)) (\<lambda>_.
     and_then (case pj_server_id r of None \<Rightarrow> Ok () | Some s \<Rightarrow> validate_project_id E s) (\<lambda>_.
     if blank_opt (pj_display_name r) then
       Err (InvalidArgument ''project display name must not be empty'')
     else validate_public_config E (pj_properties r)))"

definition warehouse_validate :: "env \<Rightarrow> WarehouseRecord \<Rightarrow> unit result" where
  "warehouse_validate E r =
     and_then (validate_project_id E (wr_project_id r)) (\<lambda>_.
     if blank_opt (wr_storage_root r) then
       Err (InvalidArgument ''warehouse storage root must not be empty'')
     else and_then
       (case wr_storage_root r of None \<Rightarrow> Ok () | Some s \<Rightarrow> validate_warehouse_storage_root_path E s) (\<lambda>_.
     validate_public_config E (wr_properties r)))"

definition server_new ::
  "env \<Rightarrow> int \<Rightarrow> string \<Rightarrow> string option \<Rightarrow> string option \<Rightarrow> (string, string) btree \<Rightarrow> Principal \<Rightarrow>
     ServerRecord result" where
  "server_new E now server_id display_name endpoint_url properties p =
     (let created = audit_stamp_now now p;
          r = \<lparr>sv_server_id = server_id, sv_display_name = display_name,
               sv_endpoint_url = endpoint_url, sv_properties = properties, sv_created = created,
               sv_updated_at = as_at created\<rparr>
      in and_then (server_validate E r) (\<lambda>_. Ok r))"

definition project_new ::
  "env \<Rightarrow> int \<Rightarrow> string \<Rightarrow> string option \<Rightarrow> string option \<Rightarrow> (string, string) btree \<Rightarrow> Principal \<Rightarrow>
     ProjectRecord result" where
  "project_new E now project_id server_id display_name properties p =
     (let created = audit_stamp_now now p;
          r = \<lparr>pj_project_id = project_id, pj_server_id = server_id,
               pj_display_name = display_name, pj_properties = properties, pj_created = created,
               pj_updated_at = as_at created\<rparr>
      in and_then (project_validate E r) (\<lambda>_. Ok r))"

definition warehouse_new ::
  "env \<Rightarrow> int \<Rightarrow> WarehouseName \<Rightarrow> string \<Rightarrow> string option \<Rightarrow> (string, string) btree \<Rightarrow> Principal \<Rightarrow>
     WarehouseRecord result" where
  "warehouse_new E now warehouse project_id storage_root properties p =
     (let created = audit_stamp_now now p;
          r = \<lparr>wr_warehouse = warehouse, wr_project_id = project_id,
               wr_storage_root = storage_root, wr_properties = properties, wr_created = created,
               wr_updated_at = as_at created\<rparr>
      in and_then (warehouse_validate E r) (\<lambda>_. Ok r))"

subsection \<open>Storage profiles\<close>

record StorageProfile =
  sp_profile_id :: string
  sp_warehouse :: WarehouseName
  sp_location_prefix :: string
  sp_provider :: StorageProvider
  sp_issuance_mode :: CredentialIssuanceMode
  sp_secret_ref :: "string option"
  sp_public_config :: "(string, string) btree"

definition storage_profile_validate :: "env \<Rightarrow> StorageProfile \<Rightarrow> unit result" where
  "storage_profile_validate E p =
     and_then (validate_profile_id E (sp_profile_id p)) (\<lambda>_.
     and_then (validate_location_prefix_path E (sp_location_prefix p)) (\<lambda>_.
     and_then (validate_location_prefix_provider E (sp_location_prefix p) (sp_provider p)) (\<lambda>_.
     and_then (validate_issuance_mode_provider E (sp_issuance_mode p) (sp_provider p) (sp_location_prefix p)) (\<lambda>_.
     and_then (case sp_secret_ref p of None \<Rightarrow> Ok () | Some s \<Rightarrow> validate_secret_ref E s) (\<lambda>_.
     and_then (validate_secret_ref_issuance_mode E (sp_secret_ref p) (sp_issuance_mode p)) (\<lambda>_.
     if sp_issuance_mode p = ShortLivedSecretRef \<and> sp_secret_ref p = None then
       Err (InvalidArgument ''short-lived-secret-ref issuance mode requires a secret reference'')
     else validate_storage_profile_public_config E (sp_public_config p)))))))"

definition storage_profile_new ::
  "env \<Rightarrow> string \<Rightarrow> WarehouseName \<Rightarrow> string \<Rightarrow> StorageProvider \<Rightarrow> CredentialIssuanceMode \<Rightarrow>
     string option \<Rightarrow> (string, string) btree \<Rightarrow> StorageProfile result" where
  "storage_profile_new E profile_id warehouse location_prefix provider issuance_mode secret_ref public_config =
     and_then (validate_profile_id E profile_id) (\<lambda>_.
     if blank location_prefix then
       Err (InvalidArgument ''storage profile location prefix must not be empty'')
     else
     and_then (validate_location_prefix_path E location_prefix) (\<lambda>_.
     and_then (validate_location_prefix_provider E location_prefix provider) (\<lambda>_.
     and_then (validate_issuance_mode_provider E issuance_mode provider location_prefix) (\<lambda>_.
     and_then (case secret_ref of None \<Rightarrow> Ok () | Some s \<Rightarrow> validate_secret_ref E s) (\<lambda>_.
     and_then (validate_secret_ref_issuance_mode E secret_ref issuance_mode) (\<lambda>_.
     if issuance_mode = ShortLivedSecretRef \<and> secret_ref = None then
       Err (InvalidArgument ''short-lived-secret-ref issuance mode requires a secret reference'')
     else and_then (validate_storage_profile_public_config E public_config) (\<lambda>_.
       Ok \<lparr>sp_profile_id = profile_id, sp_warehouse = warehouse,
           sp_location_prefix = location_prefix, sp_provider = provider,
           sp_issuance_mode = issuance_mode, sp_secret_ref = secret_ref,
           sp_public_config = public_config\<rparr>)))))))"

definition bool_str :: "bool \<Rightarrow> string" where
  "bool_str b = (if b then ''true'' else ''false'')"

definition storage_profile_inferred_for_table :: "TableRecord \<Rightarrow> StorageProfile" where
  "storage_profile_inferred_for_table t =
     (let provider = storage_provider_from_location (tr_location t);
          issuance_mode = (if provider = File then LocalFileNoSecret else GovernedReadRequired);
          public_config = bt_from
            [(''lakecat.credential-mode'', issuance_mode_as_str issuance_mode),
             (''lakecat.storage-provider'', storage_provider_as_str provider),
             (''lakecat.governed-read-required'', bool_str (issuance_mode = GovernedReadRequired))]
      in \<lparr>sp_profile_id = ti_warehouse (tr_ident t) @ '':'' @ storage_provider_as_str provider,
          sp_warehouse = ti_warehouse (tr_ident t),
          sp_location_prefix = tr_location t, sp_provider = provider,
          sp_issuance_mode = issuance_mode, sp_secret_ref = None,
          sp_public_config = public_config\<rparr>)"

definition can_return_public_credential :: "StorageProfile \<Rightarrow> bool" where
  "can_return_public_credential p \<longleftrightarrow> sp_issuance_mode p = LocalFileNoSecret"

end
