(* ===== verification/StoreEvents.thy ===== *)
theory StoreEvents
  imports StoreRecords
begin

section \<open>Audit events and the outbox\<close>

text \<open>
  \<open>CatalogAuditEvent\<close> and \<open>OutboxEvent\<close> of \<open>records.rs\<close> and the event helpers of \<open>helpers.rs\<close>:
  an outbox event's id is the hash of its payload, an audit event's request hash that of its own;
  \<open>validate_pending\<close> and \<open>validate_recordable\<close> recheck both before an event is delivered or kept.
\<close>

record OutboxEvent =
  oe_event_id :: string
  oe_sink :: string
  oe_event_type :: string
  oe_payload :: json
  oe_created_at :: int
  oe_delivered_at :: "int option"

record CatalogAuditEvent =
  ae_event_type :: string
  ae_table :: "TableIdent option"
  ae_principal :: Principal
  ae_request_hash :: "string option"
  ae_payload :: json
  ae_created_at :: int

subsection \<open>Pending events\<close>

definition validate_pending :: "env \<Rightarrow> OutboxEvent \<Rightarrow> unit result" where
  "validate_pending E ev =
     (let event_id_hash = content_hash_bytes E (oe_event_id ev);
          event_type_hash = content_hash_bytes E (oe_event_type ev) in
      and_then (content_hash_json E (oe_payload ev)) (\<lambda>payload_hash.
      let context = ''; event-id-hash='' @ event_id_hash @ ''; event-type-hash='' @ event_type_hash @
                    ''; payload-hash='' @ payload_hash in
      if oe_delivered_at ev \<noteq> None then
        Err (Internal (''pending outbox event must not already be delivered'' @ context))
      else if blank (oe_sink ev) then
        Err (Internal (''pending outbox event sink must not be empty'' @ context))
      else if blank (oe_event_type ev) then
        Err (Internal (''pending outbox event type must not be empty'' @ context))
      else case Option.bind (jget (oe_payload ev) ''event-type'') as_str of
        None \<Rightarrow> Err (Internal (''pending outbox payload missing event-type'' @ context))
      | Some payload_event_type \<Rightarrow>
          let type_context = ''; event-id-hash='' @ event_id_hash @ ''; event-type-hash='' @
                event_type_hash @ ''; payload-event-type-hash='' @
                content_hash_bytes E payload_event_type @ ''; payload-hash='' @ payload_hash in
          if blank payload_event_type then
            Err (Internal (''pending outbox payload event-type must not be empty'' @ type_context))
          else if payload_event_type \<noteq> oe_event_type ev then
            Err (Internal (''pending outbox event type does not match payload'' @ type_context))
          else if oe_event_id ev \<noteq> payload_hash then
            Err (Internal (''pending outbox event id does not match payload hash'' @ context))
          else Ok ()))"

definition outbox_sink :: string where
  "outbox_sink = ''lakecat.lineage-and-graph''"

definition outbox_event_from_payload :: "env \<Rightarrow> json \<Rightarrow> int \<Rightarrow> OutboxEvent result" where
  "outbox_event_from_payload E payload created_at =
     and_then (ok_or (Internal ''outbox payload missing event-type'')
                (as_str (jindex payload ''event-type''))) (\<lambda>event_type.
     and_then (content_hash_json E payload) (\<lambda>event_id.
     Ok \<lparr>oe_event_id = event_id, oe_sink = outbox_sink, oe_event_type = event_type,
         oe_payload = payload, oe_created_at = created_at, oe_delivered_at = None\<rparr>))"

subsection \<open>Audit events\<close>

definition audit_event_new ::
  "env \<Rightarrow> int \<Rightarrow> string \<Rightarrow> TableIdent option \<Rightarrow> Principal \<Rightarrow> json \<Rightarrow> CatalogAuditEvent result" where
  "audit_event_new E now event_type table p payload =
     and_then (content_hash_json E payload) (\<lambda>request_hash.
       Ok \<lparr>ae_event_type = event_type, ae_table = table, ae_principal = p,
           ae_request_hash = Some request_hash, ae_payload = payload, ae_created_at = now\<rparr>)"

definition validate_audit_payload_authorization_principal :: "json \<Rightarrow> Principal \<Rightarrow> unit result" where
  "validate_audit_payload_authorization_principal payload p =
     (case jget payload ''authorization-receipt'' of
        None \<Rightarrow> Ok ()
      | Some receipt \<Rightarrow>
          and_then (ok_or (InvalidArgument ''audit event authorization receipt action is required'')
                     (Option.bind (jget receipt ''action'') as_str)) (\<lambda>action.
          if blank action then
            Err (InvalidArgument ''audit event authorization receipt action must not be empty'')
          else case jget receipt ''principal'' of
            None \<Rightarrow> Ok ()
          | Some receipt_principal \<Rightarrow>
              and_then (ok_or (InvalidArgument ''audit event authorization receipt principal is malformed'')
                         (principal_from_json receipt_principal)) (\<lambda>receipt_principal'.
              if receipt_principal' \<noteq> p then
                Err (InvalidArgument ''audit event authorization receipt principal does not match event principal'')
              else Ok ())))"

definition audit_payload_namespace_matches :: "json \<Rightarrow> Namespace \<Rightarrow> bool" where
  "audit_payload_namespace_matches payload_namespace ns =
     (case as_str payload_namespace of
        Some namespace_path' \<Rightarrow> namespace_path' = namespace_path ns
      | None \<Rightarrow>
          (case as_array payload_namespace of
             None \<Rightarrow> False
           | Some parts \<Rightarrow>
               let payload_parts = List.map_filter as_str parts in
               length payload_parts = length parts \<and> payload_parts = ns))"

definition validate_audit_payload_table_scope :: "json \<Rightarrow> TableIdent \<Rightarrow> unit result" where
  "validate_audit_payload_table_scope payload table =
     (case jget payload ''table'' of
        None \<Rightarrow> Err (InvalidArgument ''audit event payload missing table scope'')
      | Some payload_table \<Rightarrow>
          if is_object payload_table then
            and_then (ok_or (InvalidArgument ''audit event payload table scope is malformed'')
                       (ident_from_json payload_table)) (\<lambda>payload_table'.
            if payload_table' \<noteq> table then
              Err (InvalidArgument ''audit event payload table scope does not match event table'')
            else Ok ())
          else case as_str payload_table of
            None \<Rightarrow> Err (InvalidArgument ''audit event payload table scope is malformed'')
          | Some payload_table_name \<Rightarrow>
              if payload_table_name \<noteq> ti_name table then
                Err (InvalidArgument ''audit event payload table scope does not match event table'')
              else
                and_then (ok_or (InvalidArgument ''audit event payload missing warehouse scope for table'')
                           (Option.bind (jget payload ''warehouse'') as_str)) (\<lambda>payload_warehouse.
                if payload_warehouse \<noteq> ti_warehouse table then
                  Err (InvalidArgument ''audit event payload warehouse scope does not match event table'')
                else
                  and_then (ok_or (InvalidArgument ''audit event payload missing namespace scope for table'')
                             (jget payload ''namespace'')) (\<lambda>payload_namespace.
                  if \<not> audit_payload_namespace_matches payload_namespace (ti_namespace table) then
                    Err (InvalidArgument ''audit event payload namespace scope does not match event table'')
                  else Ok ())))"

definition validate_recordable :: "env \<Rightarrow> CatalogAuditEvent \<Rightarrow> unit result" where
  "validate_recordable E ev =
     (if blank (ae_event_type ev) then Err (InvalidArgument ''audit event type must not be empty'')
      else
        and_then (ok_or (InvalidArgument ''audit event payload missing event-type'')
                   (Option.bind (jget (ae_payload ev) ''event-type'') as_str)) (\<lambda>payload_event_type.
        if payload_event_type \<noteq> ae_event_type ev then
          Err (InvalidArgument ''audit event type does not match payload'')
        else
          and_then (ok_or (InvalidArgument ''audit event request hash is required'')
                     (ae_request_hash ev)) (\<lambda>request_hash.
          and_then (content_hash_json E (ae_payload ev)) (\<lambda>payload_hash.
          if request_hash \<noteq> payload_hash then
            Err (InvalidArgument ''audit event request hash does not match payload'')
          else
            and_then (validate_audit_payload_authorization_principal (ae_payload ev) (ae_principal ev)) (\<lambda>_.
            case ae_table ev of
              None \<Rightarrow> Ok ()
            | Some table \<Rightarrow> validate_audit_payload_table_scope (ae_payload ev) table)))))"

definition audit_event_id :: "env \<Rightarrow> CatalogAuditEvent \<Rightarrow> string result" where
  "audit_event_id E ev =
     content_hash_json E
       (jobj [(''event-type'', JStr (ae_event_type ev)), (''table'', jopt ident_json (ae_table ev)),
              (''principal'', principal_json (ae_principal ev)),
              (''request-hash'', jopt JStr (ae_request_hash ev)), (''payload'', ae_payload ev),
              (''created-at'', JStr (dt_rfc3339 E (ae_created_at ev)))])"

definition audit_outbox_payload :: "string \<Rightarrow> CatalogAuditEvent \<Rightarrow> json" where
  "audit_outbox_payload event_id ev =
     jobj ([(''audit-event-id'', JStr event_id), (''event-type'', JStr (ae_event_type ev))] @
           jskip ''table'' ident_json (ae_table ev) @
           [(''payload'', ae_payload ev)])"

definition table_rename_payload :: "TableIdent \<Rightarrow> TableRecord \<Rightarrow> json option \<Rightarrow> json" where
  "table_rename_payload source t authorization_receipt =
     jobj ([(''event-type'', JStr ''table.renamed''), (''table'', ident_json (tr_ident t)),
            (''source'', ident_json source), (''destination'', ident_json (tr_ident t)),
            (''metadata-location'', jopt JStr (tr_metadata_location t)),
            (''format-version'', jopt JInt (table_commit_format_version t)),
            (''version'', ju64 (tr_version t))] @
           jskip ''authorization-receipt'' (\<lambda>v. v) authorization_receipt)"

definition table_rename_events ::
  "env \<Rightarrow> TableIdent \<Rightarrow> TableRecord \<Rightarrow> Principal \<Rightarrow> json option \<Rightarrow> int \<Rightarrow>
     (CatalogAuditEvent \<times> OutboxEvent) result" where
  "table_rename_events E source t p authorization_receipt renamed_at =
     (let payload = table_rename_payload source t authorization_receipt in
      and_then (content_hash_json E payload) (\<lambda>request_hash.
      let audit_event = \<lparr>ae_event_type = ''table.renamed'', ae_table = Some (tr_ident t),
                         ae_principal = p, ae_request_hash = Some request_hash,
                         ae_payload = payload, ae_created_at = renamed_at\<rparr> in
      and_then (validate_recordable E audit_event) (\<lambda>_.
      and_then (audit_event_id E audit_event) (\<lambda>event_id.
      and_then (outbox_event_from_payload E (audit_outbox_payload event_id audit_event) renamed_at) (\<lambda>outbox_event.
      Ok (audit_event, outbox_event))))))"

subsection \<open>Facts\<close>

text \<open>An event built from a payload with a nonblank type validates as pending until delivered.\<close>

definition well_formed_event :: "env \<Rightarrow> OutboxEvent \<Rightarrow> bool" where
  "well_formed_event E ev \<longleftrightarrow>
     \<not> blank (oe_sink ev) \<and> \<not> blank (oe_event_type ev) \<and>
     Option.bind (jget (oe_payload ev) ''event-type'') as_str = Some (oe_event_type ev) \<and>
     content_hash_json E (oe_payload ev) = Ok (oe_event_id ev)"

lemma validate_pending_ok:
  "validate_pending E ev = Ok () \<longleftrightarrow> oe_delivered_at ev = None \<and> well_formed_event E ev"
  by (auto simp: validate_pending_def well_formed_event_def Let_def result_simps
      simp del: append.simps split: if_splits option.splits)

lemma outbox_sink_not_blank: "\<not> blank outbox_sink"
proof -
  have "trim outbox_sink = outbox_sink"
    by (rule trim_graphic) (auto simp: outbox_sink_def)
  then show ?thesis by (simp add: outbox_sink_def)
qed

lemma outbox_event_from_payload_ok:
  "outbox_event_from_payload E payload at = Ok ev \<longleftrightarrow>
     (\<exists>ty h. jget payload ''event-type'' = Some (JStr ty) \<and> content_hash_json E payload = Ok h \<and>
        ev = \<lparr>oe_event_id = h, oe_sink = outbox_sink, oe_event_type = ty, oe_payload = payload,
              oe_created_at = at, oe_delivered_at = None\<rparr>)"
  by (auto simp: outbox_event_from_payload_def result_simps jindex_def split: option.splits)

lemma outbox_event_from_payload_well_formed:
  "outbox_event_from_payload E payload at = Ok ev \<Longrightarrow>
   jget payload ''event-type'' = Some (JStr ty) \<Longrightarrow> \<not> blank ty \<Longrightarrow>
   well_formed_event E ev \<and> oe_delivered_at ev = None \<and> oe_created_at ev = at"
  by (auto simp: outbox_event_from_payload_ok well_formed_event_def outbox_sink_not_blank)

lemma outbox_event_from_payload_total:
  "env_ok E \<Longrightarrow> jget payload ''event-type'' = Some (JStr ty) \<Longrightarrow>
   \<exists>ev. outbox_event_from_payload E payload at = Ok ev"
  using content_hash_json_total [of E payload] by (auto simp: outbox_event_from_payload_ok)

end
