(* ===== verification/StoreScopes.thy ===== *)
theory StoreScopes
  imports StoreEvents
begin

section \<open>Keys and row scopes\<close>

text \<open>
  The keys rows are stored under (\<open>helpers.rs\<close>), policy bindings, model publications and governed
  scan grants (\<open>records.rs\<close>, \<open>governed_scan.rs\<close>), and the checks that a row found under a key is the
  row of that key. The unit separator U+001F joins the parts of table and view keys.
\<close>

subsection \<open>Keys\<close>

definition table_key :: "TableIdent \<Rightarrow> string" where
  "table_key ident =
     ti_warehouse ident @ [CHR 0x1F] @ storage_key (ti_namespace ident) @ [CHR 0x1F] @ ti_name ident"

definition table_ident :: "string \<Rightarrow> string \<Rightarrow> string \<Rightarrow> TableIdent result" where
  "table_ident warehouse namespace table =
     and_then (warehouse_name_new warehouse) (\<lambda>w.
     and_then (namespace_from_str namespace) (\<lambda>ns.
     and_then (table_name_new table) (\<lambda>n.
     Ok \<lparr>ti_warehouse = w, ti_namespace = ns, ti_name = n\<rparr>)))"

definition storage_profile_key :: "WarehouseName \<Rightarrow> string \<Rightarrow> string" where
  "storage_profile_key warehouse profile_id = warehouse @ '':'' @ profile_id"

definition policy_binding_key :: "WarehouseName \<Rightarrow> string \<Rightarrow> string" where
  "policy_binding_key warehouse policy_id = warehouse @ '':'' @ policy_id"

definition model_publication_key :: "WarehouseName \<Rightarrow> string \<Rightarrow> string" where
  "model_publication_key warehouse model_id = warehouse @ '':'' @ model_id"

definition view_key_parts :: "WarehouseName \<Rightarrow> Namespace \<Rightarrow> TableName \<Rightarrow> string" where
  "view_key_parts warehouse ns name = warehouse @ [CHR 0x1F] @ storage_key ns @ [CHR 0x1F] @ name"

definition idempotency_key_for :: "TableIdent \<Rightarrow> string \<Rightarrow> string" where
  "idempotency_key_for ident key = table_stable_id ident @ '':'' @ key"

subsection \<open>Errors\<close>

definition optional_location_hash :: "env \<Rightarrow> string option \<Rightarrow> string" where
  "optional_location_hash E location =
     (case location of None \<Rightarrow> ''null'' | Some l \<Rightarrow> content_hash_bytes E l)"

definition metadata_pointer_conflict ::
  "env \<Rightarrow> TableIdent \<Rightarrow> string option \<Rightarrow> string option \<Rightarrow> error" where
  "metadata_pointer_conflict E ident expected actual =
     Conflict (''metadata pointer changed for '' @ table_stable_id ident @
       ''; expected-metadata-location-hash='' @ optional_location_hash E expected @
       ''; actual-metadata-location-hash='' @ optional_location_hash E actual)"

definition namespace_not_found :: "Namespace \<Rightarrow> error" where
  "namespace_not_found ns = NotFound ''namespace'' (namespace_path ns)"

definition namespace_not_empty :: "Namespace \<Rightarrow> string \<Rightarrow> error" where
  "namespace_not_empty ns reason =
     Conflict (''cannot drop non-empty namespace '' @ namespace_path ns @ '': contains '' @ reason)"

definition table_not_found :: "TableIdent \<Rightarrow> error" where
  "table_not_found ident = NotFound ''table'' (table_stable_id ident)"

definition namespace_is_descendant :: "Namespace \<Rightarrow> Namespace \<Rightarrow> bool" where
  "namespace_is_descendant candidate parent \<longleftrightarrow>
     length parent < length candidate \<and> take (length parent) candidate = parent"

subsection \<open>Policy bindings, model publications, grants\<close>

record PolicyBinding =
  pb_policy_id :: string
  pb_warehouse :: WarehouseName
  pb_namespace :: "Namespace option"
  pb_table :: "TableName option"
  pb_enforced :: bool
  pb_odrl :: json
  pb_updated_at :: int

definition policy_binding_validate :: "env \<Rightarrow> PolicyBinding \<Rightarrow> unit result" where
  "policy_binding_validate E b =
     and_then (validate_policy_id E (pb_policy_id b)) (\<lambda>_.
     if pb_table b \<noteq> None \<and> pb_namespace b = None then
       Err (InvalidArgument ''table-scoped policy binding requires namespace'')
     else Ok ())"

definition policy_binding_new ::
  "env \<Rightarrow> int \<Rightarrow> string \<Rightarrow> WarehouseName \<Rightarrow> Namespace option \<Rightarrow> TableName option \<Rightarrow> bool \<Rightarrow> json \<Rightarrow>
     PolicyBinding result" where
  "policy_binding_new E now policy_id warehouse ns table enforced odrl =
     and_then (validate_policy_id E policy_id) (\<lambda>_.
     if table \<noteq> None \<and> ns = None then
       Err (InvalidArgument ''table-scoped policy binding requires namespace'')
     else Ok \<lparr>pb_policy_id = policy_id, pb_warehouse = warehouse, pb_namespace = ns,
              pb_table = table, pb_enforced = enforced, pb_odrl = odrl, pb_updated_at = now\<rparr>)"

definition applies_to_table :: "PolicyBinding \<Rightarrow> TableIdent \<Rightarrow> bool" where
  "applies_to_table b table =
     (if pb_warehouse b \<noteq> ti_warehouse table then False
      else case (pb_namespace b, pb_table b) of
        (None, None) \<Rightarrow> True
      | (Some ns, None) \<Rightarrow> ns = ti_namespace table
      | (Some ns, Some table_name) \<Rightarrow> ns = ti_namespace table \<and> table_name = ti_name table
      | (None, Some _) \<Rightarrow> False)"

definition policy_bindings_for_table :: "PolicyBinding list \<Rightarrow> TableIdent \<Rightarrow> PolicyBinding list" where
  "policy_bindings_for_table bindings table =
     sort_key pb_policy_id (filter (\<lambda>b. pb_enforced b \<and> applies_to_table b table) bindings)"

record ModelPublication =
  mp_model_id :: string
  mp_warehouse :: WarehouseName
  mp_version :: "64 word"
  mp_artifact_uri :: string
  mp_artifact_hash :: string
  mp_physical_bindings :: json
  mp_policy_binding_ids :: "string list"
  mp_publisher :: Principal
  mp_published_at :: int

definition model_publication_validate :: "env \<Rightarrow> ModelPublication \<Rightarrow> unit result" where
  "model_publication_validate E m =
     (if blank (mp_model_id m) \<or> 255 < length (mp_model_id m) then
        Err (InvalidArgument ''model publication id must be between 1 and 255 characters'')
      else if mp_version m = 0 then
        Err (InvalidArgument ''model publication version must be positive'')
      else if url_parse E (mp_artifact_uri m) = None then
        Err (InvalidArgument ''model artifact URI must be absolute'')
      else and_then (validate_idempotency_request_hash_shape (mp_artifact_hash m)) (\<lambda>_.
        if \<not> is_object (mp_physical_bindings m) \<and> \<not> is_array (mp_physical_bindings m) then
          Err (InvalidArgument ''model physical bindings must be an object or array'')
        else check_all (validate_policy_id E) (mp_policy_binding_ids m)))"

record GovernedScanGrant =
  gg_proof :: GovernedScanProof
  gg_principal :: Principal
  gg_requested_projection :: "string list"
  gg_policy_engine :: string
  gg_policy_hash_digest :: "string option"
  gg_authorization_context_digest :: string
  gg_read_restriction_digest :: string
  gg_table_metadata_digest :: string
  gg_issued_at :: int

definition grant_validate :: "env \<Rightarrow> GovernedScanGrant \<Rightarrow> unit result" where
  "grant_validate E g =
     and_then (validate_governed_scan_text (pr_subject (gg_principal g))) (\<lambda>_.
     and_then (validate_governed_scan_text (gg_policy_engine g)) (\<lambda>_.
     and_then (validate_governed_scan_requested_projection (gg_requested_projection g)) (\<lambda>_.
     and_then (check_all (\<lambda>(label, digest). validate_governed_sha256_digest digest label)
       [(''authorization context'', gg_authorization_context_digest g),
        (''read restriction'', gg_read_restriction_digest g),
        (''table metadata'', gg_table_metadata_digest g)]) (\<lambda>_.
     and_then (case gg_policy_hash_digest g of None \<Rightarrow> Ok ()
               | Some h \<Rightarrow> validate_governed_sha256_digest h ''policy'') (\<lambda>_.
     and_then (validate_integrity E (gg_proof g)) (\<lambda>_.
     if pr_subject (gg_principal g) \<noteq> gp_principal_subject (gg_proof g) then
       Err (Conflict ''governed scan grant principal does not match its proof'')
     else Ok ()))))))"

definition has_same_stable_evidence :: "GovernedScanGrant \<Rightarrow> GovernedScanGrant \<Rightarrow> bool" where
  "has_same_stable_evidence a b \<longleftrightarrow>
     gg_proof a = gg_proof b \<and> gg_principal a = gg_principal b \<and>
     gg_requested_projection a = gg_requested_projection b \<and>
     gg_policy_engine a = gg_policy_engine b \<and>
     gg_policy_hash_digest a = gg_policy_hash_digest b \<and>
     gg_authorization_context_digest a = gg_authorization_context_digest b \<and>
     gg_read_restriction_digest a = gg_read_restriction_digest b \<and>
     gg_table_metadata_digest a = gg_table_metadata_digest b"

definition validate_governed_scan_grant_id :: "string \<Rightarrow> unit result" where
  "validate_governed_scan_grant_id value = validate_governed_sha256_digest value ''grant id''"

subsection \<open>Row scopes\<close>

definition table_scope_error :: error where
  "table_scope_error = Internal ''table record row scope does not match requested table''"

definition validate_table_record_identity :: "TableRecord \<Rightarrow> TableIdent \<Rightarrow> unit result" where
  "validate_table_record_identity r ident =
     and_then (table_record_validate r) (\<lambda>_.
     if tr_ident r \<noteq> ident then Err table_scope_error else Ok ())"

definition validate_table_record_map_scope :: "TableRecord \<Rightarrow> string \<Rightarrow> unit result" where
  "validate_table_record_map_scope r record_key =
     and_then (table_record_validate r) (\<lambda>_.
     if table_key (tr_ident r) \<noteq> record_key then Err table_scope_error else Ok ())"

definition validate_soft_delete_record_map_scope :: "SoftDeleteRecord \<Rightarrow> string \<Rightarrow> unit result" where
  "validate_soft_delete_record_map_scope d record_key =
     (if table_key (sd_table d) \<noteq> record_key then
        Err (Internal ''soft-delete row scope does not match record identity'')
      else Ok ())"

definition validate_idempotency_record_table_key :: "string \<Rightarrow> TableIdent \<Rightarrow> unit result" where
  "validate_idempotency_record_table_key row_table_key ident =
     (if row_table_key \<noteq> table_key ident then
        Err (Internal ''idempotency record row scope does not match requested table'')
      else Ok ())"

definition validate_idempotency_record_request_hash :: "string \<Rightarrow> unit result" where
  "validate_idempotency_record_request_hash row_request_hash =
     map_err (\<lambda>_. Internal ''idempotency record request hash must be full SHA-256 evidence'')
       (validate_idempotency_request_hash_shape row_request_hash)"

definition validate_policy_binding_map_scope :: "env \<Rightarrow> PolicyBinding \<Rightarrow> string \<Rightarrow> unit result" where
  "validate_policy_binding_map_scope E b binding_key =
     and_then (policy_binding_validate E b) (\<lambda>_.
     if policy_binding_key (pb_warehouse b) (pb_policy_id b) \<noteq> binding_key then
       Err (Internal ''policy binding row scope does not match binding identity'')
     else Ok ())"

definition validate_storage_profile_map_scope :: "env \<Rightarrow> StorageProfile \<Rightarrow> string \<Rightarrow> unit result" where
  "validate_storage_profile_map_scope E p profile_key =
     and_then (storage_profile_validate E p) (\<lambda>_.
     if storage_profile_key (sp_warehouse p) (sp_profile_id p) \<noteq> profile_key then
       Err (Internal ''storage profile row scope does not match profile identity'')
     else Ok ())"

definition validate_server_record_map_scope :: "env \<Rightarrow> ServerRecord \<Rightarrow> string \<Rightarrow> unit result" where
  "validate_server_record_map_scope E r server_id =
     and_then (server_validate E r) (\<lambda>_.
     if sv_server_id r \<noteq> server_id then
       Err (Internal ''server row scope does not match server identity'')
     else Ok ())"

definition validate_project_record_map_scope :: "env \<Rightarrow> ProjectRecord \<Rightarrow> string \<Rightarrow> unit result" where
  "validate_project_record_map_scope E r project_id =
     and_then (project_validate E r) (\<lambda>_.
     if pj_project_id r \<noteq> project_id then
       Err (Internal ''project row scope does not match project identity'')
     else Ok ())"

definition validate_warehouse_record_map_scope :: "env \<Rightarrow> WarehouseRecord \<Rightarrow> string \<Rightarrow> unit result" where
  "validate_warehouse_record_map_scope E r warehouse_key =
     and_then (warehouse_validate E r) (\<lambda>_.
     if wr_warehouse r \<noteq> warehouse_key then
       Err (Internal ''warehouse row scope does not match warehouse identity'')
     else Ok ())"

subsection \<open>Storage profile of a location\<close>

definition location_matches_storage_profile_prefix :: "string \<Rightarrow> string \<Rightarrow> bool" where
  "location_matches_storage_profile_prefix location prefix =
     (if location = prefix then True
      else if ends_with_char prefix (CHR ''/'') then starts_with location prefix
      else case strip_prefix location prefix of
        None \<Rightarrow> False
      | Some suffix \<Rightarrow> starts_with suffix ''/'')"

definition ambiguous_profile_error ::
  "env \<Rightarrow> TableRecord \<Rightarrow> StorageProfile \<Rightarrow> StorageProfile \<Rightarrow> error" where
  "ambiguous_profile_error E t current profile =
     InvalidArgument (''ambiguous storage profile match for '' @ table_stable_id (tr_ident t) @
       ''; location-prefix-hash='' @ content_hash_bytes E (sp_location_prefix profile) @
       ''; profile-ids='' @ sp_profile_id current @ '','' @ sp_profile_id profile)"

fun best_profile_loop ::
  "env \<Rightarrow> TableRecord \<Rightarrow> StorageProfile option \<Rightarrow> StorageProfile list \<Rightarrow>
     StorageProfile option result" where
  "best_profile_loop E t best [] = Ok best"
| "best_profile_loop E t best (profile # profiles) =
     (case best of
        None \<Rightarrow> best_profile_loop E t (Some profile) profiles
      | Some current \<Rightarrow>
          if length (sp_location_prefix current) < length (sp_location_prefix profile) then
            best_profile_loop E t (Some profile) profiles
          else if length (sp_location_prefix profile) = length (sp_location_prefix current) then
            Err (ambiguous_profile_error E t current profile)
          else best_profile_loop E t best profiles)"

definition storage_profile_candidates :: "StorageProfile list \<Rightarrow> TableRecord \<Rightarrow> StorageProfile list" where
  "storage_profile_candidates profiles t =
     filter (\<lambda>p. sp_warehouse p = ti_warehouse (tr_ident t) \<and>
                 location_matches_storage_profile_prefix (tr_location t) (sp_location_prefix p)) profiles"

definition storage_profile_match ::
  "env \<Rightarrow> StorageProfile list \<Rightarrow> TableRecord \<Rightarrow> StorageProfile option result" where
  "storage_profile_match E profiles t =
     best_profile_loop E t None (storage_profile_candidates profiles t)"

subsection \<open>Facts about keys\<close>

lemma storage_key_no_unit_sep: "valid_namespace ns \<Longrightarrow> CHR 0x1F \<notin> set (storage_key ns)"
proof -
  assume "valid_namespace ns"
  then have "CHR 0x1F \<notin> set part" if "part \<in> set ns" for part
    using that valid_name_no_unit_sep by (auto simp: valid_namespace_def list_all_iff)
  moreover have "CHR 0x1F \<notin> set (nat_str n)" for n
    using nat_str_digits by (fastforce simp: is_ascii_digit_def)
  ultimately show ?thesis by (auto simp: storage_key_def)
qed

lemma three_part_key_inj:
  assumes "CHR 0x1F \<notin> set a" "CHR 0x1F \<notin> set b" "CHR 0x1F \<notin> set a'" "CHR 0x1F \<notin> set b'"
    and "a @ [CHR 0x1F] @ b @ [CHR 0x1F] @ c = a' @ [CHR 0x1F] @ b' @ [CHR 0x1F] @ c'"
  shows "a = a' \<and> b = b' \<and> c = c'"
proof -
  have "a @ CHR 0x1F # (b @ CHR 0x1F # c) = a' @ CHR 0x1F # (b' @ CHR 0x1F # c')"
    using assms(5) by simp
  from append_sep_eq [OF assms(1,3) this] have "a = a'" "b @ CHR 0x1F # c = b' @ CHR 0x1F # c'"
    by simp_all
  with append_sep_eq [OF assms(2,4)] show ?thesis by blast
qed

lemma table_key_inj:
  "valid_ident i \<Longrightarrow> valid_ident j \<Longrightarrow> table_key i = table_key j \<longleftrightarrow> i = j"
  using three_part_key_inj [of "ti_warehouse i" "storage_key (ti_namespace i)" "ti_warehouse j"
      "storage_key (ti_namespace j)" "ti_name i" "ti_name j"]
  by (cases i; cases j)
    (auto simp: table_key_def valid_ident_def valid_name_no_unit_sep storage_key_no_unit_sep
      storage_key_inj)

lemma view_key_parts_inj:
  assumes "valid_name w" "valid_namespace ns" "valid_name w'" "valid_namespace ns'"
  shows "view_key_parts w ns n = view_key_parts w' ns' n' \<longleftrightarrow> w = w' \<and> ns = ns' \<and> n = n'"
  using assms three_part_key_inj [of w "storage_key ns" w' "storage_key ns'" n n']
  by (auto simp: view_key_parts_def valid_name_no_unit_sep storage_key_no_unit_sep storage_key_inj)

lemma colon_key_inj:
  "CHR '':'' \<notin> set w \<Longrightarrow> CHR '':'' \<notin> set w' \<Longrightarrow> w @ '':'' @ i = w' @ '':'' @ i' \<longleftrightarrow> w = w' \<and> i = i'"
  using append_sep_eq [of "CHR '':''" w w' i i'] by auto

lemma registry_key_inj:
  assumes "valid_name w" "valid_name w'"
  shows "policy_binding_key w i = policy_binding_key w' i' \<longleftrightarrow> w = w' \<and> i = i'"
    and "storage_profile_key w i = storage_profile_key w' i' \<longleftrightarrow> w = w' \<and> i = i'"
    and "model_publication_key w i = model_publication_key w' i' \<longleftrightarrow> w = w' \<and> i = i'"
  using assms colon_key_inj [OF valid_name_no_colon valid_name_no_colon]
  unfolding policy_binding_key_def storage_profile_key_def model_publication_key_def by blast+

lemma table_scope_ok:
  "validate_table_record_identity r ident = Ok () \<longleftrightarrow> table_record_validate r = Ok () \<and> tr_ident r = ident"
  "validate_table_record_map_scope r k = Ok () \<longleftrightarrow> table_record_validate r = Ok () \<and> table_key (tr_ident r) = k"
  by (auto simp: validate_table_record_identity_def validate_table_record_map_scope_def result_simps
      split: if_splits)

lemma other_scope_ok:
  "validate_soft_delete_record_map_scope d k = Ok () \<longleftrightarrow> table_key (sd_table d) = k"
  "validate_idempotency_record_table_key k ident = Ok () \<longleftrightarrow> k = table_key ident"
  "validate_idempotency_record_request_hash h = Ok () \<longleftrightarrow> sha256_shape h"
  "validate_policy_binding_map_scope E b k = Ok () \<longleftrightarrow>
     policy_binding_validate E b = Ok () \<and> policy_binding_key (pb_warehouse b) (pb_policy_id b) = k"
  "validate_storage_profile_map_scope E p k = Ok () \<longleftrightarrow>
     storage_profile_validate E p = Ok () \<and> storage_profile_key (sp_warehouse p) (sp_profile_id p) = k"
  "validate_server_record_map_scope E sv k = Ok () \<longleftrightarrow> server_validate E sv = Ok () \<and> sv_server_id sv = k"
  "validate_project_record_map_scope E pj k = Ok () \<longleftrightarrow> project_validate E pj = Ok () \<and> pj_project_id pj = k"
  "validate_warehouse_record_map_scope E wr k = Ok () \<longleftrightarrow> warehouse_validate E wr = Ok () \<and> wr_warehouse wr = k"
  by (auto simp: validate_soft_delete_record_map_scope_def validate_idempotency_record_table_key_def
      validate_idempotency_record_request_hash_def validate_policy_binding_map_scope_def
      validate_storage_profile_map_scope_def validate_server_record_map_scope_def
      validate_project_record_map_scope_def validate_warehouse_record_map_scope_def
      result_simps validate_sha256_ok split: if_splits)

end
