(* ===== verification/ViewRecords.thy ===== *)
theory ViewRecords
  imports StoreScopes "HOL-Library.Product_Lexorder"
begin

section \<open>Views and their receipt chains\<close>

text \<open>
  \<open>records.rs\<close>: a view, the receipt an upsert or a drop of it leaves, the version a new view gets
  and the validation of receipt chains. A chain holds the receipts of one stable id in the order of
  version, recording time and operation; every receipt names the hash of the one before it. The last
  part relates the validator, which sorts, to chains kept in the order they were appended.
\<close>

record ViewColumnRecord =
  vc_name :: string
  vc_data_type :: json
  vc_nullable :: bool
  vc_comment :: "string option"

record ViewRecord =
  vw_warehouse :: WarehouseName
  vw_namespace :: Namespace
  vw_name :: TableName
  vw_view_version :: "64 word"
  vw_sql :: string
  vw_dialect :: string
  vw_schema_version :: "64 word option"
  vw_columns :: "ViewColumnRecord list"
  vw_properties :: "(string, string) btree"
  vw_created :: AuditStamp
  vw_updated_at :: int

definition view_column_validate :: "ViewColumnRecord \<Rightarrow> unit result" where
  "view_column_validate c =
     (if blank (vc_name c) then Err (InvalidArgument ''view column name must not be empty'')
      else if vc_data_type c = JNull then
        Err (InvalidArgument (''view column '' @ vc_name c @ '' data type must not be null''))
      else if blank_opt (vc_comment c) then
        Err (InvalidArgument (''view column '' @ vc_name c @ '' comment must not be empty''))
      else Ok ())"

fun validate_columns :: "string list \<Rightarrow> ViewColumnRecord list \<Rightarrow> unit result" where
  "validate_columns column_names [] = Ok ()"
| "validate_columns column_names (column # columns) =
     and_then (view_column_validate column) (\<lambda>_.
     if vc_name column \<in> set column_names then
       Err (InvalidArgument (''view column appears more than once: '' @ vc_name column))
     else validate_columns (vc_name column # column_names) columns)"

definition view_validate :: "env \<Rightarrow> ViewRecord \<Rightarrow> unit result" where
  "view_validate E v =
     (if vw_view_version v = 0 then
        Err (InvalidArgument ''view version must be greater than zero'')
      else if blank (vw_sql v) then Err (InvalidArgument ''view SQL must not be empty'')
      else let dialect = trim (vw_dialect v) in
        if dialect = [] then Err (InvalidArgument ''view dialect must not be empty'')
        else if has_whitespace dialect then
          Err (InvalidArgument ''view dialect must not contain whitespace'')
        else and_then (validate_columns [] (vw_columns v)) (\<lambda>_.
          validate_public_config E (vw_properties v)))"

definition view_new ::
  "env \<Rightarrow> int \<Rightarrow> WarehouseName \<Rightarrow> Namespace \<Rightarrow> TableName \<Rightarrow> string \<Rightarrow> string \<Rightarrow> 64 word option \<Rightarrow>
     (string, string) btree \<Rightarrow> Principal \<Rightarrow> ViewRecord result" where
  "view_new E now warehouse ns name sql dialect schema_version properties p =
     (let created = audit_stamp_now now p;
          record = \<lparr>vw_warehouse = warehouse, vw_namespace = ns, vw_name = name,
                    vw_view_version = 1, vw_sql = sql, vw_dialect = dialect,
                    vw_schema_version = schema_version, vw_columns = [],
                    vw_properties = properties, vw_created = created,
                    vw_updated_at = as_at created\<rparr>
      in and_then (view_validate E record) (\<lambda>_. Ok record))"

definition with_columns :: "env \<Rightarrow> ViewRecord \<Rightarrow> ViewColumnRecord list \<Rightarrow> ViewRecord result" where
  "with_columns E v columns =
     (let v' = v\<lparr>vw_columns := columns\<rparr> in and_then (view_validate E v') (\<lambda>_. Ok v'))"

definition u64_max :: "64 word" where "u64_max = - 1"

definition checked_add_u64 :: "64 word \<Rightarrow> 64 word \<Rightarrow> 64 word option" where
  "checked_add_u64 a b = (if uint a + uint b < 2 ^ 64 then Some (a + b) else None)"

definition saturating_add_u64 :: "64 word \<Rightarrow> 64 word \<Rightarrow> 64 word" where
  "saturating_add_u64 a b = (if uint a + uint b < 2 ^ 64 then a + b else u64_max)"

definition base_view_version :: "ViewRecord option \<Rightarrow> 64 word option \<Rightarrow> 64 word" where
  "base_view_version previous latest_receipt_version =
     (case (previous, latest_receipt_version) of
        (None, None) \<Rightarrow> 0
      | (Some p, None) \<Rightarrow> vw_view_version p
      | (None, Some l) \<Rightarrow> l
      | (Some p, Some l) \<Rightarrow> max (vw_view_version p) l)"

definition with_next_version_after_history ::
  "env \<Rightarrow> ViewRecord \<Rightarrow> ViewRecord option \<Rightarrow> 64 word option \<Rightarrow> ViewRecord result" where
  "with_next_version_after_history E self previous latest_receipt_version =
     and_then (ok_or (InvalidArgument ''view version overflow'')
                (checked_add_u64 (base_view_version previous latest_receipt_version) 1)) (\<lambda>version.
     let self' = self\<lparr>vw_view_version := version\<rparr>;
         self'' = (case previous of None \<Rightarrow> self' | Some p \<Rightarrow> self'\<lparr>vw_created := vw_created p\<rparr>)
     in and_then (view_validate E self'') (\<lambda>_. Ok self''))"

definition with_next_version :: "env \<Rightarrow> ViewRecord \<Rightarrow> ViewRecord option \<Rightarrow> ViewRecord result" where
  "with_next_version E self previous =
     with_next_version_after_history E self previous (map_option vw_view_version previous)"

definition validate_expected_view_version :: "64 word \<Rightarrow> unit result" where
  "validate_expected_view_version expected =
     (if expected = 0 then
        Err (InvalidArgument ''expected view version must be greater than zero'')
      else Ok ())"

definition u64_str :: "64 word \<Rightarrow> string" where
  "u64_str n = nat_str (unat n)"

definition require_expected_view_version :: "ViewRecord option \<Rightarrow> 64 word \<Rightarrow> unit result" where
  "require_expected_view_version previous expected =
     (case previous of
        None \<Rightarrow> Err (Conflict (''view expected version '' @ u64_str expected @
                  '' but no current view exists''))
      | Some p \<Rightarrow>
          if vw_view_version p \<noteq> expected then
            Err (Conflict (''view expected version '' @ u64_str expected @
              '' but current version is '' @ u64_str (vw_view_version p)))
          else Ok ())"

definition view_key :: "ViewRecord \<Rightarrow> string" where
  "view_key v = view_key_parts (vw_warehouse v) (vw_namespace v) (vw_name v)"

definition view_stable_id_parts :: "WarehouseName \<Rightarrow> string \<Rightarrow> TableName \<Rightarrow> string" where
  "view_stable_id_parts warehouse ns name =
     ''lakecat:view:'' @ warehouse @ '':'' @ ns @ '':'' @ name"

definition view_stable_id :: "ViewRecord \<Rightarrow> string" where
  "view_stable_id v =
     view_stable_id_parts (vw_warehouse v) (namespace_display (vw_namespace v)) (vw_name v)"

subsection \<open>JSON forms\<close>

definition view_column_json :: "ViewColumnRecord \<Rightarrow> json" where
  "view_column_json c =
     jobj ([(''name'', JStr (vc_name c)), (''data_type'', vc_data_type c),
            (''nullable'', JBool (vc_nullable c))] @ jskip ''comment'' JStr (vc_comment c))"

definition view_json :: "env \<Rightarrow> ViewRecord \<Rightarrow> json" where
  "view_json E v =
     jobj ([(''warehouse'', JStr (vw_warehouse v)), (''namespace'', jstrs (vw_namespace v)),
            (''name'', JStr (vw_name v)), (''view_version'', ju64 (vw_view_version v)),
            (''sql'', JStr (vw_sql v)), (''dialect'', JStr (vw_dialect v)),
            (''schema_version'', jopt ju64 (vw_schema_version v))] @
           (if vw_columns v = [] then []
            else [(''columns'', JArr (map view_column_json (vw_columns v)))]) @
           [(''properties'', jmap (vw_properties v)),
            (''created'', audit_stamp_json E (vw_created v)),
            (''updated_at'', JStr (dt_json E (vw_updated_at v)))])"

subsection \<open>Receipts\<close>

datatype ViewVersionOperation = Upsert | Drop

definition view_version_operation_order :: "ViewVersionOperation \<Rightarrow> nat" where
  "view_version_operation_order operation = (case operation of Upsert \<Rightarrow> 0 | Drop \<Rightarrow> 1)"

instantiation ViewVersionOperation :: linorder
begin

definition less_eq_ViewVersionOperation :: "ViewVersionOperation \<Rightarrow> ViewVersionOperation \<Rightarrow> bool" where
  "a \<le> b \<longleftrightarrow> view_version_operation_order a \<le> view_version_operation_order b"

definition less_ViewVersionOperation :: "ViewVersionOperation \<Rightarrow> ViewVersionOperation \<Rightarrow> bool" where
  "a < b \<longleftrightarrow> view_version_operation_order a < view_version_operation_order b"

instance
  by standard
    (auto simp: less_eq_ViewVersionOperation_def less_ViewVersionOperation_def
      view_version_operation_order_def split: ViewVersionOperation.splits)

end

record ViewVersionReceipt =
  vr_stable_id :: string
  vr_warehouse :: WarehouseName
  vr_namespace :: Namespace
  vr_name :: TableName
  vr_view_version :: "64 word"
  vr_previous_view_version :: "64 word option"
  vr_previous_receipt_hash :: "string option"
  vr_operation :: ViewVersionOperation
  vr_view_hash :: string
  vr_principal :: Principal
  vr_recorded_at :: int

definition receipt_upsert ::
  "env \<Rightarrow> int \<Rightarrow> 64 word option \<Rightarrow> string option \<Rightarrow> ViewRecord \<Rightarrow> Principal \<Rightarrow> ViewVersionReceipt result" where
  "receipt_upsert E now previous_view_version previous_receipt_hash v p =
     and_then (content_hash_json E (view_json E v)) (\<lambda>view_hash.
     Ok \<lparr>vr_stable_id = view_stable_id v, vr_warehouse = vw_warehouse v,
         vr_namespace = vw_namespace v, vr_name = vw_name v,
         vr_view_version = vw_view_version v, vr_previous_view_version = previous_view_version,
         vr_previous_receipt_hash = previous_receipt_hash, vr_operation = Upsert,
         vr_view_hash = view_hash, vr_principal = p, vr_recorded_at = now\<rparr>)"

definition receipt_drop ::
  "env \<Rightarrow> int \<Rightarrow> ViewRecord \<Rightarrow> string option \<Rightarrow> Principal \<Rightarrow> ViewVersionReceipt result" where
  "receipt_drop E now v previous_receipt_hash p =
     and_then (content_hash_json E (view_json E v)) (\<lambda>view_hash.
     Ok \<lparr>vr_stable_id = view_stable_id v, vr_warehouse = vw_warehouse v,
         vr_namespace = vw_namespace v, vr_name = vw_name v,
         vr_view_version = vw_view_version v,
         vr_previous_view_version = Some (vw_view_version v),
         vr_previous_receipt_hash = previous_receipt_hash, vr_operation = Drop,
         vr_view_hash = view_hash, vr_principal = p, vr_recorded_at = now\<rparr>)"

definition receipt_validate :: "ViewVersionReceipt \<Rightarrow> unit result" where
  "receipt_validate r =
     (if vr_stable_id r \<noteq>
           view_stable_id_parts (vr_warehouse r) (namespace_path (vr_namespace r)) (vr_name r) then
        Err (InvalidArgument ''view receipt stable id does not match receipt identity'')
      else if vr_view_version r = 0 then
        Err (InvalidArgument ''view receipt version must be greater than zero'')
      else and_then
        (case vr_operation r of
           Upsert \<Rightarrow>
             (case vr_previous_view_version r of
                None \<Rightarrow> Ok ()
              | Some previous \<Rightarrow>
                  if vr_view_version r \<le> previous then
                    Err (InvalidArgument
                      ''view upsert receipt previous version must be less than receipt version'')
                  else Ok ())
         | Drop \<Rightarrow>
             if vr_previous_view_version r \<noteq> Some (vr_view_version r) then
               Err (InvalidArgument ''view drop receipt previous version must equal receipt version'')
             else Ok ()) (\<lambda>_.
      and_then (validate_sha256_evidence (vr_view_hash r)
        ''view receipt hash must be a SHA-256 digest'') (\<lambda>_.
      validate_sha256_option (vr_previous_receipt_hash r)
        ''previous view receipt hash must be a SHA-256 digest'')))"

fun operation_name :: "ViewVersionOperation \<Rightarrow> string" where
  "operation_name Upsert = ''upsert''"
| "operation_name Drop = ''drop''"

definition receipt_json :: "env \<Rightarrow> ViewVersionReceipt \<Rightarrow> json" where
  "receipt_json E r =
     jobj ([(''stable-id'', JStr (vr_stable_id r)), (''warehouse'', JStr (vr_warehouse r)),
            (''namespace'', jstrs (vr_namespace r)), (''name'', JStr (vr_name r)),
            (''view-version'', ju64 (vr_view_version r))] @
           jskip ''previous-view-version'' ju64 (vr_previous_view_version r) @
           jskip ''previous-receipt-hash'' JStr (vr_previous_receipt_hash r) @
           [(''operation'', JStr (operation_name (vr_operation r))),
            (''view-hash'', JStr (vr_view_hash r)),
            (''principal'', principal_json (vr_principal r)),
            (''recorded-at'', JStr (dt_json E (vr_recorded_at r)))])"

definition view_receipt_hash :: "env \<Rightarrow> ViewVersionReceipt \<Rightarrow> string result" where
  "view_receipt_hash E r = content_hash_json E (receipt_json E r)"

subsection \<open>Chains\<close>

text \<open>The comparison of \<open>sort_by\<close> and \<open>max_by\<close>.\<close>

definition receipt_order :: "ViewVersionReceipt \<Rightarrow> 64 word \<times> int \<times> ViewVersionOperation" where
  "receipt_order r = (vr_view_version r, vr_recorded_at r, vr_operation r)"

fun group_by_stable_id ::
  "(string, ViewVersionReceipt list) btree \<Rightarrow> ViewVersionReceipt list \<Rightarrow>
     (string, ViewVersionReceipt list) btree" where
  "group_by_stable_id grouped [] = grouped"
| "group_by_stable_id grouped (receipt # receipts) =
     (let chain = (case bt_get grouped (vr_stable_id receipt) of None \<Rightarrow> [] | Some c \<Rightarrow> c)
      in group_by_stable_id (bt_insert (vr_stable_id receipt) (chain @ [receipt]) grouped) receipts)"

definition check_link :: "env \<Rightarrow> ViewVersionReceipt option \<Rightarrow> ViewVersionReceipt \<Rightarrow> unit result" where
  "check_link E prev r =
     (case prev of
        None \<Rightarrow>
          if vr_operation r \<noteq> Upsert \<or> vr_view_version r \<noteq> 1 \<or>
             vr_previous_view_version r \<noteq> None \<or> vr_previous_receipt_hash r \<noteq> None then
            Err (Internal ''view receipt chain must begin with version 1 upsert without previous links'')
          else Ok ()
      | Some previous \<Rightarrow>
          and_then (view_receipt_hash E previous) (\<lambda>previous_hash.
          if vr_previous_receipt_hash r \<noteq> Some previous_hash then
            Err (Internal ''view receipt chain previous links must match the prior receipt'')
          else case vr_operation r of
            Upsert \<Rightarrow>
              if vr_previous_view_version r \<noteq> Some (vr_view_version previous) \<or>
                 vr_view_version r \<noteq> saturating_add_u64 (vr_view_version previous) 1 then
                Err (Internal ''view receipt chain upsert transition is invalid'')
              else Ok ()
          | Drop \<Rightarrow>
              if vr_previous_view_version r \<noteq> Some (vr_view_version previous) \<or>
                 vr_view_version r \<noteq> vr_view_version previous then
                Err (Internal ''view receipt chain drop transition is invalid'')
              else Ok ()))"

fun check_chain :: "env \<Rightarrow> ViewVersionReceipt option \<Rightarrow> ViewVersionReceipt list \<Rightarrow> unit result" where
  "check_chain E prev [] = Ok ()"
| "check_chain E prev (r # rs) =
     and_then (receipt_validate r) (\<lambda>_.
     and_then (check_link E prev r) (\<lambda>_. check_chain E (Some r) rs))"

definition validate_view_receipt_chains :: "env \<Rightarrow> ViewVersionReceipt list \<Rightarrow> unit result" where
  "validate_view_receipt_chains E receipts =
     check_all (\<lambda>(_, chain). check_chain E None (sort_key receipt_order chain))
       (group_by_stable_id [] receipts)"

text \<open>\<open>Iterator::max_by\<close> returns the last of the maximal elements.\<close>

fun last_max :: "('a \<Rightarrow> 'k::linorder) \<Rightarrow> 'a list \<Rightarrow> 'a option" where
  "last_max f [] = None"
| "last_max f (x # xs) =
     (case last_max f xs of
        None \<Rightarrow> Some x
      | Some y \<Rightarrow> if f y < f x then Some x else Some y)"

definition latest_view_receipt_evidence ::
  "env \<Rightarrow> ViewVersionReceipt list \<Rightarrow> (64 word \<times> string) option result" where
  "latest_view_receipt_evidence E receipts =
     and_then (validate_view_receipt_chains E receipts) (\<lambda>_.
     case last_max receipt_order receipts of
       None \<Rightarrow> Ok None
     | Some r \<Rightarrow>
         and_then (receipt_validate r) (\<lambda>_.
         and_then (view_receipt_hash E r) (\<lambda>hash.
         Ok (Some (vr_view_version r, hash)))))"

definition latest_view_receipt_hash ::
  "env \<Rightarrow> ViewVersionReceipt list \<Rightarrow> string option result" where
  "latest_view_receipt_hash E receipts =
     map_ok (map_option snd) (latest_view_receipt_evidence E receipts)"

subsection \<open>Row scopes of views and receipts\<close>

record MemoryViewVersionReceipt =
  mv_view_key :: string
  mv_receipt :: ViewVersionReceipt

definition receipt_scope_error :: error where
  "receipt_scope_error = Internal ''view receipt row scope does not match receipt identity''"

definition validate_memory_view_receipt_scope ::
  "MemoryViewVersionReceipt \<Rightarrow> WarehouseName \<Rightarrow> Namespace \<Rightarrow> TableName option \<Rightarrow> unit result" where
  "validate_memory_view_receipt_scope record warehouse ns view =
     (let r = mv_receipt record in
      if mv_view_key record \<noteq> view_key_parts (vr_warehouse r) (vr_namespace r) (vr_name r) then
        Err receipt_scope_error
      else if vr_warehouse r \<noteq> warehouse \<or> vr_namespace r \<noteq> ns then Err receipt_scope_error
      else if (case view of None \<Rightarrow> False | Some n \<Rightarrow> vr_name r \<noteq> n) then Err receipt_scope_error
      else receipt_validate r)"

definition memory_view_receipt_key_matches_namespace ::
  "string \<Rightarrow> WarehouseName \<Rightarrow> Namespace \<Rightarrow> bool" where
  "memory_view_receipt_key_matches_namespace key warehouse ns =
     (case split_on (CHR 0x1F) key of
        [row_warehouse, row_namespace, _] \<Rightarrow>
          row_warehouse = warehouse \<and> row_namespace = storage_key ns
      | _ \<Rightarrow> False)"

definition view_key_matches_warehouse :: "string \<Rightarrow> WarehouseName \<Rightarrow> bool" where
  "view_key_matches_warehouse key warehouse =
     (case split_on (CHR 0x1F) key of
        [row_warehouse, _, _] \<Rightarrow> row_warehouse = warehouse
      | _ \<Rightarrow> False)"

definition view_scope_error :: error where
  "view_scope_error = Internal ''view record row scope does not match view identity''"

definition validate_view_record_scope ::
  "env \<Rightarrow> ViewRecord \<Rightarrow> WarehouseName \<Rightarrow> Namespace \<Rightarrow> TableName \<Rightarrow> unit result" where
  "validate_view_record_scope E v warehouse ns view =
     and_then (view_validate E v) (\<lambda>_.
     if vw_warehouse v \<noteq> warehouse \<or> vw_namespace v \<noteq> ns \<or> vw_name v \<noteq> view then
       Err view_scope_error
     else Ok ())"

definition validate_view_record_map_scope :: "env \<Rightarrow> ViewRecord \<Rightarrow> string \<Rightarrow> unit result" where
  "validate_view_record_map_scope E v record_key =
     and_then (view_validate E v) (\<lambda>_.
     if view_key v \<noteq> record_key then Err view_scope_error else Ok ())"

subsection \<open>Facts about chains\<close>

lemma bt_get_group:
  "bt_get (group_by_stable_id g rs) i =
     (case (bt_get g i, filter (\<lambda>r. vr_stable_id r = i) rs) of
        (x, []) \<Rightarrow> x
      | (None, c) \<Rightarrow> Some c
      | (Some c', c) \<Rightarrow> Some (c' @ c))"
  by (induction g rs rule: group_by_stable_id.induct)
    (auto simp: Let_def bt_get_insert split: option.splits list.splits)

lemma bt_wf_group: "bt_wf g \<Longrightarrow> bt_wf (group_by_stable_id g rs)"
  by (induction g rs rule: group_by_stable_id.induct) (simp_all add: Let_def bt_wf_insert)

text \<open>The validator checks each stable id's receipts, sorted, as one chain.\<close>

lemma validate_chains_ok:
  "validate_view_receipt_chains E rs = Ok () \<longleftrightarrow>
     (\<forall>i. check_chain E None (sort_key receipt_order (filter (\<lambda>r. vr_stable_id r = i) rs)) = Ok ())"
proof -
  have wf: "bt_wf (group_by_stable_id [] rs)"
    by (simp add: bt_wf_group)
  have entry: "(i, c) \<in> set (group_by_stable_id [] rs) \<longleftrightarrow>
      c = filter (\<lambda>r. vr_stable_id r = i) rs \<and> c \<noteq> []" for i c
    unfolding bt_wf_get_iff [OF wf, symmetric] bt_get_group
    by (cases "filter (\<lambda>r. vr_stable_id r = i) rs") auto
  have "validate_view_receipt_chains E rs = Ok () \<longleftrightarrow>
      (\<forall>i. filter (\<lambda>r. vr_stable_id r = i) rs \<noteq> [] \<longrightarrow>
        check_chain E None (sort_key receipt_order (filter (\<lambda>r. vr_stable_id r = i) rs)) = Ok ())"
    unfolding validate_view_receipt_chains_def check_all_ok using entry by fastforce
  also have "\<dots> \<longleftrightarrow>
      (\<forall>i. check_chain E None (sort_key receipt_order (filter (\<lambda>r. vr_stable_id r = i) rs)) = Ok ())"
    by (metis check_chain.simps(1) sort_key_simps(1))
  finally show ?thesis .
qed

lemma check_chain_snoc:
  "check_chain E prev (rs @ [r]) = Ok () \<longleftrightarrow>
     check_chain E prev rs = Ok () \<and> receipt_validate r = Ok () \<and>
     check_link E (if rs = [] then prev else Some (last rs)) r = Ok ()"
  by (induction E prev rs rule: check_chain.induct) (auto simp: and_then_ok)

lemma check_link_version:
  "check_link E (Some p) r = Ok () \<Longrightarrow>
     vr_previous_view_version r = Some (vr_view_version p) \<and>
     vr_view_version r =
       (case vr_operation r of Upsert \<Rightarrow> saturating_add_u64 (vr_view_version p) 1
        | Drop \<Rightarrow> vr_view_version p)"
  by (auto simp: check_link_def and_then_ok split: if_splits ViewVersionOperation.splits)

lemma word_less_succ: "uint (v :: 64 word) + 1 < 2 ^ 64 \<Longrightarrow> v < v + 1 \<and> uint (v + 1) = uint v + 1"
proof -
  assume "uint v + 1 < 2 ^ 64"
  then have "uint (v + 1) = uint v + 1"
    using uint_add_lem [of v 1] by simp
  then show ?thesis by (simp add: word_less_def)
qed

lemma checked_add_one:
  "checked_add_u64 v 1 = Some w \<Longrightarrow> w = v + 1 \<and> v < w \<and> w \<noteq> 0 \<and> saturating_add_u64 v 1 = w"
  using word_less_succ [of v]
  by (auto simp: checked_add_u64_def saturating_add_u64_def split: if_splits)

text \<open>Lists that are already in order.\<close>

lemma sort_key_sorted: "sorted (map f xs) \<Longrightarrow> sort_key f xs = xs"
  by (induction xs) (auto simp: insort_is_Cons)

lemma sorted_snoc: "sorted (xs @ [x]) \<longleftrightarrow> sorted xs \<and> (xs = [] \<or> last xs \<le> (x :: 'a :: linorder))"
  by (cases xs rule: rev_cases) (auto simp: sorted_append intro: order_trans)

lemma last_max_sorted: "sorted (map f xs) \<Longrightarrow> last_max f xs = (if xs = [] then None else Some (last xs))"
proof (induction xs)
  case (Cons x xs)
  then show ?case
    by (cases xs) (auto simp: not_less [symmetric])
qed simp

lemma latest_evidence_sorted:
  assumes "sorted (map receipt_order rs)" and "\<forall>r \<in> set rs. vr_stable_id r = i"
    and "check_chain E None rs = Ok ()"
  shows "latest_view_receipt_evidence E rs =
     (if rs = [] then Ok None
      else and_then (view_receipt_hash E (last rs)) (\<lambda>h. Ok (Some (vr_view_version (last rs), h))))"
proof -
  have same: "filter (\<lambda>r. vr_stable_id r = j) rs = (if j = i then rs else [])" for j
    using assms(2) by (auto simp: filter_empty_conv)
  have "validate_view_receipt_chains E rs = Ok ()"
    by (simp add: validate_chains_ok same assms sort_key_sorted)
  moreover have "rs \<noteq> [] \<Longrightarrow> receipt_validate (last rs) = Ok ()"
    using assms(3) by (cases rs rule: rev_cases) (auto simp: check_chain_snoc)
  ultimately show ?thesis
    by (simp add: latest_view_receipt_evidence_def last_max_sorted assms(1))
qed

end
