(* ===== verification/MemoryState.thy ===== *)
theory MemoryState
  imports ViewRecords
begin

section \<open>The in-memory catalog: state and namespaces\<close>

text \<open>
  \<open>crates/lakecat-store/src/memory.rs\<close>. Every operation takes the lock of \<open>MemoryCatalogStore\<close> for
  its whole body, so an operation is a function from the state to its result and the next state;
  \<open>qmark\<close> is \<open>?\<close> and leaves the state as it is at that point. A reading of the clock is an argument.
  This theory holds the state, the operations on namespaces and the invariants of namespaces and
  tables that \<open>drop_namespace\<close> relies on.
\<close>

record IdempotencyReplay =
  ir_table_key :: string
  ir_request_hash :: string
  ir_response :: TableRecord

record MemoryCommitRecord =
  mc_table_key :: string
  mc_record :: TableCommitRecord

record MemoryState =
  ms_servers :: "(string, ServerRecord) btree"
  ms_projects :: "(string, ProjectRecord) btree"
  ms_warehouses :: "(string, WarehouseRecord) btree"
  ms_namespaces :: "(string, (Namespace, NamespaceProperties) btree) btree"
  ms_tables :: "(string, TableRecord) btree"
  ms_commits :: "MemoryCommitRecord list"
  ms_audit_events :: "CatalogAuditEvent list"
  ms_outbox_events :: "OutboxEvent list"
  ms_idempotency :: "(string, IdempotencyReplay) btree"
  ms_storage_profiles :: "(string, StorageProfile) btree"
  ms_views :: "(string, ViewRecord) btree"
  ms_view_version_receipts :: "MemoryViewVersionReceipt list"
  ms_policy_bindings :: "(string, PolicyBinding) btree"
  ms_model_publications :: "(string, ModelPublication list) btree"
  ms_soft_deletes :: "(string, SoftDeleteRecord) btree"
  ms_governed_scan_grants :: "(string, GovernedScanGrant) btree"

type_synonym 'a store_op = "MemoryState \<Rightarrow> 'a result \<times> MemoryState"

definition empty_state :: MemoryState where
  "empty_state =
     \<lparr>ms_servers = [], ms_projects = [], ms_warehouses = [], ms_namespaces = [], ms_tables = [],
      ms_commits = [], ms_audit_events = [], ms_outbox_events = [], ms_idempotency = [],
      ms_storage_profiles = [], ms_views = [], ms_view_version_receipts = [],
      ms_policy_bindings = [], ms_model_publications = [], ms_soft_deletes = [],
      ms_governed_scan_grants = []\<rparr>"

text \<open>
  The checked iteration the listing operations share:
  \<open>map(|(key, row)| { validate(row, key)?; Ok(row) }).collect::<LakeCatResult<Vec<_>>>()?\<close>.
\<close>

definition scoped_rows :: "('v \<Rightarrow> 'k \<Rightarrow> unit result) \<Rightarrow> ('k, 'v) btree \<Rightarrow> 'v list result" where
  "scoped_rows validate rows = traverse (\<lambda>(key, row). and_then (validate row key) (\<lambda>_. Ok row)) rows"

lemma scoped_rows_ok:
  "scoped_rows f m = Ok rows \<longleftrightarrow> rows = map snd m \<and> (\<forall>(k, v) \<in> set m. f v k = Ok ())"
proof (induction m arbitrary: rows)
  case (Cons kv m)
  show ?case
  proof (cases kv)
    case (Pair k v)
    have "scoped_rows f (kv # m) = and_then (f v k) (\<lambda>_. and_then (scoped_rows f m) (\<lambda>rs. Ok (v # rs)))"
      by (auto simp: scoped_rows_def Pair and_then_def split: sum.splits)
    then show ?thesis
      by (auto simp: Pair and_then_ok Cons)
  qed
qed (auto simp: scoped_rows_def)

subsection \<open>Namespaces\<close>

definition warehouse_namespaces ::
  "MemoryState \<Rightarrow> WarehouseName \<Rightarrow> (Namespace, NamespaceProperties) btree option" where
  "warehouse_namespaces s warehouse = bt_get (ms_namespaces s) warehouse"

text \<open>\<open>state.namespaces.get(warehouse).is_some_and(|namespaces| namespaces.contains_key(namespace))\<close>\<close>

definition ns_exists ::
  "(string, (Namespace, NamespaceProperties) btree) btree \<Rightarrow> WarehouseName \<Rightarrow> Namespace \<Rightarrow> bool" where
  "ns_exists namespaces warehouse ns =
     (case bt_get namespaces warehouse of None \<Rightarrow> False | Some nss \<Rightarrow> bt_contains nss ns)"

abbreviation has_namespace :: "MemoryState \<Rightarrow> WarehouseName \<Rightarrow> Namespace \<Rightarrow> bool" where
  "has_namespace s \<equiv> ns_exists (ms_namespaces s)"

definition create_namespace_with_properties ::
  "WarehouseName \<Rightarrow> Namespace \<Rightarrow> NamespaceProperties \<Rightarrow> unit store_op" where
  "create_namespace_with_properties warehouse ns properties s =
     (let nss = (case warehouse_namespaces s warehouse of None \<Rightarrow> [] | Some nss \<Rightarrow> nss);
          s1 = s\<lparr>ms_namespaces := bt_insert warehouse nss (ms_namespaces s)\<rparr>
      in if bt_contains nss ns then (Err (AlreadyExists ''namespace'' (namespace_path ns)), s1)
         else (Ok (), s\<lparr>ms_namespaces := bt_insert warehouse (bt_insert ns properties nss) (ms_namespaces s1)\<rparr>))"

definition create_namespace :: "WarehouseName \<Rightarrow> Namespace \<Rightarrow> unit store_op" where
  "create_namespace warehouse ns = create_namespace_with_properties warehouse ns []"

definition list_namespaces :: "MemoryState \<Rightarrow> WarehouseName \<Rightarrow> Namespace list result" where
  "list_namespaces s warehouse =
     Ok (case warehouse_namespaces s warehouse of None \<Rightarrow> [] | Some nss \<Rightarrow> map fst nss)"

definition load_namespace :: "MemoryState \<Rightarrow> WarehouseName \<Rightarrow> Namespace \<Rightarrow> Namespace result" where
  "load_namespace s warehouse ns =
     ok_or (namespace_not_found ns)
       (Option.bind (warehouse_namespaces s warehouse) (\<lambda>nss.
        map_option fst (find (\<lambda>(k, _). k = ns) nss)))"

definition load_namespace_properties ::
  "MemoryState \<Rightarrow> WarehouseName \<Rightarrow> Namespace \<Rightarrow> NamespaceProperties result" where
  "load_namespace_properties s warehouse ns =
     ok_or (namespace_not_found ns)
       (Option.bind (warehouse_namespaces s warehouse) (\<lambda>nss. bt_get nss ns))"

definition update_namespace_properties ::
  "WarehouseName \<Rightarrow> Namespace \<Rightarrow> NamespacePropertyUpdate \<Rightarrow> NamespacePropertyUpdateResult store_op" where
  "update_namespace_properties warehouse ns update s =
     (case warehouse_namespaces s warehouse of
        None \<Rightarrow> (Err (namespace_not_found ns), s)
      | Some nss \<Rightarrow>
          (case bt_get nss ns of
             None \<Rightarrow> (Err (namespace_not_found ns), s)
           | Some properties \<Rightarrow>
               let (updated_properties, result) = namespace_properties_apply properties update
               in (Ok result,
                   s\<lparr>ms_namespaces :=
                       bt_insert warehouse (bt_insert ns updated_properties nss) (ms_namespaces s)\<rparr>)))"

subsection \<open>Dropping a namespace\<close>

text \<open>The loop over the tables: the keys of the soft-deleted tables of the namespace.\<close>

fun retire_tables ::
  "(string, SoftDeleteRecord) btree \<Rightarrow> WarehouseName \<Rightarrow> Namespace \<Rightarrow> string list \<Rightarrow>
     (string \<times> TableRecord) list \<Rightarrow> string list result" where
  "retire_tables soft_deletes warehouse ns retired [] = Ok retired"
| "retire_tables soft_deletes warehouse ns retired ((key, table) # rest) =
     and_then (validate_table_record_map_scope table key) (\<lambda>_.
     if ti_warehouse (tr_ident table) \<noteq> warehouse \<or> ti_namespace (tr_ident table) \<noteq> ns then
       retire_tables soft_deletes warehouse ns retired rest
     else case bt_get soft_deletes key of
       None \<Rightarrow> Err (namespace_not_empty ns ''tables'')
     | Some soft_delete \<Rightarrow>
         and_then (validate_soft_delete_record_map_scope soft_delete key) (\<lambda>_.
         and_then (soft_delete_validate_for_table soft_delete (tr_ident table) table) (\<lambda>_.
         retire_tables soft_deletes warehouse ns (key # retired) rest)))"

text \<open>The loop over the soft deletes.\<close>

definition check_soft_deletes ::
  "(string, SoftDeleteRecord) btree \<Rightarrow> WarehouseName \<Rightarrow> Namespace \<Rightarrow> string list \<Rightarrow> unit result" where
  "check_soft_deletes soft_deletes warehouse ns retired =
     check_all (\<lambda>(key, d).
       and_then (validate_soft_delete_record_map_scope d key) (\<lambda>_.
       if ti_warehouse (sd_table d) = warehouse \<and> ti_namespace (sd_table d) = ns \<and>
          key \<notin> set retired
       then Err (Internal ''soft-delete row has no matching table registration'')
       else Ok ())) soft_deletes"

definition namespace_has_children :: "MemoryState \<Rightarrow> WarehouseName \<Rightarrow> Namespace \<Rightarrow> bool" where
  "namespace_has_children s warehouse ns =
     (case warehouse_namespaces s warehouse of
        None \<Rightarrow> False
      | Some nss \<Rightarrow> list_ex (\<lambda>candidate. namespace_is_descendant candidate ns) (map fst nss))"

definition check_views_of_namespace ::
  "env \<Rightarrow> MemoryState \<Rightarrow> WarehouseName \<Rightarrow> Namespace \<Rightarrow> unit result" where
  "check_views_of_namespace E s warehouse ns =
     and_then (scoped_rows (validate_view_record_map_scope E) (ms_views s)) (\<lambda>views.
     if list_ex (\<lambda>v. vw_warehouse v = warehouse \<and> vw_namespace v = ns) views
     then Err (namespace_not_empty ns ''views'') else Ok ())"

definition check_policies_of_namespace ::
  "env \<Rightarrow> MemoryState \<Rightarrow> WarehouseName \<Rightarrow> Namespace \<Rightarrow> unit result" where
  "check_policies_of_namespace E s warehouse ns =
     and_then (scoped_rows (validate_policy_binding_map_scope E) (ms_policy_bindings s)) (\<lambda>bindings.
     if list_ex (\<lambda>b. pb_warehouse b = warehouse \<and> pb_namespace b = Some ns) bindings
     then Err (namespace_not_empty ns ''policy bindings'') else Ok ())"

definition remove_namespace :: "WarehouseName \<Rightarrow> Namespace \<Rightarrow> string list \<Rightarrow> Namespace store_op" where
  "remove_namespace warehouse ns retired s =
     (case warehouse_namespaces s warehouse of
        None \<Rightarrow> (Err (namespace_not_found ns), s)
      | Some nss \<Rightarrow>
          if \<not> bt_contains nss ns then (Err (namespace_not_found ns), s)
          else (Ok ns,
            s\<lparr>ms_namespaces := bt_insert warehouse (bt_remove ns nss) (ms_namespaces s),
              ms_tables := bt_retain (\<lambda>key _. key \<notin> set retired) (ms_tables s),
              ms_soft_deletes := bt_retain (\<lambda>key _. key \<notin> set retired) (ms_soft_deletes s),
              ms_commits := filter (\<lambda>commit. mc_table_key commit \<notin> set retired) (ms_commits s),
              ms_idempotency :=
                bt_retain (\<lambda>_ replay. ir_table_key replay \<notin> set retired) (ms_idempotency s)\<rparr>))"

definition drop_namespace :: "env \<Rightarrow> WarehouseName \<Rightarrow> Namespace \<Rightarrow> Namespace store_op" where
  "drop_namespace E warehouse ns s =
     (if \<not> has_namespace s warehouse ns then (Err (namespace_not_found ns), s)
      else if namespace_has_children s warehouse ns then
        (Err (namespace_not_empty ns ''child namespaces''), s)
      else
        qmark (retire_tables (ms_soft_deletes s) warehouse ns [] (ms_tables s)) s (\<lambda>retired.
        qmark (check_soft_deletes (ms_soft_deletes s) warehouse ns retired) s (\<lambda>_.
        qmark (check_views_of_namespace E s warehouse ns) s (\<lambda>_.
        qmark (check_policies_of_namespace E s warehouse ns) s (\<lambda>_.
        remove_namespace warehouse ns retired s)))))"

end
