(* ===== verification/MemoryTables.thy ===== *)
theory MemoryTables
  imports MemoryState
begin

section \<open>The in-memory catalog: tables\<close>

text \<open>
  Creation, loading, listing, soft delete and restore of tables (\<open>memory.rs\<close>). A soft delete keeps
  the row and its commit log and hides them; a restore removes the soft-delete row. Both append one
  audit event and one outbox event, in the same critical section as the change of the tables.
\<close>

definition list_tables :: "MemoryState \<Rightarrow> WarehouseName \<Rightarrow> TableRecord list result" where
  "list_tables s warehouse =
     and_then (scoped_rows validate_table_record_map_scope (ms_tables s)) (\<lambda>tables.
     Ok (filter (\<lambda>t. \<not> bt_contains (ms_soft_deletes s) (table_key (tr_ident t)))
          (filter (\<lambda>t. ti_warehouse (tr_ident t) = warehouse) tables)))"

definition create_table :: "TableRecord \<Rightarrow> TableRecord store_op" where
  "create_table table s =
     qmark (table_record_validate table) s (\<lambda>_.
     if \<not> has_namespace s (ti_warehouse (tr_ident table)) (ti_namespace (tr_ident table)) then
       (Err (namespace_not_found (ti_namespace (tr_ident table))), s)
     else let key = table_key (tr_ident table) in
       if bt_contains (ms_tables s) key then
         (Err (AlreadyExists ''table'' (table_stable_id (tr_ident table))), s)
       else (Ok table, s\<lparr>ms_tables := bt_insert key table (ms_tables s)\<rparr>))"

definition load_table :: "MemoryState \<Rightarrow> TableIdent \<Rightarrow> TableRecord result" where
  "load_table s ident =
     and_then
       (ok_or (table_not_found ident)
         (if bt_contains (ms_soft_deletes s) (table_key ident) then None
          else bt_get (ms_tables s) (table_key ident))) (\<lambda>table.
     and_then (validate_table_record_map_scope table (table_key ident)) (\<lambda>_.
     and_then (validate_table_record_identity table ident) (\<lambda>_. Ok table)))"

definition push_events :: "CatalogAuditEvent \<Rightarrow> OutboxEvent \<Rightarrow> MemoryState \<Rightarrow> MemoryState" where
  "push_events audit outbox s =
     s\<lparr>ms_audit_events := ms_audit_events s @ [audit],
       ms_outbox_events := ms_outbox_events s @ [outbox]\<rparr>"

definition table_audit_event ::
  "string \<Rightarrow> TableIdent \<Rightarrow> Principal \<Rightarrow> string \<Rightarrow> json \<Rightarrow> int \<Rightarrow> CatalogAuditEvent" where
  "table_audit_event event_type ident p payload_hash payload at =
     \<lparr>ae_event_type = event_type, ae_table = Some ident, ae_principal = p,
      ae_request_hash = Some payload_hash, ae_payload = payload, ae_created_at = at\<rparr>"

text \<open>The row of a table, checked against the key and the identity it was looked up by.\<close>

definition checked_table :: "MemoryState \<Rightarrow> TableIdent \<Rightarrow> TableRecord result" where
  "checked_table s ident =
     and_then (ok_or (table_not_found ident) (bt_get (ms_tables s) (table_key ident))) (\<lambda>table.
     and_then (validate_table_record_map_scope table (table_key ident)) (\<lambda>_.
     and_then (validate_table_record_identity table ident) (\<lambda>_. Ok table)))"

subsection \<open>Soft delete\<close>

definition soft_delete_record ::
  "int \<Rightarrow> TableIdent \<Rightarrow> TableRecord \<Rightarrow> Principal \<Rightarrow> json option \<Rightarrow> SoftDeleteRecord" where
  "soft_delete_record now ident table p authorization_receipt =
     \<lparr>sd_table = ident, sd_metadata_location = tr_metadata_location table,
      sd_version = tr_version table, sd_format_version = table_commit_format_version table,
      sd_principal = p, sd_authorization_receipt = authorization_receipt, sd_deleted_at = now\<rparr>"

definition deleted_audit_payload :: "env \<Rightarrow> SoftDeleteRecord \<Rightarrow> TableIdent \<Rightarrow> json" where
  "deleted_audit_payload E d ident =
     jobj [(''event-type'', JStr ''table.deleted''), (''table'', ident_json ident),
           (''soft-delete'', soft_delete_json E d),
           (''authorization-receipt'', jopt (\<lambda>v. v) (sd_authorization_receipt d))]"

definition deleted_outbox_payload :: "string \<Rightarrow> TableIdent \<Rightarrow> json \<Rightarrow> json" where
  "deleted_outbox_payload audit_payload_hash ident audit_payload =
     jobj [(''audit-event-id'', JStr audit_payload_hash),
           (''event-type'', JStr ''table.deleted''), (''table'', ident_json ident),
           (''soft-delete'', jindex audit_payload ''soft-delete''),
           (''authorization-receipt'', jindex audit_payload ''authorization-receipt'')]"

definition soft_delete_table ::
  "env \<Rightarrow> int \<Rightarrow> TableIdent \<Rightarrow> Principal \<Rightarrow> json option \<Rightarrow> TableRecord store_op" where
  "soft_delete_table E now ident p authorization_receipt s =
     (let key = table_key ident in
      if \<not> has_namespace s (ti_warehouse ident) (ti_namespace ident) then
        (Err (namespace_not_found (ti_namespace ident)), s)
      else if bt_contains (ms_soft_deletes s) key then (Err (table_not_found ident), s)
      else
        qmark (checked_table s ident) s (\<lambda>table.
        let record = soft_delete_record now ident table p authorization_receipt in
        qmark (soft_delete_validate_for_table record ident table) s (\<lambda>_.
        let audit_payload = deleted_audit_payload E record ident in
        qmark (content_hash_json E audit_payload) s (\<lambda>audit_payload_hash.
        qmark (outbox_event_from_payload E
                 (deleted_outbox_payload audit_payload_hash ident audit_payload)
                 (sd_deleted_at record)) s (\<lambda>outbox_event.
        (Ok table,
         push_events
           (table_audit_event ''table.deleted'' ident (sd_principal record) audit_payload_hash
              audit_payload (oe_created_at outbox_event)) outbox_event
           (s\<lparr>ms_soft_deletes := bt_insert key record (ms_soft_deletes s)\<rparr>)))))))"

subsection \<open>Restore\<close>

definition restored_audit_payload :: "TableIdent \<Rightarrow> TableRecord \<Rightarrow> json option \<Rightarrow> json" where
  "restored_audit_payload ident table authorization_receipt =
     jobj [(''event-type'', JStr ''table.restored''), (''table'', ident_json ident),
           (''authorization-receipt'', jopt (\<lambda>v. v) authorization_receipt),
           (''metadata-location'', jopt JStr (tr_metadata_location table)),
           (''format-version'', jopt JInt (table_commit_format_version table)),
           (''version'', ju64 (tr_version table))]"

definition restored_outbox_payload :: "string \<Rightarrow> TableIdent \<Rightarrow> json \<Rightarrow> json" where
  "restored_outbox_payload audit_payload_hash ident audit_payload =
     jobj [(''audit-event-id'', JStr audit_payload_hash),
           (''event-type'', JStr ''table.restored''), (''table'', ident_json ident),
           (''payload'', audit_payload),
           (''authorization-receipt'', jindex audit_payload ''authorization-receipt'')]"

definition restore_table ::
  "env \<Rightarrow> int \<Rightarrow> TableIdent \<Rightarrow> Principal \<Rightarrow> json option \<Rightarrow> TableRecord store_op" where
  "restore_table E now ident p authorization_receipt s =
     (let key = table_key ident in
      if \<not> has_namespace s (ti_warehouse ident) (ti_namespace ident) then
        (Err (namespace_not_found (ti_namespace ident)), s)
      else case bt_get (ms_soft_deletes s) key of
        None \<Rightarrow> (Err (NotFound ''soft-deleted table'' (table_stable_id ident)), s)
      | Some record \<Rightarrow>
        qmark (validate_soft_delete_record_map_scope record key) s (\<lambda>_.
        qmark (checked_table s ident) s (\<lambda>table.
        qmark (soft_delete_validate_for_table record ident table) s (\<lambda>_.
        let audit_payload = restored_audit_payload ident table authorization_receipt in
        qmark (content_hash_json E audit_payload) s (\<lambda>audit_payload_hash.
        qmark (outbox_event_from_payload E
                 (restored_outbox_payload audit_payload_hash ident audit_payload) now) s (\<lambda>outbox_event.
        (Ok table,
         push_events
           (table_audit_event ''table.restored'' ident p audit_payload_hash audit_payload now) outbox_event
           (s\<lparr>ms_soft_deletes := bt_remove key (ms_soft_deletes s)\<rparr>))))))))"

end
