(* ===== verification/MemoryCommits.thy ===== *)
theory MemoryCommits
  imports MemoryTables
begin

section \<open>The in-memory catalog: commits\<close>

text \<open>
  \<open>commit_table\<close>, \<open>replay_table_commit\<close>, \<open>table_commit_records\<close> and \<open>rename_table\<close> (\<open>memory.rs\<close>).
  A commit is a compare-and-swap on the metadata pointer; an idempotency key turns its repetition into
  a replay of the recorded response. Commit log, audit event and outbox event are appended together
  with the new row, or nothing is. A rename moves the row and its log to the new key.
\<close>

subsection \<open>Idempotent replay\<close>

definition idempotency_reuse_error :: "TableIdent \<Rightarrow> error" where
  "idempotency_reuse_error ident =
     Conflict (''idempotency key reused with different commit request for '' @ table_stable_id ident)"

definition idempotent_response ::
  "MemoryState \<Rightarrow> TableIdent \<Rightarrow> string \<Rightarrow> string \<Rightarrow> TableRecord option result" where
  "idempotent_response s ident idempotency_key request_hash =
     (case bt_get (ms_idempotency s) (idempotency_key_for ident idempotency_key) of
        None \<Rightarrow> Ok None
      | Some replay \<Rightarrow>
          and_then (validate_idempotency_record_table_key (ir_table_key replay) ident) (\<lambda>_.
          and_then (validate_idempotency_record_request_hash (ir_request_hash replay)) (\<lambda>_.
          if ir_request_hash replay \<noteq> request_hash then Err (idempotency_reuse_error ident)
          else and_then (validate_table_record_identity (ir_response replay) ident) (\<lambda>_.
            Ok (Some (ir_response replay))))))"

definition replay_table_commit ::
  "MemoryState \<Rightarrow> TableIdent \<Rightarrow> string \<Rightarrow> string \<Rightarrow> TableRecord option result" where
  "replay_table_commit s ident idempotency_key idempotency_request_hash =
     and_then (validate_idempotency_key_shape idempotency_key) (\<lambda>_.
     and_then (validate_idempotency_request_hash_shape idempotency_request_hash) (\<lambda>_.
     idempotent_response s ident idempotency_key idempotency_request_hash))"

subsection \<open>Commit\<close>

definition commit_request_json :: "TableCommit \<Rightarrow> json" where
  "commit_request_json c =
     jobj [(''requirements'', JArr (tc_requirements c)), (''updates'', JArr (tc_updates c)),
           (''expected_previous_metadata_location'',
              jopt JStr (tc_expected_previous_metadata_location c)),
           (''new_metadata_location'', jopt JStr (tc_new_metadata_location c)),
           (''new_metadata'', jopt (\<lambda>v. v) (tc_new_metadata c))]"

text \<open>\<open>metadata[key] = value\<close>, a panic when \<open>metadata\<close> is neither an object nor null.\<close>

definition index_assign :: "json \<Rightarrow> string \<Rightarrow> json \<Rightarrow> json result" where
  "index_assign v key x =
     (case jset v key x of None \<Rightarrow> Err (Panicked ''cannot index into JSON value'') | Some w \<Rightarrow> Ok w)"

definition committed_table ::
  "env \<Rightarrow> int \<Rightarrow> MemoryState \<Rightarrow> TableIdent \<Rightarrow> TableCommit \<Rightarrow> string \<Rightarrow>
     (string option \<times> TableRecord) result" where
  "committed_table E now s ident c request_hash =
     and_then (checked_table s ident) (\<lambda>current.
     let previous_metadata_location = tr_metadata_location current in
     if previous_metadata_location \<noteq> tc_expected_previous_metadata_location c then
       Err (metadata_pointer_conflict E ident (tc_expected_previous_metadata_location c)
              previous_metadata_location)
     else
       let version = tr_version current + 1;
           metadata = (case tc_new_metadata c of None \<Rightarrow> tr_metadata current | Some m \<Rightarrow> m) in
       and_then (index_assign metadata ''lakecat:version'' (ju64 version)) (\<lambda>metadata1.
       and_then (index_assign metadata1 ''lakecat:last-request-hash'' (JStr request_hash)) (\<lambda>metadata2.
       Ok (previous_metadata_location,
           current\<lparr>tr_metadata_location := tc_new_metadata_location c, tr_metadata := metadata2,
                   tr_updated_at := now, tr_version := version, tr_staged := False\<rparr>))))"

definition commit_record ::
  "env \<Rightarrow> TableIdent \<Rightarrow> TableCommit \<Rightarrow> string option \<Rightarrow> TableRecord \<Rightarrow> string \<Rightarrow>
     TableCommitRecord result" where
  "commit_record E ident c previous_metadata_location table request_hash =
     and_then (table_response_hash E table) (\<lambda>response_hash.
     Ok \<lparr>cr_table = ident, cr_previous_metadata_location = previous_metadata_location,
         cr_new_metadata_location = tc_new_metadata_location c,
         cr_sequence_number = tr_version table, cr_principal = tc_principal c,
         cr_format_version = table_commit_format_version table,
         cr_snapshot_id = table_commit_snapshot_id table,
         cr_policy_hash = table_commit_policy_hash (tc_authorization_receipt c),
         cr_request_hash = request_hash, cr_response_hash = response_hash,
         cr_idempotency_key_sha256 = map_option (content_hash_bytes E) (tc_idempotency_key c),
         cr_committed_at = tr_updated_at table\<rparr>)"

definition commit_audit_payload ::
  "env \<Rightarrow> TableIdent \<Rightarrow> TableCommit \<Rightarrow> TableCommitRecord \<Rightarrow> json" where
  "commit_audit_payload E ident c record =
     jobj [(''event-type'', JStr ''table.commit''), (''table'', ident_json ident),
           (''commit'', commit_record_json E record),
           (''authorization-receipt'', jopt (\<lambda>v. v) (tc_authorization_receipt c))]"

definition commit_outbox_payload ::
  "env \<Rightarrow> string \<Rightarrow> TableIdent \<Rightarrow> TableCommitRecord \<Rightarrow> json \<Rightarrow> json" where
  "commit_outbox_payload E audit_payload_hash ident record audit_payload =
     jobj [(''audit-event-id'', JStr audit_payload_hash),
           (''event-type'', JStr ''table.commit''), (''table'', ident_json ident),
           (''commit'', commit_record_json E record),
           (''authorization-receipt'', jindex audit_payload ''authorization-receipt'')]"

definition commit_events ::
  "env \<Rightarrow> TableIdent \<Rightarrow> TableCommit \<Rightarrow> TableCommitRecord \<Rightarrow>
     (CatalogAuditEvent \<times> OutboxEvent) result" where
  "commit_events E ident c record =
     (let audit_payload = commit_audit_payload E ident c record in
      and_then (content_hash_json E audit_payload) (\<lambda>audit_payload_hash.
      and_then (outbox_event_from_payload E
                 (commit_outbox_payload E audit_payload_hash ident record audit_payload)
                 (cr_committed_at record)) (\<lambda>outbox_event.
      Ok (table_audit_event ''table.commit'' ident (tc_principal c) audit_payload_hash audit_payload
            (cr_committed_at record), outbox_event))))"

definition install_commit ::
  "TableIdent \<Rightarrow> TableCommit \<Rightarrow> TableRecord \<Rightarrow> TableCommitRecord \<Rightarrow> CatalogAuditEvent \<Rightarrow> OutboxEvent \<Rightarrow>
     MemoryState \<Rightarrow> MemoryState" where
  "install_commit ident c table record audit outbox s =
     (let s1 = push_events audit outbox (s\<lparr>ms_tables := bt_insert (table_key ident) table (ms_tables s)\<rparr>);
          s2 = s1\<lparr>ms_commits := ms_commits s1 @ [\<lparr>mc_table_key = table_key ident, mc_record = record\<rparr>]\<rparr>
      in case tc_idempotency_key c of
           None \<Rightarrow> s2
         | Some key \<Rightarrow>
             s2\<lparr>ms_idempotency :=
               bt_insert (idempotency_key_for ident key)
                 \<lparr>ir_table_key = table_key ident,
                  ir_request_hash = (case tc_idempotency_request_hash c of
                                       Some h \<Rightarrow> h | None \<Rightarrow> cr_request_hash record),
                  ir_response = table\<rparr> (ms_idempotency s2)\<rparr>)"

text \<open>The lookup of the idempotency key, with the request hash the commit is compared by.\<close>

definition commit_replay ::
  "MemoryState \<Rightarrow> TableIdent \<Rightarrow> TableCommit \<Rightarrow> string \<Rightarrow> TableRecord option result" where
  "commit_replay s ident c request_hash =
     (let idempotency_request_hash =
            (case tc_idempotency_request_hash c of Some h \<Rightarrow> h | None \<Rightarrow> request_hash)
      in case tc_idempotency_key c of
           None \<Rightarrow> Ok None
         | Some key \<Rightarrow> idempotent_response s ident key idempotency_request_hash)"

definition fresh_commit ::
  "env \<Rightarrow> int \<Rightarrow> TableIdent \<Rightarrow> TableCommit \<Rightarrow> string \<Rightarrow> TableRecord store_op" where
  "fresh_commit E now ident c request_hash s =
     qmark (committed_table E now s ident c request_hash) s (\<lambda>(previous, table).
     qmark (commit_record E ident c previous table request_hash) s (\<lambda>record.
     qmark (commit_record_validate_for_table E record ident) s (\<lambda>_.
     qmark (commit_events E ident c record) s (\<lambda>(audit, outbox).
     (Ok table, install_commit ident c table record audit outbox s)))))"

definition commit_table :: "env \<Rightarrow> int \<Rightarrow> TableIdent \<Rightarrow> TableCommit \<Rightarrow> TableRecord store_op" where
  "commit_table E now ident c s =
     qmark (table_commit_validate c) s (\<lambda>_.
     if bt_contains (ms_soft_deletes s) (table_key ident) then (Err (table_not_found ident), s)
     else
       qmark (content_hash_json E (commit_request_json c)) s (\<lambda>request_hash.
       qmark (commit_replay s ident c request_hash) s (\<lambda>replayed.
       case replayed of
         Some response \<Rightarrow> (Ok response, s)
       | None \<Rightarrow> fresh_commit E now ident c request_hash s)))"

subsection \<open>The commit log\<close>

definition validate_table_commit_record_memory_scope ::
  "env \<Rightarrow> MemoryCommitRecord \<Rightarrow> TableIdent \<Rightarrow> unit result" where
  "validate_table_commit_record_memory_scope E commit ident =
     (if mc_table_key commit \<noteq> table_key ident then
        Err (Internal ''table commit record row scope does not match requested table'')
      else commit_record_validate_for_table E (mc_record commit) ident)"

definition table_commit_records ::
  "env \<Rightarrow> MemoryState \<Rightarrow> TableIdent \<Rightarrow> 64 word \<Rightarrow> 64 word option \<Rightarrow> TableCommitRecord list result" where
  "table_commit_records E s ident start_version end_version =
     traverse (\<lambda>commit.
       and_then (validate_table_commit_record_memory_scope E commit ident) (\<lambda>_.
       Ok (mc_record commit)))
       (filter (\<lambda>commit. case end_version of None \<Rightarrow> True
                          | Some e \<Rightarrow> cr_sequence_number (mc_record commit) \<le> e)
         (filter (\<lambda>commit. start_version \<le> cr_sequence_number (mc_record commit))
           (filter (\<lambda>commit. mc_table_key commit = table_key ident) (ms_commits s))))"

section \<open>The in-memory catalog: renaming a table\<close>

text \<open>
  \<open>rename_table\<close> (\<open>memory.rs\<close>): everything is checked and computed first (the commit log under the
  new identity, the idempotency rows to retire, the policy bindings to retarget, the two events), then
  installed. The loops over the commits and the bindings are recursions over the same lists; the
  in-place update of the commit log by index is the list with the entries replaced.
\<close>

definition rename_commit ::
  "env \<Rightarrow> TableIdent \<Rightarrow> TableIdent \<Rightarrow> MemoryCommitRecord \<Rightarrow> MemoryCommitRecord result" where
  "rename_commit E source destination commit =
     (if mc_table_key commit \<noteq> table_key source then Ok commit
      else
        and_then (validate_table_commit_record_memory_scope E commit source) (\<lambda>_.
        let renamed = \<lparr>mc_table_key = table_key destination,
                       mc_record = (mc_record commit)\<lparr>cr_table := destination\<rparr>\<rparr> in
        and_then (validate_table_commit_record_memory_scope E renamed destination) (\<lambda>_. Ok renamed)))"

definition idempotency_prefix :: "TableIdent \<Rightarrow> string" where
  "idempotency_prefix ident = table_stable_id ident @ '':''"

fun retired_idempotency ::
  "TableIdent \<Rightarrow> TableIdent \<Rightarrow> (string \<times> IdempotencyReplay) list \<Rightarrow> string list result" where
  "retired_idempotency source destination [] = Ok []"
| "retired_idempotency source destination ((key, replay) # rest) =
     (let keyed_to_source = starts_with key (idempotency_prefix source);
          scoped_to_source = (ir_table_key replay = table_key source) in
      if keyed_to_source \<noteq> scoped_to_source then
        Err (Internal ''table rename found inconsistent source idempotency scope'')
      else
        and_then
          (if keyed_to_source then
             and_then (validate_idempotency_record_table_key (ir_table_key replay) source) (\<lambda>_.
             and_then (validate_idempotency_record_request_hash (ir_request_hash replay)) (\<lambda>_.
             and_then (validate_table_record_identity (ir_response replay) source) (\<lambda>_. Ok [key])))
           else Ok []) (\<lambda>retired.
        if starts_with key (idempotency_prefix destination) \<or> ir_table_key replay = table_key destination then
          Err (Internal ''table rename destination has orphaned idempotency state'')
        else and_then (retired_idempotency source destination rest) (\<lambda>more. Ok (retired @ more))))"

fun renamed_bindings ::
  "env \<Rightarrow> int \<Rightarrow> TableIdent \<Rightarrow> TableIdent \<Rightarrow> (string \<times> PolicyBinding) list \<Rightarrow>
     (string \<times> PolicyBinding) list result" where
  "renamed_bindings E now source destination [] = Ok []"
| "renamed_bindings E now source destination ((key, binding) # rest) =
     and_then (validate_policy_binding_map_scope E binding key) (\<lambda>_.
     and_then
       (if pb_warehouse binding = ti_warehouse source \<and>
           pb_namespace binding = Some (ti_namespace source) \<and>
           pb_table binding = Some (ti_name source)
        then
          let renamed = binding\<lparr>pb_namespace := Some (ti_namespace destination),
                                pb_table := Some (ti_name destination), pb_updated_at := now\<rparr> in
          and_then (policy_binding_validate E renamed) (\<lambda>_. Ok [(key, renamed)])
        else Ok []) (\<lambda>renamed.
     and_then (renamed_bindings E now source destination rest) (\<lambda>more. Ok (renamed @ more))))"

text \<open>The checks of source and destination, up to the table to rename.\<close>

definition rename_source ::
  "MemoryState \<Rightarrow> TableIdent \<Rightarrow> TableIdent \<Rightarrow> TableRecord result" where
  "rename_source s source destination =
     (if \<not> has_namespace s (ti_warehouse destination) (ti_namespace destination) then
        Err (namespace_not_found (ti_namespace destination))
      else if bt_contains (ms_soft_deletes s) (table_key source) then Err (table_not_found source)
      else
        and_then (checked_table s source) (\<lambda>source_table.
        if bt_contains (ms_tables s) (table_key destination) \<or>
           bt_contains (ms_soft_deletes s) (table_key destination) then
          Err (AlreadyExists ''table'' (table_stable_id destination))
        else if list_ex (\<lambda>commit. mc_table_key commit = table_key destination) (ms_commits s) then
          Err (Internal ''table rename destination has orphaned commit history'')
        else Ok source_table))"

definition install_rename ::
  "TableIdent \<Rightarrow> TableIdent \<Rightarrow> TableRecord \<Rightarrow> MemoryCommitRecord list \<Rightarrow> string list \<Rightarrow>
     (string \<times> PolicyBinding) list \<Rightarrow> CatalogAuditEvent \<Rightarrow> OutboxEvent \<Rightarrow> MemoryState \<Rightarrow> MemoryState" where
  "install_rename source destination table commits retired bindings audit outbox s =
     push_events audit outbox
       (s\<lparr>ms_tables := bt_insert (table_key destination) table (bt_remove (table_key source) (ms_tables s)),
          ms_commits := commits,
          ms_idempotency := foldl (\<lambda>rows key. bt_remove key rows) (ms_idempotency s) retired,
          ms_policy_bindings := bt_extend (ms_policy_bindings s) bindings\<rparr>)"

definition rename_table ::
  "env \<Rightarrow> int \<Rightarrow> TableIdent \<Rightarrow> TableIdent \<Rightarrow> Principal \<Rightarrow> json option \<Rightarrow> TableRecord store_op" where
  "rename_table E now source destination p authorization_receipt s =
     (if ti_warehouse source \<noteq> ti_warehouse destination then
        (Err (InvalidArgument ''table rename cannot cross warehouses''), s)
      else
        qmark (rename_source s source destination) s (\<lambda>source_table.
        let renamed_table = source_table\<lparr>tr_ident := destination, tr_updated_at := now\<rparr> in
        qmark (table_record_validate renamed_table) s (\<lambda>_.
        qmark (traverse (rename_commit E source destination) (ms_commits s)) s (\<lambda>commits.
        qmark (retired_idempotency source destination (ms_idempotency s)) s (\<lambda>retired.
        qmark (renamed_bindings E now source destination (ms_policy_bindings s)) s (\<lambda>bindings.
        qmark (table_rename_events E source renamed_table p authorization_receipt now) s (\<lambda>(audit, outbox).
        (Ok renamed_table,
         install_rename source destination renamed_table commits retired bindings audit outbox s))))))))"

end
