(* ===== verification/MemoryViews.thy ===== *)
theory MemoryViews
  imports MemoryCommits
begin

section \<open>The in-memory catalog: views\<close>

text \<open>
  \<open>upsert_view\<close>, \<open>upsert_view_if_version\<close>, \<open>drop_view_if_version\<close> and the listings (\<open>memory.rs\<close>).
  \<open>upsert_view\<close> repeats the body of \<open>upsert_view_if_version\<close> without the version guard; the shared
  part is \<open>install_view\<close>. A drop removes the row before it validates the receipts of the view, so an
  error of the validation returns the state without the row, as the code does.
\<close>

text \<open>The receipts of a view key, each checked against the view's identity.\<close>

definition scoped_receipts ::
  "MemoryState \<Rightarrow> string \<Rightarrow> WarehouseName \<Rightarrow> Namespace \<Rightarrow> TableName \<Rightarrow> ViewVersionReceipt list result" where
  "scoped_receipts s key warehouse ns view =
     traverse (\<lambda>row.
       and_then (validate_memory_view_receipt_scope row warehouse ns (Some view)) (\<lambda>_.
       Ok (mv_receipt row)))
       (filter (\<lambda>row. mv_view_key row = key) (ms_view_version_receipts s))"

definition push_receipt :: "string \<Rightarrow> ViewVersionReceipt \<Rightarrow> MemoryState \<Rightarrow> MemoryState" where
  "push_receipt key receipt s =
     s\<lparr>ms_view_version_receipts :=
         ms_view_version_receipts s @ [\<lparr>mv_view_key = key, mv_receipt = receipt\<rparr>]\<rparr>"

definition checked_previous_view :: "env \<Rightarrow> ViewRecord option \<Rightarrow> string \<Rightarrow> unit result" where
  "checked_previous_view E previous key =
     (case previous of None \<Rightarrow> Ok () | Some p \<Rightarrow> validate_view_record_map_scope E p key)"

definition install_view ::
  "env \<Rightarrow> int \<Rightarrow> ViewRecord \<Rightarrow> ViewRecord store_op" where
  "install_view E now view s =
     (let key = view_key view;
          previous = bt_get (ms_views s) key in
      qmark (scoped_receipts s key (vw_warehouse view) (vw_namespace view) (vw_name view)) s (\<lambda>receipts.
      qmark (latest_view_receipt_evidence E receipts) s (\<lambda>latest_receipt.
      let latest_receipt_version = map_option fst latest_receipt;
          previous_receipt_hash = map_option snd latest_receipt;
          previous_view_version =
            (case previous of Some p \<Rightarrow> Some (vw_view_version p) | None \<Rightarrow> latest_receipt_version) in
      qmark (with_next_version_after_history E view previous latest_receipt_version) s (\<lambda>view'.
      qmark (receipt_upsert E now previous_view_version previous_receipt_hash view'
               (as_principal (vw_created view))) s (\<lambda>receipt.
      (Ok view', push_receipt key receipt (s\<lparr>ms_views := bt_insert key view' (ms_views s)\<rparr>)))))))"

definition upsert_view :: "env \<Rightarrow> int \<Rightarrow> ViewRecord \<Rightarrow> ViewRecord store_op" where
  "upsert_view E now view s =
     qmark (view_validate E view) s (\<lambda>_.
     qmark (checked_previous_view E (bt_get (ms_views s) (view_key view)) (view_key view)) s (\<lambda>_.
     install_view E now view s))"

definition upsert_view_if_version ::
  "env \<Rightarrow> int \<Rightarrow> ViewRecord \<Rightarrow> 64 word option \<Rightarrow> ViewRecord store_op" where
  "upsert_view_if_version E now view expected_view_version s =
     qmark (view_validate E view) s (\<lambda>_.
     qmark (case expected_view_version of None \<Rightarrow> Ok ()
            | Some expected \<Rightarrow> validate_expected_view_version expected) s (\<lambda>_.
     let previous = bt_get (ms_views s) (view_key view) in
     qmark (checked_previous_view E previous (view_key view)) s (\<lambda>_.
     qmark (case expected_view_version of None \<Rightarrow> Ok ()
            | Some expected \<Rightarrow> require_expected_view_version previous expected) s (\<lambda>_.
     install_view E now view s))))"

definition view_not_found :: "TableName \<Rightarrow> error" where
  "view_not_found view = NotFound ''view'' view"

definition drop_view_if_version ::
  "env \<Rightarrow> int \<Rightarrow> WarehouseName \<Rightarrow> Namespace \<Rightarrow> TableName \<Rightarrow> Principal \<Rightarrow> 64 word option \<Rightarrow>
     ViewRecord store_op" where
  "drop_view_if_version E now warehouse ns view p expected_view_version s =
     qmark (case expected_view_version of None \<Rightarrow> Ok ()
            | Some expected \<Rightarrow> validate_expected_view_version expected) s (\<lambda>_.
     let key = view_key_parts warehouse ns view in
     qmark (ok_or (view_not_found view) (bt_get (ms_views s) key)) s (\<lambda>current.
     qmark (validate_view_record_map_scope E current key) s (\<lambda>_.
     qmark (validate_view_record_scope E current warehouse ns view) s (\<lambda>_.
     qmark (case expected_view_version of None \<Rightarrow> Ok ()
            | Some expected \<Rightarrow> require_expected_view_version (Some current) expected) s (\<lambda>_.
     let s1 = s\<lparr>ms_views := bt_remove key (ms_views s)\<rparr> in
     qmark (scoped_receipts s1 key warehouse ns view) s1 (\<lambda>receipts.
     qmark (latest_view_receipt_hash E receipts) s1 (\<lambda>previous_receipt_hash.
     qmark (receipt_drop E now current previous_receipt_hash p) s1 (\<lambda>receipt.
     (Ok current, push_receipt key receipt s1)))))))))"

definition drop_view ::
  "env \<Rightarrow> int \<Rightarrow> WarehouseName \<Rightarrow> Namespace \<Rightarrow> TableName \<Rightarrow> Principal \<Rightarrow> ViewRecord store_op" where
  "drop_view E now warehouse ns view p = drop_view_if_version E now warehouse ns view p None"

definition load_view ::
  "env \<Rightarrow> MemoryState \<Rightarrow> WarehouseName \<Rightarrow> Namespace \<Rightarrow> TableName \<Rightarrow> ViewRecord result" where
  "load_view E s warehouse ns view =
     (let key = view_key_parts warehouse ns view in
      and_then (ok_or (view_not_found view) (bt_get (ms_views s) key)) (\<lambda>record.
      and_then (validate_view_record_map_scope E record key) (\<lambda>_.
      and_then (validate_view_record_scope E record warehouse ns view) (\<lambda>_. Ok record))))"

definition list_views ::
  "env \<Rightarrow> MemoryState \<Rightarrow> WarehouseName \<Rightarrow> Namespace \<Rightarrow> ViewRecord list result" where
  "list_views E s warehouse ns =
     and_then (scoped_rows (validate_view_record_map_scope E) (ms_views s)) (\<lambda>views.
     Ok (sort_key vw_name (filter (\<lambda>v. vw_warehouse v = warehouse \<and> vw_namespace v = ns) views)))"

definition list_warehouse_views :: "env \<Rightarrow> MemoryState \<Rightarrow> WarehouseName \<Rightarrow> ViewRecord list result" where
  "list_warehouse_views E s warehouse =
     and_then (scoped_rows (validate_view_record_map_scope E)
                (filter (\<lambda>(key, _). view_key_matches_warehouse key warehouse) (ms_views s))) (\<lambda>views.
     Ok (sort_key (\<lambda>v. (vw_namespace v, vw_name v)) views))"

subsection \<open>Listing receipts\<close>

definition list_view_version_receipts ::
  "env \<Rightarrow> MemoryState \<Rightarrow> WarehouseName \<Rightarrow> Namespace \<Rightarrow> TableName \<Rightarrow> ViewVersionReceipt list result" where
  "list_view_version_receipts E s warehouse ns view =
     and_then (scoped_receipts s (view_key_parts warehouse ns view) warehouse ns view) (\<lambda>receipts.
     and_then (validate_view_receipt_chains E receipts) (\<lambda>_. Ok receipts))"

definition list_namespace_view_version_receipts ::
  "env \<Rightarrow> MemoryState \<Rightarrow> WarehouseName \<Rightarrow> Namespace \<Rightarrow> ViewVersionReceipt list result" where
  "list_namespace_view_version_receipts E s warehouse ns =
     and_then
       (traverse (\<lambda>row.
          and_then (validate_memory_view_receipt_scope row warehouse ns None) (\<lambda>_. Ok (mv_receipt row)))
          (filter (\<lambda>row. memory_view_receipt_key_matches_namespace (mv_view_key row) warehouse ns)
            (ms_view_version_receipts s))) (\<lambda>receipts.
     and_then (validate_view_receipt_chains E receipts) (\<lambda>_. Ok receipts))"

definition list_warehouse_view_version_receipts ::
  "env \<Rightarrow> MemoryState \<Rightarrow> WarehouseName \<Rightarrow> ViewVersionReceipt list result" where
  "list_warehouse_view_version_receipts E s warehouse =
     and_then
       (traverse (\<lambda>row.
          and_then (validate_memory_view_receipt_scope row warehouse
              (vr_namespace (mv_receipt row)) (Some (vr_name (mv_receipt row)))) (\<lambda>_.
          Ok (mv_receipt row)))
          (filter (\<lambda>row. view_key_matches_warehouse (mv_view_key row) warehouse)
            (ms_view_version_receipts s))) (\<lambda>receipts.
     let receipts' =
       sort_key (\<lambda>r. (vr_namespace r, vr_name r, vr_view_version r, vr_recorded_at r)) receipts in
     and_then (validate_view_receipt_chains E receipts') (\<lambda>_. Ok receipts'))"

end
