(* ===== verification/MemoryRegistry.thy ===== *)
theory MemoryRegistry
  imports MemoryState
begin

section \<open>The in-memory catalog: registries\<close>

text \<open>
  Servers, projects, warehouses, storage profiles and policy bindings (\<open>memory.rs\<close>): an upsert
  validates the record, the record it refers to and the row it replaces; loads and listings validate
  every row against its key. The contract the five upserts share is the locale \<open>registry\<close>,
  interpreted on each.
\<close>

subsection \<open>Servers\<close>

text \<open>\<open>if let Some(existing) = map.get(key) { validate(existing, key)?; }\<close>\<close>

definition check_existing :: "('v \<Rightarrow> 'k \<Rightarrow> unit result) \<Rightarrow> 'v option \<Rightarrow> 'k \<Rightarrow> unit result" where
  "check_existing validate existing key =
     (case existing of None \<Rightarrow> Ok () | Some row \<Rightarrow> validate row key)"

definition upsert_server :: "env \<Rightarrow> ServerRecord \<Rightarrow> ServerRecord store_op" where
  "upsert_server E server s =
     qmark (server_validate E server) s (\<lambda>_.
     qmark (check_existing (validate_server_record_map_scope E)
              (bt_get (ms_servers s) (sv_server_id server)) (sv_server_id server)) s (\<lambda>_.
     (Ok server, s\<lparr>ms_servers := bt_insert (sv_server_id server) server (ms_servers s)\<rparr>)))"

definition list_servers :: "env \<Rightarrow> MemoryState \<Rightarrow> ServerRecord list result" where
  "list_servers E s =
     and_then (scoped_rows (validate_server_record_map_scope E) (ms_servers s)) (\<lambda>servers.
     Ok (sort_key sv_server_id servers))"

definition server_row :: "env \<Rightarrow> MemoryState \<Rightarrow> string \<Rightarrow> ServerRecord result" where
  "server_row E s server_id =
     and_then (ok_or (NotFound ''server'' server_id) (bt_get (ms_servers s) server_id)) (\<lambda>server.
     and_then (validate_server_record_map_scope E server server_id) (\<lambda>_. Ok server))"

definition load_server :: "env \<Rightarrow> MemoryState \<Rightarrow> string \<Rightarrow> ServerRecord result" where
  "load_server E s server_id =
     and_then (validate_project_id E server_id) (\<lambda>_. server_row E s server_id)"

subsection \<open>Projects\<close>

definition upsert_project :: "env \<Rightarrow> ProjectRecord \<Rightarrow> ProjectRecord store_op" where
  "upsert_project E project s =
     qmark (project_validate E project) s (\<lambda>_.
     qmark (case pj_server_id project of None \<Rightarrow> Ok ()
            | Some server_id \<Rightarrow> and_then (server_row E s server_id) (\<lambda>_. Ok ())) s (\<lambda>_.
     qmark (check_existing (validate_project_record_map_scope E)
              (bt_get (ms_projects s) (pj_project_id project)) (pj_project_id project)) s (\<lambda>_.
     (Ok project, s\<lparr>ms_projects := bt_insert (pj_project_id project) project (ms_projects s)\<rparr>))))"

definition list_projects :: "env \<Rightarrow> MemoryState \<Rightarrow> ProjectRecord list result" where
  "list_projects E s =
     and_then (scoped_rows (validate_project_record_map_scope E) (ms_projects s)) (\<lambda>projects.
     Ok (sort_key pj_project_id projects))"

definition project_row :: "env \<Rightarrow> MemoryState \<Rightarrow> string \<Rightarrow> ProjectRecord result" where
  "project_row E s project_id =
     and_then (ok_or (NotFound ''project'' project_id) (bt_get (ms_projects s) project_id)) (\<lambda>project.
     and_then (validate_project_record_map_scope E project project_id) (\<lambda>_. Ok project))"

definition load_project :: "env \<Rightarrow> MemoryState \<Rightarrow> string \<Rightarrow> ProjectRecord result" where
  "load_project E s project_id =
     and_then (validate_project_id E project_id) (\<lambda>_. project_row E s project_id)"

subsection \<open>Warehouses\<close>

definition upsert_warehouse :: "env \<Rightarrow> WarehouseRecord \<Rightarrow> WarehouseRecord store_op" where
  "upsert_warehouse E warehouse s =
     qmark (warehouse_validate E warehouse) s (\<lambda>_.
     qmark (project_row E s (wr_project_id warehouse)) s (\<lambda>_.
     let warehouse_key = wr_warehouse warehouse in
     qmark (check_existing (validate_warehouse_record_map_scope E)
              (bt_get (ms_warehouses s) warehouse_key) warehouse_key) s (\<lambda>_.
     (Ok warehouse, s\<lparr>ms_warehouses := bt_insert warehouse_key warehouse (ms_warehouses s)\<rparr>))))"

definition load_warehouse :: "env \<Rightarrow> MemoryState \<Rightarrow> WarehouseName \<Rightarrow> WarehouseRecord result" where
  "load_warehouse E s warehouse =
     and_then (ok_or (NotFound ''warehouse'' warehouse) (bt_get (ms_warehouses s) warehouse)) (\<lambda>row.
     and_then (validate_warehouse_record_map_scope E row warehouse) (\<lambda>_. Ok row))"

definition list_warehouses :: "env \<Rightarrow> MemoryState \<Rightarrow> WarehouseRecord list result" where
  "list_warehouses E s =
     and_then (scoped_rows (validate_warehouse_record_map_scope E) (ms_warehouses s)) (\<lambda>warehouses.
     Ok (sort_key wr_warehouse warehouses))"

definition list_project_warehouses :: "env \<Rightarrow> MemoryState \<Rightarrow> string \<Rightarrow> WarehouseRecord list result" where
  "list_project_warehouses E s project_id =
     and_then (validate_project_id E project_id) (\<lambda>_.
     and_then (project_row E s project_id) (\<lambda>_.
     and_then (scoped_rows (validate_warehouse_record_map_scope E) (ms_warehouses s)) (\<lambda>warehouses.
     Ok (sort_key wr_warehouse (filter (\<lambda>w. wr_project_id w = project_id) warehouses)))))"

subsection \<open>Storage profiles\<close>

definition upsert_storage_profile :: "env \<Rightarrow> StorageProfile \<Rightarrow> StorageProfile store_op" where
  "upsert_storage_profile E profile s =
     qmark (storage_profile_validate E profile) s (\<lambda>_.
     let key = storage_profile_key (sp_warehouse profile) (sp_profile_id profile) in
     qmark (check_existing (validate_storage_profile_map_scope E)
              (bt_get (ms_storage_profiles s) key) key) s (\<lambda>_.
     (Ok profile, s\<lparr>ms_storage_profiles := bt_insert key profile (ms_storage_profiles s)\<rparr>)))"

definition list_storage_profiles :: "env \<Rightarrow> MemoryState \<Rightarrow> WarehouseName \<Rightarrow> StorageProfile list result" where
  "list_storage_profiles E s warehouse =
     and_then (scoped_rows (validate_storage_profile_map_scope E) (ms_storage_profiles s)) (\<lambda>profiles.
     Ok (sort_key sp_profile_id (filter (\<lambda>p. sp_warehouse p = warehouse) profiles)))"

definition storage_profile_for_table :: "env \<Rightarrow> MemoryState \<Rightarrow> TableRecord \<Rightarrow> StorageProfile result" where
  "storage_profile_for_table E s table =
     and_then (scoped_rows (validate_storage_profile_map_scope E) (ms_storage_profiles s)) (\<lambda>profiles.
     and_then (storage_profile_match E profiles table) (\<lambda>best.
     Ok (case best of Some p \<Rightarrow> p | None \<Rightarrow> storage_profile_inferred_for_table table)))"

subsection \<open>Policy bindings\<close>

definition upsert_policy_binding :: "env \<Rightarrow> PolicyBinding \<Rightarrow> PolicyBinding store_op" where
  "upsert_policy_binding E binding s =
     qmark (policy_binding_validate E binding) s (\<lambda>_.
     let key = policy_binding_key (pb_warehouse binding) (pb_policy_id binding) in
     qmark (check_existing (validate_policy_binding_map_scope E)
              (bt_get (ms_policy_bindings s) key) key) s (\<lambda>_.
     (Ok binding, s\<lparr>ms_policy_bindings := bt_insert key binding (ms_policy_bindings s)\<rparr>)))"

definition list_policy_bindings :: "env \<Rightarrow> MemoryState \<Rightarrow> WarehouseName \<Rightarrow> PolicyBinding list result" where
  "list_policy_bindings E s warehouse =
     and_then (scoped_rows (validate_policy_binding_map_scope E) (ms_policy_bindings s)) (\<lambda>bindings.
     Ok (sort_key pb_policy_id (filter (\<lambda>b. pb_warehouse b = warehouse) bindings)))"

definition store_policy_bindings_for_tables ::
  "env \<Rightarrow> MemoryState \<Rightarrow> TableIdent list \<Rightarrow> PolicyBinding list list result" where
  "store_policy_bindings_for_tables E s tables =
     and_then (scoped_rows (validate_policy_binding_map_scope E) (ms_policy_bindings s)) (\<lambda>bindings.
     Ok (map (policy_bindings_for_table bindings) tables))"

definition store_policy_bindings_for_table ::
  "env \<Rightarrow> MemoryState \<Rightarrow> TableIdent \<Rightarrow> PolicyBinding list result" where
  "store_policy_bindings_for_table E s table =
     and_then (scoped_rows (validate_policy_binding_map_scope E) (ms_policy_bindings s)) (\<lambda>bindings.
     Ok (policy_bindings_for_table bindings table))"

end
