(* ===== verification/MemoryOutbox.thy ===== *)
theory MemoryOutbox
  imports MemoryTables
begin

section \<open>The in-memory catalog: models, grants, audit events and the outbox\<close>

text \<open>
  \<open>publish_model\<close>, \<open>save_governed_scan_grant\<close>, \<open>record_audit_event\<close>, \<open>pending_outbox_events\<close> and
  \<open>mark_outbox_delivered\<close> (\<open>memory.rs\<close>). A model publication is a compare-and-swap on the last
  version; the outbox is an append-only list whose events are marked once delivered.
\<close>

subsection \<open>Model publications\<close>

definition model_published_payload :: "ModelPublication \<Rightarrow> json" where
  "model_published_payload m =
     jobj [(''event-type'', JStr ''model.published''), (''warehouse'', JStr (mp_warehouse m)),
           (''model-id'', JStr (mp_model_id m)), (''version'', ju64 (mp_version m)),
           (''artifact-uri'', JStr (mp_artifact_uri m)), (''artifact-hash'', JStr (mp_artifact_hash m)),
           (''physical-bindings'', mp_physical_bindings m),
           (''policy-binding-ids'', jstrs (mp_policy_binding_ids m)),
           (''publisher'', principal_json (mp_publisher m))]"

definition publication_events ::
  "env \<Rightarrow> int \<Rightarrow> ModelPublication \<Rightarrow> (CatalogAuditEvent \<times> OutboxEvent) result" where
  "publication_events E now m =
     and_then (audit_event_new E now ''model.published'' None (mp_publisher m)
                (model_published_payload m)) (\<lambda>audit.
     and_then (audit_event_id E audit) (\<lambda>event_id.
     and_then (outbox_event_from_payload E (audit_outbox_payload event_id audit)
                (ae_created_at audit)) (\<lambda>outbox. Ok (audit, outbox))))"

definition check_policy_exists :: "env \<Rightarrow> MemoryState \<Rightarrow> WarehouseName \<Rightarrow> string \<Rightarrow> unit result" where
  "check_policy_exists E s warehouse policy_id =
     (if bt_contains (ms_policy_bindings s) (policy_binding_key warehouse policy_id) then Ok ()
      else Err (NotFound ''policy binding'' (content_hash_bytes E policy_id)))"

definition last_version :: "ModelPublication list \<Rightarrow> 64 word option" where
  "last_version publications = (if publications = [] then None else Some (mp_version (last publications)))"

text \<open>\<open>entry(key).or_default()\<close> leaves an empty list behind when the version check fails.\<close>

definition publish_model ::
  "env \<Rightarrow> int \<Rightarrow> ModelPublication \<Rightarrow> 64 word option \<Rightarrow> ModelPublication store_op" where
  "publish_model E now m expected_current_version s =
     qmark (model_publication_validate E m) s (\<lambda>_.
     let key = model_publication_key (mp_warehouse m) (mp_model_id m) in
     qmark (publication_events E now m) s (\<lambda>(audit, outbox).
     qmark (check_all (check_policy_exists E s (mp_warehouse m)) (mp_policy_binding_ids m)) s (\<lambda>_.
     let publications = (case bt_get (ms_model_publications s) key of None \<Rightarrow> [] | Some ps \<Rightarrow> ps);
         s1 = s\<lparr>ms_model_publications := bt_insert key publications (ms_model_publications s)\<rparr>;
         current = last_version publications in
     if current \<noteq> expected_current_version \<or>
        mp_version m \<noteq> (case current of None \<Rightarrow> 0 | Some v \<Rightarrow> v) + 1 then
       (Err (Conflict ''model publication compare-and-swap version mismatch''), s1)
     else
       (Ok m, push_events audit outbox
          (s1\<lparr>ms_model_publications :=
                bt_insert key (publications @ [m]) (ms_model_publications s1)\<rparr>)))))"

definition model_publications :: "MemoryState \<Rightarrow> WarehouseName \<Rightarrow> string \<Rightarrow> ModelPublication list" where
  "model_publications s warehouse model_id =
     (case bt_get (ms_model_publications s) (model_publication_key warehouse model_id) of
        None \<Rightarrow> [] | Some ps \<Rightarrow> ps)"

subsection \<open>Governed scan grants\<close>

definition save_governed_scan_grant :: "env \<Rightarrow> GovernedScanGrant \<Rightarrow> GovernedScanGrant store_op" where
  "save_governed_scan_grant E grant s =
     qmark (grant_validate E grant) s (\<lambda>_.
     case bt_get (ms_governed_scan_grants s) (gp_grant_id (gg_proof grant)) of
       Some existing \<Rightarrow>
         if has_same_stable_evidence existing grant then (Ok existing, s)
         else (Err (Conflict ''governed scan grant id was reused with different evidence''), s)
     | None \<Rightarrow>
         (Ok grant, s\<lparr>ms_governed_scan_grants :=
            bt_insert (gp_grant_id (gg_proof grant)) grant (ms_governed_scan_grants s)\<rparr>))"

definition load_governed_scan_grant :: "env \<Rightarrow> MemoryState \<Rightarrow> string \<Rightarrow> GovernedScanGrant result" where
  "load_governed_scan_grant E s grant_id =
     and_then (validate_governed_scan_grant_id grant_id) (\<lambda>_.
     and_then (ok_or (NotFound ''governed scan grant'' grant_id)
                (bt_get (ms_governed_scan_grants s) grant_id)) (\<lambda>grant.
     and_then (grant_validate E grant) (\<lambda>_. Ok grant)))"

subsection \<open>Audit events\<close>

definition record_audit_event :: "env \<Rightarrow> CatalogAuditEvent \<Rightarrow> unit store_op" where
  "record_audit_event E ev s =
     qmark (validate_recordable E ev) s (\<lambda>_.
     qmark (audit_event_id E ev) s (\<lambda>event_id.
     qmark (outbox_event_from_payload E (audit_outbox_payload event_id ev) (ae_created_at ev)) s (\<lambda>outbox_event.
     if list_ex (\<lambda>candidate. oe_event_id candidate = oe_event_id outbox_event) (ms_outbox_events s) then
       (Err (Internal ''duplicate audit event id would duplicate outbox replay evidence''), s)
     else (Ok (), push_events ev outbox_event s))))"

subsection \<open>The outbox\<close>

definition sink_matches :: "string option \<Rightarrow> OutboxEvent \<Rightarrow> bool" where
  "sink_matches sink ev = (case sink of None \<Rightarrow> True | Some name \<Rightarrow> oe_sink ev = name)"

definition pending_outbox_events ::
  "env \<Rightarrow> MemoryState \<Rightarrow> string option \<Rightarrow> nat \<Rightarrow> OutboxEvent list result" where
  "pending_outbox_events E s sink limit =
     (let events =
        take limit
          (sort_key (\<lambda>ev. (oe_created_at ev, oe_event_id ev))
            (filter (sink_matches sink)
              (filter (\<lambda>ev. oe_delivered_at ev = None) (ms_outbox_events s))))
      in and_then (check_all (validate_pending E) events) (\<lambda>_. Ok events))"

definition to_deliver :: "string list \<Rightarrow> OutboxEvent \<Rightarrow> bool" where
  "to_deliver event_ids ev \<longleftrightarrow> oe_delivered_at ev = None \<and> oe_event_id ev \<in> set event_ids"

text \<open>The loop that marks the events and counts them in a \<open>usize\<close>.\<close>

fun deliver_loop ::
  "int \<Rightarrow> string list \<Rightarrow> nat \<Rightarrow> OutboxEvent list \<Rightarrow> nat \<times> OutboxEvent list" where
  "deliver_loop now event_ids delivered [] = (delivered, [])"
| "deliver_loop now event_ids delivered (ev # events) =
     (if to_deliver event_ids ev
      then let (n, rest) = deliver_loop now event_ids (delivered + 1) events
           in (n, ev\<lparr>oe_delivered_at := Some now\<rparr> # rest)
      else let (n, rest) = deliver_loop now event_ids delivered events in (n, ev # rest))"

definition mark_outbox_delivered :: "env \<Rightarrow> int \<Rightarrow> string list \<Rightarrow> nat store_op" where
  "mark_outbox_delivered E now event_ids s =
     (if event_ids = [] then (Ok 0, s)
      else
        qmark (check_all validate_outbox_event_id_shape event_ids) s (\<lambda>_.
        qmark (check_all (validate_pending E) (filter (to_deliver event_ids) (ms_outbox_events s))) s (\<lambda>_.
        let (delivered, events) = deliver_loop now event_ids 0 (ms_outbox_events s)
        in (Ok delivered, s\<lparr>ms_outbox_events := events\<rparr>))))"

end
