(* ===== verification/StoreInvariant.thy ===== *)
theory StoreInvariant
  imports MemoryCommits MemoryViews MemoryRegistry MemoryOutbox
begin

section \<open>The invariant of the in-memory catalog\<close>

text \<open>
  What every operation keeps, one predicate per group of maps, each a function of the fields it
  constrains so that an operation's frame is discharged by the record simplifier:
  \<^item> every row is valid and stored under the key of its own identity;
  \<^item> a table's namespace exists; a soft-delete row, a commit and an idempotency row belong to a table;
  \<^item> the commit log of a table is linked: consecutive sequence numbers ending at the table's version,
    each commit starting from the metadata location the one before it installed, the last one
    having installed the table's;
  \<^item> an outbox event is well formed, an audit event names the hash of its payload;
  \<^item> a project's server and a warehouse's project exist;
  \<^item> the publications of a model have versions 1, 2, 3, ...
\<close>

definition namespaces_inv :: "(string, (Namespace, NamespaceProperties) btree) btree \<Rightarrow> bool" where
  "namespaces_inv nsm \<longleftrightarrow> rows_ok (\<lambda>_ nss. bt_wf nss) nsm"

definition table_row ::
  "(string, (Namespace, NamespaceProperties) btree) btree \<Rightarrow> string \<Rightarrow> TableRecord \<Rightarrow> bool" where
  "table_row nsm key t \<longleftrightarrow>
     table_record_validate t = Ok () \<and> valid_ident (tr_ident t) \<and> table_key (tr_ident t) = key \<and>
     ns_exists nsm (ti_warehouse (tr_ident t)) (ti_namespace (tr_ident t))"

definition tables_inv ::
  "(string, (Namespace, NamespaceProperties) btree) btree \<Rightarrow> (string, TableRecord) btree \<Rightarrow> bool" where
  "tables_inv nsm tables \<longleftrightarrow> rows_ok (table_row nsm) tables"

definition with_table :: "(string, TableRecord) btree \<Rightarrow> string \<Rightarrow> (TableRecord \<Rightarrow> bool) \<Rightarrow> bool" where
  "with_table tables key P = (case bt_get tables key of None \<Rightarrow> False | Some t \<Rightarrow> P t)"

definition deletes_inv :: "(string, TableRecord) btree \<Rightarrow> (string, SoftDeleteRecord) btree \<Rightarrow> bool" where
  "deletes_inv tables deletes \<longleftrightarrow>
     rows_ok (\<lambda>key d. with_table tables key (\<lambda>t. soft_delete_validate_for_table d (tr_ident t) t = Ok ())) deletes"

text \<open>A log, newest commit first, that ends at a pointer and a version.\<close>

fun linked_log :: "string option \<Rightarrow> 64 word \<Rightarrow> TableCommitRecord list \<Rightarrow> bool" where
  "linked_log pointer version [] = True"
| "linked_log pointer version (c # cs) =
     (cr_new_metadata_location c = pointer \<and> cr_sequence_number c = version \<and>
      linked_log (cr_previous_metadata_location c) (version - 1) cs)"

definition log_of :: "string \<Rightarrow> MemoryCommitRecord list \<Rightarrow> TableCommitRecord list" where
  "log_of key commits = map mc_record (filter (\<lambda>c. mc_table_key c = key) commits)"

definition commit_row :: "env \<Rightarrow> (string, TableRecord) btree \<Rightarrow> MemoryCommitRecord \<Rightarrow> bool" where
  "commit_row E tables c \<longleftrightarrow>
     with_table tables (mc_table_key c)
       (\<lambda>t. commit_record_validate_for_table E (mc_record c) (tr_ident t) = Ok ())"

definition commits_inv :: "env \<Rightarrow> (string, TableRecord) btree \<Rightarrow> MemoryCommitRecord list \<Rightarrow> bool" where
  "commits_inv E tables commits \<longleftrightarrow>
     list_all (commit_row E tables) commits \<and>
     list_all (\<lambda>(key, t). linked_log (tr_metadata_location t) (tr_version t) (rev (log_of key commits))) tables"

definition replay_row :: "(string, TableRecord) btree \<Rightarrow> string \<Rightarrow> IdempotencyReplay \<Rightarrow> bool" where
  "replay_row tables key r \<longleftrightarrow>
     with_table tables (ir_table_key r) (\<lambda>t.
       starts_with key (idempotency_prefix (tr_ident t)) \<and> sha256_shape (ir_request_hash r) \<and>
       validate_table_record_identity (ir_response r) (tr_ident t) = Ok ())"

definition idempotency_inv ::
  "(string, TableRecord) btree \<Rightarrow> (string, IdempotencyReplay) btree \<Rightarrow> bool" where
  "idempotency_inv tables replays \<longleftrightarrow> rows_ok (replay_row tables) replays"

definition outbox_inv :: "env \<Rightarrow> OutboxEvent list \<Rightarrow> bool" where
  "outbox_inv E events \<longleftrightarrow> list_all (well_formed_event E) events"

definition hashed_audit_event :: "env \<Rightarrow> CatalogAuditEvent \<Rightarrow> bool" where
  "hashed_audit_event E ev \<longleftrightarrow>
     (case ae_request_hash ev of None \<Rightarrow> False | Some h \<Rightarrow> content_hash_json E (ae_payload ev) = Ok h)"

definition audit_inv :: "env \<Rightarrow> CatalogAuditEvent list \<Rightarrow> bool" where
  "audit_inv E events \<longleftrightarrow> list_all (hashed_audit_event E) events"

definition servers_inv :: "env \<Rightarrow> (string, ServerRecord) btree \<Rightarrow> bool" where
  "servers_inv E servers \<longleftrightarrow> rows_ok (\<lambda>k r. validate_server_record_map_scope E r k = Ok ()) servers"

definition projects_inv ::
  "env \<Rightarrow> (string, ServerRecord) btree \<Rightarrow> (string, ProjectRecord) btree \<Rightarrow> bool" where
  "projects_inv E servers projects \<longleftrightarrow>
     rows_ok (\<lambda>k r. validate_project_record_map_scope E r k = Ok () \<and>
       (case pj_server_id r of None \<Rightarrow> True | Some i \<Rightarrow> bt_contains servers i)) projects"

definition warehouses_inv ::
  "env \<Rightarrow> (string, ProjectRecord) btree \<Rightarrow> (string, WarehouseRecord) btree \<Rightarrow> bool" where
  "warehouses_inv E projects warehouses \<longleftrightarrow>
     rows_ok (\<lambda>k r. validate_warehouse_record_map_scope E r k = Ok () \<and>
       bt_contains projects (wr_project_id r)) warehouses"

definition profiles_inv :: "env \<Rightarrow> (string, StorageProfile) btree \<Rightarrow> bool" where
  "profiles_inv E profiles \<longleftrightarrow> rows_ok (\<lambda>k r. validate_storage_profile_map_scope E r k = Ok ()) profiles"

definition policies_inv :: "env \<Rightarrow> (string, PolicyBinding) btree \<Rightarrow> bool" where
  "policies_inv E bindings \<longleftrightarrow> rows_ok (\<lambda>k r. validate_policy_binding_map_scope E r k = Ok ()) bindings"

definition views_inv :: "env \<Rightarrow> (string, ViewRecord) btree \<Rightarrow> bool" where
  "views_inv E views \<longleftrightarrow>
     rows_ok (\<lambda>k v. validate_view_record_map_scope E v k = Ok () \<and>
       valid_name (vw_warehouse v) \<and> valid_namespace (vw_namespace v) \<and> valid_name (vw_name v)) views"

text \<open>Versions 1, 2, 3, ... without wrapping.\<close>

definition consecutive_versions :: "ModelPublication list \<Rightarrow> bool" where
  "consecutive_versions ms \<longleftrightarrow> map (\<lambda>m. unat (mp_version m)) ms = [1..<length ms + 1]"

definition models_inv :: "env \<Rightarrow> (string, ModelPublication list) btree \<Rightarrow> bool" where
  "models_inv E models \<longleftrightarrow>
     rows_ok (\<lambda>k ms. consecutive_versions ms \<and>
       list_all (\<lambda>m. model_publication_validate E m = Ok () \<and>
         model_publication_key (mp_warehouse m) (mp_model_id m) = k) ms) models"

definition grants_inv :: "env \<Rightarrow> (string, GovernedScanGrant) btree \<Rightarrow> bool" where
  "grants_inv E grants \<longleftrightarrow>
     rows_ok (\<lambda>k g. grant_validate E g = Ok () \<and> gp_grant_id (gg_proof g) = k) grants"

definition store_inv :: "env \<Rightarrow> MemoryState \<Rightarrow> bool" where
  "store_inv E s \<longleftrightarrow>
     namespaces_inv (ms_namespaces s) \<and>
     tables_inv (ms_namespaces s) (ms_tables s) \<and>
     deletes_inv (ms_tables s) (ms_soft_deletes s) \<and>
     commits_inv E (ms_tables s) (ms_commits s) \<and>
     idempotency_inv (ms_tables s) (ms_idempotency s) \<and>
     outbox_inv E (ms_outbox_events s) \<and>
     audit_inv E (ms_audit_events s) \<and>
     servers_inv E (ms_servers s) \<and>
     projects_inv E (ms_servers s) (ms_projects s) \<and>
     warehouses_inv E (ms_projects s) (ms_warehouses s) \<and>
     profiles_inv E (ms_storage_profiles s) \<and>
     policies_inv E (ms_policy_bindings s) \<and>
     views_inv E (ms_views s) \<and>
     models_inv E (ms_model_publications s) \<and>
     grants_inv E (ms_governed_scan_grants s)"

lemma store_inv_empty: "store_inv E empty_state"
  by (simp add: store_inv_def empty_state_def namespaces_inv_def tables_inv_def deletes_inv_def
      commits_inv_def idempotency_inv_def outbox_inv_def audit_inv_def servers_inv_def projects_inv_def
      warehouses_inv_def profiles_inv_def policies_inv_def views_inv_def models_inv_def grants_inv_def)

lemma store_invD:
  assumes "store_inv E s"
  shows "namespaces_inv (ms_namespaces s)" "tables_inv (ms_namespaces s) (ms_tables s)"
    "deletes_inv (ms_tables s) (ms_soft_deletes s)" "commits_inv E (ms_tables s) (ms_commits s)"
    "idempotency_inv (ms_tables s) (ms_idempotency s)" "outbox_inv E (ms_outbox_events s)"
    "audit_inv E (ms_audit_events s)" "policies_inv E (ms_policy_bindings s)"
    "views_inv E (ms_views s)" "models_inv E (ms_model_publications s)"
    "grants_inv E (ms_governed_scan_grants s)" "profiles_inv E (ms_storage_profiles s)"
  using assms by (simp_all add: store_inv_def)

subsection \<open>Tables\<close>

lemma with_table_iff: "with_table tables key P \<longleftrightarrow> (\<exists>t. bt_get tables key = Some t \<and> P t)"
  by (auto simp: with_table_def split: option.splits)

lemma table_rowD:
  assumes "tables_inv nsm tables" "bt_get tables key = Some t"
  shows "table_record_validate t = Ok ()" "valid_ident (tr_ident t)" "table_key (tr_ident t) = key"
    "ns_exists nsm (ti_warehouse (tr_ident t)) (ti_namespace (tr_ident t))"
  using rows_okD [OF assms(1) [unfolded tables_inv_def] assms(2)] by (simp_all add: table_row_def)

text \<open>Under the invariant the row found under the key of a valid identity is that table's row.\<close>

lemma table_row_ident:
  "tables_inv nsm tables \<Longrightarrow> bt_get tables (table_key ident) = Some t \<Longrightarrow> valid_ident ident \<Longrightarrow>
     tr_ident t = ident"
  using table_rowD table_key_inj by metis

lemma soft_delete_validate_ok:
  "soft_delete_validate_for_table d ident t = Ok () \<longleftrightarrow>
     table_record_validate t = Ok () \<and> sd_table d = ident \<and> tr_ident t = ident \<and>
     \<not> blank_opt (sd_metadata_location d) \<and> sd_metadata_location d = tr_metadata_location t \<and>
     sd_version d = tr_version t \<and> sd_format_version d = table_commit_format_version t \<and>
     (\<exists>v. sd_format_version d = Some v \<and> 0 < v) \<and>
     (case sd_authorization_receipt d of None \<Rightarrow> True | Some r \<Rightarrow> is_object r)"
  by (auto simp: soft_delete_validate_for_table_def and_then_ok split: if_splits option.splits)

lemma table_record_validate_ok:
  "table_record_validate t = Ok () \<longleftrightarrow>
     \<not> blank (tr_location t) \<and> \<not> blank_opt (tr_metadata_location t) \<and> is_object (tr_metadata t) \<and>
     (\<exists>v. table_metadata_format_version (tr_metadata t) = Some v \<and> 0 < v)"
  by (auto simp: table_record_validate_def validate_table_metadata_format_version_def
      split: if_splits option.splits)

lemma checked_table_ok:
  "checked_table s ident = Ok t \<longleftrightarrow>
     bt_get (ms_tables s) (table_key ident) = Some t \<and> table_record_validate t = Ok () \<and> tr_ident t = ident"
  by (auto simp: checked_table_def and_then_ok ok_or_ok table_scope_ok)

text \<open>Rows that stay when a key that no other row mentions is added, replaced or removed.\<close>

lemma with_table_mono:
  "with_table tables key P \<Longrightarrow> (\<And>t. bt_get tables key = Some t \<Longrightarrow> P t \<Longrightarrow> with_table tables' key Q) \<Longrightarrow>
     with_table tables' key Q"
  by (auto simp: with_table_iff)

lemma with_table_insert:
  "with_table (bt_insert k t tables) key P \<longleftrightarrow> (if key = k then P t else with_table tables key P)"
  by (simp add: with_table_def bt_get_insert)

lemma with_table_remove:
  "with_table (bt_remove k tables) key P \<longleftrightarrow> key \<noteq> k \<and> with_table tables key P"
  by (simp add: with_table_def bt_get_remove)

lemma with_table_retain:
  "bt_wf tables \<Longrightarrow> with_table (bt_retain (\<lambda>k _. R k) tables) key P \<longleftrightarrow> R key \<and> with_table tables key P"
  by (auto simp: with_table_def bt_get_retain split: option.splits)

lemma log_of_append: "log_of key (cs @ cs') = log_of key cs @ log_of key cs'"
  by (simp add: log_of_def)

lemma log_of_empty: "log_of key cs = [] \<longleftrightarrow> (\<forall>c \<in> set cs. mc_table_key c \<noteq> key)"
  by (auto simp: log_of_def filter_empty_conv)

lemma commits_inv_logD:
  "tables_inv nsm tables \<Longrightarrow> commits_inv E tables commits \<Longrightarrow> bt_get tables key = Some t \<Longrightarrow>
     linked_log (tr_metadata_location t) (tr_version t) (rev (log_of key commits))"
  by (auto simp: commits_inv_def list_all_iff tables_inv_def rows_ok_def bt_wf_get_iff)

lemma commits_inv_iff:
  "bt_wf tables \<Longrightarrow>
   commits_inv E tables commits \<longleftrightarrow>
     list_all (commit_row E tables) commits \<and>
     (\<forall>key t. bt_get tables key = Some t \<longrightarrow>
        linked_log (tr_metadata_location t) (tr_version t) (rev (log_of key commits)))"
  by (auto simp: commits_inv_def list_all_iff bt_wf_get_iff)

text \<open>A key no table has is in no commit.\<close>

lemma commits_of_missing_table:
  "list_all (commit_row E tables) commits \<Longrightarrow> bt_get tables key = None \<Longrightarrow> log_of key commits = []"
  by (auto simp: log_of_empty list_all_iff commit_row_def with_table_iff)

text \<open>The event types the store writes are not blank.\<close>

lemma graphic_not_blank: "s \<noteq> [] \<Longrightarrow> \<forall>c \<in> set s. 33 \<le> byte c \<and> byte c < 127 \<Longrightarrow> \<not> blank s"
  by (simp add: trim_graphic)

lemma event_types_not_blank:
  "\<not> blank ''table.deleted''" "\<not> blank ''table.restored''" "\<not> blank ''table.commit''"
  "\<not> blank ''table.renamed''" "\<not> blank ''model.published''"
  by (rule graphic_not_blank; simp)+

text \<open>Adding a pair of events.\<close>

lemma events_pushed:
  assumes "outbox_inv E (ms_outbox_events s)" "audit_inv E (ms_audit_events s)"
    and "well_formed_event E outbox" "hashed_audit_event E audit"
  shows "outbox_inv E (ms_outbox_events (push_events audit outbox s))"
    "audit_inv E (ms_audit_events (push_events audit outbox s))"
  using assms by (simp_all add: outbox_inv_def audit_inv_def push_events_def)

end
