(* ===== verification/TableLaws.thy ===== *)
theory TableLaws
  imports StoreInvariant
begin

section \<open>Laws of namespaces and tables\<close>

text \<open>
  The operations of \<open>MemoryState\<close> and \<open>MemoryTables\<close> keep the invariant; an operation that fails
  leaves the maps as they were; what a creation, a soft delete, a restore and a drop do on success.
\<close>

subsection \<open>Namespaces\<close>

lemma ns_exists_insert:
  "ns_exists (bt_insert w (bt_insert ns ps nss) nsm) w' ns' \<longleftrightarrow>
     (if w' = w then ns' = ns \<or> bt_contains nss ns' else ns_exists nsm w' ns')"
  by (auto simp: ns_exists_def bt_get_insert bt_contains_insert)

lemma ns_exists_insert_some:
  "bt_get nsm w = Some nss \<Longrightarrow>
   ns_exists (bt_insert w (bt_insert ns ps nss) nsm) w' ns' \<longleftrightarrow> w' = w \<and> ns' = ns \<or> ns_exists nsm w' ns'"
  by (auto simp: ns_exists_insert) (auto simp: ns_exists_def)

lemma ns_exists_insert_default:
  "ns_exists (bt_insert w (bt_insert ns ps (case bt_get nsm w of None \<Rightarrow> [] | Some nss \<Rightarrow> nss)) nsm) w' ns' \<longleftrightarrow>
     w' = w \<and> ns' = ns \<or> ns_exists nsm w' ns'"
proof (cases "bt_get nsm w")
  case None
  then show ?thesis by (simp add: ns_exists_def bt_get_insert bt_contains_def)
next
  case (Some nss)
  then show ?thesis by (simp add: ns_exists_insert_some)
qed

lemma ns_exists_remove:
  "bt_get nsm w = Some nss \<Longrightarrow>
   ns_exists (bt_insert w (bt_remove ns nss) nsm) w' ns' \<longleftrightarrow>
     (w' \<noteq> w \<or> ns' \<noteq> ns) \<and> ns_exists nsm w' ns'"
  by (auto simp: ns_exists_def bt_get_insert bt_contains_remove)

lemma tables_inv_mono:
  "tables_inv nsm tables \<Longrightarrow> (\<And>w ns. ns_exists nsm w ns \<Longrightarrow> ns_exists nsm' w ns) \<Longrightarrow> tables_inv nsm' tables"
  unfolding tables_inv_def by (erule rows_ok_mono) (auto simp: table_row_def)

text \<open>A failed creation changes nothing: the map it may insert is the one already there.\<close>

lemma create_namespace_cases:
  assumes "create_namespace_with_properties w ns ps s = (r, s')" "namespaces_inv (ms_namespaces s)"
  obtains (exists) "r = Err (AlreadyExists ''namespace'' (namespace_path ns))" "s' = s" "has_namespace s w ns"
  | (created) nss where "r = Ok ()" "\<not> has_namespace s w ns"
      "nss = (case bt_get (ms_namespaces s) w of None \<Rightarrow> [] | Some nss \<Rightarrow> nss)"
      "s' = s\<lparr>ms_namespaces := bt_insert w (bt_insert ns ps nss) (ms_namespaces s)\<rparr>"
proof -
  define nss where "nss = (case bt_get (ms_namespaces s) w of None \<Rightarrow> [] | Some nss \<Rightarrow> nss)"
  have exists_iff: "bt_contains nss ns \<longleftrightarrow> has_namespace s w ns"
    by (simp add: nss_def ns_exists_def bt_contains_def split: option.split)
  have op: "(r, s') =
      (if bt_contains nss ns
       then (Err (AlreadyExists ''namespace'' (namespace_path ns)),
             s\<lparr>ms_namespaces := bt_insert w nss (ms_namespaces s)\<rparr>)
       else (Ok (), s\<lparr>ms_namespaces := bt_insert w (bt_insert ns ps nss) (ms_namespaces s)\<rparr>))"
    using assms(1)
    by (simp add: create_namespace_with_properties_def warehouse_namespaces_def nss_def Let_def
        bt_insert_insert split: if_split_asm)
  show ?thesis
  proof (cases "bt_contains nss ns")
    case True
    then have "bt_get (ms_namespaces s) w = Some nss"
      by (auto simp: nss_def bt_contains_def split: option.splits)
    then have "bt_insert w nss (ms_namespaces s) = ms_namespaces s"
      using assms(2) by (simp add: bt_insert_same namespaces_inv_def rows_ok_def)
    with True op exists_iff exists show ?thesis by simp
  next
    case False
    with op exists_iff created [OF _ _ nss_def] show ?thesis by simp
  qed
qed

lemma namespaces_inv_insert:
  "namespaces_inv nsm \<Longrightarrow> bt_wf nss \<Longrightarrow> namespaces_inv (bt_insert w nss nsm)"
  by (simp add: namespaces_inv_def rows_ok_insert)

lemma namespaces_inv_get: "namespaces_inv nsm \<Longrightarrow> bt_get nsm w = Some nss \<Longrightarrow> bt_wf nss"
  unfolding namespaces_inv_def by (drule rows_okD)

lemma create_namespace_inv:
  assumes "store_inv E s" "create_namespace_with_properties w ns ps s = (r, s')"
  shows "store_inv E s'"
  using assms(2) store_invD(1) [OF assms(1)]
proof (cases rule: create_namespace_cases)
  case exists
  with assms(1) show ?thesis by simp
next
  case (created nss)
  have "bt_wf nss"
    using created(3) namespaces_inv_get [OF store_invD(1) [OF assms(1)]] by (auto split: option.splits)
  then have "namespaces_inv (ms_namespaces s')"
    using created store_invD(1) [OF assms(1)] by (simp add: namespaces_inv_insert bt_wf_insert)
  moreover have "tables_inv (ms_namespaces s') (ms_tables s)"
    using store_invD(2) [OF assms(1)]
    by (rule tables_inv_mono) (simp add: created(3,4) ns_exists_insert_default)
  ultimately show ?thesis
    using assms(1) created(4) by (simp add: store_inv_def)
qed

lemma update_namespace_properties_cases:
  assumes "update_namespace_properties w ns u s = (r, s')"
  obtains (missing) "r = Err (namespace_not_found ns)" "s' = s" "\<not> has_namespace s w ns"
  | (updated) nss ps ps' res where "bt_get (ms_namespaces s) w = Some nss" "bt_get nss ns = Some ps"
      "namespace_properties_apply ps u = (ps', res)" "r = Ok res"
      "s' = s\<lparr>ms_namespaces := bt_insert w (bt_insert ns ps' nss) (ms_namespaces s)\<rparr>"
  using assms
  by (auto simp: update_namespace_properties_def warehouse_namespaces_def ns_exists_def bt_contains_def
      split: option.splits prod.splits)

lemma update_namespace_properties_inv:
  assumes "store_inv E s" "update_namespace_properties w ns u s = (r, s')"
  shows "store_inv E s'"
  using assms(2)
proof (cases rule: update_namespace_properties_cases)
  case missing
  with assms(1) show ?thesis by simp
next
  case (updated nss ps ps' res)
  have "namespaces_inv (ms_namespaces s')"
    using updated store_invD(1) [OF assms(1)]
    by (simp add: namespaces_inv_insert bt_wf_insert namespaces_inv_get)
  moreover have "tables_inv (ms_namespaces s') (ms_tables s)"
    using store_invD(2) [OF assms(1)]
    by (rule tables_inv_mono) (simp add: updated(5) ns_exists_insert_some [OF updated(1)])
  ultimately show ?thesis
    using assms(1) updated(5) by (simp add: store_inv_def)
qed

subsection \<open>Creating and loading tables\<close>

lemma create_table_cases:
  assumes "create_table t s = (r, s')"
  obtains (failed) e where "r = Err e" "s' = s"
  | (created) "r = Ok t" "s' = s\<lparr>ms_tables := bt_insert (table_key (tr_ident t)) t (ms_tables s)\<rparr>"
      "table_record_validate t = Ok ()" "bt_get (ms_tables s) (table_key (tr_ident t)) = None"
      "has_namespace s (ti_warehouse (tr_ident t)) (ti_namespace (tr_ident t))"
  using assms by (auto simp: create_table_def qmark_def bt_contains_def Let_def split: sum.splits if_splits)

lemma tables_inv_insert:
  "tables_inv nsm tables \<Longrightarrow> table_row nsm key t \<Longrightarrow> tables_inv nsm (bt_insert key t tables)"
  by (simp add: tables_inv_def rows_ok_insert)

lemma deletes_inv_mono:
  "deletes_inv tables deletes \<Longrightarrow>
   (\<And>key t. bt_get tables key = Some t \<Longrightarrow> bt_contains deletes key \<Longrightarrow> bt_get tables' key = Some t) \<Longrightarrow>
     deletes_inv tables' deletes"
  unfolding deletes_inv_def by (erule rows_ok_mono) (auto simp: with_table_iff bt_contains_def)

lemma idempotency_inv_mono:
  "idempotency_inv tables replays \<Longrightarrow>
   (\<And>key t. bt_get tables key = Some t \<Longrightarrow> \<exists>t'. bt_get tables' key = Some t' \<and> tr_ident t' = tr_ident t) \<Longrightarrow>
     idempotency_inv tables' replays"
  unfolding idempotency_inv_def
  by (erule rows_ok_mono) (auto simp: replay_row_def with_table_iff, metis)

lemma commit_row_mono:
  "list_all (commit_row E tables) commits \<Longrightarrow>
   (\<And>key t. bt_get tables key = Some t \<Longrightarrow> \<exists>t'. bt_get tables' key = Some t' \<and> tr_ident t' = tr_ident t) \<Longrightarrow>
     list_all (commit_row E tables') commits"
  by (auto simp: list_all_iff commit_row_def with_table_iff, metis)

lemma create_table_inv:
  assumes inv: "store_inv E s" and op: "create_table t s = (r, s')" and valid: "valid_ident (tr_ident t)"
  shows "store_inv E s'"
  using op
proof (cases rule: create_table_cases)
  case failed
  with inv show ?thesis by simp
next
  case created
  let ?k = "table_key (tr_ident t)"
  let ?tables = "bt_insert ?k t (ms_tables s)"
  have wf: "bt_wf (ms_tables s)"
    using store_invD(2) [OF inv] by (simp add: tables_inv_def rows_ok_def)
  have keep: "bt_get (ms_tables s) key = Some u \<Longrightarrow> bt_get ?tables key = Some u" for key u
    using created(4) by (auto simp: bt_get_insert)
  have "tables_inv (ms_namespaces s) ?tables"
    using store_invD(2) [OF inv] created valid by (simp add: tables_inv_insert table_row_def)
  moreover have "deletes_inv ?tables (ms_soft_deletes s)"
    using store_invD(3) [OF inv] by (rule deletes_inv_mono) (rule keep)
  moreover have "idempotency_inv ?tables (ms_idempotency s)"
    using store_invD(5) [OF inv] keep by (blast intro: idempotency_inv_mono)
  moreover have "commits_inv E ?tables (ms_commits s)"
    using store_invD(4) [OF inv] created(4) commits_of_missing_table [of E "ms_tables s" "ms_commits s" ?k]
      commit_row_mono [of E "ms_tables s" "ms_commits s" ?tables] keep wf
    by (auto simp: commits_inv_iff bt_wf_insert bt_get_insert)
  ultimately show ?thesis
    using inv created(2) by (simp add: store_inv_def)
qed

lemma load_table_ok:
  "load_table s ident = Ok t \<longleftrightarrow>
     \<not> bt_contains (ms_soft_deletes s) (table_key ident) \<and> checked_table s ident = Ok t"
  by (auto simp: load_table_def checked_table_def and_then_ok ok_or_ok split: if_splits)

text \<open>Under the invariant a load succeeds exactly on the visible tables.\<close>

lemma load_table_visible:
  assumes "store_inv E s" "valid_ident ident"
  shows "load_table s ident = Ok t \<longleftrightarrow>
     bt_get (ms_soft_deletes s) (table_key ident) = None \<and> bt_get (ms_tables s) (table_key ident) = Some t"
  using table_row_ident [OF store_invD(2) [OF assms(1)] _ assms(2)] table_rowD(1) [OF store_invD(2) [OF assms(1)]]
  by (auto simp: load_table_ok checked_table_ok bt_contains_def)

subsection \<open>Soft delete and restore\<close>

lemma hashed_table_audit_event:
  "content_hash_json E payload = Ok h \<Longrightarrow>
     hashed_audit_event E (table_audit_event ty ident p h payload at)"
  by (simp add: hashed_audit_event_def table_audit_event_def)

lemma soft_delete_table_ok:
  assumes "soft_delete_table E now ident p auth s = (Ok t, s')"
  obtains h outbox where
    "has_namespace s (ti_warehouse ident) (ti_namespace ident)"
    "bt_get (ms_soft_deletes s) (table_key ident) = None"
    "checked_table s ident = Ok t"
    "soft_delete_validate_for_table (soft_delete_record now ident t p auth) ident t = Ok ()"
    "content_hash_json E (deleted_audit_payload E (soft_delete_record now ident t p auth) ident) = Ok h"
    "outbox_event_from_payload E
       (deleted_outbox_payload h ident (deleted_audit_payload E (soft_delete_record now ident t p auth) ident)) now =
       Ok outbox"
    "s' = push_events
       (table_audit_event ''table.deleted'' ident p h
          (deleted_audit_payload E (soft_delete_record now ident t p auth) ident) now) outbox
       (s\<lparr>ms_soft_deletes :=
           bt_insert (table_key ident) (soft_delete_record now ident t p auth) (ms_soft_deletes s)\<rparr>)"
  using assms
  by (auto simp: soft_delete_table_def Let_def qmark_ok bt_contains_def soft_delete_record_def
      outbox_event_from_payload_ok split: if_splits)

lemma soft_delete_table_err: "soft_delete_table E now ident p auth s = (Err e, s') \<Longrightarrow> s' = s"
  by (auto simp: soft_delete_table_def Let_def qmark_err split: if_splits)

lemma restore_table_ok:
  assumes "restore_table E now ident p auth s = (Ok t, s')"
  obtains h outbox d where
    "has_namespace s (ti_warehouse ident) (ti_namespace ident)"
    "bt_get (ms_soft_deletes s) (table_key ident) = Some d"
    "checked_table s ident = Ok t"
    "soft_delete_validate_for_table d ident t = Ok ()"
    "content_hash_json E (restored_audit_payload ident t auth) = Ok h"
    "outbox_event_from_payload E
       (restored_outbox_payload h ident (restored_audit_payload ident t auth)) now = Ok outbox"
    "s' = push_events
       (table_audit_event ''table.restored'' ident p h (restored_audit_payload ident t auth) now) outbox
       (s\<lparr>ms_soft_deletes := bt_remove (table_key ident) (ms_soft_deletes s)\<rparr>)"
  using assms
  by (auto simp: restore_table_def Let_def qmark_ok split: if_splits option.splits)

lemma restore_table_err: "restore_table E now ident p auth s = (Err e, s') \<Longrightarrow> s' = s"
  by (auto simp: restore_table_def Let_def qmark_err split: if_splits option.splits)

lemma deletes_inv_insert:
  "deletes_inv tables deletes \<Longrightarrow>
   with_table tables key (\<lambda>t. soft_delete_validate_for_table d (tr_ident t) t = Ok ()) \<Longrightarrow>
     deletes_inv tables (bt_insert key d deletes)"
  by (simp add: deletes_inv_def rows_ok_insert)

lemma store_inv_push_events:
  "store_inv E s \<Longrightarrow> well_formed_event E outbox \<Longrightarrow> hashed_audit_event E audit \<Longrightarrow>
     store_inv E (push_events audit outbox s)"
  by (simp add: store_inv_def push_events_def outbox_inv_def audit_inv_def)

lemma soft_delete_table_inv:
  assumes inv: "store_inv E s" and op: "soft_delete_table E now ident p auth s = (r, s')"
  shows "store_inv E s'"
proof (cases r)
  case (Inl e)
  with op inv show ?thesis by (auto dest: soft_delete_table_err)
next
  case (Inr t)
  let ?d = "soft_delete_record now ident t p auth"
  from op Inr have "soft_delete_table E now ident p auth s = (Ok t, s')" by simp
  then obtain h outbox where ok: "checked_table s ident = Ok t"
    "soft_delete_validate_for_table ?d ident t = Ok ()"
    "content_hash_json E (deleted_audit_payload E ?d ident) = Ok h"
    "outbox_event_from_payload E (deleted_outbox_payload h ident (deleted_audit_payload E ?d ident)) now = Ok outbox"
    "s' = push_events (table_audit_event ''table.deleted'' ident p h (deleted_audit_payload E ?d ident) now)
       outbox (s\<lparr>ms_soft_deletes := bt_insert (table_key ident) ?d (ms_soft_deletes s)\<rparr>)"
    by (rule soft_delete_table_ok)
  have "well_formed_event E outbox"
    using outbox_event_from_payload_well_formed [OF ok(4)] event_types_not_blank
    by (simp add: deleted_outbox_payload_def)
  moreover have "store_inv E (s\<lparr>ms_soft_deletes := bt_insert (table_key ident) ?d (ms_soft_deletes s)\<rparr>)"
    using inv ok(1,2) by (simp add: store_inv_def deletes_inv_insert checked_table_ok with_table_iff)
  ultimately show ?thesis
    using ok(3,5) by (simp add: store_inv_push_events hashed_table_audit_event)
qed

lemma restore_table_inv:
  assumes inv: "store_inv E s" and op: "restore_table E now ident p auth s = (r, s')"
  shows "store_inv E s'"
proof (cases r)
  case (Inl e)
  with op inv show ?thesis by (auto dest: restore_table_err)
next
  case (Inr t)
  from op Inr have "restore_table E now ident p auth s = (Ok t, s')" by simp
  then obtain h outbox where ok: "content_hash_json E (restored_audit_payload ident t auth) = Ok h"
    "outbox_event_from_payload E (restored_outbox_payload h ident (restored_audit_payload ident t auth)) now = Ok outbox"
    "s' = push_events (table_audit_event ''table.restored'' ident p h (restored_audit_payload ident t auth) now)
       outbox (s\<lparr>ms_soft_deletes := bt_remove (table_key ident) (ms_soft_deletes s)\<rparr>)"
    by (rule restore_table_ok)
  have "well_formed_event E outbox"
    using outbox_event_from_payload_well_formed [OF ok(2)] event_types_not_blank
    by (simp add: restored_outbox_payload_def)
  moreover have "store_inv E (s\<lparr>ms_soft_deletes := bt_remove (table_key ident) (ms_soft_deletes s)\<rparr>)"
    using inv by (simp add: store_inv_def deletes_inv_def rows_ok_remove)
  ultimately show ?thesis
    using ok(1,3) by (simp add: store_inv_push_events hashed_table_audit_event)
qed

subsection \<open>Dropping a namespace\<close>

definition in_namespace :: "WarehouseName \<Rightarrow> Namespace \<Rightarrow> TableIdent \<Rightarrow> bool" where
  "in_namespace w ns ident \<longleftrightarrow> ti_warehouse ident = w \<and> ti_namespace ident = ns"

lemma retire_tables_ok:
  "retire_tables deletes w ns acc m = Ok retired \<Longrightarrow>
     set retired = set acc \<union> {k. \<exists>t. (k, t) \<in> set m \<and> in_namespace w ns (tr_ident t)} \<and>
     (\<forall>(k, t) \<in> set m. in_namespace w ns (tr_ident t) \<longrightarrow> bt_contains deletes k)"
proof (induction deletes w ns acc m rule: retire_tables.induct)
  case (2 deletes w ns acc key t rest)
  show ?case
  proof (cases "in_namespace w ns (tr_ident t)")
    case True
    with 2 show ?thesis
      by (auto simp: and_then_ok in_namespace_def bt_contains_def split: option.splits)
  next
    case False
    then have "ti_warehouse (tr_ident t) \<noteq> w \<or> ti_namespace (tr_ident t) \<noteq> ns"
      by (simp add: in_namespace_def)
    with False 2 show ?thesis by (auto simp: and_then_ok)
  qed
qed simp

lemma retire_tables_succeeds:
  "(\<forall>(k, t) \<in> set m. validate_table_record_map_scope t k = Ok () \<and>
      (in_namespace w ns (tr_ident t) \<longrightarrow>
        (\<exists>d. bt_get deletes k = Some d \<and> validate_soft_delete_record_map_scope d k = Ok () \<and>
           soft_delete_validate_for_table d (tr_ident t) t = Ok ()))) \<Longrightarrow>
     \<exists>retired. retire_tables deletes w ns acc m = Ok retired"
  by (induction deletes w ns acc m rule: retire_tables.induct) (auto simp: in_namespace_def)

lemma drop_namespace_err: "drop_namespace E w ns s = (Err e, s') \<Longrightarrow> s' = s"
  by (auto simp: drop_namespace_def remove_namespace_def qmark_err split: if_splits option.splits)

lemma drop_namespace_ok:
  assumes "drop_namespace E w ns s = (Ok r, s')"
  obtains retired nss where "r = ns" "bt_get (ms_namespaces s) w = Some nss" "bt_contains nss ns"
    "\<not> namespace_has_children s w ns"
    "retire_tables (ms_soft_deletes s) w ns [] (ms_tables s) = Ok retired"
    "check_soft_deletes (ms_soft_deletes s) w ns retired = Ok ()"
    "check_views_of_namespace E s w ns = Ok ()" "check_policies_of_namespace E s w ns = Ok ()"
    "s' = s\<lparr>ms_namespaces := bt_insert w (bt_remove ns nss) (ms_namespaces s),
           ms_tables := bt_retain (\<lambda>key _. key \<notin> set retired) (ms_tables s),
           ms_soft_deletes := bt_retain (\<lambda>key _. key \<notin> set retired) (ms_soft_deletes s),
           ms_commits := filter (\<lambda>c. mc_table_key c \<notin> set retired) (ms_commits s),
           ms_idempotency := bt_retain (\<lambda>_ r. ir_table_key r \<notin> set retired) (ms_idempotency s)\<rparr>"
  using assms
  by (auto simp: drop_namespace_def remove_namespace_def warehouse_namespaces_def qmark_ok
      split: if_splits option.splits)

text \<open>The part of the invariant about tables survives retiring any set of keys.\<close>

lemma retain_tables_inv:
  assumes "tables_inv nsm tables" "deletes_inv tables deletes" "commits_inv E tables commits"
    "idempotency_inv tables replays"
  shows "deletes_inv (bt_retain (\<lambda>k _. R k) tables) (bt_retain (\<lambda>k _. R k) deletes)"
    "commits_inv E (bt_retain (\<lambda>k _. R k) tables) (filter (\<lambda>c. R (mc_table_key c)) commits)"
    "idempotency_inv (bt_retain (\<lambda>k _. R k) tables) (bt_retain (\<lambda>_ r. R (ir_table_key r)) replays)"
proof -
  have wf: "bt_wf tables"
    using assms(1) by (simp add: tables_inv_def rows_ok_def)
  show "deletes_inv (bt_retain (\<lambda>k _. R k) tables) (bt_retain (\<lambda>k _. R k) deletes)"
    using assms(2) unfolding deletes_inv_def by (rule rows_ok_retain_mono) (simp add: with_table_retain wf)
  show "idempotency_inv (bt_retain (\<lambda>k _. R k) tables) (bt_retain (\<lambda>_ r. R (ir_table_key r)) replays)"
    using assms(4) unfolding idempotency_inv_def
    by (rule rows_ok_retain_mono) (simp add: replay_row_def with_table_retain wf)
  have "log_of key (filter (\<lambda>c. R (mc_table_key c)) commits) = log_of key commits" if "R key" for key
    using that by (auto simp: log_of_def intro!: arg_cong [where f = "map mc_record"] filter_cong)
  then show "commits_inv E (bt_retain (\<lambda>k _. R k) tables) (filter (\<lambda>c. R (mc_table_key c)) commits)"
    using assms(3) wf
    by (auto simp: commits_inv_iff bt_wf_retain bt_get_retain list_all_iff commit_row_def with_table_retain
        split: if_splits option.splits)
qed

lemma drop_namespace_inv:
  assumes inv: "store_inv E s" and op: "drop_namespace E w ns s = (r, s')"
  shows "store_inv E s'"
proof (cases r)
  case (Inl e)
  with op inv show ?thesis by (auto dest: drop_namespace_err)
next
  case (Inr a)
  with op obtain retired nss where ok: "bt_get (ms_namespaces s) w = Some nss"
    "retire_tables (ms_soft_deletes s) w ns [] (ms_tables s) = Ok retired"
    and s': "s' = s\<lparr>ms_namespaces := bt_insert w (bt_remove ns nss) (ms_namespaces s),
           ms_tables := bt_retain (\<lambda>key _. key \<notin> set retired) (ms_tables s),
           ms_soft_deletes := bt_retain (\<lambda>key _. key \<notin> set retired) (ms_soft_deletes s),
           ms_commits := filter (\<lambda>c. mc_table_key c \<notin> set retired) (ms_commits s),
           ms_idempotency := bt_retain (\<lambda>_ r. ir_table_key r \<notin> set retired) (ms_idempotency s)\<rparr>"
    by (auto elim: drop_namespace_ok)
  have wf: "bt_wf (ms_tables s)"
    using store_invD(2) [OF inv] by (simp add: tables_inv_def rows_ok_def)
  have "tables_inv (bt_insert w (bt_remove ns nss) (ms_namespaces s))
      (bt_retain (\<lambda>key _. key \<notin> set retired) (ms_tables s))"
    using store_invD(2) [OF inv] retire_tables_ok [OF ok(2)] unfolding tables_inv_def
    by (elim rows_ok_retain_mono)
      (auto simp: table_row_def ns_exists_remove [OF ok(1)] in_namespace_def bt_wf_get_iff [OF wf])
  moreover have "namespaces_inv (bt_insert w (bt_remove ns nss) (ms_namespaces s))"
    using store_invD(1) [OF inv] ok(1) by (simp add: namespaces_inv_insert bt_wf_remove namespaces_inv_get)
  ultimately show ?thesis
    using inv retain_tables_inv [OF store_invD(2-5) [OF inv], of "\<lambda>k. k \<notin> set retired"]
    by (simp add: s' store_inv_def)
qed

end
