(* ===== verification/CompareAndSwap.thy ===== *)
theory CompareAndSwap
  imports LakePrelude
begin

section \<open>Compare-and-swap operations\<close>

text \<open>
  The contract of an optimistic update: an attempt names the value it expects in a cell; it takes effect
  only when the cell holds it, and then the cell holds the value the result installs; when it fails the
  cell is as before. A success may be \<open>idle\<close>: it answers without taking effect (the replay of a commit
  already made). The client facts: the effects of any sequence of attempts form one linear history, and
  of several attempts prepared against the same value at most one takes effect. Where every effect is
  also written to a log (\<open>cas_log\<close>), a sequence of attempts appends its effects to the log, in order.
  The catalog has three such operations: a table commit, a view upsert and a model publication; each
  interprets \<open>cas_cell\<close> on its own definition, the commit with its log.
\<close>

text \<open>
  Running attempts one after the other: each with the state it found, its answer and the state it left;
  and the final state.
\<close>

fun run_swaps :: "('a \<Rightarrow> 's \<Rightarrow> ('e + 'r) \<times> 's) \<Rightarrow> 'a list \<Rightarrow> 's \<Rightarrow> ('a \<times> 's \<times> ('e + 'r) \<times> 's) list \<times> 's" where
  "run_swaps swap [] s = ([], s)"
| "run_swaps swap (a # as) s =
     (let (r, s1) = swap a s; (steps, s2) = run_swaps swap as s1 in ((a, s, r, s1) # steps, s2))"

text \<open>The attempts of a run that took effect, with their results: the successes that are not idle.\<close>

fun effects :: "('s \<Rightarrow> 's \<Rightarrow> bool) \<Rightarrow> ('a \<times> 's \<times> ('e + 'r) \<times> 's) list \<Rightarrow> ('a \<times> 'r) list" where
  "effects idle [] = []"
| "effects idle ((a, s, Inl e, s1) # steps) = effects idle steps"
| "effects idle ((a, s, Inr r, s1) # steps) =
     (if idle s s1 then effects idle steps else (a, r) # effects idle steps)"

text \<open>Operations whose every success takes effect.\<close>

definition never_idle :: "'s \<Rightarrow> 's \<Rightarrow> bool" where
  "never_idle s s' \<longleftrightarrow> False"

text \<open>A history: each effect expected what the one before it installed.\<close>

fun chained :: "('a \<Rightarrow> 'v) \<Rightarrow> ('r \<Rightarrow> 'v) \<Rightarrow> 'v \<Rightarrow> ('a \<times> 'r) list \<Rightarrow> 'v \<Rightarrow> bool" where
  "chained expected installed v [] w \<longleftrightarrow> v = w"
| "chained expected installed v ((a, r) # wins) w \<longleftrightarrow>
     expected a = v \<and> chained expected installed (installed r) wins w"

lemma run_swaps_Cons:
  assumes "run_swaps swap (a # as) s = (steps, s')"
  obtains r s1 rest where "swap a s = (r, s1)" "run_swaps swap as s1 = (rest, s')"
    "steps = (a, s, r, s1) # rest"
  using assms by (auto simp: Let_def split: prod.splits)

text \<open>What holds of every single attempt holds of every step of a run.\<close>

lemma run_swaps_steps:
  assumes "run_swaps swap as s = (steps, s')" "(a, t, r, t') \<in> set steps"
  shows "a \<in> set as" "swap a t = (r, t')"
proof -
  have "a \<in> set as \<and> swap a t = (r, t')"
    using assms
  proof (induction as arbitrary: s steps)
    case (Cons b as)
    from Cons.prems(1) show ?case
      by (rule run_swaps_Cons) (use Cons.IH Cons.prems(2) in auto)
  qed simp
  then show "a \<in> set as" "swap a t = (r, t')" by blast+
qed

locale cas_cell =
  fixes cell :: "'s \<Rightarrow> 'v"
    and swap :: "'a \<Rightarrow> 's \<Rightarrow> ('e + 'r) \<times> 's"
    and expected :: "'a \<Rightarrow> 'v"
    and installed :: "'r \<Rightarrow> 'v"
    and guarded :: "'a \<Rightarrow> bool"
    and idle :: "'s \<Rightarrow> 's \<Rightarrow> bool"
  assumes lose: "guarded a \<Longrightarrow> swap a s = (Inl e, s') \<Longrightarrow> cell s' = cell s"
    and replay: "guarded a \<Longrightarrow> swap a s = (Inr r, s') \<Longrightarrow> idle s s' \<Longrightarrow> cell s' = cell s"
    and win: "guarded a \<Longrightarrow> swap a s = (Inr r, s') \<Longrightarrow> \<not> idle s s' \<Longrightarrow>
      cell s = expected a \<and> cell s' = installed r"
begin

lemma linear_history:
  "list_all guarded as \<Longrightarrow> run_swaps swap as s = (steps, s') \<Longrightarrow>
     chained expected installed (cell s) (effects idle steps) (cell s')"
proof (induction as arbitrary: s steps)
  case (Cons a as)
  obtain r s1 rest where step: "swap a s = (r, s1)" "run_swaps swap as s1 = (rest, s')"
      "steps = (a, s, r, s1) # rest"
    using Cons.prems(2) by (rule run_swaps_Cons)
  have "chained expected installed (cell s1) (effects idle rest) (cell s')"
    using Cons.IH [OF _ step(2)] Cons.prems(1) by simp
  then show ?case
    using Cons.prems(1) step lose [of a s _ s1] replay [of a s _ s1] win [of a s _ s1] by (cases r) auto
qed simp

text \<open>Attempts that all expect a value the cell no longer holds have no effect.\<close>

lemma all_stale_lose:
  assumes "list_all guarded as" "\<forall>b \<in> set as. expected b = e" "cell s \<noteq> e"
  shows "run_swaps swap as s = (steps, s') \<Longrightarrow> effects idle steps = []"
  using assms
proof (induction as arbitrary: s steps)
  case (Cons b as)
  obtain r s1 rest where step: "swap b s = (r, s1)" "run_swaps swap as s1 = (rest, s')"
      "steps = (b, s, r, s1) # rest"
    using Cons.prems(1) by (rule run_swaps_Cons)
  show ?case
    using Cons.IH [OF step(2)] Cons.prems(2-4) step lose [of b s _ s1] replay [of b s _ s1] win [of b s _ s1]
    by (cases r) auto
qed simp

lemma single_winner:
  assumes "list_all guarded as" "\<forall>b \<in> set as. expected b = e"
    and "\<And>b t r t'. b \<in> set as \<Longrightarrow> swap b t = (Inr r, t') \<Longrightarrow> \<not> idle t t' \<Longrightarrow> installed r \<noteq> e"
  shows "run_swaps swap as s = (steps, s') \<Longrightarrow> length (effects idle steps) \<le> 1"
  using assms
proof (induction as arbitrary: s steps)
  case (Cons b as)
  obtain r s1 rest where step: "swap b s = (r, s1)" "run_swaps swap as s1 = (rest, s')"
      "steps = (b, s, r, s1) # rest"
    using Cons.prems(1) by (rule run_swaps_Cons)
  have le: "length (effects idle rest) \<le> 1"
  proof (rule Cons.IH [OF step(2)])
    show "list_all guarded as" "\<forall>c \<in> set as. expected c = e" using Cons.prems by auto
    show "installed q \<noteq> e" if "c \<in> set as" "swap c t = (Inr q, t')" "\<not> idle t t'" for c t q t'
      using Cons.prems(4) that by auto
  qed
  show ?case
  proof (cases "\<exists>x. r = Inr x \<and> \<not> idle s s1")
    case True
    then obtain x where x: "r = Inr x" "\<not> idle s s1" by blast
    have "cell s1 \<noteq> e"
      using win [of b s x s1] Cons.prems step(1) x by auto
    then have "effects idle rest = []"
      using all_stale_lose [OF _ _ _ step(2)] Cons.prems by auto
    with x step(3) show ?thesis by simp
  next
    case False
    with le step(3) show ?thesis by (cases r) auto
  qed
qed simp

end

text \<open>Every effect is also recorded in a log, which nothing else changes.\<close>

locale cas_log = cas_cell +
  fixes log :: "'s \<Rightarrow> 'l list"
    and records :: "'a \<Rightarrow> 'r \<Rightarrow> 'l \<Rightarrow> bool"
  assumes lose_log: "guarded a \<Longrightarrow> swap a s = (Inl e, s') \<Longrightarrow> log s' = log s"
    and replay_log: "guarded a \<Longrightarrow> swap a s = (Inr r, s') \<Longrightarrow> idle s s' \<Longrightarrow> log s' = log s"
    and win_log: "guarded a \<Longrightarrow> swap a s = (Inr r, s') \<Longrightarrow> \<not> idle s s' \<Longrightarrow>
      \<exists>l. log s' = log s @ [l] \<and> records a r l"
begin

lemma log_of_run:
  "list_all guarded as \<Longrightarrow> run_swaps swap as s = (steps, s') \<Longrightarrow>
     \<exists>ls. log s' = log s @ ls \<and> list_all2 (\<lambda>(a, r) l. records a r l) (effects idle steps) ls"
proof (induction as arbitrary: s steps)
  case (Cons a as)
  obtain r s1 rest where step: "swap a s = (r, s1)" "run_swaps swap as s1 = (rest, s')"
      "steps = (a, s, r, s1) # rest"
    using Cons.prems(2) by (rule run_swaps_Cons)
  obtain ls where ls: "log s' = log s1 @ ls"
      "list_all2 (\<lambda>(a, r) l. records a r l) (effects idle rest) ls"
    using Cons.IH [OF _ step(2)] Cons.prems(1) by auto
  show ?case
  proof (cases "\<exists>x. r = Inr x \<and> \<not> idle s s1")
    case True
    then obtain x l where x: "r = Inr x" "\<not> idle s s1" "log s1 = log s @ [l]" "records a x l"
      using win_log [of a s _ s1] Cons.prems(1) step(1) by auto
    then show ?thesis
      using ls step(3) by (intro exI [of _ "l # ls"]) simp
  next
    case False
    then have "log s1 = log s" "effects idle steps = effects idle rest"
      using lose_log [of a s _ s1] replay_log [of a s _ s1] Cons.prems(1) step by (cases r; auto)+
    with ls show ?thesis by auto
  qed
qed simp

end

end
