(* ===== verification/CommitLaws.thy ===== *)
theory CommitLaws
  imports TableLaws CompareAndSwap
begin

section \<open>Laws of commits\<close>

text \<open>
  \<open>commit_table\<close> on every branch: a failure changes nothing, a replay returns the recorded response, a
  fresh commit swaps the metadata pointer and advances the version, the log and the events together.
  It keeps the invariant and never panics. Interpreted as a compare-and-swap on the pointer, with and
  without idempotency keys, that is recorded in the commit log.
\<close>

text \<open>The installed row of a fresh commit.\<close>

definition new_metadata :: "TableCommit \<Rightarrow> TableRecord \<Rightarrow> json" where
  "new_metadata c current = (case tc_new_metadata c of None \<Rightarrow> tr_metadata current | Some m \<Rightarrow> m)"

lemma index_assign_ok: "index_assign v k x = Ok w \<longleftrightarrow> jset v k x = Some w"
  by (auto simp: index_assign_def split: option.splits)

lemma committed_table_ok:
  "committed_table E now s ident c h = Ok (prev, t) \<longleftrightarrow>
     (\<exists>current m1 m2. checked_table s ident = Ok current \<and> prev = tr_metadata_location current \<and>
        tr_metadata_location current = tc_expected_previous_metadata_location c \<and>
        jset (new_metadata c current) ''lakecat:version'' (ju64 (tr_version current + 1)) = Some m1 \<and>
        jset m1 ''lakecat:last-request-hash'' (JStr h) = Some m2 \<and>
        t = current\<lparr>tr_metadata_location := tc_new_metadata_location c, tr_metadata := m2,
                    tr_updated_at := now, tr_version := tr_version current + 1, tr_staged := False\<rparr>)"
  by (auto simp: committed_table_def Let_def and_then_ok index_assign_ok new_metadata_def [symmetric]
      split: if_splits)

lemma fresh_commit_ok:
  "fresh_commit E now ident c h s = (Ok t, s') \<longleftrightarrow>
     (\<exists>prev rec audit outbox. committed_table E now s ident c h = Ok (prev, t) \<and>
        commit_record E ident c prev t h = Ok rec \<and> commit_record_validate_for_table E rec ident = Ok () \<and>
        commit_events E ident c rec = Ok (audit, outbox) \<and>
        s' = install_commit ident c t rec audit outbox s)"
  by (auto simp: fresh_commit_def qmark_ok split: prod.splits)

lemma fresh_commit_err: "fresh_commit E now ident c h s = (Err e, s') \<Longrightarrow> s' = s"
  by (auto simp: fresh_commit_def qmark_err split: prod.splits)

lemma commit_table_ok:
  assumes "commit_table E now ident c s = (Ok t, s')"
  obtains (replayed) h where "s' = s" "table_commit_validate c = Ok ()"
      "content_hash_json E (commit_request_json c) = Ok h" "commit_replay s ident c h = Ok (Some t)"
      "\<not> bt_contains (ms_soft_deletes s) (table_key ident)"
  | (fresh) h where
      "table_commit_validate c = Ok ()" "\<not> bt_contains (ms_soft_deletes s) (table_key ident)"
      "content_hash_json E (commit_request_json c) = Ok h" "commit_replay s ident c h = Ok None"
      "fresh_commit E now ident c h s = (Ok t, s')"
proof -
  obtain h x where h: "table_commit_validate c = Ok ()"
      "\<not> bt_contains (ms_soft_deletes s) (table_key ident)"
      "content_hash_json E (commit_request_json c) = Ok h" "commit_replay s ident c h = Ok x"
    and rest: "(case x of Some response \<Rightarrow> (Ok response, s) | None \<Rightarrow> fresh_commit E now ident c h s) = (Ok t, s')"
    using assms by (auto simp: commit_table_def qmark_ok split: if_split_asm)
  show ?thesis
  proof (cases x)
    case None
    with h rest fresh show ?thesis by simp
  next
    case (Some response)
    with h rest replayed show ?thesis by simp
  qed
qed

lemma commit_table_err: "commit_table E now ident c s = (Err e, s') \<Longrightarrow> s' = s"
  by (auto simp: commit_table_def qmark_err dest: fresh_commit_err split: if_splits option.splits)

lemma install_commit_fields:
  "ms_tables (install_commit ident c t record audit outbox s) = bt_insert (table_key ident) t (ms_tables s)"
  "ms_commits (install_commit ident c t record audit outbox s) =
     ms_commits s @ [\<lparr>mc_table_key = table_key ident, mc_record = record\<rparr>]"
  "ms_idempotency (install_commit ident c t record audit outbox s) =
     (case tc_idempotency_key c of
        None \<Rightarrow> ms_idempotency s
      | Some key \<Rightarrow> bt_insert (idempotency_key_for ident key)
          \<lparr>ir_table_key = table_key ident,
           ir_request_hash = (case tc_idempotency_request_hash c of Some h \<Rightarrow> h | None \<Rightarrow> cr_request_hash record),
           ir_response = t\<rparr> (ms_idempotency s))"
  "ms_audit_events (install_commit ident c t record audit outbox s) = ms_audit_events s @ [audit]"
  "ms_outbox_events (install_commit ident c t record audit outbox s) = ms_outbox_events s @ [outbox]"
  by (auto simp: install_commit_def push_events_def Let_def split: option.splits)

lemma install_commit_frame:
  "ms_namespaces (install_commit ident c t record audit outbox s) = ms_namespaces s"
  "ms_soft_deletes (install_commit ident c t record audit outbox s) = ms_soft_deletes s"
  "ms_servers (install_commit ident c t record audit outbox s) = ms_servers s"
  "ms_projects (install_commit ident c t record audit outbox s) = ms_projects s"
  "ms_warehouses (install_commit ident c t record audit outbox s) = ms_warehouses s"
  "ms_storage_profiles (install_commit ident c t record audit outbox s) = ms_storage_profiles s"
  "ms_policy_bindings (install_commit ident c t record audit outbox s) = ms_policy_bindings s"
  "ms_views (install_commit ident c t record audit outbox s) = ms_views s"
  "ms_view_version_receipts (install_commit ident c t record audit outbox s) = ms_view_version_receipts s"
  "ms_model_publications (install_commit ident c t record audit outbox s) = ms_model_publications s"
  "ms_governed_scan_grants (install_commit ident c t record audit outbox s) = ms_governed_scan_grants s"
  by (simp_all add: install_commit_def push_events_def Let_def split: option.splits)

subsection \<open>The new row is valid\<close>

lemma table_commit_validate_ok:
  "table_commit_validate c = Ok () \<Longrightarrow>
     \<not> blank_opt (tc_new_metadata_location c) \<and>
     (\<forall>m. tc_new_metadata c = Some m \<longrightarrow> is_object m \<and>
        (\<exists>v. table_metadata_format_version m = Some v \<and> 0 < v)) \<and>
     (\<forall>h. tc_idempotency_request_hash c = Some h \<longrightarrow> sha256_shape h)"
  by (auto simp: table_commit_validate_def and_then_ok validate_sha256_ok
      validate_table_metadata_format_version_def split: if_splits option.splits)

lemma format_version_jset:
  "jset v k x = Some w \<Longrightarrow> k \<noteq> ''format-version'' \<Longrightarrow>
     table_metadata_format_version w = table_metadata_format_version v"
  by (simp add: table_metadata_format_version_def jget_jset)

lemma is_object_jset: "jset v k x = Some w \<Longrightarrow> is_object w"
  by (cases v) auto

lemma new_metadata_valid:
  assumes "table_commit_validate c = Ok ()" "table_record_validate current = Ok ()"
  shows "is_object (new_metadata c current)"
    "\<exists>v. table_metadata_format_version (new_metadata c current) = Some v \<and> 0 < v"
  using assms table_commit_validate_ok [OF assms(1)]
  by (auto simp: new_metadata_def table_record_validate_ok split: option.splits)

lemma committed_table_valid:
  assumes "table_commit_validate c = Ok ()" "committed_table E now s ident c h = Ok (prev, t)"
  shows "table_record_validate t = Ok ()" "tr_ident t = ident"
proof -
  obtain current m1 m2 where ok: "checked_table s ident = Ok current"
    "jset (new_metadata c current) ''lakecat:version'' (ju64 (tr_version current + 1)) = Some m1"
    "jset m1 ''lakecat:last-request-hash'' (JStr h) = Some m2"
    "t = current\<lparr>tr_metadata_location := tc_new_metadata_location c, tr_metadata := m2,
                 tr_updated_at := now, tr_version := tr_version current + 1, tr_staged := False\<rparr>"
    using assms(2) by (auto simp: committed_table_ok)
  have cur: "table_record_validate current = Ok ()" "tr_ident current = ident"
    using ok(1) by (auto simp: checked_table_ok)
  have "table_metadata_format_version m2 = table_metadata_format_version (new_metadata c current)"
    using format_version_jset [OF ok(2)] format_version_jset [OF ok(3)] by simp
  then show "table_record_validate t = Ok ()" "tr_ident t = ident"
    using ok(4) cur new_metadata_valid [OF assms(1) cur(1)] table_commit_validate_ok [OF assms(1)]
      is_object_jset [OF ok(3)]
    by (auto simp: table_record_validate_ok)
qed

text \<open>The assignment to the metadata never panics: a valid table has an object there.\<close>

lemma committed_table_no_panic:
  assumes "table_commit_validate c = Ok ()" "committed_table E now s ident c h = Err e"
  shows "e \<noteq> Panicked m"
proof -
  have no_panic: "\<exists>w. index_assign v k x = Ok w \<and> is_object w" if "is_object v" for v k x
    using jset_object [OF that, of k x] by (auto simp: index_assign_def)
  show ?thesis
  proof (cases "checked_table s ident")
    case (Inl err)
    then show ?thesis
      using assms(2)
      by (auto simp: committed_table_def checked_table_def and_then_err ok_or_def table_not_found_def
          validate_table_record_map_scope_def validate_table_record_identity_def table_scope_error_def
          table_record_validate_def validate_table_metadata_format_version_def
          split: option.splits if_splits)
  next
    case (Inr current)
    then have "is_object (new_metadata c current)"
      using new_metadata_valid(1) [OF assms(1)] by (simp add: checked_table_ok)
    then obtain m1 m2 where
      "index_assign (new_metadata c current) ''lakecat:version'' (ju64 (tr_version current + 1)) = Ok m1"
      "index_assign m1 ''lakecat:last-request-hash'' (JStr h) = Ok m2"
      using no_panic by metis
    then show ?thesis
      using assms(2) Inr
      by (auto simp: committed_table_def Let_def new_metadata_def metadata_pointer_conflict_def split: if_splits)
  qed
qed

subsection \<open>The invariant\<close>

lemma committed_table_current:
  assumes "committed_table E now s ident c h = Ok (prev, t)"
  obtains current where "bt_get (ms_tables s) (table_key ident) = Some current" "tr_ident current = ident"
    "prev = tr_metadata_location current" "prev = tc_expected_previous_metadata_location c"
    "tr_metadata_location t = tc_new_metadata_location c" "tr_version t = tr_version current + 1"
    "tr_updated_at t = now" "tr_ident t = ident" "\<not> tr_staged t"
    "tr_location t = tr_location current" "tr_created t = tr_created current"
  using assms by (auto simp: committed_table_ok checked_table_ok)

lemma commit_record_ok:
  "commit_record E ident c prev t h = Ok rec \<Longrightarrow>
     cr_table rec = ident \<and> cr_previous_metadata_location rec = prev \<and>
     cr_new_metadata_location rec = tc_new_metadata_location c \<and> cr_sequence_number rec = tr_version t \<and>
     cr_request_hash rec = h \<and> cr_committed_at rec = tr_updated_at t \<and> cr_principal rec = tc_principal c"
  by (auto simp: commit_record_def and_then_ok)

lemma commit_record_validate_positive:
  "commit_record_validate_for_table E rec ident = Ok () \<Longrightarrow>
     cr_sequence_number rec \<noteq> 0 \<and> sha256_shape (cr_request_hash rec)"
  by (auto simp: commit_record_validate_for_table_def and_then_ok validate_sha256_ok split: if_splits)

lemma commit_events_ok:
  assumes "commit_events E ident c rec = Ok (audit, outbox)"
  shows "well_formed_event E outbox" "hashed_audit_event E audit"
proof -
  obtain h where h: "content_hash_json E (commit_audit_payload E ident c rec) = Ok h"
    "outbox_event_from_payload E (commit_outbox_payload E h ident rec (commit_audit_payload E ident c rec))
       (cr_committed_at rec) = Ok outbox"
    "audit = table_audit_event ''table.commit'' ident (tc_principal c) h (commit_audit_payload E ident c rec)
       (cr_committed_at rec)"
    using assms by (auto simp: commit_events_def Let_def and_then_ok)
  show "hashed_audit_event E audit"
    unfolding h(3) by (rule hashed_table_audit_event [OF h(1)])
  show "well_formed_event E outbox"
    using outbox_event_from_payload_well_formed [OF h(2), of "''table.commit''"] event_types_not_blank
    by (simp add: commit_outbox_payload_def)
qed

lemma log_of_snoc:
  "log_of key (cs @ [\<lparr>mc_table_key = k, mc_record = r\<rparr>]) = (if k = key then log_of key cs @ [r] else log_of key cs)"
  by (simp add: log_of_def)

lemma starts_with_append: "starts_with (xs @ ys) xs"
  by (auto simp: starts_with_iff)

lemma idempotency_key_prefix: "starts_with (idempotency_key_for ident key) (idempotency_prefix ident)"
  using starts_with_append [of "idempotency_prefix ident" key]
  by (simp only: idempotency_key_for_def idempotency_prefix_def append_assoc)

lemma commits_inv_snoc:
  assumes inv: "commits_inv E tables commits" and wf: "bt_wf tables"
    and cur: "bt_get tables key = Some current" "tr_ident t = tr_ident current"
    and rec: "commit_record_validate_for_table E rec (tr_ident t) = Ok ()"
      "cr_new_metadata_location rec = tr_metadata_location t" "cr_sequence_number rec = tr_version t"
      "cr_previous_metadata_location rec = tr_metadata_location current"
      "tr_version t = tr_version current + 1"
  shows "commits_inv E (bt_insert key t tables) (commits @ [\<lparr>mc_table_key = key, mc_record = rec\<rparr>])"
proof -
  have "list_all (commit_row E (bt_insert key t tables)) commits"
    by (rule commit_row_mono [of E tables]) (use inv cur in \<open>auto simp: commits_inv_def bt_get_insert\<close>)
  moreover have "commit_row E (bt_insert key t tables) \<lparr>mc_table_key = key, mc_record = rec\<rparr>"
    using rec(1) by (simp add: commit_row_def with_table_insert)
  moreover have "linked_log (tr_metadata_location u) (tr_version u)
      (rev (log_of k (commits @ [\<lparr>mc_table_key = key, mc_record = rec\<rparr>])))"
    if "bt_get (bt_insert key t tables) k = Some u" for k u
  proof (cases "k = key")
    case True
    moreover have "linked_log (tr_metadata_location current) (tr_version current) (rev (log_of key commits))"
      using inv cur(1) by (simp add: commits_inv_iff [OF wf])
    ultimately show ?thesis
      using that rec(2-5) by (simp add: bt_get_insert log_of_snoc)
  next
    case False
    with that inv show ?thesis
      by (simp add: bt_get_insert log_of_snoc commits_inv_iff [OF wf])
  qed
  ultimately show ?thesis
    by (simp add: commits_inv_iff [OF bt_wf_insert [OF wf]])
qed

lemma fresh_commit_inv:
  assumes inv: "store_inv E s" and commit: "table_commit_validate c = Ok ()"
    and visible: "\<not> bt_contains (ms_soft_deletes s) (table_key ident)"
    and op: "fresh_commit E now ident c h s = (Ok t, s')"
  shows "store_inv E s'"
proof -
  obtain prev rec audit outbox where ok: "committed_table E now s ident c h = Ok (prev, t)"
    "commit_record E ident c prev t h = Ok rec" "commit_record_validate_for_table E rec ident = Ok ()"
    "commit_events E ident c rec = Ok (audit, outbox)" "s' = install_commit ident c t rec audit outbox s"
    using op by (auto simp: fresh_commit_ok)
  obtain current where cur: "bt_get (ms_tables s) (table_key ident) = Some current"
    "tr_ident current = ident" "prev = tr_metadata_location current"
    "tr_metadata_location t = tc_new_metadata_location c" "tr_version t = tr_version current + 1"
    "tr_ident t = ident"
    using ok(1) by (rule committed_table_current)
  have rec: "cr_previous_metadata_location rec = prev" "cr_new_metadata_location rec = tc_new_metadata_location c"
    "cr_sequence_number rec = tr_version t" "cr_request_hash rec = h"
    using commit_record_ok [OF ok(2)] by simp_all
  have valid: "table_record_validate t = Ok ()"
    using committed_table_valid [OF commit ok(1)] by simp
  let ?tables = "bt_insert (table_key ident) t (ms_tables s)"
  have wf: "bt_wf (ms_tables s)"
    using store_invD(2) [OF inv] by (simp add: tables_inv_def rows_ok_def)
  have tables: "tables_inv (ms_namespaces s) ?tables"
    using store_invD(2) [OF inv] cur valid table_rowD [OF store_invD(2) [OF inv] cur(1)]
    by (intro tables_inv_insert) (auto simp: table_row_def)
  have deletes: "deletes_inv ?tables (ms_soft_deletes s)"
    using store_invD(3) [OF inv] visible by (elim deletes_inv_mono) (auto simp: bt_get_insert)
  have commits: "commits_inv E ?tables (ms_commits s @ [\<lparr>mc_table_key = table_key ident, mc_record = rec\<rparr>])"
    using commits_inv_snoc [OF store_invD(4) [OF inv] wf cur(1)] cur rec ok(3) by simp
  have keep: "idempotency_inv ?tables (ms_idempotency s)"
    using store_invD(5) [OF inv] cur by (elim idempotency_inv_mono) (auto simp: bt_get_insert)
  have hash: "sha256_shape (case tc_idempotency_request_hash c of Some h \<Rightarrow> h | None \<Rightarrow> cr_request_hash rec)"
    using table_commit_validate_ok [OF commit] commit_record_validate_positive [OF ok(3)]
    by (auto split: option.splits)
  have "idempotency_inv ?tables (ms_idempotency s')"
    using keep hash valid cur(6)
    by (auto simp: ok(5) install_commit_fields idempotency_inv_def replay_row_def with_table_insert
        idempotency_key_prefix table_scope_ok intro!: rows_ok_insert split: option.splits)
  then show ?thesis
    using inv tables deletes commits commit_events_ok [OF ok(4)]
    by (simp add: store_inv_def ok(5) install_commit_fields install_commit_frame outbox_inv_def audit_inv_def)
qed

lemma commit_table_inv:
  assumes inv: "store_inv E s" and op: "commit_table E now ident c s = (r, s')"
  shows "store_inv E s'"
proof (cases r)
  case (Inl e)
  with op inv show ?thesis by (auto dest: commit_table_err)
next
  case (Inr t)
  with op have "commit_table E now ident c s = (Ok t, s')" by simp
  then show ?thesis
    by (cases rule: commit_table_ok) (use inv fresh_commit_inv in auto)
qed

subsection \<open>Compare-and-swap on the metadata pointer\<close>

definition table_pointer :: "TableIdent \<Rightarrow> MemoryState \<Rightarrow> string option option" where
  "table_pointer ident s = map_option tr_metadata_location (bt_get (ms_tables s) (table_key ident))"

text \<open>
  An attempt is a commit, with or without an idempotency key, at a time. It takes effect when it succeeds
  and changes the catalog; a success that leaves the catalog as it is can only be a replay.
\<close>

definition commit_attempt :: "env \<Rightarrow> TableIdent \<Rightarrow> int \<times> TableCommit \<Rightarrow> TableRecord store_op" where
  "commit_attempt E ident a = commit_table E (fst a) ident (snd a)"

definition attempt_expects :: "int \<times> TableCommit \<Rightarrow> string option option" where
  "attempt_expects a = Some (tc_expected_previous_metadata_location (snd a))"

definition installs_pointer :: "TableRecord \<Rightarrow> string option option" where
  "installs_pointer t = Some (tr_metadata_location t)"

definition any_attempt :: "int \<times> TableCommit \<Rightarrow> bool" where
  "any_attempt a \<longleftrightarrow> True"

definition unchanged_state :: "MemoryState \<Rightarrow> MemoryState \<Rightarrow> bool" where
  "unchanged_state s s' \<longleftrightarrow> s' = s"

definition commit_log_of :: "TableIdent \<Rightarrow> MemoryState \<Rightarrow> TableCommitRecord list" where
  "commit_log_of ident s = log_of (table_key ident) (ms_commits s)"

text \<open>The commit record that belongs to an attempt and the row it answered.\<close>

definition records_commit ::
  "env \<Rightarrow> TableIdent \<Rightarrow> int \<times> TableCommit \<Rightarrow> TableRecord \<Rightarrow> TableCommitRecord \<Rightarrow> bool" where
  "records_commit E ident a t record \<longleftrightarrow>
     cr_table record = ident \<and>
     cr_previous_metadata_location record = tc_expected_previous_metadata_location (snd a) \<and>
     cr_new_metadata_location record = tc_new_metadata_location (snd a) \<and>
     tr_metadata_location t = tc_new_metadata_location (snd a) \<and>
     cr_sequence_number record = tr_version t \<and> cr_principal record = tc_principal (snd a) \<and>
     cr_idempotency_key_sha256 record = map_option (content_hash_bytes E) (tc_idempotency_key (snd a))"

text \<open>The hash a commit is compared by when its key is found, and the answer recorded for it.\<close>

definition effective_request_hash :: "env \<Rightarrow> TableCommit \<Rightarrow> string result" where
  "effective_request_hash E c =
     (case tc_idempotency_request_hash c of Some h \<Rightarrow> Ok h | None \<Rightarrow> content_hash_json E (commit_request_json c))"

lemma effective_request_hash_eq:
  "content_hash_json E (commit_request_json c) = Ok h \<Longrightarrow>
     effective_request_hash E c = Ok (case tc_idempotency_request_hash c of Some h' \<Rightarrow> h' | None \<Rightarrow> h)"
  by (simp add: effective_request_hash_def split: option.splits)

definition recorded_reply :: "env \<Rightarrow> TableIdent \<Rightarrow> TableCommit \<Rightarrow> MemoryState \<Rightarrow> TableRecord \<Rightarrow> bool" where
  "recorded_reply E ident c s t \<longleftrightarrow>
     (\<exists>key row. tc_idempotency_key c = Some key \<and>
        bt_get (ms_idempotency s) (idempotency_key_for ident key) = Some row \<and>
        effective_request_hash E c = Ok (ir_request_hash row) \<and> ir_response row = t)"

definition key_unused :: "MemoryState \<Rightarrow> TableIdent \<Rightarrow> TableCommit \<Rightarrow> bool" where
  "key_unused s ident c \<longleftrightarrow>
     (case tc_idempotency_key c of
        None \<Rightarrow> True | Some key \<Rightarrow> bt_get (ms_idempotency s) (idempotency_key_for ident key) = None)"

lemma idempotent_response_ok:
  "idempotent_response s ident key h = Ok (Some t) \<longleftrightarrow>
     (\<exists>row. bt_get (ms_idempotency s) (idempotency_key_for ident key) = Some row \<and>
        ir_table_key row = table_key ident \<and> sha256_shape (ir_request_hash row) \<and> ir_request_hash row = h \<and>
        validate_table_record_identity (ir_response row) ident = Ok () \<and> t = ir_response row)"
  by (auto simp: idempotent_response_def and_then_ok other_scope_ok split: option.splits if_split_asm)

lemma idempotent_response_none:
  "idempotent_response s ident key h = Ok None \<longleftrightarrow>
     bt_get (ms_idempotency s) (idempotency_key_for ident key) = None"
  by (auto simp: idempotent_response_def and_then_ok split: option.splits if_split_asm)

lemma commit_replay_none: "commit_replay s ident c h = Ok None \<longleftrightarrow> key_unused s ident c"
  by (auto simp: commit_replay_def key_unused_def Let_def idempotent_response_none split: option.splits)

lemma commit_replay_some:
  assumes "content_hash_json E (commit_request_json c) = Ok h" "commit_replay s ident c h = Ok (Some t)"
  shows "recorded_reply E ident c s t"
  using assms(2)
  by (auto simp: commit_replay_def Let_def idempotent_response_ok recorded_reply_def
      effective_request_hash_eq [OF assms(1)] split: option.splits)

lemma fresh_commit_swaps:
  assumes "fresh_commit E now ident c h s = (Ok t, s')"
  shows "table_pointer ident s = Some (tc_expected_previous_metadata_location c)"
    "table_pointer ident s' = Some (tr_metadata_location t)"
    "tr_metadata_location t = tc_new_metadata_location c"
proof -
  obtain prev rec audit outbox where ok: "committed_table E now s ident c h = Ok (prev, t)"
    "s' = install_commit ident c t rec audit outbox s"
    using assms by (auto simp: fresh_commit_ok)
  show "table_pointer ident s = Some (tc_expected_previous_metadata_location c)"
    "table_pointer ident s' = Some (tr_metadata_location t)"
    "tr_metadata_location t = tc_new_metadata_location c"
    by (rule committed_table_current [OF ok(1)];
        simp add: table_pointer_def ok(2) install_commit_fields bt_get_insert)+
qed

text \<open>A fresh commit changes the catalog, and its record is appended to the log of its table.\<close>

lemma fresh_commit_logs:
  assumes "fresh_commit E now ident c h s = (Ok t, s')"
  shows "s' \<noteq> s"
    "\<exists>record. commit_log_of ident s' = commit_log_of ident s @ [record] \<and>
       records_commit E ident (now, c) t record"
proof -
  obtain prev rec audit outbox where ok: "committed_table E now s ident c h = Ok (prev, t)"
    "commit_record E ident c prev t h = Ok rec" "s' = install_commit ident c t rec audit outbox s"
    using assms by (auto simp: fresh_commit_ok)
  have "ms_commits s' \<noteq> ms_commits s" by (simp add: ok(3) install_commit_fields)
  then show "s' \<noteq> s" by blast
  have "prev = tc_expected_previous_metadata_location c"
    using ok(1) by (rule committed_table_current)
  moreover have "cr_idempotency_key_sha256 rec = map_option (content_hash_bytes E) (tc_idempotency_key c)"
    using ok(2) by (auto simp: commit_record_def and_then_ok)
  ultimately have "records_commit E ident (now, c) t rec"
    using commit_record_ok [OF ok(2)] fresh_commit_swaps(3) [OF assms] by (simp add: records_commit_def)
  then show "\<exists>record. commit_log_of ident s' = commit_log_of ident s @ [record] \<and>
      records_commit E ident (now, c) t record"
    by (auto simp: commit_log_of_def ok(3) install_commit_fields log_of_snoc)
qed

text \<open>What a success is: a replay, or a fresh commit under a key not used before.\<close>

lemma commit_table_success:
  assumes "commit_table E now ident c s = (Ok t, s')"
  obtains (replay) "s' = s" "recorded_reply E ident c s t"
  | (effect) h where "s' \<noteq> s" "key_unused s ident c" "content_hash_json E (commit_request_json c) = Ok h"
      "fresh_commit E now ident c h s = (Ok t, s')"
  using assms
proof (cases rule: commit_table_ok)
  case (replayed h)
  with replay commit_replay_some [OF replayed(3,4)] show ?thesis by blast
next
  case (fresh h)
  with effect fresh_commit_logs(1) [OF fresh(5)] show ?thesis by (simp add: commit_replay_none)
qed

lemma commit_attempt_err: "commit_attempt E ident a s = (Err e, s') \<Longrightarrow> s' = s"
  unfolding commit_attempt_def by (rule commit_table_err)

lemma commit_attempt_effect:
  assumes "commit_attempt E ident a s = (Ok t, s')" "s' \<noteq> s"
  obtains h where "fresh_commit E (fst a) ident (snd a) h s = (Ok t, s')"
  using assms(1) [unfolded commit_attempt_def] by (cases rule: commit_table_success) (use assms(2) that in auto)

lemma commit_attempt_replay:
  assumes "commit_attempt E ident a s = (Ok t, s)"
  shows "recorded_reply E ident (snd a) s t"
  using assms [unfolded commit_attempt_def] by (cases rule: commit_table_success) auto

interpretation pointer: cas_log "table_pointer ident" "commit_attempt E ident" attempt_expects
    installs_pointer any_attempt unchanged_state "commit_log_of ident" "records_commit E ident" for E ident
proof
  fix a s e s'
  assume "commit_attempt E ident a s = (Err e, s')"
  then have "s' = s" by (rule commit_attempt_err)
  then show "table_pointer ident s' = table_pointer ident s" "commit_log_of ident s' = commit_log_of ident s"
    by simp_all
next
  fix a s s' and t :: TableRecord
  assume "unchanged_state s s'"
  then show "table_pointer ident s' = table_pointer ident s" "commit_log_of ident s' = commit_log_of ident s"
    by (simp_all add: unchanged_state_def)
next
  fix a s t s'
  assume "commit_attempt E ident a s = (Ok t, s')" "\<not> unchanged_state s s'"
  then obtain h where fresh: "fresh_commit E (fst a) ident (snd a) h s = (Ok t, s')"
    by (auto simp: unchanged_state_def elim: commit_attempt_effect)
  show "table_pointer ident s = attempt_expects a \<and> table_pointer ident s' = installs_pointer t"
    using fresh by (simp add: fresh_commit_swaps attempt_expects_def installs_pointer_def)
  show "\<exists>record. commit_log_of ident s' = commit_log_of ident s @ [record] \<and> records_commit E ident a t record"
    using fresh_commit_logs(2) [OF fresh] by simp
qed

text \<open>In any run of attempts, a step that took no effect left the catalog as it was.\<close>

lemma commit_run_step:
  assumes "run_swaps (commit_attempt E ident) attempts s = (steps, s')" "(a, t, r, t') \<in> set steps"
  shows "case r of Inl e \<Rightarrow> t' = t | Inr row \<Rightarrow> t' = t \<longrightarrow> recorded_reply E ident (snd a) t row"
  using run_swaps_steps(2) [OF assms] commit_attempt_err [of E ident a t] commit_attempt_replay [of E ident a t]
  by (auto split: sum.split)

end
