(* ===== verification/RenameLaws.thy ===== *)
theory RenameLaws
  imports CommitLaws
begin

section \<open>Laws of renaming a table\<close>

text \<open>
  A rename moves the row, its commit log and its policy bindings to the new identity, retires the
  idempotency rows of the old one, keeps the invariant, and changes nothing when it fails.
\<close>

lemma rename_table_err: "rename_table E now src dst p auth s = (Err e, s') \<Longrightarrow> s' = s"
  by (auto simp: rename_table_def Let_def qmark_err split: if_splits prod.splits)

lemma rename_source_ok:
  "rename_source s src dst = Ok t \<longleftrightarrow>
     has_namespace s (ti_warehouse dst) (ti_namespace dst) \<and> bt_get (ms_soft_deletes s) (table_key src) = None \<and>
     checked_table s src = Ok t \<and> bt_get (ms_tables s) (table_key dst) = None \<and>
     bt_get (ms_soft_deletes s) (table_key dst) = None \<and> log_of (table_key dst) (ms_commits s) = []"
  by (auto simp: rename_source_def and_then_ok bt_contains_def log_of_empty list_ex_iff split: if_split_asm)

lemma rename_table_ok:
  assumes "rename_table E now src dst p auth s = (Ok t, s')"
  obtains source commits retired bindings audit outbox where
    "ti_warehouse src = ti_warehouse dst" "rename_source s src dst = Ok source"
    "t = source\<lparr>tr_ident := dst, tr_updated_at := now\<rparr>" "table_record_validate t = Ok ()"
    "traverse (rename_commit E src dst) (ms_commits s) = Ok commits"
    "retired_idempotency src dst (ms_idempotency s) = Ok retired"
    "renamed_bindings E now src dst (ms_policy_bindings s) = Ok bindings"
    "table_rename_events E src t p auth now = Ok (audit, outbox)"
    "s' = install_rename src dst t commits retired bindings audit outbox s"
  using assms by (auto simp: rename_table_def Let_def qmark_ok split: if_split_asm prod.splits)

lemma rename_events_ok:
  assumes "table_rename_events E src t p auth now = Ok (audit, outbox)"
  shows "well_formed_event E outbox" "hashed_audit_event E audit"
proof -
  obtain h i where h: "content_hash_json E (table_rename_payload src t auth) = Ok h"
    "audit = \<lparr>ae_event_type = ''table.renamed'', ae_table = Some (tr_ident t), ae_principal = p,
              ae_request_hash = Some h, ae_payload = table_rename_payload src t auth, ae_created_at = now\<rparr>"
    "outbox_event_from_payload E (audit_outbox_payload i audit) now = Ok outbox"
    using assms by (auto simp: table_rename_events_def Let_def and_then_ok)
  show "hashed_audit_event E audit"
    by (simp add: h(1,2) hashed_audit_event_def)
  show "well_formed_event E outbox"
    using outbox_event_from_payload_well_formed [OF h(3), of "''table.renamed''"] event_types_not_blank
    by (simp add: h(2) audit_outbox_payload_def)
qed

subsection \<open>The commit log\<close>

lemma rename_commit_ok:
  "rename_commit E src dst c = Ok c' \<longleftrightarrow>
     (if mc_table_key c \<noteq> table_key src then c' = c
      else validate_table_commit_record_memory_scope E c src = Ok () \<and>
        c' = \<lparr>mc_table_key = table_key dst, mc_record = (mc_record c)\<lparr>cr_table := dst\<rparr>\<rparr> \<and>
        validate_table_commit_record_memory_scope E c' dst = Ok ())"
  by (auto simp: rename_commit_def Let_def and_then_ok)

lemma rename_log:
  assumes "list_all2 (\<lambda>c c'. rename_commit E src dst c = Ok c') cs cs'"
    and "table_key src \<noteq> table_key dst" "log_of (table_key dst) cs = []"
  shows "log_of k cs' =
     (if k = table_key src then []
      else if k = table_key dst then map (\<lambda>r. r\<lparr>cr_table := dst\<rparr>) (log_of (table_key src) cs)
      else log_of k cs)"
  using assms
  by (induction rule: list_all2_induct) (auto simp: rename_commit_ok log_of_def split: if_split_asm)

lemma linked_log_retarget:
  "linked_log p v (map (\<lambda>r. r\<lparr>cr_table := dst\<rparr>) cs) = linked_log p v cs"
  by (induction p v cs rule: linked_log.induct) auto

subsection \<open>Idempotency rows\<close>

lemma retired_idempotency_ok:
  "retired_idempotency src dst rows = Ok retired \<Longrightarrow>
     (\<forall>(key, r) \<in> set rows.
        (starts_with key (idempotency_prefix src) \<longleftrightarrow> ir_table_key r = table_key src) \<and>
        ir_table_key r \<noteq> table_key dst) \<and>
     set retired = {key. \<exists>r. (key, r) \<in> set rows \<and> ir_table_key r = table_key src}"
proof (induction rows arbitrary: retired)
  case (Cons row rows)
  obtain key r where row: "row = (key, r)" by fastforce
  obtain more where more: "retired_idempotency src dst rows = Ok more"
    and "starts_with key (idempotency_prefix src) = (ir_table_key r = table_key src)"
      "ir_table_key r \<noteq> table_key dst"
      "retired = (if ir_table_key r = table_key src then key # more else more)"
    using Cons.prems by (auto simp: row Let_def and_then_ok split: if_split_asm)
  with Cons.IH [OF more] show ?case by (auto simp: row)
qed simp

lemma get_foldl_remove:
  "bt_get (foldl (\<lambda>rows key. bt_remove key rows) m ks) k = (if k \<in> set ks then None else bt_get m k)"
  by (induction ks arbitrary: m) (auto simp: bt_get_remove)

lemma wf_foldl_remove: "bt_wf m \<Longrightarrow> bt_wf (foldl (\<lambda>rows key. bt_remove key rows) m ks)"
  by (induction ks arbitrary: m) (auto simp: bt_wf_remove)

subsection \<open>Policy bindings\<close>

definition retargets :: "TableIdent \<Rightarrow> PolicyBinding \<Rightarrow> bool" where
  "retargets src b \<longleftrightarrow>
     pb_warehouse b = ti_warehouse src \<and> pb_namespace b = Some (ti_namespace src) \<and> pb_table b = Some (ti_name src)"

definition retargeted :: "int \<Rightarrow> TableIdent \<Rightarrow> PolicyBinding \<Rightarrow> PolicyBinding" where
  "retargeted now dst b =
     b\<lparr>pb_namespace := Some (ti_namespace dst), pb_table := Some (ti_name dst), pb_updated_at := now\<rparr>"

lemma renamed_bindings_ok:
  "renamed_bindings E now src dst rows = Ok bindings \<Longrightarrow>
     bindings = map (\<lambda>(k, b). (k, retargeted now dst b)) (filter (\<lambda>(k, b). retargets src b) rows) \<and>
     (\<forall>(k, b) \<in> set bindings. validate_policy_binding_map_scope E b k = Ok ())"
  by (induction E now src dst rows arbitrary: bindings rule: renamed_bindings.induct)
    (auto simp: Let_def and_then_ok retargets_def retargeted_def other_scope_ok split: if_split_asm)

lemma map_of_map_filter:
  assumes "distinct (map fst m)"
  shows "map_of (map (\<lambda>(k, b). (k, f b)) (filter (\<lambda>(k, b). P b) m)) k =
     (case map_of m k of None \<Rightarrow> None | Some b \<Rightarrow> if P b then Some (f b) else None)"
  using assms by (induction m) (auto split: option.splits dest: map_of_SomeD simp: image_iff)

text \<open>Every binding of the source points to the destination afterwards, the others are as before.\<close>

lemma bindings_after_rename:
  assumes "bt_wf rows" "renamed_bindings E now src dst rows = Ok bindings"
  shows "bt_get (bt_extend rows bindings) k =
     (case bt_get rows k of None \<Rightarrow> None
      | Some b \<Rightarrow> Some (if retargets src b then retargeted now dst b else b))"
proof -
  have b: "bindings = map (\<lambda>(k, b). (k, retargeted now dst b)) (filter (\<lambda>(k, b). retargets src b) rows)"
    using renamed_bindings_ok [OF assms(2)] by simp
  have "distinct (map fst bindings)"
    unfolding b using bt_wf_distinct [OF assms(1)]
    by (simp add: case_prod_unfold comp_def distinct_map_filter)
  then have "map_of (rev bindings) = map_of bindings"
    by (rule map_of_rev_distinct)
  then show ?thesis
    unfolding bt_get_extend b using map_of_map_filter [OF bt_wf_distinct [OF assms(1)], of "retargeted now dst" "retargets src" k]
    by (auto simp: map_add_def split: option.splits)
qed

subsection \<open>The invariant\<close>

lemma install_rename_fields:
  "ms_tables (install_rename src dst t commits retired bindings audit outbox s) =
     bt_insert (table_key dst) t (bt_remove (table_key src) (ms_tables s))"
  "ms_commits (install_rename src dst t commits retired bindings audit outbox s) = commits"
  "ms_idempotency (install_rename src dst t commits retired bindings audit outbox s) =
     foldl (\<lambda>rows key. bt_remove key rows) (ms_idempotency s) retired"
  "ms_policy_bindings (install_rename src dst t commits retired bindings audit outbox s) =
     bt_extend (ms_policy_bindings s) bindings"
  "ms_audit_events (install_rename src dst t commits retired bindings audit outbox s) = ms_audit_events s @ [audit]"
  "ms_outbox_events (install_rename src dst t commits retired bindings audit outbox s) = ms_outbox_events s @ [outbox]"
  by (simp_all add: install_rename_def push_events_def)

lemma install_rename_frame:
  "ms_namespaces (install_rename src dst t commits retired bindings audit outbox s) = ms_namespaces s"
  "ms_soft_deletes (install_rename src dst t commits retired bindings audit outbox s) = ms_soft_deletes s"
  "ms_servers (install_rename src dst t commits retired bindings audit outbox s) = ms_servers s"
  "ms_projects (install_rename src dst t commits retired bindings audit outbox s) = ms_projects s"
  "ms_warehouses (install_rename src dst t commits retired bindings audit outbox s) = ms_warehouses s"
  "ms_storage_profiles (install_rename src dst t commits retired bindings audit outbox s) = ms_storage_profiles s"
  "ms_views (install_rename src dst t commits retired bindings audit outbox s) = ms_views s"
  "ms_view_version_receipts (install_rename src dst t commits retired bindings audit outbox s) = ms_view_version_receipts s"
  "ms_model_publications (install_rename src dst t commits retired bindings audit outbox s) = ms_model_publications s"
  "ms_governed_scan_grants (install_rename src dst t commits retired bindings audit outbox s) = ms_governed_scan_grants s"
  by (simp_all add: install_rename_def push_events_def)

lemma moved_table_get:
  "sk \<noteq> dk \<Longrightarrow> bt_get (bt_insert dk t (bt_remove sk m)) k =
     (if k = dk then Some t else if k = sk then None else bt_get m k)"
  by (simp add: bt_get_insert bt_get_remove)

lemma renamed_commits_inv:
  assumes inv: "commits_inv E tables cs" and wf: "bt_wf tables" and keys: "table_key src \<noteq> table_key dst"
    and src: "bt_get tables (table_key src) = Some source"
    and dst: "bt_get tables (table_key dst) = None" "log_of (table_key dst) cs = []"
    and t: "t = source\<lparr>tr_ident := dst, tr_updated_at := now\<rparr>"
    and cs': "traverse (rename_commit E src dst) cs = Ok cs'"
  shows "commits_inv E (bt_insert (table_key dst) t (bt_remove (table_key src) tables)) cs'"
proof -
  let ?tables = "bt_insert (table_key dst) t (bt_remove (table_key src) tables)"
  have all2: "list_all2 (\<lambda>c c'. rename_commit E src dst c = Ok c') cs cs'"
    using cs' by (simp add: traverse_ok_iff)
  note log = rename_log [OF all2 keys dst(2)]
  have "commit_row E ?tables c'" if mem: "c' \<in> set cs'" for c'
  proof -
    obtain i where "i < length cs'" "c' = cs' ! i"
      using mem by (auto simp: in_set_conv_nth)
    then have c: "cs ! i \<in> set cs" "rename_commit E src dst (cs ! i) = Ok c'"
      using all2 list_all2_lengthD [OF all2] list_all2_nthD2 [OF all2] by auto
    have row: "commit_row E tables (cs ! i)"
      using inv c(1) by (simp add: commits_inv_def list_all_iff)
    show ?thesis
    proof (cases "mc_table_key (cs ! i) = table_key src")
      case True
      with c(2) t show ?thesis
        by (auto simp: rename_commit_ok validate_table_commit_record_memory_scope_def commit_row_def
            with_table_insert)
    next
      case False
      with c(2) row dst(1) show ?thesis
        by (auto simp: rename_commit_ok commit_row_def with_table_iff moved_table_get [OF keys])
    qed
  qed
  moreover have "linked_log (tr_metadata_location u) (tr_version u) (rev (log_of k cs'))"
    if "bt_get ?tables k = Some u" for k u
    using that inv src t
    by (auto simp: moved_table_get [OF keys] log linked_log_retarget rev_map
        commits_inv_iff [OF wf] split: if_split_asm)
  ultimately show ?thesis
    by (simp add: commits_inv_iff bt_wf_insert bt_wf_remove wf list_all_iff)
qed

lemma renamed_idempotency_inv:
  assumes inv: "idempotency_inv tables replays" and keys: "table_key src \<noteq> table_key dst"
    and dst: "bt_get tables (table_key dst) = None"
    and retired: "retired_idempotency src dst replays = Ok retired"
  shows "idempotency_inv (bt_insert (table_key dst) t (bt_remove (table_key src) tables))
     (foldl (\<lambda>rows key. bt_remove key rows) replays retired)"
proof -
  have wf: "bt_wf replays"
    using inv by (simp add: idempotency_inv_def rows_ok_def)
  note out = retired_idempotency_ok [OF retired]
  have "replay_row (bt_insert (table_key dst) t (bt_remove (table_key src) tables)) k r"
    if "bt_get replays k = Some r" "k \<notin> set retired" for k r
  proof -
    have "ir_table_key r \<noteq> table_key src"
      using that out bt_wf_get_iff [OF wf] by blast
    moreover have "replay_row tables k r"
      using inv that(1) unfolding idempotency_inv_def by (rule rows_okD)
    ultimately show ?thesis
      using dst by (auto simp: replay_row_def with_table_iff moved_table_get [OF keys])
  qed
  then show ?thesis
    by (auto simp: idempotency_inv_def rows_ok_iff bt.all_rows_def get_foldl_remove wf_foldl_remove wf
        split: if_split_asm)
qed

lemma rename_table_inv:
  assumes inv: "store_inv E s" and op: "rename_table E now src dst p auth s = (r, s')"
    and valid: "valid_ident dst"
  shows "store_inv E s'"
proof (cases r)
  case (Inl e)
  with op inv show ?thesis by (auto dest: rename_table_err)
next
  case (Inr t)
  from op Inr have "rename_table E now src dst p auth s = (Ok t, s')" by simp
  then obtain source commits retired bindings audit outbox where
    ok: "rename_source s src dst = Ok source" "t = source\<lparr>tr_ident := dst, tr_updated_at := now\<rparr>"
      "table_record_validate t = Ok ()" "traverse (rename_commit E src dst) (ms_commits s) = Ok commits"
      "retired_idempotency src dst (ms_idempotency s) = Ok retired"
      "renamed_bindings E now src dst (ms_policy_bindings s) = Ok bindings"
      "table_rename_events E src t p auth now = Ok (audit, outbox)"
    and s': "s' = install_rename src dst t commits retired bindings audit outbox s"
    by (rule rename_table_ok)
  have src: "bt_get (ms_tables s) (table_key src) = Some source" "bt_get (ms_soft_deletes s) (table_key src) = None"
    and dst: "bt_get (ms_tables s) (table_key dst) = None" "bt_get (ms_soft_deletes s) (table_key dst) = None"
      "log_of (table_key dst) (ms_commits s) = []" "has_namespace s (ti_warehouse dst) (ti_namespace dst)"
    using ok(1) by (auto simp: rename_source_ok checked_table_ok)
  then have keys: "table_key src \<noteq> table_key dst" by auto
  have wf: "bt_wf (ms_tables s)"
    using store_invD(2) [OF inv] by (simp add: tables_inv_def rows_ok_def)
  let ?tables = "bt_insert (table_key dst) t (bt_remove (table_key src) (ms_tables s))"
  have "tables_inv (ms_namespaces s) ?tables"
    using store_invD(2) [OF inv] ok(2,3) valid dst(4)
    by (auto simp: tables_inv_def table_row_def intro!: rows_ok_insert rows_ok_remove)
  moreover have "deletes_inv ?tables (ms_soft_deletes s)"
    by (rule deletes_inv_mono [OF store_invD(3) [OF inv]])
      (use src dst in \<open>auto simp: moved_table_get [OF keys] bt_contains_def\<close>)
  moreover have "policies_inv E (bt_extend (ms_policy_bindings s) bindings)"
    using store_invD(8) [OF inv] renamed_bindings_ok [OF ok(6)]
    by (auto simp: policies_inv_def list_all_iff intro!: rows_ok_extend)
  ultimately show ?thesis
    using inv renamed_commits_inv [OF store_invD(4) [OF inv] wf keys src(1) dst(1,3) ok(2,4)]
      renamed_idempotency_inv [OF store_invD(5) [OF inv] keys dst(1) ok(5)] rename_events_ok [OF ok(7)]
    by (simp add: store_inv_def s' install_rename_fields install_rename_frame outbox_inv_def audit_inv_def)
qed

end
