(* ===== verification/ViewLaws.thy ===== *)
theory ViewLaws
  imports StoreInvariant CompareAndSwap
begin

section \<open>Laws of views\<close>

text \<open>
  The receipts of a view, in the order they were appended, form the chain the validator accepts as long
  as the clock does not run backwards: then an upsert only fails when the version overflows, a drop only
  when the view or the expected version is not there, and both extend the chain by one link. The invariant
  \<open>chains_inv\<close> carries the time of the last operation. A guarded upsert interprets \<open>cas_cell\<close>.
\<close>

definition key_chain :: "string \<Rightarrow> MemoryViewVersionReceipt list \<Rightarrow> ViewVersionReceipt list" where
  "key_chain key rows = map mv_receipt (filter (\<lambda>row. mv_view_key row = key) rows)"

definition receipt_row :: "int \<Rightarrow> MemoryViewVersionReceipt \<Rightarrow> bool" where
  "receipt_row clock row \<longleftrightarrow>
     (let r = mv_receipt row in
      mv_view_key row = view_key_parts (vr_warehouse r) (vr_namespace r) (vr_name r) \<and>
      valid_name (vr_warehouse r) \<and> valid_namespace (vr_namespace r) \<and> vr_recorded_at r \<le> clock)"

text \<open>The chain of a key ends with an upsert of the current version, or with a drop when there is no view.\<close>

definition chain_ok ::
  "env \<Rightarrow> (string, ViewRecord) btree \<Rightarrow> MemoryViewVersionReceipt list \<Rightarrow> string \<Rightarrow> bool" where
  "chain_ok E views rows key \<longleftrightarrow>
     (let chain = key_chain key rows in
      sorted (map receipt_order chain) \<and> check_chain E None chain = Ok () \<and>
      (case bt_get views key of
         None \<Rightarrow> chain = [] \<or> vr_operation (last chain) = Drop
       | Some v \<Rightarrow> chain \<noteq> [] \<and> vr_operation (last chain) = Upsert \<and>
           vr_view_version (last chain) = vw_view_version v))"

definition chains_inv ::
  "env \<Rightarrow> int \<Rightarrow> (string, ViewRecord) btree \<Rightarrow> MemoryViewVersionReceipt list \<Rightarrow> bool" where
  "chains_inv E clock views rows \<longleftrightarrow>
     list_all (receipt_row clock) rows \<and>
     list_all (chain_ok E views rows) (map fst views @ map mv_view_key rows)"

lemma chains_invD:
  assumes "chains_inv E clock views rows"
  shows "list_all (receipt_row clock) rows" "chain_ok E views rows key"
proof -
  show "list_all (receipt_row clock) rows"
    using assms by (simp add: chains_inv_def)
  show "chain_ok E views rows key"
  proof (cases "key \<in> set (map fst views @ map mv_view_key rows)")
    case True
    with assms show ?thesis by (auto simp: chains_inv_def list_all_iff)
  next
    case False
    then have "bt_get views key = None" "key_chain key rows = []"
      by (auto simp: map_of_eq_None_iff key_chain_def filter_empty_conv)
    then show ?thesis by (simp add: chain_ok_def)
  qed
qed

lemma chains_invI:
  "list_all (receipt_row clock) rows \<Longrightarrow> (\<And>key. chain_ok E views rows key) \<Longrightarrow> chains_inv E clock views rows"
  by (simp add: chains_inv_def list_all_iff)

lemma chains_inv_mono: "chains_inv E clock views rows \<Longrightarrow> clock \<le> now \<Longrightarrow> chains_inv E now views rows"
  by (auto simp: chains_inv_def list_all_iff receipt_row_def Let_def)

subsection \<open>The receipts of a key\<close>

lemma check_chain_validates: "check_chain E prev rs = Ok () \<Longrightarrow> r \<in> set rs \<Longrightarrow> receipt_validate r = Ok ()"
  by (induction E prev rs rule: check_chain.induct) (auto simp: and_then_ok)

lemma receipt_validate_stable_id:
  "receipt_validate r = Ok () \<Longrightarrow>
     vr_stable_id r = view_stable_id_parts (vr_warehouse r) (namespace_path (vr_namespace r)) (vr_name r)"
  by (auto simp: receipt_validate_def split: if_splits)

lemma key_chain_rows:
  assumes rows: "list_all (receipt_row clock) rows" and valid: "valid_name w" "valid_namespace ns"
    and r: "r \<in> set (key_chain (view_key_parts w ns n) rows)"
  shows "vr_warehouse r = w" "vr_namespace r = ns" "vr_name r = n" "vr_recorded_at r \<le> clock"
proof -
  obtain row where row: "row \<in> set rows" "mv_view_key row = view_key_parts w ns n" "r = mv_receipt row"
    using r by (auto simp: key_chain_def)
  then have "receipt_row clock row" using rows by (simp add: list_all_iff)
  with row valid view_key_parts_inj
  show "vr_warehouse r = w" "vr_namespace r = ns" "vr_name r = n" "vr_recorded_at r \<le> clock"
    by (auto simp: receipt_row_def Let_def)
qed

lemma scoped_receipts_chain:
  assumes inv: "chains_inv E clock (ms_views s) (ms_view_version_receipts s)"
    and valid: "valid_name w" "valid_namespace ns"
  shows "scoped_receipts s (view_key_parts w ns n) w ns n =
     Ok (key_chain (view_key_parts w ns n) (ms_view_version_receipts s))"
proof -
  let ?key = "view_key_parts w ns n" and ?rows = "ms_view_version_receipts s"
  have "validate_memory_view_receipt_scope row w ns (Some n) = Ok ()"
    if "row \<in> set ?rows" "mv_view_key row = ?key" for row
  proof -
    have in_chain: "mv_receipt row \<in> set (key_chain ?key ?rows)"
      using that by (auto simp: key_chain_def)
    moreover have "check_chain E None (key_chain ?key ?rows) = Ok ()"
      using chains_invD(2) [OF inv, of ?key] by (simp add: chain_ok_def Let_def)
    ultimately have "receipt_validate (mv_receipt row) = Ok ()"
      by (rule check_chain_validates [rotated])
    with key_chain_rows [OF chains_invD(1) [OF inv] valid in_chain] that show ?thesis
      by (simp add: validate_memory_view_receipt_scope_def Let_def)
  qed
  then show ?thesis
    by (auto simp: scoped_receipts_def traverse_ok_iff key_chain_def list_all2_map2 list_all2_same)
qed

text \<open>The latest receipt of a key is the last one appended.\<close>

lemma latest_evidence_chain:
  assumes inv: "chains_inv E clock views rows" and valid: "valid_name w" "valid_namespace ns"
    and chain: "chain = key_chain (view_key_parts w ns n) rows"
  shows "latest_view_receipt_evidence E chain =
     (if chain = [] then Ok None
      else and_then (view_receipt_hash E (last chain)) (\<lambda>h. Ok (Some (vr_view_version (last chain), h))))"
proof (rule latest_evidence_sorted)
  show "sorted (map receipt_order chain)" "check_chain E None chain = Ok ()"
    using chains_invD(2) [OF inv, of "view_key_parts w ns n"] by (simp_all add: chain chain_ok_def Let_def)
  then show "\<forall>r \<in> set chain. vr_stable_id r = view_stable_id_parts w (namespace_path ns) n"
    using key_chain_rows [OF chains_invD(1) [OF inv] valid] receipt_validate_stable_id check_chain_validates
    by (metis chain)
qed

subsection \<open>Versions\<close>

lemma view_validate_version:
  "view_validate E v = Ok () \<Longrightarrow> n \<noteq> 0 \<Longrightarrow> view_validate E (v\<lparr>vw_view_version := n, vw_created := a\<rparr>) = Ok ()"
  "view_validate E v = Ok () \<Longrightarrow> n \<noteq> 0 \<Longrightarrow> view_validate E (v\<lparr>vw_view_version := n\<rparr>) = Ok ()"
  by (auto simp: view_validate_def Let_def split: if_splits)

lemma with_next_version_ok:
  assumes "view_validate E v = Ok ()"
  shows "with_next_version_after_history E v previous latest =
     (case checked_add_u64 (base_view_version previous latest) 1 of
        None \<Rightarrow> Err (InvalidArgument ''view version overflow'')
      | Some version \<Rightarrow> Ok (v\<lparr>vw_view_version := version,
          vw_created := (case previous of None \<Rightarrow> vw_created v | Some p \<Rightarrow> vw_created p)\<rparr>))"
proof (cases "checked_add_u64 (base_view_version previous latest) 1")
  case None
  then show ?thesis by (simp add: with_next_version_after_history_def)
next
  case (Some version)
  then have "version \<noteq> 0" using checked_add_one by blast
  with Some assms show ?thesis
    by (auto simp: with_next_version_after_history_def Let_def view_validate_version split: option.splits)
qed

definition last_chain_version :: "ViewVersionReceipt list \<Rightarrow> 64 word" where
  "last_chain_version chain = (if chain = [] then 0 else vr_view_version (last chain))"

definition last_chain_hash :: "env \<Rightarrow> ViewVersionReceipt list \<Rightarrow> string option" where
  "last_chain_hash E chain =
     (if chain = [] then None
      else case view_receipt_hash E (last chain) of Inr h \<Rightarrow> Some h | Inl _ \<Rightarrow> None)"

definition next_view :: "ViewRecord \<Rightarrow> ViewRecord option \<Rightarrow> 64 word \<Rightarrow> ViewRecord" where
  "next_view v previous version =
     v\<lparr>vw_view_version := version,
       vw_created := (case previous of None \<Rightarrow> vw_created v | Some p \<Rightarrow> vw_created p)\<rparr>"

definition upsert_receipt_of ::
  "env \<Rightarrow> int \<Rightarrow> ViewVersionReceipt list \<Rightarrow> ViewRecord \<Rightarrow> Principal \<Rightarrow> string \<Rightarrow> ViewVersionReceipt" where
  "upsert_receipt_of E now chain v p view_hash =
     \<lparr>vr_stable_id = view_stable_id v, vr_warehouse = vw_warehouse v, vr_namespace = vw_namespace v,
      vr_name = vw_name v, vr_view_version = vw_view_version v,
      vr_previous_view_version = (if chain = [] then None else Some (vr_view_version (last chain))),
      vr_previous_receipt_hash = last_chain_hash E chain, vr_operation = Upsert,
      vr_view_hash = view_hash, vr_principal = p, vr_recorded_at = now\<rparr>"

text \<open>An upsert under the invariant: it fails only on overflow.\<close>

lemma install_view_eq:
  assumes E: "env_ok E" and inv: "chains_inv E clock (ms_views s) (ms_view_version_receipts s)"
    and valid: "valid_name (vw_warehouse v)" "valid_namespace (vw_namespace v)"
    and view: "view_validate E v = Ok ()"
    and chain: "chain = key_chain (view_key v) (ms_view_version_receipts s)"
  obtains (overflow) "checked_add_u64 (last_chain_version chain) 1 = None"
      "install_view E now v s = (Err (InvalidArgument ''view version overflow''), s)"
  | (installed) version v' h where "checked_add_u64 (last_chain_version chain) 1 = Some version"
      "v' = next_view v (bt_get (ms_views s) (view_key v)) version"
      "content_hash_json E (view_json E v') = Ok h"
      "install_view E now v s =
         (Ok v', push_receipt (view_key v) (upsert_receipt_of E now chain v' (as_principal (vw_created v)) h)
                   (s\<lparr>ms_views := bt_insert (view_key v) v' (ms_views s)\<rparr>))"
proof -
  let ?previous = "bt_get (ms_views s) (view_key v)"
  have ok: "chain_ok E (ms_views s) (ms_view_version_receipts s) (view_key v)"
    by (rule chains_invD(2) [OF inv])
  have scoped: "scoped_receipts s (view_key v) (vw_warehouse v) (vw_namespace v) (vw_name v) = Ok chain"
    using scoped_receipts_chain [OF inv valid] by (simp add: chain view_key_def)
  obtain lh where lh: "chain \<noteq> [] \<Longrightarrow> view_receipt_hash E (last chain) = Ok lh"
    using content_hash_json_total [OF E] by (metis view_receipt_hash_def)
  have latest: "latest_view_receipt_evidence E chain =
      Ok (if chain = [] then None else Some (vr_view_version (last chain), lh))"
    using latest_evidence_chain [OF inv valid, of chain] lh by (simp add: chain view_key_def)
  have hash: "last_chain_hash E chain = (if chain = [] then None else Some lh)"
    using lh by (simp add: last_chain_hash_def)
  have base: "base_view_version ?previous (if chain = [] then None else Some (vr_view_version (last chain))) =
      last_chain_version chain"
    using ok by (auto simp: chain_ok_def chain [symmetric] Let_def base_view_version_def last_chain_version_def
        split: option.splits)
  have prev: "(case ?previous of Some p \<Rightarrow> Some (vw_view_version p)
       | None \<Rightarrow> if chain = [] then None else Some (vr_view_version (last chain))) =
      (if chain = [] then None else Some (vr_view_version (last chain)))"
    using ok by (auto simp: chain_ok_def chain [symmetric] Let_def split: option.splits)
  have step: "with_next_version_after_history E v ?previous
        (if chain = [] then None else Some (vr_view_version (last chain))) =
      (case checked_add_u64 (last_chain_version chain) 1 of
         None \<Rightarrow> Err (InvalidArgument ''view version overflow'')
       | Some version \<Rightarrow> Ok (next_view v ?previous version))"
    by (simp add: with_next_version_ok [OF view] base next_view_def split: option.split)
  have install: "install_view E now v s =
      qmark (with_next_version_after_history E v ?previous
              (if chain = [] then None else Some (vr_view_version (last chain)))) s (\<lambda>view'.
      qmark (receipt_upsert E now (if chain = [] then None else Some (vr_view_version (last chain)))
               (last_chain_hash E chain) view' (as_principal (vw_created v))) s (\<lambda>receipt.
      (Ok view', push_receipt (view_key v) receipt (s\<lparr>ms_views := bt_insert (view_key v) view' (ms_views s)\<rparr>))))"
    using prev scoped latest hash by (cases "chain = []"; cases ?previous) (simp_all add: install_view_def Let_def)
  show ?thesis
  proof (cases "checked_add_u64 (last_chain_version chain) 1")
    case None
    with overflow install step show ?thesis by simp
  next
    case (Some version)
    obtain h where h: "content_hash_json E (view_json E (next_view v ?previous version)) = Ok h"
      using content_hash_json_total [OF E] by blast
    show ?thesis
      by (rule installed [OF Some refl h])
        (simp add: install step Some receipt_upsert_def h upsert_receipt_of_def)
  qed
qed

subsection \<open>Extending a chain\<close>

lemma key_chain_snoc:
  "key_chain k (rows @ [\<lparr>mv_view_key = key, mv_receipt = r\<rparr>]) =
     (if k = key then key_chain k rows @ [r] else key_chain k rows)"
  by (simp add: key_chain_def)

lemma push_receipt_fields:
  "ms_view_version_receipts (push_receipt key r s) =
     ms_view_version_receipts s @ [\<lparr>mv_view_key = key, mv_receipt = r\<rparr>]"
  "ms_views (push_receipt key r s) = ms_views s"
  by (simp_all add: push_receipt_def)

lemma chains_inv_snoc:
  assumes inv: "chains_inv E clock views rows" and now: "clock \<le> now"
    and row: "receipt_row now \<lparr>mv_view_key = key, mv_receipt = r\<rparr>"
    and link: "receipt_validate r = Ok ()"
      "check_link E (if key_chain key rows = [] then None else Some (last (key_chain key rows))) r = Ok ()"
    and order: "key_chain key rows \<noteq> [] \<Longrightarrow> receipt_order (last (key_chain key rows)) \<le> receipt_order r"
    and view: "case bt_get views' key of None \<Rightarrow> vr_operation r = Drop
       | Some v \<Rightarrow> vr_operation r = Upsert \<and> vr_view_version r = vw_view_version v"
    and others: "\<And>k. k \<noteq> key \<Longrightarrow> bt_get views' k = bt_get views k"
  shows "chains_inv E now views' (rows @ [\<lparr>mv_view_key = key, mv_receipt = r\<rparr>])"
proof (rule chains_invI)
  show "list_all (receipt_row now) (rows @ [\<lparr>mv_view_key = key, mv_receipt = r\<rparr>])"
    using chains_invD(1) [OF chains_inv_mono [OF inv now]] row by simp
  fix k
  show "chain_ok E views' (rows @ [\<lparr>mv_view_key = key, mv_receipt = r\<rparr>]) k"
  proof (cases "k = key")
    case True
    have "sorted (map receipt_order (key_chain key rows)) \<and> check_chain E None (key_chain key rows) = Ok ()"
      using chains_invD(2) [OF inv, of key] by (simp add: chain_ok_def Let_def)
    moreover from this order have "sorted (map receipt_order (key_chain key rows @ [r]))"
      by (cases "key_chain key rows = []") (simp_all add: sorted_snoc last_map)
    ultimately show ?thesis
      using True link view
      by (auto simp: chain_ok_def key_chain_snoc check_chain_snoc Let_def split: option.splits)
  next
    case False
    with chains_invD(2) [OF inv, of k] others show ?thesis
      by (simp add: chain_ok_def key_chain_snoc)
  qed
qed

lemma view_stable_id_path:
  "view_stable_id v = view_stable_id_parts (vw_warehouse v) (namespace_path (vw_namespace v)) (vw_name v)"
  by (simp add: view_stable_id_def namespace_display_path)

lemma last_chain_hash_shape: "env_ok E \<Longrightarrow> last_chain_hash E chain = Some h \<Longrightarrow> sha256_shape h"
  by (auto simp: last_chain_hash_def view_receipt_hash_def split: if_splits sum.splits dest: content_hash_json_Ok)

lemma last_chain_hash_eq:
  "env_ok E \<Longrightarrow> chain \<noteq> [] \<Longrightarrow> \<exists>h. view_receipt_hash E (last chain) = Ok h \<and> last_chain_hash E chain = Some h"
  using content_hash_json_total [of E] by (fastforce simp: last_chain_hash_def view_receipt_hash_def)

lemma upsert_receipt_links:
  assumes E: "env_ok E" and version: "checked_add_u64 (last_chain_version chain) 1 = Some (vw_view_version v)"
    and h: "content_hash_json E x = Ok h"
  shows "receipt_validate (upsert_receipt_of E now chain v p h) = Ok ()"
    "check_link E (if chain = [] then None else Some (last chain)) (upsert_receipt_of E now chain v p h) = Ok ()"
    "chain \<noteq> [] \<Longrightarrow> receipt_order (last chain) \<le> receipt_order (upsert_receipt_of E now chain v p h)"
proof -
  let ?r = "upsert_receipt_of E now chain v p h"
  note shape = content_hash_json_Ok [OF E h]
  note succ = checked_add_one [OF version]
  have "receipt_validate ?r = Ok () \<and>
      check_link E (if chain = [] then None else Some (last chain)) ?r = Ok () \<and>
      (chain \<noteq> [] \<longrightarrow> receipt_order (last chain) \<le> receipt_order ?r)"
  proof (cases "chain = []")
    case True
    with succ shape show ?thesis
      by (simp add: receipt_validate_def upsert_receipt_of_def view_stable_id_path validate_sha256_ok
          validate_sha256_option_def last_chain_version_def check_link_def last_chain_hash_def and_then_ok)
  next
    case False
    then obtain k where k: "view_receipt_hash E (last chain) = Ok k" "last_chain_hash E chain = Some k"
      using last_chain_hash_eq [OF E] by blast
    have "sha256_shape k" by (rule last_chain_hash_shape [OF E k(2)])
    moreover have "vr_view_version (last chain) < vw_view_version v" "vw_view_version v \<noteq> 0"
      "vw_view_version v = saturating_add_u64 (vr_view_version (last chain)) 1"
      using succ False by (auto simp: last_chain_version_def)
    ultimately show ?thesis
      using False k shape
      by (simp add: receipt_validate_def upsert_receipt_of_def view_stable_id_path validate_sha256_ok
          validate_sha256_option_def check_link_def receipt_order_def and_then_ok not_le [symmetric])
  qed
  then show "receipt_validate ?r = Ok ()"
    "check_link E (if chain = [] then None else Some (last chain)) ?r = Ok ()"
    "chain \<noteq> [] \<Longrightarrow> receipt_order (last chain) \<le> receipt_order ?r"
    by simp_all
qed

text \<open>A successful upsert extends the chain of its key.\<close>

lemma install_view_chains:
  assumes E: "env_ok E" and inv: "chains_inv E clock (ms_views s) (ms_view_version_receipts s)"
    and now: "clock \<le> now" and valid: "valid_name (vw_warehouse v)" "valid_namespace (vw_namespace v)"
    and view: "view_validate E v = Ok ()" and op: "install_view E now v s = (r, s')"
  shows "chains_inv E now (ms_views s') (ms_view_version_receipts s')"
proof -
  let ?chain = "key_chain (view_key v) (ms_view_version_receipts s)"
  show ?thesis
  proof (rule install_view_eq [OF E inv valid view refl, of now])
    assume "install_view E now v s = (Err (InvalidArgument ''view version overflow''), s)"
    with op inv now show ?thesis by (auto intro: chains_inv_mono)
  next
    fix version v' h
    assume version: "checked_add_u64 (last_chain_version ?chain) 1 = Some version"
      and v': "v' = next_view v (bt_get (ms_views s) (view_key v)) version"
      and h: "content_hash_json E (view_json E v') = Ok h"
      and eq: "install_view E now v s =
         (Ok v', push_receipt (view_key v) (upsert_receipt_of E now ?chain v' (as_principal (vw_created v)) h)
                   (s\<lparr>ms_views := bt_insert (view_key v) v' (ms_views s)\<rparr>))"
    have fields: "vw_view_version v' = version" "vw_warehouse v' = vw_warehouse v"
      "vw_namespace v' = vw_namespace v" "vw_name v' = vw_name v"
      by (simp_all add: v' next_view_def)
    note link = upsert_receipt_links [OF E version [folded fields(1)] h]
    have "receipt_row now \<lparr>mv_view_key = view_key v,
        mv_receipt = upsert_receipt_of E now ?chain v' (as_principal (vw_created v)) h\<rparr>"
      using valid by (simp add: receipt_row_def upsert_receipt_of_def fields view_key_def)
    then have "chains_inv E now (bt_insert (view_key v) v' (ms_views s))
        (ms_view_version_receipts s @ [\<lparr>mv_view_key = view_key v,
           mv_receipt = upsert_receipt_of E now ?chain v' (as_principal (vw_created v)) h\<rparr>])"
      by (rule chains_inv_snoc [OF inv now _ link])
        (simp_all add: bt_get_insert upsert_receipt_of_def)
    moreover have "s' = push_receipt (view_key v) (upsert_receipt_of E now ?chain v' (as_principal (vw_created v)) h)
        (s\<lparr>ms_views := bt_insert (view_key v) v' (ms_views s)\<rparr>)"
      using op eq by simp
    ultimately show ?thesis by (simp add: push_receipt_fields)
  qed
qed

subsection \<open>Upserts\<close>

lemma install_view_err: "install_view E now v s = (Err e, s') \<Longrightarrow> s' = s"
  by (auto simp: install_view_def Let_def qmark_err)

lemma upsert_view_err: "upsert_view E now v s = (Err e, s') \<Longrightarrow> s' = s"
  by (auto simp: upsert_view_def qmark_err dest: install_view_err)

lemma upsert_view_if_version_err: "upsert_view_if_version E now v expected s = (Err e, s') \<Longrightarrow> s' = s"
  by (auto simp: upsert_view_if_version_def Let_def qmark_err dest: install_view_err)

text \<open>Without a guard the guarded upsert is the unguarded one.\<close>

lemma upsert_view_if_version_None: "upsert_view_if_version E now v None s = upsert_view E now v s"
  by (simp add: upsert_view_if_version_def upsert_view_def Let_def)

lemma with_next_version_fields:
  "with_next_version_after_history E v previous latest = Ok v' \<Longrightarrow>
     view_validate E v' = Ok () \<and> view_key v' = view_key v \<and> vw_warehouse v' = vw_warehouse v \<and>
     vw_namespace v' = vw_namespace v \<and> vw_name v' = vw_name v"
  by (auto simp: with_next_version_after_history_def Let_def and_then_ok view_key_def split: option.split_asm)

lemma install_view_ok:
  assumes "install_view E now v s = (Ok v', s')"
  shows "view_validate E v' = Ok ()" "view_key v' = view_key v" "vw_warehouse v' = vw_warehouse v"
    "vw_namespace v' = vw_namespace v" "vw_name v' = vw_name v"
    "\<exists>r. s' = push_receipt (view_key v) r (s\<lparr>ms_views := bt_insert (view_key v) v' (ms_views s)\<rparr>)"
proof -
  obtain previous latest r where "with_next_version_after_history E v previous latest = Ok v'"
    and r: "s' = push_receipt (view_key v) r (s\<lparr>ms_views := bt_insert (view_key v) v' (ms_views s)\<rparr>)"
    using assms unfolding install_view_def Let_def qmark_ok by blast
  then show "view_validate E v' = Ok ()" "view_key v' = view_key v" "vw_warehouse v' = vw_warehouse v"
    "vw_namespace v' = vw_namespace v" "vw_name v' = vw_name v"
    using with_next_version_fields by simp_all
  from r show "\<exists>r. s' = push_receipt (view_key v) r (s\<lparr>ms_views := bt_insert (view_key v) v' (ms_views s)\<rparr>)"
    by blast
qed

lemma views_inv_insert:
  "views_inv E views \<Longrightarrow> view_validate E v = Ok () \<Longrightarrow> valid_name (vw_warehouse v) \<Longrightarrow>
   valid_namespace (vw_namespace v) \<Longrightarrow> valid_name (vw_name v) \<Longrightarrow> views_inv E (bt_insert (view_key v) v views)"
  by (simp add: views_inv_def rows_ok_insert validate_view_record_map_scope_def)

lemma install_view_inv:
  assumes inv: "store_inv E s" and op: "install_view E now v s = (r, s')"
    and valid: "valid_name (vw_warehouse v)" "valid_namespace (vw_namespace v)" "valid_name (vw_name v)"
  shows "store_inv E s'"
proof (cases r)
  case (Inl e)
  with op inv show ?thesis by (auto dest: install_view_err)
next
  case (Inr v')
  with op have ok: "install_view E now v s = (Ok v', s')" by simp
  note facts = install_view_ok [OF ok]
  have "views_inv E (bt_insert (view_key v) v' (ms_views s))"
    using views_inv_insert [OF store_invD(9) [OF inv] facts(1)] facts valid by simp
  with inv facts(6) show ?thesis by (auto simp: store_inv_def push_receipt_def)
qed

lemma upsert_view_if_version_inv:
  assumes inv: "store_inv E s" and op: "upsert_view_if_version E now v expected s = (r, s')"
    and valid: "valid_name (vw_warehouse v)" "valid_namespace (vw_namespace v)" "valid_name (vw_name v)"
  shows "store_inv E s'"
proof (cases r)
  case (Inl e)
  with op inv show ?thesis by (auto dest: upsert_view_if_version_err)
next
  case (Inr v')
  with op have "install_view E now v s = (Ok v', s')"
    by (auto simp: upsert_view_if_version_def Let_def qmark_ok)
  with inv valid show ?thesis by (blast intro: install_view_inv)
qed

lemma upsert_view_if_version_chains:
  assumes E: "env_ok E" and inv: "chains_inv E clock (ms_views s) (ms_view_version_receipts s)"
    and now: "clock \<le> now" and valid: "valid_name (vw_warehouse v)" "valid_namespace (vw_namespace v)"
    and op: "upsert_view_if_version E now v expected s = (r, s')"
  shows "chains_inv E now (ms_views s') (ms_view_version_receipts s')"
proof (cases r)
  case (Inl e)
  with op inv now show ?thesis by (auto dest: upsert_view_if_version_err intro: chains_inv_mono)
next
  case (Inr v')
  with op have "view_validate E v = Ok ()" "install_view E now v s = (Ok v', s')"
    by (auto simp: upsert_view_if_version_def Let_def qmark_ok)
  with install_view_chains [OF E inv now valid] show ?thesis by blast
qed

subsection \<open>Drops\<close>

definition drop_receipt_of ::
  "env \<Rightarrow> int \<Rightarrow> ViewVersionReceipt list \<Rightarrow> ViewRecord \<Rightarrow> Principal \<Rightarrow> string \<Rightarrow> ViewVersionReceipt" where
  "drop_receipt_of E now chain v p view_hash =
     \<lparr>vr_stable_id = view_stable_id v, vr_warehouse = vw_warehouse v, vr_namespace = vw_namespace v,
      vr_name = vw_name v, vr_view_version = vw_view_version v,
      vr_previous_view_version = Some (vw_view_version v),
      vr_previous_receipt_hash = last_chain_hash E chain, vr_operation = Drop,
      vr_view_hash = view_hash, vr_principal = p, vr_recorded_at = now\<rparr>"

definition expectation_met :: "64 word option \<Rightarrow> ViewRecord option \<Rightarrow> unit result" where
  "expectation_met expected previous =
     (case expected of None \<Rightarrow> Ok () | Some e \<Rightarrow> require_expected_view_version previous e)"

text \<open>The removal, once its guards have passed.\<close>

definition remove_view ::
  "env \<Rightarrow> int \<Rightarrow> WarehouseName \<Rightarrow> Namespace \<Rightarrow> TableName \<Rightarrow> Principal \<Rightarrow> ViewRecord \<Rightarrow> ViewRecord store_op" where
  "remove_view E now w ns n p current s =
     (let key = view_key_parts w ns n; s1 = s\<lparr>ms_views := bt_remove key (ms_views s)\<rparr> in
      qmark (scoped_receipts s1 key w ns n) s1 (\<lambda>receipts.
      qmark (latest_view_receipt_hash E receipts) s1 (\<lambda>previous_receipt_hash.
      qmark (receipt_drop E now current previous_receipt_hash p) s1 (\<lambda>receipt.
      (Ok current, push_receipt key receipt s1)))))"

lemma drop_view_cases:
  assumes "drop_view_if_version E now w ns n p expected s = (r, s')"
  obtains (refused) e where "r = Err e" "s' = s"
  | (removed) v where "bt_get (ms_views s) (view_key_parts w ns n) = Some v"
      "validate_view_record_scope E v w ns n = Ok ()" "expectation_met expected (Some v) = Ok ()"
      "remove_view E now w ns n p v s = (r, s')"
proof -
  let ?guard = "case expected of None \<Rightarrow> Ok () | Some e \<Rightarrow> validate_expected_view_version e"
  let ?key = "view_key_parts w ns n"
  have eq: "drop_view_if_version E now w ns n p expected s =
      qmark ?guard s (\<lambda>_. qmark (ok_or (view_not_found n) (bt_get (ms_views s) ?key)) s (\<lambda>current.
      qmark (validate_view_record_map_scope E current ?key) s (\<lambda>_.
      qmark (validate_view_record_scope E current w ns n) s (\<lambda>_.
      qmark (expectation_met expected (Some current)) s (\<lambda>_. remove_view E now w ns n p current s)))))"
    by (simp add: drop_view_if_version_def remove_view_def expectation_met_def Let_def)
  show ?thesis
  proof (cases "bt_get (ms_views s) ?key")
    case None
    with assms eq refused show ?thesis by (cases ?guard) auto
  next
    case (Some v)
    show ?thesis
    proof (cases "?guard = Ok () \<and> validate_view_record_map_scope E v ?key = Ok () \<and>
        validate_view_record_scope E v w ns n = Ok () \<and> expectation_met expected (Some v) = Ok ()")
      case True
      with assms eq Some removed [of v] show ?thesis by simp
    next
      case False
      with assms eq Some refused show ?thesis
        by (auto simp: qmark_def split: sum.splits)
    qed
  qed
qed

lemma validate_view_record_scope_ok:
  "validate_view_record_scope E v w ns n = Ok () \<longleftrightarrow>
     view_validate E v = Ok () \<and> vw_warehouse v = w \<and> vw_namespace v = ns \<and> vw_name v = n"
  by (auto simp: validate_view_record_scope_def and_then_ok)

lemma remove_view_eq:
  assumes E: "env_ok E" and inv: "chains_inv E clock (ms_views s) (ms_view_version_receipts s)"
    and valid: "valid_name w" "valid_namespace ns"
    and key: "key = view_key_parts w ns n" "chain = key_chain key (ms_view_version_receipts s)"
  obtains h where "content_hash_json E (view_json E v) = Ok h"
    "remove_view E now w ns n p v s =
       (Ok v, push_receipt key (drop_receipt_of E now chain v p h) (s\<lparr>ms_views := bt_remove key (ms_views s)\<rparr>))"
proof -
  obtain h where h: "content_hash_json E (view_json E v) = Ok h"
    using content_hash_json_total [OF E] by blast
  have scoped: "scoped_receipts (s\<lparr>ms_views := bt_remove key (ms_views s)\<rparr>) key w ns n = Ok chain"
    using scoped_receipts_chain [OF inv valid] by (simp add: scoped_receipts_def key)
  have latest: "latest_view_receipt_hash E chain = Ok (last_chain_hash E chain)"
  proof (cases "chain = []")
    case True
    with latest_evidence_chain [OF inv valid, of chain n] key show ?thesis
      by (simp add: latest_view_receipt_hash_def last_chain_hash_def)
  next
    case False
    with latest_evidence_chain [OF inv valid, of chain n] key last_chain_hash_eq [OF E False] show ?thesis
      by (auto simp: latest_view_receipt_hash_def)
  qed
  show ?thesis
    by (rule that [OF h]) (simp add: remove_view_def Let_def key(1) [symmetric] scoped latest receipt_drop_def h
        drop_receipt_of_def)
qed

lemma drop_view_chains:
  assumes E: "env_ok E" and inv: "chains_inv E clock (ms_views s) (ms_view_version_receipts s)"
    and now: "clock \<le> now" and valid: "valid_name w" "valid_namespace ns"
    and op: "drop_view_if_version E now w ns n p expected s = (r, s')"
  shows "chains_inv E now (ms_views s') (ms_view_version_receipts s') \<and> (\<forall>e. r = Err e \<longrightarrow> s' = s)"
  using op
proof (cases rule: drop_view_cases)
  case refused
  with inv now show ?thesis by (auto intro: chains_inv_mono)
next
  case (removed v)
  let ?key = "view_key_parts w ns n"
  let ?chain = "key_chain ?key (ms_view_version_receipts s)"
  obtain h where h: "content_hash_json E (view_json E v) = Ok h"
    "remove_view E now w ns n p v s =
       (Ok v, push_receipt ?key (drop_receipt_of E now ?chain v p h) (s\<lparr>ms_views := bt_remove ?key (ms_views s)\<rparr>))"
    using remove_view_eq [OF E inv valid refl refl] by blast
  let ?r = "drop_receipt_of E now ?chain v p h"
  have scope: "view_validate E v = Ok ()" "vw_warehouse v = w" "vw_namespace v = ns" "vw_name v = n"
    using removed(2) by (auto simp: validate_view_record_scope_ok)
  have chain: "?chain \<noteq> []" "vr_operation (last ?chain) = Upsert" "vr_view_version (last ?chain) = vw_view_version v"
    using chains_invD(2) [OF inv, of ?key] removed(1) by (auto simp: chain_ok_def Let_def)
  have at: "vr_recorded_at (last ?chain) \<le> now"
    using key_chain_rows(4) [OF chains_invD(1) [OF inv] valid last_in_set [OF chain(1)]] now by simp
  obtain k where k: "view_receipt_hash E (last ?chain) = Ok k" "last_chain_hash E ?chain = Some k"
    using last_chain_hash_eq [OF E chain(1)] by blast
  have row: "receipt_row now \<lparr>mv_view_key = ?key, mv_receipt = ?r\<rparr>"
    using valid scope by (simp add: receipt_row_def drop_receipt_of_def)
  have validate: "receipt_validate ?r = Ok ()"
    using scope(1) content_hash_json_Ok [OF E h(1)] last_chain_hash_shape [OF E k(2)] k(2)
    by (auto simp: receipt_validate_def drop_receipt_of_def view_stable_id_path and_then_ok validate_sha256_ok
        validate_sha256_option_def view_validate_def split: if_splits)
  have link: "check_link E (if ?chain = [] then None else Some (last ?chain)) ?r = Ok ()"
    using chain k by (simp add: check_link_def drop_receipt_of_def)
  have order: "receipt_order (last ?chain) \<le> receipt_order ?r"
    using chain at by (simp add: receipt_order_def drop_receipt_of_def less_eq_ViewVersionOperation_def
        view_version_operation_order_def)
  have "chains_inv E now (bt_remove ?key (ms_views s)) (ms_view_version_receipts s @ [\<lparr>mv_view_key = ?key, mv_receipt = ?r\<rparr>])"
    by (rule chains_inv_snoc [OF inv now row validate link])
      (use order in \<open>simp_all add: bt_get_remove drop_receipt_of_def\<close>)
  moreover have "r = Ok v" "s' = push_receipt ?key ?r (s\<lparr>ms_views := bt_remove ?key (ms_views s)\<rparr>)"
    using removed(4) h(2) by simp_all
  ultimately show ?thesis by (simp add: push_receipt_fields)
qed

lemma drop_view_inv:
  assumes inv: "store_inv E s" and op: "drop_view_if_version E now w ns n p expected s = (r, s')"
  shows "store_inv E s'"
  using op
proof (cases rule: drop_view_cases)
  case refused
  with inv show ?thesis by simp
next
  case (removed v)
  let ?s1 = "s\<lparr>ms_views := bt_remove (view_key_parts w ns n) (ms_views s)\<rparr>"
  have "s' = ?s1 \<or> (\<exists>receipt. s' = push_receipt (view_key_parts w ns n) receipt ?s1)"
    using removed(4) unfolding remove_view_def Let_def qmark_def by (auto split: sum.splits)
  then show ?thesis
    using inv by (auto simp: store_inv_def views_inv_def rows_ok_remove push_receipt_def)
qed

subsection \<open>Compare-and-swap on the version of a view\<close>

definition view_version_of :: "string \<Rightarrow> MemoryState \<Rightarrow> 64 word option" where
  "view_version_of key s = map_option vw_view_version (bt_get (ms_views s) key)"

record view_attempt =
  va_now :: int
  va_view :: ViewRecord
  va_expected :: "64 word option"

definition upsert_attempt :: "env \<Rightarrow> view_attempt \<Rightarrow> ViewRecord store_op" where
  "upsert_attempt E a = upsert_view_if_version E (va_now a) (va_view a) (va_expected a)"

definition installs_version :: "ViewRecord \<Rightarrow> 64 word option" where
  "installs_version v = Some (vw_view_version v)"

definition guarded_upsert_of :: "string \<Rightarrow> view_attempt \<Rightarrow> bool" where
  "guarded_upsert_of key a \<longleftrightarrow> view_key (va_view a) = key \<and> va_expected a \<noteq> None"

lemma require_expected_ok:
  "require_expected_view_version previous e = Ok () \<longleftrightarrow> map_option vw_view_version previous = Some e"
  by (auto simp: require_expected_view_version_def split: option.splits if_splits)

lemma upsert_if_version_ok:
  assumes "upsert_view_if_version E now v (Some e) s = (Ok v', s')"
  shows "view_version_of (view_key v) s = Some e" "view_version_of (view_key v) s' = Some (vw_view_version v')"
proof -
  have "install_view E now v s = (Ok v', s')"
    "require_expected_view_version (bt_get (ms_views s) (view_key v)) e = Ok ()"
    using assms by (auto simp: upsert_view_if_version_def Let_def qmark_ok)
  with install_view_ok(6) [OF this(1)]
  show "view_version_of (view_key v) s = Some e" "view_version_of (view_key v) s' = Some (vw_view_version v')"
    by (auto simp: require_expected_ok view_version_of_def push_receipt_def bt_get_insert)
qed

interpretation view_version: cas_cell "view_version_of key" "upsert_attempt E" va_expected installs_version
    "guarded_upsert_of key" never_idle for E key
proof
  fix a s e s'
  assume "upsert_attempt E a s = (Err e, s')"
  then show "view_version_of key s' = view_version_of key s"
    by (auto simp: upsert_attempt_def dest: upsert_view_if_version_err)
next
  fix s s' :: MemoryState and v :: ViewRecord
  assume "never_idle s s'"
  then show "view_version_of key s' = view_version_of key s" by (simp add: never_idle_def)
next
  fix a s v s'
  assume "guarded_upsert_of key a" "upsert_attempt E a s = (Ok v, s')"
  then show "view_version_of key s = va_expected a \<and> view_version_of key s' = installs_version v"
    using upsert_if_version_ok by (auto simp: guarded_upsert_of_def upsert_attempt_def installs_version_def)
qed

end
