(* ===== verification/RegistryLaws.thy ===== *)
theory RegistryLaws
  imports StoreInvariant
begin

section \<open>Laws of the registries\<close>

text \<open>
  The contract of an upsert into a keyed registry: it fails without effect or stores exactly the record
  it was given under the record's key, and repeating it changes nothing. The client facts say what a
  lookup returns after any sequence of upserts. All five upserts of the catalog interpret \<open>registry\<close>.
  The listings return the rows of the warehouse in the order of their ids.
\<close>

locale registry =
  fixes upsert :: "'r \<Rightarrow> 's \<Rightarrow> ('e + 'r) \<times> 's"
    and rows :: "'s \<Rightarrow> 'k \<Rightarrow> 'r option"
    and key :: "'r \<Rightarrow> 'k"
  assumes refused: "upsert r s = (Inl e, s') \<Longrightarrow> s' = s"
    and stored: "upsert r s = (Inr r', s') \<Longrightarrow> r' = r \<and> rows s' = (rows s)(key r \<mapsto> r)"
    and again: "upsert r s = (Inr r', s') \<Longrightarrow> upsert r s' = (Inr r, s')"
begin

lemma lookup_stored: "upsert r s = (Inr r', s') \<Longrightarrow> rows s' (key r) = Some r"
  by (simp add: stored)

lemma lookup_other: "upsert r s = (Inr r', s') \<Longrightarrow> k \<noteq> key r \<Longrightarrow> rows s' k = rows s k"
  by (simp add: stored)

lemma last_writer_wins:
  assumes "upsert q s = (Inr q', s1)" "upsert r s1 = (Inr r', s2)" "key q = key r"
  shows "rows s2 = (rows s)(key r \<mapsto> r)"
  using stored [OF assms(1)] stored [OF assms(2)] assms(3) by simp

lemma no_loss:
  "upsert r s = (x, s') \<Longrightarrow> dom (rows s) \<subseteq> dom (rows s')"
  using refused stored by (cases x) fastforce+

end

subsection \<open>The five upserts\<close>

lemma check_existing_none [simp]: "check_existing f None k = Ok ()"
  by (simp add: check_existing_def)

lemma check_existing_some [simp]: "check_existing f (Some r) k = f r k"
  by (simp add: check_existing_def)

lemma upsert_server_ok:
  "upsert_server E r s = (Ok r', s') \<longleftrightarrow>
     server_validate E r = Ok () \<and>
     check_existing (validate_server_record_map_scope E) (bt_get (ms_servers s) (sv_server_id r)) (sv_server_id r) = Ok () \<and>
     r' = r \<and> s' = s\<lparr>ms_servers := bt_insert (sv_server_id r) r (ms_servers s)\<rparr>"
  by (auto simp: upsert_server_def qmark_ok)

lemma upsert_server_err: "upsert_server E r s = (Err e, s') \<Longrightarrow> s' = s"
  by (auto simp: upsert_server_def qmark_err)

lemma server_row_ok:
  "server_row E s i = Ok r \<longleftrightarrow>
     bt_get (ms_servers s) i = Some r \<and> validate_server_record_map_scope E r i = Ok ()"
  by (auto simp: server_row_def and_then_ok ok_or_ok)

lemma upsert_project_ok:
  "upsert_project E r s = (Ok r', s') \<longleftrightarrow>
     project_validate E r = Ok () \<and>
     (\<forall>i. pj_server_id r = Some i \<longrightarrow> (\<exists>server. server_row E s i = Ok server)) \<and>
     check_existing (validate_project_record_map_scope E) (bt_get (ms_projects s) (pj_project_id r)) (pj_project_id r) = Ok () \<and>
     r' = r \<and> s' = s\<lparr>ms_projects := bt_insert (pj_project_id r) r (ms_projects s)\<rparr>"
  by (auto simp: upsert_project_def qmark_ok and_then_ok split: option.splits)

lemma upsert_project_err: "upsert_project E r s = (Err e, s') \<Longrightarrow> s' = s"
  by (auto simp: upsert_project_def qmark_err)

lemma project_row_ok:
  "project_row E s i = Ok r \<longleftrightarrow>
     bt_get (ms_projects s) i = Some r \<and> validate_project_record_map_scope E r i = Ok ()"
  by (auto simp: project_row_def and_then_ok ok_or_ok)

lemma upsert_warehouse_ok:
  "upsert_warehouse E r s = (Ok r', s') \<longleftrightarrow>
     warehouse_validate E r = Ok () \<and> (\<exists>project. project_row E s (wr_project_id r) = Ok project) \<and>
     check_existing (validate_warehouse_record_map_scope E) (bt_get (ms_warehouses s) (wr_warehouse r)) (wr_warehouse r) = Ok () \<and>
     r' = r \<and> s' = s\<lparr>ms_warehouses := bt_insert (wr_warehouse r) r (ms_warehouses s)\<rparr>"
  by (auto simp: upsert_warehouse_def Let_def qmark_ok)

lemma upsert_warehouse_err: "upsert_warehouse E r s = (Err e, s') \<Longrightarrow> s' = s"
  by (auto simp: upsert_warehouse_def Let_def qmark_err)

definition profile_key :: "StorageProfile \<Rightarrow> string" where
  "profile_key p = storage_profile_key (sp_warehouse p) (sp_profile_id p)"

lemma upsert_storage_profile_ok:
  "upsert_storage_profile E r s = (Ok r', s') \<longleftrightarrow>
     storage_profile_validate E r = Ok () \<and>
     check_existing (validate_storage_profile_map_scope E) (bt_get (ms_storage_profiles s) (profile_key r)) (profile_key r) = Ok () \<and>
     r' = r \<and> s' = s\<lparr>ms_storage_profiles := bt_insert (profile_key r) r (ms_storage_profiles s)\<rparr>"
  by (auto simp: upsert_storage_profile_def Let_def qmark_ok profile_key_def)

lemma upsert_storage_profile_err: "upsert_storage_profile E r s = (Err e, s') \<Longrightarrow> s' = s"
  by (auto simp: upsert_storage_profile_def Let_def qmark_err)

definition binding_key :: "PolicyBinding \<Rightarrow> string" where
  "binding_key b = policy_binding_key (pb_warehouse b) (pb_policy_id b)"

lemma upsert_policy_binding_ok:
  "upsert_policy_binding E r s = (Ok r', s') \<longleftrightarrow>
     policy_binding_validate E r = Ok () \<and>
     check_existing (validate_policy_binding_map_scope E) (bt_get (ms_policy_bindings s) (binding_key r)) (binding_key r) = Ok () \<and>
     r' = r \<and> s' = s\<lparr>ms_policy_bindings := bt_insert (binding_key r) r (ms_policy_bindings s)\<rparr>"
  by (auto simp: upsert_policy_binding_def Let_def qmark_ok binding_key_def)

lemma upsert_policy_binding_err: "upsert_policy_binding E r s = (Err e, s') \<Longrightarrow> s' = s"
  by (auto simp: upsert_policy_binding_def Let_def qmark_err)

lemmas upsert_oks = upsert_server_ok upsert_project_ok upsert_warehouse_ok upsert_storage_profile_ok
  upsert_policy_binding_ok

lemmas upsert_errs = upsert_server_err upsert_project_err upsert_warehouse_err upsert_storage_profile_err
  upsert_policy_binding_err

interpretation servers: registry "upsert_server E" "\<lambda>s. bt_get (ms_servers s)" sv_server_id for E
  by unfold_locales
    (auto simp: upsert_oks bt_get_insert bt_insert_insert other_scope_ok dest: upsert_errs)

interpretation projects: registry "upsert_project E" "\<lambda>s. bt_get (ms_projects s)" pj_project_id for E
  by unfold_locales
    (auto simp: upsert_oks bt_get_insert bt_insert_insert other_scope_ok server_row_ok dest: upsert_errs)

interpretation warehouses: registry "upsert_warehouse E" "\<lambda>s. bt_get (ms_warehouses s)" wr_warehouse for E
  by unfold_locales
    (auto simp: upsert_oks bt_get_insert bt_insert_insert other_scope_ok project_row_ok dest: upsert_errs)

interpretation profiles: registry "upsert_storage_profile E" "\<lambda>s. bt_get (ms_storage_profiles s)" profile_key for E
  by unfold_locales
    (auto simp: upsert_oks bt_get_insert bt_insert_insert other_scope_ok profile_key_def dest: upsert_errs)

interpretation bindings: registry "upsert_policy_binding E" "\<lambda>s. bt_get (ms_policy_bindings s)" binding_key for E
  by unfold_locales
    (auto simp: upsert_oks bt_get_insert bt_insert_insert other_scope_ok binding_key_def dest: upsert_errs)

subsection \<open>The invariant\<close>

lemma upsert_server_inv:
  assumes inv: "store_inv E s" and op: "upsert_server E r s = (x, s')"
  shows "store_inv E s'"
proof (cases x)
  case (Inl e)
  with op inv show ?thesis by (auto dest: upsert_errs)
next
  case (Inr r')
  with op have ok: "server_validate E r = Ok ()" "s' = s\<lparr>ms_servers := bt_insert (sv_server_id r) r (ms_servers s)\<rparr>"
    by (auto simp: upsert_oks)
  have "projects_inv E (ms_servers s') (ms_projects s)"
    using inv ok(2) unfolding store_inv_def projects_inv_def
    by (auto elim!: rows_ok_mono simp: bt_contains_insert split: option.splits)
  moreover have "servers_inv E (ms_servers s')"
    using inv ok by (auto simp: store_inv_def servers_inv_def other_scope_ok intro: rows_ok_insert)
  ultimately show ?thesis
    using inv ok(2) by (simp add: store_inv_def)
qed

lemma upsert_project_inv:
  assumes inv: "store_inv E s" and op: "upsert_project E r s = (x, s')"
  shows "store_inv E s'"
proof (cases x)
  case (Inl e)
  with op inv show ?thesis by (auto dest: upsert_errs)
next
  case (Inr r')
  with op have ok: "project_validate E r = Ok ()"
      "\<forall>i. pj_server_id r = Some i \<longrightarrow> (\<exists>server. server_row E s i = Ok server)"
      "s' = s\<lparr>ms_projects := bt_insert (pj_project_id r) r (ms_projects s)\<rparr>"
    by (auto simp: upsert_oks)
  have "warehouses_inv E (ms_projects s') (ms_warehouses s)"
    using inv ok(3) unfolding store_inv_def warehouses_inv_def
    by (auto elim!: rows_ok_mono simp: bt_contains_insert)
  moreover have "projects_inv E (ms_servers s) (ms_projects s)"
    using inv by (simp add: store_inv_def)
  then have "projects_inv E (ms_servers s) (bt_insert (pj_project_id r) r (ms_projects s))"
    unfolding projects_inv_def
    by (rule rows_ok_insert)
      (use ok in \<open>auto simp: other_scope_ok server_row_ok bt_contains_def split: option.splits\<close>)
  ultimately show ?thesis
    using inv ok(3) by (simp add: store_inv_def)
qed

lemma upsert_warehouse_inv:
  assumes inv: "store_inv E s" and op: "upsert_warehouse E r s = (x, s')"
  shows "store_inv E s'"
proof (cases x)
  case (Inl e)
  with op inv show ?thesis by (auto dest: upsert_errs)
next
  case (Inr r')
  with op inv show ?thesis
    by (auto simp: upsert_oks store_inv_def warehouses_inv_def other_scope_ok project_row_ok bt_contains_def
        intro!: rows_ok_insert)
qed

lemma upsert_storage_profile_inv:
  assumes inv: "store_inv E s" and op: "upsert_storage_profile E r s = (x, s')"
  shows "store_inv E s'"
proof (cases x)
  case (Inl e)
  with op inv show ?thesis by (auto dest: upsert_errs)
next
  case (Inr r')
  with op inv show ?thesis
    by (auto simp: upsert_oks store_inv_def profiles_inv_def other_scope_ok profile_key_def intro!: rows_ok_insert)
qed

lemma upsert_policy_binding_inv:
  assumes inv: "store_inv E s" and op: "upsert_policy_binding E r s = (x, s')"
  shows "store_inv E s'"
proof (cases x)
  case (Inl e)
  with op inv show ?thesis by (auto dest: upsert_errs)
next
  case (Inr r')
  with op inv show ?thesis
    by (auto simp: upsert_oks store_inv_def policies_inv_def other_scope_ok binding_key_def intro!: rows_ok_insert)
qed

subsection \<open>Listings\<close>

lemma scoped_rows_inv:
  "rows_ok P m \<Longrightarrow> (\<And>k r. P k r \<Longrightarrow> f r k = Ok ()) \<Longrightarrow> scoped_rows f m = Ok (map snd m)"
  by (auto simp: scoped_rows_ok rows_ok_def list_all_iff)

text \<open>The candidates of a best match: all profiles of the warehouse that are a prefix of the location.\<close>

lemma storage_profile_for_table_eq:
  "profiles_inv E (ms_storage_profiles s) \<Longrightarrow>
   storage_profile_for_table E s t =
     and_then (storage_profile_match E (map snd (ms_storage_profiles s)) t) (\<lambda>best.
       Ok (case best of Some p \<Rightarrow> p | None \<Rightarrow> storage_profile_inferred_for_table t))"
  by (simp add: storage_profile_for_table_def profiles_inv_def scoped_rows_inv)

end
