(* ===== verification/OutboxLaws.thy ===== *)
theory OutboxLaws
  imports StoreInvariant CompareAndSwap
begin

section \<open>Laws of models, grants and the outbox\<close>

text \<open>
  A model publication is a compare-and-swap on the last version, which makes the versions of a model
  1, 2, 3, ...; a grant is stored once and only repeated; audit events and their outbox events are
  appended together. The outbox is a queue with acknowledgements: the locale \<open>event_queue\<close> states
  what acknowledging promises, its client lemmas that no event is lost and none is counted twice.
\<close>

subsection \<open>Model publications\<close>

lemma publication_events_ok:
  assumes "publication_events E now m = Ok (audit, outbox)"
  shows "well_formed_event E outbox" "hashed_audit_event E audit"
proof -
  obtain h i where h: "content_hash_json E (model_published_payload m) = Ok h"
    "audit = \<lparr>ae_event_type = ''model.published'', ae_table = None, ae_principal = mp_publisher m,
              ae_request_hash = Some h, ae_payload = model_published_payload m, ae_created_at = now\<rparr>"
    "outbox_event_from_payload E (audit_outbox_payload i audit) (ae_created_at audit) = Ok outbox"
    using assms by (auto simp: publication_events_def audit_event_new_def and_then_ok)
  show "hashed_audit_event E audit"
    by (simp add: h(1,2) hashed_audit_event_def)
  show "well_formed_event E outbox"
    using outbox_event_from_payload_well_formed [OF h(3), of "''model.published''"] event_types_not_blank
    by (simp add: h(2) audit_outbox_payload_def)
qed

lemma publish_model_cases:
  assumes "publish_model E now m expected s = (r, s')"
  obtains (refused) e where "r = Err e" "s' = s"
  | (conflict) e where "r = Err e"
      "s' = s\<lparr>ms_model_publications := bt_insert (model_publication_key (mp_warehouse m) (mp_model_id m))
                (model_publications s (mp_warehouse m) (mp_model_id m)) (ms_model_publications s)\<rparr>"
  | (published) audit outbox ps where "r = Ok m" "model_publication_validate E m = Ok ()"
      "publication_events E now m = Ok (audit, outbox)"
      "check_all (check_policy_exists E s (mp_warehouse m)) (mp_policy_binding_ids m) = Ok ()"
      "ps = model_publications s (mp_warehouse m) (mp_model_id m)" "last_version ps = expected"
      "mp_version m = (case expected of None \<Rightarrow> 0 | Some v \<Rightarrow> v) + 1"
      "s' = push_events audit outbox (s\<lparr>ms_model_publications :=
              bt_insert (model_publication_key (mp_warehouse m) (mp_model_id m)) (ps @ [m]) (ms_model_publications s)\<rparr>)"
proof (cases "model_publication_validate E m")
  case (Inl e)
  with assms refused show ?thesis by (auto simp: publish_model_def)
next
  case validate: (Inr u)
  show ?thesis
  proof (cases "publication_events E now m")
    case (Inl e)
    with assms validate refused show ?thesis by (auto simp: publish_model_def Let_def)
  next
    case events: (Inr ev)
    obtain audit outbox where ev: "ev = (audit, outbox)" by fastforce
    show ?thesis
    proof (cases "check_all (check_policy_exists E s (mp_warehouse m)) (mp_policy_binding_ids m)")
      case (Inl e)
      with assms validate events refused show ?thesis by (auto simp: publish_model_def Let_def ev)
    next
      case policies: (Inr u')
      let ?ps = "model_publications s (mp_warehouse m) (mp_model_id m)"
      let ?k = "model_publication_key (mp_warehouse m) (mp_model_id m)"
      have eq: "(r, s') =
          (if last_version ?ps \<noteq> expected \<or>
              mp_version m \<noteq> (case last_version ?ps of None \<Rightarrow> 0 | Some v \<Rightarrow> v) + 1 then
             (Err (Conflict ''model publication compare-and-swap version mismatch''),
              s\<lparr>ms_model_publications := bt_insert ?k ?ps (ms_model_publications s)\<rparr>)
           else (Ok m, push_events audit outbox
             (s\<lparr>ms_model_publications := bt_insert ?k (?ps @ [m]) (ms_model_publications s)\<rparr>)))"
        using assms validate events policies
        by (auto simp: publish_model_def Let_def ev model_publications_def bt_insert_insert split: if_split_asm)
      show ?thesis
      proof (cases "last_version ?ps \<noteq> expected \<or>
          mp_version m \<noteq> (case last_version ?ps of None \<Rightarrow> 0 | Some v \<Rightarrow> v) + 1")
        case True
        with eq conflict show ?thesis by simp
      next
        case False
        with eq validate events policies show ?thesis
          by (intro published [of audit outbox ?ps]) (auto simp: ev)
      qed
    qed
  qed
qed

lemma model_publications_insert:
  "model_publications (s\<lparr>ms_model_publications := bt_insert (model_publication_key w i) ps (ms_model_publications s)\<rparr>) w' j =
     (if model_publication_key w' j = model_publication_key w i then ps else model_publications s w' j)"
  by (simp add: model_publications_def bt_get_insert)

lemma model_publications_push [simp]:
  "model_publications (push_events a b s) w i = model_publications s w i"
  by (simp add: model_publications_def push_events_def)

text \<open>A refused publication leaves every list of publications as it was.\<close>

lemma publish_model_err:
  assumes "publish_model E now m expected s = (Err e, s')"
  shows "model_publications s' w i = model_publications s w i"
    "\<exists>models. s' = s\<lparr>ms_model_publications := models\<rparr>"
proof -
  have "model_publications s' w i = model_publications s w i \<and> (\<exists>models. s' = s\<lparr>ms_model_publications := models\<rparr>)"
    using assms
  proof (cases rule: publish_model_cases)
    case refused
    then show ?thesis by (auto intro!: exI [of _ "ms_model_publications s"])
  next
    case conflict
    then show ?thesis by (auto simp: model_publications_insert) (auto simp: model_publications_def)
  qed auto
  then show "model_publications s' w i = model_publications s w i"
    "\<exists>models. s' = s\<lparr>ms_model_publications := models\<rparr>" by auto
qed

record publish_attempt =
  pa_now :: int
  pa_publication :: ModelPublication
  pa_expected :: "64 word option"

definition publish_attempted :: "env \<Rightarrow> publish_attempt \<Rightarrow> ModelPublication store_op" where
  "publish_attempted E a = publish_model E (pa_now a) (pa_publication a) (pa_expected a)"

definition model_version_of :: "WarehouseName \<Rightarrow> string \<Rightarrow> MemoryState \<Rightarrow> 64 word option" where
  "model_version_of w i s = last_version (model_publications s w i)"

definition installs_publication :: "ModelPublication \<Rightarrow> 64 word option" where
  "installs_publication m = Some (mp_version m)"

definition publishes :: "WarehouseName \<Rightarrow> string \<Rightarrow> publish_attempt \<Rightarrow> bool" where
  "publishes w i a \<longleftrightarrow> mp_warehouse (pa_publication a) = w \<and> mp_model_id (pa_publication a) = i"

interpretation model_version: cas_cell "model_version_of w i" "publish_attempted E" pa_expected
    installs_publication "publishes w i" never_idle for E w i
proof
  fix a s e s'
  assume "publish_attempted E a s = (Err e, s')"
  then show "model_version_of w i s' = model_version_of w i s"
    using publish_model_err(1) by (simp add: publish_attempted_def model_version_of_def)
next
  fix s s' :: MemoryState and m :: ModelPublication
  assume "never_idle s s'"
  then show "model_version_of w i s' = model_version_of w i s" by (simp add: never_idle_def)
next
  fix a s m s'
  assume "publishes w i a" "publish_attempted E a s = (Ok m, s')"
  then have w: "mp_warehouse (pa_publication a) = w" "mp_model_id (pa_publication a) = i"
    and op: "publish_model E (pa_now a) (pa_publication a) (pa_expected a) s = (Ok m, s')"
    by (auto simp: publishes_def publish_attempted_def)
  from op show "model_version_of w i s = pa_expected a \<and> model_version_of w i s' = installs_publication m"
    by (cases rule: publish_model_cases)
      (auto simp: w model_version_of_def installs_publication_def model_publications_insert last_version_def)
qed

lemma consecutive_versions_Nil: "consecutive_versions []"
  by (simp add: consecutive_versions_def)

lemma consecutive_versions_snoc:
  assumes "consecutive_versions ps" "mp_version m = (case last_version ps of None \<Rightarrow> 0 | Some v \<Rightarrow> v) + 1"
    and "mp_version m \<noteq> 0"
  shows "consecutive_versions (ps @ [m])"
proof -
  have "unat (mp_version m) = length ps + 1"
  proof (cases ps rule: rev_cases)
    case Nil
    with assms(2) show ?thesis by (simp add: last_version_def)
  next
    case (snoc qs q)
    then have "unat (mp_version q) = length ps"
      using assms(1) by (auto simp: consecutive_versions_def)
    moreover have "mp_version m = mp_version q + 1"
      using assms(2) snoc by (simp add: last_version_def)
    ultimately show ?thesis
      using assms(3) unatSuc [of "mp_version q"] by (auto simp: add.commute)
  qed
  with assms(1) show ?thesis by (simp add: consecutive_versions_def)
qed

lemma models_inv_get:
  "models_inv E models \<Longrightarrow> bt_get models k = Some ps \<Longrightarrow>
     consecutive_versions ps \<and> list_all (\<lambda>m. model_publication_validate E m = Ok () \<and>
       model_publication_key (mp_warehouse m) (mp_model_id m) = k) ps"
  unfolding models_inv_def by (drule rows_okD)

lemma model_publications_inv:
  assumes "models_inv E (ms_model_publications s)"
  shows "consecutive_versions (model_publications s w i)"
    "list_all (\<lambda>m. model_publication_validate E m = Ok () \<and>
       model_publication_key (mp_warehouse m) (mp_model_id m) = model_publication_key w i) (model_publications s w i)"
  using models_inv_get [OF assms]
  by (auto simp: model_publications_def consecutive_versions_Nil split: option.splits)

lemma model_publication_positive: "model_publication_validate E m = Ok () \<Longrightarrow> mp_version m \<noteq> 0"
  by (auto simp: model_publication_validate_def split: if_splits)

lemma publish_model_inv:
  assumes inv: "store_inv E s" and op: "publish_model E now m expected s = (r, s')"
  shows "store_inv E s'"
proof -
  note models = store_invD(10) [OF inv]
  note ps = model_publications_inv [OF models, of "mp_warehouse m" "mp_model_id m"]
  from op show ?thesis
  proof (cases rule: publish_model_cases)
    case refused
    with inv show ?thesis by simp
  next
    case conflict
    with models ps have "models_inv E (ms_model_publications s')"
      by (simp add: models_inv_def rows_ok_insert)
    with conflict inv show ?thesis by (simp add: store_inv_def)
  next
    case (published audit outbox qs)
    have "consecutive_versions (qs @ [m])"
      using published(5-7) ps model_publication_positive [OF published(2)]
      by (intro consecutive_versions_snoc) simp_all
    then have "models_inv E (bt_insert (model_publication_key (mp_warehouse m) (mp_model_id m)) (qs @ [m]) (ms_model_publications s))"
      using models ps published(2,5) by (simp add: models_inv_def rows_ok_insert)
    with inv published(8) publication_events_ok [OF published(3)] show ?thesis
      by (simp add: store_inv_def push_events_def outbox_inv_def audit_inv_def)
  qed
qed

subsection \<open>Grants\<close>

lemma save_grant_cases:
  assumes "save_governed_scan_grant E g s = (r, s')"
  obtains (refused) e where "r = Err e" "s' = s"
  | (repeated) g' where "r = Ok g'" "s' = s" "has_same_stable_evidence g' g"
      "bt_get (ms_governed_scan_grants s) (gp_grant_id (gg_proof g)) = Some g'"
  | (saved) "r = Ok g" "grant_validate E g = Ok ()"
      "bt_get (ms_governed_scan_grants s) (gp_grant_id (gg_proof g)) = None"
      "s' = s\<lparr>ms_governed_scan_grants := bt_insert (gp_grant_id (gg_proof g)) g (ms_governed_scan_grants s)\<rparr>"
proof (cases "grant_validate E g")
  case (Inl e)
  with assms refused show ?thesis by (auto simp: save_governed_scan_grant_def)
next
  case valid: (Inr u)
  show ?thesis
  proof (cases "bt_get (ms_governed_scan_grants s) (gp_grant_id (gg_proof g))")
    case None
    with assms valid saved show ?thesis by (auto simp: save_governed_scan_grant_def)
  next
    case (Some g')
    with assms valid refused repeated [of g'] show ?thesis
      by (cases "has_same_stable_evidence g' g") (auto simp: save_governed_scan_grant_def)
  qed
qed

lemma save_grant_inv:
  assumes inv: "store_inv E s" and op: "save_governed_scan_grant E g s = (r, s')"
  shows "store_inv E s'"
  using op
proof (cases rule: save_grant_cases)
  case saved
  then have "grants_inv E (ms_governed_scan_grants s')"
    using store_invD(11) [OF inv] by (simp add: grants_inv_def rows_ok_insert)
  with inv saved(4) show ?thesis by (simp add: store_inv_def)
qed (use inv in auto)

subsection \<open>Audit events\<close>

lemma validate_recordable_ok:
  "validate_recordable E ev = Ok () \<Longrightarrow>
     \<not> blank (ae_event_type ev) \<and> hashed_audit_event E ev"
  by (auto simp: validate_recordable_def and_then_ok ok_or_ok hashed_audit_event_def split: if_splits)

lemma record_audit_event_ok:
  assumes "record_audit_event E ev s = (Ok u, s')"
  obtains i outbox where "validate_recordable E ev = Ok ()"
    "outbox_event_from_payload E (audit_outbox_payload i ev) (ae_created_at ev) = Ok outbox"
    "\<forall>e \<in> set (ms_outbox_events s). oe_event_id e \<noteq> oe_event_id outbox" "s' = push_events ev outbox s"
  using assms by (auto simp: record_audit_event_def qmark_ok list_ex_iff split: if_split_asm)

lemma record_audit_event_err: "record_audit_event E ev s = (Err e, s') \<Longrightarrow> s' = s"
  by (auto simp: record_audit_event_def qmark_err split: if_splits)

lemma audit_outbox_type: "jget (audit_outbox_payload i ev) ''event-type'' = Some (JStr (ae_event_type ev))"
  by (cases "ae_table ev") (simp_all add: audit_outbox_payload_def)

lemma record_audit_event_inv:
  assumes inv: "store_inv E s" and op: "record_audit_event E ev s = (r, s')"
  shows "store_inv E s'"
proof (cases r)
  case (Inl e)
  with op inv show ?thesis by (auto dest: record_audit_event_err)
next
  case (Inr u)
  with op have "record_audit_event E ev s = (Ok u, s')" by simp
  then obtain i outbox where ok: "validate_recordable E ev = Ok ()"
    "outbox_event_from_payload E (audit_outbox_payload i ev) (ae_created_at ev) = Ok outbox"
    "s' = push_events ev outbox s" by (rule record_audit_event_ok)
  have "well_formed_event E outbox"
    using outbox_event_from_payload_well_formed [OF ok(2) audit_outbox_type] validate_recordable_ok [OF ok(1)]
    by simp
  with inv ok(3) validate_recordable_ok [OF ok(1)] show ?thesis
    by (simp add: store_inv_def push_events_def outbox_inv_def audit_inv_def)
qed

subsection \<open>The outbox as a queue\<close>

locale event_queue =
  fixes events :: "'s \<Rightarrow> 'ev list"
    and ident :: "'ev \<Rightarrow> 'id"
    and pending :: "'ev \<Rightarrow> bool"
    and ack :: "'a \<Rightarrow> 's \<Rightarrow> ('e + nat) \<times> 's"
    and names :: "'a \<Rightarrow> 'id set"
  assumes ack_refused: "ack a s = (Inl e, s') \<Longrightarrow> s' = s"
    and ack_count: "ack a s = (Inr n, s') \<Longrightarrow>
      n = length (filter (\<lambda>e. pending e \<and> ident e \<in> names a) (events s))"
    and ack_idents: "ack a s = (Inr n, s') \<Longrightarrow> map ident (events s') = map ident (events s)"
    and ack_pending: "ack a s = (Inr n, s') \<Longrightarrow>
      map pending (events s') = map (\<lambda>e. pending e \<and> ident e \<notin> names a) (events s)"
begin

definition waiting :: "'s \<Rightarrow> 'id list" where
  "waiting s = map ident (filter pending (events s))"

lemma waiting_map: "map ident (filter P xs) = map fst (filter snd (zip (map ident xs) (map P xs)))"
  by (induction xs) auto

text \<open>Acknowledging takes exactly the named events off the queue and keeps the order of the rest.\<close>

lemma waiting_ack:
  assumes "ack a s = (Inr n, s')"
  shows "waiting s' = filter (\<lambda>i. i \<notin> names a) (waiting s)"
proof -
  have "waiting s' = map ident (filter (\<lambda>e. pending e \<and> ident e \<notin> names a) (events s))"
    unfolding waiting_def waiting_map by (simp add: ack_idents [OF assms] ack_pending [OF assms])
  also have "\<dots> = filter (\<lambda>i. i \<notin> names a) (waiting s)"
    by (simp add: waiting_def filter_map comp_def conj_commute)
  finally show ?thesis .
qed

lemma ack_conserves: "ack a s = (Inr n, s') \<Longrightarrow> length (waiting s) = n + length (waiting s')"
proof -
  assume ack: "ack a s = (Inr n, s')"
  have "n = length (filter (\<lambda>i. i \<in> names a) (waiting s))"
    by (simp add: ack_count [OF ack] waiting_def filter_map comp_def conj_commute)
  with sum_length_filter_compl [of "\<lambda>i. i \<in> names a" "waiting s"] show ?thesis
    by (simp add: waiting_ack [OF ack])
qed

lemma ack_twice:
  assumes "ack a s = (Inr n, s')" "ack b s' = (Inr m, s'')" "names b \<subseteq> names a"
  shows "m = 0" "waiting s'' = waiting s'"
proof -
  have "filter (\<lambda>i. i \<notin> names b) (waiting s') = waiting s'"
    using assms(3) by (intro filter_True) (auto simp: waiting_ack [OF assms(1)])
  then show "waiting s'' = waiting s'"
    by (simp add: waiting_ack [OF assms(2)])
  with ack_conserves [OF assms(2)] show "m = 0" by simp
qed

end

lemma deliver_loop_eq:
  "deliver_loop now ids n evs =
     (n + length (filter (to_deliver ids) evs),
      map (\<lambda>ev. if to_deliver ids ev then ev\<lparr>oe_delivered_at := Some now\<rparr> else ev) evs)"
  by (induction now ids n evs rule: deliver_loop.induct) (auto simp: Let_def)

text \<open>An acknowledgement is a time and the ids of the delivered events.\<close>

definition acknowledge :: "env \<Rightarrow> int \<times> string list \<Rightarrow> nat store_op" where
  "acknowledge E a = mark_outbox_delivered E (fst a) (snd a)"

definition undelivered :: "OutboxEvent \<Rightarrow> bool" where
  "undelivered ev \<longleftrightarrow> oe_delivered_at ev = None"

lemma mark_outbox_delivered_err: "mark_outbox_delivered E now ids s = (Err e, s') \<Longrightarrow> s' = s"
  by (auto simp: mark_outbox_delivered_def qmark_err deliver_loop_eq split: if_splits)

lemma mark_outbox_delivered_ok:
  assumes "mark_outbox_delivered E now ids s = (Ok n, s')"
  shows "n = length (filter (to_deliver ids) (ms_outbox_events s))"
    "s' = s\<lparr>ms_outbox_events := map (\<lambda>ev. if to_deliver ids ev then ev\<lparr>oe_delivered_at := Some now\<rparr> else ev)
                                  (ms_outbox_events s)\<rparr>"
  using assms
  by (auto simp: mark_outbox_delivered_def qmark_ok deliver_loop_eq to_deliver_def split: if_splits)

interpretation outbox: event_queue ms_outbox_events oe_event_id undelivered "acknowledge E" "\<lambda>a. set (snd a)"
  for E
proof
  fix a s n s'
  assume "acknowledge E a s = (Ok n, s')"
  then have ok: "mark_outbox_delivered E (fst a) (snd a) s = (Ok n, s')" by (simp add: acknowledge_def)
  show "n = length (filter (\<lambda>e. undelivered e \<and> oe_event_id e \<in> set (snd a)) (ms_outbox_events s))"
    "map oe_event_id (ms_outbox_events s') = map oe_event_id (ms_outbox_events s)"
    "map undelivered (ms_outbox_events s') =
       map (\<lambda>e. undelivered e \<and> oe_event_id e \<notin> set (snd a)) (ms_outbox_events s)"
    using mark_outbox_delivered_ok [OF ok]
    by (auto simp: to_deliver_def undelivered_def intro!: arg_cong [where f = length] filter_cong)
next
  fix a s e s'
  assume "acknowledge E a s = (Err e, s')"
  then show "s' = s" by (auto simp: acknowledge_def dest: mark_outbox_delivered_err)
qed

lemma well_formed_delivered: "well_formed_event E (ev\<lparr>oe_delivered_at := d\<rparr>) = well_formed_event E ev"
  by (simp add: well_formed_event_def)

lemma mark_outbox_delivered_inv:
  assumes inv: "store_inv E s" and op: "mark_outbox_delivered E now ids s = (r, s')"
  shows "store_inv E s'"
proof (cases r)
  case (Inl e)
  with op inv show ?thesis by (auto dest: mark_outbox_delivered_err)
next
  case (Inr n)
  with op inv show ?thesis
    by (auto simp: store_inv_def outbox_inv_def list_all_iff well_formed_delivered
        dest!: mark_outbox_delivered_ok(2))
qed

text \<open>Under the invariant reading the outbox never fails.\<close>

definition due_events :: "MemoryState \<Rightarrow> string option \<Rightarrow> OutboxEvent list" where
  "due_events s sink =
     sort_key (\<lambda>ev. (oe_created_at ev, oe_event_id ev))
       (filter (\<lambda>ev. undelivered ev \<and> sink_matches sink ev) (ms_outbox_events s))"

lemma pending_outbox_events_eq:
  assumes "outbox_inv E (ms_outbox_events s)"
  shows "pending_outbox_events E s sink limit = Ok (take limit (due_events s sink))"
proof -
  have events: "take limit (sort_key (\<lambda>ev. (oe_created_at ev, oe_event_id ev))
      (filter (sink_matches sink) (filter (\<lambda>ev. oe_delivered_at ev = None) (ms_outbox_events s)))) =
      take limit (due_events s sink)"
    by (simp add: due_events_def undelivered_def conj_commute)
  have "validate_pending E ev = Ok ()" if "ev \<in> set (take limit (due_events s sink))" for ev
  proof -
    have "ev \<in> set (due_events s sink)" using that by (rule in_set_takeD)
    with assms show ?thesis
      by (auto simp: due_events_def undelivered_def validate_pending_ok outbox_inv_def list_all_iff)
  qed
  then have "check_all (validate_pending E) (take limit (due_events s sink)) = Ok ()"
    by (simp add: check_all_ok)
  then show ?thesis
    unfolding pending_outbox_events_def Let_def events by simp
qed

end
