(* ===== verification/CatalogMachine.thy ===== *)
theory CatalogMachine
  imports RenameLaws ViewLaws RegistryLaws OutboxLaws
begin

section \<open>The catalog as a state machine\<close>

text \<open>
  The mutating operations of the \<open>CatalogStore\<close> trait as one datatype of requests, their execution, and
  the states reachable from the empty store by requests whose times never decrease. A request is
  \<open>well_named\<close> when its identities satisfy what the constructors of the name types check. Every reachable
  state satisfies the catalog invariant and the chain invariant of the views.
\<close>

datatype request =
    CreateNamespace WarehouseName Namespace NamespaceProperties
  | UpdateNamespaceProperties WarehouseName Namespace NamespacePropertyUpdate
  | DropNamespace WarehouseName Namespace
  | CreateTable TableRecord
  | RenameTable TableIdent TableIdent Principal "json option"
  | CommitTable TableIdent TableCommit
  | SoftDeleteTable TableIdent Principal "json option"
  | RestoreTable TableIdent Principal "json option"
  | UpsertView ViewRecord "64 word option"
  | DropView WarehouseName Namespace TableName Principal "64 word option"
  | UpsertServer ServerRecord
  | UpsertProject ProjectRecord
  | UpsertWarehouse WarehouseRecord
  | UpsertStorageProfile StorageProfile
  | UpsertPolicyBinding PolicyBinding
  | PublishModel ModelPublication "64 word option"
  | SaveGovernedScanGrant GovernedScanGrant
  | RecordAuditEvent CatalogAuditEvent
  | MarkOutboxDelivered "string list"

fun well_named :: "request \<Rightarrow> bool" where
  "well_named (CreateTable t) = valid_ident (tr_ident t)"
| "well_named (RenameTable src dst p auth) = (valid_ident src \<and> valid_ident dst)"
| "well_named (CommitTable ident c) = valid_ident ident"
| "well_named (SoftDeleteTable ident p auth) = valid_ident ident"
| "well_named (RestoreTable ident p auth) = valid_ident ident"
| "well_named (UpsertView v expected) =
     (valid_name (vw_warehouse v) \<and> valid_namespace (vw_namespace v) \<and> valid_name (vw_name v))"
| "well_named (DropView w ns n p expected) = (valid_name w \<and> valid_namespace ns \<and> valid_name n)"
| "well_named _ = True"

definition discard :: "'a result \<times> MemoryState \<Rightarrow> unit result \<times> MemoryState" where
  "discard rs = (map_ok (\<lambda>_. ()) (fst rs), snd rs)"

fun exec :: "env \<Rightarrow> int \<Rightarrow> request \<Rightarrow> unit store_op" where
  "exec E now (CreateNamespace w ns ps) s = discard (create_namespace_with_properties w ns ps s)"
| "exec E now (UpdateNamespaceProperties w ns u) s = discard (update_namespace_properties w ns u s)"
| "exec E now (DropNamespace w ns) s = discard (drop_namespace E w ns s)"
| "exec E now (CreateTable t) s = discard (create_table t s)"
| "exec E now (RenameTable src dst p auth) s = discard (rename_table E now src dst p auth s)"
| "exec E now (CommitTable ident c) s = discard (commit_table E now ident c s)"
| "exec E now (SoftDeleteTable ident p auth) s = discard (soft_delete_table E now ident p auth s)"
| "exec E now (RestoreTable ident p auth) s = discard (restore_table E now ident p auth s)"
| "exec E now (UpsertView v expected) s = discard (upsert_view_if_version E now v expected s)"
| "exec E now (DropView w ns n p expected) s = discard (drop_view_if_version E now w ns n p expected s)"
| "exec E now (UpsertServer r) s = discard (upsert_server E r s)"
| "exec E now (UpsertProject r) s = discard (upsert_project E r s)"
| "exec E now (UpsertWarehouse r) s = discard (upsert_warehouse E r s)"
| "exec E now (UpsertStorageProfile r) s = discard (upsert_storage_profile E r s)"
| "exec E now (UpsertPolicyBinding r) s = discard (upsert_policy_binding E r s)"
| "exec E now (PublishModel m expected) s = discard (publish_model E now m expected s)"
| "exec E now (SaveGovernedScanGrant g) s = discard (save_governed_scan_grant E g s)"
| "exec E now (RecordAuditEvent ev) s = discard (record_audit_event E ev s)"
| "exec E now (MarkOutboxDelivered ids) s = discard (mark_outbox_delivered E now ids s)"

text \<open>A schedule: requests with the times they run at.\<close>

fun run_requests :: "env \<Rightarrow> (int \<times> request) list \<Rightarrow> MemoryState \<Rightarrow> unit result list \<times> MemoryState" where
  "run_requests E [] s = ([], s)"
| "run_requests E ((now, req) # reqs) s =
     (let (r, s1) = exec E now req s; (rs, s2) = run_requests E reqs s1 in (r # rs, s2))"

inductive reachable :: "env \<Rightarrow> int \<Rightarrow> MemoryState \<Rightarrow> bool" for E where
  init: "reachable E clock empty_state"
| step: "reachable E clock s \<Longrightarrow> clock \<le> now \<Longrightarrow> well_named req \<Longrightarrow> exec E now req s = (r, s') \<Longrightarrow>
     reachable E now s'"

inductive_cases reachableE: "reachable E clock s"

lemma discard_eq: "discard rs = (r, s') \<longleftrightarrow> (\<exists>x. rs = (x, s') \<and> r = map_ok (\<lambda>_. ()) x)"
  by (cases rs) (auto simp: discard_def)

lemma discard_err: "discard rs = (Err e, s') \<longleftrightarrow> rs = (Err e, s')"
  by (cases rs; cases "fst rs") (auto simp: discard_def)

subsection \<open>The invariants are inductive\<close>

lemmas op_invs = create_namespace_inv update_namespace_properties_inv drop_namespace_inv create_table_inv
  rename_table_inv commit_table_inv soft_delete_table_inv restore_table_inv upsert_view_if_version_inv
  drop_view_inv upsert_server_inv upsert_project_inv upsert_warehouse_inv upsert_storage_profile_inv
  upsert_policy_binding_inv publish_model_inv save_grant_inv record_audit_event_inv mark_outbox_delivered_inv

lemma exec_inv:
  "store_inv E s \<Longrightarrow> well_named req \<Longrightarrow> exec E now req s = (r, s') \<Longrightarrow> store_inv E s'"
  by (cases req) (auto simp: discard_eq intro: op_invs)

lemma reachable_inv: "reachable E clock s \<Longrightarrow> store_inv E s"
  by (induction rule: reachable.induct) (auto simp: store_inv_empty intro: exec_inv)

text \<open>Only the two view requests touch views and receipts.\<close>

fun view_request :: "request \<Rightarrow> bool" where
  "view_request (UpsertView v expected) = True"
| "view_request (DropView w ns n p expected) = True"
| "view_request _ = False"

definition view_fields :: "MemoryState \<Rightarrow> (string, ViewRecord) btree \<times> MemoryViewVersionReceipt list" where
  "view_fields s = (ms_views s, ms_view_version_receipts s)"

text \<open>
  What a request appends: as many audit events as outbox events, at most one of each, and nothing
  already there changes.
\<close>

definition appends :: "MemoryState \<Rightarrow> MemoryState \<Rightarrow> bool" where
  "appends s s' \<longleftrightarrow>
     (ms_audit_events s' = ms_audit_events s \<and> ms_outbox_events s' = ms_outbox_events s) \<or>
     (\<exists>a b. ms_audit_events s' = ms_audit_events s @ [a] \<and> ms_outbox_events s' = ms_outbox_events s @ [b])"

definition log_only :: "MemoryState \<Rightarrow> MemoryState \<Rightarrow> bool" where
  "log_only s s' \<longleftrightarrow> view_fields s' = view_fields s \<and> appends s s'"

lemma log_only_refl: "log_only s s"
  by (simp add: log_only_def appends_def)

lemma log_only_push:
  "view_fields s1 = view_fields s \<Longrightarrow> ms_audit_events s1 = ms_audit_events s \<Longrightarrow>
   ms_outbox_events s1 = ms_outbox_events s \<Longrightarrow> log_only s (push_events a b s1)"
  by (auto simp: log_only_def appends_def push_events_def view_fields_def)

lemma create_namespace_frame: "create_namespace_with_properties w ns ps s = (r, s') \<Longrightarrow> log_only s s'"
  by (auto simp: create_namespace_with_properties_def log_only_def appends_def view_fields_def Let_def split: if_splits)

lemma update_namespace_frame: "update_namespace_properties w ns u s = (r, s') \<Longrightarrow> log_only s s'"
  by (erule update_namespace_properties_cases) (auto simp: log_only_def appends_def view_fields_def)

lemma drop_namespace_frame: "drop_namespace E w ns s = (r, s') \<Longrightarrow> log_only s s'"
proof (cases r)
  case (Inr x)
  moreover assume "drop_namespace E w ns s = (r, s')"
  ultimately show ?thesis
    by (auto elim!: drop_namespace_ok simp: log_only_def appends_def view_fields_def)
qed (auto dest: drop_namespace_err simp: log_only_refl)

lemma create_table_frame: "create_table t s = (r, s') \<Longrightarrow> log_only s s'"
  by (erule create_table_cases) (auto simp: log_only_def appends_def view_fields_def)

lemma soft_delete_frame: "soft_delete_table E now ident p auth s = (r, s') \<Longrightarrow> log_only s s'"
proof (cases r)
  case (Inr x)
  moreover assume "soft_delete_table E now ident p auth s = (r, s')"
  ultimately show ?thesis
    by (auto elim!: soft_delete_table_ok intro!: log_only_push simp: view_fields_def)
qed (auto dest: soft_delete_table_err simp: log_only_refl)

lemma restore_frame: "restore_table E now ident p auth s = (r, s') \<Longrightarrow> log_only s s'"
proof (cases r)
  case (Inr x)
  moreover assume "restore_table E now ident p auth s = (r, s')"
  ultimately show ?thesis
    by (auto elim!: restore_table_ok intro!: log_only_push simp: view_fields_def)
qed (auto dest: restore_table_err simp: log_only_refl)

lemma rename_frame: "rename_table E now src dst p auth s = (r, s') \<Longrightarrow> log_only s s'"
proof (cases r)
  case (Inr x)
  moreover assume "rename_table E now src dst p auth s = (r, s')"
  ultimately have "rename_table E now src dst p auth s = (Ok x, s')" by simp
  then show ?thesis
    by (rule rename_table_ok)
      (simp add: log_only_def appends_def view_fields_def install_rename_fields install_rename_frame)
qed (auto dest: rename_table_err simp: log_only_refl)

lemma commit_frame: "commit_table E now ident c s = (r, s') \<Longrightarrow> log_only s s'"
proof (cases r)
  case (Inr x)
  moreover assume "commit_table E now ident c s = (r, s')"
  ultimately have "commit_table E now ident c s = (Ok x, s')" by simp
  then show ?thesis
    by (rule commit_table_ok)
      (auto simp: fresh_commit_ok log_only_def appends_def view_fields_def install_commit_fields
        install_commit_frame)
qed (auto dest: commit_table_err simp: log_only_refl)

lemma publish_frame: "publish_model E now m expected s = (r, s') \<Longrightarrow> log_only s s'"
proof (erule publish_model_cases)
  fix audit outbox ps
  assume "s' = push_events audit outbox (s\<lparr>ms_model_publications :=
      bt_insert (model_publication_key (mp_warehouse m) (mp_model_id m)) (ps @ [m]) (ms_model_publications s)\<rparr>)"
  then show "log_only s s'" by (auto intro: log_only_push simp: view_fields_def)
qed (auto simp: log_only_def appends_def view_fields_def)

lemma save_grant_frame: "save_governed_scan_grant E g s = (r, s') \<Longrightarrow> log_only s s'"
  by (erule save_grant_cases) (auto simp: log_only_def appends_def view_fields_def)

lemma record_audit_frame: "record_audit_event E ev s = (r, s') \<Longrightarrow> log_only s s'"
proof (cases r)
  case (Inr x)
  moreover assume "record_audit_event E ev s = (r, s')"
  ultimately show ?thesis
    by (auto elim!: record_audit_event_ok intro!: log_only_push)
qed (auto dest: record_audit_event_err simp: log_only_refl)

lemma upsert_frames:
  "upsert_server E r1 s = (x1, s') \<Longrightarrow> log_only s s'"
  "upsert_project E r2 s = (x2, s') \<Longrightarrow> log_only s s'"
  "upsert_warehouse E r3 s = (x3, s') \<Longrightarrow> log_only s s'"
  "upsert_storage_profile E r4 s = (x4, s') \<Longrightarrow> log_only s s'"
  "upsert_policy_binding E r5 s = (x5, s') \<Longrightarrow> log_only s s'"
  by (cases x1; cases x2; cases x3; cases x4; cases x5;
      auto simp: upsert_oks log_only_def appends_def view_fields_def dest!: upsert_errs)+

lemmas op_frames = create_namespace_frame update_namespace_frame drop_namespace_frame create_table_frame
  rename_frame commit_frame soft_delete_frame restore_frame upsert_frames publish_frame save_grant_frame
  record_audit_frame

lemma exec_frame:
  "exec E now req s = (r, s') \<Longrightarrow> \<not> view_request req \<Longrightarrow> (\<And>ids. req \<noteq> MarkOutboxDelivered ids) \<Longrightarrow> log_only s s'"
  by (cases req) (auto simp: discard_eq intro: op_frames)

subsection \<open>Receipt chains\<close>

lemma mark_views: "mark_outbox_delivered E now ids s = (r, s') \<Longrightarrow> view_fields s' = view_fields s"
  by (cases r) (auto simp: view_fields_def dest!: mark_outbox_delivered_err mark_outbox_delivered_ok(2))

lemma exec_view_fields:
  "exec E now req s = (r, s') \<Longrightarrow> \<not> view_request req \<Longrightarrow> view_fields s' = view_fields s"
  by (cases "\<exists>ids. req = MarkOutboxDelivered ids")
    (auto simp: discard_eq log_only_def dest: mark_views exec_frame)

lemma exec_chains:
  assumes E: "env_ok E" and inv: "chains_inv E clock (ms_views s) (ms_view_version_receipts s)"
    and now: "clock \<le> now" and req: "well_named req" and op: "exec E now req s = (r, s')"
  shows "chains_inv E now (ms_views s') (ms_view_version_receipts s')"
proof (cases "view_request req")
  case False
  with op have "view_fields s' = view_fields s" by (rule exec_view_fields)
  with inv now show ?thesis by (auto simp: view_fields_def intro: chains_inv_mono)
next
  case True
  with op req upsert_view_if_version_chains [OF E inv now] drop_view_chains [OF E inv now] show ?thesis
    by (cases req) (fastforce simp: discard_eq)+
qed

lemma chains_inv_empty: "chains_inv E clock (ms_views empty_state) (ms_view_version_receipts empty_state)"
  by (simp add: chains_inv_def empty_state_def)

lemma reachable_chains:
  "reachable E clock s \<Longrightarrow> env_ok E \<Longrightarrow> chains_inv E clock (ms_views s) (ms_view_version_receipts s)"
  by (induction rule: reachable.induct)
    (auto simp: chains_inv_empty intro: exec_chains)

subsection \<open>Failures\<close>

text \<open>Equality of two states up to the empty lists \<open>entry().or_default()\<close> leaves behind.\<close>

definition same_catalog :: "MemoryState \<Rightarrow> MemoryState \<Rightarrow> bool" where
  "same_catalog s s' \<longleftrightarrow>
     s'\<lparr>ms_model_publications := []\<rparr> = s\<lparr>ms_model_publications := []\<rparr> \<and>
     (\<forall>w i. model_publications s' w i = model_publications s w i)"

lemma same_catalog_refl: "same_catalog s s"
  by (simp add: same_catalog_def)

lemma publish_model_failed: "publish_model E now m expected s = (Err e, s') \<Longrightarrow> same_catalog s s'"
  using publish_model_err by (fastforce simp: same_catalog_def)

lemma create_namespace_failed:
  "namespaces_inv (ms_namespaces s) \<Longrightarrow> create_namespace_with_properties w ns ps s = (Err e, s') \<Longrightarrow> s' = s"
  by (erule create_namespace_cases) auto

lemma update_namespace_failed: "update_namespace_properties w ns u s = (Err e, s') \<Longrightarrow> s' = s"
  by (erule update_namespace_properties_cases) auto

lemma create_table_failed: "create_table t s = (Err e, s') \<Longrightarrow> s' = s"
  by (erule create_table_cases) auto

lemma save_grant_failed: "save_governed_scan_grant E g s = (Err e, s') \<Longrightarrow> s' = s"
  by (erule save_grant_cases) auto

lemmas op_failures = update_namespace_failed drop_namespace_err create_table_failed rename_table_err
  commit_table_err soft_delete_table_err restore_table_err upsert_view_if_version_err upsert_errs
  save_grant_failed record_audit_event_err mark_outbox_delivered_err

lemma exec_failed:
  assumes E: "env_ok E" and inv: "store_inv E s"
    and chains: "chains_inv E clock (ms_views s) (ms_view_version_receipts s)" and now: "clock \<le> now"
    and req: "well_named req" and op: "exec E now req s = (Err e, s')"
  shows "same_catalog s s'"
proof (cases "\<exists>m expected. req = PublishModel m expected")
  case True
  with op show ?thesis by (auto simp: discard_err dest: publish_model_failed)
next
  case False
  have "s' = s"
    using op False req create_namespace_failed [OF store_invD(1) [OF inv]] drop_view_chains [OF E chains now]
    by (cases req) (auto simp: discard_err dest: op_failures)
  then show ?thesis by (simp add: same_catalog_refl)
qed

subsection \<open>No event is lost\<close>

lemma upsert_view_outbox:
  "upsert_view_if_version E now v expected s = (r, s') \<Longrightarrow> ms_outbox_events s' = ms_outbox_events s"
proof (cases r)
  case (Inr v')
  moreover assume "upsert_view_if_version E now v expected s = (r, s')"
  ultimately have "install_view E now v s = (Ok v', s')"
    by (auto simp: upsert_view_if_version_def Let_def qmark_ok)
  from install_view_ok(6) [OF this] show ?thesis by (auto simp: push_receipt_def)
qed (auto dest: upsert_view_if_version_err)

lemma drop_view_outbox:
  "drop_view_if_version E now w ns n p expected s = (r, s') \<Longrightarrow> ms_outbox_events s' = ms_outbox_events s"
  by (erule drop_view_cases)
    (auto simp: remove_view_def Let_def qmark_def push_receipt_def split: sum.splits)

text \<open>An undelivered event stays in the outbox until a request names its id.\<close>

lemma exec_keeps_event:
  assumes op: "exec E now req s = (r, s')" and ev: "ev \<in> set (ms_outbox_events s)"
    and unnamed: "\<And>ids. req = MarkOutboxDelivered ids \<Longrightarrow> oe_event_id ev \<notin> set ids"
  shows "ev \<in> set (ms_outbox_events s')"
proof (cases "\<exists>ids. req = MarkOutboxDelivered ids")
  case True
  then obtain ids x where ids: "req = MarkOutboxDelivered ids" "mark_outbox_delivered E now ids s = (x, s')"
    using op by (auto simp: discard_eq)
  show ?thesis
  proof (cases x)
    case (Inl e)
    with ids(2) ev show ?thesis by (auto dest: mark_outbox_delivered_err)
  next
    case (Inr n)
    with ids(2) have s': "s' = s\<lparr>ms_outbox_events := map (\<lambda>ev. if to_deliver ids ev then ev\<lparr>oe_delivered_at := Some now\<rparr> else ev)
        (ms_outbox_events s)\<rparr>" by (auto dest: mark_outbox_delivered_ok(2))
    have "\<not> to_deliver ids ev"
      using unnamed [OF ids(1)] by (simp add: to_deliver_def)
    with ev show ?thesis by (force simp: s')
  qed
next
  case False
  show ?thesis
  proof (cases "view_request req")
    case True
    then have "ms_outbox_events s' = ms_outbox_events s"
      using op by (cases req) (auto simp: discard_eq dest: upsert_view_outbox drop_view_outbox)
    with ev show ?thesis by simp
  next
    case False
    with op \<open>\<not> (\<exists>ids. req = MarkOutboxDelivered ids)\<close> have "log_only s s'"
      by (blast dest: exec_frame)
    with ev show ?thesis by (auto simp: log_only_def appends_def)
  qed
qed

lemma run_keeps_event:
  "run_requests E reqs s = (rs, s') \<Longrightarrow> ev \<in> set (ms_outbox_events s) \<Longrightarrow>
   (\<And>now ids. (now, MarkOutboxDelivered ids) \<in> set reqs \<Longrightarrow> oe_event_id ev \<notin> set ids) \<Longrightarrow>
     ev \<in> set (ms_outbox_events s')"
proof (induction E reqs s arbitrary: rs rule: run_requests.induct)
  case (2 E now req reqs s)
  obtain r s1 rs2 where step: "exec E now req s = (r, s1)" "run_requests E reqs s1 = (rs2, s')"
    using 2(2) by (auto simp: Let_def split: prod.splits)
  have "ev \<in> set (ms_outbox_events s1)"
    using step(1) 2(3) by (rule exec_keeps_event) (use 2(4) in auto)
  with 2(1) [OF step(1) [symmetric] refl step(2)] 2(4) show ?case by auto
qed simp

end
