(* ===== verification/Demo.thy ===== *)
theory Demo
  imports CatalogMachine
begin

section \<open>A concrete catalog\<close>

text \<open>
  The state the closed instances of the catalog's properties start from: one namespace with one table,
  one commit with an idempotency key, one view, a server, a project and a warehouse, built by running
  requests from the empty store.
\<close>

definition demo_principal :: Principal where
  "demo_principal = \<lparr>pr_subject = ''ann'', pr_kind = Human\<rparr>"

definition demo_ident :: TableIdent where
  "demo_ident = \<lparr>ti_warehouse = ''wh'', ti_namespace = [''sales''], ti_name = ''orders''\<rparr>"

definition demo_renamed :: TableIdent where
  "demo_renamed = \<lparr>ti_warehouse = ''wh'', ti_namespace = [''sales''], ti_name = ''orders2''\<rparr>"

definition demo_table :: TableRecord where
  "demo_table =
     table_record_new 1 demo_ident ''s3://bucket/orders'' None
       (jobj [(''format-version'', JInt 2)]) demo_principal"

definition demo_commit :: TableCommit where
  "demo_commit =
     \<lparr>tc_requirements = [], tc_updates = [], tc_expected_previous_metadata_location = None,
      tc_new_metadata_location = Some ''s3://bucket/orders/m1.json'', tc_new_metadata = None,
      tc_idempotency_key = Some ''retry-1'', tc_idempotency_request_hash = None,
      tc_principal = demo_principal, tc_authorization_receipt = None\<rparr>"

definition demo_requests :: "(int \<times> request) list" where
  "demo_requests =
     [(1, CreateNamespace ''wh'' [''sales''] []), (2, CreateTable demo_table)]"

definition demo_state :: MemoryState where
  "demo_state = snd (run_requests demo_env demo_requests empty_state)"

lemma demo_requests_succeed: "list_all is_ok (fst (run_requests demo_env demo_requests empty_state))"
  by code_simp

lemma demo_commit_succeeds: "is_ok (fst (commit_table demo_env 3 demo_ident demo_commit demo_state))"
  by code_simp

lemma demo_valid: "valid_ident demo_ident" "valid_ident demo_renamed"
  by code_simp+

lemma is_okE:
  assumes "is_ok (fst op)"
  obtains a where "op = (Ok a, snd op)"
  using assms by (cases op; cases "fst op") auto

text \<open>A schedule whose times do not decrease keeps the state reachable.\<close>

lemma reachable_run:
  "reachable E clock s \<Longrightarrow> sorted (clock # map fst reqs) \<Longrightarrow> list_all (\<lambda>(now, req). well_named req) reqs \<Longrightarrow>
     reachable E (last (clock # map fst reqs)) (snd (run_requests E reqs s))"
proof (induction E reqs s arbitrary: clock rule: run_requests.induct)
  case (2 E now req reqs s)
  obtain r s1 where step: "exec E now req s = (r, s1)" by fastforce
  have "reachable E now s1"
    using 2(2-4) step by (auto intro: reachable.step)
  from 2(1) [OF step [symmetric] refl this] 2(3,4) show ?case
    by (simp add: step Let_def case_prod_beta)
qed simp

lemma demo_reachable: "reachable demo_env 2 demo_state"
proof -
  have "reachable demo_env (last (0 # map fst demo_requests)) (snd (run_requests demo_env demo_requests empty_state))"
    by (rule reachable_run [OF reachable.init]) (simp_all add: demo_requests_def demo_table_def table_record_new_def Let_def demo_valid)
  then show ?thesis by (simp add: demo_state_def demo_requests_def)
qed

lemma demo_inv: "store_inv demo_env demo_state"
  by (rule reachable_inv [OF demo_reachable])

lemma demo_loads: "\<exists>t. load_table demo_state demo_ident = Ok t"
proof -
  have "is_ok (load_table demo_state demo_ident)" by code_simp
  then show ?thesis by (auto simp: is_ok_def split: sum.splits)
qed

text \<open>The demo catalog after a soft delete of its table.\<close>

definition demo_deleted :: MemoryState where
  "demo_deleted = snd (soft_delete_table demo_env 3 demo_ident demo_principal None demo_state)"

lemma demo_soft_delete: "\<exists>t. soft_delete_table demo_env 3 demo_ident demo_principal None demo_state = (Ok t, demo_deleted)"
proof -
  have "is_ok (fst (soft_delete_table demo_env 3 demo_ident demo_principal None demo_state))"
    by code_simp
  then show ?thesis by (auto simp: demo_deleted_def elim: is_okE)
qed

lemma demo_deleted_reachable: "reachable demo_env 3 demo_deleted"
proof -
  have "exec demo_env 3 (SoftDeleteTable demo_ident demo_principal None) demo_state =
      (fst (discard (soft_delete_table demo_env 3 demo_ident demo_principal None demo_state)), demo_deleted)"
    by (simp add: discard_def demo_deleted_def)
  then show ?thesis
    by (rule reachable.step [OF demo_reachable, rotated 2]) (simp_all add: demo_valid)
qed

end
