(* ===== verification/CommitProperties.thy ===== *)
theory CommitProperties
  imports Demo
begin

section \<open>Properties of commits\<close>

text \<open>
  What a client of \<open>commit_table\<close> relies on: the effect of a success and its frame, failures without
  effect, progress of a valid commit, one linear history per table, retries that replay.
\<close>

subsection \<open>No panic\<close>

lemma no_panic_checks:
  "table_commit_validate c \<noteq> Err (Panicked m)"
  "content_hash_json E v \<noteq> Err (Panicked m)"
  "validate_sha256_evidence x msg \<noteq> Err (Panicked m)"
  "table_record_validate t \<noteq> Err (Panicked m)"
  by (auto simp: table_commit_validate_def and_then_err validate_idempotency_key_shape_def
      validate_idempotency_request_hash_shape_def Let_def validate_table_metadata_format_version_def
      content_hash_json_def validate_sha256_evidence_def table_record_validate_def
      split: if_split_asm option.split_asm sum.split_asm)

lemma no_panic_record: "commit_record_validate_for_table E r ident \<noteq> Err (Panicked m)"
proof -
  have loc: "validate_commit_record_metadata_location E l label \<noteq> Err (Panicked m)" for l label
    by (auto simp: validate_commit_record_metadata_location_def split: option.splits)
  have opt: "validate_sha256_option v msg \<noteq> Err (Panicked m)" for v msg
    using no_panic_checks(3) by (auto simp: validate_sha256_option_def split: option.splits)
  show ?thesis
    using loc opt no_panic_checks(3)
    by (auto simp: commit_record_validate_for_table_def and_then_err split: if_split_asm option.split_asm)
qed

lemma no_panic_replay: "commit_replay s ident c h \<noteq> Err (Panicked m)"
  using no_panic_checks(4)
  by (auto simp: commit_replay_def idempotent_response_def Let_def and_then_err idempotency_reuse_error_def
      validate_idempotency_record_table_key_def validate_idempotency_record_request_hash_def map_err_def
      validate_table_record_identity_def table_scope_error_def
      split: if_split_asm option.split_asm sum.split_asm)

lemma no_panic_events: "commit_events E ident c r \<noteq> Err (Panicked m)"
  using no_panic_checks(2)
  by (auto simp: commit_events_def Let_def and_then_err outbox_event_from_payload_def ok_or_def
      split: option.split_asm)

lemma no_panic_fresh:
  assumes "table_commit_validate c = Ok ()" "fresh_commit E now ident c h s = (Err e, s')"
  shows "e \<noteq> Panicked m"
  using assms(2) committed_table_no_panic [OF assms(1), of E now s ident h e m] no_panic_checks(2) no_panic_record no_panic_events
  by (auto simp: fresh_commit_def qmark_err commit_record_def and_then_err table_response_hash_def split: prod.splits)

subsection \<open>Progress\<close>

text \<open>A location a commit record may carry.\<close>

definition plain_location :: "env \<Rightarrow> string option \<Rightarrow> bool" where
  "plain_location E l \<longleftrightarrow>
     (case l of None \<Rightarrow> True
      | Some x \<Rightarrow> \<not> blank x \<and> \<not> location_has_query_fragment_or_userinfo E x \<and> \<not> embeds_raw_secret_material x)"

lemma plain_location_ok:
  "plain_location E l \<Longrightarrow> \<not> blank_opt l \<and> validate_commit_record_metadata_location E l label = Ok ()"
  by (auto simp: plain_location_def blank_opt_def validate_commit_record_metadata_location_def split: option.splits)

definition snapshot_id_of :: "json \<Rightarrow> int" where
  "snapshot_id_of metadata =
     (case Option.bind (jget metadata ''current-snapshot-id'') as_i64 of None \<Rightarrow> 0 | Some n \<Rightarrow> n)"

definition policy_hash_ok :: "json option \<Rightarrow> bool" where
  "policy_hash_ok receipt \<longleftrightarrow>
     (case table_commit_policy_hash receipt of None \<Rightarrow> True | Some h \<Rightarrow> sha256_shape h)"

lemma validate_sha256_option_ok:
  "validate_sha256_option v msg = Ok () \<longleftrightarrow> (case v of None \<Rightarrow> True | Some h \<Rightarrow> sha256_shape h)"
  by (auto simp: validate_sha256_option_def validate_sha256_ok split: option.splits)

lemma jget_jset_other: "jset v k x = Some w \<Longrightarrow> j \<noteq> k \<Longrightarrow> jget w j = jget v j"
  by (simp add: jget_jset)

lemma commit_record_valid:
  assumes E: "env_ok E" and valid: "table_record_validate t = Ok ()"
    and locations: "plain_location E prev" "plain_location E (tc_new_metadata_location c)"
    and version: "tr_version t \<noteq> 0" and snapshot: "-1 \<le> snapshot_id_of (tr_metadata t)"
    and policy: "policy_hash_ok (tc_authorization_receipt c)"
    and h: "sha256_shape h"
  shows "\<exists>r. commit_record E ident c prev t h = Ok r \<and> commit_record_validate_for_table E r ident = Ok ()"
proof -
  obtain rh where rh: "table_response_hash E t = Ok rh" "sha256_shape rh"
    using content_hash_json_total [OF E] content_hash_json_Ok [OF E] by (metis table_response_hash_def)
  obtain r where r: "commit_record E ident c prev t h = Ok r"
    using rh by (simp add: commit_record_def)
  obtain v where v: "table_commit_format_version t = Some v" "0 < v"
    using valid by (auto simp: table_record_validate_ok table_commit_format_version_def)
  have sid: "\<exists>n. table_commit_snapshot_id t = Some n \<and> 0 \<le> n"
    using snapshot by (auto simp: table_commit_snapshot_id_def normalize_table_commit_snapshot_id_def
        snapshot_id_of_def split: option.splits)
  have key: "sha256_shape x" if "map_option (content_hash_bytes E) (tc_idempotency_key c) = Some x" for x
    using that sha256_shape_evidence(2) [OF E] by auto
  have "commit_record_validate_for_table E r ident = Ok ()"
    using r rh(2) v sid h version policy plain_location_ok [OF locations(1)] plain_location_ok [OF locations(2)] key
    by (auto simp: commit_record_def rh(1) commit_record_validate_for_table_def and_then_ok validate_sha256_ok
        validate_sha256_option_ok policy_hash_ok_def split: option.splits)
  with r show ?thesis by blast
qed

lemma commit_events_total:
  assumes E: "env_ok E" shows "\<exists>ev. commit_events E ident c r = Ok ev"
proof -
  obtain h where h: "content_hash_json E (commit_audit_payload E ident c r) = Ok h"
    using content_hash_json_total [OF E] by blast
  have "jget (commit_outbox_payload E h ident r (commit_audit_payload E ident c r)) ''event-type'' =
      Some (JStr ''table.commit'')"
    by (simp add: commit_outbox_payload_def)
  then obtain ev where "outbox_event_from_payload E
      (commit_outbox_payload E h ident r (commit_audit_payload E ident c r)) (cr_committed_at r) = Ok ev"
    using outbox_event_from_payload_total [OF E] by blast
  then show ?thesis by (simp add: commit_events_def h Let_def)
qed

lemma fresh_commit_succeeds:
  assumes E: "env_ok E" and cur: "checked_table s ident = Ok current"
    and commit: "table_commit_validate c = Ok ()"
    and pointer: "tr_metadata_location current = tc_expected_previous_metadata_location c"
    and locations: "plain_location E (tr_metadata_location current)" "plain_location E (tc_new_metadata_location c)"
    and version: "tr_version current \<noteq> u64_max"
    and snapshot: "-1 \<le> snapshot_id_of (new_metadata c current)"
    and policy: "policy_hash_ok (tc_authorization_receipt c)" and h: "sha256_shape h"
  shows "\<exists>t s'. fresh_commit E now ident c h s = (Ok t, s')"
proof -
  have valid: "table_record_validate current = Ok ()"
    using cur by (simp add: checked_table_ok)
  let ?v = "ju64 (tr_version current + 1)"
  obtain m1 where m1: "jset (new_metadata c current) ''lakecat:version'' ?v = Some m1" "is_object m1"
    using jset_object [OF new_metadata_valid(1) [OF commit valid]] by blast
  obtain m2 where m2: "jset m1 ''lakecat:last-request-hash'' (JStr h) = Some m2"
    using jset_object [OF m1(2)] by blast
  define t where "t = current\<lparr>tr_metadata_location := tc_new_metadata_location c, tr_metadata := m2,
    tr_updated_at := now, tr_version := tr_version current + 1, tr_staged := False\<rparr>"
  have table: "committed_table E now s ident c h = Ok (tr_metadata_location current, t)"
    unfolding committed_table_ok using cur pointer m1(1) m2 t_def by blast
  have "tr_version t \<noteq> 0"
    using version by (simp add: t_def u64_max_def eq_neg_iff_add_eq_0)
  moreover have "snapshot_id_of (tr_metadata t) = snapshot_id_of (new_metadata c current)"
    using jget_jset_other [OF m2, of "''current-snapshot-id''"] jget_jset_other [OF m1(1), of "''current-snapshot-id''"]
    by (simp add: t_def snapshot_id_of_def)
  ultimately obtain r where r: "commit_record E ident c (tr_metadata_location current) t h = Ok r"
    "commit_record_validate_for_table E r ident = Ok ()"
    using commit_record_valid [OF E committed_table_valid(1) [OF commit table] locations _ _ policy h] snapshot
    by auto
  obtain a b where "commit_events E ident c r = Ok (a, b)"
    using commit_events_total [OF E] by fastforce
  with table r show ?thesis by (auto simp: fresh_commit_ok)
qed

subsection \<open>Properties\<close>

text \<open>
  A commit that fails leaves the catalog exactly as it was, and it never panics, whatever the
  commit carries: the check that metadata is an object comes before the code indexes into it.
\<close>

theorem commit_failure_atomic:
  assumes "commit_table E now ident c s = (Err e, s')"
  shows "s' = s \<and> (\<forall>m. e \<noteq> Panicked m)"
proof
  show "s' = s" using assms by (rule commit_table_err)
  show "\<forall>m. e \<noteq> Panicked m"
    using assms no_panic_checks no_panic_replay no_panic_fresh
    by (fastforce simp: commit_table_def qmark_err table_not_found_def split: if_split_asm option.split_asm)
qed

text \<open>
  C5: a successful commit is one of two things. Either it is a replay: the catalog is left exactly as it
  was and the answer is the row recorded under its idempotency key for the same request hash. Or it found
  the expected metadata pointer under a key not used before (or without a key), installs the new pointer
  and the next version on that table only, and appends exactly one commit record with that version, from
  the old pointer to the new one, one audit event and one outbox event; with a key it also records the
  answer under the key, with the request hash. Nothing else changes.
\<close>

theorem commit_effect:
  assumes "commit_table E now ident c s = (Ok t, s')"
  shows "(s' = s \<and> recorded_reply E ident c s t) \<or>
    (\<exists>current record audit outbox h.
     key_unused s ident c \<and> effective_request_hash E c = Ok h \<and>
     bt_get (ms_tables s) (table_key ident) = Some current \<and>
     tr_metadata_location current = tc_expected_previous_metadata_location c \<and>
     tr_metadata_location t = tc_new_metadata_location c \<and> tr_version t = tr_version current + 1 \<and>
     tr_version t \<noteq> 0 \<and> tr_ident t = ident \<and> tr_location t = tr_location current \<and>
     tr_updated_at t = now \<and> \<not> tr_staged t \<and>
     cr_table record = ident \<and> cr_sequence_number record = tr_version t \<and>
     cr_previous_metadata_location record = tr_metadata_location current \<and>
     cr_new_metadata_location record = tr_metadata_location t \<and> cr_principal record = tc_principal c \<and>
     validate_pending E outbox = Ok () \<and>
     s' = s\<lparr>ms_tables := bt_insert (table_key ident) t (ms_tables s),
            ms_commits := ms_commits s @ [\<lparr>mc_table_key = table_key ident, mc_record = record\<rparr>],
            ms_audit_events := ms_audit_events s @ [audit],
            ms_outbox_events := ms_outbox_events s @ [outbox],
            ms_idempotency := (case tc_idempotency_key c of
                None \<Rightarrow> ms_idempotency s
              | Some key \<Rightarrow> bt_insert (idempotency_key_for ident key)
                  \<lparr>ir_table_key = table_key ident, ir_request_hash = h, ir_response = t\<rparr> (ms_idempotency s))\<rparr>)"
  using assms
proof (cases rule: commit_table_success)
  case replay
  then show ?thesis by blast
next
  case (effect h)
  obtain prev rec audit outbox where ok: "committed_table E now s ident c h = Ok (prev, t)"
    "commit_record E ident c prev t h = Ok rec" "commit_record_validate_for_table E rec ident = Ok ()"
    "commit_events E ident c rec = Ok (audit, outbox)" "s' = install_commit ident c t rec audit outbox s"
    using effect(4) by (auto simp: fresh_commit_ok)
  obtain current where cur: "bt_get (ms_tables s) (table_key ident) = Some current"
    "prev = tr_metadata_location current" "prev = tc_expected_previous_metadata_location c"
    "tr_metadata_location t = tc_new_metadata_location c" "tr_version t = tr_version current + 1"
    "tr_updated_at t = now" "tr_ident t = ident" "\<not> tr_staged t" "tr_location t = tr_location current"
    using ok(1) by (rule committed_table_current)
  have "oe_delivered_at outbox = None"
    using ok(4) by (auto simp: commit_events_def Let_def and_then_ok outbox_event_from_payload_ok)
  then have pending: "validate_pending E outbox = Ok ()"
    using commit_events_ok(1) [OF ok(4)] by (simp add: validate_pending_ok)
  let ?h = "case tc_idempotency_request_hash c of Some h' \<Rightarrow> h' | None \<Rightarrow> h"
  have hash: "effective_request_hash E c = Ok ?h" by (rule effective_request_hash_eq [OF effect(3)])
  have "s' = s\<lparr>ms_tables := bt_insert (table_key ident) t (ms_tables s),
            ms_commits := ms_commits s @ [\<lparr>mc_table_key = table_key ident, mc_record = rec\<rparr>],
            ms_audit_events := ms_audit_events s @ [audit],
            ms_outbox_events := ms_outbox_events s @ [outbox],
            ms_idempotency := (case tc_idempotency_key c of
                None \<Rightarrow> ms_idempotency s
              | Some key \<Rightarrow> bt_insert (idempotency_key_for ident key)
                  \<lparr>ir_table_key = table_key ident, ir_request_hash = ?h, ir_response = t\<rparr> (ms_idempotency s))\<rparr>"
    using commit_record_ok [OF ok(2)]
    using ok(5) by (cases "tc_idempotency_key c"; cases "tc_idempotency_request_hash c")
      (simp_all add: install_commit_def push_events_def Let_def)
  then show ?thesis
    using cur effect(2) pending hash commit_record_ok [OF ok(2)] commit_record_validate_positive [OF ok(3)]
    by (intro disjI2 exI [of _ current] exI [of _ rec] exI [of _ audit] exI [of _ outbox] exI [of _ ?h])
      simp
qed

text \<open>The demo commits: with its key, without, and against a pointer that is not there.\<close>

definition demo_unkeyed :: TableCommit where
  "demo_unkeyed = demo_commit\<lparr>tc_idempotency_key := None\<rparr>"

definition demo_stale :: TableCommit where
  "demo_stale = demo_unkeyed\<lparr>tc_expected_previous_metadata_location := Some ''s3://bucket/orders/m0.json''\<rparr>"

lemma demo_commit_results:
  "\<exists>t s'. commit_table demo_env 3 demo_ident demo_unkeyed demo_state = (Ok t, s')"
  "\<exists>t s'. commit_table demo_env 3 demo_ident demo_commit demo_state = (Ok t, s')"
  "\<exists>e s'. commit_table demo_env 3 demo_ident demo_stale demo_state = (Err e, s')"
proof -
  have "is_ok (fst (commit_table demo_env 3 demo_ident demo_unkeyed demo_state))"
    "is_ok (fst (commit_table demo_env 3 demo_ident demo_commit demo_state))"
    "\<not> is_ok (fst (commit_table demo_env 3 demo_ident demo_stale demo_state))"
    by code_simp+
  then show "\<exists>t s'. commit_table demo_env 3 demo_ident demo_unkeyed demo_state = (Ok t, s')"
    "\<exists>t s'. commit_table demo_env 3 demo_ident demo_commit demo_state = (Ok t, s')"
    "\<exists>e s'. commit_table demo_env 3 demo_ident demo_stale demo_state = (Err e, s')"
    by (auto simp: is_ok_def split: sum.splits intro: surj_pair) (metis surjective_pairing)+
qed

theorem commit_failure_atomic_witness:
  "\<exists>e. commit_table demo_env 3 demo_ident demo_stale demo_state = (Err e, demo_state) \<and>
     (\<forall>m. e \<noteq> Panicked m)"
  using demo_commit_results(3) commit_failure_atomic by blast

theorem commit_effect_witness:
  "\<exists>t s'. commit_table demo_env 3 demo_ident demo_commit demo_state = (Ok t, s') \<and>
     tr_metadata_location t = Some ''s3://bucket/orders/m1.json'' \<and>
     length (ms_commits s') = length (ms_commits demo_state) + 1 \<and>
     map_option ir_response (bt_get (ms_idempotency s') (idempotency_key_for demo_ident ''retry-1'')) = Some t"
proof -
  obtain t s' where ok: "commit_table demo_env 3 demo_ident demo_commit demo_state = (Ok t, s')"
    using demo_commit_results(2) by blast
  have "bt_get (ms_idempotency demo_state) (idempotency_key_for demo_ident ''retry-1'') = None" by code_simp
  moreover have "tc_idempotency_key demo_commit = Some ''retry-1''"
    "tc_new_metadata_location demo_commit = Some ''s3://bucket/orders/m1.json''"
    by (simp_all add: demo_commit_def)
  ultimately have "\<not> recorded_reply demo_env demo_ident demo_commit demo_state t"
    "tc_idempotency_key demo_commit = Some ''retry-1''"
    "tc_new_metadata_location demo_commit = Some ''s3://bucket/orders/m1.json''"
    by (auto simp: recorded_reply_def)
  with commit_effect [OF ok] ok show ?thesis
    by (auto simp: bt_get_insert)
qed

text \<open>
  C6: progress. On a reachable state a commit to a visible table, without an idempotency key or with one
  not used for the table before, succeeds when it is well formed, names the current pointer, the current
  and the new location are plain (not blank, no query, fragment, user info or secret), the version is
  below the largest 64-bit number, the snapshot id of the new metadata is at least -1 and the policy hash
  of the receipt, if any, has the shape of a hash: nothing else can refuse it.
\<close>

theorem commit_progress:
  assumes "env_ok E" "reachable E clock s" "valid_ident ident"
    and "load_table s ident = Ok current"
    and "table_commit_validate c = Ok ()" "key_unused s ident c"
    and "tc_expected_previous_metadata_location c = tr_metadata_location current"
    and "plain_location E (tr_metadata_location current)" "plain_location E (tc_new_metadata_location c)"
    and "tr_version current \<noteq> u64_max" "-1 \<le> snapshot_id_of (new_metadata c current)"
    and "policy_hash_ok (tc_authorization_receipt c)"
  shows "\<exists>t s'. commit_table E now ident c s = (Ok t, s') \<and> tr_version t = tr_version current + 1"
proof -
  have visible: "\<not> bt_contains (ms_soft_deletes s) (table_key ident)" and cur: "checked_table s ident = Ok current"
    using assms(4) by (simp_all add: load_table_ok)
  obtain h where h: "content_hash_json E (commit_request_json c) = Ok h"
    using content_hash_json_total [OF assms(1)] by blast
  obtain t s' where fresh: "fresh_commit E now ident c h s = (Ok t, s')"
    using fresh_commit_succeeds [OF assms(1) cur assms(5) assms(7) [symmetric] assms(8-12)]
      content_hash_json_Ok [OF assms(1) h] by blast
  then obtain prev where "committed_table E now s ident c h = Ok (prev, t)" by (auto simp: fresh_commit_ok)
  then have "tr_version t = tr_version current + 1"
    using cur by (auto simp: committed_table_ok)
  moreover have "commit_table E now ident c s = (Ok t, s')"
    using assms(5,6) visible h fresh by (simp add: commit_table_def commit_replay_none [THEN iffD2])
  ultimately show ?thesis by blast
qed

lemma demo_table_loads: "\<exists>current. load_table demo_state demo_ident = Ok current \<and>
    tr_metadata_location current = None \<and> tr_version current = 0 \<and>
    snapshot_id_of (new_metadata demo_commit current) = 0"
proof -
  have "(case load_table demo_state demo_ident of Inl _ \<Rightarrow> False
      | Inr current \<Rightarrow> tr_metadata_location current = None \<and> tr_version current = 0 \<and>
          snapshot_id_of (new_metadata demo_commit current) = 0)"
    by code_simp
  then show ?thesis by (auto split: sum.splits)
qed

theorem commit_progress_witness:
  "\<exists>t s'. commit_table demo_env 3 demo_ident demo_commit demo_state = (Ok t, s') \<and> tr_version t = 1"
proof -
  obtain current where cur: "load_table demo_state demo_ident = Ok current"
    "tr_metadata_location current = None" "tr_version current = 0"
    "snapshot_id_of (new_metadata demo_commit current) = 0"
    using demo_table_loads by blast
  have "table_commit_validate demo_commit = Ok ()"
    "plain_location demo_env (tc_new_metadata_location demo_commit)"
    "key_unused demo_state demo_ident demo_commit"
    by code_simp+
  then show ?thesis
    using commit_progress [OF demo_env_ok demo_reachable demo_valid(1) cur(1), of demo_commit 3] cur(2-4)
    by (simp add: plain_location_def policy_hash_ok_def table_commit_policy_hash_def u64_max_def
        demo_commit_def)
qed

subsection \<open>Concurrent committers\<close>

text \<open>
  C2: any sequence of attempts on a table, with or without idempotency keys, makes one linear history.
  The attempts that take effect are chained: each one expected exactly the pointer its predecessor
  installed, the first one the pointer the table had, and the table ends with the pointer of the last
  one. The commit log of the table grows by exactly one record for each of them, in their order, with
  the pointers, the version, the principal and the key hash of that commit. An attempt that succeeds
  without taking effect is a replay of the row recorded under its key; one that fails leaves the catalog
  as it was.
\<close>

theorem commit_history_linear:
  assumes "run_swaps (commit_attempt E ident) attempts s = (steps, s')"
  shows "chained attempt_expects installs_pointer (table_pointer ident s) (effects unchanged_state steps)
       (table_pointer ident s') \<and>
     (\<exists>records. commit_log_of ident s' = commit_log_of ident s @ records \<and>
        list_all2 (\<lambda>(a, t) record. records_commit E ident a t record) (effects unchanged_state steps) records) \<and>
     (\<forall>(a, t, r, t') \<in> set steps.
        case r of Inl e \<Rightarrow> t' = t | Inr row \<Rightarrow> t' = t \<longrightarrow> recorded_reply E ident (snd a) t row)"
proof -
  have "list_all any_attempt attempts" by (simp add: list_all_iff any_attempt_def)
  from pointer.linear_history [OF this assms] pointer.log_of_run [OF this assms]
  show ?thesis using commit_run_step [OF assms] by blast
qed

text \<open>A commit with its key, its retry, and another one prepared against the same pointer.\<close>

definition demo_attempts :: "(int \<times> TableCommit) list" where
  "demo_attempts = [(3, demo_commit), (4, demo_commit), (5, demo_unkeyed)]"

theorem commit_history_linear_witness:
  "\<exists>steps s'. run_swaps (commit_attempt demo_env demo_ident) demo_attempts demo_state = (steps, s') \<and>
     chained attempt_expects installs_pointer (table_pointer demo_ident demo_state)
       (effects unchanged_state steps) (table_pointer demo_ident s')"
proof -
  obtain steps s' where run: "run_swaps (commit_attempt demo_env demo_ident) demo_attempts demo_state = (steps, s')"
    by fastforce
  from commit_history_linear [OF run] run show ?thesis by blast
qed

text \<open>
  C1: of any number of commits, with or without idempotency keys, prepared against the same metadata
  pointer, and each installing a pointer other than that one, at most one takes effect, so no update is
  lost. Every other attempt leaves the catalog as it was: it fails, or it is a replay that answers the
  row recorded under its key. (A commit that installs the pointer it expects may be followed by another:
  the swap compares pointers, not versions.)
\<close>

theorem commit_single_winner:
  assumes "\<forall>a \<in> set attempts. tc_expected_previous_metadata_location (snd a) = e \<and> tc_new_metadata_location (snd a) \<noteq> e"
    and "run_swaps (commit_attempt E ident) attempts s = (steps, s')"
  shows "length (effects unchanged_state steps) \<le> 1 \<and>
     (\<forall>(a, t, r, t') \<in> set steps.
        case r of Inl e \<Rightarrow> t' = t | Inr row \<Rightarrow> t' = t \<longrightarrow> recorded_reply E ident (snd a) t row)"
proof
  show "length (effects unchanged_state steps) \<le> 1"
  proof (rule pointer.single_winner [OF _ _ _ assms(2)])
    show "list_all any_attempt attempts" by (simp add: list_all_iff any_attempt_def)
    show "\<forall>a \<in> set attempts. attempt_expects a = Some e"
      using assms(1) by (simp add: attempt_expects_def)
    fix a t r t'
    assume a: "a \<in> set attempts" and "commit_attempt E ident a t = (Ok r, t')" "\<not> unchanged_state t t'"
    then obtain h where "fresh_commit E (fst a) ident (snd a) h t = (Ok r, t')"
      by (auto simp: unchanged_state_def elim: commit_attempt_effect)
    with a assms(1) show "installs_pointer r \<noteq> Some e"
      by (simp add: fresh_commit_swaps(3) installs_pointer_def)
  qed
  show "\<forall>(a, t, r, t') \<in> set steps.
      case r of Inl e \<Rightarrow> t' = t | Inr row \<Rightarrow> t' = t \<longrightarrow> recorded_reply E ident (snd a) t row"
    using commit_run_step [OF assms(2)] by blast
qed

theorem commit_single_winner_witness:
  "length (effects unchanged_state (fst (run_swaps (commit_attempt demo_env demo_ident) demo_attempts demo_state))) \<le> 1"
proof -
  have "\<forall>a \<in> set demo_attempts.
      tc_expected_previous_metadata_location (snd a) = None \<and> tc_new_metadata_location (snd a) \<noteq> None"
    by (simp add: demo_attempts_def demo_unkeyed_def demo_commit_def)
  from commit_single_winner [OF this prod.collapse [symmetric]] show ?thesis by blast
qed

subsection \<open>Retries\<close>

lemma idempotent_response_reused:
  assumes "idempotent_response s ident key h = Ok (Some t)" "h' \<noteq> h"
  shows "idempotent_response s ident key h' = Err (idempotency_reuse_error ident)"
proof -
  obtain row where row: "bt_get (ms_idempotency s) (idempotency_key_for ident key) = Some row"
    "ir_table_key row = table_key ident" "sha256_shape (ir_request_hash row)" "ir_request_hash row = h"
    using assms(1) unfolding idempotent_response_ok by blast
  have "validate_idempotency_record_table_key (ir_table_key row) ident = Ok ()"
    "validate_idempotency_record_request_hash (ir_request_hash row) = Ok ()"
    using row(2,3) by (simp_all add: other_scope_ok)
  with row(1,4) assms(2) show ?thesis by (simp add: idempotent_response_def)
qed

text \<open>After a keyed commit its key finds the response under the hash it was made with.\<close>

lemma keyed_commit_recorded:
  assumes "commit_table E now ident c s = (Ok t, s')" "tc_idempotency_key c = Some key"
  shows "\<exists>h. effective_request_hash E c = Ok h \<and> idempotent_response s' ident key h = Ok (Some t)"
    "\<not> bt_contains (ms_soft_deletes s') (table_key ident)" "table_commit_validate c = Ok ()"
proof -
  have "(\<exists>h. effective_request_hash E c = Ok h \<and> idempotent_response s' ident key h = Ok (Some t)) \<and>
      \<not> bt_contains (ms_soft_deletes s') (table_key ident) \<and> table_commit_validate c = Ok ()"
    using assms(1)
  proof (cases rule: commit_table_ok)
    case (replayed h)
    with assms(2) show ?thesis
      by (auto simp: commit_replay_def Let_def effective_request_hash_eq)
  next
    case (fresh h)
    obtain prev rec audit outbox where ok: "committed_table E now s ident c h = Ok (prev, t)"
      "commit_record E ident c prev t h = Ok rec" "commit_record_validate_for_table E rec ident = Ok ()"
      "s' = install_commit ident c t rec audit outbox s"
      using fresh(5) by (auto simp: fresh_commit_ok)
    have rec: "cr_request_hash rec = h" "sha256_shape h"
      using commit_record_ok [OF ok(2)] commit_record_validate_positive [OF ok(3)] by auto
    have "idempotent_response s' ident key (case tc_idempotency_request_hash c of Some h' \<Rightarrow> h' | None \<Rightarrow> h) = Ok (Some t)"
      using rec table_commit_validate_ok [OF fresh(1)] committed_table_valid [OF fresh(1) ok(1)] assms(2)
      by (auto simp: idempotent_response_ok ok(4) install_commit_fields bt_get_insert table_scope_ok
          split: option.splits)
    with fresh(1-3) show ?thesis
      by (auto simp: effective_request_hash_eq ok(4) install_commit_frame)
  qed
  then show "\<exists>h. effective_request_hash E c = Ok h \<and> idempotent_response s' ident key h = Ok (Some t)"
    "\<not> bt_contains (ms_soft_deletes s') (table_key ident)" "table_commit_validate c = Ok ()"
    by blast+
qed

text \<open>
  C7: repeating a successful commit with its idempotency key, at any later time, returns the same table
  and leaves the catalog unchanged: a retry is a replay, also after the pointer has moved on.
\<close>

theorem commit_retry_replays:
  assumes "commit_table E now ident c s = (Ok t, s')" and "tc_idempotency_key c = Some key"
    and "env_ok E"
  shows "commit_table E now' ident c s' = (Ok t, s')"
proof -
  obtain h where h: "content_hash_json E (commit_request_json c) = Ok h"
    using content_hash_json_total [OF assms(3)] by blast
  with keyed_commit_recorded [OF assms(1,2)] assms(2) have "commit_replay s' ident c h = Ok (Some t)"
    by (simp add: commit_replay_def Let_def effective_request_hash_eq)
  with h keyed_commit_recorded(2,3) [OF assms(1,2)] show ?thesis
    by (simp add: commit_table_def)
qed

theorem commit_retry_replays_witness:
  "\<exists>t s'. commit_table demo_env 3 demo_ident demo_commit demo_state = (Ok t, s') \<and>
     commit_table demo_env 9 demo_ident demo_commit s' = (Ok t, s')"
proof -
  obtain t s' where ok: "commit_table demo_env 3 demo_ident demo_commit demo_state = (Ok t, s')"
    using demo_commit_results(2) by blast
  have "tc_idempotency_key demo_commit = Some ''retry-1''"
    by (simp add: demo_commit_def)
  from commit_retry_replays [OF ok this demo_env_ok] ok show ?thesis by blast
qed

text \<open>
  C8: reusing an idempotency key for a commit with another request hash is refused with a conflict, and
  changes nothing.
\<close>

theorem commit_key_reuse_refused:
  assumes "commit_table E now ident c s = (Ok t, s')" and "tc_idempotency_key c = Some key"
    and "env_ok E" and "table_commit_validate c' = Ok ()" and "tc_idempotency_key c' = Some key"
    and "effective_request_hash E c' \<noteq> effective_request_hash E c"
  shows "commit_table E now' ident c' s' = (Err (idempotency_reuse_error ident), s')"
proof -
  obtain h' where h': "content_hash_json E (commit_request_json c') = Ok h'"
    using content_hash_json_total [OF assms(3)] by blast
  obtain h where "effective_request_hash E c = Ok h" "idempotent_response s' ident key h = Ok (Some t)"
    using keyed_commit_recorded(1) [OF assms(1,2)] by blast
  with assms(5,6) h' have "commit_replay s' ident c' h' = Err (idempotency_reuse_error ident)"
    by (simp add: commit_replay_def Let_def effective_request_hash_eq idempotent_response_reused)
  with h' assms(4) keyed_commit_recorded(2) [OF assms(1,2)] show ?thesis
    by (simp add: commit_table_def)
qed

definition demo_other :: TableCommit where
  "demo_other = demo_commit\<lparr>tc_idempotency_request_hash := Some (''sha256:'' @ replicate 64 (CHR ''1''))\<rparr>"

theorem commit_key_reuse_refused_witness:
  "\<exists>t s'. commit_table demo_env 3 demo_ident demo_commit demo_state = (Ok t, s') \<and>
     commit_table demo_env 4 demo_ident demo_other s' = (Err (idempotency_reuse_error demo_ident), s')"
proof -
  obtain t s' where ok: "commit_table demo_env 3 demo_ident demo_commit demo_state = (Ok t, s')"
    using demo_commit_results(2) by blast
  have "tc_idempotency_key demo_commit = Some ''retry-1''" "tc_idempotency_key demo_other = Some ''retry-1''"
    by (simp_all add: demo_other_def demo_commit_def)
  moreover have "table_commit_validate demo_other = Ok ()" by code_simp
  moreover have "effective_request_hash demo_env demo_other \<noteq> effective_request_hash demo_env demo_commit"
    by (simp add: effective_request_hash_def demo_hash demo_other_def demo_commit_def demo_digest_def)
  ultimately show ?thesis
    using commit_key_reuse_refused [OF ok _ demo_env_ok] ok by blast
qed

subsection \<open>The commit log\<close>

lemma commit_record_validate_table: "commit_record_validate_for_table E r ident = Ok () \<Longrightarrow> cr_table r = ident"
  by (auto simp: commit_record_validate_for_table_def split: if_split_asm)

text \<open>
  C4: in every reachable catalog the commit log of a table reads back completely and is linked: its
  sequence numbers are positive and consecutive up to the table's version, and each record starts from
  the metadata location the one before it installed, the last one having installed the table's.
\<close>

theorem commit_log_linked:
  assumes "reachable E clock s" "valid_ident ident"
    and "bt_get (ms_tables s) (table_key ident) = Some t"
  shows "\<exists>log. table_commit_records E s ident 0 None = Ok log \<and>
     linked_log (tr_metadata_location t) (tr_version t) (rev log) \<and>
     list_all (\<lambda>r. cr_table r = ident \<and> cr_sequence_number r \<noteq> 0) log"
proof -
  note inv = reachable_inv [OF assms(1)]
  have ident: "tr_ident t = ident"
    by (rule table_row_ident [OF store_invD(2) [OF inv] assms(3,2)])
  have row: "commit_record_validate_for_table E (mc_record c) ident = Ok ()"
    if "c \<in> set (ms_commits s)" "mc_table_key c = table_key ident" for c
    using that store_invD(4) [OF inv] assms(3) ident
    by (auto simp: commits_inv_def list_all_iff commit_row_def with_table_iff)
  have "table_commit_records E s ident 0 None = Ok (log_of (table_key ident) (ms_commits s))"
    using row
    by (auto simp: table_commit_records_def traverse_ok_iff log_of_def list_all2_map2 list_all2_same
        validate_table_commit_record_memory_scope_def)
  moreover have "linked_log (tr_metadata_location t) (tr_version t) (rev (log_of (table_key ident) (ms_commits s)))"
    by (rule commits_inv_logD [OF store_invD(2) [OF inv] store_invD(4) [OF inv] assms(3)])
  moreover have "list_all (\<lambda>r. cr_table r = ident \<and> cr_sequence_number r \<noteq> 0) (log_of (table_key ident) (ms_commits s))"
    using row commit_record_validate_positive commit_record_validate_table
    by (fastforce simp: list_all_iff log_of_def)
  ultimately show ?thesis by blast
qed

theorem commit_log_linked_witness:
  "\<exists>t log. bt_get (ms_tables demo_state) (table_key demo_ident) = Some t \<and>
     table_commit_records demo_env demo_state demo_ident 0 None = Ok log \<and>
     linked_log (tr_metadata_location t) (tr_version t) (rev log)"
proof -
  obtain t where t: "bt_get (ms_tables demo_state) (table_key demo_ident) = Some t"
    using demo_table_loads by (auto simp: load_table_ok checked_table_ok)
  from commit_log_linked [OF demo_reachable demo_valid(1) t] t show ?thesis by blast
qed

end
