(* ===== verification/TableProperties.thy ===== *)
theory TableProperties
  imports Demo
begin

section \<open>Properties of namespaces and tables\<close>

text \<open>
  Namespace properties, the guarded drop of a namespace, soft delete and restore, renaming, listing,
  and what the keys of rows and the storage profile of a location guarantee.
\<close>

subsection \<open>Namespace properties\<close>

lemma remove_properties_eq:
  "distinct keys \<Longrightarrow>
   remove_properties keys m removed missing =
     (fold bt_remove keys m, removed @ filter (bt_contains m) keys, missing @ filter (\<lambda>k. \<not> bt_contains m k) keys)"
proof (induction keys m removed missing rule: remove_properties.induct)
  case (2 key keys m removed missing)
  have "filter (bt_contains (bt_remove key m)) keys = filter (bt_contains m) keys"
    "filter (\<lambda>k. \<not> bt_contains (bt_remove key m) k) keys = filter (\<lambda>k. \<not> bt_contains m k) keys"
    using 2(3) by (auto intro!: filter_cong simp: bt_contains_remove)
  moreover have "\<not> bt_contains m key \<Longrightarrow> bt_remove key m = m"
    by (force simp: bt_remove_def bt_contains_iff intro!: filter_True)
  ultimately show ?case using 2 by simp
qed simp

lemma get_fold_remove: "bt_get (fold bt_remove keys m) k = (if k \<in> set keys then None else bt_get m k)"
  by (induction keys arbitrary: m) (auto simp: bt_get_remove)

text \<open>
  Applying a property update: a key in the updates gets its new value, a removed key is gone, every
  other key keeps its value; the result lists exactly the updated keys, the removed keys that were there
  and the removed keys that were not.
\<close>

theorem namespace_properties_apply_spec:
  assumes "namespace_property_update_new removals updates = Ok u" and "bt_wf updates"
    and "namespace_properties_apply properties u = (properties', result)"
  shows "(\<forall>k. bt_get properties' k =
       (case bt_get updates k of Some v \<Rightarrow> Some v
        | None \<Rightarrow> if k \<in> set removals then None else bt_get properties k)) \<and>
     nr_updated result = map fst updates \<and>
     nr_removed result = filter (bt_contains properties) (sort removals) \<and>
     nr_missing result = filter (\<lambda>k. \<not> bt_contains properties k) (sort removals)"
proof -
  have u: "u = \<lparr>nu_removals = sort (remdups removals), nu_updates = updates\<rparr>"
    and len: "length (sort (remdups removals)) = length removals"
    using assms(1) by (auto simp: namespace_property_update_new_def Let_def and_then_ok split: if_splits option.splits)
  have distinct: "distinct removals"
    using len by (simp add: length_remdups_eq)
  then have rem: "sort (remdups removals) = sort removals"
    by (simp add: distinct_remdups_id)
  have result: "properties' = bt_extend (fold bt_remove (sort removals) properties) updates"
    "result = \<lparr>nr_updated = map fst updates, nr_removed = filter (bt_contains properties) (sort removals),
       nr_missing = filter (\<lambda>k. \<not> bt_contains properties k) (sort removals)\<rparr>"
    using assms(3) distinct
    by (auto simp: namespace_properties_apply_def u rem remove_properties_eq)
  have "map_of (rev updates) = map_of updates"
    by (rule map_of_rev_distinct [OF bt_wf_distinct [OF assms(2)]])
  then show ?thesis
    by (auto simp: result bt_get_extend get_fold_remove map_add_def split: option.splits)
qed

theorem namespace_properties_apply_spec_witness:
  "bt_get (fst (namespace_properties_apply [(''a'', ''1''), (''b'', ''2'')]
      \<lparr>nu_removals = [''a''], nu_updates = [(''c'', ''3'')]\<rparr>)) ''b'' = Some ''2''"
proof -
  have "namespace_property_update_new [''a''] [(''c'', ''3'')] = Ok \<lparr>nu_removals = [''a''], nu_updates = [(''c'', ''3'')]\<rparr>"
    "bt_wf [(''c'', ''3'')]"
    by code_simp+
  from namespace_properties_apply_spec [OF this prod.collapse [symmetric]] show ?thesis
    by (simp add: map_of_Cons_code)
qed

subsection \<open>Dropping a namespace\<close>

text \<open>A soft-delete row belongs to the table stored under its key.\<close>

lemma deletes_invD:
  assumes "deletes_inv tables deletes" "bt_get deletes k = Some d"
  obtains t where "bt_get tables k = Some t" "soft_delete_validate_for_table d (tr_ident t) t = Ok ()"
    "sd_table d = tr_ident t"
  using rows_okD [OF assms(1) [unfolded deletes_inv_def] assms(2)]
  by (auto simp: with_table_iff soft_delete_validate_ok)

lemma check_soft_deletes_ok:
  assumes inv: "store_inv E s" and retired: "retire_tables (ms_soft_deletes s) w ns [] (ms_tables s) = Ok retired"
  shows "check_soft_deletes (ms_soft_deletes s) w ns retired = Ok ()"
proof -
  have wf: "bt_wf (ms_tables s)" "bt_wf (ms_soft_deletes s)"
    using store_invD(2,3) [OF inv] by (simp_all add: tables_inv_def deletes_inv_def rows_ok_def)
  have rows: "table_key (sd_table d) = k \<and> (in_namespace w ns (sd_table d) \<longrightarrow> k \<in> set retired)"
    if mem: "(k, d) \<in> set (ms_soft_deletes s)" for k d
  proof -
    obtain t where t: "bt_get (ms_tables s) k = Some t" "sd_table d = tr_ident t"
      using deletes_invD [OF store_invD(3) [OF inv]] mem wf(2) by (metis bt_wf_get_iff)
    with table_rowD(3) [OF store_invD(2) [OF inv] t(1)] retire_tables_ok [OF retired] wf(1) show ?thesis
      by (auto simp: bt_wf_get_iff)
  qed
  then show ?thesis
    by (fastforce simp: check_soft_deletes_def check_all_ok and_then_ok other_scope_ok in_namespace_def)
qed

lemma retire_tables_iff:
  assumes inv: "store_inv E s"
  shows "(\<exists>retired. retire_tables (ms_soft_deletes s) w ns [] (ms_tables s) = Ok retired) \<longleftrightarrow>
     (\<forall>k t. bt_get (ms_tables s) k = Some t \<and> in_namespace w ns (tr_ident t) \<longrightarrow> bt_contains (ms_soft_deletes s) k)"
proof
  have wf: "bt_wf (ms_tables s)"
    using store_invD(2) [OF inv] by (simp add: tables_inv_def rows_ok_def)
  assume "\<exists>retired. retire_tables (ms_soft_deletes s) w ns [] (ms_tables s) = Ok retired"
  then show "\<forall>k t. bt_get (ms_tables s) k = Some t \<and> in_namespace w ns (tr_ident t) \<longrightarrow> bt_contains (ms_soft_deletes s) k"
    using retire_tables_ok wf by (fastforce simp: bt_wf_get_iff)
next
  have wf: "bt_wf (ms_tables s)"
    using store_invD(2) [OF inv] by (simp add: tables_inv_def rows_ok_def)
  assume all: "\<forall>k t. bt_get (ms_tables s) k = Some t \<and> in_namespace w ns (tr_ident t) \<longrightarrow> bt_contains (ms_soft_deletes s) k"
  show "\<exists>retired. retire_tables (ms_soft_deletes s) w ns [] (ms_tables s) = Ok retired"
  proof (rule retire_tables_succeeds, safe)
    fix k t
    assume "(k, t) \<in> set (ms_tables s)"
    then have get: "bt_get (ms_tables s) k = Some t" by (simp add: bt_wf_get_iff [OF wf])
    note row = table_rowD [OF store_invD(2) [OF inv] get]
    show "validate_table_record_map_scope t k = Ok ()"
      using row by (simp add: table_scope_ok)
    assume "in_namespace w ns (tr_ident t)"
    with all get obtain d where d: "bt_get (ms_soft_deletes s) k = Some d"
      by (auto simp: bt_contains_def)
    then have valid: "soft_delete_validate_for_table d (tr_ident t) t = Ok ()" and "sd_table d = tr_ident t"
      using deletes_invD [OF store_invD(3) [OF inv] d] get by auto
    with row have "validate_soft_delete_record_map_scope d k = Ok ()"
      by (simp add: other_scope_ok)
    with d valid show "\<exists>d. bt_get (ms_soft_deletes s) k = Some d \<and>
        validate_soft_delete_record_map_scope d k = Ok () \<and> soft_delete_validate_for_table d (tr_ident t) t = Ok ()"
      by blast
  qed
qed

lemma check_views_iff:
  assumes "views_inv E (ms_views s)"
  shows "check_views_of_namespace E s w ns = Ok () \<longleftrightarrow>
     (\<forall>k v. bt_get (ms_views s) k = Some v \<longrightarrow> \<not> (vw_warehouse v = w \<and> vw_namespace v = ns))"
proof -
  have wf: "bt_wf (ms_views s)" using assms by (simp add: views_inv_def rows_ok_def)
  have "scoped_rows (validate_view_record_map_scope E) (ms_views s) = Ok (map snd (ms_views s))"
    using assms unfolding views_inv_def by (rule scoped_rows_inv) simp
  then show ?thesis
    by (force simp: check_views_of_namespace_def list_ex_iff bt_wf_get_iff [OF wf])
qed

lemma check_policies_iff:
  assumes "policies_inv E (ms_policy_bindings s)"
  shows "check_policies_of_namespace E s w ns = Ok () \<longleftrightarrow>
     (\<forall>k b. bt_get (ms_policy_bindings s) k = Some b \<longrightarrow> \<not> (pb_warehouse b = w \<and> pb_namespace b = Some ns))"
proof -
  have wf: "bt_wf (ms_policy_bindings s)" using assms by (simp add: policies_inv_def rows_ok_def)
  have "scoped_rows (validate_policy_binding_map_scope E) (ms_policy_bindings s) = Ok (map snd (ms_policy_bindings s))"
    using assms unfolding policies_inv_def by (rule scoped_rows_inv)
  then show ?thesis
    by (force simp: check_policies_of_namespace_def list_ex_iff bt_wf_get_iff [OF wf])
qed

text \<open>
  C34: in a reachable catalog a namespace can be dropped exactly when it exists, has no child
  namespace, all its tables are soft deleted, and no view or policy binding is left in it.
\<close>

theorem drop_namespace_guard:
  assumes "reachable E clock s"
  shows "(\<exists>s'. drop_namespace E w ns s = (Ok ns, s')) \<longleftrightarrow>
     has_namespace s w ns \<and> \<not> namespace_has_children s w ns \<and>
     (\<forall>k t. bt_get (ms_tables s) k = Some t \<and> in_namespace w ns (tr_ident t) \<longrightarrow>
        bt_contains (ms_soft_deletes s) k) \<and>
     (\<forall>k v. bt_get (ms_views s) k = Some v \<longrightarrow> \<not> (vw_warehouse v = w \<and> vw_namespace v = ns)) \<and>
     (\<forall>k b. bt_get (ms_policy_bindings s) k = Some b \<longrightarrow> \<not> (pb_warehouse b = w \<and> pb_namespace b = Some ns))"
    (is "?drop \<longleftrightarrow> ?guard")
proof
  note inv = reachable_inv [OF assms]
  show "?drop \<Longrightarrow> ?guard"
  proof (elim exE)
    fix s' assume "drop_namespace E w ns s = (Ok ns, s')"
    then show ?guard
    proof (rule drop_namespace_ok)
      fix retired nss
      assume ok: "bt_get (ms_namespaces s) w = Some nss" "bt_contains nss ns" "\<not> namespace_has_children s w ns"
        "retire_tables (ms_soft_deletes s) w ns [] (ms_tables s) = Ok retired"
        "check_views_of_namespace E s w ns = Ok ()" "check_policies_of_namespace E s w ns = Ok ()"
      have "has_namespace s w ns" using ok(1,2) by (simp add: ns_exists_def)
      moreover note ok(3) retire_tables_iff [OF inv, THEN iffD1, OF exI, OF ok(4)]
        check_views_iff [OF store_invD(9) [OF inv], THEN iffD1, OF ok(5)]
        check_policies_iff [OF store_invD(8) [OF inv], THEN iffD1, OF ok(6)]
      ultimately show ?guard by simp
    qed
  qed
  assume guard: ?guard
  then obtain retired where retired: "retire_tables (ms_soft_deletes s) w ns [] (ms_tables s) = Ok retired"
    using retire_tables_iff [OF inv] by blast
  have "\<exists>s'. remove_namespace w ns retired s = (Ok ns, s')"
    using guard by (auto simp: remove_namespace_def warehouse_namespaces_def ns_exists_def split: option.splits)
  moreover have "check_views_of_namespace E s w ns = Ok ()"
    using check_views_iff [OF store_invD(9) [OF inv]] guard by blast
  moreover have "check_policies_of_namespace E s w ns = Ok ()"
    using check_policies_iff [OF store_invD(8) [OF inv]] guard by blast
  ultimately show ?drop
    using guard retired check_soft_deletes_ok [OF inv retired] by (simp add: drop_namespace_def)
qed

theorem drop_namespace_guard_witness:
  "(\<exists>s'. drop_namespace demo_env ''wh'' [''sales''] demo_deleted = (Ok [''sales''], s')) \<and>
   \<not> (\<exists>s'. drop_namespace demo_env ''wh'' [''sales''] demo_state = (Ok [''sales''], s'))"
proof -
  have "is_ok (fst (drop_namespace demo_env ''wh'' [''sales''] demo_deleted))"
    by code_simp
  then obtain r s' where drop: "drop_namespace demo_env ''wh'' [''sales''] demo_deleted = (Ok r, s')"
    by (auto elim: is_okE)
  then have "r = [''sales'']" by (rule drop_namespace_ok) simp
  with drop have dropped: "\<exists>s'. drop_namespace demo_env ''wh'' [''sales''] demo_deleted = (Ok [''sales''], s')"
    by blast
  obtain t where "load_table demo_state demo_ident = Ok t"
    using demo_loads by blast
  then have "bt_get (ms_tables demo_state) (table_key demo_ident) = Some t" "tr_ident t = demo_ident"
    "\<not> bt_contains (ms_soft_deletes demo_state) (table_key demo_ident)"
    by (simp_all add: load_table_ok checked_table_ok)
  moreover have "in_namespace ''wh'' [''sales''] demo_ident"
    by (simp add: in_namespace_def demo_ident_def)
  ultimately have "\<not> (\<exists>s'. drop_namespace demo_env ''wh'' [''sales''] demo_state = (Ok [''sales''], s'))"
    using drop_namespace_guard [OF demo_reachable, of "''wh''" "[''sales'']"] by metis
  with dropped show ?thesis by blast
qed

subsection \<open>Soft delete and restore\<close>

lemma visible_table:
  assumes "store_inv E s" "load_table s ident = Ok t"
  shows "checked_table s ident = Ok t" "bt_get (ms_soft_deletes s) (table_key ident) = None"
    "bt_get (ms_tables s) (table_key ident) = Some t" "tr_ident t = ident" "table_record_validate t = Ok ()"
    "has_namespace s (ti_warehouse ident) (ti_namespace ident)"
  using assms table_rowD(4) [OF store_invD(2) [OF assms(1)]]
  by (auto simp: load_table_ok checked_table_ok bt_contains_def)

lemma load_deleted: "bt_contains (ms_soft_deletes s) (table_key ident) \<Longrightarrow> load_table s ident = Err (table_not_found ident)"
  by (simp add: load_table_def ok_or_def)

lemma deleted_event_total:
  assumes E: "env_ok E"
  obtains h outbox where "content_hash_json E (deleted_audit_payload E d ident) = Ok h"
    "outbox_event_from_payload E (deleted_outbox_payload h ident (deleted_audit_payload E d ident)) at = Ok outbox"
proof -
  obtain h where h: "content_hash_json E (deleted_audit_payload E d ident) = Ok h"
    using content_hash_json_total [OF E] by blast
  have "jget (deleted_outbox_payload h ident (deleted_audit_payload E d ident)) ''event-type'' =
      Some (JStr ''table.deleted'')"
    by (simp add: deleted_outbox_payload_def)
  with h outbox_event_from_payload_total [OF E] that show ?thesis by blast
qed

lemma restored_event_total:
  assumes E: "env_ok E"
  obtains h outbox where "content_hash_json E (restored_audit_payload ident t auth) = Ok h"
    "outbox_event_from_payload E (restored_outbox_payload h ident (restored_audit_payload ident t auth)) at = Ok outbox"
proof -
  obtain h where h: "content_hash_json E (restored_audit_payload ident t auth) = Ok h"
    using content_hash_json_total [OF E] by blast
  have "jget (restored_outbox_payload h ident (restored_audit_payload ident t auth)) ''event-type'' =
      Some (JStr ''table.restored'')"
    by (simp add: restored_outbox_payload_def)
  with h outbox_event_from_payload_total [OF E] that show ?thesis by blast
qed

lemma soft_delete_succeeds:
  assumes E: "env_ok E" and inv: "store_inv E s" and load: "load_table s ident = Ok t"
    and auth: "case auth of None \<Rightarrow> True | Some r \<Rightarrow> is_object r"
  obtains audit outbox where "soft_delete_table E now ident p auth s = (Ok t, push_events audit outbox
      (s\<lparr>ms_soft_deletes := bt_insert (table_key ident) (soft_delete_record now ident t p auth) (ms_soft_deletes s)\<rparr>))"
    "soft_delete_validate_for_table (soft_delete_record now ident t p auth) ident t = Ok ()"
proof -
  let ?d = "soft_delete_record now ident t p auth"
  note t = visible_table [OF inv load]
  have valid: "soft_delete_validate_for_table ?d ident t = Ok ()"
    using t(4,5) auth
    by (auto simp: soft_delete_validate_ok soft_delete_record_def table_record_validate_ok table_commit_format_version_def)
  obtain h outbox where ev: "content_hash_json E (deleted_audit_payload E ?d ident) = Ok h"
    "outbox_event_from_payload E (deleted_outbox_payload h ident (deleted_audit_payload E ?d ident)) (sd_deleted_at ?d) = Ok outbox"
    using deleted_event_total [OF E] by blast
  have "soft_delete_table E now ident p auth s = (Ok t, push_events
      (table_audit_event ''table.deleted'' ident (sd_principal ?d) h (deleted_audit_payload E ?d ident) (oe_created_at outbox))
      outbox (s\<lparr>ms_soft_deletes := bt_insert (table_key ident) ?d (ms_soft_deletes s)\<rparr>))"
    unfolding soft_delete_table_def Let_def using t(1,2,6) valid ev by (simp add: bt_contains_def)
  with valid that show ?thesis by blast
qed

lemma restore_succeeds:
  assumes E: "env_ok E" and ns: "has_namespace s (ti_warehouse ident) (ti_namespace ident)"
    and d: "bt_get (ms_soft_deletes s) (table_key ident) = Some d" and t: "checked_table s ident = Ok t"
    and valid: "soft_delete_validate_for_table d ident t = Ok ()" and d_ident: "sd_table d = ident"
  obtains audit outbox where "restore_table E now ident p auth s = (Ok t, push_events audit outbox
      (s\<lparr>ms_soft_deletes := bt_remove (table_key ident) (ms_soft_deletes s)\<rparr>))"
proof -
  obtain h outbox where ev: "content_hash_json E (restored_audit_payload ident t auth) = Ok h"
    "outbox_event_from_payload E (restored_outbox_payload h ident (restored_audit_payload ident t auth)) now = Ok outbox"
    using restored_event_total [OF E] by blast
  have scope: "validate_soft_delete_record_map_scope d (table_key ident) = Ok ()"
    by (simp add: other_scope_ok d_ident)
  have "restore_table E now ident p auth s = (Ok t, push_events
      (table_audit_event ''table.restored'' ident p h (restored_audit_payload ident t auth) now) outbox
      (s\<lparr>ms_soft_deletes := bt_remove (table_key ident) (ms_soft_deletes s)\<rparr>))"
    unfolding restore_table_def Let_def using ns d scope t valid ev by simp
  with that show ?thesis by blast
qed

lemma bt_remove_insert: "bt_wf m \<Longrightarrow> bt_get m k = None \<Longrightarrow> bt_remove k (bt_insert k v m) = m"
  by (rule bt_wf_ext) (auto simp: bt_wf_insert bt_wf_remove bt_get_insert bt_get_remove)

text \<open>
  C33: soft deleting a visible table succeeds and hides it from loads; restoring it afterwards
  succeeds with the same row, and the two together change nothing but append their two audit and two
  outbox events.
\<close>

theorem soft_delete_restore_roundtrip:
  assumes "env_ok E" "reachable E clock s" "load_table s ident = Ok t"
    and "case auth of None \<Rightarrow> True | Some r \<Rightarrow> is_object r"
  shows "\<exists>s1 s2 a1 o1 a2 o2. soft_delete_table E now ident p auth s = (Ok t, s1) \<and>
     load_table s1 ident = Err (table_not_found ident) \<and>
     restore_table E later ident q auth' s1 = (Ok t, s2) \<and> load_table s2 ident = Ok t \<and>
     s2 = s\<lparr>ms_audit_events := ms_audit_events s @ [a1, a2], ms_outbox_events := ms_outbox_events s @ [o1, o2]\<rparr>"
proof -
  note inv = reachable_inv [OF assms(2)]
  note t = visible_table [OF inv assms(3)]
  let ?d = "soft_delete_record now ident t p auth"
  obtain a1 o1 where del: "soft_delete_table E now ident p auth s = (Ok t, push_events a1 o1
      (s\<lparr>ms_soft_deletes := bt_insert (table_key ident) ?d (ms_soft_deletes s)\<rparr>))" (is "_ = (Ok t, ?s1)")
    "soft_delete_validate_for_table ?d ident t = Ok ()"
    using soft_delete_succeeds [OF assms(1) inv assms(3,4)] by blast
  have s1: "bt_get (ms_soft_deletes ?s1) (table_key ident) = Some ?d" "checked_table ?s1 ident = Ok t"
    "has_namespace ?s1 (ti_warehouse ident) (ti_namespace ident)"
    using t by (simp_all add: push_events_def bt_get_insert checked_table_ok)
  have d_ident: "sd_table ?d = ident" by (simp add: soft_delete_record_def)
  obtain a2 o2 where res: "restore_table E later ident q auth' ?s1 = (Ok t, push_events a2 o2
      (?s1\<lparr>ms_soft_deletes := bt_remove (table_key ident) (ms_soft_deletes ?s1)\<rparr>))"
    using restore_succeeds [OF assms(1) s1(3,1,2) del(2) d_ident] by blast
  have "bt_remove (table_key ident) (bt_insert (table_key ident) ?d (ms_soft_deletes s)) = ms_soft_deletes s"
    using store_invD(3) [OF inv] t(2) by (intro bt_remove_insert) (auto simp: deletes_inv_def rows_ok_wf)
  then have s2: "push_events a2 o2 (?s1\<lparr>ms_soft_deletes := bt_remove (table_key ident) (ms_soft_deletes ?s1)\<rparr>) =
      s\<lparr>ms_audit_events := ms_audit_events s @ [a1, a2], ms_outbox_events := ms_outbox_events s @ [o1, o2]\<rparr>"
    by (simp add: push_events_def)
  have "load_table ?s1 ident = Err (table_not_found ident)"
    using s1(1) by (simp add: load_deleted bt_contains_def)
  moreover have "load_table (s\<lparr>ms_audit_events := ms_audit_events s @ [a1, a2],
      ms_outbox_events := ms_outbox_events s @ [o1, o2]\<rparr>) ident = Ok t"
    using assms(3) by (simp add: load_table_ok checked_table_ok)
  ultimately show ?thesis
    using del(1) res unfolding s2 by blast
qed

theorem soft_delete_restore_roundtrip_witness:
  "\<exists>t s1. soft_delete_table demo_env 3 demo_ident demo_principal None demo_state = (Ok t, s1) \<and>
     (\<exists>s2. restore_table demo_env 4 demo_ident demo_principal None s1 = (Ok t, s2) \<and> load_table s2 demo_ident = Ok t)"
proof -
  obtain t where "load_table demo_state demo_ident = Ok t"
    using demo_loads by blast
  from soft_delete_restore_roundtrip [OF demo_env_ok demo_reachable this, of None 3 demo_principal 4 demo_principal None]
  show ?thesis by auto
qed

subsection \<open>Renaming\<close>

text \<open>
  A successful rename moves the row under the new identity in the same warehouse, keeps its
  location, metadata pointer and version, hands the commit log over with every entry retargeted, and
  leaves nothing under the old identity, neither row nor log nor idempotency rows. Policy bindings of
  the table follow it. Tables, logs and bindings of others stay, and one audit and one outbox event
  are appended.
\<close>

theorem rename_moves_table:
  assumes "reachable E clock s" "rename_table E now src dst p auth s = (Ok t, s')"
  shows "\<exists>source. load_table s src = Ok source \<and> t = source\<lparr>tr_ident := dst, tr_updated_at := now\<rparr> \<and>
     ti_warehouse src = ti_warehouse dst \<and> src \<noteq> dst \<and>
     load_table s' src = Err (table_not_found src) \<and> load_table s' dst = Ok t \<and>
     (\<forall>k. k \<noteq> table_key src \<longrightarrow> k \<noteq> table_key dst \<longrightarrow>
        bt_get (ms_tables s') k = bt_get (ms_tables s) k \<and>
        log_of k (ms_commits s') = log_of k (ms_commits s)) \<and>
     log_of (table_key dst) (ms_commits s') =
       map (\<lambda>r. r\<lparr>cr_table := dst\<rparr>) (log_of (table_key src) (ms_commits s)) \<and>
     log_of (table_key src) (ms_commits s') = [] \<and>
     (\<forall>k r. bt_get (ms_idempotency s') k = Some r \<longleftrightarrow>
        bt_get (ms_idempotency s) k = Some r \<and> ir_table_key r \<noteq> table_key src) \<and>
     (\<forall>k. bt_get (ms_policy_bindings s') k =
        map_option (\<lambda>b. if retargets src b then retargeted now dst b else b) (bt_get (ms_policy_bindings s) k)) \<and>
     (\<exists>audit. ms_audit_events s' = ms_audit_events s @ [audit]) \<and>
     (\<exists>outbox. ms_outbox_events s' = ms_outbox_events s @ [outbox])"
proof -
  note inv = reachable_inv [OF assms(1)]
  obtain source commits retired bindings audit outbox where
    ok: "ti_warehouse src = ti_warehouse dst" "rename_source s src dst = Ok source"
      "t = source\<lparr>tr_ident := dst, tr_updated_at := now\<rparr>" "table_record_validate t = Ok ()"
      "traverse (rename_commit E src dst) (ms_commits s) = Ok commits"
      "retired_idempotency src dst (ms_idempotency s) = Ok retired"
      "renamed_bindings E now src dst (ms_policy_bindings s) = Ok bindings"
    and s': "s' = install_rename src dst t commits retired bindings audit outbox s"
    using assms(2) by (rule rename_table_ok)
  have src: "checked_table s src = Ok source" "bt_get (ms_soft_deletes s) (table_key src) = None"
    and dst: "bt_get (ms_tables s) (table_key dst) = None" "bt_get (ms_soft_deletes s) (table_key dst) = None"
      "log_of (table_key dst) (ms_commits s) = []"
    using ok(2) by (simp_all add: rename_source_ok)
  have row: "bt_get (ms_tables s) (table_key src) = Some source"
    using src(1) by (simp add: checked_table_ok)
  with dst(1) have keys: "table_key src \<noteq> table_key dst" by auto
  note fields = install_rename_fields install_rename_frame
  have log: "log_of k (ms_commits s') =
      (if k = table_key src then []
       else if k = table_key dst then map (\<lambda>r. r\<lparr>cr_table := dst\<rparr>) (log_of (table_key src) (ms_commits s))
       else log_of k (ms_commits s))" for k
    using ok(5) unfolding s' fields traverse_ok_iff by (rule rename_log [OF _ keys dst(3)])
  have replays: "bt_get (ms_idempotency s') k = Some r \<longleftrightarrow>
      bt_get (ms_idempotency s) k = Some r \<and> ir_table_key r \<noteq> table_key src" for k r
  proof -
    have "set retired = {k. \<exists>r. (k, r) \<in> set (ms_idempotency s) \<and> ir_table_key r = table_key src}"
      using retired_idempotency_ok [OF ok(6)] by simp
    then have "k \<in> set retired \<longleftrightarrow> (\<exists>r. bt_get (ms_idempotency s) k = Some r \<and> ir_table_key r = table_key src)"
      by (simp add: bt_wf_get_iff [OF rows_ok_wf [OF store_invD(5) [OF inv, unfolded idempotency_inv_def]]])
    then show ?thesis by (auto simp: s' fields get_foldl_remove)
  qed
  show ?thesis
  proof (intro exI [of _ source] conjI allI impI)
    show "load_table s src = Ok source"
      using src by (simp add: load_table_ok bt_contains_def)
    show "load_table s' dst = Ok t"
      using ok(3,4) dst(2) by (simp add: load_table_ok s' fields bt_contains_def checked_table_ok bt_get_insert)
    show "load_table s' src = Err (table_not_found src)"
      using keys src(2) by (simp add: load_table_def s' fields bt_contains_def moved_table_get ok_or_def)
    show "bt_get (ms_policy_bindings s') k =
        map_option (\<lambda>b. if retargets src b then retargeted now dst b else b) (bt_get (ms_policy_bindings s) k)" for k
      using bindings_after_rename [OF rows_ok_wf [OF store_invD(8) [OF inv, unfolded policies_inv_def]] ok(7), of k]
      by (simp add: s' fields map_option_case)
    show "bt_get (ms_tables s') k = bt_get (ms_tables s) k" if "k \<noteq> table_key src" "k \<noteq> table_key dst" for k
      using that keys by (simp add: s' fields moved_table_get)
    show "log_of k (ms_commits s') = log_of k (ms_commits s)" if "k \<noteq> table_key src" "k \<noteq> table_key dst" for k
      using that by (simp add: log)
    show "\<exists>audit. ms_audit_events s' = ms_audit_events s @ [audit]"
      "\<exists>outbox. ms_outbox_events s' = ms_outbox_events s @ [outbox]"
      by (simp_all add: s' fields)
    show "src \<noteq> dst" using keys by blast
  qed (use keys ok(1,3) log replays in \<open>simp_all\<close>)
qed

theorem rename_moves_table_witness:
  "\<exists>t s'. rename_table demo_env 3 demo_ident demo_renamed demo_principal None demo_state = (Ok t, s') \<and>
     load_table s' demo_renamed = Ok t \<and> load_table s' demo_ident = Err (table_not_found demo_ident)"
proof -
  have "is_ok (fst (rename_table demo_env 3 demo_ident demo_renamed demo_principal None demo_state))"
    by code_simp
  then obtain t s' where ok: "rename_table demo_env 3 demo_ident demo_renamed demo_principal None demo_state = (Ok t, s')"
    by (rule is_okE)
  from rename_moves_table [OF demo_reachable this] ok show ?thesis by blast
qed

subsection \<open>Listing\<close>

text \<open>
  In a reachable catalog the listing of a warehouse never fails and lists exactly the tables of the
  warehouse that a load finds, each once.
\<close>

theorem list_tables_are_loadable:
  assumes "reachable E clock s"
  shows "\<exists>ts. list_tables s w = Ok ts \<and> distinct (map tr_ident ts) \<and>
     set ts = {t. \<exists>ident. valid_ident ident \<and> ti_warehouse ident = w \<and> load_table s ident = Ok t}"
proof -
  note inv = reachable_inv [OF assms]
  have rows: "rows_ok (table_row (ms_namespaces s)) (ms_tables s)"
    using store_invD(2) [OF inv] by (simp add: tables_inv_def)
  note wf = rows_ok_wf [OF rows]
  let ?ts = "filter (\<lambda>t. \<not> bt_contains (ms_soft_deletes s) (table_key (tr_ident t)))
      (filter (\<lambda>t. ti_warehouse (tr_ident t) = w) (map snd (ms_tables s)))"
  have "scoped_rows validate_table_record_map_scope (ms_tables s) = Ok (map snd (ms_tables s))"
    using rows by (rule scoped_rows_inv) (simp add: table_row_def table_scope_ok)
  then have list: "list_tables s w = Ok ?ts"
    by (simp add: list_tables_def)
  have member: "t \<in> set (map snd (ms_tables s)) \<longleftrightarrow>
      valid_ident (tr_ident t) \<and> bt_get (ms_tables s) (table_key (tr_ident t)) = Some t" for t
    using rows_ok_setD [OF rows] by (force simp: bt_wf_get_iff [OF wf] table_row_def)
  have "map table_key (map tr_ident (map snd (ms_tables s))) = map fst (ms_tables s)"
    using rows_ok_setD [OF rows] by (auto simp: table_row_def)
  then have "distinct (map tr_ident (map snd (ms_tables s)))"
    using bt_wf_distinct [OF wf] by (metis distinct_map)
  then have "distinct (map tr_ident ?ts)"
    by (intro distinct_map_filter)
  moreover have "set ?ts = {t. \<exists>ident. valid_ident ident \<and> ti_warehouse ident = w \<and> load_table s ident = Ok t}"
    using load_table_visible [OF inv] table_row_ident [OF store_invD(2) [OF inv]]
    by (auto simp: member bt_contains_def simp del: set_map)
  ultimately show ?thesis using list by blast
qed

theorem list_tables_are_loadable_witness:
  "\<exists>ts. list_tables demo_state ''wh'' = Ok ts \<and> distinct (map tr_ident ts)"
  using list_tables_are_loadable [OF demo_reachable, of "''wh''"] by blast

end
