(* ===== verification/RegistryProperties.thy ===== *)
theory RegistryProperties
  imports Demo
begin

section \<open>Properties of locations, keys and registries\<close>

text \<open>
  Which storage profile a table gets and what a stored profile promises about credentials; that a
  prefix matches at path boundaries only; which path segments are refused; what the row keys
  distinguish; that registry records are found again and refer to records that exist; which policy
  bindings apply to a table and that they follow it when it is renamed.
\<close>

subsection \<open>Path segments and prefixes\<close>

text \<open>
  The segments the locations, prefixes and secret references refuse are exactly the percent
  encodings, in any mixture of raw and escaped bytes, of one dot and of two dots.
\<close>

theorem dot_segment_iff_encodes_dots:
  "is_dot_path_segment s \<longleftrightarrow> percent_encodes s ''.'' \<or> percent_encodes s ''..''"
proof -
  have "percent_decode_loop s = t \<longleftrightarrow> percent_encodes s t" if "CHR ''%'' \<notin> set t" for t
    using that percent_decode_loop_encodes percent_decode_loop_no_percent [of s] by blast
  then show ?thesis by (simp add: is_dot_path_segment_loop)
qed

lemma matches_prefix_iff:
  "location_matches_storage_profile_prefix l p \<longleftrightarrow>
     (\<exists>rest. l = p @ rest \<and> (rest = [] \<or> ends_with_char p (CHR ''/'') \<or> hd rest = CHR ''/''))"
  unfolding location_matches_storage_profile_prefix_def strip_prefix_case starts_with_iff
  by (auto simp: neq_Nil_conv) (metis list.collapse)

lemma split_on_concat: "split_on c (a @ c # b) = split_on c a @ split_on c b"
  by (induction c a rule: split_on.induct) (auto split: list.splits)

lemma join_split: "join_with [c] (split_on c s) = s"
proof (induction c s rule: split_on.induct)
  case (2 c x s)
  obtain seg segs where "split_on c s = seg # segs"
    by (cases "split_on c s") auto
  with 2 show ?case by (cases segs) auto
qed simp

lemma join_append: "xs \<noteq> [] \<Longrightarrow> ys \<noteq> [] \<Longrightarrow> join_with sep (xs @ ys) = join_with sep xs @ sep @ join_with sep ys"
  by (induction sep xs rule: join_with.induct) (auto simp: neq_Nil_conv)

lemma split_prefix_iff:
  "(\<exists>more. more \<noteq> [] \<and> split_on c s = split_on c p @ more) \<longleftrightarrow> (\<exists>rest. s = p @ c # rest)"
proof
  assume "\<exists>more. more \<noteq> [] \<and> split_on c s = split_on c p @ more"
  then obtain more where "more \<noteq> []" "split_on c s = split_on c p @ more" by blast
  then show "\<exists>rest. s = p @ c # rest"
    using join_split [of c s] join_append [of "split_on c p" more "[c]"] join_split [of c p] by auto
qed (auto simp: split_on_concat)

text \<open>
  A prefix matches a location exactly when its path segments are the first segments of the
  location's, with something below them when the prefix ends with a slash. A prefix never matches a
  sibling whose name it only begins.
\<close>

theorem prefix_matches_by_segments:
  "location_matches_storage_profile_prefix l p \<longleftrightarrow>
     (if ends_with_char p (CHR ''/'')
      then \<exists>more. more \<noteq> [] \<and> split_on (CHR ''/'') l = split_on (CHR ''/'') (butlast p) @ more
      else \<exists>more. split_on (CHR ''/'') l = split_on (CHR ''/'') p @ more)"
proof (cases "ends_with_char p (CHR ''/'')")
  case True
  then have "p = butlast p @ [CHR ''/'']"
    by (metis ends_with_char_def append_butlast_last_id)
  then have "location_matches_storage_profile_prefix l p \<longleftrightarrow> (\<exists>rest. l = butlast p @ CHR ''/'' # rest)"
    using True unfolding matches_prefix_iff by (metis append.assoc append_Cons append_Nil)
  with True show ?thesis by (simp add: split_prefix_iff)
next
  case False
  have "(\<exists>more. split_on (CHR ''/'') l = split_on (CHR ''/'') p @ more) \<longleftrightarrow>
      split_on (CHR ''/'') l = split_on (CHR ''/'') p \<or>
      (\<exists>more. more \<noteq> [] \<and> split_on (CHR ''/'') l = split_on (CHR ''/'') p @ more)"
    by (metis append_Nil2)
  moreover have "split_on (CHR ''/'') l = split_on (CHR ''/'') p \<longleftrightarrow> l = p"
    by (metis join_split)
  ultimately show ?thesis
    using False unfolding matches_prefix_iff split_prefix_iff by (auto simp: neq_Nil_conv)
qed

subsection \<open>The storage profile of a table\<close>

lemma best_profile_loop_ok:
  "best_profile_loop E t best ps = Ok r \<Longrightarrow>
   (case r of None \<Rightarrow> best = None \<and> ps = []
    | Some p \<Rightarrow> (best = Some p \<or> p \<in> set ps) \<and>
        (\<forall>q. best = Some q \<or> q \<in> set ps \<longrightarrow> q = p \<or> length (sp_location_prefix q) < length (sp_location_prefix p)))"
proof (induction E t best ps rule: best_profile_loop.induct)
  case (2 E t best profile profiles)
  show ?case
  proof (cases best)
    case None
    with 2 show ?thesis by (auto split: option.splits)
  next
    case (Some current)
    with 2(4) have "length (sp_location_prefix profile) \<noteq> length (sp_location_prefix current)"
      by (auto split: if_splits)
    with 2 Some show ?thesis
      by (fastforce split: option.splits if_splits)
  qed
qed (auto split: option.splits)

lemma best_profile_loop_err:
  "best_profile_loop E t best ps = Err e \<Longrightarrow>
   \<exists>q r. (best = Some q \<or> q \<in> set ps) \<and> r \<in> set ps \<and>
     length (sp_location_prefix q) = length (sp_location_prefix r) \<and>
     (distinct (map f ps) \<and> (\<forall>b. best = Some b \<longrightarrow> f b \<notin> f ` set ps) \<longrightarrow> f q \<noteq> f r)"
proof (induction E t best ps rule: best_profile_loop.induct)
  case (2 E t best profile profiles)
  then show ?case
    by (cases best) (fastforce split: if_splits)+
qed simp

text \<open>The stored profiles of the table's warehouse whose prefix matches its location.\<close>

definition matching_profiles :: "MemoryState \<Rightarrow> TableRecord \<Rightarrow> StorageProfile set" where
  "matching_profiles s t =
     {p. \<exists>k. bt_get (ms_storage_profiles s) k = Some p \<and> sp_warehouse p = ti_warehouse (tr_ident t) \<and>
        location_matches_storage_profile_prefix (tr_location t) (sp_location_prefix p)}"

lemma candidates_set:
  "bt_wf (ms_storage_profiles s) \<Longrightarrow>
   set (storage_profile_candidates (map snd (ms_storage_profiles s)) t) = matching_profiles s t"
  by (force simp: storage_profile_candidates_def matching_profiles_def bt_wf_get_iff)

lemma same_length_prefixes:
  assumes "location_matches_storage_profile_prefix l p" "location_matches_storage_profile_prefix l q"
    and "length p = length q"
  shows "p = q"
  using assms by (auto simp: matches_prefix_iff)

lemma candidate_keys_distinct:
  assumes "profiles_inv E (ms_storage_profiles s)"
  shows "distinct (map profile_key (storage_profile_candidates (map snd (ms_storage_profiles s)) t))"
proof -
  have rows: "rows_ok (\<lambda>k r. validate_storage_profile_map_scope E r k = Ok ()) (ms_storage_profiles s)"
    using assms by (simp add: profiles_inv_def)
  then have "map profile_key (map snd (ms_storage_profiles s)) = map fst (ms_storage_profiles s)"
    using rows_ok_setD [OF rows] by (auto simp: profile_key_def other_scope_ok)
  then have "distinct (map profile_key (map snd (ms_storage_profiles s)))"
    using bt_wf_distinct [OF rows_ok_wf [OF rows]] by metis
  then show ?thesis
    unfolding storage_profile_candidates_def by (rule distinct_map_filter)
qed

lemma longest_match:
  assumes "reachable E clock s"
  shows "case storage_profile_for_table E s t of
     Inr p \<Rightarrow>
       (if matching_profiles s t = {} then p = storage_profile_inferred_for_table t
        else p \<in> matching_profiles s t \<and>
          (\<forall>q \<in> matching_profiles s t - {p}. length (sp_location_prefix q) < length (sp_location_prefix p)))
   | Inl e \<Rightarrow>
       \<exists>p \<in> matching_profiles s t. \<exists>q \<in> matching_profiles s t.
         sp_profile_id p \<noteq> sp_profile_id q \<and> sp_location_prefix p = sp_location_prefix q"
proof -
  have inv: "profiles_inv E (ms_storage_profiles s)"
    using store_invD(12) [OF reachable_inv [OF assms]] .
  then have wf: "bt_wf (ms_storage_profiles s)"
    by (simp add: profiles_inv_def rows_ok_wf)
  let ?ps = "storage_profile_candidates (map snd (ms_storage_profiles s)) t"
  note set = candidates_set [OF wf, of t]
  note eq = storage_profile_for_table_eq [OF inv, of t, unfolded storage_profile_match_def]
  show ?thesis
  proof (cases "best_profile_loop E t None ?ps")
    case (Inl e)
    then obtain q r where "q \<in> set ?ps" "r \<in> set ?ps" "profile_key q \<noteq> profile_key r"
      "length (sp_location_prefix q) = length (sp_location_prefix r)"
      using best_profile_loop_err [of E t None ?ps e profile_key] candidate_keys_distinct [OF inv] by auto
    then have qr: "q \<in> matching_profiles s t" "r \<in> matching_profiles s t" "profile_key q \<noteq> profile_key r"
      "length (sp_location_prefix q) = length (sp_location_prefix r)"
      by (simp_all add: set)
    then have "sp_location_prefix q = sp_location_prefix r" "sp_profile_id q \<noteq> sp_profile_id r"
      using same_length_prefixes by (auto simp: matching_profiles_def profile_key_def)
    with qr(1,2) show ?thesis by (auto simp: eq Inl)
  next
    case (Inr best)
    note best = best_profile_loop_ok [OF Inr]
    show ?thesis
    proof (cases best)
      case None
      with best have "matching_profiles s t = {}" by (simp add: set [symmetric])
      then show ?thesis by (simp add: eq Inr None)
    next
      case (Some p)
      with best have "p \<in> matching_profiles s t"
        "\<forall>q \<in> matching_profiles s t. q = p \<or> length (sp_location_prefix q) < length (sp_location_prefix p)"
        by (simp_all add: set [symmetric])
      then show ?thesis by (auto simp: eq Inr Some)
    qed
  qed
qed

text \<open>The demo catalog with a server, a project, a warehouse, and two nested storage profiles.\<close>

definition demo_profile :: "string \<Rightarrow> string \<Rightarrow> StorageProfile" where
  "demo_profile profile_id prefix =
     \<lparr>sp_profile_id = profile_id, sp_warehouse = ''wh'', sp_location_prefix = prefix, sp_provider = S3,
      sp_issuance_mode = GovernedReadRequired, sp_secret_ref = None, sp_public_config = []\<rparr>"

definition demo_server :: ServerRecord where
  "demo_server =
     \<lparr>sv_server_id = ''srv'', sv_display_name = None, sv_endpoint_url = Some ''https://h'', sv_properties = [],
      sv_created = audit_stamp_now 1 demo_principal, sv_updated_at = 1\<rparr>"

definition demo_project :: ProjectRecord where
  "demo_project =
     \<lparr>pj_project_id = ''prj'', pj_server_id = Some ''srv'', pj_display_name = None, pj_properties = [],
      pj_created = audit_stamp_now 1 demo_principal, pj_updated_at = 1\<rparr>"

definition demo_warehouse :: WarehouseRecord where
  "demo_warehouse =
     \<lparr>wr_warehouse = ''wh'', wr_project_id = ''prj'', wr_storage_root = Some ''s3://bucket'', wr_properties = [],
      wr_created = audit_stamp_now 1 demo_principal, wr_updated_at = 1\<rparr>"

definition registry_requests :: "(int \<times> request) list" where
  "registry_requests =
     [(3, UpsertServer demo_server), (3, UpsertProject demo_project), (3, UpsertWarehouse demo_warehouse),
      (3, UpsertStorageProfile (demo_profile ''all'' ''s3://bucket'')),
      (3, UpsertStorageProfile (demo_profile ''orders'' ''s3://bucket/orders/''))]"

definition registry_state :: MemoryState where
  "registry_state = empty_state
     \<lparr>ms_servers := [(''srv'', demo_server)], ms_projects := [(''prj'', demo_project)],
      ms_warehouses := [(''wh'', demo_warehouse)],
      ms_storage_profiles := [(''wh:all'', demo_profile ''all'' ''s3://bucket''),
                              (''wh:orders'', demo_profile ''orders'' ''s3://bucket/orders/'')]\<rparr>"

lemma registry_run: "run_requests demo_env registry_requests empty_state = (replicate 5 (Ok ()), registry_state)"
  by code_simp

lemma registry_reachable: "reachable demo_env 3 registry_state"
  using reachable_run [OF reachable.init, of 0 registry_requests demo_env]
  by (simp add: registry_run) (simp add: registry_requests_def)

definition registry_table :: TableRecord where
  "registry_table = demo_table\<lparr>tr_location := ''s3://bucket/orders/2024''\<rparr>"

lemma registry_profile:
  "\<exists>p. storage_profile_for_table demo_env registry_state registry_table = Ok p \<and> sp_profile_id p = ''orders''"
proof -
  have "(case storage_profile_for_table demo_env registry_state registry_table of
      Inl _ \<Rightarrow> False | Inr p \<Rightarrow> sp_profile_id p = ''orders'')"
    by code_simp
  then show ?thesis by (simp split: sum.splits)
qed

text \<open>
  C37: resolving the storage profile of a table yields the stored profile of its warehouse with the
  strictly longest matching prefix, or the inferred profile when none matches; it fails only when two
  different stored profiles have one and the same matching prefix.
\<close>

theorem storage_profile_is_longest_match:
  assumes "reachable E clock s"
  shows "case storage_profile_for_table E s t of
     Inr p \<Rightarrow>
       (if matching_profiles s t = {} then p = storage_profile_inferred_for_table t
        else p \<in> matching_profiles s t \<and>
          (\<forall>q \<in> matching_profiles s t - {p}. length (sp_location_prefix q) < length (sp_location_prefix p)))
   | Inl e \<Rightarrow>
       \<exists>p \<in> matching_profiles s t. \<exists>q \<in> matching_profiles s t.
         sp_profile_id p \<noteq> sp_profile_id q \<and> sp_location_prefix p = sp_location_prefix q"
  using assms by (rule longest_match)

theorem storage_profile_is_longest_match_witness:
  "\<exists>p. storage_profile_for_table demo_env registry_state registry_table = Ok p \<and> sp_profile_id p = ''orders'' \<and>
     (\<forall>q \<in> matching_profiles registry_state registry_table - {p}.
        length (sp_location_prefix q) < length (sp_location_prefix p))"
proof -
  obtain p where p: "storage_profile_for_table demo_env registry_state registry_table = Ok p" "sp_profile_id p = ''orders''"
    using registry_profile by blast
  with storage_profile_is_longest_match [OF registry_reachable, of registry_table] show ?thesis
    by (auto split: if_split_asm)
qed

text \<open>
  The profile resolved for a table belongs to its warehouse, covers its location and names the
  provider of its prefix; a secret reference comes with the short-lived mode only and with it always,
  for the object stores only, and what may be returned without a secret is local files only.
\<close>

theorem resolved_profile_is_safe:
  assumes "reachable E clock s" "storage_profile_for_table E s t = Ok p"
  shows "sp_warehouse p = ti_warehouse (tr_ident t) \<and>
     location_matches_storage_profile_prefix (tr_location t) (sp_location_prefix p) \<and>
     sp_provider p = storage_provider_from_location (sp_location_prefix p) \<and>
     (sp_secret_ref p \<noteq> None \<longleftrightarrow> sp_issuance_mode p = ShortLivedSecretRef) \<and>
     (sp_secret_ref p \<noteq> None \<longrightarrow> sp_provider p \<in> {S3, Gcs, Azure}) \<and>
     (can_return_public_credential p \<longrightarrow> sp_provider p = File \<and> sp_secret_ref p = None)"
proof (cases "matching_profiles s t = {}")
  case True
  then have "p = storage_profile_inferred_for_table t"
    using longest_match [OF assms(1), of t] assms(2) by simp
  then show ?thesis
    by (auto simp: storage_profile_inferred_for_table_def Let_def can_return_public_credential_def
        location_matches_storage_profile_prefix_def)
next
  case False
  then have p: "p \<in> matching_profiles s t"
    using longest_match [OF assms(1), of t] assms(2) by simp
  then obtain k where "bt_get (ms_storage_profiles s) k = Some p"
    by (auto simp: matching_profiles_def)
  then have "storage_profile_validate E p = Ok ()"
    using rows_okD [OF store_invD(12) [OF reachable_inv [OF assms(1)], unfolded profiles_inv_def]]
    by (simp add: other_scope_ok)
  with p show ?thesis
    by (auto simp: matching_profiles_def storage_profile_validate_def and_then_ok can_return_public_credential_def
        validate_location_prefix_provider_def validate_issuance_mode_provider_def
        validate_secret_ref_issuance_mode_def Let_def split: if_split_asm option.split_asm)
qed

theorem resolved_profile_is_safe_witness:
  "\<exists>p. storage_profile_for_table demo_env registry_state registry_table = Ok p \<and>
     sp_provider p = storage_provider_from_location (sp_location_prefix p)"
proof -
  obtain p where p: "storage_profile_for_table demo_env registry_state registry_table = Ok p"
    using registry_profile by blast
  with resolved_profile_is_safe [OF registry_reachable p] show ?thesis by blast
qed

subsection \<open>Registry records\<close>

lemma server_loads:
  assumes "reachable E clock s" "bt_contains (ms_servers s) i"
  shows "\<exists>r. load_server E s i = Ok r \<and> sv_server_id r = i"
proof -
  obtain r where r: "bt_get (ms_servers s) i = Some r"
    using assms(2) by (auto simp: bt_contains_def)
  moreover have "servers_inv E (ms_servers s)"
    using reachable_inv [OF assms(1)] by (simp add: store_inv_def)
  ultimately have "validate_server_record_map_scope E r i = Ok ()"
    unfolding servers_inv_def by (blast dest: rows_okD)
  with r show ?thesis
    by (auto simp: load_server_def server_row_def and_then_ok other_scope_ok server_validate_def)
qed

lemma project_loads:
  assumes "reachable E clock s" "bt_contains (ms_projects s) i"
  shows "\<exists>r. load_project E s i = Ok r \<and> pj_project_id r = i \<and>
     (\<forall>j. pj_server_id r = Some j \<longrightarrow> bt_contains (ms_servers s) j)"
proof -
  obtain r where r: "bt_get (ms_projects s) i = Some r"
    using assms(2) by (auto simp: bt_contains_def)
  moreover have "projects_inv E (ms_servers s) (ms_projects s)"
    using reachable_inv [OF assms(1)] by (simp add: store_inv_def)
  ultimately have "validate_project_record_map_scope E r i = Ok () \<and>
      (case pj_server_id r of None \<Rightarrow> True | Some j \<Rightarrow> bt_contains (ms_servers s) j)"
    unfolding projects_inv_def by (blast dest: rows_okD)
  with r show ?thesis
    by (auto simp: load_project_def project_row_def and_then_ok other_scope_ok project_validate_def)
qed

text \<open>
  In a reachable catalog every warehouse that loads has a project that loads, and that project's
  server, when it names one, loads too.
\<close>

theorem registry_references_exist:
  assumes "reachable E clock s" "load_warehouse E s w = Ok r"
  shows "\<exists>project. load_project E s (wr_project_id r) = Ok project \<and> pj_project_id project = wr_project_id r \<and>
     (\<forall>i. pj_server_id project = Some i \<longrightarrow> (\<exists>server. load_server E s i = Ok server \<and> sv_server_id server = i))"
proof -
  have "bt_get (ms_warehouses s) w = Some r"
    using assms(2) by (auto simp: load_warehouse_def and_then_ok ok_or_ok)
  moreover have "warehouses_inv E (ms_projects s) (ms_warehouses s)"
    using reachable_inv [OF assms(1)] by (simp add: store_inv_def)
  ultimately have "bt_contains (ms_projects s) (wr_project_id r)"
    unfolding warehouses_inv_def by (blast dest: rows_okD)
  with project_loads [OF assms(1)] server_loads [OF assms(1)] show ?thesis by metis
qed

theorem registry_references_exist_witness:
  "\<exists>r server. load_warehouse demo_env registry_state ''wh'' = Ok r \<and> load_server demo_env registry_state ''srv'' = Ok server"
proof -
  have "(case load_warehouse demo_env registry_state ''wh'' of Inl _ \<Rightarrow> False | Inr r \<Rightarrow> wr_project_id r = ''prj'')"
    "(case load_project demo_env registry_state ''prj'' of Inl _ \<Rightarrow> False | Inr p \<Rightarrow> pj_server_id p = Some ''srv'')"
    by code_simp+
  then obtain r p where r: "load_warehouse demo_env registry_state ''wh'' = Ok r" "wr_project_id r = ''prj''"
    and p: "load_project demo_env registry_state ''prj'' = Ok p" "pj_server_id p = Some ''srv''"
    by (auto split: sum.splits)
  with registry_references_exist [OF registry_reachable r(1)] show ?thesis by auto
qed

text \<open>
  A warehouse that was stored loads with exactly the record stored, repeating the upsert changes
  nothing, and every other warehouse loads as before. A later upsert of the warehouse replaces it.
\<close>

theorem upsert_warehouse_then_load:
  assumes "upsert_warehouse E r s = (Ok r', s')"
  shows "load_warehouse E s' (wr_warehouse r) = Ok r \<and> upsert_warehouse E r s' = (Ok r, s') \<and>
     (\<forall>w. w \<noteq> wr_warehouse r \<longrightarrow> load_warehouse E s' w = load_warehouse E s w) \<and>
     (\<forall>q q' s''. upsert_warehouse E q s' = (Ok q', s'') \<longrightarrow> wr_warehouse q = wr_warehouse r \<longrightarrow>
        load_warehouse E s'' (wr_warehouse r) = Ok q)"
proof -
  have load: "load_warehouse E s2 (wr_warehouse q) = Ok q" if "upsert_warehouse E q s1 = (Ok q', s2)" for q q' s1 s2
    using that warehouses.lookup_stored [OF that]
    by (auto simp: load_warehouse_def upsert_warehouse_ok and_then_ok ok_or_ok other_scope_ok)
  have "load_warehouse E s' w = load_warehouse E s w" if "w \<noteq> wr_warehouse r" for w
    using warehouses.lookup_other [OF assms that] by (simp add: load_warehouse_def)
  then show ?thesis
    using load load [OF assms] warehouses.again [OF assms] by metis
qed

theorem upsert_warehouse_then_load_witness:
  "load_warehouse demo_env (snd (upsert_warehouse demo_env demo_warehouse registry_state)) ''wh'' = Ok demo_warehouse"
proof -
  have "is_ok (fst (upsert_warehouse demo_env demo_warehouse registry_state))" by code_simp
  then obtain r where "upsert_warehouse demo_env demo_warehouse registry_state =
      (Ok r, snd (upsert_warehouse demo_env demo_warehouse registry_state))"
    by (rule is_okE)
  from upsert_warehouse_then_load [OF this] show ?thesis by (simp add: demo_warehouse_def)
qed

end
