(* ===== verification/PolicyProperties.thy ===== *)
theory PolicyProperties
  imports Demo
begin

section \<open>Properties of row keys and policy bindings\<close>

text \<open>
  What the keys of the rows distinguish and what the dotted identifiers do not; which policy bindings
  apply to a table, and that they stay with it when it is renamed.
\<close>

subsection \<open>Keys\<close>

text \<open>
  The key of a table row distinguishes valid identities, even when a namespace component or a
  name contains dots; the dotted stable identifier, which the idempotency keys and the view receipts
  are filed under, does not.
\<close>

theorem table_keys_distinguish:
  "(\<forall>i j. valid_ident i \<longrightarrow> valid_ident j \<longrightarrow> table_key i = table_key j \<longrightarrow> i = j) \<and>
   (\<exists>i j k. valid_ident i \<and> valid_ident j \<and> i \<noteq> j \<and> table_stable_id i = table_stable_id j \<and>
      idempotency_key_for i k = idempotency_key_for j k)"
proof
  show "\<forall>i j. valid_ident i \<longrightarrow> valid_ident j \<longrightarrow> table_key i = table_key j \<longrightarrow> i = j"
    using table_key_inj by blast
  let ?i = "\<lparr>ti_warehouse = ''wh'', ti_namespace = [''a.b''], ti_name = ''t''\<rparr>"
  let ?j = "\<lparr>ti_warehouse = ''wh'', ti_namespace = [''a'', ''b''], ti_name = ''t''\<rparr>"
  have "valid_ident ?i" "valid_ident ?j" "?i \<noteq> ?j" "table_stable_id ?i = table_stable_id ?j"
    by code_simp+
  moreover from this(4) have "idempotency_key_for ?i k = idempotency_key_for ?j k" for k
    by (simp only: idempotency_key_for_def)
  ultimately show "\<exists>i j k. valid_ident i \<and> valid_ident j \<and> i \<noteq> j \<and> table_stable_id i = table_stable_id j \<and>
      idempotency_key_for i k = idempotency_key_for j k"
    by blast
qed

theorem table_keys_distinguish_witness:
  "table_key demo_ident \<noteq> table_key demo_renamed"
proof -
  have "demo_ident \<noteq> demo_renamed" by code_simp
  with table_keys_distinguish demo_valid show ?thesis by blast
qed

subsection \<open>Policy bindings\<close>

lemma policy_lookup_eq:
  assumes "policies_inv E (ms_policy_bindings s)"
  shows "store_policy_bindings_for_table E s t = Ok (policy_bindings_for_table (map snd (ms_policy_bindings s)) t)"
proof -
  have "scoped_rows (validate_policy_binding_map_scope E) (ms_policy_bindings s) = Ok (map snd (ms_policy_bindings s))"
    using assms unfolding policies_inv_def by (rule scoped_rows_inv)
  then show ?thesis by (simp add: store_policy_bindings_for_table_def)
qed

lemma policy_in_force_iff:
  assumes "policies_inv E (ms_policy_bindings s)"
  shows "b \<in> set (policy_bindings_for_table (map snd (ms_policy_bindings s)) t) \<longleftrightarrow>
     (\<exists>k. bt_get (ms_policy_bindings s) k = Some b) \<and> pb_enforced b \<and> applies_to_table b t"
  using rows_ok_wf [OF assms [unfolded policies_inv_def]]
  by (force simp: policy_bindings_for_table_def bt_wf_get_iff)

lemma applies_after_rename:
  assumes "applies_to_table b src" "ti_warehouse src = ti_warehouse dst"
    and "ti_namespace src = ti_namespace dst \<or> pb_namespace b = None \<or> pb_table b \<noteq> None"
  shows "applies_to_table (if retargets src b then retargeted now dst b else b) dst"
proof (cases "retargets src b")
  case True
  with assms(2) show ?thesis by (simp add: applies_to_table_def retargeted_def retargets_def)
next
  case False
  with assms show ?thesis
    by (cases "pb_namespace b"; cases "pb_table b") (simp_all add: applies_to_table_def retargets_def split: if_split_asm)
qed

text \<open>
  C32: looking up the policies of a table never fails in a reachable catalog, and a rename keeps them in
  force: every enforced binding of the table applies to it under the new identity with the same policy
  id and the same policy, unless it was scoped to a namespace the table has left.
\<close>

theorem policies_follow_rename:
  assumes "reachable E clock s" "well_named (RenameTable src dst p auth)" "clock \<le> now"
    and "rename_table E now src dst p auth s = (Ok t, s')"
  shows "\<exists>before after. store_policy_bindings_for_table E s src = Ok before \<and>
     store_policy_bindings_for_table E s' dst = Ok after \<and>
     (\<forall>b \<in> set before. ti_namespace src = ti_namespace dst \<or> pb_namespace b = None \<or> pb_table b \<noteq> None \<longrightarrow>
        (\<exists>b' \<in> set after. pb_policy_id b' = pb_policy_id b \<and> pb_odrl b' = pb_odrl b))"
proof -
  have inv: "policies_inv E (ms_policy_bindings s)"
    using store_invD(8) [OF reachable_inv [OF assms(1)]] .
  have "exec E now (RenameTable src dst p auth) s = (Ok (), s')"
    using assms(4) by (simp add: discard_def)
  with reachable.step [OF assms(1,3,2)] have "reachable E now s'" by blast
  then have inv': "policies_inv E (ms_policy_bindings s')"
    using store_invD(8) [OF reachable_inv] by blast
  obtain source commits retired bindings audit outbox where
    ok: "ti_warehouse src = ti_warehouse dst" "renamed_bindings E now src dst (ms_policy_bindings s) = Ok bindings"
    and s': "s' = install_rename src dst t commits retired bindings audit outbox s"
    using assms(4) by (rule rename_table_ok)
  let ?f = "\<lambda>b. if retargets src b then retargeted now dst b else b"
  have "\<exists>b' \<in> set (policy_bindings_for_table (map snd (ms_policy_bindings s')) dst).
      pb_policy_id b' = pb_policy_id b \<and> pb_odrl b' = pb_odrl b"
    if b: "b \<in> set (policy_bindings_for_table (map snd (ms_policy_bindings s)) src)"
      and scope: "ti_namespace src = ti_namespace dst \<or> pb_namespace b = None \<or> pb_table b \<noteq> None" for b
  proof
    obtain k where k: "bt_get (ms_policy_bindings s) k = Some b" "pb_enforced b" "applies_to_table b src"
      using b by (auto simp: policy_in_force_iff [OF inv])
    then have "bt_get (ms_policy_bindings s') k = Some (?f b)"
      using bindings_after_rename [OF rows_ok_wf [OF inv [unfolded policies_inv_def]] ok(2), of k]
      by (simp add: s' install_rename_fields)
    then show "?f b \<in> set (policy_bindings_for_table (map snd (ms_policy_bindings s')) dst)"
      unfolding policy_in_force_iff [OF inv']
      using k(2) applies_after_rename [OF k(3) ok(1) scope, of now] by (auto simp: retargeted_def)
    show "pb_policy_id (?f b) = pb_policy_id b \<and> pb_odrl (?f b) = pb_odrl b"
      by (simp add: retargeted_def)
  qed
  then show ?thesis
    by (simp add: policy_lookup_eq [OF inv] policy_lookup_eq [OF inv'])
qed

definition demo_policy :: PolicyBinding where
  "demo_policy =
     \<lparr>pb_policy_id = ''pol'', pb_warehouse = ''wh'', pb_namespace = Some [''sales''], pb_table = Some ''orders'',
      pb_enforced = True, pb_odrl = jobj [], pb_updated_at = 1\<rparr>"

definition policy_state :: MemoryState where
  "policy_state = demo_state\<lparr>ms_policy_bindings := [(''wh:pol'', demo_policy)]\<rparr>"

lemma policy_reachable: "reachable demo_env 3 policy_state"
proof -
  have "ms_policy_bindings demo_state = []" "policy_binding_validate demo_env demo_policy = Ok ()"
    "binding_key demo_policy = ''wh:pol''"
    by code_simp+
  then have "upsert_policy_binding demo_env demo_policy demo_state = (Ok demo_policy, policy_state)"
    by (simp add: upsert_policy_binding_ok policy_state_def)
  then have "exec demo_env 3 (UpsertPolicyBinding demo_policy) demo_state = (Ok (), policy_state)"
    by (simp add: discard_def)
  then show ?thesis
    by (rule reachable.step [OF demo_reachable, rotated 2]) simp_all
qed

theorem policies_follow_rename_witness:
  "\<exists>t s' after. rename_table demo_env 3 demo_ident demo_renamed demo_principal None policy_state = (Ok t, s') \<and>
     store_policy_bindings_for_table demo_env s' demo_renamed = Ok after \<and>
     (\<exists>b \<in> set after. pb_policy_id b = ''pol'')"
proof -
  have "is_ok (fst (rename_table demo_env 3 demo_ident demo_renamed demo_principal None policy_state))"
    "store_policy_bindings_for_table demo_env policy_state demo_ident = Ok [demo_policy]"
    by code_simp+
  then obtain t s' where ok: "rename_table demo_env 3 demo_ident demo_renamed demo_principal None policy_state = (Ok t, s')"
    and before: "store_policy_bindings_for_table demo_env policy_state demo_ident = Ok [demo_policy]"
    by (auto elim: is_okE)
  have "well_named (RenameTable demo_ident demo_renamed demo_principal None)" by (simp add: demo_valid)
  from policies_follow_rename [OF policy_reachable this _ ok] before show ?thesis
    unfolding ok by (force simp: demo_policy_def)
qed

end
