(* ===== verification/ViewProperties.thy ===== *)
theory ViewProperties
  imports Demo
begin

section \<open>Properties of views and their receipts\<close>

text \<open>
  The receipts of a view form one hash-linked chain whose upserts are numbered 1, 2, 3, ... across drops;
  an upsert extends it by the next number or reports the overflow; a drop hides the view and is
  receipted; guarded upserts have a single winner.
\<close>

definition is_upsert :: "ViewVersionReceipt \<Rightarrow> bool" where
  "is_upsert r \<longleftrightarrow> vr_operation r = Upsert"

definition upsert_versions :: "ViewVersionReceipt list \<Rightarrow> nat list" where
  "upsert_versions rs = map (\<lambda>r. unat (vr_view_version r)) (filter is_upsert rs)"

text \<open>Each receipt names the hash of the one before it.\<close>

definition hash_linked :: "env \<Rightarrow> ViewVersionReceipt list \<Rightarrow> bool" where
  "hash_linked E rs \<longleftrightarrow>
     (\<forall>i. Suc i < length rs \<longrightarrow>
        (\<exists>h. view_receipt_hash E (rs ! i) = Ok h \<and> vr_previous_receipt_hash (rs ! Suc i) = Some h))"

lemma unat_succ:
  assumes "v < saturating_add_u64 v 1" shows "unat (saturating_add_u64 v 1) = Suc (unat v)"
proof (cases "uint v + 1 < 2 ^ 64")
  case True
  then have "saturating_add_u64 v 1 = v + 1" "uint (v + 1) = uint v + 1"
    using word_less_succ [of v] by (simp_all add: saturating_add_u64_def)
  then have "int (unat (saturating_add_u64 v 1)) = int (Suc (unat v))" by simp
  then show ?thesis by (simp only: of_nat_eq_iff)
next
  case False
  then have "saturating_add_u64 v 1 = u64_max" by (simp add: saturating_add_u64_def)
  moreover have "uint u64_max = 2 ^ 64 - 1"
    by code_simp
  then have "uint v = uint u64_max"
    using False uint_lt2p [of v] by simp
  ultimately show ?thesis using assms by (simp add: word_less_def)
qed

lemma chain_numbering:
  "check_chain E None rs = Ok () \<Longrightarrow>
     upsert_versions rs = [1..<Suc (length (filter is_upsert rs))] \<and>
     (rs \<noteq> [] \<longrightarrow> unat (vr_view_version (last rs)) = length (filter is_upsert rs))"
proof (induction rs rule: rev_induct)
  case (snoc r rs)
  then have IH: "upsert_versions rs = [1..<Suc (length (filter is_upsert rs))]"
    "rs \<noteq> [] \<Longrightarrow> unat (vr_view_version (last rs)) = length (filter is_upsert rs)"
    and valid: "receipt_validate r = Ok ()" and link: "check_link E (if rs = [] then None else Some (last rs)) r = Ok ()"
    by (auto simp: check_chain_snoc)
  have number: "unat (vr_view_version r) = length (filter is_upsert (rs @ [r]))"
  proof (cases "rs = []")
    case True
    with link show ?thesis by (auto simp: check_link_def is_upsert_def split: if_split_asm)
  next
    case False
    then have "check_link E (Some (last rs)) r = Ok ()" using link by simp
    note v = check_link_version [OF this]
    show ?thesis
    proof (cases "vr_operation r")
      case Upsert
      with v valid have "vr_view_version (last rs) < saturating_add_u64 (vr_view_version (last rs)) 1"
        by (auto simp: receipt_validate_def and_then_ok split: if_split_asm)
      with Upsert v IH(2) [OF False] unat_succ show ?thesis by (simp add: is_upsert_def)
    next
      case Drop
      with v IH(2) [OF False] show ?thesis by (simp add: is_upsert_def)
    qed
  qed
  with IH(1) show ?case by (auto simp: upsert_versions_def)
qed (simp add: upsert_versions_def)

lemma chain_links: "check_chain E None rs = Ok () \<Longrightarrow> hash_linked E rs"
proof (induction rs rule: rev_induct)
  case (snoc r rs)
  then have IH: "hash_linked E rs" and link: "check_link E (if rs = [] then None else Some (last rs)) r = Ok ()"
    by (auto simp: check_chain_snoc)
  have "\<exists>h. view_receipt_hash E ((rs @ [r]) ! i) = Ok h \<and> vr_previous_receipt_hash ((rs @ [r]) ! Suc i) = Some h"
    if i: "Suc i < length (rs @ [r])" for i
  proof (cases "Suc i < length rs")
    case True
    with IH show ?thesis by (simp add: hash_linked_def nth_append)
  next
    case False
    with i have "i = length rs - 1" "rs \<noteq> []" "Suc i = length rs" by auto
    with link show ?thesis
      by (auto simp: nth_append last_conv_nth check_link_def and_then_ok split: if_split_asm)
  qed
  then show ?case by (simp add: hash_linked_def)
qed (simp add: hash_linked_def)

subsection \<open>Loading and listing\<close>

lemma load_view_iff:
  assumes "views_inv E (ms_views s)" "valid_name w" "valid_namespace ns"
  shows "load_view E s w ns n = Ok v \<longleftrightarrow> bt_get (ms_views s) (view_key_parts w ns n) = Some v"
proof
  assume row: "bt_get (ms_views s) (view_key_parts w ns n) = Some v"
  have ok: "validate_view_record_map_scope E v (view_key_parts w ns n) = Ok ()"
    "valid_name (vw_warehouse v)" "valid_namespace (vw_namespace v)"
    using rows_okD [OF assms(1) [unfolded views_inv_def] row] by simp_all
  then have "view_key v = view_key_parts w ns n" "view_validate E v = Ok ()"
    by (auto simp: validate_view_record_map_scope_def and_then_ok split: if_split_asm)
  moreover from this have "vw_warehouse v = w" "vw_namespace v = ns" "vw_name v = n"
    using view_key_parts_inj [OF ok(2,3) assms(2,3)] by (auto simp: view_key_def)
  ultimately have "validate_view_record_scope E v w ns n = Ok ()"
    by (simp add: validate_view_record_scope_ok)
  with row ok(1) show "load_view E s w ns n = Ok v"
    by (simp add: load_view_def Let_def)
qed (auto simp: load_view_def Let_def and_then_ok ok_or_ok)

lemma list_receipts_eq:
  assumes inv: "chains_inv E clock (ms_views s) (ms_view_version_receipts s)"
    and valid: "valid_name w" "valid_namespace ns"
  shows "list_view_version_receipts E s w ns n =
     Ok (key_chain (view_key_parts w ns n) (ms_view_version_receipts s))"
    "check_chain E None (key_chain (view_key_parts w ns n) (ms_view_version_receipts s)) = Ok ()"
proof -
  let ?chain = "key_chain (view_key_parts w ns n) (ms_view_version_receipts s)"
  have chain: "sorted (map receipt_order ?chain)" "check_chain E None ?chain = Ok ()"
    using chains_invD(2) [OF inv, of "view_key_parts w ns n"] by (simp_all add: chain_ok_def Let_def)
  then have "vr_stable_id r = view_stable_id_parts w (namespace_path ns) n" if "r \<in> set ?chain" for r
    using that key_chain_rows [OF chains_invD(1) [OF inv] valid that]
      receipt_validate_stable_id check_chain_validates by metis
  then have "filter (\<lambda>r. vr_stable_id r = i) ?chain =
      (if i = view_stable_id_parts w (namespace_path ns) n then ?chain else [])" for i
    by (auto simp: filter_empty_conv filter_id_conv)
  then have "validate_view_receipt_chains E ?chain = Ok ()"
    by (simp add: validate_chains_ok chain sort_key_sorted)
  then show "list_view_version_receipts E s w ns n = Ok ?chain"
    using scoped_receipts_chain [OF inv valid] by (simp add: list_view_version_receipts_def)
  show "check_chain E None ?chain = Ok ()" by (rule chain(2))
qed

text \<open>
  C29: in a reachable catalog the receipts of a view list without error and form one chain: each names
  the hash of the receipt before it, the upserts are numbered 1, 2, 3, ... and a drop never resets the
  count; the view loads exactly when the last receipt is an upsert, with the version of that receipt.
\<close>

theorem view_receipts_form_chain:
  assumes "env_ok E" "reachable E clock s" "valid_name w" "valid_namespace ns"
  shows "\<exists>rs. list_view_version_receipts E s w ns n = Ok rs \<and> hash_linked E rs \<and>
     upsert_versions rs = [1..<Suc (length (filter is_upsert rs))] \<and>
     ((\<exists>v. load_view E s w ns n = Ok v) \<longleftrightarrow> rs \<noteq> [] \<and> is_upsert (last rs)) \<and>
     (\<forall>v. load_view E s w ns n = Ok v \<longrightarrow>
        vw_view_version v = vr_view_version (last rs) \<and>
        unat (vw_view_version v) = length (filter is_upsert rs))"
proof -
  let ?key = "view_key_parts w ns n"
  let ?rs = "key_chain ?key (ms_view_version_receipts s)"
  note inv = reachable_chains [OF assms(2,1)]
  note list = list_receipts_eq [OF inv assms(3,4), of n]
  note load = load_view_iff [OF store_invD(9) [OF reachable_inv [OF assms(2)]] assms(3,4), of n]
  have "chain_ok E (ms_views s) (ms_view_version_receipts s) ?key"
    by (rule chains_invD(2) [OF inv])
  then have last: "case bt_get (ms_views s) ?key of
      None \<Rightarrow> ?rs = [] \<or> vr_operation (last ?rs) = Drop
    | Some v \<Rightarrow> ?rs \<noteq> [] \<and> vr_operation (last ?rs) = Upsert \<and> vr_view_version (last ?rs) = vw_view_version v"
    by (simp add: chain_ok_def Let_def)
  then have "(\<exists>v. load_view E s w ns n = Ok v) \<longleftrightarrow> ?rs \<noteq> [] \<and> is_upsert (last ?rs)"
    by (auto simp: load is_upsert_def split: option.splits)
  moreover have "vw_view_version v = vr_view_version (last ?rs) \<and>
      unat (vw_view_version v) = length (filter is_upsert ?rs)" if "load_view E s w ns n = Ok v" for v
    using last that chain_numbering [OF list(2)] by (simp add: load)
  ultimately show ?thesis
    using list(1) chain_numbering [OF list(2)] chain_links [OF list(2)] by blast
qed

subsection \<open>Upserts\<close>

lemma checked_next:
  assumes "check_chain E None chain = Ok ()"
  shows "unat (last_chain_version chain) = length (filter is_upsert chain)"
  using chain_numbering [OF assms] by (auto simp: last_chain_version_def)

lemma checked_add_unat:
  "checked_add_u64 v 1 = None \<longleftrightarrow> Suc (unat v) = 2 ^ 64"
  "checked_add_u64 v 1 = Some w \<Longrightarrow> unat w = Suc (unat v)"
proof -
  have "Suc (unat v) = 2 ^ 64 \<longleftrightarrow> int (Suc (unat v)) = int (2 ^ 64)"
    by (simp only: of_nat_eq_iff)
  also have "\<dots> \<longleftrightarrow> uint v + 1 = 2 ^ 64" by simp
  finally show "checked_add_u64 v 1 = None \<longleftrightarrow> Suc (unat v) = 2 ^ 64"
    using uint_lt2p [of v] by (auto simp: checked_add_u64_def)
  show "unat w = Suc (unat v)" if "checked_add_u64 v 1 = Some w"
    using checked_add_one [OF that] unat_succ [of v] by metis
qed

lemma key_chain_pushed:
  "key_chain k (ms_view_version_receipts (push_receipt key r s)) =
     (if k = key then key_chain k (ms_view_version_receipts s) @ [r] else key_chain k (ms_view_version_receipts s))"
  by (simp add: push_receipt_fields key_chain_snoc)

text \<open>A guard of an upsert or a drop, evaluated on the view it finds.\<close>

definition version_matches :: "env \<Rightarrow> MemoryState \<Rightarrow> WarehouseName \<Rightarrow> Namespace \<Rightarrow> TableName \<Rightarrow> 64 word option \<Rightarrow> bool" where
  "version_matches E s w ns n expected \<longleftrightarrow>
     (case expected of None \<Rightarrow> True
      | Some e \<Rightarrow> e \<noteq> 0 \<and> (case load_view E s w ns n of Inl _ \<Rightarrow> False | Inr v \<Rightarrow> vw_view_version v = e))"

lemma upsert_guards_pass:
  assumes inv: "views_inv E (ms_views s)" and valid: "valid_name (vw_warehouse v)" "valid_namespace (vw_namespace v)"
    and view: "view_validate E v = Ok ()"
    and guard: "version_matches E s (vw_warehouse v) (vw_namespace v) (vw_name v) expected"
  shows "upsert_view_if_version E now v expected s = install_view E now v s"
proof -
  have prev: "checked_previous_view E (bt_get (ms_views s) (view_key v)) (view_key v) = Ok ()"
    using rows_okD [OF inv [unfolded views_inv_def]]
    by (auto simp: checked_previous_view_def split: option.split)
  have "require_expected_view_version (bt_get (ms_views s) (view_key v)) e = Ok ()" "e \<noteq> 0"
    if "expected = Some e" for e
    using guard that load_view_iff [OF inv valid]
    by (auto simp: version_matches_def require_expected_ok view_key_def split: sum.split_asm)
  with view prev show ?thesis
    by (auto simp: upsert_view_if_version_def Let_def validate_expected_view_version_def split: option.split)
qed

text \<open>
  An upsert of a valid view whose guard holds succeeds with the next number of its chain, loads as
  stored and appends one upsert receipt; the number counts the upserts of the view since its first
  creation, drops included, so no version is ever reused. At the last 64-bit number it reports the
  overflow and changes nothing.
\<close>

theorem upsert_view_outcome:
  assumes "env_ok E" "reachable E clock s" "clock \<le> now" "well_named (UpsertView v expected)"
    and "view_validate E v = Ok ()"
    and "version_matches E s (vw_warehouse v) (vw_namespace v) (vw_name v) expected"
    and "list_view_version_receipts E s (vw_warehouse v) (vw_namespace v) (vw_name v) = Ok rs"
  shows "if Suc (length (filter is_upsert rs)) = 2 ^ 64
     then upsert_view_if_version E now v expected s = (Err (InvalidArgument ''view version overflow''), s)
     else \<exists>v' r s'. upsert_view_if_version E now v expected s = (Ok v', s') \<and>
       unat (vw_view_version v') = Suc (length (filter is_upsert rs)) \<and> is_upsert r \<and>
       load_view E s' (vw_warehouse v) (vw_namespace v) (vw_name v) = Ok v' \<and>
       list_view_version_receipts E s' (vw_warehouse v) (vw_namespace v) (vw_name v) = Ok (rs @ [r])"
proof -
  have valid: "valid_name (vw_warehouse v)" "valid_namespace (vw_namespace v)" using assms(4) by simp_all
  note inv = reachable_chains [OF assms(2,1)] and store = reachable_inv [OF assms(2)]
  have rs: "rs = key_chain (view_key v) (ms_view_version_receipts s)"
    using assms(7) list_receipts_eq(1) [OF inv valid] by (simp add: view_key_def)
  have count: "unat (last_chain_version rs) = length (filter is_upsert rs)"
    using checked_next [OF list_receipts_eq(2) [OF inv valid, of "vw_name v"]] by (simp add: rs view_key_def)
  have op: "upsert_view_if_version E now v expected s = install_view E now v s"
    by (rule upsert_guards_pass [OF store_invD(9) [OF store] valid assms(5,6)])
  from assms(1) inv valid assms(5) rs show ?thesis
  proof (cases rule: install_view_eq [of E clock s v rs now])
    case overflow
    then show ?thesis using op count checked_add_unat(1) by simp
  next
    case (installed version v' h)
    let ?r = "upsert_receipt_of E now rs v' (as_principal (vw_created v)) h"
    let ?s' = "push_receipt (view_key v) ?r (s\<lparr>ms_views := bt_insert (view_key v) v' (ms_views s)\<rparr>)"
    have "unat version = Suc (length (filter is_upsert rs))"
      using checked_add_unat(2) [OF installed(1)] count by simp
    moreover have "Suc (length (filter is_upsert rs)) \<noteq> 2 ^ 64"
      using checked_add_unat(1) [of "last_chain_version rs"] count installed(1) by simp
    moreover have step: "exec E now (UpsertView v expected) s = (Ok (), ?s')"
      using op installed(4) by (simp add: discard_def)
    then have s': "reachable E now ?s'"
      using reachable.step [OF assms(2,3,4)] by blast
    moreover have "load_view E ?s' (vw_warehouse v) (vw_namespace v) (vw_name v) = Ok v'"
      using load_view_iff [OF store_invD(9) [OF reachable_inv [OF s']] valid]
      by (simp add: view_key_def push_receipt_fields bt_get_insert)
    moreover have "list_view_version_receipts E ?s' (vw_warehouse v) (vw_namespace v) (vw_name v) = Ok (rs @ [?r])"
      using list_receipts_eq(1) [OF reachable_chains [OF s' assms(1)] valid, of "vw_name v"]
      by (simp add: key_chain_pushed rs view_key_def)
    moreover have "is_upsert ?r" "vw_view_version v' = version"
      by (simp_all add: is_upsert_def upsert_receipt_of_def installed(2) next_view_def)
    ultimately show ?thesis using op installed(4) by auto
  qed
qed

definition demo_view :: ViewRecord where
  "demo_view =
     \<lparr>vw_warehouse = ''wh'', vw_namespace = [''sales''], vw_name = ''top'', vw_view_version = 1,
      vw_sql = ''select 1'', vw_dialect = ''spark'', vw_schema_version = None, vw_columns = [], vw_properties = [],
      vw_created = audit_stamp_now 1 demo_principal, vw_updated_at = 1\<rparr>"

lemma demo_view_valid: "view_validate demo_env demo_view = Ok ()" "well_named (UpsertView demo_view expected)"
  "vw_warehouse demo_view = ''wh''" "vw_namespace demo_view = [''sales'']" "vw_name demo_view = ''top''"
proof -
  show "view_validate demo_env demo_view = Ok ()" by code_simp
  have "valid_name ''wh''" "valid_namespace [''sales'']" "valid_name ''top''" by code_simp+
  then show "well_named (UpsertView demo_view expected)" by (simp add: demo_view_def)
qed (simp_all add: demo_view_def)

lemma demo_no_receipts: "list_view_version_receipts demo_env demo_state ''wh'' [''sales''] ''top'' = Ok []"
  by code_simp

theorem upsert_view_outcome_witness:
  "\<exists>v s'. upsert_view_if_version demo_env 3 demo_view None demo_state = (Ok v, s') \<and>
     unat (vw_view_version v) = 1 \<and> load_view demo_env s' ''wh'' [''sales''] ''top'' = Ok v"
proof -
  have "version_matches demo_env demo_state ''wh'' [''sales''] ''top'' None"
    by (simp add: version_matches_def)
  then show ?thesis
    using upsert_view_outcome [OF demo_env_ok demo_reachable _ demo_view_valid(2,1), of 3 None "[]"] demo_no_receipts
    by (auto simp: demo_view_valid)
qed

theorem view_receipts_form_chain_witness:
  "\<exists>rs. list_view_version_receipts demo_env demo_state ''wh'' [''sales''] ''top'' = Ok rs \<and>
     upsert_versions rs = [1..<Suc (length (filter is_upsert rs))]"
proof -
  have "valid_name ''wh''" "valid_namespace [''sales'']" by code_simp+
  from view_receipts_form_chain [OF demo_env_ok demo_reachable this, of "''top''"] show ?thesis by blast
qed

subsection \<open>Drops\<close>

text \<open>
  A drop either fails and changes nothing, or removes a view that matched its guard: the view no
  longer loads, its receipts end with a drop of the version it had, and every other view and chain is
  as before.
\<close>

theorem drop_view_outcome:
  assumes "env_ok E" "reachable E clock s" "clock \<le> now" "well_named (DropView w ns n p expected)"
    and "list_view_version_receipts E s w ns n = Ok rs"
    and "drop_view_if_version E now w ns n p expected s = (res, s')"
  shows "case res of Inl e \<Rightarrow> s' = s
     | Inr v \<Rightarrow> load_view E s w ns n = Ok v \<and> version_matches E s w ns n expected \<and>
         load_view E s' w ns n = Err (view_not_found n) \<and>
         (\<exists>r. list_view_version_receipts E s' w ns n = Ok (rs @ [r]) \<and> vr_operation r = Drop \<and>
            vr_view_version r = vw_view_version v \<and> vr_principal r = p) \<and>
         (\<forall>k. k \<noteq> view_key_parts w ns n \<longrightarrow> bt_get (ms_views s') k = bt_get (ms_views s) k \<and>
            key_chain k (ms_view_version_receipts s') = key_chain k (ms_view_version_receipts s))"
proof (cases res)
  case (Inl e)
  then show ?thesis
    using drop_view_chains [OF assms(1) reachable_chains [OF assms(2,1)] assms(3) _ _ assms(6)] assms(4) by simp
next
  case (Inr v)
  have valid: "valid_name w" "valid_namespace ns" using assms(4) by simp_all
  note inv = reachable_chains [OF assms(2,1)]
  let ?key = "view_key_parts w ns n"
  have rs: "rs = key_chain ?key (ms_view_version_receipts s)"
    using assms(5) list_receipts_eq(1) [OF inv valid] by simp
  have "exec E now (DropView w ns n p expected) s = (Ok (), s')"
    using assms(6) Inr by (simp add: discard_def)
  then have reach: "reachable E now s'"
    using reachable.step [OF assms(2,3,4)] by blast
  obtain u where u: "bt_get (ms_views s) ?key = Some u" "expectation_met expected (Some u) = Ok ()"
    "remove_view E now w ns n p u s = (Ok v, s')"
    using assms(6) Inr by (auto elim: drop_view_cases)
  obtain h where "remove_view E now w ns n p u s =
      (Ok u, push_receipt ?key (drop_receipt_of E now rs u p h) (s\<lparr>ms_views := bt_remove ?key (ms_views s)\<rparr>))"
    using remove_view_eq [OF assms(1) inv valid refl rs] by blast
  with u(3) have v: "u = v"
    and s': "s' = push_receipt ?key (drop_receipt_of E now rs v p h) (s\<lparr>ms_views := bt_remove ?key (ms_views s)\<rparr>)"
    by auto
  have load: "load_view E s w ns n = Ok v"
    using load_view_iff [OF store_invD(9) [OF reachable_inv [OF assms(2)]] valid] u(1) v by simp
  have "expected = Some e \<Longrightarrow> e \<noteq> 0" for e
    using assms(6) Inr by (auto simp: drop_view_if_version_def qmark_ok validate_expected_view_version_def split: if_split_asm)
  with u(2) load v have guard: "version_matches E s w ns n expected"
    by (auto simp: version_matches_def expectation_met_def require_expected_ok split: option.splits)
  have "list_view_version_receipts E s' w ns n = Ok (rs @ [drop_receipt_of E now rs v p h])"
    using list_receipts_eq(1) [OF reachable_chains [OF reach assms(1)] valid, of n]
    by (simp add: s' key_chain_pushed rs)
  moreover have "load_view E s' w ns n = Err (view_not_found n)"
    by (simp add: load_view_def Let_def s' push_receipt_fields bt_get_remove)
  ultimately show ?thesis
    using load guard by (simp add: Inr s' push_receipt_fields key_chain_snoc bt_get_remove drop_receipt_of_def)
qed

text \<open>The demo catalog with the view in it.\<close>

definition view_state :: MemoryState where
  "view_state = snd (upsert_view_if_version demo_env 3 demo_view None demo_state)"

lemma view_state_reachable: "reachable demo_env 3 view_state"
proof -
  have "exec demo_env 3 (UpsertView demo_view None) demo_state =
      (fst (discard (upsert_view_if_version demo_env 3 demo_view None demo_state)), view_state)"
    by (simp add: discard_def view_state_def)
  then show ?thesis
    by (rule reachable.step [OF demo_reachable, rotated 2]) (simp_all only: demo_view_valid(2))
qed

theorem drop_view_outcome_witness:
  "\<exists>v s'. drop_view_if_version demo_env 4 ''wh'' [''sales''] ''top'' demo_principal (Some 1) view_state = (Ok v, s') \<and>
     load_view demo_env s' ''wh'' [''sales''] ''top'' = Err (view_not_found ''top'')"
proof -
  have valid: "valid_name ''wh''" "valid_namespace [''sales'']" "valid_name ''top''" by code_simp+
  have "is_ok (fst (drop_view_if_version demo_env 4 ''wh'' [''sales''] ''top'' demo_principal (Some 1) view_state))"
    by code_simp
  then obtain v s' where ok: "drop_view_if_version demo_env 4 ''wh'' [''sales''] ''top'' demo_principal (Some 1) view_state = (Ok v, s')"
    by (rule is_okE)
  have "well_named (DropView ''wh'' [''sales''] ''top'' demo_principal (Some 1))" using valid by simp
  from drop_view_outcome [OF demo_env_ok view_state_reachable _ this
      list_receipts_eq(1) [OF reachable_chains [OF view_state_reachable demo_env_ok] valid(1,2)] ok] ok
  show ?thesis by auto
qed

subsection \<open>Concurrent writers\<close>

text \<open>
  Of any number of upserts of one view guarded by the same version at most one succeeds, in any
  state and whatever the readings of the clock.
\<close>

theorem guarded_upserts_single_winner:
  assumes "\<forall>a \<in> set attempts. view_key (va_view a) = key \<and> va_expected a = Some e"
    and "run_swaps (upsert_attempt E) attempts s = (steps, s')"
  shows "length (effects never_idle steps) \<le> 1"
proof (rule view_version.single_winner [OF _ _ _ assms(2), of key "Some e"])
  show "list_all (guarded_upsert_of key) attempts"
    using assms(1) by (auto simp: list_all_iff guarded_upsert_of_def)
  show "\<forall>b \<in> set attempts. va_expected b = Some e" using assms(1) by blast
  fix a t v t'
  assume a: "a \<in> set attempts" and op: "upsert_attempt E a t = (Ok v, t')"
  let ?v = "va_view a"
  have ok: "install_view E (va_now a) ?v t = (Ok v, t')"
    "map_option vw_view_version (bt_get (ms_views t) (view_key ?v)) = Some e"
    using op a assms(1)
    by (auto simp: upsert_attempt_def upsert_view_if_version_def Let_def qmark_ok require_expected_ok)
  then obtain u latest where u: "bt_get (ms_views t) (view_key ?v) = Some u" "vw_view_version u = e"
    "with_next_version_after_history E ?v (Some u) latest = Ok v"
    by (auto simp: install_view_def Let_def qmark_ok)
  then have "base_view_version (Some u) latest < vw_view_version v"
    using checked_add_one by (fastforce simp: with_next_version_after_history_def Let_def and_then_ok ok_or_ok)
  moreover have "vw_view_version u \<le> base_view_version (Some u) latest"
    by (simp add: base_view_version_def split: option.split)
  ultimately show "installs_version v \<noteq> Some e"
    using u(2) by (auto simp: installs_version_def)
qed

theorem guarded_upserts_single_winner_witness:
  "length (effects never_idle (fst (run_swaps (upsert_attempt demo_env)
     [\<lparr>va_now = 4, va_view = demo_view, va_expected = Some 1\<rparr>, \<lparr>va_now = 5, va_view = demo_view, va_expected = Some 1\<rparr>]
     (snd (upsert_view demo_env 3 demo_view demo_state))))) \<le> 1"
  by (rule guarded_upserts_single_winner [of _ "view_key demo_view" 1, OF _ prod.collapse [symmetric]]) simp

end
