(* ===== verification/QueueProperties.thy ===== *)
theory QueueProperties
  imports Demo
begin

section \<open>Properties of the outbox, models, grants and of every request\<close>

text \<open>
  Reading and acknowledging the outbox, the survival of undelivered events, the versions of a published
  model, the single assignment of a grant, and what all requests have in common: the invariants and the
  atomicity of failures.
\<close>

subsection \<open>The outbox\<close>

lemma due_eventsD:
  "ev \<in> set (due_events s sink) \<longleftrightarrow> ev \<in> set (ms_outbox_events s) \<and> undelivered ev \<and> sink_matches sink ev"
  by (auto simp: due_events_def)




text \<open>
  C27: an undelivered event outlives every sequence of requests, successful or failing, that does not
  acknowledge its id, and a read of the outbox large enough still returns it.
\<close>

theorem outbox_event_not_lost:
  assumes "reachable E clock s" "ev \<in> set (ms_outbox_events s)" "oe_delivered_at ev = None"
    and "sorted (clock # map fst reqs)" "list_all (\<lambda>(now, req). well_named req) reqs"
    and "\<forall>(now, req) \<in> set reqs. \<forall>ids. req = MarkOutboxDelivered ids \<longrightarrow> oe_event_id ev \<notin> set ids"
    and "run_requests E reqs s = (rs, s')" "length (ms_outbox_events s') \<le> limit"
  shows "\<exists>evs. pending_outbox_events E s' None limit = Ok evs \<and> ev \<in> set evs"
proof -
  have "reachable E (last (clock # map fst reqs)) s'"
    using reachable_run [OF assms(1,4,5)] assms(7) by simp
  then have "pending_outbox_events E s' None limit = Ok (take limit (due_events s' None))"
    using store_invD(6) [OF reachable_inv] pending_outbox_events_eq by blast
  moreover have "ev \<in> set (ms_outbox_events s')"
    using run_keeps_event [OF assms(7,2)] assms(6) by blast
  then have "ev \<in> set (due_events s' None)"
    using assms(3) by (simp add: due_eventsD undelivered_def sink_matches_def)
  moreover have "length (due_events s' None) \<le> limit"
    unfolding due_events_def length_sort by (rule le_trans [OF length_filter_le assms(8)])
  ultimately show ?thesis by simp
qed

text \<open>The demo catalog after the soft delete of its table holds the event of the deletion.\<close>

lemma demo_event: "\<exists>ev \<in> set (ms_outbox_events demo_deleted). oe_delivered_at ev = None"
proof -
  have "list_ex (\<lambda>ev. oe_delivered_at ev = None) (ms_outbox_events demo_deleted)" by code_simp
  then show ?thesis by (simp add: list_ex_iff)
qed


theorem outbox_event_not_lost_witness:
  "\<exists>ev s' evs. run_requests demo_env [(5, RestoreTable demo_ident demo_principal None)] demo_deleted =
       (fst (run_requests demo_env [(5, RestoreTable demo_ident demo_principal None)] demo_deleted), s') \<and>
     pending_outbox_events demo_env s' None (length (ms_outbox_events s')) = Ok evs \<and> ev \<in> set evs"
proof -
  obtain ev where ev: "ev \<in> set (ms_outbox_events demo_deleted)" "oe_delivered_at ev = None"
    using demo_event by blast
  let ?reqs = "[(5 :: int, RestoreTable demo_ident demo_principal None)]"
  have "sorted (3 # map fst ?reqs)" "list_all (\<lambda>(now, req). well_named req) ?reqs"
    "\<forall>(now, req) \<in> set ?reqs. \<forall>ids. req = MarkOutboxDelivered ids \<longrightarrow> oe_event_id ev \<notin> set ids"
    by (simp_all add: demo_valid)
  from outbox_event_not_lost [OF demo_deleted_reachable ev this prod.collapse [symmetric] order_refl]
  show ?thesis by (metis prod.collapse)
qed

subsection \<open>Models\<close>

text \<open>
  The publications of a model are numbered 1, 2, 3, ... in every reachable catalog. A publication
  succeeds only against the version it expects and is appended with the next number; a refused one
  leaves the publications of every model as they were.
\<close>

theorem model_versions_consecutive:
  assumes "reachable E clock s" "publish_model E now m expected s = (r, s')"
  shows "consecutive_versions (model_publications s w i) \<and>
     (case r of
        Inl e \<Rightarrow> \<forall>w i. model_publications s' w i = model_publications s w i
      | Inr m' \<Rightarrow> m' = m \<and> last_version (model_publications s (mp_warehouse m) (mp_model_id m)) = expected \<and>
          model_publications s' (mp_warehouse m) (mp_model_id m) =
            model_publications s (mp_warehouse m) (mp_model_id m) @ [m] \<and>
          unat (mp_version m) = Suc (length (model_publications s (mp_warehouse m) (mp_model_id m))) \<and>
          list_all (\<lambda>p. bt_contains (ms_policy_bindings s) (policy_binding_key (mp_warehouse m) p))
            (mp_policy_binding_ids m))"
proof -
  note models = store_invD(10) [OF reachable_inv [OF assms(1)]]
  note consecutive = model_publications_inv(1) [OF models]
  show ?thesis
  proof (cases r)
    case (Inl e)
    with assms(2) publish_model_err(1) consecutive show ?thesis by auto
  next
    case (Inr m')
    with assms(2) obtain audit outbox ps where pub: "m' = m" "model_publication_validate E m = Ok ()"
      "check_all (check_policy_exists E s (mp_warehouse m)) (mp_policy_binding_ids m) = Ok ()"
      "ps = model_publications s (mp_warehouse m) (mp_model_id m)" "last_version ps = expected"
      "mp_version m = (case expected of None \<Rightarrow> 0 | Some v \<Rightarrow> v) + 1"
      "s' = push_events audit outbox (s\<lparr>ms_model_publications :=
         bt_insert (model_publication_key (mp_warehouse m) (mp_model_id m)) (ps @ [m]) (ms_model_publications s)\<rparr>)"
      by (auto elim: publish_model_cases)
    have "consecutive_versions (ps @ [m])"
      using pub(4-6) consecutive model_publication_positive [OF pub(2)]
      by (intro consecutive_versions_snoc) simp_all
    then have "unat (mp_version m) = Suc (length ps)"
      by (simp add: consecutive_versions_def)
    moreover have "list_all (\<lambda>p. bt_contains (ms_policy_bindings s) (policy_binding_key (mp_warehouse m) p)) (mp_policy_binding_ids m)"
      using pub(3) by (auto simp: check_all_ok check_policy_exists_def list_all_iff split: if_split_asm)
    ultimately show ?thesis
      using consecutive pub(1,4,5) by (simp add: Inr pub(7) model_publications_insert)
  qed
qed

definition demo_model :: ModelPublication where
  "demo_model =
     \<lparr>mp_model_id = ''m'', mp_warehouse = ''wh'', mp_version = 1, mp_artifact_uri = ''https://h'',
      mp_artifact_hash = demo_digest, mp_physical_bindings = jobj [], mp_policy_binding_ids = [],
      mp_publisher = demo_principal, mp_published_at = 1\<rparr>"

theorem model_versions_consecutive_witness:
  "\<exists>s'. publish_model demo_env 3 demo_model None demo_state = (Ok demo_model, s') \<and>
     model_publications s' ''wh'' ''m'' = [demo_model]"
proof -
  have "is_ok (fst (publish_model demo_env 3 demo_model None demo_state))"
    "model_publications demo_state ''wh'' ''m'' = []" by code_simp+
  then obtain m' s' where ok: "publish_model demo_env 3 demo_model None demo_state = (Ok m', s')"
    and none: "model_publications demo_state ''wh'' ''m'' = []"
    by (auto elim: is_okE)
  from model_versions_consecutive [OF demo_reachable ok] none ok show ?thesis
    by (auto simp: demo_model_def)
qed

subsection \<open>Grants\<close>

lemma same_evidence_trans:
  "has_same_stable_evidence a b \<Longrightarrow> has_same_stable_evidence a c \<longleftrightarrow> has_same_stable_evidence b c"
  by (simp add: has_same_stable_evidence_def)

text \<open>
  A grant id is assigned once: after a save the grant loads under its id, saving the same evidence
  again returns the grant first stored and changes nothing, and saving other evidence under the id is a
  conflict that changes nothing.
\<close>

theorem grant_assigned_once:
  assumes "reachable E clock s" "save_governed_scan_grant E g s = (Ok g', s')"
  shows "load_governed_scan_grant E s' (gp_grant_id (gg_proof g)) = Ok g' \<and> has_same_stable_evidence g' g \<and>
     (\<forall>q. gp_grant_id (gg_proof q) = gp_grant_id (gg_proof g) \<longrightarrow> grant_validate E q = Ok () \<longrightarrow>
        save_governed_scan_grant E q s' =
          (if has_same_stable_evidence g q then Ok g'
           else Err (Conflict ''governed scan grant id was reused with different evidence''), s'))"
proof -
  let ?id = "gp_grant_id (gg_proof g)"
  have row: "bt_get (ms_governed_scan_grants s') ?id = Some g'" and same: "has_same_stable_evidence g' g"
    using assms(2) by (auto elim!: save_grant_cases simp: bt_get_insert has_same_stable_evidence_def)
  have "grants_inv E (ms_governed_scan_grants s')"
    using store_invD(11) [OF save_grant_inv [OF reachable_inv [OF assms(1)] assms(2)]] .
  then have valid: "grant_validate E g' = Ok ()" "gp_grant_id (gg_proof g') = ?id"
    unfolding grants_inv_def using rows_okD [OF _ row] by auto
  then have "validate_integrity E (gg_proof g') = Ok ()"
    by (auto simp: grant_validate_def and_then_ok)
  then have "validate_governed_scan_grant_id ?id = Ok ()"
    using valid(2) by (simp add: validate_integrity_ok validate_governed_scan_grant_id_def)
  with row valid have "load_governed_scan_grant E s' ?id = Ok g'"
    by (simp add: load_governed_scan_grant_def)
  moreover have "save_governed_scan_grant E q s' =
      (if has_same_stable_evidence g q then Ok g'
       else Err (Conflict ''governed scan grant id was reused with different evidence''), s')"
    if "gp_grant_id (gg_proof q) = ?id" "grant_validate E q = Ok ()" for q
    using that row same_evidence_trans [OF same, of q] by (simp add: save_governed_scan_grant_def)
  ultimately show ?thesis using same by blast
qed

definition demo_grant :: GovernedScanGrant where
  "demo_grant =
     \<lparr>gg_proof = demo_proof, gg_principal = \<lparr>pr_subject = ''alice'', pr_kind = Human\<rparr>,
      gg_requested_projection = [''id''], gg_policy_engine = ''audit'', gg_policy_hash_digest = None,
      gg_authorization_context_digest = demo_digest, gg_read_restriction_digest = demo_digest,
      gg_table_metadata_digest = demo_digest, gg_issued_at = 1\<rparr>"

theorem grant_assigned_once_witness:
  "\<exists>s'. save_governed_scan_grant demo_env demo_grant demo_state = (Ok demo_grant, s') \<and>
     load_governed_scan_grant demo_env s' demo_digest = Ok demo_grant"
proof -
  have "validate_governed_scan_requested_projection [''id''] = Ok ()"
    by (simp add: validate_governed_scan_requested_projection_def validate_projection_def demo_canonical
        validate_text_ok [THEN iffD2] validate_string_budget_ok [THEN iffD2] usize_max_def
        MAX_GOVERNED_SCAN_PROJECTION_FIELDS_def MAX_GOVERNED_SCAN_PROJECTION_BYTES_def)
  then have "grant_validate demo_env demo_grant = Ok ()"
    by (simp add: grant_validate_def demo_grant_def demo_canonical validate_text_ok [THEN iffD2]
        demo_digest_valid demo_proof_valid)
      (simp add: demo_proof_def proof_of_evidence_def demo_evidence_def)
  moreover have "ms_governed_scan_grants demo_state = []" by code_simp
  ultimately have ok: "save_governed_scan_grant demo_env demo_grant demo_state =
      (Ok demo_grant, demo_state\<lparr>ms_governed_scan_grants := bt_insert (gp_grant_id (gg_proof demo_grant)) demo_grant []\<rparr>)"
    by (simp add: save_governed_scan_grant_def)
  moreover have "gp_grant_id (gg_proof demo_grant) = demo_digest"
    by (simp add: demo_grant_def demo_proof_def proof_of_evidence_def)
  ultimately show ?thesis using grant_assigned_once [OF demo_reachable ok] ok by auto
qed

subsection \<open>All requests\<close>

text \<open>
  C3: every reachable catalog satisfies the catalog invariant and the invariant of the receipt chains:
  rows are stored under their own keys and valid, the rows they refer to exist, logs and chains are
  linked, events are well formed.
\<close>

theorem reachable_invariant:
  assumes "env_ok E" "reachable E clock s"
  shows "store_inv E s \<and> chains_inv E clock (ms_views s) (ms_view_version_receipts s)"
  using reachable_inv [OF assms(2)] reachable_chains [OF assms(2,1)] by blast

theorem reachable_invariant_witness:
  "store_inv demo_env demo_deleted"
  using reachable_invariant [OF demo_env_ok demo_deleted_reachable] by blast

text \<open>
  C26: a request that fails in a reachable catalog changes nothing: every field is as before, up to an
  empty list of publications under the key of a model that has none.
\<close>

theorem failed_request_changes_nothing:
  assumes "env_ok E" "reachable E clock s" "clock \<le> now" "well_named req" "exec E now req s = (Err e, s')"
  shows "s'\<lparr>ms_model_publications := ms_model_publications s\<rparr> = s \<and>
     (\<forall>w i. model_publications s' w i = model_publications s w i)"
proof -
  have "same_catalog s s'"
    by (rule exec_failed [OF assms(1) reachable_inv [OF assms(2)] reachable_chains [OF assms(2,1)] assms(3-5)])
  then show ?thesis
    by (simp add: same_catalog_def) (metis MemoryState.surjective MemoryState.update_convs(14))
qed

theorem failed_request_changes_nothing_witness:
  "\<exists>e s'. exec demo_env 4 (SoftDeleteTable demo_ident demo_principal None) demo_deleted = (Err e, s') \<and>
     s'\<lparr>ms_model_publications := ms_model_publications demo_deleted\<rparr> = demo_deleted"
proof -
  have "\<not> is_ok (fst (exec demo_env 4 (SoftDeleteTable demo_ident demo_principal None) demo_deleted))" by code_simp
  then obtain e s' where err: "exec demo_env 4 (SoftDeleteTable demo_ident demo_principal None) demo_deleted = (Err e, s')"
    by (metis is_okE is_ok_def old.sum.exhaust prod.collapse sum.simps(6))
  have "well_named (SoftDeleteTable demo_ident demo_principal None)" by (simp add: demo_valid)
  from failed_request_changes_nothing [OF demo_env_ok demo_deleted_reachable _ this err] err show ?thesis by auto
qed

end
