(* ===== verification/OdrlPolicies.thy ===== *)
theory OdrlPolicies
  imports LakeCore
begin

section \<open>ODRL policies\<close>

text \<open>
  How \<open>crates/lakecat-security/src/lib.rs\<close> reads a read restriction out of one ODRL policy: the
  JSON-LD accessors, the column routines with their hashed variant for long lists, and the four
  readers \<open>allowed_columns_from_odrl\<close>, \<open>row_predicate_from_odrl\<close>, \<open>purpose_from_odrl\<close> and
  \<open>ttl_from_odrl\<close>, each with its loop over the constraints of the policy.
\<close>

subsection \<open>Options\<close>

definition or_else :: "'a option \<Rightarrow> 'a option \<Rightarrow> 'a option" where
  "or_else a b = (case a of None \<Rightarrow> b | Some x \<Rightarrow> Some x)"

fun flatten_options :: "'a option list \<Rightarrow> 'a list" where
  "flatten_options [] = []"
| "flatten_options (None # xs) = flatten_options xs"
| "flatten_options (Some x # xs) = x # flatten_options xs"

definition first_some :: "'a option list \<Rightarrow> 'a option" where
  "first_some xs = (case flatten_options xs of [] \<Rightarrow> None | x # _ \<Rightarrow> Some x)"

text \<open>\<open>value.get(a).and_then(|v| v.get(b))\<close>\<close>

definition jget2 :: "json \<Rightarrow> string \<Rightarrow> string \<Rightarrow> json option" where
  "jget2 v a b = Option.bind (jget v a) (\<lambda>w. jget w b)"

subsection \<open>Columns\<close>

definition LINEAR_COLUMN_LOOKUP_MAX :: nat where
  "LINEAR_COLUMN_LOOKUP_MAX = 32"

text \<open>The flags \<open>seen.insert(column)\<close> of the hashed path, and the quadratic path.\<close>

fun first_occurrence_flags :: "string set \<Rightarrow> string list \<Rightarrow> bool list" where
  "first_occurrence_flags seen [] = []"
| "first_occurrence_flags seen (c # cs) = (c \<notin> seen) # first_occurrence_flags (insert c seen) cs"

fun dedup_linear :: "string list \<Rightarrow> string list \<Rightarrow> string list" where
  "dedup_linear out [] = out"
| "dedup_linear out (c # cs) =
     dedup_linear (if list_ex (\<lambda>existing. existing = c) out then out else out @ [c]) cs"

definition dedup_columns :: "string list \<Rightarrow> string list" where
  "dedup_columns columns =
     (if LINEAR_COLUMN_LOOKUP_MAX < length columns then
        map fst (filter snd (zip columns (first_occurrence_flags {} columns)))
      else dedup_linear [] columns)"

definition retain_allowed_columns :: "string list \<Rightarrow> string list \<Rightarrow> string list" where
  "retain_allowed_columns requested allowed =
     (if length allowed \<le> LINEAR_COLUMN_LOOKUP_MAX then
        filter (\<lambda>column. list_ex (\<lambda>a. a = column) allowed) requested
      else let allowed_set = set allowed in filter (\<lambda>column. column \<in> allowed_set) requested)"

definition intersect_columns :: "string list \<Rightarrow> string list \<Rightarrow> string list" where
  "intersect_columns left right = retain_allowed_columns left right"

subsection \<open>JSON-LD values\<close>

definition as_u64 :: "json \<Rightarrow> 64 word option" where
  "as_u64 v = u64_from_json v"

text \<open>\<open>str::parse::<u64>\<close>: an optional plus sign, decimal digits, no overflow.\<close>

definition parse_u64 :: "string \<Rightarrow> 64 word option" where
  "parse_u64 s =
     (let digits = (case s of c # rest \<Rightarrow> (if c = CHR ''+'' then rest else s) | [] \<Rightarrow> [])
      in if digits = [] \<or> \<not> list_all is_ascii_digit digits then None
         else if decimal_value digits < 2 ^ 64 then Some (of_nat (decimal_value digits)) else None)"

definition jsonld_term :: "json \<Rightarrow> string option" where
  "jsonld_term v = or_else (as_str v) (Option.bind (jget v ''@id'') as_str)"

definition jsonld_string_value :: "json \<Rightarrow> string option" where
  "jsonld_string_value v = or_else (as_str v) (Option.bind (jget v ''@value'') as_str)"

definition jsonld_u64_value :: "json \<Rightarrow> 64 word option" where
  "jsonld_u64_value v =
     or_else (as_u64 v)
       (Option.bind (jget v ''@value'') (\<lambda>w. or_else (as_u64 w) (Option.bind (as_str w) parse_u64)))"

definition require_nonblank_string :: "string \<Rightarrow> string \<Rightarrow> string result" where
  "require_nonblank_string value label =
     (if blank value then Err (InvalidArgument (label @ '' must not be blank'')) else Ok value)"

definition nonblank_jsonld_string :: "json \<Rightarrow> string \<Rightarrow> string result" where
  "nonblank_jsonld_string v label =
     and_then (ok_or (InvalidArgument (label @ '' must be strings'')) (jsonld_string_value v))
       (\<lambda>value. require_nonblank_string value label)"

definition string_list_raw :: "json \<Rightarrow> string \<Rightarrow> string list result" where
  "string_list_raw v label =
     (case v of
        JArr values \<Rightarrow> traverse (\<lambda>item. nonblank_jsonld_string item label) values
      | _ \<Rightarrow>
        if jget v ''@list'' \<noteq> None then
          and_then (ok_or (InvalidArgument (label @ '' @list must be an array''))
                     (Option.bind (jget v ''@list'') as_array))
            (traverse (\<lambda>item. nonblank_jsonld_string item label))
        else if jsonld_string_value v \<noteq> None then
          and_then (nonblank_jsonld_string v label) (\<lambda>value. Ok [value])
        else Err (InvalidArgument (label @ '' must be a string or string array'')))"

definition string_list :: "json \<Rightarrow> string \<Rightarrow> string list result" where
  "string_list v label =
     and_then (string_list_raw v label) (\<lambda>raw.
     if raw = [] then Err (InvalidArgument (label @ '' must not be empty''))
     else Ok (dedup_columns raw))"

definition values_as_slice :: "json option \<Rightarrow> json list" where
  "values_as_slice value =
     (case value of
        Some v \<Rightarrow> (case v of JArr values \<Rightarrow> values | _ \<Rightarrow> [v])
      | None \<Rightarrow> [])"

definition odrl_constraints :: "json \<Rightarrow> json list" where
  "odrl_constraints odrl =
     concat (map (\<lambda>permission. values_as_slice (jget permission ''constraint''))
               (values_as_slice (jget odrl ''permission''))) @
     values_as_slice (jget odrl ''constraint'')"

subsection \<open>Constraints\<close>

definition constraint_operator :: "json \<Rightarrow> string option" where
  "constraint_operator c =
     Option.bind (or_else (jget c ''operator'') (jget c ''odrl:operator'')) jsonld_term"

definition constraint_left_operand :: "json \<Rightarrow> string option" where
  "constraint_left_operand c =
     Option.bind (or_else (or_else (jget c ''leftOperand'') (jget c ''left-operand''))
                    (jget c ''odrl:leftOperand'')) jsonld_term"

definition constraint_right_operand :: "json \<Rightarrow> string \<Rightarrow> json result" where
  "constraint_right_operand c label =
     ok_or (InvalidArgument (''ODRL '' @ label @ '' constraint must include a right operand''))
       (or_else (or_else (jget c ''rightOperand'') (jget c ''right-operand''))
          (jget c ''odrl:rightOperand''))"

definition require_constraint_operator :: "json \<Rightarrow> string \<Rightarrow> string list \<Rightarrow> unit result" where
  "require_constraint_operator c label allowed =
     (case constraint_operator c of
        None \<Rightarrow> Err (InvalidArgument (''ODRL '' @ label @ '' constraint must include an operator''))
      | Some operator \<Rightarrow>
          let normalized =
                (case or_else (strip_prefix operator ''odrl:'')
                        (strip_prefix operator ''http://www.w3.org/ns/odrl/2/'') of
                   None \<Rightarrow> operator | Some rest \<Rightarrow> rest)
          in if list_ex (\<lambda>a. a = normalized) allowed then Ok ()
             else Err (InvalidArgument (''ODRL '' @ label @ '' constraint uses unsupported operator '' @
                    operator)))"

text \<open>\<open>constraint_left_operand(c).unwrap_or_default()\<close> is one of the listed terms.\<close>

definition left_operand_in :: "json \<Rightarrow> string list \<Rightarrow> bool" where
  "left_operand_in c terms =
     ((case constraint_left_operand c of None \<Rightarrow> [] | Some left \<Rightarrow> left) \<in> set terms)"

subsection \<open>Allowed columns\<close>

definition explicit_columns :: "json \<Rightarrow> json option" where
  "explicit_columns odrl =
     first_some
       [jget odrl ''allowed-columns'', jget odrl ''allowedColumns'', jget odrl ''columns'',
        jget2 odrl ''lakecat:read-restriction'' ''allowed-columns'',
        jget2 odrl ''lakecat:read-restriction'' ''allowedColumns'',
        jget2 odrl ''read-restriction'' ''allowed-columns'',
        jget2 odrl ''readRestriction'' ''allowedColumns'']"

definition column_terms :: "string list" where
  "column_terms =
     [''column'', ''columns'', ''allowed-columns'', ''allowedColumns'', ''lakecat:allowed-columns'']"

fun constraint_columns :: "string list \<Rightarrow> json list \<Rightarrow> string list result" where
  "constraint_columns columns [] = Ok columns"
| "constraint_columns columns (c # cs) =
     (if left_operand_in c column_terms then
        and_then (constraint_right_operand c ''allowed columns'') (\<lambda>value.
        and_then (require_constraint_operator c ''allowed columns'' [''eq'', ''isAnyOf'', ''isAllOf'']) (\<lambda>_.
        and_then (string_list value ''ODRL allowed columns'') (\<lambda>more.
        constraint_columns (columns @ more) cs)))
      else constraint_columns columns cs)"

definition allowed_columns_from_odrl :: "json \<Rightarrow> string list option result" where
  "allowed_columns_from_odrl odrl =
     (case explicit_columns odrl of
        Some value \<Rightarrow> map_ok Some (string_list value ''ODRL allowed columns'')
      | None \<Rightarrow>
          and_then (constraint_columns [] (odrl_constraints odrl)) (\<lambda>columns.
          if columns = [] then Ok None else Ok (Some (dedup_columns columns))))"

subsection \<open>Row predicates\<close>

definition row_predicate_value :: "json \<Rightarrow> json result" where
  "row_predicate_value value =
     (if is_object value then Ok value
      else Err (InvalidArgument ''ODRL row predicate must be an Iceberg expression object''))"

definition and_row_predicates :: "json \<Rightarrow> json \<Rightarrow> json" where
  "and_row_predicates left right =
     jobj [(''type'', JStr ''and''), (''left'', left), (''right'', right)]"

definition explicit_predicate :: "json \<Rightarrow> json option" where
  "explicit_predicate odrl =
     first_some
       [jget odrl ''row-predicate'', jget odrl ''rowPredicate'', jget odrl ''lakecat:row-predicate'',
        jget2 odrl ''lakecat:read-restriction'' ''row-predicate'',
        jget2 odrl ''lakecat:read-restriction'' ''rowPredicate'',
        jget2 odrl ''read-restriction'' ''row-predicate'',
        jget2 odrl ''readRestriction'' ''rowPredicate'']"

definition predicate_terms :: "string list" where
  "predicate_terms = [''row-predicate'', ''rowPredicate'', ''lakecat:row-predicate'']"

fun constraint_predicate :: "json option \<Rightarrow> json list \<Rightarrow> json option result" where
  "constraint_predicate predicate [] = Ok predicate"
| "constraint_predicate predicate (c # cs) =
     (if left_operand_in c predicate_terms then
        and_then (constraint_right_operand c ''row predicate'') (\<lambda>value.
        and_then (require_constraint_operator c ''row predicate'' [''eq'']) (\<lambda>_.
        and_then (row_predicate_value value) (\<lambda>next_predicate.
        constraint_predicate
          (Some (case predicate of
                   Some existing \<Rightarrow> and_row_predicates existing next_predicate
                 | None \<Rightarrow> next_predicate)) cs)))
      else constraint_predicate predicate cs)"

definition row_predicate_from_odrl :: "json \<Rightarrow> json option result" where
  "row_predicate_from_odrl odrl =
     (case explicit_predicate odrl of
        Some value \<Rightarrow> map_ok Some (row_predicate_value value)
      | None \<Rightarrow> constraint_predicate None (odrl_constraints odrl))"

subsection \<open>Purpose\<close>

definition conflicting_purposes :: "string \<Rightarrow> string \<Rightarrow> error" where
  "conflicting_purposes existing next_purpose =
     Conflict (''ODRL read restriction carries conflicting purposes '' @ existing @ '' and '' @ next_purpose)"

definition merge_purpose :: "string option \<Rightarrow> string \<Rightarrow> string result" where
  "merge_purpose purpose next_purpose =
     (case purpose of
        Some existing \<Rightarrow>
          if existing = next_purpose then Ok existing
          else Err (conflicting_purposes existing next_purpose)
      | None \<Rightarrow> Ok next_purpose)"

definition purpose_terms :: "string list" where
  "purpose_terms = [''purpose'', ''lakecat:purpose'']"

fun constraint_purpose :: "string option \<Rightarrow> json list \<Rightarrow> string option result" where
  "constraint_purpose purpose [] = Ok purpose"
| "constraint_purpose purpose (c # cs) =
     (if left_operand_in c purpose_terms then
        and_then (require_constraint_operator c ''purpose'' [''eq'']) (\<lambda>_.
        and_then (constraint_right_operand c ''purpose'') (\<lambda>right_operand.
        and_then (ok_or (InvalidArgument ''ODRL purpose constraint must use a string right operand'')
                   (jsonld_string_value right_operand)) (\<lambda>value.
        and_then (require_nonblank_string value ''ODRL purpose constraint'') (\<lambda>next_purpose.
        and_then (merge_purpose purpose next_purpose) (\<lambda>merged.
        constraint_purpose (Some merged) cs)))))
      else constraint_purpose purpose cs)"

definition purpose_from_odrl :: "json \<Rightarrow> string option result" where
  "purpose_from_odrl odrl =
     and_then (case jget odrl ''purpose'' of
                 None \<Rightarrow> Ok None
               | Some value \<Rightarrow> map_ok Some (nonblank_jsonld_string value ''ODRL purpose''))
       (\<lambda>purpose. constraint_purpose purpose (odrl_constraints odrl))"

subsection \<open>Credential lifetime\<close>

definition ttl_value :: "json \<Rightarrow> 64 word option result" where
  "ttl_value value =
     ok_or (InvalidArgument ''ODRL max credential TTL must be an unsigned integer number of seconds'')
       (map_option Some (jsonld_u64_value value))"

definition tighten_ttl :: "64 word option \<Rightarrow> 64 word option \<Rightarrow> 64 word option" where
  "tighten_ttl existing next_ttl =
     (case (existing, next_ttl) of
        (Some e, Some n) \<Rightarrow> Some (min e n)
      | (Some e, None) \<Rightarrow> Some e
      | (None, n) \<Rightarrow> n)"

definition explicit_ttls :: "json \<Rightarrow> json list" where
  "explicit_ttls odrl =
     flatten_options
       [jget odrl ''max-credential-ttl-seconds'', jget odrl ''maxCredentialTtlSeconds'',
        jget2 odrl ''lakecat:read-restriction'' ''max-credential-ttl-seconds'',
        jget2 odrl ''lakecat:read-restriction'' ''maxCredentialTtlSeconds'',
        jget2 odrl ''read-restriction'' ''max-credential-ttl-seconds'',
        jget2 odrl ''readRestriction'' ''maxCredentialTtlSeconds'']"

fun tighten_by_values :: "64 word option \<Rightarrow> json list \<Rightarrow> 64 word option result" where
  "tighten_by_values ttl [] = Ok ttl"
| "tighten_by_values ttl (v # vs) =
     and_then (ttl_value v) (\<lambda>next_ttl. tighten_by_values (tighten_ttl ttl next_ttl) vs)"

definition ttl_terms :: "string list" where
  "ttl_terms =
     [''max-credential-ttl-seconds'', ''maxCredentialTtlSeconds'', ''credential-ttl'', ''credentialTtl'',
      ''lakecat:max-credential-ttl-seconds'', ''lakecat:credential-ttl'']"

fun tighten_by_constraints :: "64 word option \<Rightarrow> json list \<Rightarrow> 64 word option result" where
  "tighten_by_constraints ttl [] = Ok ttl"
| "tighten_by_constraints ttl (c # cs) =
     (if left_operand_in c ttl_terms then
        and_then (constraint_right_operand c ''max credential TTL'') (\<lambda>value.
        and_then (require_constraint_operator c ''max credential TTL'' [''eq'', ''lteq'', ''lt'']) (\<lambda>_.
        and_then (ttl_value value) (\<lambda>next_ttl.
        tighten_by_constraints (tighten_ttl ttl next_ttl) cs)))
      else tighten_by_constraints ttl cs)"

definition ttl_from_odrl :: "json \<Rightarrow> 64 word option result" where
  "ttl_from_odrl odrl =
     and_then (tighten_by_values None (explicit_ttls odrl)) (\<lambda>ttl.
     tighten_by_constraints ttl (odrl_constraints odrl))"

section \<open>Read restrictions\<close>

text \<open>
  \<open>ReadRestriction\<close> of \<open>crates/lakecat-security/src/lib.rs\<close>: its JSON forms, its composition from
  the ODRL policies in force (\<open>from_odrl_policies\<close>), and what a reader gets under it
  (\<open>effective_projection\<close>, \<open>effective_stats_fields\<close>, \<open>mandatory_filters\<close>).
\<close>

record ReadRestriction =
  rr_allowed_columns :: "string list option"
  rr_row_predicate :: "json option"
  rr_purpose :: "string option"
  rr_max_credential_ttl_seconds :: "64 word option"
  rr_policy_hashes :: "string list"

definition unrestricted :: ReadRestriction where
  "unrestricted =
     \<lparr>rr_allowed_columns = None, rr_row_predicate = None, rr_purpose = None,
      rr_max_credential_ttl_seconds = None, rr_policy_hashes = []\<rparr>"

definition is_unrestricted :: "ReadRestriction \<Rightarrow> bool" where
  "is_unrestricted r \<longleftrightarrow>
     rr_allowed_columns r = None \<and> rr_row_predicate r = None \<and> rr_purpose r = None \<and>
     rr_max_credential_ttl_seconds r = None"

definition requires_governed_read :: "ReadRestriction \<Rightarrow> bool" where
  "requires_governed_read r \<longleftrightarrow> rr_allowed_columns r \<noteq> None \<or> rr_row_predicate r \<noteq> None"

subsection \<open>JSON forms\<close>

definition read_restriction_json :: "ReadRestriction \<Rightarrow> json" where
  "read_restriction_json r =
     jobj (jskip ''allowed-columns'' jstrs (rr_allowed_columns r) @
           jskip ''row-predicate'' (\<lambda>v. v) (rr_row_predicate r) @
           jskip ''purpose'' JStr (rr_purpose r) @
           jskip ''max-credential-ttl-seconds'' ju64 (rr_max_credential_ttl_seconds r) @
           (if rr_policy_hashes r = [] then []
            else [(''policy-hashes'', jstrs (rr_policy_hashes r))]))"

text \<open>
  Derived deserialisation with \<open>#[serde(default)]\<close> on every field: an absent field, and a field an
  array is too short for, takes its default; an optional field over \<open>Null\<close> is \<open>None\<close>. The result
  is \<open>None\<close> where Serde reports an error.
\<close>

definition opt_from_json :: "(json \<Rightarrow> 'a option) \<Rightarrow> json option \<Rightarrow> 'a option option" where
  "opt_from_json f v =
     (case v of
        None \<Rightarrow> Some None
      | Some JNull \<Rightarrow> Some None
      | Some w \<Rightarrow> map_option Some (f w))"

definition strings_or_default :: "json option \<Rightarrow> string list option" where
  "strings_or_default v = (case v of None \<Rightarrow> Some [] | Some w \<Rightarrow> strings_from_json w)"

definition restriction_of_fields ::
  "json option \<Rightarrow> json option \<Rightarrow> json option \<Rightarrow> json option \<Rightarrow> json option \<Rightarrow> ReadRestriction option" where
  "restriction_of_fields c p q t h =
     (case (opt_from_json strings_from_json c, opt_from_json Some p, opt_from_json as_str q,
            opt_from_json u64_from_json t, strings_or_default h) of
        (Some cols, Some predicate, Some purpose, Some ttl, Some hashes) \<Rightarrow>
          Some \<lparr>rr_allowed_columns = cols, rr_row_predicate = predicate, rr_purpose = purpose,
                rr_max_credential_ttl_seconds = ttl, rr_policy_hashes = hashes\<rparr>
      | _ \<Rightarrow> None)"

definition nth_field :: "json list \<Rightarrow> nat \<Rightarrow> json option" where
  "nth_field xs i = (if i < length xs then Some (xs ! i) else None)"

definition read_restriction_from_json :: "json \<Rightarrow> ReadRestriction option" where
  "read_restriction_from_json v =
     (case v of
        JObj _ \<Rightarrow>
          restriction_of_fields (jget v ''allowed-columns'') (jget v ''row-predicate'')
            (jget v ''purpose'') (jget v ''max-credential-ttl-seconds'') (jget v ''policy-hashes'')
      | JArr xs \<Rightarrow>
          if 5 < length xs then None
          else restriction_of_fields (nth_field xs 0) (nth_field xs 1) (nth_field xs 2)
                 (nth_field xs 3) (nth_field xs 4)
      | _ \<Rightarrow> None)"

subsection \<open>Composition\<close>

definition push_policy_hash :: "env \<Rightarrow> json \<Rightarrow> ReadRestriction \<Rightarrow> ReadRestriction result" where
  "push_policy_hash E odrl r =
     and_then (content_hash_json E odrl) (\<lambda>policy_hash.
     Ok (r\<lparr>rr_policy_hashes := rr_policy_hashes r @ [policy_hash]\<rparr>))"

definition restrict_columns :: "json \<Rightarrow> ReadRestriction \<Rightarrow> ReadRestriction result" where
  "restrict_columns odrl r =
     and_then (allowed_columns_from_odrl odrl) (\<lambda>found.
     Ok (case found of
           None \<Rightarrow> r
         | Some columns \<Rightarrow>
             r\<lparr>rr_allowed_columns := Some (case rr_allowed_columns r of
                 Some existing \<Rightarrow> intersect_columns existing columns | None \<Rightarrow> columns)\<rparr>))"

definition restrict_rows :: "json \<Rightarrow> ReadRestriction \<Rightarrow> ReadRestriction result" where
  "restrict_rows odrl r =
     and_then (row_predicate_from_odrl odrl) (\<lambda>found.
     Ok (case found of
           None \<Rightarrow> r
         | Some row_predicate \<Rightarrow>
             r\<lparr>rr_row_predicate := Some (case rr_row_predicate r of
                 Some existing \<Rightarrow> and_row_predicates existing row_predicate | None \<Rightarrow> row_predicate)\<rparr>))"

definition restrict_purpose :: "json \<Rightarrow> ReadRestriction \<Rightarrow> ReadRestriction result" where
  "restrict_purpose odrl r =
     and_then (purpose_from_odrl odrl) (\<lambda>found.
     case found of
       None \<Rightarrow> Ok r
     | Some purpose \<Rightarrow>
         and_then (merge_purpose (rr_purpose r) purpose) (\<lambda>merged.
         Ok (r\<lparr>rr_purpose := Some merged\<rparr>)))"

definition restrict_ttl :: "json \<Rightarrow> ReadRestriction \<Rightarrow> ReadRestriction result" where
  "restrict_ttl odrl r =
     and_then (ttl_from_odrl odrl) (\<lambda>found.
     Ok (case found of
           None \<Rightarrow> r
         | Some ttl \<Rightarrow>
             r\<lparr>rr_max_credential_ttl_seconds := Some (case rr_max_credential_ttl_seconds r of
                 Some existing \<Rightarrow> min existing ttl | None \<Rightarrow> ttl)\<rparr>))"

text \<open>The body of the loop over the policies.\<close>

definition compose_odrl_policy :: "env \<Rightarrow> json \<Rightarrow> ReadRestriction \<Rightarrow> ReadRestriction result" where
  "compose_odrl_policy E odrl r =
     and_then (push_policy_hash E odrl r) (\<lambda>r1.
     and_then (restrict_columns odrl r1) (\<lambda>r2.
     and_then (restrict_rows odrl r2) (\<lambda>r3.
     and_then (restrict_purpose odrl r3) (\<lambda>r4.
     restrict_ttl odrl r4))))"

fun compose_odrl_policies :: "env \<Rightarrow> ReadRestriction \<Rightarrow> json list \<Rightarrow> ReadRestriction result" where
  "compose_odrl_policies E r [] = Ok r"
| "compose_odrl_policies E r (odrl # policies) =
     and_then (compose_odrl_policy E odrl r) (\<lambda>r'. compose_odrl_policies E r' policies)"

definition from_odrl_policies :: "env \<Rightarrow> json list \<Rightarrow> ReadRestriction result" where
  "from_odrl_policies E policies = compose_odrl_policies E unrestricted policies"

subsection \<open>Reading under a restriction\<close>

definition effective_projection :: "ReadRestriction \<Rightarrow> string list \<Rightarrow> string list result" where
  "effective_projection r requested_projection =
     (case rr_allowed_columns r of
        None \<Rightarrow> Ok requested_projection
      | Some allowed_columns \<Rightarrow>
          if allowed_columns = [] then
            Err (Conflict ''read restriction leaves no columns available for scan planning'')
          else if requested_projection = [] then Ok allowed_columns
          else
            let projection = retain_allowed_columns requested_projection allowed_columns
            in if projection = [] then
                 Err (Conflict ''requested projection is outside the governed read restriction'')
               else Ok projection)"

definition effective_stats_fields :: "ReadRestriction \<Rightarrow> string list \<Rightarrow> string list" where
  "effective_stats_fields r requested =
     (case rr_allowed_columns r of
        None \<Rightarrow> requested
      | Some allowed_columns \<Rightarrow> retain_allowed_columns requested allowed_columns)"

definition mandatory_filters :: "ReadRestriction \<Rightarrow> json list" where
  "mandatory_filters r = (case rr_row_predicate r of None \<Rightarrow> [] | Some p \<Rightarrow> [p])"

end
