(* ===== verification/Capabilities.thy ===== *)
theory Capabilities
  imports OdrlPolicies
begin

section \<open>Authorization receipts and capabilities\<close>

text \<open>
  The rest of \<open>crates/lakecat-security/src/lib.rs\<close>: requests and receipts, the policy hash that
  binds a receipt to its read restriction, and the capability types. A \<open>Capability\<close> has the
  phantom action of the source as a type argument, so a capability for one action is not one for
  another in the model either. The governance engine is a function argument where a component
  calls it; \<open>AllowAllGovernanceEngine\<close> is the one the repository has. Serde's error text for a
  malformed restriction is the argument \<open>serde_error\<close>.
\<close>

datatype CatalogAction =
    CatalogConfig
  | NamespaceCreate | NamespaceList | NamespaceLoad | NamespaceUpdate | NamespaceDrop
  | TableCreate | TableRegister | TableRename | TableLoad | TablePlanScan | TableCommit
  | TableDrop | TableRestore
  | CredentialsVend
  | ViewLoad | ViewDrop
  | ServerManage | ProjectManage | WarehouseManage | StorageProfileManage | ViewManage
  | PolicyManage
  | GraphRead | LineageRead

fun action_name :: "CatalogAction \<Rightarrow> string" where
  "action_name CatalogConfig = ''catalog.config''"
| "action_name NamespaceCreate = ''namespace.create''"
| "action_name NamespaceList = ''namespace.list''"
| "action_name NamespaceLoad = ''namespace.load''"
| "action_name NamespaceUpdate = ''namespace.update''"
| "action_name NamespaceDrop = ''namespace.drop''"
| "action_name TableCreate = ''table.create''"
| "action_name TableRegister = ''table.register''"
| "action_name TableRename = ''table.rename''"
| "action_name TableLoad = ''table.load''"
| "action_name TablePlanScan = ''table.plan_scan''"
| "action_name TableCommit = ''table.commit''"
| "action_name TableDrop = ''table.drop''"
| "action_name TableRestore = ''table.restore''"
| "action_name CredentialsVend = ''credentials.vend''"
| "action_name ViewLoad = ''view.load''"
| "action_name ViewDrop = ''view.drop''"
| "action_name ServerManage = ''server.manage''"
| "action_name ProjectManage = ''project.manage''"
| "action_name WarehouseManage = ''warehouse.manage''"
| "action_name StorageProfileManage = ''storage_profile.manage''"
| "action_name ViewManage = ''view.manage''"
| "action_name PolicyManage = ''policy.manage''"
| "action_name GraphRead = ''graph.read''"
| "action_name LineageRead = ''lineage.read''"

text \<open>The names of the variants: as \<open>Debug\<close> prints them, and in kebab case as Serde writes them.\<close>

fun action_debug :: "CatalogAction \<Rightarrow> string" where
  "action_debug CatalogConfig = ''CatalogConfig''"
| "action_debug NamespaceCreate = ''NamespaceCreate''"
| "action_debug NamespaceList = ''NamespaceList''"
| "action_debug NamespaceLoad = ''NamespaceLoad''"
| "action_debug NamespaceUpdate = ''NamespaceUpdate''"
| "action_debug NamespaceDrop = ''NamespaceDrop''"
| "action_debug TableCreate = ''TableCreate''"
| "action_debug TableRegister = ''TableRegister''"
| "action_debug TableRename = ''TableRename''"
| "action_debug TableLoad = ''TableLoad''"
| "action_debug TablePlanScan = ''TablePlanScan''"
| "action_debug TableCommit = ''TableCommit''"
| "action_debug TableDrop = ''TableDrop''"
| "action_debug TableRestore = ''TableRestore''"
| "action_debug CredentialsVend = ''CredentialsVend''"
| "action_debug ViewLoad = ''ViewLoad''"
| "action_debug ViewDrop = ''ViewDrop''"
| "action_debug ServerManage = ''ServerManage''"
| "action_debug ProjectManage = ''ProjectManage''"
| "action_debug WarehouseManage = ''WarehouseManage''"
| "action_debug StorageProfileManage = ''StorageProfileManage''"
| "action_debug ViewManage = ''ViewManage''"
| "action_debug PolicyManage = ''PolicyManage''"
| "action_debug GraphRead = ''GraphRead''"
| "action_debug LineageRead = ''LineageRead''"

fun kebab_case :: "string \<Rightarrow> string" where
  "kebab_case [] = []"
| "kebab_case (c # s) =
     (if to_ascii_lower c \<noteq> c then CHR ''-'' # to_ascii_lower c # kebab_case s else c # kebab_case s)"

definition action_json :: "CatalogAction \<Rightarrow> json" where
  "action_json a = JStr (tl (kebab_case (action_debug a)))"

record AuthorizationRequest =
  aq_principal :: Principal
  aq_action :: CatalogAction
  aq_table :: "TableIdent option"
  aq_context :: json

record AuthorizationReceipt =
  ar_principal :: Principal
  ar_action :: CatalogAction
  ar_table :: "TableIdent option"
  ar_allowed :: bool
  ar_engine :: string
  ar_policy_hash :: "string option"
  ar_context :: json
  ar_checked_at :: int

definition resource_name :: "AuthorizationRequest \<Rightarrow> string" where
  "resource_name request =
     (case aq_table request of Some table \<Rightarrow> table_stable_id table | None \<Rightarrow> ''lakecat:catalog'')"

subsection \<open>The receipt's policy hash\<close>

definition invalid_restriction :: "(json \<Rightarrow> string) \<Rightarrow> json \<Rightarrow> error" where
  "invalid_restriction serde_error v =
     InvalidArgument (''authorization receipt carries invalid read restriction: '' @ serde_error v)"

definition receipt_policy_hash_json :: "AuthorizationReceipt \<Rightarrow> ReadRestriction \<Rightarrow> json" where
  "receipt_policy_hash_json r restriction =
     jobj [(''engine'', JStr (ar_engine r)),
           (''governance-policy-hash'', jopt JStr (ar_policy_hash r)),
           (''read-restriction-policy-hashes'', jstrs (rr_policy_hashes restriction)),
           (''action'', action_json (ar_action r)),
           (''table'', jopt ident_json (ar_table r))]"

definition with_read_restriction_policy_hash ::
  "env \<Rightarrow> (json \<Rightarrow> string) \<Rightarrow> AuthorizationReceipt \<Rightarrow> AuthorizationReceipt result" where
  "with_read_restriction_policy_hash E serde_error r =
     (case jget (ar_context r) ''read-restriction'' of
        None \<Rightarrow> Ok r
      | Some v \<Rightarrow>
          and_then (ok_or (invalid_restriction serde_error v) (read_restriction_from_json v)) (\<lambda>restriction.
          if rr_policy_hashes restriction = [] then Ok r
          else
            and_then (content_hash_json E (receipt_policy_hash_json r restriction)) (\<lambda>hash.
            Ok (r\<lparr>ar_policy_hash := Some hash\<rparr>))))"

subsection \<open>Capabilities\<close>

datatype ('action, 'resource) Capability =
  Capability (cap_receipt: AuthorizationReceipt) (cap_resource: 'resource)

record TableReadScope =
  ts_table :: TableIdent
  ts_restriction :: ReadRestriction

record TableRenameTarget =
  rt_source :: TableIdent
  rt_destination :: TableIdent

definition table_rename_target_new :: "TableIdent \<Rightarrow> TableIdent \<Rightarrow> TableRenameTarget result" where
  "table_rename_target_new source destination =
     (if ti_warehouse source \<noteq> ti_warehouse destination then
        Err (InvalidArgument ''table rename target cannot cross warehouses'')
      else Ok \<lparr>rt_source = source, rt_destination = destination\<rparr>)"

datatype CanCreateTable = CanCreateTable
datatype CanRegisterTable = CanRegisterTable
datatype CanRenameTable = CanRenameTable
datatype CanLoadTable = CanLoadTable
datatype CanCommitTable = CanCommitTable
datatype CanDropTable = CanDropTable
datatype CanRestoreTable = CanRestoreTable
datatype CanPlanScan = CanPlanScan
datatype CanVendCredentials = CanVendCredentials
datatype CanManageServers = CanManageServers
datatype CanManageProjects = CanManageProjects
datatype CanManageWarehouses = CanManageWarehouses
datatype CanManageStorageProfiles = CanManageStorageProfiles
datatype CanLoadViews = CanLoadViews
datatype CanDropViews = CanDropViews
datatype CanManageViews = CanManageViews
datatype CanManagePolicies = CanManagePolicies
datatype CanReadGraph = CanReadGraph
datatype CanReadLineage = CanReadLineage
datatype CanReadCatalogConfig = CanReadCatalogConfig
datatype CanCreateNamespace = CanCreateNamespace
datatype CanListNamespaces = CanListNamespaces
datatype CanLoadNamespace = CanLoadNamespace
datatype CanUpdateNamespace = CanUpdateNamespace
datatype CanDropNamespace = CanDropNamespace

type_synonym TableCreateCapability = "(CanCreateTable, TableIdent) Capability"
type_synonym TableRegisterCapability = "(CanRegisterTable, TableIdent) Capability"
type_synonym TableRenameCapability = "(CanRenameTable, TableRenameTarget) Capability"
type_synonym TableLoadCapability = "(CanLoadTable, TableIdent) Capability"
type_synonym TableCommitCapability = "(CanCommitTable, TableIdent) Capability"
type_synonym TableDropCapability = "(CanDropTable, TableIdent) Capability"
type_synonym TableRestoreCapability = "(CanRestoreTable, TableIdent) Capability"
type_synonym TableScanCapability = "(CanPlanScan, TableReadScope) Capability"
type_synonym CredentialsVendCapability = "(CanVendCredentials, TableReadScope) Capability"
type_synonym 'action CatalogCapability = "('action, unit) Capability"

definition action_error :: "AuthorizationReceipt \<Rightarrow> string \<Rightarrow> error" where
  "action_error r action_description =
     InvalidArgument (''authorization receipt action '' @ action_debug (ar_action r) @ '' cannot '' @
       action_description)"

definition catalog_capability_from_receipt ::
  "AuthorizationReceipt \<Rightarrow> CatalogAction \<Rightarrow> string \<Rightarrow> 'action CatalogCapability result" where
  "catalog_capability_from_receipt r expected_action action_description =
     (if \<not> ar_allowed r then Err (Conflict ''authorization receipt is not allowed'')
      else if ar_action r \<noteq> expected_action then Err (action_error r action_description)
      else if ar_table r \<noteq> None then
        Err (InvalidArgument ''catalog authorization receipt must not be table-scoped'')
      else Ok (Capability r ()))"

definition validate_table_authorization_receipt ::
  "AuthorizationReceipt \<Rightarrow> TableIdent \<Rightarrow> CatalogAction \<Rightarrow> string \<Rightarrow> unit result" where
  "validate_table_authorization_receipt r table expected_action action_description =
     (if \<not> ar_allowed r then Err (Conflict ''authorization receipt is not allowed'')
      else if ar_action r \<noteq> expected_action then Err (action_error r action_description)
      else if ar_table r \<noteq> Some table then
        Err (InvalidArgument ''authorization receipt table does not match authorized table'')
      else Ok ())"

definition table_capability_from_receipt ::
  "AuthorizationReceipt \<Rightarrow> TableIdent \<Rightarrow> CatalogAction \<Rightarrow> string \<Rightarrow>
     ('action, TableIdent) Capability result" where
  "table_capability_from_receipt r table expected_action action_description =
     and_then (validate_table_authorization_receipt r table expected_action action_description) (\<lambda>_.
     Ok (Capability r table))"

definition table_read_capability_from_receipt ::
  "(json \<Rightarrow> string) \<Rightarrow> AuthorizationReceipt \<Rightarrow> TableIdent \<Rightarrow> CatalogAction \<Rightarrow> string \<Rightarrow>
     ('action, TableReadScope) Capability result" where
  "table_read_capability_from_receipt serde_error r table expected_action action_description =
     and_then (table_capability_from_receipt r table expected_action action_description
                :: ('action, TableIdent) Capability result) (\<lambda>capability.
     and_then (case jget (ar_context (cap_receipt capability)) ''read-restriction'' of
                 Some v \<Rightarrow> ok_or (invalid_restriction serde_error v) (read_restriction_from_json v)
               | None \<Rightarrow> Ok unrestricted) (\<lambda>restriction.
     Ok (Capability (cap_receipt capability)
           \<lparr>ts_table = cap_resource capability, ts_restriction = restriction\<rparr>)))"

text \<open>\<open>from_receipt\<close> of each capability type.\<close>

definition table_create_from_receipt :: "AuthorizationReceipt \<Rightarrow> TableIdent \<Rightarrow> TableCreateCapability result" where
  "table_create_from_receipt r table = table_capability_from_receipt r table TableCreate ''create table''"

definition table_register_from_receipt :: "AuthorizationReceipt \<Rightarrow> TableIdent \<Rightarrow> TableRegisterCapability result" where
  "table_register_from_receipt r table = table_capability_from_receipt r table TableRegister ''register table''"

definition table_load_from_receipt :: "AuthorizationReceipt \<Rightarrow> TableIdent \<Rightarrow> TableLoadCapability result" where
  "table_load_from_receipt r table = table_capability_from_receipt r table TableLoad ''load table''"

definition table_commit_from_receipt :: "AuthorizationReceipt \<Rightarrow> TableIdent \<Rightarrow> TableCommitCapability result" where
  "table_commit_from_receipt r table = table_capability_from_receipt r table TableCommit ''commit table''"

definition table_drop_from_receipt :: "AuthorizationReceipt \<Rightarrow> TableIdent \<Rightarrow> TableDropCapability result" where
  "table_drop_from_receipt r table = table_capability_from_receipt r table TableDrop ''drop table''"

definition table_restore_from_receipt :: "AuthorizationReceipt \<Rightarrow> TableIdent \<Rightarrow> TableRestoreCapability result" where
  "table_restore_from_receipt r table = table_capability_from_receipt r table TableRestore ''restore table''"

definition table_scan_from_receipt ::
  "(json \<Rightarrow> string) \<Rightarrow> AuthorizationReceipt \<Rightarrow> TableIdent \<Rightarrow> TableScanCapability result" where
  "table_scan_from_receipt serde_error r table =
     table_read_capability_from_receipt serde_error r table TablePlanScan ''plan table scans''"

definition credentials_vend_from_receipt ::
  "(json \<Rightarrow> string) \<Rightarrow> AuthorizationReceipt \<Rightarrow> TableIdent \<Rightarrow> CredentialsVendCapability result" where
  "credentials_vend_from_receipt serde_error r table =
     table_read_capability_from_receipt serde_error r table CredentialsVend ''vend table credentials''"

definition table_rename_from_receipt ::
  "AuthorizationReceipt \<Rightarrow> TableRenameTarget \<Rightarrow> TableRenameCapability result" where
  "table_rename_from_receipt r target =
     and_then (validate_table_authorization_receipt r (rt_source target) TableRename ''rename table'') (\<lambda>_.
     and_then (ok_or (InvalidArgument ''table rename authorization receipt is missing destination table'')
                (jget (ar_context r) ''destination-table'')) (\<lambda>v.
     and_then (ok_or (InvalidArgument ''table rename authorization receipt destination table is malformed'')
                (ident_from_json v)) (\<lambda>receipt_destination.
     if receipt_destination \<noteq> rt_destination target then
       Err (InvalidArgument ''table rename authorization receipt destination does not match target'')
     else Ok (Capability r target))))"

definition server_manage_from_receipt :: "AuthorizationReceipt \<Rightarrow> CanManageServers CatalogCapability result" where
  "server_manage_from_receipt r = catalog_capability_from_receipt r ServerManage ''manage servers''"

definition storage_profile_manage_from_receipt ::
  "AuthorizationReceipt \<Rightarrow> CanManageStorageProfiles CatalogCapability result" where
  "storage_profile_manage_from_receipt r =
     catalog_capability_from_receipt r StorageProfileManage ''manage storage profiles''"

definition view_manage_from_receipt :: "AuthorizationReceipt \<Rightarrow> CanManageViews CatalogCapability result" where
  "view_manage_from_receipt r = catalog_capability_from_receipt r ViewManage ''manage views''"

definition view_load_from_receipt :: "AuthorizationReceipt \<Rightarrow> CanLoadViews CatalogCapability result" where
  "view_load_from_receipt r = catalog_capability_from_receipt r ViewLoad ''load views''"

definition view_drop_from_receipt :: "AuthorizationReceipt \<Rightarrow> CanDropViews CatalogCapability result" where
  "view_drop_from_receipt r = catalog_capability_from_receipt r ViewDrop ''drop views''"

definition warehouse_manage_from_receipt :: "AuthorizationReceipt \<Rightarrow> CanManageWarehouses CatalogCapability result" where
  "warehouse_manage_from_receipt r = catalog_capability_from_receipt r WarehouseManage ''manage warehouses''"

definition project_manage_from_receipt :: "AuthorizationReceipt \<Rightarrow> CanManageProjects CatalogCapability result" where
  "project_manage_from_receipt r = catalog_capability_from_receipt r ProjectManage ''manage projects''"

definition policy_manage_from_receipt :: "AuthorizationReceipt \<Rightarrow> CanManagePolicies CatalogCapability result" where
  "policy_manage_from_receipt r = catalog_capability_from_receipt r PolicyManage ''manage policies''"

definition graph_read_from_receipt :: "AuthorizationReceipt \<Rightarrow> CanReadGraph CatalogCapability result" where
  "graph_read_from_receipt r = catalog_capability_from_receipt r GraphRead ''read catalog graph''"

definition lineage_read_from_receipt :: "AuthorizationReceipt \<Rightarrow> CanReadLineage CatalogCapability result" where
  "lineage_read_from_receipt r = catalog_capability_from_receipt r LineageRead ''read catalog lineage''"

definition catalog_config_from_receipt :: "AuthorizationReceipt \<Rightarrow> CanReadCatalogConfig CatalogCapability result" where
  "catalog_config_from_receipt r = catalog_capability_from_receipt r CatalogConfig ''read catalog config''"

definition namespace_create_from_receipt :: "AuthorizationReceipt \<Rightarrow> CanCreateNamespace CatalogCapability result" where
  "namespace_create_from_receipt r = catalog_capability_from_receipt r NamespaceCreate ''create namespaces''"

definition namespace_list_from_receipt :: "AuthorizationReceipt \<Rightarrow> CanListNamespaces CatalogCapability result" where
  "namespace_list_from_receipt r = catalog_capability_from_receipt r NamespaceList ''list namespaces''"

definition namespace_load_from_receipt :: "AuthorizationReceipt \<Rightarrow> CanLoadNamespace CatalogCapability result" where
  "namespace_load_from_receipt r = catalog_capability_from_receipt r NamespaceLoad ''load namespaces''"

definition namespace_update_from_receipt :: "AuthorizationReceipt \<Rightarrow> CanUpdateNamespace CatalogCapability result" where
  "namespace_update_from_receipt r =
     catalog_capability_from_receipt r NamespaceUpdate ''update namespace properties''"

definition namespace_drop_from_receipt :: "AuthorizationReceipt \<Rightarrow> CanDropNamespace CatalogCapability result" where
  "namespace_drop_from_receipt r = catalog_capability_from_receipt r NamespaceDrop ''drop namespaces''"

subsection \<open>The built-in engine\<close>

definition ALLOW_ALL_LOCAL_ENGINE :: string where
  "ALLOW_ALL_LOCAL_ENGINE = ''lakecat-allow-all-local''"

definition allow_all_authorize :: "int \<Rightarrow> AuthorizationRequest \<Rightarrow> AuthorizationReceipt result" where
  "allow_all_authorize now request =
     Ok \<lparr>ar_principal = aq_principal request, ar_action = aq_action request,
         ar_table = aq_table request, ar_allowed = True, ar_engine = ALLOW_ALL_LOCAL_ENGINE,
         ar_policy_hash = None, ar_context = aq_context request, ar_checked_at = now\<rparr>"

end
