(* ===== verification/ServiceErrors.thy ===== *)
theory ServiceErrors
  imports OdrlPolicies
begin

section \<open>Errors at the service boundary\<close>

text \<open>
  The \<open>Display\<close> form of \<open>LakeCatError\<close> (\<open>crates/lakecat-core/src/lib.rs\<close>), the HTTP response an
  error becomes (\<open>crates/lakecat-service/src/error.rs\<close>), and the hash contexts by which error
  details enter messages without their text (\<open>location.rs\<close>). A panic has no response: it is no
  \<open>LakeCatError\<close>.
\<close>

fun error_display :: "error \<Rightarrow> string" where
  "error_display (InvalidArgument m) = ''invalid argument: '' @ m"
| "error_display (UnprocessableEntity m) = ''unprocessable entity: '' @ m"
| "error_display (NotFound object name) = object @ '' not found: '' @ name"
| "error_display (AlreadyExists object name) = object @ '' already exists: '' @ name"
| "error_display (Conflict m) = ''conflict: '' @ m"
| "error_display (Forbidden m) = ''forbidden: '' @ m"
| "error_display (NotSupported m) = ''operation is not supported yet: '' @ m"
| "error_display (Unavailable m) = ''temporarily unavailable: '' @ m"
| "error_display (Internal m) = ''internal error: '' @ m"
| "error_display (Panicked m) = m"

text \<open>The status code of a response; \<open>None\<close> for a panic, which has no response.\<close>

fun error_status :: "error \<Rightarrow> nat option" where
  "error_status (InvalidArgument _) = Some 400"
| "error_status (UnprocessableEntity _) = Some 422"
| "error_status (NotFound _ _) = Some 404"
| "error_status (AlreadyExists _ _) = Some 409"
| "error_status (Conflict _) = Some 409"
| "error_status (Forbidden _) = Some 403"
| "error_status (NotSupported _) = Some 501"
| "error_status (Unavailable _) = Some 503"
| "error_status (Internal _) = Some 500"
| "error_status (Panicked _) = None"

fun error_type :: "error \<Rightarrow> string" where
  "error_type (InvalidArgument _) = ''BadRequestException''"
| "error_type (UnprocessableEntity _) = ''UnprocessableEntityException''"
| "error_type (NotFound object _) =
     (if object \<in> set [''table'', ''soft-deleted table''] then ''NoSuchTableException''
      else if object = ''namespace'' then ''NoSuchNamespaceException''
      else if object = ''view'' then ''NoSuchViewException''
      else ''NotFoundException'')"
| "error_type (AlreadyExists _ _) = ''AlreadyExistsException''"
| "error_type (Conflict _) = ''CommitFailedException''"
| "error_type (Forbidden _) = ''ForbiddenException''"
| "error_type (NotSupported _) = ''UnsupportedOperationException''"
| "error_type (Unavailable _) = ''ServiceUnavailableException''"
| "error_type (Internal _) = ''InternalServerError''"
| "error_type (Panicked _) = []"

record http_response =
  hr_status :: nat
  hr_body :: json

definition error_response :: "error \<Rightarrow> http_response option" where
  "error_response e =
     map_option (\<lambda>status.
       \<lparr>hr_status = status,
        hr_body = jobj [(''error'', jobj [(''message'', JStr (error_display e)),
                                        (''type'', JStr (error_type e)),
                                        (''code'', JInt (int status))])]\<rparr>)
       (error_status e)"

subsection \<open>Hash contexts\<close>

definition metadata_location_hash_context :: "env \<Rightarrow> string \<Rightarrow> string" where
  "metadata_location_hash_context E metadata_location =
     ''metadata-location-hash='' @ content_hash_bytes E metadata_location"

text \<open>The error detail is given as the text its \<open>Display\<close> prints.\<close>

definition error_detail_hash_context :: "env \<Rightarrow> string \<Rightarrow> string" where
  "error_detail_hash_context E err = ''error-detail-hash='' @ content_hash_bytes E err"

definition backend_error_hash_context :: "env \<Rightarrow> string \<Rightarrow> string" where
  "backend_error_hash_context E err = ''backend-error-hash='' @ content_hash_bytes E err"

text \<open>An error with a suffix on its text, of the same kind.\<close>

fun extend_error :: "string \<Rightarrow> error \<Rightarrow> error" where
  "extend_error context (InvalidArgument m) = InvalidArgument (m @ ''; '' @ context)"
| "extend_error context (UnprocessableEntity m) = UnprocessableEntity (m @ ''; '' @ context)"
| "extend_error context (NotFound object name) = NotFound object (name @ ''; '' @ context)"
| "extend_error context (AlreadyExists object name) = AlreadyExists object (name @ ''; '' @ context)"
| "extend_error context (Conflict m) = Conflict (m @ ''; '' @ context)"
| "extend_error context (Forbidden m) = Forbidden (m @ ''; '' @ context)"
| "extend_error context (NotSupported m) = NotSupported (m @ ''; '' @ context)"
| "extend_error context (Unavailable m) = Unavailable (m @ ''; '' @ context)"
| "extend_error context (Internal m) = Internal (m @ ''; '' @ context)"
| "extend_error context (Panicked m) = Panicked m"

definition commit_error_with_cleanup_failure :: "env \<Rightarrow> error \<Rightarrow> error \<Rightarrow> error" where
  "commit_error_with_cleanup_failure E commit_error cleanup_error =
     extend_error (''metadata cleanup also failed; '' @
       error_detail_hash_context E (error_display cleanup_error)) commit_error"

end
