(* ===== verification/SailEngine.thy ===== *)
theory SailEngine
  imports LakeCore
begin

section \<open>The table engine and the metadata of a new table\<close>

text \<open>
  \<open>crates/lakecat-core/src/sail.rs\<close>: the seam to the Sail engine (requests, plans and the trait as a
  record of functions), the engine that is used without Sail, and the metadata document of a new
  table: fresh field ids in the order of the schema, and the source ids of the partition spec and
  the sort order rewritten to them. Ids are \<open>i64\<close>, counted up with saturation.
\<close>

subsection \<open>The seam\<close>

record CommitPreparationRequest =
  pc_table :: TableIdent
  pc_principal :: Principal
  pc_current_metadata_location :: "string option"
  pc_new_metadata_location :: "string option"
  pc_current_metadata :: json
  pc_new_metadata :: "json option"
  pc_requirements :: "json list"
  pc_updates :: "json list"

record CommitPlan =
  cp_prepared_by :: string
  cp_requirements :: "json list"
  cp_updates :: "json list"
  cp_new_metadata_location :: "string option"
  cp_new_metadata :: json
  cp_metadata_write_required :: bool
  cp_metadata_patch :: json

record ScanPlanningRequest =
  sr_table :: TableIdent
  sr_principal :: Principal
  sr_metadata_location :: "string option"
  sr_table_metadata :: json
  sr_projection :: "string list"
  sr_filters :: "json list"
  sr_limit :: "64 word option"
  sr_snapshot_id :: "int option"
  sr_start_snapshot_id :: "int option"
  sr_end_snapshot_id :: "int option"

definition scan_planning_is_incremental :: "ScanPlanningRequest \<Rightarrow> bool" where
  "scan_planning_is_incremental r \<longleftrightarrow> sr_start_snapshot_id r \<noteq> None \<or> sr_end_snapshot_id r \<noteq> None"

record ScanPlan =
  pl_planned_by :: string
  pl_snapshot_id :: "int option"
  pl_scan_tasks :: "json list"
  pl_residual_filter :: "json option"

record SailFetchScanTasksRequest =
  fr_table :: TableIdent
  fr_principal :: Principal
  fr_metadata_location :: "string option"
  fr_table_metadata :: json
  fr_plan_task :: string
  fr_required_projection :: "string list"
  fr_required_filters :: "json list"

record FetchScanTasksPlan =
  fp_planned_by :: string
  fp_plan_task :: string
  fp_snapshot_id :: "int option"
  fp_file_scan_tasks :: "json list"
  fp_delete_files :: "json list"
  fp_plan_tasks :: "json list"
  fp_residual_filter :: "json option"

record SailCatalogEngine =
  se_prepare_commit :: "CommitPreparationRequest \<Rightarrow> CommitPlan result"
  se_plan_scan :: "ScanPlanningRequest \<Rightarrow> ScanPlan result"
  se_fetch_scan_tasks :: "SailFetchScanTasksRequest \<Rightarrow> FetchScanTasksPlan result"

subsection \<open>Format support\<close>

record IcebergFormatSupport =
  fs_stable_versions :: "int list"
  fs_v4_ready :: bool

definition format_support_default :: IcebergFormatSupport where
  "format_support_default = \<lparr>fs_stable_versions = [1, 2, 3], fs_v4_ready = True\<rparr>"

definition format_support_json :: "IcebergFormatSupport \<Rightarrow> json" where
  "format_support_json f =
     jobj [(''stable_versions'', JArr (map JInt (fs_stable_versions f))), (''v4_ready'', JBool (fs_v4_ready f))]"

text \<open>\<open>version as i32\<close>: the low 32 bits, as a signed number.\<close>

definition as_i32 :: "int \<Rightarrow> int" where
  "as_i32 n = sint (word_of_int n :: 32 word)"

definition int_str :: "int \<Rightarrow> string" where
  "int_str n = (if n < 0 then CHR ''-'' # nat_str (nat (- n)) else nat_str (nat n))"

definition validate_lakecat_metadata_format :: "json \<Rightarrow> IcebergFormatSupport result" where
  "validate_lakecat_metadata_format metadata =
     (let support = format_support_default in
      case Option.bind (jget metadata ''format-version'') as_i64 of
        None \<Rightarrow> Ok support
      | Some version \<Rightarrow>
          if as_i32 version \<in> set (fs_stable_versions support) then Ok support
          else if version = 4 \<and> fs_v4_ready support then Ok support
          else Err (NotSupported (''unsupported Iceberg table format version v'' @ int_str version)))"

subsection \<open>The deferred engine\<close>

definition deferred_prepare_commit :: "CommitPreparationRequest \<Rightarrow> CommitPlan result" where
  "deferred_prepare_commit r =
     (if pc_new_metadata r = None \<and> pc_updates r \<noteq> [] then
        Err (NotSupported (''applying '' @ nat_str (length (pc_updates r)) @
          '' Iceberg table update(s) server-side requires the `sail-local` build; this deferred build accepts only commits that carry the full replacement table metadata''))
      else
        let metadata_write_required = (pc_new_metadata_location r \<noteq> None \<or> pc_new_metadata r \<noteq> None);
            new_metadata_location = (case pc_new_metadata_location r of
                                       Some l \<Rightarrow> Some l | None \<Rightarrow> pc_current_metadata_location r);
            new_metadata = (case pc_new_metadata r of Some m \<Rightarrow> m | None \<Rightarrow> pc_current_metadata r)
        in Ok \<lparr>cp_prepared_by = ''lakecat-sail-deferred'', cp_requirements = pc_requirements r,
               cp_updates = pc_updates r, cp_new_metadata_location = new_metadata_location,
               cp_new_metadata = new_metadata, cp_metadata_write_required = metadata_write_required,
               cp_metadata_patch =
                 jobj [(''lakecat:sail-delegation'', JStr ''deferred''),
                       (''lakecat:sail-target'', JStr ''sail-catalog + sail-iceberg''),
                       (''lakecat:format-support'', format_support_json format_support_default)]\<rparr>)"

definition deferred_plan_scan :: "ScanPlanningRequest \<Rightarrow> ScanPlan result" where
  "deferred_plan_scan r =
     Err (NotSupported (''Sail scan planning is unavailable without the `sail-local` feature for '' @
       table_stable_id (sr_table r)))"

definition deferred_fetch_scan_tasks :: "SailFetchScanTasksRequest \<Rightarrow> FetchScanTasksPlan result" where
  "deferred_fetch_scan_tasks r =
     Err (NotSupported (''Sail fetchScanTasks is not wired yet for '' @ table_stable_id (fr_table r)))"

definition DeferredSailCatalogEngine :: SailCatalogEngine where
  "DeferredSailCatalogEngine =
     \<lparr>se_prepare_commit = deferred_prepare_commit, se_plan_scan = deferred_plan_scan,
      se_fetch_scan_tasks = deferred_fetch_scan_tasks\<rparr>"

subsection \<open>Fresh field ids\<close>

definition i64_max :: int where
  "i64_max = 2 ^ 63 - 1"

text \<open>The next free id, and the old ids with the ids that replace them.\<close>

type_synonym id_state = "int \<times> (int, int) btree"

text \<open>
  Assigning a fresh id under a key of an object; the replaced id, when it was a number, is mapped
  to the new one.
\<close>

definition fresh_id :: "string \<Rightarrow> (string, json) btree \<Rightarrow> id_state \<Rightarrow> (string, json) btree \<times> id_state" where
  "fresh_id key m st =
     (let old = Option.bind (bt_get m key) as_i64;
          assigned = fst st
      in (bt_insert key (JInt assigned) m,
          (min (assigned + 1) i64_max,
           case old of None \<Rightarrow> snd st | Some o' \<Rightarrow> bt_insert o' assigned (snd st))))"

lemma size_bt_get: "bt_get m k = Some v \<Longrightarrow> size v < size (JObj m)"
  by (induction m) (auto split: if_splits)

text \<open>
  The walk over a type and over a list of fields. The child of an object is read before its ids
  are replaced: the keys of ids and of children differ.
\<close>

function assign_type :: "json \<Rightarrow> id_state \<Rightarrow> json \<times> id_state"
  and assign_fields :: "json list \<Rightarrow> id_state \<Rightarrow> json list \<times> id_state" where
  "assign_type v st =
     (case v of
        JObj m \<Rightarrow>
          (case Option.bind (bt_get m ''type'') as_str of
             None \<Rightarrow> (v, st)
           | Some t \<Rightarrow>
               if t = ''struct'' then
                 (case bt_get m ''fields'' of
                    Some (JArr members) \<Rightarrow>
                      (case assign_fields members st of (members', st1) \<Rightarrow>
                         (JObj (bt_insert ''fields'' (JArr members') m), st1))
                  | _ \<Rightarrow> (v, st))
               else if t = ''list'' then
                 (case fresh_id ''element-id'' m st of (m1, st1) \<Rightarrow>
                    (case bt_get m ''element'' of
                       None \<Rightarrow> (JObj m1, st1)
                     | Some child \<Rightarrow>
                         (case assign_type child st1 of (child', st2) \<Rightarrow>
                            (JObj (bt_insert ''element'' child' m1), st2))))
               else if t = ''map'' then
                 (case fresh_id ''key-id'' m st of (m1, st1) \<Rightarrow>
                  (case (case bt_get m ''key'' of
                           None \<Rightarrow> (m1, st1)
                         | Some child \<Rightarrow>
                             (case assign_type child st1 of (child', s) \<Rightarrow> (bt_insert ''key'' child' m1, s))) of
                     (m2, st2) \<Rightarrow>
                       (case fresh_id ''value-id'' m2 st2 of (m3, st3) \<Rightarrow>
                          (case bt_get m ''value'' of
                             None \<Rightarrow> (JObj m3, st3)
                           | Some child \<Rightarrow>
                               (case assign_type child st3 of (child', st4) \<Rightarrow>
                                  (JObj (bt_insert ''value'' child' m3), st4))))))
               else (v, st))
      | _ \<Rightarrow> (v, st))"
| "assign_fields [] st = ([], st)"
| "assign_fields (field # rest) st =
     (case field of
        JObj m \<Rightarrow>
          (case fresh_id ''id'' m st of (m1, st1) \<Rightarrow>
           (case (case bt_get m ''type'' of
                    None \<Rightarrow> (m1, st1)
                  | Some child \<Rightarrow>
                      (case assign_type child st1 of (child', s) \<Rightarrow> (bt_insert ''type'' child' m1, s))) of
              (m2, st2) \<Rightarrow>
                (case assign_fields rest st2 of (rest', st3) \<Rightarrow> (JObj m2 # rest', st3))))
      | _ \<Rightarrow> (case assign_fields rest st of (rest', st1) \<Rightarrow> (field # rest', st1)))"
  by pat_completeness auto
termination
  by (relation "measure (case_sum (\<lambda>(v, _). 2 * size v) (\<lambda>(vs, _). 2 * size_list size vs + 1))")
    (auto dest: size_bt_get)

declare assign_type.simps [simp del] assign_fields.simps [simp del]

definition assign_fresh_field_ids :: "json \<Rightarrow> json \<times> int \<times> (int, int) btree" where
  "assign_fresh_field_ids schema =
     (case schema of
        JObj m \<Rightarrow>
          (case bt_get m ''fields'' of
             Some (JArr members) \<Rightarrow>
               (case assign_fields members (1, []) of (members', next_id, mapping) \<Rightarrow>
                  (JObj (bt_insert ''fields'' (JArr members') m), next_id - 1, mapping))
           | _ \<Rightarrow> (schema, 0, []))
      | _ \<Rightarrow> (schema, 0, []))"

subsection \<open>Rewriting references to ids\<close>

definition replaced_source_id :: "(int, int) btree \<Rightarrow> json \<Rightarrow> json" where
  "replaced_source_id mapping v =
     (case Option.bind (as_i64 v) (bt_get mapping) of None \<Rightarrow> v | Some r \<Rightarrow> JInt r)"

fun rewrite_source_ids :: "(int, int) btree \<Rightarrow> json \<Rightarrow> json" where
  "rewrite_source_ids mapping (JObj m) =
     JObj (map (\<lambda>(k, v). (k, if k = ''source-id'' \<and> as_i64 v \<noteq> None then replaced_source_id mapping v
                              else rewrite_source_ids mapping v)) m)"
| "rewrite_source_ids mapping (JArr vs) = JArr (map (rewrite_source_ids mapping) vs)"
| "rewrite_source_ids mapping v = v"

subsection \<open>The metadata document of a new table\<close>

definition i64_or_zero :: "json \<Rightarrow> string \<Rightarrow> int" where
  "i64_or_zero v key = (case Option.bind (jget v key) as_i64 of None \<Rightarrow> 0 | Some n \<Rightarrow> n)"

definition initial_table_metadata ::
  "int \<Rightarrow> string \<Rightarrow> string \<Rightarrow> json \<Rightarrow> json option \<Rightarrow> json option \<Rightarrow> json \<Rightarrow> json" where
  "initial_table_metadata now_ms table_uuid location schema0 partition_spec0 sort_order0 properties =
     (let schema1 = (case schema0 of
                       JObj m \<Rightarrow> if bt_get m ''schema-id'' = None
                                  then JObj (bt_insert ''schema-id'' (JInt 0) m) else schema0
                     | _ \<Rightarrow> schema0);
          current_schema_id = i64_or_zero schema1 ''schema-id'';
          (schema, last_column_id, field_ids) = assign_fresh_field_ids schema1;
          partition_spec = rewrite_source_ids field_ids
            (case partition_spec0 of Some p \<Rightarrow> p | None \<Rightarrow> jobj [(''spec-id'', JInt 0), (''fields'', JArr [])]);
          default_spec_id = i64_or_zero partition_spec ''spec-id'';
          sort_order = rewrite_source_ids field_ids
            (case sort_order0 of Some p \<Rightarrow> p | None \<Rightarrow> jobj [(''order-id'', JInt 0), (''fields'', JArr [])]);
          default_sort_order_id = i64_or_zero sort_order ''order-id''
      in jobj
           [(''format-version'', JInt 2), (''table-uuid'', JStr table_uuid), (''location'', JStr location),
            (''last-sequence-number'', JInt 0), (''last-updated-ms'', JInt now_ms),
            (''last-column-id'', JInt last_column_id), (''schemas'', JArr [schema]),
            (''current-schema-id'', JInt current_schema_id),
            (''partition-specs'', JArr [partition_spec]), (''default-spec-id'', JInt default_spec_id),
            (''last-partition-id'', JInt 999), (''sort-orders'', JArr [sort_order]),
            (''default-sort-order-id'', JInt default_sort_order_id),
            (''properties'', if is_object properties then properties else jobj []),
            (''current-snapshot-id'', JInt (- 1)), (''snapshots'', JArr []),
            (''snapshot-log'', JArr []), (''metadata-log'', JArr [])])"

end
