(* ===== verification/ServiceApi.thy ===== *)
theory ServiceApi
  imports Capabilities SailEngine StoreScopes
begin

section \<open>The types of the REST interface\<close>

text \<open>
  \<open>crates/lakecat-api/src/lib.rs\<close>: the requests the handlers take, and the normal form of a scan
  request. A response is given as the JSON value Serde writes for it; the ones whose fields the
  service looks at are records of their own (here: credentials, in \<open>ServiceResponses\<close>: receipts).
\<close>

subsection \<open>Configuration entries and credentials\<close>

record ConfigEntry =
  ce_key :: string
  ce_value :: string

abbreviation config_entry :: "string \<Rightarrow> string \<Rightarrow> ConfigEntry" where
  "config_entry k v \<equiv> \<lparr>ce_key = k, ce_value = v\<rparr>"

text \<open>\<open>config_map\<close>: entries on the wire are one object.\<close>

definition config_map_json :: "ConfigEntry list \<Rightarrow> json" where
  "config_map_json entries = jobj (map (\<lambda>e. (ce_key e, JStr (ce_value e))) entries)"

text \<open>An entry by itself has the derived form.\<close>

definition config_entry_json :: "ConfigEntry \<Rightarrow> json" where
  "config_entry_json e = jobj [(''key'', JStr (ce_key e)), (''value'', JStr (ce_value e))]"

record StorageCredential =
  sc_prefix :: string
  sc_config :: "ConfigEntry list"

definition storage_credential_json :: "StorageCredential \<Rightarrow> json" where
  "storage_credential_json c =
     jobj [(''prefix'', JStr (sc_prefix c)), (''config'', config_map_json (sc_config c))]"

record CatalogConfigResponse =
  cc_defaults :: "ConfigEntry list"
  cc_overrides :: "ConfigEntry list"
  cc_endpoints :: "string list"

definition LAKECAT_ICEBERG_REST_ENDPOINTS :: "string list" where
  "LAKECAT_ICEBERG_REST_ENDPOINTS =
     [''GET /v1/config'',
      ''GET /v1/{prefix}/namespaces'',
      ''POST /v1/{prefix}/namespaces'',
      ''GET /v1/{prefix}/namespaces/{namespace}'',
      ''DELETE /v1/{prefix}/namespaces/{namespace}'',
      ''POST /v1/{prefix}/namespaces/{namespace}/properties'',
      ''GET /v1/{prefix}/namespaces/{namespace}/tables'',
      ''POST /v1/{prefix}/namespaces/{namespace}/tables'',
      ''POST /v1/{prefix}/namespaces/{namespace}/register'',
      ''POST /v1/{prefix}/tables/rename'',
      ''GET /v1/{prefix}/namespaces/{namespace}/tables/{table}'',
      ''POST /v1/{prefix}/namespaces/{namespace}/tables/{table}'',
      ''DELETE /v1/{prefix}/namespaces/{namespace}/tables/{table}'',
      ''POST /v1/{prefix}/namespaces/{namespace}/tables/{table}/plan'',
      ''POST /v1/{prefix}/namespaces/{namespace}/tables/{table}/tasks'',
      ''GET /v1/{prefix}/namespaces/{namespace}/tables/{table}/credentials'']"

definition catalog_config_default :: CatalogConfigResponse where
  "catalog_config_default =
     \<lparr>cc_defaults =
        [config_entry ''lakecat.compatibility'' ''iceberg-rest'',
         config_entry ''lakecat.format.baseline'' ''iceberg-v1-v3'',
         config_entry ''lakecat.format.v4'' ''extension-ready'',
         config_entry ''lakecat.format.v4.bridge'' ''json-passthrough'',
         config_entry ''lakecat.format.v4.typed-sail'' ''unavailable''],
      cc_overrides = [],
      cc_endpoints = LAKECAT_ICEBERG_REST_ENDPOINTS\<rparr>"

definition catalog_config_json :: "CatalogConfigResponse \<Rightarrow> json" where
  "catalog_config_json c =
     jobj [(''defaults'', config_map_json (cc_defaults c)),
           (''overrides'', config_map_json (cc_overrides c)),
           (''endpoints'', jstrs (cc_endpoints c))]"

subsection \<open>Requests\<close>

record TableIdentifier =
  ai_namespace :: "string list"
  ai_name :: string

definition table_identifier_from_ident :: "TableIdent \<Rightarrow> TableIdentifier" where
  "table_identifier_from_ident ident = \<lparr>ai_namespace = ti_namespace ident, ai_name = ti_name ident\<rparr>"

definition table_identifier_json :: "TableIdentifier \<Rightarrow> json" where
  "table_identifier_json i = jobj [(''namespace'', jstrs (ai_namespace i)), (''name'', JStr (ai_name i))]"

record CreateNamespaceRequest =
  cn_namespace :: "string list"
  cn_properties :: "(string, string) btree"

record UpdateNamespacePropertiesRequest =
  un_removals :: "string list"
  un_updates :: "(string, string) btree"

record CreateTableRequest =
  ct_name :: string
  ct_location :: "string option"
  ct_schema :: "json option"
  ct_partition_spec :: "json option"
  ct_write_order :: "json option"
  ct_properties :: "json option"
  ct_stage_create :: "bool option"
  ct_metadata_location :: "string option"
  ct_metadata :: json

record RegisterTableRequest =
  rg_name :: string
  rg_metadata_location :: string
  rg_overwrite :: bool

record RenameTableRequest =
  rn_source :: TableIdentifier
  rn_destination :: TableIdentifier

record CommitTableRequest =
  cq_requirements :: "json list"
  cq_updates :: "json list"
  cq_metadata_location :: "string option"
  cq_metadata :: "json option"

record UpsertServerRequest =
  us_display_name :: "string option"
  us_endpoint_url :: "string option"
  us_properties :: "(string, string) btree"

record UpsertProjectRequest =
  up_server_id :: "string option"
  up_display_name :: "string option"
  up_properties :: "(string, string) btree"

record UpsertWarehouseRequest =
  uw_project_id :: "string option"
  uw_storage_root :: "string option"
  uw_properties :: "(string, string) btree"

record UpsertStorageProfileRequest =
  uq_location_prefix :: string
  uq_provider :: string
  uq_issuance_mode :: string
  uq_secret_ref :: "string option"
  uq_public_config :: "(string, string) btree"

record ViewColumnRequest =
  vq_name :: string
  vq_data_type :: json
  vq_nullable :: bool
  vq_comment :: "string option"

record UpsertViewRequest =
  uv_sql :: string
  uv_dialect :: string
  uv_schema_version :: "64 word option"
  uv_expected_view_version :: "64 word option"
  uv_columns :: "ViewColumnRequest list"
  uv_properties :: "(string, string) btree"

record UpsertPolicyBindingRequest =
  ub_namespace :: "string list option"
  ub_table :: "string option"
  ub_enforced :: bool
  ub_odrl :: json

record PublishModelRequest =
  pm_version :: "64 word"
  pm_expected_current_version :: "64 word option"
  pm_artifact_uri :: string
  pm_artifact_hash :: string
  pm_physical_bindings :: json
  pm_policy_binding_ids :: "string list"

subsection \<open>Scan requests\<close>

record PlanTableScanRequest =
  ps_projection :: "string list"
  ps_select :: "string list"
  ps_filters :: "json list"
  ps_filter :: "json option"
  ps_limit :: "64 word option"
  ps_snapshot_id :: "int option"
  ps_case_sensitive :: "bool option"
  ps_use_snapshot_schema :: "bool option"
  ps_start_snapshot_id :: "int option"
  ps_end_snapshot_id :: "int option"
  ps_stats_fields :: "string list"

record NormalizedPlanTableScanRequest =
  ns_projection :: "string list"
  ns_filters :: "json list"
  ns_limit :: "64 word option"
  ns_snapshot_id :: "int option"
  ns_case_sensitive :: "bool option"
  ns_use_snapshot_schema :: "bool option"
  ns_start_snapshot_id :: "int option"
  ns_end_snapshot_id :: "int option"
  ns_stats_fields :: "string list"

definition is_incremental_scan :: "PlanTableScanRequest \<Rightarrow> bool" where
  "is_incremental_scan r \<longleftrightarrow> ps_start_snapshot_id r \<noteq> None \<or> ps_end_snapshot_id r \<noteq> None"

definition validate_scan_mode :: "PlanTableScanRequest \<Rightarrow> unit result" where
  "validate_scan_mode r =
     (if ps_snapshot_id r \<noteq> None \<and> is_incremental_scan r then
        Err (InvalidArgument ''Iceberg scan planning cannot mix snapshot-id with incremental start/end snapshot ids'')
      else if ps_start_snapshot_id r \<noteq> None \<and> ps_end_snapshot_id r = None then
        Err (InvalidArgument ''Iceberg incremental scan planning requires end-snapshot-id when start-snapshot-id is set'')
      else if ps_end_snapshot_id r \<noteq> None \<and> ps_start_snapshot_id r = None then
        Err (InvalidArgument ''Iceberg incremental scan planning requires start-snapshot-id when end-snapshot-id is set'')
      else Ok ())"

definition projected_fields :: "PlanTableScanRequest \<Rightarrow> string list" where
  "projected_fields r = (if ps_select r = [] then ps_projection r else ps_select r)"

definition filter_values :: "PlanTableScanRequest \<Rightarrow> json list" where
  "filter_values r = ps_filters r @ (case ps_filter r of None \<Rightarrow> [] | Some f \<Rightarrow> [f])"

definition into_normalized :: "PlanTableScanRequest \<Rightarrow> NormalizedPlanTableScanRequest result" where
  "into_normalized r =
     and_then (validate_scan_mode r) (\<lambda>_.
     let filters = (case ps_filter r of None \<Rightarrow> ps_filters r | Some f \<Rightarrow> ps_filters r @ [f]) in
     Ok \<lparr>ns_projection = (if ps_select r = [] then ps_projection r else ps_select r),
         ns_filters = filters, ns_limit = ps_limit r, ns_snapshot_id = ps_snapshot_id r,
         ns_case_sensitive = ps_case_sensitive r, ns_use_snapshot_schema = ps_use_snapshot_schema r,
         ns_start_snapshot_id = ps_start_snapshot_id r, ns_end_snapshot_id = ps_end_snapshot_id r,
         ns_stats_fields = ps_stats_fields r\<rparr>)"

subsection \<open>Receipts on the wire, and the credential issuer\<close>

definition authorization_receipt_json :: "env \<Rightarrow> AuthorizationReceipt \<Rightarrow> json" where
  "authorization_receipt_json E r =
     jobj [(''principal'', principal_json (ar_principal r)),
           (''action'', action_json (ar_action r)),
           (''table'', jopt ident_json (ar_table r)),
           (''allowed'', JBool (ar_allowed r)),
           (''engine'', JStr (ar_engine r)),
           (''policy_hash'', jopt JStr (ar_policy_hash r)),
           (''context'', ar_context r),
           (''checked_at'', JStr (dt_json E (ar_checked_at r)))]"

record CredentialIssuanceRequest =
  ci_table :: TableRecord
  ci_profile :: StorageProfile
  ci_authorization_receipt :: AuthorizationReceipt
  ci_max_credential_ttl_seconds :: "64 word option"

type_synonym credential_issuer = "CredentialIssuanceRequest \<Rightarrow> StorageCredential list result"

lemma into_normalized_agrees:
  "into_normalized r = Ok n \<Longrightarrow> ns_projection n = projected_fields r \<and> ns_filters n = filter_values r"
  by (auto simp: into_normalized_def and_then_ok Let_def projected_fields_def filter_values_def
      split: option.splits)

end
