(* ===== verification/ServiceLocation.thy ===== *)
theory ServiceLocation
  imports ServiceErrors SailEngine StoreScopes
begin

section \<open>Metadata objects and their locations\<close>

text \<open>
  \<open>crates/lakecat-service/src/location.rs\<close>: which locations a metadata object may have, and the
  object store it is written to, read from and removed from. The object store library is the record
  \<open>object_api\<close> (parsing a URL's scheme and path, building a client, encodings) and, for the
  backend itself, the three calls \<open>object_put_create\<close>, \<open>object_get\<close> and \<open>object_delete\<close> with their
  documented meaning: a conditional put creates and never replaces, a call may be refused before it
  has an effect, or its answer may be lost after it. What the next calls meet is the list of
  outcomes in the world; when it is empty the backend works.
\<close>

subsection \<open>The object store\<close>

datatype object_outcome = Works | Refused string | AnswerLost string

datatype object_error = ObjectExists | ObjectNotFound | ObjectOther string

record object_api =
  oa_url_error :: "string \<Rightarrow> string"
  oa_scheme_parse :: "url \<Rightarrow> string + (string \<times> string)"
  oa_authority :: "url \<Rightarrow> string"
  oa_build :: "url \<Rightarrow> string + string"
  oa_error_text :: "object_error \<Rightarrow> string"
  oa_to_vec_pretty :: "json \<Rightarrow> string + string"
  oa_decode_metadata_file :: "string \<Rightarrow> string \<Rightarrow> nat \<Rightarrow> string + string"
  oa_from_slice :: "string \<Rightarrow> string + json"

text \<open>
  A client is the name of the backend it talks to. The cache of clients is process global; an object
  is its bytes, under the backend and the path.
\<close>

record object_world =
  ow_cache :: "(string, string) btree"
  ow_objects :: "string \<times> string \<Rightarrow> string option"
  ow_outcomes :: "object_outcome list"
  ow_slept_ms :: nat

type_synonym 'a object_op = "object_world \<Rightarrow> 'a result \<times> object_world"

definition next_outcome :: "object_world \<Rightarrow> object_outcome \<times> object_world" where
  "next_outcome w =
     (case ow_outcomes w of [] \<Rightarrow> (Works, w) | x # rest \<Rightarrow> (x, w\<lparr>ow_outcomes := rest\<rparr>))"

definition object_put_create ::
  "string \<Rightarrow> string \<Rightarrow> string \<Rightarrow> object_world \<Rightarrow> (object_error + unit) \<times> object_world" where
  "object_put_create store path payload w =
     (case next_outcome w of (outcome, w1) \<Rightarrow>
        let w2 = (if ow_objects w1 (store, path) = None
                  then w1\<lparr>ow_objects := (ow_objects w1)((store, path) \<mapsto> payload)\<rparr> else w1) in
        case outcome of
          Works \<Rightarrow> (if ow_objects w1 (store, path) = None then Inr () else Inl ObjectExists, w2)
        | Refused e \<Rightarrow> (Inl (ObjectOther e), w1)
        | AnswerLost e \<Rightarrow> (Inl (ObjectOther e), w2))"

definition object_get :: "string \<Rightarrow> string \<Rightarrow> object_world \<Rightarrow> (object_error + string) \<times> object_world" where
  "object_get store path w =
     (case next_outcome w of (outcome, w1) \<Rightarrow>
        case outcome of
          Works \<Rightarrow> (case ow_objects w1 (store, path) of None \<Rightarrow> Inl ObjectNotFound | Some bs \<Rightarrow> Inr bs, w1)
        | Refused e \<Rightarrow> (Inl (ObjectOther e), w1)
        | AnswerLost e \<Rightarrow> (Inl (ObjectOther e), w1))"

text \<open>The body of an answer, which is streamed after its head.\<close>

definition object_bytes :: "string \<Rightarrow> object_world \<Rightarrow> (object_error + string) \<times> object_world" where
  "object_bytes bs w =
     (case next_outcome w of (outcome, w1) \<Rightarrow>
        case outcome of
          Works \<Rightarrow> (Inr bs, w1)
        | Refused e \<Rightarrow> (Inl (ObjectOther e), w1)
        | AnswerLost e \<Rightarrow> (Inl (ObjectOther e), w1))"

definition object_delete :: "string \<Rightarrow> string \<Rightarrow> object_world \<Rightarrow> (object_error + unit) \<times> object_world" where
  "object_delete store path w =
     (case next_outcome w of (outcome, w1) \<Rightarrow>
        let w2 = w1\<lparr>ow_objects := (ow_objects w1)((store, path) := None)\<rparr> in
        case outcome of
          Works \<Rightarrow> (if ow_objects w1 (store, path) = None then Inl ObjectNotFound else Inr (), w2)
        | Refused e \<Rightarrow> (Inl (ObjectOther e), w1)
        | AnswerLost e \<Rightarrow> (Inl (ObjectOther e), w2))"

definition store_cache_key :: "object_api \<Rightarrow> string \<Rightarrow> url \<Rightarrow> string" where
  "store_cache_key A scheme u = scheme @ ''|'' @ oa_authority A u"

definition unsupported_location :: "env \<Rightarrow> string \<Rightarrow> string \<Rightarrow> error" where
  "unsupported_location E location err =
     InvalidArgument (''metadata object location '' @ metadata_location_hash_context E location @
       '' is not supported or is not configured: '' @ backend_error_hash_context E err)"

definition metadata_object_store :: "env \<Rightarrow> object_api \<Rightarrow> string \<Rightarrow> (string \<times> string) object_op" where
  "metadata_object_store E A location w =
     (case url_parse E location of
        None \<Rightarrow> (Err (InvalidArgument (''invalid metadata location '' @
                   metadata_location_hash_context E location @ ''; '' @
                   backend_error_hash_context E (oa_url_error A location))), w)
      | Some u \<Rightarrow>
          (case oa_scheme_parse A u of
             Inl err \<Rightarrow> (Err (unsupported_location E location err), w)
           | Inr (scheme, object_path) \<Rightarrow>
               let cache_key = store_cache_key A scheme u in
               (case bt_get (ow_cache w) cache_key of
                  Some store \<Rightarrow> (Ok (store, object_path), w)
                | None \<Rightarrow>
                    (case oa_build A u of
                       Inl err \<Rightarrow> (Err (unsupported_location E location err), w)
                     | Inr store \<Rightarrow>
                         (Ok (store, object_path),
                          w\<lparr>ow_cache := bt_insert cache_key store (ow_cache w)\<rparr>)))))"

text \<open>\<open>?\<close> on an operation of the world.\<close>

definition and_then_op :: "('w \<Rightarrow> ('e + 'a) \<times> 'w) \<Rightarrow> ('a \<Rightarrow> 'w \<Rightarrow> ('e + 'b) \<times> 'w) \<Rightarrow> 'w \<Rightarrow> ('e + 'b) \<times> 'w" where
  "and_then_op f k w = (case f w of (Inl e, w1) \<Rightarrow> (Inl e, w1) | (Inr a, w1) \<Rightarrow> k a w1)"

lemma and_then_op_ok [result_simps]:
  "and_then_op f k w = (Inr b, w') \<longleftrightarrow> (\<exists>a w1. f w = (Inr a, w1) \<and> k a w1 = (Inr b, w'))"
  by (auto simp: and_then_op_def split: prod.splits sum.splits)

lemma and_then_op_err [result_simps]:
  "and_then_op f k w = (Inl e, w') \<longleftrightarrow>
     f w = (Inl e, w') \<or> (\<exists>a w1. f w = (Inr a, w1) \<and> k a w1 = (Inl e, w'))"
  by (auto simp: and_then_op_def split: prod.splits sum.splits)

subsection \<open>Errors of metadata objects\<close>

definition MAX_TABLE_METADATA_BYTES :: nat where
  "MAX_TABLE_METADATA_BYTES = 64 * 1024 * 1024"

definition metadata_object_write_error :: "env \<Rightarrow> string \<Rightarrow> string \<Rightarrow> error" where
  "metadata_object_write_error E metadata_location err =
     Internal (''failed to write metadata object '' @ metadata_location_hash_context E metadata_location @
       '': '' @ error_detail_hash_context E err)"

definition metadata_object_read_error :: "env \<Rightarrow> string \<Rightarrow> string \<Rightarrow> error" where
  "metadata_object_read_error E metadata_location err =
     InvalidArgument (''failed to read metadata object '' @ metadata_location_hash_context E metadata_location @
       '': '' @ error_detail_hash_context E err)"

definition metadata_object_size_error :: "env \<Rightarrow> string \<Rightarrow> nat \<Rightarrow> error" where
  "metadata_object_size_error E metadata_location n =
     InvalidArgument (''metadata object '' @ metadata_location_hash_context E metadata_location @ '' has '' @
       nat_str n @ '' bytes, exceeding the '' @ nat_str MAX_TABLE_METADATA_BYTES @ ''-byte safety limit'')"

definition metadata_cleanup_error :: "env \<Rightarrow> string \<Rightarrow> string \<Rightarrow> error" where
  "metadata_cleanup_error E metadata_location err =
     Internal (''failed to clean up uncommitted metadata object '' @
       metadata_location_hash_context E metadata_location @ '': '' @ error_detail_hash_context E err)"

subsection \<open>Percent decoding, by index\<close>

definition service_hex_value :: "char \<Rightarrow> nat option" where
  "service_hex_value c =
     (if 48 \<le> byte c \<and> byte c \<le> 57 then Some (byte c - 48)
      else if 97 \<le> byte c \<and> byte c \<le> 102 then Some (byte c - 97 + 10)
      else if 65 \<le> byte c \<and> byte c \<le> 70 then Some (byte c - 65 + 10)
      else None)"

text \<open>The \<open>while\<close> loop, from an index on.\<close>

function decode_from :: "string \<Rightarrow> nat \<Rightarrow> string" where
  "decode_from bytes index =
     (if length bytes \<le> index then []
      else if bytes ! index = CHR ''%'' \<and> index + 2 < length bytes then
        (case service_hex_value (bytes ! (index + 1)) of
           None \<Rightarrow> bytes ! index # decode_from bytes (index + 1)
         | Some high \<Rightarrow>
             (case service_hex_value (bytes ! (index + 2)) of
                None \<Rightarrow> bytes ! index # decode_from bytes (index + 1)
              | Some low \<Rightarrow> char_of (16 * high + low) # decode_from bytes (index + 3)))
      else bytes ! index # decode_from bytes (index + 1))"
  by pat_completeness auto
termination
  by (relation "measure (\<lambda>(bytes, index). length bytes - index)") auto

declare decode_from.simps [simp del]

definition service_percent_decode_segment :: "string \<Rightarrow> string option" where
  "service_percent_decode_segment segment =
     (if CHR ''%'' \<notin> set segment then None else Some (decode_from segment 0))"

definition service_is_dot_path_segment :: "string \<Rightarrow> bool" where
  "service_is_dot_path_segment segment =
     (case service_percent_decode_segment segment of
        None \<Rightarrow> segment = ''.'' \<or> segment = ''..''
      | Some decoded \<Rightarrow> decoded = ''.'' \<or> decoded = ''..'')"

definition service_location_has_dot_path_segment :: "string \<Rightarrow> bool" where
  "service_location_has_dot_path_segment location =
     list_ex service_is_dot_path_segment
       (split_on (CHR ''/'') (before_any [CHR ''?'', CHR ''#''] location))"

subsection \<open>The shape of a location\<close>

definition location_has_query_or_fragment :: "env \<Rightarrow> string \<Rightarrow> bool" where
  "location_has_query_or_fragment E location =
     (case url_parse E location of
        Some u \<Rightarrow> url_query u \<noteq> None \<or> url_fragment u \<noteq> None
      | None \<Rightarrow> list_ex (\<lambda>c. c = CHR ''?'' \<or> c = CHR ''#'') location)"

definition location_has_userinfo :: "env \<Rightarrow> string \<Rightarrow> bool" where
  "location_has_userinfo E location =
     (case url_parse E location of
        Some u \<Rightarrow> url_username u \<noteq> [] \<or> url_password u \<noteq> None
      | None \<Rightarrow> False)"

definition credential_markers :: "string list" where
  "credential_markers =
     [''token='', ''secret='', ''credential='', ''password='', ''access_key='', ''session_token='']"

definition contains_marker :: "string \<Rightarrow> bool" where
  "contains_marker value =
     (let normalized = to_ascii_lowercase value in
      list_ex (\<lambda>marker. contains_str normalized marker) credential_markers)"

text \<open>\<open>split\<close> at any of a set of characters.\<close>

fun split_any :: "char list \<Rightarrow> string \<Rightarrow> string list" where
  "split_any cs [] = [[]]"
| "split_any cs (x # s) =
     (if x \<in> set cs then [] # split_any cs s
      else case split_any cs s of [] \<Rightarrow> [[x]] | seg # segs \<Rightarrow> (x # seg) # segs)"

text \<open>\<open>String::from_utf8\<close>: which byte sequences are UTF-8 (no overlong forms, no surrogates).\<close>

fun is_utf8 :: "nat list \<Rightarrow> bool" where
  "is_utf8 [] = True"
| "is_utf8 (a # s) =
     (if a < 128 then is_utf8 s
      else if 194 \<le> a \<and> a \<le> 223 then
        (case s of b # t \<Rightarrow> 128 \<le> b \<and> b \<le> 191 \<and> is_utf8 t | _ \<Rightarrow> False)
      else if 224 \<le> a \<and> a \<le> 239 then
        (case s of
           b # c # t \<Rightarrow> (if a = 224 then 160 else 128) \<le> b \<and> b \<le> (if a = 237 then 159 else 191) \<and>
                          128 \<le> c \<and> c \<le> 191 \<and> is_utf8 t
         | _ \<Rightarrow> False)
      else if 240 \<le> a \<and> a \<le> 244 then
        (case s of
           b # c # d # t \<Rightarrow> (if a = 240 then 144 else 128) \<le> b \<and> b \<le> (if a = 244 then 143 else 191) \<and>
                              128 \<le> c \<and> c \<le> 191 \<and> 128 \<le> d \<and> d \<le> 191 \<and> is_utf8 t
         | _ \<Rightarrow> False)
      else False)"

definition location_has_credential_marker :: "string \<Rightarrow> bool" where
  "location_has_credential_marker location =
     (contains_marker location \<or>
      list_ex (\<lambda>segment.
        case service_percent_decode_segment segment of
          None \<Rightarrow> False
        | Some decoded \<Rightarrow> is_utf8 (map byte decoded) \<and> contains_marker decoded)
        (split_any [CHR ''/'', CHR ''?'', CHR ''#''] location))"

definition validate_metadata_object_location_shape :: "env \<Rightarrow> string \<Rightarrow> unit result" where
  "validate_metadata_object_location_shape E metadata_location =
     (let refuse = (\<lambda>reason. Err (InvalidArgument (''metadata object location '' @
            metadata_location_hash_context E metadata_location @ reason))) in
      if service_location_has_dot_path_segment metadata_location then
        refuse '' must not contain dot path segments''
      else if location_has_query_or_fragment E metadata_location then
        refuse '' must not include query strings or fragments''
      else if location_has_userinfo E metadata_location then refuse '' must not include userinfo''
      else if location_has_credential_marker metadata_location then
        refuse '' must not contain credential material''
      else Ok ())"

subsection \<open>Prefixes\<close>

definition path_is_strictly_within_prefix :: "string \<Rightarrow> string \<Rightarrow> bool" where
  "path_is_strictly_within_prefix location location_prefix =
     (if location = location_prefix then False
      else if ends_with_char location_prefix (CHR ''/'') then starts_with location location_prefix
      else (case strip_prefix location location_prefix of
              None \<Rightarrow> False
            | Some suffix \<Rightarrow> starts_with suffix ''/''))"

definition location_is_strictly_within_prefix :: "env \<Rightarrow> string \<Rightarrow> string \<Rightarrow> bool" where
  "location_is_strictly_within_prefix E location location_prefix =
     (if location = location_prefix then False
      else case (url_parse E location, url_parse E location_prefix) of
        (Some location_url, Some prefix_url) \<Rightarrow>
          if url_scheme location_url = url_scheme prefix_url \<and>
             url_username location_url = url_username prefix_url \<and>
             url_password location_url = url_password prefix_url \<and>
             url_host_str location_url = url_host_str prefix_url \<and>
             url_port_or_known_default location_url = url_port_or_known_default prefix_url
          then path_is_strictly_within_prefix (url_path location_url) (url_path prefix_url)
          else False
      | _ \<Rightarrow> path_is_strictly_within_prefix location location_prefix)"

definition location_is_within_prefix :: "env \<Rightarrow> string \<Rightarrow> string \<Rightarrow> bool" where
  "location_is_within_prefix E location location_prefix =
     (if location = location_prefix then True
      else location_is_strictly_within_prefix E location location_prefix)"

definition validate_metadata_object_location ::
  "env \<Rightarrow> string \<Rightarrow> string option \<Rightarrow> StorageProfile \<Rightarrow> unit result" where
  "validate_metadata_object_location E new_metadata_location current_metadata_location profile =
     (if current_metadata_location = Some new_metadata_location then
        Err (InvalidArgument (''metadata object commit must not overwrite the current metadata location; '' @
          metadata_location_hash_context E new_metadata_location))
      else and_then (validate_metadata_object_location_shape E new_metadata_location) (\<lambda>_.
        if \<not> location_is_strictly_within_prefix E new_metadata_location (sp_location_prefix profile) then
          Err (InvalidArgument (''metadata object location '' @
            metadata_location_hash_context E new_metadata_location @
            '' is outside the selected storage profile prefix or is not a child object; storage-profile-prefix-hash='' @
            content_hash_bytes E (sp_location_prefix profile)))
        else Ok ()))"

definition validate_planned_metadata_location ::
  "env \<Rightarrow> CommitPlan \<Rightarrow> string option \<Rightarrow> StorageProfile \<Rightarrow> unit result" where
  "validate_planned_metadata_location E plan current_metadata_location profile =
     (if \<not> cp_metadata_write_required plan then Ok ()
      else and_then (ok_or (InvalidArgument ''metadata object commit requires a new metadata location'')
                      (cp_new_metadata_location plan)) (\<lambda>new_metadata_location.
        validate_metadata_object_location E new_metadata_location current_metadata_location profile))"

subsection \<open>Writing, reading and cleaning up\<close>

record PlannedMetadataWrite =
  mw_location :: string

definition write_metadata_object ::
  "env \<Rightarrow> object_api \<Rightarrow> string \<Rightarrow> json \<Rightarrow> PlannedMetadataWrite object_op" where
  "write_metadata_object E A location metadata =
     and_then_op (metadata_object_store E A location) (\<lambda>(store, object_path) w.
     case oa_to_vec_pretty A metadata of
       Inl err \<Rightarrow> (Err (Internal (''failed to encode metadata JSON: '' @ err)), w)
     | Inr payload \<Rightarrow>
         (case object_put_create store object_path payload w of
            (Inr _, w1) \<Rightarrow> (Ok \<lparr>mw_location = location\<rparr>, w1)
          | (Inl ObjectExists, w1) \<Rightarrow>
              (Err (Conflict (''metadata object '' @ metadata_location_hash_context E location @
                 '' already exists; refusing to overwrite existing metadata'')), w1)
          | (Inl err, w1) \<Rightarrow> (Err (metadata_object_write_error E location (oa_error_text A err)), w1)))"

definition write_planned_metadata ::
  "env \<Rightarrow> object_api \<Rightarrow> CommitPlan \<Rightarrow> PlannedMetadataWrite option object_op" where
  "write_planned_metadata E A plan w =
     (if \<not> cp_metadata_write_required plan then (Ok None, w)
      else case cp_new_metadata_location plan of
        None \<Rightarrow> (Ok None, w)
      | Some location \<Rightarrow>
          and_then_op (write_metadata_object E A location (cp_new_metadata plan)) (\<lambda>write w1. (Ok (Some write), w1)) w)"

definition read_metadata_object :: "env \<Rightarrow> object_api \<Rightarrow> string \<Rightarrow> json object_op" where
  "read_metadata_object E A location w0 =
     qmark (validate_metadata_object_location_shape E location) w0 (\<lambda>_.
     and_then_op (metadata_object_store E A location) (\<lambda>(store, object_path) w.
     case object_get store object_path w of
       (Inl err, w1) \<Rightarrow> (Err (metadata_object_read_error E location (oa_error_text A err)), w1)
     | (Inr result, w1) \<Rightarrow>
         if MAX_TABLE_METADATA_BYTES < length result then
           (Err (metadata_object_size_error E location (length result)), w1)
         else
           (case object_bytes result w1 of
              (Inl err, w2) \<Rightarrow> (Err (metadata_object_read_error E location (oa_error_text A err)), w2)
            | (Inr bytes, w2) \<Rightarrow>
                if MAX_TABLE_METADATA_BYTES < length bytes then
                  (Err (metadata_object_size_error E location (length bytes)), w2)
                else
                  (case oa_decode_metadata_file A location bytes MAX_TABLE_METADATA_BYTES of
                     Inl err \<Rightarrow> (Err (metadata_object_read_error E location err), w2)
                   | Inr decoded \<Rightarrow>
                       (case oa_from_slice A decoded of
                          Inl err \<Rightarrow> (Err (InvalidArgument (''metadata object '' @
                                        metadata_location_hash_context E location @ '' is not valid JSON: '' @
                                        error_detail_hash_context E err)), w2)
                        | Inr metadata \<Rightarrow> (Ok metadata, w2))))) w0)"

definition METADATA_CLEANUP_DELETE_ATTEMPTS :: nat where
  "METADATA_CLEANUP_DELETE_ATTEMPTS = 3"

definition metadata_cleanup_retry_delay :: "nat \<Rightarrow> nat" where
  "metadata_cleanup_retry_delay attempt = 25 * (attempt + 1)"

text \<open>The retry loop over its attempts; running out of them is the \<open>unreachable!\<close> after it.\<close>

fun cleanup_loop :: "env \<Rightarrow> object_api \<Rightarrow> string \<Rightarrow> string \<Rightarrow> string \<Rightarrow> nat list \<Rightarrow> unit object_op" where
  "cleanup_loop E A location store object_path [] w =
     (Err (Panicked ''internal error: entered unreachable code: metadata cleanup retry loop must return''), w)"
| "cleanup_loop E A location store object_path (attempt # rest) w =
     (case object_delete store object_path w of
        (Inr _, w1) \<Rightarrow> (Ok (), w1)
      | (Inl err, w1) \<Rightarrow>
          if err = ObjectNotFound then (Ok (), w1)
          else if attempt + 1 = METADATA_CLEANUP_DELETE_ATTEMPTS then
            (Err (metadata_cleanup_error E location (oa_error_text A err)), w1)
          else cleanup_loop E A location store object_path rest
                 (w1\<lparr>ow_slept_ms := ow_slept_ms w1 + metadata_cleanup_retry_delay attempt\<rparr>))"

definition cleanup_planned_metadata ::
  "env \<Rightarrow> object_api \<Rightarrow> PlannedMetadataWrite option \<Rightarrow> string option \<Rightarrow> unit object_op" where
  "cleanup_planned_metadata E A write previous_metadata_location w =
     (case write of
        None \<Rightarrow> (Ok (), w)
      | Some written \<Rightarrow>
          if previous_metadata_location = Some (mw_location written) then (Ok (), w)
          else
            and_then_op (metadata_object_store E A (mw_location written)) (\<lambda>(store, object_path).
            cleanup_loop E A (mw_location written) store object_path
              [0..<METADATA_CLEANUP_DELETE_ATTEMPTS]) w)"

definition cleanup_planned_metadata_after_commit_error ::
  "env \<Rightarrow> object_api \<Rightarrow> PlannedMetadataWrite option \<Rightarrow> string option \<Rightarrow> error \<Rightarrow> object_world \<Rightarrow>
     error \<times> object_world" where
  "cleanup_planned_metadata_after_commit_error E A write previous_metadata_location commit_error w =
     (case cleanup_planned_metadata E A write previous_metadata_location w of
        (Inr _, w1) \<Rightarrow> (commit_error, w1)
      | (Inl cleanup_error, w1) \<Rightarrow> (commit_error_with_cleanup_failure E commit_error cleanup_error, w1))"

end
