(* ===== verification/ServiceIdentity.thy ===== *)
theory ServiceIdentity
  imports Capabilities ServiceErrors ServiceApi ServiceLocation MemoryRegistry MemoryCommits
begin

section \<open>Request identity and authorization\<close>

text \<open>
  \<open>crates/lakecat-service/src/identity.rs\<close>: who a request speaks for, the idempotency key it
  carries, and the authorization of its action. The header map of the HTTP library is the function
  that lists the values of a name; \<open>to_str\<close> of a header value, the TypeDID verifier and the
  governance engine are arguments. The store is the in-memory catalog.
\<close>

type_synonym HeaderMap = "string \<Rightarrow> string list"

record RequestIdentity =
  ri_principal :: Principal
  ri_envelope :: json
  ri_typedid_envelope :: "string option"

definition single_header :: "(string \<Rightarrow> string option) \<Rightarrow> HeaderMap \<Rightarrow> string \<Rightarrow> string option result" where
  "single_header to_str headers name =
     (case headers name of
        [] \<Rightarrow> Ok None
      | [value] \<Rightarrow>
          map_ok Some (ok_or (InvalidArgument (''invalid UTF-8 in '' @ name @ '' header'')) (to_str value))
      | _ \<Rightarrow> Err (InvalidArgument (name @ '' header must appear at most once'')))"

definition is_ascii_whitespace :: "char \<Rightarrow> bool" where
  "is_ascii_whitespace c \<longleftrightarrow> byte c \<in> {9, 10, 12, 13, 32}"

definition bearer_principal :: "env \<Rightarrow> string \<Rightarrow> (Principal \<times> string) result" where
  "bearer_principal E authorization =
     (case strip_prefix authorization ''Bearer '' of
        None \<Rightarrow> Err (InvalidArgument ''unsupported Authorization scheme; use Bearer'')
      | Some token \<Rightarrow>
          if blank token then Err (InvalidArgument ''Authorization Bearer token must not be empty'')
          else if list_ex is_ascii_whitespace token then
            Err (InvalidArgument ''Authorization Bearer token must not contain whitespace'')
          else
            let token_sha256 = content_hash_bytes E token in
            and_then (principal_new (''bearer:'' @ token_sha256) Service) (\<lambda>p. Ok (p, token_sha256)))"

text \<open>The principal, the source it was taken from and the hash of a bearer token.\<close>

definition select_principal ::
  "env \<Rightarrow> string option \<Rightarrow> PrincipalKind option \<Rightarrow> string option \<Rightarrow> string option \<Rightarrow> string option \<Rightarrow>
     (Principal \<times> string \<times> string option) result" where
  "select_principal E explicit_principal explicit_kind agent_did explicit_typedid authorization =
     (case explicit_principal of
        Some subject \<Rightarrow>
          and_then (principal_new subject (case explicit_kind of None \<Rightarrow> Human | Some k \<Rightarrow> k)) (\<lambda>p.
          Ok (p, ''x-lakecat-principal'', None))
      | None \<Rightarrow>
     (case agent_did of
        Some did \<Rightarrow> and_then (principal_new did Agent) (\<lambda>p. Ok (p, ''x-lakecat-agent-did'', None))
      | None \<Rightarrow>
     (case explicit_typedid of
        Some did \<Rightarrow> and_then (principal_new did Agent) (\<lambda>p. Ok (p, ''x-lakecat-typedid'', None))
      | None \<Rightarrow>
     (case authorization of
        Some a \<Rightarrow> and_then (bearer_principal E a) (\<lambda>(p, token). Ok (p, ''authorization'', Some token))
      | None \<Rightarrow> Ok (principal_anonymous, ''anonymous'', None)))))"

definition identity_envelope ::
  "env \<Rightarrow> Principal \<Rightarrow> string \<Rightarrow> string option \<Rightarrow> string option \<Rightarrow> string option \<Rightarrow> string option \<Rightarrow>
     string option \<Rightarrow> string option \<Rightarrow> string option \<Rightarrow> json" where
  "identity_envelope E p source agent_did typedid typedid_envelope typedid_proof delegation
     signed_summary bearer_token_sha256 =
     jobj [(''type'', JStr ''lakecat.request-identity.v1''),
           (''principal'', principal_json p),
           (''source'', JStr source),
           (''agent-did'', jopt JStr agent_did),
           (''typedid'', jopt JStr typedid),
           (''typedid-envelope-sha256'', jopt (JStr \<circ> content_hash_bytes E) typedid_envelope),
           (''typedid-proof-sha256'', jopt (JStr \<circ> content_hash_bytes E) typedid_proof),
           (''agent-delegation-sha256'', jopt (JStr \<circ> content_hash_bytes E) delegation),
           (''agent-summary-signature-sha256'', jopt (JStr \<circ> content_hash_bytes E) signed_summary),
           (''bearer-token-sha256'', jopt JStr bearer_token_sha256),
           (''attestation-state'', JStr ''unverified''),
           (''raw-secret-material'', JBool False)]"

definition check_agent_evidence ::
  "env \<Rightarrow> Principal \<Rightarrow> string option \<Rightarrow> string option \<Rightarrow> string option \<Rightarrow> unit result" where
  "check_agent_evidence E p typedid_envelope delegation signed_summary =
     (if pr_kind p = Agent \<or> typedid_envelope \<noteq> None then Ok ()
      else case delegation of
        Some d \<Rightarrow>
          Err (InvalidArgument (''x-lakecat-agent-delegation requires an agent identity; '' @
            ''agent-delegation-hash='' @ content_hash_bytes E d))
      | None \<Rightarrow>
     (case signed_summary of
        Some signature \<Rightarrow>
          Err (InvalidArgument (''x-lakecat-agent-summary-signature requires an agent identity; '' @
            ''agent-summary-signature-hash='' @ content_hash_bytes E signature))
      | None \<Rightarrow> Ok ()))"

definition request_identity ::
  "env \<Rightarrow> (string \<Rightarrow> string option) \<Rightarrow> HeaderMap \<Rightarrow> RequestIdentity result" where
  "request_identity E to_str headers =
     (let header = single_header to_str headers in
      and_then (header ''x-lakecat-principal'') (\<lambda>explicit_principal.
      and_then (header ''x-lakecat-principal-kind'') (\<lambda>kind_text.
      and_then (case kind_text of None \<Rightarrow> Ok None | Some k \<Rightarrow> map_ok Some (principal_kind_from_str k)) (\<lambda>explicit_kind.
      if explicit_kind \<noteq> None \<and> explicit_principal = None then
        Err (InvalidArgument ''x-lakecat-principal-kind requires x-lakecat-principal'')
      else if explicit_kind = Some Anonymous then
        Err (InvalidArgument (''x-lakecat-principal-kind cannot be anonymous; '' @
          ''omit identity headers for anonymous access''))
      else
      and_then (header ''x-lakecat-agent-did'') (\<lambda>agent_did.
      and_then (header ''x-lakecat-typedid'') (\<lambda>explicit_typedid.
      let typedid = or_else explicit_typedid agent_did in
      and_then (header ''x-lakecat-typedid-proof'') (\<lambda>typedid_proof.
      and_then (header ''x-lakecat-typedid-envelope'') (\<lambda>typedid_envelope.
      and_then (case (typedid_envelope, typedid_proof) of
                  (None, Some p) \<Rightarrow>
                    Err (InvalidArgument (''x-lakecat-typedid-proof requires x-lakecat-typedid-envelope; '' @
                      ''typedid-proof-hash='' @ content_hash_bytes E p))
                | _ \<Rightarrow> Ok ()) (\<lambda>_.
      and_then (header ''x-lakecat-agent-delegation'') (\<lambda>delegation.
      and_then (header ''x-lakecat-agent-summary-signature'') (\<lambda>signed_summary.
      and_then (header ''authorization'') (\<lambda>authorization.
      if authorization \<noteq> None \<and>
         (explicit_principal \<noteq> None \<or> agent_did \<noteq> None \<or> explicit_typedid \<noteq> None) then
        Err (InvalidArgument (''Authorization cannot be combined with x-lakecat-principal, '' @
          ''x-lakecat-agent-did, or x-lakecat-typedid''))
      else
      and_then (select_principal E explicit_principal explicit_kind agent_did explicit_typedid authorization)
        (\<lambda>(p, source, bearer_token_sha256).
      and_then (check_agent_evidence E p typedid_envelope delegation signed_summary) (\<lambda>_.
      Ok \<lparr>ri_principal = p,
          ri_envelope = identity_envelope E p source agent_did typedid typedid_envelope typedid_proof
            delegation signed_summary bearer_token_sha256,
          ri_typedid_envelope = typedid_envelope\<rparr>))))))))))))))"

subsection \<open>Idempotency keys\<close>

definition idempotency_header_char :: "char \<Rightarrow> bool" where
  "idempotency_header_char c \<longleftrightarrow>
     is_ascii_alphanumeric c \<or> c \<in> {CHR ''-'', CHR ''_'', CHR ''.'', CHR '':''}"

definition single_idempotency_header :: "HeaderMap \<Rightarrow> string \<Rightarrow> string option result" where
  "single_idempotency_header headers header_name =
     (case headers header_name of
        [] \<Rightarrow> Ok None
      | [key] \<Rightarrow>
          if key = [] \<or> 128 < length key \<or> \<not> list_all is_ascii key then
            Err (InvalidArgument (header_name @ '' must be 1..=128 ASCII characters''))
          else if \<not> list_all idempotency_header_char key then
            Err (InvalidArgument (header_name @
              '' may only contain A-Z, a-z, 0-9, '' @ quoted ''-'' @ '', '' @ quoted ''_'' @ '', '' @
              quoted ''.'' @ '', or '' @ quoted '':''))
          else Ok (Some key)
      | _ \<Rightarrow> Err (InvalidArgument (header_name @ '' must appear at most once'')))"

definition request_idempotency_key :: "HeaderMap \<Rightarrow> string option result" where
  "request_idempotency_key headers =
     and_then (single_idempotency_header headers ''x-lakecat-idempotency-key'') (\<lambda>lakecat_key.
     and_then (single_idempotency_header headers ''idempotency-key'') (\<lambda>standard_key.
     case (lakecat_key, standard_key) of
       (Some l, Some s) \<Rightarrow>
         if l \<noteq> s then
           Err (InvalidArgument (''Idempotency-Key and x-lakecat-idempotency-key must match when both '' @
             ''are present''))
         else Ok (Some l)
     | (Some key, None) \<Rightarrow> Ok (Some key)
     | (None, Some key) \<Rightarrow> Ok (Some key)
     | (None, None) \<Rightarrow> Ok None))"

subsection \<open>TypeDID verification\<close>

record TypeDidVerification =
  tv_principal :: Principal
  tv_attestation :: json

type_synonym typedid_verifier = "string \<Rightarrow> TypeDidVerification result"

definition conservative_verify :: typedid_verifier where
  "conservative_verify envelope =
     Err (NotSupported ''TypeDID envelope verification requires the typesec-local integration'')"

fun with_error_text :: "string \<Rightarrow> error \<Rightarrow> error" where
  "with_error_text message (InvalidArgument _) = InvalidArgument message"
| "with_error_text message (UnprocessableEntity _) = UnprocessableEntity message"
| "with_error_text message (Conflict _) = Conflict message"
| "with_error_text message (Forbidden _) = Forbidden message"
| "with_error_text message (NotSupported _) = NotSupported message"
| "with_error_text message (Unavailable _) = Unavailable message"
| "with_error_text message (Internal _) = Internal message"
| "with_error_text message (NotFound _ _) = NotFound ''TypeDID verifier failure'' message"
| "with_error_text message (AlreadyExists _ _) = AlreadyExists ''TypeDID verifier failure'' message"
| "with_error_text message (Panicked m) = Panicked m"

definition redact_typedid_verifier_error :: "env \<Rightarrow> string \<Rightarrow> error \<Rightarrow> error" where
  "redact_typedid_verifier_error E envelope_json err =
     with_error_text (''TypeDID envelope verification failed; typedid-envelope-hash='' @
       content_hash_bytes E envelope_json @ ''; '' @ error_detail_hash_context E (error_display err)) err"

definition verified_envelope :: "TypeDidVerification \<Rightarrow> json \<Rightarrow> json result" where
  "verified_envelope verification envelope =
     and_then (index_assign envelope ''principal'' (principal_json (tv_principal verification))) (\<lambda>e1.
     and_then (index_assign e1 ''source'' (JStr ''x-lakecat-typedid-envelope'')) (\<lambda>e2.
     and_then (index_assign e2 ''typedid'' (JStr (pr_subject (tv_principal verification)))) (\<lambda>e3.
     and_then (index_assign e3 ''attestation-state'' (JStr ''verified'')) (\<lambda>e4.
     index_assign e4 ''typedid-attestation'' (tv_attestation verification)))))"

definition verify_typedid_identity ::
  "env \<Rightarrow> typedid_verifier \<Rightarrow> RequestIdentity \<Rightarrow> RequestIdentity result" where
  "verify_typedid_identity E verifier identity =
     (case ri_typedid_envelope identity of
        None \<Rightarrow> Ok identity
      | Some envelope_json \<Rightarrow>
          and_then (map_err (redact_typedid_verifier_error E envelope_json) (verifier envelope_json)) (\<lambda>verification.
          if pr_kind (ri_principal identity) \<noteq> Anonymous \<and> ri_principal identity \<noteq> tv_principal verification then
            Err (Conflict (''TypeDID verified subject does not match supplied principal; '' @
              ''verified-principal-hash='' @ content_hash_bytes E (pr_subject (tv_principal verification)) @
              ''; supplied-principal-hash='' @ content_hash_bytes E (pr_subject (ri_principal identity))))
          else
            and_then (verified_envelope verification (ri_envelope identity)) (\<lambda>envelope.
            Ok (identity\<lparr>ri_principal := tv_principal verification, ri_envelope := envelope\<rparr>))))"

subsection \<open>Authorization\<close>

type_synonym governance_engine = "AuthorizationRequest \<Rightarrow> AuthorizationReceipt result"

definition read_restriction_from_policy_bindings ::
  "env \<Rightarrow> PolicyBinding list \<Rightarrow> ReadRestriction result" where
  "read_restriction_from_policy_bindings E bindings = from_odrl_policies E (map pb_odrl bindings)"

definition policy_binding_response_json :: "PolicyBinding \<Rightarrow> json" where
  "policy_binding_response_json b =
     jobj [(''policy-id'', JStr (pb_policy_id b)), (''warehouse'', JStr (pb_warehouse b)),
           (''namespace'', jopt jstrs (pb_namespace b)), (''table'', jopt JStr (pb_table b)),
           (''enforced'', JBool (pb_enforced b)), (''odrl'', pb_odrl b)]"

definition raw_credential_exception_context :: "ReadRestriction \<Rightarrow> Principal \<Rightarrow> json" where
  "raw_credential_exception_context restriction p =
     (let governed_read_required = requires_governed_read restriction;
          trusted_human = (pr_kind p = Human);
          allowed = (\<not> governed_read_required \<or> trusted_human)
      in jobj [(''requested'', JBool True), (''allowed'', JBool allowed),
               (''reason'', JStr
                  (if \<not> governed_read_required then
                     ''restriction is compatible with short-lived credential vending''
                   else if trusted_human then
                     ''trusted human principal may use audited raw credential vending''
                   else ''fine-grained read restriction requires Sail-planned reads''))])"

definition is_read_action :: "CatalogAction \<Rightarrow> bool" where
  "is_read_action action \<longleftrightarrow> action = TablePlanScan \<or> action = CredentialsVend"

text \<open>The bindings in force on the table, and the restriction a read of it carries.\<close>

definition request_bindings ::
  "env \<Rightarrow> MemoryState \<Rightarrow> TableIdent option \<Rightarrow> PolicyBinding list result" where
  "request_bindings E s table =
     (case table of None \<Rightarrow> Ok [] | Some t \<Rightarrow> store_policy_bindings_for_table E s t)"

definition request_restriction ::
  "env \<Rightarrow> CatalogAction \<Rightarrow> PolicyBinding list \<Rightarrow> ReadRestriction option result" where
  "request_restriction E action bindings =
     (if is_read_action action \<and> bindings \<noteq> [] then
        map_ok Some (read_restriction_from_policy_bindings E bindings)
      else Ok None)"

definition base_context :: "WarehouseName \<Rightarrow> json \<Rightarrow> PolicyBinding list \<Rightarrow> json" where
  "base_context authorization_warehouse envelope bindings =
     jobj [(''warehouse'', JStr authorization_warehouse), (''request-identity'', envelope),
           (''policy-bindings'', JArr (map policy_binding_response_json bindings))]"

definition restricted_context ::
  "CatalogAction \<Rightarrow> Principal \<Rightarrow> ReadRestriction option \<Rightarrow> json \<Rightarrow> json result" where
  "restricted_context action p read_restriction context =
     (case read_restriction of
        None \<Rightarrow> Ok context
      | Some restriction \<Rightarrow>
          and_then (index_assign context ''read-restriction'' (read_restriction_json restriction)) (\<lambda>context1.
          if action = CredentialsVend then
            index_assign context1 ''lakecat:raw-credential-exception''
              (raw_credential_exception_context restriction p)
          else Ok context1))"

fun extend_context :: "(string \<times> json) list \<Rightarrow> (string, json) btree \<Rightarrow> (string, json) btree result" where
  "extend_context [] m = Ok m"
| "extend_context ((key, value) # rest) m =
     (if bt_get m key \<noteq> None then
        Err (Internal ''operation authorization context must not replace base context'')
      else extend_context rest (bt_insert key value m))"

definition operation_extended_context ::
  "(string, json) btree \<Rightarrow> json \<Rightarrow> json result" where
  "operation_extended_context operation_context context =
     (case context of
        JObj m \<Rightarrow> map_ok JObj (extend_context operation_context m)
      | _ \<Rightarrow> Err (Internal ''authorization context must be a JSON object''))"

text \<open>
  What the service is configured with (\<open>state.rs\<close>): the environment and the other parameters of the
  model, its warehouse, the root of generated table locations and the catalog identity, and the
  components it calls through a trait. \<open>lc_serde_error\<close> is the text of Serde's error for a value
  that is malformed as the named type, \<open>lc_header_str\<close> reads a header value as text.
\<close>

record LakeCatState =
  lc_env :: env
  lc_serde_error :: "string \<Rightarrow> json \<Rightarrow> string"
  lc_header_str :: "string \<Rightarrow> string option"
  lc_objects :: object_api
  lc_warehouse :: WarehouseName
  lc_table_location_root :: "string option"
  lc_catalog_identity :: string
  lc_sail :: SailCatalogEngine
  lc_governance :: governance_engine
  lc_credential_issuer :: credential_issuer
  lc_typedid_verifier :: typedid_verifier

definition authorize_with_operation_context ::
  "LakeCatState \<Rightarrow> MemoryState \<Rightarrow> RequestIdentity \<Rightarrow> CatalogAction \<Rightarrow> TableIdent option \<Rightarrow>
     (string, json) btree \<Rightarrow> AuthorizationReceipt result" where
  "authorize_with_operation_context L s identity0 action table operation_context =
     and_then (verify_typedid_identity (lc_env L) (lc_typedid_verifier L) identity0) (\<lambda>identity.
     and_then (request_bindings (lc_env L) s table) (\<lambda>policy_bindings.
     and_then (request_restriction (lc_env L) action policy_bindings) (\<lambda>read_restriction.
     let authorization_warehouse = (case table of Some t \<Rightarrow> ti_warehouse t | None \<Rightarrow> lc_warehouse L) in
     and_then (restricted_context action (ri_principal identity) read_restriction
                (base_context authorization_warehouse (ri_envelope identity) policy_bindings)) (\<lambda>context1.
     and_then (operation_extended_context operation_context context1) (\<lambda>context2.
     and_then (lc_governance L
                 \<lparr>aq_principal = ri_principal identity, aq_action = action, aq_table = table,
                  aq_context = context2\<rparr>) (\<lambda>receipt.
     if ar_allowed receipt then
       with_read_restriction_policy_hash (lc_env L) (lc_serde_error L ''ReadRestriction'') receipt
     else Err (Forbidden ''authorization denied'')))))))"

definition authorize ::
  "LakeCatState \<Rightarrow> MemoryState \<Rightarrow> RequestIdentity \<Rightarrow> CatalogAction \<Rightarrow> TableIdent option \<Rightarrow>
     AuthorizationReceipt result" where
  "authorize L s identity action table = authorize_with_operation_context L s identity action table []"

subsection \<open>Authorizing each operation\<close>

definition authorize_table_create ::
  "LakeCatState \<Rightarrow> MemoryState \<Rightarrow> RequestIdentity \<Rightarrow> TableIdent \<Rightarrow> TableCreateCapability result" where
  "authorize_table_create L s identity table =
     and_then (authorize L s identity TableCreate (Some table)) (\<lambda>receipt.
     table_create_from_receipt receipt table)"

definition authorize_table_register ::
  "LakeCatState \<Rightarrow> MemoryState \<Rightarrow> RequestIdentity \<Rightarrow> TableIdent \<Rightarrow> TableRegisterCapability result" where
  "authorize_table_register L s identity table =
     and_then (authorize L s identity TableRegister (Some table)) (\<lambda>receipt.
     table_register_from_receipt receipt table)"

definition authorize_table_load ::
  "LakeCatState \<Rightarrow> MemoryState \<Rightarrow> RequestIdentity \<Rightarrow> TableIdent \<Rightarrow> TableLoadCapability result" where
  "authorize_table_load L s identity table =
     and_then (authorize L s identity TableLoad (Some table)) (\<lambda>receipt.
     table_load_from_receipt receipt table)"

definition authorize_table_commit ::
  "LakeCatState \<Rightarrow> MemoryState \<Rightarrow> RequestIdentity \<Rightarrow> TableIdent \<Rightarrow> TableCommitCapability result" where
  "authorize_table_commit L s identity table =
     and_then (authorize L s identity TableCommit (Some table)) (\<lambda>receipt.
     table_commit_from_receipt receipt table)"

definition authorize_table_drop ::
  "LakeCatState \<Rightarrow> MemoryState \<Rightarrow> RequestIdentity \<Rightarrow> TableIdent \<Rightarrow> TableDropCapability result" where
  "authorize_table_drop L s identity table =
     and_then (authorize L s identity TableDrop (Some table)) (\<lambda>receipt.
     table_drop_from_receipt receipt table)"

definition authorize_table_restore ::
  "LakeCatState \<Rightarrow> MemoryState \<Rightarrow> RequestIdentity \<Rightarrow> TableIdent \<Rightarrow> TableRestoreCapability result" where
  "authorize_table_restore L s identity table =
     and_then (authorize L s identity TableRestore (Some table)) (\<lambda>receipt.
     table_restore_from_receipt receipt table)"

definition authorize_table_scan ::
  "LakeCatState \<Rightarrow> MemoryState \<Rightarrow> RequestIdentity \<Rightarrow> TableIdent \<Rightarrow> TableScanCapability result" where
  "authorize_table_scan L s identity table =
     and_then (authorize L s identity TablePlanScan (Some table)) (\<lambda>receipt.
     table_scan_from_receipt (lc_serde_error L ''ReadRestriction'') receipt table)"

definition authorize_credentials_vend ::
  "LakeCatState \<Rightarrow> MemoryState \<Rightarrow> RequestIdentity \<Rightarrow> TableIdent \<Rightarrow> CredentialsVendCapability result" where
  "authorize_credentials_vend L s identity table =
     and_then (authorize L s identity CredentialsVend (Some table)) (\<lambda>receipt.
     credentials_vend_from_receipt (lc_serde_error L ''ReadRestriction'') receipt table)"

definition authorize_table_rename ::
  "LakeCatState \<Rightarrow> MemoryState \<Rightarrow> RequestIdentity \<Rightarrow> TableIdent \<Rightarrow> TableIdent \<Rightarrow>
     TableRenameCapability result" where
  "authorize_table_rename L s identity source destination =
     and_then (table_rename_target_new source destination) (\<lambda>target.
     and_then (store_policy_bindings_for_table (lc_env L) s destination) (\<lambda>destination_policy_bindings.
     let operation_context =
           bt_insert ''destination-policy-bindings''
             (JArr (map policy_binding_response_json destination_policy_bindings))
             (bt_insert ''destination-table'' (ident_json destination) []) in
     and_then (authorize_with_operation_context L s identity TableRename (Some source) operation_context)
       (\<lambda>receipt. table_rename_from_receipt receipt target)))"

definition authorize_server_manage ::
  "LakeCatState \<Rightarrow> MemoryState \<Rightarrow> RequestIdentity \<Rightarrow> CanManageServers CatalogCapability result" where
  "authorize_server_manage L s identity =
     and_then (authorize L s identity ServerManage None) server_manage_from_receipt"

definition authorize_project_manage ::
  "LakeCatState \<Rightarrow> MemoryState \<Rightarrow> RequestIdentity \<Rightarrow> CanManageProjects CatalogCapability result" where
  "authorize_project_manage L s identity =
     and_then (authorize L s identity ProjectManage None) project_manage_from_receipt"

definition authorize_warehouse_manage ::
  "LakeCatState \<Rightarrow> MemoryState \<Rightarrow> RequestIdentity \<Rightarrow> CanManageWarehouses CatalogCapability result" where
  "authorize_warehouse_manage L s identity =
     and_then (authorize L s identity WarehouseManage None) warehouse_manage_from_receipt"

definition authorize_storage_profile_manage ::
  "LakeCatState \<Rightarrow> MemoryState \<Rightarrow> RequestIdentity \<Rightarrow> CanManageStorageProfiles CatalogCapability result" where
  "authorize_storage_profile_manage L s identity =
     and_then (authorize L s identity StorageProfileManage None) storage_profile_manage_from_receipt"

definition authorize_view_manage ::
  "LakeCatState \<Rightarrow> MemoryState \<Rightarrow> RequestIdentity \<Rightarrow> CanManageViews CatalogCapability result" where
  "authorize_view_manage L s identity =
     and_then (authorize L s identity ViewManage None) view_manage_from_receipt"

definition authorize_view_load ::
  "LakeCatState \<Rightarrow> MemoryState \<Rightarrow> RequestIdentity \<Rightarrow> CanLoadViews CatalogCapability result" where
  "authorize_view_load L s identity =
     and_then (authorize L s identity ViewLoad None) view_load_from_receipt"

definition authorize_view_drop ::
  "LakeCatState \<Rightarrow> MemoryState \<Rightarrow> RequestIdentity \<Rightarrow> CanDropViews CatalogCapability result" where
  "authorize_view_drop L s identity =
     and_then (authorize L s identity ViewDrop None) view_drop_from_receipt"

definition authorize_policy_manage ::
  "LakeCatState \<Rightarrow> MemoryState \<Rightarrow> RequestIdentity \<Rightarrow> CanManagePolicies CatalogCapability result" where
  "authorize_policy_manage L s identity =
     and_then (authorize L s identity PolicyManage None) policy_manage_from_receipt"

definition authorize_graph_read ::
  "LakeCatState \<Rightarrow> MemoryState \<Rightarrow> RequestIdentity \<Rightarrow> CanReadGraph CatalogCapability result" where
  "authorize_graph_read L s identity =
     and_then (authorize L s identity GraphRead None) graph_read_from_receipt"

definition authorize_lineage_read ::
  "LakeCatState \<Rightarrow> MemoryState \<Rightarrow> RequestIdentity \<Rightarrow> CanReadLineage CatalogCapability result" where
  "authorize_lineage_read L s identity =
     and_then (authorize L s identity LineageRead None) lineage_read_from_receipt"

definition authorize_catalog_config ::
  "LakeCatState \<Rightarrow> MemoryState \<Rightarrow> RequestIdentity \<Rightarrow> CanReadCatalogConfig CatalogCapability result" where
  "authorize_catalog_config L s identity =
     and_then (authorize L s identity CatalogConfig None) catalog_config_from_receipt"

definition authorize_namespace_create ::
  "LakeCatState \<Rightarrow> MemoryState \<Rightarrow> RequestIdentity \<Rightarrow> CanCreateNamespace CatalogCapability result" where
  "authorize_namespace_create L s identity =
     and_then (authorize L s identity NamespaceCreate None) namespace_create_from_receipt"

definition authorize_namespace_list ::
  "LakeCatState \<Rightarrow> MemoryState \<Rightarrow> RequestIdentity \<Rightarrow> CanListNamespaces CatalogCapability result" where
  "authorize_namespace_list L s identity =
     and_then (authorize L s identity NamespaceList None) namespace_list_from_receipt"

definition authorize_namespace_load ::
  "LakeCatState \<Rightarrow> MemoryState \<Rightarrow> RequestIdentity \<Rightarrow> CanLoadNamespace CatalogCapability result" where
  "authorize_namespace_load L s identity =
     and_then (authorize L s identity NamespaceLoad None) namespace_load_from_receipt"

definition authorize_namespace_update ::
  "LakeCatState \<Rightarrow> MemoryState \<Rightarrow> RequestIdentity \<Rightarrow> CanUpdateNamespace CatalogCapability result" where
  "authorize_namespace_update L s identity =
     and_then (authorize L s identity NamespaceUpdate None) namespace_update_from_receipt"

definition authorize_namespace_drop ::
  "LakeCatState \<Rightarrow> MemoryState \<Rightarrow> RequestIdentity \<Rightarrow> CanDropNamespace CatalogCapability result" where
  "authorize_namespace_drop L s identity =
     and_then (authorize L s identity NamespaceDrop None) namespace_drop_from_receipt"

end
