(* ===== verification/ServiceGovernedScan.thy ===== *)
theory ServiceGovernedScan
  imports ServiceIdentity MemoryOutbox
begin

section \<open>Issuing and revalidating governed scan grants\<close>

text \<open>
  \<open>crates/lakecat-service/src/governed_scan.rs\<close>: a grant is issued when a scan is planned under a
  purpose, from the table, the plan and the receipt of the plan's capability; it is revalidated
  against the current table, the current policies and a fresh decision of the governance engine.
\<close>

definition RESTRICTION_DOMAIN :: string where
  "RESTRICTION_DOMAIN = ''lakecat.scan-read-restriction.digest.v1''"

definition AUTHORIZATION_CONTEXT_DOMAIN :: string where
  "AUTHORIZATION_CONTEXT_DOMAIN = ''lakecat.scan-authorization-context.digest.v1''"

definition TABLE_METADATA_DOMAIN :: string where
  "TABLE_METADATA_DOMAIN = ''lakecat.table-metadata.digest.v1''"

definition IDENTITY_CONTEXT_DOMAIN :: string where
  "IDENTITY_CONTEXT_DOMAIN = ''lakecat.verified-identity-context.digest.v1''"

definition POLICY_HASH_DOMAIN :: string where
  "POLICY_HASH_DOMAIN = ''lakecat.scan-policy-hash.digest.v1''"

subsection \<open>Digests of a receipt\<close>

definition authorization_digest :: "env \<Rightarrow> AuthorizationReceipt \<Rightarrow> string result" where
  "authorization_digest E r =
     governed_authorization_digest E
       (jobj [(''principal'', principal_json (ar_principal r)), (''action'', action_json (ar_action r)),
              (''table'', jopt ident_json (ar_table r)), (''allowed'', JBool (ar_allowed r)),
              (''engine'', JStr (ar_engine r)), (''policyHash'', jopt JStr (ar_policy_hash r)),
              (''context'', ar_context r), (''checkedAt'', JStr (dt_json E (ar_checked_at r)))])"

definition policy_digest_json :: "AuthorizationReceipt \<Rightarrow> ReadRestriction \<Rightarrow> json" where
  "policy_digest_json r restriction =
     jobj [(''principal'', principal_json (ar_principal r)), (''action'', action_json (ar_action r)),
           (''table'', jopt ident_json (ar_table r)), (''allowed'', JBool (ar_allowed r)),
           (''engine'', JStr (ar_engine r)), (''policyHash'', jopt JStr (ar_policy_hash r)),
           (''readRestriction'', read_restriction_json restriction)]"

definition policy_digest :: "env \<Rightarrow> AuthorizationReceipt \<Rightarrow> ReadRestriction \<Rightarrow> string result" where
  "policy_digest E r restriction = governed_policy_digest E (policy_digest_json r restriction)"

definition restriction_digest :: "env \<Rightarrow> ReadRestriction \<Rightarrow> string result" where
  "restriction_digest E restriction =
     governed_evidence_digest E RESTRICTION_DOMAIN (read_restriction_json restriction)"

definition policy_hash_digest :: "env \<Rightarrow> AuthorizationReceipt \<Rightarrow> string option result" where
  "policy_hash_digest E r =
     (case ar_policy_hash r of
        None \<Rightarrow> Ok None
      | Some hash \<Rightarrow> map_ok Some (governed_evidence_digest E POLICY_HASH_DOMAIN (JStr hash)))"

subsection \<open>Verified identity\<close>

definition verified_identity_context ::
  "(string \<Rightarrow> json \<Rightarrow> string) \<Rightarrow> AuthorizationReceipt \<Rightarrow> json result" where
  "verified_identity_context serde_error r =
     and_then (ok_or (Conflict ''governed scan authorization is missing request identity evidence'')
                (jget (ar_context r) ''request-identity'')) (\<lambda>identity.
     and_then (ok_or (Conflict ''governed scan identity evidence is missing its principal'')
                (jget identity ''principal'')) (\<lambda>v.
     and_then (ok_or (Conflict (''governed scan identity principal is malformed: '' @
                        serde_error ''Principal'' v))
                (principal_from_json v)) (\<lambda>identity_principal.
     if identity_principal \<noteq> ar_principal r then
       Err (Conflict ''governed scan identity principal does not match authorization'')
     else if pr_kind (ar_principal r) = Agent \<and>
             Option.bind (jget identity ''attestation-state'') as_str \<noteq> Some ''verified'' then
       Err (Conflict ''governed agent scan requires verified TypeDID identity evidence'')
     else Ok identity)))"

subsection \<open>Issuing\<close>

definition current_snapshot_id :: "TableRecord \<Rightarrow> int option" where
  "current_snapshot_id t = Option.bind (jget (tr_metadata t) ''current-snapshot-id'') as_i64"

definition grant_evidence ::
  "env \<Rightarrow> string \<Rightarrow> TableScanCapability \<Rightarrow> TableRecord \<Rightarrow> ScanPlan \<Rightarrow> int \<Rightarrow> string \<Rightarrow> string list \<Rightarrow> json \<Rightarrow>
     GovernedScanProofEvidence result" where
  "grant_evidence E catalog_identity capability table scan snapshot_id purpose projection identity_context =
     (let receipt = cap_receipt capability;
          restriction = ts_restriction (cap_resource capability) in
      and_then (authorization_digest E receipt) (\<lambda>authorization_receipt_digest.
      and_then (policy_digest E receipt restriction) (\<lambda>policy_decision_digest.
      and_then (governed_plan_digest E (pl_scan_tasks scan)) (\<lambda>plan_task_digest.
      and_then (governed_evidence_digest E IDENTITY_CONTEXT_DOMAIN identity_context) (\<lambda>identity_context_digest.
      Ok \<lparr>ge_catalog_identity = catalog_identity,
          ge_table = ts_table (cap_resource capability),
          ge_table_version = tr_version table,
          ge_snapshot_id = snapshot_id,
          ge_plan_task_digest = plan_task_digest,
          ge_principal_subject = pr_subject (ar_principal receipt),
          ge_purpose = purpose,
          ge_effective_projection = projection,
          ge_identity_context_digest = identity_context_digest,
          ge_authorization_receipt_digest = authorization_receipt_digest,
          ge_policy_decision_digest = policy_decision_digest\<rparr>)))))"

definition grant_of_proof ::
  "env \<Rightarrow> int \<Rightarrow> TableScanCapability \<Rightarrow> TableRecord \<Rightarrow> string list \<Rightarrow> GovernedScanProof \<Rightarrow>
     GovernedScanGrant result" where
  "grant_of_proof E now capability table requested_projection p =
     (let receipt = cap_receipt capability in
      and_then (policy_hash_digest E receipt) (\<lambda>hash_digest.
      and_then (governed_evidence_digest E AUTHORIZATION_CONTEXT_DOMAIN (ar_context receipt)) (\<lambda>context_digest.
      and_then (restriction_digest E (ts_restriction (cap_resource capability))) (\<lambda>read_restriction_digest.
      and_then (governed_evidence_digest E TABLE_METADATA_DOMAIN (tr_metadata table)) (\<lambda>metadata_digest.
      Ok \<lparr>gg_proof = p,
          gg_principal = ar_principal receipt,
          gg_requested_projection = requested_projection,
          gg_policy_engine = ar_engine receipt,
          gg_policy_hash_digest = hash_digest,
          gg_authorization_context_digest = context_digest,
          gg_read_restriction_digest = read_restriction_digest,
          gg_table_metadata_digest = metadata_digest,
          gg_issued_at = now\<rparr>)))))"

text \<open>The error of an agent without verified evidence, recognised by its text.\<close>

definition identity_not_verified :: "error \<Rightarrow> bool" where
  "identity_not_verified e =
     (case e of
        Conflict message \<Rightarrow> contains_str message ''requires verified TypeDID identity evidence''
      | _ \<Rightarrow> False)"

definition issue_governed_scan_grant ::
  "env \<Rightarrow> (string \<Rightarrow> json \<Rightarrow> string) \<Rightarrow> int \<Rightarrow> string \<Rightarrow> TableScanCapability \<Rightarrow> TableRecord \<Rightarrow> ScanPlan \<Rightarrow>
     string list \<Rightarrow> string list \<Rightarrow> GovernedScanGrant option result" where
  "issue_governed_scan_grant E serde_error now catalog_identity capability table scan
     requested_projection projection =
     (case rr_purpose (ts_restriction (cap_resource capability)) of
        None \<Rightarrow> Ok None
      | Some purpose \<Rightarrow>
     (case pl_snapshot_id scan of
        None \<Rightarrow> Err (Conflict ''governed scan planning did not bind a table snapshot'')
      | Some snapshot_id \<Rightarrow>
        if current_snapshot_id table \<noteq> Some snapshot_id then
          Err (Conflict ''governed scan plan does not match the current table snapshot'')
        else case verified_identity_context serde_error (cap_receipt capability) of
          Inl e \<Rightarrow> if identity_not_verified e then Ok None else Err e
        | Inr identity_context \<Rightarrow>
            and_then (grant_evidence E catalog_identity capability table scan snapshot_id purpose
                        projection identity_context) (\<lambda>evidence.
            and_then (governed_scan_proof_issue E evidence) (\<lambda>p.
            and_then (grant_of_proof E now capability table requested_projection p) (\<lambda>grant.
            and_then (grant_validate E grant) (\<lambda>_. Ok (Some grant)))))))"

subsection \<open>Revalidation\<close>

record RevalidatedGovernedScanGrant =
  rv_proof :: GovernedScanProof
  rv_digests :: GovernedScanDigests
  rv_fresh_authorization_digest :: string
  rv_fresh_policy_decision_digest :: string
  rv_revalidated_at :: int

definition stale_evidence :: error where
  "stale_evidence = Conflict ''governed scan grant is stale relative to current table evidence''"

definition validate_table_evidence :: "env \<Rightarrow> GovernedScanGrant \<Rightarrow> TableRecord \<Rightarrow> unit result" where
  "validate_table_evidence E grant table =
     and_then (ok_or (Conflict ''current table metadata does not contain a governed snapshot'')
                (current_snapshot_id table)) (\<lambda>current_snapshot.
     if current_snapshot \<noteq> gp_snapshot_id (gg_proof grant) \<or>
        tr_version table \<noteq> gp_table_version (gg_proof grant) then Err stale_evidence
     else and_then (governed_evidence_digest E TABLE_METADATA_DOMAIN (tr_metadata table)) (\<lambda>digest.
       if digest \<noteq> gg_table_metadata_digest grant then Err stale_evidence else Ok ()))"

definition validate_fresh_restriction :: "env \<Rightarrow> GovernedScanGrant \<Rightarrow> ReadRestriction \<Rightarrow> unit result" where
  "validate_fresh_restriction E grant restriction =
     (if rr_purpose restriction \<noteq> Some (gp_purpose (gg_proof grant)) then
        Err (Conflict ''governed scan purpose is no longer authorized'')
      else and_then (effective_projection restriction (gg_requested_projection grant)) (\<lambda>projection.
        if projection \<noteq> gp_effective_projection (gg_proof grant) then
          Err (Conflict ''governed scan projection changed since planning'')
        else and_then (restriction_digest E restriction) (\<lambda>digest.
          if digest \<noteq> gg_read_restriction_digest grant then
            Err (Conflict ''governed scan read restriction changed since planning'')
          else Ok ())))"

definition revalidation_context ::
  "GovernedScanGrant \<Rightarrow> ReadRestriction \<Rightarrow> PolicyBinding list \<Rightarrow> json" where
  "revalidation_context grant restriction bindings =
     jobj [(''warehouse'', JStr (ti_warehouse (gp_table (gg_proof grant)))),
           (''request-identity'',
              jobj [(''principal'', principal_json (gg_principal grant)),
                    (''attestation-state'', JStr ''governed-scan-revalidation''),
                    (''original-authorization-context-digest'', JStr (gg_authorization_context_digest grant))]),
           (''policy-bindings'', JArr (map policy_binding_response_json bindings)),
           (''read-restriction'', read_restriction_json restriction),
           (''governed-scan-grant-id'', JStr (gp_grant_id (gg_proof grant)))]"

definition fresh_authorization ::
  "LakeCatState \<Rightarrow> GovernedScanGrant \<Rightarrow> ReadRestriction \<Rightarrow> PolicyBinding list \<Rightarrow>
     AuthorizationReceipt result" where
  "fresh_authorization L grant restriction bindings =
     and_then (lc_governance L
                 \<lparr>aq_principal = gg_principal grant, aq_action = TablePlanScan,
                  aq_table = Some (gp_table (gg_proof grant)),
                  aq_context = revalidation_context grant restriction bindings\<rparr>) (\<lambda>receipt.
     if \<not> ar_allowed receipt then Err (Forbidden ''governed scan authorization was revoked'')
     else with_read_restriction_policy_hash (lc_env L) (lc_serde_error L ''ReadRestriction'') receipt)"

definition validate_fresh_policy ::
  "env \<Rightarrow> (json \<Rightarrow> string) \<Rightarrow> GovernedScanGrant \<Rightarrow> AuthorizationReceipt \<Rightarrow> ReadRestriction \<Rightarrow>
     unit result" where
  "validate_fresh_policy E serde_error grant receipt restriction =
     (if ar_principal receipt \<noteq> gg_principal grant \<or> ar_action receipt \<noteq> TablePlanScan \<or>
         ar_table receipt \<noteq> Some (gp_table (gg_proof grant)) then
        Err (Conflict ''fresh governed scan authorization has different authority scope'')
      else and_then (table_scan_from_receipt serde_error receipt (gp_table (gg_proof grant))) (\<lambda>fresh_capability.
        if ts_restriction (cap_resource fresh_capability) \<noteq> restriction then
          Err (Conflict ''fresh governed scan authorization carries different read restrictions'')
        else and_then (policy_digest E receipt restriction) (\<lambda>digest.
          if digest \<noteq> gp_policy_decision_digest (gg_proof grant) then
            Err (Conflict ''governed scan policy decision changed since planning'')
          else Ok ())))"

definition revalidate_governed_scan_grant ::
  "LakeCatState \<Rightarrow> int \<Rightarrow> MemoryState \<Rightarrow> GovernedScanProof \<Rightarrow> RevalidatedGovernedScanGrant result" where
  "revalidate_governed_scan_grant L now s presented =
     (let E = lc_env L in
      and_then (validate_integrity E presented) (\<lambda>_.
      if gp_catalog_identity presented \<noteq> lc_catalog_identity L then
        Err (Conflict ''governed scan proof belongs to a different configured catalog'')
      else and_then (load_governed_scan_grant E s (gp_grant_id presented)) (\<lambda>grant.
      if gg_proof grant \<noteq> presented then
        Err (Conflict ''presented governed scan proof differs from durable grant evidence'')
      else and_then (load_table s (gp_table presented)) (\<lambda>table.
      and_then (validate_table_evidence E grant table) (\<lambda>_.
      and_then (store_policy_bindings_for_table E s (gp_table presented)) (\<lambda>bindings.
      and_then (read_restriction_from_policy_bindings E bindings) (\<lambda>restriction.
      and_then (fresh_authorization L grant restriction bindings) (\<lambda>receipt.
      and_then (validate_fresh_restriction E grant restriction) (\<lambda>_.
      and_then (validate_fresh_policy E (lc_serde_error L ''ReadRestriction'') grant receipt restriction) (\<lambda>_.
      and_then (governed_scan_digests E (gg_proof grant)) (\<lambda>digests.
      and_then (authorization_digest E receipt) (\<lambda>fresh_authorization_digest.
      and_then (policy_digest E receipt restriction) (\<lambda>fresh_policy_decision_digest.
      Ok \<lparr>rv_proof = gg_proof grant, rv_digests = digests,
          rv_fresh_authorization_digest = fresh_authorization_digest,
          rv_fresh_policy_decision_digest = fresh_policy_decision_digest,
          rv_revalidated_at = now\<rparr>)))))))))))))"

subsection \<open>The TypeSec engine\<close>

text \<open>
  \<open>crates/lakecat-security/src/typesec_integration/mod.rs\<close> over a policy engine of the \<open>typesec\<close>
  library, which is the argument \<open>check\<close>: from subject, action and resource to a decision. Its
  policy hash covers the hash of the whole request context.
\<close>

datatype PolicyResult = PolicyAllow | PolicyDeny | PolicyDelegate | PolicyOther

fun policy_result_name :: "PolicyResult \<Rightarrow> string" where
  "policy_result_name PolicyAllow = ''allow''"
| "policy_result_name PolicyDeny = ''deny''"
| "policy_result_name PolicyDelegate = ''delegate''"
| "policy_result_name PolicyOther = ''unknown''"

definition typesec_decision_json ::
  "AuthorizationRequest \<Rightarrow> PolicyResult \<Rightarrow> string \<Rightarrow> json" where
  "typesec_decision_json request decision context_hash =
     jobj [(''engine'', JStr ''typesec''), (''subject'', JStr (pr_subject (aq_principal request))),
           (''action'', JStr (action_name (aq_action request))),
           (''resource'', JStr (resource_name request)),
           (''decision'', JStr (policy_result_name decision)), (''context-hash'', JStr context_hash)]"

definition typesec_authorize ::
  "env \<Rightarrow> (string \<Rightarrow> string \<Rightarrow> string \<Rightarrow> PolicyResult) \<Rightarrow> int \<Rightarrow> governance_engine" where
  "typesec_authorize E check now request =
     (let decision = check (pr_subject (aq_principal request)) (action_name (aq_action request))
                       (resource_name request) in
      and_then (content_hash_json E (aq_context request)) (\<lambda>context_hash.
      and_then (content_hash_json E (typesec_decision_json request decision context_hash)) (\<lambda>hash.
      Ok \<lparr>ar_principal = aq_principal request, ar_action = aq_action request,
          ar_table = aq_table request, ar_allowed = (decision = PolicyAllow), ar_engine = ''typesec'',
          ar_policy_hash = Some hash, ar_context = aq_context request, ar_checked_at = now\<rparr>)))"

end
