(* ===== verification/SecurityProperties.thy ===== *)
theory SecurityProperties
  imports Capabilities
begin

section \<open>Properties of restrictions and capabilities\<close>

text \<open>
  The column routines against their reference, the composition of policies as the intersection
  of what each permits, the projection a reader gets, and what a capability proves about its
  receipt.
\<close>

subsection \<open>The column routines\<close>

fun keep_first :: "string set \<Rightarrow> string list \<Rightarrow> string list" where
  "keep_first seen [] = []"
| "keep_first seen (c # cs) = (if c \<in> seen then keep_first seen cs else c # keep_first (insert c seen) cs)"

lemma keep_first_snoc:
  "keep_first seen (xs @ [x]) = keep_first seen xs @ (if x \<in> seen \<union> set xs then [] else [x])"
  by (induction seen xs rule: keep_first.induct) auto

lemma keep_first_remdups: "keep_first {} xs = rev (remdups (rev xs))"
  by (induction xs rule: rev_induct) (auto simp: keep_first_snoc)

lemma dedup_hashed: "map fst (filter snd (zip cs (first_occurrence_flags seen cs))) = keep_first seen cs"
  by (induction seen cs rule: first_occurrence_flags.induct) (auto simp: insert_absorb)

lemma dedup_linear_keep_first: "dedup_linear out cs = out @ keep_first (set out) cs"
  by (induction out cs rule: dedup_linear.induct) (auto simp: list_ex_iff)

lemma dedup_columns_remdups: "dedup_columns columns = rev (remdups (rev columns))"
  by (simp add: dedup_columns_def dedup_hashed dedup_linear_keep_first keep_first_remdups)

lemma retain_allowed_filter:
  "retain_allowed_columns requested allowed = filter (\<lambda>c. c \<in> set allowed) requested"
  by (auto simp: retain_allowed_columns_def list_ex_iff intro!: filter_cong)

lemma set_dedup_columns: "set (dedup_columns columns) = set columns"
  by (simp add: dedup_columns_remdups)

text \<open>
  C40: the hashed and the quadratic column routines agree with one reference, whatever the length of
  the lists: deduplication keeps the first occurrences in order, and retaining is a filter by
  membership.
\<close>

theorem column_routines_equal_reference:
  "dedup_columns columns = rev (remdups (rev columns)) \<and>
   dedup_columns columns = dedup_linear [] columns \<and>
   retain_allowed_columns requested allowed = filter (\<lambda>c. c \<in> set allowed) requested \<and>
   set (intersect_columns left right) = set left \<inter> set right"
  by (auto simp: dedup_columns_remdups dedup_linear_keep_first keep_first_remdups
      retain_allowed_filter intersect_columns_def)

subsection \<open>Composition\<close>

text \<open>
  What a restriction permits: reading a column of a row under a purpose with credentials of a
  lifetime. A row passes when every mandatory filter holds of it; \<open>holds\<close> is the evaluation of
  Iceberg expressions on that row, which is not in the repository.
\<close>

definition permits :: "(json \<Rightarrow> bool) \<Rightarrow> ReadRestriction \<Rightarrow> string \<Rightarrow> string \<Rightarrow> 64 word \<Rightarrow> bool" where
  "permits holds r column purpose ttl \<longleftrightarrow>
     (case rr_allowed_columns r of None \<Rightarrow> True | Some columns \<Rightarrow> column \<in> set columns) \<and>
     list_all holds (mandatory_filters r) \<and>
     (case rr_purpose r of None \<Rightarrow> True | Some p \<Rightarrow> purpose = p) \<and>
     (case rr_max_credential_ttl_seconds r of None \<Rightarrow> True | Some m \<Rightarrow> ttl \<le> m)"

lemma merge_purpose_Ok: "merge_purpose p q = Ok m \<longleftrightarrow> m = q \<and> (p = None \<or> p = Some q)"
  by (auto simp: merge_purpose_def split: option.splits)

lemma compose_step_fields:
  assumes "compose_odrl_policy E odrl r = Ok r'"
  obtains hash columns predicate purpose ttl where
    "content_hash_json E odrl = Ok hash" "allowed_columns_from_odrl odrl = Ok columns"
    "row_predicate_from_odrl odrl = Ok predicate" "purpose_from_odrl odrl = Ok purpose"
    "ttl_from_odrl odrl = Ok ttl"
    "rr_policy_hashes r' = rr_policy_hashes r @ [hash]"
    "rr_allowed_columns r' = (case columns of None \<Rightarrow> rr_allowed_columns r | Some cs \<Rightarrow>
       Some (case rr_allowed_columns r of None \<Rightarrow> cs | Some e \<Rightarrow> intersect_columns e cs))"
    "rr_row_predicate r' = (case predicate of None \<Rightarrow> rr_row_predicate r | Some p \<Rightarrow>
       Some (case rr_row_predicate r of None \<Rightarrow> p | Some e \<Rightarrow> and_row_predicates e p))"
    "rr_purpose r' = (case purpose of None \<Rightarrow> rr_purpose r | Some q \<Rightarrow> Some q)"
    "purpose = None \<or> rr_purpose r = None \<or> rr_purpose r = purpose"
    "rr_max_credential_ttl_seconds r' = (case ttl of None \<Rightarrow> rr_max_credential_ttl_seconds r | Some t \<Rightarrow>
       Some (case rr_max_credential_ttl_seconds r of None \<Rightarrow> t | Some e \<Rightarrow> min e t))"
proof -
  from assms obtain r1 r2 r3 r4 where steps:
    "push_policy_hash E odrl r = Ok r1" "restrict_columns odrl r1 = Ok r2"
    "restrict_rows odrl r2 = Ok r3" "restrict_purpose odrl r3 = Ok r4" "restrict_ttl odrl r4 = Ok r'"
    by (auto simp: compose_odrl_policy_def and_then_ok)
  from steps(1) obtain hash where 1: "content_hash_json E odrl = Ok hash"
      "r1 = r\<lparr>rr_policy_hashes := rr_policy_hashes r @ [hash]\<rparr>"
    by (auto simp: push_policy_hash_def and_then_ok)
  from steps(2) obtain columns where 2: "allowed_columns_from_odrl odrl = Ok columns"
      "r2 = (case columns of None \<Rightarrow> r1 | Some cs \<Rightarrow> r1\<lparr>rr_allowed_columns := Some (case rr_allowed_columns r1 of
                 Some existing \<Rightarrow> intersect_columns existing cs | None \<Rightarrow> cs)\<rparr>)"
    by (auto simp: restrict_columns_def and_then_ok)
  from steps(3) obtain predicate where 3: "row_predicate_from_odrl odrl = Ok predicate"
      "r3 = (case predicate of None \<Rightarrow> r2 | Some p \<Rightarrow> r2\<lparr>rr_row_predicate := Some (case rr_row_predicate r2 of
                 Some existing \<Rightarrow> and_row_predicates existing p | None \<Rightarrow> p)\<rparr>)"
    by (auto simp: restrict_rows_def and_then_ok)
  from steps(4) obtain purpose where 4: "purpose_from_odrl odrl = Ok purpose"
      "(case purpose of None \<Rightarrow> Ok r3 | Some q \<Rightarrow>
          and_then (merge_purpose (rr_purpose r3) q) (\<lambda>merged. Ok (r3\<lparr>rr_purpose := Some merged\<rparr>))) = Ok r4"
    by (auto simp: restrict_purpose_def and_then_ok)
  have 6: "r4 = (case purpose of None \<Rightarrow> r3 | Some q \<Rightarrow> r3\<lparr>rr_purpose := Some q\<rparr>)"
      "purpose = None \<or> rr_purpose r3 = None \<or> rr_purpose r3 = purpose"
    using 4(2) by (cases purpose; auto simp: and_then_ok merge_purpose_Ok)+
  from steps(5) obtain ttl where 5: "ttl_from_odrl odrl = Ok ttl"
      "r' = (case ttl of None \<Rightarrow> r4 | Some t \<Rightarrow> r4\<lparr>rr_max_credential_ttl_seconds :=
                 Some (case rr_max_credential_ttl_seconds r4 of
                 Some existing \<Rightarrow> min existing t | None \<Rightarrow> t)\<rparr>)"
    by (auto simp: restrict_ttl_def and_then_ok)
  show thesis
    by (rule that [OF 1(1) 2(1) 3(1) 4(1) 5(1)])
      (use 1(2) 2(2) 3(2) 6 5(2) in \<open>simp_all split: option.splits\<close>)
qed

text \<open>One policy adds to a restriction what it permits alone.\<close>

lemma compose_step_permits:
  assumes conj: "\<And>l r. holds (and_row_predicates l r) \<longleftrightarrow> holds l \<and> holds r"
    and step: "compose_odrl_policy E odrl r = Ok r'"
  shows "\<exists>r1. compose_odrl_policy E odrl unrestricted = Ok r1 \<and>
    (permits holds r' c q t \<longleftrightarrow> permits holds r c q t \<and> permits holds r1 c q t)"
  using step
proof (rule compose_step_fields)
  fix hash columns predicate purpose ttl
  assume found: "content_hash_json E odrl = Ok hash" "allowed_columns_from_odrl odrl = Ok columns"
    "row_predicate_from_odrl odrl = Ok predicate" "purpose_from_odrl odrl = Ok purpose"
    "ttl_from_odrl odrl = Ok ttl"
  assume r': "rr_policy_hashes r' = rr_policy_hashes r @ [hash]"
    "rr_allowed_columns r' = (case columns of None \<Rightarrow> rr_allowed_columns r | Some cs \<Rightarrow>
       Some (case rr_allowed_columns r of None \<Rightarrow> cs | Some e \<Rightarrow> intersect_columns e cs))"
    "rr_row_predicate r' = (case predicate of None \<Rightarrow> rr_row_predicate r | Some p \<Rightarrow>
       Some (case rr_row_predicate r of None \<Rightarrow> p | Some e \<Rightarrow> and_row_predicates e p))"
    "rr_purpose r' = (case purpose of None \<Rightarrow> rr_purpose r | Some q \<Rightarrow> Some q)"
    "purpose = None \<or> rr_purpose r = None \<or> rr_purpose r = purpose"
    "rr_max_credential_ttl_seconds r' = (case ttl of None \<Rightarrow> rr_max_credential_ttl_seconds r | Some t \<Rightarrow>
       Some (case rr_max_credential_ttl_seconds r of None \<Rightarrow> t | Some e \<Rightarrow> min e t))"
  let ?r1 = "\<lparr>rr_allowed_columns = columns, rr_row_predicate = predicate, rr_purpose = purpose,
      rr_max_credential_ttl_seconds = ttl, rr_policy_hashes = [hash]\<rparr>"
  have "compose_odrl_policy E odrl unrestricted = Ok ?r1"
    using found
    by (simp add: compose_odrl_policy_def push_policy_hash_def restrict_columns_def restrict_rows_def
        restrict_purpose_def merge_purpose_def restrict_ttl_def unrestricted_def split: option.splits)
  moreover have "permits holds r' c q t \<longleftrightarrow> permits holds r c q t \<and> permits holds ?r1 c q t"
    using r'(5) unfolding permits_def mandatory_filters_def r'(2-4,6)
    by (auto simp: conj intersect_columns_def retain_allowed_filter split: option.splits)
  ultimately show ?thesis by blast
qed

lemma compose_policies_permits:
  assumes conj: "\<And>l r. holds (and_row_predicates l r) \<longleftrightarrow> holds l \<and> holds r"
  shows "compose_odrl_policies E r policies = Ok r' \<Longrightarrow>
    permits holds r' c q t \<longleftrightarrow> permits holds r c q t \<and>
      (\<forall>odrl \<in> set policies. \<exists>r1. from_odrl_policies E [odrl] = Ok r1 \<and> permits holds r1 c q t)"
proof (induction E r policies rule: compose_odrl_policies.induct)
  case (2 E r odrl policies)
  then obtain s where s: "compose_odrl_policy E odrl r = Ok s" "compose_odrl_policies E s policies = Ok r'"
    by (auto simp: and_then_ok)
  from compose_step_permits [OF conj s(1)] obtain r1 where
    r1: "compose_odrl_policy E odrl unrestricted = Ok r1"
      "permits holds s c q t \<longleftrightarrow> permits holds r c q t \<and> permits holds r1 c q t" by blast
  then have "from_odrl_policies E [odrl] = Ok r1" by (simp add: from_odrl_policies_def)
  with "2.IH" [OF s(2)] r1(2) show ?case by auto
qed simp

lemma compose_policies_hashes:
  "compose_odrl_policies E r policies = Ok r' \<Longrightarrow>
    \<exists>hashes. traverse (content_hash_json E) policies = Ok hashes \<and>
      rr_policy_hashes r' = rr_policy_hashes r @ hashes"
proof (induction E r policies rule: compose_odrl_policies.induct)
  case (2 E r odrl policies)
  then obtain s where s: "compose_odrl_policy E odrl r = Ok s" "compose_odrl_policies E s policies = Ok r'"
    by (auto simp: and_then_ok)
  from s(1) obtain hash where "content_hash_json E odrl = Ok hash"
    "rr_policy_hashes s = rr_policy_hashes r @ [hash]" by (rule compose_step_fields)
  with "2.IH" [OF s(2)] show ?case by auto
qed simp


lemma compose_policies_columns:
  "compose_odrl_policies E r policies = Ok r' \<Longrightarrow> rr_allowed_columns r = Some columns \<Longrightarrow>
    \<exists>columns'. rr_allowed_columns r' = Some columns' \<and> set columns' \<subseteq> set columns"
proof (induction E r policies arbitrary: columns rule: compose_odrl_policies.induct)
  case (2 E r odrl policies)
  then obtain s where s: "compose_odrl_policy E odrl r = Ok s" "compose_odrl_policies E s policies = Ok r'"
    by (auto simp: and_then_ok)
  have "\<exists>cs. rr_allowed_columns s = Some cs \<and> set cs \<subseteq> set columns"
    using s(1) "2.prems"(2)
    by (elim compose_step_fields) (auto simp: intersect_columns_def retain_allowed_filter split: option.splits)
  with "2.IH" [OF s(2)] show ?case by (meson subset_trans)
qed simp

lemma compose_policies_restricted:
  "compose_odrl_policies E r policies = Ok r' \<Longrightarrow> odrl \<in> set policies \<Longrightarrow>
    allowed_columns_from_odrl odrl = Ok (Some allowed) \<Longrightarrow>
    \<exists>columns. rr_allowed_columns r' = Some columns \<and> set columns \<subseteq> set allowed"
proof (induction E r policies rule: compose_odrl_policies.induct)
  case (2 E r first policies)
  then obtain s where s: "compose_odrl_policy E first r = Ok s" "compose_odrl_policies E s policies = Ok r'"
    by (auto simp: and_then_ok)
  show ?case
  proof (cases "odrl = first")
    case True
    with s(1) "2.prems"(3) have "\<exists>cs. rr_allowed_columns s = Some cs \<and> set cs \<subseteq> set allowed"
      by (elim compose_step_fields) (auto simp: intersect_columns_def retain_allowed_filter split: option.splits)
    with compose_policies_columns [OF s(2)] show ?thesis by (meson subset_trans)
  next
    case False
    with "2.IH" [OF s(2)] "2.prems"(2,3) show ?thesis by simp
  qed
qed simp

text \<open>
  An evaluator of expressions for the instances, false exactly on the expressions that mention the
  constant false, and two policies.
\<close>

fun never_false :: "json \<Rightarrow> bool" where
  "never_false (JStr s) = (s \<noteq> ''false'')"
| "never_false (JObj m) = (\<forall>p \<in> set m. never_false (snd p))"
| "never_false (JArr xs) = (\<forall>x \<in> set xs. never_false x)"
| "never_false _ = True"

lemma never_false_and: "never_false (and_row_predicates l r) \<longleftrightarrow> never_false l \<and> never_false r"
  by (auto simp: and_row_predicates_def jobj_def)

definition demo_policy :: json where
  "demo_policy =
     jobj [(''allowed-columns'', jstrs [''id'', ''region'', ''id'']), (''purpose'', JStr ''audit''),
           (''max-credential-ttl-seconds'', JInt 900)]"

definition demo_constraint_policy :: json where
  "demo_constraint_policy =
     jobj [(''permission'', jobj [(''constraint'', JArr
       [jobj [(''leftOperand'', JStr ''columns''), (''operator'', JStr ''odrl:isAnyOf''),
              (''rightOperand'', jstrs [''region'', ''amount''])],
        jobj [(''leftOperand'', JStr ''row-predicate''), (''operator'', JStr ''eq''),
              (''rightOperand'', jobj [(''type'', JStr ''true'')])],
        jobj [(''leftOperand'', JStr ''credential-ttl''), (''operator'', JStr ''lteq''),
              (''rightOperand'', jobj [(''@value'', JStr ''600'')])]])])]"

definition demo_restriction :: ReadRestriction where
  "demo_restriction =
     \<lparr>rr_allowed_columns = Some [''region''], rr_row_predicate = Some (jobj [(''type'', JStr ''true'')]),
      rr_purpose = Some ''audit'', rr_max_credential_ttl_seconds = Some 600,
      rr_policy_hashes = [demo_digest, demo_digest]\<rparr>"

lemmas odrl_defs = first_some_def jget2_def explicit_columns_def explicit_predicate_def explicit_ttls_def
  string_list_def string_list_raw_def nonblank_jsonld_string_def jsonld_string_value_def or_else_def
  require_nonblank_string_def odrl_constraints_def values_as_slice_def left_operand_in_def
  constraint_left_operand_def jsonld_term_def column_terms_def predicate_terms_def purpose_terms_def
  ttl_terms_def constraint_right_operand_def require_constraint_operator_def constraint_operator_def
  row_predicate_value_def ttl_value_def jsonld_u64_value_def as_u64_def
  tighten_ttl_def

lemma jobj_not_array: "(case jobj kvs of JArr xs \<Rightarrow> f xs | _ \<Rightarrow> g) = g"
  by (simp add: jobj_def)

lemma as_str_jobj: "as_str (jobj kvs) = None"
  by (simp add: jobj_def)

lemma u64_from_json_cases:
  "u64_from_json (JInt n) = (if 0 \<le> n \<and> n < 2 ^ 64 then Some (word_of_int n) else None)"
  "u64_from_json (JStr s) = None" "u64_from_json (jobj kvs) = None"
  by (simp_all add: u64_from_json_def jobj_def)

lemma demo_not_blank:
  "\<not> blank ''id''" "\<not> blank ''region''" "\<not> blank ''audit''" "\<not> blank ''amount''"
  by code_simp+

lemma demo_digits: "parse_u64 ''600'' = Some 600"
  by (simp add: parse_u64_def is_ascii_digit_def decimal_value_def)

lemma demo_policy_reads:
  "allowed_columns_from_odrl demo_policy = Ok (Some [''id'', ''region''])"
  "row_predicate_from_odrl demo_policy = Ok None"
  "purpose_from_odrl demo_policy = Ok (Some ''audit'')"
  "ttl_from_odrl demo_policy = Ok (Some 900)"
  by (simp_all add: demo_policy_def allowed_columns_from_odrl_def row_predicate_from_odrl_def
      purpose_from_odrl_def ttl_from_odrl_def odrl_defs dedup_columns_remdups jobj_not_array as_str_jobj
      demo_not_blank u64_from_json_cases)

lemma demo_constraint_policy_reads:
  "allowed_columns_from_odrl demo_constraint_policy = Ok (Some [''region'', ''amount''])"
  "row_predicate_from_odrl demo_constraint_policy = Ok (Some (jobj [(''type'', JStr ''true'')]))"
  "purpose_from_odrl demo_constraint_policy = Ok None"
  "ttl_from_odrl demo_constraint_policy = Ok (Some 600)"
  by (simp_all add: demo_constraint_policy_def allowed_columns_from_odrl_def row_predicate_from_odrl_def
      purpose_from_odrl_def ttl_from_odrl_def odrl_defs dedup_columns_remdups jobj_not_array as_str_jobj
      demo_not_blank demo_digits u64_from_json_cases strip_prefix_def starts_with_def)

lemma demo_composition:
  "from_odrl_policies demo_env [demo_policy, demo_constraint_policy] = Ok demo_restriction"
  by (simp add: from_odrl_policies_def compose_odrl_policy_def push_policy_hash_def restrict_columns_def
      restrict_rows_def restrict_purpose_def restrict_ttl_def demo_policy_reads
      demo_constraint_policy_reads demo_hash unrestricted_def demo_restriction_def
      intersect_columns_def retain_allowed_filter merge_purpose_def)

lemma demo_restrictions:
  "from_odrl_policies demo_env [demo_policy] =
     Ok \<lparr>rr_allowed_columns = Some [''id'', ''region''], rr_row_predicate = None,
         rr_purpose = Some ''audit'', rr_max_credential_ttl_seconds = Some 900,
         rr_policy_hashes = [demo_digest]\<rparr>"
  by (simp add: from_odrl_policies_def compose_odrl_policy_def push_policy_hash_def restrict_columns_def
      restrict_rows_def restrict_purpose_def restrict_ttl_def demo_policy_reads demo_hash
      unrestricted_def merge_purpose_def)

text \<open>
  C13: composing policies is intersecting what they permit. A column of a row may be read under the
  composed restriction, for a purpose and with credentials of some lifetime, exactly when every
  policy alone permits it, whatever the order of the policies; and the restriction names the
  hash of every policy in order. The hypothesis on \<open>holds\<close> is the meaning of Iceberg's \<open>and\<close>.
\<close>

theorem composition_is_intersection:
  assumes "from_odrl_policies E policies = Ok r"
    and "\<And>l r. holds (and_row_predicates l r) \<longleftrightarrow> holds l \<and> holds r"
  shows "(permits holds r column purpose ttl \<longleftrightarrow>
      (\<forall>odrl \<in> set policies. \<exists>r1. from_odrl_policies E [odrl] = Ok r1 \<and>
         permits holds r1 column purpose ttl)) \<and>
    traverse (content_hash_json E) policies = Ok (rr_policy_hashes r)"
  using compose_policies_permits [OF assms(2) assms(1) [unfolded from_odrl_policies_def]]
    compose_policies_hashes [OF assms(1) [unfolded from_odrl_policies_def]]
  by (auto simp: from_odrl_policies_def permits_def unrestricted_def mandatory_filters_def)

theorem composition_is_intersection_witness:
  "permits never_false demo_restriction ''region'' ''audit'' 300 \<and>
   \<not> permits never_false demo_restriction ''id'' ''audit'' 300 \<and>
   \<not> permits never_false demo_restriction ''region'' ''audit'' 700 \<and>
   (\<exists>r1 r2. from_odrl_policies demo_env [demo_policy] = Ok r1 \<and>
      from_odrl_policies demo_env [demo_constraint_policy] = Ok r2 \<and>
      permits never_false r1 ''region'' ''audit'' 300 \<and> permits never_false r2 ''region'' ''audit'' 300)"
proof -
  have "permits never_false demo_restriction ''region'' ''audit'' 300"
    "\<not> permits never_false demo_restriction ''id'' ''audit'' 300"
    "\<not> permits never_false demo_restriction ''region'' ''audit'' 700"
    by (auto simp: permits_def demo_restriction_def mandatory_filters_def jobj_def)
  with composition_is_intersection [OF demo_composition never_false_and, of "''region''" "''audit''" 300]
  show ?thesis by auto
qed

text \<open>
  No column leaves a governed read that some policy in force withholds: the projection and the
  statistics fields are within the columns of every policy, within what was asked for, and the
  projection is not empty.
\<close>

lemma projection_within_policy:
  assumes "from_odrl_policies E policies = Ok r" and "effective_projection r requested = Ok columns"
    and "odrl \<in> set policies" and "allowed_columns_from_odrl odrl = Ok (Some allowed)"
  shows "columns \<noteq> [] \<and> set columns \<subseteq> set allowed \<and>
    (requested = [] \<or> set columns \<subseteq> set requested) \<and>
    set (effective_stats_fields r stats) \<subseteq> set stats \<inter> set allowed"
proof -
  from compose_policies_restricted [OF assms(1) [unfolded from_odrl_policies_def] assms(3,4)]
  obtain cs where "rr_allowed_columns r = Some cs" "set cs \<subseteq> set allowed" by blast
  with assms(2) show ?thesis
    by (auto simp: effective_projection_def effective_stats_fields_def retain_allowed_filter Let_def
        split: if_splits)
qed

lemma table_capability_iff:
  "table_capability_from_receipt r table action text = Ok cap \<longleftrightarrow>
     ar_allowed r \<and> ar_action r = action \<and> ar_table r = Some table \<and> cap = Capability r table"
  by (auto simp: table_capability_from_receipt_def validate_table_authorization_receipt_def)

lemma catalog_capability_iff:
  "catalog_capability_from_receipt r action text = Ok cap \<longleftrightarrow>
     ar_allowed r \<and> ar_action r = action \<and> ar_table r = None \<and> cap = Capability r ()"
  by (auto simp: catalog_capability_from_receipt_def)

lemma table_read_capability_iff:
  "table_read_capability_from_receipt err r table action text =
     (Ok cap :: ('a, TableReadScope) Capability result) \<longleftrightarrow>
     ar_allowed r \<and> ar_action r = action \<and> ar_table r = Some table \<and>
     (\<exists>restriction. (case jget (ar_context r) ''read-restriction'' of
         None \<Rightarrow> restriction = unrestricted
       | Some v \<Rightarrow> read_restriction_from_json v = Some restriction) \<and>
       cap = Capability r \<lparr>ts_table = table, ts_restriction = restriction\<rparr>)"
  by (auto simp: table_read_capability_from_receipt_def and_then_ok table_capability_iff ok_or_ok
      split: option.splits)

text \<open>What a receipt covers, and when a constructor issues a capability for a resource.\<close>

definition covers :: "AuthorizationReceipt \<Rightarrow> CatalogAction \<Rightarrow> TableIdent option \<Rightarrow> bool" where
  "covers r action scope \<longleftrightarrow> ar_allowed r \<and> ar_action r = action \<and> ar_table r = scope"

definition context_restriction :: "AuthorizationReceipt \<Rightarrow> ReadRestriction option" where
  "context_restriction r =
     (case jget (ar_context r) ''read-restriction'' of
        None \<Rightarrow> Some unrestricted
      | Some v \<Rightarrow> read_restriction_from_json v)"

definition issues ::
  "('action, 'resource) Capability result \<Rightarrow> AuthorizationReceipt \<Rightarrow> 'resource \<Rightarrow> bool \<Rightarrow> bool" where
  "issues outcome r resource condition \<longleftrightarrow>
     (\<forall>cap. outcome = Ok cap \<longleftrightarrow> condition \<and> cap = Capability r resource)"

lemma table_capability_issues:
  "issues (table_capability_from_receipt r table action what) r table (covers r action (Some table))"
  by (simp add: issues_def covers_def table_capability_iff)

lemma catalog_capability_issues:
  "issues (catalog_capability_from_receipt r action what) r () (covers r action None)"
  by (simp add: issues_def covers_def catalog_capability_iff)

lemma table_read_capability_issues:
  "issues (table_read_capability_from_receipt serde_error r table action what) r
     \<lparr>ts_table = table, ts_restriction = the (context_restriction r)\<rparr>
     (covers r action (Some table) \<and> context_restriction r \<noteq> None)"
  unfolding issues_def covers_def context_restriction_def table_read_capability_iff
  by (auto split: option.splits)

lemma table_rename_issues:
  "issues (table_rename_from_receipt r target) r target
     (covers r TableRename (Some (rt_source target)) \<and>
      Option.bind (jget (ar_context r) ''destination-table'') ident_from_json = Some (rt_destination target))"
  by (auto simp: issues_def covers_def table_rename_from_receipt_def and_then_ok ok_or_ok
      validate_table_authorization_receipt_def bind_eq_Some_conv split: if_splits)

text \<open>
  C14: holding a capability means the engine allowed exactly this action on exactly this resource.
  The type fixes the action: each constructor succeeds only on an allowed receipt of its own action
  and scope, and keeps that receipt.
\<close>

theorem capability_proves_receipt:
  "issues (table_create_from_receipt r table) r table (covers r TableCreate (Some table)) \<and>
   issues (table_register_from_receipt r table) r table (covers r TableRegister (Some table)) \<and>
   issues (table_load_from_receipt r table) r table (covers r TableLoad (Some table)) \<and>
   issues (table_commit_from_receipt r table) r table (covers r TableCommit (Some table)) \<and>
   issues (table_drop_from_receipt r table) r table (covers r TableDrop (Some table)) \<and>
   issues (table_restore_from_receipt r table) r table (covers r TableRestore (Some table)) \<and>
   issues (server_manage_from_receipt r) r () (covers r ServerManage None) \<and>
   issues (project_manage_from_receipt r) r () (covers r ProjectManage None) \<and>
   issues (warehouse_manage_from_receipt r) r () (covers r WarehouseManage None) \<and>
   issues (storage_profile_manage_from_receipt r) r () (covers r StorageProfileManage None) \<and>
   issues (view_manage_from_receipt r) r () (covers r ViewManage None) \<and>
   issues (view_load_from_receipt r) r () (covers r ViewLoad None) \<and>
   issues (view_drop_from_receipt r) r () (covers r ViewDrop None) \<and>
   issues (policy_manage_from_receipt r) r () (covers r PolicyManage None) \<and>
   issues (graph_read_from_receipt r) r () (covers r GraphRead None) \<and>
   issues (lineage_read_from_receipt r) r () (covers r LineageRead None) \<and>
   issues (catalog_config_from_receipt r) r () (covers r CatalogConfig None) \<and>
   issues (namespace_create_from_receipt r) r () (covers r NamespaceCreate None) \<and>
   issues (namespace_list_from_receipt r) r () (covers r NamespaceList None) \<and>
   issues (namespace_load_from_receipt r) r () (covers r NamespaceLoad None) \<and>
   issues (namespace_update_from_receipt r) r () (covers r NamespaceUpdate None) \<and>
   issues (namespace_drop_from_receipt r) r () (covers r NamespaceDrop None) \<and>
   issues (table_rename_from_receipt r target) r target
      (covers r TableRename (Some (rt_source target)) \<and>
       Option.bind (jget (ar_context r) ''destination-table'') ident_from_json = Some (rt_destination target)) \<and>
   issues (table_scan_from_receipt serde_error r table) r
      \<lparr>ts_table = table, ts_restriction = the (context_restriction r)\<rparr>
      (covers r TablePlanScan (Some table) \<and> context_restriction r \<noteq> None) \<and>
   issues (credentials_vend_from_receipt serde_error r table) r
      \<lparr>ts_table = table, ts_restriction = the (context_restriction r)\<rparr>
      (covers r CredentialsVend (Some table) \<and> context_restriction r \<noteq> None)"
  unfolding table_create_from_receipt_def table_register_from_receipt_def table_load_from_receipt_def
      table_commit_from_receipt_def table_drop_from_receipt_def table_restore_from_receipt_def
      server_manage_from_receipt_def project_manage_from_receipt_def
      warehouse_manage_from_receipt_def storage_profile_manage_from_receipt_def
      view_manage_from_receipt_def view_load_from_receipt_def view_drop_from_receipt_def
      policy_manage_from_receipt_def graph_read_from_receipt_def lineage_read_from_receipt_def
      catalog_config_from_receipt_def namespace_create_from_receipt_def
      namespace_list_from_receipt_def namespace_load_from_receipt_def
      namespace_update_from_receipt_def namespace_drop_from_receipt_def
      table_scan_from_receipt_def credentials_vend_from_receipt_def
  by (intro conjI table_capability_issues catalog_capability_issues table_read_capability_issues
      table_rename_issues)

end
