(* ===== verification/ServiceProperties.thy ===== *)
theory ServiceProperties
  imports ServiceGovernedScan SecurityProperties Demo
begin

section \<open>Properties of identities, authorization and governed grants\<close>

text \<open>
  What a request's identity attests, which restriction an authorized scan carries, and when a
  governed grant revalidates.
\<close>

subsection \<open>A restriction survives its JSON form\<close>

lemma read_restriction_from_jobj:
  "read_restriction_from_json (jobj kvs) =
     restriction_of_fields (jget (jobj kvs) ''allowed-columns'') (jget (jobj kvs) ''row-predicate'')
       (jget (jobj kvs) ''purpose'') (jget (jobj kvs) ''max-credential-ttl-seconds'')
       (jget (jobj kvs) ''policy-hashes'')"
  by (simp add: read_restriction_from_json_def jobj_def)

lemma opt_from_json_value: "v \<noteq> JNull \<Longrightarrow> opt_from_json f (Some v) = map_option Some (f v)"
  by (cases v) (simp_all add: opt_from_json_def)

lemma opt_from_json_simps [simp]:
  "opt_from_json f None = Some None" "opt_from_json f (Some JNull) = Some None"
  "opt_from_json f (Some (JStr s)) = map_option Some (f (JStr s))"
  "opt_from_json f (Some (JInt n)) = map_option Some (f (JInt n))"
  "opt_from_json f (Some (JArr xs)) = map_option Some (f (JArr xs))"
  by (simp_all add: opt_from_json_def)

lemma read_restriction_roundtrip:
  assumes "rr_row_predicate r \<noteq> Some JNull"
  shows "read_restriction_from_json (read_restriction_json r) = Some r"
proof -
  obtain cols predicate purpose ttl hashes where
    r: "r = \<lparr>rr_allowed_columns = cols, rr_row_predicate = predicate, rr_purpose = purpose,
      rr_max_credential_ttl_seconds = ttl, rr_policy_hashes = hashes\<rparr>" by (cases r)
  have p: "opt_from_json Some predicate = Some predicate"
    using assms r by (cases predicate) (simp_all add: opt_from_json_value)
  have fields: "jget (read_restriction_json r) ''allowed-columns'' = map_option jstrs cols"
    "jget (read_restriction_json r) ''row-predicate'' = predicate"
    "jget (read_restriction_json r) ''purpose'' = map_option JStr purpose"
    "jget (read_restriction_json r) ''max-credential-ttl-seconds'' = map_option ju64 ttl"
    "jget (read_restriction_json r) ''policy-hashes'' = (if hashes = [] then None else Some (jstrs hashes))"
    unfolding read_restriction_json_def r
    by (cases cols; cases predicate; cases purpose; cases ttl; simp)+
  have "read_restriction_from_json (read_restriction_json r) =
     restriction_of_fields (map_option jstrs cols) predicate (map_option JStr purpose)
       (map_option ju64 ttl) (if hashes = [] then None else Some (jstrs hashes))"
    unfolding fields [symmetric] by (simp add: read_restriction_json_def read_restriction_from_jobj)
  also have "\<dots> = Some r"
    by (cases cols; cases purpose; cases ttl)
      (simp_all add: restriction_of_fields_def p r strings_or_default_def)
  finally show ?thesis .
qed

lemma is_object_and_row_predicates [simp]: "is_object (and_row_predicates a b)"
  by (simp add: and_row_predicates_def)

lemma constraint_predicate_object:
  "constraint_predicate predicate cs = Ok (Some p) \<Longrightarrow> pred_option is_object predicate \<Longrightarrow> is_object p"
  by (induction predicate cs rule: constraint_predicate.induct)
    (auto simp: and_then_ok row_predicate_value_def split: if_splits option.splits)

lemma row_predicate_object: "row_predicate_from_odrl odrl = Ok (Some p) \<Longrightarrow> is_object p"
  by (auto simp: row_predicate_from_odrl_def row_predicate_value_def map_ok_def
      dest: constraint_predicate_object split: option.splits if_splits sum.splits)

lemma composed_predicate_object:
  "compose_odrl_policies E r policies = Ok r' \<Longrightarrow> pred_option is_object (rr_row_predicate r) \<Longrightarrow>
    pred_option is_object (rr_row_predicate r')"
proof (induction E r policies rule: compose_odrl_policies.induct)
  case (2 E r odrl policies)
  then obtain s where s: "compose_odrl_policy E odrl r = Ok s" "compose_odrl_policies E s policies = Ok r'"
    by (auto simp: and_then_ok)
  have "pred_option is_object (rr_row_predicate s)"
    using s(1) "2.prems"(2)
    by (elim compose_step_fields) (auto dest: row_predicate_object split: option.splits)
  with "2.IH" [OF s(2)] show ?case by simp
qed simp

lemma composed_restriction_roundtrip:
  assumes "from_odrl_policies E policies = Ok r"
  shows "read_restriction_from_json (read_restriction_json r) = Some r"
proof (rule read_restriction_roundtrip)
  have "pred_option is_object (rr_row_predicate r)"
    using composed_predicate_object [OF assms [unfolded from_odrl_policies_def]]
    by (simp add: unrestricted_def)
  then show "rr_row_predicate r \<noteq> Some JNull" by auto
qed

subsection \<open>Identities\<close>

lemma index_assign_object:
  "is_object v \<Longrightarrow> \<exists>w. index_assign v k x = Ok w \<and> is_object w \<and> (\<forall>j. jget w j = (if j = k then Some x else jget v j))"
  using jset_object [of v k x] by (auto simp: index_assign_def jget_jset)

lemma index_assign_Ok:
  "index_assign v k x = Ok w \<Longrightarrow> jget w j = (if j = k then Some x else jget v j)"
  by (auto simp: index_assign_def jget_jset split: option.splits)

lemma request_identity_envelope:
  assumes "request_identity E to_str headers = Ok identity"
  shows "is_object (ri_envelope identity)"
    "jget (ri_envelope identity) ''principal'' = Some (principal_json (ri_principal identity))"
    "jget (ri_envelope identity) ''attestation-state'' = Some (JStr ''unverified'')"
  using assms
  by (auto simp: request_identity_def and_then_ok Let_def identity_envelope_def split: if_splits)

lemma verified_envelope_Ok:
  assumes "verified_envelope v envelope = Ok w"
  shows "jget w ''principal'' = Some (principal_json (tv_principal v))"
    "jget w ''attestation-state'' = Some (JStr ''verified'')"
  using assms by (auto simp: verified_envelope_def and_then_ok index_assign_Ok)

text \<open>
  C15: an identity is attested as verified exactly when the request carried a TypeDID envelope that
  the verifier accepted; then the request speaks for the principal the verifier named, which is the
  one it claimed unless it claimed none. Without an envelope the attestation stays unverified.
\<close>

theorem attestation_requires_verifier:
  assumes "request_identity E to_str headers = Ok claimed"
    and "verify_typedid_identity E verifier claimed = Ok identity"
  shows "jget (ri_envelope identity) ''principal'' = Some (principal_json (ri_principal identity)) \<and>
    (case ri_typedid_envelope claimed of
       None \<Rightarrow> identity = claimed \<and>
         jget (ri_envelope identity) ''attestation-state'' = Some (JStr ''unverified'')
     | Some envelope \<Rightarrow> \<exists>v. verifier envelope = Ok v \<and> ri_principal identity = tv_principal v \<and>
         (pr_kind (ri_principal claimed) = Anonymous \<or> ri_principal claimed = tv_principal v) \<and>
         jget (ri_envelope identity) ''attestation-state'' = Some (JStr ''verified''))"
  using assms(2) request_identity_envelope [OF assms(1)]
  by (auto simp: verify_typedid_identity_def and_then_ok map_err_ok verified_envelope_Ok
      split: option.splits if_splits)

theorem attestation_requires_verifier_witness:
  "\<exists>identity. verify_typedid_identity demo_env
      (\<lambda>_. Ok \<lparr>tv_principal = \<lparr>pr_subject = ''did:x'', pr_kind = Agent\<rparr>, tv_attestation = JNull\<rparr>)
      \<lparr>ri_principal = principal_anonymous,
       ri_envelope = identity_envelope demo_env principal_anonymous ''anonymous'' None None (Some ''jwt'')
         None None None None,
       ri_typedid_envelope = Some ''jwt''\<rparr> = Ok identity \<and>
     pr_subject (ri_principal identity) = ''did:x'' \<and>
     jget (ri_envelope identity) ''attestation-state'' = Some (JStr ''verified'')"
proof -
  let ?headers = "\<lambda>name. if name = ''x-lakecat-typedid-envelope'' then [''jwt''] else []"
  let ?v = "\<lparr>tv_principal = \<lparr>pr_subject = ''did:x'', pr_kind = Agent\<rparr>, tv_attestation = JNull\<rparr>"
  let ?claimed = "\<lparr>ri_principal = principal_anonymous,
       ri_envelope = identity_envelope demo_env principal_anonymous ''anonymous'' None None (Some ''jwt'')
         None None None None,
       ri_typedid_envelope = Some ''jwt''\<rparr>"
  have claimed: "request_identity demo_env Some ?headers = Ok ?claimed"
    by (simp add: request_identity_def single_header_def select_principal_def check_agent_evidence_def
        or_else_def)
  obtain envelope where envelope: "verified_envelope ?v (ri_envelope ?claimed) = Ok envelope"
    unfolding verified_envelope_def identity_envelope_def
    by (auto simp: index_assign_def jobj_def)
  have verified: "verify_typedid_identity demo_env (\<lambda>_. Ok ?v) ?claimed =
      Ok (?claimed\<lparr>ri_principal := tv_principal ?v, ri_envelope := envelope\<rparr>)"
    using envelope by (simp add: verify_typedid_identity_def principal_anonymous_def)
  from attestation_requires_verifier [OF claimed verified] verified show ?thesis by simp
qed

subsection \<open>Authorized reads\<close>

lemma with_policy_hash_Ok:
  assumes "with_read_restriction_policy_hash E err r = Ok r'"
  shows "ar_context r' = ar_context r" "ar_principal r' = ar_principal r" "ar_action r' = ar_action r"
    "ar_table r' = ar_table r" "ar_allowed r' = ar_allowed r" "ar_engine r' = ar_engine r"
  using assms
  by (auto simp: with_read_restriction_policy_hash_def and_then_ok split: option.splits if_splits)

lemma restriction_of_no_bindings: "read_restriction_from_policy_bindings E [] = Ok unrestricted"
  by (simp add: read_restriction_from_policy_bindings_def from_odrl_policies_def)

lemma restricted_context_Ok:
  assumes "restricted_context action p restriction (base_context w envelope bindings) = Ok ctx"
  shows "\<exists>m. ctx = JObj m"
    "jget ctx ''read-restriction'' = map_option read_restriction_json restriction"
    "jget ctx ''request-identity'' = Some envelope"
proof -
  have base: "is_object (base_context w envelope bindings)"
    "jget (base_context w envelope bindings) ''read-restriction'' = None"
    "jget (base_context w envelope bindings) ''request-identity'' = Some envelope"
    by (simp_all add: base_context_def)
  have obj: "index_assign v k x = Ok v' \<Longrightarrow> is_object v'" for v k x v'
    by (cases v) (auto simp: index_assign_def)
  have "is_object ctx"
    using assms base by (auto simp: restricted_context_def and_then_ok dest: obj split: option.splits if_splits)
  then show "\<exists>m. ctx = JObj m" by (simp add: is_object_iff)
  show "jget ctx ''read-restriction'' = map_option read_restriction_json restriction"
    "jget ctx ''request-identity'' = Some envelope"
    using assms base
    by (auto simp: restricted_context_def and_then_ok index_assign_Ok split: option.splits if_splits)
qed

lemma operation_extended_nothing: "is_object v \<Longrightarrow> operation_extended_context [] v = Ok v"
  by (cases v) (simp_all add: operation_extended_context_def)

lemma authorize_read:
  assumes "authorize L s claimed action (Some table) = Ok receipt" and "is_read_action action"
  obtains identity bindings restriction ctx raw where
    "verify_typedid_identity (lc_env L) (lc_typedid_verifier L) claimed = Ok identity"
    "store_policy_bindings_for_table (lc_env L) s table = Ok bindings"
    "read_restriction_from_policy_bindings (lc_env L) bindings = Ok restriction"
    "jget ctx ''request-identity'' = Some (ri_envelope identity)"
    "jget ctx ''read-restriction'' =
       (if bindings = [] then None else Some (read_restriction_json restriction))"
    "lc_governance L \<lparr>aq_principal = ri_principal identity, aq_action = action, aq_table = Some table,
       aq_context = ctx\<rparr> = Ok raw"
    "ar_allowed raw"
    "with_read_restriction_policy_hash (lc_env L) (lc_serde_error L ''ReadRestriction'') raw = Ok receipt"
proof -
  from assms obtain identity bindings found ctx context2 raw where steps:
    "verify_typedid_identity (lc_env L) (lc_typedid_verifier L) claimed = Ok identity"
    "store_policy_bindings_for_table (lc_env L) s table = Ok bindings"
    "request_restriction (lc_env L) action bindings = Ok found"
    "restricted_context action (ri_principal identity) found
       (base_context (ti_warehouse table) (ri_envelope identity) bindings) = Ok ctx"
    "operation_extended_context [] ctx = Ok context2"
    "lc_governance L \<lparr>aq_principal = ri_principal identity, aq_action = action, aq_table = Some table,
       aq_context = context2\<rparr> = Ok raw"
    "ar_allowed raw"
    "with_read_restriction_policy_hash (lc_env L) (lc_serde_error L ''ReadRestriction'') raw = Ok receipt"
    by (auto simp: authorize_def authorize_with_operation_context_def and_then_ok Let_def
        request_bindings_def split: if_splits)
  note ctx = restricted_context_Ok [OF steps(4)]
  from ctx(1) steps(5) have same: "context2 = ctx"
    by (auto simp: operation_extended_context_def)
  obtain restriction where restriction:
    "read_restriction_from_policy_bindings (lc_env L) bindings = Ok restriction"
    "found = (if bindings = [] then None else Some restriction)"
  proof (cases "bindings = []")
    case True
    with steps(3) that restriction_of_no_bindings show ?thesis by (auto simp: request_restriction_def)
  next
    case False
    with steps(3) assms(2) that show ?thesis
      by (auto simp: request_restriction_def map_ok_def split: sum.splits)
  qed
  show thesis
    by (rule that [OF steps(1,2) restriction(1) _ _ steps(6) [unfolded same] steps(7,8)])
      (use ctx(2,3) restriction(2) in auto)
qed

text \<open>The engine answers about the context it was given, as the engines of the repository do.\<close>

definition keeps_context :: "governance_engine \<Rightarrow> bool" where
  "keeps_context engine \<longleftrightarrow> (\<forall>request receipt. engine request = Ok receipt \<longrightarrow> ar_context receipt = aq_context request)"

lemma keeps_context_engines:
  "keeps_context (allow_all_authorize now)" "keeps_context (typesec_authorize E check now)"
  by (auto simp: keeps_context_def allow_all_authorize_def typesec_authorize_def Let_def and_then_ok)

lemma authorized_read_scope:
  fixes cap :: "('a, TableReadScope) Capability"
  assumes "authorize L s claimed action (Some table) = Ok receipt" "is_read_action action"
    and "table_read_capability_from_receipt (lc_serde_error L ''ReadRestriction'') receipt table action what = Ok cap"
    and "keeps_context (lc_governance L)"
  shows "ts_table (cap_resource cap) = table \<and>
    (\<exists>bindings. store_policy_bindings_for_table (lc_env L) s table = Ok bindings \<and>
       read_restriction_from_policy_bindings (lc_env L) bindings = Ok (ts_restriction (cap_resource cap)))"
  using assms(1,2)
proof (rule authorize_read)
  fix identity bindings restriction ctx raw
  assume a: "store_policy_bindings_for_table (lc_env L) s table = Ok bindings"
    "read_restriction_from_policy_bindings (lc_env L) bindings = Ok restriction"
    "jget ctx ''read-restriction'' =
       (if bindings = [] then None else Some (read_restriction_json restriction))"
    "lc_governance L \<lparr>aq_principal = ri_principal identity, aq_action = action, aq_table = Some table,
       aq_context = ctx\<rparr> = Ok raw"
    "with_read_restriction_policy_hash (lc_env L) (lc_serde_error L ''ReadRestriction'') raw = Ok receipt"
  have "ar_context receipt = ctx"
    using assms(4) a(4) with_policy_hash_Ok(1) [OF a(5)] by (auto simp: keeps_context_def)
  moreover have "read_restriction_from_json (read_restriction_json restriction) = Some restriction"
    using a(2) composed_restriction_roundtrip by (simp add: read_restriction_from_policy_bindings_def)
  ultimately show ?thesis
    using assms(3) a(1-3) restriction_of_no_bindings [of "lc_env L"]
    by (auto simp: table_read_capability_iff split: if_splits)
qed

lemma policy_in_force:
  assumes "store_policy_bindings_for_table E s table = Ok bindings"
    and "bt_get (ms_policy_bindings s) key = Some b" "pb_enforced b" "applies_to_table b table"
  shows "b \<in> set bindings"
proof -
  from assms(1) have "bindings = policy_bindings_for_table (map snd (ms_policy_bindings s)) table"
    by (auto simp: store_policy_bindings_for_table_def and_then_ok scoped_rows_ok)
  moreover have "b \<in> snd ` set (ms_policy_bindings s)"
    using assms(2) by (force dest: map_of_SomeD)
  ultimately show ?thesis using assms(3,4) by (simp add: policy_bindings_for_table_def)
qed

lemma scan_projection_within_policies:
  assumes "keeps_context (lc_governance L)"
    and "authorize_table_scan L s claimed table = Ok cap"
    and "effective_projection (ts_restriction (cap_resource cap)) requested = Ok columns"
    and "bt_get (ms_policy_bindings s) key = Some b" "pb_enforced b" "applies_to_table b table"
    and "allowed_columns_from_odrl (pb_odrl b) = Ok (Some allowed)"
  shows "columns \<noteq> [] \<and> set columns \<subseteq> set allowed \<and> (requested = [] \<or> set columns \<subseteq> set requested)"
proof -
  obtain receipt where receipt: "authorize L s claimed TablePlanScan (Some table) = Ok receipt"
    "table_scan_from_receipt (lc_serde_error L ''ReadRestriction'') receipt table = Ok cap"
    using assms(2) by (auto simp: authorize_table_scan_def and_then_ok)
  from authorized_read_scope [OF receipt(1) _ receipt(2) [unfolded table_scan_from_receipt_def] assms(1)]
  obtain bindings where bindings: "store_policy_bindings_for_table (lc_env L) s table = Ok bindings"
    "from_odrl_policies (lc_env L) (map pb_odrl bindings) = Ok (ts_restriction (cap_resource cap))"
    by (auto simp: is_read_action_def read_restriction_from_policy_bindings_def)
  have "pb_odrl b \<in> set (map pb_odrl bindings)"
    using policy_in_force [OF bindings(1) assms(4-6)] by simp
  from projection_within_policy [OF bindings(2) assms(3) this assms(7)] show ?thesis by blast
qed

text \<open>
  C9: no scan capability leaks a column. Whatever a request asks for, the columns planned under an
  authorized scan are allowed by every enforced policy binding stored for the table, lie within
  the request, and are not empty; the capability is for the table that was authorized, and the
  engine allowed it. The statistics of other columns are dropped as well.
\<close>

theorem authorized_scan_respects_policies:
  assumes "keeps_context (lc_governance L)"
    and "authorize_table_scan L s claimed table = Ok cap"
    and "effective_projection (ts_restriction (cap_resource cap)) requested = Ok columns"
    and "bt_get (ms_policy_bindings s) key = Some b" "pb_enforced b" "applies_to_table b table"
    and "allowed_columns_from_odrl (pb_odrl b) = Ok (Some allowed)"
  shows "columns \<noteq> [] \<and> set columns \<subseteq> set allowed \<and> (requested = [] \<or> set columns \<subseteq> set requested) \<and>
    ts_table (cap_resource cap) = table \<and> covers (cap_receipt cap) TablePlanScan (Some table)"
proof -
  obtain receipt where receipt: "authorize L s claimed TablePlanScan (Some table) = Ok receipt"
    "table_scan_from_receipt (lc_serde_error L ''ReadRestriction'') receipt table = Ok cap"
    using assms(2) by (auto simp: authorize_table_scan_def and_then_ok)
  then have "ts_table (cap_resource cap) = table" "covers (cap_receipt cap) TablePlanScan (Some table)"
    by (auto simp: table_scan_from_receipt_def table_read_capability_iff covers_def)
  with scan_projection_within_policies [OF assms] show ?thesis by blast
qed

text \<open>A catalog with one policy binding, a service over it, and the scan of an anonymous reader.\<close>

definition demo_binding :: PolicyBinding where
  "demo_binding =
     \<lparr>pb_policy_id = ''p1'', pb_warehouse = ''wh'', pb_namespace = Some [''sales''],
      pb_table = Some ''orders'', pb_enforced = True, pb_odrl = demo_policy, pb_updated_at = 3\<rparr>"

definition demo_binding_key :: string where
  "demo_binding_key = policy_binding_key ''wh'' ''p1''"

definition demo_governed :: MemoryState where
  "demo_governed = demo_state\<lparr>ms_policy_bindings := [(demo_binding_key, demo_binding)]\<rparr>"

text \<open>An object store with one backend, whose paths are the whole locations.\<close>

definition demo_object_api :: object_api where
  "demo_object_api =
     \<lparr>oa_url_error = (\<lambda>_. ''invalid url''), oa_scheme_parse = (\<lambda>u. Inr (url_scheme u, url_path u)),
      oa_authority = (\<lambda>_. []), oa_build = (\<lambda>u. Inr (url_scheme u)), oa_error_text = (\<lambda>_. ''object error''),
      oa_to_vec_pretty = (\<lambda>_. Inr ''{}''), oa_decode_metadata_file = (\<lambda>_ bs _. Inr bs),
      oa_from_slice = (\<lambda>_. Inl ''not JSON'')\<rparr>"

definition demo_service :: LakeCatState where
  "demo_service =
     \<lparr>lc_env = demo_env, lc_serde_error = (\<lambda>_ _. []), lc_header_str = Some, lc_objects = demo_object_api,
      lc_warehouse = ''wh'', lc_table_location_root = None,
      lc_catalog_identity = ''lakecat://wh'', lc_sail = DeferredSailCatalogEngine,
      lc_governance = allow_all_authorize 4, lc_credential_issuer = (\<lambda>_. Ok []),
      lc_typedid_verifier = conservative_verify\<rparr>"

definition demo_identity :: RequestIdentity where
  "demo_identity =
     \<lparr>ri_principal = demo_principal,
      ri_envelope = identity_envelope demo_env demo_principal ''x-lakecat-principal'' None None None None
        None None None,
      ri_typedid_envelope = None\<rparr>"

definition demo_read :: ReadRestriction where
  "demo_read =
     \<lparr>rr_allowed_columns = Some [''id'', ''region''], rr_row_predicate = None,
      rr_purpose = Some ''audit'', rr_max_credential_ttl_seconds = Some 900,
      rr_policy_hashes = [demo_digest]\<rparr>"

lemma demo_binding_valid: "validate_policy_binding_map_scope demo_env demo_binding demo_binding_key = Ok ()"
  by code_simp

lemma demo_upsert_binding:
  "upsert_policy_binding demo_env demo_binding demo_state = (Ok demo_binding, demo_governed)"
proof -
  have "ms_policy_bindings demo_state = []" by code_simp
  moreover have "policy_binding_validate demo_env demo_binding = Ok ()" by code_simp
  ultimately show ?thesis
    by (simp add: upsert_policy_binding_def demo_governed_def check_existing_def demo_binding_key_def)
      (simp add: demo_binding_def)
qed

lemma demo_bindings: "store_policy_bindings_for_table demo_env demo_governed demo_ident = Ok [demo_binding]"
proof -
  have "applies_to_table demo_binding demo_ident"
    by (simp add: applies_to_table_def demo_binding_def demo_ident_def)
  moreover have "pb_enforced demo_binding" by (simp add: demo_binding_def)
  ultimately show ?thesis
    by (simp add: store_policy_bindings_for_table_def scoped_rows_def demo_governed_def
        demo_binding_valid policy_bindings_for_table_def)
qed

lemma demo_bindings_restriction: "read_restriction_from_policy_bindings demo_env [demo_binding] = Ok demo_read"
  using demo_restrictions by (simp add: read_restriction_from_policy_bindings_def demo_binding_def demo_read_def)

definition demo_context :: json where
  "demo_context =
     (case base_context ''wh'' (ri_envelope demo_identity) [demo_binding] of
        JObj m \<Rightarrow> JObj (bt_insert ''read-restriction'' (read_restriction_json demo_read) m)
      | v \<Rightarrow> v)"

definition demo_receipt :: AuthorizationReceipt where
  "demo_receipt =
     \<lparr>ar_principal = demo_principal, ar_action = TablePlanScan, ar_table = Some demo_ident,
      ar_allowed = True, ar_engine = ALLOW_ALL_LOCAL_ENGINE, ar_policy_hash = Some demo_digest,
      ar_context = demo_context, ar_checked_at = 4\<rparr>"

definition demo_scan_capability :: TableScanCapability where
  "demo_scan_capability = Capability demo_receipt \<lparr>ts_table = demo_ident, ts_restriction = demo_read\<rparr>"

lemma demo_read_decodes: "read_restriction_from_json (read_restriction_json demo_read) = Some demo_read"
  by (rule read_restriction_roundtrip) (simp add: demo_read_def)

lemma demo_context_built:
  "index_assign (base_context ''wh'' (ri_envelope demo_identity) [demo_binding]) ''read-restriction''
     (read_restriction_json demo_read) = Ok demo_context"
  "is_object demo_context" "jget demo_context ''read-restriction'' = Some (read_restriction_json demo_read)"
  "jget demo_context ''request-identity'' = Some (ri_envelope demo_identity)"
proof -
  obtain m where m: "base_context ''wh'' (ri_envelope demo_identity) [demo_binding] = JObj m"
    by (simp add: base_context_def jobj_def)
  then show "index_assign (base_context ''wh'' (ri_envelope demo_identity) [demo_binding]) ''read-restriction''
     (read_restriction_json demo_read) = Ok demo_context"
    "is_object demo_context" "jget demo_context ''read-restriction'' = Some (read_restriction_json demo_read)"
    by (simp_all add: demo_context_def index_assign_def bt_get_insert)
  have "jget (base_context ''wh'' (ri_envelope demo_identity) [demo_binding]) ''request-identity'' =
      Some (ri_envelope demo_identity)" by (simp add: base_context_def)
  with m show "jget demo_context ''request-identity'' = Some (ri_envelope demo_identity)"
    by (simp add: demo_context_def bt_get_insert)
qed

lemma demo_authorized: "authorize demo_service demo_governed demo_identity TablePlanScan (Some demo_ident) = Ok demo_receipt"
proof -
  have verify: "verify_typedid_identity demo_env conservative_verify demo_identity = Ok demo_identity"
    by (simp add: verify_typedid_identity_def demo_identity_def)
  have bindings: "request_bindings demo_env demo_governed (Some demo_ident) = Ok [demo_binding]"
    by (simp add: request_bindings_def demo_bindings)
  have restriction: "request_restriction demo_env TablePlanScan [demo_binding] = Ok (Some demo_read)"
    by (simp add: request_restriction_def is_read_action_def demo_bindings_restriction)
  have extended: "operation_extended_context [] demo_context = Ok demo_context"
    by (rule operation_extended_nothing [OF demo_context_built(2)])
  have parts: "ti_warehouse demo_ident = ''wh''" "ri_principal demo_identity = demo_principal"
    "rr_policy_hashes demo_read = [demo_digest]"
    by (simp_all add: demo_ident_def demo_identity_def demo_read_def)
  show ?thesis
    by (simp add: authorize_def authorize_with_operation_context_def demo_service_def verify bindings
        restriction restricted_context_def extended allow_all_authorize_def parts demo_context_built(1,3)
        demo_read_decodes with_read_restriction_policy_hash_def demo_hash demo_receipt_def)
qed

lemma demo_scan_authorized:
  "authorize_table_scan demo_service demo_governed demo_identity demo_ident = Ok demo_scan_capability"
  using demo_context_built(3) demo_read_decodes
  by (simp add: authorize_table_scan_def demo_authorized table_scan_from_receipt_def
      table_read_capability_iff demo_scan_capability_def)
    (simp add: demo_receipt_def)

theorem authorized_scan_respects_policies_witness:
  "effective_projection (ts_restriction (cap_resource demo_scan_capability)) [''amount'', ''region''] =
     Ok [''region''] \<and>
   covers (cap_receipt demo_scan_capability) TablePlanScan (Some demo_ident)"
proof -
  have projection: "effective_projection (ts_restriction (cap_resource demo_scan_capability))
      [''amount'', ''region''] = Ok [''region'']"
    by (simp add: demo_scan_capability_def effective_projection_def demo_read_def retain_allowed_filter)
  have engine: "keeps_context (lc_governance demo_service)"
    by (simp add: demo_service_def keeps_context_engines)
  have stored: "bt_get (ms_policy_bindings demo_governed) demo_binding_key = Some demo_binding"
    by (simp add: demo_governed_def)
  have force: "pb_enforced demo_binding" "applies_to_table demo_binding demo_ident"
    "allowed_columns_from_odrl (pb_odrl demo_binding) = Ok (Some [''id'', ''region''])"
    using demo_policy_reads(1) by (simp_all add: applies_to_table_def demo_binding_def demo_ident_def)
  from authorized_scan_respects_policies [OF engine demo_scan_authorized projection stored force]
  show ?thesis using projection by blast
qed

end
