(* ===== verification/GrantProperties.thy ===== *)
theory GrantProperties
  imports ServiceProperties CommitLaws TableLaws
begin

section \<open>Properties of governed scan grants\<close>

text \<open>
  A grant that revalidates is current in every respect; a grant revalidates right after it was
  issued and no longer after a commit to its table.
\<close>

subsection \<open>What a successful revalidation has checked\<close>

lemma revalidate_Ok:
  assumes "revalidate_governed_scan_grant L now s presented = Ok rv"
  obtains grant table bindings restriction receipt where
    "validate_integrity (lc_env L) presented = Ok ()" "gp_catalog_identity presented = lc_catalog_identity L"
    "load_governed_scan_grant (lc_env L) s (gp_grant_id presented) = Ok grant" "gg_proof grant = presented"
    "load_table s (gp_table presented) = Ok table" "validate_table_evidence (lc_env L) grant table = Ok ()"
    "store_policy_bindings_for_table (lc_env L) s (gp_table presented) = Ok bindings"
    "read_restriction_from_policy_bindings (lc_env L) bindings = Ok restriction"
    "fresh_authorization L grant restriction bindings = Ok receipt"
    "validate_fresh_restriction (lc_env L) grant restriction = Ok ()"
    "validate_fresh_policy (lc_env L) (lc_serde_error L ''ReadRestriction'') grant receipt restriction = Ok ()"
    "rv_proof rv = presented" "policy_digest (lc_env L) receipt restriction = Ok (rv_fresh_policy_decision_digest rv)"
  using assms
  by (auto simp: revalidate_governed_scan_grant_def Let_def and_then_ok split: if_splits)

lemma table_evidence_Ok:
  "validate_table_evidence E grant table = Ok () \<longleftrightarrow>
     current_snapshot_id table = Some (gp_snapshot_id (gg_proof grant)) \<and>
     tr_version table = gp_table_version (gg_proof grant) \<and>
     governed_evidence_digest E TABLE_METADATA_DOMAIN (tr_metadata table) = Ok (gg_table_metadata_digest grant)"
  by (auto simp: validate_table_evidence_def and_then_ok ok_or_ok split: if_splits)

lemma fresh_restriction_Ok:
  "validate_fresh_restriction E grant restriction = Ok () \<longleftrightarrow>
     rr_purpose restriction = Some (gp_purpose (gg_proof grant)) \<and>
     effective_projection restriction (gg_requested_projection grant) = Ok (gp_effective_projection (gg_proof grant)) \<and>
     restriction_digest E restriction = Ok (gg_read_restriction_digest grant)"
  by (auto simp: validate_fresh_restriction_def and_then_ok split: if_splits)

lemma load_grant_Ok:
  "load_governed_scan_grant E s grant_id = Ok g \<longleftrightarrow>
     validate_governed_scan_grant_id grant_id = Ok () \<and>
     bt_get (ms_governed_scan_grants s) grant_id = Some g \<and> grant_validate E g = Ok ()"
  by (auto simp: load_governed_scan_grant_def and_then_ok ok_or_ok)

lemma revalidated_projection:
  assumes "read_restriction_from_policy_bindings E bindings = Ok restriction"
    and "store_policy_bindings_for_table E s table = Ok bindings"
    and "effective_projection restriction requested = Ok columns"
    and "bt_get (ms_policy_bindings s) key = Some b" "pb_enforced b" "applies_to_table b table"
    and "allowed_columns_from_odrl (pb_odrl b) = Ok (Some allowed)"
  shows "set columns \<subseteq> set allowed"
proof -
  have "pb_odrl b \<in> set (map pb_odrl bindings)"
    using policy_in_force [OF assms(2,4-6)] by simp
  with projection_within_policy [OF assms(1) [unfolded read_restriction_from_policy_bindings_def] assms(3) _ assms(7)]
  show ?thesis by blast
qed

subsection \<open>Staleness\<close>

lemma revalidation_needs_version:
  assumes "revalidate_governed_scan_grant L now s p = Ok rv"
  shows "\<exists>table. load_table s (gp_table p) = Ok table \<and> tr_version table = gp_table_version p"
  using assms by (elim revalidate_Ok) (auto simp: table_evidence_Ok)

lemma commit_bumps_version:
  assumes "commit_table E now ident c s = (Ok t', s')" "s' \<noteq> s"
    and "load_table s ident = Ok t" "load_table s' ident = Ok row"
  shows "tr_version row = tr_version t + 1"
  using assms(1)
proof (cases rule: commit_table_ok)
  case replayed
  with assms(2) show ?thesis by blast
next
  case (fresh h)
  then obtain prev rec audit outbox where ok: "committed_table E now s ident c h = Ok (prev, t')"
    "s' = install_commit ident c t' rec audit outbox s" by (auto simp: fresh_commit_ok)
  from ok(1) assms(3) have "tr_version t' = tr_version t + 1"
    by (elim committed_table_current) (simp add: load_table_ok checked_table_ok)
  moreover have "row = t'"
    using assms(4) ok(2) by (simp add: load_table_ok checked_table_ok install_commit_fields bt_get_insert)
  ultimately show ?thesis by simp
qed

subsection \<open>Issuing, then revalidating\<close>

lemma issued_grant:
  assumes "issue_governed_scan_grant E err now catalog cap table scan requested projection = Ok (Some grant)"
  shows "rr_purpose (ts_restriction (cap_resource cap)) = Some (gp_purpose (gg_proof grant))"
    "gp_catalog_identity (gg_proof grant) = catalog" "gp_table (gg_proof grant) = ts_table (cap_resource cap)"
    "gp_table_version (gg_proof grant) = tr_version table"
    "current_snapshot_id table = Some (gp_snapshot_id (gg_proof grant))"
    "gp_effective_projection (gg_proof grant) = projection" "gg_requested_projection grant = requested"
    "gg_principal grant = ar_principal (cap_receipt cap)"
    "policy_digest E (cap_receipt cap) (ts_restriction (cap_resource cap)) =
       Ok (gp_policy_decision_digest (gg_proof grant))"
    "restriction_digest E (ts_restriction (cap_resource cap)) = Ok (gg_read_restriction_digest grant)"
    "governed_evidence_digest E TABLE_METADATA_DOMAIN (tr_metadata table) = Ok (gg_table_metadata_digest grant)"
    "grant_validate E grant = Ok ()"
  using assms
  by (auto simp: issue_governed_scan_grant_def and_then_ok grant_evidence_def grant_of_proof_def Let_def
      governed_scan_proof_issue_def proof_of_evidence_def split: option.splits sum.splits if_splits)

lemma grant_validate_cong:
  "has_same_stable_evidence g h \<Longrightarrow> grant_validate E g = grant_validate E h"
  by (simp add: has_same_stable_evidence_def grant_validate_def)

lemma saved_grant:
  assumes "save_governed_scan_grant E grant s = (Ok saved, s')"
  shows "has_same_stable_evidence saved grant"
    "bt_get (ms_governed_scan_grants s') (gp_grant_id (gg_proof grant)) = Some saved"
    "load_table s' = load_table s" "store_policy_bindings_for_table E s' = store_policy_bindings_for_table E s"
proof -
  show "has_same_stable_evidence saved grant"
    "bt_get (ms_governed_scan_grants s') (gp_grant_id (gg_proof grant)) = Some saved"
    using assms by (auto simp: save_governed_scan_grant_def qmark_ok bt_get_insert has_same_stable_evidence_def
        split: option.splits if_splits)
  have same: "ms_tables s' = ms_tables s \<and> ms_soft_deletes s' = ms_soft_deletes s \<and>
      ms_policy_bindings s' = ms_policy_bindings s \<and> ms_namespaces s' = ms_namespaces s"
    using assms by (auto simp: save_governed_scan_grant_def qmark_ok split: option.splits if_splits)
  then show "load_table s' = load_table s"
    by (simp add: fun_eq_iff load_table_def)
  from same show "store_policy_bindings_for_table E s' = store_policy_bindings_for_table E s"
    by (simp add: fun_eq_iff store_policy_bindings_for_table_def)
qed

text \<open>The two receipts of the built-in engine have the same policy hash.\<close>

lemma policy_hash_of_restriction:
  assumes "with_read_restriction_policy_hash E err r = Ok r'" "jget (ar_context r) ''read-restriction'' = Some (read_restriction_json restriction)"
    and "read_restriction_from_json (read_restriction_json restriction) = Some restriction"
  shows "if rr_policy_hashes restriction = [] then r' = r
    else \<exists>hash. content_hash_json E (receipt_policy_hash_json r restriction) = Ok hash \<and> r' = r\<lparr>ar_policy_hash := Some hash\<rparr>"
  using assms by (auto simp: with_read_restriction_policy_hash_def and_then_ok split: if_splits)

lemma fresh_receipt_exists:
  assumes "env_ok E" "jget (ar_context r) ''read-restriction'' = Some (read_restriction_json restriction)"
    and "read_restriction_from_json (read_restriction_json restriction) = Some restriction"
  shows "\<exists>r'. with_read_restriction_policy_hash E err r = Ok r'"
  using assms content_hash_json_total [OF assms(1), of "receipt_policy_hash_json r restriction"]
  by (auto simp: with_read_restriction_policy_hash_def)

lemma governed_digests_total:
  assumes "env_ok E" "validate_integrity E p = Ok ()"
  shows "\<exists>d. governed_scan_digests E p = Ok d"
proof -
  obtain a where a: "snapshot_digest_after_validation E p = Ok a"
    using domain_hash_total [OF assms(1)] unfolding snapshot_digest_after_validation_def by blast
  moreover obtain b where "source_scope_digest E a (gp_grant_id p) = Ok b"
    using domain_hash_total [OF assms(1)] unfolding source_scope_digest_def by blast
  ultimately show ?thesis using assms(2) by (simp add: governed_scan_digests_def)
qed

text \<open>
  An engine that answers a request as the other one did, whatever the context and the time: its receipts
  repeat the principal and the context of the request, and principal, action and table alone decide the
  rest. The built-in engine is one; TypeSec is not, its policy hash covers the context.
\<close>

definition same_decision :: "governance_engine \<Rightarrow> governance_engine \<Rightarrow> bool" where
  "same_decision engine engine' \<longleftrightarrow>
     (\<forall>request receipt context. engine request = Ok receipt \<longrightarrow>
        ar_principal receipt = aq_principal request \<and> ar_context receipt = aq_context request \<and>
        (\<exists>time. engine' (request\<lparr>aq_context := context\<rparr>) =
           Ok (receipt\<lparr>ar_context := context, ar_checked_at := time\<rparr>)))"

lemma same_decision_allow_all: "same_decision (allow_all_authorize t0) (allow_all_authorize t1)"
  by (auto simp: same_decision_def allow_all_authorize_def)

lemma same_decision_keeps_context: "same_decision engine engine' \<Longrightarrow> keeps_context engine"
  by (auto simp: same_decision_def keeps_context_def)

text \<open>Two receipts of one decision that differ in context and time only have the same policy digest.\<close>

lemma same_decision_policy_digest:
  assumes carried: "jget (ar_context raw0) ''read-restriction'' = Some (read_restriction_json r)"
      "jget c1 ''read-restriction'' = Some (read_restriction_json r)"
      "read_restriction_from_json (read_restriction_json r) = Some r"
    and hashed: "with_read_restriction_policy_hash E err raw0 = Ok r0"
      "with_read_restriction_policy_hash E err' (raw0\<lparr>ar_context := c1, ar_checked_at := t\<rparr>) = Ok r1"
  shows "policy_digest E r1 r = policy_digest E r0 r"
proof -
  let ?raw1 = "raw0\<lparr>ar_context := c1, ar_checked_at := t\<rparr>"
  have "receipt_policy_hash_json ?raw1 r = receipt_policy_hash_json raw0 r"
    by (simp add: receipt_policy_hash_json_def)
  then have "ar_policy_hash r1 = ar_policy_hash r0"
    using policy_hash_of_restriction [OF hashed(1) _ carried(3)] policy_hash_of_restriction [OF hashed(2) _ carried(3)]
      carried(1,2) by (auto split: if_splits)
  then show ?thesis
    using with_policy_hash_Ok [OF hashed(1)] with_policy_hash_Ok [OF hashed(2)]
    by (simp add: policy_digest_def policy_digest_json_def)
qed

lemma issue_then_revalidate:
  assumes E: "env_ok (lc_env L)" and engine: "same_decision (lc_governance L) engine'"
    and scan: "authorize_table_scan L s claimed ident = Ok cap"
    and table: "load_table s ident = Ok table"
    and projection: "effective_projection (ts_restriction (cap_resource cap)) requested = Ok projection"
    and issued: "issue_governed_scan_grant (lc_env L) (lc_serde_error L) now (lc_catalog_identity L) cap table
      plan requested projection = Ok (Some grant)"
    and saved: "save_governed_scan_grant (lc_env L) grant s = (Ok saved, s')"
  shows "\<exists>rv. revalidate_governed_scan_grant (L\<lparr>lc_governance := engine'\<rparr>) later s' (gg_proof grant) = Ok rv \<and>
    rv_proof rv = gg_proof grant \<and>
    rv_fresh_policy_decision_digest rv = gp_policy_decision_digest (gg_proof grant)"
proof -
  let ?E = "lc_env L" and ?p = "gg_proof grant"
  let ?L = "L\<lparr>lc_governance := engine'\<rparr>"
  obtain receipt where receipt: "authorize L s claimed TablePlanScan (Some ident) = Ok receipt"
    "table_scan_from_receipt (lc_serde_error L ''ReadRestriction'') receipt ident = Ok cap"
    using scan by (auto simp: authorize_table_scan_def and_then_ok)
  have cap: "cap_receipt cap = receipt" "ts_table (cap_resource cap) = ident"
    using receipt(2) by (auto simp: table_scan_from_receipt_def table_read_capability_iff)
  have scanned: "ar_action receipt = TablePlanScan" "ar_table receipt = Some ident"
    using receipt(2) by (auto simp: table_scan_from_receipt_def table_read_capability_iff)
  define r where "r = ts_restriction (cap_resource cap)"
  have keeps: "keeps_context (lc_governance L)" by (rule same_decision_keeps_context [OF engine])
  obtain b where scope: "store_policy_bindings_for_table ?E s ident = Ok b"
    "read_restriction_from_policy_bindings ?E b = Ok r"
    using authorized_read_scope [OF receipt(1) _ receipt(2) [unfolded table_scan_from_receipt_def] keeps]
    by (auto simp: is_read_action_def r_def)
  obtain p bindings c0 raw0 where auth:
    "store_policy_bindings_for_table ?E s ident = Ok bindings"
    "read_restriction_from_policy_bindings ?E bindings = Ok r"
    "jget c0 ''read-restriction'' = (if bindings = [] then None else Some (read_restriction_json r))"
    "lc_governance L \<lparr>aq_principal = p, aq_action = TablePlanScan,
       aq_table = Some ident, aq_context = c0\<rparr> = Ok raw0" "ar_allowed raw0"
    "with_read_restriction_policy_hash ?E (lc_serde_error L ''ReadRestriction'') raw0 = Ok receipt"
    using receipt(1)
  proof (rule authorize_read)
    show "is_read_action TablePlanScan" by (simp add: is_read_action_def)
    fix identity bindings restriction ctx raw
    assume a: "store_policy_bindings_for_table ?E s ident = Ok bindings"
      "read_restriction_from_policy_bindings ?E bindings = Ok restriction"
      "jget ctx ''read-restriction'' = (if bindings = [] then None else Some (read_restriction_json restriction))"
      "lc_governance L \<lparr>aq_principal = ri_principal identity, aq_action = TablePlanScan,
        aq_table = Some ident, aq_context = ctx\<rparr> = Ok raw" "ar_allowed raw"
      "with_read_restriction_policy_hash ?E (lc_serde_error L ''ReadRestriction'') raw = Ok receipt"
    from a(1,2) scope have "restriction = r" by simp
    then show thesis
      by (intro that [of bindings ctx "ri_principal identity" raw]) (use a in simp_all)
  qed
  note i = issued_grant [OF issued, folded r_def, unfolded cap]
  note sv = saved_grant [OF saved]
  have restricted: "bindings \<noteq> []"
    using auth(2) i(1) restriction_of_no_bindings [of ?E] by (auto simp: unrestricted_def)
  have decodes: "read_restriction_from_json (read_restriction_json r) = Some r"
    using auth(2) composed_restriction_roundtrip by (simp add: read_restriction_from_policy_bindings_def)
  let ?c1 = "revalidation_context saved r bindings"
  have c1: "jget ?c1 ''read-restriction'' = Some (read_restriction_json r)"
    by (simp add: revalidation_context_def)
  have same: "gg_proof saved = ?p" "gg_principal saved = gg_principal grant"
    "gg_requested_projection saved = gg_requested_projection grant"
    "gg_read_restriction_digest saved = gg_read_restriction_digest grant"
    "gg_table_metadata_digest saved = gg_table_metadata_digest grant"
    using sv(1) by (simp_all add: has_same_stable_evidence_def)
  have raw0: "ar_principal raw0 = p" "ar_context raw0 = c0"
    and again: "\<exists>time. engine' (\<lparr>aq_principal = p, aq_action = TablePlanScan, aq_table = Some ident,
        aq_context = c0\<rparr>\<lparr>aq_context := ?c1\<rparr>) = Ok (raw0\<lparr>ar_context := ?c1, ar_checked_at := time\<rparr>)"
    using engine [unfolded same_decision_def, rule_format, OF auth(4), of ?c1] by simp_all
  have who: "gg_principal grant = p"
    using i(8) with_policy_hash_Ok(2) [OF auth(6)] raw0(1) by simp
  obtain t1 where again: "engine' \<lparr>aq_principal = p, aq_action = TablePlanScan,
       aq_table = Some ident, aq_context = ?c1\<rparr> = Ok (raw0\<lparr>ar_context := ?c1, ar_checked_at := t1\<rparr>)"
    using again by auto
  define raw1 where "raw1 = raw0\<lparr>ar_context := ?c1, ar_checked_at := t1\<rparr>"
  note raw1 = again [folded raw1_def]
  obtain fresh where fresh: "with_read_restriction_policy_hash ?E (lc_serde_error L ''ReadRestriction'') raw1 = Ok fresh"
    using fresh_receipt_exists [OF E _ decodes, of raw1] c1 by (auto simp: raw1_def)
  have digest: "policy_digest ?E fresh r = Ok (gp_policy_decision_digest ?p)"
    using same_decision_policy_digest [OF _ c1 decodes auth(6) fresh [unfolded raw1_def]] raw0(2) auth(3) restricted i(9)
    by simp
  have fields: "ar_principal fresh = p" "ar_action fresh = TablePlanScan"
    "ar_table fresh = Some ident" "ar_allowed fresh" "ar_context fresh = ?c1"
    using with_policy_hash_Ok [OF fresh] with_policy_hash_Ok [OF auth(6)] raw0(1) auth(5) scanned
    by (simp_all add: raw1_def)
  have valid: "validate_integrity ?E ?p = Ok ()"
    using i(12) by (auto simp: grant_validate_def and_then_ok)
  have "load_governed_scan_grant ?E s' (gp_grant_id ?p) = Ok saved"
    using sv(2) i(12) grant_validate_cong [OF sv(1)] valid
    by (simp add: load_grant_Ok validate_governed_scan_grant_id_def validate_integrity_ok)
  moreover have "validate_table_evidence ?E saved table = Ok ()"
    using i(4,5,11) same by (simp add: table_evidence_Ok)
  moreover have "fresh_authorization ?L saved r bindings = Ok fresh"
    using fresh raw1 same(1,2) who i(3)
      auth(5) by (simp add: fresh_authorization_def) (simp add: raw1_def)
  moreover have "validate_fresh_restriction ?E saved r = Ok ()"
    using i(1,6,7,10) same projection by (simp add: fresh_restriction_Ok r_def)
  moreover have "validate_fresh_policy ?E (lc_serde_error L ''ReadRestriction'') saved fresh r = Ok ()"
  proof -
    have "table_scan_from_receipt (lc_serde_error L ''ReadRestriction'') fresh ident =
        Ok (Capability fresh \<lparr>ts_table = ident, ts_restriction = r\<rparr>)"
      using fields c1 decodes by (simp add: table_scan_from_receipt_def table_read_capability_iff)
    with digest fields same(1,2) who i(3) show ?thesis
      by (simp add: validate_fresh_policy_def)
  qed
  moreover obtain d where "governed_scan_digests ?E ?p = Ok d"
    using governed_digests_total [OF E valid] by blast
  moreover obtain a where "authorization_digest ?E fresh = Ok a"
    using domain_hash_total [OF E] unfolding authorization_digest_def governed_authorization_digest_def by blast
  ultimately show ?thesis
    using valid i(2,3) same(1) sv(3,4) table auth(1,2) digest
    by (simp add: revalidate_governed_scan_grant_def)
qed

subsection \<open>A concrete grant\<close>

definition demo_snapshot_table :: TableRecord where
  "demo_snapshot_table =
     demo_table\<lparr>tr_metadata := jobj [(''format-version'', JInt 2), (''current-snapshot-id'', JInt 42)]\<rparr>"

definition demo_snapshot_state :: MemoryState where
  "demo_snapshot_state = demo_governed\<lparr>ms_tables := [(table_key demo_ident, demo_snapshot_table)]\<rparr>"

definition demo_plan :: ScanPlan where
  "demo_plan =
     \<lparr>pl_planned_by = ''sail'', pl_snapshot_id = Some 42, pl_scan_tasks = [JStr ''task''],
      pl_residual_filter = None\<rparr>"

definition demo_scan_proof :: GovernedScanProof where
  "demo_scan_proof =
     proof_of_evidence demo_digest
       \<lparr>ge_catalog_identity = ''lakecat://wh'', ge_table = demo_ident, ge_table_version = 0,
        ge_snapshot_id = 42, ge_plan_task_digest = demo_digest, ge_principal_subject = ''ann'',
        ge_purpose = ''audit'', ge_effective_projection = [''region''],
        ge_identity_context_digest = demo_digest, ge_authorization_receipt_digest = demo_digest,
        ge_policy_decision_digest = demo_digest\<rparr>"

definition demo_scan_grant :: GovernedScanGrant where
  "demo_scan_grant =
     \<lparr>gg_proof = demo_scan_proof, gg_principal = demo_principal,
      gg_requested_projection = [''amount'', ''region''], gg_policy_engine = ALLOW_ALL_LOCAL_ENGINE,
      gg_policy_hash_digest = Some demo_digest, gg_authorization_context_digest = demo_digest,
      gg_read_restriction_digest = demo_digest, gg_table_metadata_digest = demo_digest,
      gg_issued_at = 5\<rparr>"

lemma demo_domain_hash: "domain_hash demo_env d v = Ok demo_digest"
  by (simp add: domain_hash_ok demo_hash) (simp add: demo_env_def)

lemma demo_evidence_digests:
  "governed_evidence_digest demo_env IDENTITY_CONTEXT_DOMAIN v = Ok demo_digest"
  "governed_evidence_digest demo_env POLICY_HASH_DOMAIN v = Ok demo_digest"
  "governed_evidence_digest demo_env AUTHORIZATION_CONTEXT_DOMAIN v = Ok demo_digest"
  "governed_evidence_digest demo_env RESTRICTION_DOMAIN v = Ok demo_digest"
  "governed_evidence_digest demo_env TABLE_METADATA_DOMAIN v = Ok demo_digest"
proof -
  have "\<not> blank IDENTITY_CONTEXT_DOMAIN \<and> CHR 0x00 \<notin> set IDENTITY_CONTEXT_DOMAIN"
    "\<not> blank POLICY_HASH_DOMAIN \<and> CHR 0x00 \<notin> set POLICY_HASH_DOMAIN"
    "\<not> blank AUTHORIZATION_CONTEXT_DOMAIN \<and> CHR 0x00 \<notin> set AUTHORIZATION_CONTEXT_DOMAIN"
    "\<not> blank RESTRICTION_DOMAIN \<and> CHR 0x00 \<notin> set RESTRICTION_DOMAIN"
    "\<not> blank TABLE_METADATA_DOMAIN \<and> CHR 0x00 \<notin> set TABLE_METADATA_DOMAIN"
    by code_simp+
  then show "governed_evidence_digest demo_env IDENTITY_CONTEXT_DOMAIN v = Ok demo_digest"
    "governed_evidence_digest demo_env POLICY_HASH_DOMAIN v = Ok demo_digest"
    "governed_evidence_digest demo_env AUTHORIZATION_CONTEXT_DOMAIN v = Ok demo_digest"
    "governed_evidence_digest demo_env RESTRICTION_DOMAIN v = Ok demo_digest"
    "governed_evidence_digest demo_env TABLE_METADATA_DOMAIN v = Ok demo_digest"
    by (simp_all add: governed_evidence_digest_def demo_domain_hash)
qed

lemma demo_canonical_texts:
  "canonical_text ''lakecat://wh''" "canonical_text ''wh''" "canonical_text ''orders''"
  "canonical_text ''sales''" "canonical_text ''ann''" "canonical_text ''audit''"
  "canonical_text ''region''" "canonical_text ''amount''" "canonical_text ALLOW_ALL_LOCAL_ENGINE"
  by code_simp+

lemma demo_scan_proof_valid:
  "validate_evidence (evidence_of_proof demo_scan_proof) = Ok ()"
  "validate_integrity demo_env demo_scan_proof = Ok ()"
proof -
  have table: "validate_governed_scan_table demo_ident = Ok ()"
    by (simp add: demo_ident_def validate_text_ok [THEN iffD2] demo_canonical_texts
        validate_governed_scan_table_def validate_name_def name_char_def is_ascii_alphanumeric_def
        validate_string_budget_ok [THEN iffD2] usize_max_def MAX_GOVERNED_SCAN_NAMESPACE_BYTES_def
        MAX_GOVERNED_SCAN_NAMESPACE_COMPONENTS_def)
  have "validate_fields (evidence_of_proof demo_scan_proof) = Ok ()"
    by (simp add: validate_fields_def demo_scan_proof_def proof_of_evidence_def evidence_of_proof_def
        validate_text_ok [THEN iffD2] demo_canonical_texts table
        validate_string_budget_ok [THEN iffD2] usize_max_def validate_governed_scan_projection_def
        validate_projection_def MAX_GOVERNED_SCAN_PROJECTION_FIELDS_def
        MAX_GOVERNED_SCAN_PROJECTION_BYTES_def demo_digest_valid)
  then show "validate_evidence (evidence_of_proof demo_scan_proof) = Ok ()"
    "validate_integrity demo_env demo_scan_proof = Ok ()"
    by (simp_all add: validate_evidence_def validate_integrity_ok demo_digest_valid
        proof_digest_from_proof_def demo_domain_hash)
      (simp add: demo_scan_proof_def proof_of_evidence_def demo_digest_valid)
qed

lemma demo_scan_grant_valid: "grant_validate demo_env demo_scan_grant = Ok ()"
proof -
  have "validate_governed_scan_requested_projection [''amount'', ''region''] = Ok ()"
    by (simp add: validate_governed_scan_requested_projection_def validate_projection_def demo_canonical_texts
        validate_string_budget_ok [THEN iffD2] usize_max_def
        MAX_GOVERNED_SCAN_PROJECTION_FIELDS_def MAX_GOVERNED_SCAN_PROJECTION_BYTES_def)
  then show ?thesis
    by (simp add: grant_validate_def demo_scan_grant_def demo_canonical_texts validate_text_ok [THEN iffD2]
        demo_digest_valid demo_scan_proof_valid demo_principal_def)
      (simp add: demo_scan_proof_def proof_of_evidence_def)
qed

lemma demo_issued:
  "issue_governed_scan_grant demo_env err 5 ''lakecat://wh'' demo_scan_capability demo_snapshot_table
     demo_plan [''amount'', ''region''] [''region''] = Ok (Some demo_scan_grant)"
proof -
  have identity: "verified_identity_context err demo_receipt = Ok (ri_envelope demo_identity)"
  proof -
    have "jget (ri_envelope demo_identity) ''principal'' = Some (principal_json demo_principal)"
      by (simp add: demo_identity_def identity_envelope_def)
    moreover have "ar_context demo_receipt = demo_context" "ar_principal demo_receipt = demo_principal"
      "pr_kind demo_principal = Human"
      by (simp_all add: demo_receipt_def demo_principal_def)
    ultimately show ?thesis
      by (simp add: verified_identity_context_def demo_context_built(4) principal_from_json_roundtrip)
  qed
  have digests: "authorization_digest demo_env r = Ok demo_digest" "policy_digest demo_env r q = Ok demo_digest"
    "governed_plan_digest demo_env ts = Ok demo_digest" "restriction_digest demo_env q = Ok demo_digest" for r q ts
    by (simp_all add: authorization_digest_def governed_authorization_digest_def policy_digest_def
        governed_policy_digest_def governed_plan_digest_def restriction_digest_def demo_domain_hash
        demo_evidence_digests)
  have snapshot: "current_snapshot_id demo_snapshot_table = Some 42"
    by (simp add: current_snapshot_id_def demo_snapshot_table_def)
  have version: "tr_version demo_snapshot_table = 0"
    by (simp add: demo_snapshot_table_def demo_table_def table_record_new_def Let_def)
  have purpose: "rr_purpose demo_read = Some ''audit''" by (simp add: demo_read_def)
  have receipt: "ar_principal demo_receipt = demo_principal" "ar_engine demo_receipt = ALLOW_ALL_LOCAL_ENGINE"
    "ar_policy_hash demo_receipt = Some demo_digest"
    by (simp_all add: demo_receipt_def)
  have evidence: "grant_evidence demo_env ''lakecat://wh'' demo_scan_capability demo_snapshot_table demo_plan 42
      ''audit'' [''region''] (ri_envelope demo_identity) = Ok (evidence_of_proof demo_scan_proof)"
    by (simp add: grant_evidence_def demo_scan_capability_def digests demo_evidence_digests version receipt
        demo_scan_proof_def proof_of_evidence_def evidence_of_proof_def demo_principal_def)
  have issue: "governed_scan_proof_issue demo_env (evidence_of_proof demo_scan_proof) = Ok demo_scan_proof"
    using demo_scan_proof_valid(1)
    by (simp add: governed_scan_proof_issue_def proof_digest_from_evidence_def demo_domain_hash)
      (simp add: demo_scan_proof_def proof_of_evidence_def evidence_of_proof_def)
  have grant: "grant_of_proof demo_env 5 demo_scan_capability demo_snapshot_table [''amount'', ''region'']
      demo_scan_proof = Ok demo_scan_grant"
    by (simp add: grant_of_proof_def demo_scan_capability_def receipt policy_hash_digest_def
        demo_evidence_digests digests demo_scan_grant_def)
  have "cap_receipt demo_scan_capability = demo_receipt" "ts_restriction (cap_resource demo_scan_capability) = demo_read"
    "pl_snapshot_id demo_plan = Some 42"
    by (simp_all add: demo_scan_capability_def demo_plan_def)
  then show ?thesis
    by (simp add: issue_governed_scan_grant_def purpose snapshot identity evidence issue grant demo_scan_grant_valid)
qed

definition demo_granted :: MemoryState where
  "demo_granted =
     demo_snapshot_state\<lparr>ms_governed_scan_grants := bt_insert demo_digest demo_scan_grant []\<rparr>"

lemma demo_snapshot_loads: "load_table demo_snapshot_state demo_ident = Ok demo_snapshot_table"
proof -
  have "ms_soft_deletes demo_state = []" by code_simp
  moreover have "tr_ident demo_snapshot_table = demo_ident"
    by (simp add: demo_snapshot_table_def demo_table_def table_record_new_def Let_def)
  moreover have "table_record_validate demo_snapshot_table = Ok ()" by code_simp
  moreover have "validate_table_record_map_scope demo_snapshot_table (table_key demo_ident) = Ok ()"
    using calculation by (simp add: validate_table_record_map_scope_def)
  ultimately show ?thesis
    by (simp add: load_table_ok checked_table_ok demo_snapshot_state_def demo_governed_def bt_contains_def)
qed

lemma demo_saved: "save_governed_scan_grant demo_env demo_scan_grant demo_snapshot_state = (Ok demo_scan_grant, demo_granted)"
proof -
  have "ms_governed_scan_grants demo_state = []" by code_simp
  moreover have "gp_grant_id (gg_proof demo_scan_grant) = demo_digest"
    by (simp add: demo_scan_grant_def demo_scan_proof_def proof_of_evidence_def)
  ultimately show ?thesis
    by (simp add: save_governed_scan_grant_def demo_scan_grant_valid demo_granted_def
        demo_snapshot_state_def demo_governed_def)
qed

lemma demo_snapshot_scan:
  "authorize_table_scan demo_service demo_snapshot_state demo_identity demo_ident = Ok demo_scan_capability"
proof -
  have "request_bindings (lc_env demo_service) demo_snapshot_state = request_bindings (lc_env demo_service) demo_governed"
    by (simp add: fun_eq_iff request_bindings_def store_policy_bindings_for_table_def demo_snapshot_state_def
        split: option.splits)
  then have "authorize_table_scan demo_service demo_snapshot_state = authorize_table_scan demo_service demo_governed"
    by (simp add: fun_eq_iff authorize_table_scan_def authorize_def authorize_with_operation_context_def)
  then show ?thesis by (simp add: demo_scan_authorized)
qed

lemma demo_scan_projection:
  "effective_projection (ts_restriction (cap_resource demo_scan_capability)) [''amount'', ''region''] = Ok [''region'']"
  by (simp add: demo_scan_capability_def effective_projection_def demo_read_def retain_allowed_filter)

lemma demo_configured:
  "env_ok (lc_env demo_service)" "same_decision (lc_governance demo_service) (allow_all_authorize 9)"
  "lc_env demo_service = demo_env" "lc_catalog_identity demo_service = ''lakecat://wh''"
  "gg_proof demo_scan_grant = demo_scan_proof"
  by (simp_all add: demo_service_def demo_env_ok demo_scan_grant_def same_decision_allow_all)

lemma demo_issued_service:
  "issue_governed_scan_grant (lc_env demo_service) (lc_serde_error demo_service) 5
     (lc_catalog_identity demo_service) demo_scan_capability demo_snapshot_table demo_plan
     [''amount'', ''region''] [''region''] = Ok (Some demo_scan_grant)"
  by (simp add: demo_configured demo_issued)

lemmas demo_grant_steps = demo_configured(1,2) demo_snapshot_scan demo_snapshot_loads demo_scan_projection
  demo_issued_service demo_saved [folded demo_configured(3)]

lemma demo_revalidates:
  "\<exists>rv. revalidate_governed_scan_grant (demo_service\<lparr>lc_governance := allow_all_authorize 9\<rparr>) 9 demo_granted
     demo_scan_proof = Ok rv"
  using issue_then_revalidate [OF demo_grant_steps, of 9] by (auto simp: demo_configured)

subsection \<open>Properties\<close>



text \<open>
  C10: a proof that revalidates is current. It is the proof of the grant stored under its id and of
  this catalog; its table is visible at the very version and snapshot the proof names; the governance
  engine allows its principal the scan now; and its projection is what the policies in force now
  make of the columns that were asked for, so no enforced binding withholds any of them.
\<close>

theorem revalidated_grant_is_current:
  assumes "revalidate_governed_scan_grant L now s presented = Ok rv"
  shows "rv_proof rv = presented \<and> gp_catalog_identity presented = lc_catalog_identity L \<and>
    (\<exists>grant table. bt_get (ms_governed_scan_grants s) (gp_grant_id presented) = Some grant \<and>
       gg_proof grant = presented \<and> load_table s (gp_table presented) = Ok table \<and>
       tr_version table = gp_table_version presented \<and>
       current_snapshot_id table = Some (gp_snapshot_id presented) \<and>
       (\<exists>request receipt. lc_governance L request = Ok receipt \<and> ar_allowed receipt \<and>
          aq_principal request = gg_principal grant \<and> aq_action request = TablePlanScan \<and>
          aq_table request = Some (gp_table presented))) \<and>
    (\<forall>key b allowed. bt_get (ms_policy_bindings s) key = Some b \<longrightarrow> pb_enforced b \<longrightarrow>
       applies_to_table b (gp_table presented) \<longrightarrow>
       allowed_columns_from_odrl (pb_odrl b) = Ok (Some allowed) \<longrightarrow>
       set (gp_effective_projection presented) \<subseteq> set allowed)"
  using assms
proof (rule revalidate_Ok)
  fix grant table bindings restriction receipt
  assume a: "gp_catalog_identity presented = lc_catalog_identity L"
    "load_governed_scan_grant (lc_env L) s (gp_grant_id presented) = Ok grant" "gg_proof grant = presented"
    "load_table s (gp_table presented) = Ok table" "validate_table_evidence (lc_env L) grant table = Ok ()"
    "store_policy_bindings_for_table (lc_env L) s (gp_table presented) = Ok bindings"
    "read_restriction_from_policy_bindings (lc_env L) bindings = Ok restriction"
    "fresh_authorization L grant restriction bindings = Ok receipt"
    "validate_fresh_restriction (lc_env L) grant restriction = Ok ()" "rv_proof rv = presented"
  have "\<exists>request raw. lc_governance L request = Ok raw \<and> ar_allowed raw \<and>
      aq_principal request = gg_principal grant \<and> aq_action request = TablePlanScan \<and>
      aq_table request = Some (gp_table presented)"
    using a(3,8) by (fastforce simp: fresh_authorization_def and_then_ok split: if_splits)
  moreover have "set (gp_effective_projection presented) \<subseteq> set allowed"
    if "bt_get (ms_policy_bindings s) key = Some b" "pb_enforced b" "applies_to_table b (gp_table presented)"
      "allowed_columns_from_odrl (pb_odrl b) = Ok (Some allowed)" for key b allowed
  proof -
    have "effective_projection restriction (gg_requested_projection grant) = Ok (gp_effective_projection presented)"
      using a(3,9) by (simp add: fresh_restriction_Ok)
    from revalidated_projection [OF a(7,6) this that] show ?thesis .
  qed
  ultimately show ?thesis
    using a by (auto simp: load_grant_Ok table_evidence_Ok)
qed

text \<open>
  C11: a grant does not outlive a commit to its table. Once a commit that is no replay has succeeded
  on the table at the version the proof names, no revalidation of the proof succeeds in the
  resulting catalog, under whatever configuration; the same holds after the table was dropped.
\<close>

theorem stale_grant_is_refused:
  assumes "load_table s (gp_table p) = Ok t" and "tr_version t = gp_table_version p"
    and "(\<exists>now c t'. commit_table E now (gp_table p) c s = (Ok t', s') \<and> s' \<noteq> s) \<or>
      (\<exists>now q auth t'. soft_delete_table E now (gp_table p) q auth s = (Ok t', s'))"
  shows "\<not> is_ok (revalidate_governed_scan_grant L later s' p)"
proof
  assume "is_ok (revalidate_governed_scan_grant L later s' p)"
  then obtain rv where "revalidate_governed_scan_grant L later s' p = Ok rv"
    by (auto simp: is_ok_def split: sum.splits)
  from revalidation_needs_version [OF this] obtain row where
    row: "load_table s' (gp_table p) = Ok row" "tr_version row = gp_table_version p" by blast
  from assms(3) show False
  proof
    assume "\<exists>now c t'. commit_table E now (gp_table p) c s = (Ok t', s') \<and> s' \<noteq> s"
    with commit_bumps_version [OF _ _ assms(1) row(1)] row(2) assms(2)
    show False by (metis add_cancel_left_right zero_neq_one)
  next
    assume "\<exists>now q auth t'. soft_delete_table E now (gp_table p) q auth s = (Ok t', s')"
    then have "bt_contains (ms_soft_deletes s') (table_key (gp_table p))"
      by (auto elim!: soft_delete_table_ok simp: push_events_def bt_contains_def bt_get_insert)
    with row(1) show False by (simp add: load_table_ok)
  qed
qed

theorem revalidated_grant_is_current_witness:
  "set (gp_effective_projection demo_scan_proof) \<subseteq> {''id'', ''region''} \<and>
   (\<exists>grant. bt_get (ms_governed_scan_grants demo_granted) demo_digest = Some grant \<and> gg_proof grant = demo_scan_proof)"
proof -
  obtain rv where rv: "revalidate_governed_scan_grant (demo_service\<lparr>lc_governance := allow_all_authorize 9\<rparr>) 9
      demo_granted demo_scan_proof = Ok rv" using demo_revalidates by blast
  have row: "bt_get (ms_policy_bindings demo_granted) demo_binding_key = Some demo_binding"
    by (simp add: demo_granted_def demo_snapshot_state_def demo_governed_def)
  have id: "gp_grant_id demo_scan_proof = demo_digest" "gp_table demo_scan_proof = demo_ident"
    by (simp_all add: demo_scan_proof_def proof_of_evidence_def)
  have force: "pb_enforced demo_binding" "applies_to_table demo_binding demo_ident"
    "allowed_columns_from_odrl (pb_odrl demo_binding) = Ok (Some [''id'', ''region''])"
    using demo_policy_reads(1) by (simp_all add: applies_to_table_def demo_binding_def demo_ident_def)
  from revalidated_grant_is_current [OF rv, unfolded id] row force show ?thesis by fastforce
qed

theorem stale_grant_is_refused_witness:
  "\<not> is_ok (revalidate_governed_scan_grant demo_service 9
     (snd (commit_table demo_env 3 demo_ident demo_commit demo_state)) demo_scan_proof)"
proof -
  let ?s' = "snd (commit_table demo_env 3 demo_ident demo_commit demo_state)"
  have p: "gp_table demo_scan_proof = demo_ident" "gp_table_version demo_scan_proof = 0"
    by (simp_all add: demo_scan_proof_def proof_of_evidence_def)
  obtain t where t: "load_table demo_state demo_ident = Ok t" using demo_loads by blast
  moreover have "map_ok tr_version (load_table demo_state demo_ident) = Ok 0" by code_simp
  ultimately have version: "tr_version t = gp_table_version demo_scan_proof" by (simp add: p)
  obtain t' where "commit_table demo_env 3 demo_ident demo_commit demo_state = (Ok t', ?s')"
    using demo_commit_succeeds by (rule is_okE)
  moreover have "length (ms_commits ?s') = 1" "ms_commits demo_state = []" by code_simp+
  then have "?s' \<noteq> demo_state" by fastforce
  ultimately have "(\<exists>now c t'. commit_table demo_env now (gp_table demo_scan_proof) c demo_state = (Ok t', ?s') \<and>
      ?s' \<noteq> demo_state) \<or>
    (\<exists>now q auth t'. soft_delete_table demo_env now (gp_table demo_scan_proof) q auth demo_state = (Ok t', ?s'))"
    unfolding p by blast
  from stale_grant_is_refused [OF t [folded p(1)] version this] show ?thesis .
qed

subsection \<open>Grants under the TypeSec engine\<close>

text \<open>
  The policy hash of the TypeSec engine covers the hash of the request context, and the context of a
  revalidation is never that of the scan: it names the grant. So the policy digest of a revalidation
  can only agree with the one bound into the proof where one of the four documents hashed on the way
  collides with its counterpart: revalidation refuses the grants issued under this engine.
\<close>

definition typesec_documents ::
  "env \<Rightarrow> (string \<Rightarrow> string \<Rightarrow> string \<Rightarrow> PolicyResult) \<Rightarrow> AuthorizationRequest \<Rightarrow> AuthorizationReceipt \<Rightarrow>
     AuthorizationReceipt \<Rightarrow> ReadRestriction \<Rightarrow> string \<Rightarrow> json list" where
  "typesec_documents E check request raw receipt r context_hash =
     [aq_context request,
      typesec_decision_json request
        (check (pr_subject (aq_principal request)) (action_name (aq_action request)) (resource_name request))
        context_hash,
      receipt_policy_hash_json raw r,
      policy_digest_json receipt r]"

definition hash_collision :: "env \<Rightarrow> json \<Rightarrow> json \<Rightarrow> bool" where
  "hash_collision E v w \<longleftrightarrow>
     v \<noteq> w \<and> (content_hash_json E v = content_hash_json E w \<or>
              governed_policy_digest E v = governed_policy_digest E w)"

lemma typesec_receipt:
  assumes "typesec_authorize E check t q = Ok raw"
    and "jget (aq_context q) ''read-restriction'' = Some (read_restriction_json r)"
    and "read_restriction_from_json (read_restriction_json r) = Some r" "rr_policy_hashes r \<noteq> []"
    and "with_read_restriction_policy_hash E err raw = Ok receipt"
  obtains h g k where "content_hash_json E (aq_context q) = Ok h"
    "content_hash_json E (typesec_decision_json q
       (check (pr_subject (aq_principal q)) (action_name (aq_action q)) (resource_name q)) h) = Ok g"
    "ar_policy_hash raw = Some g" "content_hash_json E (receipt_policy_hash_json raw r) = Ok k"
    "ar_policy_hash receipt = Some k"
proof -
  obtain h g where "content_hash_json E (aq_context q) = Ok h"
    "content_hash_json E (typesec_decision_json q
       (check (pr_subject (aq_principal q)) (action_name (aq_action q)) (resource_name q)) h) = Ok g"
    "ar_policy_hash raw = Some g" "ar_context raw = aq_context q"
    using assms(1) by (auto simp: typesec_authorize_def Let_def and_then_ok)
  moreover from this(4) policy_hash_of_restriction [OF assms(5) _ assms(3)] assms(2,4)
  obtain k where "content_hash_json E (receipt_policy_hash_json raw r) = Ok k" "ar_policy_hash receipt = Some k"
    by auto
  ultimately show thesis using that by blast
qed

lemma jobj_field_inj: "jobj kvs = jobj kvs' \<Longrightarrow> map_of (rev kvs) k = map_of (rev kvs') k"
  by (metis jget_jobj)

lemma typesec_digest_binds_context:
  assumes "typesec_authorize E check t0 q0 = Ok raw0" "typesec_authorize E check t1 q1 = Ok raw1"
    and "jget (aq_context q0) ''read-restriction'' = Some (read_restriction_json r)"
      "jget (aq_context q1) ''read-restriction'' = Some (read_restriction_json r)"
    and "read_restriction_from_json (read_restriction_json r) = Some r" "rr_policy_hashes r \<noteq> []"
    and "with_read_restriction_policy_hash E err raw0 = Ok receipt0"
      "with_read_restriction_policy_hash E err raw1 = Ok receipt1"
    and "policy_digest E receipt0 r = policy_digest E receipt1 r"
  shows "aq_context q0 = aq_context q1 \<or>
    (\<exists>h0 h1. content_hash_json E (aq_context q0) = Ok h0 \<and> content_hash_json E (aq_context q1) = Ok h1 \<and>
       list_ex (\<lambda>(v, w). hash_collision E v w)
         (zip (typesec_documents E check q0 raw0 receipt0 r h0) (typesec_documents E check q1 raw1 receipt1 r h1)))"
proof -
  obtain h0 g0 k0 where a: "content_hash_json E (aq_context q0) = Ok h0"
    "content_hash_json E (typesec_decision_json q0
       (check (pr_subject (aq_principal q0)) (action_name (aq_action q0)) (resource_name q0)) h0) = Ok g0"
    "ar_policy_hash raw0 = Some g0" "content_hash_json E (receipt_policy_hash_json raw0 r) = Ok k0"
    "ar_policy_hash receipt0 = Some k0"
    using typesec_receipt [OF assms(1,3,5,6,7)] .
  obtain h1 g1 k1 where b: "content_hash_json E (aq_context q1) = Ok h1"
    "content_hash_json E (typesec_decision_json q1
       (check (pr_subject (aq_principal q1)) (action_name (aq_action q1)) (resource_name q1)) h1) = Ok g1"
    "ar_policy_hash raw1 = Some g1" "content_hash_json E (receipt_policy_hash_json raw1 r) = Ok k1"
    "ar_policy_hash receipt1 = Some k1"
    using typesec_receipt [OF assms(2,4,5,6,8)] .
  show ?thesis
  proof (rule ccontr)
    assume no: "\<not> ?thesis"
    then have differ: "aq_context q0 \<noteq> aq_context q1" by simp
    from no a(1) b(1) have free: "\<not> list_ex (\<lambda>(v, w). hash_collision E v w)
      (zip (typesec_documents E check q0 raw0 receipt0 r h0) (typesec_documents E check q1 raw1 receipt1 r h1))"
      by blast
    have "policy_digest_json receipt0 r = policy_digest_json receipt1 r"
      using free assms(9) by (auto simp: typesec_documents_def hash_collision_def policy_digest_def)
    from jobj_field_inj [OF this [unfolded policy_digest_json_def], of "''policyHash''"]
    have "k0 = k1" by (simp add: a(5) b(5))
    then have "receipt_policy_hash_json raw0 r = receipt_policy_hash_json raw1 r"
      using free a(4) b(4) by (auto simp: typesec_documents_def hash_collision_def)
    from jobj_field_inj [OF this [unfolded receipt_policy_hash_json_def], of "''governance-policy-hash''"]
    have "g0 = g1" by (simp add: a(3) b(3))
    then have "typesec_decision_json q0
       (check (pr_subject (aq_principal q0)) (action_name (aq_action q0)) (resource_name q0)) h0 =
       typesec_decision_json q1
       (check (pr_subject (aq_principal q1)) (action_name (aq_action q1)) (resource_name q1)) h1"
      using free a(2) b(2) by (auto simp: typesec_documents_def hash_collision_def)
    from jobj_field_inj [OF this [unfolded typesec_decision_json_def], of "''context-hash''"]
    have "h0 = h1" by simp
    then show False
      using free differ a(1) b(1) by (auto simp: typesec_documents_def hash_collision_def)
  qed
qed

lemma revalidation_context_names_grant:
  "jget (revalidation_context grant r bindings) ''governed-scan-grant-id'' = Some (JStr (gp_grant_id (gg_proof grant)))"
  by (simp add: revalidation_context_def)

end
