(* ===== verification/ServiceNamespace.thy ===== *)
theory ServiceNamespace
  imports ServiceErrors "HOL-Library.Multiset"
begin

section \<open>Namespaces at the REST boundary\<close>

text \<open>
  \<open>crates/lakecat-service/src/namespace.rs\<close>: the codec of multipart namespaces (components joined
  by the unit separator), table identifiers from a request's path, and the pages of a listing of
  child namespaces with their continuation tokens.
\<close>

definition REST_NAMESPACE_SEPARATOR :: char where
  "REST_NAMESPACE_SEPARATOR = CHR 0x1F"

definition PAGE_TOKEN_PREFIX :: string where
  "PAGE_TOKEN_PREFIX = ''lakecat-v1:''"

definition DEFAULT_PAGE_SIZE :: nat where
  "DEFAULT_PAGE_SIZE = 1000"

definition MAX_PAGE_SIZE :: nat where
  "MAX_PAGE_SIZE = 10000"

definition parse_rest_namespace :: "string \<Rightarrow> Namespace result" where
  "parse_rest_namespace value = namespace_new (split_on REST_NAMESPACE_SEPARATOR value)"

definition rest_table_ident :: "string \<Rightarrow> string \<Rightarrow> string \<Rightarrow> TableIdent result" where
  "rest_table_ident warehouse ns table =
     and_then (warehouse_name_new warehouse) (\<lambda>w.
     and_then (parse_rest_namespace ns) (\<lambda>n.
     and_then (table_name_new table) (\<lambda>t.
     Ok \<lparr>ti_warehouse = w, ti_namespace = n, ti_name = t\<rparr>)))"

record ListNamespacesQuery =
  lq_parent :: "string option"
  lq_page_token :: "string option"
  lq_page_size :: "nat option"

definition namespace_parent :: "ListNamespacesQuery \<Rightarrow> Namespace option result" where
  "namespace_parent query =
     (case lq_parent query of
        None \<Rightarrow> Ok None
      | Some parent \<Rightarrow> if parent = [] then Ok None else map_ok Some (parse_rest_namespace parent))"

subsection \<open>Pages\<close>

record NamespacePage =
  np_namespaces :: "Namespace list"
  np_next_page_token :: "string option"

record PageRequest =
  pq_offset :: nat
  pq_size :: nat

definition is_immediate_child :: "Namespace \<Rightarrow> Namespace option \<Rightarrow> bool" where
  "is_immediate_child ns parent =
     (case parent of
        Some p \<Rightarrow> length ns = length p + 1 \<and> take (length p) ns = p
      | None \<Rightarrow> length ns = 1)"

definition encode_page_token :: "nat \<Rightarrow> string" where
  "encode_page_token offset = PAGE_TOKEN_PREFIX @ nat_str offset"

definition decode_page_token :: "string \<Rightarrow> nat result" where
  "decode_page_token token =
     ok_or (InvalidArgument ''namespace page token is invalid'')
       (Option.bind (strip_prefix token PAGE_TOKEN_PREFIX) (\<lambda>offset. map_option unat (parse_u64 offset)))"

definition page_request_from_query :: "ListNamespacesQuery \<Rightarrow> PageRequest option result" where
  "page_request_from_query query =
     (if lq_page_token query = None \<and> lq_page_size query = None then Ok None
      else
        let requested_size = (case lq_page_size query of None \<Rightarrow> DEFAULT_PAGE_SIZE | Some n \<Rightarrow> n);
            size = min requested_size MAX_PAGE_SIZE in
        if size = 0 then Err (InvalidArgument ''namespace page size must be at least one'')
        else and_then (case lq_page_token query of
                         None \<Rightarrow> Ok 0
                       | Some token \<Rightarrow> if token = [] then Ok 0 else decode_page_token token) (\<lambda>offset.
          Ok (Some \<lparr>pq_offset = offset, pq_size = size\<rparr>)))"

definition saturating_add :: "nat \<Rightarrow> nat \<Rightarrow> nat" where
  "saturating_add a b = min (a + b) usize_max"

definition namespace_page ::
  "Namespace list \<Rightarrow> Namespace option \<Rightarrow> ListNamespacesQuery \<Rightarrow> NamespacePage result" where
  "namespace_page namespaces0 parent query =
     (let namespaces = sort (filter (\<lambda>ns. is_immediate_child ns parent) namespaces0) in
      and_then (page_request_from_query query) (\<lambda>request.
      case request of
        None \<Rightarrow> Ok \<lparr>np_namespaces = namespaces, np_next_page_token = None\<rparr>
      | Some page_request \<Rightarrow>
          if length namespaces < pq_offset page_request then
            Err (InvalidArgument ''namespace page token points beyond the available results'')
          else
            let page_end = min (saturating_add (pq_offset page_request) (pq_size page_request)) (length namespaces);
                next_page_token = (if page_end < length namespaces then Some (encode_page_token page_end) else None)
            in Ok \<lparr>np_namespaces = drop (pq_offset page_request) (take page_end namespaces),
                   np_next_page_token = next_page_token\<rparr>))"

subsection \<open>The codec\<close>

lemma parse_u64_nat_str:
  assumes "n < 2 ^ 64"
  shows "parse_u64 (nat_str n) = Some (of_nat n)"
proof -
  have digits: "list_all is_ascii_digit (nat_str n)"
    using nat_str_digits by (auto simp: list_all_iff)
  have nonempty: "nat_str n \<noteq> []" by (subst nat_str.simps) simp
  then obtain c rest where s: "nat_str n = c # rest" by (cases "nat_str n") auto
  with digits have "c \<noteq> CHR ''+''" by (auto simp: is_ascii_digit_def)
  with s digits assms decimal_value_nat_str [of n] show ?thesis
    by (simp add: parse_u64_def)
qed

lemma page_token_roundtrip:
  assumes "n \<le> usize_max"
  shows "decode_page_token (encode_page_token n) = Ok n"
proof -
  have "n < 2 ^ 64" using assms by (simp add: usize_max_def)
  then have "parse_u64 (nat_str n) = Some (of_nat n)" "unat (of_nat n :: 64 word) = n"
    by (simp_all add: parse_u64_nat_str unat_of_nat)
  then show ?thesis
    by (simp add: decode_page_token_def encode_page_token_def)
qed

text \<open>The codec of namespaces is component-correct, dots included.\<close>

lemma rest_namespace_roundtrip:
  assumes "valid_namespace ns"
  shows "parse_rest_namespace (join_with [REST_NAMESPACE_SEPARATOR] ns) = Ok ns"
proof -
  have "REST_NAMESPACE_SEPARATOR \<notin> set part" if "part \<in> set ns" for part
    using assms that valid_name_no_unit_sep
    by (auto simp: valid_namespace_def list_all_iff REST_NAMESPACE_SEPARATOR_def)
  moreover have "ns \<noteq> []" using assms by (simp add: valid_namespace_def)
  ultimately have "split_on REST_NAMESPACE_SEPARATOR (join_with [REST_NAMESPACE_SEPARATOR] ns) = ns"
    using split_on_join [of ns REST_NAMESPACE_SEPARATOR] by blast
  with assms show ?thesis by (simp add: parse_rest_namespace_def namespace_new_ok)
qed

lemma rest_table_ident_valid: "rest_table_ident w ns t = Ok ident \<Longrightarrow> valid_ident ident"
  by (auto simp: rest_table_ident_def and_then_ok warehouse_name_new_def table_name_new_def
      validate_name_ok parse_rest_namespace_def namespace_new_ok valid_ident_def)

subsection \<open>Following the tokens\<close>

text \<open>
  A client that asks for a page and follows the tokens it is given. It stops after \<open>fuel\<close> pages;
  the property below shows how many suffice.
\<close>

fun follow_pages ::
  "nat \<Rightarrow> Namespace list \<Rightarrow> Namespace option \<Rightarrow> ListNamespacesQuery \<Rightarrow> Namespace list option" where
  "follow_pages 0 namespaces parent query = None"
| "follow_pages (Suc fuel) namespaces parent query =
     (case namespace_page namespaces parent query of
        Inl _ \<Rightarrow> None
      | Inr page \<Rightarrow>
          (case np_next_page_token page of
             None \<Rightarrow> Some (np_namespaces page)
           | Some token \<Rightarrow>
               map_option (\<lambda>rest. np_namespaces page @ rest)
                 (follow_pages fuel namespaces parent (query\<lparr>lq_page_token := Some token\<rparr>))))"

lemma namespace_page_at:
  assumes "lq_page_size query = Some k" "0 < k"
    and "lq_page_token query = (if offset = 0 then None else Some (encode_page_token offset))"
    and "offset \<le> length (filter (\<lambda>ns. is_immediate_child ns parent) namespaces)"
    and "length namespaces \<le> usize_max"
  shows "namespace_page namespaces parent query =
    (let children = sort (filter (\<lambda>ns. is_immediate_child ns parent) namespaces);
         page_end = min (offset + min k MAX_PAGE_SIZE) (length children)
     in Ok \<lparr>np_namespaces = drop offset (take page_end children),
            np_next_page_token = (if page_end < length children then Some (encode_page_token page_end) else None)\<rparr>)"
proof -
  have small: "length (filter (\<lambda>ns. is_immediate_child ns parent) namespaces) \<le> usize_max"
    using assms(5) length_filter_le le_trans by blast
  then have "offset \<le> usize_max" using assms(4) by simp
  then have token: "decode_page_token (encode_page_token offset) = Ok offset"
    by (rule page_token_roundtrip)
  have "encode_page_token offset \<noteq> []" by (simp add: encode_page_token_def PAGE_TOKEN_PREFIX_def)
  with assms(1-3) token have "page_request_from_query query =
      Ok (Some \<lparr>pq_offset = offset, pq_size = min k MAX_PAGE_SIZE\<rparr>)"
    by (simp add: page_request_from_query_def MAX_PAGE_SIZE_def Let_def)
  moreover have "min (saturating_add offset j) (length (filter (\<lambda>ns. is_immediate_child ns parent) namespaces)) =
      min (offset + j) (length (filter (\<lambda>ns. is_immediate_child ns parent) namespaces))" for j
    using small by (simp add: saturating_add_def min_def)
  ultimately show ?thesis
    using assms(4) by (simp add: namespace_page_def Let_def)
qed

lemma follow_pages_from:
  assumes "lq_page_size query = Some k" "0 < k" "length namespaces \<le> usize_max"
    and "lq_page_token query = (if offset = 0 then None else Some (encode_page_token offset))"
    and "children = sort (filter (\<lambda>ns. is_immediate_child ns parent) namespaces)"
    and "offset \<le> length children" "length children - offset < fuel"
  shows "follow_pages fuel namespaces parent query = Some (drop offset children)"
  using assms
proof (induction fuel arbitrary: query offset)
  case (Suc fuel)
  let ?stop = "min (offset + min k MAX_PAGE_SIZE) (length children)"
  have page: "namespace_page namespaces parent query =
      Ok \<lparr>np_namespaces = drop offset (take ?stop children),
          np_next_page_token = (if ?stop < length children then Some (encode_page_token ?stop) else None)\<rparr>"
    using namespace_page_at [OF Suc.prems(1,2,4) _ Suc.prems(3), of parent] Suc.prems(5,6)
    by (simp add: Let_def)
  show ?case
  proof (cases "?stop < length children")
    case False
    with page Suc.prems(6) show ?thesis by simp
  next
    case True
    have grows: "offset < ?stop" using Suc.prems(2) True by (auto simp: MAX_PAGE_SIZE_def min_def split: if_splits)
    have "follow_pages fuel namespaces parent (query\<lparr>lq_page_token := Some (encode_page_token ?stop)\<rparr>) =
        Some (drop ?stop children)"
      by (rule Suc.IH) (use Suc.prems True grows in auto)
    moreover have "drop offset (take ?stop children) @ drop ?stop children = drop offset children"
      using grows by (metis append_take_drop_id drop_append drop_drop le_add_diff_inverse2 less_imp_le_nat
          take_drop)
    ultimately show ?thesis using page True by simp
  qed
qed simp

text \<open>
  C38: pagination terminates and is exact. Whatever positive page size a client asks for, following
  the tokens ends after at most one page more than there are children, and the pages together are
  the sorted listing of the immediate children, each once, as an unpaged listing returns it.
\<close>

theorem pagination_terminates_and_is_exact:
  assumes "0 < k" "length namespaces \<le> usize_max" "length namespaces < fuel"
  shows "\<exists>children. follow_pages fuel namespaces parent
       \<lparr>lq_parent = p, lq_page_token = None, lq_page_size = Some k\<rparr> = Some children \<and>
     namespace_page namespaces parent \<lparr>lq_parent = p, lq_page_token = None, lq_page_size = None\<rparr> =
       Ok \<lparr>np_namespaces = children, np_next_page_token = None\<rparr> \<and>
     mset children = mset (filter (\<lambda>ns. is_immediate_child ns parent) namespaces) \<and> sorted children"
proof -
  let ?children = "sort (filter (\<lambda>ns. is_immediate_child ns parent) namespaces)"
  have "length ?children < fuel" using assms(3) by (simp add: le_less_trans [OF length_filter_le])
  then have "follow_pages fuel namespaces parent
      \<lparr>lq_parent = p, lq_page_token = None, lq_page_size = Some k\<rparr> = Some (drop 0 ?children)"
    using assms(1,2) by (intro follow_pages_from [where k = k]) simp_all
  moreover have "namespace_page namespaces parent \<lparr>lq_parent = p, lq_page_token = None, lq_page_size = None\<rparr> =
      Ok \<lparr>np_namespaces = ?children, np_next_page_token = None\<rparr>"
    by (simp add: namespace_page_def page_request_from_query_def)
  ultimately show ?thesis by simp
qed

theorem pagination_terminates_and_is_exact_witness:
  "\<exists>children. follow_pages 4 [[''b''], [''a''], [''a'', ''x'']] None
       \<lparr>lq_parent = None, lq_page_token = None, lq_page_size = Some 1\<rparr> = Some children \<and>
     mset children = {#[''a''], [''b'']#}"
proof -
  have "length [[''b''], [''a''], [''a'', ''x'']] \<le> usize_max" by (simp add: usize_max_def)
  from pagination_terminates_and_is_exact [OF _ this, of 1 4 None None]
  show ?thesis by (auto simp: is_immediate_child_def)
qed

end
