(* ===== verification/ServiceResponses.thy ===== *)
theory ServiceResponses
  imports ServiceApi ServiceLocation ViewRecords OdrlPolicies
begin

section \<open>Responses and the evidence of credentials\<close>

text \<open>
  \<open>crates/lakecat-service/src/responses.rs\<close>: the responses made of store records, the credentials a
  table's readers are given and the evidence entries in them, the payloads of audit events about
  storage profiles with their secrets hashed, and the view receipts a client sees together with the
  chain verdict it can recompute from them.
\<close>

subsection \<open>Tables and commits\<close>

definition load_table_response :: "TableRecord \<Rightarrow> json" where
  "load_table_response table =
     jobj [(''identifier'', table_identifier_json (table_identifier_from_ident (tr_ident table))),
           (''metadata-location'', jopt JStr (tr_metadata_location table)),
           (''metadata'', tr_metadata table), (''config'', config_map_json [])]"

record TableCommitRecordResponse =
  cx_warehouse :: string
  cx_namespace :: "string list"
  cx_table :: string
  cx_previous_metadata_location :: "string option"
  cx_new_metadata_location :: "string option"
  cx_sequence_number :: "64 word"
  cx_format_version :: "int option"
  cx_snapshot_id :: "int option"
  cx_policy_hash :: "string option"
  cx_request_hash :: string
  cx_response_hash :: string
  cx_idempotency_key_sha256 :: "string option"
  cx_commit_hash :: string
  cx_principal_subject :: string
  cx_principal_kind :: string
  cx_committed_at :: string

definition table_commit_record_response :: "env \<Rightarrow> TableCommitRecord \<Rightarrow> TableCommitRecordResponse result" where
  "table_commit_record_response E record =
     and_then (content_hash_json E (commit_record_json E record)) (\<lambda>commit_hash.
     Ok \<lparr>cx_warehouse = ti_warehouse (cr_table record), cx_namespace = ti_namespace (cr_table record),
         cx_table = ti_name (cr_table record),
         cx_previous_metadata_location = cr_previous_metadata_location record,
         cx_new_metadata_location = cr_new_metadata_location record,
         cx_sequence_number = cr_sequence_number record, cx_format_version = cr_format_version record,
         cx_snapshot_id = cr_snapshot_id record, cx_policy_hash = cr_policy_hash record,
         cx_request_hash = cr_request_hash record, cx_response_hash = cr_response_hash record,
         cx_idempotency_key_sha256 = cr_idempotency_key_sha256 record, cx_commit_hash = commit_hash,
         cx_principal_subject = pr_subject (cr_principal record),
         cx_principal_kind = principal_kind_name (pr_kind (cr_principal record)),
         cx_committed_at = dt_rfc3339 E (cr_committed_at record)\<rparr>)"

definition table_commit_record_response_json :: "TableCommitRecordResponse \<Rightarrow> json" where
  "table_commit_record_response_json c =
     jobj [(''warehouse'', JStr (cx_warehouse c)), (''namespace'', jstrs (cx_namespace c)),
           (''table'', JStr (cx_table c)),
           (''previous-metadata-location'', jopt JStr (cx_previous_metadata_location c)),
           (''new-metadata-location'', jopt JStr (cx_new_metadata_location c)),
           (''sequence-number'', ju64 (cx_sequence_number c)),
           (''format-version'', jopt JInt (cx_format_version c)),
           (''snapshot-id'', jopt JInt (cx_snapshot_id c)),
           (''policy-hash'', jopt JStr (cx_policy_hash c)), (''request-hash'', JStr (cx_request_hash c)),
           (''response-hash'', JStr (cx_response_hash c)),
           (''idempotency-key-sha256'', jopt JStr (cx_idempotency_key_sha256 c)),
           (''commit-hash'', JStr (cx_commit_hash c)),
           (''principal-subject'', JStr (cx_principal_subject c)),
           (''principal-kind'', JStr (cx_principal_kind c)),
           (''committed-at'', JStr (cx_committed_at c))]"

subsection \<open>Credentials\<close>

text \<open>The part before \<open>://\<close>.\<close>

fun before_str :: "string \<Rightarrow> string \<Rightarrow> string option" where
  "before_str sep [] = (if sep = [] then Some [] else None)"
| "before_str sep (c # s) =
     (if starts_with (c # s) sep then Some [] else map_option (\<lambda>p. c # p) (before_str sep s))"

definition secret_ref_provider_label :: "string \<Rightarrow> string option" where
  "secret_ref_provider_label secret_ref = before_str ''://'' secret_ref"

definition public_storage_credentials_for_profile :: "StorageProfile \<Rightarrow> StorageCredential list" where
  "public_storage_credentials_for_profile profile =
     [\<lparr>sc_prefix = sp_location_prefix profile,
       sc_config = config_entry ''lakecat.storage-profile-id'' (sp_profile_id profile) #
         map (\<lambda>(key, value). config_entry key value) (sp_public_config profile)\<rparr>]"

text \<open>
  The lowest lifetime that a list of entries names under the key, and the entries without it. An
  entry whose value is no number is dropped without effect.
\<close>

definition ttl_key :: string where
  "ttl_key = ''lakecat.max-credential-ttl-seconds''"

definition capped_ttl :: "64 word \<Rightarrow> ConfigEntry list \<Rightarrow> 64 word" where
  "capped_ttl maximum entries =
     foldl (\<lambda>effective entry.
       if ce_key entry = ttl_key then
         (case parse_u64 (ce_value entry) of None \<Rightarrow> effective | Some existing \<Rightarrow> min effective existing)
       else effective) maximum entries"

definition cap_credential :: "64 word \<Rightarrow> StorageCredential \<Rightarrow> StorageCredential" where
  "cap_credential maximum credential =
     credential\<lparr>sc_config := filter (\<lambda>entry. ce_key entry \<noteq> ttl_key) (sc_config credential) @
       [config_entry ttl_key (u64_str (capped_ttl maximum (sc_config credential)))]\<rparr>"

definition apply_credential_ttl_cap ::
  "StorageCredential list \<Rightarrow> 64 word option \<Rightarrow> StorageCredential list" where
  "apply_credential_ttl_cap credentials max_credential_ttl_seconds =
     (case max_credential_ttl_seconds of
        None \<Rightarrow> credentials
      | Some maximum \<Rightarrow> map (cap_credential maximum) credentials)"

definition with_secret_ref_evidence :: "env \<Rightarrow> string \<Rightarrow> string \<Rightarrow> StorageCredential \<Rightarrow> StorageCredential" where
  "with_secret_ref_evidence E secret_ref provider credential =
     credential\<lparr>sc_config :=
       filter (\<lambda>entry. to_ascii_lowercase (ce_key entry) \<notin>
                 {''lakecat.secret-ref-provider'', ''lakecat.secret-ref-hash''}) (sc_config credential) @
       [config_entry ''lakecat.secret-ref-provider'' provider,
        config_entry ''lakecat.secret-ref-hash'' (content_hash_bytes E secret_ref)]\<rparr>"

definition apply_secret_ref_provider_evidence ::
  "env \<Rightarrow> StorageCredential list \<Rightarrow> StorageProfile \<Rightarrow> StorageCredential list" where
  "apply_secret_ref_provider_evidence E credentials profile =
     (case sp_secret_ref profile of
        None \<Rightarrow> credentials
      | Some secret_ref \<Rightarrow>
          (case secret_ref_provider_label secret_ref of
             None \<Rightarrow> credentials
           | Some provider \<Rightarrow> map (with_secret_ref_evidence E secret_ref provider) credentials))"

definition LAKECAT_CREDENTIAL_RESPONSE_EVIDENCE_KEYS :: "string list" where
  "LAKECAT_CREDENTIAL_RESPONSE_EVIDENCE_KEYS =
     [''lakecat.storage-profile-id'', ''lakecat.storage-provider'', ''lakecat.credential-mode'',
      ''lakecat.authorization-principal'', ''lakecat.governed-read-required'',
      ''lakecat.secret-ref-provider'', ''lakecat.secret-ref-hash'']"

definition effective_ttl :: "64 word option \<Rightarrow> ConfigEntry list \<Rightarrow> 64 word option" where
  "effective_ttl maximum entries =
     foldl (\<lambda>effective entry.
       if to_ascii_lowercase (ce_key entry) = ttl_key then
         (case parse_u64 (ce_value entry) of
            None \<Rightarrow> effective
          | Some existing \<Rightarrow>
              Some (case effective of None \<Rightarrow> existing | Some current \<Rightarrow> min current existing))
       else effective) maximum entries"

definition is_evidence_key :: "string \<Rightarrow> bool" where
  "is_evidence_key key \<longleftrightarrow>
     to_ascii_lowercase key = ttl_key \<or>
     to_ascii_lowercase key \<in> set LAKECAT_CREDENTIAL_RESPONSE_EVIDENCE_KEYS"

definition canonical_credential ::
  "StorageProfile \<Rightarrow> AuthorizationReceipt \<Rightarrow> bool \<Rightarrow> 64 word option \<Rightarrow> StorageCredential \<Rightarrow>
     StorageCredential" where
  "canonical_credential profile receipt governed_read_required max_credential_ttl_seconds credential =
     credential\<lparr>sc_config :=
       filter (\<lambda>entry. \<not> is_evidence_key (ce_key entry)) (sc_config credential) @
       [config_entry ''lakecat.storage-profile-id'' (sp_profile_id profile),
        config_entry ''lakecat.storage-provider'' (storage_provider_as_str (sp_provider profile)),
        config_entry ''lakecat.credential-mode'' (issuance_mode_as_str (sp_issuance_mode profile)),
        config_entry ''lakecat.authorization-principal'' (pr_subject (ar_principal receipt)),
        config_entry ''lakecat.governed-read-required'' (bool_str governed_read_required)] @
       (case effective_ttl max_credential_ttl_seconds (sc_config credential) of
          None \<Rightarrow> []
        | Some ttl \<Rightarrow> [config_entry ttl_key (u64_str ttl)])\<rparr>"

definition canonicalize_credential_response_evidence ::
  "env \<Rightarrow> StorageCredential list \<Rightarrow> StorageProfile \<Rightarrow> AuthorizationReceipt \<Rightarrow> bool \<Rightarrow> 64 word option \<Rightarrow>
     StorageCredential list" where
  "canonicalize_credential_response_evidence E credentials profile receipt governed_read_required
     max_credential_ttl_seconds =
     apply_secret_ref_provider_evidence E
       (map (canonical_credential profile receipt governed_read_required max_credential_ttl_seconds)
          credentials) profile"

text \<open>The check of every credential's prefix; the hashes of the message may fail themselves.\<close>

definition check_credential_prefix :: "env \<Rightarrow> StorageProfile \<Rightarrow> StorageCredential \<Rightarrow> unit result" where
  "check_credential_prefix E profile credential =
     (if location_is_within_prefix E (sc_prefix credential) (sp_location_prefix profile) then Ok ()
      else
        and_then (content_hash_json E (jobj [(''credential-prefix'', JStr (sc_prefix credential))])) (\<lambda>h1.
        and_then (content_hash_json E (jobj [(''location-prefix'', JStr (sp_location_prefix profile))])) (\<lambda>h2.
        Err (InvalidArgument (''issued credential prefix is outside storage profile scope; credential-prefix-hash='' @
          h1 @ ''; storage-profile-prefix-hash='' @ h2)))))"

definition issued_credentials_for_profile ::
  "env \<Rightarrow> StorageCredential list \<Rightarrow> StorageProfile \<Rightarrow> 64 word option \<Rightarrow> StorageCredential list result" where
  "issued_credentials_for_profile E credentials profile max_credential_ttl_seconds =
     and_then (check_all (check_credential_prefix E profile) credentials) (\<lambda>_.
     Ok (apply_secret_ref_provider_evidence E
          (apply_credential_ttl_cap credentials max_credential_ttl_seconds) profile))"

text \<open>The issuer that is used without TypeSec (\<open>state.rs\<close>).\<close>

definition conservative_issue :: "env \<Rightarrow> credential_issuer" where
  "conservative_issue E request =
     (if can_return_public_credential (ci_profile request) then
        issued_credentials_for_profile E (public_storage_credentials_for_profile (ci_profile request))
          (ci_profile request) (ci_max_credential_ttl_seconds request)
      else Ok [])"

subsection \<open>Event payloads without secrets\<close>

text \<open>\<open>expect\<close> on a hash.\<close>

definition hash_or_panic :: "env \<Rightarrow> json \<Rightarrow> string \<Rightarrow> string result" where
  "hash_or_panic E v message =
     (case content_hash_json E v of Inl _ \<Rightarrow> Err (Panicked message) | Inr h \<Rightarrow> Ok h)"

definition storage_profile_event_payload :: "env \<Rightarrow> StorageProfile \<Rightarrow> json result" where
  "storage_profile_event_payload E profile =
     and_then (hash_or_panic E (jobj [(''location-prefix'', JStr (sp_location_prefix profile))])
                ''storage profile location prefix hash should serialize'') (\<lambda>prefix_hash.
     Ok (jobj
       ([(''profile-id'', JStr (sp_profile_id profile)), (''warehouse'', JStr (sp_warehouse profile)),
         (''location-prefix-hash'', JStr prefix_hash),
         (''provider'', JStr (storage_provider_as_str (sp_provider profile))),
         (''issuance-mode'', JStr (issuance_mode_as_str (sp_issuance_mode profile))),
         (''secret-ref-present'', JBool (sp_secret_ref profile \<noteq> None)),
         (''public-config'', jmap (sp_public_config profile))] @
        jskip ''secret-ref-provider'' JStr (Option.bind (sp_secret_ref profile) secret_ref_provider_label) @
        jskip ''secret-ref-hash'' (\<lambda>s. JStr (content_hash_bytes E s)) (sp_secret_ref profile))))"

text \<open>\<open>payload.get_mut(key)\<close> as an object, edited in place.\<close>

definition edit_object ::
  "string \<Rightarrow> ((string, json) btree \<Rightarrow> (string, json) btree) \<Rightarrow> json \<Rightarrow> json" where
  "edit_object key f payload =
     (case payload of
        JObj m \<Rightarrow>
          (case bt_get m key of
             Some (JObj inner) \<Rightarrow> JObj (bt_insert key (JObj (f inner)) m)
           | _ \<Rightarrow> payload)
      | _ \<Rightarrow> payload)"

definition hash_removed_location :: "env \<Rightarrow> (string, json) btree \<Rightarrow> (string, json) btree" where
  "hash_removed_location E m =
     (let m1 = bt_remove ''location-prefix'' m in
      case Option.bind (bt_get m ''location-prefix'') as_str of
        None \<Rightarrow> m1
      | Some location_prefix \<Rightarrow>
          (case content_hash_json E (jobj [(''location-prefix'', JStr location_prefix)]) of
             Inl _ \<Rightarrow> m1
           | Inr h \<Rightarrow> bt_insert ''location-prefix-hash'' (JStr h) m1))"

definition redact_profile :: "env \<Rightarrow> (string, json) btree \<Rightarrow> (string, json) btree" where
  "redact_profile E m =
     (let m1 = hash_removed_location E m;
          raw_secret_ref = Option.bind (bt_get m1 ''secret-ref'') as_str;
          m2 = bt_remove ''secret-ref'' m1;
          provider = Option.bind raw_secret_ref secret_ref_provider_label;
          m3 = (case raw_secret_ref of
                  None \<Rightarrow> m2
                | Some secret_ref \<Rightarrow> bt_insert ''secret-ref-hash'' (JStr (content_hash_bytes E secret_ref)) m2);
          secret_ref_present = (raw_secret_ref \<noteq> None \<or>
            bt_get m3 ''secret-ref-present'' = Some (JBool True));
          m4 = bt_insert ''secret-ref-present'' (JBool secret_ref_present) m3
      in case provider of None \<Rightarrow> m4 | Some p \<Rightarrow> bt_insert ''secret-ref-provider'' (JStr p) m4)"

definition redact_storage_profile_event_payload :: "env \<Rightarrow> json \<Rightarrow> json" where
  "redact_storage_profile_event_payload E payload = edit_object ''storage-profile'' (redact_profile E) payload"

text \<open>A text field replaced by the hash of an object over it, or of its bytes.\<close>

definition redact_field ::
  "env \<Rightarrow> string \<Rightarrow> string \<Rightarrow> (string, json) btree \<Rightarrow> (string, json) btree" where
  "redact_field E field hash_field m =
     (let m1 = bt_remove field m in
      case Option.bind (bt_get m field) as_str of
        None \<Rightarrow> m1
      | Some value \<Rightarrow>
          bt_insert hash_field
            (JStr (case content_hash_json E (jobj [(field, JStr value)]) of
                     Inl _ \<Rightarrow> content_hash_bytes E value | Inr h \<Rightarrow> h)) m1)"

definition redact_warehouse_event_payload :: "env \<Rightarrow> json \<Rightarrow> json" where
  "redact_warehouse_event_payload E payload =
     edit_object ''warehouse-record'' (redact_field E ''storage-root'' ''storage-root-hash'') payload"

definition redact_server_event_payload :: "env \<Rightarrow> json \<Rightarrow> json" where
  "redact_server_event_payload E payload =
     edit_object ''server-record'' (redact_field E ''endpoint-url'' ''endpoint-url-hash'') payload"

subsection \<open>Registry records\<close>

definition storage_profile_response :: "env \<Rightarrow> StorageProfile \<Rightarrow> json" where
  "storage_profile_response E profile =
     jobj ([(''profile-id'', JStr (sp_profile_id profile)), (''warehouse'', JStr (sp_warehouse profile)),
            (''location-prefix'', JStr (sp_location_prefix profile)),
            (''provider'', JStr (storage_provider_as_str (sp_provider profile))),
            (''issuance-mode'', JStr (issuance_mode_as_str (sp_issuance_mode profile))),
            (''secret-ref-present'', JBool (sp_secret_ref profile \<noteq> None))] @
           jskip ''secret-ref-provider'' JStr (Option.bind (sp_secret_ref profile) secret_ref_provider_label) @
           jskip ''secret-ref-hash'' (\<lambda>s. JStr (content_hash_bytes E s)) (sp_secret_ref profile) @
           [(''public-config'', jmap (sp_public_config profile))])"

definition warehouse_response :: "WarehouseRecord \<Rightarrow> json" where
  "warehouse_response record =
     jobj [(''warehouse'', JStr (wr_warehouse record)), (''project-id'', JStr (wr_project_id record)),
           (''storage-root'', jopt JStr (wr_storage_root record)), (''properties'', jmap (wr_properties record))]"

definition server_response :: "ServerRecord \<Rightarrow> json" where
  "server_response record =
     jobj [(''server-id'', JStr (sv_server_id record)), (''display-name'', jopt JStr (sv_display_name record)),
           (''endpoint-url'', jopt JStr (sv_endpoint_url record)), (''properties'', jmap (sv_properties record))]"

definition project_response :: "ProjectRecord \<Rightarrow> json" where
  "project_response record =
     jobj [(''project-id'', JStr (pj_project_id record)), (''server-id'', jopt JStr (pj_server_id record)),
           (''display-name'', jopt JStr (pj_display_name record)), (''properties'', jmap (pj_properties record))]"

subsection \<open>Views and their receipts\<close>

definition view_column_response :: "ViewColumnRecord \<Rightarrow> json" where
  "view_column_response column =
     jobj [(''name'', JStr (vc_name column)), (''data-type'', vc_data_type column),
           (''nullable'', JBool (vc_nullable column)), (''comment'', jopt JStr (vc_comment column))]"

definition view_response :: "ViewRecord \<Rightarrow> json" where
  "view_response record =
     jobj [(''warehouse'', JStr (vw_warehouse record)), (''namespace'', jstrs (vw_namespace record)),
           (''name'', JStr (vw_name record)), (''view-version'', ju64 (vw_view_version record)),
           (''sql'', JStr (vw_sql record)), (''dialect'', JStr (vw_dialect record)),
           (''schema-version'', jopt ju64 (vw_schema_version record)),
           (''columns'', JArr (map view_column_response (vw_columns record))),
           (''properties'', jmap (vw_properties record))]"

definition view_columns_from_request :: "ViewColumnRequest list \<Rightarrow> ViewColumnRecord list result" where
  "view_columns_from_request columns =
     traverse (\<lambda>column.
       let record = \<lparr>vc_name = vq_name column, vc_data_type = vq_data_type column,
                     vc_nullable = vq_nullable column, vc_comment = vq_comment column\<rparr>
       in and_then (view_column_validate record) (\<lambda>_. Ok record)) columns"

record ViewVersionReceiptResponse =
  vx_stable_id :: string
  vx_warehouse :: string
  vx_namespace :: "string list"
  vx_name :: string
  vx_view_version :: "64 word"
  vx_previous_view_version :: "64 word option"
  vx_previous_receipt_hash :: "string option"
  vx_operation :: string
  vx_view_hash :: string
  vx_receipt_hash :: string
  vx_principal_subject :: string
  vx_principal_kind :: string
  vx_recorded_at :: string

definition view_version_receipt_response :: "env \<Rightarrow> ViewVersionReceipt \<Rightarrow> ViewVersionReceiptResponse result" where
  "view_version_receipt_response E receipt =
     and_then (content_hash_json E (receipt_json E receipt)) (\<lambda>receipt_hash.
     Ok \<lparr>vx_stable_id = vr_stable_id receipt, vx_warehouse = vr_warehouse receipt,
         vx_namespace = vr_namespace receipt, vx_name = vr_name receipt,
         vx_view_version = vr_view_version receipt,
         vx_previous_view_version = vr_previous_view_version receipt,
         vx_previous_receipt_hash = vr_previous_receipt_hash receipt,
         vx_operation = operation_name (vr_operation receipt), vx_view_hash = vr_view_hash receipt,
         vx_receipt_hash = receipt_hash, vx_principal_subject = pr_subject (vr_principal receipt),
         vx_principal_kind = principal_kind_name (pr_kind (vr_principal receipt)),
         vx_recorded_at = dt_rfc3339 E (vr_recorded_at receipt)\<rparr>)"

definition view_version_receipt_response_json :: "ViewVersionReceiptResponse \<Rightarrow> json" where
  "view_version_receipt_response_json r =
     jobj ([(''stable-id'', JStr (vx_stable_id r)), (''warehouse'', JStr (vx_warehouse r)),
            (''namespace'', jstrs (vx_namespace r)), (''name'', JStr (vx_name r)),
            (''view-version'', ju64 (vx_view_version r)),
            (''previous-view-version'', jopt ju64 (vx_previous_view_version r))] @
           jskip ''previous-receipt-hash'' JStr (vx_previous_receipt_hash r) @
           [(''operation'', JStr (vx_operation r)), (''view-hash'', JStr (vx_view_hash r)),
            (''receipt-hash'', JStr (vx_receipt_hash r)),
            (''principal-subject'', JStr (vx_principal_subject r)),
            (''principal-kind'', JStr (vx_principal_kind r)),
            (''recorded-at'', JStr (vx_recorded_at r))])"

definition view_version_receipt_chain_hash :: "env \<Rightarrow> ViewVersionReceiptResponse list \<Rightarrow> string result" where
  "view_version_receipt_chain_hash E receipts =
     (if receipts = [] then
        Err (InvalidArgument ''view receipt-chain hash requires at least one receipt'')
      else
        let latest = last receipts in
        content_hash_json E
          (jobj [(''stable-id'', JStr (vx_stable_id latest)), (''warehouse'', JStr (vx_warehouse latest)),
                 (''namespace'', jstrs (vx_namespace latest)), (''name'', JStr (vx_name latest)),
                 (''latest-view-version'', ju64 (vx_view_version latest)),
                 (''latest-operation'', JStr (vx_operation latest)),
                 (''tombstoned'', JBool (vx_operation latest = ''drop'')),
                 (''receipt-hashes'', jstrs (map vx_receipt_hash receipts))]))"

text \<open>One link of the chain, after the receipt before it when there is one.\<close>

definition receipt_link_verified ::
  "ViewVersionReceiptResponse option \<Rightarrow> ViewVersionReceiptResponse \<Rightarrow> bool" where
  "receipt_link_verified previous receipt =
     (if vx_view_version receipt = 0 then False
      else case previous of
        None \<Rightarrow>
          vx_operation receipt = ''upsert'' \<and> vx_view_version receipt = 1 \<and>
          vx_previous_view_version receipt = None \<and> vx_previous_receipt_hash receipt = None
      | Some p \<Rightarrow>
          if vx_previous_receipt_hash receipt \<noteq> Some (vx_receipt_hash p) then False
          else if vx_operation receipt = ''upsert'' then
            vx_previous_view_version receipt = Some (vx_view_version p) \<and>
            vx_view_version receipt = saturating_add_u64 (vx_view_version p) 1
          else if vx_operation receipt = ''drop'' then
            vx_previous_view_version receipt = Some (vx_view_version p) \<and>
            vx_view_version receipt = vx_view_version p
          else False)"

fun links_verified :: "ViewVersionReceiptResponse option \<Rightarrow> ViewVersionReceiptResponse list \<Rightarrow> bool" where
  "links_verified previous [] = True"
| "links_verified previous (receipt # rest) =
     (receipt_link_verified previous receipt \<and> links_verified (Some receipt) rest)"

definition view_version_receipt_chain_verified :: "ViewVersionReceiptResponse list \<Rightarrow> bool" where
  "view_version_receipt_chain_verified receipts \<longleftrightarrow> receipts \<noteq> [] \<and> links_verified None receipts"

record ViewVersionReceiptChainResponse =
  vh_stable_id :: string
  vh_warehouse :: string
  vh_namespace :: "string list"
  vh_name :: string
  vh_chain_hash :: string
  vh_chain_verified :: bool
  vh_latest_view_version :: "64 word"
  vh_latest_operation :: string
  vh_tombstoned :: bool
  vh_receipt_count :: nat
  vh_receipts :: "ViewVersionReceiptResponse list"

definition view_version_receipt_chain_json :: "ViewVersionReceiptChainResponse \<Rightarrow> json" where
  "view_version_receipt_chain_json c =
     jobj [(''stable-id'', JStr (vh_stable_id c)), (''warehouse'', JStr (vh_warehouse c)),
           (''namespace'', jstrs (vh_namespace c)), (''name'', JStr (vh_name c)),
           (''chain-hash'', JStr (vh_chain_hash c)), (''chain-verified'', JBool (vh_chain_verified c)),
           (''latest-view-version'', ju64 (vh_latest_view_version c)),
           (''latest-operation'', JStr (vh_latest_operation c)), (''tombstoned'', JBool (vh_tombstoned c)),
           (''receipt-count'', JInt (int (vh_receipt_count c))),
           (''receipts'', JArr (map view_version_receipt_response_json (vh_receipts c)))]"

text \<open>The chain response of the receipts of one view, in the order of version, time and operation.\<close>

definition receipt_response_order :: "ViewVersionReceipt \<Rightarrow> nat \<times> int \<times> string" where
  "receipt_response_order r =
     (unat (vr_view_version r), vr_recorded_at r, operation_name (vr_operation r))"

definition receipt_chain_response ::
  "env \<Rightarrow> ViewVersionReceipt list \<Rightarrow> ViewVersionReceiptChainResponse result" where
  "receipt_chain_response E chain =
     (let receipts = sort_key receipt_response_order chain;
          latest = last receipts
      in and_then (traverse (view_version_receipt_response E) receipts) (\<lambda>response_receipts.
         and_then (view_version_receipt_chain_hash E response_receipts) (\<lambda>chain_hash.
         Ok \<lparr>vh_stable_id = vr_stable_id latest, vh_warehouse = vr_warehouse latest,
             vh_namespace = vr_namespace latest, vh_name = vr_name latest,
             vh_chain_hash = chain_hash,
             vh_chain_verified = view_version_receipt_chain_verified response_receipts,
             vh_latest_view_version = vr_view_version latest,
             vh_latest_operation = operation_name (vr_operation latest),
             vh_tombstoned = (vr_operation latest = Drop),
             vh_receipt_count = length response_receipts, vh_receipts = response_receipts\<rparr>)))"

definition view_version_receipt_chains ::
  "env \<Rightarrow> ViewVersionReceipt list \<Rightarrow> ViewVersionReceiptChainResponse list result" where
  "view_version_receipt_chains E receipts =
     traverse (\<lambda>(_, chain). receipt_chain_response E chain) (group_by_stable_id [] receipts)"

end
