(* ===== verification/ServiceWorld.thy ===== *)
theory ServiceWorld
  imports ServiceIdentity ServiceResponses ServiceNamespace MemoryViews MemoryCommits MemoryOutbox
begin

section \<open>What a handler runs in\<close>

text \<open>
  A handler is an asynchronous function over the shared store: between two of its store calls other
  requests run. Its world is the catalog, the object store, the clock, and what the other requests
  do to the catalog at each of its store calls, in order; with an empty list it runs alone. Every
  store call is one critical section of the store, as in the code. The pure steps of a handler are
  \<open>lift\<close>, a read of the store \<open>store_read\<close>, an operation \<open>store_call\<close>, a use of the object store
  \<open>object_call\<close> and a use of the clock \<open>at_time\<close>.
\<close>

record world =
  wd_catalog :: MemoryState
  wd_objects :: object_world
  wd_others :: "(int \<Rightarrow> MemoryState \<Rightarrow> MemoryState) list"
  wd_clock :: "nat \<Rightarrow> int"
  wd_ticks :: nat
  wd_uuid :: string

type_synonym 'a world_op = "world \<Rightarrow> 'a result \<times> world"

definition lift_result :: "'a result \<Rightarrow> 'a world_op" where
  "lift_result r w = (r, w)"

definition tick :: "world \<Rightarrow> world" where
  "tick w = w\<lparr>wd_ticks := wd_ticks w + 1\<rparr>"

definition others_run :: "world \<Rightarrow> world" where
  "others_run w =
     (case wd_others w of
        [] \<Rightarrow> w
      | f # rest \<Rightarrow>
          (tick w)\<lparr>wd_catalog := f (wd_clock w (wd_ticks w)) (wd_catalog w), wd_others := rest\<rparr>)"

definition store_read :: "(MemoryState \<Rightarrow> 'a result) \<Rightarrow> 'a world_op" where
  "store_read f w = (let w1 = others_run w in (f (wd_catalog w1), w1))"

definition store_call :: "(int \<Rightarrow> 'a store_op) \<Rightarrow> 'a world_op" where
  "store_call f w =
     (let w1 = others_run w;
          (r, s) = f (wd_clock w1 (wd_ticks w1)) (wd_catalog w1)
      in (r, (tick w1)\<lparr>wd_catalog := s\<rparr>))"

definition object_call :: "'a object_op \<Rightarrow> 'a world_op" where
  "object_call f w = (let (r, objects) = f (wd_objects w) in (r, w\<lparr>wd_objects := objects\<rparr>))"

definition at_time :: "(int \<Rightarrow> 'a result) \<Rightarrow> 'a world_op" where
  "at_time f w = (f (wd_clock w (wd_ticks w)), tick w)"

subsection \<open>Replies\<close>

text \<open>A body with status 200, or status 204.\<close>

datatype reply = Reply json | NoContent

abbreviation reply_ok :: "json \<Rightarrow> reply world_op" where
  "reply_ok body \<equiv> lift_result (Ok (Reply body))"

abbreviation no_content :: "reply world_op" where
  "no_content \<equiv> lift_result (Ok NoContent)"

subsection \<open>Steps every handler has\<close>

definition identify :: "LakeCatState \<Rightarrow> HeaderMap \<Rightarrow> RequestIdentity world_op" where
  "identify L headers = lift_result (request_identity (lc_env L) (lc_header_str L) headers)"

text \<open>\<open>authorize_x(&state, request_identity(&headers)?).await?\<close>\<close>

definition authorize_request ::
  "LakeCatState \<Rightarrow> HeaderMap \<Rightarrow> (LakeCatState \<Rightarrow> MemoryState \<Rightarrow> RequestIdentity \<Rightarrow> 'c result) \<Rightarrow> 'c world_op" where
  "authorize_request L headers auth =
     and_then_op (identify L headers) (\<lambda>claimed. store_read (\<lambda>s. auth L s claimed))"

definition receipt_of :: "LakeCatState \<Rightarrow> ('a, 'r) Capability \<Rightarrow> json" where
  "receipt_of L cap = authorization_receipt_json (lc_env L) (cap_receipt cap)"

abbreviation principal_of :: "('a, 'r) Capability \<Rightarrow> Principal" where
  "principal_of cap \<equiv> ar_principal (cap_receipt cap)"

text \<open>\<open>state.store.record_audit_event(CatalogAuditEvent::new(...)?).await?\<close>\<close>

definition record_event ::
  "LakeCatState \<Rightarrow> string \<Rightarrow> TableIdent option \<Rightarrow> Principal \<Rightarrow> json \<Rightarrow> unit world_op" where
  "record_event L event_type table p payload =
     and_then_op (at_time (\<lambda>now. audit_event_new (lc_env L) now event_type table p payload)) (\<lambda>ev.
     store_call (\<lambda>_. record_audit_event (lc_env L) ev))"

definition management_warehouse :: "string \<Rightarrow> WarehouseName world_op" where
  "management_warehouse warehouse = lift_result (warehouse_name_new warehouse)"

definition prefixed_catalog_warehouse :: "LakeCatState \<Rightarrow> string \<Rightarrow> WarehouseName world_op" where
  "prefixed_catalog_warehouse L warehouse =
     and_then_op (lift_result (warehouse_name_new warehouse)) (\<lambda>w.
     and_then_op (store_read (\<lambda>s. load_warehouse (lc_env L) s w)) (\<lambda>_.
     lift_result (Ok w)))"

subsection \<open>Configuring the service\<close>

definition trim_end_char :: "char \<Rightarrow> string \<Rightarrow> string" where
  "trim_end_char c s = rev (dropWhile (\<lambda>d. d = c) (rev s))"

definition valid_location_root :: "url \<Rightarrow> bool" where
  "valid_location_root u \<longleftrightarrow>
     url_scheme u \<in> {''file'', ''s3''} \<and>
     \<not> (url_scheme u = ''s3'' \<and> url_host_str u = None) \<and>
     url_username u = [] \<and> url_password u = None \<and> url_query u = None \<and> url_fragment u = None \<and>
     \<not> (case url_path_segments u of
          None \<Rightarrow> False
        | Some segments \<Rightarrow> list_ex (\<lambda>segment. segment = ''.'' \<or> segment = ''..'') segments)"

definition with_table_location_root :: "LakeCatState \<Rightarrow> string \<Rightarrow> LakeCatState result" where
  "with_table_location_root L location_root =
     and_then (ok_or (InvalidArgument ''invalid warehouse table location root'')
                (url_parse (lc_env L) location_root)) (\<lambda>parsed.
     if \<not> valid_location_root parsed then
       Err (InvalidArgument ''invalid warehouse table location root'')
     else Ok (L\<lparr>lc_table_location_root := Some (trim_end_char (CHR ''/'') location_root)\<rparr>))"

text \<open>
  The service as it starts: the built-in engine, issuer and verifier; the table engine is that of
  the build.
\<close>

definition lake_cat_state_new ::
  "env \<Rightarrow> (string \<Rightarrow> json \<Rightarrow> string) \<Rightarrow> (string \<Rightarrow> string option) \<Rightarrow> object_api \<Rightarrow> SailCatalogEngine \<Rightarrow> int \<Rightarrow>
     WarehouseName \<Rightarrow> LakeCatState" where
  "lake_cat_state_new E serde_error header_str objects sail now warehouse =
     \<lparr>lc_env = E, lc_serde_error = serde_error, lc_header_str = header_str, lc_objects = objects,
      lc_warehouse = warehouse, lc_table_location_root = None,
      lc_catalog_identity = catalog_identity_for_warehouse E warehouse, lc_sail = sail,
      lc_governance = allow_all_authorize now, lc_credential_issuer = conservative_issue E,
      lc_typedid_verifier = conservative_verify\<rparr>"

definition with_catalog_identity :: "LakeCatState \<Rightarrow> string \<Rightarrow> LakeCatState" where
  "with_catalog_identity L catalog_identity = L\<lparr>lc_catalog_identity := catalog_identity\<rparr>"

definition with_credential_issuer :: "LakeCatState \<Rightarrow> credential_issuer \<Rightarrow> LakeCatState" where
  "with_credential_issuer L issuer = L\<lparr>lc_credential_issuer := issuer\<rparr>"

definition with_typedid_verifier :: "LakeCatState \<Rightarrow> typedid_verifier \<Rightarrow> LakeCatState" where
  "with_typedid_verifier L verifier = L\<lparr>lc_typedid_verifier := verifier\<rparr>"

end
