(* ===== verification/HandleNamespaces.thy ===== *)
theory HandleNamespaces
  imports ServiceWorld
begin

section \<open>Handlers: configuration and namespaces\<close>

text \<open>
  \<open>crates/lakecat-service/src/handlers.rs\<close>, first part. Every operation has a handler for the
  warehouse of the service and one for the warehouse named in the path, over one common function.
\<close>

definition warehouse_field :: "WarehouseName \<Rightarrow> string \<times> json" where
  "warehouse_field warehouse = (''warehouse'', JStr warehouse)"

definition namespace_field :: "Namespace \<Rightarrow> string \<times> json" where
  "namespace_field ns = (''namespace'', jstrs ns)"

definition count_json :: "nat \<Rightarrow> json" where
  "count_json n = JInt (int n)"

subsection \<open>Configuration\<close>

definition get_config_in_warehouse :: "WarehouseName \<Rightarrow> LakeCatState \<Rightarrow> HeaderMap \<Rightarrow> reply world_op" where
  "get_config_in_warehouse warehouse L headers =
     and_then_op (authorize_request L headers authorize_catalog_config) (\<lambda>cap.
     let config = catalog_config_default in
     and_then_op (record_event L ''catalog.config-read'' None (principal_of cap)
       (jobj [(''event-type'', JStr ''catalog.config-read''),
              (''authorization-receipt'', receipt_of L cap),
              warehouse_field warehouse,
              (''defaults'', JArr (map config_entry_json (cc_defaults config))),
              (''overrides'', JArr (map config_entry_json (cc_overrides config))),
              (''endpoints'', jstrs (cc_endpoints config))])) (\<lambda>_.
     reply_ok (catalog_config_json config)))"

definition get_config :: "LakeCatState \<Rightarrow> HeaderMap \<Rightarrow> reply world_op" where
  "get_config L headers = get_config_in_warehouse (lc_warehouse L) L headers"

definition get_config_for_warehouse :: "LakeCatState \<Rightarrow> HeaderMap \<Rightarrow> string \<Rightarrow> reply world_op" where
  "get_config_for_warehouse L headers warehouse =
     and_then_op (prefixed_catalog_warehouse L warehouse) (\<lambda>w. get_config_in_warehouse w L headers)"

subsection \<open>Creating a namespace\<close>

definition namespace_response :: "Namespace \<Rightarrow> NamespaceProperties \<Rightarrow> json" where
  "namespace_response ns properties = jobj [namespace_field ns, (''properties'', jmap properties)]"

definition create_namespace_in_warehouse ::
  "WarehouseName \<Rightarrow> LakeCatState \<Rightarrow> HeaderMap \<Rightarrow> CreateNamespaceRequest \<Rightarrow> reply world_op" where
  "create_namespace_in_warehouse warehouse L headers request =
     and_then_op (authorize_request L headers authorize_namespace_create) (\<lambda>cap.
     and_then_op (lift_result (namespace_new (cn_namespace request))) (\<lambda>ns.
     and_then_op (lift_result (namespace_properties_new (cn_properties request))) (\<lambda>properties.
     and_then_op (store_call (\<lambda>_. create_namespace_with_properties warehouse ns properties)) (\<lambda>_.
     and_then_op (record_event L ''namespace.created'' None (principal_of cap)
       (jobj [(''event-type'', JStr ''namespace.created''),
              (''authorization-receipt'', receipt_of L cap),
              warehouse_field warehouse, namespace_field ns])) (\<lambda>_.
     reply_ok (namespace_response ns properties))))))"

definition handle_create_namespace ::
  "LakeCatState \<Rightarrow> HeaderMap \<Rightarrow> CreateNamespaceRequest \<Rightarrow> reply world_op" where
  "handle_create_namespace L headers request =
     create_namespace_in_warehouse (lc_warehouse L) L headers request"

definition create_namespace_for_warehouse ::
  "LakeCatState \<Rightarrow> HeaderMap \<Rightarrow> string \<Rightarrow> CreateNamespaceRequest \<Rightarrow> reply world_op" where
  "create_namespace_for_warehouse L headers warehouse request =
     and_then_op (prefixed_catalog_warehouse L warehouse) (\<lambda>w.
     create_namespace_in_warehouse w L headers request)"

subsection \<open>Listing namespaces\<close>

definition list_namespaces_response :: "NamespacePage \<Rightarrow> json" where
  "list_namespaces_response page =
     jobj [(''next-page-token'', jopt JStr (np_next_page_token page)),
           (''namespaces'', JArr (map jstrs (np_namespaces page)))]"

definition list_namespaces_in_warehouse ::
  "WarehouseName \<Rightarrow> LakeCatState \<Rightarrow> HeaderMap \<Rightarrow> ListNamespacesQuery \<Rightarrow> reply world_op" where
  "list_namespaces_in_warehouse warehouse L headers query =
     and_then_op (authorize_request L headers authorize_namespace_list) (\<lambda>cap.
     and_then_op (lift_result (namespace_parent query)) (\<lambda>parent.
     and_then_op (case parent of
                    None \<Rightarrow> lift_result (Ok ())
                  | Some p \<Rightarrow> store_read (\<lambda>s. map_ok (\<lambda>_. ()) (load_namespace s warehouse p))) (\<lambda>_.
     and_then_op (store_read (\<lambda>s. list_namespaces s warehouse)) (\<lambda>namespaces.
     and_then_op (lift_result (namespace_page namespaces parent query)) (\<lambda>page.
     and_then_op (record_event L ''namespace.listed'' None (principal_of cap)
       (jobj [(''event-type'', JStr ''namespace.listed''),
              (''authorization-receipt'', receipt_of L cap),
              warehouse_field warehouse,
              (''namespace-count'', count_json (length (np_namespaces page))),
              (''namespace-paths'', jstrs (map namespace_path (np_namespaces page)))])) (\<lambda>_.
     reply_ok (list_namespaces_response page)))))))"

definition handle_list_namespaces ::
  "LakeCatState \<Rightarrow> HeaderMap \<Rightarrow> ListNamespacesQuery \<Rightarrow> reply world_op" where
  "handle_list_namespaces L headers query = list_namespaces_in_warehouse (lc_warehouse L) L headers query"

definition list_namespaces_for_warehouse ::
  "LakeCatState \<Rightarrow> HeaderMap \<Rightarrow> string \<Rightarrow> ListNamespacesQuery \<Rightarrow> reply world_op" where
  "list_namespaces_for_warehouse L headers warehouse query =
     and_then_op (prefixed_catalog_warehouse L warehouse) (\<lambda>w.
     list_namespaces_in_warehouse w L headers query)"

subsection \<open>Loading a namespace and its properties\<close>

definition load_namespace_in_warehouse ::
  "WarehouseName \<Rightarrow> LakeCatState \<Rightarrow> HeaderMap \<Rightarrow> string \<Rightarrow> reply world_op" where
  "load_namespace_in_warehouse warehouse L headers namespace_text =
     and_then_op (authorize_request L headers authorize_namespace_load) (\<lambda>cap.
     and_then_op (lift_result (parse_rest_namespace namespace_text)) (\<lambda>parsed.
     and_then_op (store_read (\<lambda>s. load_namespace s warehouse parsed)) (\<lambda>ns.
     and_then_op (store_read (\<lambda>s. load_namespace_properties s warehouse ns)) (\<lambda>properties.
     and_then_op (record_event L ''namespace.loaded'' None (principal_of cap)
       (jobj [(''event-type'', JStr ''namespace.loaded''),
              (''authorization-receipt'', receipt_of L cap),
              warehouse_field warehouse, namespace_field ns])) (\<lambda>_.
     reply_ok (namespace_response ns properties))))))"

definition handle_load_namespace :: "LakeCatState \<Rightarrow> HeaderMap \<Rightarrow> string \<Rightarrow> reply world_op" where
  "handle_load_namespace L headers namespace_text =
     load_namespace_in_warehouse (lc_warehouse L) L headers namespace_text"

definition load_namespace_for_warehouse ::
  "LakeCatState \<Rightarrow> HeaderMap \<Rightarrow> string \<Rightarrow> string \<Rightarrow> reply world_op" where
  "load_namespace_for_warehouse L headers warehouse namespace_text =
     and_then_op (prefixed_catalog_warehouse L warehouse) (\<lambda>w.
     load_namespace_in_warehouse w L headers namespace_text)"

definition update_namespace_properties_in_warehouse ::
  "WarehouseName \<Rightarrow> LakeCatState \<Rightarrow> HeaderMap \<Rightarrow> string \<Rightarrow> UpdateNamespacePropertiesRequest \<Rightarrow>
     reply world_op" where
  "update_namespace_properties_in_warehouse warehouse L headers namespace_text request =
     and_then_op (authorize_request L headers authorize_namespace_update) (\<lambda>cap.
     and_then_op (lift_result (parse_rest_namespace namespace_text)) (\<lambda>ns.
     and_then_op (lift_result (namespace_property_update_new (un_removals request) (un_updates request))) (\<lambda>update.
     and_then_op (store_call (\<lambda>_. update_namespace_properties warehouse ns update)) (\<lambda>result.
     and_then_op (record_event L ''namespace.properties-updated'' None (principal_of cap)
       (jobj [(''event-type'', JStr ''namespace.properties-updated''),
              (''authorization-receipt'', receipt_of L cap),
              warehouse_field warehouse, namespace_field ns])) (\<lambda>_.
     reply_ok (jobj [(''updated'', jstrs (nr_updated result)), (''removed'', jstrs (nr_removed result)),
                     (''missing'', jstrs (nr_missing result))]))))))"

definition handle_update_namespace_properties ::
  "LakeCatState \<Rightarrow> HeaderMap \<Rightarrow> string \<Rightarrow> UpdateNamespacePropertiesRequest \<Rightarrow> reply world_op" where
  "handle_update_namespace_properties L headers namespace_text request =
     update_namespace_properties_in_warehouse (lc_warehouse L) L headers namespace_text request"

definition update_namespace_properties_for_warehouse ::
  "LakeCatState \<Rightarrow> HeaderMap \<Rightarrow> string \<Rightarrow> string \<Rightarrow> UpdateNamespacePropertiesRequest \<Rightarrow> reply world_op" where
  "update_namespace_properties_for_warehouse L headers warehouse namespace_text request =
     and_then_op (prefixed_catalog_warehouse L warehouse) (\<lambda>w.
     update_namespace_properties_in_warehouse w L headers namespace_text request)"

subsection \<open>Dropping a namespace\<close>

definition drop_namespace_in_warehouse ::
  "WarehouseName \<Rightarrow> LakeCatState \<Rightarrow> HeaderMap \<Rightarrow> string \<Rightarrow> reply world_op" where
  "drop_namespace_in_warehouse warehouse L headers namespace_text =
     and_then_op (authorize_request L headers authorize_namespace_drop) (\<lambda>cap.
     and_then_op (lift_result (parse_rest_namespace namespace_text)) (\<lambda>parsed.
     and_then_op (store_call (\<lambda>_. drop_namespace (lc_env L) warehouse parsed)) (\<lambda>ns.
     and_then_op (record_event L ''namespace.dropped'' None (principal_of cap)
       (jobj [(''event-type'', JStr ''namespace.dropped''),
              (''authorization-receipt'', receipt_of L cap),
              warehouse_field warehouse, namespace_field ns])) (\<lambda>_.
     no_content))))"

definition handle_drop_namespace :: "LakeCatState \<Rightarrow> HeaderMap \<Rightarrow> string \<Rightarrow> reply world_op" where
  "handle_drop_namespace L headers namespace_text =
     drop_namespace_in_warehouse (lc_warehouse L) L headers namespace_text"

definition drop_namespace_for_warehouse ::
  "LakeCatState \<Rightarrow> HeaderMap \<Rightarrow> string \<Rightarrow> string \<Rightarrow> reply world_op" where
  "drop_namespace_for_warehouse L headers warehouse namespace_text =
     and_then_op (prefixed_catalog_warehouse L warehouse) (\<lambda>w.
     drop_namespace_in_warehouse w L headers namespace_text)"

subsection \<open>Listing tables\<close>

definition list_tables_in_warehouse ::
  "WarehouseName \<Rightarrow> LakeCatState \<Rightarrow> HeaderMap \<Rightarrow> string \<Rightarrow> reply world_op" where
  "list_tables_in_warehouse warehouse L headers namespace_text =
     and_then_op (authorize_request L headers authorize_namespace_list) (\<lambda>cap.
     and_then_op (lift_result (parse_rest_namespace namespace_text)) (\<lambda>ns.
     and_then_op (store_read (\<lambda>s. load_namespace s warehouse ns)) (\<lambda>_.
     and_then_op (store_read (\<lambda>s. list_tables s warehouse)) (\<lambda>tables.
     let identifiers = map (\<lambda>t. table_identifier_from_ident (tr_ident t))
                         (filter (\<lambda>t. ti_namespace (tr_ident t) = ns) tables) in
     and_then_op (record_event L ''table.listed'' None (principal_of cap)
       (jobj [(''event-type'', JStr ''table.listed''),
              (''authorization-receipt'', receipt_of L cap),
              warehouse_field warehouse, namespace_field ns,
              (''table-count'', count_json (length identifiers)),
              (''table-names'', jstrs (map ai_name identifiers))])) (\<lambda>_.
     reply_ok (jobj [(''identifiers'', JArr (map table_identifier_json identifiers))]))))))"

definition handle_list_tables :: "LakeCatState \<Rightarrow> HeaderMap \<Rightarrow> string \<Rightarrow> reply world_op" where
  "handle_list_tables L headers namespace_text =
     list_tables_in_warehouse (lc_warehouse L) L headers namespace_text"

definition list_tables_for_warehouse :: "LakeCatState \<Rightarrow> HeaderMap \<Rightarrow> string \<Rightarrow> string \<Rightarrow> reply world_op" where
  "list_tables_for_warehouse L headers warehouse namespace_text =
     and_then_op (prefixed_catalog_warehouse L warehouse) (\<lambda>w.
     list_tables_in_warehouse w L headers namespace_text)"

end
