(* ===== verification/HandleManagement.thy ===== *)
theory HandleManagement
  imports HandleNamespaces
begin

section \<open>Handlers: the management interface\<close>

text \<open>
  \<open>handlers.rs\<close>: storage profiles, warehouses, projects, servers, policy bindings and model
  publications. A handler authorizes, calls the store, records an audit event without secrets and
  answers with the record.
\<close>

subsection \<open>Storage profiles\<close>

definition handle_list_storage_profiles :: "LakeCatState \<Rightarrow> HeaderMap \<Rightarrow> string \<Rightarrow> reply world_op" where
  "handle_list_storage_profiles L headers warehouse_text =
     and_then_op (management_warehouse warehouse_text) (\<lambda>warehouse.
     and_then_op (authorize_request L headers authorize_storage_profile_manage) (\<lambda>cap.
     and_then_op (store_read (\<lambda>s. list_storage_profiles (lc_env L) s warehouse)) (\<lambda>profiles.
     and_then_op (record_event L ''storage-profile.listed'' None (principal_of cap)
       (jobj [(''event-type'', JStr ''storage-profile.listed''), warehouse_field warehouse,
              (''authorization-receipt'', receipt_of L cap),
              (''storage-profile-count'', count_json (length profiles)),
              (''storage-profile-ids'', jstrs (map sp_profile_id profiles))])) (\<lambda>_.
     reply_ok (jobj [(''storage-profiles'', JArr (map (storage_profile_response (lc_env L)) profiles))])))))"

definition handle_upsert_storage_profile ::
  "LakeCatState \<Rightarrow> HeaderMap \<Rightarrow> string \<Rightarrow> string \<Rightarrow> UpsertStorageProfileRequest \<Rightarrow> reply world_op" where
  "handle_upsert_storage_profile L headers warehouse_text profile_id request =
     and_then_op (management_warehouse warehouse_text) (\<lambda>warehouse.
     and_then_op (authorize_request L headers authorize_storage_profile_manage) (\<lambda>cap.
     and_then_op (lift_result (storage_provider_from_str (uq_provider request))) (\<lambda>provider.
     and_then_op (lift_result (issuance_mode_from_str (uq_issuance_mode request))) (\<lambda>issuance_mode.
     and_then_op (lift_result (storage_profile_new (lc_env L) profile_id warehouse
       (uq_location_prefix request) provider issuance_mode (uq_secret_ref request)
       (uq_public_config request))) (\<lambda>profile0.
     and_then_op (store_call (\<lambda>_. upsert_storage_profile (lc_env L) profile0)) (\<lambda>profile.
     and_then_op (lift_result (storage_profile_event_payload (lc_env L) profile)) (\<lambda>profile_payload.
     and_then_op (record_event L ''storage-profile.upserted'' None (principal_of cap)
       (jobj [(''event-type'', JStr ''storage-profile.upserted''), warehouse_field warehouse,
              (''storage-profile'', profile_payload),
              (''authorization-receipt'', receipt_of L cap)])) (\<lambda>_.
     reply_ok (storage_profile_response (lc_env L) profile)))))))))"

subsection \<open>Warehouses\<close>

definition handle_list_warehouses :: "LakeCatState \<Rightarrow> HeaderMap \<Rightarrow> reply world_op" where
  "handle_list_warehouses L headers =
     and_then_op (authorize_request L headers authorize_warehouse_manage) (\<lambda>cap.
     and_then_op (store_read (\<lambda>s. list_warehouses (lc_env L) s)) (\<lambda>warehouses.
     and_then_op (record_event L ''warehouse.listed'' None (principal_of cap)
       (jobj [(''event-type'', JStr ''warehouse.listed''),
              (''warehouse-count'', count_json (length warehouses)),
              (''warehouse-names'', jstrs (map wr_warehouse warehouses)),
              (''authorization-receipt'', receipt_of L cap)])) (\<lambda>_.
     reply_ok (jobj [(''warehouses'', JArr (map warehouse_response warehouses))]))))"

definition handle_list_project_warehouses :: "LakeCatState \<Rightarrow> HeaderMap \<Rightarrow> string \<Rightarrow> reply world_op" where
  "handle_list_project_warehouses L headers project =
     and_then_op (authorize_request L headers authorize_warehouse_manage) (\<lambda>cap.
     and_then_op (store_read (\<lambda>s. list_project_warehouses (lc_env L) s project)) (\<lambda>warehouses.
     and_then_op (record_event L ''warehouse.listed'' None (principal_of cap)
       (jobj [(''event-type'', JStr ''warehouse.listed''),
              (''project-id'', JStr project),
              (''warehouse-count'', count_json (length warehouses)),
              (''warehouse-names'', jstrs (map wr_warehouse warehouses)),
              (''authorization-receipt'', receipt_of L cap)])) (\<lambda>_.
     reply_ok (jobj [(''warehouses'', JArr (map warehouse_response warehouses))]))))"

definition warehouse_upserted_payload ::
  "LakeCatState \<Rightarrow> (string \<times> json) list \<Rightarrow> WarehouseName \<Rightarrow> WarehouseRecord \<Rightarrow> json \<Rightarrow> json" where
  "warehouse_upserted_payload L extra warehouse record receipt =
     redact_warehouse_event_payload (lc_env L)
       (jobj ((''event-type'', JStr ''warehouse.upserted'') # extra @
              [warehouse_field warehouse, (''warehouse-record'', warehouse_response record),
               (''authorization-receipt'', receipt)]))"

definition handle_upsert_warehouse ::
  "LakeCatState \<Rightarrow> HeaderMap \<Rightarrow> string \<Rightarrow> UpsertWarehouseRequest \<Rightarrow> reply world_op" where
  "handle_upsert_warehouse L headers warehouse_text request =
     and_then_op (management_warehouse warehouse_text) (\<lambda>warehouse.
     and_then_op (authorize_request L headers authorize_warehouse_manage) (\<lambda>cap.
     and_then_op (at_time (\<lambda>now. warehouse_new (lc_env L) now warehouse
       (case uw_project_id request of None \<Rightarrow> ''default'' | Some p \<Rightarrow> p)
       (uw_storage_root request) (uw_properties request) (principal_of cap))) (\<lambda>record0.
     and_then_op (store_call (\<lambda>_. upsert_warehouse (lc_env L) record0)) (\<lambda>record.
     and_then_op (record_event L ''warehouse.upserted'' None (principal_of cap)
       (warehouse_upserted_payload L [] warehouse record (receipt_of L cap))) (\<lambda>_.
     reply_ok (warehouse_response record))))))"

definition handle_upsert_project_warehouse ::
  "LakeCatState \<Rightarrow> HeaderMap \<Rightarrow> string \<Rightarrow> string \<Rightarrow> UpsertWarehouseRequest \<Rightarrow> reply world_op" where
  "handle_upsert_project_warehouse L headers project warehouse_text request =
     (let other_project = (case uw_project_id request of Some p \<Rightarrow> if p = project then None else Some p
                           | None \<Rightarrow> None) in
      case other_project of
        Some request_project \<Rightarrow>
          lift_result (Err (InvalidArgument (''warehouse project id '' @ request_project @
            '' does not match route project '' @ project)))
      | None \<Rightarrow>
     and_then_op (management_warehouse warehouse_text) (\<lambda>warehouse.
     and_then_op (authorize_request L headers authorize_warehouse_manage) (\<lambda>cap.
     and_then_op (at_time (\<lambda>now. warehouse_new (lc_env L) now warehouse project
       (uw_storage_root request) (uw_properties request) (principal_of cap))) (\<lambda>record0.
     and_then_op (store_call (\<lambda>_. upsert_warehouse (lc_env L) record0)) (\<lambda>record.
     and_then_op (record_event L ''warehouse.upserted'' None (principal_of cap)
       (warehouse_upserted_payload L [(''project-id'', JStr (wr_project_id record))] warehouse record
          (receipt_of L cap))) (\<lambda>_.
     reply_ok (warehouse_response record)))))))"

subsection \<open>Projects\<close>

definition handle_list_projects :: "LakeCatState \<Rightarrow> HeaderMap \<Rightarrow> reply world_op" where
  "handle_list_projects L headers =
     and_then_op (authorize_request L headers authorize_project_manage) (\<lambda>cap.
     and_then_op (store_read (\<lambda>s. list_projects (lc_env L) s)) (\<lambda>projects.
     and_then_op (record_event L ''project.listed'' None (principal_of cap)
       (jobj [(''event-type'', JStr ''project.listed''),
              (''project-count'', count_json (length projects)),
              (''project-ids'', jstrs (map pj_project_id projects)),
              (''authorization-receipt'', receipt_of L cap)])) (\<lambda>_.
     reply_ok (jobj [(''projects'', JArr (map project_response projects))]))))"

definition handle_upsert_project ::
  "LakeCatState \<Rightarrow> HeaderMap \<Rightarrow> string \<Rightarrow> UpsertProjectRequest \<Rightarrow> reply world_op" where
  "handle_upsert_project L headers project request =
     and_then_op (authorize_request L headers authorize_project_manage) (\<lambda>cap.
     and_then_op (at_time (\<lambda>now. project_new (lc_env L) now project (up_server_id request)
       (up_display_name request) (up_properties request) (principal_of cap))) (\<lambda>record0.
     and_then_op (store_call (\<lambda>_. upsert_project (lc_env L) record0)) (\<lambda>record.
     and_then_op (record_event L ''project.upserted'' None (principal_of cap)
       (jobj [(''event-type'', JStr ''project.upserted''),
              (''project-id'', JStr (pj_project_id record)),
              (''project-record'', project_response record),
              (''authorization-receipt'', receipt_of L cap)])) (\<lambda>_.
     reply_ok (project_response record)))))"

subsection \<open>Servers\<close>

definition handle_list_servers :: "LakeCatState \<Rightarrow> HeaderMap \<Rightarrow> reply world_op" where
  "handle_list_servers L headers =
     and_then_op (authorize_request L headers authorize_server_manage) (\<lambda>cap.
     and_then_op (store_read (\<lambda>s. list_servers (lc_env L) s)) (\<lambda>servers.
     and_then_op (record_event L ''server.listed'' None (principal_of cap)
       (jobj [(''event-type'', JStr ''server.listed''),
              (''server-count'', count_json (length servers)),
              (''server-ids'', jstrs (map sv_server_id servers)),
              (''authorization-receipt'', receipt_of L cap)])) (\<lambda>_.
     reply_ok (jobj [(''servers'', JArr (map server_response servers))]))))"

definition handle_upsert_server ::
  "LakeCatState \<Rightarrow> HeaderMap \<Rightarrow> string \<Rightarrow> UpsertServerRequest \<Rightarrow> reply world_op" where
  "handle_upsert_server L headers server request =
     and_then_op (authorize_request L headers authorize_server_manage) (\<lambda>cap.
     and_then_op (at_time (\<lambda>now. server_new (lc_env L) now server (us_display_name request)
       (us_endpoint_url request) (us_properties request) (principal_of cap))) (\<lambda>record0.
     and_then_op (store_call (\<lambda>_. upsert_server (lc_env L) record0)) (\<lambda>record.
     and_then_op (record_event L ''server.upserted'' None (principal_of cap)
       (redact_server_event_payload (lc_env L)
         (jobj [(''event-type'', JStr ''server.upserted''),
                (''server-id'', JStr (sv_server_id record)),
                (''server-record'', server_response record),
                (''authorization-receipt'', receipt_of L cap)]))) (\<lambda>_.
     reply_ok (server_response record)))))"

subsection \<open>Policy bindings\<close>

definition handle_list_policy_bindings :: "LakeCatState \<Rightarrow> HeaderMap \<Rightarrow> string \<Rightarrow> reply world_op" where
  "handle_list_policy_bindings L headers warehouse_text =
     and_then_op (management_warehouse warehouse_text) (\<lambda>warehouse.
     and_then_op (authorize_request L headers authorize_policy_manage) (\<lambda>cap.
     and_then_op (store_read (\<lambda>s. list_policy_bindings (lc_env L) s warehouse)) (\<lambda>policies.
     and_then_op (record_event L ''policy-binding.listed'' None (principal_of cap)
       (jobj [(''event-type'', JStr ''policy-binding.listed''), warehouse_field warehouse,
              (''authorization-receipt'', receipt_of L cap),
              (''policy-count'', count_json (length policies)),
              (''policy-ids'', jstrs (map pb_policy_id policies))])) (\<lambda>_.
     reply_ok (jobj [(''policies'', JArr (map policy_binding_response_json policies))])))))"

text \<open>\<open>map(f).transpose()\<close>\<close>

definition transpose_map :: "('a \<Rightarrow> 'b result) \<Rightarrow> 'a option \<Rightarrow> 'b option result" where
  "transpose_map f x = (case x of None \<Rightarrow> Ok None | Some a \<Rightarrow> map_ok Some (f a))"

definition policy_event_payload :: "env \<Rightarrow> PolicyBinding \<Rightarrow> json result" where
  "policy_event_payload E binding =
     and_then (content_hash_json E (pb_odrl binding)) (\<lambda>odrl_hash.
     Ok (jobj [(''policy-id'', JStr (pb_policy_id binding)), (''warehouse'', JStr (pb_warehouse binding)),
               (''namespace'', jopt jstrs (pb_namespace binding)), (''table'', jopt JStr (pb_table binding)),
               (''enforced'', JBool (pb_enforced binding)), (''odrl'', pb_odrl binding),
               (''odrl-hash'', JStr odrl_hash)]))"

definition handle_upsert_policy_binding ::
  "LakeCatState \<Rightarrow> HeaderMap \<Rightarrow> string \<Rightarrow> string \<Rightarrow> UpsertPolicyBindingRequest \<Rightarrow> reply world_op" where
  "handle_upsert_policy_binding L headers warehouse_text policy request =
     and_then_op (management_warehouse warehouse_text) (\<lambda>warehouse.
     and_then_op (authorize_request L headers authorize_policy_manage) (\<lambda>cap.
     and_then_op (lift_result (transpose_map namespace_new (ub_namespace request))) (\<lambda>ns.
     and_then_op (lift_result (transpose_map table_name_new (ub_table request))) (\<lambda>table.
     and_then_op (at_time (\<lambda>now. policy_binding_new (lc_env L) now policy warehouse ns table
       (ub_enforced request) (ub_odrl request))) (\<lambda>binding0.
     and_then_op (store_call (\<lambda>_. upsert_policy_binding (lc_env L) binding0)) (\<lambda>binding.
     and_then_op (lift_result (policy_event_payload (lc_env L) binding)) (\<lambda>policy_payload.
     and_then_op (record_event L ''policy-binding.upserted'' None (principal_of cap)
       (jobj [(''event-type'', JStr ''policy-binding.upserted''), warehouse_field warehouse,
              (''policy'', policy_payload), (''authorization-receipt'', receipt_of L cap)])) (\<lambda>_.
     reply_ok (policy_binding_response_json binding)))))))))"

subsection \<open>Model publications\<close>

definition model_publication_response :: "env \<Rightarrow> ModelPublication \<Rightarrow> json" where
  "model_publication_response E m =
     jobj [(''model-id'', JStr (mp_model_id m)), (''warehouse'', JStr (mp_warehouse m)),
           (''version'', ju64 (mp_version m)), (''artifact-uri'', JStr (mp_artifact_uri m)),
           (''artifact-hash'', JStr (mp_artifact_hash m)),
           (''physical-bindings'', mp_physical_bindings m),
           (''policy-binding-ids'', jstrs (mp_policy_binding_ids m)),
           (''publisher'', principal_json (mp_publisher m)),
           (''published-at'', JStr (dt_rfc3339 E (mp_published_at m)))]"

definition requested_publication ::
  "string \<Rightarrow> WarehouseName \<Rightarrow> PublishModelRequest \<Rightarrow> Principal \<Rightarrow> int \<Rightarrow> ModelPublication" where
  "requested_publication model warehouse request publisher now =
     \<lparr>mp_model_id = model, mp_warehouse = warehouse, mp_version = pm_version request,
      mp_artifact_uri = pm_artifact_uri request, mp_artifact_hash = pm_artifact_hash request,
      mp_physical_bindings = pm_physical_bindings request,
      mp_policy_binding_ids = pm_policy_binding_ids request, mp_publisher = publisher,
      mp_published_at = now\<rparr>"

definition handle_publish_model ::
  "LakeCatState \<Rightarrow> HeaderMap \<Rightarrow> string \<Rightarrow> string \<Rightarrow> PublishModelRequest \<Rightarrow> reply world_op" where
  "handle_publish_model L headers warehouse_text model request =
     and_then_op (management_warehouse warehouse_text) (\<lambda>warehouse.
     and_then_op (authorize_request L headers authorize_policy_manage) (\<lambda>cap.
     and_then_op (at_time (\<lambda>now. Ok (requested_publication model warehouse request (principal_of cap) now))) (\<lambda>m.
     and_then_op (store_call (\<lambda>now. publish_model (lc_env L) now m (pm_expected_current_version request))) (\<lambda>published.
     reply_ok (model_publication_response (lc_env L) published)))))"

definition handle_list_model_publications ::
  "LakeCatState \<Rightarrow> HeaderMap \<Rightarrow> string \<Rightarrow> string \<Rightarrow> reply world_op" where
  "handle_list_model_publications L headers warehouse_text model =
     and_then_op (management_warehouse warehouse_text) (\<lambda>warehouse.
     and_then_op (authorize_request L headers authorize_policy_manage) (\<lambda>_.
     and_then_op (store_read (\<lambda>s. Ok (model_publications s warehouse model))) (\<lambda>publications.
     reply_ok (jobj [(''publications'', JArr (map (model_publication_response (lc_env L)) publications))]))))"

end
