(* ===== verification/HandleViews.thy ===== *)
theory HandleViews
  imports HandleNamespaces
begin

section \<open>Handlers: views and their receipts\<close>

text \<open>
  \<open>handlers.rs\<close>: views are served under the management interface and under the catalog interface;
  the events of the second name it. A namespace in these paths is in its dotted form.
\<close>

text \<open>The extra field of the events of the catalog interface.\<close>

definition interface_field :: "string option \<Rightarrow> (string \<times> json) list" where
  "interface_field interface = jskip ''interface'' JStr interface"

definition iceberg_rest :: "string option" where
  "iceberg_rest = Some ''iceberg-rest''"

subsection \<open>Listing and loading views\<close>

definition views_listed_payload ::
  "LakeCatState \<Rightarrow> string option \<Rightarrow> WarehouseName \<Rightarrow> Namespace \<Rightarrow> ViewRecord list \<Rightarrow> json \<Rightarrow> json" where
  "views_listed_payload L interface warehouse ns views receipt =
     jobj ((''event-type'', JStr ''view.listed'') # interface_field interface @
           [warehouse_field warehouse, namespace_field ns,
            (''view-count'', count_json (length views)), (''view-names'', jstrs (map vw_name views)),
            (''authorization-receipt'', receipt)])"

definition handle_list_views :: "LakeCatState \<Rightarrow> HeaderMap \<Rightarrow> string \<Rightarrow> string \<Rightarrow> reply world_op" where
  "handle_list_views L headers warehouse_text namespace_text =
     and_then_op (management_warehouse warehouse_text) (\<lambda>warehouse.
     and_then_op (lift_result (namespace_from_str namespace_text)) (\<lambda>ns.
     and_then_op (authorize_request L headers authorize_view_manage) (\<lambda>cap.
     and_then_op (store_read (\<lambda>s. list_views (lc_env L) s warehouse ns)) (\<lambda>views.
     and_then_op (record_event L ''view.listed'' None (principal_of cap)
       (views_listed_payload L None warehouse ns views (receipt_of L cap))) (\<lambda>_.
     reply_ok (jobj [(''views'', JArr (map view_response views))]))))))"

definition catalog_list_views :: "LakeCatState \<Rightarrow> HeaderMap \<Rightarrow> string \<Rightarrow> string \<Rightarrow> reply world_op" where
  "catalog_list_views L headers warehouse_text namespace_text =
     and_then_op (management_warehouse warehouse_text) (\<lambda>warehouse.
     and_then_op (lift_result (namespace_from_str namespace_text)) (\<lambda>ns.
     and_then_op (authorize_request L headers authorize_view_load) (\<lambda>cap.
     and_then_op (store_read (\<lambda>s. list_views (lc_env L) s warehouse ns)) (\<lambda>views.
     and_then_op (record_event L ''view.listed'' None (principal_of cap)
       (views_listed_payload L iceberg_rest warehouse ns views (receipt_of L cap))) (\<lambda>_.
     reply_ok (jobj [(''views'', JArr (map view_response views))]))))))"

definition catalog_load_view ::
  "LakeCatState \<Rightarrow> HeaderMap \<Rightarrow> string \<Rightarrow> string \<Rightarrow> string \<Rightarrow> reply world_op" where
  "catalog_load_view L headers warehouse_text namespace_text view_text =
     and_then_op (management_warehouse warehouse_text) (\<lambda>warehouse.
     and_then_op (lift_result (namespace_from_str namespace_text)) (\<lambda>ns.
     and_then_op (lift_result (table_name_new view_text)) (\<lambda>view_name.
     and_then_op (authorize_request L headers authorize_view_load) (\<lambda>cap.
     and_then_op (store_read (\<lambda>s. load_view (lc_env L) s warehouse ns view_name)) (\<lambda>record.
     and_then_op (record_event L ''view.loaded'' None (principal_of cap)
       (jobj ((''event-type'', JStr ''view.loaded'') # interface_field iceberg_rest @
              [warehouse_field warehouse, namespace_field ns, (''view'', view_response record),
               (''authorization-receipt'', receipt_of L cap)]))) (\<lambda>_.
     reply_ok (view_response record)))))))"

subsection \<open>Receipts\<close>

definition is_drop_receipt :: "ViewVersionReceiptResponse \<Rightarrow> bool" where
  "is_drop_receipt r \<longleftrightarrow> vx_operation r = ''drop''"

definition receipts_listed_payload ::
  "WarehouseName \<Rightarrow> Namespace \<Rightarrow> TableName \<Rightarrow> ViewVersionReceiptResponse list \<Rightarrow> json \<Rightarrow> json" where
  "receipts_listed_payload warehouse ns view_name receipts receipt =
     jobj [(''event-type'', JStr ''view.version-receipts-listed''), warehouse_field warehouse,
           namespace_field ns, (''view'', JStr view_name),
           (''receipt-count'', count_json (length receipts)),
           (''receipt-hashes'', jstrs (map vx_receipt_hash receipts)),
           (''drop-receipt-hashes'', jstrs (map vx_receipt_hash (filter is_drop_receipt receipts))),
           (''authorization-receipt'', receipt)]"

definition handle_list_view_version_receipts ::
  "LakeCatState \<Rightarrow> HeaderMap \<Rightarrow> string \<Rightarrow> string \<Rightarrow> string \<Rightarrow> reply world_op" where
  "handle_list_view_version_receipts L headers warehouse_text namespace_text view_text =
     and_then_op (management_warehouse warehouse_text) (\<lambda>warehouse.
     and_then_op (lift_result (namespace_from_str namespace_text)) (\<lambda>ns.
     and_then_op (lift_result (table_name_new view_text)) (\<lambda>view_name.
     and_then_op (authorize_request L headers authorize_view_load) (\<lambda>cap.
     and_then_op (store_read (\<lambda>s. list_view_version_receipts (lc_env L) s warehouse ns view_name)) (\<lambda>receipts.
     and_then_op (lift_result (traverse (view_version_receipt_response (lc_env L)) receipts)) (\<lambda>responses.
     and_then_op (record_event L ''view.version-receipts-listed'' None (principal_of cap)
       (receipts_listed_payload warehouse ns view_name responses (receipt_of L cap))) (\<lambda>_.
     reply_ok (jobj [(''receipts'', JArr (map view_version_receipt_response_json responses))]))))))))"

definition chains_listed_payload ::
  "WarehouseName \<Rightarrow> Namespace \<Rightarrow> ViewVersionReceiptChainResponse list \<Rightarrow> json \<Rightarrow> json" where
  "chains_listed_payload warehouse ns chain_list receipt =
     jobj [(''event-type'', JStr ''view.version-receipt-chains-listed''), warehouse_field warehouse,
           namespace_field ns,
           (''chain-count'', count_json (length chain_list)),
           (''receipt-count'', count_json (sum_list (map vh_receipt_count chain_list))),
           (''tombstone-count'', count_json (length (filter vh_tombstoned chain_list))),
           (''chain-verified-count'', count_json (length (filter vh_chain_verified chain_list))),
           (''view-version-receipt-chains'', JArr (map view_version_receipt_chain_json chain_list)),
           (''chain-hashes'', jstrs (map vh_chain_hash chain_list)),
           (''receipt-hashes'', jstrs (concat (map (\<lambda>c. map vx_receipt_hash (vh_receipts c)) chain_list))),
           (''drop-receipt-hashes'',
              jstrs (concat (map (\<lambda>c. map vx_receipt_hash (filter is_drop_receipt (vh_receipts c))) chain_list))),
           (''authorization-receipt'', receipt)]"

definition handle_list_view_version_receipt_chains ::
  "LakeCatState \<Rightarrow> HeaderMap \<Rightarrow> string \<Rightarrow> string \<Rightarrow> reply world_op" where
  "handle_list_view_version_receipt_chains L headers warehouse_text namespace_text =
     and_then_op (management_warehouse warehouse_text) (\<lambda>warehouse.
     and_then_op (lift_result (namespace_from_str namespace_text)) (\<lambda>ns.
     and_then_op (authorize_request L headers authorize_view_load) (\<lambda>cap.
     and_then_op (store_read (\<lambda>s. list_namespace_view_version_receipts (lc_env L) s warehouse ns)) (\<lambda>receipts.
     and_then_op (lift_result (view_version_receipt_chains (lc_env L) receipts)) (\<lambda>chain_list.
     and_then_op (record_event L ''view.version-receipt-chains-listed'' None (principal_of cap)
       (chains_listed_payload warehouse ns chain_list (receipt_of L cap))) (\<lambda>_.
     reply_ok (jobj [(''chains'', JArr (map view_version_receipt_chain_json chain_list))])))))))"

subsection \<open>Changing views\<close>

definition requested_view ::
  "LakeCatState \<Rightarrow> WarehouseName \<Rightarrow> Namespace \<Rightarrow> string \<Rightarrow> UpsertViewRequest \<Rightarrow> Principal \<Rightarrow> int \<Rightarrow>
     ViewRecord result" where
  "requested_view L warehouse ns view_text request p now =
     and_then (table_name_new view_text) (\<lambda>name.
     and_then (view_new (lc_env L) now warehouse ns name (uv_sql request) (uv_dialect request)
                (uv_schema_version request) (uv_properties request) p) (\<lambda>record.
     and_then (view_columns_from_request (uv_columns request)) (\<lambda>columns.
     with_columns (lc_env L) record columns)))"

definition view_upserted_payload ::
  "string option \<Rightarrow> WarehouseName \<Rightarrow> Namespace \<Rightarrow> ViewRecord \<Rightarrow> 64 word option \<Rightarrow> json \<Rightarrow> json" where
  "view_upserted_payload interface warehouse ns record expected receipt =
     jobj ((''event-type'', JStr ''view.upserted'') # interface_field interface @
           [warehouse_field warehouse, namespace_field ns, (''view'', view_response record),
            (''expected-view-version'', jopt ju64 expected), (''authorization-receipt'', receipt)])"

definition handle_upsert_view ::
  "LakeCatState \<Rightarrow> HeaderMap \<Rightarrow> string \<Rightarrow> string \<Rightarrow> string \<Rightarrow> UpsertViewRequest \<Rightarrow> reply world_op" where
  "handle_upsert_view L headers warehouse_text namespace_text view_text request =
     and_then_op (management_warehouse warehouse_text) (\<lambda>warehouse.
     and_then_op (lift_result (namespace_from_str namespace_text)) (\<lambda>ns.
     and_then_op (authorize_request L headers authorize_view_manage) (\<lambda>cap.
     and_then_op (at_time (requested_view L warehouse ns view_text request (principal_of cap))) (\<lambda>record0.
     and_then_op (store_call (\<lambda>now. upsert_view_if_version (lc_env L) now record0
       (uv_expected_view_version request))) (\<lambda>record.
     and_then_op (record_event L ''view.upserted'' None (principal_of cap)
       (view_upserted_payload None warehouse ns record (uv_expected_view_version request) (receipt_of L cap))) (\<lambda>_.
     reply_ok (view_response record)))))))"

definition catalog_upsert_view ::
  "LakeCatState \<Rightarrow> HeaderMap \<Rightarrow> string \<Rightarrow> string \<Rightarrow> string \<Rightarrow> UpsertViewRequest \<Rightarrow> reply world_op" where
  "catalog_upsert_view L headers warehouse_text namespace_text view_text request =
     and_then_op (management_warehouse warehouse_text) (\<lambda>warehouse.
     and_then_op (lift_result (namespace_from_str namespace_text)) (\<lambda>ns.
     and_then_op (authorize_request L headers authorize_view_manage) (\<lambda>cap.
     and_then_op (at_time (requested_view L warehouse ns view_text request (principal_of cap))) (\<lambda>record0.
     and_then_op (store_call (\<lambda>now. upsert_view_if_version (lc_env L) now record0
       (uv_expected_view_version request))) (\<lambda>record.
     and_then_op (record_event L ''view.upserted'' None (principal_of cap)
       (view_upserted_payload iceberg_rest warehouse ns record (uv_expected_view_version request) (receipt_of L cap))) (\<lambda>_.
     reply_ok (view_response record)))))))"

definition record_view_drop_audit ::
  "LakeCatState \<Rightarrow> WarehouseName \<Rightarrow> Namespace \<Rightarrow> ViewRecord \<Rightarrow> CanDropViews CatalogCapability \<Rightarrow>
     string option \<Rightarrow> 64 word option \<Rightarrow> unit world_op" where
  "record_view_drop_audit L warehouse ns record cap interface expected =
     record_event L ''view.dropped'' None (principal_of cap)
       (jobj ([(''event-type'', JStr ''view.dropped''), warehouse_field warehouse, namespace_field ns,
               (''view'', view_response record), (''expected-view-version'', jopt ju64 expected),
               (''authorization-receipt'', receipt_of L cap)] @ interface_field interface))"

definition handle_drop_view ::
  "LakeCatState \<Rightarrow> HeaderMap \<Rightarrow> string \<Rightarrow> string \<Rightarrow> string \<Rightarrow> 64 word option \<Rightarrow> reply world_op" where
  "handle_drop_view L headers warehouse_text namespace_text view_text expected =
     and_then_op (management_warehouse warehouse_text) (\<lambda>warehouse.
     and_then_op (lift_result (namespace_from_str namespace_text)) (\<lambda>ns.
     and_then_op (lift_result (table_name_new view_text)) (\<lambda>view_name.
     and_then_op (authorize_request L headers authorize_view_drop) (\<lambda>cap.
     and_then_op (store_call (\<lambda>now. drop_view_if_version (lc_env L) now warehouse ns view_name
       (principal_of cap) expected)) (\<lambda>record.
     and_then_op (record_view_drop_audit L warehouse ns record cap None expected) (\<lambda>_.
     no_content))))))"

definition catalog_drop_view ::
  "LakeCatState \<Rightarrow> HeaderMap \<Rightarrow> string \<Rightarrow> string \<Rightarrow> string \<Rightarrow> 64 word option \<Rightarrow> reply world_op" where
  "catalog_drop_view L headers warehouse_text namespace_text view_text expected =
     and_then_op (management_warehouse warehouse_text) (\<lambda>warehouse.
     and_then_op (lift_result (namespace_from_str namespace_text)) (\<lambda>ns.
     and_then_op (lift_result (table_name_new view_text)) (\<lambda>view_name.
     and_then_op (authorize_request L headers authorize_view_drop) (\<lambda>cap.
     and_then_op (store_call (\<lambda>now. drop_view_if_version (lc_env L) now warehouse ns view_name
       (principal_of cap) expected)) (\<lambda>record.
     and_then_op (record_view_drop_audit L warehouse ns record cap iceberg_rest expected) (\<lambda>_.
     no_content))))))"

end
