(* ===== verification/HandleTables.thy ===== *)
theory HandleTables
  imports HandleNamespaces
begin

section \<open>Handlers: tables, commits and credentials\<close>

text \<open>
  \<open>handlers.rs\<close> (tables and credentials), \<open>commit.rs\<close>, \<open>table_registration.rs\<close> and
  \<open>table_rename.rs\<close> of \<open>crates/lakecat-service/src\<close>. A table may be created from a schema, in which
  case its first metadata object is written before the row, or from a metadata document of the
  client; a commit writes the metadata object the engine planned before it swaps the pointer, and
  removes it again when the swap is refused.
\<close>

subsection \<open>What an audit event says of metadata\<close>

definition handler_format_version :: "json \<Rightarrow> int option" where
  "handler_format_version metadata = Option.bind (jget metadata ''format-version'') as_i64"

definition metadata_current_schema_fields :: "json \<Rightarrow> json list" where
  "metadata_current_schema_fields metadata =
     (let current_schema_id = Option.bind (jget metadata ''current-schema-id'') as_i64;
          schema = (case Option.bind (Option.bind (jget metadata ''schemas'') as_array)
                           (find (\<lambda>schema. Option.bind (jget schema ''schema-id'') as_i64 = current_schema_id)) of
                      Some s \<Rightarrow> Some s | None \<Rightarrow> jget metadata ''schema'')
      in case Option.bind (Option.bind schema (\<lambda>s. jget s ''fields'')) as_array of
           None \<Rightarrow> [] | Some members \<Rightarrow> members)"

definition metadata_current_snapshot :: "json \<Rightarrow> json option" where
  "metadata_current_snapshot metadata =
     Option.bind (Option.bind (jget metadata ''current-snapshot-id'') as_i64) (\<lambda>current_snapshot_id.
     Option.bind (Option.bind (jget metadata ''snapshots'') as_array)
       (find (\<lambda>snapshot. Option.bind (jget snapshot ''snapshot-id'') as_i64 = Some current_snapshot_id)))"

definition table_metadata_graph_summary :: "json \<Rightarrow> json" where
  "table_metadata_graph_summary metadata =
     jobj [(''current-schema-id'', jindex metadata ''current-schema-id''),
           (''fields'', JArr (metadata_current_schema_fields metadata)),
           (''current-snapshot-id'', jindex metadata ''current-snapshot-id''),
           (''current-snapshot'', jopt (\<lambda>v. v) (metadata_current_snapshot metadata))]"

text \<open>The fields of the events about a table as it was created or registered.\<close>

definition table_created_payload :: "string \<Rightarrow> TableIdent \<Rightarrow> json \<Rightarrow> TableRecord \<Rightarrow> json" where
  "table_created_payload event_type ident receipt table =
     jobj [(''event-type'', JStr event_type), (''table'', ident_json ident),
           (''authorization-receipt'', receipt),
           (''metadata-location'', jopt JStr (tr_metadata_location table)),
           (''location'', JStr (tr_location table)),
           (''format-version'', jopt JInt (handler_format_version (tr_metadata table))),
           (''metadata-graph'', table_metadata_graph_summary (tr_metadata table)),
           (''version'', ju64 (tr_version table))]"

subsection \<open>Creating a table\<close>

text \<open>\<open>timestamp_millis\<close>: a time stamp counts nanoseconds.\<close>

definition timestamp_millis :: "int \<Rightarrow> int" where
  "timestamp_millis now = now div 1000000"

definition generated_location :: "LakeCatState \<Rightarrow> TableIdent \<Rightarrow> string" where
  "generated_location L ident =
     (case lc_table_location_root L of
        None \<Rightarrow> ''file:///tmp/lakecat/'' @ ti_warehouse ident @ ''/'' @
                namespace_display (ti_namespace ident) @ ''/'' @ ti_name ident
      | Some root \<Rightarrow> root @ ''/'' @ namespace_display (ti_namespace ident) @ ''/'' @ ti_name ident)"

text \<open>Location, metadata location, metadata, and whether the metadata has to be written.\<close>

definition planned_table ::
  "LakeCatState \<Rightarrow> TableIdent \<Rightarrow> CreateTableRequest \<Rightarrow> string \<Rightarrow> int \<Rightarrow>
     (string \<times> string option \<times> json \<times> bool) result" where
  "planned_table L ident request table_uuid now =
     (if is_object (ct_metadata request) then
        and_then (ok_or (InvalidArgument ''create table requires a location when metadata is supplied'')
                   (ct_location request)) (\<lambda>location.
        Ok (location, ct_metadata_location request, ct_metadata request, False))
      else case ct_schema request of
        Some schema \<Rightarrow>
          (let location = (case ct_location request of Some l \<Rightarrow> l | None \<Rightarrow> generated_location L ident);
               metadata = initial_table_metadata (timestamp_millis now) table_uuid location schema
                 (ct_partition_spec request) (ct_write_order request)
                 (case ct_properties request of None \<Rightarrow> JNull | Some p \<Rightarrow> p)
           in Ok (location,
                  Some (trim_end_char (CHR ''/'') location @ ''/metadata/00000-'' @ table_uuid @ ''.metadata.json''),
                  metadata, True))
      | None \<Rightarrow> Err (InvalidArgument ''create table requires either a schema (standard createTable) or a metadata document''))"

definition write_initial_metadata ::
  "LakeCatState \<Rightarrow> TableRecord \<Rightarrow> PlannedMetadataWrite option world_op" where
  "write_initial_metadata L table =
     and_then_op (store_read (\<lambda>s. storage_profile_for_table (lc_env L) s table)) (\<lambda>profile.
     and_then_op (lift_result (ok_or (Internal ''generated table metadata must have a metadata location'')
                                (tr_metadata_location table))) (\<lambda>metadata_location.
     and_then_op (lift_result (validate_metadata_object_location (lc_env L) metadata_location None profile)) (\<lambda>_.
     and_then_op (object_call (write_metadata_object (lc_env L) (lc_objects L) metadata_location (tr_metadata table))) (\<lambda>write.
     lift_result (Ok (Some write))))))"

text \<open>A store call whose error first removes the object written for it.\<close>

definition or_clean_up ::
  "LakeCatState \<Rightarrow> PlannedMetadataWrite option \<Rightarrow> string option \<Rightarrow> 'a world_op \<Rightarrow> 'a world_op" where
  "or_clean_up L write previous_metadata_location f w =
     (case f w of
        (Inr a, w1) \<Rightarrow> (Inr a, w1)
      | (Inl err, w1) \<Rightarrow>
          (case cleanup_planned_metadata_after_commit_error (lc_env L) (lc_objects L) write
                  previous_metadata_location err (wd_objects w1) of
             (err', objects) \<Rightarrow> (Inl err', w1\<lparr>wd_objects := objects\<rparr>)))"

definition next_uuid :: "string world_op" where
  "next_uuid w = (Ok (wd_uuid w), w)"

definition create_table_in_warehouse ::
  "WarehouseName \<Rightarrow> LakeCatState \<Rightarrow> HeaderMap \<Rightarrow> string \<Rightarrow> CreateTableRequest \<Rightarrow> reply world_op" where
  "create_table_in_warehouse warehouse L headers namespace_text request =
     and_then_op (identify L headers) (\<lambda>claimed.
     and_then_op (lift_result (and_then (table_name_new (ct_name request)) (\<lambda>name.
                    rest_table_ident warehouse namespace_text name))) (\<lambda>ident0.
     and_then_op (store_read (\<lambda>s. authorize_table_create L s claimed ident0)) (\<lambda>cap.
     let p = principal_of cap; ident = cap_resource cap in
     and_then_op next_uuid (\<lambda>table_uuid.
     and_then_op (at_time (planned_table L ident request table_uuid)) (\<lambda>(location, metadata_location, metadata, persist).
     and_then_op (at_time (\<lambda>now. Ok
       ((table_record_new now ident location metadata_location metadata p)
          \<lparr>tr_staged := (case ct_stage_create request of None \<Rightarrow> False | Some b \<Rightarrow> b)\<rparr>))) (\<lambda>table0.
     and_then_op (if persist then write_initial_metadata L table0 else lift_result (Ok None)) (\<lambda>metadata_write.
     and_then_op (or_clean_up L metadata_write None (store_call (\<lambda>_. create_table table0))) (\<lambda>table.
     and_then_op (record_event L ''table.created'' (Some ident) p
       (table_created_payload ''table.created'' ident (receipt_of L cap) table)) (\<lambda>_.
     reply_ok (load_table_response table))))))))))"

definition handle_create_table ::
  "LakeCatState \<Rightarrow> HeaderMap \<Rightarrow> string \<Rightarrow> CreateTableRequest \<Rightarrow> reply world_op" where
  "handle_create_table L headers namespace_text request =
     create_table_in_warehouse (lc_warehouse L) L headers namespace_text request"

definition create_table_for_warehouse ::
  "LakeCatState \<Rightarrow> HeaderMap \<Rightarrow> string \<Rightarrow> string \<Rightarrow> CreateTableRequest \<Rightarrow> reply world_op" where
  "create_table_for_warehouse L headers warehouse namespace_text request =
     and_then_op (prefixed_catalog_warehouse L warehouse) (\<lambda>w.
     create_table_in_warehouse w L headers namespace_text request)"

subsection \<open>Registering a table\<close>

definition registered_table_location :: "json \<Rightarrow> string result" where
  "registered_table_location metadata =
     ok_or (InvalidArgument ''registered table metadata must contain a non-empty location'')
       (case Option.bind (jget metadata ''location'') as_str of
          None \<Rightarrow> None
        | Some location \<Rightarrow> if blank location then None else Some location)"

definition register_table_in_warehouse ::
  "WarehouseName \<Rightarrow> LakeCatState \<Rightarrow> HeaderMap \<Rightarrow> string \<Rightarrow> RegisterTableRequest \<Rightarrow> reply world_op" where
  "register_table_in_warehouse warehouse L headers namespace_text request =
     and_then_op (lift_result (and_then (table_name_new (rg_name request)) (\<lambda>name.
                    rest_table_ident warehouse namespace_text name))) (\<lambda>ident0.
     and_then_op (authorize_request L headers (\<lambda>L s claimed. authorize_table_register L s claimed ident0)) (\<lambda>cap.
     if rg_overwrite request then
       lift_result (Err (InvalidArgument ''register table does not permit overwrite=true''))
     else
     let p = principal_of cap; ident = cap_resource cap;
         metadata_location = rg_metadata_location request in
     and_then_op (store_read (\<lambda>s. load_namespace s (ti_warehouse ident) (ti_namespace ident))) (\<lambda>_.
     and_then_op (object_call (read_metadata_object (lc_env L) (lc_objects L) metadata_location)) (\<lambda>metadata.
     and_then_op (lift_result (registered_table_location metadata)) (\<lambda>location.
     and_then_op (at_time (\<lambda>now. Ok
       (table_record_new now ident location (Some metadata_location) metadata p))) (\<lambda>table0.
     and_then_op (lift_result (table_record_validate table0)) (\<lambda>_.
     and_then_op (store_read (\<lambda>s. storage_profile_for_table (lc_env L) s table0)) (\<lambda>profile.
     and_then_op (lift_result (validate_metadata_object_location (lc_env L) metadata_location None profile)) (\<lambda>_.
     and_then_op (store_call (\<lambda>_. create_table table0)) (\<lambda>table.
     and_then_op (record_event L ''table.registered'' (Some (tr_ident table)) p
       (table_created_payload ''table.registered'' (tr_ident table) (receipt_of L cap) table)) (\<lambda>_.
     reply_ok (load_table_response table))))))))))))"

definition handle_register_table ::
  "LakeCatState \<Rightarrow> HeaderMap \<Rightarrow> string \<Rightarrow> RegisterTableRequest \<Rightarrow> reply world_op" where
  "handle_register_table L headers namespace_text request =
     register_table_in_warehouse (lc_warehouse L) L headers namespace_text request"

definition register_table_for_warehouse ::
  "LakeCatState \<Rightarrow> HeaderMap \<Rightarrow> string \<Rightarrow> string \<Rightarrow> RegisterTableRequest \<Rightarrow> reply world_op" where
  "register_table_for_warehouse L headers warehouse namespace_text request =
     and_then_op (prefixed_catalog_warehouse L warehouse) (\<lambda>w.
     register_table_in_warehouse w L headers namespace_text request)"

subsection \<open>Renaming a table\<close>

definition table_identifier_in_warehouse :: "WarehouseName \<Rightarrow> TableIdentifier \<Rightarrow> TableIdent result" where
  "table_identifier_in_warehouse warehouse identifier =
     and_then (namespace_new (ai_namespace identifier)) (\<lambda>ns.
     and_then (table_name_new (ai_name identifier)) (\<lambda>name.
     Ok \<lparr>ti_warehouse = warehouse, ti_namespace = ns, ti_name = name\<rparr>))"

definition rename_table_in_warehouse ::
  "WarehouseName \<Rightarrow> LakeCatState \<Rightarrow> HeaderMap \<Rightarrow> RenameTableRequest \<Rightarrow> reply world_op" where
  "rename_table_in_warehouse warehouse L headers request =
     and_then_op (lift_result (table_identifier_in_warehouse warehouse (rn_source request))) (\<lambda>source.
     and_then_op (lift_result (table_identifier_in_warehouse warehouse (rn_destination request))) (\<lambda>destination.
     and_then_op (authorize_request L headers (\<lambda>L s claimed. authorize_table_rename L s claimed source destination)) (\<lambda>cap.
     and_then_op (store_call (\<lambda>now. rename_table (lc_env L) now (rt_source (cap_resource cap))
       (rt_destination (cap_resource cap)) (principal_of cap) (Some (receipt_of L cap)))) (\<lambda>_.
     no_content))))"

definition handle_rename_table :: "LakeCatState \<Rightarrow> HeaderMap \<Rightarrow> RenameTableRequest \<Rightarrow> reply world_op" where
  "handle_rename_table L headers request = rename_table_in_warehouse (lc_warehouse L) L headers request"

definition rename_table_for_warehouse ::
  "LakeCatState \<Rightarrow> HeaderMap \<Rightarrow> string \<Rightarrow> RenameTableRequest \<Rightarrow> reply world_op" where
  "rename_table_for_warehouse L headers warehouse request =
     and_then_op (prefixed_catalog_warehouse L warehouse) (\<lambda>w. rename_table_in_warehouse w L headers request)"

subsection \<open>Loading, dropping and restoring a table\<close>

definition load_table_in_warehouse ::
  "WarehouseName \<Rightarrow> LakeCatState \<Rightarrow> HeaderMap \<Rightarrow> string \<Rightarrow> string \<Rightarrow> reply world_op" where
  "load_table_in_warehouse warehouse L headers namespace_text table_text =
     and_then_op (identify L headers) (\<lambda>claimed.
     and_then_op (lift_result (rest_table_ident warehouse namespace_text table_text)) (\<lambda>ident0.
     and_then_op (store_read (\<lambda>s. authorize_table_load L s claimed ident0)) (\<lambda>cap.
     let ident = cap_resource cap in
     and_then_op (store_read (\<lambda>s. load_table s ident)) (\<lambda>table.
     and_then_op (record_event L ''table.loaded'' (Some ident) (principal_of cap)
       (jobj [(''event-type'', JStr ''table.loaded''), (''table'', ident_json ident),
              (''authorization-receipt'', receipt_of L cap),
              (''metadata-location'', jopt JStr (tr_metadata_location table)),
              (''format-version'', jopt JInt (handler_format_version (tr_metadata table))),
              (''metadata-graph'', table_metadata_graph_summary (tr_metadata table)),
              (''version'', ju64 (tr_version table))])) (\<lambda>_.
     reply_ok (load_table_response table))))))"

definition handle_load_table :: "LakeCatState \<Rightarrow> HeaderMap \<Rightarrow> string \<Rightarrow> string \<Rightarrow> reply world_op" where
  "handle_load_table L headers namespace_text table_text =
     load_table_in_warehouse (lc_warehouse L) L headers namespace_text table_text"

definition load_table_for_warehouse ::
  "LakeCatState \<Rightarrow> HeaderMap \<Rightarrow> string \<Rightarrow> string \<Rightarrow> string \<Rightarrow> reply world_op" where
  "load_table_for_warehouse L headers warehouse namespace_text table_text =
     and_then_op (prefixed_catalog_warehouse L warehouse) (\<lambda>w.
     load_table_in_warehouse w L headers namespace_text table_text)"

definition delete_table_in_warehouse ::
  "WarehouseName \<Rightarrow> LakeCatState \<Rightarrow> HeaderMap \<Rightarrow> string \<Rightarrow> string \<Rightarrow> reply world_op" where
  "delete_table_in_warehouse warehouse L headers namespace_text table_text =
     and_then_op (identify L headers) (\<lambda>claimed.
     and_then_op (lift_result (rest_table_ident warehouse namespace_text table_text)) (\<lambda>ident0.
     and_then_op (store_read (\<lambda>s. authorize_table_drop L s claimed ident0)) (\<lambda>cap.
     and_then_op (store_call (\<lambda>now. soft_delete_table (lc_env L) now (cap_resource cap) (principal_of cap)
       (Some (receipt_of L cap)))) (\<lambda>_.
     no_content))))"

definition handle_delete_table :: "LakeCatState \<Rightarrow> HeaderMap \<Rightarrow> string \<Rightarrow> string \<Rightarrow> reply world_op" where
  "handle_delete_table L headers namespace_text table_text =
     delete_table_in_warehouse (lc_warehouse L) L headers namespace_text table_text"

definition delete_table_for_warehouse ::
  "LakeCatState \<Rightarrow> HeaderMap \<Rightarrow> string \<Rightarrow> string \<Rightarrow> string \<Rightarrow> reply world_op" where
  "delete_table_for_warehouse L headers warehouse namespace_text table_text =
     and_then_op (prefixed_catalog_warehouse L warehouse) (\<lambda>w.
     delete_table_in_warehouse w L headers namespace_text table_text)"

definition handle_restore_table ::
  "LakeCatState \<Rightarrow> HeaderMap \<Rightarrow> string \<Rightarrow> string \<Rightarrow> string \<Rightarrow> reply world_op" where
  "handle_restore_table L headers warehouse_text namespace_text table_text =
     and_then_op (management_warehouse warehouse_text) (\<lambda>warehouse.
     and_then_op (identify L headers) (\<lambda>claimed.
     and_then_op (lift_result (rest_table_ident warehouse namespace_text table_text)) (\<lambda>ident0.
     and_then_op (store_read (\<lambda>s. authorize_table_restore L s claimed ident0)) (\<lambda>cap.
     and_then_op (store_call (\<lambda>now. restore_table (lc_env L) now (cap_resource cap) (principal_of cap)
       (Some (receipt_of L cap)))) (\<lambda>restored.
     reply_ok (load_table_response restored))))))"

subsection \<open>Listing the commits of a table\<close>

definition commits_listed_payload ::
  "LakeCatState \<Rightarrow> TableLoadCapability \<Rightarrow> TableCommitRecordResponse list \<Rightarrow> json" where
  "commits_listed_payload L cap commits =
     jobj [(''event-type'', JStr ''table.commits-listed''),
           warehouse_field (ti_warehouse (cap_resource cap)),
           namespace_field (ti_namespace (cap_resource cap)),
           (''table'', JStr (ti_name (cap_resource cap))),
           (''commit-count'', count_json (length commits)),
           (''commit-hashes'', jstrs (map cx_commit_hash commits)),
           (''sequence-numbers'', JArr (map (\<lambda>c. ju64 (cx_sequence_number c)) commits)),
           (''principal-subject'', JStr (pr_subject (principal_of cap))),
           (''principal-kind'', JStr (principal_kind_name (pr_kind (principal_of cap)))),
           (''authorization-receipt'', receipt_of L cap)]"

definition handle_list_table_commits ::
  "LakeCatState \<Rightarrow> HeaderMap \<Rightarrow> string \<Rightarrow> string \<Rightarrow> string \<Rightarrow> reply world_op" where
  "handle_list_table_commits L headers warehouse_text namespace_text table_text =
     and_then_op (management_warehouse warehouse_text) (\<lambda>warehouse.
     and_then_op (lift_result (rest_table_ident warehouse namespace_text table_text)) (\<lambda>ident0.
     and_then_op (authorize_request L headers (\<lambda>L s claimed. authorize_table_load L s claimed ident0)) (\<lambda>cap.
     and_then_op (store_read (\<lambda>s. load_table s (cap_resource cap))) (\<lambda>_.
     and_then_op (store_read (\<lambda>s. table_commit_records (lc_env L) s (cap_resource cap) 0 None)) (\<lambda>records.
     and_then_op (lift_result (traverse (table_commit_record_response (lc_env L)) records)) (\<lambda>commits.
     and_then_op (record_event L ''table.commits-listed'' (Some (cap_resource cap)) (principal_of cap)
       (commits_listed_payload L cap commits)) (\<lambda>_.
     reply_ok (jobj [(''commits'', JArr (map table_commit_record_response_json commits))]))))))))"

subsection \<open>Committing to a table\<close>

definition commit_table_response :: "TableRecord \<Rightarrow> json" where
  "commit_table_response table =
     jobj [(''metadata-location'', jopt JStr (tr_metadata_location table)), (''metadata'', tr_metadata table)]"

definition commit_request_hash_json :: "CommitTableRequest \<Rightarrow> json" where
  "commit_request_hash_json request =
     jobj [(''requirements'', JArr (cq_requirements request)), (''updates'', JArr (cq_updates request)),
           (''metadata-location'', jopt JStr (cq_metadata_location request)),
           (''metadata'', jopt (\<lambda>v. v) (cq_metadata request))]"

text \<open>The requirements as the engine gets them: a staged table already exists for the catalog.\<close>

definition is_assert_create :: "json \<Rightarrow> bool" where
  "is_assert_create requirement \<longleftrightarrow> Option.bind (jget requirement ''type'') as_str = Some ''assert-create''"

definition engine_requirements :: "TableRecord \<Rightarrow> CommitTableRequest \<Rightarrow> json list" where
  "engine_requirements current request =
     (if tr_staged current then filter (\<lambda>r. \<not> is_assert_create r) (cq_requirements request)
      else cq_requirements request)"

definition commit_preparation ::
  "TableCommitCapability \<Rightarrow> TableRecord \<Rightarrow> CommitTableRequest \<Rightarrow> CommitPreparationRequest" where
  "commit_preparation cap current request =
     \<lparr>pc_table = cap_resource cap, pc_principal = principal_of cap,
      pc_current_metadata_location = tr_metadata_location current,
      pc_new_metadata_location = cq_metadata_location request,
      pc_current_metadata = tr_metadata current, pc_new_metadata = cq_metadata request,
      pc_requirements = engine_requirements current request, pc_updates = cq_updates request\<rparr>"

definition planned_commit ::
  "LakeCatState \<Rightarrow> TableCommitCapability \<Rightarrow> TableRecord \<Rightarrow> CommitPlan \<Rightarrow> string option \<Rightarrow> string option \<Rightarrow>
     TableCommit" where
  "planned_commit L cap current plan idempotency_key request_hash =
     \<lparr>tc_requirements = cp_requirements plan, tc_updates = cp_updates plan,
      tc_expected_previous_metadata_location = tr_metadata_location current,
      tc_new_metadata_location = cp_new_metadata_location plan,
      tc_new_metadata = Some (cp_new_metadata plan), tc_idempotency_key = idempotency_key,
      tc_idempotency_request_hash = request_hash, tc_principal = principal_of cap,
      tc_authorization_receipt = Some (receipt_of L cap)\<rparr>"

text \<open>\<open>commit_table_with_snapshot\<close> is \<open>commit_table\<close> of the snapshot's table in this store.\<close>

definition commit_table_with_snapshot ::
  "env \<Rightarrow> int \<Rightarrow> TableCommitSnapshot \<Rightarrow> TableCommit \<Rightarrow> TableRecord store_op" where
  "commit_table_with_snapshot E now snapshot c = commit_table E now (cs_ident snapshot) c"

text \<open>The commit proper, after the lookup of an earlier response under the idempotency key.\<close>

definition commit_loaded_table ::
  "LakeCatState \<Rightarrow> TableCommitCapability \<Rightarrow> CommitTableRequest \<Rightarrow> string option \<Rightarrow> string option \<Rightarrow>
     reply world_op" where
  "commit_loaded_table L cap request idempotency_key request_hash =
     and_then_op (store_read (\<lambda>s. load_table s (cap_resource cap))) (\<lambda>current.
     and_then_op (store_read (\<lambda>s. storage_profile_for_table (lc_env L) s current)) (\<lambda>profile.
     and_then_op (lift_result (commit_snapshot_try_from_table current)) (\<lambda>snapshot.
     and_then_op (lift_result (se_prepare_commit (lc_sail L) (commit_preparation cap current request))) (\<lambda>plan.
     and_then_op (lift_result (validate_planned_metadata_location (lc_env L) plan
                    (tr_metadata_location current) profile)) (\<lambda>_.
     and_then_op (object_call (write_planned_metadata (lc_env L) (lc_objects L) plan)) (\<lambda>metadata_write.
     and_then_op (or_clean_up L metadata_write (tr_metadata_location current)
       (store_call (\<lambda>now. commit_table_with_snapshot (lc_env L) now snapshot
          (planned_commit L cap current plan idempotency_key request_hash)))) (\<lambda>table.
     reply_ok (commit_table_response table))))))))"

definition commit_table_in_warehouse ::
  "WarehouseName \<Rightarrow> LakeCatState \<Rightarrow> HeaderMap \<Rightarrow> string \<Rightarrow> string \<Rightarrow> CommitTableRequest \<Rightarrow> reply world_op" where
  "commit_table_in_warehouse warehouse L headers namespace_text table_text request =
     and_then_op (lift_result (request_idempotency_key headers)) (\<lambda>idempotency_key.
     and_then_op (identify L headers) (\<lambda>claimed.
     and_then_op (lift_result (rest_table_ident warehouse namespace_text table_text)) (\<lambda>ident0.
     and_then_op (store_read (\<lambda>s. authorize_table_commit L s claimed ident0)) (\<lambda>cap.
     and_then_op (lift_result (case idempotency_key of
                                 None \<Rightarrow> Ok None
                               | Some _ \<Rightarrow> map_ok Some (content_hash_json (lc_env L) (commit_request_hash_json request)))) (\<lambda>request_hash.
     and_then_op (case (idempotency_key, request_hash) of
                    (Some key, Some h) \<Rightarrow> store_read (\<lambda>s. replay_table_commit s (cap_resource cap) key h)
                  | _ \<Rightarrow> lift_result (Ok None)) (\<lambda>replayed.
     case replayed of
       Some table \<Rightarrow> reply_ok (commit_table_response table)
     | None \<Rightarrow> commit_loaded_table L cap request idempotency_key request_hash))))))"

definition handle_commit_table ::
  "LakeCatState \<Rightarrow> HeaderMap \<Rightarrow> string \<Rightarrow> string \<Rightarrow> CommitTableRequest \<Rightarrow> reply world_op" where
  "handle_commit_table L headers namespace_text table_text request =
     commit_table_in_warehouse (lc_warehouse L) L headers namespace_text table_text request"

definition commit_table_for_warehouse ::
  "LakeCatState \<Rightarrow> HeaderMap \<Rightarrow> string \<Rightarrow> string \<Rightarrow> string \<Rightarrow> CommitTableRequest \<Rightarrow> reply world_op" where
  "commit_table_for_warehouse L headers warehouse namespace_text table_text request =
     and_then_op (prefixed_catalog_warehouse L warehouse) (\<lambda>w.
     commit_table_in_warehouse w L headers namespace_text table_text request)"

subsection \<open>Vending credentials\<close>

definition governed_read_reason :: string where
  "governed_read_reason = ''fine-grained read restriction requires Sail-planned reads''"

definition credential_block_reason :: "json \<Rightarrow> ReadRestriction \<Rightarrow> string option" where
  "credential_block_reason receipt_context restriction =
     (case jget receipt_context ''lakecat:raw-credential-exception'' of
        Some exc \<Rightarrow>
          if jget exc ''allowed'' = Some (JBool False) then
            Some (case Option.bind (jget exc ''reason'') as_str of
                    None \<Rightarrow> governed_read_reason | Some reason \<Rightarrow> reason)
          else None
      | None \<Rightarrow> if requires_governed_read restriction then Some governed_read_reason else None)"

definition single_config_value :: "ConfigEntry list \<Rightarrow> string \<Rightarrow> string option" where
  "single_config_value config key =
     (case filter (\<lambda>entry. ce_key entry = key) config of [entry] \<Rightarrow> Some (ce_value entry) | _ \<Rightarrow> None)"

definition credential_evidence ::
  "env \<Rightarrow> StorageProfile \<Rightarrow> AuthorizationReceipt \<Rightarrow> StorageCredential \<Rightarrow> json result" where
  "credential_evidence E profile receipt credential =
     (let value = (\<lambda>key. jopt JStr (single_config_value (sc_config credential) key));
          non_lakecat_config = filter (\<lambda>entry. \<not> starts_with (to_ascii_lowercase (ce_key entry)) ''lakecat.'')
            (sc_config credential);
          non_lakecat_json = JArr (map config_entry_json non_lakecat_config) in
      and_then (content_hash_json E (jobj [(''credential-prefix'', JStr (sc_prefix credential))])) (\<lambda>prefix_hash.
      and_then (content_hash_json E non_lakecat_json) (\<lambda>config_hash.
      Ok (jobj [(''prefix-hash'', JStr prefix_hash),
                (''storage-profile-id'', value ''lakecat.storage-profile-id''),
                (''storage-provider'', value ''lakecat.storage-provider''),
                (''credential-mode'', value ''lakecat.credential-mode''),
                (''authorization-principal'', value ''lakecat.authorization-principal''),
                (''governed-read-required'', value ''lakecat.governed-read-required''),
                (''max-credential-ttl-seconds'', value ''lakecat.max-credential-ttl-seconds''),
                (''secret-ref-provider'', value ''lakecat.secret-ref-provider''),
                (''secret-ref-hash'', value ''lakecat.secret-ref-hash''),
                (''issuer-config-entry-count'', count_json (length non_lakecat_config)),
                (''issuer-config-hash'', JStr config_hash),
                (''catalog-profile-id'', JStr (sp_profile_id profile)),
                (''receipt-principal'', JStr (pr_subject (ar_principal receipt)))]))))"

definition credential_response_evidence ::
  "env \<Rightarrow> StorageCredential list \<Rightarrow> StorageProfile \<Rightarrow> AuthorizationReceipt \<Rightarrow> json result" where
  "credential_response_evidence E credentials profile receipt =
     map_ok JArr (traverse (credential_evidence E profile receipt) credentials)"

definition credentials_vend_audit_payload ::
  "env \<Rightarrow> TableIdent \<Rightarrow> TableRecord \<Rightarrow> StorageProfile \<Rightarrow> StorageCredential list \<Rightarrow>
     AuthorizationReceipt \<Rightarrow> json result" where
  "credentials_vend_audit_payload E ident table profile credentials receipt =
     and_then (content_hash_json E (jobj [(''location-prefix'', JStr (sp_location_prefix profile))])) (\<lambda>prefix_hash.
     and_then (credential_response_evidence E credentials profile receipt) (\<lambda>evidence.
     Ok (jobj
       ([(''event-type'', JStr ''credentials.vend-attempted''), (''table'', ident_json ident),
         (''authorization-receipt'', authorization_receipt_json E receipt),
         (''storage-location'', JStr (tr_location table)),
         (''storage-profile-id'', JStr (sp_profile_id profile)),
         (''storage-profile'', jobj
           ([(''profile-id'', JStr (sp_profile_id profile)), (''warehouse'', JStr (sp_warehouse profile)),
             (''provider'', JStr (storage_provider_as_str (sp_provider profile))),
             (''issuance-mode'', JStr (issuance_mode_as_str (sp_issuance_mode profile))),
             (''secret-ref-present'', JBool (sp_secret_ref profile \<noteq> None)),
             (''location-prefix-hash'', JStr prefix_hash)] @
            jskip ''secret-ref-provider'' JStr (Option.bind (sp_secret_ref profile) secret_ref_provider_label) @
            jskip ''secret-ref-hash'' (\<lambda>s. JStr (content_hash_bytes E s)) (sp_secret_ref profile))),
         (''secret-ref-present'', JBool (sp_secret_ref profile \<noteq> None)),
         (''credential-count'', count_json (length credentials)),
         (''credential-response-evidence'', evidence),
         (''mode'', JStr (issuance_mode_as_str (sp_issuance_mode profile)))] @
        jskip ''read-restriction'' (\<lambda>v. v) (jget (ar_context receipt) ''read-restriction'') @
        jskip ''lakecat:raw-credential-exception'' (\<lambda>v. v)
          (jget (ar_context receipt) ''lakecat:raw-credential-exception'')))))"

definition vended_credentials ::
  "LakeCatState \<Rightarrow> CredentialsVendCapability \<Rightarrow> TableRecord \<Rightarrow> StorageProfile \<Rightarrow> StorageCredential list result" where
  "vended_credentials L cap table profile =
     (let restriction = ts_restriction (cap_resource cap);
          ttl = rr_max_credential_ttl_seconds restriction in
      if credential_block_reason (ar_context (cap_receipt cap)) restriction \<noteq> None then Ok []
      else
        and_then (lc_credential_issuer L
          \<lparr>ci_table = table, ci_profile = profile, ci_authorization_receipt = cap_receipt cap,
           ci_max_credential_ttl_seconds = ttl\<rparr>) (\<lambda>issued.
        and_then (issued_credentials_for_profile (lc_env L) issued profile ttl) (\<lambda>credentials.
        Ok (canonicalize_credential_response_evidence (lc_env L) credentials profile (cap_receipt cap)
              (requires_governed_read restriction) ttl))))"

definition with_block_reason :: "string option \<Rightarrow> json \<Rightarrow> json result" where
  "with_block_reason reason payload =
     (case reason of
        None \<Rightarrow> Ok payload
      | Some r \<Rightarrow> index_assign payload ''lakecat:credential-block-reason'' (JStr r))"

definition load_credentials_in_warehouse ::
  "WarehouseName \<Rightarrow> LakeCatState \<Rightarrow> HeaderMap \<Rightarrow> string \<Rightarrow> string \<Rightarrow> reply world_op" where
  "load_credentials_in_warehouse warehouse L headers namespace_text table_text =
     and_then_op (identify L headers) (\<lambda>claimed.
     and_then_op (lift_result (rest_table_ident warehouse namespace_text table_text)) (\<lambda>ident0.
     and_then_op (store_read (\<lambda>s. authorize_credentials_vend L s claimed ident0)) (\<lambda>cap.
     let ident = ts_table (cap_resource cap) in
     and_then_op (store_read (\<lambda>s. load_table s ident)) (\<lambda>table.
     and_then_op (store_read (\<lambda>s. storage_profile_for_table (lc_env L) s table)) (\<lambda>profile.
     and_then_op (lift_result (vended_credentials L cap table profile)) (\<lambda>credentials.
     and_then_op (lift_result (and_then
         (credentials_vend_audit_payload (lc_env L) ident table profile credentials (cap_receipt cap))
         (with_block_reason (credential_block_reason (ar_context (cap_receipt cap))
            (ts_restriction (cap_resource cap)))))) (\<lambda>payload.
     and_then_op (record_event L ''credentials.vend-attempted'' (Some ident) (principal_of cap) payload) (\<lambda>_.
     reply_ok (jobj [(''storage-credentials'', JArr (map storage_credential_json credentials))])))))))))"

definition handle_load_credentials :: "LakeCatState \<Rightarrow> HeaderMap \<Rightarrow> string \<Rightarrow> string \<Rightarrow> reply world_op" where
  "handle_load_credentials L headers namespace_text table_text =
     load_credentials_in_warehouse (lc_warehouse L) L headers namespace_text table_text"

definition load_credentials_for_warehouse ::
  "LakeCatState \<Rightarrow> HeaderMap \<Rightarrow> string \<Rightarrow> string \<Rightarrow> string \<Rightarrow> reply world_op" where
  "load_credentials_for_warehouse L headers warehouse namespace_text table_text =
     and_then_op (prefixed_catalog_warehouse L warehouse) (\<lambda>w.
     load_credentials_in_warehouse w L headers namespace_text table_text)"

end
