(* ===== verification/QglakeBundle.thy ===== *)
theory QglakeBundle
  imports LakeCore "HOL-Library.Product_Lexorder"
begin

section \<open>QueryGraph bundles\<close>

text \<open>
  \<open>crates/qglake-bundle/src/lib.rs\<close>: the bundle handed to QueryGraph, the canonical JSON its hashes are
  taken over, and the verification of a bundle read back. The code serializes borrowed structs whose
  fields are declared in the order of their keys; an object of the model is sorted by key, so the two
  are the same document.
\<close>

subsection \<open>Projections\<close>

record QueryGraphPolicyBindingProjection =
  qb_policy_id :: string
  qb_enforced :: bool
  qb_namespace :: "string list option"
  qb_table :: "string option"
  qb_odrl :: json

record QueryGraphTableProjection =
  qt_ident :: TableIdent
  qt_stable_id :: string
  qt_location :: string
  qt_metadata_location :: "string option"
  qt_version :: "64 word"
  qt_format_version :: "int option"
  qt_croissant :: json
  qt_cdif :: json
  qt_osi :: json
  qt_odrl :: json
  qt_policy_bindings :: "QueryGraphPolicyBindingProjection list"

record QueryGraphViewProjection =
  qw_stable_id :: string
  qw_warehouse :: string
  qw_namespace :: "string list"
  qw_name :: string
  qw_view_version :: "64 word"
  qw_sql :: string
  qw_dialect :: string
  qw_schema_version :: "64 word option"
  qw_columns :: json
  qw_properties :: json
  qw_osi :: json

record QueryGraphNode =
  qn_id :: string
  qn_label :: string
  qn_properties :: json

record QueryGraphEdge =
  qe_from :: string
  qe_to :: string
  qe_label :: string

record QueryGraphCatalogGraph =
  qc_nodes :: "QueryGraphNode list"
  qc_edges :: "QueryGraphEdge list"

subsection \<open>The manifest\<close>

record QueryGraphViewReceiptEvidence =
  qv_stable_id :: string
  qv_view_version :: "64 word"
  qv_receipt_hash :: string
  qv_receipt_chain_hash :: string

record QueryGraphViewArtifactHashes =
  va_stable_id :: string
  va_osi_hash :: string

record QueryGraphTableArtifactHashes =
  ta_stable_id :: string
  ta_croissant_hash :: string
  ta_cdif_hash :: string
  ta_osi_hash :: string
  ta_odrl_hash :: string
  ta_policy_bindings_hash :: string

record QueryGraphImportCompatibility =
  qi_schema_version :: string
  qi_table_only_bundle_hash :: string
  qi_view_count :: nat
  qi_graph_hash :: string
  qi_view_receipt_evidence :: "QueryGraphViewReceiptEvidence list"
  qi_view_receipt_evidence_hash :: "string option"

record QueryGraphBundleManifest =
  qm_schema_version :: string
  qm_producer :: string
  qm_standards :: "string list"
  qm_table_artifacts :: "QueryGraphTableArtifactHashes list"
  qm_view_artifacts :: "QueryGraphViewArtifactHashes list"
  qm_graph_hash :: string
  qm_open_lineage_hash :: string
  qm_querygraph_import :: "QueryGraphImportCompatibility option"

record QueryGraphBootstrap =
  bo_warehouse :: WarehouseName
  bo_generated_at :: int
  bo_bundle_hash :: string
  bo_manifest :: QueryGraphBundleManifest
  bo_tables :: "QueryGraphTableProjection list"
  bo_views :: "QueryGraphViewProjection list"
  bo_graph :: QueryGraphCatalogGraph
  bo_open_lineage :: json

record QueryGraphBootstrapVerification =
  bv_warehouse :: string
  bv_table_count :: nat
  bv_view_count :: nat
  bv_verified_tables :: "string list"
  bv_verified_views :: "string list"
  bv_verified_view_versions :: "(string, 64 word) btree"
  bv_verified_view_receipt_hashes :: "(string, string) btree"
  bv_verified_view_receipt_chain_hashes :: "(string, string) btree"
  bv_bundle_hash :: string
  bv_graph_hash :: string
  bv_open_lineage_hash :: string
  bv_querygraph_import_hash :: string
  bv_standards :: "string list"

record QueryGraphTenantProjection =
  qp_server_id :: string
  qp_server_display_name :: "string option"
  qp_server_endpoint_url_hash :: "string option"
  qp_project_id :: string
  qp_project_display_name :: "string option"
  qp_warehouse :: "string option"
  qp_warehouse_project_id :: "string option"
  qp_warehouse_storage_root_hash :: "string option"
  qp_source :: string

definition tenant_projection_default :: QueryGraphTenantProjection where
  "tenant_projection_default =
     \<lparr>qp_server_id = ''default'', qp_server_display_name = None, qp_server_endpoint_url_hash = None,
      qp_project_id = ''default'', qp_project_display_name = None, qp_warehouse = None,
      qp_warehouse_project_id = None, qp_warehouse_storage_root_hash = None,
      qp_source = ''lakecat-querygraph-bootstrap''\<rparr>"

subsection \<open>Canonical JSON\<close>

definition edge_json :: "QueryGraphEdge \<Rightarrow> json" where
  "edge_json e =
     jobj [(''from'', JStr (qe_from e)), (''label'', JStr (qe_label e)), (''to'', JStr (qe_to e))]"

definition node_json :: "QueryGraphNode \<Rightarrow> json" where
  "node_json n =
     jobj [(''id'', JStr (qn_id n)), (''label'', JStr (qn_label n)), (''properties'', qn_properties n)]"

definition graph_json :: "QueryGraphCatalogGraph \<Rightarrow> json" where
  "graph_json g =
     jobj [(''edges'', JArr (map edge_json (qc_edges g))), (''nodes'', JArr (map node_json (qc_nodes g)))]"

definition policy_binding_projection_json :: "QueryGraphPolicyBindingProjection \<Rightarrow> json" where
  "policy_binding_projection_json b =
     jobj [(''enforced'', JBool (qb_enforced b)), (''namespace'', jopt jstrs (qb_namespace b)),
           (''odrl'', qb_odrl b), (''policy-id'', JStr (qb_policy_id b)),
           (''table'', jopt JStr (qb_table b))]"

definition policy_bindings_json :: "QueryGraphTableProjection \<Rightarrow> json" where
  "policy_bindings_json t = JArr (map policy_binding_projection_json (qt_policy_bindings t))"

text \<open>The fields of a table that the table-only import hashes too.\<close>

definition import_table_fields :: "QueryGraphTableProjection \<Rightarrow> (string \<times> json) list" where
  "import_table_fields t =
     [(''cdif'', qt_cdif t), (''croissant'', qt_croissant t),
      (''format-version'', jopt JInt (qt_format_version t)), (''ident'', ident_json (qt_ident t)),
      (''location'', JStr (qt_location t)), (''metadata-location'', jopt JStr (qt_metadata_location t)),
      (''odrl'', qt_odrl t), (''osi'', qt_osi t), (''stable-id'', JStr (qt_stable_id t)),
      (''version'', ju64 (qt_version t))]"

definition import_table_json :: "QueryGraphTableProjection \<Rightarrow> json" where
  "import_table_json t = jobj (import_table_fields t)"

definition table_projection_json :: "QueryGraphTableProjection \<Rightarrow> json" where
  "table_projection_json t = jobj (import_table_fields t @ [(''policy-bindings'', policy_bindings_json t)])"

definition view_projection_json :: "QueryGraphViewProjection \<Rightarrow> json" where
  "view_projection_json v =
     jobj [(''columns'', qw_columns v), (''dialect'', JStr (qw_dialect v)), (''name'', JStr (qw_name v)),
           (''namespace'', jstrs (qw_namespace v)), (''osi'', qw_osi v), (''properties'', qw_properties v),
           (''schema-version'', jopt ju64 (qw_schema_version v)), (''sql'', JStr (qw_sql v)),
           (''stable-id'', JStr (qw_stable_id v)), (''view-version'', ju64 (qw_view_version v)),
           (''warehouse'', JStr (qw_warehouse v))]"

definition view_receipt_evidence_json :: "QueryGraphViewReceiptEvidence \<Rightarrow> json" where
  "view_receipt_evidence_json e =
     jobj [(''receipt-chain-hash'', JStr (qv_receipt_chain_hash e)),
           (''receipt-hash'', JStr (qv_receipt_hash e)), (''stable-id'', JStr (qv_stable_id e)),
           (''view-version'', ju64 (qv_view_version e))]"

definition import_artifact_fields :: "QueryGraphTableArtifactHashes \<Rightarrow> (string \<times> json) list" where
  "import_artifact_fields a =
     [(''cdif-hash'', JStr (ta_cdif_hash a)), (''croissant-hash'', JStr (ta_croissant_hash a)),
      (''odrl-hash'', JStr (ta_odrl_hash a)), (''osi-hash'', JStr (ta_osi_hash a)),
      (''stable-id'', JStr (ta_stable_id a))]"

definition import_artifact_json :: "QueryGraphTableArtifactHashes \<Rightarrow> json" where
  "import_artifact_json a = jobj (import_artifact_fields a)"

definition table_artifact_json :: "QueryGraphTableArtifactHashes \<Rightarrow> json" where
  "table_artifact_json a =
     jobj (import_artifact_fields a @ [(''policy-bindings-hash'', JStr (ta_policy_bindings_hash a))])"

definition view_artifact_json :: "QueryGraphViewArtifactHashes \<Rightarrow> json" where
  "view_artifact_json a = jobj [(''osi-hash'', JStr (va_osi_hash a)), (''stable-id'', JStr (va_stable_id a))]"

definition querygraph_import_json :: "QueryGraphImportCompatibility \<Rightarrow> json" where
  "querygraph_import_json i =
     jobj ([(''graph-hash'', JStr (qi_graph_hash i)), (''schema-version'', JStr (qi_schema_version i)),
            (''table-only-bundle-hash'', JStr (qi_table_only_bundle_hash i)),
            (''view-count'', JInt (int (qi_view_count i)))] @
           (if qi_view_receipt_evidence i = [] then []
            else [(''view-receipt-evidence'', JArr (map view_receipt_evidence_json (qi_view_receipt_evidence i)))]) @
           jskip ''view-receipt-evidence-hash'' JStr (qi_view_receipt_evidence_hash i))"

definition manifest_json :: "QueryGraphBundleManifest \<Rightarrow> json" where
  "manifest_json m =
     jobj ([(''graph-hash'', JStr (qm_graph_hash m)), (''open-lineage-hash'', JStr (qm_open_lineage_hash m)),
            (''producer'', JStr (qm_producer m))] @
           jskip ''querygraph-import'' querygraph_import_json (qm_querygraph_import m) @
           [(''schema-version'', JStr (qm_schema_version m)), (''standards'', jstrs (qm_standards m)),
            (''table-artifacts'', JArr (map table_artifact_json (qm_table_artifacts m))),
            (''view-artifacts'', JArr (map view_artifact_json (qm_view_artifacts m)))])"

definition bundle_json ::
  "WarehouseName \<Rightarrow> QueryGraphBundleManifest \<Rightarrow> QueryGraphTableProjection list \<Rightarrow>
   QueryGraphViewProjection list \<Rightarrow> QueryGraphCatalogGraph \<Rightarrow> json \<Rightarrow> json" where
  "bundle_json warehouse manifest tables views graph open_lineage =
     jobj [(''graph'', graph_json graph), (''manifest'', manifest_json manifest),
           (''openLineage'', open_lineage), (''tables'', JArr (map table_projection_json tables)),
           (''views'', JArr (map view_projection_json views)), (''warehouse'', JStr warehouse)]"

definition import_manifest_json :: "QueryGraphBundleManifest \<Rightarrow> json" where
  "import_manifest_json m =
     jobj [(''open-lineage-hash'', JStr (qm_open_lineage_hash m)), (''producer'', JStr (qm_producer m)),
           (''schema-version'', JStr (qm_schema_version m)), (''standards'', jstrs (qm_standards m)),
           (''table-artifacts'', JArr (map import_artifact_json (qm_table_artifacts m)))]"

definition import_json ::
  "WarehouseName \<Rightarrow> QueryGraphBundleManifest \<Rightarrow> QueryGraphTableProjection list \<Rightarrow>
   QueryGraphCatalogGraph \<Rightarrow> json \<Rightarrow> json" where
  "import_json warehouse manifest tables graph open_lineage =
     jobj [(''graph'', graph_json graph), (''manifest'', import_manifest_json manifest),
           (''openLineage'', open_lineage), (''tables'', JArr (map import_table_json tables)),
           (''warehouse'', JStr warehouse)]"

subsection \<open>Hashes\<close>

definition querygraph_bundle_hash ::
  "env \<Rightarrow> WarehouseName \<Rightarrow> QueryGraphBundleManifest \<Rightarrow> QueryGraphTableProjection list \<Rightarrow>
   QueryGraphViewProjection list \<Rightarrow> QueryGraphCatalogGraph \<Rightarrow> json \<Rightarrow> string result" where
  "querygraph_bundle_hash E warehouse manifest tables views graph open_lineage =
     content_hash_json E (bundle_json warehouse manifest tables views graph open_lineage)"

definition table_only_querygraph_import_hash ::
  "env \<Rightarrow> WarehouseName \<Rightarrow> QueryGraphBundleManifest \<Rightarrow> QueryGraphTableProjection list \<Rightarrow>
   QueryGraphCatalogGraph \<Rightarrow> json \<Rightarrow> string result" where
  "table_only_querygraph_import_hash E warehouse manifest tables graph open_lineage =
     content_hash_json E (import_json warehouse manifest tables graph open_lineage)"

definition graph_hash :: "env \<Rightarrow> QueryGraphCatalogGraph \<Rightarrow> string result" where
  "graph_hash E graph = content_hash_json E (graph_json graph)"

definition policy_bindings_hash :: "env \<Rightarrow> QueryGraphTableProjection \<Rightarrow> string result" where
  "policy_bindings_hash E table = content_hash_json E (policy_bindings_json table)"

definition view_receipt_evidence_hash :: "env \<Rightarrow> QueryGraphViewReceiptEvidence list \<Rightarrow> string result" where
  "view_receipt_evidence_hash E evidence = content_hash_json E (JArr (map view_receipt_evidence_json evidence))"

text \<open>\<open>unwrap_or_else\<close> over a hash that may fail to encode.\<close>

definition hash_or_bytes :: "env \<Rightarrow> json \<Rightarrow> string \<Rightarrow> string" where
  "hash_or_bytes E v bs = (case content_hash_json E v of Inl _ \<Rightarrow> content_hash_bytes E bs | Inr h \<Rightarrow> h)"

definition server_endpoint_url_hash :: "env \<Rightarrow> string \<Rightarrow> string" where
  "server_endpoint_url_hash E endpoint_url =
     hash_or_bytes E (jobj [(''endpoint-url'', JStr endpoint_url)]) endpoint_url"

definition warehouse_storage_root_hash :: "env \<Rightarrow> string \<Rightarrow> string" where
  "warehouse_storage_root_hash E storage_root =
     hash_or_bytes E (jobj [(''storage-root'', JStr storage_root)]) storage_root"

definition verify_hash :: "env \<Rightarrow> string \<Rightarrow> string \<Rightarrow> json \<Rightarrow> unit result" where
  "verify_hash E label expected v =
     and_then (content_hash_json E v) (\<lambda>computed.
       if expected \<noteq> computed then
         Err (InvalidArgument (''QueryGraph bootstrap '' @ label @ '' hash mismatch: manifest '' @ expected @
           '', computed '' @ computed))
       else Ok ())"

definition view_artifact_from_view :: "env \<Rightarrow> QueryGraphViewProjection \<Rightarrow> QueryGraphViewArtifactHashes result" where
  "view_artifact_from_view E view =
     and_then (content_hash_json E (qw_osi view)) (\<lambda>osi.
     Ok \<lparr>va_stable_id = qw_stable_id view, va_osi_hash = osi\<rparr>)"

definition view_artifact_verify ::
  "env \<Rightarrow> QueryGraphViewArtifactHashes \<Rightarrow> QueryGraphViewProjection \<Rightarrow> unit result" where
  "view_artifact_verify E a view = verify_hash E ''view OSI'' (va_osi_hash a) (qw_osi view)"

definition table_artifact_from_table :: "env \<Rightarrow> QueryGraphTableProjection \<Rightarrow> QueryGraphTableArtifactHashes result" where
  "table_artifact_from_table E table =
     and_then (content_hash_json E (qt_croissant table)) (\<lambda>croissant.
     and_then (content_hash_json E (qt_cdif table)) (\<lambda>cdif.
     and_then (content_hash_json E (qt_osi table)) (\<lambda>osi.
     and_then (content_hash_json E (qt_odrl table)) (\<lambda>odrl.
     and_then (policy_bindings_hash E table) (\<lambda>bindings.
     Ok \<lparr>ta_stable_id = qt_stable_id table, ta_croissant_hash = croissant, ta_cdif_hash = cdif,
         ta_osi_hash = osi, ta_odrl_hash = odrl, ta_policy_bindings_hash = bindings\<rparr>)))))"

definition table_artifact_verify ::
  "env \<Rightarrow> QueryGraphTableArtifactHashes \<Rightarrow> QueryGraphTableProjection \<Rightarrow> unit result" where
  "table_artifact_verify E a table =
     and_then (verify_hash E ''Croissant'' (ta_croissant_hash a) (qt_croissant table)) (\<lambda>_.
     and_then (verify_hash E ''CDIF'' (ta_cdif_hash a) (qt_cdif table)) (\<lambda>_.
     and_then (verify_hash E ''OSI'' (ta_osi_hash a) (qt_osi table)) (\<lambda>_.
     and_then (verify_hash E ''ODRL'' (ta_odrl_hash a) (qt_odrl table)) (\<lambda>_.
     verify_hash E ''policy bindings'' (ta_policy_bindings_hash a) (policy_bindings_json table)))))"

subsection \<open>Building a manifest\<close>

definition querygraph_bootstrap_standards :: "string list" where
  "querygraph_bootstrap_standards =
     [''Iceberg REST'', ''Croissant'', ''CDIF'', ''OSI handoff'', ''ODRL'', ''Grust catalog graph'', ''OpenLineage'']"

definition bootstrap_schema_version :: string where
  "bootstrap_schema_version = ''lakecat.querygraph.bootstrap.v1''"

definition manifest_from_hashes ::
  "env \<Rightarrow> QueryGraphTableArtifactHashes list \<Rightarrow> QueryGraphViewArtifactHashes list \<Rightarrow> string \<Rightarrow> json \<Rightarrow>
   QueryGraphBundleManifest result" where
  "manifest_from_hashes E table_artifacts view_artifacts graph open_lineage =
     and_then (content_hash_json E open_lineage) (\<lambda>lineage.
     Ok \<lparr>qm_schema_version = bootstrap_schema_version, qm_producer = ''https://querygraph.ai/lakecat'',
         qm_standards = querygraph_bootstrap_standards, qm_table_artifacts = table_artifacts,
         qm_view_artifacts = view_artifacts, qm_graph_hash = graph, qm_open_lineage_hash = lineage,
         qm_querygraph_import = None\<rparr>)"

definition import_from_table_only_bundle ::
  "env \<Rightarrow> WarehouseName \<Rightarrow> QueryGraphBundleManifest \<Rightarrow> QueryGraphTableProjection list \<Rightarrow>
   QueryGraphCatalogGraph \<Rightarrow> json \<Rightarrow> nat \<Rightarrow> QueryGraphImportCompatibility result" where
  "import_from_table_only_bundle E warehouse manifest tables graph open_lineage view_count =
     and_then (table_only_querygraph_import_hash E warehouse manifest tables graph open_lineage) (\<lambda>hash.
     Ok \<lparr>qi_schema_version = ''lakecat.querygraph.import-compat.v1'', qi_table_only_bundle_hash = hash,
         qi_view_count = view_count, qi_graph_hash = qm_graph_hash manifest,
         qi_view_receipt_evidence = [], qi_view_receipt_evidence_hash = None\<rparr>)"

subsection \<open>Evidence of the receipts of the views\<close>

definition evidence_refused :: "string \<Rightarrow> 'a result" where
  "evidence_refused message =
     Err (InvalidArgument (''QueryGraph bootstrap import contract '' @ message))"

text \<open>The check of one view against the evidence indexed by stable id.\<close>

definition check_view_evidence ::
  "QueryGraphViewReceiptEvidence list \<Rightarrow> QueryGraphViewProjection \<Rightarrow> unit result" where
  "check_view_evidence evidence view =
     (case map_of (map (\<lambda>e. (qv_stable_id e, e)) evidence) (qw_stable_id view) of
        None \<Rightarrow> evidence_refused (''is missing view receipt evidence for '' @ qw_stable_id view)
      | Some record \<Rightarrow>
          if qv_view_version record \<noteq> qw_view_version view then
            evidence_refused (''view receipt evidence for '' @ qw_stable_id view @ '' has version '' @
              nat_str (unat (qv_view_version record)) @ '', expected '' @ nat_str (unat (qw_view_version view)))
          else if qv_receipt_hash record = [] then
            evidence_refused (''view receipt evidence for '' @ qw_stable_id view @ '' is missing a receipt hash'')
          else if qv_receipt_chain_hash record = [] then
            evidence_refused (''view receipt evidence for '' @ qw_stable_id view @
              '' is missing a receipt-chain hash'')
          else Ok ())"

definition validate_view_receipt_evidence ::
  "QueryGraphViewProjection list \<Rightarrow> QueryGraphViewReceiptEvidence list \<Rightarrow> unit result" where
  "validate_view_receipt_evidence views evidence =
     (if views = [] then
        (if evidence = [] then Ok ()
         else evidence_refused ''carries view receipt evidence for a bundle without views'')
      else if length evidence \<noteq> length views then
        evidence_refused (''lists '' @ nat_str (length evidence) @ '' view receipt evidence record(s) for '' @
          nat_str (length views) @ '' view artifact(s)'')
      else
        case first_duplicate [] (map qv_stable_id evidence) of
          Some stable_id \<Rightarrow>
            evidence_refused (''view receipt evidence must be duplicate-free by stable id: '' @ stable_id)
        | None \<Rightarrow> check_all (check_view_evidence evidence) views)"

definition import_contract_missing :: "'a result" where
  "import_contract_missing =
     Err (InvalidArgument ''QueryGraph bootstrap manifest is missing querygraph-import compatibility contract'')"

definition attach_view_receipt_evidence ::
  "env \<Rightarrow> QueryGraphBundleManifest \<Rightarrow> QueryGraphViewProjection list \<Rightarrow> QueryGraphViewReceiptEvidence list \<Rightarrow>
   QueryGraphBundleManifest result" where
  "attach_view_receipt_evidence E manifest views evidence =
     and_then (validate_view_receipt_evidence views evidence) (\<lambda>_.
     and_then (if evidence = [] then Ok None
               else and_then (view_receipt_evidence_hash E evidence) (\<lambda>h. Ok (Some h))) (\<lambda>evidence_hash.
     case qm_querygraph_import manifest of
       None \<Rightarrow> import_contract_missing
     | Some contract \<Rightarrow>
         Ok (manifest\<lparr>qm_querygraph_import := Some (contract\<lparr>qi_view_receipt_evidence := evidence,
                qi_view_receipt_evidence_hash := evidence_hash\<rparr>)\<rparr>)))"

subsection \<open>Bundles\<close>

definition computed_bundle_hash :: "env \<Rightarrow> QueryGraphBootstrap \<Rightarrow> string result" where
  "computed_bundle_hash E b =
     querygraph_bundle_hash E (bo_warehouse b) (bo_manifest b) (bo_tables b) (bo_views b) (bo_graph b)
       (bo_open_lineage b)"

definition with_view_receipt_evidence ::
  "env \<Rightarrow> QueryGraphBootstrap \<Rightarrow> QueryGraphViewReceiptEvidence list \<Rightarrow> QueryGraphBootstrap result" where
  "with_view_receipt_evidence E b evidence =
     and_then (attach_view_receipt_evidence E (bo_manifest b) (bo_views b) evidence) (\<lambda>manifest.
     let b' = b\<lparr>bo_manifest := manifest\<rparr> in
     and_then (computed_bundle_hash E b') (\<lambda>hash. Ok (b'\<lparr>bo_bundle_hash := hash\<rparr>)))"

definition verification_summary ::
  "QueryGraphBootstrap \<Rightarrow> QueryGraphImportCompatibility \<Rightarrow> QueryGraphBootstrapVerification" where
  "verification_summary b contract =
     (let evidence = qi_view_receipt_evidence contract in
      \<lparr>bv_warehouse = bo_warehouse b, bv_table_count = length (bo_tables b),
       bv_view_count = length (bo_views b), bv_verified_tables = map qt_stable_id (bo_tables b),
       bv_verified_views = map qw_stable_id (bo_views b),
       bv_verified_view_versions = bt_from (map (\<lambda>v. (qw_stable_id v, qw_view_version v)) (bo_views b)),
       bv_verified_view_receipt_hashes = bt_from (map (\<lambda>e. (qv_stable_id e, qv_receipt_hash e)) evidence),
       bv_verified_view_receipt_chain_hashes =
         bt_from (map (\<lambda>e. (qv_stable_id e, qv_receipt_chain_hash e)) evidence),
       bv_bundle_hash = bo_bundle_hash b, bv_graph_hash = qm_graph_hash (bo_manifest b),
       bv_open_lineage_hash = qm_open_lineage_hash (bo_manifest b),
       bv_querygraph_import_hash = qi_table_only_bundle_hash contract,
       bv_standards = qm_standards (bo_manifest b)\<rparr>)"

definition construction_summary :: "QueryGraphBootstrap \<Rightarrow> QueryGraphBootstrapVerification result" where
  "construction_summary b =
     (case qm_querygraph_import (bo_manifest b) of
        None \<Rightarrow> import_contract_missing
      | Some contract \<Rightarrow> Ok (verification_summary b contract))"

subsection \<open>Verifying a bundle\<close>

definition validate_duplicate_free_stable_ids :: "string \<Rightarrow> string list \<Rightarrow> unit result" where
  "validate_duplicate_free_stable_ids label ids =
     (case first_duplicate [] ids of
        None \<Rightarrow> Ok ()
      | Some i \<Rightarrow> Err (InvalidArgument (label @ '' must be duplicate-free by stable id: '' @ i)))"

definition index_duplicate_free_stable_ids ::
  "string \<Rightarrow> (string \<times> 'a) list \<Rightarrow> (string \<Rightarrow> 'a option) result" where
  "index_duplicate_free_stable_ids label entries =
     and_then (validate_duplicate_free_stable_ids label (map fst entries)) (\<lambda>_. Ok (map_of entries))"

text \<open>Two hashes that a message names as the one of the manifest and the computed one.\<close>

definition hash_mismatch :: "string \<Rightarrow> string \<Rightarrow> string \<Rightarrow> 'a result" where
  "hash_mismatch what stored computed =
     Err (InvalidArgument (''QueryGraph bootstrap '' @ what @ '' hash mismatch: manifest '' @ stored @
       '', computed '' @ computed))"

text \<open>
  The debug form of an optional string, for the ASCII text a hash is made of: quotes, backslashes and
  control characters are escaped.
\<close>

definition debug_char :: "char \<Rightarrow> string" where
  "debug_char c =
     (if c = CHR 0x22 then [CHR 0x5C, CHR 0x22]
      else if c = CHR 0x5C then [CHR 0x5C, CHR 0x5C]
      else if c = CHR 0x0A then [CHR 0x5C, CHR ''n'']
      else if c = CHR 0x0D then [CHR 0x5C, CHR ''r'']
      else if c = CHR 0x09 then [CHR 0x5C, CHR ''t'']
      else [c])"

definition debug_opt_str :: "string option \<Rightarrow> string" where
  "debug_opt_str s =
     (case s of None \<Rightarrow> ''None''
      | Some t \<Rightarrow> ''Some('' @ [CHR 0x22] @ concat (map debug_char t) @ [CHR 0x22] @ '')'')"

definition verify_import_evidence :: "env \<Rightarrow> QueryGraphImportCompatibility \<Rightarrow> unit result" where
  "verify_import_evidence E contract =
     (if qi_view_receipt_evidence contract = [] then
        (if qi_view_receipt_evidence_hash contract \<noteq> None then
           evidence_refused ''has a receipt evidence hash without receipt evidence''
         else Ok ())
      else
        and_then (view_receipt_evidence_hash E (qi_view_receipt_evidence contract)) (\<lambda>hash.
          if qi_view_receipt_evidence_hash contract \<noteq> Some hash then
            hash_mismatch ''import receipt evidence''
              (debug_opt_str (qi_view_receipt_evidence_hash contract)) hash
          else Ok ()))"

definition verify_counts :: "QueryGraphBootstrap \<Rightarrow> unit result" where
  "verify_counts b =
     (let manifest = bo_manifest b; lists = (\<lambda>n what m of_what.
            Err (InvalidArgument (''QueryGraph bootstrap manifest lists '' @ nat_str n @ what @
              nat_str m @ of_what))) in
      if qm_schema_version manifest \<noteq> bootstrap_schema_version then
        Err (InvalidArgument (''unsupported QueryGraph bootstrap manifest schema '' @ qm_schema_version manifest))
      else if length (qm_table_artifacts manifest) \<noteq> length (bo_tables b) then
        lists (length (qm_table_artifacts manifest)) '' table artifacts for '' (length (bo_tables b)) '' tables''
      else if length (qm_view_artifacts manifest) \<noteq> length (bo_views b) then
        lists (length (qm_view_artifacts manifest)) '' view artifacts for '' (length (bo_views b)) '' views''
      else Ok ())"

definition verify_table_artifact ::
  "env \<Rightarrow> (string \<Rightarrow> QueryGraphTableArtifactHashes option) \<Rightarrow> QueryGraphTableProjection \<Rightarrow> unit result" where
  "verify_table_artifact E artifacts table =
     (case artifacts (qt_stable_id table) of
        None \<Rightarrow> Err (InvalidArgument (''QueryGraph bootstrap manifest is missing table '' @ qt_stable_id table))
      | Some expected \<Rightarrow> table_artifact_verify E expected table)"

definition verify_view_artifact ::
  "env \<Rightarrow> (string \<Rightarrow> QueryGraphViewArtifactHashes option) \<Rightarrow> QueryGraphViewProjection \<Rightarrow> unit result" where
  "verify_view_artifact E artifacts view =
     (case artifacts (qw_stable_id view) of
        None \<Rightarrow> Err (InvalidArgument (''QueryGraph bootstrap manifest is missing view '' @ qw_stable_id view))
      | Some expected \<Rightarrow> view_artifact_verify E expected view)"

definition verify_import_contract :: "env \<Rightarrow> QueryGraphBootstrap \<Rightarrow> QueryGraphImportCompatibility \<Rightarrow> unit result" where
  "verify_import_contract E b contract =
     and_then (table_only_querygraph_import_hash E (bo_warehouse b) (bo_manifest b) (bo_tables b) (bo_graph b)
         (bo_open_lineage b)) (\<lambda>import_hash.
     if qi_table_only_bundle_hash contract \<noteq> import_hash then
       hash_mismatch ''import'' (qi_table_only_bundle_hash contract) import_hash
     else if qi_view_count contract \<noteq> length (bo_views b) then
       evidence_refused (''view count '' @ nat_str (qi_view_count contract) @
         '' does not match bundle views '' @ nat_str (length (bo_views b)))
     else if qi_graph_hash contract \<noteq> qm_graph_hash (bo_manifest b) then
       evidence_refused (''graph hash '' @ qi_graph_hash contract @ '' does not match manifest '' @
         qm_graph_hash (bo_manifest b))
     else
       and_then (validate_view_receipt_evidence (bo_views b) (qi_view_receipt_evidence contract)) (\<lambda>_.
       verify_import_evidence E contract))"

definition verify_manifest :: "env \<Rightarrow> QueryGraphBootstrap \<Rightarrow> QueryGraphBootstrapVerification result" where
  "verify_manifest E b =
     (let manifest = bo_manifest b in
      and_then (verify_counts b) (\<lambda>_.
      and_then (validate_duplicate_free_stable_ids ''QueryGraph bootstrap table projections''
          (map qt_stable_id (bo_tables b))) (\<lambda>_.
      and_then (validate_duplicate_free_stable_ids ''QueryGraph bootstrap view projections''
          (map qw_stable_id (bo_views b))) (\<lambda>_.
      and_then (index_duplicate_free_stable_ids ''QueryGraph bootstrap table artifacts''
          (map (\<lambda>a. (ta_stable_id a, a)) (qm_table_artifacts manifest))) (\<lambda>table_artifacts.
      and_then (index_duplicate_free_stable_ids ''QueryGraph bootstrap view artifacts''
          (map (\<lambda>a. (va_stable_id a, a)) (qm_view_artifacts manifest))) (\<lambda>view_artifacts.
      and_then (content_hash_json E (bo_open_lineage b)) (\<lambda>lineage.
      if qm_open_lineage_hash manifest \<noteq> lineage then
        hash_mismatch ''OpenLineage'' (qm_open_lineage_hash manifest) lineage
      else
      and_then (graph_hash E (bo_graph b)) (\<lambda>graph.
      if qm_graph_hash manifest \<noteq> graph then hash_mismatch ''graph'' (qm_graph_hash manifest) graph
      else
      and_then (check_all (verify_table_artifact E table_artifacts) (bo_tables b)) (\<lambda>_.
      and_then (check_all (verify_view_artifact E view_artifacts) (bo_views b)) (\<lambda>_.
      case qm_querygraph_import manifest of
        None \<Rightarrow> import_contract_missing
      | Some contract \<Rightarrow>
          and_then (verify_import_contract E b contract) (\<lambda>_.
          and_then (computed_bundle_hash E b) (\<lambda>hash.
          if bo_bundle_hash b \<noteq> hash then hash_mismatch ''bundle'' (bo_bundle_hash b) hash
          else Ok (verification_summary b contract)))))))))))))"

end
