(* ===== verification/QueryGraph.thy ===== *)
theory QueryGraph
  imports QglakeBundle SailEngine ViewRecords
begin

section \<open>Building a QueryGraph bundle\<close>

text \<open>
  \<open>crates/lakecat-querygraph/src/lib.rs\<close>: the semantic documents of tables and views, the catalog graph
  over them, the OpenLineage document of a bootstrap, and the bundle with its manifest. Sorted maps and
  sets of the code are the sorted association lists of the model; an edge is the key of a set entry.
\<close>

subsection \<open>Fields of a table\<close>

record IcebergFieldProjection =
  if_id :: "int option"
  if_name :: string
  if_data_type :: string
  if_required :: bool
  if_description :: string
  if_semantic_type :: "string option"

definition str_at :: "json \<Rightarrow> string \<Rightarrow> string option" where
  "str_at v key = Option.bind (jget v key) as_str"

definition field_type :: "json \<Rightarrow> string" where
  "field_type v =
     (case v of
        JStr s \<Rightarrow> s
      | JObj m \<Rightarrow> (case str_at v ''type'' of Some t \<Rightarrow> t | None \<Rightarrow> ''struct'')
      | _ \<Rightarrow> ''unknown'')"

text \<open>The first of two keys that is present.\<close>

definition first_key :: "json \<Rightarrow> string \<Rightarrow> string \<Rightarrow> json option" where
  "first_key v a b = (case jget v a of Some x \<Rightarrow> Some x | None \<Rightarrow> jget v b)"

definition iceberg_field :: "json \<Rightarrow> IcebergFieldProjection" where
  "iceberg_field field =
     (let name = (case str_at field ''name'' of Some n \<Rightarrow> n | None \<Rightarrow> ''field'') in
      \<lparr>if_id = Option.bind (jget field ''id'') as_i64,
       if_name = name,
       if_data_type = field_type (jindex field ''type''),
       if_required = (jget field ''required'' = Some (JBool True)),
       if_description = (case Option.bind (first_key field ''doc'' ''description'') as_str of
                           Some d \<Rightarrow> d | None \<Rightarrow> ''Iceberg field '' @ name @ ''.''),
       if_semantic_type = Option.bind (first_key field ''semantic-type'' ''semanticType'') as_str\<rparr>)"

definition current_schema :: "json \<Rightarrow> json option" where
  "current_schema metadata =
     Option.bind (Option.bind (jget metadata ''current-schema-id'') as_i64) (\<lambda>current.
     Option.bind (Option.bind (jget metadata ''schemas'') as_array)
       (find (\<lambda>schema. Option.bind (jget schema ''schema-id'') as_i64 = Some current)))"

definition iceberg_fields :: "json \<Rightarrow> IcebergFieldProjection list" where
  "iceberg_fields metadata =
     (let schema = (case current_schema metadata of Some s \<Rightarrow> s | None \<Rightarrow> jindex metadata ''schema'') in
      case Option.bind (jget schema ''fields'') as_array of None \<Rightarrow> [] | Some members \<Rightarrow> map iceberg_field members)"

text \<open>
  A character outside ASCII is one underscore: the bytes of its UTF-8 form after the first are dropped.
\<close>

definition is_continuation_byte :: "char \<Rightarrow> bool" where
  "is_continuation_byte c \<longleftrightarrow> 128 \<le> byte c \<and> byte c < 192"

definition safe_sql_name :: "string \<Rightarrow> string" where
  "safe_sql_name value =
     (let out = map (\<lambda>c. if is_ascii_alphanumeric c then to_ascii_lower c else CHR ''_'')
                  (filter (\<lambda>c. \<not> is_continuation_byte c) value);
          trimmed = rev (dropWhile (\<lambda>c. c = CHR ''_'') (rev (dropWhile (\<lambda>c. c = CHR ''_'') out))) in
      if trimmed = [] then ''lakecat_value'' else trimmed)"

subsection \<open>Documents of a table\<close>

definition metadata_or_location :: "TableRecord \<Rightarrow> string" where
  "metadata_or_location table =
     (case tr_metadata_location table of Some l \<Rightarrow> l | None \<Rightarrow> tr_location table)"

definition croissant_field :: "IcebergFieldProjection \<Rightarrow> json" where
  "croissant_field f =
     jobj [(''@type'', JStr ''cr:Field''), (''name'', JStr (if_name f)), (''dataType'', JStr (if_data_type f)),
           (''description'', JStr (if_description f)), (''sameAs'', jopt JStr (if_semantic_type f)),
           (''required'', JBool (if_required f)),
           (''source'', jopt (\<lambda>i. JStr (''iceberg-field-id:'' @ int_str i)) (if_id f))]"

definition croissant_dataset :: "TableRecord \<Rightarrow> string \<Rightarrow> IcebergFieldProjection list \<Rightarrow> json" where
  "croissant_dataset table stable_id field_list =
     (let name = JStr (ti_name (tr_ident table)) in
      jobj [(''@context'', jobj [(''@vocab'', JStr ''https://schema.org/''),
                (''cr'', JStr ''http://mlcommons.org/croissant/''),
                (''dcat'', JStr ''http://www.w3.org/ns/dcat#''), (''odrl'', JStr ''http://www.w3.org/ns/odrl/2/'')]),
            (''@type'', JStr ''cr:Dataset''), (''@id'', JStr stable_id), (''name'', name),
            (''description'', JStr (''Iceberg table '' @ table_stable_id (tr_ident table) @
                '' served by LakeCat for QueryGraph.'')),
            (''license'', JStr ''https://spdx.org/licenses/Apache-2.0.html''),
            (''creator'', JArr [jobj [(''@type'', JStr ''Organization''), (''name'', JStr ''LakeCat'')]]),
            (''keywords'', jstrs [''lakecat'', ''iceberg'', ''sail'', ''querygraph'']),
            (''distribution'', JArr [jobj [(''@type'', JStr ''cr:FileObject''),
                (''@id'', JStr (stable_id @ ''#metadata'')), (''name'', JStr ''Iceberg table metadata''),
                (''contentUrl'', JStr (metadata_or_location table)),
                (''encodingFormat'', JStr ''application/vnd.apache.iceberg.metadata+json'')]]),
            (''recordSet'', JArr [jobj [(''@type'', JStr ''cr:RecordSet''),
                (''@id'', JStr (stable_id @ ''#record-set'')), (''name'', name),
                (''field'', JArr (map croissant_field field_list))]])])"

definition cdif_element :: "string \<Rightarrow> IcebergFieldProjection \<Rightarrow> json" where
  "cdif_element stable_id f =
     jobj [(''@type'', JStr ''cdif:DataElement''), (''@id'', JStr (stable_id @ ''/field/'' @ if_name f)),
           (''dct:title'', JStr (if_name f)), (''dct:description'', JStr (if_description f)),
           (''cdif:dataType'', JStr (if_data_type f)), (''cdif:semanticType'', jopt JStr (if_semantic_type f)),
           (''cdif:recordSet'', JStr (stable_id @ ''#record-set''))]"

definition cdif_profiles :: "string list" where
  "cdif_profiles = map (\<lambda>p. ''https://cdif.codata.org/profile/'' @ p)
     [''discovery'', ''manifest'', ''data-description'', ''data-access'', ''access-rights'',
      ''data-integration'', ''provenance'']"

definition cdif_resource :: "TableRecord \<Rightarrow> string \<Rightarrow> IcebergFieldProjection list \<Rightarrow> json \<Rightarrow> json" where
  "cdif_resource table stable_id field_list odrl =
     (let ident = tr_ident table in
      jobj [(''@context'', jobj [(''cdif'', JStr ''https://cdif.codata.org/''),
                (''dcat'', JStr ''http://www.w3.org/ns/dcat#''), (''dct'', JStr ''http://purl.org/dc/terms/''),
                (''odrl'', JStr ''http://www.w3.org/ns/odrl/2/'')]),
            (''@type'', JStr ''dcat:Dataset''), (''@id'', JStr stable_id), (''dct:title'', JStr (ti_name ident)),
            (''dct:description'', JStr (''LakeCat CDIF projection for Iceberg table '' @ table_stable_id ident @ ''.'')),
            (''cdif:profile'', jstrs cdif_profiles),
            (''dcat:landingPage'', JStr (''lakecat://'' @ table_stable_id ident)),
            (''dcat:accessService'', jobj [(''@type'', JStr ''dcat:DataService''),
                (''endpointURL'', JStr (''/catalog/v1/namespaces/'' @ namespace_path (ti_namespace ident) @
                   ''/tables/'' @ ti_name ident))]),
            (''dcat:distribution'', JArr [jobj [(''@type'', JStr ''dcat:Distribution''),
                (''@id'', JStr (stable_id @ ''#metadata'')), (''dct:title'', JStr ''Iceberg table metadata''),
                (''dcat:downloadURL'', JStr (metadata_or_location table)),
                (''dcat:mediaType'', JStr ''application/vnd.apache.iceberg.metadata+json'')]]),
            (''cdif:dataElement'', JArr (map (cdif_element stable_id) field_list)),
            (''dct:accessRights'', jobj [(''@type'', JStr ''dct:RightsStatement''),
                (''@id'', jopt JStr (str_at odrl ''@id'')),
                (''dct:license'', JStr ''https://spdx.org/licenses/Apache-2.0.html''),
                (''dct:description'',
                  JStr ''Access and usage must satisfy ODRL and TypeSec policy before agent use.''),
                (''odrl:policy'', odrl)])])"

definition osi_field :: "IcebergFieldProjection \<Rightarrow> json" where
  "osi_field f =
     jobj [(''id'', jopt JInt (if_id f)), (''name'', JStr (if_name f)), (''dataType'', JStr (if_data_type f)),
           (''required'', JBool (if_required f)), (''description'', JStr (if_description f)),
           (''semanticType'', jopt JStr (if_semantic_type f))]"

definition osi_ownership :: "string \<Rightarrow> json" where
  "osi_ownership role =
     jobj [(''authoritativeSystem'', JStr ''QueryGraph''), (''lakecatRole'', JStr role)]"

definition osi_import :: "string \<Rightarrow> json" where
  "osi_import notes =
     jobj [(''semanticModelStatus'', JStr ''delegated''), (''expectedOwner'', JStr ''QueryGraph''),
           (''notes'', JStr notes)]"

definition osi_handoff :: "TableRecord \<Rightarrow> string \<Rightarrow> IcebergFieldProjection list \<Rightarrow> json" where
  "osi_handoff table stable_id field_list =
     (let ident = tr_ident table in
      jobj [(''schemaVersion'', JStr ''lakecat.querygraph.osi-handoff.v1''),
            (''standard'', JStr ''Open Semantic Interchange''),
            (''ownership'', osi_ownership ''catalog-discovery-handoff''),
            (''dataset'', jobj [(''stableId'', JStr stable_id), (''name'', JStr (safe_sql_name (ti_name ident))),
                (''warehouse'', JStr (ti_warehouse ident)), (''namespace'', JStr (namespace_path (ti_namespace ident))),
                (''location'', JStr (tr_location table)),
                (''metadataLocation'', jopt JStr (tr_metadata_location table)),
                (''source'', jobj [(''type'', JStr ''iceberg-rest''), (''catalog'', JStr ''lakecat''),
                   (''governedPlanner'', JStr ''sail''), (''table'', JStr (table_stable_id ident))]),
                (''fields'', JArr (map osi_field field_list))]),
            (''policy'', jobj [(''odrlPolicyId'', JStr (stable_id @ ''#odrl'')),
                (''governance'', JStr ''TypeSec capabilities and ODRL constraints are enforced by LakeCat before governed Sail planning.'')]),
            (''queryGraphImport'', osi_import ''LakeCat does not publish metrics, dimensions, measures, joins, or business ontology claims as authoritative OSI semantics.'')])"

definition odrl_permission :: "string \<Rightarrow> string \<Rightarrow> json" where
  "odrl_permission action constraint =
     jobj [(''odrl:action'', JStr action), (''odrl:assignee'', JStr ''did:web:querygraph.ai:agent''),
           (''odrl:constraint'', JStr constraint)]"

definition odrl_policy :: "string \<Rightarrow> QueryGraphPolicyBindingProjection list \<Rightarrow> json" where
  "odrl_policy stable_id bindings =
     jobj [(''@type'', JStr ''odrl:Policy''), (''@id'', JStr (stable_id @ ''#odrl'')),
           (''odrl:target'', JStr stable_id), (''odrl:assigner'', JStr ''did:web:querygraph.ai:lakecat''),
           (''lakecat:policy-bindings'', JArr (map policy_binding_projection_json bindings)),
           (''odrl:permission'', JArr [odrl_permission ''odrl:read'' ''typesec:catalog.table.load'',
              odrl_permission ''querygraph:index'' ''typesec:catalog.table.plan_scan'']),
           (''odrl:prohibition'', JArr [])]"

subsection \<open>Projections of records\<close>

definition policy_binding_projection_from_binding :: "PolicyBinding \<Rightarrow> QueryGraphPolicyBindingProjection" where
  "policy_binding_projection_from_binding b =
     \<lparr>qb_policy_id = pb_policy_id b, qb_enforced = pb_enforced b, qb_namespace = pb_namespace b,
      qb_table = pb_table b, qb_odrl = pb_odrl b\<rparr>"

definition table_projection_from_table_with_policies ::
  "TableRecord \<times> PolicyBinding list \<Rightarrow> QueryGraphTableProjection" where
  "table_projection_from_table_with_policies x =
     (case x of (table, policy_bindings) \<Rightarrow>
      let stable_id = table_stable_id (tr_ident table);
          field_list = iceberg_fields (tr_metadata table);
          bindings = map policy_binding_projection_from_binding policy_bindings;
          odrl = odrl_policy stable_id bindings in
      \<lparr>qt_ident = tr_ident table, qt_stable_id = stable_id, qt_location = tr_location table,
       qt_metadata_location = tr_metadata_location table, qt_version = tr_version table,
       qt_format_version = Option.bind (jget (tr_metadata table) ''format-version'') as_i64,
       qt_croissant = croissant_dataset table stable_id field_list,
       qt_cdif = cdif_resource table stable_id field_list odrl,
       qt_osi = osi_handoff table stable_id field_list, qt_odrl = odrl, qt_policy_bindings = bindings\<rparr>)"

definition table_projection_from_table :: "TableRecord \<Rightarrow> QueryGraphTableProjection" where
  "table_projection_from_table table = table_projection_from_table_with_policies (table, [])"

definition querygraph_view_stable_id :: "ViewRecord \<Rightarrow> string" where
  "querygraph_view_stable_id view =
     ''lakecat:view:'' @ vw_warehouse view @ '':'' @ namespace_display (vw_namespace view) @ '':'' @ vw_name view"

definition view_columns_json :: "ViewRecord \<Rightarrow> json" where
  "view_columns_json view = JArr (map view_column_json (vw_columns view))"

definition view_osi_handoff :: "ViewRecord \<Rightarrow> string \<Rightarrow> json" where
  "view_osi_handoff view stable_id =
     jobj [(''schemaVersion'', JStr ''lakecat.querygraph.view-osi-handoff.v1''),
           (''standard'', JStr ''Open Semantic Interchange''),
           (''ownership'', osi_ownership ''catalog-view-discovery-handoff''),
           (''view'', jobj [(''stableId'', JStr stable_id), (''name'', JStr (safe_sql_name (vw_name view))),
               (''warehouse'', JStr (vw_warehouse view)), (''namespace'', JStr (namespace_path (vw_namespace view))),
               (''viewVersion'', ju64 (vw_view_version view)), (''dialect'', JStr (vw_dialect view)),
               (''schemaVersion'', jopt ju64 (vw_schema_version view)), (''columns'', view_columns_json view),
               (''sql'', JStr (vw_sql view)), (''properties'', jmap (vw_properties view))]),
           (''policy'', jobj [(''governance'', JStr ''View access is governed by LakeCat and TypeSec before QueryGraph or agents materialize dependent reads.'')]),
           (''queryGraphImport'', osi_import ''LakeCat publishes catalog-owned view definitions, not authoritative business metrics, dimensions, measures, or joins.'')]"

definition view_projection_from_view :: "ViewRecord \<Rightarrow> QueryGraphViewProjection" where
  "view_projection_from_view view =
     (let stable_id = querygraph_view_stable_id view in
      \<lparr>qw_stable_id = stable_id, qw_warehouse = vw_warehouse view, qw_namespace = vw_namespace view,
       qw_name = vw_name view, qw_view_version = vw_view_version view, qw_sql = vw_sql view,
       qw_dialect = vw_dialect view, qw_schema_version = vw_schema_version view,
       qw_columns = view_columns_json view, qw_properties = jmap (vw_properties view),
       qw_osi = view_osi_handoff view stable_id\<rparr>)"

definition tenant_projection_from_records ::
  "env \<Rightarrow> WarehouseName \<Rightarrow> WarehouseRecord option \<Rightarrow> ProjectRecord option \<Rightarrow> ServerRecord option \<Rightarrow>
   QueryGraphTenantProjection" where
  "tenant_projection_from_records E warehouse w p s =
     \<lparr>qp_server_id =
        (case Option.bind p pj_server_id of
           Some i \<Rightarrow> i | None \<Rightarrow> (case s of Some r \<Rightarrow> sv_server_id r | None \<Rightarrow> ''default'')),
      qp_server_display_name = Option.bind s sv_display_name,
      qp_server_endpoint_url_hash = map_option (server_endpoint_url_hash E) (Option.bind s sv_endpoint_url),
      qp_project_id =
        (case w of Some r \<Rightarrow> wr_project_id r
         | None \<Rightarrow> (case p of Some r \<Rightarrow> pj_project_id r | None \<Rightarrow> ''default'')),
      qp_project_display_name = Option.bind p pj_display_name,
      qp_warehouse = Some (case w of Some r \<Rightarrow> wr_warehouse r | None \<Rightarrow> warehouse),
      qp_warehouse_project_id = map_option wr_project_id w,
      qp_warehouse_storage_root_hash = map_option (warehouse_storage_root_hash E) (Option.bind w wr_storage_root),
      qp_source = (if w \<noteq> None \<or> p \<noteq> None \<or> s \<noteq> None then ''lakecat-management-records''
                   else ''lakecat-querygraph-bootstrap'')\<rparr>"

subsection \<open>The catalog graph\<close>

definition server_graph_id :: "string \<Rightarrow> string" where
  "server_graph_id server_id = ''lakecat:server:'' @ server_id"

definition project_graph_id :: "string \<Rightarrow> string" where
  "project_graph_id project_id = ''lakecat:project:'' @ project_id"

definition warehouse_graph_id :: "WarehouseName \<Rightarrow> string" where
  "warehouse_graph_id warehouse = ''lakecat:warehouse:'' @ warehouse"

text \<open>The nodes by id, and the edges as a sorted set.\<close>

type_synonym graph_state = "(string, QueryGraphNode) btree \<times> (string \<times> string \<times> string, unit) btree"

definition insert_node :: "(string, QueryGraphNode) btree \<Rightarrow> QueryGraphNode \<Rightarrow> (string, QueryGraphNode) btree" where
  "insert_node nodes node = (if bt_contains nodes (qn_id node) then nodes else bt_insert (qn_id node) node nodes)"

definition graph_put :: "string \<Rightarrow> string \<Rightarrow> (string \<times> json) list \<Rightarrow> graph_state \<Rightarrow> graph_state" where
  "graph_put i label props g =
     (insert_node (fst g) \<lparr>qn_id = i, qn_label = label, qn_properties = jobj props\<rparr>, snd g)"

definition graph_link :: "string \<Rightarrow> string \<Rightarrow> string \<Rightarrow> graph_state \<Rightarrow> graph_state" where
  "graph_link a label b g = (fst g, bt_insert (a, b, label) () (snd g))"

definition catalog_root :: string where
  "catalog_root = ''lakecat:catalog''"

definition insert_tenant_spine :: "WarehouseName \<Rightarrow> QueryGraphTenantProjection \<Rightarrow> graph_state \<Rightarrow> graph_state" where
  "insert_tenant_spine warehouse tenant g0 =
     (let server = server_graph_id (qp_server_id tenant);
          project = project_graph_id (qp_project_id tenant);
          house = warehouse_graph_id warehouse;
          g1 = graph_put server ''Server''
                 [(''serverId'', JStr (qp_server_id tenant)),
                  (''displayName'', jopt JStr (qp_server_display_name tenant)),
                  (''endpointUrlHash'', jopt JStr (qp_server_endpoint_url_hash tenant)),
                  (''source'', JStr (qp_source tenant))] g0;
          g2 = graph_put project ''Project''
                 [(''projectId'', JStr (qp_project_id tenant)),
                  (''displayName'', jopt JStr (qp_project_display_name tenant)),
                  (''serverId'', JStr (qp_server_id tenant)), (''source'', JStr (qp_source tenant))] g1;
          g3 = graph_put house ''Warehouse''
                 [(''warehouse'', JStr (case qp_warehouse tenant of Some w \<Rightarrow> w | None \<Rightarrow> warehouse)),
                  (''projectId'', JStr (case qp_warehouse_project_id tenant of
                                         Some p \<Rightarrow> p | None \<Rightarrow> qp_project_id tenant)),
                  (''storageRootHash'', jopt JStr (qp_warehouse_storage_root_hash tenant)),
                  (''source'', JStr (qp_source tenant))] g2 in
      graph_link project ''HAS_WAREHOUSE'' house
        (graph_link server ''HAS_PROJECT'' project (graph_link catalog_root ''HAS_SERVER'' server g3)))"

definition namespace_graph_id :: "string \<Rightarrow> string \<Rightarrow> string" where
  "namespace_graph_id warehouse namespace = ''lakecat:namespace:'' @ warehouse @ '':'' @ namespace"

definition insert_namespace_node :: "string \<Rightarrow> string \<Rightarrow> WarehouseName option \<Rightarrow> graph_state \<Rightarrow> graph_state" where
  "insert_namespace_node warehouse namespace validated_warehouse g =
     (let i = namespace_graph_id warehouse namespace in
      if bt_contains (fst g) i then g
      else
        let g1 = graph_link catalog_root ''HAS_NAMESPACE'' i
                   (graph_put i ''Namespace''
                      [(''warehouse'', JStr warehouse), (''namespace'', JStr namespace)] g) in
        case validated_warehouse of
          None \<Rightarrow> g1
        | Some w \<Rightarrow> graph_link (warehouse_graph_id w) ''HAS_NAMESPACE'' i g1)"

definition graph_add_table :: "QueryGraphTableProjection \<Rightarrow> graph_state \<Rightarrow> graph_state" where
  "graph_add_table table g =
     (let ident = qt_ident table; path = namespace_path (ti_namespace ident);
          g1 = insert_namespace_node (ti_warehouse ident) path (Some (ti_warehouse ident)) g;
          g2 = graph_put (qt_stable_id table) ''IcebergTable''
                 [(''name'', JStr (ti_name ident)), (''location'', JStr (qt_location table)),
                  (''metadataLocation'', jopt JStr (qt_metadata_location table)),
                  (''formatVersion'', jopt JInt (qt_format_version table))] g1;
          policy = (case str_at (qt_odrl table) ''@id'' of Some i \<Rightarrow> i | None \<Rightarrow> ''lakecat:policy:unknown'');
          g3 = graph_put policy ''ODRLPolicy'' [(''target'', JStr (qt_stable_id table))] g2 in
      graph_link (qt_stable_id table) ''GOVERNED_BY'' policy
        (graph_link (namespace_graph_id (ti_warehouse ident) path) ''CONTAINS_TABLE'' (qt_stable_id table) g3))"

definition graph_add_view :: "QueryGraphViewProjection \<Rightarrow> graph_state \<Rightarrow> graph_state" where
  "graph_add_view view g =
     (let path = join_with ''.'' (qw_namespace view);
          validated = (case warehouse_name_new (qw_warehouse view) of Inl _ \<Rightarrow> None | Inr w \<Rightarrow> Some w);
          g1 = insert_namespace_node (qw_warehouse view) path validated g;
          g2 = graph_put (qw_stable_id view) ''View''
                 [(''name'', JStr (qw_name view)), (''viewVersion'', ju64 (qw_view_version view)),
                  (''dialect'', JStr (qw_dialect view)), (''schemaVersion'', jopt ju64 (qw_schema_version view)),
                  (''columns'', qw_columns view)] g1 in
      graph_link (namespace_graph_id (qw_warehouse view) path) ''CONTAINS_VIEW'' (qw_stable_id view) g2)"

definition catalog_graph_from_tables_and_views_for_warehouse ::
  "WarehouseName \<Rightarrow> QueryGraphTableProjection list \<Rightarrow> QueryGraphViewProjection list \<Rightarrow>
   QueryGraphTenantProjection \<Rightarrow> QueryGraphCatalogGraph" where
  "catalog_graph_from_tables_and_views_for_warehouse warehouse tables views tenant =
     (let g0 = graph_put catalog_root ''Catalog'' [(''name'', JStr ''LakeCat'')] ([], []);
          g1 = insert_tenant_spine warehouse tenant g0;
          g2 = fold graph_add_table tables g1;
          g3 = fold graph_add_view views g2 in
      \<lparr>qc_nodes = map snd (fst g3),
       qc_edges = map (\<lambda>((a, b, label), _). \<lparr>qe_from = a, qe_to = b, qe_label = label\<rparr>) (snd g3)\<rparr>)"

definition catalog_graph_from_tables_and_views ::
  "QueryGraphTableProjection list \<Rightarrow> QueryGraphViewProjection list \<Rightarrow> QueryGraphCatalogGraph" where
  "catalog_graph_from_tables_and_views tables views =
     (let warehouse =
            (case tables of
               table # _ \<Rightarrow> ti_warehouse (qt_ident table)
             | [] \<Rightarrow> (case views of
                 [] \<Rightarrow> ''default''
               | view # _ \<Rightarrow> (case warehouse_name_new (qw_warehouse view) of Inl _ \<Rightarrow> ''default'' | Inr w \<Rightarrow> w))) in
      catalog_graph_from_tables_and_views_for_warehouse warehouse tables views tenant_projection_default)"

definition catalog_graph_from_tables :: "QueryGraphTableProjection list \<Rightarrow> QueryGraphCatalogGraph" where
  "catalog_graph_from_tables tables = catalog_graph_from_tables_and_views tables []"

subsection \<open>The OpenLineage document\<close>

definition open_lineage_table_artifact :: "QueryGraphTableArtifactHashes \<Rightarrow> json" where
  "open_lineage_table_artifact a =
     jobj [(''stableId'', JStr (ta_stable_id a)), (''croissantHash'', JStr (ta_croissant_hash a)),
           (''cdifHash'', JStr (ta_cdif_hash a)), (''osiHash'', JStr (ta_osi_hash a)),
           (''odrlHash'', JStr (ta_odrl_hash a)), (''policyBindingsHash'', JStr (ta_policy_bindings_hash a))]"

definition open_lineage_view_artifact :: "QueryGraphViewArtifactHashes \<Rightarrow> json" where
  "open_lineage_view_artifact a =
     jobj [(''stableId'', JStr (va_stable_id a)), (''osiHash'', JStr (va_osi_hash a))]"

definition querygraph_producer :: string where
  "querygraph_producer = ''https://querygraph.ai/lakecat''"

definition querygraph_facet_schema :: "string \<Rightarrow> string" where
  "querygraph_facet_schema name = ''https://querygraph.ai/schemas/openlineage/'' @ name @ ''/0.1.0.json''"

definition lineage_table_output :: "QueryGraphTableProjection \<Rightarrow> json" where
  "lineage_table_output table =
     (let ident = qt_ident table in
      jobj [(''namespace'', JStr (''lakecat.'' @ ti_warehouse ident @ ''.'' @ namespace_display (ti_namespace ident))),
            (''name'', JStr (ti_name ident)),
            (''facets'', jobj
               [(''dataSource'', jobj [(''_producer'', JStr querygraph_producer),
                   (''_schemaURL'', JStr ''https://openlineage.io/spec/facets/1-0-0/DatasourceDatasetFacet.json''),
                   (''name'', JStr ''LakeCat''), (''uri'', JStr (qt_location table))]),
                (''queryGraph_catalog'', jobj [(''_producer'', JStr querygraph_producer),
                   (''_schemaURL'', JStr (querygraph_facet_schema ''querygraph-catalog-facet'')),
                   (''stableId'', JStr (qt_stable_id table)),
                   (''metadataLocation'', jopt JStr (qt_metadata_location table)),
                   (''formatVersion'', jopt JInt (qt_format_version table))])])])"

definition lineage_view_output :: "QueryGraphViewProjection \<Rightarrow> json" where
  "lineage_view_output view =
     jobj [(''namespace'', JStr (''lakecat.'' @ qw_warehouse view @ ''.'' @ join_with ''.'' (qw_namespace view))),
           (''name'', JStr (qw_name view)),
           (''facets'', jobj
              [(''queryGraph_catalogView'', jobj [(''_producer'', JStr querygraph_producer),
                  (''_schemaURL'', JStr (querygraph_facet_schema ''querygraph-catalog-view-facet'')),
                  (''stableId'', JStr (qw_stable_id view)), (''viewVersion'', ju64 (qw_view_version view)),
                  (''dialect'', JStr (qw_dialect view)),
                  (''schemaVersion'', jopt ju64 (qw_schema_version view))])])]"

definition bootstrap_open_lineage ::
  "env \<Rightarrow> WarehouseName \<Rightarrow> QueryGraphTableProjection list \<Rightarrow> QueryGraphViewProjection list \<Rightarrow>
   QueryGraphTableArtifactHashes list \<Rightarrow> QueryGraphViewArtifactHashes list \<Rightarrow> string \<Rightarrow> int \<Rightarrow> json" where
  "bootstrap_open_lineage E warehouse tables views table_artifacts view_artifacts graph generated_at =
     jobj [(''eventType'', JStr ''COMPLETE''), (''eventTime'', JStr (dt_json E generated_at)),
           (''run'', jobj [(''runId'', JStr (''lakecat-querygraph-bootstrap-'' @ warehouse)),
              (''facets'', jobj [(''queryGraph_semanticBundle'', jobj
                 [(''_producer'', JStr querygraph_producer),
                  (''_schemaURL'', JStr (querygraph_facet_schema ''querygraph-semantic-bundle-facet'')),
                  (''tableCount'', JInt (int (length tables))), (''viewCount'', JInt (int (length views))),
                  (''standards'', jstrs querygraph_bootstrap_standards), (''graphHash'', JStr graph),
                  (''tableArtifacts'', JArr (map open_lineage_table_artifact table_artifacts)),
                  (''viewArtifacts'', JArr (map open_lineage_view_artifact view_artifacts))])])]),
           (''job'', jobj [(''namespace'', JStr (''lakecat.'' @ warehouse)), (''name'', JStr ''querygraph-bootstrap'')]),
           (''inputs'', JArr []),
           (''outputs'', JArr (map lineage_table_output tables @ map lineage_view_output views)),
           (''producer'', JStr querygraph_producer),
           (''schemaURL'', JStr ''https://openlineage.io/spec/2-0-2/OpenLineage.json'')]"

subsection \<open>The bundle\<close>

definition bootstrap_from_catalog_snapshot_inner ::
  "env \<Rightarrow> int \<Rightarrow> WarehouseName \<Rightarrow> (TableRecord \<times> PolicyBinding list) list \<Rightarrow> ViewRecord list \<Rightarrow>
   QueryGraphTenantProjection \<Rightarrow> QueryGraphViewReceiptEvidence list option \<Rightarrow> QueryGraphBootstrap result" where
  "bootstrap_from_catalog_snapshot_inner E now warehouse table_records view_records tenant evidence =
     (let tables = map table_projection_from_table_with_policies table_records;
          views = map view_projection_from_view view_records;
          graph = catalog_graph_from_tables_and_views_for_warehouse warehouse tables views tenant in
      and_then (traverse (table_artifact_from_table E) tables) (\<lambda>table_artifacts.
      and_then (traverse (view_artifact_from_view E) views) (\<lambda>view_artifacts.
      and_then (graph_hash E graph) (\<lambda>hash_of_graph.
      let open_lineage = bootstrap_open_lineage E warehouse tables views table_artifacts view_artifacts
                           hash_of_graph now in
      and_then (manifest_from_hashes E table_artifacts view_artifacts hash_of_graph open_lineage) (\<lambda>manifest0.
      and_then (import_from_table_only_bundle E warehouse manifest0 tables graph open_lineage (length views))
        (\<lambda>contract.
      let manifest1 = manifest0\<lparr>qm_querygraph_import := Some contract\<rparr> in
      and_then (case evidence of None \<Rightarrow> Ok manifest1
                | Some e \<Rightarrow> attach_view_receipt_evidence E manifest1 views e) (\<lambda>manifest.
      and_then (querygraph_bundle_hash E warehouse manifest tables views graph open_lineage) (\<lambda>bundle_hash.
      Ok \<lparr>bo_warehouse = warehouse, bo_generated_at = now, bo_bundle_hash = bundle_hash, bo_manifest = manifest,
          bo_tables = tables, bo_views = views, bo_graph = graph, bo_open_lineage = open_lineage\<rparr>))))))))"

definition bootstrap_from_catalog_snapshot ::
  "env \<Rightarrow> int \<Rightarrow> WarehouseName \<Rightarrow> (TableRecord \<times> PolicyBinding list) list \<Rightarrow> ViewRecord list \<Rightarrow>
   QueryGraphTenantProjection \<Rightarrow> QueryGraphViewReceiptEvidence list \<Rightarrow> QueryGraphBootstrap result" where
  "bootstrap_from_catalog_snapshot E now warehouse tables views tenant evidence =
     bootstrap_from_catalog_snapshot_inner E now warehouse tables views tenant (Some evidence)"

definition bootstrap_from_tables_views_with_policy_bindings_and_tenant ::
  "env \<Rightarrow> int \<Rightarrow> WarehouseName \<Rightarrow> (TableRecord \<times> PolicyBinding list) list \<Rightarrow> ViewRecord list \<Rightarrow>
   QueryGraphTenantProjection \<Rightarrow> QueryGraphBootstrap result" where
  "bootstrap_from_tables_views_with_policy_bindings_and_tenant E now warehouse tables views tenant =
     bootstrap_from_catalog_snapshot_inner E now warehouse tables views tenant None"

definition bootstrap_from_tables_views_with_policy_bindings ::
  "env \<Rightarrow> int \<Rightarrow> WarehouseName \<Rightarrow> (TableRecord \<times> PolicyBinding list) list \<Rightarrow> ViewRecord list \<Rightarrow>
   QueryGraphBootstrap result" where
  "bootstrap_from_tables_views_with_policy_bindings E now warehouse tables views =
     bootstrap_from_tables_views_with_policy_bindings_and_tenant E now warehouse tables views
       tenant_projection_default"

definition bootstrap_from_tables_with_policy_bindings ::
  "env \<Rightarrow> int \<Rightarrow> WarehouseName \<Rightarrow> (TableRecord \<times> PolicyBinding list) list \<Rightarrow> QueryGraphBootstrap result" where
  "bootstrap_from_tables_with_policy_bindings E now warehouse tables =
     bootstrap_from_tables_views_with_policy_bindings E now warehouse tables []"

definition bootstrap_from_tables :: "env \<Rightarrow> int \<Rightarrow> WarehouseName \<Rightarrow> TableRecord list \<Rightarrow> QueryGraphBootstrap result" where
  "bootstrap_from_tables E now warehouse tables =
     bootstrap_from_tables_with_policy_bindings E now warehouse (map (\<lambda>t. (t, [])) tables)"

end
