(* ===== verification/ServiceScan.thy ===== *)
theory ServiceScan
  imports HandleTables ServiceGovernedScan QueryGraph
begin

section \<open>Handlers: planning a scan and fetching its tasks\<close>

text \<open>
  \<open>crates/lakecat-service/src/scan.rs\<close> and the audit payloads of a scan in \<open>handlers.rs\<close>, as built
  without the \<open>sail-local\<close> feature: the engine of the service plans, under the projection and the
  filters the capability's read restriction leaves, and a governed plan gets a grant that is saved
  before its proof leaves the service.
\<close>

subsection \<open>Extensions of the residual filter\<close>

definition plan_task_tokens :: "json list \<Rightarrow> string list" where
  "plan_task_tokens tasks =
     List.map_filter (\<lambda>task. Option.bind (jget task ''plan-task'') as_str) tasks"

definition merge_lakecat_residual_extension :: "json option \<Rightarrow> string \<Rightarrow> json \<Rightarrow> json option" where
  "merge_lakecat_residual_extension residual_filter extension_key extensions =
     (case residual_filter of
        Some residual \<Rightarrow>
          if is_object residual then jset residual extension_key extensions
          else Some (jobj [(''lakecat:residual-filter'', residual), (extension_key, extensions)])
      | None \<Rightarrow> Some (jobj [(extension_key, extensions)]))"

definition merge_scan_request_extensions :: "json option \<Rightarrow> json \<Rightarrow> json option" where
  "merge_scan_request_extensions residual_filter extensions =
     merge_lakecat_residual_extension residual_filter ''lakecat:scan-request'' extensions"

definition merge_fetch_scan_tasks_extensions :: "json option \<Rightarrow> json \<Rightarrow> json option" where
  "merge_fetch_scan_tasks_extensions residual_filter extensions =
     merge_lakecat_residual_extension residual_filter ''lakecat:fetch-scan-tasks'' extensions"

subsection \<open>Audit payloads\<close>

text \<open>What \<open>append_read_restriction_requirements\<close> sets, in order.\<close>

definition read_restriction_requirements :: "ReadRestriction \<Rightarrow> (string \<times> json) list" where
  "read_restriction_requirements restriction =
     (case effective_projection restriction [] of
        Inl _ \<Rightarrow> []
      | Inr required_projection \<Rightarrow>
          [(''required-projection'', jstrs required_projection),
           (''effective-projection'', jstrs required_projection),
           (''required-filters'', JArr (mandatory_filters restriction))])"

definition recorded_restriction :: "TableScanCapability \<Rightarrow> (string \<times> json) list" where
  "recorded_restriction cap =
     (case jget (ar_context (cap_receipt cap)) ''read-restriction'' of
        None \<Rightarrow> []
      | Some restriction \<Rightarrow>
          (''read-restriction'', restriction) #
          read_restriction_requirements (ts_restriction (cap_resource cap)))"

definition extension_fields :: "string list \<Rightarrow> json \<Rightarrow> (string \<times> json) list" where
  "extension_fields names extensions =
     concat (map (\<lambda>name. jskip name (\<lambda>v. v) (jget extensions name)) names)"

definition table_scan_planned_audit_payload ::
  "env \<Rightarrow> TableIdent \<Rightarrow> TableRecord \<Rightarrow> TableScanCapability \<Rightarrow> ScanPlan \<Rightarrow> json \<Rightarrow> json" where
  "table_scan_planned_audit_payload E ident table cap scan scan_request_extensions =
     jobj
       ([(''event-type'', JStr ''table.scan-planned''), (''table'', ident_json ident),
         (''authorization-receipt'', authorization_receipt_json E (cap_receipt cap)),
         (''planned-by'', JStr (pl_planned_by scan)),
         (''snapshot-id'', jopt JInt (pl_snapshot_id scan)),
         (''scan-task-count'', count_json (length (pl_scan_tasks scan))),
         (''storage-location'', JStr (tr_location table)),
         (''metadata-location'', jopt JStr (tr_metadata_location table))] @
        recorded_restriction cap @
        extension_fields [''requested-projection'', ''effective-projection'',
          ''requested-stats-fields'', ''effective-stats-fields''] scan_request_extensions)"

definition table_scan_tasks_fetched_audit_payload ::
  "env \<Rightarrow> TableIdent \<Rightarrow> TableRecord \<Rightarrow> TableScanCapability \<Rightarrow> FetchScanTasksPlan \<Rightarrow> json \<Rightarrow> json" where
  "table_scan_tasks_fetched_audit_payload E ident table cap fetched fetch_extensions =
     jobj
       ([(''event-type'', JStr ''table.scan-tasks-fetched''), (''table'', ident_json ident),
         (''authorization-receipt'', authorization_receipt_json E (cap_receipt cap)),
         (''planned-by'', JStr (fp_planned_by fetched)),
         (''snapshot-id'', jopt JInt (fp_snapshot_id fetched)),
         (''plan-task'', JStr (fp_plan_task fetched)),
         (''file-scan-task-count'', count_json (length (fp_file_scan_tasks fetched))),
         (''delete-file-count'', count_json (length (fp_delete_files fetched))),
         (''child-plan-task-count'', count_json (length (fp_plan_tasks fetched))),
         (''storage-location'', JStr (tr_location table)),
         (''metadata-location'', jopt JStr (tr_metadata_location table))] @
        recorded_restriction cap @
        extension_fields [''requested-stats-fields'', ''effective-stats-fields'', ''stats-fields'']
          fetch_extensions)"

subsection \<open>Planning a scan\<close>

definition scan_request_extensions ::
  "NormalizedPlanTableScanRequest \<Rightarrow> ReadRestriction \<Rightarrow> string list \<Rightarrow> json" where
  "scan_request_extensions n restriction projection =
     (let stats_fields = effective_stats_fields restriction (ns_stats_fields n) in
      jobj [(''case-sensitive'', jopt JBool (ns_case_sensitive n)),
            (''use-snapshot-schema'', jopt JBool (ns_use_snapshot_schema n)),
            (''start-snapshot-id'', jopt JInt (ns_start_snapshot_id n)),
            (''end-snapshot-id'', jopt JInt (ns_end_snapshot_id n)),
            (''requested-projection'', jstrs (ns_projection n)),
            (''effective-projection'', jstrs projection),
            (''read-restriction'', read_restriction_json restriction),
            (''requested-stats-fields'', jstrs (ns_stats_fields n)),
            (''effective-stats-fields'', jstrs stats_fields),
            (''stats-fields'', jstrs stats_fields)])"

definition scan_planning_request ::
  "TableScanCapability \<Rightarrow> TableRecord \<Rightarrow> NormalizedPlanTableScanRequest \<Rightarrow> string list \<Rightarrow> ScanPlanningRequest" where
  "scan_planning_request cap table n projection =
     \<lparr>sr_table = ts_table (cap_resource cap), sr_principal = ar_principal (cap_receipt cap),
      sr_metadata_location = tr_metadata_location table, sr_table_metadata = tr_metadata table,
      sr_projection = projection,
      sr_filters = ns_filters n @
        (case rr_row_predicate (ts_restriction (cap_resource cap)) of
           None \<Rightarrow> [] | Some row_predicate \<Rightarrow> [row_predicate]),
      sr_limit = ns_limit n, sr_snapshot_id = ns_snapshot_id n,
      sr_start_snapshot_id = ns_start_snapshot_id n, sr_end_snapshot_id = ns_end_snapshot_id n\<rparr>"

definition plan_scan_with_capability ::
  "LakeCatState \<Rightarrow> TableScanCapability \<Rightarrow> TableRecord \<Rightarrow> PlanTableScanRequest \<Rightarrow>
     (ScanPlan \<times> json \<times> GovernedScanProof option) world_op" where
  "plan_scan_with_capability L cap table request =
     (let restriction = ts_restriction (cap_resource cap) in
      and_then_op (lift_result (into_normalized request)) (\<lambda>n.
      and_then_op (lift_result (effective_projection restriction (ns_projection n))) (\<lambda>projection.
      and_then_op (lift_result (se_plan_scan (lc_sail L) (scan_planning_request cap table n projection))) (\<lambda>scan.
      and_then_op (at_time (\<lambda>now. issue_governed_scan_grant (lc_env L) (lc_serde_error L) now
          (lc_catalog_identity L) cap table scan (ns_projection n) projection)) (\<lambda>grant.
      and_then_op (case grant of
                     None \<Rightarrow> lift_result (Ok None)
                   | Some g \<Rightarrow>
                       and_then_op (store_call (\<lambda>_. save_governed_scan_grant (lc_env L) g)) (\<lambda>saved.
                       lift_result (Ok (Some (gg_proof saved))))) (\<lambda>governed_proof.
      lift_result (Ok (scan, scan_request_extensions n restriction projection, governed_proof))))))))"

definition plan_table_scan_response ::
  "TableIdent \<Rightarrow> ScanPlan \<Rightarrow> json \<Rightarrow> GovernedScanProof option \<Rightarrow> json" where
  "plan_table_scan_response ident scan extensions governed_proof =
     jobj
       ([(''table'', table_identifier_json (table_identifier_from_ident ident)),
         (''planned-by'', JStr (pl_planned_by scan)), (''status'', JStr ''completed''),
         (''snapshot-id'', jopt JInt (pl_snapshot_id scan)),
         (''plan-tasks'', jstrs (plan_task_tokens (pl_scan_tasks scan)))] @
        (if pl_scan_tasks scan = [] then [] else [(''lakecat-plan-tasks'', JArr (pl_scan_tasks scan))]) @
        [(''residual-filter'', jopt (\<lambda>v. v) (merge_scan_request_extensions (pl_residual_filter scan) extensions))] @
        jskip ''governed-scan-proof'' governed_scan_proof_json governed_proof)"

definition plan_table_scan_in_warehouse ::
  "WarehouseName \<Rightarrow> LakeCatState \<Rightarrow> HeaderMap \<Rightarrow> string \<Rightarrow> string \<Rightarrow> PlanTableScanRequest \<Rightarrow> reply world_op" where
  "plan_table_scan_in_warehouse warehouse L headers namespace_text table_text request =
     and_then_op (identify L headers) (\<lambda>claimed.
     and_then_op (lift_result (rest_table_ident warehouse namespace_text table_text)) (\<lambda>ident0.
     and_then_op (store_read (\<lambda>s. authorize_table_scan L s claimed ident0)) (\<lambda>cap.
     let ident = ts_table (cap_resource cap) in
     and_then_op (store_read (\<lambda>s. load_table s ident)) (\<lambda>table.
     and_then_op (plan_scan_with_capability L cap table request) (\<lambda>(scan, extensions, governed_proof).
     let audit_payload0 = table_scan_planned_audit_payload (lc_env L) ident table cap scan extensions in
     and_then_op (lift_result
       (case governed_proof of
          None \<Rightarrow> Ok audit_payload0
        | Some p \<Rightarrow> index_assign audit_payload0 ''governed-scan-proof'' (governed_scan_proof_json p))) (\<lambda>audit_payload.
     and_then_op (record_event L ''table.scan-planned'' (Some ident) (principal_of cap) audit_payload) (\<lambda>_.
     reply_ok (plan_table_scan_response ident scan extensions governed_proof))))))))"

definition handle_plan_table_scan ::
  "LakeCatState \<Rightarrow> HeaderMap \<Rightarrow> string \<Rightarrow> string \<Rightarrow> PlanTableScanRequest \<Rightarrow> reply world_op" where
  "handle_plan_table_scan L headers namespace_text table_text request =
     plan_table_scan_in_warehouse (lc_warehouse L) L headers namespace_text table_text request"

definition plan_table_scan_for_warehouse ::
  "LakeCatState \<Rightarrow> HeaderMap \<Rightarrow> string \<Rightarrow> string \<Rightarrow> string \<Rightarrow> PlanTableScanRequest \<Rightarrow> reply world_op" where
  "plan_table_scan_for_warehouse L headers warehouse namespace_text table_text request =
     and_then_op (prefixed_catalog_warehouse L warehouse) (\<lambda>w.
     plan_table_scan_in_warehouse w L headers namespace_text table_text request)"

subsection \<open>Fetching scan tasks\<close>

definition fetch_scan_tasks_extensions :: "TableScanCapability \<Rightarrow> json result" where
  "fetch_scan_tasks_extensions cap =
     (let restriction = ts_restriction (cap_resource cap) in
      and_then (effective_projection restriction []) (\<lambda>required_projection.
      let stats_fields = required_projection in
      Ok (jobj [(''read-restriction'', read_restriction_json restriction),
                (''required-projection'', jstrs required_projection),
                (''effective-projection'', jstrs required_projection),
                (''required-filters'', JArr (mandatory_filters restriction)),
                (''requested-stats-fields'', jstrs stats_fields),
                (''effective-stats-fields'', jstrs stats_fields),
                (''stats-fields'', jstrs stats_fields)])))"

definition fetch_scan_tasks_with_capability ::
  "LakeCatState \<Rightarrow> TableScanCapability \<Rightarrow> TableRecord \<Rightarrow> string \<Rightarrow> FetchScanTasksPlan result" where
  "fetch_scan_tasks_with_capability L cap table plan_task =
     (let restriction = ts_restriction (cap_resource cap) in
      and_then (effective_projection restriction []) (\<lambda>required_projection.
      se_fetch_scan_tasks (lc_sail L)
        \<lparr>fr_table = ts_table (cap_resource cap), fr_principal = ar_principal (cap_receipt cap),
         fr_metadata_location = tr_metadata_location table, fr_table_metadata = tr_metadata table,
         fr_plan_task = plan_task, fr_required_projection = required_projection,
         fr_required_filters = mandatory_filters restriction\<rparr>))"

definition fetch_scan_tasks_response :: "TableIdent \<Rightarrow> FetchScanTasksPlan \<Rightarrow> json \<Rightarrow> json" where
  "fetch_scan_tasks_response ident fetched extensions =
     jobj
       ([(''table'', table_identifier_json (table_identifier_from_ident ident)),
         (''planned-by'', JStr (fp_planned_by fetched)), (''plan-task'', JStr (fp_plan_task fetched)),
         (''snapshot-id'', jopt JInt (fp_snapshot_id fetched)),
         (''file-scan-tasks'', JArr (fp_file_scan_tasks fetched)),
         (''delete-files'', JArr (fp_delete_files fetched)),
         (''plan-tasks'', jstrs (plan_task_tokens (fp_plan_tasks fetched)))] @
        (if fp_plan_tasks fetched = [] then [] else [(''lakecat-plan-tasks'', JArr (fp_plan_tasks fetched))]) @
        [(''residual-filter'',
            jopt (\<lambda>v. v) (merge_fetch_scan_tasks_extensions (fp_residual_filter fetched) extensions))])"

definition fetch_scan_tasks_in_warehouse ::
  "WarehouseName \<Rightarrow> LakeCatState \<Rightarrow> HeaderMap \<Rightarrow> string \<Rightarrow> string \<Rightarrow> string \<Rightarrow> reply world_op" where
  "fetch_scan_tasks_in_warehouse warehouse L headers namespace_text table_text plan_task =
     and_then_op (identify L headers) (\<lambda>claimed.
     and_then_op (lift_result (rest_table_ident warehouse namespace_text table_text)) (\<lambda>ident0.
     and_then_op (store_read (\<lambda>s. authorize_table_scan L s claimed ident0)) (\<lambda>cap.
     let ident = ts_table (cap_resource cap) in
     and_then_op (store_read (\<lambda>s. load_table s ident)) (\<lambda>table.
     and_then_op (lift_result (fetch_scan_tasks_with_capability L cap table plan_task)) (\<lambda>fetched.
     and_then_op (lift_result (fetch_scan_tasks_extensions cap)) (\<lambda>extensions.
     and_then_op (record_event L ''table.scan-tasks-fetched'' (Some ident) (principal_of cap)
       (table_scan_tasks_fetched_audit_payload (lc_env L) ident table cap fetched extensions)) (\<lambda>_.
     reply_ok (fetch_scan_tasks_response ident fetched extensions))))))))"

definition handle_fetch_scan_tasks ::
  "LakeCatState \<Rightarrow> HeaderMap \<Rightarrow> string \<Rightarrow> string \<Rightarrow> string \<Rightarrow> reply world_op" where
  "handle_fetch_scan_tasks L headers namespace_text table_text plan_task =
     fetch_scan_tasks_in_warehouse (lc_warehouse L) L headers namespace_text table_text plan_task"

definition fetch_scan_tasks_for_warehouse ::
  "LakeCatState \<Rightarrow> HeaderMap \<Rightarrow> string \<Rightarrow> string \<Rightarrow> string \<Rightarrow> string \<Rightarrow> reply world_op" where
  "fetch_scan_tasks_for_warehouse L headers warehouse namespace_text table_text plan_task =
     and_then_op (prefixed_catalog_warehouse L warehouse) (\<lambda>w.
     fetch_scan_tasks_in_warehouse w L headers namespace_text table_text plan_task)"

subsection \<open>Receipts of the views in a bootstrap\<close>

definition optional_management_record :: "'a result \<Rightarrow> string \<Rightarrow> 'a option result" where
  "optional_management_record r object_kind =
     (case r of
        Inr a \<Rightarrow> Ok (Some a)
      | Inl (NotFound missing name) \<Rightarrow>
          if missing = object_kind then Ok None else Err (NotFound missing name)
      | Inl e \<Rightarrow> Err e)"

definition receipts_of_view :: "ViewRecord \<Rightarrow> ViewVersionReceipt list \<Rightarrow> ViewVersionReceipt list" where
  "receipts_of_view v receipts =
     filter (\<lambda>r. vr_warehouse r = vw_warehouse v \<and> vr_namespace r = vw_namespace v \<and> vr_name r = vw_name v)
       receipts"

definition view_receipt_evidence ::
  "env \<Rightarrow> ViewVersionReceipt list \<Rightarrow> ViewRecord \<Rightarrow> QueryGraphViewReceiptEvidence result" where
  "view_receipt_evidence E receipts v =
     (let named = namespace_path (vw_namespace v) @ ''.'' @ vw_name v in
      and_then (traverse (view_version_receipt_response E) (receipts_of_view v receipts)) (\<lambda>responses.
      if \<not> view_version_receipt_chain_verified responses then
        Err (Internal (''querygraph bootstrap view '' @ named @ '' has an unverified receipt chain''))
      else and_then (view_version_receipt_chain_hash E responses) (\<lambda>receipt_chain_hash.
        case find (\<lambda>r. vx_view_version r = vw_view_version v) (rev responses) of
          Some r \<Rightarrow>
            Ok \<lparr>qv_stable_id = vx_stable_id r, qv_view_version = vx_view_version r,
                qv_receipt_hash = vx_receipt_hash r, qv_receipt_chain_hash = receipt_chain_hash\<rparr>
        | None \<Rightarrow>
            Err (Internal (''querygraph bootstrap view '' @ named @
              '' is missing receipt evidence for version '' @ nat_str (unat (vw_view_version v)))))))"

definition querygraph_view_version_receipts ::
  "env \<Rightarrow> ViewRecord list \<Rightarrow> ViewVersionReceipt list \<Rightarrow> QueryGraphViewReceiptEvidence list result" where
  "querygraph_view_version_receipts E views receipts = traverse (view_receipt_evidence E receipts) views"


subsection \<open>The bootstrap\<close>

definition querygraph_tenant_projection :: "LakeCatState \<Rightarrow> QueryGraphTenantProjection world_op" where
  "querygraph_tenant_projection L =
     (let E = lc_env L; warehouse = lc_warehouse L in
      and_then_op (store_read (\<lambda>s.
        optional_management_record (load_warehouse E s warehouse) ''warehouse'')) (\<lambda>warehouse_record.
      and_then_op (case warehouse_record of
          None \<Rightarrow> lift_result (Ok None)
        | Some w \<Rightarrow> store_read (\<lambda>s.
            optional_management_record (load_project E s (wr_project_id w)) ''project'')) (\<lambda>project_record.
      and_then_op (case Option.bind project_record pj_server_id of
          None \<Rightarrow> lift_result (Ok None)
        | Some server_id \<Rightarrow> store_read (\<lambda>s.
            optional_management_record (load_server E s server_id) ''server'')) (\<lambda>server_record.
      lift_result (Ok (tenant_projection_from_records E warehouse warehouse_record project_record server_record))))))"

definition bootstrap_json :: "env \<Rightarrow> QueryGraphBootstrap \<Rightarrow> json" where
  "bootstrap_json E b =
     jobj [(''warehouse'', JStr (bo_warehouse b)), (''generated-at'', JStr (dt_json E (bo_generated_at b))),
           (''bundle-hash'', JStr (bo_bundle_hash b)), (''manifest'', manifest_json (bo_manifest b)),
           (''tables'', JArr (map table_projection_json (bo_tables b))),
           (''views'', JArr (map view_projection_json (bo_views b))), (''graph'', graph_json (bo_graph b)),
           (''open-lineage'', bo_open_lineage b)]"

definition bootstrap_receipt_json :: "QueryGraphBootstrapVerification \<Rightarrow> string \<times> string \<Rightarrow> json" where
  "bootstrap_receipt_json v entry =
     (case entry of (stable_id, receipt_hash) \<Rightarrow>
      jobj [(''stable-id'', JStr stable_id),
            (''view-version'', ju64 (case bt_get (bv_verified_view_versions v) stable_id of None \<Rightarrow> 0 | Some n \<Rightarrow> n)),
            (''receipt-hash'', JStr receipt_hash),
            (''receipt-chain-hash'', jopt JStr (bt_get (bv_verified_view_receipt_chain_hashes v) stable_id))])"

definition bootstrap_payload ::
  "LakeCatState \<Rightarrow> json \<Rightarrow> nat \<Rightarrow> QueryGraphBootstrap \<Rightarrow> QueryGraphBootstrapVerification \<Rightarrow> json" where
  "bootstrap_payload L receipt policy_binding_count bundle v =
     jobj [(''event-type'', JStr ''querygraph.bootstrap''), (''authorization-receipt'', receipt),
           (''warehouse'', JStr (lc_warehouse L)), (''table-count'', JInt (int (bv_table_count v))),
           (''view-count'', JInt (int (bv_view_count v))),
           (''policy-binding-count'', JInt (int policy_binding_count)),
           (''verified-tables'', jstrs (bv_verified_tables v)), (''verified-views'', jstrs (bv_verified_views v)),
           (''verified-view-versions'', jobj (map (\<lambda>(i, n). (i, ju64 n)) (bv_verified_view_versions v))),
           (''view-version-receipts'', JArr (map (bootstrap_receipt_json v) (bv_verified_view_receipt_hashes v))),
           (''bundle-hash'', JStr (bv_bundle_hash v)), (''graph-hash'', JStr (bv_graph_hash v)),
           (''open-lineage-hash'', JStr (bv_open_lineage_hash v)),
           (''querygraph-import-hash'', JStr (bv_querygraph_import_hash v)),
           (''table-artifacts'', JArr (map table_artifact_json (qm_table_artifacts (bo_manifest bundle)))),
           (''view-artifacts'', JArr (map view_artifact_json (qm_view_artifacts (bo_manifest bundle)))),
           (''standards'', jstrs (bv_standards v))]"

text \<open>
  The independent verification of the bundle is a debug assertion, compiled out of a release build.
\<close>

definition handle_querygraph_bootstrap :: "LakeCatState \<Rightarrow> HeaderMap \<Rightarrow> reply world_op" where
  "handle_querygraph_bootstrap L headers =
     (let E = lc_env L; warehouse = lc_warehouse L in
      and_then_op (authorize_request L headers authorize_graph_read) (\<lambda>cap.
      and_then_op (store_read (\<lambda>s. list_tables s warehouse)) (\<lambda>tables.
      and_then_op (store_read (\<lambda>s. store_policy_bindings_for_tables E s (map tr_ident tables))) (\<lambda>bindings.
      and_then_op (lift_result
          (if length bindings \<noteq> length tables then
             Err (Internal ''bulk policy lookup returned the wrong number of table scopes'')
           else Ok ())) (\<lambda>_.
      and_then_op (store_read (\<lambda>s. list_warehouse_views E s warehouse)) (\<lambda>views.
      and_then_op (querygraph_tenant_projection L) (\<lambda>tenant.
      and_then_op (store_read (\<lambda>s. list_warehouse_view_version_receipts E s warehouse)) (\<lambda>receipts.
      and_then_op (lift_result (querygraph_view_version_receipts E views receipts)) (\<lambda>evidence.
      and_then_op (at_time (\<lambda>now.
          bootstrap_from_catalog_snapshot E now warehouse (zip tables bindings) views tenant evidence)) (\<lambda>bundle.
      and_then_op (lift_result (construction_summary bundle)) (\<lambda>verification.
      and_then_op (record_event L ''querygraph.bootstrap'' None (principal_of cap)
          (bootstrap_payload L (receipt_of L cap) (sum_list (map length bindings)) bundle verification)) (\<lambda>_.
      reply_ok (bootstrap_json E bundle)))))))))))))"

end
