(* ===== verification/ServiceRouter.thy ===== *)
theory ServiceRouter
  imports HandleManagement HandleViews ServiceScan
begin

section \<open>The routes of the service\<close>

text \<open>
  \<open>crates/lakecat-service/src/router.rs\<close>: one constructor per handler the router names, with the
  parameters of its path and its decoded body; the routes with a warehouse in the path have it as
  their first argument, \<open>None\<close> standing for the routes without one. The drain of the lineage outbox
  is not among them: it also writes to the sinks, and \<open>OutboxDrain\<close> models it over that larger state.
\<close>

datatype service_request =
    GetConfig "string option"
  | PostNamespace "string option" CreateNamespaceRequest
  | GetNamespaces "string option" ListNamespacesQuery
  | GetNamespace "string option" string
  | DeleteNamespace "string option" string
  | PostNamespaceProperties "string option" string UpdateNamespacePropertiesRequest
  | GetTables "string option" string
  | PostTable "string option" string CreateTableRequest
  | PostRegister "string option" string RegisterTableRequest
  | PostRename "string option" RenameTableRequest
  | GetTable "string option" string string
  | PostCommit "string option" string string CommitTableRequest
  | DeleteTable "string option" string string
  | PostPlan "string option" string string PlanTableScanRequest
  | PostFetchScanTasks "string option" string string string
  | GetCredentials "string option" string string
  | GetCatalogViews string string
  | GetCatalogView string string string
  | PostCatalogView string string string UpsertViewRequest
  | DeleteCatalogView string string string "64 word option"
  | PostRestore string string string
  | GetTableCommits string string string
  | GetProjects
  | PostProject string UpsertProjectRequest
  | GetProjectWarehouses string
  | PostProjectWarehouse string string UpsertWarehouseRequest
  | GetWarehouses
  | PostWarehouse string UpsertWarehouseRequest
  | GetStorageProfiles string
  | PostStorageProfile string string UpsertStorageProfileRequest
  | GetManagedViews string string
  | PostManagedView string string string UpsertViewRequest
  | DeleteManagedView string string string "64 word option"
  | GetViewReceipts string string string
  | GetViewReceiptChains string string
  | GetPolicies string
  | PostPolicy string string UpsertPolicyBindingRequest
  | GetModels string string
  | PostModel string string PublishModelRequest
  | GetServers
  | PostServer string UpsertServerRequest
  | GetBootstrap

text \<open>The handler of a route with and without a warehouse in its path.\<close>

definition routed :: "string option \<Rightarrow> 'a \<Rightarrow> (string \<Rightarrow> 'a) \<Rightarrow> 'a" where
  "routed warehouse default_handler prefixed_handler =
     (case warehouse of None \<Rightarrow> default_handler | Some w \<Rightarrow> prefixed_handler w)"

fun serve :: "LakeCatState \<Rightarrow> HeaderMap \<Rightarrow> service_request \<Rightarrow> reply world_op" where
  "serve L h (GetConfig w) = routed w (get_config L h) (\<lambda>v. get_config_for_warehouse L h v)"
| "serve L h (PostNamespace w q) =
     routed w (handle_create_namespace L h q) (\<lambda>v. create_namespace_for_warehouse L h v q)"
| "serve L h (GetNamespaces w q) =
     routed w (handle_list_namespaces L h q) (\<lambda>v. list_namespaces_for_warehouse L h v q)"
| "serve L h (GetNamespace w n) =
     routed w (handle_load_namespace L h n) (\<lambda>v. load_namespace_for_warehouse L h v n)"
| "serve L h (DeleteNamespace w n) =
     routed w (handle_drop_namespace L h n) (\<lambda>v. drop_namespace_for_warehouse L h v n)"
| "serve L h (PostNamespaceProperties w n q) =
     routed w (handle_update_namespace_properties L h n q)
       (\<lambda>v. update_namespace_properties_for_warehouse L h v n q)"
| "serve L h (GetTables w n) =
     routed w (handle_list_tables L h n) (\<lambda>v. list_tables_for_warehouse L h v n)"
| "serve L h (PostTable w n q) =
     routed w (handle_create_table L h n q) (\<lambda>v. create_table_for_warehouse L h v n q)"
| "serve L h (PostRegister w n q) =
     routed w (handle_register_table L h n q) (\<lambda>v. register_table_for_warehouse L h v n q)"
| "serve L h (PostRename w q) =
     routed w (handle_rename_table L h q) (\<lambda>v. rename_table_for_warehouse L h v q)"
| "serve L h (GetTable w n t) =
     routed w (handle_load_table L h n t) (\<lambda>v. load_table_for_warehouse L h v n t)"
| "serve L h (PostCommit w n t q) =
     routed w (handle_commit_table L h n t q) (\<lambda>v. commit_table_for_warehouse L h v n t q)"
| "serve L h (DeleteTable w n t) =
     routed w (handle_delete_table L h n t) (\<lambda>v. delete_table_for_warehouse L h v n t)"
| "serve L h (PostPlan w n t q) =
     routed w (handle_plan_table_scan L h n t q) (\<lambda>v. plan_table_scan_for_warehouse L h v n t q)"
| "serve L h (PostFetchScanTasks w n t q) =
     routed w (handle_fetch_scan_tasks L h n t q) (\<lambda>v. fetch_scan_tasks_for_warehouse L h v n t q)"
| "serve L h (GetCredentials w n t) =
     routed w (handle_load_credentials L h n t) (\<lambda>v. load_credentials_for_warehouse L h v n t)"
| "serve L h (GetCatalogViews w n) = catalog_list_views L h w n"
| "serve L h (GetCatalogView w n v) = catalog_load_view L h w n v"
| "serve L h (PostCatalogView w n v q) = catalog_upsert_view L h w n v q"
| "serve L h (DeleteCatalogView w n v expected) = catalog_drop_view L h w n v expected"
| "serve L h (PostRestore w n t) = handle_restore_table L h w n t"
| "serve L h (GetTableCommits w n t) = handle_list_table_commits L h w n t"
| "serve L h GetProjects = handle_list_projects L h"
| "serve L h (PostProject p q) = handle_upsert_project L h p q"
| "serve L h (GetProjectWarehouses p) = handle_list_project_warehouses L h p"
| "serve L h (PostProjectWarehouse p w q) = handle_upsert_project_warehouse L h p w q"
| "serve L h GetWarehouses = handle_list_warehouses L h"
| "serve L h (PostWarehouse w q) = handle_upsert_warehouse L h w q"
| "serve L h (GetStorageProfiles w) = handle_list_storage_profiles L h w"
| "serve L h (PostStorageProfile w p q) = handle_upsert_storage_profile L h w p q"
| "serve L h (GetManagedViews w n) = handle_list_views L h w n"
| "serve L h (PostManagedView w n v q) = handle_upsert_view L h w n v q"
| "serve L h (DeleteManagedView w n v expected) = handle_drop_view L h w n v expected"
| "serve L h (GetViewReceipts w n v) = handle_list_view_version_receipts L h w n v"
| "serve L h (GetViewReceiptChains w n) = handle_list_view_version_receipt_chains L h w n"
| "serve L h (GetPolicies w) = handle_list_policy_bindings L h w"
| "serve L h (PostPolicy w p q) = handle_upsert_policy_binding L h w p q"
| "serve L h (GetModels w m) = handle_list_model_publications L h w m"
| "serve L h (PostModel w m q) = handle_publish_model L h w m q"
| "serve L h GetServers = handle_list_servers L h"
| "serve L h (PostServer i q) = handle_upsert_server L h i q"
| "serve L h GetBootstrap = handle_querygraph_bootstrap L h"

text \<open>The action the engine has to allow for a request.\<close>

fun request_action :: "service_request \<Rightarrow> CatalogAction" where
  "request_action (GetConfig w) = CatalogConfig"
| "request_action (PostNamespace w q) = NamespaceCreate"
| "request_action (GetNamespaces w q) = NamespaceList"
| "request_action (GetNamespace w n) = NamespaceLoad"
| "request_action (DeleteNamespace w n) = NamespaceDrop"
| "request_action (PostNamespaceProperties w n q) = NamespaceUpdate"
| "request_action (GetTables w n) = NamespaceList"
| "request_action (PostTable w n q) = TableCreate"
| "request_action (PostRegister w n q) = TableRegister"
| "request_action (PostRename w q) = TableRename"
| "request_action (GetTable w n t) = TableLoad"
| "request_action (PostCommit w n t q) = TableCommit"
| "request_action (DeleteTable w n t) = TableDrop"
| "request_action (PostPlan w n t q) = TablePlanScan"
| "request_action (PostFetchScanTasks w n t q) = TablePlanScan"
| "request_action (GetCredentials w n t) = CredentialsVend"
| "request_action (GetCatalogViews w n) = ViewLoad"
| "request_action (GetCatalogView w n v) = ViewLoad"
| "request_action (PostCatalogView w n v q) = ViewManage"
| "request_action (DeleteCatalogView w n v expected) = ViewDrop"
| "request_action (PostRestore w n t) = TableRestore"
| "request_action (GetTableCommits w n t) = TableLoad"
| "request_action GetProjects = ProjectManage"
| "request_action (PostProject p q) = ProjectManage"
| "request_action (GetProjectWarehouses p) = WarehouseManage"
| "request_action (PostProjectWarehouse p w q) = WarehouseManage"
| "request_action GetWarehouses = WarehouseManage"
| "request_action (PostWarehouse w q) = WarehouseManage"
| "request_action (GetStorageProfiles w) = StorageProfileManage"
| "request_action (PostStorageProfile w p q) = StorageProfileManage"
| "request_action (GetManagedViews w n) = ViewManage"
| "request_action (PostManagedView w n v q) = ViewManage"
| "request_action (DeleteManagedView w n v expected) = ViewDrop"
| "request_action (GetViewReceipts w n v) = ViewLoad"
| "request_action (GetViewReceiptChains w n) = ViewLoad"
| "request_action (GetPolicies w) = PolicyManage"
| "request_action (PostPolicy w p q) = PolicyManage"
| "request_action (GetModels w m) = PolicyManage"
| "request_action (PostModel w m q) = PolicyManage"
| "request_action GetServers = ServerManage"
| "request_action (PostServer i q) = ServerManage"
| "request_action GetBootstrap = GraphRead"

end
