(* ===== verification/HandlerLaws.thy ===== *)
theory HandlerLaws
  imports ServiceRouter CatalogMachine SecurityProperties
begin

section \<open>What every handler keeps\<close>

text \<open>
  A handler touches the catalog only through the operations of the store, on identities it has
  parsed, and never drains the outbox. The locale \<open>world_invariant\<close> states what a property of the
  world has to withstand: the other requests, the clock, the object store and one store operation; its
  theorem is that serving any request keeps the property.
\<close>

definition keeps :: "(world \<Rightarrow> bool) \<Rightarrow> 'a world_op \<Rightarrow> bool" where
  "keeps I f \<longleftrightarrow> (\<forall>w. I w \<longrightarrow> I (snd (f w)))"

fun drains :: "request \<Rightarrow> bool" where
  "drains (MarkOutboxDelivered ids) = True"
| "drains _ = False"

text \<open>What handlers ask of the store.\<close>

definition served :: "request \<Rightarrow> bool" where
  "served req \<longleftrightarrow> well_named req \<and> \<not> drains req"

named_theorems keeps_rules

lemma keepsI: "(\<And>w. I w \<Longrightarrow> I (snd (f w))) \<Longrightarrow> keeps I f"
  by (simp add: keeps_def)

lemma keeps_lift [keeps_rules]: "keeps I (lift_result r)"
  by (simp add: keeps_def lift_result_def)

lemma keeps_bind [keeps_rules]:
  "keeps I f \<Longrightarrow> (\<And>a w w'. f w = (Inr a, w') \<Longrightarrow> keeps I (k a)) \<Longrightarrow> keeps I (and_then_op f k)"
  unfolding keeps_def and_then_op_def by (force split: prod.split sum.split)

lemma keeps_if [keeps_rules]: "(b \<Longrightarrow> keeps I f) \<Longrightarrow> (\<not> b \<Longrightarrow> keeps I g) \<Longrightarrow> keeps I (if b then f else g)"
  by simp

lemma keeps_option [keeps_rules]:
  "(x = None \<Longrightarrow> keeps I f) \<Longrightarrow> (\<And>a. x = Some a \<Longrightarrow> keeps I (g a)) \<Longrightarrow>
   keeps I (case x of None \<Rightarrow> f | Some a \<Rightarrow> g a)"
  by (simp split: option.split)

lemma keeps_prod [keeps_rules]: "(\<And>a b. x = (a, b) \<Longrightarrow> keeps I (f a b)) \<Longrightarrow> keeps I (case x of (a, b) \<Rightarrow> f a b)"
  by (simp split: prod.split)

lemma keeps_next_uuid [keeps_rules]: "keeps I next_uuid"
  by (simp add: keeps_def next_uuid_def)

lemma keeps_routed [keeps_rules]:
  "keeps I f \<Longrightarrow> (\<And>w. keeps I (g w)) \<Longrightarrow> keeps I (routed warehouse f g)"
  by (simp add: routed_def split: option.split)

subsection \<open>Identities a handler has parsed\<close>

lemma lift_Ok: "lift_result r w = (Inr a, w') \<longleftrightarrow> r = Ok a \<and> w' = w"
  by (auto simp: lift_result_def)

lemma warehouse_name_new_ok: "warehouse_name_new s = Ok w \<longleftrightarrow> w = s \<and> valid_name s"
  by (auto simp: warehouse_name_new_def and_then_ok validate_name_ok)

lemma table_name_new_ok: "table_name_new s = Ok n \<longleftrightarrow> n = s \<and> valid_name s"
  by (auto simp: table_name_new_def and_then_ok validate_name_ok)

lemma namespace_from_str_valid: "namespace_from_str s = Ok ns \<Longrightarrow> valid_namespace ns"
  by (auto simp: namespace_from_str_def namespace_new_ok split: if_splits)

lemma table_identifier_valid:
  "table_identifier_in_warehouse w i = Ok ident \<Longrightarrow> valid_name w \<Longrightarrow> valid_ident ident"
  by (auto simp: table_identifier_in_warehouse_def and_then_ok namespace_new_ok table_name_new_ok valid_ident_def)

lemmas table_authorize_defs = authorize_table_create_def authorize_table_register_def
  authorize_table_load_def authorize_table_commit_def authorize_table_drop_def
  authorize_table_restore_def table_create_from_receipt_def table_register_from_receipt_def
  table_load_from_receipt_def table_commit_from_receipt_def table_drop_from_receipt_def
  table_restore_from_receipt_def

text \<open>A capability is for the table that was asked for.\<close>

lemma authorized_table:
  "authorize_table_create L s claimed i = Ok cap1 \<Longrightarrow> cap_resource cap1 = i"
  "authorize_table_register L s claimed i = Ok cap2 \<Longrightarrow> cap_resource cap2 = i"
  "authorize_table_load L s claimed i = Ok cap3 \<Longrightarrow> cap_resource cap3 = i"
  "authorize_table_commit L s claimed i = Ok cap4 \<Longrightarrow> cap_resource cap4 = i"
  "authorize_table_drop L s claimed i = Ok cap5 \<Longrightarrow> cap_resource cap5 = i"
  "authorize_table_restore L s claimed i = Ok cap6 \<Longrightarrow> cap_resource cap6 = i"
  by (auto simp: table_authorize_defs and_then_ok table_capability_iff)

lemma authorized_rename:
  "authorize_table_rename L s claimed i j = Ok cap \<Longrightarrow>
   rt_source (cap_resource cap) = i \<and> rt_destination (cap_resource cap) = j"
  by (auto simp: authorize_table_rename_def table_rename_from_receipt_def and_then_ok ok_or_ok Let_def
      table_rename_target_new_def split: if_splits)

lemma requested_view_names:
  "requested_view L warehouse ns view_text request p now = Ok v \<Longrightarrow>
     vw_warehouse v = warehouse \<and> vw_namespace v = ns \<and> valid_name (vw_name v)"
  by (auto simp: requested_view_def and_then_ok table_name_new_ok view_new_def with_columns_def Let_def)

lemma store_read_Ok: "store_read f w = (Inr a, w') \<Longrightarrow> \<exists>s. f s = Ok a"
  by (auto simp: store_read_def Let_def)

lemma at_time_Ok: "at_time f w = (Inr a, w') \<Longrightarrow> \<exists>now. f now = Ok a"
  by (auto simp: at_time_def)

lemma authorize_request_Ok: "authorize_request L h auth w = (Inr a, w') \<Longrightarrow> \<exists>s claimed. auth L s claimed = Ok a"
  by (auto simp: authorize_request_def and_then_op_ok dest!: store_read_Ok)

lemma management_warehouse_Ok: "management_warehouse t w = (Inr a, w') \<Longrightarrow> valid_name a"
  by (auto simp: management_warehouse_def lift_Ok warehouse_name_new_ok)

lemma prefixed_warehouse_Ok: "prefixed_catalog_warehouse L t w = (Inr a, w') \<Longrightarrow> valid_name a"
  by (auto simp: prefixed_catalog_warehouse_def and_then_op_ok lift_Ok warehouse_name_new_ok)

lemma table_record_new_ident [simp]: "tr_ident (table_record_new now ident location ml metadata p) = ident"
  by (simp add: table_record_new_def Let_def)

text \<open>What the steps before it tell a step about its operands.\<close>

lemmas step_results = store_read_Ok at_time_Ok authorize_request_Ok management_warehouse_Ok
  prefixed_warehouse_Ok authorized_rename table_identifier_valid namespace_from_str_valid
  rest_table_ident_valid requested_view_names

lemma snapshot_ident: "load_table s i = Ok t \<Longrightarrow> commit_snapshot_try_from_table t = Ok c \<Longrightarrow> cs_ident c = i"
  by (auto simp: load_table_def commit_snapshot_try_from_table_def validate_table_record_identity_def
      and_then_ok split: if_splits)

lemmas handler_defs = get_config_def get_config_for_warehouse_def handle_create_namespace_def
  create_namespace_for_warehouse_def handle_list_namespaces_def list_namespaces_for_warehouse_def
  handle_load_namespace_def load_namespace_for_warehouse_def handle_drop_namespace_def
  drop_namespace_for_warehouse_def handle_update_namespace_properties_def
  update_namespace_properties_for_warehouse_def handle_list_tables_def list_tables_for_warehouse_def
  handle_create_table_def create_table_for_warehouse_def handle_register_table_def
  register_table_for_warehouse_def handle_rename_table_def rename_table_for_warehouse_def
  handle_load_table_def load_table_for_warehouse_def handle_commit_table_def
  commit_table_for_warehouse_def handle_delete_table_def delete_table_for_warehouse_def
  handle_plan_table_scan_def plan_table_scan_for_warehouse_def handle_fetch_scan_tasks_def
  fetch_scan_tasks_for_warehouse_def handle_load_credentials_def load_credentials_for_warehouse_def

subsection \<open>The invariant rule\<close>

definition after_request :: "env \<Rightarrow> request \<Rightarrow> world \<Rightarrow> world" where
  "after_request E req w =
     (tick w)\<lparr>wd_catalog := snd (exec E (wd_clock w (wd_ticks w)) req (wd_catalog w))\<rparr>"

locale world_invariant =
  fixes I :: "env \<Rightarrow> world \<Rightarrow> bool"
  assumes others: "I E w \<Longrightarrow> I E (others_run w)"
    and ticks: "I E w \<Longrightarrow> I E (tick w)"
    and objects: "I E w \<Longrightarrow> I E (w\<lparr>wd_objects := os\<rparr>)"
    and requests: "I E w \<Longrightarrow> served req \<Longrightarrow> I E (after_request E req w)"
begin

lemma keeps_read [keeps_rules]: "keeps (I (lc_env L)) (store_read f)"
  by (simp add: keeps_def store_read_def Let_def others)

lemma keeps_at_time [keeps_rules]: "keeps (I (lc_env L)) (at_time f)"
  by (simp add: keeps_def at_time_def ticks)

lemma keeps_object [keeps_rules]: "keeps (I (lc_env L)) (object_call f)"
  by (simp add: keeps_def object_call_def Let_def objects split: prod.split)

lemma keeps_call:
  assumes "served req" "\<And>now s. snd (f now s) = snd (exec (lc_env L) now req s)"
  shows "keeps (I (lc_env L)) (store_call f)"
proof (rule keepsI)
  fix w assume "I (lc_env L) w"
  then have "I (lc_env L) (after_request (lc_env L) req (others_run w))" by (intro requests others assms(1))
  also have "after_request (lc_env L) req (others_run w) = snd (store_call f w)"
    by (simp add: after_request_def store_call_def Let_def assms(2) [symmetric] split: prod.split)
  finally show "I (lc_env L) (snd (store_call f w))" .
qed

lemma keeps_clean_up [keeps_rules]: "keeps (I (lc_env L)) f \<Longrightarrow> keeps (I (lc_env L)) (or_clean_up L write previous f)"
  unfolding keeps_def or_clean_up_def by (force intro: objects split: prod.split sum.split)

lemma discard_snd [simp]: "snd (discard rs) = snd rs"
  by (simp add: discard_def)

lemma keeps_calls [keeps_rules]:
  "keeps (I (lc_env L)) (store_call (\<lambda>_. create_namespace_with_properties w ns ps))"
  "keeps (I (lc_env L)) (store_call (\<lambda>_. update_namespace_properties w ns u))"
  "keeps (I (lc_env L)) (store_call (\<lambda>_. drop_namespace (lc_env L) w ns))"
  "valid_ident (tr_ident t) \<Longrightarrow> keeps (I (lc_env L)) (store_call (\<lambda>_. create_table t))"
  "valid_ident i \<Longrightarrow> valid_ident j \<Longrightarrow> keeps (I (lc_env L)) (store_call (\<lambda>now. rename_table (lc_env L) now i j p auth))"
  "valid_ident i \<Longrightarrow> keeps (I (lc_env L)) (store_call (\<lambda>now. commit_table (lc_env L) now i c))"
  "valid_ident i \<Longrightarrow> keeps (I (lc_env L)) (store_call (\<lambda>now. soft_delete_table (lc_env L) now i p auth))"
  "valid_ident i \<Longrightarrow> keeps (I (lc_env L)) (store_call (\<lambda>now. restore_table (lc_env L) now i p auth))"
  "valid_name (vw_warehouse v) \<Longrightarrow> valid_namespace (vw_namespace v) \<Longrightarrow> valid_name (vw_name v) \<Longrightarrow>
     keeps (I (lc_env L)) (store_call (\<lambda>now. upsert_view_if_version (lc_env L) now v expected))"
  "valid_name w \<Longrightarrow> valid_namespace ns \<Longrightarrow> valid_name n \<Longrightarrow>
     keeps (I (lc_env L)) (store_call (\<lambda>now. drop_view_if_version (lc_env L) now w ns n p expected))"
  "keeps (I (lc_env L)) (store_call (\<lambda>_. upsert_server (lc_env L) r1))"
  "keeps (I (lc_env L)) (store_call (\<lambda>_. upsert_project (lc_env L) r2))"
  "keeps (I (lc_env L)) (store_call (\<lambda>_. upsert_warehouse (lc_env L) r3))"
  "keeps (I (lc_env L)) (store_call (\<lambda>_. upsert_storage_profile (lc_env L) r4))"
  "keeps (I (lc_env L)) (store_call (\<lambda>_. upsert_policy_binding (lc_env L) r5))"
  "keeps (I (lc_env L)) (store_call (\<lambda>now. publish_model (lc_env L) now m expected))"
  "keeps (I (lc_env L)) (store_call (\<lambda>_. save_governed_scan_grant (lc_env L) g))"
  "keeps (I (lc_env L)) (store_call (\<lambda>_. record_audit_event (lc_env L) ev))"
  by (rule keeps_call [where req = "CreateNamespace w ns ps"]
      keeps_call [where req = "UpdateNamespaceProperties w ns u"]
      keeps_call [where req = "DropNamespace w ns"]
      keeps_call [where req = "CreateTable t"]
      keeps_call [where req = "RenameTable i j p auth"]
      keeps_call [where req = "CommitTable i c"]
      keeps_call [where req = "SoftDeleteTable i p auth"]
      keeps_call [where req = "RestoreTable i p auth"]
      keeps_call [where req = "UpsertView v expected"]
      keeps_call [where req = "DropView w ns n p expected"]
      keeps_call [where req = "UpsertServer r1"]
      keeps_call [where req = "UpsertProject r2"]
      keeps_call [where req = "UpsertWarehouse r3"]
      keeps_call [where req = "UpsertStorageProfile r4"]
      keeps_call [where req = "UpsertPolicyBinding r5"]
      keeps_call [where req = "PublishModel m expected"]
      keeps_call [where req = "SaveGovernedScanGrant g"]
      keeps_call [where req = "RecordAuditEvent ev"], simp_all add: served_def)+

lemma keeps_event [keeps_rules]: "keeps (I (lc_env L)) (record_event L t i p payload)"
  unfolding record_event_def by (intro keeps_rules)

lemma keeps_authorize [keeps_rules]: "keeps (I (lc_env L)) (authorize_request L h auth)"
  unfolding authorize_request_def identify_def by (intro keeps_rules)

lemma keeps_identify [keeps_rules]: "keeps (I (lc_env L)) (identify L h)"
  unfolding identify_def by (intro keeps_rules)

lemma keeps_management_warehouse [keeps_rules]: "keeps (I (lc_env L)) (management_warehouse t)"
  unfolding management_warehouse_def by (intro keeps_rules)

lemma keeps_prefixed [keeps_rules]: "keeps (I (lc_env L)) (prefixed_catalog_warehouse L t)"
  unfolding prefixed_catalog_warehouse_def by (intro keeps_rules)

text \<open>One lemma for each group of handlers, and the theorem.\<close>

lemma keeps_namespaces [keeps_rules]:
  "keeps (I (lc_env L)) (get_config_in_warehouse w L h)"
  "keeps (I (lc_env L)) (create_namespace_in_warehouse w L h q1)"
  "keeps (I (lc_env L)) (list_namespaces_in_warehouse w L h q2)"
  "keeps (I (lc_env L)) (load_namespace_in_warehouse w L h n)"
  "keeps (I (lc_env L)) (drop_namespace_in_warehouse w L h n)"
  "keeps (I (lc_env L)) (update_namespace_properties_in_warehouse w L h n q3)"
  "keeps (I (lc_env L)) (list_tables_in_warehouse w L h n)"
  unfolding get_config_in_warehouse_def create_namespace_in_warehouse_def list_namespaces_in_warehouse_def
    load_namespace_in_warehouse_def drop_namespace_in_warehouse_def
    update_namespace_properties_in_warehouse_def list_tables_in_warehouse_def Let_def
  by (intro keeps_rules)+

lemma keeps_create_table [keeps_rules]: "keeps (I (lc_env L)) (create_table_in_warehouse w L h n q)"
  unfolding create_table_in_warehouse_def write_initial_metadata_def Let_def
  by (intro keeps_rules) (auto simp: lift_Ok at_time_def and_then_ok dest!: step_results authorized_table)

lemma keeps_register_table [keeps_rules]: "keeps (I (lc_env L)) (register_table_in_warehouse w L h n q)"
  unfolding register_table_in_warehouse_def Let_def
  by (intro keeps_rules) (auto simp: lift_Ok at_time_def and_then_ok dest!: step_results authorized_table)

lemma keeps_rename_table [keeps_rules]: "valid_name w \<Longrightarrow> keeps (I (lc_env L)) (rename_table_in_warehouse w L h q)"
  unfolding rename_table_in_warehouse_def Let_def
  by (intro keeps_rules) (auto simp: lift_Ok dest!: step_results)

lemma keeps_one_table [keeps_rules]:
  "keeps (I (lc_env L)) (load_table_in_warehouse w L h n t)"
  "keeps (I (lc_env L)) (delete_table_in_warehouse w L h n t)"
  "keeps (I (lc_env L)) (handle_restore_table L h w n t)"
  "keeps (I (lc_env L)) (handle_list_table_commits L h w n t)"
  unfolding load_table_in_warehouse_def delete_table_in_warehouse_def handle_restore_table_def
    handle_list_table_commits_def Let_def
  by ((intro keeps_rules; auto simp: lift_Ok dest!: step_results authorized_table)+)

lemma keeps_commit [keeps_rules]: "keeps (I (lc_env L)) (commit_table_in_warehouse w L h n t q)"
  unfolding commit_table_in_warehouse_def commit_loaded_table_def commit_table_with_snapshot_def Let_def
  by (intro keeps_rules) (auto simp: lift_Ok snapshot_ident dest!: step_results authorized_table)

lemma keeps_views [keeps_rules]:
  "keeps (I (lc_env L)) (handle_list_views L h w n)"
  "keeps (I (lc_env L)) (catalog_list_views L h w n)"
  "keeps (I (lc_env L)) (catalog_load_view L h w n v)"
  "keeps (I (lc_env L)) (handle_list_view_version_receipts L h w n v)"
  "keeps (I (lc_env L)) (handle_list_view_version_receipt_chains L h w n)"
  "keeps (I (lc_env L)) (handle_upsert_view L h w n v q)"
  "keeps (I (lc_env L)) (catalog_upsert_view L h w n v q)"
  "keeps (I (lc_env L)) (handle_drop_view L h w n v e)"
  "keeps (I (lc_env L)) (catalog_drop_view L h w n v e)"
  unfolding handle_list_views_def catalog_list_views_def catalog_load_view_def
    handle_list_view_version_receipts_def handle_list_view_version_receipt_chains_def
    handle_upsert_view_def catalog_upsert_view_def handle_drop_view_def catalog_drop_view_def
    record_view_drop_audit_def Let_def
  by ((intro keeps_rules; auto simp: lift_Ok table_name_new_ok dest!: step_results)+)

lemma keeps_management [keeps_rules]:
  "keeps (I (lc_env L)) (handle_list_storage_profiles L h w)"
  "keeps (I (lc_env L)) (handle_upsert_storage_profile L h w p q1)"
  "keeps (I (lc_env L)) (handle_list_warehouses L h)"
  "keeps (I (lc_env L)) (handle_list_project_warehouses L h p)"
  "keeps (I (lc_env L)) (handle_upsert_warehouse L h w q2)"
  "keeps (I (lc_env L)) (handle_upsert_project_warehouse L h p w q2)"
  "keeps (I (lc_env L)) (handle_list_projects L h)"
  "keeps (I (lc_env L)) (handle_upsert_project L h p q3)"
  "keeps (I (lc_env L)) (handle_list_servers L h)"
  "keeps (I (lc_env L)) (handle_upsert_server L h p q4)"
  "keeps (I (lc_env L)) (handle_list_policy_bindings L h w)"
  "keeps (I (lc_env L)) (handle_upsert_policy_binding L h w p q5)"
  "keeps (I (lc_env L)) (handle_publish_model L h w p q6)"
  "keeps (I (lc_env L)) (handle_list_model_publications L h w p)"
  unfolding handle_list_storage_profiles_def handle_upsert_storage_profile_def handle_list_warehouses_def
    handle_list_project_warehouses_def handle_upsert_warehouse_def handle_upsert_project_warehouse_def
    handle_list_projects_def handle_upsert_project_def handle_list_servers_def handle_upsert_server_def
    handle_list_policy_bindings_def handle_upsert_policy_binding_def handle_publish_model_def
    handle_list_model_publications_def Let_def
  by (intro keeps_rules)+

lemma keeps_reads [keeps_rules]:
  "keeps (I (lc_env L)) (plan_table_scan_in_warehouse w L h n t q1)"
  "keeps (I (lc_env L)) (fetch_scan_tasks_in_warehouse w L h n t q2)"
  "keeps (I (lc_env L)) (load_credentials_in_warehouse w L h n t)"
  unfolding plan_table_scan_in_warehouse_def plan_scan_with_capability_def fetch_scan_tasks_in_warehouse_def
    load_credentials_in_warehouse_def Let_def
  by (intro keeps_rules)+

lemma keeps_bootstrap [keeps_rules]: "keeps (I (lc_env L)) (handle_querygraph_bootstrap L h)"
  unfolding handle_querygraph_bootstrap_def querygraph_tenant_projection_def Let_def
  by (intro keeps_rules)

lemma keeps_config [keeps_rules]: "keeps (I (lc_env L)) (get_config_for_warehouse L h w)"
  unfolding get_config_for_warehouse_def by (intro keeps_rules)

lemma keeps_serve:
  "valid_name (lc_warehouse L) \<Longrightarrow> keeps (I (lc_env L)) (serve L h q)"
  by (cases q; simp only: serve.simps handler_defs; intro keeps_rules;
      auto dest!: step_results)

end

end
