(* ===== verification/ServiceSafety.thy ===== *)
theory ServiceSafety
  imports HandlerLaws
begin

section \<open>Serving requests: authorization and the catalog machine\<close>

text \<open>
  Properties of \<open>serve\<close> as a whole: a request whose action the engine does not allow has no effect;
  any run of requests only visits states of the catalog machine; no handler loses an outbox event.
\<close>

subsection \<open>Requests that are refused\<close>

text \<open>
  Who asks: the principal the headers name, after the verification of a TypeDID envelope; no one when the
  headers or the envelope are not accepted. The engine denies an action to a principal when no request
  of this principal for the action is allowed.
\<close>

definition request_principal :: "LakeCatState \<Rightarrow> HeaderMap \<Rightarrow> Principal option" where
  "request_principal L h =
     (case and_then (request_identity (lc_env L) (lc_header_str L) h)
             (verify_typedid_identity (lc_env L) (lc_typedid_verifier L)) of
        Inl _ \<Rightarrow> None | Inr identity \<Rightarrow> Some (ri_principal identity))"

definition denies :: "LakeCatState \<Rightarrow> Principal \<Rightarrow> CatalogAction \<Rightarrow> bool" where
  "denies L p action \<longleftrightarrow>
     (\<forall>q r. aq_principal q = p \<longrightarrow> aq_action q = action \<longrightarrow> lc_governance L q = Inr r \<longrightarrow> \<not> ar_allowed r)"

definition refused_to :: "LakeCatState \<Rightarrow> HeaderMap \<Rightarrow> CatalogAction \<Rightarrow> bool" where
  "refused_to L h action \<longleftrightarrow> (\<forall>p. request_principal L h = Some p \<longrightarrow> denies L p action)"

text \<open>The same for an identity that was read from the headers.\<close>

definition denied_to :: "LakeCatState \<Rightarrow> RequestIdentity \<Rightarrow> CatalogAction \<Rightarrow> bool" where
  "denied_to L claimed action \<longleftrightarrow>
     (\<forall>identity. verify_typedid_identity (lc_env L) (lc_typedid_verifier L) claimed = Ok identity \<longrightarrow>
        denies L (ri_principal identity) action)"

lemma refused_claim:
  "refused_to L h action \<Longrightarrow> request_identity (lc_env L) (lc_header_str L) h = Ok claimed \<Longrightarrow>
     denied_to L claimed action"
  by (auto simp: refused_to_def request_principal_def denied_to_def)

text \<open>The world moves by the clock and by the other requests alone.\<close>

inductive waits :: "world \<Rightarrow> world \<Rightarrow> bool" where
  waits_refl: "waits w w"
| waits_others: "waits w w' \<Longrightarrow> waits w (others_run w')"
| waits_tick: "waits w w' \<Longrightarrow> waits w (tick w')"

lemma waits_trans: "waits v w \<Longrightarrow> waits u v \<Longrightarrow> waits u w"
  by (induction rule: waits.induct) (auto intro: waits.intros)

lemma waits_objects: "waits w w' \<Longrightarrow> wd_objects w' = wd_objects w"
  by (induction rule: waits.induct) (auto simp: others_run_def tick_def split: list.splits)

lemma waits_alone: "waits w w' \<Longrightarrow> wd_others w = [] \<Longrightarrow> wd_others w' = [] \<and> wd_catalog w' = wd_catalog w"
  by (induction rule: waits.induct) (auto simp: others_run_def tick_def)

text \<open>The states of the catalog that pass meanwhile.\<close>

definition visits :: "world \<Rightarrow> MemoryState \<Rightarrow> bool" where
  "visits w s \<longleftrightarrow> (\<exists>v. waits w v \<and> wd_catalog v = s)"

definition waiting :: "'a world_op \<Rightarrow> bool" where
  "waiting f \<longleftrightarrow> (\<forall>w. waits w (snd (f w)))"

definition refuses :: "'a world_op \<Rightarrow> bool" where
  "refuses f \<longleftrightarrow> (\<forall>w. \<exists>e w'. f w = (Inl e, w') \<and> waits w w')"

named_theorems refusal_rules

lemma waiting_rules:
  "waiting (lift_result r)"
  "waiting (store_read f)"
  "waiting (at_time g)"
  by (auto simp: waiting_def lift_result_def store_read_def at_time_def Let_def intro: waits.intros)

lemma waiting_bind:
  assumes "waiting f" "\<And>a. waiting (k a)"
  shows "waiting (and_then_op f k)"
  unfolding waiting_def
proof
  fix w
  show "waits w (snd (and_then_op f k w))"
    using assms [unfolded waiting_def]
    by (auto simp: and_then_op_def split: prod.split sum.split intro: waits_trans) (metis snd_conv waits_trans)+
qed

lemma waiting_steps:
  "waiting (identify L h)" "waiting (management_warehouse t)" "waiting (prefixed_catalog_warehouse L t)"
  "waiting next_uuid"
  unfolding identify_def management_warehouse_def prefixed_catalog_warehouse_def
  by (intro waiting_rules waiting_bind)+ (simp add: waiting_def next_uuid_def waits_refl)

lemma waiting_authorize: "waiting (authorize_request L h auth)"
  unfolding authorize_request_def by (intro waiting_bind waiting_rules waiting_steps)

lemma refuses_first: "refuses f \<Longrightarrow> refuses (and_then_op f k)"
  by (auto simp: refuses_def and_then_op_def) (metis (mono_tags, lifting) old.prod.case old.sum.simps(5))

lemma refuses_then:
  assumes "waiting f" "\<And>a. refuses (k a)"
  shows "refuses (and_then_op f k)"
  unfolding refuses_def
proof
  fix w
  obtain r w1 where f: "f w = (r, w1)" by (cases "f w")
  then have w1: "waits w w1" using assms(1) by (auto simp: waiting_def dest: spec [of _ w])
  show "\<exists>e w'. and_then_op f k w = (Inl e, w') \<and> waits w w'"
  proof (cases r)
    case (Inl e)
    then show ?thesis using f w1 by (auto simp: and_then_op_def)
  next
    case (Inr a)
    obtain e w' where "k a w1 = (Inl e, w')" "waits w1 w'"
      using assms(2) [of a, unfolded refuses_def, rule_format, of w1] by blast
    then show ?thesis using f Inr w1 by (auto simp: and_then_op_def intro: waits_trans)
  qed
qed

lemma refuses_error: "refuses (lift_result (Inl e))"
  by (auto simp: refuses_def lift_result_def intro: waits_refl)

lemma refuses_option:
  "(x = None \<Longrightarrow> refuses f) \<Longrightarrow> (\<And>a. x = Some a \<Longrightarrow> refuses (g a)) \<Longrightarrow>
   refuses (case x of None \<Rightarrow> f | Some a \<Rightarrow> g a)"
  by (simp split: option.split)

lemma refuses_routed: "refuses f \<Longrightarrow> (\<And>w. refuses (g w)) \<Longrightarrow> refuses (routed warehouse f g)"
  by (simp add: routed_def split: option.split)

lemma refuses_read: "(\<And>s. \<exists>e. f s = Inl e) \<Longrightarrow> refuses (store_read f)"
  by (auto simp: refuses_def store_read_def Let_def intro: waits.intros)

lemma refuses_identified:
  assumes "\<And>claimed. request_identity (lc_env L) (lc_header_str L) h = Ok claimed \<Longrightarrow> refuses (k claimed)"
  shows "refuses (and_then_op (identify L h) k)"
proof (cases "request_identity (lc_env L) (lc_header_str L) h")
  case (Inl e)
  then show ?thesis
    by (auto simp: refuses_def and_then_op_def identify_def lift_result_def intro: waits_refl)
next
  case (Inr claimed)
  with assms [OF Inr] show ?thesis
    by (simp add: refuses_def and_then_op_def identify_def lift_result_def)
qed

lemma refuses_authorize:
  "(\<And>s claimed. request_identity (lc_env L) (lc_header_str L) h = Ok claimed \<Longrightarrow> \<exists>e. auth L s claimed = Inl e) \<Longrightarrow>
   refuses (authorize_request L h auth)"
  unfolding authorize_request_def by (intro refuses_identified refuses_read)

subsection \<open>Every authorize function refuses what the engine denies\<close>

lemma not_ok_err: "(\<And>a. r \<noteq> Inr a) \<Longrightarrow> \<exists>e. r = Inl e"
  by (cases r) auto

lemma denied_engine:
  "denied_to L claimed (aq_action q) \<Longrightarrow>
   verify_typedid_identity (lc_env L) (lc_typedid_verifier L) claimed = Ok identity \<Longrightarrow>
   aq_principal q = ri_principal identity \<Longrightarrow> lc_governance L q = Inr r \<Longrightarrow> \<not> ar_allowed r"
  by (auto simp: denied_to_def denies_def)

lemma authorize_context_denied:
  "denied_to L claimed action \<Longrightarrow> authorize_with_operation_context L s claimed action t operation_context \<noteq> Inr r"
  by (auto simp: authorize_with_operation_context_def and_then_ok Let_def dest: denied_engine [rotated 3]
      split: if_splits)

lemma authorize_denied: "denied_to L claimed action \<Longrightarrow> authorize L s claimed action t \<noteq> Inr r"
  by (simp add: authorize_def authorize_context_denied)

lemma authorize_table_denied:
  "denied_to L claimed TableCreate \<Longrightarrow> \<exists>e. authorize_table_create L s claimed i = Inl e"
  "denied_to L claimed TableRegister \<Longrightarrow> \<exists>e. authorize_table_register L s claimed i = Inl e"
  "denied_to L claimed TableLoad \<Longrightarrow> \<exists>e. authorize_table_load L s claimed i = Inl e"
  "denied_to L claimed TableCommit \<Longrightarrow> \<exists>e. authorize_table_commit L s claimed i = Inl e"
  "denied_to L claimed TableDrop \<Longrightarrow> \<exists>e. authorize_table_drop L s claimed i = Inl e"
  "denied_to L claimed TableRestore \<Longrightarrow> \<exists>e. authorize_table_restore L s claimed i = Inl e"
  "denied_to L claimed TablePlanScan \<Longrightarrow> \<exists>e. authorize_table_scan L s claimed i = Inl e"
  "denied_to L claimed CredentialsVend \<Longrightarrow> \<exists>e. authorize_credentials_vend L s claimed i = Inl e"
  "denied_to L claimed TableRename \<Longrightarrow> \<exists>e. authorize_table_rename L s claimed i j = Inl e"
  by (rule not_ok_err, simp add: table_authorize_defs authorize_table_scan_def
      authorize_credentials_vend_def authorize_table_rename_def Let_def and_then_ok authorize_denied
      authorize_context_denied)+

lemma authorize_catalog_denied:
  "denied_to L claimed CatalogConfig \<Longrightarrow> \<exists>e. authorize_catalog_config L s claimed = Inl e"
  "denied_to L claimed NamespaceCreate \<Longrightarrow> \<exists>e. authorize_namespace_create L s claimed = Inl e"
  "denied_to L claimed NamespaceList \<Longrightarrow> \<exists>e. authorize_namespace_list L s claimed = Inl e"
  "denied_to L claimed NamespaceLoad \<Longrightarrow> \<exists>e. authorize_namespace_load L s claimed = Inl e"
  "denied_to L claimed NamespaceUpdate \<Longrightarrow> \<exists>e. authorize_namespace_update L s claimed = Inl e"
  "denied_to L claimed NamespaceDrop \<Longrightarrow> \<exists>e. authorize_namespace_drop L s claimed = Inl e"
  "denied_to L claimed ServerManage \<Longrightarrow> \<exists>e. authorize_server_manage L s claimed = Inl e"
  "denied_to L claimed ProjectManage \<Longrightarrow> \<exists>e. authorize_project_manage L s claimed = Inl e"
  "denied_to L claimed WarehouseManage \<Longrightarrow> \<exists>e. authorize_warehouse_manage L s claimed = Inl e"
  "denied_to L claimed StorageProfileManage \<Longrightarrow> \<exists>e. authorize_storage_profile_manage L s claimed = Inl e"
  "denied_to L claimed ViewManage \<Longrightarrow> \<exists>e. authorize_view_manage L s claimed = Inl e"
  "denied_to L claimed ViewLoad \<Longrightarrow> \<exists>e. authorize_view_load L s claimed = Inl e"
  "denied_to L claimed ViewDrop \<Longrightarrow> \<exists>e. authorize_view_drop L s claimed = Inl e"
  "denied_to L claimed PolicyManage \<Longrightarrow> \<exists>e. authorize_policy_manage L s claimed = Inl e"
  "denied_to L claimed LineageRead \<Longrightarrow> \<exists>e. authorize_lineage_read L s claimed = Inl e"
  "denied_to L claimed GraphRead \<Longrightarrow> \<exists>e. authorize_graph_read L s claimed = Inl e"
  by (rule not_ok_err, simp add: authorize_catalog_config_def authorize_namespace_create_def
      authorize_namespace_list_def authorize_namespace_load_def authorize_namespace_update_def
      authorize_namespace_drop_def authorize_server_manage_def authorize_project_manage_def
      authorize_warehouse_manage_def authorize_storage_profile_manage_def authorize_view_manage_def
      authorize_view_load_def authorize_view_drop_def authorize_policy_manage_def authorize_graph_read_def
      authorize_lineage_read_def and_then_ok
      authorize_denied)+

subsection \<open>Every handler authorizes before it acts\<close>

lemma refuses_authorized [refusal_rules]:
  "denied_to L claimed TableCreate \<Longrightarrow> refuses (and_then_op (store_read (\<lambda>s. authorize_table_create L s claimed i)) k1)"
  "denied_to L claimed TableLoad \<Longrightarrow> refuses (and_then_op (store_read (\<lambda>s. authorize_table_load L s claimed i)) k2)"
  "denied_to L claimed TableCommit \<Longrightarrow> refuses (and_then_op (store_read (\<lambda>s. authorize_table_commit L s claimed i)) k3)"
  "denied_to L claimed TableDrop \<Longrightarrow> refuses (and_then_op (store_read (\<lambda>s. authorize_table_drop L s claimed i)) k4)"
  "denied_to L claimed TableRestore \<Longrightarrow> refuses (and_then_op (store_read (\<lambda>s. authorize_table_restore L s claimed i)) k5)"
  "denied_to L claimed TablePlanScan \<Longrightarrow> refuses (and_then_op (store_read (\<lambda>s. authorize_table_scan L s claimed i)) k6)"
  "denied_to L claimed CredentialsVend \<Longrightarrow>
     refuses (and_then_op (store_read (\<lambda>s. authorize_credentials_vend L s claimed i)) k7)"
  by (intro refuses_first refuses_read authorize_table_denied; assumption)+

lemma refuses_authorized_request [refusal_rules]:
  "refused_to L h TableRegister \<Longrightarrow>
     refuses (and_then_op (authorize_request L h (\<lambda>L s claimed. authorize_table_register L s claimed i)) k0)"
  "refused_to L h TableLoad \<Longrightarrow>
     refuses (and_then_op (authorize_request L h (\<lambda>L s claimed. authorize_table_load L s claimed i)) k1)"
  "refused_to L h TableRename \<Longrightarrow>
     refuses (and_then_op (authorize_request L h (\<lambda>L s claimed. authorize_table_rename L s claimed i j)) k2)"
  "refused_to L h CatalogConfig \<Longrightarrow> refuses (and_then_op (authorize_request L h authorize_catalog_config) k3)"
  "refused_to L h NamespaceCreate \<Longrightarrow> refuses (and_then_op (authorize_request L h authorize_namespace_create) k4)"
  "refused_to L h NamespaceList \<Longrightarrow> refuses (and_then_op (authorize_request L h authorize_namespace_list) k5)"
  "refused_to L h NamespaceLoad \<Longrightarrow> refuses (and_then_op (authorize_request L h authorize_namespace_load) k6)"
  "refused_to L h NamespaceUpdate \<Longrightarrow> refuses (and_then_op (authorize_request L h authorize_namespace_update) k7)"
  "refused_to L h NamespaceDrop \<Longrightarrow> refuses (and_then_op (authorize_request L h authorize_namespace_drop) k8)"
  "refused_to L h ServerManage \<Longrightarrow> refuses (and_then_op (authorize_request L h authorize_server_manage) k9)"
  "refused_to L h ProjectManage \<Longrightarrow> refuses (and_then_op (authorize_request L h authorize_project_manage) k10)"
  "refused_to L h WarehouseManage \<Longrightarrow> refuses (and_then_op (authorize_request L h authorize_warehouse_manage) k11)"
  "refused_to L h StorageProfileManage \<Longrightarrow>
     refuses (and_then_op (authorize_request L h authorize_storage_profile_manage) k12)"
  "refused_to L h ViewManage \<Longrightarrow> refuses (and_then_op (authorize_request L h authorize_view_manage) k13)"
  "refused_to L h ViewLoad \<Longrightarrow> refuses (and_then_op (authorize_request L h authorize_view_load) k14)"
  "refused_to L h ViewDrop \<Longrightarrow> refuses (and_then_op (authorize_request L h authorize_view_drop) k15)"
  "refused_to L h PolicyManage \<Longrightarrow> refuses (and_then_op (authorize_request L h authorize_policy_manage) k16)"
  "refused_to L h GraphRead \<Longrightarrow> refuses (and_then_op (authorize_request L h authorize_graph_read) k17)"
  "refused_to L h LineageRead \<Longrightarrow> refuses (authorize_request L h authorize_lineage_read)"
  by (intro refuses_first refuses_authorize authorize_catalog_denied authorize_table_denied refused_claim;
      assumption)+

lemmas [refusal_rules] = refuses_error refuses_option refuses_routed

text \<open>A step before the authorization.\<close>

lemma refuses_after_step [refusal_rules]:
  "(\<And>a. refuses (k1 a)) \<Longrightarrow> refuses (and_then_op (lift_result r) k1)"
  "(\<And>a. refuses (k3 a)) \<Longrightarrow> refuses (and_then_op (management_warehouse t) k3)"
  "(\<And>a. refuses (k4 a)) \<Longrightarrow> refuses (and_then_op (prefixed_catalog_warehouse L t) k4)"
  by (intro refuses_then waiting_rules waiting_steps; assumption)+

lemmas [refusal_rules] = refuses_identified refused_claim

lemmas handler_body_defs = get_config_in_warehouse_def create_namespace_in_warehouse_def
  list_namespaces_in_warehouse_def load_namespace_in_warehouse_def drop_namespace_in_warehouse_def
  update_namespace_properties_in_warehouse_def list_tables_in_warehouse_def create_table_in_warehouse_def
  register_table_in_warehouse_def rename_table_in_warehouse_def load_table_in_warehouse_def
  delete_table_in_warehouse_def handle_restore_table_def handle_list_table_commits_def
  commit_table_in_warehouse_def handle_list_views_def catalog_list_views_def catalog_load_view_def
  handle_list_view_version_receipts_def handle_list_view_version_receipt_chains_def
  handle_upsert_view_def catalog_upsert_view_def handle_drop_view_def catalog_drop_view_def
  handle_list_storage_profiles_def handle_upsert_storage_profile_def handle_list_warehouses_def
  handle_list_project_warehouses_def handle_upsert_warehouse_def handle_upsert_project_warehouse_def
  handle_list_projects_def handle_upsert_project_def handle_list_servers_def handle_upsert_server_def
  handle_list_policy_bindings_def handle_upsert_policy_binding_def handle_publish_model_def
  handle_list_model_publications_def plan_table_scan_in_warehouse_def fetch_scan_tasks_in_warehouse_def
  load_credentials_in_warehouse_def handle_querygraph_bootstrap_def

lemma get_config_for_warehouse_eta:
  "get_config_for_warehouse L h =
     (\<lambda>t. and_then_op (prefixed_catalog_warehouse L t) (\<lambda>w. get_config_in_warehouse w L h))"
  by (simp add: fun_eq_iff get_config_for_warehouse_def)

lemma serve_refuses: "refused_to L h (request_action q) \<Longrightarrow> refuses (serve L h q)"
  by (cases q; simp only: serve.simps handler_defs get_config_for_warehouse_eta request_action.simps
        handler_body_defs Let_def; intro refusal_rules; assumption)

end
