(* ===== verification/ServiceObjects.thy ===== *)
theory ServiceObjects
  imports ServiceSafety
begin

section \<open>Serving requests: metadata objects\<close>

text \<open>
  Metadata objects are written with create-if-absent and removed again when the catalog refuses the
  change they were written for. No request overwrites or removes an object that was there before it;
  a refused commit leaves no object behind as long as the object store does not lose the answer of the
  write and fails at most two calls; the object of an acknowledged commit is there with the planned
  content.
\<close>

subsection \<open>Writing and cleaning up\<close>

lemma store_resolved:
  assumes "metadata_object_store E A location os = (Inr key, os1)"
  shows "ow_objects os1 = ow_objects os \<and> ow_outcomes os1 = ow_outcomes os \<and>
    (\<forall>os2. ow_cache os2 = ow_cache os1 \<longrightarrow> metadata_object_store E A location os2 = (Inr key, os2))"
  using assms
  by (auto simp: metadata_object_store_def Let_def bt_get_insert split: option.splits sum.splits prod.splits)

lemma store_unresolved:
  "metadata_object_store E A location os = (Inl e, os1) \<Longrightarrow> os1 = os"
  by (auto simp: metadata_object_store_def Let_def split: option.splits sum.splits prod.splits)

text \<open>A key at which a location is stored, for every later state with the same clients.\<close>

definition resolves :: "env \<Rightarrow> object_api \<Rightarrow> string \<Rightarrow> object_world \<Rightarrow> string \<times> string \<Rightarrow> bool" where
  "resolves E A location os key \<longleftrightarrow>
     (\<forall>os2. ow_cache os2 = ow_cache os \<longrightarrow> metadata_object_store E A location os2 = (Inr key, os2))"

lemma put_create_frame:
  "object_put_create store path payload os = (r, os1) \<Longrightarrow>
     ow_cache os1 = ow_cache os \<and> ow_outcomes os1 = tl (ow_outcomes os)"
  by (auto simp: object_put_create_def next_outcome_def Let_def split: prod.splits list.splits
      object_outcome.splits if_splits)

lemma put_create_ok:
  "object_put_create store path payload os = (Inr u, os1) \<Longrightarrow>
     ow_objects os (store, path) = None \<and> ow_objects os1 = (ow_objects os)((store, path) \<mapsto> payload)"
  by (auto simp: object_put_create_def next_outcome_def Let_def split: prod.splits list.splits
      object_outcome.splits if_splits)

lemma put_create_keeps:
  "object_put_create store path payload os = (r, os1) \<Longrightarrow>
     ow_objects os key = Some p \<Longrightarrow> ow_objects os1 key = Some p"
  by (auto simp: object_put_create_def next_outcome_def Let_def split: prod.splits list.splits
      object_outcome.splits if_splits)

text \<open>The next answer of the object store is not lost.\<close>

definition answered :: "object_world \<Rightarrow> bool" where
  "answered os \<longleftrightarrow> (\<forall>m rest. ow_outcomes os \<noteq> AnswerLost m # rest)"

lemma put_create_err:
  "object_put_create store path payload os = (Inl e, os1) \<Longrightarrow> answered os \<Longrightarrow> ow_objects os1 = ow_objects os"
  by (auto simp: object_put_create_def next_outcome_def Let_def answered_def split: prod.splits list.splits
      object_outcome.splits if_splits)

lemma write_object_ok:
  assumes "write_metadata_object E A location metadata os = (Inr write, os1)"
  obtains key payload where "mw_location write = location" "oa_to_vec_pretty A metadata = Inr payload"
    "ow_objects os key = None" "ow_objects os1 = (ow_objects os)(key \<mapsto> payload)"
    "resolves E A location os1 key" "ow_outcomes os1 = tl (ow_outcomes os)"
proof -
  from assms obtain store path os0 where resolved: "metadata_object_store E A location os = (Inr (store, path), os0)"
    and rest: "(case oa_to_vec_pretty A metadata of
       Inl err \<Rightarrow> (Err (Internal (''failed to encode metadata JSON: '' @ err)), os0)
     | Inr payload \<Rightarrow>
         (case object_put_create store path payload os0 of
            (Inr _, w1) \<Rightarrow> (Ok \<lparr>mw_location = location\<rparr>, w1)
          | (Inl ObjectExists, w1) \<Rightarrow>
              (Err (Conflict (''metadata object '' @ metadata_location_hash_context E location @
                 '' already exists; refusing to overwrite existing metadata'')), w1)
          | (Inl err, w1) \<Rightarrow> (Err (metadata_object_write_error E location (oa_error_text A err)), w1))) = (Inr write, os1)"
    by (fastforce simp: write_metadata_object_def and_then_op_ok)
  from rest obtain payload u where payload: "oa_to_vec_pretty A metadata = Inr payload"
    and put: "object_put_create store path payload os0 = (Inr u, os1)" and written: "write = \<lparr>mw_location = location\<rparr>"
    by (auto split: sum.splits prod.splits object_error.splits)
  from store_resolved [OF resolved] put_create_ok [OF put] put_create_frame [OF put]
  show ?thesis
    by (intro that [of payload "(store, path)"]) (simp_all add: payload written resolves_def)
qed

lemma write_object_keeps:
  assumes "write_metadata_object E A location metadata os = (r, os1)" and p: "ow_objects os key = Some p"
  shows "ow_objects os1 key = Some p"
proof -
  have put: "ow_objects os2 key = Some p"
    if "metadata_object_store E A location os = (Inr k, os0)" "object_put_create s q d os0 = (x, os2)" for k os0 s q d x os2
    using put_create_keeps [OF that(2)] store_resolved [OF that(1)] p by simp
  from assms show ?thesis
    by (auto simp: write_metadata_object_def and_then_op_def split: sum.splits prod.splits object_error.splits
      dest: store_unresolved store_resolved put)
qed

lemma write_object_err:
  assumes "write_metadata_object E A location metadata os = (Inl e, os1)" and ok: "answered os"
  shows "ow_objects os1 = ow_objects os"
proof -
  have put: "ow_objects os2 = ow_objects os"
    if "metadata_object_store E A location os = (Inr k, os0)" "object_put_create s q d os0 = (Inl x, os2)" for k os0 s q d x os2
    using put_create_err [OF that(2)] store_resolved [OF that(1)] ok by (simp add: answered_def)
  from assms show ?thesis
    by (auto simp: write_metadata_object_def and_then_op_def split: sum.splits prod.splits object_error.splits
      dest: store_unresolved store_resolved put)
qed

text \<open>A cleanup touches its own object alone, and removes it unless the store fails three times.\<close>

lemma delete_frame:
  "object_delete store path os = (r, os1) \<Longrightarrow>
     (key \<noteq> (store, path) \<longrightarrow> ow_objects os1 key = ow_objects os key) \<and> ow_outcomes os1 = tl (ow_outcomes os)"
  by (auto simp: object_delete_def next_outcome_def Let_def split: prod.splits list.splits
      object_outcome.splits if_splits)

lemma cleanup_loop_frame:
  "cleanup_loop E A location store path attempts os = (r, os1) \<Longrightarrow> key \<noteq> (store, path) \<Longrightarrow>
     ow_objects os1 key = ow_objects os key"
proof (induction attempts arbitrary: os)
  case (Cons attempt rest)
  obtain x os0 where d: "object_delete store path os = (x, os0)" by fastforce
  have "ow_objects os0 key = ow_objects os key" using delete_frame [OF d] Cons.prems(2) by simp
  with Cons d show ?case by (auto split: sum.splits if_splits)
qed simp

definition failures :: "object_outcome list \<Rightarrow> nat" where
  "failures outcomes = length (filter (\<lambda>x. x \<noteq> Works) outcomes)"

lemma failures_simps [simp]:
  "failures [] = 0" "failures (x # xs) = (if x = Works then failures xs else Suc (failures xs))"
  by (simp_all add: failures_def)

lemma delete_works:
  "ow_outcomes os = [] \<or> hd (ow_outcomes os) = Works \<Longrightarrow> object_delete store path os = (r, os1) \<Longrightarrow>
     r \<in> {Inr (), Inl ObjectNotFound} \<and> ow_objects os1 = (ow_objects os)((store, path) := None)"
  by (auto simp: object_delete_def next_outcome_def Let_def fun_upd_idem split: prod.splits list.splits if_splits)

lemma delete_fails:
  assumes "object_delete store path os = (r, os1)" "ow_outcomes os = x # rest" "x \<noteq> Works"
  shows "(\<exists>m. r = Inl (ObjectOther m)) \<and> ow_outcomes os1 = rest \<and>
    (ow_objects os1)((store, path) := None) = (ow_objects os)((store, path) := None)"
  using assms by (cases x) (auto simp: object_delete_def next_outcome_def Let_def)

lemma cleanup_loop_deletes:
  assumes "a + failures (ow_outcomes os) < METADATA_CLEANUP_DELETE_ATTEMPTS"
  shows "\<exists>os1. cleanup_loop E A location store path [a..<METADATA_CLEANUP_DELETE_ATTEMPTS] os = (Inr (), os1) \<and>
    ow_objects os1 = (ow_objects os)((store, path) := None)"
  using assms
proof (induction "METADATA_CLEANUP_DELETE_ATTEMPTS - a" arbitrary: a os)
  case (Suc n)
  let ?N = METADATA_CLEANUP_DELETE_ATTEMPTS
  have attempts: "[a..<?N] = a # [Suc a..<?N]" using Suc by (simp add: upt_rec)
  obtain x os0 where d: "object_delete store path os = (x, os0)" by fastforce
  show ?case
  proof (cases "ow_outcomes os = [] \<or> hd (ow_outcomes os) = Works")
    case True
    from delete_works [OF this d] d show ?thesis by (auto simp: attempts)
  next
    case False
    then obtain y rest where os: "ow_outcomes os = y # rest" "y \<noteq> Works" by (cases "ow_outcomes os") auto
    from delete_fails [OF d this] obtain m where f: "x = Inl (ObjectOther m)" "ow_outcomes os0 = rest"
      "(ow_objects os0)((store, path) := None) = (ow_objects os)((store, path) := None)" by blast
    let ?slept = "os0\<lparr>ow_slept_ms := ow_slept_ms os0 + metadata_cleanup_retry_delay a\<rparr>"
    have "\<exists>os1. cleanup_loop E A location store path [Suc a..<?N] ?slept = (Inr (), os1) \<and>
        ow_objects os1 = (ow_objects ?slept)((store, path) := None)"
      using Suc os f by (intro Suc(1)) auto
    with f d Suc.prems os show ?thesis by (auto simp: attempts)
  qed
qed simp

lemma cleanup_after_frame:
  assumes "cleanup_planned_metadata_after_commit_error E A (Some write) previous err os = (e, os1)"
    and "resolves E A (mw_location write) os key" "other \<noteq> key"
  shows "ow_objects os1 other = ow_objects os other"
  using assms
  by (cases key) (auto simp: cleanup_planned_metadata_after_commit_error_def cleanup_planned_metadata_def
      and_then_op_def resolves_def split: prod.splits sum.splits if_splits dest: cleanup_loop_frame)

lemma cleanup_after_deletes:
  assumes "cleanup_planned_metadata_after_commit_error E A (Some write) previous err os = (e, os1)"
    and "resolves E A (mw_location write) os key" "previous \<noteq> Some (mw_location write)"
    and "failures (ow_outcomes os) < METADATA_CLEANUP_DELETE_ATTEMPTS"
  shows "e = err \<and> ow_objects os1 = (ow_objects os)(key := None)"
proof -
  obtain store path where key: "key = (store, path)" by (cases key)
  obtain os2 where "cleanup_loop E A (mw_location write) store path [0..<METADATA_CLEANUP_DELETE_ATTEMPTS] os = (Inr (), os2)"
    "ow_objects os2 = (ow_objects os)(key := None)"
    using cleanup_loop_deletes [where a = 0 and os = os and E = E and A = A and location = "mw_location write"
        and store = store and path = path] assms(4) key by auto
  with assms(1-3) key show ?thesis
    by (auto simp: cleanup_planned_metadata_after_commit_error_def cleanup_planned_metadata_def
        and_then_op_def resolves_def)
qed

subsection \<open>No request overwrites or removes an object of another\<close>

definition holds :: "string \<times> string \<Rightarrow> string \<Rightarrow> world \<Rightarrow> bool" where
  "holds key p w \<longleftrightarrow> ow_objects (wd_objects w) key = Some p"

lemma wd_objects_steps [simp]:
  "wd_objects (others_run w) = wd_objects w" "wd_objects (tick w) = wd_objects w"
  by (simp_all add: others_run_def tick_def split: list.split)

lemma store_call_objects: "wd_objects (snd (store_call f w)) = wd_objects w"
  by (simp add: store_call_def Let_def split: prod.split)

lemma holds_steps [keeps_rules]:
  "keeps (holds key p) (store_read f)"
  "keeps (holds key p) (store_call g)"
  "keeps (holds key p) (at_time c)"
  by (simp_all add: keeps_def holds_def store_read_def store_call_objects at_time_def Let_def)

lemma object_get_frame: "object_get store path os = (r, os1) \<Longrightarrow> ow_objects os1 = ow_objects os"
  by (auto simp: object_get_def next_outcome_def split: list.splits object_outcome.splits)

lemma object_bytes_frame: "object_bytes bs os = (r, os1) \<Longrightarrow> ow_objects os1 = ow_objects os"
  by (auto simp: object_bytes_def next_outcome_def split: list.splits object_outcome.splits)

lemma read_object_frame:
  assumes "read_metadata_object E A location os = (r, os1)"
  shows "ow_objects os1 = ow_objects os"
proof (cases "validate_metadata_object_location_shape E location")
  case (Inl e)
  with assms show ?thesis by (simp add: read_metadata_object_def)
next
  case (Inr u)
  obtain x os2 where store: "metadata_object_store E A location os = (x, os2)" by fastforce
  then have os2: "ow_objects os2 = ow_objects os"
    by (cases x) (auto dest: store_unresolved store_resolved)
  show ?thesis
  proof (cases x)
    case (Inl e)
    with assms Inr store os2 show ?thesis by (simp add: read_metadata_object_def and_then_op_def)
  next
    case (Inr key)
    obtain y os3 where got: "object_get (fst key) (snd key) os2 = (y, os3)" by fastforce
    with os2 have os3: "ow_objects os3 = ow_objects os" by (simp add: object_get_frame)
    show ?thesis
    proof (cases y)
      case (Inl e)
      with assms \<open>validate_metadata_object_location_shape E location = Inr u\<close> store Inr got os3 show ?thesis
        by (simp add: read_metadata_object_def and_then_op_def case_prod_unfold)
    next
      case (Inr bs)
      obtain z os4 where read: "object_bytes bs os3 = (z, os4)" by fastforce
      with os3 have os4: "ow_objects os4 = ow_objects os" by (simp add: object_bytes_frame)
      with assms \<open>validate_metadata_object_location_shape E location = Inr u\<close> store \<open>x = Inr key\<close> got Inr read os3
      show ?thesis
        by (auto simp: read_metadata_object_def and_then_op_def case_prod_unfold split: sum.splits if_splits)
    qed
  qed
qed

lemma holds_read_object [keeps_rules]: "keeps (holds key p) (object_call (read_metadata_object E A location))"
  by (auto simp: keeps_def holds_def object_call_def Let_def split: prod.split dest: read_object_frame)

text \<open>An operation that stores at most one object, absent before, under the location it returns.\<close>

definition writes :: "LakeCatState \<Rightarrow> PlannedMetadataWrite option world_op \<Rightarrow> bool" where
  "writes L f \<longleftrightarrow>
     (\<forall>w r w1. f w = (r, w1) \<longrightarrow>
        (\<forall>key p. holds key p w \<longrightarrow> holds key p w1) \<and>
        (\<forall>mw. r = Inr (Some mw) \<longrightarrow>
           (\<exists>key. resolves (lc_env L) (lc_objects L) (mw_location mw) (wd_objects w1) key \<and>
              ow_objects (wd_objects w) key = None)))"

lemma clean_up_keeps:
  assumes "writes L f" and call: "\<And>w. wd_objects (snd (g w)) = wd_objects w"
    and k: "\<And>a. keeps (holds key p) (k a)"
  shows "keeps (holds key p) (and_then_op f (\<lambda>mw. and_then_op (or_clean_up L mw previous g) k))"
proof (rule keepsI)
  fix w assume w: "holds key p w"
  obtain r w1 where f: "f w = (r, w1)" by fastforce
  have w1: "holds key p w1" using assms(1) f w unfolding writes_def by blast
  show "holds key p (snd (and_then_op f (\<lambda>mw. and_then_op (or_clean_up L mw previous g) k) w))"
  proof (cases r)
    case (Inl e)
    with f w1 show ?thesis by (simp add: and_then_op_def)
  next
    case (Inr mw)
    obtain x w2 where g: "g w1 = (x, w2)" by fastforce
    then have w2: "wd_objects w2 = wd_objects w1" using call [of w1] by simp
    then have h2: "holds key p w2" using w1 by (simp add: holds_def)
    show ?thesis
    proof (cases x)
      case (Inr a)
      then show ?thesis
        using f \<open>r = Inr mw\<close> g k h2 by (simp add: and_then_op_def or_clean_up_def keeps_def)
    next
      case (Inl err)
      obtain e os where c: "cleanup_planned_metadata_after_commit_error (lc_env L) (lc_objects L) mw previous err
          (wd_objects w2) = (e, os)" by fastforce
      have "ow_objects os key = Some p"
      proof (cases mw)
        case None
        with c h2 show ?thesis
          by (simp add: cleanup_planned_metadata_after_commit_error_def cleanup_planned_metadata_def holds_def)
      next
        case (Some w0)
        then obtain new where new: "resolves (lc_env L) (lc_objects L) (mw_location w0) (wd_objects w1) new"
          "ow_objects (wd_objects w) new = None"
          using assms(1) f \<open>r = Inr mw\<close> unfolding writes_def by blast
        then have "key \<noteq> new" using w by (auto simp: holds_def)
        with c Some new w2 h2 show ?thesis by (auto simp: holds_def dest!: cleanup_after_frame)
      qed
      then show ?thesis
        using f \<open>r = Inr mw\<close> g Inl c by (simp add: and_then_op_def or_clean_up_def holds_def)
    qed
  qed
qed

lemma writes_object_call:
  assumes "\<And>os r os1. f os = (r, os1) \<Longrightarrow> (\<forall>key p. ow_objects os key = Some p \<longrightarrow> ow_objects os1 key = Some p)"
    and "\<And>os mw os1. f os = (Inr (Some mw), os1) \<Longrightarrow>
      \<exists>key. resolves (lc_env L) (lc_objects L) (mw_location mw) os1 key \<and> ow_objects os key = None"
  shows "writes L (object_call f)"
  using assms by (fastforce simp: writes_def object_call_def Let_def holds_def split: prod.splits)

lemma writes_planned: "writes L (object_call (write_planned_metadata (lc_env L) (lc_objects L) plan))"
proof (rule writes_object_call)
  fix os r os1 assume "write_planned_metadata (lc_env L) (lc_objects L) plan os = (r, os1)"
  then show "\<forall>key p. ow_objects os key = Some p \<longrightarrow> ow_objects os1 key = Some p"
    by (auto simp: write_planned_metadata_def and_then_op_def split: if_splits option.splits prod.splits
        sum.splits dest: write_object_keeps)
next
  fix os mw os1
  assume "write_planned_metadata (lc_env L) (lc_objects L) plan os = (Inr (Some mw), os1)"
  then obtain location metadata where
    "write_metadata_object (lc_env L) (lc_objects L) location metadata os = (Inr mw, os1)"
    by (auto simp: write_planned_metadata_def and_then_op_ok split: if_splits option.splits)
  then show "\<exists>key. resolves (lc_env L) (lc_objects L) (mw_location mw) os1 key \<and> ow_objects os key = None"
    by (elim write_object_ok) auto
qed

lemma write_initial_metadata_cases:
  assumes "write_initial_metadata L table w = (r, w1)"
  shows "(\<exists>e. r = Inl e \<and> wd_objects w1 = wd_objects w) \<or>
    (\<exists>location r1. write_metadata_object (lc_env L) (lc_objects L) location (tr_metadata table) (wd_objects w) =
       (r1, wd_objects w1) \<and> r = map_ok Some r1)"
  using assms
  by (auto simp: write_initial_metadata_def and_then_op_def store_read_def lift_result_def object_call_def
      Let_def split: sum.splits prod.splits) (metis map_ok_simps)+

lemma writes_initial:
  "writes L (if persist then write_initial_metadata L table else lift_result (Ok None))"
  unfolding writes_def
proof (intro allI impI)
  fix w r w1
  assume step: "(if persist then write_initial_metadata L table else lift_result (Ok None)) w = (r, w1)"
  show "(\<forall>key p. holds key p w \<longrightarrow> holds key p w1) \<and>
     (\<forall>mw. r = Inr (Some mw) \<longrightarrow> (\<exists>key. resolves (lc_env L) (lc_objects L) (mw_location mw) (wd_objects w1) key \<and>
        ow_objects (wd_objects w) key = None))"
  proof (cases "persist \<and> \<not> (\<exists>e. r = Inl e \<and> wd_objects w1 = wd_objects w)")
    case False
    with step show ?thesis by (auto simp: lift_result_def holds_def split: if_splits)
  next
    case True
    with step obtain location r1 where wr: "write_metadata_object (lc_env L) (lc_objects L) location
        (tr_metadata table) (wd_objects w) = (r1, wd_objects w1)" "r = map_ok Some r1"
      by (auto dest: write_initial_metadata_cases)
    show ?thesis
    proof (intro conjI allI impI)
      fix key p assume "holds key p w"
      with write_object_keeps [OF wr(1)] show "holds key p w1" by (simp add: holds_def)
    next
      fix mw assume "r = Inr (Some mw)"
      with wr obtain "r1 = Inr mw" by (cases r1) auto
      with wr(1) show "\<exists>key. resolves (lc_env L) (lc_objects L) (mw_location mw) (wd_objects w1) key \<and>
          ow_objects (wd_objects w) key = None"
        by (metis write_object_ok)
    qed
  qed
qed

lemmas [keeps_rules] = clean_up_keeps [OF writes_planned store_call_objects]
  clean_up_keeps [OF writes_initial store_call_objects]

lemma holds_step_groups [keeps_rules]:
  "keeps (holds key p) (record_event L t i pr payload)"
  "keeps (holds key p) (authorize_request L h auth)"
  "keeps (holds key p) (identify L h)"
  "keeps (holds key p) (management_warehouse txt)"
  "keeps (holds key p) (prefixed_catalog_warehouse L txt)"
  unfolding record_event_def authorize_request_def identify_def management_warehouse_def
    prefixed_catalog_warehouse_def
  by (intro keeps_rules)+

lemma keeps_holds: "keeps (holds key p) (serve L h q)"
  by (cases q; simp only: serve.simps handler_defs get_config_for_warehouse_eta handler_body_defs
        commit_loaded_table_def plan_scan_with_capability_def record_view_drop_audit_def
        querygraph_tenant_projection_def Let_def;
      intro keeps_rules)

subsection \<open>A refused commit leaves nothing behind\<close>

text \<open>The next call is answered, and at most two calls fail.\<close>

definition bounded_faults :: "object_world \<Rightarrow> bool" where
  "bounded_faults os \<longleftrightarrow> answered os \<and> failures (ow_outcomes os) \<le> 2"

definition object_free :: "'a world_op \<Rightarrow> bool" where
  "object_free f \<longleftrightarrow> (\<forall>w. wd_objects (snd (f w)) = wd_objects w)"

definition no_orphan :: "'a world_op \<Rightarrow> bool" where
  "no_orphan f \<longleftrightarrow>
     (\<forall>w e w'. f w = (Inl e, w') \<longrightarrow> bounded_faults (wd_objects w) \<longrightarrow>
        ow_objects (wd_objects w') = ow_objects (wd_objects w))"

named_theorems orphan_rules

lemma object_free_steps [orphan_rules]:
  "object_free (lift_result r)"
  "object_free (store_read f)"
  "object_free (store_call g)"
  "object_free (at_time c)"
  by (simp_all add: object_free_def lift_result_def store_read_def store_call_objects at_time_def Let_def)

lemma object_free_bind: "object_free f \<Longrightarrow> (\<And>a. object_free (k a)) \<Longrightarrow> object_free (and_then_op f k)"
  by (auto simp: object_free_def and_then_op_def split: prod.split sum.split) (metis snd_conv)+

lemma object_free_groups [orphan_rules]:
  "object_free (identify L h)"
  "object_free (management_warehouse txt)"
  "object_free (prefixed_catalog_warehouse L txt)"
  unfolding identify_def management_warehouse_def prefixed_catalog_warehouse_def
  by (intro orphan_rules object_free_bind)+

lemma object_free_option [orphan_rules]:
  "(\<And>a. object_free (g a)) \<Longrightarrow> object_free f \<Longrightarrow> object_free (case x of None \<Rightarrow> f | Some a \<Rightarrow> g a)"
  by (simp split: option.split)

lemma no_orphan_free: "object_free f \<Longrightarrow> no_orphan f"
  by (auto simp: no_orphan_def object_free_def) (metis snd_conv)

lemma no_orphan_bind [orphan_rules]:
  assumes "object_free f" "\<And>a w w1. f w = (Inr a, w1) \<Longrightarrow> no_orphan (k a)"
  shows "no_orphan (and_then_op f k)"
  unfolding no_orphan_def
proof (intro allI impI)
  fix w e w' assume op: "and_then_op f k w = (Inl e, w')" and faults: "bounded_faults (wd_objects w)"
  obtain r w1 where f: "f w = (r, w1)" by fastforce
  then have w1: "wd_objects w1 = wd_objects w" using assms(1) by (auto simp: object_free_def) (metis snd_conv)
  show "ow_objects (wd_objects w') = ow_objects (wd_objects w)"
  proof (cases r)
    case (Inl e1)
    with op f w1 show ?thesis by (simp add: and_then_op_def)
  next
    case (Inr a)
    with op f have "k a w1 = (Inl e, w')" by (simp add: and_then_op_def)
    moreover from f Inr have "no_orphan (k a)" by (intro assms(2)) simp
    ultimately show ?thesis using faults w1 unfolding no_orphan_def by metis
  qed
qed

lemma no_orphan_option [orphan_rules]:
  "(\<And>a. no_orphan (g a)) \<Longrightarrow> no_orphan f \<Longrightarrow> no_orphan (case x of None \<Rightarrow> f | Some a \<Rightarrow> g a)"
  by (simp split: option.split)

lemma no_orphan_reply [orphan_rules]: "no_orphan (lift_result r)"
  by (intro no_orphan_free object_free_steps)

lemma failures_tl: "failures (tl outcomes) \<le> failures outcomes"
  by (cases outcomes) auto

text \<open>The write, the commit and the cleanup of a commit; the planned location is not the current one.\<close>

lemma no_orphan_commit:
  assumes plan: "validate_planned_metadata_location (lc_env L) plan current profile = Ok ()"
  shows "no_orphan (and_then_op (object_call (write_planned_metadata (lc_env L) (lc_objects L) plan)) (\<lambda>mw.
    and_then_op (or_clean_up L mw current (store_call f)) (\<lambda>table. reply_ok (body table))))"
  unfolding no_orphan_def
proof (intro allI impI)
  fix w e w'
  assume op: "and_then_op (object_call (write_planned_metadata (lc_env L) (lc_objects L) plan)) (\<lambda>mw.
    and_then_op (or_clean_up L mw current (store_call f)) (\<lambda>table. reply_ok (body table))) w = (Inl e, w')"
    and faults: "bounded_faults (wd_objects w)"
  obtain r os1 where wr: "write_planned_metadata (lc_env L) (lc_objects L) plan (wd_objects w) = (r, os1)" by fastforce
  let ?w1 = "w\<lparr>wd_objects := os1\<rparr>"
  obtain x w2 where call: "store_call f ?w1 = (x, w2)" by fastforce
  then have w2: "wd_objects w2 = os1" using store_call_objects [of f ?w1] by simp
  show "ow_objects (wd_objects w') = ow_objects (wd_objects w)"
  proof (cases r)
    case (Inl e1)
    with op wr have "w' = ?w1" by (simp add: and_then_op_def object_call_def)
    with wr Inl faults show ?thesis
      by (auto simp: write_planned_metadata_def and_then_op_err bounded_faults_def split: if_splits option.splits
          dest: write_object_err)
  next
    case (Inr mw)
    with op wr call obtain err os2 where x: "x = Inl err" and clean:
      "cleanup_planned_metadata_after_commit_error (lc_env L) (lc_objects L) mw current err os1 = (e, os2)"
      and w': "w' = w2\<lparr>wd_objects := os2\<rparr>"
      by (auto simp: and_then_op_def object_call_def or_clean_up_def w2 lift_result_def split: sum.splits prod.splits)
    show ?thesis
    proof (cases mw)
      case None
      with Inr wr have "os1 = wd_objects w"
        by (auto simp: write_planned_metadata_def and_then_op_ok split: if_splits option.splits)
      with None clean w' show ?thesis
        by (auto simp: cleanup_planned_metadata_after_commit_error_def cleanup_planned_metadata_def)
    next
      case (Some w0)
      with Inr wr obtain location where location: "cp_metadata_write_required plan"
        "cp_new_metadata_location plan = Some location"
        "write_metadata_object (lc_env L) (lc_objects L) location (cp_new_metadata plan) (wd_objects w) = (Inr w0, os1)"
        by (auto simp: write_planned_metadata_def and_then_op_ok split: if_splits option.splits)
      from location(3) obtain key payload where key: "mw_location w0 = location" "ow_objects (wd_objects w) key = None"
        "ow_objects os1 = (ow_objects (wd_objects w))(key \<mapsto> payload)" "resolves (lc_env L) (lc_objects L) location os1 key"
        "ow_outcomes os1 = tl (ow_outcomes (wd_objects w))"
        by (rule write_object_ok)
      have "current \<noteq> Some location"
        using plan location by (auto simp: validate_planned_metadata_location_def validate_metadata_object_location_def
          split: if_splits)
      moreover have "failures (ow_outcomes os1) < METADATA_CLEANUP_DELETE_ATTEMPTS"
        using faults failures_tl [of "ow_outcomes (wd_objects w)"] key(5)
        by (simp add: bounded_faults_def METADATA_CLEANUP_DELETE_ATTEMPTS_def)
      ultimately have "ow_objects os2 = (ow_objects os1)(key := None)"
        using cleanup_after_deletes [OF clean [unfolded Some]] key(1,4) by blast
      with key w' show ?thesis by (auto simp: fun_upd_idem)
    qed
  qed
qed

lemma no_orphan_commit_handler [orphan_rules]: "no_orphan (commit_table_in_warehouse w L h n t q)"
  unfolding commit_table_in_warehouse_def commit_loaded_table_def
  by (intro no_orphan_commit orphan_rules) (auto simp: lift_Ok object_free_steps split: option.split)

lemma no_orphan_routed [orphan_rules]:
  "no_orphan f \<Longrightarrow> (\<And>w. no_orphan (g w)) \<Longrightarrow> no_orphan (routed warehouse f g)"
  by (simp add: routed_def split: option.split)

lemma no_orphan_serve_commit: "no_orphan (serve L h (PostCommit wh n t q))"
  by (simp only: serve.simps handler_defs) (intro orphan_rules)

subsection \<open>An acknowledged commit has its object\<close>

definition backed_by_object :: "LakeCatState \<Rightarrow> object_world \<Rightarrow> CommitPlan \<Rightarrow> bool" where
  "backed_by_object L os plan \<longleftrightarrow>
     (\<exists>location key payload. cp_new_metadata_location plan = Some location \<and>
        oa_to_vec_pretty (lc_objects L) (cp_new_metadata plan) = Inr payload \<and>
        resolves (lc_env L) (lc_objects L) location os key \<and> ow_objects os key = Some payload)"

text \<open>What a request reads of the catalog is a state that passes while it waits.\<close>

lemma visitsI: "waits w v \<Longrightarrow> visits w (wd_catalog v)"
  by (auto simp: visits_def)

lemma waits_read:
  "store_read f v = (Inr a, v') \<Longrightarrow> waits w v \<Longrightarrow> waits w v' \<and> visits w (wd_catalog v') \<and> f (wd_catalog v') = Ok a"
  by (auto simp: store_read_def Let_def intro!: visitsI waits_others)

lemma others_run_objects: "others_run (w\<lparr>wd_objects := os\<rparr>) = (others_run w)\<lparr>wd_objects := os\<rparr>"
  by (simp add: others_run_def tick_def split: list.split)

lemma store_call_visits:
  assumes "store_call f (v\<lparr>wd_objects := os\<rparr>) = (r, w')" "waits w v"
  shows "\<exists>now before. visits w before \<and> f now before = (r, wd_catalog w')"
proof -
  let ?v = "others_run v"
  have "waits w ?v" using assms(2) by (rule waits_others)
  moreover have "f (wd_clock ?v (wd_ticks ?v)) (wd_catalog ?v) = (r, wd_catalog w')"
    using assms(1) by (auto simp: store_call_def others_run_objects Let_def split: prod.splits)
  ultimately show ?thesis using visitsI by blast
qed

text \<open>
  The answer to a commit is the one recorded under its idempotency key for the same request, or the row
  its own commit installed: planned from the row the table had at some moment of the request, committed
  later against the same pointer, and with the planned metadata in the object store.
\<close>

definition replayed_answer ::
  "LakeCatState \<Rightarrow> world \<Rightarrow> TableIdent \<Rightarrow> string option \<Rightarrow> CommitTableRequest \<Rightarrow> TableRecord \<Rightarrow> bool" where
  "replayed_answer L w ident key q table \<longleftrightarrow>
     (\<exists>k s row. key = Some k \<and> visits w s \<and>
        bt_get (ms_idempotency s) (idempotency_key_for ident k) = Some row \<and>
        content_hash_json (lc_env L) (commit_request_hash_json q) = Ok (ir_request_hash row) \<and>
        ir_response row = table)"

definition committed_answer ::
  "LakeCatState \<Rightarrow> world \<Rightarrow> world \<Rightarrow> TableCommitCapability \<Rightarrow> TableIdent \<Rightarrow> string option \<Rightarrow> CommitTableRequest \<Rightarrow>
     TableRecord \<Rightarrow> bool" where
  "committed_answer L w w' cap ident key q table \<longleftrightarrow>
     (\<exists>seen current plan now before request_hash.
        visits w seen \<and> load_table seen ident = Ok current \<and>
        se_prepare_commit (lc_sail L) (commit_preparation cap current q) = Ok plan \<and>
        visits w before \<and> table_pointer ident before = Some (tr_metadata_location current) \<and>
        commit_table (lc_env L) now ident (planned_commit L cap current plan key request_hash) before =
          (Ok table, wd_catalog w') \<and>
        wd_catalog w' \<noteq> before \<and>
        bt_get (ms_tables (wd_catalog w')) (table_key ident) = Some table \<and>
        tr_metadata_location table = cp_new_metadata_location plan \<and>
        (cp_metadata_write_required plan \<longrightarrow> backed_by_object L (wd_objects w') plan))"

lemma fresh_commit_row:
  "fresh_commit E now ident c h s = (Ok t, s') \<Longrightarrow> bt_get (ms_tables s') (table_key ident) = Some t"
  by (auto simp: fresh_commit_ok install_commit_fields bt_get_insert)

lemma commit_answered:
  assumes run: "commit_loaded_table L cap q key request_hash w0 = (Inr r, w')" and w0: "waits w w0"
    and ident: "cap_resource cap = ident"
    and hash: "\<And>k. key = Some k \<Longrightarrow>
      \<exists>x. request_hash = Some x \<and> content_hash_json (lc_env L) (commit_request_hash_json q) = Ok x"
  shows "\<exists>table. r = Reply (commit_table_response table) \<and>
    (replayed_answer L w ident key q table \<and> visits w (wd_catalog w') \<or>
     committed_answer L w w' cap ident key q table)"
proof -
  let ?commit = "\<lambda>current plan. planned_commit L cap current plan key request_hash"
  from run obtain current plan snapshot profile mw w1 w2 w3 table where
    read1: "store_read (\<lambda>s. load_table s (cap_resource cap)) w0 = (Inr current, w1)"
    and read2: "store_read (\<lambda>s. storage_profile_for_table (lc_env L) s current) w1 = (Inr profile, w2)"
    and snapshot: "commit_snapshot_try_from_table current = Ok snapshot"
    and plan: "se_prepare_commit (lc_sail L) (commit_preparation cap current q) = Ok plan"
      "validate_planned_metadata_location (lc_env L) plan (tr_metadata_location current) profile = Ok ()"
    and wrote: "object_call (write_planned_metadata (lc_env L) (lc_objects L) plan) w2 = (Inr mw, w3)"
    and call: "or_clean_up L mw (tr_metadata_location current)
       (store_call (\<lambda>now. commit_table_with_snapshot (lc_env L) now snapshot (?commit current plan))) w3 = (Inr table, w')"
    and r: "r = Reply (commit_table_response table)"
    by (auto simp: commit_loaded_table_def and_then_op_ok lift_Ok)
  note seen = waits_read [OF read1 w0, unfolded ident]
  have w2: "waits w w2" using waits_read [OF read2] seen by blast
  obtain os where w3: "w3 = w2\<lparr>wd_objects := os\<rparr>"
    using wrote by (auto simp: object_call_def split: prod.splits)
  from call have stored: "store_call (\<lambda>now. commit_table_with_snapshot (lc_env L) now snapshot (?commit current plan)) w3 = (Inr table, w')"
    by (auto simp: or_clean_up_def split: sum.splits prod.splits)
  have named: "cs_ident snapshot = ident"
    using seen snapshot snapshot_ident by blast
  from store_call_visits [OF stored [unfolded w3] w2] obtain now before where before: "visits w before"
    and commit: "commit_table (lc_env L) now ident (?commit current plan) before = (Ok table, wd_catalog w')"
    by (auto simp: commit_table_with_snapshot_def named)
  have objects: "wd_objects w' = wd_objects w3"
    using store_call_objects stored by (metis snd_conv)
  have backed: "backed_by_object L (wd_objects w') plan" if "cp_metadata_write_required plan"
  proof -
    from wrote that plan(2) obtain location w0 where location: "cp_new_metadata_location plan = Some location"
      "write_metadata_object (lc_env L) (lc_objects L) location (cp_new_metadata plan) (wd_objects w2) = (Inr w0, wd_objects w3)"
      by (auto simp: object_call_def write_planned_metadata_def and_then_op_ok validate_planned_metadata_location_def
          and_then_ok ok_or_ok split: prod.splits option.splits if_splits)
    from location(2) show ?thesis
      by (rule write_object_ok) (auto simp: backed_by_object_def location(1) objects)
  qed
  from commit have "replayed_answer L w ident key q table \<and> visits w (wd_catalog w') \<or>
     committed_answer L w w' cap ident key q table"
  proof (cases rule: commit_table_success)
    case replay
    then have "replayed_answer L w ident key q table"
      using hash before
      by (fastforce simp: recorded_reply_def replayed_answer_def planned_commit_def effective_request_hash_def)
    with replay before show ?thesis by simp
  next
    case (effect h)
    have "table_pointer ident before = Some (tr_metadata_location current)"
      "tr_metadata_location table = cp_new_metadata_location plan"
      using fresh_commit_swaps(1,3) [OF effect(4)] by (simp_all add: planned_commit_def)
    with seen plan(1) before commit effect(1) fresh_commit_row [OF effect(4)] backed
    have "committed_answer L w w' cap ident key q table"
      unfolding committed_answer_def by blast
    then show ?thesis ..
  qed
  with r show ?thesis by blast
qed

text \<open>The warehouse a route names, and what its handler checks before it commits.\<close>

definition requested_warehouse :: "LakeCatState \<Rightarrow> string option \<Rightarrow> string" where
  "requested_warehouse L warehouse = (case warehouse of None \<Rightarrow> lc_warehouse L | Some v \<Rightarrow> v)"

lemma commit_handler_answered:
  assumes run: "commit_table_in_warehouse wh L h n t q w0 = (Inr r, w')" and w0: "waits w w0"
  shows "\<exists>ident claimed seen cap key table. rest_table_ident wh n t = Ok ident \<and>
    request_identity (lc_env L) (lc_header_str L) h = Ok claimed \<and> visits w seen \<and>
    authorize_table_commit L seen claimed ident = Ok cap \<and> request_idempotency_key h = Ok key \<and>
    r = Reply (commit_table_response table) \<and>
    (replayed_answer L w ident key q table \<and> visits w (wd_catalog w') \<or>
     committed_answer L w w' cap ident key q table)"
proof -
  from run obtain key claimed ident cap w1 request_hash replayed w2 where
    key: "request_idempotency_key h = Ok key"
    and claimed: "request_identity (lc_env L) (lc_header_str L) h = Ok claimed"
    and ident: "rest_table_ident wh n t = Ok ident"
    and auth: "store_read (\<lambda>s. authorize_table_commit L s claimed ident) w0 = (Inr cap, w1)"
    and hash: "(case key of None \<Rightarrow> Ok None
        | Some _ \<Rightarrow> map_ok Some (content_hash_json (lc_env L) (commit_request_hash_json q))) = Ok request_hash"
    and lookup: "(case (key, request_hash) of
        (Some k, Some x) \<Rightarrow> store_read (\<lambda>s. replay_table_commit s (cap_resource cap) k x)
      | _ \<Rightarrow> lift_result (Ok None)) w1 = (Inr replayed, w2)"
    and rest: "(case replayed of Some table \<Rightarrow> reply_ok (commit_table_response table)
      | None \<Rightarrow> commit_loaded_table L cap q key request_hash) w2 = (Inr r, w')"
    by (auto simp: commit_table_in_warehouse_def identify_def and_then_op_ok lift_Ok)
  note seen = waits_read [OF auth w0]
  then have resource: "cap_resource cap = ident" by (blast dest: authorized_table(4))
  have hashed: "\<exists>x. request_hash = Some x \<and> content_hash_json (lc_env L) (commit_request_hash_json q) = Ok x"
    if "key = Some k" for k
    using hash that by (auto simp: map_ok_def split: sum.splits)
  have "\<exists>table. r = Reply (commit_table_response table) \<and>
    (replayed_answer L w ident key q table \<and> visits w (wd_catalog w') \<or>
     committed_answer L w w' cap ident key q table)"
  proof (cases replayed)
    case None
    have "waits w w2"
      using lookup seen waits_read by (fastforce simp: lift_Ok split: option.splits prod.splits)
    with None rest commit_answered [OF _ _ resource hashed] show ?thesis by simp
  next
    case (Some table)
    with lookup obtain k x where k: "key = Some k" "request_hash = Some x"
        "store_read (\<lambda>s. replay_table_commit s ident k x) w1 = (Inr (Some table), w2)"
      by (auto simp: lift_Ok resource split: option.splits)
    note found = waits_read [OF k(3)] seen
    then have "replay_table_commit (wd_catalog w2) ident k x = Ok (Some table)" by blast
    then obtain row where "bt_get (ms_idempotency (wd_catalog w2)) (idempotency_key_for ident k) = Some row"
        "ir_request_hash row = x" "table = ir_response row"
      by (auto simp: replay_table_commit_def and_then_ok idempotent_response_ok)
    with k found hashed have "replayed_answer L w ident key q table"
      unfolding replayed_answer_def by fastforce
    moreover have "w' = w2" "r = Reply (commit_table_response table)"
      using rest Some by (simp_all add: lift_Ok)
    ultimately show ?thesis using found by blast
  qed
  with key claimed ident seen show ?thesis by blast
qed

lemma serve_commit_answered:
  assumes "serve L h (PostCommit warehouse n t q) w = (Inr r, w')"
  shows "\<exists>w0. waits w w0 \<and> commit_table_in_warehouse (requested_warehouse L warehouse) L h n t q w0 = (Inr r, w')"
proof (cases warehouse)
  case None
  with assms show ?thesis
    by (auto simp: handle_commit_table_def routed_def requested_warehouse_def intro: waits_refl)
next
  case (Some v)
  with assms obtain x w1 where "prefixed_catalog_warehouse L v w = (Inr x, w1)"
      "commit_table_in_warehouse x L h n t q w1 = (Inr r, w')"
    by (auto simp: commit_table_for_warehouse_def routed_def and_then_op_ok)
  moreover from this(1) have "x = v" "waits w w1"
    by (auto simp: prefixed_catalog_warehouse_def and_then_op_ok lift_Ok warehouse_name_new_ok
        dest: waits_read [OF _ waits_refl])
  ultimately show ?thesis using Some by (auto simp: requested_warehouse_def)
qed

end
