(* ===== verification/ServiceMachine.thy ===== *)
theory ServiceMachine
  imports ServiceObjects Demo ServiceProperties
begin

section \<open>The service over the catalog machine\<close>

text \<open>
  A run of the service is a list of requests served one after the other, each with the requests of
  others between its store calls. The invariant rule of the handlers is interpreted three times: for
  the states of the catalog machine, for an event of the outbox and for the objects of the object
  store.
\<close>

fun serve_all :: "LakeCatState \<Rightarrow> (HeaderMap \<times> service_request) list \<Rightarrow> world \<Rightarrow> reply result list \<times> world" where
  "serve_all L [] w = ([], w)"
| "serve_all L ((h, q) # rest) w =
     (let (r, w1) = serve L h q w; (rs, w2) = serve_all L rest w1 in (r # rs, w2))"

lemma serve_all_keeps:
  assumes "\<And>h q. keeps J (serve L h q)" "J w"
  shows "J (snd (serve_all L requests w))"
  using assms(2)
proof (induction requests arbitrary: w)
  case (Cons hq rest)
  obtain h q r w1 rs w2 where hq: "hq = (h, q)" "serve L h q w = (r, w1)" "serve_all L rest w1 = (rs, w2)"
    by (metis surj_pair)
  have "J (snd (serve L h q w))" using assms(1) [of h q] Cons.prems unfolding keeps_def by blast
  with hq have "J w1" by simp
  with Cons.IH [of w1] hq show ?case by simp
qed simp

subsection \<open>Only states of the catalog machine\<close>

text \<open>The others make steps of the catalog machine, at the time they run.\<close>

definition catalog_steps :: "env \<Rightarrow> (int \<Rightarrow> MemoryState \<Rightarrow> MemoryState) \<Rightarrow> bool" where
  "catalog_steps E f \<longleftrightarrow> (\<forall>c now s. reachable E c s \<longrightarrow> c \<le> now \<longrightarrow> reachable E now (f now s))"

definition runs_catalog :: "env \<Rightarrow> world \<Rightarrow> bool" where
  "runs_catalog E w \<longleftrightarrow>
     (\<exists>c \<le> wd_clock w (wd_ticks w). reachable E c (wd_catalog w)) \<and> mono (wd_clock w) \<and>
     list_all (catalog_steps E) (wd_others w)"

lemma catalog_steps_exec: "well_named req \<Longrightarrow> catalog_steps E (\<lambda>now s. snd (exec E now req s))"
  by (auto simp: catalog_steps_def intro: reachable.step surjective_pairing)

lemma runs_catalog_tick:
  assumes "runs_catalog E w" shows "runs_catalog E (tick w)"
proof -
  from assms obtain c where c: "c \<le> wd_clock w (wd_ticks w)" "reachable E c (wd_catalog w)"
    by (auto simp: runs_catalog_def)
  have "wd_clock w (wd_ticks w) \<le> wd_clock w (wd_ticks w + 1)"
    using assms by (simp add: runs_catalog_def mono_def)
  with c have "c \<le> wd_clock w (wd_ticks w + 1)" by simp
  with c(2) assms show ?thesis by (auto simp: runs_catalog_def tick_def)
qed

interpretation catalog_run: world_invariant runs_catalog
proof
  fix E w assume w: "runs_catalog E w"
  show "runs_catalog E (others_run w)"
  proof (cases "wd_others w")
    case Nil
    with w show ?thesis by (simp add: others_run_def)
  next
    case (Cons f rest)
    let ?now = "wd_clock w (wd_ticks w)"
    from w Cons have "reachable E ?now (f ?now (wd_catalog w))"
      by (auto simp: runs_catalog_def catalog_steps_def)
    moreover have "?now \<le> wd_clock w (wd_ticks w + 1)"
      using w by (simp add: runs_catalog_def mono_def)
    ultimately show ?thesis using w Cons by (auto simp: others_run_def runs_catalog_def tick_def)
  qed
  show "runs_catalog E (tick w)" using w by (rule runs_catalog_tick)
  show "runs_catalog E (w\<lparr>wd_objects := os\<rparr>)" for os using w by (simp add: runs_catalog_def)
  show "runs_catalog E (after_request E req w)" if "served req" for req
  proof -
    let ?now = "wd_clock w (wd_ticks w)"
    from w that have "reachable E ?now (snd (exec E ?now req (wd_catalog w)))"
      by (auto simp: runs_catalog_def served_def intro: reachable.step surjective_pairing)
    moreover have "?now \<le> wd_clock w (wd_ticks w + 1)"
      using w by (simp add: runs_catalog_def mono_def)
    ultimately show ?thesis using w by (auto simp: after_request_def runs_catalog_def tick_def)
  qed
qed

lemma service_states:
  assumes "valid_name (lc_warehouse L)" "runs_catalog (lc_env L) w"
  shows "runs_catalog (lc_env L) (snd (serve_all L requests w))"
  by (rule serve_all_keeps [where J = "runs_catalog (lc_env L)", OF catalog_run.keeps_serve]) (fact assms)+

subsection \<open>No event of the outbox is lost\<close>

text \<open>
  A row of the outbox is an event with the time of its delivery, if any. Others keep an event when they
  keep each of its rows: they neither remove it nor mark it delivered.
\<close>

definition keeps_event :: "OutboxEvent \<Rightarrow> (int \<Rightarrow> MemoryState \<Rightarrow> MemoryState) \<Rightarrow> bool" where
  "keeps_event ev f \<longleftrightarrow>
     (\<forall>now s t. ev\<lparr>oe_delivered_at := t\<rparr> \<in> set (ms_outbox_events s) \<longrightarrow>
        ev\<lparr>oe_delivered_at := t\<rparr> \<in> set (ms_outbox_events (f now s)))"

definition kept_row :: "OutboxEvent \<Rightarrow> int option \<Rightarrow> env \<Rightarrow> world \<Rightarrow> bool" where
  "kept_row ev t E w \<longleftrightarrow>
     ev\<lparr>oe_delivered_at := t\<rparr> \<in> set (ms_outbox_events (wd_catalog w)) \<and> list_all (keeps_event ev) (wd_others w)"

interpretation outbox_run: world_invariant "kept_row ev t" for ev t
proof
  fix E w assume w: "kept_row ev t E w"
  show "kept_row ev t E (others_run w)"
    using w by (auto simp: kept_row_def others_run_def keeps_event_def tick_def split: list.split)
  show "kept_row ev t E (tick w)" "kept_row ev t E (w\<lparr>wd_objects := os\<rparr>)" for os
    using w by (simp_all add: kept_row_def tick_def)
  show "kept_row ev t E (after_request E req w)" if "served req" for req
  proof -
    let ?now = "wd_clock w (wd_ticks w)"
    have "ev\<lparr>oe_delivered_at := t\<rparr> \<in> set (ms_outbox_events (snd (exec E ?now req (wd_catalog w))))"
    proof (rule exec_keeps_event)
      show "exec E ?now req (wd_catalog w) =
        (fst (exec E ?now req (wd_catalog w)), snd (exec E ?now req (wd_catalog w)))" by simp
      show "ev\<lparr>oe_delivered_at := t\<rparr> \<in> set (ms_outbox_events (wd_catalog w))"
        using w by (simp add: kept_row_def)
      show "oe_event_id (ev\<lparr>oe_delivered_at := t\<rparr>) \<notin> set ids" if "req = MarkOutboxDelivered ids" for ids
        using \<open>served req\<close> that by (simp add: served_def)
    qed
    with w show ?thesis by (simp add: kept_row_def after_request_def tick_def)
  qed
qed

text \<open>A request other than the drain, and the others while a request waits, keep the row.\<close>

lemma serve_keeps_row:
  "valid_name (lc_warehouse L) \<Longrightarrow> kept_row ev t (lc_env L) w \<Longrightarrow> kept_row ev t (lc_env L) (snd (serve L h q w))"
  using outbox_run.keeps_serve unfolding keeps_def by blast

lemma waits_keeps_row: "waits w w' \<Longrightarrow> kept_row ev t E w \<Longrightarrow> kept_row ev t E w'"
  by (induction rule: waits.induct) (auto intro: outbox_run.others outbox_run.ticks)

section \<open>A concrete service\<close>

text \<open>
  The service of the closed instances: an engine that allows every action, a table engine with one
  fixed plan, the catalog of the demonstration state and an empty object store.
\<close>

definition demo_url :: "string \<Rightarrow> url" where
  "demo_url s =
     \<lparr>url_scheme = ''s3'', url_username = [], url_password = None, url_host_str = Some ''bucket'',
      url_port_or_known_default = None, url_path = s, url_path_segments = None, url_query = None,
      url_fragment = None\<rparr>"

definition demo_urls :: env where
  "demo_urls = demo_env\<lparr>url_parse := (\<lambda>s. Some (demo_url s))\<rparr>"

definition demo_metadata_location :: string where
  "demo_metadata_location = ''s3://bucket/orders/m2.json''"

definition demo_plan :: CommitPlan where
  "demo_plan =
     \<lparr>cp_prepared_by = ''engine'', cp_requirements = [], cp_updates = [],
      cp_new_metadata_location = Some demo_metadata_location,
      cp_new_metadata = jobj [(''format-version'', JInt 2)], cp_metadata_write_required = True,
      cp_metadata_patch = JNull\<rparr>"

definition demo_allow :: governance_engine where
  "demo_allow q =
     Ok \<lparr>ar_principal = aq_principal q, ar_action = aq_action q, ar_table = aq_table q, ar_allowed = True,
         ar_engine = ''demo'', ar_policy_hash = None, ar_context = jobj [], ar_checked_at = 4\<rparr>"

definition demo_writer :: LakeCatState where
  "demo_writer =
     demo_service\<lparr>lc_env := demo_urls, lc_governance := demo_allow,
       lc_sail := \<lparr>se_prepare_commit = (\<lambda>_. Ok demo_plan), se_plan_scan = deferred_plan_scan,
                   se_fetch_scan_tasks = deferred_fetch_scan_tasks\<rparr>\<rparr>"

definition demo_objects :: object_world where
  "demo_objects = \<lparr>ow_cache = [], ow_objects = (\<lambda>_. None), ow_outcomes = [], ow_slept_ms = 0\<rparr>"

definition demo_world :: "(int \<Rightarrow> MemoryState \<Rightarrow> MemoryState) list \<Rightarrow> world" where
  "demo_world others =
     \<lparr>wd_catalog = demo_state, wd_objects = demo_objects, wd_others = others, wd_clock = int, wd_ticks = 3,
      wd_uuid = ''u''\<rparr>"

definition demo_headers :: HeaderMap where
  "demo_headers = (\<lambda>_. [])"

definition demo_commit_request :: CommitTableRequest where
  "demo_commit_request =
     \<lparr>cq_requirements = [], cq_updates = [], cq_metadata_location = None, cq_metadata = None\<rparr>"

definition demo_anonymous :: RequestIdentity where
  "demo_anonymous =
     \<lparr>ri_principal = principal_anonymous,
      ri_envelope = identity_envelope demo_urls principal_anonymous ''anonymous'' None None None None None None None,
      ri_typedid_envelope = None\<rparr>"

lemma demo_no_key: "request_idempotency_key demo_headers = Ok None"
  by (simp add: request_idempotency_key_def single_idempotency_header_def demo_headers_def)

lemma demo_request_identity: "request_identity demo_urls Some demo_headers = Ok demo_anonymous"
  by (simp add: request_identity_def single_header_def demo_headers_def Let_def or_else_def select_principal_def
      check_agent_evidence_def demo_anonymous_def)

lemma demo_writer_fields [simp]:
  "lc_env demo_writer = demo_urls" "lc_governance demo_writer = demo_allow" "lc_header_str demo_writer = Some"
  "lc_warehouse demo_writer = ''wh''" "se_prepare_commit (lc_sail demo_writer) = (\<lambda>_. Ok demo_plan)"
  "lc_typedid_verifier demo_writer = conservative_verify" "lc_objects demo_writer = demo_object_api"
  by (simp_all add: demo_writer_def demo_service_def)

lemma demo_identify: "identify demo_writer demo_headers w = (Ok demo_anonymous, w)"
  by (simp add: identify_def lift_result_def demo_request_identity)

lemma demo_rest_ident: "rest_table_ident ''wh'' ''sales'' ''orders'' = Ok demo_ident"
  by code_simp

lemma demo_loaded: "load_table demo_state demo_ident = Ok demo_table"
  by code_simp

lemma demo_no_policies: "store_policy_bindings_for_table demo_urls demo_state demo_ident = Ok []"
  by code_simp

lemma demo_profile: "storage_profile_for_table demo_urls demo_state demo_table = Ok (storage_profile_inferred_for_table demo_table)"
  by code_simp

lemma demo_commit_authorized:
  "authorize demo_writer demo_state demo_anonymous action (Some demo_ident) =
     Ok \<lparr>ar_principal = principal_anonymous, ar_action = action, ar_table = Some demo_ident, ar_allowed = True,
         ar_engine = ''demo'', ar_policy_hash = None, ar_context = jobj [], ar_checked_at = 4\<rparr>"
  by (simp add: authorize_def authorize_with_operation_context_def request_bindings_def demo_no_policies
      request_restriction_def restricted_context_def operation_extended_nothing base_context_def demo_allow_def
      with_read_restriction_policy_hash_def verify_typedid_identity_def demo_anonymous_def)

subsection \<open>A commit that is acknowledged, and one that loses a race\<close>

definition demo_commit_capability :: TableCommitCapability where
  "demo_commit_capability =
     Capability
       \<lparr>ar_principal = principal_anonymous, ar_action = TableCommit, ar_table = Some demo_ident,
        ar_allowed = True, ar_engine = ''demo'', ar_policy_hash = None, ar_context = jobj [],
        ar_checked_at = 4\<rparr> demo_ident"

definition demo_planned :: TableCommit where
  "demo_planned = planned_commit demo_writer demo_commit_capability demo_table demo_plan None None"

lemma demo_capability:
  "authorize_table_commit demo_writer demo_state demo_anonymous demo_ident = Ok demo_commit_capability"
  by (simp add: authorize_table_commit_def table_commit_from_receipt_def demo_commit_authorized
      table_capability_iff demo_commit_capability_def)

lemma demo_capability_resource: "cap_resource demo_commit_capability = demo_ident"
  by (simp add: demo_commit_capability_def)

definition demo_snapshot :: TableCommitSnapshot where
  "demo_snapshot =
     \<lparr>cs_ident = demo_ident, cs_location = tr_location demo_table,
      cs_metadata_location = tr_metadata_location demo_table, cs_created = tr_created demo_table,
      cs_updated_at = tr_updated_at demo_table, cs_version = tr_version demo_table,
      cs_staged = tr_staged demo_table\<rparr>"

lemma demo_snapshot_taken: "commit_snapshot_try_from_table demo_table = Ok demo_snapshot"
  by code_simp

lemma demo_location_valid:
  "validate_planned_metadata_location demo_urls demo_plan (tr_metadata_location demo_table)
     (storage_profile_inferred_for_table demo_table) = Ok ()"
  by code_simp

definition demo_written :: object_world where
  "demo_written =
     \<lparr>ow_cache = bt_insert (store_cache_key demo_object_api ''s3'' (demo_url demo_metadata_location)) ''s3'' [],
      ow_objects = (\<lambda>_. None)((''s3'', demo_metadata_location) \<mapsto> ''{}''), ow_outcomes = [], ow_slept_ms = 0\<rparr>"

lemma demo_write:
  "write_planned_metadata demo_urls demo_object_api demo_plan demo_objects =
     (Ok (Some \<lparr>mw_location = demo_metadata_location\<rparr>), demo_written)"
  by (simp add: write_planned_metadata_def demo_plan_def write_metadata_object_def and_then_op_def
      metadata_object_store_def demo_urls_def demo_object_api_def demo_url_def Let_def object_put_create_def
      next_outcome_def demo_objects_def demo_written_def)

lemma demo_commit_ok: "is_ok (fst (commit_table demo_urls 3 demo_ident demo_planned demo_state))"
  by code_simp

text \<open>The catalog another commit leaves between the write of the object and the swap.\<close>

definition demo_race :: "int \<Rightarrow> MemoryState \<Rightarrow> MemoryState" where
  "demo_race now s = snd (commit_table demo_urls now demo_ident demo_commit s)"

definition demo_racing :: "(int \<Rightarrow> MemoryState \<Rightarrow> MemoryState) list" where
  "demo_racing = [\<lambda>_ s. s, \<lambda>_ s. s, \<lambda>_ s. s, demo_race]"

lemma demo_commit_loses: "\<not> is_ok (fst (commit_table demo_urls 7 demo_ident demo_planned (demo_race 6 demo_state)))"
  by code_simp

abbreviation demo_commit_served :: "world \<Rightarrow> reply result \<times> world" where
  "demo_commit_served \<equiv> serve demo_writer demo_headers (PostCommit None ''sales'' ''orders'' demo_commit_request)"

lemma demo_serve_commit:
  "demo_commit_served w =
     and_then_op (store_read (\<lambda>s. authorize_table_commit demo_writer s demo_anonymous demo_ident)) (\<lambda>cap.
       commit_loaded_table demo_writer cap demo_commit_request None None) w"
  by (simp add: routed_def handle_commit_table_def commit_table_in_warehouse_def demo_no_key demo_identify
      demo_rest_ident lift_result_def and_then_op_def split: prod.split sum.split)

lemmas demo_steps = commit_loaded_table_def and_then_op_def store_read_def lift_result_def
  others_run_def tick_def demo_world_def demo_capability demo_loaded demo_profile demo_snapshot_taken
  demo_location_valid demo_write object_call_def Let_def

lemma demo_commit_acknowledged: "\<exists>r w'. demo_commit_served (demo_world []) = (Inr r, w')"
proof -
  obtain t s where "commit_table demo_urls 3 demo_ident demo_planned demo_state = (Ok t, s)"
    using demo_commit_ok by (rule is_okE)
  then show ?thesis
    unfolding demo_serve_commit
    by (simp add: demo_steps demo_capability_resource)
      (simp add: or_clean_up_def store_call_def others_run_def tick_def commit_table_with_snapshot_def
        demo_planned_def demo_snapshot_def lift_result_def Let_def)
qed

lemma demo_commit_refused: "\<exists>e w'. demo_commit_served (demo_world demo_racing) = (Inl e, w')"
proof -
  obtain e s where lost: "commit_table demo_urls 7 demo_ident demo_planned (demo_race 6 demo_state) = (Inl e, s)"
    using demo_commit_loses
    by (cases "commit_table demo_urls 7 demo_ident demo_planned (demo_race 6 demo_state)";
        cases "fst (commit_table demo_urls 7 demo_ident demo_planned (demo_race 6 demo_state))") auto
  then show ?thesis
    unfolding demo_serve_commit
    by (simp add: demo_steps demo_racing_def demo_capability_resource)
      (simp add: or_clean_up_def store_call_def others_run_def tick_def commit_table_with_snapshot_def
        demo_planned_def demo_snapshot_def lift_result_def Let_def split: prod.split)
qed

end
