(* ===== verification/SinkEvents.thy ===== *)
theory SinkEvents
  imports StoreScopes LakeJson LakeCore
begin

section \<open>Graph events\<close>

text \<open>
  \<open>crates/lakecat-graph/src/lib.rs\<close>: the nodes of the catalog graph, their stable ids, the events the
  catalog emits about them, and the sink that only validates. The time of an event is the argument
  \<open>now\<close> of its constructor.
\<close>

datatype GraphNodeLabel =
    GraphServer | GraphProject | GraphWarehouse | GraphNamespace | GraphTable | GraphView | GraphColumn
  | GraphSnapshot | GraphManifest | GraphDataFile | GraphDeleteFile | GraphPolicy | GraphStorageProfile
  | GraphPrincipal | GraphScanPlan | GraphCommit | GraphLineageRun | GraphQueryGraphModel

fun graph_label_as_str :: "GraphNodeLabel \<Rightarrow> string" where
  "graph_label_as_str GraphServer = ''Server''"
| "graph_label_as_str GraphProject = ''Project''"
| "graph_label_as_str GraphWarehouse = ''Warehouse''"
| "graph_label_as_str GraphNamespace = ''Namespace''"
| "graph_label_as_str GraphTable = ''Table''"
| "graph_label_as_str GraphView = ''View''"
| "graph_label_as_str GraphColumn = ''Column''"
| "graph_label_as_str GraphSnapshot = ''Snapshot''"
| "graph_label_as_str GraphManifest = ''Manifest''"
| "graph_label_as_str GraphDataFile = ''DataFile''"
| "graph_label_as_str GraphDeleteFile = ''DeleteFile''"
| "graph_label_as_str GraphPolicy = ''Policy''"
| "graph_label_as_str GraphStorageProfile = ''StorageProfile''"
| "graph_label_as_str GraphPrincipal = ''Principal''"
| "graph_label_as_str GraphScanPlan = ''ScanPlan''"
| "graph_label_as_str GraphCommit = ''Commit''"
| "graph_label_as_str GraphLineageRun = ''LineageRun''"
| "graph_label_as_str GraphQueryGraphModel = ''QueryGraphModel''"

definition graph_requires_table :: "GraphNodeLabel \<Rightarrow> bool" where
  "graph_requires_table label \<longleftrightarrow>
     label \<in> {GraphTable, GraphColumn, GraphSnapshot, GraphManifest, GraphDataFile, GraphDeleteFile, GraphCommit}"

datatype GraphAction =
    GraphCreated | GraphUpserted | GraphLoaded | GraphPlannedScan | GraphCommitted | GraphRenamed | GraphDeleted

record GraphEvent =
  ge_event_id :: "string option"
  ge_subject :: string
  ge_label :: GraphNodeLabel
  ge_action :: GraphAction
  ge_table :: "TableIdent option"
  ge_properties :: json
  ge_emitted_at :: int

subsection \<open>Stable ids\<close>

definition server_stable_id :: "string \<Rightarrow> string" where
  "server_stable_id server_id = ''lakecat:server:'' @ server_id"

definition project_stable_id :: "string \<Rightarrow> string" where
  "project_stable_id project_id = ''lakecat:project:'' @ project_id"

definition warehouse_stable_id :: "WarehouseName \<Rightarrow> string" where
  "warehouse_stable_id warehouse = ''lakecat:warehouse:'' @ warehouse"

definition namespace_stable_id :: "WarehouseName \<Rightarrow> Namespace \<Rightarrow> string" where
  "namespace_stable_id warehouse ns =
     ''lakecat:warehouse:'' @ warehouse @ '':namespace:'' @ namespace_display ns"

definition graph_view_stable_id :: "WarehouseName \<Rightarrow> Namespace \<Rightarrow> string \<Rightarrow> string" where
  "graph_view_stable_id warehouse ns name =
     ''lakecat:warehouse:'' @ warehouse @ '':namespace:'' @ namespace_display ns @ '':view:'' @ name"

definition policy_stable_id :: "WarehouseName \<Rightarrow> string \<Rightarrow> string" where
  "policy_stable_id warehouse policy_id = ''lakecat:warehouse:'' @ warehouse @ '':policy:'' @ policy_id"

definition storage_profile_stable_id :: "WarehouseName \<Rightarrow> string \<Rightarrow> string" where
  "storage_profile_stable_id warehouse profile_id =
     ''lakecat:warehouse:'' @ warehouse @ '':storage-profile:'' @ profile_id"

definition scan_plan_stable_id :: "string \<Rightarrow> string" where
  "scan_plan_stable_id plan_id = ''lakecat:scan-plan:'' @ plan_id"

definition table_scoped_stable_id :: "string \<Rightarrow> TableIdent \<Rightarrow> string \<Rightarrow> string" where
  "table_scoped_stable_id kind table local_id =
     ''lakecat:'' @ kind @ '':lakecat:table:'' @ ti_warehouse table @ '':'' @
     namespace_display (ti_namespace table) @ '':'' @ ti_name table @ '':'' @ local_id"

definition commit_stable_id :: "TableIdent \<Rightarrow> 64 word \<Rightarrow> string" where
  "commit_stable_id table sequence_number =
     table_scoped_stable_id ''commit'' table (nat_str (unat sequence_number))"

definition column_stable_id :: "TableIdent \<Rightarrow> string \<Rightarrow> string" where
  "column_stable_id table column_id = table_scoped_stable_id ''column'' table column_id"

definition snapshot_stable_id :: "TableIdent \<Rightarrow> string \<Rightarrow> string" where
  "snapshot_stable_id table snapshot_id = table_scoped_stable_id ''snapshot'' table snapshot_id"

definition principal_stable_id :: "Principal \<Rightarrow> string" where
  "principal_stable_id p = ''lakecat:principal:'' @ pr_subject p"

subsection \<open>Events\<close>

definition graph_node :: "int \<Rightarrow> GraphNodeLabel \<Rightarrow> GraphAction \<Rightarrow> string \<Rightarrow> TableIdent option \<Rightarrow> json \<Rightarrow> GraphEvent" where
  "graph_node now label action subject table properties =
     \<lparr>ge_event_id = None, ge_subject = subject, ge_label = label, ge_action = action, ge_table = table,
      ge_properties = properties, ge_emitted_at = now\<rparr>"

definition graph_server :: "int \<Rightarrow> GraphAction \<Rightarrow> string \<Rightarrow> json \<Rightarrow> GraphEvent" where
  "graph_server now action server_id properties =
     graph_node now GraphServer action (server_stable_id server_id) None properties"

definition graph_project :: "int \<Rightarrow> GraphAction \<Rightarrow> string \<Rightarrow> json \<Rightarrow> GraphEvent" where
  "graph_project now action project_id properties =
     graph_node now GraphProject action (project_stable_id project_id) None properties"

definition graph_table :: "int \<Rightarrow> GraphAction \<Rightarrow> TableIdent \<Rightarrow> json \<Rightarrow> GraphEvent" where
  "graph_table now action table properties =
     graph_node now GraphTable action (table_stable_id table) (Some table) properties"

definition graph_namespace :: "int \<Rightarrow> GraphAction \<Rightarrow> WarehouseName \<Rightarrow> Namespace \<Rightarrow> json \<Rightarrow> GraphEvent" where
  "graph_namespace now action warehouse ns properties =
     graph_node now GraphNamespace action (namespace_stable_id warehouse ns) None properties"

definition graph_warehouse :: "int \<Rightarrow> GraphAction \<Rightarrow> WarehouseName \<Rightarrow> json \<Rightarrow> GraphEvent" where
  "graph_warehouse now action warehouse properties =
     graph_node now GraphWarehouse action (warehouse_stable_id warehouse) None properties"

definition graph_view :: "int \<Rightarrow> GraphAction \<Rightarrow> WarehouseName \<Rightarrow> Namespace \<Rightarrow> string \<Rightarrow> json \<Rightarrow> GraphEvent" where
  "graph_view now action warehouse ns name properties =
     graph_node now GraphView action (graph_view_stable_id warehouse ns name) None properties"

definition graph_policy :: "int \<Rightarrow> GraphAction \<Rightarrow> WarehouseName \<Rightarrow> string \<Rightarrow> json \<Rightarrow> GraphEvent" where
  "graph_policy now action warehouse policy_id properties =
     graph_node now GraphPolicy action (policy_stable_id warehouse policy_id) None properties"

definition graph_querygraph_model :: "int \<Rightarrow> GraphAction \<Rightarrow> WarehouseName \<Rightarrow> string \<Rightarrow> json \<Rightarrow> GraphEvent" where
  "graph_querygraph_model now action warehouse model_id properties =
     graph_node now GraphQueryGraphModel action
       (''lakecat:warehouse:'' @ warehouse @ '':querygraph-model:'' @ model_id) None properties"

definition graph_storage_profile :: "int \<Rightarrow> GraphAction \<Rightarrow> WarehouseName \<Rightarrow> string \<Rightarrow> json \<Rightarrow> GraphEvent" where
  "graph_storage_profile now action warehouse profile_id properties =
     graph_node now GraphStorageProfile action (storage_profile_stable_id warehouse profile_id) None properties"

definition graph_scan_plan :: "int \<Rightarrow> GraphAction \<Rightarrow> string \<Rightarrow> json \<Rightarrow> GraphEvent" where
  "graph_scan_plan now action plan_id properties =
     graph_node now GraphScanPlan action (scan_plan_stable_id plan_id) None properties"

definition graph_commit :: "int \<Rightarrow> GraphAction \<Rightarrow> TableIdent \<Rightarrow> 64 word \<Rightarrow> json \<Rightarrow> GraphEvent" where
  "graph_commit now action table sequence_number properties =
     graph_node now GraphCommit action (commit_stable_id table sequence_number) (Some table) properties"

definition graph_column :: "int \<Rightarrow> GraphAction \<Rightarrow> TableIdent \<Rightarrow> string \<Rightarrow> json \<Rightarrow> GraphEvent" where
  "graph_column now action table column_id properties =
     graph_node now GraphColumn action (column_stable_id table column_id) (Some table) properties"

definition graph_snapshot :: "int \<Rightarrow> GraphAction \<Rightarrow> TableIdent \<Rightarrow> string \<Rightarrow> json \<Rightarrow> GraphEvent" where
  "graph_snapshot now action table snapshot_id properties =
     graph_node now GraphSnapshot action (snapshot_stable_id table snapshot_id) (Some table) properties"

definition graph_principal :: "int \<Rightarrow> GraphAction \<Rightarrow> Principal \<Rightarrow> json \<Rightarrow> GraphEvent" where
  "graph_principal now action p properties =
     graph_node now GraphPrincipal action (principal_stable_id p) None properties"

definition with_event_id :: "string \<Rightarrow> GraphEvent \<Rightarrow> GraphEvent" where
  "with_event_id event_id ev = ev\<lparr>ge_event_id := Some event_id\<rparr>"

definition graph_event_validate :: "GraphEvent \<Rightarrow> unit result" where
  "graph_event_validate ev =
     (if blank (ge_subject ev) then Err (InvalidArgument ''catalog graph event subject must not be blank'')
      else if (case ge_event_id ev of None \<Rightarrow> False | Some event_id \<Rightarrow> blank event_id) then
        Err (InvalidArgument ''catalog graph event id must not be blank'')
      else if \<not> is_object (ge_properties ev) then
        Err (InvalidArgument ''catalog graph event properties must be a JSON object'')
      else if graph_requires_table (ge_label ev) \<and> ge_table ev = None then
        Err (InvalidArgument (''catalog graph event label '' @ graph_label_as_str (ge_label ev) @
               '' requires table identity''))
      else Ok ())"

text \<open>\<open>NoopCatalogGraphSink\<close>.\<close>

definition noop_graph_emit :: "GraphEvent \<Rightarrow> unit result" where
  "noop_graph_emit ev = graph_event_validate ev"

lemma graph_node_fields [simp]:
  "ge_event_id (with_event_id i ev) = Some i" "ge_subject (with_event_id i ev) = ge_subject ev"
  "ge_label (with_event_id i ev) = ge_label ev" "ge_table (with_event_id i ev) = ge_table ev"
  "ge_properties (with_event_id i ev) = ge_properties ev"
  by (simp_all add: with_event_id_def)

section \<open>Lineage events\<close>

text \<open>
  \<open>crates/lakecat-lineage/src/lib.rs\<close>: the events a drain sends to the lineage sink, the OpenLineage
  document of an event, its hashes, and the sink that answers with the hashes alone. The time of an
  event is a field of it; \<open>replay_lineage_event\<close> of the drain sets it.
\<close>

datatype LineageEventType =
    CatalogConfigRead | NamespaceCreated | NamespaceDropped | NamespaceListed | NamespaceLoaded
  | NamespacePropertiesUpdated | PolicyBindingListed | PolicyBindingUpserted | ProjectListed
  | ProjectUpserted | ServerListed | ServerUpserted | StorageProfileListed | StorageProfileUpserted
  | TableCreated | TableLoaded | TableCommitRecordsListed | TableScanPlanned | TableCommitted
  | TableRenamed | TableDeleted | TableRestored | ViewDropped | ViewLoaded | ViewListed
  | ViewVersionReceiptChainsListed | ViewVersionReceiptsListed | ViewUpserted | WarehouseListed
  | WarehouseUpserted | CredentialsVendAttempted | QueryGraphBootstrap | ModelPublished

record LineageEvent =
  le_event_type :: LineageEventType
  le_principal :: Principal
  le_table :: "TableIdent option"
  le_payload :: json
  le_emitted_at :: int

record LineageReceipt =
  lr_event_hash :: string
  lr_open_lineage_hash :: string
  lr_sink :: string

fun lineage_event_type_name :: "LineageEventType \<Rightarrow> string" where
  "lineage_event_type_name CatalogConfigRead = ''catalog-config-read''"
| "lineage_event_type_name NamespaceCreated = ''namespace-created''"
| "lineage_event_type_name NamespaceDropped = ''namespace-dropped''"
| "lineage_event_type_name NamespaceListed = ''namespace-listed''"
| "lineage_event_type_name NamespaceLoaded = ''namespace-loaded''"
| "lineage_event_type_name NamespacePropertiesUpdated = ''namespace-properties-updated''"
| "lineage_event_type_name PolicyBindingListed = ''policy-binding-listed''"
| "lineage_event_type_name PolicyBindingUpserted = ''policy-binding-upserted''"
| "lineage_event_type_name ProjectListed = ''project-listed''"
| "lineage_event_type_name ProjectUpserted = ''project-upserted''"
| "lineage_event_type_name ServerListed = ''server-listed''"
| "lineage_event_type_name ServerUpserted = ''server-upserted''"
| "lineage_event_type_name StorageProfileListed = ''storage-profile-listed''"
| "lineage_event_type_name StorageProfileUpserted = ''storage-profile-upserted''"
| "lineage_event_type_name TableCreated = ''table-created''"
| "lineage_event_type_name TableLoaded = ''table-loaded''"
| "lineage_event_type_name TableCommitRecordsListed = ''table-commit-records-listed''"
| "lineage_event_type_name TableScanPlanned = ''table-scan-planned''"
| "lineage_event_type_name TableCommitted = ''table-committed''"
| "lineage_event_type_name TableRenamed = ''table-renamed''"
| "lineage_event_type_name TableDeleted = ''table-deleted''"
| "lineage_event_type_name TableRestored = ''table-restored''"
| "lineage_event_type_name ViewDropped = ''view-dropped''"
| "lineage_event_type_name ViewLoaded = ''view-loaded''"
| "lineage_event_type_name ViewListed = ''view-listed''"
| "lineage_event_type_name ViewVersionReceiptChainsListed = ''view-version-receipt-chains-listed''"
| "lineage_event_type_name ViewVersionReceiptsListed = ''view-version-receipts-listed''"
| "lineage_event_type_name ViewUpserted = ''view-upserted''"
| "lineage_event_type_name WarehouseListed = ''warehouse-listed''"
| "lineage_event_type_name WarehouseUpserted = ''warehouse-upserted''"
| "lineage_event_type_name CredentialsVendAttempted = ''credentials-vend-attempted''"
| "lineage_event_type_name QueryGraphBootstrap = ''querygraph-bootstrap''"
| "lineage_event_type_name ModelPublished = ''model-published''"

text \<open>
  What serde writes for a type: the variant in kebab case, which is the name above except for the
  one variant whose name has \<open>QueryGraph\<close> in it.
\<close>

definition lineage_event_type_json :: "LineageEventType \<Rightarrow> json" where
  "lineage_event_type_json t =
     JStr (if t = QueryGraphBootstrap then ''query-graph-bootstrap'' else lineage_event_type_name t)"

subsection \<open>Hashes\<close>

definition table_identity_json :: "LineageEvent \<Rightarrow> json" where
  "table_identity_json ev = jopt ident_json (le_table ev)"

definition lineage_event_hash :: "env \<Rightarrow> LineageEvent \<Rightarrow> string result" where
  "lineage_event_hash E ev =
     content_hash_json E
       (jobj [(''emitted_at'', JStr (dt_json E (le_emitted_at ev))),
              (''event_type'', lineage_event_type_json (le_event_type ev)),
              (''payload'', le_payload ev), (''principal'', principal_json (le_principal ev)),
              (''table'', table_identity_json ev)])"

definition lineage_run_hash :: "env \<Rightarrow> LineageEvent \<Rightarrow> string \<Rightarrow> string result" where
  "lineage_run_hash E ev event_type =
     content_hash_json E
       (jobj [(''emitted-at'', JStr (dt_json E (le_emitted_at ev))),
              (''event-type'', JStr event_type),
              (''payload'', le_payload ev), (''principal'', principal_json (le_principal ev)),
              (''table'', table_identity_json ev)])"

subsection \<open>Datasets\<close>

definition lakecat_producer :: string where
  "lakecat_producer = ''https://querygraph.ai/lakecat''"

definition facet_schema :: "string \<Rightarrow> string" where
  "facet_schema name = ''https://querygraph.ai/schemas/openlineage/'' @ name @ ''/0.1.0.json''"

definition open_lineage_dataset :: "TableIdent \<Rightarrow> json \<Rightarrow> json" where
  "open_lineage_dataset table payload =
     (let location = case jget payload ''storage-location'' of
            Some v \<Rightarrow> Some v
          | None \<Rightarrow> (case jget payload ''location'' of
                Some v \<Rightarrow> Some v
              | None \<Rightarrow> jget payload ''metadata-location'');
          uri = case Option.bind location as_str of Some s \<Rightarrow> s | None \<Rightarrow> table_stable_id table in
      jobj [(''namespace'', JStr (''lakecat.'' @ ti_warehouse table @ ''.'' @ namespace_display (ti_namespace table))),
            (''name'', JStr (ti_name table)),
            (''facets'', jobj
               [(''dataSource'', jobj
                   [(''_producer'', JStr lakecat_producer),
                    (''_schemaURL'', JStr ''https://openlineage.io/spec/facets/1-0-0/DatasourceDatasetFacet.json''),
                    (''name'', JStr ''LakeCat''), (''uri'', JStr uri)]),
                (''lakecat_catalog'', jobj
                   [(''_producer'', JStr lakecat_producer),
                    (''_schemaURL'', JStr (facet_schema ''lakecat-catalog-facet'')),
                    (''stableId'', JStr (table_stable_id table)), (''payload'', payload)])])])"

definition datasets_of :: "TableIdent option \<Rightarrow> json \<Rightarrow> json list" where
  "datasets_of table payload = (case table of None \<Rightarrow> [] | Some t \<Rightarrow> [open_lineage_dataset t payload])"

definition lineage_inputs :: "LineageEvent \<Rightarrow> json list" where
  "lineage_inputs ev =
     (if le_event_type ev \<in> {TableLoaded, TableScanPlanned, TableDeleted} then
        datasets_of (le_table ev) (le_payload ev)
      else if le_event_type ev = TableRenamed then
        datasets_of (Option.bind (jget (le_payload ev) ''source'') ident_from_json) (le_payload ev)
      else [])"

definition namespace_path_name :: "json \<Rightarrow> string" where
  "namespace_path_name payload =
     (case jget payload ''namespace'' of
        Some (JArr parts) \<Rightarrow> join_with ''.'' (List.map_filter as_str parts)
      | Some (JStr path) \<Rightarrow> path
      | _ \<Rightarrow> ''unknown'')"

definition namespace_lineage_output_name :: "LineageEvent \<Rightarrow> string" where
  "namespace_lineage_output_name ev = namespace_path_name (le_payload ev)"

definition view_lineage_output_name :: "LineageEvent \<Rightarrow> string" where
  "view_lineage_output_name ev =
     (let view = jget (le_payload ev) ''view'' in
      case Option.bind (Option.bind view (\<lambda>v. jget v ''name'')) as_str of
        Some name \<Rightarrow> name
      | None \<Rightarrow> (case Option.bind view as_str of
            Some name \<Rightarrow> name
          | None \<Rightarrow> namespace_path_name (le_payload ev)))"

text \<open>\<open>payload.get(..).and_then(Value::as_str).unwrap_or(..)\<close>, and a field that may be missing.\<close>

definition str_or :: "string \<Rightarrow> json option \<Rightarrow> string" where
  "str_or other v = (case Option.bind v as_str of Some s \<Rightarrow> s | None \<Rightarrow> other)"

definition payload_field :: "json \<Rightarrow> string \<Rightarrow> string \<Rightarrow> string \<times> json" where
  "payload_field payload name field = (name, jopt (\<lambda>v. v) (jget payload field))"

definition lineage_output :: "string \<Rightarrow> string \<Rightarrow> string \<Rightarrow> string \<Rightarrow> (string \<times> json) list \<Rightarrow> json \<Rightarrow> json" where
  "lineage_output namespace name facet schema facet_fields payload =
     jobj [(''namespace'', JStr namespace), (''name'', JStr name),
           (''facets'', jobj
              [(facet, jobj ([(''_producer'', JStr lakecat_producer),
                              (''_schemaURL'', JStr (facet_schema schema))] @ facet_fields @ [(''payload'', payload)]))])]"

definition namespace_output :: "LineageEvent \<Rightarrow> json" where
  "namespace_output ev =
     lineage_output ''lakecat.namespace'' (namespace_lineage_output_name ev) ''lakecat_namespace''
       ''lakecat-namespace-facet'' [] (le_payload ev)"

definition view_output :: "LineageEvent \<Rightarrow> json" where
  "view_output ev =
     lineage_output
       (if le_event_type ev \<in> {ViewListed, ViewVersionReceiptChainsListed, ViewVersionReceiptsListed}
        then ''lakecat.view-list'' else ''lakecat.view'')
       (view_lineage_output_name ev) ''lakecat_view'' ''lakecat-view-facet''
       [payload_field (le_payload ev) ''warehouse'' ''warehouse'',
        payload_field (le_payload ev) ''namespace'' ''namespace''] (le_payload ev)"

definition lineage_outputs :: "LineageEvent \<Rightarrow> json list" where
  "lineage_outputs ev =
     (let payload = le_payload ev;
          named = (\<lambda>field. str_or ''unknown'' (jget payload field));
          nested = (\<lambda>a b. str_or ''unknown'' (Option.bind (jget payload a) (\<lambda>v. jget v b)));
          warehouse = payload_field payload ''warehouse'' ''warehouse'' in
      case le_event_type ev of
        TableCreated \<Rightarrow> datasets_of (le_table ev) payload
      | TableCommitted \<Rightarrow> datasets_of (le_table ev) payload
      | TableRenamed \<Rightarrow> datasets_of (le_table ev) payload
      | TableRestored \<Rightarrow> datasets_of (le_table ev) payload
      | CatalogConfigRead \<Rightarrow>
          [lineage_output ''lakecat.catalog-config'' (named ''warehouse'') ''lakecat_catalogConfig''
             ''lakecat-catalog-config-facet'' [] payload]
      | NamespaceCreated \<Rightarrow> [namespace_output ev]
      | NamespaceDropped \<Rightarrow> [namespace_output ev]
      | NamespaceLoaded \<Rightarrow> [namespace_output ev]
      | NamespacePropertiesUpdated \<Rightarrow> [namespace_output ev]
      | NamespaceListed \<Rightarrow>
          [lineage_output ''lakecat.namespace-list'' (named ''warehouse'') ''lakecat_namespace''
             ''lakecat-namespace-facet'' [] payload]
      | PolicyBindingListed \<Rightarrow>
          [lineage_output ''lakecat.policy-list'' (named ''warehouse'') ''lakecat_policyBinding''
             ''lakecat-policy-binding-facet'' [warehouse] payload]
      | PolicyBindingUpserted \<Rightarrow>
          [lineage_output ''lakecat.policy'' (nested ''policy'' ''policy-id'') ''lakecat_policyBinding''
             ''lakecat-policy-binding-facet'' [warehouse] payload]
      | ProjectListed \<Rightarrow>
          [lineage_output ''lakecat.project-list'' ''projects'' ''lakecat_project'' ''lakecat-project-facet'' [] payload]
      | ProjectUpserted \<Rightarrow>
          [lineage_output ''lakecat.project'' (named ''project-id'') ''lakecat_project'' ''lakecat-project-facet'' [] payload]
      | ServerListed \<Rightarrow>
          [lineage_output ''lakecat.server-list'' ''servers'' ''lakecat_server'' ''lakecat-server-facet'' [] payload]
      | ServerUpserted \<Rightarrow>
          [lineage_output ''lakecat.server'' (named ''server-id'') ''lakecat_server'' ''lakecat-server-facet'' [] payload]
      | StorageProfileListed \<Rightarrow>
          [lineage_output ''lakecat.storage-profile-list'' (named ''warehouse'') ''lakecat_storageProfile''
             ''lakecat-storage-profile-facet'' [warehouse] payload]
      | StorageProfileUpserted \<Rightarrow>
          [lineage_output ''lakecat.storage-profile'' (nested ''storage-profile'' ''profile-id'')
             ''lakecat_storageProfile'' ''lakecat-storage-profile-facet'' [warehouse] payload]
      | ViewDropped \<Rightarrow> [view_output ev]
      | ViewLoaded \<Rightarrow> [view_output ev]
      | ViewListed \<Rightarrow> [view_output ev]
      | ViewVersionReceiptChainsListed \<Rightarrow> [view_output ev]
      | ViewVersionReceiptsListed \<Rightarrow> [view_output ev]
      | ViewUpserted \<Rightarrow> [view_output ev]
      | WarehouseListed \<Rightarrow>
          [lineage_output ''lakecat.warehouse-list'' (str_or ''warehouses'' (jget payload ''project-id''))
             ''lakecat_warehouse'' ''lakecat-warehouse-facet'' [] payload]
      | WarehouseUpserted \<Rightarrow>
          [lineage_output ''lakecat.warehouse'' (named ''warehouse'') ''lakecat_warehouse''
             ''lakecat-warehouse-facet'' [] payload]
      | QueryGraphBootstrap \<Rightarrow>
          [lineage_output ''lakecat.querygraph'' ''bootstrap'' ''queryGraph_bootstrap'' ''querygraph-bootstrap-facet''
             [warehouse, payload_field payload ''tableCount'' ''table-count'',
              payload_field payload ''policyBindingCount'' ''policy-binding-count'',
              payload_field payload ''bundleHash'' ''bundle-hash'',
              payload_field payload ''graphHash'' ''graph-hash'',
              payload_field payload ''openLineageHash'' ''open-lineage-hash'',
              payload_field payload ''queryGraphImportHash'' ''querygraph-import-hash''] payload]
      | _ \<Rightarrow> [])"

subsection \<open>The document and the hash-only sink\<close>

definition open_lineage_event :: "env \<Rightarrow> LineageEvent \<Rightarrow> json" where
  "open_lineage_event E ev =
     (let event_type = lineage_event_type_name (le_event_type ev);
          run_id = case lineage_run_hash E ev event_type of Inl _ \<Rightarrow> ''unhashable-lineage-event'' | Inr h \<Rightarrow> h in
      jobj [(''eventType'', JStr ''COMPLETE''), (''eventTime'', JStr (dt_json E (le_emitted_at ev))),
            (''run'', jobj
               [(''runId'', JStr (''lakecat-'' @ run_id)),
                (''facets'', jobj
                   [(''lakecat_catalogEvent'', jobj
                       [(''_producer'', JStr lakecat_producer),
                        (''_schemaURL'', JStr (facet_schema ''lakecat-catalog-event-facet'')),
                        (''eventType'', JStr event_type), (''principal'', principal_json (le_principal ev)),
                        (''payload'', le_payload ev)])])]),
            (''job'', jobj [(''namespace'', JStr ''lakecat.catalog''), (''name'', JStr event_type)]),
            (''inputs'', JArr (lineage_inputs ev)), (''outputs'', JArr (lineage_outputs ev)),
            (''producer'', JStr lakecat_producer),
            (''schemaURL'', JStr ''https://openlineage.io/spec/2-0-2/OpenLineage.json'')])"

definition hash_only_lineage_emit :: "env \<Rightarrow> LineageEvent \<Rightarrow> LineageReceipt result" where
  "hash_only_lineage_emit E ev =
     and_then (lineage_event_hash E ev) (\<lambda>event_hash.
     and_then (content_hash_json E (open_lineage_event E ev)) (\<lambda>open_lineage_hash.
     Ok \<lparr>lr_event_hash = event_hash, lr_open_lineage_hash = open_lineage_hash,
         lr_sink = ''lakecat-openlineage-hash''\<rparr>))"

end
