(* ===== verification/EvidenceFields.thy ===== *)
theory EvidenceFields
  imports OdrlPolicies StoreEvents
begin

section \<open>Evidence: fields\<close>

text \<open>
  \<open>crates/lakecat-service/src/evidence/fields.rs\<close>: the checks of single fields that the validators
  of outbox events are made of. A validator returns \<open>Ok\<close> or the error of the first check that
  fails; every such error names the type and the sink of the event and the hash of its id.
  What serde and chrono say about a value they refuse is not under src/: the texts, and whether
  chrono reads a string as an RFC 3339 timestamp, are the record \<open>evidence_api\<close>.
\<close>

record evidence_api =
  ea_env :: env
  ea_serde_error :: "string \<Rightarrow> json \<Rightarrow> string"
  ea_rfc3339_error :: "string \<Rightarrow> string option"

named_theorems evidence_simps \<open>when the checks of evidence fields succeed\<close>

subsection \<open>Sequences of checks\<close>

text \<open>Statements that may return early, in their order: the first error is the result.\<close>

fun checks :: "('e + unit) list \<Rightarrow> 'e + unit" where
  "checks [] = Inr ()"
| "checks (c # cs) = (case c of Inl e \<Rightarrow> Inl e | Inr _ \<Rightarrow> checks cs)"

definition reject_if :: "bool \<Rightarrow> 'e \<Rightarrow> 'e + unit" where
  "reject_if b e = (if b then Inl e else Inr ())"

lemma checks_ok [evidence_simps]: "checks cs = Inr () \<longleftrightarrow> list_all (\<lambda>c. c = Inr ()) cs"
  by (induction cs) (auto split: sum.splits)

lemma reject_if_ok [evidence_simps]: "reject_if b e = Inr () \<longleftrightarrow> \<not> b"
  by (simp add: reject_if_def)

lemma checks_stops: "checks (cs @ Inl e # cs') = Inl e" if "list_all (\<lambda>c. c = Inr ()) cs"
  using that by (induction cs) auto

declare checks.simps [simp del]

lemma reject_if_simps [simp]: "reject_if True e = Inl e" "reject_if False e = Inr ()"
  by (simp_all add: reject_if_def)

text \<open>\<open>as_bool\<close>, \<open>pointer\<close> along object keys, and \<open>is_some_and\<close> of a string.\<close>

fun as_bool :: "json \<Rightarrow> bool option" where
  "as_bool (JBool b) = Some b" | "as_bool _ = None"

lemma as_bool_Some [simp]: "as_bool v = Some b \<longleftrightarrow> v = JBool b"
  by (cases v) auto

fun jpointer :: "json \<Rightarrow> string list \<Rightarrow> json option" where
  "jpointer v [] = Some v"
| "jpointer v (k # ks) = (case jget v k of None \<Rightarrow> None | Some w \<Rightarrow> jpointer w ks)"

definition field_str :: "json \<Rightarrow> string \<Rightarrow> string option" where
  "field_str v k = Option.bind (jget v k) as_str"

definition field_u64 :: "json \<Rightarrow> string \<Rightarrow> 64 word option" where
  "field_u64 v k = Option.bind (jget v k) as_u64"

definition field_bool :: "json \<Rightarrow> string \<Rightarrow> bool option" where
  "field_bool v k = Option.bind (jget v k) as_bool"

definition field_array :: "json \<Rightarrow> string \<Rightarrow> json list option" where
  "field_array v k = Option.bind (jget v k) as_array"

lemma field_simps:
  "field_str v k = Some s \<longleftrightarrow> jget v k = Some (JStr s)"
  "field_bool v k = Some b \<longleftrightarrow> jget v k = Some (JBool b)"
  "field_array v k = Some xs \<longleftrightarrow> jget v k = Some (JArr xs)"
  by (auto simp: field_str_def field_bool_def field_array_def as_array_Some split: option.splits
      bind_splits)

lemma as_u64_JInt: "as_u64 (JInt n) = (if 0 \<le> n \<and> n < 2 ^ 64 then Some (word_of_int n) else None)"
  by (simp add: as_u64_def u64_from_json_def)

lemma field_u64_uint [simp]: "jget v k = Some (JInt (uint n)) \<Longrightarrow> field_u64 v k = Some (n :: 64 word)"
  using uint_bounded [of n] by (simp add: field_u64_def as_u64_JInt)

definition str_filter :: "(string \<Rightarrow> bool) \<Rightarrow> string option \<Rightarrow> string option" where
  "str_filter P x = (case x of None \<Rightarrow> None | Some s \<Rightarrow> if P s then Some s else None)"

lemma str_filter_Some [simp]: "str_filter P x = Some s \<longleftrightarrow> x = Some s \<and> P s"
  by (auto simp: str_filter_def split: option.splits)

text \<open>\<open>from_value::<BTreeMap<String, String>>\<close>.\<close>

definition string_map_from_json :: "json \<Rightarrow> (string, string) btree option" where
  "string_map_from_json v =
     (case v of
        JObj m \<Rightarrow>
          if list_all (\<lambda>(k, w). as_str w \<noteq> None) m then Some (map (\<lambda>(k, w). (k, the (as_str w))) m) else None
      | _ \<Rightarrow> None)"

text \<open>\<open>values.len() as u64\<close>.\<close>

definition len_u64 :: "'a list \<Rightarrow> 64 word" where
  "len_u64 xs = of_nat (length xs)"

subsection \<open>The error of a check\<close>

definition outbox_evidence_error :: "evidence_api \<Rightarrow> OutboxEvent \<Rightarrow> string \<Rightarrow> error" where
  "outbox_evidence_error X ev message =
     InvalidArgument (''outbox event '' @ oe_event_type ev @ '' ('' @ oe_sink ev @ '') has invalid '' @
       message @ ''; event-id-hash='' @ content_hash_bytes (ea_env X) (oe_event_id ev))"

subsection \<open>Hashes\<close>

definition is_full_sha256_digest_evidence :: "string \<Rightarrow> bool" where
  "is_full_sha256_digest_evidence value =
     (case strip_prefix value ''sha256:'' of
        None \<Rightarrow> False
      | Some digest \<Rightarrow> length digest = 64 \<and> list_all is_ascii_hexdigit digest)"

definition full_hash_text :: "string \<Rightarrow> string" where
  "full_hash_text field = field @ '' must contain full SHA-256 digest evidence''"

definition validate_required_full_hash_field ::
  "evidence_api \<Rightarrow> OutboxEvent \<Rightarrow> json \<Rightarrow> string \<Rightarrow> unit result" where
  "validate_required_full_hash_field X ev obj field =
     (if str_filter is_full_sha256_digest_evidence (field_str obj field) \<noteq> None then Ok ()
      else Err (outbox_evidence_error X ev (full_hash_text field)))"

definition validate_optional_full_hash_field ::
  "evidence_api \<Rightarrow> OutboxEvent \<Rightarrow> json \<Rightarrow> string \<Rightarrow> unit result" where
  "validate_optional_full_hash_field X ev obj field =
     (case jget obj field of
        None \<Rightarrow> Ok ()
      | Some value \<Rightarrow>
          if value = JNull then Ok ()
          else if str_filter is_full_sha256_digest_evidence (as_str value) \<noteq> None then Ok ()
          else Err (outbox_evidence_error X ev (full_hash_text field)))"

text \<open>The loop over an array of hashes, shared by the required and the optional form.\<close>

definition hash_of_value :: "evidence_api \<Rightarrow> OutboxEvent \<Rightarrow> string \<Rightarrow> json \<Rightarrow> string result" where
  "hash_of_value X ev field value =
     (case as_str value of
        None \<Rightarrow> Err (outbox_evidence_error X ev (full_hash_text field))
      | Some hash \<Rightarrow>
          if is_full_sha256_digest_evidence hash then Ok hash
          else Err (outbox_evidence_error X ev (full_hash_text field)))"

definition validate_required_full_hash_array_field ::
  "evidence_api \<Rightarrow> OutboxEvent \<Rightarrow> json \<Rightarrow> string \<Rightarrow> string list result" where
  "validate_required_full_hash_array_field X ev obj field =
     (case jget obj field of
        None \<Rightarrow> Err (outbox_evidence_error X ev (field @ '' must be present''))
      | Some values \<Rightarrow>
          (case as_array values of
             None \<Rightarrow> Err (outbox_evidence_error X ev (field @ '' must be an array''))
           | Some xs \<Rightarrow> traverse (hash_of_value X ev field) xs))"

definition validate_optional_full_hash_array_field ::
  "evidence_api \<Rightarrow> OutboxEvent \<Rightarrow> json \<Rightarrow> string \<Rightarrow> string list result" where
  "validate_optional_full_hash_array_field X ev obj field =
     (case jget obj field of
        None \<Rightarrow> Ok []
      | Some values \<Rightarrow>
          (case as_array values of
             None \<Rightarrow> Err (outbox_evidence_error X ev (field @ '' must be an array''))
           | Some xs \<Rightarrow> traverse (hash_of_value X ev field) xs))"

definition validate_unique_hash_array :: "evidence_api \<Rightarrow> OutboxEvent \<Rightarrow> string list \<Rightarrow> string \<Rightarrow> unit result" where
  "validate_unique_hash_array X ev hashes label =
     reject_if (\<not> distinct hashes) (outbox_evidence_error X ev (label @ '' must not contain duplicate hashes''))"

definition validate_unique_string_array :: "evidence_api \<Rightarrow> OutboxEvent \<Rightarrow> string list \<Rightarrow> string \<Rightarrow> unit result" where
  "validate_unique_string_array X ev values label =
     reject_if (\<not> distinct values) (outbox_evidence_error X ev (label @ '' must not contain duplicate values''))"

subsection \<open>Strings and identifiers\<close>

definition required_string_field ::
  "evidence_api \<Rightarrow> OutboxEvent \<Rightarrow> json \<Rightarrow> string \<Rightarrow> string \<Rightarrow> string result" where
  "required_string_field X ev obj field label =
     ok_or (outbox_evidence_error X ev (label @ '' '' @ field @ '' must be a non-empty string''))
       (str_filter (\<lambda>s. s \<noteq> []) (field_str obj field))"

definition required_pointer_string ::
  "evidence_api \<Rightarrow> OutboxEvent \<Rightarrow> json \<Rightarrow> string list \<Rightarrow> string \<Rightarrow> string result" where
  "required_pointer_string X ev obj pointer label =
     ok_or (outbox_evidence_error X ev (label @ '' must be a non-empty string''))
       (str_filter (\<lambda>s. s \<noteq> []) (Option.bind (jpointer obj pointer) as_str))"

definition validate_storage_profile_id_evidence ::
  "evidence_api \<Rightarrow> OutboxEvent \<Rightarrow> string \<Rightarrow> string \<Rightarrow> unit result" where
  "validate_storage_profile_id_evidence X ev profile_id label =
     (if list_all name_char profile_id then Ok ()
      else Err (outbox_evidence_error X ev (label @
             '' profile-id contains unsupported characters; storage-profile-id-hash='' @
             content_hash_bytes (ea_env X) profile_id)))"

definition validate_management_id_evidence ::
  "evidence_api \<Rightarrow> OutboxEvent \<Rightarrow> string \<Rightarrow> string \<Rightarrow> string \<Rightarrow> unit result" where
  "validate_management_id_evidence X ev identifier label field =
     (if list_all name_char identifier then Ok ()
      else Err (outbox_evidence_error X ev (label @ '' '' @ field @
             '' contains unsupported characters; '' @ field @ ''-hash='' @
             content_hash_bytes (ea_env X) identifier)))"

definition validate_string_content_hash_matches_field ::
  "evidence_api \<Rightarrow> OutboxEvent \<Rightarrow> json \<Rightarrow> string \<Rightarrow> string \<Rightarrow> string \<Rightarrow> unit result" where
  "validate_string_content_hash_matches_field X ev obj value_field hash_field label =
     and_then (required_string_field X ev obj value_field label) (\<lambda>value.
     and_then (required_string_field X ev obj hash_field label) (\<lambda>recorded_hash.
     and_then (map_err (\<lambda>_. outbox_evidence_error X ev (label @ '' '' @ hash_field @ '' could not be recomputed''))
                (content_hash_json (ea_env X) (jobj [(value_field, JStr value)]))) (\<lambda>computed_hash.
     reject_if (recorded_hash \<noteq> computed_hash)
       (outbox_evidence_error X ev (label @ '' '' @ hash_field @ '' must match '' @ value_field)))))"

definition validate_string_field_equals ::
  "evidence_api \<Rightarrow> OutboxEvent \<Rightarrow> json \<Rightarrow> string \<Rightarrow> string \<Rightarrow> string \<Rightarrow> unit result" where
  "validate_string_field_equals X ev obj field expected label =
     and_then (required_string_field X ev obj field label) (\<lambda>actual.
     if actual = expected then Ok ()
     else Err (outbox_evidence_error X ev (label @ '' '' @ field @ '' must match catalog evidence'')))"

definition optional_string_field ::
  "evidence_api \<Rightarrow> OutboxEvent \<Rightarrow> json \<Rightarrow> string \<Rightarrow> string \<Rightarrow> string option result" where
  "optional_string_field X ev obj field label =
     (case jget obj field of
        None \<Rightarrow> Ok None
      | Some JNull \<Rightarrow> Ok None
      | Some (JStr value) \<Rightarrow> Ok (Some value)
      | Some _ \<Rightarrow> Err (outbox_evidence_error X ev (label @ '' '' @ field @ '' must be a string when present'')))"

definition optional_non_empty_string_field ::
  "evidence_api \<Rightarrow> OutboxEvent \<Rightarrow> json \<Rightarrow> string \<Rightarrow> string \<Rightarrow> string option result" where
  "optional_non_empty_string_field X ev obj field label =
     and_then (optional_string_field X ev obj field label) (\<lambda>value.
     case value of
       Some s \<Rightarrow>
         if blank s then Err (outbox_evidence_error X ev (label @ '' '' @ field @ '' must be non-empty when present''))
         else Ok value
     | None \<Rightarrow> Ok None)"

definition optional_string_map_field ::
  "evidence_api \<Rightarrow> OutboxEvent \<Rightarrow> json \<Rightarrow> string \<Rightarrow> string \<Rightarrow> (string, string) btree result" where
  "optional_string_map_field X ev obj field label =
     (case jget obj field of
        None \<Rightarrow> Ok []
      | Some value \<Rightarrow>
          if value = JNull then Ok []
          else ok_or (outbox_evidence_error X ev (label @ '' '' @ field @ '' must be a string map when present''))
                 (string_map_from_json value))"

subsection \<open>Booleans and numbers\<close>

definition validate_required_bool_field_equals ::
  "evidence_api \<Rightarrow> OutboxEvent \<Rightarrow> json \<Rightarrow> string \<Rightarrow> bool \<Rightarrow> string \<Rightarrow> unit result" where
  "validate_required_bool_field_equals X ev obj field expected label =
     (case jget obj field of
        None \<Rightarrow> Err (outbox_evidence_error X ev (label @ '' must contain '' @ field))
      | Some value \<Rightarrow>
          (case as_bool value of
             None \<Rightarrow> Err (outbox_evidence_error X ev (label @ '' '' @ field @ '' must be a boolean''))
           | Some actual \<Rightarrow>
               if actual = expected then Ok ()
               else Err (outbox_evidence_error X ev (label @ '' '' @ field @ '' must match catalog evidence''))))"

definition validate_null_or_absent_field ::
  "evidence_api \<Rightarrow> OutboxEvent \<Rightarrow> json \<Rightarrow> string \<Rightarrow> string \<Rightarrow> unit result" where
  "validate_null_or_absent_field X ev obj field label =
     (case jget obj field of
        None \<Rightarrow> Ok ()
      | Some JNull \<Rightarrow> Ok ()
      | Some _ \<Rightarrow> Err (outbox_evidence_error X ev (label @ '' '' @ field @
                      '' must be absent when not authorized by receipt evidence'')))"

definition snake_case :: "string \<Rightarrow> string" where
  "snake_case field = map (\<lambda>c. if c = CHR ''-'' then CHR ''_'' else c) field"

definition require_positive_i64_field ::
  "evidence_api \<Rightarrow> OutboxEvent \<Rightarrow> json \<Rightarrow> string \<Rightarrow> string \<Rightarrow> int result" where
  "require_positive_i64_field X ev obj field label =
     (let alternate_field = snake_case field;
          primary_value = jget obj field;
          alternate_value = jget obj alternate_field in
      if primary_value \<noteq> None \<and> alternate_value \<noteq> None then
        Err (outbox_evidence_error X ev (label @ '' must not carry both '' @ field @ '' and '' @
               alternate_field @ '' evidence fields''))
      else case or_else primary_value alternate_value of
        None \<Rightarrow> Err (outbox_evidence_error X ev (label @ '' evidence must contain positive '' @ field))
      | Some v \<Rightarrow>
          (case as_i64 v of
             None \<Rightarrow> Err (outbox_evidence_error X ev (label @ '' '' @ field @ '' must be a positive integer''))
           | Some value \<Rightarrow>
               if value \<le> 0 then Err (outbox_evidence_error X ev (label @ '' '' @ field @ '' must be positive''))
               else Ok value))"

section \<open>Evidence: the fields each kind of event may carry\<close>

text \<open>\<open>crates/lakecat-service/src/evidence/consts.rs\<close>: the field lists of the schema checks.\<close>

definition READ_RESTRICTION_EVIDENCE_FIELDS :: "string list" where
  "READ_RESTRICTION_EVIDENCE_FIELDS =
     [''allowed-columns'', ''row-predicate'', ''purpose'', ''policy-hashes'',
      ''max-credential-ttl-seconds'']"

definition ROW_PREDICATE_EVIDENCE_FIELDS :: "string list" where
  "ROW_PREDICATE_EVIDENCE_FIELDS =
     [''type'', ''term'', ''value'']"

definition PRINCIPAL_EVIDENCE_FIELDS :: "string list" where
  "PRINCIPAL_EVIDENCE_FIELDS =
     [''subject'', ''kind'']"

definition AUTHORIZATION_RECEIPT_EVIDENCE_FIELDS :: "string list" where
  "AUTHORIZATION_RECEIPT_EVIDENCE_FIELDS =
     [''principal'', ''action'', ''table'', ''allowed'', ''engine'', ''policy_hash'',
      ''context'', ''request-identity'', ''checked_at'']"

definition AUTHORIZATION_RECEIPT_CONTEXT_EVIDENCE_FIELDS :: "string list" where
  "AUTHORIZATION_RECEIPT_CONTEXT_EVIDENCE_FIELDS =
     [''warehouse'', ''policy-bindings'', ''destination-table'',
      ''destination-policy-bindings'', ''read-restriction'',
      ''lakecat:raw-credential-exception'', ''request-identity'']"

definition AUTHORIZATION_RECEIPT_CONTEXT_POLICY_BINDING_FIELDS :: "string list" where
  "AUTHORIZATION_RECEIPT_CONTEXT_POLICY_BINDING_FIELDS =
     [''policy-id'', ''warehouse'', ''namespace'', ''table'', ''enforced'', ''odrl'']"

definition TABLE_COMMIT_HISTORY_OUTBOX_PAYLOAD_FIELDS :: "string list" where
  "TABLE_COMMIT_HISTORY_OUTBOX_PAYLOAD_FIELDS =
     [''audit-event-id'', ''event-type'', ''table'', ''payload'']"

definition SCAN_PLANNED_EVIDENCE_FIELDS :: "string list" where
  "SCAN_PLANNED_EVIDENCE_FIELDS =
     [''event-type'', ''table'', ''authorization-receipt'', ''planned-by'', ''snapshot-id'',
      ''plan-task'', ''scan-task-count'', ''storage-location'', ''metadata-location'',
      ''read-restriction'', ''requested-projection'', ''effective-projection'',
      ''requested-stats-fields'', ''effective-stats-fields'', ''required-projection'',
      ''required-filters'']"

definition SCAN_PLANNED_OUTBOX_PAYLOAD_FIELDS :: "string list" where
  "SCAN_PLANNED_OUTBOX_PAYLOAD_FIELDS =
     [''audit-event-id'', ''event-type'', ''table'', ''payload'']"

definition SCAN_TASKS_FETCHED_EVIDENCE_FIELDS :: "string list" where
  "SCAN_TASKS_FETCHED_EVIDENCE_FIELDS =
     [''event-type'', ''table'', ''authorization-receipt'', ''planned-by'', ''snapshot-id'',
      ''plan-task'', ''file-scan-task-count'', ''delete-file-count'',
      ''child-plan-task-count'', ''storage-location'', ''metadata-location'',
      ''read-restriction'', ''required-projection'', ''effective-projection'',
      ''requested-stats-fields'', ''effective-stats-fields'', ''stats-fields'',
      ''required-filters'']"

definition SCAN_TASKS_FETCHED_OUTBOX_PAYLOAD_FIELDS :: "string list" where
  "SCAN_TASKS_FETCHED_OUTBOX_PAYLOAD_FIELDS =
     [''audit-event-id'', ''event-type'', ''table'', ''payload'']"

definition CREDENTIAL_RESPONSE_EVIDENCE_FIELDS :: "string list" where
  "CREDENTIAL_RESPONSE_EVIDENCE_FIELDS =
     [''prefix-hash'', ''storage-profile-id'', ''storage-provider'', ''credential-mode'',
      ''authorization-principal'', ''governed-read-required'',
      ''max-credential-ttl-seconds'', ''secret-ref-provider'', ''secret-ref-hash'',
      ''issuer-config-entry-count'', ''issuer-config-hash'', ''catalog-profile-id'',
      ''receipt-principal'']"

definition CREDENTIAL_VEND_EVIDENCE_FIELDS :: "string list" where
  "CREDENTIAL_VEND_EVIDENCE_FIELDS =
     [''audit-event-id'', ''event-type'', ''table'', ''authorization-receipt'',
      ''storage-location'', ''storage-profile-id'', ''storage-profile'',
      ''secret-ref-present'', ''credential-count'', ''credential-response-evidence'',
      ''mode'', ''read-restriction'', ''lakecat:raw-credential-exception'',
      ''lakecat:credential-block-reason'']"

definition CREDENTIAL_VEND_OUTBOX_PAYLOAD_FIELDS :: "string list" where
  "CREDENTIAL_VEND_OUTBOX_PAYLOAD_FIELDS =
     [''audit-event-id'', ''event-type'', ''table'', ''payload'']"

definition RAW_CREDENTIAL_EXCEPTION_EVIDENCE_FIELDS :: "string list" where
  "RAW_CREDENTIAL_EXCEPTION_EVIDENCE_FIELDS =
     [''requested'', ''allowed'', ''reason'']"

definition STORAGE_PROFILE_EVIDENCE_FIELDS :: "string list" where
  "STORAGE_PROFILE_EVIDENCE_FIELDS =
     [''profile-id'', ''warehouse'', ''location-prefix-hash'', ''provider'',
      ''issuance-mode'', ''secret-ref-present'', ''public-config'', ''secret-ref-provider'',
      ''secret-ref-hash'']"

definition STORAGE_PROFILE_UPSERT_EVIDENCE_FIELDS :: "string list" where
  "STORAGE_PROFILE_UPSERT_EVIDENCE_FIELDS =
     [''event-type'', ''authorization-receipt'', ''warehouse'', ''storage-profile'']"

definition STORAGE_PROFILE_UPSERT_OUTBOX_PAYLOAD_FIELDS :: "string list" where
  "STORAGE_PROFILE_UPSERT_OUTBOX_PAYLOAD_FIELDS =
     [''audit-event-id'', ''event-type'', ''payload'']"

definition MANAGEMENT_UPSERT_OUTBOX_PAYLOAD_FIELDS :: "string list" where
  "MANAGEMENT_UPSERT_OUTBOX_PAYLOAD_FIELDS =
     [''audit-event-id'', ''event-type'', ''payload'']"

definition EVIDENCE_RESERVED_PUBLIC_CONFIG_KEYS :: "string list" where
  "EVIDENCE_RESERVED_PUBLIC_CONFIG_KEYS =
     [''lakecat.storage-profile-id'', ''lakecat.storage-provider'',
      ''lakecat.credential-mode'', ''lakecat.governed-read-required'',
      ''lakecat.authorization-principal'', ''lakecat.max-credential-ttl-seconds'',
      ''lakecat.credential-kind'', ''lakecat.secret-ref-provider'',
      ''lakecat.secret-ref-hash'']"

definition POLICY_BINDING_EVIDENCE_FIELDS :: "string list" where
  "POLICY_BINDING_EVIDENCE_FIELDS =
     [''policy-id'', ''warehouse'', ''namespace'', ''table'', ''enforced'', ''odrl'',
      ''odrl-hash'']"

definition POLICY_BINDING_UPSERT_EVIDENCE_FIELDS :: "string list" where
  "POLICY_BINDING_UPSERT_EVIDENCE_FIELDS =
     [''event-type'', ''authorization-receipt'', ''warehouse'', ''policy'']"

definition PROJECT_RECORD_EVIDENCE_FIELDS :: "string list" where
  "PROJECT_RECORD_EVIDENCE_FIELDS =
     [''project-id'', ''server-id'', ''display-name'', ''properties'']"

definition PROJECT_UPSERT_EVIDENCE_FIELDS :: "string list" where
  "PROJECT_UPSERT_EVIDENCE_FIELDS =
     [''event-type'', ''authorization-receipt'', ''project-id'', ''project-record'']"

definition SERVER_RECORD_EVIDENCE_FIELDS :: "string list" where
  "SERVER_RECORD_EVIDENCE_FIELDS =
     [''server-id'', ''display-name'', ''endpoint-url'', ''endpoint-url-hash'', ''properties'']"

definition SERVER_UPSERT_EVIDENCE_FIELDS :: "string list" where
  "SERVER_UPSERT_EVIDENCE_FIELDS =
     [''event-type'', ''authorization-receipt'', ''server-id'', ''server-record'']"

definition WAREHOUSE_RECORD_EVIDENCE_FIELDS :: "string list" where
  "WAREHOUSE_RECORD_EVIDENCE_FIELDS =
     [''warehouse'', ''project-id'', ''storage-root'', ''storage-root-hash'', ''properties'']"

definition WAREHOUSE_UPSERT_EVIDENCE_FIELDS :: "string list" where
  "WAREHOUSE_UPSERT_EVIDENCE_FIELDS =
     [''event-type'', ''authorization-receipt'', ''project-id'', ''warehouse'',
      ''warehouse-record'']"

definition VIEW_RECORD_EVIDENCE_FIELDS :: "string list" where
  "VIEW_RECORD_EVIDENCE_FIELDS =
     [''warehouse'', ''namespace'', ''name'', ''view-version'', ''sql'', ''dialect'',
      ''schema-version'', ''columns'', ''properties'']"

definition VIEW_LIFECYCLE_EVIDENCE_FIELDS :: "string list" where
  "VIEW_LIFECYCLE_EVIDENCE_FIELDS =
     [''event-type'', ''interface'', ''authorization-receipt'', ''warehouse'', ''namespace'',
      ''view'', ''expected-view-version'']"

definition VIEW_LIFECYCLE_OUTBOX_PAYLOAD_FIELDS :: "string list" where
  "VIEW_LIFECYCLE_OUTBOX_PAYLOAD_FIELDS =
     [''audit-event-id'', ''event-type'', ''payload'']"

definition CATALOG_CONFIG_READ_EVIDENCE_FIELDS :: "string list" where
  "CATALOG_CONFIG_READ_EVIDENCE_FIELDS =
     [''audit-event-id'', ''event-type'', ''authorization-receipt'', ''warehouse'',
      ''defaults'', ''overrides'', ''endpoints'', ''warehouse-record'', ''project-record'',
      ''server-record'']"

definition CATALOG_CONFIG_ENTRY_EVIDENCE_FIELDS :: "string list" where
  "CATALOG_CONFIG_ENTRY_EVIDENCE_FIELDS =
     [''key'', ''value'']"

definition QUERYGRAPH_BOOTSTRAP_EVIDENCE_FIELDS :: "string list" where
  "QUERYGRAPH_BOOTSTRAP_EVIDENCE_FIELDS =
     [''audit-event-id'', ''event-type'', ''authorization-receipt'', ''warehouse'',
      ''table-count'', ''view-count'', ''policy-binding-count'', ''verified-tables'',
      ''verified-views'', ''verified-view-versions'', ''view-version-receipts'',
      ''bundle-hash'', ''graph-hash'', ''open-lineage-hash'', ''querygraph-import-hash'',
      ''table-artifacts'', ''view-artifacts'', ''standards'']"

definition QUERYGRAPH_VIEW_RECEIPT_EVIDENCE_FIELDS :: "string list" where
  "QUERYGRAPH_VIEW_RECEIPT_EVIDENCE_FIELDS =
     [''stable-id'', ''view-version'', ''receipt-hash'', ''receipt-chain-hash'']"

definition REQUEST_IDENTITY_EVIDENCE_FIELDS :: "string list" where
  "REQUEST_IDENTITY_EVIDENCE_FIELDS =
     [''type'', ''principal'', ''source'', ''agent-did'', ''typedid'',
      ''typedid-envelope-sha256'', ''typedid-proof-sha256'', ''agent-delegation-sha256'',
      ''agent-summary-signature-sha256'', ''bearer-token-sha256'', ''attestation-state'',
      ''raw-secret-material'']"

definition VIEW_RECEIPT_CHAIN_EVIDENCE_FIELDS :: "string list" where
  "VIEW_RECEIPT_CHAIN_EVIDENCE_FIELDS =
     [''stable-id'', ''warehouse'', ''namespace'', ''name'', ''chain-hash'',
      ''chain-verified'', ''latest-view-version'', ''latest-operation'', ''tombstoned'',
      ''receipt-count'', ''receipts'']"

definition VIEW_RECEIPT_CHAIN_RECEIPT_EVIDENCE_FIELDS :: "string list" where
  "VIEW_RECEIPT_CHAIN_RECEIPT_EVIDENCE_FIELDS =
     [''stable-id'', ''warehouse'', ''namespace'', ''name'', ''view-version'',
      ''previous-view-version'', ''previous-receipt-hash'', ''operation'', ''view-hash'',
      ''receipt-hash'', ''principal-subject'', ''principal-kind'', ''recorded-at'']"

definition VIEW_RECEIPT_LIST_EVIDENCE_FIELDS :: "string list" where
  "VIEW_RECEIPT_LIST_EVIDENCE_FIELDS =
     [''event-type'', ''authorization-receipt'', ''warehouse'', ''namespace'', ''view'',
      ''receipt-count'', ''receipt-hashes'', ''drop-receipt-hashes'']"

definition VIEW_RECEIPT_READ_OUTBOX_PAYLOAD_FIELDS :: "string list" where
  "VIEW_RECEIPT_READ_OUTBOX_PAYLOAD_FIELDS =
     [''audit-event-id'', ''event-type'', ''payload'']"

definition VIEW_RECEIPT_CHAIN_LIST_EVIDENCE_FIELDS :: "string list" where
  "VIEW_RECEIPT_CHAIN_LIST_EVIDENCE_FIELDS =
     [''event-type'', ''authorization-receipt'', ''warehouse'', ''namespace'',
      ''chain-count'', ''receipt-count'', ''tombstone-count'', ''chain-verified-count'',
      ''view-version-receipt-chains'', ''chain-hashes'', ''receipt-hashes'',
      ''drop-receipt-hashes'']"

definition TABLE_IDENTITY_EVIDENCE_FIELDS :: "string list" where
  "TABLE_IDENTITY_EVIDENCE_FIELDS =
     [''warehouse'', ''namespace'', ''name'']"

definition TABLE_COMMIT_HISTORY_EVIDENCE_FIELDS :: "string list" where
  "TABLE_COMMIT_HISTORY_EVIDENCE_FIELDS =
     [''event-type'', ''authorization-receipt'', ''warehouse'', ''namespace'', ''table'',
      ''commit-count'', ''commit-hashes'', ''sequence-numbers'', ''principal-subject'',
      ''principal-kind'']"

definition TABLE_COMMIT_PAYLOAD_EVIDENCE_FIELDS :: "string list" where
  "TABLE_COMMIT_PAYLOAD_EVIDENCE_FIELDS =
     [''audit-event-id'', ''event-type'', ''authorization-receipt'', ''warehouse'',
      ''namespace'', ''table'', ''commit'']"

definition TABLE_COMMIT_OUTBOX_PAYLOAD_FIELDS :: "string list" where
  "TABLE_COMMIT_OUTBOX_PAYLOAD_FIELDS =
     [''audit-event-id'', ''event-type'', ''table'', ''payload'']"

definition TABLE_COMMIT_EVIDENCE_FIELDS :: "string list" where
  "TABLE_COMMIT_EVIDENCE_FIELDS =
     [''table'', ''previous_metadata_location'', ''previous-metadata-location'',
      ''new_metadata_location'', ''new-metadata-location'', ''sequence_number'',
      ''sequence-number'', ''principal'', ''format_version'', ''format-version'',
      ''snapshot_id'', ''snapshot-id'', ''policy_hash'', ''policy-hash'', ''request_hash'',
      ''request-hash'', ''response_hash'', ''response-hash'', ''idempotency_key_sha256'',
      ''idempotency-key-sha256'', ''committed_at'', ''committed-at'']"

definition TABLE_LIFECYCLE_EVIDENCE_FIELDS :: "string list" where
  "TABLE_LIFECYCLE_EVIDENCE_FIELDS =
     [''audit-event-id'', ''event-type'', ''authorization-receipt'', ''warehouse'',
      ''namespace'', ''table'', ''metadata-location'', ''location'', ''format-version'',
      ''version'', ''soft-delete'', ''metadata-graph'']"

definition TABLE_LIFECYCLE_OUTBOX_PAYLOAD_FIELDS :: "string list" where
  "TABLE_LIFECYCLE_OUTBOX_PAYLOAD_FIELDS =
     [''audit-event-id'', ''event-type'', ''table'', ''soft-delete'', ''payload'']"

definition TABLE_METADATA_GRAPH_EVIDENCE_FIELDS :: "string list" where
  "TABLE_METADATA_GRAPH_EVIDENCE_FIELDS =
     [''current-schema-id'', ''fields'', ''current-snapshot-id'', ''current-snapshot'']"

definition TABLE_LIFECYCLE_SOFT_DELETE_EVIDENCE_FIELDS :: "string list" where
  "TABLE_LIFECYCLE_SOFT_DELETE_EVIDENCE_FIELDS =
     [''table'', ''metadata-location'', ''version'', ''format-version'', ''format_version'',
      ''principal'', ''authorization-receipt'', ''deleted-at'']"

definition TABLE_RENAME_EVIDENCE_FIELDS :: "string list" where
  "TABLE_RENAME_EVIDENCE_FIELDS =
     [''event-type'', ''table'', ''source'', ''destination'', ''authorization-receipt'',
      ''metadata-location'', ''format-version'', ''version'']"

definition TABLE_RENAME_OUTBOX_PAYLOAD_FIELDS :: "string list" where
  "TABLE_RENAME_OUTBOX_PAYLOAD_FIELDS =
     [''audit-event-id'', ''event-type'', ''table'', ''payload'']"

definition NAMESPACE_LIST_EVIDENCE_FIELDS :: "string list" where
  "NAMESPACE_LIST_EVIDENCE_FIELDS =
     [''event-type'', ''authorization-receipt'', ''warehouse'', ''namespace-count'',
      ''namespace-paths'']"

definition VIEW_LIST_EVIDENCE_FIELDS :: "string list" where
  "VIEW_LIST_EVIDENCE_FIELDS =
     [''event-type'', ''interface'', ''authorization-receipt'', ''warehouse'', ''namespace'',
      ''view-count'', ''view-names'']"

definition POLICY_BINDING_LIST_EVIDENCE_FIELDS :: "string list" where
  "POLICY_BINDING_LIST_EVIDENCE_FIELDS =
     [''event-type'', ''authorization-receipt'', ''warehouse'', ''policy-count'',
      ''policy-ids'']"

definition PROJECT_LIST_EVIDENCE_FIELDS :: "string list" where
  "PROJECT_LIST_EVIDENCE_FIELDS =
     [''event-type'', ''authorization-receipt'', ''project-count'', ''project-ids'']"

definition SERVER_LIST_EVIDENCE_FIELDS :: "string list" where
  "SERVER_LIST_EVIDENCE_FIELDS =
     [''event-type'', ''authorization-receipt'', ''server-count'', ''server-ids'']"

definition STORAGE_PROFILE_LIST_EVIDENCE_FIELDS :: "string list" where
  "STORAGE_PROFILE_LIST_EVIDENCE_FIELDS =
     [''event-type'', ''authorization-receipt'', ''warehouse'', ''storage-profile-count'',
      ''storage-profile-ids'']"

definition WAREHOUSE_LIST_EVIDENCE_FIELDS :: "string list" where
  "WAREHOUSE_LIST_EVIDENCE_FIELDS =
     [''event-type'', ''authorization-receipt'', ''project-id'', ''warehouse-count'',
      ''warehouse-names'']"

definition LIST_OUTBOX_PAYLOAD_FIELDS :: "string list" where
  "LIST_OUTBOX_PAYLOAD_FIELDS =
     [''audit-event-id'', ''event-type'', ''payload'']"

definition NAMESPACE_LIFECYCLE_OUTBOX_PAYLOAD_FIELDS :: "string list" where
  "NAMESPACE_LIFECYCLE_OUTBOX_PAYLOAD_FIELDS =
     [''audit-event-id'', ''event-type'', ''payload'']"

definition NAMESPACE_LIFECYCLE_EVIDENCE_FIELDS :: "string list" where
  "NAMESPACE_LIFECYCLE_EVIDENCE_FIELDS =
     [''event-type'', ''authorization-receipt'', ''warehouse'', ''namespace'']"

end
