(* ===== verification/EvidenceReceipts.thy ===== *)
theory EvidenceReceipts
  imports EvidenceFields Capabilities
begin

section \<open>Evidence: receipts, read restrictions and storage profiles\<close>

text \<open>
  \<open>crates/lakecat-service/src/evidence/core_receipts.rs\<close>: the checks of the parts that events of
  different kinds share. Nothing outside a schema passes: an object may only carry the fields its
  list names, at every level.
\<close>

subsection \<open>Schemas\<close>

text \<open>The loop over the keys of an object: the first key outside the list is the error.\<close>

definition validate_keys ::
  "evidence_api \<Rightarrow> OutboxEvent \<Rightarrow> string list \<Rightarrow> string \<Rightarrow> string list \<Rightarrow> unit result" where
  "validate_keys X ev allowed label keys =
     (case find (\<lambda>field. field \<notin> set allowed) keys of
        Some field \<Rightarrow> Err (outbox_evidence_error X ev (label @ '' contains unexpected field '' @ field))
      | None \<Rightarrow> Ok ())"

definition validate_object_evidence_schema ::
  "evidence_api \<Rightarrow> OutboxEvent \<Rightarrow> json \<Rightarrow> string \<Rightarrow> string list \<Rightarrow> unit result" where
  "validate_object_evidence_schema X ev v label allowed_fields =
     (case v of
        JObj m \<Rightarrow> validate_keys X ev allowed_fields label (map fst m)
      | _ \<Rightarrow> Err (outbox_evidence_error X ev (label @ '' must be an object'')))"

definition validate_row_predicate_evidence_schema ::
  "evidence_api \<Rightarrow> OutboxEvent \<Rightarrow> json \<Rightarrow> string \<Rightarrow> unit result" where
  "validate_row_predicate_evidence_schema X ev row_predicate evidence_label =
     validate_object_evidence_schema X ev row_predicate evidence_label ROW_PREDICATE_EVIDENCE_FIELDS"

definition validate_read_restriction_evidence_schema ::
  "evidence_api \<Rightarrow> OutboxEvent \<Rightarrow> json option \<Rightarrow> string \<Rightarrow> unit result" where
  "validate_read_restriction_evidence_schema X ev restriction evidence_label =
     (case restriction of
        None \<Rightarrow> Ok ()
      | Some r \<Rightarrow>
          and_then (validate_object_evidence_schema X ev r evidence_label READ_RESTRICTION_EVIDENCE_FIELDS) (\<lambda>_.
          case jget r ''row-predicate'' of
            None \<Rightarrow> Ok ()
          | Some row_predicate \<Rightarrow>
              validate_row_predicate_evidence_schema X ev row_predicate (evidence_label @ '' row-predicate'')))"

definition validate_storage_profile_evidence_schema ::
  "evidence_api \<Rightarrow> OutboxEvent \<Rightarrow> json \<Rightarrow> string \<Rightarrow> unit result" where
  "validate_storage_profile_evidence_schema X ev storage_profile evidence_label =
     validate_object_evidence_schema X ev storage_profile evidence_label STORAGE_PROFILE_EVIDENCE_FIELDS"

definition validate_policy_binding_evidence_schema ::
  "evidence_api \<Rightarrow> OutboxEvent \<Rightarrow> json \<Rightarrow> unit result" where
  "validate_policy_binding_evidence_schema X ev policy =
     validate_object_evidence_schema X ev policy ''policy-binding upsert policy'' POLICY_BINDING_EVIDENCE_FIELDS"

subsection \<open>Public configuration of a storage profile\<close>

definition evidence_secret_patterns :: "string list" where
  "evidence_secret_patterns =
     [''password='', ''secret='', ''token='', ''credential='', ''api_key='', ''apikey='', ''access_key='',
      ''private_key='', ''pass='']"

definition evidence_embeds_raw_secret_material :: "string \<Rightarrow> bool" where
  "evidence_embeds_raw_secret_material value =
     list_ex (contains_str (to_ascii_lowercase value)) evidence_secret_patterns"

definition secret_key_words :: "string list" where
  "secret_key_words = [''secret'', ''token'', ''password'', ''credential'']"

definition validate_public_config_entry ::
  "evidence_api \<Rightarrow> OutboxEvent \<Rightarrow> string \<Rightarrow> string \<times> json \<Rightarrow> unit result" where
  "validate_public_config_entry X ev evidence_label entry =
     (let key = fst entry;
          fail = (\<lambda>what. Err (outbox_evidence_error X ev (evidence_label @ '' public-config '' @ what @
                    ''; public-config-key-hash='' @ content_hash_bytes (ea_env X) key)));
          normalized = to_ascii_lowercase key in
      if blank key then fail ''key must be non-empty''
      else if list_ex (contains_str normalized) secret_key_words then
        fail ''key may expose secret material''
      else if normalized \<in> set EVIDENCE_RESERVED_PUBLIC_CONFIG_KEYS then
        fail ''key is reserved for LakeCat credential evidence''
      else case as_str (snd entry) of
        None \<Rightarrow> fail ''value must be a string''
      | Some value \<Rightarrow>
          if evidence_embeds_raw_secret_material value then fail ''value may expose secret material''
          else Ok ())"

definition validate_storage_profile_public_config_evidence ::
  "evidence_api \<Rightarrow> OutboxEvent \<Rightarrow> json \<Rightarrow> string \<Rightarrow> unit result" where
  "validate_storage_profile_public_config_evidence X ev storage_profile evidence_label =
     (case jget storage_profile ''public-config'' of
        None \<Rightarrow> Ok ()
      | Some (JObj m) \<Rightarrow> check_all (validate_public_config_entry X ev evidence_label) m
      | Some _ \<Rightarrow> Err (outbox_evidence_error X ev (evidence_label @ '' public-config must be an object'')))"

subsection \<open>Hashes of policies\<close>

definition validate_read_restriction_policy_hashes ::
  "evidence_api \<Rightarrow> OutboxEvent \<Rightarrow> json option \<Rightarrow> string \<Rightarrow> unit result" where
  "validate_read_restriction_policy_hashes X ev restriction evidence_label =
     (case Option.bind restriction (\<lambda>r. jget r ''policy-hashes'') of
        None \<Rightarrow> Ok ()
      | Some v \<Rightarrow>
          (case as_array v of
             None \<Rightarrow> Err (outbox_evidence_error X ev (evidence_label @ '' policy-hashes must be an array''))
           | Some hashes \<Rightarrow> checks
               [reject_if (hashes = [])
                  (outbox_evidence_error X ev (evidence_label @ '' policy-hashes must not be empty'')),
                reject_if (\<not> list_all (\<lambda>h. str_filter is_full_sha256_digest_evidence (as_str h) \<noteq> None) hashes)
                  (outbox_evidence_error X ev (evidence_label @
                     '' policy-hashes must contain full SHA-256 digest evidence'')),
                reject_if (\<not> distinct (List.map_filter as_str hashes))
                  (outbox_evidence_error X ev (evidence_label @ '' policy-hashes must be duplicate-free''))]))"

definition validate_required_read_restriction_policy_hashes ::
  "evidence_api \<Rightarrow> OutboxEvent \<Rightarrow> json option \<Rightarrow> string \<Rightarrow> unit result" where
  "validate_required_read_restriction_policy_hashes X ev restriction evidence_label =
     (case restriction of
        None \<Rightarrow> Ok ()
      | Some r \<Rightarrow>
          if jget r ''policy-hashes'' = None then
            Err (outbox_evidence_error X ev (evidence_label @ '' must contain policy-hashes''))
          else validate_read_restriction_policy_hashes X ev (Some r) evidence_label)"

definition authorization_receipt_read_restriction :: "json \<Rightarrow> json option" where
  "authorization_receipt_read_restriction payload =
     jpointer payload [''authorization-receipt'', ''context'', ''read-restriction'']"

definition authorization_receipt_raw_credential_exception :: "json \<Rightarrow> json option" where
  "authorization_receipt_raw_credential_exception payload =
     jpointer payload [''authorization-receipt'', ''context'', ''lakecat:raw-credential-exception'']"

subsection \<open>The authorization receipt of an event\<close>

definition decode_outbox_principal_value ::
  "evidence_api \<Rightarrow> OutboxEvent \<Rightarrow> json \<Rightarrow> string \<Rightarrow> Principal result" where
  "decode_outbox_principal_value X ev p label =
     and_then (if is_object p then validate_object_evidence_schema X ev p label PRINCIPAL_EVIDENCE_FIELDS
               else Ok ()) (\<lambda>_.
     ok_or (outbox_evidence_error X ev (label @ '' must be a valid principal: '' @ ea_serde_error X ''Principal'' p))
       (principal_from_json p))"

definition validate_context_policy_bindings ::
  "evidence_api \<Rightarrow> OutboxEvent \<Rightarrow> json \<Rightarrow> string \<Rightarrow> string \<Rightarrow> unit result" where
  "validate_context_policy_bindings X ev context0 field binding_label =
     (case jget context0 field of
        None \<Rightarrow> Ok ()
      | Some v \<Rightarrow>
          (case as_array v of
             None \<Rightarrow> Err (outbox_evidence_error X ev (binding_label @ '' must be an array''))
           | Some bindings \<Rightarrow> check_all (\<lambda>b. validate_object_evidence_schema X ev b binding_label
                               AUTHORIZATION_RECEIPT_CONTEXT_POLICY_BINDING_FIELDS) bindings))"

definition validate_authorization_receipt_context_policy_bindings ::
  "evidence_api \<Rightarrow> OutboxEvent \<Rightarrow> json \<Rightarrow> string \<Rightarrow> unit result" where
  "validate_authorization_receipt_context_policy_bindings X ev context0 label = checks
     [validate_context_policy_bindings X ev context0 ''policy-bindings'' label,
      validate_context_policy_bindings X ev context0 ''destination-policy-bindings''
        (label @ '' destination-policy-bindings'')]"

definition receipt_of_payload :: "json \<Rightarrow> json option" where
  "receipt_of_payload payload = jget payload ''authorization-receipt''"

definition validate_authorization_receipt_evidence_schema ::
  "evidence_api \<Rightarrow> OutboxEvent \<Rightarrow> json \<Rightarrow> string \<Rightarrow> unit result" where
  "validate_authorization_receipt_evidence_schema X ev payload label =
     (case receipt_of_payload payload of
        None \<Rightarrow> Ok ()
      | Some receipt \<Rightarrow>
          if \<not> is_object receipt then Ok ()
          else and_then (validate_object_evidence_schema X ev receipt (label @ '' authorization receipt'')
                           AUTHORIZATION_RECEIPT_EVIDENCE_FIELDS) (\<lambda>_.
          case jget receipt ''context'' of
            None \<Rightarrow> Ok ()
          | Some context0 \<Rightarrow> checks
              [validate_object_evidence_schema X ev context0 (label @ '' authorization receipt context'')
                 AUTHORIZATION_RECEIPT_CONTEXT_EVIDENCE_FIELDS,
               validate_authorization_receipt_context_policy_bindings X ev context0
                 (label @ '' authorization receipt context policy-bindings'')]))"

definition catalog_actions :: "CatalogAction list" where
  "catalog_actions =
     [CatalogConfig, NamespaceCreate, NamespaceList, NamespaceLoad, NamespaceUpdate, NamespaceDrop,
      TableCreate, TableRegister, TableRename, TableLoad, TablePlanScan, TableCommit, TableDrop,
      TableRestore, CredentialsVend, ViewLoad, ViewDrop, ServerManage, ProjectManage, WarehouseManage,
      StorageProfileManage, ViewManage, PolicyManage, GraphRead, LineageRead]"

definition action_from_str :: "string \<Rightarrow> CatalogAction option" where
  "action_from_str s = find (\<lambda>a. action_json a = JStr s) catalog_actions"

text \<open>The action each type of event must have been authorized for; any other type has none.\<close>

definition event_actions :: "(string list \<times> CatalogAction) list" where
  "event_actions =
     [([''catalog.config-read''], CatalogConfig),
      ([''credentials.vend-attempted''], CredentialsVend),
      ([''namespace.created''], NamespaceCreate),
      ([''namespace.dropped''], NamespaceDrop),
      ([''namespace.listed''], NamespaceList),
      ([''namespace.loaded''], NamespaceLoad),
      ([''namespace.properties-updated''], NamespaceUpdate),
      ([''policy-binding.listed'', ''policy-binding.upserted''], PolicyManage),
      ([''project.listed'', ''project.upserted''], ProjectManage),
      ([''querygraph.bootstrap''], GraphRead),
      ([''server.listed'', ''server.upserted''], ServerManage),
      ([''storage-profile.listed'', ''storage-profile.upserted''], StorageProfileManage),
      ([''table.commit''], TableCommit),
      ([''table.commits-listed'', ''table.loaded''], TableLoad),
      ([''table.created''], TableCreate),
      ([''table.registered''], TableRegister),
      ([''table.renamed''], TableRename),
      ([''table.deleted''], TableDrop),
      ([''table.restored''], TableRestore),
      ([''table.scan-planned'', ''table.scan-tasks-fetched''], TablePlanScan),
      ([''view.dropped''], ViewDrop),
      ([''view.listed''], ViewLoad),
      ([''view.loaded'', ''view.version-receipts-listed'', ''view.version-receipt-chains-listed''], ViewLoad),
      ([''view.upserted''], ViewManage),
      ([''warehouse.listed'', ''warehouse.upserted''], WarehouseManage)]"

definition authorization_receipt_action_matches_event :: "string \<Rightarrow> CatalogAction \<Rightarrow> bool" where
  "authorization_receipt_action_matches_event event_type action =
     (case find (\<lambda>(types, _). event_type \<in> set types) event_actions of
        Some (_, expected) \<Rightarrow> action = expected
      | None \<Rightarrow> False)"

definition receipt_str :: "json \<Rightarrow> string \<Rightarrow> string option" where
  "receipt_str payload field = Option.bind (receipt_of_payload payload) (\<lambda>r. field_str r field)"

definition validate_authorization_receipt_action ::
  "evidence_api \<Rightarrow> OutboxEvent \<Rightarrow> json \<Rightarrow> string \<Rightarrow> unit result" where
  "validate_authorization_receipt_action X ev payload label =
     (case receipt_str payload ''action'' of
        None \<Rightarrow> Err (outbox_evidence_error X ev (label @ '' evidence must contain authorization receipt action''))
      | Some action_text \<Rightarrow>
          if blank action_text then
            Err (outbox_evidence_error X ev (label @ '' authorization receipt action must be non-empty''))
          else (case action_from_str action_text of
            None \<Rightarrow> Err (outbox_evidence_error X ev (label @
                      '' authorization receipt action must be a known catalog action: '' @
                      ea_serde_error X ''CatalogAction'' (JStr action_text)))
          | Some action \<Rightarrow>
              if authorization_receipt_action_matches_event (oe_event_type ev) action then Ok ()
              else Err (outbox_evidence_error X ev (label @
                     '' authorization receipt action does not match outbox event type''))))"

definition validate_authorization_receipt_allowed ::
  "evidence_api \<Rightarrow> OutboxEvent \<Rightarrow> json \<Rightarrow> string \<Rightarrow> unit result" where
  "validate_authorization_receipt_allowed X ev payload label =
     (case Option.bind (receipt_of_payload payload) (\<lambda>r. field_bool r ''allowed'') of
        None \<Rightarrow> Err (outbox_evidence_error X ev (label @
                  '' evidence must contain authorization receipt allowed decision''))
      | Some allowed \<Rightarrow>
          if allowed then Ok ()
          else Err (outbox_evidence_error X ev (label @ '' authorization receipt must allow replay projection'')))"

definition validate_authorization_receipt_engine ::
  "evidence_api \<Rightarrow> OutboxEvent \<Rightarrow> json \<Rightarrow> string \<Rightarrow> unit result" where
  "validate_authorization_receipt_engine X ev payload label =
     (case receipt_str payload ''engine'' of
        None \<Rightarrow> Err (outbox_evidence_error X ev (label @ '' evidence must contain authorization receipt engine''))
      | Some engine \<Rightarrow>
          if blank engine then
            Err (outbox_evidence_error X ev (label @ '' authorization receipt engine must be non-empty''))
          else Ok ())"

definition validate_authorization_receipt_checked_at ::
  "evidence_api \<Rightarrow> OutboxEvent \<Rightarrow> json \<Rightarrow> string \<Rightarrow> unit result" where
  "validate_authorization_receipt_checked_at X ev payload label =
     (case receipt_str payload ''checked_at'' of
        None \<Rightarrow> Err (outbox_evidence_error X ev (label @
                  '' evidence must contain authorization receipt checked_at timestamp''))
      | Some checked_at \<Rightarrow>
          if blank checked_at then
            Err (outbox_evidence_error X ev (label @
                   '' authorization receipt checked_at timestamp must be non-empty''))
          else (case ea_rfc3339_error X checked_at of
            Some err \<Rightarrow> Err (outbox_evidence_error X ev (label @
                          '' authorization receipt checked_at timestamp must be RFC3339: '' @ err))
          | None \<Rightarrow> Ok ()))"

definition validate_receipt_decision ::
  "evidence_api \<Rightarrow> OutboxEvent \<Rightarrow> json \<Rightarrow> string \<Rightarrow> unit result" where
  "validate_receipt_decision X ev payload label = checks
     [validate_authorization_receipt_action X ev payload label,
      validate_authorization_receipt_allowed X ev payload label,
      validate_authorization_receipt_engine X ev payload label,
      validate_authorization_receipt_checked_at X ev payload label]"

text \<open>The principal a receipt must name, decoded.\<close>

definition receipt_principal ::
  "evidence_api \<Rightarrow> OutboxEvent \<Rightarrow> json \<Rightarrow> string \<Rightarrow> Principal result" where
  "receipt_principal X ev payload label =
     (case Option.bind (receipt_of_payload payload) (\<lambda>r. jget r ''principal'') of
        None \<Rightarrow> Err (outbox_evidence_error X ev (label @ '' evidence must contain authorization receipt principal''))
      | Some p \<Rightarrow> decode_outbox_principal_value X ev p (label @ '' authorization receipt principal''))"

definition validate_authorization_receipt_principal ::
  "evidence_api \<Rightarrow> OutboxEvent \<Rightarrow> json \<Rightarrow> string \<Rightarrow> unit result" where
  "validate_authorization_receipt_principal X ev payload label = checks
     [validate_authorization_receipt_evidence_schema X ev payload label,
      map_ok (\<lambda>_. ()) (receipt_principal X ev payload label),
      validate_receipt_decision X ev payload label]"

end
