(* ===== verification/EvidenceManagement.thy ===== *)
theory EvidenceManagement
  imports EvidenceReceipts ServiceApi
begin

section \<open>Evidence: management, namespaces, views and configuration\<close>

text \<open>
  \<open>crates/lakecat-service/src/evidence/management.rs\<close>: the validators of the events that the
  management handlers, the namespace handlers, the view handlers and the configuration handler
  record. Records are rebuilt with the store's constructors, so an event is only accepted when the
  record it carries would be.
\<close>

definition evidence_payload :: "OutboxEvent \<Rightarrow> json" where
  "evidence_payload ev = (case jget (oe_payload ev) ''payload'' of Some p \<Rightarrow> p | None \<Rightarrow> oe_payload ev)"

text \<open>The check of the outer object, made when the event is an audit event with an inner payload.\<close>

definition validate_outer_payload ::
  "evidence_api \<Rightarrow> OutboxEvent \<Rightarrow> string \<Rightarrow> string list \<Rightarrow> unit result" where
  "validate_outer_payload X ev label allowed_fields =
     (if jget (oe_payload ev) ''payload'' \<noteq> None
      then validate_object_evidence_schema X ev (oe_payload ev) label allowed_fields
      else Ok ())"

definition require_field :: "evidence_api \<Rightarrow> OutboxEvent \<Rightarrow> string \<Rightarrow> 'a option \<Rightarrow> 'a result" where
  "require_field X ev message x = ok_or (outbox_evidence_error X ev message) x"

abbreviation nonempty_str :: "json \<Rightarrow> string \<Rightarrow> string option" where
  "nonempty_str v k \<equiv> str_filter (\<lambda>s. s \<noteq> []) (field_str v k)"

lemma require_field_ok [evidence_simps]: "require_field X ev m x = Ok a \<longleftrightarrow> x = Some a"
  by (cases x) (simp_all add: require_field_def)

subsection \<open>Fields of several events\<close>

definition validate_required_warehouse_field ::
  "evidence_api \<Rightarrow> OutboxEvent \<Rightarrow> json \<Rightarrow> string \<Rightarrow> WarehouseName result" where
  "validate_required_warehouse_field X ev payload label =
     and_then (require_field X ev (label @ '' evidence must contain warehouse'')
                 (nonempty_str payload ''warehouse'')) (\<lambda>warehouse_name.
     map_err (\<lambda>_. outbox_evidence_error X ev (label @ '' evidence has invalid warehouse''))
       (warehouse_name_new warehouse_name))"

definition validate_required_unsigned_count_field ::
  "evidence_api \<Rightarrow> OutboxEvent \<Rightarrow> json \<Rightarrow> string \<Rightarrow> string \<Rightarrow> 64 word result" where
  "validate_required_unsigned_count_field X ev payload field label =
     require_field X ev (label @ '' evidence must contain unsigned '' @ field) (field_u64 payload field)"

text \<open>A namespace as an array of components or as a dotted path.\<close>

definition namespace_part :: "evidence_api \<Rightarrow> OutboxEvent \<Rightarrow> string \<Rightarrow> json \<Rightarrow> string result" where
  "namespace_part X ev label part =
     require_field X ev (label @ '' namespace components must be non-empty strings'')
       (str_filter (\<lambda>s. s \<noteq> []) (as_str part))"

definition namespace_parts ::
  "evidence_api \<Rightarrow> OutboxEvent \<Rightarrow> string \<Rightarrow> json list \<Rightarrow> Namespace result" where
  "namespace_parts X ev label parts =
     and_then (traverse (namespace_part X ev label) parts) (\<lambda>strings.
     map_err (\<lambda>_. outbox_evidence_error X ev (label @ '' evidence has invalid namespace''))
       (namespace_new strings))"

definition decode_namespace_value ::
  "evidence_api \<Rightarrow> OutboxEvent \<Rightarrow> json \<Rightarrow> string \<Rightarrow> Namespace result" where
  "decode_namespace_value X ev ns label =
     (let malformed = Err (outbox_evidence_error X ev (label @ '' namespace must be a non-empty string or array'')) in
      case ns of
        JArr parts \<Rightarrow> namespace_parts X ev label parts
      | JStr path \<Rightarrow>
          if path = [] then malformed
          else map_err (\<lambda>_. outbox_evidence_error X ev (label @ '' evidence has invalid namespace''))
                 (namespace_from_str path)
      | _ \<Rightarrow> malformed)"

definition validate_namespace_value ::
  "evidence_api \<Rightarrow> OutboxEvent \<Rightarrow> json \<Rightarrow> string \<Rightarrow> unit result" where
  "validate_namespace_value X ev ns label = map_ok (\<lambda>_. ()) (decode_namespace_value X ev ns label)"

definition validate_namespace_lifecycle_value ::
  "evidence_api \<Rightarrow> OutboxEvent \<Rightarrow> json \<Rightarrow> unit result" where
  "validate_namespace_lifecycle_value X ev ns = validate_namespace_value X ev ns ''namespace lifecycle''"

text \<open>
  The loop over an array of identifiers, with the set of those seen so far; the three checks of an
  identifier come in this order.
\<close>

fun management_id_loop ::
  "evidence_api \<Rightarrow> OutboxEvent \<Rightarrow> string \<Rightarrow> string \<Rightarrow> string \<Rightarrow> (string \<Rightarrow> bool) \<Rightarrow> string list \<Rightarrow> json list \<Rightarrow>
     unit result" where
  "management_id_loop X ev field label hash_field is_valid_id seen [] = Ok ()"
| "management_id_loop X ev field label hash_field is_valid_id seen (v # vs) =
     (case str_filter (\<lambda>s. \<not> blank s) (as_str v) of
        None \<Rightarrow> Err (outbox_evidence_error X ev (label @ '' '' @ field @ '' must contain non-empty strings''))
      | Some ident \<Rightarrow>
          if ident \<in> set seen then
            Err (outbox_evidence_error X ev (label @ '' '' @ field @ '' must not contain duplicate identifiers''))
          else if \<not> is_valid_id ident then
            Err (outbox_evidence_error X ev (label @ '' '' @ field @ '' contains an invalid identifier; '' @
                   hash_field @ ''-hash='' @ content_hash_bytes (ea_env X) ident))
          else management_id_loop X ev field label hash_field is_valid_id (ident # seen) vs)"

definition validate_required_management_id_array ::
  "evidence_api \<Rightarrow> OutboxEvent \<Rightarrow> json \<Rightarrow> string \<Rightarrow> 64 word \<Rightarrow> string \<Rightarrow> string \<Rightarrow> (string \<Rightarrow> bool) \<Rightarrow>
     unit result" where
  "validate_required_management_id_array X ev payload field expected_count label hash_field is_valid_id =
     and_then (require_field X ev (label @ '' evidence must contain '' @ field) (jget payload field)) (\<lambda>v.
     and_then (require_field X ev (label @ '' '' @ field @ '' must be an array when present'') (as_array v)) (\<lambda>ids.
     and_then (reject_if (len_u64 ids \<noteq> expected_count)
                 (outbox_evidence_error X ev (label @ '' '' @ field @ '' count must match '' @ label @ '' count''))) (\<lambda>_.
     management_id_loop X ev field label hash_field is_valid_id [] ids)))"

subsection \<open>Storage profiles\<close>

definition validate_secret_ref_evidence ::
  "evidence_api \<Rightarrow> OutboxEvent \<Rightarrow> json \<Rightarrow> string \<Rightarrow> unit result" where
  "validate_secret_ref_evidence X ev v label =
     (let secret_ref_present = (field_bool v ''secret-ref-present'' = Some True) in
      if secret_ref_present then checks
        [reject_if (str_filter (\<lambda>s. \<not> blank s) (field_str v ''secret-ref-provider'') = None)
           (outbox_evidence_error X ev (label @ '' secret-ref-present requires secret-ref-provider'')),
         reject_if (str_filter is_full_sha256_digest_evidence (field_str v ''secret-ref-hash'') = None)
           (outbox_evidence_error X ev (label @ '' secret-ref-hash must contain full SHA-256 digest evidence''))]
      else reject_if (jget v ''secret-ref-provider'' \<noteq> None \<or> jget v ''secret-ref-hash'' \<noteq> None)
             (outbox_evidence_error X ev (label @
                '' cannot carry secret-ref evidence when secret-ref-present is false'')))"

definition validate_storage_profile_provider_mode_evidence ::
  "evidence_api \<Rightarrow> OutboxEvent \<Rightarrow> json \<Rightarrow> string \<Rightarrow> unit result" where
  "validate_storage_profile_provider_mode_evidence X ev storage_profile label =
     and_then (required_string_field X ev storage_profile ''provider'' label) (\<lambda>provider_text.
     and_then (map_err (\<lambda>_. outbox_evidence_error X ev (label @ '' evidence has invalid provider''))
                 (storage_provider_from_str provider_text)) (\<lambda>provider.
     and_then (required_string_field X ev storage_profile ''issuance-mode'' label) (\<lambda>mode_text.
     and_then (map_err (\<lambda>_. outbox_evidence_error X ev (label @ '' evidence has invalid issuance-mode''))
                 (issuance_mode_from_str mode_text)) (\<lambda>issuance_mode.
     let secret_ref_present = (field_bool storage_profile ''secret-ref-present'' = Some True) in checks
       [reject_if ((issuance_mode = ShortLivedSecretRef) \<noteq> secret_ref_present)
          (outbox_evidence_error X ev (label @ '' secret-ref-present must match issuance-mode'')),
        reject_if (issuance_mode = LocalFileNoSecret \<and> provider \<noteq> File)
          (outbox_evidence_error X ev (label @ '' local-file-no-secret issuance mode requires file provider'')),
        reject_if (issuance_mode = ShortLivedSecretRef \<and> provider \<notin> {S3, Gcs, Azure})
          (outbox_evidence_error X ev (label @
             '' short-lived-secret-ref issuance mode requires cloud object provider''))]))))"

definition validate_storage_profile_upsert_event_evidence ::
  "evidence_api \<Rightarrow> OutboxEvent \<Rightarrow> json \<Rightarrow> unit result" where
  "validate_storage_profile_upsert_event_evidence X ev payload =
     and_then (validate_outer_payload X ev ''storage-profile upsert outbox payload''
                 STORAGE_PROFILE_UPSERT_OUTBOX_PAYLOAD_FIELDS) (\<lambda>_.
     and_then (validate_object_evidence_schema X ev payload ''storage-profile upsert''
                 STORAGE_PROFILE_UPSERT_EVIDENCE_FIELDS) (\<lambda>_.
     and_then (require_field X ev ''storage-profile upsert evidence must contain storage-profile''
                 (jget payload ''storage-profile'')) (\<lambda>storage_profile.
     and_then (required_string_field X ev storage_profile ''profile-id'' ''storage-profile upsert'') (\<lambda>profile_id.
     and_then (validate_storage_profile_id_evidence X ev profile_id ''storage-profile upsert'') (\<lambda>_.
     and_then (required_string_field X ev storage_profile ''warehouse'' ''storage-profile upsert'') (\<lambda>warehouse_name.
     checks
       [map_ok (\<lambda>_. ()) (map_err (\<lambda>_. outbox_evidence_error X ev
           ''storage-profile upsert evidence has invalid warehouse'') (warehouse_name_new warehouse_name)),
        reject_if (nonempty_str payload ''warehouse'' \<notin> {None, Some warehouse_name})
          (outbox_evidence_error X ev ''storage-profile upsert warehouse must match storage-profile''),
        validate_storage_profile_provider_mode_evidence X ev storage_profile ''storage-profile upsert'',
        reject_if (jget storage_profile ''secret-ref'' \<noteq> None)
          (outbox_evidence_error X ev ''storage-profile upsert evidence must not contain raw secret-ref''),
        reject_if (jget storage_profile ''location-prefix'' \<noteq> None)
          (outbox_evidence_error X ev ''storage-profile upsert evidence must not contain raw location-prefix''),
        validate_storage_profile_evidence_schema X ev storage_profile ''storage-profile upsert storage-profile'',
        validate_storage_profile_public_config_evidence X ev storage_profile
          ''storage-profile upsert storage-profile'',
        validate_required_full_hash_field X ev storage_profile ''location-prefix-hash'',
        validate_secret_ref_evidence X ev storage_profile ''storage-profile upsert'',
        validate_authorization_receipt_principal X ev payload ''storage-profile upsert'']))))))"

subsection \<open>Policy bindings\<close>

definition policy_namespace ::
  "evidence_api \<Rightarrow> OutboxEvent \<Rightarrow> json \<Rightarrow> Namespace option result" where
  "policy_namespace X ev policy =
     (case jget policy ''namespace'' of
        None \<Rightarrow> Ok None
      | Some JNull \<Rightarrow> Ok None
      | Some (JArr parts) \<Rightarrow> map_ok Some (namespace_parts X ev ''policy-binding upsert'' parts)
      | Some _ \<Rightarrow> Err (outbox_evidence_error X ev ''policy-binding upsert namespace must be an array when present''))"

definition policy_table :: "evidence_api \<Rightarrow> OutboxEvent \<Rightarrow> json \<Rightarrow> TableName option result" where
  "policy_table X ev policy =
     (let malformed = Err (outbox_evidence_error X ev
                         ''policy-binding upsert table must be a non-empty string when present'') in
      case jget policy ''table'' of
        None \<Rightarrow> Ok None
      | Some JNull \<Rightarrow> Ok None
      | Some (JStr table) \<Rightarrow>
          if table = [] then malformed
          else map_ok Some (map_err (\<lambda>_. outbox_evidence_error X ev
                 ''policy-binding upsert evidence has invalid table'') (table_name_new table))
      | Some _ \<Rightarrow> malformed)"

text \<open>
  The record a validator rebuilds is dropped, so the time a constructor would stamp it with does
  not matter: the model passes \<open>0\<close>.
\<close>

definition validate_policy_binding_upsert_event_evidence ::
  "evidence_api \<Rightarrow> OutboxEvent \<Rightarrow> json \<Rightarrow> unit result" where
  "validate_policy_binding_upsert_event_evidence X ev payload =
     and_then (validate_outer_payload X ev ''policy-binding upsert outbox payload''
                 MANAGEMENT_UPSERT_OUTBOX_PAYLOAD_FIELDS) (\<lambda>_.
     and_then (validate_object_evidence_schema X ev payload ''policy-binding upsert''
                 POLICY_BINDING_UPSERT_EVIDENCE_FIELDS) (\<lambda>_.
     and_then (require_field X ev ''policy-binding upsert evidence must contain policy'' (jget payload ''policy'')) (\<lambda>policy.
     and_then (validate_policy_binding_evidence_schema X ev policy) (\<lambda>_.
     and_then (require_field X ev ''policy-binding upsert evidence must contain policy-id''
                 (nonempty_str policy ''policy-id'')) (\<lambda>policy_id.
     and_then (validate_management_id_evidence X ev policy_id ''policy-binding upsert'' ''policy-id'') (\<lambda>_.
     and_then (require_field X ev ''policy-binding upsert evidence must contain warehouse''
                 (str_filter (\<lambda>s. s \<noteq> []) (Option.bind
                    (or_else (jget policy ''warehouse'') (jget payload ''warehouse'')) as_str))) (\<lambda>warehouse_name.
     and_then (reject_if (field_str payload ''warehouse'' \<noteq> None \<and>
                          field_str policy ''warehouse'' \<noteq> field_str payload ''warehouse'')
                 (outbox_evidence_error X ev
                    ''policy-binding upsert policy warehouse must match payload warehouse'')) (\<lambda>_.
     and_then (map_err (\<lambda>_. outbox_evidence_error X ev ''policy-binding upsert evidence has invalid warehouse'')
                 (warehouse_name_new warehouse_name)) (\<lambda>warehouse.
     and_then (policy_namespace X ev policy) (\<lambda>ns.
     and_then (policy_table X ev policy) (\<lambda>table.
     and_then (require_field X ev ''policy-binding upsert evidence must contain enforced''
                 (field_bool policy ''enforced'')) (\<lambda>enforced.
     and_then (require_field X ev ''policy-binding upsert evidence must contain odrl'' (jget policy ''odrl'')) (\<lambda>odrl.
     and_then (map_err (\<lambda>_. outbox_evidence_error X ev ''policy-binding upsert odrl must be hashable'')
                 (content_hash_json (ea_env X) odrl)) (\<lambda>odrl_hash.
     and_then (require_field X ev ''policy-binding upsert evidence must contain odrl-hash''
                 (nonempty_str policy ''odrl-hash'')) (\<lambda>recorded_odrl_hash.
     checks
       [validate_required_full_hash_field X ev policy ''odrl-hash'',
        reject_if (recorded_odrl_hash \<noteq> odrl_hash)
          (outbox_evidence_error X ev ''policy-binding upsert odrl-hash must match odrl''),
        map_ok (\<lambda>_. ()) (map_err (\<lambda>_. outbox_evidence_error X ev
           ''policy-binding upsert evidence has invalid scope or identifier'')
           (policy_binding_new (ea_env X) 0 policy_id warehouse ns table enforced odrl)),
        validate_authorization_receipt_principal X ev payload ''policy-binding upsert''])))))))))))))))"

subsection \<open>Projects, servers and warehouses\<close>

definition validate_optional_management_id ::
  "evidence_api \<Rightarrow> OutboxEvent \<Rightarrow> string option \<Rightarrow> string \<Rightarrow> string \<Rightarrow> unit result" where
  "validate_optional_management_id X ev identifier label field =
     (case identifier of None \<Rightarrow> Ok () | Some i \<Rightarrow> validate_management_id_evidence X ev i label field)"

definition validate_project_upsert_event_evidence ::
  "evidence_api \<Rightarrow> OutboxEvent \<Rightarrow> json \<Rightarrow> unit result" where
  "validate_project_upsert_event_evidence X ev payload =
     and_then (validate_outer_payload X ev ''project upsert outbox payload''
                 MANAGEMENT_UPSERT_OUTBOX_PAYLOAD_FIELDS) (\<lambda>_.
     and_then (validate_object_evidence_schema X ev payload ''project upsert'' PROJECT_UPSERT_EVIDENCE_FIELDS) (\<lambda>_.
     and_then (require_field X ev ''project upsert evidence must contain project-record''
                 (jget payload ''project-record'')) (\<lambda>project_record.
     and_then (validate_object_evidence_schema X ev project_record ''project upsert project-record''
                 PROJECT_RECORD_EVIDENCE_FIELDS) (\<lambda>_.
     and_then (require_field X ev ''project upsert evidence must contain project-id''
                 (nonempty_str project_record ''project-id'')) (\<lambda>project_id.
     and_then (validate_management_id_evidence X ev project_id ''project upsert'' ''project-id'') (\<lambda>_.
     and_then (reject_if (field_str payload ''project-id'' \<notin> {None, Some project_id})
                 (outbox_evidence_error X ev ''project upsert project-id must match project-record'')) (\<lambda>_.
     and_then (optional_string_field X ev project_record ''server-id'' ''project upsert'') (\<lambda>server_id.
     and_then (validate_optional_management_id X ev server_id ''project upsert'' ''server-id'') (\<lambda>_.
     and_then (optional_string_field X ev project_record ''display-name'' ''project upsert'') (\<lambda>display_name.
     and_then (optional_string_map_field X ev project_record ''properties'' ''project upsert'') (\<lambda>properties.
     checks
       [map_ok (\<lambda>_. ()) (map_err (\<lambda>_. outbox_evidence_error X ev
           ''project upsert evidence has invalid identifier, server scope, or properties'')
           (project_new (ea_env X) 0 project_id server_id display_name properties principal_anonymous)),
        validate_authorization_receipt_principal X ev payload ''project upsert''])))))))))))"

text \<open>A sensitive value may only appear together with its hash.\<close>

definition validate_hashed_value ::
  "evidence_api \<Rightarrow> OutboxEvent \<Rightarrow> json \<Rightarrow> bool \<Rightarrow> string \<Rightarrow> string \<Rightarrow> string \<Rightarrow> unit result" where
  "validate_hashed_value X ev record present value_field hash_field label =
     (if present then checks
        [validate_required_full_hash_field X ev record hash_field,
         validate_string_content_hash_matches_field X ev record value_field hash_field label]
      else validate_optional_full_hash_field X ev record hash_field)"

definition validate_sensitive_record_hash_binding ::
  "evidence_api \<Rightarrow> OutboxEvent \<Rightarrow> json \<Rightarrow> string \<Rightarrow> string \<Rightarrow> string \<Rightarrow> unit result" where
  "validate_sensitive_record_hash_binding X ev record value_field hash_field label =
     validate_hashed_value X ev record (jget record value_field \<noteq> None) value_field hash_field label"

definition validate_server_upsert_event_evidence ::
  "evidence_api \<Rightarrow> OutboxEvent \<Rightarrow> json \<Rightarrow> unit result" where
  "validate_server_upsert_event_evidence X ev payload =
     and_then (validate_outer_payload X ev ''server upsert outbox payload''
                 MANAGEMENT_UPSERT_OUTBOX_PAYLOAD_FIELDS) (\<lambda>_.
     and_then (validate_object_evidence_schema X ev payload ''server upsert'' SERVER_UPSERT_EVIDENCE_FIELDS) (\<lambda>_.
     and_then (require_field X ev ''server upsert evidence must contain server-record''
                 (jget payload ''server-record'')) (\<lambda>server_record.
     and_then (validate_object_evidence_schema X ev server_record ''server upsert server-record''
                 SERVER_RECORD_EVIDENCE_FIELDS) (\<lambda>_.
     and_then (require_field X ev ''server upsert evidence must contain server-id''
                 (nonempty_str server_record ''server-id'')) (\<lambda>server_id.
     and_then (validate_management_id_evidence X ev server_id ''server upsert'' ''server-id'') (\<lambda>_.
     and_then (reject_if (field_str payload ''server-id'' \<notin> {None, Some server_id})
                 (outbox_evidence_error X ev ''server upsert server-id must match server-record'')) (\<lambda>_.
     and_then (optional_string_field X ev server_record ''endpoint-url'' ''server upsert'') (\<lambda>endpoint_url.
     and_then (validate_hashed_value X ev server_record (endpoint_url \<noteq> None) ''endpoint-url''
                 ''endpoint-url-hash'' ''server upsert'') (\<lambda>_.
     and_then (optional_string_field X ev server_record ''display-name'' ''server upsert'') (\<lambda>display_name.
     and_then (optional_string_map_field X ev server_record ''properties'' ''server upsert'') (\<lambda>properties.
     checks
       [map_ok (\<lambda>_. ()) (map_err (\<lambda>_. outbox_evidence_error X ev
           ''server upsert evidence has invalid endpoint, properties, or identifier'')
           (server_new (ea_env X) 0 server_id display_name endpoint_url properties principal_anonymous)),
        validate_authorization_receipt_principal X ev payload ''server upsert''])))))))))))"

definition validate_warehouse_upsert_event_evidence ::
  "evidence_api \<Rightarrow> OutboxEvent \<Rightarrow> json \<Rightarrow> unit result" where
  "validate_warehouse_upsert_event_evidence X ev payload =
     and_then (validate_outer_payload X ev ''warehouse upsert outbox payload''
                 MANAGEMENT_UPSERT_OUTBOX_PAYLOAD_FIELDS) (\<lambda>_.
     and_then (validate_object_evidence_schema X ev payload ''warehouse upsert''
                 WAREHOUSE_UPSERT_EVIDENCE_FIELDS) (\<lambda>_.
     and_then (require_field X ev ''warehouse upsert evidence must contain warehouse-record''
                 (jget payload ''warehouse-record'')) (\<lambda>warehouse_record.
     and_then (validate_object_evidence_schema X ev warehouse_record ''warehouse upsert warehouse-record''
                 WAREHOUSE_RECORD_EVIDENCE_FIELDS) (\<lambda>_.
     and_then (require_field X ev ''warehouse upsert evidence must contain warehouse''
                 (str_filter (\<lambda>s. s \<noteq> []) (Option.bind
                    (or_else (jget warehouse_record ''warehouse'') (jget payload ''warehouse'')) as_str))) (\<lambda>warehouse_name.
     and_then (reject_if (field_str payload ''warehouse'' \<noteq> None \<and>
                          field_str warehouse_record ''warehouse'' \<noteq> field_str payload ''warehouse'')
                 (outbox_evidence_error X ev ''warehouse upsert warehouse must match warehouse-record'')) (\<lambda>_.
     and_then (map_err (\<lambda>_. outbox_evidence_error X ev ''warehouse upsert evidence has invalid warehouse'')
                 (warehouse_name_new warehouse_name)) (\<lambda>warehouse.
     and_then (require_field X ev ''warehouse upsert evidence must contain project-id''
                 (nonempty_str warehouse_record ''project-id'')) (\<lambda>project_id.
     and_then (validate_management_id_evidence X ev project_id ''warehouse upsert'' ''project-id'') (\<lambda>_.
     and_then (optional_string_field X ev warehouse_record ''storage-root'' ''warehouse upsert'') (\<lambda>storage_root.
     and_then (validate_hashed_value X ev warehouse_record (storage_root \<noteq> None) ''storage-root''
                 ''storage-root-hash'' ''warehouse upsert'') (\<lambda>_.
     and_then (optional_string_map_field X ev warehouse_record ''properties'' ''warehouse upsert'') (\<lambda>properties.
     checks
       [map_ok (\<lambda>_. ()) (map_err (\<lambda>_. outbox_evidence_error X ev
           ''warehouse upsert evidence has invalid storage root, properties, or scope'')
           (warehouse_new (ea_env X) 0 warehouse project_id storage_root properties principal_anonymous)),
        validate_authorization_receipt_principal X ev payload ''warehouse upsert'']))))))))))))"

subsection \<open>Namespaces\<close>

definition validate_namespace_lifecycle_event_evidence ::
  "evidence_api \<Rightarrow> OutboxEvent \<Rightarrow> json \<Rightarrow> unit result" where
  "validate_namespace_lifecycle_event_evidence X ev payload =
     and_then (validate_outer_payload X ev ''namespace lifecycle outbox payload''
                 NAMESPACE_LIFECYCLE_OUTBOX_PAYLOAD_FIELDS) (\<lambda>_.
     and_then (validate_object_evidence_schema X ev payload ''namespace lifecycle''
                 NAMESPACE_LIFECYCLE_EVIDENCE_FIELDS) (\<lambda>_.
     and_then (validate_required_warehouse_field X ev payload ''namespace lifecycle'') (\<lambda>_.
     and_then (require_field X ev ''namespace lifecycle evidence must contain namespace''
                 (jget payload ''namespace'')) (\<lambda>ns.
     checks
       [validate_namespace_lifecycle_value X ev ns,
        validate_authorization_receipt_principal X ev payload ''namespace lifecycle'']))))"

fun namespace_path_loop :: "evidence_api \<Rightarrow> OutboxEvent \<Rightarrow> string list \<Rightarrow> json list \<Rightarrow> unit result" where
  "namespace_path_loop X ev seen [] = Ok ()"
| "namespace_path_loop X ev seen (v # vs) =
     (case str_filter (\<lambda>s. \<not> blank s) (as_str v) of
        None \<Rightarrow> Err (outbox_evidence_error X ev ''namespace list namespace-paths must contain non-empty strings'')
      | Some path \<Rightarrow>
          (case namespace_from_str path of
             Inl _ \<Rightarrow> Err (outbox_evidence_error X ev
                        ''namespace list namespace-paths contains an invalid namespace'')
           | Inr _ \<Rightarrow>
               if path \<in> set seen then
                 Err (outbox_evidence_error X ev
                        ''namespace list namespace-paths must not contain duplicate namespaces'')
               else namespace_path_loop X ev (path # seen) vs))"

definition validate_required_namespace_path_array ::
  "evidence_api \<Rightarrow> OutboxEvent \<Rightarrow> json \<Rightarrow> 64 word \<Rightarrow> unit result" where
  "validate_required_namespace_path_array X ev payload expected_count =
     and_then (require_field X ev ''namespace list evidence must contain namespace-paths''
                 (jget payload ''namespace-paths'')) (\<lambda>v.
     and_then (require_field X ev ''namespace list namespace-paths must be an array'' (as_array v)) (\<lambda>paths.
     and_then (reject_if (len_u64 paths \<noteq> expected_count)
                 (outbox_evidence_error X ev
                    ''namespace list namespace-paths count must match namespace list count'')) (\<lambda>_.
     namespace_path_loop X ev [] paths)))"

definition validate_namespace_list_event_evidence ::
  "evidence_api \<Rightarrow> OutboxEvent \<Rightarrow> json \<Rightarrow> unit result" where
  "validate_namespace_list_event_evidence X ev payload =
     and_then (validate_outer_payload X ev ''namespace list outbox payload'' LIST_OUTBOX_PAYLOAD_FIELDS) (\<lambda>_.
     and_then (validate_object_evidence_schema X ev payload ''namespace list'' NAMESPACE_LIST_EVIDENCE_FIELDS) (\<lambda>_.
     and_then (validate_required_warehouse_field X ev payload ''namespace list'') (\<lambda>_.
     and_then (validate_required_unsigned_count_field X ev payload ''namespace-count'' ''namespace list'') (\<lambda>count.
     checks
       [validate_required_namespace_path_array X ev payload count,
        validate_authorization_receipt_principal X ev payload ''namespace list'']))))"

subsection \<open>Views\<close>

fun view_name_loop :: "evidence_api \<Rightarrow> OutboxEvent \<Rightarrow> string list \<Rightarrow> json list \<Rightarrow> unit result" where
  "view_name_loop X ev seen [] = Ok ()"
| "view_name_loop X ev seen (v # vs) =
     (case str_filter (\<lambda>s. \<not> blank s) (as_str v) of
        None \<Rightarrow> Err (outbox_evidence_error X ev ''view list view-names must contain non-empty strings'')
      | Some name \<Rightarrow>
          (case table_name_new name of
             Inl _ \<Rightarrow> Err (outbox_evidence_error X ev ''view list view-names contains an invalid view name'')
           | Inr _ \<Rightarrow>
               if name \<in> set seen then
                 Err (outbox_evidence_error X ev ''view list view-names must not contain duplicate view names'')
               else view_name_loop X ev (name # seen) vs))"

definition validate_required_view_name_array ::
  "evidence_api \<Rightarrow> OutboxEvent \<Rightarrow> json \<Rightarrow> 64 word \<Rightarrow> unit result" where
  "validate_required_view_name_array X ev payload expected_count =
     and_then (require_field X ev ''view list evidence must contain view-names'' (jget payload ''view-names'')) (\<lambda>v.
     and_then (require_field X ev ''view list view-names must be an array'' (as_array v)) (\<lambda>names.
     and_then (reject_if (len_u64 names \<noteq> expected_count)
                 (outbox_evidence_error X ev ''view list view-names count must match view list count'')) (\<lambda>_.
     view_name_loop X ev [] names)))"

definition validate_view_list_event_evidence ::
  "evidence_api \<Rightarrow> OutboxEvent \<Rightarrow> json \<Rightarrow> unit result" where
  "validate_view_list_event_evidence X ev payload =
     and_then (validate_outer_payload X ev ''view list outbox payload'' LIST_OUTBOX_PAYLOAD_FIELDS) (\<lambda>_.
     and_then (validate_object_evidence_schema X ev payload ''view list'' VIEW_LIST_EVIDENCE_FIELDS) (\<lambda>_.
     and_then (validate_required_warehouse_field X ev payload ''view list'') (\<lambda>_.
     and_then (require_field X ev ''view list evidence must contain namespace'' (jget payload ''namespace'')) (\<lambda>ns.
     and_then (validate_namespace_value X ev ns ''view list'') (\<lambda>_.
     and_then (validate_required_unsigned_count_field X ev payload ''view-count'' ''view list'') (\<lambda>count.
     checks
       [validate_required_view_name_array X ev payload count,
        validate_authorization_receipt_principal X ev payload ''view list'']))))))"

definition evidence_expected_view_version ::
  "evidence_api \<Rightarrow> OutboxEvent \<Rightarrow> json \<Rightarrow> unit result" where
  "evidence_expected_view_version X ev payload =
     (case jget payload ''expected-view-version'' of
        None \<Rightarrow> Ok ()
      | Some expected \<Rightarrow>
          reject_if (expected \<noteq> JNull \<and> as_u64 expected \<in> {None, Some 0})
            (outbox_evidence_error X ev ''view lifecycle expected-view-version must be positive when present''))"

text \<open>The namespaces of a view and of the event that carries it, decoded and compared.\<close>

definition view_lifecycle_namespace ::
  "evidence_api \<Rightarrow> OutboxEvent \<Rightarrow> json \<Rightarrow> json \<Rightarrow> unit result" where
  "view_lifecycle_namespace X ev payload view =
     and_then (require_field X ev ''view lifecycle evidence must contain namespace''
                 (or_else (jget view ''namespace'') (jget payload ''namespace''))) (\<lambda>v.
     and_then (decode_namespace_value X ev v ''view lifecycle'') (\<lambda>ns.
     case (jget view ''namespace'', jget payload ''namespace'') of
       (Some _, Some w) \<Rightarrow>
         and_then (decode_namespace_value X ev w ''view lifecycle payload'') (\<lambda>payload_namespace.
         reject_if (ns \<noteq> payload_namespace)
           (outbox_evidence_error X ev ''view lifecycle view namespace must match payload namespace''))
     | _ \<Rightarrow> Ok ()))"

definition validate_view_lifecycle_event_evidence ::
  "evidence_api \<Rightarrow> OutboxEvent \<Rightarrow> json \<Rightarrow> unit result" where
  "validate_view_lifecycle_event_evidence X ev payload =
     and_then (validate_outer_payload X ev ''view lifecycle outbox payload'' VIEW_LIFECYCLE_OUTBOX_PAYLOAD_FIELDS) (\<lambda>_.
     and_then (validate_object_evidence_schema X ev payload ''view lifecycle'' VIEW_LIFECYCLE_EVIDENCE_FIELDS) (\<lambda>_.
     and_then (require_field X ev ''view lifecycle evidence must contain view'' (jget payload ''view'')) (\<lambda>view.
     and_then (validate_object_evidence_schema X ev view ''view lifecycle view'' VIEW_RECORD_EVIDENCE_FIELDS) (\<lambda>_.
     let view_warehouse = field_str view ''warehouse''; payload_warehouse = field_str payload ''warehouse'' in
     and_then (require_field X ev ''view lifecycle evidence must contain warehouse''
                 (str_filter (\<lambda>s. s \<noteq> []) (or_else view_warehouse payload_warehouse))) (\<lambda>warehouse_name.
     and_then (map_err (\<lambda>_. outbox_evidence_error X ev ''view lifecycle evidence has invalid warehouse'')
                 (warehouse_name_new warehouse_name)) (\<lambda>_.
     and_then (reject_if (payload_warehouse \<noteq> None \<and> view_warehouse \<noteq> None \<and> view_warehouse \<noteq> payload_warehouse)
                 (outbox_evidence_error X ev ''view lifecycle view warehouse must match payload warehouse'')) (\<lambda>_.
     and_then (view_lifecycle_namespace X ev payload view) (\<lambda>_.
     and_then (require_field X ev ''view lifecycle evidence must contain view name'' (nonempty_str view ''name'')) (\<lambda>view_name.
     and_then (map_err (\<lambda>_. outbox_evidence_error X ev ''view lifecycle evidence has invalid view name'')
                 (table_name_new view_name)) (\<lambda>_.
     and_then (require_field X ev ''view lifecycle evidence must contain positive view-version''
                 (field_u64 view ''view-version'')) (\<lambda>view_version.
     checks
       [reject_if (view_version = 0)
          (outbox_evidence_error X ev ''view lifecycle evidence must contain positive view-version''),
        evidence_expected_view_version X ev payload,
        validate_authorization_receipt_principal X ev payload ''view lifecycle''])))))))))))"

subsection \<open>Lists of records\<close>

definition management_list_checks ::
  "evidence_api \<Rightarrow> OutboxEvent \<Rightarrow> json \<Rightarrow> string \<Rightarrow> string \<Rightarrow> string \<Rightarrow> string \<Rightarrow> (string \<Rightarrow> bool) \<Rightarrow> unit result" where
  "management_list_checks X ev payload label count_field ids_field hash_field is_valid_id =
     and_then (validate_required_unsigned_count_field X ev payload count_field label) (\<lambda>count.
     validate_required_management_id_array X ev payload ids_field count label hash_field is_valid_id)"

definition policy_id_ok :: "env \<Rightarrow> WarehouseName \<Rightarrow> string \<Rightarrow> bool" where
  "policy_id_ok E warehouse i = is_ok (policy_binding_new E 0 i warehouse None None True (jobj []))"

definition project_id_ok :: "env \<Rightarrow> string \<Rightarrow> bool" where
  "project_id_ok E i = is_ok (project_new E 0 i None None [] principal_anonymous)"

definition server_id_ok :: "env \<Rightarrow> string \<Rightarrow> bool" where
  "server_id_ok E i = is_ok (server_new E 0 i None None [] principal_anonymous)"

definition storage_profile_id_ok :: "env \<Rightarrow> WarehouseName \<Rightarrow> string \<Rightarrow> bool" where
  "storage_profile_id_ok E warehouse i =
     is_ok (storage_profile_new E i warehouse ''file:///tmp/lakecat-evidence'' File LocalFileNoSecret None [])"

definition policy_list_checks :: "evidence_api \<Rightarrow> OutboxEvent \<Rightarrow> json \<Rightarrow> unit result" where
  "policy_list_checks X ev payload =
     and_then (validate_object_evidence_schema X ev payload ''policy-binding list'' POLICY_BINDING_LIST_EVIDENCE_FIELDS) (\<lambda>_.
     and_then (validate_required_warehouse_field X ev payload ''policy-binding list'') (\<lambda>warehouse.
     management_list_checks X ev payload ''policy-binding list'' ''policy-count'' ''policy-ids'' ''policy-id''
       (policy_id_ok (ea_env X) warehouse)))"

definition project_list_checks :: "evidence_api \<Rightarrow> OutboxEvent \<Rightarrow> json \<Rightarrow> unit result" where
  "project_list_checks X ev payload =
     and_then (validate_object_evidence_schema X ev payload ''project list'' PROJECT_LIST_EVIDENCE_FIELDS) (\<lambda>_.
     management_list_checks X ev payload ''project list'' ''project-count'' ''project-ids'' ''project-id''
       (project_id_ok (ea_env X)))"

definition server_list_checks :: "evidence_api \<Rightarrow> OutboxEvent \<Rightarrow> json \<Rightarrow> unit result" where
  "server_list_checks X ev payload =
     and_then (validate_object_evidence_schema X ev payload ''server list'' SERVER_LIST_EVIDENCE_FIELDS) (\<lambda>_.
     management_list_checks X ev payload ''server list'' ''server-count'' ''server-ids'' ''server-id''
       (server_id_ok (ea_env X)))"

definition storage_profile_list_checks :: "evidence_api \<Rightarrow> OutboxEvent \<Rightarrow> json \<Rightarrow> unit result" where
  "storage_profile_list_checks X ev payload =
     and_then (validate_object_evidence_schema X ev payload ''storage-profile list'' STORAGE_PROFILE_LIST_EVIDENCE_FIELDS) (\<lambda>_.
     and_then (validate_required_warehouse_field X ev payload ''storage-profile list'') (\<lambda>warehouse.
     management_list_checks X ev payload ''storage-profile list'' ''storage-profile-count''
       ''storage-profile-ids'' ''storage-profile-id'' (storage_profile_id_ok (ea_env X) warehouse)))"

definition warehouse_list_checks :: "evidence_api \<Rightarrow> OutboxEvent \<Rightarrow> json \<Rightarrow> unit result" where
  "warehouse_list_checks X ev payload =
     and_then (validate_object_evidence_schema X ev payload ''warehouse list'' WAREHOUSE_LIST_EVIDENCE_FIELDS) (\<lambda>_.
     and_then (validate_required_unsigned_count_field X ev payload ''warehouse-count'' ''warehouse list'') (\<lambda>count.
     and_then (optional_non_empty_string_field X ev payload ''project-id'' ''warehouse list'') (\<lambda>project_id.
     and_then (case project_id of
                 None \<Rightarrow> Ok ()
               | Some i \<Rightarrow> reject_if (\<not> project_id_ok (ea_env X) i)
                   (outbox_evidence_error X ev (
                      ''warehouse list project-id contains an invalid identifier; project-id-hash='' @
                      content_hash_bytes (ea_env X) i))) (\<lambda>_.
     validate_required_management_id_array X ev payload ''warehouse-names'' count ''warehouse list''
       ''warehouse-name'' (\<lambda>i. is_ok (warehouse_name_new i))))))"

definition validate_management_list_event_evidence ::
  "evidence_api \<Rightarrow> OutboxEvent \<Rightarrow> json \<Rightarrow> unit result" where
  "validate_management_list_event_evidence X ev payload =
     (let event_type = oe_event_type ev in checks
        [validate_outer_payload X ev ''management list outbox payload'' LIST_OUTBOX_PAYLOAD_FIELDS,
         if event_type = ''policy-binding.listed'' then policy_list_checks X ev payload
         else if event_type = ''project.listed'' then project_list_checks X ev payload
         else if event_type = ''server.listed'' then server_list_checks X ev payload
         else if event_type = ''storage-profile.listed'' then storage_profile_list_checks X ev payload
         else if event_type = ''warehouse.listed'' then warehouse_list_checks X ev payload
         else Ok (),
         validate_authorization_receipt_principal X ev payload ''management-list''])"

subsection \<open>The configuration of the catalog\<close>

fun config_entry_loop ::
  "evidence_api \<Rightarrow> OutboxEvent \<Rightarrow> string \<Rightarrow> string list \<Rightarrow> json list \<Rightarrow> string list result" where
  "config_entry_loop X ev label keys [] = Ok keys"
| "config_entry_loop X ev label keys (entry # entries) =
     and_then (validate_object_evidence_schema X ev entry label CATALOG_CONFIG_ENTRY_EVIDENCE_FIELDS) (\<lambda>_.
     and_then (require_field X ev (label @ '' must contain non-empty string keys'') (nonempty_str entry ''key'')) (\<lambda>key.
     and_then (require_field X ev (label @ '' must contain string values'') (field_str entry ''value'')) (\<lambda>_.
     if key \<in> set keys then
       Err (outbox_evidence_error X ev (label @ '' must not contain duplicate keys''))
     else config_entry_loop X ev label (key # keys) entries)))"

text \<open>The result is the set of the keys; the model keeps it as a list without duplicates.\<close>

definition validate_catalog_config_entries ::
  "evidence_api \<Rightarrow> OutboxEvent \<Rightarrow> json \<Rightarrow> string \<Rightarrow> string list result" where
  "validate_catalog_config_entries X ev entries label =
     and_then (require_field X ev (label @ '' must be an array'') (as_array entries)) (\<lambda>xs.
     config_entry_loop X ev label [] xs)"

definition required_config_defaults :: "(string \<times> string) list" where
  "required_config_defaults =
     [(''lakecat.compatibility'', ''iceberg-rest''),
      (''lakecat.format.baseline'', ''iceberg-v1-v3''),
      (''lakecat.format.v4'', ''extension-ready''),
      (''lakecat.format.v4.bridge'', ''json-passthrough''),
      (''lakecat.format.v4.typed-sail'', ''unavailable'')]"

definition v4_prefix :: string where
  "v4_prefix = ''lakecat.format.v4''"

definition v4_key :: "string \<Rightarrow> bool" where
  "v4_key key = starts_with key v4_prefix"

definition allowed_v4_keys :: "string list" where
  "allowed_v4_keys = filter v4_key (map fst required_config_defaults)"

definition has_config_entry :: "json list \<Rightarrow> string \<times> string \<Rightarrow> bool" where
  "has_config_entry entries required =
     list_ex (\<lambda>entry. field_str entry ''key'' = Some (fst required) \<and>
                      field_str entry ''value'' = Some (snd required)) entries"

definition validate_catalog_config_defaults ::
  "evidence_api \<Rightarrow> OutboxEvent \<Rightarrow> json \<Rightarrow> unit result" where
  "validate_catalog_config_defaults X ev payload =
     and_then (require_field X ev ''catalog config-read evidence must contain defaults'' (jget payload ''defaults'')) (\<lambda>defaults.
     and_then (validate_catalog_config_entries X ev defaults ''catalog config-read defaults'') (\<lambda>default_keys.
     and_then (ok_or (Panicked ''validated config defaults array'') (as_array defaults)) (\<lambda>default_entries.
     and_then (reject_if (list_ex (\<lambda>key. v4_key key \<and> key \<notin> set allowed_v4_keys) default_keys)
                 (outbox_evidence_error X ev
                    ''catalog config-read defaults must not contain unsupported v4 bridge keys'')) (\<lambda>_.
     case find (\<lambda>required. \<not> has_config_entry default_entries required) required_config_defaults of
       None \<Rightarrow> Ok ()
     | Some (key, value) \<Rightarrow> Err (outbox_evidence_error X ev
         (''catalog config-read defaults must include '' @ key @ ''='' @ value))))))"

definition validate_catalog_config_overrides ::
  "evidence_api \<Rightarrow> OutboxEvent \<Rightarrow> json \<Rightarrow> unit result" where
  "validate_catalog_config_overrides X ev payload =
     (case jget payload ''overrides'' of
        None \<Rightarrow> Ok ()
      | Some overrides \<Rightarrow>
          if overrides = JNull then Ok ()
          else and_then (validate_catalog_config_entries X ev overrides ''catalog config-read overrides'') (\<lambda>keys.
            reject_if (list_ex v4_key keys)
              (outbox_evidence_error X ev ''catalog config-read overrides must not contain v4 bridge keys'')))"

fun endpoint_loop :: "evidence_api \<Rightarrow> OutboxEvent \<Rightarrow> string list \<Rightarrow> json list \<Rightarrow> string list result" where
  "endpoint_loop X ev endpoints [] = Ok endpoints"
| "endpoint_loop X ev endpoints (v # vs) =
     and_then (require_field X ev ''catalog config-read endpoints must contain non-empty strings''
                 (str_filter (\<lambda>s. \<not> blank s) (as_str v))) (\<lambda>endpoint.
     if endpoint \<in> set endpoints then
       Err (outbox_evidence_error X ev ''catalog config-read endpoints must not contain duplicate entries'')
     else endpoint_loop X ev (endpoint # endpoints) vs)"

text \<open>A \<open>BTreeSet\<close> is walked in order: the least unsupported endpoint is the one reported.\<close>

definition validate_catalog_config_endpoints ::
  "evidence_api \<Rightarrow> OutboxEvent \<Rightarrow> json \<Rightarrow> unit result" where
  "validate_catalog_config_endpoints X ev payload =
     and_then (require_field X ev ''catalog config-read evidence must contain endpoints'' (jget payload ''endpoints'')) (\<lambda>v.
     and_then (require_field X ev ''catalog config-read endpoints must be an array'' (as_array v)) (\<lambda>values.
     and_then (endpoint_loop X ev [] values) (\<lambda>endpoint_set.
     case find (\<lambda>e. e \<notin> set LAKECAT_ICEBERG_REST_ENDPOINTS) (sort endpoint_set) of
       Some e \<Rightarrow> Err (outbox_evidence_error X ev
         (''catalog config-read endpoints contain non-Iceberg or unsupported entry '' @ e))
     | None \<Rightarrow>
         (case find (\<lambda>e. e \<notin> set endpoint_set) LAKECAT_ICEBERG_REST_ENDPOINTS of
            Some e \<Rightarrow> Err (outbox_evidence_error X ev (''catalog config-read endpoints must include '' @ e))
          | None \<Rightarrow> Ok ()))))"

definition validate_tenant_record ::
  "evidence_api \<Rightarrow> OutboxEvent \<Rightarrow> json \<Rightarrow> string \<Rightarrow> string \<Rightarrow> string list \<Rightarrow> (json \<Rightarrow> unit result) \<Rightarrow> unit result" where
  "validate_tenant_record X ev payload field label allowed_fields further =
     (case jget payload field of
        None \<Rightarrow> Ok ()
      | Some record \<Rightarrow> checks [validate_object_evidence_schema X ev record label allowed_fields, further record])"

definition validate_catalog_config_tenant_records ::
  "evidence_api \<Rightarrow> OutboxEvent \<Rightarrow> json \<Rightarrow> unit result" where
  "validate_catalog_config_tenant_records X ev payload = checks
     [validate_tenant_record X ev payload ''warehouse-record'' ''catalog config-read warehouse-record''
        WAREHOUSE_RECORD_EVIDENCE_FIELDS
        (\<lambda>r. validate_sensitive_record_hash_binding X ev r ''storage-root'' ''storage-root-hash''
               ''catalog config-read warehouse-record''),
      validate_tenant_record X ev payload ''project-record'' ''catalog config-read project-record''
        PROJECT_RECORD_EVIDENCE_FIELDS (\<lambda>_. Ok ()),
      validate_tenant_record X ev payload ''server-record'' ''catalog config-read server-record''
        SERVER_RECORD_EVIDENCE_FIELDS
        (\<lambda>r. validate_sensitive_record_hash_binding X ev r ''endpoint-url'' ''endpoint-url-hash''
               ''catalog config-read server-record'')]"

definition validate_catalog_config_read_event_evidence ::
  "evidence_api \<Rightarrow> OutboxEvent \<Rightarrow> json \<Rightarrow> unit result" where
  "validate_catalog_config_read_event_evidence X ev payload = checks
     [validate_outer_payload X ev ''catalog config-read outbox payload'' LIST_OUTBOX_PAYLOAD_FIELDS,
      validate_object_evidence_schema X ev payload ''catalog config-read'' CATALOG_CONFIG_READ_EVIDENCE_FIELDS,
      map_ok (\<lambda>_. ()) (validate_required_warehouse_field X ev payload ''catalog config-read''),
      validate_catalog_config_defaults X ev payload,
      validate_catalog_config_overrides X ev payload,
      validate_authorization_receipt_principal X ev payload ''catalog config-read'',
      validate_catalog_config_endpoints X ev payload,
      validate_catalog_config_tenant_records X ev payload]"

end
