(* ===== verification/EvidenceTables.thy ===== *)
theory EvidenceTables
  imports EvidenceManagement ServiceLocation
begin

section \<open>Evidence: tables, commits, renames and scans\<close>

text \<open>
  \<open>crates/lakecat-service/src/evidence/table_scan.rs\<close> and \<open>table_rename.rs\<close>, and the validator of
  a commit from \<open>core_receipts.rs\<close>.
\<close>

subsection \<open>Table identities and locations\<close>

definition decode_table_lifecycle_identity ::
  "evidence_api \<Rightarrow> OutboxEvent \<Rightarrow> json \<Rightarrow> string \<Rightarrow> TableIdent result" where
  "decode_table_lifecycle_identity X ev table label =
     and_then (if is_object table
               then validate_object_evidence_schema X ev table (label @ '' table identity'')
                      TABLE_IDENTITY_EVIDENCE_FIELDS
               else Ok ()) (\<lambda>_.
     ok_or (outbox_evidence_error X ev (label @ '' evidence has invalid table identity'')) (ident_from_json table))"

text \<open>The body of \<open>table_lifecycle_namespace_from_value\<close> is that of \<open>decode_namespace_value\<close>.\<close>

definition table_lifecycle_namespace_from_value ::
  "evidence_api \<Rightarrow> OutboxEvent \<Rightarrow> json \<Rightarrow> string \<Rightarrow> Namespace result" where
  "table_lifecycle_namespace_from_value X ev ns label = decode_namespace_value X ev ns label"

definition scope_warehouse ::
  "evidence_api \<Rightarrow> OutboxEvent \<Rightarrow> json \<Rightarrow> TableIdent \<Rightarrow> string \<Rightarrow> unit result" where
  "scope_warehouse X ev payload table label =
     (case jget payload ''warehouse'' of
        None \<Rightarrow> Ok ()
      | Some v \<Rightarrow>
          and_then (require_field X ev (label @ '' warehouse must be a non-empty string when present'')
                      (str_filter (\<lambda>s. s \<noteq> []) (as_str v))) (\<lambda>warehouse.
          reject_if (warehouse \<noteq> ti_warehouse table)
            (outbox_evidence_error X ev (label @ '' warehouse does not match table identity''))))"

definition scope_namespace ::
  "evidence_api \<Rightarrow> OutboxEvent \<Rightarrow> json \<Rightarrow> TableIdent \<Rightarrow> string \<Rightarrow> unit result" where
  "scope_namespace X ev payload table label =
     (case jget payload ''namespace'' of
        None \<Rightarrow> Ok ()
      | Some v \<Rightarrow>
          and_then (table_lifecycle_namespace_from_value X ev v label) (\<lambda>ns.
          reject_if (ns \<noteq> ti_namespace table)
            (outbox_evidence_error X ev (label @ '' namespace does not match table identity''))))"

definition scope_name ::
  "evidence_api \<Rightarrow> OutboxEvent \<Rightarrow> json \<Rightarrow> TableIdent \<Rightarrow> string \<Rightarrow> unit result" where
  "scope_name X ev payload table label =
     (case jget payload ''table'' of
        None \<Rightarrow> Ok ()
      | Some v \<Rightarrow>
          if is_object v then Ok ()
          else and_then (require_field X ev (label @ '' table must be a non-empty string when present'')
                           (str_filter (\<lambda>s. s \<noteq> []) (as_str v))) (\<lambda>table_name.
          reject_if (table_name \<noteq> ti_name table)
            (outbox_evidence_error X ev (label @ '' table name does not match table identity''))))"

definition validate_table_lifecycle_payload_scope ::
  "evidence_api \<Rightarrow> OutboxEvent \<Rightarrow> json \<Rightarrow> TableIdent \<Rightarrow> string \<Rightarrow> unit result" where
  "validate_table_lifecycle_payload_scope X ev payload table label = checks
     [scope_warehouse X ev payload table label, scope_namespace X ev payload table label,
      scope_name X ev payload table label]"

definition validate_table_lifecycle_table_hint ::
  "evidence_api \<Rightarrow> OutboxEvent \<Rightarrow> json \<Rightarrow> TableIdent \<Rightarrow> string \<Rightarrow> unit result" where
  "validate_table_lifecycle_table_hint X ev table_hint table label =
     (if is_object table_hint then
        and_then (decode_table_lifecycle_identity X ev table_hint label) (\<lambda>hinted_table.
        reject_if (hinted_table \<noteq> table)
          (outbox_evidence_error X ev (label @ '' does not match table identity'')))
      else
        and_then (require_field X ev (label @ '' must be a table identity object or non-empty table name'')
                    (str_filter (\<lambda>s. s \<noteq> []) (as_str table_hint))) (\<lambda>table_name.
        reject_if (table_name \<noteq> ti_name table)
          (outbox_evidence_error X ev (label @ '' name does not match table identity''))))"

definition validate_required_outbox_table_identity ::
  "evidence_api \<Rightarrow> OutboxEvent \<Rightarrow> string \<Rightarrow> TableIdent result" where
  "validate_required_outbox_table_identity X ev label =
     and_then (require_field X ev (label @ '' evidence must contain table identity'') (jget (oe_payload ev) ''table'')) (\<lambda>v.
     decode_table_lifecycle_identity X ev v label)"

definition validate_required_payload_table_hint ::
  "evidence_api \<Rightarrow> OutboxEvent \<Rightarrow> json \<Rightarrow> TableIdent \<Rightarrow> string \<Rightarrow> unit result" where
  "validate_required_payload_table_hint X ev payload table label =
     and_then (require_field X ev (label @ '' evidence must contain payload table identity'') (jget payload ''table'')) (\<lambda>v.
     validate_table_lifecycle_table_hint X ev v table (label @ '' payload table''))"

definition evidence_credential_markers :: "string list" where
  "evidence_credential_markers =
     [''token='', ''secret='', ''credential='', ''password='', ''access_key='', ''session_token='']"

definition has_evidence_credential_marker :: "string \<Rightarrow> bool" where
  "has_evidence_credential_marker s = list_ex (contains_str (to_ascii_lowercase s)) evidence_credential_markers"

definition decorated :: "string \<Rightarrow> bool" where
  "decorated s = (CHR ''?'' \<in> set s \<or> CHR ''#'' \<in> set s)"

definition validate_optional_location_evidence ::
  "evidence_api \<Rightarrow> OutboxEvent \<Rightarrow> json option \<Rightarrow> string \<Rightarrow> unit result" where
  "validate_optional_location_evidence X ev location label =
     (case location of
        None \<Rightarrow> Ok ()
      | Some v \<Rightarrow>
          and_then (require_field X ev (label @ '' must be a non-empty string'')
                      (str_filter (\<lambda>s. \<not> blank s) (as_str v))) (\<lambda>s. checks
            [reject_if (decorated s)
               (outbox_evidence_error X ev (label @ '' must not contain decorated location material'')),
             reject_if (location_has_userinfo (ea_env X) s)
               (outbox_evidence_error X ev (label @ '' must not include userinfo'')),
             reject_if (has_evidence_credential_marker s)
               (outbox_evidence_error X ev (label @ '' must not contain credential material''))]))"

definition validate_plan_task_evidence ::
  "evidence_api \<Rightarrow> OutboxEvent \<Rightarrow> json option \<Rightarrow> string \<Rightarrow> unit result" where
  "validate_plan_task_evidence X ev plan_task label =
     (case plan_task of
        None \<Rightarrow> Ok ()
      | Some v \<Rightarrow>
          and_then (require_field X ev (label @ '' plan-task must be a non-empty string'')
                      (str_filter (\<lambda>s. \<not> blank s) (as_str v))) (\<lambda>s. checks
            [reject_if (\<not> starts_with s ''lakecat:'')
               (outbox_evidence_error X ev (label @ '' plan-task must be LakeCat-issued evidence'')),
             reject_if (decorated s \<or> contains_str s ''://'')
               (outbox_evidence_error X ev (label @ '' plan-task must not contain decorated location material'')),
             reject_if (has_evidence_credential_marker s)
               (outbox_evidence_error X ev (label @ '' plan-task must not contain credential material''))]))"

subsection \<open>Commits\<close>

definition aliased_evidence_field ::
  "evidence_api \<Rightarrow> OutboxEvent \<Rightarrow> json \<Rightarrow> string \<Rightarrow> string \<Rightarrow> string \<Rightarrow> json option result" where
  "aliased_evidence_field X ev v snake kebab label =
     (case (jget v snake, jget v kebab) of
        (Some _, Some _) \<Rightarrow> Err (outbox_evidence_error X ev (label @ '' must not carry both '' @ snake @
                              '' and '' @ kebab @ '' evidence fields''))
      | (Some value, None) \<Rightarrow> Ok (Some value)
      | (None, Some value) \<Rightarrow> Ok (Some value)
      | (None, None) \<Rightarrow> Ok None)"

definition commit_field :: "evidence_api \<Rightarrow> OutboxEvent \<Rightarrow> json \<Rightarrow> string \<times> string \<Rightarrow> json option result" where
  "commit_field X ev v names = aliased_evidence_field X ev v (fst names) (snd names) ''table commit''"

definition alias_hash_text :: "string \<times> string \<Rightarrow> string" where
  "alias_hash_text names = fst names @ ''/'' @ snd names @ '' must contain full SHA-256 digest evidence''"

definition validate_required_aliased_full_hash_field ::
  "evidence_api \<Rightarrow> OutboxEvent \<Rightarrow> json \<Rightarrow> string \<times> string \<Rightarrow> unit result" where
  "validate_required_aliased_full_hash_field X ev v names =
     and_then (commit_field X ev v names) (\<lambda>value.
     reject_if (str_filter is_full_sha256_digest_evidence (Option.bind value as_str) = None)
       (outbox_evidence_error X ev (alias_hash_text names)))"

definition validate_optional_aliased_full_hash_field ::
  "evidence_api \<Rightarrow> OutboxEvent \<Rightarrow> json \<Rightarrow> string \<times> string \<Rightarrow> unit result" where
  "validate_optional_aliased_full_hash_field X ev v names =
     and_then (commit_field X ev v names) (\<lambda>value.
     case value of
       None \<Rightarrow> Ok ()
     | Some x \<Rightarrow> reject_if (x \<noteq> JNull \<and> str_filter is_full_sha256_digest_evidence (as_str x) = None)
                   (outbox_evidence_error X ev (alias_hash_text names)))"

definition validate_required_aliased_rfc3339_string ::
  "evidence_api \<Rightarrow> OutboxEvent \<Rightarrow> json \<Rightarrow> string \<times> string \<Rightarrow> string \<Rightarrow> unit result" where
  "validate_required_aliased_rfc3339_string X ev v names label =
     and_then (commit_field X ev v names) (\<lambda>value.
     and_then (require_field X ev (label @ '' must be present'') (Option.bind value as_str)) (\<lambda>timestamp.
     and_then (reject_if (blank timestamp) (outbox_evidence_error X ev (label @ '' must be non-empty''))) (\<lambda>_.
     case ea_rfc3339_error X timestamp of
       None \<Rightarrow> Ok ()
     | Some err \<Rightarrow> Err (outbox_evidence_error X ev (label @ '' must be RFC3339: '' @ err)))))"

definition commit_u64 ::
  "evidence_api \<Rightarrow> OutboxEvent \<Rightarrow> json \<Rightarrow> string \<times> string \<Rightarrow> string \<Rightarrow> unit result" where
  "commit_u64 X ev commit names what =
     and_then (commit_field X ev commit names) (\<lambda>value.
     and_then (require_field X ev (''table commit evidence must contain unsigned '' @ what)
                 (Option.bind value as_u64)) (\<lambda>n.
     reject_if (n = 0) (outbox_evidence_error X ev (''table commit evidence '' @ what @ '' must be positive''))))"

definition commit_snapshot_id :: "evidence_api \<Rightarrow> OutboxEvent \<Rightarrow> json \<Rightarrow> unit result" where
  "commit_snapshot_id X ev commit =
     and_then (commit_field X ev commit (''snapshot_id'', ''snapshot-id'')) (\<lambda>value.
     and_then (require_field X ev ''table commit evidence must contain signed snapshot id''
                 (Option.bind value as_i64)) (\<lambda>n.
     reject_if (n < 0) (outbox_evidence_error X ev ''table commit evidence snapshot id must be non-negative'')))"

definition new_location_names :: "string \<times> string" where
  "new_location_names = (''new_metadata_location'', ''new-metadata-location'')"

definition previous_location_names :: "string \<times> string" where
  "previous_location_names = (''previous_metadata_location'', ''previous-metadata-location'')"

definition nonblank_str :: "json option \<Rightarrow> bool" where
  "nonblank_str v = (str_filter (\<lambda>s. \<not> blank s) (Option.bind v as_str) \<noteq> None)"

definition commit_locations :: "evidence_api \<Rightarrow> OutboxEvent \<Rightarrow> json \<Rightarrow> unit result" where
  "commit_locations X ev commit =
     and_then (commit_field X ev commit new_location_names) (\<lambda>new.
     and_then (reject_if (\<not> nonblank_str new)
                 (outbox_evidence_error X ev ''table commit evidence must contain non-empty new metadata location'')) (\<lambda>_.
     and_then (validate_optional_location_evidence X ev new ''table commit new metadata location'') (\<lambda>_.
     and_then (commit_field X ev commit previous_location_names) (\<lambda>previous. checks
       [reject_if (previous \<noteq> None \<and> \<not> nonblank_str previous)
          (outbox_evidence_error X ev
             ''table commit evidence previous metadata location must be non-empty when present''),
        validate_optional_location_evidence X ev previous ''table commit previous metadata location'']))))"

definition commit_scope :: "evidence_api \<Rightarrow> OutboxEvent \<Rightarrow> json \<Rightarrow> json \<Rightarrow> unit result" where
  "commit_scope X ev payload commit =
     and_then (require_field X ev ''table commit evidence must contain table identity'' (jget (oe_payload ev) ''table'')) (\<lambda>v.
     and_then (decode_table_lifecycle_identity X ev v ''table commit'') (\<lambda>root_table. checks
       [validate_table_lifecycle_payload_scope X ev payload root_table ''table commit'',
        case jget commit ''table'' of
          None \<Rightarrow> Ok ()
        | Some hint \<Rightarrow> validate_table_lifecycle_table_hint X ev hint root_table ''table commit table'']))"

definition commit_principals :: "evidence_api \<Rightarrow> OutboxEvent \<Rightarrow> json \<Rightarrow> json \<Rightarrow> unit result" where
  "commit_principals X ev payload commit =
     and_then (require_field X ev ''table commit evidence must contain commit principal'' (jget commit ''principal'')) (\<lambda>v.
     and_then (decode_outbox_principal_value X ev v ''table commit principal'') (\<lambda>commit_principal.
     and_then (receipt_principal X ev payload ''table commit'') (\<lambda>receipt_p. checks
       [validate_receipt_decision X ev payload ''table commit'',
        reject_if (commit_principal \<noteq> receipt_p)
          (outbox_evidence_error X ev ''table commit principal does not match authorization receipt principal'')])))"

definition validate_table_commit_hash_evidence :: "evidence_api \<Rightarrow> OutboxEvent \<Rightarrow> unit result" where
  "validate_table_commit_hash_evidence X ev =
     (let payload = evidence_payload ev in
      and_then (validate_outer_payload X ev ''table commit outbox payload'' TABLE_COMMIT_OUTBOX_PAYLOAD_FIELDS) (\<lambda>_.
      and_then (validate_object_evidence_schema X ev payload ''table commit payload''
                  TABLE_COMMIT_PAYLOAD_EVIDENCE_FIELDS) (\<lambda>_.
      and_then (require_field X ev ''table commit evidence must contain commit''
                  (or_else (jget payload ''commit'') (jget (oe_payload ev) ''commit''))) (\<lambda>commit. checks
        [validate_object_evidence_schema X ev commit ''table commit'' TABLE_COMMIT_EVIDENCE_FIELDS,
         commit_scope X ev payload commit,
         commit_principals X ev payload commit,
         commit_u64 X ev commit (''sequence_number'', ''sequence-number'') ''sequence number'',
         commit_u64 X ev commit (''format_version'', ''format-version'') ''format version'',
         commit_snapshot_id X ev commit,
         validate_required_aliased_rfc3339_string X ev commit (''committed_at'', ''committed-at'')
           ''table commit evidence committed_at timestamp'',
         commit_locations X ev commit,
         validate_required_aliased_full_hash_field X ev commit (''request_hash'', ''request-hash''),
         validate_required_aliased_full_hash_field X ev commit (''response_hash'', ''response-hash''),
         validate_optional_aliased_full_hash_field X ev commit
           (''idempotency_key_sha256'', ''idempotency-key-sha256''),
         validate_optional_aliased_full_hash_field X ev commit (''policy_hash'', ''policy-hash'')]))))"

subsection \<open>The history of commits\<close>

fun sequence_number_loop ::
  "evidence_api \<Rightarrow> OutboxEvent \<Rightarrow> 64 word option \<Rightarrow> json list \<Rightarrow> unit result" where
  "sequence_number_loop X ev previous [] = Ok ()"
| "sequence_number_loop X ev previous (v # vs) =
     (case as_u64 v of
        None \<Rightarrow> Err (outbox_evidence_error X ev ''table commit-history sequence-numbers must be unsigned integers'')
      | Some n \<Rightarrow>
          if n = 0 then
            Err (outbox_evidence_error X ev ''table commit-history sequence-numbers must be positive'')
          else if (case previous of None \<Rightarrow> False | Some p \<Rightarrow> n \<le> p) then
            Err (outbox_evidence_error X ev ''table commit-history sequence-numbers must be strictly increasing'')
          else sequence_number_loop X ev (Some n) vs)"

definition validate_table_commit_history_event_evidence ::
  "evidence_api \<Rightarrow> OutboxEvent \<Rightarrow> json \<Rightarrow> unit result" where
  "validate_table_commit_history_event_evidence X ev payload =
     and_then (validate_outer_payload X ev ''table commit-history outbox payload''
                 TABLE_COMMIT_HISTORY_OUTBOX_PAYLOAD_FIELDS) (\<lambda>_.
     and_then (validate_object_evidence_schema X ev payload ''table commit-history''
                 TABLE_COMMIT_HISTORY_EVIDENCE_FIELDS) (\<lambda>_.
     and_then (validate_required_outbox_table_identity X ev ''table commit-history'') (\<lambda>table.
     and_then (validate_table_lifecycle_payload_scope X ev payload table ''table commit-history'') (\<lambda>_.
     and_then (validate_required_payload_table_hint X ev payload table ''table commit-history'') (\<lambda>_.
     and_then (receipt_principal X ev payload ''table commit-history'') (\<lambda>receipt_p.
     and_then (validate_receipt_decision X ev payload ''table commit-history'') (\<lambda>_.
     and_then (validate_required_full_hash_array_field X ev payload ''commit-hashes'') (\<lambda>commit_hashes.
     and_then (validate_unique_hash_array X ev commit_hashes ''table commit-history commit-hashes'') (\<lambda>_.
     and_then (require_field X ev ''table commit-history evidence must contain sequence-numbers''
                 (field_array payload ''sequence-numbers'')) (\<lambda>sequence_numbers.
     and_then (sequence_number_loop X ev None sequence_numbers) (\<lambda>_.
     and_then (require_field X ev ''table commit-history evidence must contain commit-count''
                 (field_u64 payload ''commit-count'')) (\<lambda>expected_commit_count. checks
       [reject_if (len_u64 commit_hashes \<noteq> expected_commit_count)
          (outbox_evidence_error X ev ''table commit-history commit-count does not match commit-hashes''),
        reject_if (len_u64 sequence_numbers \<noteq> expected_commit_count)
          (outbox_evidence_error X ev ''table commit-history commit-count does not match sequence-numbers''),
        validate_string_field_equals X ev payload ''principal-subject'' (pr_subject receipt_p)
          ''table commit-history'',
        validate_string_field_equals X ev payload ''principal-kind'' (principal_kind_name (pr_kind receipt_p))
          ''table commit-history'']))))))))))))"

subsection \<open>The life cycle of a table\<close>

definition lifecycle_version_types :: "string list" where
  "lifecycle_version_types = [''table.created'', ''table.registered'', ''table.loaded'', ''table.restored'']"

definition lifecycle_versions :: "evidence_api \<Rightarrow> OutboxEvent \<Rightarrow> json \<Rightarrow> unit result" where
  "lifecycle_versions X ev payload =
     (if oe_event_type ev \<in> set lifecycle_version_types then checks
        [map_ok (\<lambda>_. ()) (require_positive_i64_field X ev payload ''format-version'' ''table lifecycle''),
         reject_if (field_u64 payload ''version'' = None)
           (outbox_evidence_error X ev ''table lifecycle evidence must contain unsigned version'')]
      else Ok ())"

definition lifecycle_soft_delete ::
  "evidence_api \<Rightarrow> OutboxEvent \<Rightarrow> json \<Rightarrow> TableIdent \<Rightarrow> unit result" where
  "lifecycle_soft_delete X ev payload table =
     (case or_else (jget payload ''soft-delete'') (jget (oe_payload ev) ''soft-delete'') of
        None \<Rightarrow> reject_if (oe_event_type ev = ''table.deleted'')
          (outbox_evidence_error X ev ''table lifecycle delete evidence must contain soft-delete'')
      | Some soft_delete \<Rightarrow>
          and_then (validate_object_evidence_schema X ev soft_delete ''table lifecycle soft-delete''
                      TABLE_LIFECYCLE_SOFT_DELETE_EVIDENCE_FIELDS) (\<lambda>_.
          and_then (require_field X ev ''table lifecycle soft-delete evidence must contain table identity''
                      (jget soft_delete ''table'')) (\<lambda>soft_delete_table. checks
            [validate_table_lifecycle_table_hint X ev soft_delete_table table ''table lifecycle soft-delete table'',
             reject_if (field_u64 soft_delete ''version'' = None)
               (outbox_evidence_error X ev ''table lifecycle soft-delete evidence must contain unsigned version''),
             map_ok (\<lambda>_. ()) (require_positive_i64_field X ev soft_delete ''format-version''
               ''table lifecycle soft-delete''),
             map_ok (\<lambda>_. ()) (optional_non_empty_string_field X ev soft_delete ''metadata-location''
               ''table lifecycle soft-delete''),
             validate_optional_location_evidence X ev (jget soft_delete ''metadata-location'')
               ''table lifecycle soft-delete metadata-location''])))"

definition validate_table_lifecycle_event_evidence ::
  "evidence_api \<Rightarrow> OutboxEvent \<Rightarrow> json \<Rightarrow> unit result" where
  "validate_table_lifecycle_event_evidence X ev payload =
     and_then (validate_outer_payload X ev ''table lifecycle outbox payload'' TABLE_LIFECYCLE_OUTBOX_PAYLOAD_FIELDS) (\<lambda>_.
     and_then (validate_object_evidence_schema X ev payload ''table lifecycle'' TABLE_LIFECYCLE_EVIDENCE_FIELDS) (\<lambda>_.
     and_then (validate_required_outbox_table_identity X ev ''table lifecycle'') (\<lambda>table. checks
       [validate_authorization_receipt_principal X ev payload ''table lifecycle'',
        validate_table_lifecycle_payload_scope X ev payload table ''table lifecycle'',
        lifecycle_versions X ev payload,
        (case jget payload ''table'' of
           None \<Rightarrow> Ok ()
         | Some v \<Rightarrow> validate_table_lifecycle_table_hint X ev v table ''table lifecycle payload table''),
        lifecycle_soft_delete X ev payload table,
        (case jget payload ''metadata-graph'' of
           None \<Rightarrow> Ok ()
         | Some g \<Rightarrow> validate_object_evidence_schema X ev g ''table lifecycle metadata-graph''
             TABLE_METADATA_GRAPH_EVIDENCE_FIELDS),
        map_ok (\<lambda>_. ()) (optional_non_empty_string_field X ev payload ''metadata-location'' ''table lifecycle''),
        map_ok (\<lambda>_. ()) (optional_non_empty_string_field X ev payload ''location'' ''table lifecycle''),
        validate_optional_location_evidence X ev (jget payload ''metadata-location'')
          ''table lifecycle metadata-location'',
        validate_optional_location_evidence X ev (jget payload ''location'') ''table lifecycle location''])))"

subsection \<open>Renames\<close>

definition required_table_identity ::
  "evidence_api \<Rightarrow> OutboxEvent \<Rightarrow> json option \<Rightarrow> string \<Rightarrow> TableIdent result" where
  "required_table_identity X ev value label =
     and_then (require_field X ev (label @ '' must contain table identity'') value) (\<lambda>v.
     decode_table_lifecycle_identity X ev v label)"

definition rename_receipt_scope ::
  "evidence_api \<Rightarrow> OutboxEvent \<Rightarrow> json \<Rightarrow> TableIdent \<Rightarrow> TableIdent \<Rightarrow> unit result" where
  "rename_receipt_scope X ev payload source destination =
     and_then (require_field X ev ''table rename receipt is required'' (receipt_of_payload payload)) (\<lambda>receipt.
     and_then (required_table_identity X ev (jget receipt ''table'') ''table rename receipt source'') (\<lambda>receipt_source.
     and_then (reject_if (receipt_source \<noteq> source)
                 (outbox_evidence_error X ev ''table rename receipt source must match event source'')) (\<lambda>_.
     and_then (required_table_identity X ev (jpointer receipt [''context'', ''destination-table''])
                 ''table rename receipt destination'') (\<lambda>receipt_destination.
     reject_if (receipt_destination \<noteq> destination)
       (outbox_evidence_error X ev ''table rename receipt destination must match event destination'')))))"

definition validate_table_rename_event_evidence ::
  "evidence_api \<Rightarrow> OutboxEvent \<Rightarrow> json \<Rightarrow> unit result" where
  "validate_table_rename_event_evidence X ev payload =
     and_then (validate_outer_payload X ev ''table rename outbox payload'' TABLE_RENAME_OUTBOX_PAYLOAD_FIELDS) (\<lambda>_.
     and_then (validate_object_evidence_schema X ev payload ''table rename'' TABLE_RENAME_EVIDENCE_FIELDS) (\<lambda>_.
     and_then (required_table_identity X ev (jget (oe_payload ev) ''table'') ''table rename outbox table'') (\<lambda>outer_table.
     and_then (required_table_identity X ev (jget payload ''table'') ''table rename payload table'') (\<lambda>payload_table.
     and_then (required_table_identity X ev (jget payload ''source'') ''table rename source'') (\<lambda>source.
     and_then (required_table_identity X ev (jget payload ''destination'') ''table rename destination'') (\<lambda>destination.
     checks
       [reject_if (outer_table \<noteq> destination \<or> payload_table \<noteq> destination)
          (outbox_evidence_error X ev ''table rename table scope must match destination''),
        reject_if (source = destination)
          (outbox_evidence_error X ev ''table rename source and destination must differ''),
        reject_if (ti_warehouse source \<noteq> ti_warehouse destination)
          (outbox_evidence_error X ev ''table rename source and destination warehouses must match''),
        validate_authorization_receipt_principal X ev payload ''table rename'',
        rename_receipt_scope X ev payload source destination,
        map_ok (\<lambda>_. ()) (require_positive_i64_field X ev payload ''format-version'' ''table rename''),
        reject_if (field_u64 payload ''version'' = None)
          (outbox_evidence_error X ev ''table rename version must be unsigned''),
        map_ok (\<lambda>_. ()) (optional_non_empty_string_field X ev payload ''metadata-location'' ''table rename''),
        validate_optional_location_evidence X ev (jget payload ''metadata-location'')
          ''table rename metadata-location'']))))))"

end
