(* ===== verification/EvidenceScans.thy ===== *)
theory EvidenceScans
  imports EvidenceTables
begin

section \<open>Evidence: governed scans\<close>

text \<open>
  The scan validators of \<open>crates/lakecat-service/src/evidence/table_scan.rs\<close>: what was scanned is a
  subset of what was asked for and of what the read restriction allows, the restriction is the one
  the authorization receipt carries, and its row predicate is the filter that was required.
\<close>

subsection \<open>Arrays of strings\<close>

definition validate_required_string_array_field ::
  "evidence_api \<Rightarrow> OutboxEvent \<Rightarrow> json \<Rightarrow> string \<Rightarrow> string \<Rightarrow> string list result" where
  "validate_required_string_array_field X ev payload field label =
     and_then (require_field X ev (label @ '' evidence must contain '' @ field) (jget payload field)) (\<lambda>v.
     and_then (require_field X ev (label @ '' '' @ field @ '' must be an array'') (as_array v)) (\<lambda>xs.
     and_then (traverse (\<lambda>x. require_field X ev (label @ '' '' @ field @ '' must contain non-empty strings'')
                               (str_filter (\<lambda>s. \<not> blank s) (as_str x))) xs) (\<lambda>values.
     and_then (reject_if (\<not> distinct values)
                 (outbox_evidence_error X ev (label @ '' '' @ field @ '' must be duplicate-free''))) (\<lambda>_.
     Ok values))))"

definition validate_required_non_empty_string_array_field ::
  "evidence_api \<Rightarrow> OutboxEvent \<Rightarrow> json \<Rightarrow> string \<Rightarrow> string \<Rightarrow> string list result" where
  "validate_required_non_empty_string_array_field X ev payload field label =
     and_then (validate_required_string_array_field X ev payload field label) (\<lambda>values.
     if values = [] then Err (outbox_evidence_error X ev (label @ '' '' @ field @ '' must not be empty''))
     else Ok values)"

definition validate_effective_evidence_subset ::
  "evidence_api \<Rightarrow> OutboxEvent \<Rightarrow> string \<Rightarrow> string list \<Rightarrow> string \<Rightarrow> string list \<Rightarrow> bool \<Rightarrow> unit result" where
  "validate_effective_evidence_subset X ev effective_label effective requested_field requested require_exact =
     (if requested = [] then
        reject_if (require_exact \<and> effective \<noteq> [])
          (outbox_evidence_error X ev (effective_label @ '' must match empty '' @ requested_field))
      else checks
        [reject_if (\<not> set effective \<subseteq> set requested)
           (outbox_evidence_error X ev (effective_label @ '' must be a subset of '' @ requested_field)),
         reject_if (require_exact \<and> set effective \<noteq> set requested)
           (outbox_evidence_error X ev (effective_label @ '' must match '' @ requested_field))])"

subsection \<open>Against the read restriction\<close>

definition validate_read_restriction_allowed_columns ::
  "evidence_api \<Rightarrow> OutboxEvent \<Rightarrow> json \<Rightarrow> string \<Rightarrow> string list result" where
  "validate_read_restriction_allowed_columns X ev read_restriction label =
     and_then (validate_required_string_array_field X ev read_restriction ''allowed-columns''
                 (label @ '' read-restriction'')) (\<lambda>allowed_columns.
     if allowed_columns = [] then
       Err (outbox_evidence_error X ev (label @ '' read-restriction allowed-columns must not be empty''))
     else Ok allowed_columns)"

definition within_allowed_columns ::
  "evidence_api \<Rightarrow> OutboxEvent \<Rightarrow> json \<Rightarrow> string \<Rightarrow> string \<Rightarrow> string list \<Rightarrow> unit result" where
  "within_allowed_columns X ev payload label what names =
     (case jget payload ''read-restriction'' of
        None \<Rightarrow> Ok ()
      | Some read_restriction \<Rightarrow>
          if jget read_restriction ''allowed-columns'' = None then Ok ()
          else and_then (validate_read_restriction_allowed_columns X ev read_restriction label) (\<lambda>allowed_columns.
            reject_if (\<not> set names \<subseteq> set allowed_columns)
              (outbox_evidence_error X ev (label @ '' '' @ what @ '' must be allowed by read-restriction''))))"

definition validate_effective_projection_matches_read_restriction ::
  "evidence_api \<Rightarrow> OutboxEvent \<Rightarrow> json \<Rightarrow> string \<Rightarrow> string list \<Rightarrow> unit result" where
  "validate_effective_projection_matches_read_restriction X ev payload label projected =
     within_allowed_columns X ev payload label ''effective-projection'' projected"

definition validate_effective_stats_matches_read_restriction ::
  "evidence_api \<Rightarrow> OutboxEvent \<Rightarrow> json \<Rightarrow> string \<Rightarrow> string list \<Rightarrow> unit result" where
  "validate_effective_stats_matches_read_restriction X ev payload label effective_stats =
     within_allowed_columns X ev payload label ''effective-stats-fields'' effective_stats"

definition validate_read_restriction_receipt_match ::
  "evidence_api \<Rightarrow> OutboxEvent \<Rightarrow> json \<Rightarrow> string \<Rightarrow> unit result" where
  "validate_read_restriction_receipt_match X ev payload label =
     (case (jget payload ''read-restriction'', authorization_receipt_read_restriction payload) of
        (None, None) \<Rightarrow> Ok ()
      | (Some r, Some receipt_r) \<Rightarrow> reject_if (r \<noteq> receipt_r)
          (outbox_evidence_error X ev (label @ '' read-restriction must match authorization receipt context''))
      | (Some _, None) \<Rightarrow> Err (outbox_evidence_error X ev (label @
          '' read-restriction must be captured in authorization receipt context''))
      | (None, Some _) \<Rightarrow> Err (outbox_evidence_error X ev (label @
          '' authorization receipt read-restriction must match top-level read-restriction'')))"

definition validate_read_restriction_purpose_and_ttl ::
  "evidence_api \<Rightarrow> OutboxEvent \<Rightarrow> json \<Rightarrow> string \<Rightarrow> unit result" where
  "validate_read_restriction_purpose_and_ttl X ev payload label =
     (case jget payload ''read-restriction'' of
        None \<Rightarrow> Ok ()
      | Some read_restriction \<Rightarrow>
          and_then (reject_if (\<not> nonblank_str (jget read_restriction ''purpose''))
                      (outbox_evidence_error X ev (label @ '' read-restriction purpose must not be blank''))) (\<lambda>_.
          and_then (require_field X ev (label @
                      '' read-restriction max-credential-ttl-seconds must be a positive integer'')
                      (field_u64 read_restriction ''max-credential-ttl-seconds'')) (\<lambda>ttl_seconds.
          reject_if (ttl_seconds = 0)
            (outbox_evidence_error X ev (label @
               '' read-restriction max-credential-ttl-seconds must be positive'')))))"

definition row_predicate_shape ::
  "evidence_api \<Rightarrow> OutboxEvent \<Rightarrow> json \<Rightarrow> string \<Rightarrow> unit result" where
  "row_predicate_shape X ev row_predicate label =
     and_then (require_field X ev (label @ '' read-restriction row-predicate.type must not be blank'')
                 (str_filter (\<lambda>s. \<not> blank s) (field_str row_predicate ''type''))) (\<lambda>predicate_type.
     if predicate_type = ''always-true'' then Ok ()
     else checks
       [reject_if (\<not> nonblank_str (jget row_predicate ''term''))
          (outbox_evidence_error X ev (label @ '' read-restriction row-predicate.term must not be blank'')),
        reject_if (predicate_type \<in> {''eq'', ''not-eq''} \<and> jget row_predicate ''value'' = None)
          (outbox_evidence_error X ev (label @ '' read-restriction row-predicate.value is required for '' @
             predicate_type @ '' predicate evidence''))])"

definition validate_scan_read_restriction_row_predicate ::
  "evidence_api \<Rightarrow> OutboxEvent \<Rightarrow> json \<Rightarrow> string \<Rightarrow> unit result" where
  "validate_scan_read_restriction_row_predicate X ev payload label =
     (case jget payload ''read-restriction'' of
        None \<Rightarrow> Ok ()
      | Some read_restriction \<Rightarrow>
          and_then (require_field X ev (label @ '' read-restriction must contain row-predicate'')
                      (jget read_restriction ''row-predicate'')) (\<lambda>row_predicate.
          case row_predicate of
            JObj m \<Rightarrow>
              if m = [] then
                Err (outbox_evidence_error X ev (label @
                       '' read-restriction row-predicate must contain predicate evidence''))
              else row_predicate_shape X ev row_predicate label
          | _ \<Rightarrow> Err (outbox_evidence_error X ev (label @ '' read-restriction row-predicate must be an object''))))"

definition validate_scan_required_filters_match_row_predicate ::
  "evidence_api \<Rightarrow> OutboxEvent \<Rightarrow> json \<Rightarrow> string \<Rightarrow> unit result" where
  "validate_scan_required_filters_match_row_predicate X ev payload label =
     and_then (require_field X ev (label @ '' required-filters must be an array'')
                 (field_array payload ''required-filters'')) (\<lambda>required_filters.
     case jget payload ''read-restriction'' of
       None \<Rightarrow> reject_if (required_filters \<noteq> [])
         (outbox_evidence_error X ev (label @
            '' required-filters must be empty without read-restriction row-predicate''))
     | Some read_restriction \<Rightarrow>
         and_then (require_field X ev (label @ '' read-restriction must contain row-predicate'')
                     (jget read_restriction ''row-predicate'')) (\<lambda>row_predicate.
         reject_if (required_filters \<noteq> [row_predicate])
           (outbox_evidence_error X ev (label @
              '' required-filters must exactly preserve read-restriction row-predicate''))))"

text \<open>The checks of the restriction both events make, in the same order.\<close>

definition scan_restriction_checks ::
  "evidence_api \<Rightarrow> OutboxEvent \<Rightarrow> json \<Rightarrow> string \<Rightarrow> unit result" where
  "scan_restriction_checks X ev payload label =
     (let r = jget payload ''read-restriction''; receipt_r = authorization_receipt_read_restriction payload in checks
        [validate_read_restriction_evidence_schema X ev r (label @ '' read-restriction''),
         validate_read_restriction_evidence_schema X ev receipt_r
           (label @ '' authorization receipt read-restriction''),
         validate_required_read_restriction_policy_hashes X ev r (label @ '' read-restriction''),
         validate_required_read_restriction_policy_hashes X ev receipt_r
           (label @ '' authorization receipt read-restriction''),
         validate_read_restriction_receipt_match X ev payload label,
         validate_scan_read_restriction_row_predicate X ev payload label])"

subsection \<open>Planning\<close>

definition scan_locations ::
  "evidence_api \<Rightarrow> OutboxEvent \<Rightarrow> json \<Rightarrow> string \<Rightarrow> unit result" where
  "scan_locations X ev payload label = checks
     [validate_plan_task_evidence X ev (jget payload ''plan-task'') label,
      validate_optional_location_evidence X ev (jget payload ''storage-location'') (label @ '' storage-location''),
      validate_optional_location_evidence X ev (jget payload ''metadata-location'') (label @ '' metadata-location'')]"

definition validate_scan_planned_event_evidence ::
  "evidence_api \<Rightarrow> OutboxEvent \<Rightarrow> json \<Rightarrow> unit result" where
  "validate_scan_planned_event_evidence X ev payload =
     and_then (validate_outer_payload X ev ''scan-planned outbox payload'' SCAN_PLANNED_OUTBOX_PAYLOAD_FIELDS) (\<lambda>_.
     and_then (validate_object_evidence_schema X ev payload ''scan-planned'' SCAN_PLANNED_EVIDENCE_FIELDS) (\<lambda>_.
     and_then (validate_required_outbox_table_identity X ev ''scan-planned'') (\<lambda>table.
     and_then (validate_required_payload_table_hint X ev payload table ''scan-planned'') (\<lambda>_.
     and_then (validate_required_unsigned_count_field X ev payload ''scan-task-count'' ''scan-planned'') (\<lambda>_.
     and_then (validate_authorization_receipt_principal X ev payload ''scan-planned'') (\<lambda>_.
     and_then (scan_locations X ev payload ''scan-planned'') (\<lambda>_.
     and_then (validate_required_non_empty_string_array_field X ev payload ''requested-projection'' ''scan-planned'') (\<lambda>requested.
     and_then (validate_required_non_empty_string_array_field X ev payload ''effective-projection'' ''scan-planned'') (\<lambda>projected.
     and_then (validate_effective_evidence_subset X ev ''scan-planned effective-projection'' projected
                 ''requested-projection'' requested False) (\<lambda>_.
     and_then (validate_effective_projection_matches_read_restriction X ev payload ''scan-planned''
                 projected) (\<lambda>_.
     and_then (scan_restriction_checks X ev payload ''scan-planned'') (\<lambda>_.
     and_then (validate_required_non_empty_string_array_field X ev payload ''requested-stats-fields'' ''scan-planned'') (\<lambda>requested_stats.
     and_then (validate_required_non_empty_string_array_field X ev payload ''effective-stats-fields'' ''scan-planned'') (\<lambda>effective_stats.
     checks
       [validate_effective_evidence_subset X ev ''scan-planned effective-stats-fields'' effective_stats
          ''requested-stats-fields'' requested_stats False,
        validate_effective_stats_matches_read_restriction X ev payload ''scan-planned'' effective_stats,
        validate_read_restriction_purpose_and_ttl X ev payload ''scan-planned'',
        if jget payload ''read-restriction'' \<noteq> None \<or> jget payload ''required-filters'' \<noteq> None then
          validate_scan_required_filters_match_row_predicate X ev payload ''scan-planned''
        else Ok ()]))))))))))))))"

subsection \<open>Fetching tasks\<close>

definition fetched_stats_fields ::
  "evidence_api \<Rightarrow> OutboxEvent \<Rightarrow> json \<Rightarrow> string list \<Rightarrow> unit result" where
  "fetched_stats_fields X ev payload effective_stats =
     (if jget payload ''stats-fields'' = None then Ok ()
      else and_then (validate_required_non_empty_string_array_field X ev payload ''stats-fields''
                       ''scan-tasks-fetched'') (\<lambda>stats_fields.
        validate_effective_evidence_subset X ev ''scan-tasks-fetched stats-fields'' stats_fields
          ''effective-stats-fields'' effective_stats True))"

definition fetched_required_filters ::
  "evidence_api \<Rightarrow> OutboxEvent \<Rightarrow> json \<Rightarrow> unit result" where
  "fetched_required_filters X ev payload =
     and_then (require_field X ev ''scan-tasks-fetched evidence must contain required-filters''
                 (jget payload ''required-filters'')) (\<lambda>v.
     and_then (reject_if (\<not> is_array v)
                 (outbox_evidence_error X ev ''scan-tasks-fetched required-filters must be an array'')) (\<lambda>_.
     validate_scan_required_filters_match_row_predicate X ev payload ''scan-tasks-fetched''))"

definition validate_scan_tasks_fetched_event_evidence ::
  "evidence_api \<Rightarrow> OutboxEvent \<Rightarrow> json \<Rightarrow> unit result" where
  "validate_scan_tasks_fetched_event_evidence X ev payload =
     and_then (validate_outer_payload X ev ''scan-tasks-fetched outbox payload''
                 SCAN_TASKS_FETCHED_OUTBOX_PAYLOAD_FIELDS) (\<lambda>_.
     and_then (validate_object_evidence_schema X ev payload ''scan-tasks-fetched''
                 SCAN_TASKS_FETCHED_EVIDENCE_FIELDS) (\<lambda>_.
     and_then (validate_required_outbox_table_identity X ev ''scan-tasks-fetched'') (\<lambda>table.
     and_then (validate_required_payload_table_hint X ev payload table ''scan-tasks-fetched'') (\<lambda>_.
     and_then (validate_authorization_receipt_principal X ev payload ''scan-tasks-fetched'') (\<lambda>_.
     and_then (check_all (\<lambda>field. map_ok (\<lambda>_. ())
                 (validate_required_unsigned_count_field X ev payload field ''scan-tasks-fetched''))
                 [''file-scan-task-count'', ''delete-file-count'', ''child-plan-task-count'']) (\<lambda>_.
     and_then (scan_locations X ev payload ''scan-tasks-fetched'') (\<lambda>_.
     and_then (validate_required_non_empty_string_array_field X ev payload ''required-projection'' ''scan-tasks-fetched'') (\<lambda>required.
     and_then (validate_required_non_empty_string_array_field X ev payload ''effective-projection'' ''scan-tasks-fetched'') (\<lambda>projected.
     and_then (validate_effective_evidence_subset X ev ''scan-tasks-fetched effective-projection'' projected
                 ''required-projection'' required True) (\<lambda>_.
     and_then (validate_effective_projection_matches_read_restriction X ev payload ''scan-tasks-fetched''
                 projected) (\<lambda>_.
     and_then (validate_required_non_empty_string_array_field X ev payload ''requested-stats-fields'' ''scan-tasks-fetched'') (\<lambda>requested_stats.
     and_then (validate_required_non_empty_string_array_field X ev payload ''effective-stats-fields'' ''scan-tasks-fetched'') (\<lambda>effective_stats.
     checks
       [validate_effective_evidence_subset X ev ''scan-tasks-fetched effective-stats-fields'' effective_stats
          ''requested-stats-fields'' requested_stats True,
        validate_effective_stats_matches_read_restriction X ev payload ''scan-tasks-fetched'' effective_stats,
        fetched_stats_fields X ev payload effective_stats,
        scan_restriction_checks X ev payload ''scan-tasks-fetched'',
        fetched_required_filters X ev payload,
        validate_read_restriction_purpose_and_ttl X ev payload ''scan-tasks-fetched''])))))))))))))"

end
