(* ===== verification/EvidenceCredentials.thy ===== *)
theory EvidenceCredentials
  imports EvidenceScans ServiceErrors
begin

section \<open>Evidence: vended credentials\<close>

text \<open>
  The credential validators of \<open>crates/lakecat-service/src/evidence/credentials_view.rs\<close>: an event
  about vended credentials names the profile, the principal and the cap its receipt names, and
  carries no credential when the receipt blocks raw credentials.
\<close>

abbreviation credential_response :: string where
  "credential_response \<equiv> ''credential-vend credential-response''"

abbreviation credential_profile :: string where
  "credential_profile \<equiv> ''credential-vend storage-profile''"

definition validate_raw_credential_exception_evidence_schema ::
  "evidence_api \<Rightarrow> OutboxEvent \<Rightarrow> json option \<Rightarrow> string \<Rightarrow> unit result" where
  "validate_raw_credential_exception_evidence_schema X ev raw_exception evidence_label =
     (case raw_exception of
        None \<Rightarrow> Ok ()
      | Some e \<Rightarrow> validate_object_evidence_schema X ev e evidence_label RAW_CREDENTIAL_EXCEPTION_EVIDENCE_FIELDS)"

definition validate_raw_credential_exception_receipt_match ::
  "evidence_api \<Rightarrow> OutboxEvent \<Rightarrow> json \<Rightarrow> unit result" where
  "validate_raw_credential_exception_receipt_match X ev payload =
     (case (jget payload ''lakecat:raw-credential-exception'',
            authorization_receipt_raw_credential_exception payload) of
        (None, None) \<Rightarrow> Ok ()
      | (Some e, Some receipt_e) \<Rightarrow> reject_if (e \<noteq> receipt_e) (outbox_evidence_error X ev
          ''credential-vend raw-credential exception must match authorization receipt context'')
      | (Some _, None) \<Rightarrow> Err (outbox_evidence_error X ev
          ''credential-vend raw-credential exception must be captured in authorization receipt context'')
      | (None, Some _) \<Rightarrow> Err (outbox_evidence_error X ev
          ''credential-vend authorization receipt raw-credential exception must match top-level evidence''))"

subsection \<open>The reason credentials were blocked\<close>

definition blocked_by_exception ::
  "evidence_api \<Rightarrow> OutboxEvent \<Rightarrow> json option \<Rightarrow> json \<Rightarrow> 64 word \<Rightarrow> unit result" where
  "blocked_by_exception X ev block_reason raw_exception credential_count =
     and_then (reject_if (credential_count \<noteq> 0) (outbox_evidence_error X ev
                 ''credential-vend blocked credential evidence must not carry credentials'')) (\<lambda>_.
     and_then (require_field X ev ''credential-vend blocked raw-credential exception must carry non-empty reason''
                 (str_filter (\<lambda>s. \<not> blank s) (field_str raw_exception ''reason''))) (\<lambda>expected_reason.
     and_then (require_field X ev ''credential-vend blocked credential evidence must contain block reason''
                 (str_filter (\<lambda>s. \<not> blank s) (Option.bind block_reason as_str))) (\<lambda>actual_reason.
     reject_if (actual_reason \<noteq> expected_reason) (outbox_evidence_error X ev
       ''credential-vend block reason must match raw-credential exception reason''))))"

definition validate_credential_block_reason_evidence ::
  "evidence_api \<Rightarrow> OutboxEvent \<Rightarrow> json \<Rightarrow> 64 word \<Rightarrow> unit result" where
  "validate_credential_block_reason_evidence X ev payload credential_count =
     (let block_reason = jget payload ''lakecat:credential-block-reason'' in
      case jget payload ''lakecat:raw-credential-exception'' of
        Some raw_exception \<Rightarrow>
          and_then (require_field X ev ''credential-vend raw-credential exception allowed must be boolean''
                      (field_bool raw_exception ''allowed'')) (\<lambda>raw_exception_allowed.
          if \<not> raw_exception_allowed then
            blocked_by_exception X ev block_reason raw_exception credential_count
          else reject_if (block_reason \<notin> {None, Some JNull}) (outbox_evidence_error X ev
            ''credential-vend block reason must be absent when raw credentials are allowed''))
      | None \<Rightarrow>
          (case block_reason of
             None \<Rightarrow> Ok ()
           | Some reason \<Rightarrow> checks
               [reject_if (credential_count \<noteq> 0) (outbox_evidence_error X ev
                  ''credential-vend blocked credential evidence must not carry credentials''),
                reject_if (\<not> nonblank_str (Some reason)) (outbox_evidence_error X ev
                  ''credential-vend blocked credential evidence must contain block reason'')]))"

subsection \<open>The entry of a credential\<close>

definition validate_credential_response_entry_schema ::
  "evidence_api \<Rightarrow> OutboxEvent \<Rightarrow> json \<Rightarrow> unit result" where
  "validate_credential_response_entry_schema X ev entry =
     validate_object_evidence_schema X ev entry credential_response CREDENTIAL_RESPONSE_EVIDENCE_FIELDS"

definition entry_equals :: "evidence_api \<Rightarrow> OutboxEvent \<Rightarrow> json \<Rightarrow> string \<Rightarrow> string \<Rightarrow> unit result" where
  "entry_equals X ev entry field expected = validate_string_field_equals X ev entry field expected credential_response"

definition entry_absent :: "evidence_api \<Rightarrow> OutboxEvent \<Rightarrow> json \<Rightarrow> string \<Rightarrow> unit result" where
  "entry_absent X ev entry field = validate_null_or_absent_field X ev entry field credential_response"

definition entry_secret_ref ::
  "evidence_api \<Rightarrow> OutboxEvent \<Rightarrow> json \<Rightarrow> json \<Rightarrow> unit result" where
  "entry_secret_ref X ev storage_profile entry =
     (if field_bool storage_profile ''secret-ref-present'' = Some True then
        and_then (required_string_field X ev storage_profile ''secret-ref-provider'' credential_profile) (\<lambda>secret_provider.
        and_then (required_string_field X ev storage_profile ''secret-ref-hash'' credential_profile) (\<lambda>secret_hash. checks
          [entry_equals X ev entry ''secret-ref-provider'' secret_provider,
           entry_equals X ev entry ''secret-ref-hash'' secret_hash]))
      else checks
        [entry_absent X ev entry ''secret-ref-provider'', entry_absent X ev entry ''secret-ref-hash''])"

definition entry_ttl :: "evidence_api \<Rightarrow> OutboxEvent \<Rightarrow> json \<Rightarrow> json \<Rightarrow> unit result" where
  "entry_ttl X ev payload entry =
     (case Option.bind (jget payload ''read-restriction'') (\<lambda>r. field_u64 r ''max-credential-ttl-seconds'') of
        Some ttl \<Rightarrow> entry_equals X ev entry ''max-credential-ttl-seconds'' (nat_str (unat ttl))
      | None \<Rightarrow> entry_absent X ev entry ''max-credential-ttl-seconds'')"

definition entry_issuer_config :: "evidence_api \<Rightarrow> OutboxEvent \<Rightarrow> json \<Rightarrow> unit result" where
  "entry_issuer_config X ev entry =
     and_then (require_field X ev (credential_response @ '' issuer-config-entry-count must be unsigned'')
                 (field_u64 entry ''issuer-config-entry-count'')) (\<lambda>entry_count.
     if entry_count = 0 then
       and_then (content_hash_json (ea_env X) (JArr [])) (\<lambda>expected_empty_hash.
       entry_equals X ev entry ''issuer-config-hash'' expected_empty_hash)
     else Ok ())"

definition validate_credential_response_entry_evidence ::
  "evidence_api \<Rightarrow> OutboxEvent \<Rightarrow> json \<Rightarrow> json \<Rightarrow> json \<Rightarrow> string result" where
  "validate_credential_response_entry_evidence X ev payload storage_profile entry =
     and_then (checks
       [validate_credential_response_entry_schema X ev entry,
        validate_required_full_hash_field X ev entry ''prefix-hash'',
        validate_required_full_hash_field X ev entry ''issuer-config-hash'']) (\<lambda>_.
     and_then (required_string_field X ev entry ''prefix-hash'' credential_response) (\<lambda>prefix_hash.
     and_then (required_string_field X ev storage_profile ''profile-id'' credential_profile) (\<lambda>profile_id.
     and_then (required_string_field X ev storage_profile ''provider'' credential_profile) (\<lambda>provider.
     and_then (required_string_field X ev storage_profile ''issuance-mode'' credential_profile) (\<lambda>issuance_mode.
     and_then (required_pointer_string X ev payload [''authorization-receipt'', ''principal'', ''subject'']
                 ''credential-vend authorization receipt principal subject'') (\<lambda>receipt_subject.
     and_then (checks
       [entry_equals X ev entry ''storage-profile-id'' profile_id,
        entry_equals X ev entry ''catalog-profile-id'' profile_id,
        entry_equals X ev entry ''storage-provider'' provider,
        entry_equals X ev entry ''credential-mode'' issuance_mode,
        entry_equals X ev entry ''authorization-principal'' receipt_subject,
        entry_equals X ev entry ''receipt-principal'' receipt_subject,
        entry_equals X ev entry ''governed-read-required''
          (if jget payload ''read-restriction'' \<noteq> None then ''true'' else ''false''),
        entry_secret_ref X ev storage_profile entry,
        entry_ttl X ev payload entry,
        entry_issuer_config X ev entry]) (\<lambda>_.
     Ok prefix_hash)))))))"

subsection \<open>The event\<close>

fun credential_entry_loop ::
  "evidence_api \<Rightarrow> OutboxEvent \<Rightarrow> json \<Rightarrow> json \<Rightarrow> string list \<Rightarrow> json list \<Rightarrow> unit result" where
  "credential_entry_loop X ev payload storage_profile seen [] = Ok ()"
| "credential_entry_loop X ev payload storage_profile seen (entry # entries) =
     and_then (validate_credential_response_entry_evidence X ev payload storage_profile entry) (\<lambda>prefix_hash.
     if prefix_hash \<in> set seen then
       Err (outbox_evidence_error X ev
         ''credential-vend credential-response-evidence must not contain duplicate prefix-hash values'')
     else credential_entry_loop X ev payload storage_profile (prefix_hash # seen) entries)"

definition credential_restriction_checks ::
  "evidence_api \<Rightarrow> OutboxEvent \<Rightarrow> json \<Rightarrow> unit result" where
  "credential_restriction_checks X ev payload = checks
     [validate_read_restriction_evidence_schema X ev (jget payload ''read-restriction'')
        ''credential-vend read-restriction'',
      validate_read_restriction_evidence_schema X ev (authorization_receipt_read_restriction payload)
        ''credential-vend authorization receipt read-restriction'',
      validate_raw_credential_exception_evidence_schema X ev (jget payload ''lakecat:raw-credential-exception'')
        ''credential-vend raw-credential exception'',
      validate_raw_credential_exception_evidence_schema X ev (authorization_receipt_raw_credential_exception payload)
        ''credential-vend authorization receipt raw-credential exception'',
      validate_read_restriction_receipt_match X ev payload ''credential-vend'',
      validate_read_restriction_purpose_and_ttl X ev payload ''credential-vend'',
      validate_raw_credential_exception_receipt_match X ev payload,
      validate_authorization_receipt_principal X ev payload ''credential-vend'']"

definition credential_profile_checks ::
  "evidence_api \<Rightarrow> OutboxEvent \<Rightarrow> json \<Rightarrow> json \<Rightarrow> unit result" where
  "credential_profile_checks X ev payload storage_profile = checks
     [validate_storage_profile_evidence_schema X ev storage_profile credential_profile,
      validate_storage_profile_public_config_evidence X ev storage_profile credential_profile,
      validate_required_full_hash_field X ev storage_profile ''location-prefix-hash'',
      validate_secret_ref_evidence X ev storage_profile credential_profile,
      validate_storage_profile_provider_mode_evidence X ev storage_profile credential_profile,
      validate_optional_location_evidence X ev (jget payload ''storage-location'')
        ''credential-vend storage-location'']"

definition credential_mode_check ::
  "evidence_api \<Rightarrow> OutboxEvent \<Rightarrow> json \<Rightarrow> json \<Rightarrow> unit result" where
  "credential_mode_check X ev payload storage_profile =
     (if jget payload ''mode'' = None then Ok ()
      else and_then (required_string_field X ev storage_profile ''issuance-mode'' credential_profile) (\<lambda>issuance_mode.
        validate_string_field_equals X ev payload ''mode'' issuance_mode ''credential-vend evidence''))"

definition validate_credential_vend_event_evidence ::
  "evidence_api \<Rightarrow> OutboxEvent \<Rightarrow> json \<Rightarrow> unit result" where
  "validate_credential_vend_event_evidence X ev payload =
     and_then (validate_outer_payload X ev ''credential-vend outbox payload'' CREDENTIAL_VEND_OUTBOX_PAYLOAD_FIELDS) (\<lambda>_.
     and_then (validate_object_evidence_schema X ev payload ''credential-vend'' CREDENTIAL_VEND_EVIDENCE_FIELDS) (\<lambda>_.
     and_then (credential_restriction_checks X ev payload) (\<lambda>_.
     and_then (validate_required_outbox_table_identity X ev ''credential-vend'') (\<lambda>table.
     and_then (case jget payload ''table'' of
                 None \<Rightarrow> Ok ()
               | Some v \<Rightarrow> validate_table_lifecycle_table_hint X ev v table ''credential-vend payload table'') (\<lambda>_.
     and_then (require_field X ev ''credential-vend evidence must contain credential-count''
                 (field_u64 payload ''credential-count'')) (\<lambda>credential_count.
     and_then (require_field X ev ''credential-vend evidence must contain credential-response-evidence''
                 (field_array payload ''credential-response-evidence'')) (\<lambda>evidence.
     and_then (reject_if (len_u64 evidence \<noteq> credential_count) (outbox_evidence_error X ev
                 ''credential-vend credential-count does not match credential-response-evidence'')) (\<lambda>_.
     and_then (validate_credential_block_reason_evidence X ev payload credential_count) (\<lambda>_.
     and_then (require_field X ev ''credential-vend evidence must contain storage-profile''
                 (jget payload ''storage-profile'')) (\<lambda>storage_profile.
     and_then (credential_profile_checks X ev payload storage_profile) (\<lambda>_.
     and_then (required_string_field X ev storage_profile ''profile-id'' credential_profile) (\<lambda>profile_id. checks
       [validate_storage_profile_id_evidence X ev profile_id credential_profile,
        validate_string_field_equals X ev storage_profile ''warehouse'' (ti_warehouse table) credential_profile,
        validate_string_field_equals X ev payload ''storage-profile-id'' profile_id ''credential-vend evidence'',
        credential_mode_check X ev payload storage_profile,
        credential_entry_loop X ev payload storage_profile [] evidence,
        validate_required_bool_field_equals X ev payload ''secret-ref-present''
          (field_bool storage_profile ''secret-ref-present'' = Some True) ''credential-vend evidence'']))))))))))))"

section \<open>Evidence: receipt chains of views, and bootstraps\<close>

text \<open>
  The rest of \<open>crates/lakecat-service/src/evidence/credentials_view.rs\<close>: the receipts and chains of
  receipts a view event lists are rechecked link by link, with their hashes recomputed, and a
  QueryGraph bootstrap must cover exactly the tables and views it verified.
\<close>

subsection \<open>A list of receipts\<close>

definition validate_view_receipt_list_event_evidence ::
  "evidence_api \<Rightarrow> OutboxEvent \<Rightarrow> json \<Rightarrow> unit result" where
  "validate_view_receipt_list_event_evidence X ev payload =
     and_then (validate_outer_payload X ev ''view receipt-read outbox payload'' VIEW_RECEIPT_READ_OUTBOX_PAYLOAD_FIELDS) (\<lambda>_.
     and_then (validate_object_evidence_schema X ev payload ''view receipt-list'' VIEW_RECEIPT_LIST_EVIDENCE_FIELDS) (\<lambda>_.
     and_then (validate_required_warehouse_field X ev payload ''view receipt-list'') (\<lambda>_.
     and_then (require_field X ev ''view receipt-list evidence must contain namespace'' (jget payload ''namespace'')) (\<lambda>ns.
     and_then (validate_namespace_value X ev ns ''view receipt-list'') (\<lambda>_.
     and_then (require_field X ev ''view receipt-list evidence must contain view''
                 (str_filter (\<lambda>s. \<not> blank s) (field_str payload ''view''))) (\<lambda>view.
     and_then (map_err (\<lambda>_. outbox_evidence_error X ev ''view receipt-list evidence has invalid view'')
                 (table_name_new view)) (\<lambda>_.
     and_then (validate_authorization_receipt_principal X ev payload ''view receipt-list'') (\<lambda>_.
     and_then (validate_required_full_hash_array_field X ev payload ''receipt-hashes'') (\<lambda>receipt_hashes.
     and_then (validate_required_full_hash_array_field X ev payload ''drop-receipt-hashes'') (\<lambda>drop_receipt_hashes.
     and_then (validate_unique_hash_array X ev receipt_hashes ''view receipt-list receipt-hashes'') (\<lambda>_.
     and_then (validate_unique_hash_array X ev drop_receipt_hashes ''view receipt-list drop-receipt-hashes'') (\<lambda>_.
     and_then (require_field X ev ''view receipt-list evidence must contain receipt-count''
                 (field_u64 payload ''receipt-count'')) (\<lambda>expected_receipt_count. checks
       [reject_if (len_u64 receipt_hashes \<noteq> expected_receipt_count) (outbox_evidence_error X ev
          ''view receipt-list receipt-count does not match receipt-hashes''),
        reject_if (\<not> set drop_receipt_hashes \<subseteq> set receipt_hashes) (outbox_evidence_error X ev
          ''view receipt-list drop-receipt-hashes must be included in receipt-hashes'')])))))))))))))"

subsection \<open>The scope and the identity of a chain and of its receipts\<close>

definition validate_view_receipt_chain_scope_evidence ::
  "evidence_api \<Rightarrow> OutboxEvent \<Rightarrow> json \<Rightarrow> WarehouseName \<Rightarrow> Namespace \<Rightarrow> string \<Rightarrow> unit result" where
  "validate_view_receipt_chain_scope_evidence X ev v expected_warehouse expected_namespace label =
     and_then (required_string_field X ev v ''warehouse'' label) (\<lambda>warehouse_name.
     and_then (map_err (\<lambda>_. outbox_evidence_error X ev (label @ '' has invalid warehouse''))
                 (warehouse_name_new warehouse_name)) (\<lambda>warehouse.
     and_then (reject_if (warehouse \<noteq> expected_warehouse)
                 (outbox_evidence_error X ev (label @ '' warehouse must match payload warehouse''))) (\<lambda>_.
     and_then (require_field X ev (label @ '' evidence must contain namespace'') (jget v ''namespace'')) (\<lambda>w.
     and_then (decode_namespace_value X ev w label) (\<lambda>ns.
     reject_if (ns \<noteq> expected_namespace)
       (outbox_evidence_error X ev (label @ '' namespace must match payload namespace'')))))))"

definition validate_view_receipt_chain_identity_evidence ::
  "evidence_api \<Rightarrow> OutboxEvent \<Rightarrow> json \<Rightarrow> WarehouseName \<Rightarrow> Namespace \<Rightarrow> string \<Rightarrow> string result" where
  "validate_view_receipt_chain_identity_evidence X ev v expected_warehouse expected_namespace label =
     and_then (required_string_field X ev v ''name'' label) (\<lambda>name_text.
     and_then (map_err (\<lambda>_. outbox_evidence_error X ev (label @ '' has invalid name'')) (table_name_new name_text)) (\<lambda>name.
     let expected_stable_id = ''lakecat:view:'' @ expected_warehouse @ '':'' @
           namespace_display expected_namespace @ '':'' @ name in
     and_then (required_string_field X ev v ''stable-id'' label) (\<lambda>stable_id.
     and_then (reject_if (stable_id \<noteq> expected_stable_id)
                 (outbox_evidence_error X ev (label @ '' stable-id must match warehouse, namespace, and name''))) (\<lambda>_.
     Ok expected_stable_id))))"

subsection \<open>The links of a chain\<close>

definition first_receipt_ok :: "json \<Rightarrow> string \<Rightarrow> 64 word \<Rightarrow> bool" where
  "first_receipt_ok receipt operation view_version \<longleftrightarrow>
     operation = ''upsert'' \<and> view_version = 1 \<and>
     jget receipt ''previous-view-version'' \<in> {None, Some JNull} \<and>
     jget receipt ''previous-receipt-hash'' \<in> {None, Some JNull}"

text \<open>\<open>saturating_add(1)\<close>.\<close>

definition saturating_succ :: "64 word \<Rightarrow> 64 word" where
  "saturating_succ n = (if n = - 1 then n else n + 1)"

definition link_receipt ::
  "evidence_api \<Rightarrow> OutboxEvent \<Rightarrow> json \<Rightarrow> json \<Rightarrow> string \<Rightarrow> 64 word \<Rightarrow> string \<Rightarrow> unit result" where
  "link_receipt X ev previous receipt operation view_version receipt_hash =
     and_then (require_field X ev ''verified view receipt-chain previous receipt must contain view-version''
                 (field_u64 previous ''view-version'')) (\<lambda>previous_version.
     and_then (require_field X ev ''verified view receipt-chain previous receipt must contain receipt-hash''
                 (field_str previous ''receipt-hash'')) (\<lambda>previous_hash. checks
       [reject_if (field_u64 receipt ''previous-view-version'' \<noteq> Some previous_version \<or>
                   field_str receipt ''previous-receipt-hash'' \<noteq> Some previous_hash)
          (outbox_evidence_error X ev
             ''verified view receipt-chain receipt previous links must match the prior receipt''),
        reject_if (\<not> (operation = ''upsert'' \<and> view_version = saturating_succ previous_version \<or>
                      operation = ''drop'' \<and> view_version = previous_version))
          (outbox_evidence_error X ev ''verified view receipt-chain receipt transition is invalid''),
        reject_if (\<not> is_full_sha256_digest_evidence receipt_hash)
          (outbox_evidence_error X ev
             ''verified view receipt-chain receipt-hash must contain full SHA-256 digest evidence'')]))"

fun receipt_link_loop ::
  "evidence_api \<Rightarrow> OutboxEvent \<Rightarrow> json option \<Rightarrow> json list \<Rightarrow> unit result" where
  "receipt_link_loop X ev previous [] = Ok ()"
| "receipt_link_loop X ev previous (receipt # receipts) =
     and_then (require_field X ev ''verified view receipt-chain receipt must contain view-version''
                 (field_u64 receipt ''view-version'')) (\<lambda>view_version.
     and_then (reject_if (view_version = 0) (outbox_evidence_error X ev
                 ''verified view receipt-chain receipt version must be positive'')) (\<lambda>_.
     and_then (require_field X ev ''verified view receipt-chain receipt must contain operation''
                 (field_str receipt ''operation'')) (\<lambda>operation.
     and_then (require_field X ev ''verified view receipt-chain receipt must contain receipt-hash''
                 (field_str receipt ''receipt-hash'')) (\<lambda>receipt_hash.
     and_then (case previous of
                 None \<Rightarrow> reject_if (\<not> first_receipt_ok receipt operation view_version) (outbox_evidence_error X ev
                   ''verified view receipt-chain first receipt must be a version 1 upsert without previous links'')
               | Some p \<Rightarrow> link_receipt X ev p receipt operation view_version receipt_hash) (\<lambda>_.
     receipt_link_loop X ev (Some receipt) receipts)))))"

text \<open>What the code reads with \<open>expect\<close> after the loop; a panic is an error of its own.\<close>

definition expect_field :: "string \<Rightarrow> 'a option \<Rightarrow> 'a result" where
  "expect_field message x = ok_or (Panicked message) x"

definition receipt_chain_hash_json ::
  "json \<Rightarrow> 64 word \<Rightarrow> string \<Rightarrow> bool \<Rightarrow> string list \<Rightarrow> json result" where
  "receipt_chain_hash_json latest latest_version latest_operation tombstoned receipt_hashes =
     and_then (expect_field ''stable-id was validated'' (field_str latest ''stable-id'')) (\<lambda>stable_id.
     and_then (expect_field ''warehouse was validated'' (field_str latest ''warehouse'')) (\<lambda>warehouse.
     and_then (expect_field ''namespace was validated'' (jget latest ''namespace'')) (\<lambda>ns.
     and_then (expect_field ''name was validated'' (field_str latest ''name'')) (\<lambda>name.
     Ok (jobj [(''stable-id'', JStr stable_id), (''warehouse'', JStr warehouse), (''namespace'', ns),
               (''name'', JStr name), (''latest-view-version'', ju64 latest_version),
               (''latest-operation'', JStr latest_operation), (''tombstoned'', JBool tombstoned),
               (''receipt-hashes'', jstrs receipt_hashes)])))))"

definition chain_summary_checks ::
  "evidence_api \<Rightarrow> OutboxEvent \<Rightarrow> json \<Rightarrow> json list \<Rightarrow> unit result" where
  "chain_summary_checks X ev chain receipts =
     (let latest = last receipts in
      and_then (expect_field ''receipt view-version was validated'' (field_u64 latest ''view-version'')) (\<lambda>latest_version.
      and_then (expect_field ''receipt operation was validated'' (field_str latest ''operation'')) (\<lambda>latest_operation.
      and_then (require_field X ev ''verified view receipt-chain must contain latest-view-version''
                  (field_u64 chain ''latest-view-version'')) (\<lambda>chain_version.
      and_then (reject_if (chain_version \<noteq> latest_version) (outbox_evidence_error X ev
                  ''verified view receipt-chain latest-view-version must match the last receipt'')) (\<lambda>_.
      and_then (require_field X ev ''verified view receipt-chain must contain latest-operation''
                  (field_str chain ''latest-operation'')) (\<lambda>chain_operation.
      and_then (reject_if (chain_operation \<noteq> latest_operation) (outbox_evidence_error X ev
                  ''verified view receipt-chain latest-operation must match the last receipt'')) (\<lambda>_.
      and_then (require_field X ev ''verified view receipt-chain must contain tombstoned''
                  (field_bool chain ''tombstoned'')) (\<lambda>chain_tombstoned.
      and_then (reject_if (chain_tombstoned \<noteq> (latest_operation = ''drop'')) (outbox_evidence_error X ev
                  ''verified view receipt-chain tombstoned flag must match the last receipt operation'')) (\<lambda>_.
      and_then (traverse (\<lambda>r. expect_field ''receipt-hash was validated'' (field_str r ''receipt-hash'')) receipts) (\<lambda>hashes.
      and_then (receipt_chain_hash_json latest latest_version latest_operation chain_tombstoned hashes) (\<lambda>v.
      and_then (map_err (\<lambda>err. outbox_evidence_error X ev
                  (''verified view receipt-chain hash could not be computed: '' @ error_display err))
                  (content_hash_json (ea_env X) v)) (\<lambda>expected_chain_hash.
      reject_if (field_str chain ''chain-hash'' \<noteq> Some expected_chain_hash) (outbox_evidence_error X ev
        ''verified view receipt-chain chain-hash must match structural receipt-chain evidence'')))))))))))))"

definition validate_view_receipt_chain_hash_evidence ::
  "evidence_api \<Rightarrow> OutboxEvent \<Rightarrow> json \<Rightarrow> unit result" where
  "validate_view_receipt_chain_hash_evidence X ev chain =
     and_then (validate_required_full_hash_field X ev chain ''chain-hash'') (\<lambda>_.
     and_then (require_field X ev ''verified view receipt-chain must contain receipts''
                 (field_array chain ''receipts'')) (\<lambda>receipts.
     check_all (\<lambda>receipt. validate_required_full_hash_field X ev receipt ''receipt-hash'') receipts))"

definition validate_view_receipt_chain_structure_evidence ::
  "evidence_api \<Rightarrow> OutboxEvent \<Rightarrow> json \<Rightarrow> unit result" where
  "validate_view_receipt_chain_structure_evidence X ev chain =
     and_then (require_field X ev ''verified view receipt-chain must contain receipts''
                 (field_array chain ''receipts'')) (\<lambda>receipts.
     and_then (reject_if (receipts = []) (outbox_evidence_error X ev
                 ''verified view receipt-chain must contain at least one receipt'')) (\<lambda>_.
     and_then (require_field X ev ''verified view receipt-chain must contain receipt-count''
                 (field_u64 chain ''receipt-count'')) (\<lambda>chain_receipt_count.
     and_then (reject_if (chain_receipt_count \<noteq> len_u64 receipts) (outbox_evidence_error X ev
                 ''verified view receipt-chain receipt-count must match receipts'')) (\<lambda>_.
     and_then (receipt_link_loop X ev None receipts) (\<lambda>_.
     chain_summary_checks X ev chain receipts)))))"

subsection \<open>A list of chains\<close>

text \<open>What the loop over the chains has counted and collected; the sets are lists here.\<close>

record chain_totals =
  ct_verified :: "64 word"
  ct_receipts :: "64 word"
  ct_tombstones :: "64 word"
  ct_chain_hashes :: "string list"
  ct_receipt_hashes :: "string list"
  ct_drop_hashes :: "string list"

definition no_chains :: chain_totals where
  "no_chains = \<lparr>ct_verified = 0, ct_receipts = 0, ct_tombstones = 0, ct_chain_hashes = [],
                ct_receipt_hashes = [], ct_drop_hashes = []\<rparr>"

definition saturating_plus :: "64 word \<Rightarrow> 64 word \<Rightarrow> 64 word" where
  "saturating_plus a b = (if unat a + unat b < 2 ^ 64 then a + b else - 1)"

definition validate_chain_receipt ::
  "evidence_api \<Rightarrow> OutboxEvent \<Rightarrow> WarehouseName \<Rightarrow> Namespace \<Rightarrow> string \<Rightarrow> json \<Rightarrow> unit result" where
  "validate_chain_receipt X ev warehouse ns chain_stable_id receipt =
     and_then (validate_object_evidence_schema X ev receipt ''view receipt-chain receipt''
                 VIEW_RECEIPT_CHAIN_RECEIPT_EVIDENCE_FIELDS) (\<lambda>_.
     and_then (validate_view_receipt_chain_scope_evidence X ev receipt warehouse ns ''view receipt-chain receipt'') (\<lambda>_.
     and_then (validate_view_receipt_chain_identity_evidence X ev receipt warehouse ns ''view receipt-chain receipt'') (\<lambda>receipt_stable_id.
     reject_if (receipt_stable_id \<noteq> chain_stable_id) (outbox_evidence_error X ev
       ''view receipt-chain receipt stable-id must match chain stable-id''))))"

definition chain_receipts ::
  "evidence_api \<Rightarrow> OutboxEvent \<Rightarrow> WarehouseName \<Rightarrow> Namespace \<Rightarrow> string \<Rightarrow> json \<Rightarrow> unit result" where
  "chain_receipts X ev warehouse ns chain_stable_id chain =
     (case jget chain ''receipts'' of
        None \<Rightarrow> Ok ()
      | Some v \<Rightarrow>
          and_then (require_field X ev ''view receipt-chain receipts must be an array when present'' (as_array v)) (\<lambda>receipts.
          check_all (validate_chain_receipt X ev warehouse ns chain_stable_id) receipts))"

definition count_chain :: "json \<Rightarrow> 64 word \<Rightarrow> chain_totals \<Rightarrow> chain_totals" where
  "count_chain chain receipt_count t =
     (let receipts = (case field_array chain ''receipts'' of None \<Rightarrow> [] | Some rs \<Rightarrow> rs);
          hash_of = (\<lambda>r. field_str r ''receipt-hash'');
          dropped = filter (\<lambda>r. field_str r ''operation'' = Some ''drop'') receipts in
      t\<lparr>ct_receipts := saturating_plus (ct_receipts t) receipt_count,
        ct_tombstones := (if field_bool chain ''tombstoned'' = Some True
                          then saturating_plus (ct_tombstones t) 1 else ct_tombstones t),
        ct_verified := saturating_plus (ct_verified t) 1,
        ct_chain_hashes := (case field_str chain ''chain-hash'' of
                              None \<Rightarrow> ct_chain_hashes t | Some h \<Rightarrow> ct_chain_hashes t @ [h]),
        ct_receipt_hashes := ct_receipt_hashes t @ List.map_filter hash_of receipts,
        ct_drop_hashes := ct_drop_hashes t @ List.map_filter hash_of dropped\<rparr>)"

fun chain_loop ::
  "evidence_api \<Rightarrow> OutboxEvent \<Rightarrow> WarehouseName \<Rightarrow> Namespace \<Rightarrow> chain_totals \<Rightarrow> json list \<Rightarrow> chain_totals result" where
  "chain_loop X ev warehouse ns t [] = Ok t"
| "chain_loop X ev warehouse ns t (chain # chain_values) =
     and_then (validate_object_evidence_schema X ev chain ''view receipt-chain chain''
                 VIEW_RECEIPT_CHAIN_EVIDENCE_FIELDS) (\<lambda>_.
     and_then (validate_view_receipt_chain_scope_evidence X ev chain warehouse ns ''view receipt-chain chain'') (\<lambda>_.
     and_then (validate_view_receipt_chain_identity_evidence X ev chain warehouse ns ''view receipt-chain chain'') (\<lambda>chain_stable_id.
     and_then (chain_receipts X ev warehouse ns chain_stable_id chain) (\<lambda>_.
     and_then (require_field X ev ''view receipt-chain chain evidence must contain receipt-count''
                 (field_u64 chain ''receipt-count'')) (\<lambda>receipt_count.
     and_then (reject_if (field_bool chain ''chain-verified'' \<noteq> Some True) (outbox_evidence_error X ev
                 ''view receipt-chain chain must be structurally verified'')) (\<lambda>_.
     and_then (validate_view_receipt_chain_hash_evidence X ev chain) (\<lambda>_.
     and_then (validate_view_receipt_chain_structure_evidence X ev chain) (\<lambda>_.
     chain_loop X ev warehouse ns (count_chain chain receipt_count t) chain_values))))))))"

definition validate_hash_array_covers_structure ::
  "evidence_api \<Rightarrow> OutboxEvent \<Rightarrow> string \<Rightarrow> string list \<Rightarrow> string list \<Rightarrow> unit result" where
  "validate_hash_array_covers_structure X ev label declared structural =
     reject_if (set declared \<noteq> set structural)
       (outbox_evidence_error X ev (label @ '' must match structural receipt-chain evidence''))"

definition chain_hash_lists ::
  "evidence_api \<Rightarrow> OutboxEvent \<Rightarrow> json \<Rightarrow> chain_totals \<Rightarrow> unit result" where
  "chain_hash_lists X ev payload t =
     and_then (validate_optional_full_hash_array_field X ev payload ''chain-hashes'') (\<lambda>chain_hashes.
     and_then (validate_unique_hash_array X ev chain_hashes ''view receipt-chain chain-hashes'') (\<lambda>_.
     and_then (validate_optional_full_hash_array_field X ev payload ''receipt-hashes'') (\<lambda>receipt_hashes.
     and_then (validate_unique_hash_array X ev receipt_hashes ''view receipt-chain receipt-hashes'') (\<lambda>_.
     and_then (validate_optional_full_hash_array_field X ev payload ''drop-receipt-hashes'') (\<lambda>drop_receipt_hashes. checks
       [validate_unique_hash_array X ev drop_receipt_hashes ''view receipt-chain drop-receipt-hashes'',
        validate_hash_array_covers_structure X ev ''view receipt-chain chain-hashes'' chain_hashes (ct_chain_hashes t),
        validate_hash_array_covers_structure X ev ''view receipt-chain receipt-hashes'' receipt_hashes
          (ct_receipt_hashes t),
        validate_hash_array_covers_structure X ev ''view receipt-chain drop-receipt-hashes'' drop_receipt_hashes
          (ct_drop_hashes t)])))))"

definition required_chain_count ::
  "evidence_api \<Rightarrow> OutboxEvent \<Rightarrow> json \<Rightarrow> string \<Rightarrow> 64 word result" where
  "required_chain_count X ev payload field =
     require_field X ev (''view receipt-chain evidence must contain '' @ field) (field_u64 payload field)"

definition validate_view_receipt_chain_event_evidence ::
  "evidence_api \<Rightarrow> OutboxEvent \<Rightarrow> json \<Rightarrow> unit result" where
  "validate_view_receipt_chain_event_evidence X ev payload =
     and_then (validate_outer_payload X ev ''view receipt-read outbox payload'' VIEW_RECEIPT_READ_OUTBOX_PAYLOAD_FIELDS) (\<lambda>_.
     and_then (validate_object_evidence_schema X ev payload ''view receipt-chain'' VIEW_RECEIPT_CHAIN_LIST_EVIDENCE_FIELDS) (\<lambda>_.
     and_then (validate_required_warehouse_field X ev payload ''view receipt-chain'') (\<lambda>warehouse.
     and_then (require_field X ev ''view receipt-chain evidence must contain namespace'' (jget payload ''namespace'')) (\<lambda>v.
     and_then (decode_namespace_value X ev v ''view receipt-chain'') (\<lambda>ns.
     and_then (validate_authorization_receipt_principal X ev payload ''view receipt-chain'') (\<lambda>_.
     and_then (require_field X ev ''view receipt-chain evidence must contain view-version-receipt-chains''
                 (field_array payload ''view-version-receipt-chains'')) (\<lambda>chain_values.
     and_then (required_chain_count X ev payload ''chain-count'') (\<lambda>expected_chain_count.
     and_then (reject_if (len_u64 chain_values \<noteq> expected_chain_count) (outbox_evidence_error X ev
                 ''view receipt-chain chain-count does not match chains'')) (\<lambda>_.
     and_then (required_chain_count X ev payload ''receipt-count'') (\<lambda>expected_receipts.
     and_then (required_chain_count X ev payload ''tombstone-count'') (\<lambda>expected_tombstones.
     and_then (required_chain_count X ev payload ''chain-verified-count'') (\<lambda>expected_verified.
     and_then (chain_loop X ev warehouse ns no_chains chain_values) (\<lambda>t. checks
       [reject_if (ct_verified t \<noteq> expected_verified) (outbox_evidence_error X ev
          ''view receipt-chain verified count does not match verified chains''),
        reject_if (ct_receipts t \<noteq> expected_receipts) (outbox_evidence_error X ev
          ''view receipt-chain receipt-count does not match chains''),
        reject_if (ct_tombstones t \<noteq> expected_tombstones) (outbox_evidence_error X ev
          ''view receipt-chain tombstone-count does not match chains''),
        chain_hash_lists X ev payload t])))))))))))))"

subsection \<open>A QueryGraph bootstrap\<close>

definition validate_querygraph_artifact_evidence_schema ::
  "evidence_api \<Rightarrow> OutboxEvent \<Rightarrow> json \<Rightarrow> string \<Rightarrow> string list \<Rightarrow> unit result" where
  "validate_querygraph_artifact_evidence_schema X ev artifact field hash_fields =
     validate_object_evidence_schema X ev artifact (''querygraph bootstrap '' @ field @ '' entry'')
       (''stable-id'' # hash_fields)"

text \<open>The stable id of an entry: not empty, without whitespace, not seen before.\<close>

definition entry_stable_id ::
  "evidence_api \<Rightarrow> OutboxEvent \<Rightarrow> json \<Rightarrow> string list \<Rightarrow> string \<Rightarrow> string \<Rightarrow> string \<Rightarrow> string result" where
  "entry_stable_id X ev entry seen missing spaced repeated =
     and_then (require_field X ev missing (nonempty_str entry ''stable-id'')) (\<lambda>stable_id.
     and_then (reject_if (has_whitespace stable_id) (outbox_evidence_error X ev spaced)) (\<lambda>_.
     and_then (reject_if (stable_id \<in> set seen) (outbox_evidence_error X ev repeated)) (\<lambda>_.
     Ok stable_id)))"

fun artifact_loop ::
  "evidence_api \<Rightarrow> OutboxEvent \<Rightarrow> string \<Rightarrow> string list \<Rightarrow> string list \<Rightarrow> json list \<Rightarrow> string list result" where
  "artifact_loop X ev field hash_fields seen [] = Ok seen"
| "artifact_loop X ev field hash_fields seen (artifact # artifacts) =
     and_then (validate_querygraph_artifact_evidence_schema X ev artifact field hash_fields) (\<lambda>_.
     and_then (entry_stable_id X ev artifact seen
                 (''querygraph bootstrap '' @ field @ '' entries must contain stable-id'')
                 (''querygraph bootstrap '' @ field @ '' stable-id must not contain whitespace'')
                 (''querygraph bootstrap '' @ field @ '' must not contain duplicate stable-id values'')) (\<lambda>stable_id.
     and_then (check_all (validate_required_full_hash_field X ev artifact) hash_fields) (\<lambda>_.
     artifact_loop X ev field hash_fields (stable_id # seen) artifacts)))"

definition validate_querygraph_artifacts ::
  "evidence_api \<Rightarrow> OutboxEvent \<Rightarrow> json \<Rightarrow> string \<Rightarrow> 64 word \<Rightarrow> string list \<Rightarrow> string list result" where
  "validate_querygraph_artifacts X ev payload field expected_count hash_fields =
     and_then (require_field X ev (''querygraph bootstrap evidence must contain '' @ field)
                 (field_array payload field)) (\<lambda>artifacts.
     and_then (reject_if (len_u64 artifacts \<noteq> expected_count) (outbox_evidence_error X ev
                 (''querygraph bootstrap '' @ field @ '' count does not match manifest count''))) (\<lambda>_.
     artifact_loop X ev field hash_fields [] artifacts))"

fun view_receipt_loop ::
  "evidence_api \<Rightarrow> OutboxEvent \<Rightarrow> string list \<Rightarrow> json list \<Rightarrow> string list result" where
  "view_receipt_loop X ev seen [] = Ok seen"
| "view_receipt_loop X ev seen (receipt # receipts) =
     and_then (validate_object_evidence_schema X ev receipt ''querygraph bootstrap view-version receipt''
                 QUERYGRAPH_VIEW_RECEIPT_EVIDENCE_FIELDS) (\<lambda>_.
     and_then (entry_stable_id X ev receipt seen
                 ''querygraph bootstrap view-version receipt must contain stable-id''
                 ''querygraph bootstrap view-version receipt stable-id must not contain whitespace''
                 ''querygraph bootstrap view-version-receipts must not contain duplicate stable-id values'') (\<lambda>stable_id.
     and_then (require_field X ev ''querygraph bootstrap view-version receipt must contain view-version''
                 (field_u64 receipt ''view-version'')) (\<lambda>view_version.
     and_then (checks
       [reject_if (view_version = 0) (outbox_evidence_error X ev
          ''querygraph bootstrap view-version receipt version must be positive''),
        validate_required_full_hash_field X ev receipt ''receipt-hash'',
        validate_required_full_hash_field X ev receipt ''receipt-chain-hash'']) (\<lambda>_.
     view_receipt_loop X ev (stable_id # seen) receipts))))"

definition validate_querygraph_view_receipts ::
  "evidence_api \<Rightarrow> OutboxEvent \<Rightarrow> json \<Rightarrow> 64 word \<Rightarrow> string list result" where
  "validate_querygraph_view_receipts X ev payload view_count =
     (case jget payload ''view-version-receipts'' of
        None \<Rightarrow>
          if view_count = 0 then Ok []
          else Err (outbox_evidence_error X ev ''querygraph bootstrap evidence must contain view-version-receipts'')
      | Some v \<Rightarrow>
          and_then (require_field X ev ''querygraph bootstrap view-version-receipts must be an array'' (as_array v)) (\<lambda>receipts.
          and_then (reject_if (len_u64 receipts \<noteq> view_count) (outbox_evidence_error X ev
                      ''querygraph bootstrap view-version-receipts count does not match view-count'')) (\<lambda>_.
          view_receipt_loop X ev [] receipts)))"

definition validate_stable_id_set_matches_manifest ::
  "evidence_api \<Rightarrow> OutboxEvent \<Rightarrow> string \<Rightarrow> string list \<Rightarrow> string list \<Rightarrow> unit result" where
  "validate_stable_id_set_matches_manifest X ev label actual expected =
     reject_if (set actual \<noteq> set expected)
       (outbox_evidence_error X ev (label @ '' stable-id set must match verified manifest''))"

definition required_standards :: "string list" where
  "required_standards =
     [''Iceberg REST'', ''Croissant'', ''CDIF'', ''OSI handoff'', ''ODRL'', ''Grust catalog graph'',
      ''OpenLineage'']"

definition validate_querygraph_bootstrap_standards ::
  "evidence_api \<Rightarrow> OutboxEvent \<Rightarrow> json \<Rightarrow> unit result" where
  "validate_querygraph_bootstrap_standards X ev payload =
     and_then (validate_required_string_array_field X ev payload ''standards'' ''querygraph bootstrap'') (\<lambda>standards.
     case find (\<lambda>required. required \<notin> set standards) required_standards of
       None \<Rightarrow> Ok ()
     | Some required \<Rightarrow> Err (outbox_evidence_error X ev
         (''querygraph bootstrap standards must include '' @ required)))"

definition validate_querygraph_bootstrap_request_identity ::
  "evidence_api \<Rightarrow> OutboxEvent \<Rightarrow> json \<Rightarrow> unit result" where
  "validate_querygraph_bootstrap_request_identity X ev payload =
     (case or_else (jpointer payload [''authorization-receipt'', ''context'', ''request-identity''])
             (jpointer payload [''authorization-receipt'', ''request-identity'']) of
        None \<Rightarrow> Ok ()
      | Some request_identity \<Rightarrow> checks
          [validate_object_evidence_schema X ev request_identity ''querygraph bootstrap request-identity''
             REQUEST_IDENTITY_EVIDENCE_FIELDS,
           check_all (validate_optional_full_hash_field X ev request_identity)
             [''typedid-envelope-sha256'', ''typedid-proof-sha256'', ''agent-delegation-sha256'',
              ''agent-summary-signature-sha256''],
           reject_if (field_str request_identity ''typedid-proof-sha256'' \<noteq> None \<and>
                      field_str request_identity ''typedid-envelope-sha256'' = None)
             (outbox_evidence_error X ev
                ''querygraph bootstrap TypeDID proof hash requires envelope hash'')])"

definition table_artifact_hashes :: "string list" where
  "table_artifact_hashes =
     [''croissant-hash'', ''cdif-hash'', ''osi-hash'', ''odrl-hash'', ''policy-bindings-hash'']"

definition bootstrap_artifacts ::
  "evidence_api \<Rightarrow> OutboxEvent \<Rightarrow> json \<Rightarrow> string list \<Rightarrow> string list \<Rightarrow> 64 word \<Rightarrow> 64 word \<Rightarrow> unit result" where
  "bootstrap_artifacts X ev payload verified_tables verified_views table_count view_count =
     and_then (validate_querygraph_artifacts X ev payload ''table-artifacts'' table_count table_artifact_hashes) (\<lambda>table_ids.
     and_then (validate_querygraph_artifacts X ev payload ''view-artifacts'' view_count [''osi-hash'']) (\<lambda>view_ids.
     and_then (validate_stable_id_set_matches_manifest X ev ''querygraph bootstrap table-artifacts'' table_ids
                 verified_tables) (\<lambda>_.
     and_then (validate_stable_id_set_matches_manifest X ev ''querygraph bootstrap view-artifacts'' view_ids
                 verified_views) (\<lambda>_.
     and_then (validate_querygraph_view_receipts X ev payload view_count) (\<lambda>receipt_ids.
     validate_stable_id_set_matches_manifest X ev ''querygraph bootstrap view-version-receipts'' receipt_ids
       verified_views)))))"

definition validate_querygraph_bootstrap_event_evidence ::
  "evidence_api \<Rightarrow> OutboxEvent \<Rightarrow> json \<Rightarrow> unit result" where
  "validate_querygraph_bootstrap_event_evidence X ev payload =
     and_then (checks
       [validate_outer_payload X ev ''querygraph bootstrap outbox payload'' LIST_OUTBOX_PAYLOAD_FIELDS,
        validate_object_evidence_schema X ev payload ''querygraph bootstrap'' QUERYGRAPH_BOOTSTRAP_EVIDENCE_FIELDS,
        map_ok (\<lambda>_. ()) (validate_required_warehouse_field X ev payload ''querygraph bootstrap''),
        validate_authorization_receipt_principal X ev payload ''querygraph bootstrap'',
        check_all (validate_required_full_hash_field X ev payload)
          [''bundle-hash'', ''graph-hash'', ''open-lineage-hash'', ''querygraph-import-hash'']]) (\<lambda>_.
     and_then (validate_required_string_array_field X ev payload ''verified-tables'' ''querygraph bootstrap'') (\<lambda>verified_tables.
     and_then (validate_required_string_array_field X ev payload ''verified-views'' ''querygraph bootstrap'') (\<lambda>verified_views.
     and_then (validate_required_unsigned_count_field X ev payload ''table-count'' ''querygraph bootstrap'') (\<lambda>table_count.
     and_then (validate_required_unsigned_count_field X ev payload ''view-count'' ''querygraph bootstrap'') (\<lambda>view_count.
     checks
       [map_ok (\<lambda>_. ()) (validate_required_unsigned_count_field X ev payload ''policy-binding-count''
          ''querygraph bootstrap''),
        reject_if (len_u64 verified_tables \<noteq> table_count) (outbox_evidence_error X ev
          ''querygraph bootstrap table-count does not match verified-tables''),
        reject_if (len_u64 verified_views \<noteq> view_count) (outbox_evidence_error X ev
          ''querygraph bootstrap view-count does not match verified-views''),
        validate_unique_string_array X ev verified_tables ''querygraph bootstrap verified-tables'',
        validate_unique_string_array X ev verified_views ''querygraph bootstrap verified-views'',
        bootstrap_artifacts X ev payload verified_tables verified_views table_count view_count,
        validate_querygraph_bootstrap_standards X ev payload,
        validate_querygraph_bootstrap_request_identity X ev payload])))))"

end
