(* ===== verification/OutboxEvidence.thy ===== *)
theory OutboxEvidence
  imports EvidenceCredentials
begin

section \<open>Evidence: outbox events\<close>

text \<open>
  \<open>crates/lakecat-service/src/evidence/outbox_evidence.rs\<close>: the validator of an outbox event, which
  calls the one of its type, and the checks of the receipt of a projection and of the response of
  a drain.
\<close>

definition known_outbox_event_types :: "string list" where
  "known_outbox_event_types =
     [''catalog.config-read'', ''credentials.vend-attempted'', ''model.published'', ''namespace.created'',
      ''namespace.dropped'', ''namespace.listed'', ''namespace.loaded'', ''namespace.properties-updated'',
      ''policy-binding.listed'', ''policy-binding.upserted'', ''project.listed'', ''project.upserted'',
      ''querygraph.bootstrap'', ''server.listed'', ''server.upserted'', ''storage-profile.listed'',
      ''storage-profile.upserted'', ''table.commit'', ''table.commits-listed'', ''table.created'',
      ''table.registered'', ''table.renamed'', ''table.deleted'', ''table.loaded'', ''table.restored'',
      ''table.scan-planned'', ''table.scan-tasks-fetched'', ''view.dropped'', ''view.listed'', ''view.loaded'',
      ''view.upserted'', ''view.version-receipt-chains-listed'', ''view.version-receipts-listed'',
      ''warehouse.listed'', ''warehouse.upserted'']"

definition is_known_outbox_event_type :: "string \<Rightarrow> bool" where
  "is_known_outbox_event_type event_type = (event_type \<in> set known_outbox_event_types)"

definition validate_outbox_event_type_binding ::
  "evidence_api \<Rightarrow> OutboxEvent \<Rightarrow> json \<Rightarrow> string \<Rightarrow> bool \<Rightarrow> unit result" where
  "validate_outbox_event_type_binding X ev payload label required =
     (case jget payload ''event-type'' of
        None \<Rightarrow> reject_if required (outbox_evidence_error X ev (label @ '' missing event-type''))
      | Some v \<Rightarrow>
          and_then (require_field X ev (label @ '' event-type must be a non-empty string when present'')
                      (str_filter (\<lambda>s. \<not> blank s) (as_str v))) (\<lambda>event_type.
          reject_if (event_type \<noteq> oe_event_type ev)
            (outbox_evidence_error X ev (label @ '' event-type must match outbox event type''))))"

definition outbox_event_id_matches_payload_hash :: "evidence_api \<Rightarrow> OutboxEvent \<Rightarrow> bool" where
  "outbox_event_id_matches_payload_hash X ev =
     (content_hash_json (ea_env X) (oe_payload ev) = Ok (oe_event_id ev))"

text \<open>
  The validator each type has, in the order of the code. The source tests the types one after the
  other; they are distinct, so at most one validator runs.
\<close>

definition typed_validators ::
  "(string list \<times> (evidence_api \<Rightarrow> OutboxEvent \<Rightarrow> json \<Rightarrow> unit result)) list" where
  "typed_validators =
     [([''table.commit''], \<lambda>X ev _. validate_table_commit_hash_evidence X ev),
      ([''table.commits-listed''], validate_table_commit_history_event_evidence),
      ([''table.scan-planned''], validate_scan_planned_event_evidence),
      ([''table.scan-tasks-fetched''], validate_scan_tasks_fetched_event_evidence),
      ([''table.created'', ''table.registered'', ''table.loaded'', ''table.deleted'', ''table.restored''],
       validate_table_lifecycle_event_evidence),
      ([''table.renamed''], validate_table_rename_event_evidence),
      ([''credentials.vend-attempted''], validate_credential_vend_event_evidence),
      ([''storage-profile.upserted''], validate_storage_profile_upsert_event_evidence),
      ([''policy-binding.upserted''], validate_policy_binding_upsert_event_evidence),
      ([''project.upserted''], validate_project_upsert_event_evidence),
      ([''server.upserted''], validate_server_upsert_event_evidence),
      ([''warehouse.upserted''], validate_warehouse_upsert_event_evidence),
      ([''catalog.config-read''], validate_catalog_config_read_event_evidence),
      ([''namespace.listed''], validate_namespace_list_event_evidence),
      ([''view.listed''], validate_view_list_event_evidence),
      ([''view.upserted'', ''view.loaded'', ''view.dropped''], validate_view_lifecycle_event_evidence),
      ([''policy-binding.listed'', ''project.listed'', ''server.listed'', ''storage-profile.listed'',
        ''warehouse.listed''], validate_management_list_event_evidence),
      ([''namespace.created'', ''namespace.dropped'', ''namespace.loaded'', ''namespace.properties-updated''],
       validate_namespace_lifecycle_event_evidence),
      ([''view.version-receipts-listed''], validate_view_receipt_list_event_evidence),
      ([''view.version-receipt-chains-listed''], validate_view_receipt_chain_event_evidence),
      ([''querygraph.bootstrap''], validate_querygraph_bootstrap_event_evidence)]"

definition run_typed_validators ::
  "(string list \<times> (evidence_api \<Rightarrow> OutboxEvent \<Rightarrow> json \<Rightarrow> unit result)) list \<Rightarrow> evidence_api \<Rightarrow>
     OutboxEvent \<Rightarrow> json \<Rightarrow> unit result" where
  "run_typed_validators validators X ev payload =
     check_all (\<lambda>(types, f). if oe_event_type ev \<in> set types then f X ev payload else Ok ()) validators"

definition validate_outbox_event_evidence :: "evidence_api \<Rightarrow> OutboxEvent \<Rightarrow> unit result" where
  "validate_outbox_event_evidence X ev =
     (let payload = evidence_payload ev in checks
        [reject_if (\<not> is_known_outbox_event_type (oe_event_type ev))
           (outbox_evidence_error X ev ''outbox event type is not supported for projection''),
         validate_outbox_event_type_binding X ev (oe_payload ev) ''outbox payload'' True,
         if jget (oe_payload ev) ''payload'' \<noteq> None then
           validate_outbox_event_type_binding X ev payload ''outbox inner payload''
             (outbox_event_id_matches_payload_hash X ev)
         else Ok (),
         validate_read_restriction_policy_hashes X ev (jget payload ''read-restriction'') ''read restriction'',
         validate_read_restriction_policy_hashes X ev (authorization_receipt_read_restriction payload)
           ''authorization receipt read restriction'',
         run_typed_validators typed_validators X ev payload])"

subsection \<open>The receipt of a projection\<close>

record OutboxProjectionReceipt =
  op_graph_events :: nat
  op_lineage_events :: nat
  op_lineage_event_hashes :: "string list"
  op_open_lineage_hashes :: "string list"

definition empty_projection :: OutboxProjectionReceipt where
  "empty_projection = \<lparr>op_graph_events = 0, op_lineage_events = 0, op_lineage_event_hashes = [],
                       op_open_lineage_hashes = []\<rparr>"

fun projection_hash_loop ::
  "evidence_api \<Rightarrow> OutboxEvent \<Rightarrow> string \<Rightarrow> string list \<Rightarrow> string list \<Rightarrow> unit result" where
  "projection_hash_loop X ev label seen [] = Ok ()"
| "projection_hash_loop X ev label seen (hash # hashes) =
     (if \<not> is_full_sha256_digest_evidence hash then
        Err (outbox_evidence_error X ev (''projection receipt '' @ label @ '' must contain full SHA-256 hashes''))
      else if hash \<in> set seen then
        Err (outbox_evidence_error X ev (''projection receipt '' @ label @ '' must be duplicate-free''))
      else projection_hash_loop X ev label (hash # seen) hashes)"

definition validate_projection_receipt_hash_array ::
  "evidence_api \<Rightarrow> OutboxEvent \<Rightarrow> string list \<Rightarrow> string \<Rightarrow> unit result" where
  "validate_projection_receipt_hash_array X ev hashes label = projection_hash_loop X ev label [] hashes"

definition validate_projection_receipt_evidence ::
  "evidence_api \<Rightarrow> OutboxEvent \<Rightarrow> OutboxProjectionReceipt \<Rightarrow> unit result" where
  "validate_projection_receipt_evidence X ev receipt = checks
     [reject_if (length (op_lineage_event_hashes receipt) \<noteq> op_lineage_events receipt \<or>
                 length (op_open_lineage_hashes receipt) \<noteq> op_lineage_events receipt)
        (outbox_evidence_error X ev ''projection receipt hash counts must match lineage event count''),
      validate_projection_receipt_hash_array X ev (op_lineage_event_hashes receipt) ''replay event hashes'',
      validate_projection_receipt_hash_array X ev (op_open_lineage_hashes receipt) ''OpenLineage hashes'']"

lemma projection_hash_loop_ok:
  "projection_hash_loop X ev label seen hashes = Ok () \<longleftrightarrow>
     list_all is_full_sha256_digest_evidence hashes \<and> distinct hashes \<and> set hashes \<inter> set seen = {}"
  by (induction hashes arbitrary: seen) auto

lemma validate_projection_receipt_ok:
  "validate_projection_receipt_evidence X ev receipt = Ok () \<longleftrightarrow>
     length (op_lineage_event_hashes receipt) = op_lineage_events receipt \<and>
     length (op_open_lineage_hashes receipt) = op_lineage_events receipt \<and>
     list_all is_full_sha256_digest_evidence (op_lineage_event_hashes receipt) \<and>
     distinct (op_lineage_event_hashes receipt) \<and>
     list_all is_full_sha256_digest_evidence (op_open_lineage_hashes receipt) \<and>
     distinct (op_open_lineage_hashes receipt)"
  by (auto simp: validate_projection_receipt_evidence_def validate_projection_receipt_hash_array_def
      projection_hash_loop_ok evidence_simps)

subsection \<open>The response of a drain\<close>

text \<open>
  \<open>LineageDrainResponse\<close> and \<open>LineageDrainEventSummary\<close> of \<open>crates/lakecat-api/src/lib.rs\<close>. The
  fields of a summary that no code reads again are kept as Serde writes them: by name, in the order
  of the struct, without those it skips.
\<close>

record LineageDrainEventSummary =
  ls_event_id :: string
  ls_event_type :: string
  ls_graph_events :: nat
  ls_lineage_events :: nat
  ls_other_fields :: "(string \<times> json) list"
  ls_replay_event_hashes :: "string list"
  ls_replay_open_lineage_hashes :: "string list"

record LineageDrainResponse =
  ld_delivered :: nat
  ld_event_types :: "string list"
  ld_graph_events :: nat
  ld_lineage_events :: nat
  ld_principal_subject :: "string option"
  ld_principal_kind :: "string option"
  ld_authorization_receipt_hash :: "string option"
  ld_authorization_receipt_action :: "string option"
  ld_request_identity_state :: "string option"
  ld_request_identity_source :: "string option"
  ld_typedid_envelope_hash :: "string option"
  ld_typedid_proof_hash :: "string option"
  ld_events :: "LineageDrainEventSummary list"

fun summary_id_loop :: "nat \<Rightarrow> string list \<Rightarrow> LineageDrainEventSummary list \<Rightarrow> unit result" where
  "summary_id_loop i seen [] = Ok ()"
| "summary_id_loop i seen (summary # summaries) =
     (let at = ''lineage drain response events['' @ nat_str i @ ''].event_id must be '' in
      if blank (ls_event_id summary) then Err (Conflict (at @ ''non-empty''))
      else if ls_event_id summary \<in> set seen then Err (Conflict (at @ ''duplicate-free''))
      else summary_id_loop (i + 1) (ls_event_id summary # seen) summaries)"

fun event_type_loop :: "nat \<Rightarrow> (string \<times> LineageDrainEventSummary) list \<Rightarrow> unit result" where
  "event_type_loop i [] = Ok ()"
| "event_type_loop i ((event_type, summary) # rest) =
     (if event_type \<noteq> ls_event_type summary then
        Err (Conflict (''lineage drain response event_types['' @ nat_str i @ ''] '' @ event_type @
               '' did not match events['' @ nat_str i @ ''].event_type '' @ ls_event_type summary))
      else event_type_loop (i + 1) rest)"

definition count_mismatch :: "string \<Rightarrow> nat \<Rightarrow> string \<Rightarrow> nat \<Rightarrow> unit result" where
  "count_mismatch what actual other expected =
     reject_if (actual \<noteq> expected)
       (Conflict (''lineage drain response '' @ what @ '' '' @ nat_str actual @ '' did not match replay summary '' @
          other @ '' '' @ nat_str expected))"

definition validate_lineage_drain_response_manifest :: "LineageDrainResponse \<Rightarrow> unit result" where
  "validate_lineage_drain_response_manifest r = checks
     [count_mismatch ''delivered count'' (ld_delivered r) ''count'' (length (ld_events r)),
      count_mismatch ''event_types count'' (length (ld_event_types r)) ''count'' (length (ld_events r)),
      summary_id_loop 0 [] (ld_events r),
      event_type_loop 0 (zip (ld_event_types r) (ld_events r)),
      count_mismatch ''graph_events'' (ld_graph_events r) ''graph_events''
        (sum_list (map ls_graph_events (ld_events r))),
      count_mismatch ''lineage_events'' (ld_lineage_events r) ''lineage_events''
        (sum_list (map ls_lineage_events (ld_events r)))]"

lemma summary_id_loop_ok:
  "summary_id_loop i seen summaries = Ok () \<longleftrightarrow>
     list_all (\<lambda>s. \<not> blank (ls_event_id s)) summaries \<and> distinct (map ls_event_id summaries) \<and>
     set (map ls_event_id summaries) \<inter> set seen = {}"
  by (induction summaries arbitrary: i seen) (auto simp: Let_def)

lemma event_type_loop_ok:
  "event_type_loop i pairs = Ok () \<longleftrightarrow> list_all (\<lambda>(t, s). t = ls_event_type s) pairs"
  by (induction i pairs rule: event_type_loop.induct) auto

lemma validate_manifest_ok:
  "validate_lineage_drain_response_manifest r = Ok () \<longleftrightarrow>
     ld_delivered r = length (ld_events r) \<and> length (ld_event_types r) = length (ld_events r) \<and>
     list_all (\<lambda>s. \<not> blank (ls_event_id s)) (ld_events r) \<and> distinct (map ls_event_id (ld_events r)) \<and>
     list_all (\<lambda>(t, s). t = ls_event_type s) (zip (ld_event_types r) (ld_events r)) \<and>
     ld_graph_events r = sum_list (map ls_graph_events (ld_events r)) \<and>
     ld_lineage_events r = sum_list (map ls_lineage_events (ld_events r))"
  by (auto simp: validate_lineage_drain_response_manifest_def count_mismatch_def summary_id_loop_ok
      event_type_loop_ok evidence_simps)

end
