(* ===== verification/LineageSummary.thy ===== *)
theory LineageSummary
  imports OutboxEvidence ServiceResponses
begin

section \<open>Summaries of drained events: fields\<close>

text \<open>
  The helpers of \<open>crates/lakecat-service/src/lineage_summary.rs\<close>: each reads a field or a list of
  the payload of an event and refuses what it cannot summarise. A \<open>usize\<close> is a \<open>nat\<close> (the service is
  built for 64-bit targets, so a \<open>u64\<close> always fits).
\<close>

subsection \<open>Scalars\<close>

definition lineage_summary_optional_nonblank_string_value ::
  "evidence_api \<Rightarrow> OutboxEvent \<Rightarrow> json option \<Rightarrow> string \<Rightarrow> string option result" where
  "lineage_summary_optional_nonblank_string_value X ev value label =
     (case value of
        None \<Rightarrow> Ok None
      | Some JNull \<Rightarrow> Ok None
      | Some v \<Rightarrow>
          (case as_str v of
             None \<Rightarrow> Err (outbox_evidence_error X ev (label @ '' must be a string when present''))
           | Some s \<Rightarrow>
               if blank s then Err (outbox_evidence_error X ev (label @ '' must not be blank''))
               else Ok (Some s)))"

definition lineage_summary_optional_nonblank_string_field ::
  "evidence_api \<Rightarrow> OutboxEvent \<Rightarrow> json \<Rightarrow> string \<Rightarrow> string option result" where
  "lineage_summary_optional_nonblank_string_field X ev obj field =
     lineage_summary_optional_nonblank_string_value X ev (jget obj field) field"

definition lineage_summary_positive_u64_field ::
  "evidence_api \<Rightarrow> OutboxEvent \<Rightarrow> json \<Rightarrow> string \<Rightarrow> 64 word result" where
  "lineage_summary_positive_u64_field X ev obj field =
     and_then (require_field X ev (field @ '' must be present'') (jget obj field)) (\<lambda>v.
     and_then (require_field X ev (field @ '' must be an unsigned integer when present'') (as_u64 v)) (\<lambda>n.
     if n = 0 then Err (outbox_evidence_error X ev (field @ '' must be positive when present'')) else Ok n))"

definition lineage_summary_optional_count_field ::
  "evidence_api \<Rightarrow> OutboxEvent \<Rightarrow> json \<Rightarrow> string \<Rightarrow> nat option result" where
  "lineage_summary_optional_count_field X ev obj field =
     (case jget obj field of
        None \<Rightarrow> Ok None
      | Some v \<Rightarrow>
          map_ok (\<lambda>n. Some (unat n))
            (require_field X ev (field @ '' must be an unsigned integer when present'') (as_u64 v)))"

fun lineage_summary_optional_count_alias_field ::
  "evidence_api \<Rightarrow> OutboxEvent \<Rightarrow> json \<Rightarrow> string list \<Rightarrow> nat option result" where
  "lineage_summary_optional_count_alias_field X ev obj [] = Ok None"
| "lineage_summary_optional_count_alias_field X ev obj (field # others) =
     (if jget obj field \<noteq> None then lineage_summary_optional_count_field X ev obj field
      else lineage_summary_optional_count_alias_field X ev obj others)"

definition lineage_summary_optional_full_hash_field ::
  "evidence_api \<Rightarrow> OutboxEvent \<Rightarrow> json \<Rightarrow> string \<Rightarrow> string option result" where
  "lineage_summary_optional_full_hash_field X ev obj field =
     and_then (validate_optional_full_hash_field X ev obj field) (\<lambda>_. Ok (field_str obj field))"

subsection \<open>Arrays\<close>

definition optional_array_field ::
  "evidence_api \<Rightarrow> OutboxEvent \<Rightarrow> json \<Rightarrow> string \<Rightarrow> json list option result" where
  "optional_array_field X ev obj field =
     (case jget obj field of
        None \<Rightarrow> Ok None
      | Some v \<Rightarrow> map_ok Some (require_field X ev (field @ '' must be an array when present'') (as_array v)))"

text \<open>The arrays whose presence the caller has checked.\<close>

definition present_array_field :: "evidence_api \<Rightarrow> OutboxEvent \<Rightarrow> json \<Rightarrow> string \<Rightarrow> json list result" where
  "present_array_field X ev obj field =
     and_then (optional_array_field X ev obj field)
       (expect_field ''field presence was checked by caller'')"

definition lineage_summary_array_len_field ::
  "evidence_api \<Rightarrow> OutboxEvent \<Rightarrow> json \<Rightarrow> string \<Rightarrow> nat result" where
  "lineage_summary_array_len_field X ev obj field =
     map_ok (\<lambda>xs. case xs of None \<Rightarrow> 0 | Some vs \<Rightarrow> length vs) (optional_array_field X ev obj field)"

definition lineage_summary_u64_array_field ::
  "evidence_api \<Rightarrow> OutboxEvent \<Rightarrow> json \<Rightarrow> string \<Rightarrow> 64 word list result" where
  "lineage_summary_u64_array_field X ev obj field =
     and_then (present_array_field X ev obj field) (\<lambda>values.
     traverse (\<lambda>v. require_field X ev (field @ '' must contain unsigned integers'') (as_u64 v)) values)"

definition summary_string :: "evidence_api \<Rightarrow> OutboxEvent \<Rightarrow> string \<Rightarrow> json \<Rightarrow> string result" where
  "summary_string X ev label v =
     and_then (require_field X ev (label @ '' must contain strings'') (as_str v)) (\<lambda>s.
     if blank s then Err (outbox_evidence_error X ev (label @ '' must not contain blank strings'')) else Ok s)"

definition lineage_summary_string_array_field ::
  "evidence_api \<Rightarrow> OutboxEvent \<Rightarrow> json \<Rightarrow> string \<Rightarrow> string list result" where
  "lineage_summary_string_array_field X ev obj field =
     and_then (present_array_field X ev obj field) (\<lambda>values.
     and_then (traverse (summary_string X ev field) values) (\<lambda>strings.
     and_then (validate_unique_string_array X ev strings field) (\<lambda>_. Ok strings)))"

definition first_count_field :: "json \<Rightarrow> string list \<Rightarrow> (string \<times> json) option" where
  "first_count_field obj count_fields =
     (case find (\<lambda>f. jget obj f \<noteq> None) count_fields of
        None \<Rightarrow> None
      | Some f \<Rightarrow> map_option (Pair f) (jget obj f))"

definition lineage_summary_counted_string_array_field ::
  "evidence_api \<Rightarrow> OutboxEvent \<Rightarrow> json \<Rightarrow> string \<Rightarrow> string list \<Rightarrow> string list result" where
  "lineage_summary_counted_string_array_field X ev obj field count_fields =
     and_then (lineage_summary_string_array_field X ev obj field) (\<lambda>strings.
     and_then (require_field X ev (field @ '' must carry a matching count field'')
                 (first_count_field obj count_fields)) (\<lambda>(count_field, count_value).
     and_then (require_field X ev (count_field @ '' must be an unsigned integer when '' @ field @ '' is present'')
                 (as_u64 count_value)) (\<lambda>count.
     if unat count \<noteq> length strings then
       Err (outbox_evidence_error X ev (field @ '' count must match '' @ count_field))
     else Ok strings)))"

definition lineage_summary_namespace_parts ::
  "evidence_api \<Rightarrow> OutboxEvent \<Rightarrow> json option \<Rightarrow> string \<Rightarrow> string list result" where
  "lineage_summary_namespace_parts X ev value label =
     (case value of
        None \<Rightarrow> Ok []
      | Some JNull \<Rightarrow> Ok []
      | Some (JArr parts) \<Rightarrow> traverse (summary_string X ev label) parts
      | Some (JStr path) \<Rightarrow> traverse (\<lambda>part. summary_string X ev label (JStr part)) (split_on (CHR ''.'') path)
      | Some _ \<Rightarrow> Err (outbox_evidence_error X ev (label @ '' must be a string or string array when present'')))"

subsection \<open>Hashes\<close>

definition object_hash :: "evidence_api \<Rightarrow> OutboxEvent \<Rightarrow> string \<Rightarrow> json \<Rightarrow> string result" where
  "object_hash X ev field obj =
     and_then (validate_required_full_hash_field X ev obj field) (\<lambda>_.
     expect_field ''hash field was validated'' (field_str obj field))"

definition lineage_summary_required_hashes_from_objects ::
  "evidence_api \<Rightarrow> OutboxEvent \<Rightarrow> json list \<Rightarrow> string \<Rightarrow> string \<Rightarrow> string list result" where
  "lineage_summary_required_hashes_from_objects X ev objects field label =
     and_then (traverse (object_hash X ev field) objects) (\<lambda>hashes.
     and_then (validate_unique_hash_array X ev hashes label) (\<lambda>_. Ok hashes))"

definition lineage_summary_full_hash_array_field ::
  "evidence_api \<Rightarrow> OutboxEvent \<Rightarrow> json \<Rightarrow> string \<Rightarrow> string list result" where
  "lineage_summary_full_hash_array_field X ev obj field =
     and_then (validate_required_full_hash_array_field X ev obj field) (\<lambda>hashes.
     and_then (validate_unique_hash_array X ev hashes field) (\<lambda>_. Ok hashes))"

text \<open>The receipts of a chain without receipts are skipped.\<close>

definition hashes_of_chain :: "evidence_api \<Rightarrow> OutboxEvent \<Rightarrow> json \<Rightarrow> string list result" where
  "hashes_of_chain X ev chain =
     and_then (optional_array_field X ev chain ''receipts'') (\<lambda>receipts.
     case receipts of
       None \<Rightarrow> Ok []
     | Some rs \<Rightarrow> lineage_summary_required_hashes_from_objects X ev rs ''receipt-hash''
                  ''lineage drain view-version-receipt-chain receipts'')"

definition lineage_summary_view_receipt_hashes ::
  "evidence_api \<Rightarrow> OutboxEvent \<Rightarrow> json \<Rightarrow> string list result" where
  "lineage_summary_view_receipt_hashes X ev payload =
     and_then (optional_array_field X ev payload ''view-version-receipts'') (\<lambda>receipts.
     case receipts of
       Some rs \<Rightarrow> lineage_summary_required_hashes_from_objects X ev rs ''receipt-hash''
                    ''lineage drain view-version-receipts''
     | None \<Rightarrow>
         and_then (optional_array_field X ev payload ''view-version-receipt-chains'') (\<lambda>chains.
         case chains of
           Some cs \<Rightarrow> map_ok concat (traverse (hashes_of_chain X ev) cs)
         | None \<Rightarrow>
             if jget payload ''receipt-hashes'' \<noteq> None then
               validate_required_full_hash_array_field X ev payload ''receipt-hashes''
             else if jget payload ''drop-receipt-hashes'' \<noteq> None then
               validate_required_full_hash_array_field X ev payload ''drop-receipt-hashes''
             else Ok []))"

definition lineage_summary_view_receipt_chain_hashes ::
  "evidence_api \<Rightarrow> OutboxEvent \<Rightarrow> json \<Rightarrow> string list result" where
  "lineage_summary_view_receipt_chain_hashes X ev payload =
     and_then (optional_array_field X ev payload ''view-version-receipt-chains'') (\<lambda>chains.
     case chains of
       Some cs \<Rightarrow> lineage_summary_required_hashes_from_objects X ev cs ''chain-hash''
                    ''lineage drain view-version-receipt-chains''
     | None \<Rightarrow>
         if jget payload ''chain-hashes'' \<noteq> None then
           validate_required_full_hash_array_field X ev payload ''chain-hashes''
         else Ok [])"

section \<open>Summaries of drained events\<close>

text \<open>
  \<open>crates/lakecat-service/src/lineage_summary.rs\<close>: the summary a drain returns for each event it
  projected. It repeats the validation of the event and adds checks of its own; the fields are read
  in the order of the source, which decides the error reported when several fields are wrong.
\<close>

subsection \<open>Receipt chains\<close>

definition record_fields :: "string list \<Rightarrow> string list \<Rightarrow> json \<Rightarrow> json option list option" where
  "record_fields optional names v =
     (case v of
        JObj m \<Rightarrow>
          if list_ex (\<lambda>n. n \<notin> set optional \<and> bt_get m n = None) names then None
          else Some (map (bt_get m) names)
      | JArr xs \<Rightarrow> if length xs = length names then Some (map Some xs) else None
      | _ \<Rightarrow> None)"

definition receipt_response_fields :: "string list" where
  "receipt_response_fields =
     [''stable-id'', ''warehouse'', ''namespace'', ''name'', ''view-version'', ''previous-view-version'',
      ''previous-receipt-hash'', ''operation'', ''view-hash'', ''receipt-hash'', ''principal-subject'',
      ''principal-kind'', ''recorded-at'']"

definition receipt_response_from_json :: "json \<Rightarrow> ViewVersionReceiptResponse option" where
  "receipt_response_from_json v =
     Option.bind (record_fields [''previous-view-version'', ''previous-receipt-hash''] receipt_response_fields v) (\<lambda>fs.
     let str = (\<lambda>i. Option.bind (fs ! i) as_str) in
     Option.bind (str 0) (\<lambda>stable_id. Option.bind (str 1) (\<lambda>warehouse.
     Option.bind (Option.bind (fs ! 2) strings_from_json) (\<lambda>ns. Option.bind (str 3) (\<lambda>name.
     Option.bind (Option.bind (fs ! 4) u64_from_json) (\<lambda>version.
     Option.bind (opt_from_json u64_from_json (fs ! 5)) (\<lambda>previous_version.
     Option.bind (opt_from_json as_str (fs ! 6)) (\<lambda>previous_hash.
     Option.bind (str 7) (\<lambda>operation. Option.bind (str 8) (\<lambda>view_hash. Option.bind (str 9) (\<lambda>receipt_hash.
     Option.bind (str 10) (\<lambda>subject. Option.bind (str 11) (\<lambda>kind. Option.bind (str 12) (\<lambda>recorded_at.
     Some \<lparr>vx_stable_id = stable_id, vx_warehouse = warehouse, vx_namespace = ns, vx_name = name,
           vx_view_version = version, vx_previous_view_version = previous_version,
           vx_previous_receipt_hash = previous_hash, vx_operation = operation, vx_view_hash = view_hash,
           vx_receipt_hash = receipt_hash, vx_principal_subject = subject, vx_principal_kind = kind,
           vx_recorded_at = recorded_at\<rparr>))))))))))))))"

definition receipt_responses_from_json :: "json \<Rightarrow> ViewVersionReceiptResponse list option" where
  "receipt_responses_from_json v =
     Option.bind (as_array v) (\<lambda>xs.
     if list_all (\<lambda>x. receipt_response_from_json x \<noteq> None) xs
     then Some (map (\<lambda>x. the (receipt_response_from_json x)) xs) else None)"

definition chain_response_fields :: "string list" where
  "chain_response_fields =
     [''stable-id'', ''warehouse'', ''namespace'', ''name'', ''chain-hash'', ''chain-verified'',
      ''latest-view-version'', ''latest-operation'', ''tombstoned'', ''receipt-count'', ''receipts'']"

definition chain_response_from_json :: "json \<Rightarrow> ViewVersionReceiptChainResponse option" where
  "chain_response_from_json v =
     Option.bind (record_fields [] chain_response_fields v) (\<lambda>fs.
     let str = (\<lambda>i. Option.bind (fs ! i) as_str) in
     Option.bind (str 0) (\<lambda>stable_id. Option.bind (str 1) (\<lambda>warehouse.
     Option.bind (Option.bind (fs ! 2) strings_from_json) (\<lambda>ns. Option.bind (str 3) (\<lambda>name.
     Option.bind (str 4) (\<lambda>chain_hash. Option.bind (Option.bind (fs ! 5) as_bool) (\<lambda>verified.
     Option.bind (Option.bind (fs ! 6) u64_from_json) (\<lambda>version. Option.bind (str 7) (\<lambda>operation.
     Option.bind (Option.bind (fs ! 8) as_bool) (\<lambda>tombstoned.
     Option.bind (Option.bind (fs ! 9) u64_from_json) (\<lambda>count.
     Option.bind (Option.bind (fs ! 10) receipt_responses_from_json) (\<lambda>receipts.
     Some \<lparr>vh_stable_id = stable_id, vh_warehouse = warehouse, vh_namespace = ns, vh_name = name,
           vh_chain_hash = chain_hash, vh_chain_verified = verified, vh_latest_view_version = version,
           vh_latest_operation = operation, vh_tombstoned = tombstoned, vh_receipt_count = unat count,
           vh_receipts = receipts\<rparr>))))))))))))"

fun summary_chain_loop ::
  "evidence_api \<Rightarrow> OutboxEvent \<Rightarrow> nat \<Rightarrow> json list \<Rightarrow> ViewVersionReceiptChainResponse list result" where
  "summary_chain_loop X ev index [] = Ok []"
| "summary_chain_loop X ev index (chain # receipt_chains) =
     (let entry = ''lineage drain view-version-receipt-chains entry '' @ nat_str index in
      and_then (require_field X ev
                  (entry @ '' must match ViewVersionReceiptChainResponse JSON shape: '' @
                     ea_serde_error X ''ViewVersionReceiptChainResponse'' chain)
                  (chain_response_from_json chain)) (\<lambda>decoded.
      if \<not> vh_chain_verified decoded then
        Err (outbox_evidence_error X ev (entry @ '' must be structurally verified''))
      else map_ok (Cons decoded) (summary_chain_loop X ev (index + 1) receipt_chains)))"

definition lineage_summary_view_receipt_chains ::
  "evidence_api \<Rightarrow> OutboxEvent \<Rightarrow> json \<Rightarrow> ViewVersionReceiptChainResponse list result" where
  "lineage_summary_view_receipt_chains X ev payload =
     and_then (optional_array_field X ev payload ''view-version-receipt-chains'') (\<lambda>receipt_chains.
     case receipt_chains of None \<Rightarrow> Ok [] | Some cs \<Rightarrow> summary_chain_loop X ev 0 cs)"

definition lineage_summary_view_receipt_chain_verified_count ::
  "evidence_api \<Rightarrow> OutboxEvent \<Rightarrow> json \<Rightarrow> ViewVersionReceiptChainResponse list \<Rightarrow> nat result" where
  "lineage_summary_view_receipt_chain_verified_count X ev payload receipt_chains =
     (let verified_count = length (filter vh_chain_verified receipt_chains) in
      case jget payload ''chain-verified-count'' of
        None \<Rightarrow> Ok verified_count
      | Some v \<Rightarrow>
          and_then (require_field X ev ''chain-verified-count must be an unsigned integer when present'' (as_u64 v))
            (\<lambda>count.
          if unat count \<noteq> verified_count then
            Err (outbox_evidence_error X ev ''chain-verified-count must match verified view receipt chains'')
          else Ok (unat count)))"

subsection \<open>Commit histories and statistics\<close>

fun summary_sequence_loop ::
  "evidence_api \<Rightarrow> OutboxEvent \<Rightarrow> 64 word option \<Rightarrow> 64 word list \<Rightarrow> unit result" where
  "summary_sequence_loop X ev previous [] = Ok ()"
| "summary_sequence_loop X ev previous (n # ns) =
     (if n = 0 then
        Err (outbox_evidence_error X ev ''sequence-numbers must be positive in lineage drain summary'')
      else if (case previous of None \<Rightarrow> False | Some p \<Rightarrow> n \<le> p) then
        Err (outbox_evidence_error X ev ''sequence-numbers must be strictly increasing in lineage drain summary'')
      else summary_sequence_loop X ev (Some n) ns)"

definition validate_lineage_summary_commit_history_counts ::
  "evidence_api \<Rightarrow> OutboxEvent \<Rightarrow> nat option \<Rightarrow> 64 word list \<Rightarrow> string list \<Rightarrow> unit result" where
  "validate_lineage_summary_commit_history_counts X ev commit_count sequence_numbers commit_hashes = checks
     [summary_sequence_loop X ev None sequence_numbers,
      (case commit_count of
         None \<Rightarrow> Ok ()
       | Some n \<Rightarrow> checks
           [reject_if (n \<noteq> length sequence_numbers) (outbox_evidence_error X ev
              ''commit-count must match sequence-numbers in lineage drain summary''),
            reject_if (n \<noteq> length commit_hashes) (outbox_evidence_error X ev
              ''commit-count must match commit-hashes in lineage drain summary'')]),
      reject_if (sequence_numbers \<noteq> [] \<and> length sequence_numbers \<noteq> length commit_hashes)
        (outbox_evidence_error X ev ''sequence-numbers must match commit-hashes in lineage drain summary'')]"

definition validate_lineage_summary_stats_fields ::
  "evidence_api \<Rightarrow> OutboxEvent \<Rightarrow> json \<Rightarrow> string list \<Rightarrow> unit result" where
  "validate_lineage_summary_stats_fields X ev payload effective_stats =
     (if jget payload ''stats-fields'' = None then Ok ()
      else
        and_then (lineage_summary_string_array_field X ev payload ''stats-fields'') (\<lambda>stats_fields.
        if stats_fields = [] then
          Err (outbox_evidence_error X ev ''stats-fields must not be empty when present'')
        else validate_effective_evidence_subset X ev ''lineage drain summary stats-fields'' stats_fields
               ''effective-stats-fields'' effective_stats True))"

definition validate_lineage_summary_commit_history_receipt_shape ::
  "evidence_api \<Rightarrow> OutboxEvent \<Rightarrow> json \<Rightarrow> json option \<Rightarrow> unit result" where
  "validate_lineage_summary_commit_history_receipt_shape X ev payload authorization_receipt =
     (if oe_event_type ev \<noteq> ''table.commits-listed'' \<or> authorization_receipt = None then Ok ()
      else validate_authorization_receipt_principal X ev payload ''table commit-history'')"

subsection \<open>Filters and configuration\<close>

definition scan_event_types :: "string list" where
  "scan_event_types = [''table.scan-planned'', ''table.scan-tasks-fetched'']"

definition lineage_summary_required_filters :: "evidence_api \<Rightarrow> OutboxEvent \<Rightarrow> json \<Rightarrow> json list result" where
  "lineage_summary_required_filters X ev payload =
     and_then (optional_array_field X ev payload ''required-filters'') (\<lambda>filters.
     let scan = (oe_event_type ev \<in> set scan_event_types); label = ''lineage drain '' @ oe_event_type ev in
     case filters of
       None \<Rightarrow>
         if scan \<and> jget payload ''read-restriction'' \<noteq> None then
           Err (outbox_evidence_error X ev (label @ '' required-filters must be an array''))
         else Ok []
     | Some fs \<Rightarrow>
         and_then (if scan then validate_scan_required_filters_match_row_predicate X ev payload label else Ok ())
           (\<lambda>_. Ok fs))"

definition config_entry_from_json :: "json \<Rightarrow> ConfigEntry option" where
  "config_entry_from_json v =
     (case struct_fields False [''key'', ''value''] v of
        Some [k, w] \<Rightarrow> (case (as_str k, as_str w) of
            (Some key, Some value) \<Rightarrow> Some \<lparr>ce_key = key, ce_value = value\<rparr> | _ \<Rightarrow> None)
      | _ \<Rightarrow> None)"

definition config_entries_from_json :: "json \<Rightarrow> ConfigEntry list option" where
  "config_entries_from_json v =
     Option.bind (as_array v) (\<lambda>xs.
     if list_all (\<lambda>x. config_entry_from_json x \<noteq> None) xs
     then Some (map (\<lambda>x. the (config_entry_from_json x)) xs) else None)"

definition lineage_summary_config_entries ::
  "evidence_api \<Rightarrow> OutboxEvent \<Rightarrow> json \<Rightarrow> string \<Rightarrow> string \<Rightarrow> ConfigEntry list result" where
  "lineage_summary_config_entries X ev payload field label =
     (case jget payload field of
        None \<Rightarrow> Ok []
      | Some entries \<Rightarrow>
          if entries = JNull then Ok []
          else
            and_then (validate_catalog_config_entries X ev entries label) (\<lambda>_.
            require_field X ev (label @ '' must match ConfigEntry JSON shape: '' @
                ea_serde_error X ''Vec<ConfigEntry>'' entries) (config_entries_from_json entries)))"

end
