(* ===== verification/DrainSummary.thy ===== *)
theory DrainSummary
  imports LineageSummary
begin

section \<open>Summaries of drained events: the summary\<close>

text \<open>
  The rest of \<open>crates/lakecat-service/src/lineage_summary.rs\<close>: storage profiles, credentials, the
  summary itself and the authorization a drain attaches to its response. The fields of a summary
  that no code reads again are a list, each with the way Serde writes it.
\<close>

subsection \<open>Storage profiles\<close>

record LineageSummaryStorageProfile =
  lsp_profile_id :: string
  lsp_provider :: string
  lsp_issuance_mode :: string
  lsp_location_prefix_hash :: string
  lsp_secret_ref_present :: bool
  lsp_secret_ref_provider :: "string option"
  lsp_secret_ref_hash :: "string option"

definition profile_summary_label :: string where
  "profile_summary_label = ''lineage drain storage-profile summary''"

definition summary_profile :: "evidence_api \<Rightarrow> OutboxEvent \<Rightarrow> json \<Rightarrow> LineageSummaryStorageProfile result" where
  "summary_profile X ev storage_profile =
     (let label = profile_summary_label;
          required = (\<lambda>field. required_string_field X ev storage_profile field label) in
      and_then (checks
        [validate_storage_profile_evidence_schema X ev storage_profile label,
         validate_storage_profile_public_config_evidence X ev storage_profile label,
         validate_required_full_hash_field X ev storage_profile ''location-prefix-hash'',
         validate_secret_ref_evidence X ev storage_profile label,
         validate_storage_profile_provider_mode_evidence X ev storage_profile label]) (\<lambda>_.
      and_then (required ''profile-id'') (\<lambda>profile_id.
      and_then (required ''provider'') (\<lambda>provider.
      and_then (required ''issuance-mode'') (\<lambda>issuance_mode.
      and_then (required ''location-prefix-hash'') (\<lambda>location_prefix_hash.
      Ok \<lparr>lsp_profile_id = profile_id, lsp_provider = provider, lsp_issuance_mode = issuance_mode,
          lsp_location_prefix_hash = location_prefix_hash,
          lsp_secret_ref_present = (field_bool storage_profile ''secret-ref-present'' = Some True),
          lsp_secret_ref_provider = field_str storage_profile ''secret-ref-provider'',
          lsp_secret_ref_hash = field_str storage_profile ''secret-ref-hash''\<rparr>))))))"

definition lineage_summary_storage_profile ::
  "evidence_api \<Rightarrow> OutboxEvent \<Rightarrow> json option \<Rightarrow> LineageSummaryStorageProfile option result" where
  "lineage_summary_storage_profile X ev storage_profile =
     (case storage_profile of None \<Rightarrow> Ok None | Some p \<Rightarrow> map_ok Some (summary_profile X ev p))"

definition validate_lineage_summary_credential_secret_ref_presence ::
  "evidence_api \<Rightarrow> OutboxEvent \<Rightarrow> json \<Rightarrow> LineageSummaryStorageProfile option \<Rightarrow> unit result" where
  "validate_lineage_summary_credential_secret_ref_presence X ev payload storage_profile =
     (if oe_event_type ev \<notin> {''credentials.vend-attempted'', ''credentials.summary-only''} then Ok ()
      else case storage_profile of
        None \<Rightarrow> Ok ()
      | Some p \<Rightarrow> validate_required_bool_field_equals X ev payload ''secret-ref-present''
                    (lsp_secret_ref_present p) ''lineage drain credential summary'')"

subsection \<open>Credentials\<close>

definition lineage_summary_credential_prefix_hashes ::
  "evidence_api \<Rightarrow> OutboxEvent \<Rightarrow> json \<Rightarrow> string list result" where
  "lineage_summary_credential_prefix_hashes X ev payload =
     and_then (present_array_field X ev payload ''credential-response-evidence'') (\<lambda>entries.
     and_then (require_field X ev ''lineage drain credential-response evidence must contain storage-profile''
                 (jget payload ''storage-profile'')) (\<lambda>storage_profile.
     and_then (traverse (validate_credential_response_entry_evidence X ev payload storage_profile) entries) (\<lambda>hashes.
     and_then (validate_unique_hash_array X ev hashes ''lineage drain credential-response prefix-hashes'') (\<lambda>_.
     Ok hashes))))"

definition validate_lineage_summary_credential_counts ::
  "evidence_api \<Rightarrow> OutboxEvent \<Rightarrow> nat option \<Rightarrow> string list \<Rightarrow> unit result" where
  "validate_lineage_summary_credential_counts X ev credential_count credential_prefix_hashes =
     reject_if (case credential_count of None \<Rightarrow> False | Some n \<Rightarrow> n \<noteq> length credential_prefix_hashes)
       (outbox_evidence_error X ev
          ''credential-count must match credential-response prefix-hashes in lineage drain summary'')"

definition raw_exception_name :: string where
  "raw_exception_name = ''lakecat:raw-credential-exception''"

definition exception_keys :: "evidence_api \<Rightarrow> OutboxEvent \<Rightarrow> json \<Rightarrow> unit result" where
  "exception_keys X ev raw_exception =
     (case raw_exception of
        JObj m \<Rightarrow> validate_keys X ev RAW_CREDENTIAL_EXCEPTION_EVIDENCE_FIELDS raw_exception_name (map fst m)
      | _ \<Rightarrow> Err (outbox_evidence_error X ev (raw_exception_name @ '' must be an object when present'')))"

definition exception_reason :: "evidence_api \<Rightarrow> OutboxEvent \<Rightarrow> json \<Rightarrow> string option result" where
  "exception_reason X ev raw_exception =
     (case jget raw_exception ''reason'' of
        None \<Rightarrow> Ok None
      | Some v \<Rightarrow>
          and_then (require_field X ev (raw_exception_name @ ''.reason must be a string when present'') (as_str v))
            (\<lambda>reason.
          if blank reason then Err (outbox_evidence_error X ev (raw_exception_name @ ''.reason must not be blank''))
          else Ok (Some reason)))"

definition exception_summary ::
  "evidence_api \<Rightarrow> OutboxEvent \<Rightarrow> json \<Rightarrow> nat option \<Rightarrow> string option \<Rightarrow>
     (bool option \<times> string option \<times> string option) result" where
  "exception_summary X ev raw_exception credential_count block_reason =
     and_then (exception_keys X ev raw_exception) (\<lambda>_.
     and_then (require_field X ev (raw_exception_name @ ''.allowed must be present'')
                 (jget raw_exception ''allowed'')) (\<lambda>v.
     and_then (require_field X ev (raw_exception_name @ ''.allowed must be boolean when present'') (as_bool v)) (\<lambda>allowed.
     and_then (exception_reason X ev raw_exception) (\<lambda>reason.
     if allowed then
       (if block_reason \<noteq> None then
          Err (outbox_evidence_error X ev
            ''lakecat:credential-block-reason must be absent when raw credentials are allowed'')
        else Ok (Some True, reason, None))
     else if (case credential_count of None \<Rightarrow> False | Some n \<Rightarrow> n \<noteq> 0) then
       Err (outbox_evidence_error X ev ''blocked raw-credential exception must not carry credentials'')
     else
       and_then (require_field X ev ''blocked raw-credential exception must carry non-empty reason'' reason) (\<lambda>why.
       and_then (require_field X ev ''blocked credential evidence must contain block reason'' block_reason) (\<lambda>block.
       if block \<noteq> why then
         Err (outbox_evidence_error X ev ''credential block reason must match raw-credential exception reason'')
       else Ok (Some False, None, Some block)))))))"

definition lineage_summary_credential_exception_fields ::
  "evidence_api \<Rightarrow> OutboxEvent \<Rightarrow> json \<Rightarrow> nat option \<Rightarrow> (bool option \<times> string option \<times> string option) result" where
  "lineage_summary_credential_exception_fields X ev payload credential_count =
     and_then (lineage_summary_optional_nonblank_string_field X ev payload ''lakecat:credential-block-reason'') (\<lambda>block_reason.
     and_then (validate_raw_credential_exception_receipt_match X ev payload) (\<lambda>_.
     case jget payload ''lakecat:raw-credential-exception'' of
       None \<Rightarrow> Ok (None, None, block_reason)
     | Some raw_exception \<Rightarrow> exception_summary X ev raw_exception credential_count block_reason))"

definition lineage_summary_authorization_principal_fields ::
  "evidence_api \<Rightarrow> OutboxEvent \<Rightarrow> json option \<Rightarrow> (string option \<times> string option) result" where
  "lineage_summary_authorization_principal_fields X ev authorization_receipt =
     (case Option.bind authorization_receipt (\<lambda>r. jget r ''principal'') of
        None \<Rightarrow> Ok (None, None)
      | Some p \<Rightarrow>
          and_then (lineage_summary_optional_nonblank_string_field X ev p ''subject'') (\<lambda>subject.
          and_then (lineage_summary_optional_nonblank_string_field X ev p ''kind'') (\<lambda>kind.
          Ok (subject, kind))))"

subsection \<open>The validators a summary runs again\<close>

definition summary_validators ::
  "(string list \<times> (evidence_api \<Rightarrow> OutboxEvent \<Rightarrow> json \<Rightarrow> unit result)) list" where
  "summary_validators =
     [([''table.commit''], \<lambda>X ev _. validate_table_commit_hash_evidence X ev),
      ([''credentials.vend-attempted''], validate_credential_vend_event_evidence),
      ([''catalog.config-read''], validate_catalog_config_read_event_evidence),
      ([''storage-profile.upserted''], validate_storage_profile_upsert_event_evidence),
      ([''policy-binding.upserted''], validate_policy_binding_upsert_event_evidence),
      ([''project.upserted''], validate_project_upsert_event_evidence),
      ([''server.upserted''], validate_server_upsert_event_evidence),
      ([''warehouse.upserted''], validate_warehouse_upsert_event_evidence),
      ([''policy-binding.listed'', ''project.listed'', ''server.listed'', ''storage-profile.listed'',
        ''warehouse.listed''], validate_management_list_event_evidence),
      ([''namespace.listed''], validate_namespace_list_event_evidence),
      ([''namespace.created'', ''namespace.dropped'', ''namespace.loaded'', ''namespace.properties-updated''],
       validate_namespace_lifecycle_event_evidence),
      ([''table.created'', ''table.registered'', ''table.loaded'', ''table.deleted'', ''table.restored''],
       validate_table_lifecycle_event_evidence),
      ([''table.renamed''], validate_table_rename_event_evidence),
      ([''view.listed''], validate_view_list_event_evidence),
      ([''view.upserted'', ''view.loaded'', ''view.dropped''], validate_view_lifecycle_event_evidence),
      ([''querygraph.bootstrap''], validate_querygraph_bootstrap_event_evidence)]"

definition validate_lineage_summary_table_operation_event_evidence ::
  "evidence_api \<Rightarrow> OutboxEvent \<Rightarrow> json \<Rightarrow> unit result" where
  "validate_lineage_summary_table_operation_event_evidence X ev payload =
     (if oe_event_type ev = ''table.commits-listed'' then validate_table_commit_history_event_evidence X ev payload
      else if oe_event_type ev = ''table.scan-planned'' then validate_scan_planned_event_evidence X ev payload
      else if oe_event_type ev = ''table.scan-tasks-fetched'' then
        validate_scan_tasks_fetched_event_evidence X ev payload
      else Ok ())"

definition validate_lineage_summary_view_receipt_event_evidence ::
  "evidence_api \<Rightarrow> OutboxEvent \<Rightarrow> json \<Rightarrow> unit result" where
  "validate_lineage_summary_view_receipt_event_evidence X ev payload =
     (if oe_event_type ev = ''view.version-receipts-listed'' then
        validate_view_receipt_list_event_evidence X ev payload
      else if oe_event_type ev = ''view.version-receipt-chains-listed'' then
        validate_view_receipt_chain_event_evidence X ev payload
      else Ok ())"

subsection \<open>How Serde writes a field\<close>

text \<open>A field skipped when it is \<open>None\<close>, one skipped when it is empty, and one always written.\<close>

type_synonym summary_entry = "string \<times> json option result"

definition opt_entry :: "string \<Rightarrow> ('a \<Rightarrow> json) \<Rightarrow> 'a option result \<Rightarrow> summary_entry" where
  "opt_entry name f r = (name, map_ok (map_option f) r)"

definition vec_entry :: "string \<Rightarrow> ('a \<Rightarrow> json) \<Rightarrow> 'a list result \<Rightarrow> summary_entry" where
  "vec_entry name f r = (name, map_ok (\<lambda>xs. if xs = [] then None else Some (JArr (map f xs))) r)"

definition full_entry :: "string \<Rightarrow> ('a \<Rightarrow> json) \<Rightarrow> 'a result \<Rightarrow> summary_entry" where
  "full_entry name f r = (name, map_ok (\<lambda>x. Some (f x)) r)"

definition written_fields :: "(string \<times> json option) list \<Rightarrow> (string \<times> json) list" where
  "written_fields entries = List.map_filter (\<lambda>(name, v). map_option (Pair name) v) entries"

definition entry_fields :: "summary_entry list \<Rightarrow> (string \<times> json) list result" where
  "entry_fields entries = map_ok written_fields (traverse (\<lambda>(name, r). map_ok (Pair name) r) entries)"

text \<open>\<open>payload.get(field).map(..).transpose()?.unwrap_or_default()\<close>, and \<open>x.map(..).transpose()?.flatten()\<close>.\<close>

definition when_present :: "json \<Rightarrow> string \<Rightarrow> (json \<Rightarrow> string \<Rightarrow> 'a list result) \<Rightarrow> 'a list result" where
  "when_present payload field f = (if jget payload field \<noteq> None then f payload field else Ok [])"

definition opt_map :: "json option \<Rightarrow> (json \<Rightarrow> 'a option result) \<Rightarrow> 'a option result" where
  "opt_map x f = (case x of None \<Rightarrow> Ok None | Some v \<Rightarrow> f v)"

abbreviation jnat :: "nat \<Rightarrow> json" where
  "jnat n \<equiv> JInt (int n)"

abbreviation jvals :: "('a \<Rightarrow> json) \<Rightarrow> 'a list \<Rightarrow> json" where
  "jvals f xs \<equiv> JArr (map f xs)"

subsection \<open>The values read before the summary is built\<close>

record summary_view =
  sv_warehouse :: "string option"
  sv_namespace :: "string list"
  sv_name :: "string option"
  sv_version :: "64 word option"
  sv_expected_version :: "64 word option"
  sv_receipt_hashes :: "string list"
  sv_chain_hashes :: "string list"
  sv_chains :: "ViewVersionReceiptChainResponse list"
  sv_verified_count :: nat

definition read_summary_view :: "evidence_api \<Rightarrow> OutboxEvent \<Rightarrow> json \<Rightarrow> summary_view result" where
  "read_summary_view X ev payload =
     (let view = jget payload ''view'';
          of_view = (\<lambda>field other. case Option.bind view (\<lambda>v. jget v field) of
                Some v \<Rightarrow> Some v | None \<Rightarrow> jget payload other) in
      and_then (lineage_summary_optional_nonblank_string_value X ev (of_view ''warehouse'' ''warehouse'')
                  ''view warehouse'') (\<lambda>warehouse.
      and_then (lineage_summary_namespace_parts X ev (of_view ''namespace'' ''namespace'') ''view namespace'') (\<lambda>ns.
      and_then (lineage_summary_optional_nonblank_string_value X ev (of_view ''name'' ''view'') ''view name'') (\<lambda>name.
      and_then (opt_map view (\<lambda>v.
                  if jget v ''view-version'' = None then Ok None
                  else map_ok Some (lineage_summary_positive_u64_field X ev v ''view-version''))) (\<lambda>version.
      and_then (opt_map (jget payload ''expected-view-version'') (\<lambda>v.
                  if v = JNull then Ok None
                  else map_ok Some (lineage_summary_positive_u64_field X ev payload ''expected-view-version'')))
        (\<lambda>expected_version.
      and_then (lineage_summary_view_receipt_hashes X ev payload) (\<lambda>receipt_hashes.
      and_then (lineage_summary_view_receipt_chain_hashes X ev payload) (\<lambda>chain_hashes.
      and_then (lineage_summary_view_receipt_chains X ev payload) (\<lambda>receipt_chains.
      and_then (lineage_summary_view_receipt_chain_verified_count X ev payload receipt_chains) (\<lambda>verified_count.
      Ok \<lparr>sv_warehouse = warehouse, sv_namespace = ns, sv_name = name, sv_version = version,
          sv_expected_version = expected_version, sv_receipt_hashes = receipt_hashes,
          sv_chain_hashes = chain_hashes, sv_chains = receipt_chains,
          sv_verified_count = verified_count\<rparr>))))))))))"

definition summary_view_stable_id :: "summary_view \<Rightarrow> string option" where
  "summary_view_stable_id v =
     (case (sv_warehouse v, sv_name v) of
        (Some warehouse, Some name) \<Rightarrow>
          if sv_namespace v = [] then None
          else Some (''lakecat:view:'' @ warehouse @ '':'' @ join_with ''.'' (sv_namespace v) @ '':'' @ name)
      | _ \<Rightarrow> None)"

record summary_read =
  sr_profile :: "LineageSummaryStorageProfile option"
  sr_receipt :: "json option"
  sr_credential_prefix_hashes :: "string list"
  sr_credential_count :: "nat option"
  sr_exception :: "bool option \<times> string option \<times> string option"
  sr_principal :: "string option \<times> string option"
  sr_commit_count :: "nat option"
  sr_sequence_numbers :: "64 word list"
  sr_commit_hashes :: "string list"
  sr_requested_stats :: "string list"
  sr_effective_stats :: "string list"

definition summary_receipt :: "json \<Rightarrow> json option" where
  "summary_receipt payload =
     (case jget payload ''authorization-receipt'' of
        Some r \<Rightarrow> Some r
      | None \<Rightarrow> jpointer payload [''payload'', ''authorization-receipt''])"

definition summary_identity :: "json option \<Rightarrow> json option" where
  "summary_identity receipt =
     (case Option.bind receipt (\<lambda>r. jget r ''request-identity'') of
        Some v \<Rightarrow> Some v
      | None \<Rightarrow> Option.bind (Option.bind receipt (\<lambda>r. jget r ''context'')) (\<lambda>c. jget c ''request-identity''))"

definition read_summary :: "evidence_api \<Rightarrow> OutboxEvent \<Rightarrow> json \<Rightarrow> summary_read result" where
  "read_summary X ev payload =
     (let receipt = summary_receipt payload in
      and_then (lineage_summary_storage_profile X ev (jget payload ''storage-profile'')) (\<lambda>storage_profile.
      and_then (validate_lineage_summary_credential_secret_ref_presence X ev payload storage_profile) (\<lambda>_.
      and_then (validate_lineage_summary_commit_history_receipt_shape X ev payload receipt) (\<lambda>_.
      and_then (when_present payload ''credential-response-evidence''
                  (\<lambda>p _. lineage_summary_credential_prefix_hashes X ev p)) (\<lambda>prefix_hashes.
      and_then (lineage_summary_optional_count_alias_field X ev payload [''credential-count'']) (\<lambda>credential_count.
      and_then (validate_lineage_summary_credential_counts X ev credential_count prefix_hashes) (\<lambda>_.
      and_then (lineage_summary_credential_exception_fields X ev payload credential_count) (\<lambda>raw_exception.
      and_then (lineage_summary_authorization_principal_fields X ev receipt) (\<lambda>p.
      and_then (if jget payload ''plan-task'' \<noteq> None
                then validate_plan_task_evidence X ev (jget payload ''plan-task'') ''lineage drain summary''
                else Ok ()) (\<lambda>_.
      and_then (lineage_summary_optional_count_alias_field X ev payload [''commit-count'']) (\<lambda>commit_count.
      and_then (when_present payload ''sequence-numbers'' (lineage_summary_u64_array_field X ev)) (\<lambda>sequence_numbers.
      and_then (when_present payload ''commit-hashes'' (lineage_summary_full_hash_array_field X ev)) (\<lambda>commit_hashes.
      and_then (validate_lineage_summary_commit_history_counts X ev commit_count sequence_numbers commit_hashes) (\<lambda>_.
      and_then (when_present payload ''requested-stats-fields'' (lineage_summary_string_array_field X ev)) (\<lambda>requested.
      and_then (when_present payload ''effective-stats-fields'' (lineage_summary_string_array_field X ev)) (\<lambda>effective.
      and_then (validate_lineage_summary_stats_fields X ev payload effective) (\<lambda>_.
      Ok \<lparr>sr_profile = storage_profile, sr_receipt = receipt, sr_credential_prefix_hashes = prefix_hashes,
          sr_credential_count = credential_count, sr_exception = raw_exception, sr_principal = p,
          sr_commit_count = commit_count, sr_sequence_numbers = sequence_numbers,
          sr_commit_hashes = commit_hashes, sr_requested_stats = requested,
          sr_effective_stats = effective\<rparr>)))))))))))))))))"

subsection \<open>The fields of the summary\<close>

definition config_entries_of :: "evidence_api \<Rightarrow> OutboxEvent \<Rightarrow> json \<Rightarrow> summary_entry list" where
  "config_entries_of X ev payload =
     [vec_entry ''catalog-config-defaults'' config_entry_json
        (lineage_summary_config_entries X ev payload ''defaults'' ''lineage drain catalog config defaults''),
      vec_entry ''catalog-config-overrides'' config_entry_json
        (lineage_summary_config_entries X ev payload ''overrides'' ''lineage drain catalog config overrides''),
      vec_entry ''catalog-config-endpoints'' JStr
        (when_present payload ''endpoints'' (lineage_summary_string_array_field X ev))]"

definition authorization_entries :: "evidence_api \<Rightarrow> OutboxEvent \<Rightarrow> json \<Rightarrow> summary_read \<Rightarrow> summary_entry list" where
  "authorization_entries X ev payload r =
     (let identity = summary_identity (sr_receipt r);
          identity_str = (\<lambda>field. opt_map identity (\<lambda>v. lineage_summary_optional_nonblank_string_field X ev v field));
          identity_hash = (\<lambda>field. opt_map identity (\<lambda>v. lineage_summary_optional_full_hash_field X ev v field)) in
      [opt_entry ''principal-subject'' JStr (Ok (fst (sr_principal r))),
       opt_entry ''principal-kind'' JStr (Ok (snd (sr_principal r))),
       opt_entry ''authorization-receipt-hash'' JStr
         (Ok (Option.bind (jget payload ''authorization-receipt'') (\<lambda>v.
            case content_hash_json (ea_env X) v of Inl _ \<Rightarrow> None | Inr h \<Rightarrow> Some h))),
       opt_entry ''authorization-receipt-action'' JStr
         (opt_map (sr_receipt r) (\<lambda>v. lineage_summary_optional_nonblank_string_field X ev v ''action'')),
       opt_entry ''request-identity-state'' JStr (identity_str ''attestation-state''),
       opt_entry ''request-identity-source'' JStr (identity_str ''source''),
       opt_entry ''typedid-envelope-hash'' JStr (identity_hash ''typedid-envelope-sha256''),
       opt_entry ''typedid-proof-hash'' JStr (identity_hash ''typedid-proof-sha256''),
       opt_entry ''agent-delegation-hash'' JStr (identity_hash ''agent-delegation-sha256''),
       opt_entry ''agent-summary-signature-hash'' JStr (identity_hash ''agent-summary-signature-sha256'')])"

definition bundle_entries :: "evidence_api \<Rightarrow> OutboxEvent \<Rightarrow> json \<Rightarrow> summary_entry list" where
  "bundle_entries X ev payload =
     (let hash = (\<lambda>field. opt_entry field JStr (lineage_summary_optional_full_hash_field X ev payload field)) in
      [hash ''bundle-hash'', hash ''graph-hash'', hash ''open-lineage-hash'', hash ''querygraph-import-hash'',
       full_entry ''table-artifact-count'' jnat (lineage_summary_array_len_field X ev payload ''table-artifacts''),
       full_entry ''view-artifact-count'' jnat (lineage_summary_array_len_field X ev payload ''view-artifacts'')])"

definition view_entries :: "summary_view \<Rightarrow> summary_entry list" where
  "view_entries v =
     [full_entry ''view-version-receipt-hashes'' jstrs (Ok (sv_receipt_hashes v)),
      full_entry ''view-version-receipt-chain-hashes'' jstrs (Ok (sv_chain_hashes v)),
      full_entry ''view-version-receipt-chain-verified-count'' jnat (Ok (sv_verified_count v)),
      vec_entry ''view-version-receipt-chains'' view_version_receipt_chain_json (Ok (sv_chains v)),
      opt_entry ''view-warehouse'' JStr (Ok (sv_warehouse v)),
      full_entry ''view-namespace'' jstrs (Ok (sv_namespace v)),
      opt_entry ''view-name'' JStr (Ok (sv_name v)),
      opt_entry ''view-stable-id'' JStr (Ok (summary_view_stable_id v)),
      opt_entry ''view-version'' ju64 (Ok (sv_version v)),
      opt_entry ''expected-view-version'' ju64 (Ok (sv_expected_version v))]"

definition counted_entry ::
  "evidence_api \<Rightarrow> OutboxEvent \<Rightarrow> json \<Rightarrow> string \<Rightarrow> string list \<Rightarrow> summary_entry" where
  "counted_entry X ev payload field count_fields =
     vec_entry field JStr
       (when_present payload field (\<lambda>p f. lineage_summary_counted_string_array_field X ev p f count_fields))"

definition count_entry :: "evidence_api \<Rightarrow> OutboxEvent \<Rightarrow> json \<Rightarrow> string \<Rightarrow> summary_entry" where
  "count_entry X ev payload field =
     opt_entry field jnat (lineage_summary_optional_count_alias_field X ev payload [field])"

definition management_entries :: "evidence_api \<Rightarrow> OutboxEvent \<Rightarrow> json \<Rightarrow> summary_read \<Rightarrow> summary_entry list" where
  "management_entries X ev payload r =
     (let policy = jget payload ''policy'';
          policy_counts = [''policy-binding-count'', ''policy-count''];
          profile = (\<lambda>f. Ok (map_option f (sr_profile r))) in
      [full_entry ''policy-binding-count'' (\<lambda>n. jnat (case n of None \<Rightarrow> 0 | Some k \<Rightarrow> k))
         (lineage_summary_optional_count_alias_field X ev payload policy_counts),
       counted_entry X ev payload ''policy-ids'' policy_counts,
       opt_entry ''policy-id'' JStr
         (opt_map policy (\<lambda>v. lineage_summary_optional_nonblank_string_field X ev v ''policy-id'')),
       opt_entry ''policy-odrl-hash'' JStr
         (opt_map policy (\<lambda>v. lineage_summary_optional_full_hash_field X ev v ''odrl-hash'')),
       count_entry X ev payload ''project-count'',
       counted_entry X ev payload ''project-ids'' [''project-count''],
       count_entry X ev payload ''server-count'',
       counted_entry X ev payload ''server-ids'' [''server-count''],
       count_entry X ev payload ''storage-profile-count'',
       counted_entry X ev payload ''storage-profile-ids'' [''storage-profile-count''],
       opt_entry ''storage-profile-id'' JStr (profile lsp_profile_id),
       opt_entry ''storage-profile-provider'' JStr (profile lsp_provider),
       opt_entry ''storage-profile-issuance-mode'' JStr (profile lsp_issuance_mode),
       opt_entry ''storage-profile-location-prefix-hash'' JStr (profile lsp_location_prefix_hash),
       opt_entry ''storage-profile-secret-ref-present'' JBool (Ok (map_option lsp_secret_ref_present (sr_profile r))),
       opt_entry ''storage-profile-secret-ref-provider'' JStr
         (Ok (Option.bind (sr_profile r) lsp_secret_ref_provider)),
       opt_entry ''storage-profile-secret-ref-hash'' JStr (Ok (Option.bind (sr_profile r) lsp_secret_ref_hash)),
       count_entry X ev payload ''warehouse-count'',
       counted_entry X ev payload ''warehouse-names'' [''warehouse-count'']])"

definition scan_entries :: "evidence_api \<Rightarrow> OutboxEvent \<Rightarrow> json \<Rightarrow> summary_read \<Rightarrow> summary_entry list" where
  "scan_entries X ev payload r =
     (let strings = (\<lambda>field. vec_entry field JStr
                       (when_present payload field (lineage_summary_string_array_field X ev))) in
      [opt_entry ''table-commit-count'' jnat (Ok (sr_commit_count r)),
       full_entry ''table-commit-sequence-numbers'' (jvals ju64) (Ok (sr_sequence_numbers r)),
       full_entry ''table-commit-hashes'' jstrs (Ok (sr_commit_hashes r)),
       count_entry X ev payload ''scan-task-count'',
       count_entry X ev payload ''file-scan-task-count'',
       count_entry X ev payload ''delete-file-count'',
       count_entry X ev payload ''child-plan-task-count'',
       opt_entry ''read-restriction'' (\<lambda>v. v) (Ok (jget payload ''read-restriction'')),
       strings ''required-projection'', strings ''requested-projection'', strings ''effective-projection'',
       vec_entry ''required-filters'' (\<lambda>v. v) (lineage_summary_required_filters X ev payload),
       vec_entry ''requested-stats-fields'' JStr (Ok (sr_requested_stats r)),
       vec_entry ''effective-stats-fields'' JStr (Ok (sr_effective_stats r)),
       opt_entry ''management-scope-project-id'' JStr
         (lineage_summary_optional_nonblank_string_field X ev payload ''project-id''),
       opt_entry ''management-scope-warehouse'' JStr
         (lineage_summary_optional_nonblank_string_field X ev payload ''warehouse''),
       full_entry ''standards'' jstrs
         (when_present payload ''standards'' (lineage_summary_string_array_field X ev))])"

definition credential_entries :: "summary_read \<Rightarrow> summary_entry list" where
  "credential_entries r =
     (let (allowed, reason, block_reason) = sr_exception r in
      [opt_entry ''credential-count'' jnat (Ok (sr_credential_count r)),
       vec_entry ''credential-prefix-hashes'' JStr (Ok (sr_credential_prefix_hashes r)),
       opt_entry ''credential-block-reason'' JStr (Ok block_reason),
       opt_entry ''raw-credential-exception-allowed'' JBool (Ok allowed),
       opt_entry ''raw-credential-exception-reason'' JStr (Ok reason)])"

definition summary_other_fields :: "evidence_api \<Rightarrow> OutboxEvent \<Rightarrow> (string \<times> json) list result" where
  "summary_other_fields X ev =
     (let payload = evidence_payload ev in
      and_then (run_typed_validators summary_validators X ev payload) (\<lambda>_.
      and_then (read_summary_view X ev payload) (\<lambda>v.
      and_then (read_summary X ev payload) (\<lambda>r.
      entry_fields (config_entries_of X ev payload @ authorization_entries X ev payload r @
        bundle_entries X ev payload @ view_entries v @ management_entries X ev payload r @
        scan_entries X ev payload r @ credential_entries r)))))"

definition lineage_drain_event_summary ::
  "evidence_api \<Rightarrow> OutboxEvent \<Rightarrow> OutboxProjectionReceipt \<Rightarrow> LineageDrainEventSummary result" where
  "lineage_drain_event_summary X ev receipt =
     and_then (summary_other_fields X ev) (\<lambda>others.
     and_then (checks
       [validate_lineage_summary_table_operation_event_evidence X ev (evidence_payload ev),
        validate_lineage_summary_view_receipt_event_evidence X ev (evidence_payload ev)]) (\<lambda>_.
     Ok \<lparr>ls_event_id = oe_event_id ev, ls_event_type = oe_event_type ev,
         ls_graph_events = op_graph_events receipt, ls_lineage_events = op_lineage_events receipt,
         ls_other_fields = others, ls_replay_event_hashes = op_lineage_event_hashes receipt,
         ls_replay_open_lineage_hashes = op_open_lineage_hashes receipt\<rparr>))"

lemma drain_event_summary_fields:
  assumes "lineage_drain_event_summary X ev receipt = Ok summary"
  shows "ls_event_id summary = oe_event_id ev" "ls_event_type summary = oe_event_type ev"
    "ls_graph_events summary = op_graph_events receipt" "ls_lineage_events summary = op_lineage_events receipt"
    "ls_replay_event_hashes summary = op_lineage_event_hashes receipt"
    "ls_replay_open_lineage_hashes summary = op_open_lineage_hashes receipt"
  using assms by (auto simp: lineage_drain_event_summary_def and_then_ok)

subsection \<open>The authorization of the drain\<close>

definition attach_lineage_drain_authorization ::
  "env \<Rightarrow> LineageDrainResponse \<Rightarrow> AuthorizationReceipt \<Rightarrow> LineageDrainResponse result" where
  "attach_lineage_drain_authorization E response receipt =
     (let receipt_value = authorization_receipt_json E receipt;
          identity = jget (ar_context receipt) ''request-identity'';
          identity_str = (\<lambda>field. Option.bind (Option.bind identity (\<lambda>v. jget v field)) as_str) in
      and_then (content_hash_json E receipt_value) (\<lambda>hash.
      Ok (response\<lparr>ld_principal_subject := Some (pr_subject (ar_principal receipt)),
           ld_principal_kind := Option.bind (jpointer receipt_value [''principal'', ''kind'']) as_str,
           ld_authorization_receipt_hash := Some hash,
           ld_authorization_receipt_action := field_str receipt_value ''action'',
           ld_request_identity_state := identity_str ''attestation-state'',
           ld_request_identity_source := identity_str ''source'',
           ld_typedid_envelope_hash := identity_str ''typedid-envelope-sha256'',
           ld_typedid_proof_hash := identity_str ''typedid-proof-sha256''\<rparr>)))"

end
