(* ===== verification/OutboxProjection.thy ===== *)
theory OutboxProjection
  imports SinkEvents OutboxEvidence HandleTables DrainSummary
begin

section \<open>What the drain reads from an outbox event\<close>

text \<open>
  The readers of \<open>crates/lakecat-service/src/outbox.rs\<close>: the identities a projection takes from the
  payload of an event. An audit event carries its payload under \<open>payload\<close>; each reader looks there
  first and then at the event itself. What serde says of a value it refuses is a field of
  \<open>evidence_api\<close>.
\<close>

definition outbox_event_hash :: "evidence_api \<Rightarrow> OutboxEvent \<Rightarrow> string" where
  "outbox_event_hash X ev = content_hash_bytes (ea_env X) (oe_event_id ev)"

definition outbox_internal :: "evidence_api \<Rightarrow> OutboxEvent \<Rightarrow> string \<Rightarrow> error" where
  "outbox_internal X ev message = Internal (''outbox event hash '' @ outbox_event_hash X ev @ message)"

text \<open>
  \<open>event.payload.get("payload").and_then(|p| p.get(field)).or_else(|| event.payload.get(field))\<close>;
  \<open>or_else\<close> of two optional values; and a warehouse with its default.
\<close>

definition either_field :: "OutboxEvent \<Rightarrow> string \<Rightarrow> json option" where
  "either_field ev field =
     or_else (Option.bind (jget (oe_payload ev) ''payload'') (\<lambda>p. jget p field)) (jget (oe_payload ev) field)"

definition warehouse_or_default :: "json option \<Rightarrow> WarehouseName \<Rightarrow> WarehouseName result" where
  "warehouse_or_default value default_warehouse =
     (case Option.bind value as_str of
        None \<Rightarrow> Ok default_warehouse
      | Some s \<Rightarrow> warehouse_name_new s)"

definition outbox_table :: "evidence_api \<Rightarrow> OutboxEvent \<Rightarrow> TableIdent option result" where
  "outbox_table X ev =
     (case jget (oe_payload ev) ''table'' of
        None \<Rightarrow> Ok None
      | Some JNull \<Rightarrow> Ok None
      | Some v \<Rightarrow>
          (case ident_from_json v of
             Some table \<Rightarrow> Ok (Some table)
           | None \<Rightarrow> Err (Internal (''failed to decode outbox table for event hash '' @ outbox_event_hash X ev @
                            '': '' @ ea_serde_error X ''TableIdent'' v))))"

definition outbox_namespace_part :: "evidence_api \<Rightarrow> OutboxEvent \<Rightarrow> string \<Rightarrow> json \<Rightarrow> string result" where
  "outbox_namespace_part X ev what v =
     ok_or (outbox_internal X ev (what @ '' components must be strings'')) (as_str v)"

definition outbox_namespace_value ::
  "evidence_api \<Rightarrow> OutboxEvent \<Rightarrow> string \<Rightarrow> string \<Rightarrow> json \<Rightarrow> Namespace result" where
  "outbox_namespace_value X ev what refusal v =
     (case v of
        JArr parts \<Rightarrow> and_then (traverse (outbox_namespace_part X ev what) parts) namespace_new
      | JStr path \<Rightarrow> namespace_from_str path
      | _ \<Rightarrow> Err (outbox_internal X ev (refusal @ '' must be an array or string'')))"

definition outbox_namespace :: "evidence_api \<Rightarrow> OutboxEvent \<Rightarrow> WarehouseName \<Rightarrow> (WarehouseName \<times> Namespace) result" where
  "outbox_namespace X ev default_warehouse =
     and_then (warehouse_or_default (either_field ev ''warehouse'') default_warehouse) (\<lambda>warehouse.
     and_then (ok_or (outbox_internal X ev '' is missing namespace payload'') (either_field ev ''namespace'')) (\<lambda>v.
     and_then (outbox_namespace_value X ev '' namespace'' '' namespace payload'' v) (\<lambda>ns.
     Ok (warehouse, ns))))"

definition outbox_policy_binding :: "evidence_api \<Rightarrow> OutboxEvent \<Rightarrow> WarehouseName \<Rightarrow> (WarehouseName \<times> string) result" where
  "outbox_policy_binding X ev default_warehouse =
     (let payload = evidence_payload ev in
      and_then (ok_or (outbox_internal X ev '' is missing policy payload'') (jget payload ''policy'')) (\<lambda>policy.
      and_then (warehouse_or_default (or_else (jget policy ''warehouse'') (jget payload ''warehouse'')) default_warehouse)
        (\<lambda>warehouse.
      and_then (ok_or (outbox_internal X ev '' policy payload is missing policy-id'')
                  (str_filter (\<lambda>s. s \<noteq> []) (field_str policy ''policy-id''))) (\<lambda>policy_id.
      Ok (warehouse, policy_id)))))"

definition outbox_record_id ::
  "evidence_api \<Rightarrow> OutboxEvent \<Rightarrow> string \<Rightarrow> string \<Rightarrow> string \<Rightarrow> string result" where
  "outbox_record_id X ev field record_field message =
     (let payload = evidence_payload ev in
      ok_or (outbox_internal X ev message)
        (str_filter (\<lambda>s. s \<noteq> [])
          (Option.bind (or_else (jget payload field) (Option.bind (jget payload record_field) (\<lambda>r. jget r field))) as_str)))"

definition outbox_project :: "evidence_api \<Rightarrow> OutboxEvent \<Rightarrow> string result" where
  "outbox_project X ev = outbox_record_id X ev ''project-id'' ''project-record'' '' is missing project payload''"

definition outbox_server :: "evidence_api \<Rightarrow> OutboxEvent \<Rightarrow> string result" where
  "outbox_server X ev = outbox_record_id X ev ''server-id'' ''server-record'' '' is missing server payload''"

definition outbox_storage_profile :: "evidence_api \<Rightarrow> OutboxEvent \<Rightarrow> WarehouseName \<Rightarrow> (WarehouseName \<times> string) result" where
  "outbox_storage_profile X ev default_warehouse =
     (let payload = evidence_payload ev; missing = outbox_internal X ev '' is missing storage profile payload'' in
      and_then (ok_or missing (jget payload ''storage-profile'')) (\<lambda>storage_profile.
      and_then (warehouse_or_default (or_else (jget storage_profile ''warehouse'') (jget payload ''warehouse''))
                  default_warehouse) (\<lambda>warehouse.
      and_then (ok_or missing (str_filter (\<lambda>s. s \<noteq> []) (field_str storage_profile ''profile-id''))) (\<lambda>profile_id.
      Ok (warehouse, profile_id)))))"

definition outbox_optional_storage_profile ::
  "OutboxEvent \<Rightarrow> WarehouseName \<Rightarrow> (WarehouseName \<times> string) option result" where
  "outbox_optional_storage_profile ev default_warehouse =
     (let payload = evidence_payload ev;
          of_profile = (\<lambda>field. Option.bind (jget payload ''storage-profile'') (\<lambda>p. jget p field)) in
      case str_filter (\<lambda>s. s \<noteq> [])
             (Option.bind (or_else (of_profile ''profile-id'') (jget payload ''storage-profile-id'')) as_str) of
        None \<Rightarrow> Ok None
      | Some profile_id \<Rightarrow>
          and_then (warehouse_or_default
                      (or_else (or_else (of_profile ''warehouse'') (jget payload ''warehouse''))
                         (Option.bind (jget payload ''table'') (\<lambda>t. jget t ''warehouse''))) default_warehouse)
            (\<lambda>warehouse. Ok (Some (warehouse, profile_id))))"

definition outbox_view ::
  "evidence_api \<Rightarrow> OutboxEvent \<Rightarrow> WarehouseName \<Rightarrow> (WarehouseName \<times> Namespace \<times> string) result" where
  "outbox_view X ev default_warehouse =
     (let payload = evidence_payload ev in
      and_then (ok_or (outbox_internal X ev '' is missing view payload'') (jget payload ''view'')) (\<lambda>view.
      and_then (warehouse_or_default (or_else (jget view ''warehouse'') (jget payload ''warehouse'')) default_warehouse)
        (\<lambda>warehouse.
      and_then (ok_or (outbox_internal X ev '' view payload is missing namespace'')
                  (or_else (jget view ''namespace'') (jget payload ''namespace''))) (\<lambda>v.
      and_then (outbox_namespace_value X ev '' view namespace'' '' view namespace'' v) (\<lambda>ns.
      and_then (ok_or (outbox_internal X ev '' view payload is missing name'')
                  (str_filter (\<lambda>s. s \<noteq> []) (field_str view ''name''))) (\<lambda>name.
      Ok (warehouse, ns, name)))))))"

definition outbox_warehouse :: "OutboxEvent \<Rightarrow> WarehouseName \<Rightarrow> WarehouseName result" where
  "outbox_warehouse ev default_warehouse = warehouse_or_default (either_field ev ''warehouse'') default_warehouse"

definition outbox_commit_sequence_number :: "evidence_api \<Rightarrow> OutboxEvent \<Rightarrow> 64 word result" where
  "outbox_commit_sequence_number X ev =
     and_then (ok_or (outbox_internal X ev '' is missing commit payload'') (either_field ev ''commit'')) (\<lambda>commit.
     ok_or (outbox_internal X ev '' commit payload is missing sequence number'')
       (Option.bind (or_else (jget commit ''sequence_number'') (jget commit ''sequence-number'')) as_u64))"

text \<open>The hashes have the length of the sequence numbers, so \<open>get(index)\<close> is the hash at the same place.\<close>

definition commit_history_entry :: "evidence_api \<Rightarrow> OutboxEvent \<Rightarrow> json \<times> json \<Rightarrow> (64 word \<times> string) result" where
  "commit_history_entry X ev entry =
     and_then (ok_or (outbox_internal X ev '' commit history payload has a non-numeric sequence number'')
                 (as_u64 (fst entry))) (\<lambda>sequence_number.
     and_then (ok_or (outbox_internal X ev '' commit history payload has a non-string commit hash'')
                 (as_str (snd entry))) (\<lambda>commit_hash.
     Ok (sequence_number, commit_hash)))"

definition outbox_commit_history_entries :: "evidence_api \<Rightarrow> OutboxEvent \<Rightarrow> (64 word \<times> string) list result" where
  "outbox_commit_history_entries X ev =
     (let payload = evidence_payload ev in
      and_then (ok_or (outbox_internal X ev '' commit history payload is missing sequence numbers'')
                  (field_array payload ''sequence-numbers'')) (\<lambda>sequence_numbers.
      and_then (ok_or (outbox_internal X ev '' commit history payload is missing commit hashes'')
                  (field_array payload ''commit-hashes'')) (\<lambda>commit_hashes.
      if length commit_hashes \<noteq> length sequence_numbers then
        Err (outbox_internal X ev
          '' commit history payload commit hash count does not match sequence numbers'')
      else traverse (commit_history_entry X ev) (zip sequence_numbers commit_hashes))))"

text \<open>The first of three pointers that is present decides; without any the principal is anonymous.\<close>

definition principal_pointers :: "string list list" where
  "principal_pointers =
     [[''payload'', ''authorization-receipt'', ''principal''], [''authorization-receipt'', ''principal''],
      [''commit'', ''principal'']]"

fun first_pointer :: "json \<Rightarrow> string list list \<Rightarrow> json option" where
  "first_pointer v [] = None"
| "first_pointer v (p # ps) = (case jpointer v p of Some w \<Rightarrow> Some w | None \<Rightarrow> first_pointer v ps)"

definition outbox_principal :: "evidence_api \<Rightarrow> OutboxEvent \<Rightarrow> Principal result" where
  "outbox_principal X ev =
     (case first_pointer (oe_payload ev) principal_pointers of
        None \<Rightarrow> Ok principal_anonymous
      | Some v \<Rightarrow>
          ok_or (Internal (''failed to decode outbox principal for event hash '' @ outbox_event_hash X ev @
                   '': '' @ ea_serde_error X ''Principal'' v)) (principal_from_json v))"

subsection \<open>Which projection a type has\<close>

definition outbox_table_projection :: "string \<Rightarrow> (GraphAction \<times> LineageEventType) option" where
  "outbox_table_projection event_type = map_of
     [(''table.created'', (GraphCreated, TableCreated)), (''table.registered'', (GraphCreated, TableCreated)),
      (''table.loaded'', (GraphLoaded, TableLoaded)), (''table.scan-planned'', (GraphPlannedScan, TableScanPlanned)),
      (''table.scan-tasks-fetched'', (GraphPlannedScan, TableScanPlanned)),
      (''table.commit'', (GraphCommitted, TableCommitted)), (''table.renamed'', (GraphRenamed, TableRenamed)),
      (''table.deleted'', (GraphDeleted, TableDeleted))] event_type"

definition outbox_is_scan_projection :: "string \<Rightarrow> bool" where
  "outbox_is_scan_projection event_type \<longleftrightarrow> event_type \<in> {''table.scan-planned'', ''table.scan-tasks-fetched''}"

subsection \<open>Columns and snapshots of a metadata graph\<close>

definition value_to_stable_part :: "json \<Rightarrow> string option" where
  "value_to_stable_part v = (case as_i64 v of Some n \<Rightarrow> Some (int_str n) | None \<Rightarrow> as_str v)"

definition metadata_graph_fields :: "json \<Rightarrow> json list" where
  "metadata_graph_fields metadata_graph =
     (case field_array metadata_graph ''fields'' of
        Some members \<Rightarrow> members
      | None \<Rightarrow> metadata_current_schema_fields metadata_graph)"

definition metadata_field_id :: "json \<Rightarrow> string option" where
  "metadata_field_id field =
     or_else (Option.bind (jget field ''id'') value_to_stable_part)
       (Option.bind (jget field ''name'') value_to_stable_part)"

definition metadata_graph_current_snapshot :: "json \<Rightarrow> (string \<times> json) option" where
  "metadata_graph_current_snapshot metadata_graph =
     Option.bind
       (case jget metadata_graph ''current-snapshot'' of
          None \<Rightarrow> metadata_current_snapshot metadata_graph
        | Some snapshot \<Rightarrow> if snapshot = JNull then metadata_current_snapshot metadata_graph else Some snapshot)
       (\<lambda>snapshot.
     map_option (\<lambda>snapshot_id. (snapshot_id, snapshot))
       (or_else (Option.bind (jget snapshot ''snapshot-id'') value_to_stable_part)
          (Option.bind (jget metadata_graph ''current-snapshot-id'') value_to_stable_part)))"

section \<open>Projecting an outbox event\<close>

text \<open>
  \<open>project_outbox_event\<close> of \<open>crates/lakecat-service/src/outbox.rs\<close>: the graph and lineage events a
  drain emits for an outbox event. The sinks are parameters: what they answer may depend on all they
  were sent before. What was sent, with the answer, is the history \<open>dw_sent\<close> of the world. A graph
  event takes the time of the clock; a replayed lineage event has the time of the outbox event.
\<close>

subsection \<open>The sinks\<close>

datatype sent =
    GraphSent GraphEvent "unit result"
  | LineageSent LineageEvent "LineageReceipt result"

record drain_world =
  dw_world :: world
  dw_sent :: "sent list"

record DrainState =
  ds_state :: LakeCatState
  ds_rfc3339_error :: "string \<Rightarrow> string option"
  ds_graph :: "sent list \<Rightarrow> GraphEvent \<Rightarrow> unit result"
  ds_lineage :: "sent list \<Rightarrow> LineageEvent \<Rightarrow> LineageReceipt result"

type_synonym 'a drain_op = "drain_world \<Rightarrow> 'a result \<times> drain_world"

definition ds_evidence :: "DrainState \<Rightarrow> evidence_api" where
  "ds_evidence S =
     \<lparr>ea_env = lc_env (ds_state S), ea_serde_error = lc_serde_error (ds_state S),
      ea_rfc3339_error = ds_rfc3339_error S\<rparr>"

definition in_world :: "'a world_op \<Rightarrow> 'a drain_op" where
  "in_world f dw = (let (r, w) = f (dw_world dw) in (r, dw\<lparr>dw_world := w\<rparr>))"

definition lift_drain :: "'a result \<Rightarrow> 'a drain_op" where
  "lift_drain r dw = (r, dw)"

definition accepted_by_sink :: "sent \<Rightarrow> bool" where
  "accepted_by_sink s = (case s of GraphSent _ r \<Rightarrow> is_ok r | LineageSent _ r \<Rightarrow> is_ok r)"

definition record_lineage :: "LineageReceipt \<Rightarrow> OutboxProjectionReceipt \<Rightarrow> OutboxProjectionReceipt" where
  "record_lineage lr receipt =
     receipt\<lparr>op_lineage_events := op_lineage_events receipt + 1,
             op_lineage_event_hashes := op_lineage_event_hashes receipt @ [lr_event_hash lr],
             op_open_lineage_hashes := op_open_lineage_hashes receipt @ [lr_open_lineage_hash lr]\<rparr>"

text \<open>\<open>state.graph.emit(..).await?\<close> with the count, and \<open>state.lineage.emit(..).await?\<close> with the record.\<close>

definition emit_graph :: "DrainState \<Rightarrow> (int \<Rightarrow> GraphEvent) \<Rightarrow> OutboxProjectionReceipt \<Rightarrow> OutboxProjectionReceipt drain_op" where
  "emit_graph S event_at receipt dw =
     (let ev = event_at (wd_clock (dw_world dw) (wd_ticks (dw_world dw)));
          r = ds_graph S (dw_sent dw) ev;
          dw1 = dw\<lparr>dw_world := tick (dw_world dw), dw_sent := dw_sent dw @ [GraphSent ev r]\<rparr>
      in (map_ok (\<lambda>_. receipt\<lparr>op_graph_events := op_graph_events receipt + 1\<rparr>) r, dw1))"

definition emit_lineage :: "DrainState \<Rightarrow> LineageEvent \<Rightarrow> OutboxProjectionReceipt \<Rightarrow> OutboxProjectionReceipt drain_op" where
  "emit_lineage S ev receipt dw =
     (let r = ds_lineage S (dw_sent dw) ev
      in (map_ok (\<lambda>lr. record_lineage lr receipt) r, dw\<lparr>dw_sent := dw_sent dw @ [LineageSent ev r]\<rparr>))"

definition replay_lineage_event ::
  "OutboxEvent \<Rightarrow> LineageEventType \<Rightarrow> Principal \<Rightarrow> TableIdent option \<Rightarrow> json \<Rightarrow> LineageEvent" where
  "replay_lineage_event outbox event_type p table payload =
     \<lparr>le_event_type = event_type, le_principal = p, le_table = table, le_payload = payload,
      le_emitted_at = oe_created_at outbox\<rparr>"

subsection \<open>The metadata of a table\<close>

fun emit_columns ::
  "DrainState \<Rightarrow> OutboxEvent \<Rightarrow> GraphAction \<Rightarrow> TableIdent \<Rightarrow> json \<Rightarrow> json list \<Rightarrow> OutboxProjectionReceipt \<Rightarrow>
     OutboxProjectionReceipt drain_op" where
  "emit_columns S ev action table metadata_graph [] receipt = lift_drain (Ok receipt)"
| "emit_columns S ev action table metadata_graph (field # others) receipt =
     (case metadata_field_id field of
        None \<Rightarrow> emit_columns S ev action table metadata_graph others receipt
      | Some column_id \<Rightarrow>
          and_then_op (emit_graph S (\<lambda>now. with_event_id (oe_event_id ev @ '':column:'' @ column_id)
                         (graph_column now action table column_id
                            (jobj [(''event-type'', JStr (oe_event_type ev)), (''table'', ident_json table),
                                   (''current-schema-id'', jopt (\<lambda>v. v) (jget metadata_graph ''current-schema-id'')),
                                   (''field'', field)]))) receipt)
            (emit_columns S ev action table metadata_graph others))"

definition project_table_metadata_graph_events ::
  "DrainState \<Rightarrow> OutboxEvent \<Rightarrow> GraphAction \<Rightarrow> TableIdent \<Rightarrow> json \<Rightarrow> OutboxProjectionReceipt \<Rightarrow>
     OutboxProjectionReceipt drain_op" where
  "project_table_metadata_graph_events S ev action table event_payload receipt =
     (case or_else (jget event_payload ''metadata-graph'') (jget event_payload ''metadata'') of
        None \<Rightarrow> lift_drain (Ok receipt)
      | Some metadata_graph \<Rightarrow>
          and_then_op (emit_columns S ev action table metadata_graph (metadata_graph_fields metadata_graph) receipt)
            (\<lambda>receipt1.
          case metadata_graph_current_snapshot metadata_graph of
            None \<Rightarrow> lift_drain (Ok receipt1)
          | Some (snapshot_id, snapshot) \<Rightarrow>
              emit_graph S (\<lambda>now. with_event_id (oe_event_id ev @ '':snapshot:'' @ snapshot_id)
                (graph_snapshot now action table snapshot_id
                   (jobj [(''event-type'', JStr (oe_event_type ev)), (''table'', ident_json table),
                          (''current-snapshot-id'', jopt (\<lambda>v. v) (jget metadata_graph ''current-snapshot-id'')),
                          (''snapshot'', snapshot)]))) receipt1))"

fun emit_commit_history ::
  "DrainState \<Rightarrow> OutboxEvent \<Rightarrow> TableIdent \<Rightarrow> json \<Rightarrow> (64 word \<times> string) list \<Rightarrow> OutboxProjectionReceipt \<Rightarrow>
     OutboxProjectionReceipt drain_op" where
  "emit_commit_history S ev table event_payload [] receipt = lift_drain (Ok receipt)"
| "emit_commit_history S ev table event_payload ((sequence_number, commit_hash) # entries) receipt =
     and_then_op (emit_graph S
                    (\<lambda>now. with_event_id (oe_event_id ev @ '':commit-history:'' @ nat_str (unat sequence_number))
                      (graph_commit now GraphLoaded table sequence_number
                         (jobj [(''event-type'', JStr (oe_event_type ev)), (''table'', ident_json table),
                                (''sequence-number'', ju64 sequence_number), (''commit-hash'', JStr commit_hash),
                                (''commit-history-read'', event_payload)]))) receipt)
       (emit_commit_history S ev table event_payload entries)"

definition project_table_commit_history_graph_events ::
  "DrainState \<Rightarrow> OutboxEvent \<Rightarrow> TableIdent \<Rightarrow> json \<Rightarrow> OutboxProjectionReceipt \<Rightarrow> OutboxProjectionReceipt drain_op" where
  "project_table_commit_history_graph_events S ev table event_payload receipt =
     and_then_op (lift_drain (outbox_commit_history_entries (ds_evidence S) ev)) (\<lambda>entries.
     emit_commit_history S ev table event_payload entries receipt)"

subsection \<open>The branches of the projection\<close>

text \<open>A graph event with the id of the outbox event, then a lineage event: the shape of most branches.\<close>

definition emit_both ::
  "DrainState \<Rightarrow> OutboxEvent \<Rightarrow> (int \<Rightarrow> GraphEvent) \<Rightarrow> LineageEvent \<Rightarrow> OutboxProjectionReceipt \<Rightarrow>
     OutboxProjectionReceipt drain_op" where
  "emit_both S ev node_at lineage receipt =
     and_then_op (emit_graph S (\<lambda>now. with_event_id (oe_event_id ev) (node_at now)) receipt)
       (emit_lineage S lineage)"

definition project_table ::
  "DrainState \<Rightarrow> OutboxEvent \<Rightarrow> GraphAction \<Rightarrow> LineageEventType \<Rightarrow> Principal \<Rightarrow> TableIdent \<Rightarrow> json \<Rightarrow>
     OutboxProjectionReceipt \<Rightarrow> OutboxProjectionReceipt drain_op" where
  "project_table S ev action lineage_type p table payload receipt =
     and_then_op (emit_graph S (\<lambda>now. with_event_id (oe_event_id ev) (graph_table now action table payload)) receipt)
       (\<lambda>receipt1.
     and_then_op (project_table_metadata_graph_events S ev action table payload receipt1) (\<lambda>receipt2.
     and_then_op (if outbox_is_scan_projection (oe_event_type ev)
                  then emit_graph S (\<lambda>now. with_event_id (oe_event_id ev @ '':scan-plan'')
                         (graph_scan_plan now GraphPlannedScan (oe_event_id ev) payload)) receipt2
                  else lift_drain (Ok receipt2)) (\<lambda>receipt3.
     and_then_op (if oe_event_type ev = ''table.commit''
                  then and_then_op (lift_drain (outbox_commit_sequence_number (ds_evidence S) ev)) (\<lambda>sequence_number.
                         emit_graph S (\<lambda>now. with_event_id (oe_event_id ev @ '':commit'')
                           (graph_commit now GraphCommitted table sequence_number payload)) receipt3)
                  else lift_drain (Ok receipt3)) (\<lambda>receipt4.
     emit_lineage S (replay_lineage_event ev lineage_type p (Some table) payload) receipt4))))"

definition namespace_projection :: "string \<Rightarrow> GraphAction \<times> LineageEventType" where
  "namespace_projection event_type =
     (if event_type = ''namespace.dropped'' then (GraphDeleted, NamespaceDropped)
      else if event_type = ''namespace.loaded'' then (GraphLoaded, NamespaceLoaded)
      else if event_type = ''namespace.properties-updated'' then (GraphUpserted, NamespacePropertiesUpdated)
      else (GraphCreated, NamespaceCreated))"

definition list_projection :: "string \<Rightarrow> LineageEventType" where
  "list_projection event_type =
     (if event_type = ''policy-binding.listed'' then PolicyBindingListed
      else if event_type = ''project.listed'' then ProjectListed
      else if event_type = ''server.listed'' then ServerListed
      else if event_type = ''storage-profile.listed'' then StorageProfileListed
      else WarehouseListed)"

definition view_projection :: "string \<Rightarrow> GraphAction \<times> LineageEventType" where
  "view_projection event_type =
     (if event_type = ''view.dropped'' then (GraphDeleted, ViewDropped)
      else if event_type = ''view.loaded'' then (GraphLoaded, ViewLoaded)
      else (GraphUpserted, ViewUpserted))"

type_synonym projection_branch =
  "DrainState \<Rightarrow> OutboxEvent \<Rightarrow> Principal \<Rightarrow> TableIdent option \<Rightarrow> json \<Rightarrow> OutboxProjectionReceipt \<Rightarrow>
     OutboxProjectionReceipt drain_op"

definition default_warehouse :: "DrainState \<Rightarrow> WarehouseName" where
  "default_warehouse S = lc_warehouse (ds_state S)"

definition drain_env :: "DrainState \<Rightarrow> env" where
  "drain_env S = lc_env (ds_state S)"

definition lineage_only :: "(string \<Rightarrow> LineageEventType) \<Rightarrow> projection_branch" where
  "lineage_only lineage_type S ev p table payload receipt =
     emit_lineage S (replay_lineage_event ev (lineage_type (oe_event_type ev)) p None payload) receipt"

definition project_warehouse :: "GraphAction \<Rightarrow> LineageEventType \<Rightarrow> (env \<Rightarrow> json \<Rightarrow> json) \<Rightarrow> projection_branch" where
  "project_warehouse action lineage_type redact S ev p table payload0 receipt =
     and_then_op (lift_drain (outbox_warehouse ev (default_warehouse S))) (\<lambda>warehouse.
     let payload = redact (drain_env S) payload0 in
     emit_both S ev (\<lambda>now. graph_warehouse now action warehouse payload)
       (replay_lineage_event ev lineage_type p None payload) receipt)"

definition project_namespace :: "(string \<Rightarrow> GraphAction \<times> LineageEventType) \<Rightarrow> projection_branch" where
  "project_namespace kinds S ev p table payload receipt =
     and_then_op (lift_drain (outbox_namespace (ds_evidence S) ev (default_warehouse S))) (\<lambda>(warehouse, ns).
     let (action, lineage_type) = kinds (oe_event_type ev) in
     emit_both S ev (\<lambda>now. graph_namespace now action warehouse ns payload)
       (replay_lineage_event ev lineage_type p None payload) receipt)"

definition project_commits_listed :: projection_branch where
  "project_commits_listed S ev p table payload receipt =
     and_then_op (case table of
                    None \<Rightarrow> lift_drain (Ok receipt)
                  | Some t \<Rightarrow> project_table_commit_history_graph_events S ev t payload receipt)
       (emit_lineage S (replay_lineage_event ev TableCommitRecordsListed p None payload))"

definition project_policy :: projection_branch where
  "project_policy S ev p table payload receipt =
     and_then_op (lift_drain (outbox_policy_binding (ds_evidence S) ev (default_warehouse S))) (\<lambda>(warehouse, policy_id).
     emit_both S ev (\<lambda>now. graph_policy now GraphUpserted warehouse policy_id payload)
       (replay_lineage_event ev PolicyBindingUpserted p None payload) receipt)"

definition project_model :: projection_branch where
  "project_model S ev p table payload receipt =
     and_then_op (lift_drain (outbox_warehouse ev (default_warehouse S))) (\<lambda>warehouse.
     and_then_op (lift_drain (ok_or
                    (InvalidArgument ''model publication outbox event must contain a non-blank model-id'')
                    (str_filter (\<lambda>s. \<not> blank s) (field_str payload ''model-id'')))) (\<lambda>model_id.
     emit_both S ev (\<lambda>now. graph_querygraph_model now GraphUpserted warehouse model_id payload)
       (replay_lineage_event ev ModelPublished p None payload) receipt))"

definition project_project :: projection_branch where
  "project_project S ev p table payload receipt =
     and_then_op (lift_drain (outbox_project (ds_evidence S) ev)) (\<lambda>project_id.
     emit_both S ev (\<lambda>now. graph_project now GraphUpserted project_id payload)
       (replay_lineage_event ev ProjectUpserted p None payload) receipt)"

definition project_server :: projection_branch where
  "project_server S ev p table payload0 receipt =
     and_then_op (lift_drain (outbox_server (ds_evidence S) ev)) (\<lambda>server_id.
     let payload = redact_server_event_payload (drain_env S) payload0 in
     emit_both S ev (\<lambda>now. graph_server now GraphUpserted server_id payload)
       (replay_lineage_event ev ServerUpserted p None payload) receipt)"

definition project_storage_profile :: projection_branch where
  "project_storage_profile S ev p table payload0 receipt =
     and_then_op (lift_drain (outbox_storage_profile (ds_evidence S) ev (default_warehouse S)))
       (\<lambda>(warehouse, profile_id).
     let payload = redact_storage_profile_event_payload (drain_env S) payload0 in
     emit_both S ev (\<lambda>now. graph_storage_profile now GraphUpserted warehouse profile_id payload)
       (replay_lineage_event ev StorageProfileUpserted p None payload) receipt)"

definition project_view :: projection_branch where
  "project_view S ev p table payload receipt =
     and_then_op (lift_drain (outbox_view (ds_evidence S) ev (default_warehouse S))) (\<lambda>(warehouse, ns, view_name).
     let (action, lineage_type) = view_projection (oe_event_type ev) in
     emit_both S ev (\<lambda>now. graph_view now action warehouse ns view_name payload)
       (replay_lineage_event ev lineage_type p None payload) receipt)"

definition project_restored :: projection_branch where
  "project_restored S ev p table payload receipt =
     (case table of
        None \<Rightarrow> lift_drain (Ok receipt)
      | Some t \<Rightarrow>
          emit_both S ev (\<lambda>now. graph_table now GraphLoaded t payload)
            (replay_lineage_event ev TableRestored p (Some t) payload) receipt)"

definition project_credentials :: projection_branch where
  "project_credentials S ev p table payload receipt =
     and_then_op (lift_drain (outbox_optional_storage_profile ev (default_warehouse S))) (\<lambda>profile.
     and_then_op (case profile of
                    None \<Rightarrow> lift_drain (Ok receipt)
                  | Some (warehouse, profile_id) \<Rightarrow>
                      emit_graph S (\<lambda>now. with_event_id (oe_event_id ev @ '':storage-profile'')
                        (graph_storage_profile now GraphLoaded warehouse profile_id
                           (redact_storage_profile_event_payload (drain_env S) payload))) receipt)
       (emit_lineage S (replay_lineage_event ev CredentialsVendAttempted p table payload)))"

subsection \<open>The projection\<close>

text \<open>The branches after the table projections, each with the types it tests for, in their order.\<close>

definition projection_branches :: "(string list \<times> projection_branch) list" where
  "projection_branches =
     [([''catalog.config-read''], project_warehouse GraphLoaded CatalogConfigRead redact_warehouse_event_payload),
      ([''namespace.created'', ''namespace.dropped'', ''namespace.loaded'', ''namespace.properties-updated''],
       project_namespace namespace_projection),
      ([''namespace.listed''], project_warehouse GraphLoaded NamespaceListed (\<lambda>_ payload. payload)),
      ([''policy-binding.listed'', ''project.listed'', ''server.listed'', ''storage-profile.listed'',
        ''warehouse.listed''], lineage_only list_projection),
      ([''view.listed''], project_namespace (\<lambda>_. (GraphLoaded, ViewListed))),
      ([''view.version-receipts-listed''], lineage_only (\<lambda>_. ViewVersionReceiptsListed)),
      ([''table.commits-listed''], project_commits_listed),
      ([''view.version-receipt-chains-listed''], lineage_only (\<lambda>_. ViewVersionReceiptChainsListed)),
      ([''policy-binding.upserted''], project_policy),
      ([''model.published''], project_model),
      ([''project.upserted''], project_project),
      ([''server.upserted''], project_server),
      ([''storage-profile.upserted''], project_storage_profile),
      ([''view.upserted'', ''view.loaded'', ''view.dropped''], project_view),
      ([''warehouse.upserted''], project_warehouse GraphUpserted WarehouseUpserted redact_warehouse_event_payload),
      ([''table.restored''], project_restored),
      ([''credentials.vend-attempted''], project_credentials),
      ([''querygraph.bootstrap''], lineage_only (\<lambda>_. QueryGraphBootstrap))]"

definition run_branch :: "(string list \<times> projection_branch) list \<Rightarrow> projection_branch" where
  "run_branch branches S ev p table payload receipt =
     (case find (\<lambda>branch. oe_event_type ev \<in> set (fst branch)) branches of
        None \<Rightarrow> lift_drain (Ok receipt)
      | Some branch \<Rightarrow> snd branch S ev p table payload receipt)"

definition emit_principal :: "DrainState \<Rightarrow> OutboxEvent \<Rightarrow> Principal \<Rightarrow> OutboxProjectionReceipt \<Rightarrow>
     OutboxProjectionReceipt drain_op" where
  "emit_principal S ev p receipt =
     (if pr_kind p = Anonymous then lift_drain (Ok receipt)
      else emit_graph S (\<lambda>now. with_event_id (oe_event_id ev @ '':principal'')
             (graph_principal now GraphLoaded p
                (jobj [(''event-type'', JStr (oe_event_type ev)), (''principal'', principal_json p)]))) receipt)"

definition project_outbox_event :: "DrainState \<Rightarrow> OutboxEvent \<Rightarrow> OutboxProjectionReceipt drain_op" where
  "project_outbox_event S ev =
     (let payload = evidence_payload ev; X = ds_evidence S in
      and_then_op (lift_drain (outbox_table X ev)) (\<lambda>table.
      and_then_op (lift_drain (outbox_principal X ev)) (\<lambda>p.
      and_then_op (emit_principal S ev p empty_projection) (\<lambda>receipt.
      case outbox_table_projection (oe_event_type ev) of
        Some (action, lineage_type) \<Rightarrow>
          (case table of
             None \<Rightarrow> lift_drain (Ok receipt)
           | Some t \<Rightarrow> project_table S ev action lineage_type p t payload receipt)
      | None \<Rightarrow> run_branch projection_branches S ev p table payload receipt))))"

end
