(* ===== verification/OutboxDrain.thy ===== *)
theory OutboxDrain
  imports OutboxProjection ServiceSafety
begin

section \<open>The drain\<close>

text \<open>
  \<open>drain_outbox_once\<close> and \<open>drain_lineage_outbox\<close> of \<open>crates/lakecat-service/src/outbox.rs\<close>: the oldest
  pending events are validated, projected to the sinks and summarised one by one, and acknowledged
  together at the end. The catalog is the one of \<open>ServiceWorld\<close>: other requests may change it before
  the pending events are read and before they are acknowledged. The laws of a projection follow:
  what it sends, what its receipt counts, and that it does not touch the catalog.
\<close>

definition drain_sink :: string where
  "drain_sink = ''lakecat.lineage-and-graph''"

definition check_duplicate_ids :: "env \<Rightarrow> OutboxEvent list \<Rightarrow> unit result" where
  "check_duplicate_ids E events =
     (case first_duplicate [] (map oe_event_id events) of
        None \<Rightarrow> Ok ()
      | Some i \<Rightarrow> Err (Conflict (''outbox pending batch contained duplicate event id hash '' @ content_hash_bytes E i)))"

record drained =
  dr_delivered :: "string list"
  dr_event_types :: "string list"
  dr_summaries :: "LineageDrainEventSummary list"
  dr_graph_events :: nat
  dr_lineage_events :: nat

definition nothing_drained :: drained where
  "nothing_drained =
     \<lparr>dr_delivered = [], dr_event_types = [], dr_summaries = [], dr_graph_events = 0, dr_lineage_events = 0\<rparr>"

definition add_drained :: "OutboxEvent \<Rightarrow> OutboxProjectionReceipt \<Rightarrow> LineageDrainEventSummary \<Rightarrow> drained \<Rightarrow> drained" where
  "add_drained ev receipt summary d =
     \<lparr>dr_delivered = dr_delivered d @ [oe_event_id ev], dr_event_types = dr_event_types d @ [oe_event_type ev],
      dr_summaries = dr_summaries d @ [summary],
      dr_graph_events = dr_graph_events d + op_graph_events receipt,
      dr_lineage_events = dr_lineage_events d + op_lineage_events receipt\<rparr>"

fun drain_loop :: "DrainState \<Rightarrow> OutboxEvent list \<Rightarrow> drained \<Rightarrow> drained drain_op" where
  "drain_loop S [] d = lift_drain (Ok d)"
| "drain_loop S (ev # events) d =
     (let X = ds_evidence S in
      and_then_op (lift_drain (validate_outbox_event_evidence X ev)) (\<lambda>_.
      and_then_op (project_outbox_event S ev) (\<lambda>receipt.
      and_then_op (lift_drain (validate_projection_receipt_evidence X ev receipt)) (\<lambda>_.
      and_then_op (lift_drain (lineage_drain_event_summary X ev receipt)) (\<lambda>summary.
      drain_loop S events (add_drained ev receipt summary d))))))"

definition drain_response :: "nat \<Rightarrow> drained \<Rightarrow> LineageDrainResponse" where
  "drain_response delivered d =
     \<lparr>ld_delivered = delivered, ld_event_types = dr_event_types d, ld_graph_events = dr_graph_events d,
      ld_lineage_events = dr_lineage_events d, ld_principal_subject = None, ld_principal_kind = None,
      ld_authorization_receipt_hash = None, ld_authorization_receipt_action = None,
      ld_request_identity_state = None, ld_request_identity_source = None,
      ld_typedid_envelope_hash = None, ld_typedid_proof_hash = None, ld_events = dr_summaries d\<rparr>"

definition acknowledge_drained :: "DrainState \<Rightarrow> drained \<Rightarrow> LineageDrainResponse drain_op" where
  "acknowledge_drained S d =
     and_then_op (in_world (store_call (\<lambda>now. mark_outbox_delivered (drain_env S) now (dr_delivered d)))) (\<lambda>delivered.
     let projected = length (dr_delivered d); response = drain_response delivered d in
     if delivered \<noteq> projected then
       lift_drain (Err (Conflict (''outbox drain acknowledgement mismatch: projected '' @ nat_str projected @
         '' event(s) but marked '' @ nat_str delivered @ '' delivered'')))
     else
       and_then_op (lift_drain (validate_lineage_drain_response_manifest response)) (\<lambda>_.
       lift_drain (Ok response)))"

definition drain_order :: "OutboxEvent \<Rightarrow> int \<times> string" where
  "drain_order ev = (oe_created_at ev, oe_event_id ev)"

definition drain_outbox_once :: "DrainState \<Rightarrow> nat \<Rightarrow> LineageDrainResponse drain_op" where
  "drain_outbox_once S limit =
     and_then_op (in_world (store_read (\<lambda>s. pending_outbox_events (drain_env S) s (Some drain_sink) limit))) (\<lambda>pending.
     let events = sort_key drain_order pending in
     and_then_op (lift_drain (check_duplicate_ids (drain_env S) events)) (\<lambda>_.
     and_then_op (drain_loop S events nothing_drained) (acknowledge_drained S)))"

definition drain_lineage_outbox :: "DrainState \<Rightarrow> HeaderMap \<Rightarrow> LineageDrainResponse drain_op" where
  "drain_lineage_outbox S headers =
     and_then_op (in_world (authorize_request (ds_state S) headers authorize_lineage_read)) (\<lambda>capability.
     and_then_op (drain_outbox_once S 100) (\<lambda>response.
     lift_drain (attach_lineage_drain_authorization (drain_env S) response (cap_receipt capability))))"

subsection \<open>Every route\<close>

text \<open>
  The whole router: the requests of \<open>ServiceRouter\<close>, and \<open>POST /management/v1/lineage/drain\<close>, which
  alone reaches the sinks.
\<close>

datatype route =
    Handled service_request
  | DrainLineage

datatype route_reply =
    Answered reply
  | Drained LineageDrainResponse

fun serve_route :: "DrainState \<Rightarrow> HeaderMap \<Rightarrow> route \<Rightarrow> route_reply drain_op" where
  "serve_route S h (Handled q) =
     and_then_op (in_world (serve (ds_state S) h q)) (\<lambda>r. lift_drain (Ok (Answered r)))"
| "serve_route S h DrainLineage =
     and_then_op (drain_lineage_outbox S h) (\<lambda>r. lift_drain (Ok (Drained r)))"

fun route_action :: "route \<Rightarrow> CatalogAction" where
  "route_action (Handled q) = request_action q"
| "route_action DrainLineage = LineageRead"

text \<open>A run of the service over all its routes.\<close>

fun serve_routes :: "DrainState \<Rightarrow> (HeaderMap \<times> route) list \<Rightarrow> drain_world \<Rightarrow> route_reply result list \<times> drain_world" where
  "serve_routes S [] dw = ([], dw)"
| "serve_routes S ((h, q) # rest) dw =
     (let (r, dw1) = serve_route S h q dw; (rs, dw2) = serve_routes S rest dw1 in (r # rs, dw2))"

text \<open>A route whose action is refused ends there: before the handler, and before the sinks.\<close>

lemma in_world_refuses:
  assumes "refuses f"
  shows "\<exists>e dw'. and_then_op (in_world f) k dw = (Inl e, dw') \<and> waits (dw_world dw) (dw_world dw') \<and>
    dw_sent dw' = dw_sent dw"
proof -
  obtain e w' where "f (dw_world dw) = (Inl e, w')" "waits (dw_world dw) w'"
    using assms unfolding refuses_def by blast
  then show ?thesis by (auto simp: and_then_op_def in_world_def)
qed

lemma serve_route_refuses:
  assumes "refused_to (ds_state S) h (route_action q)"
  shows "\<exists>e dw'. serve_route S h q dw = (Err e, dw') \<and> waits (dw_world dw) (dw_world dw') \<and>
    dw_sent dw' = dw_sent dw"
proof (cases q)
  case (Handled r)
  with assms in_world_refuses [OF serve_refuses [of "ds_state S" h r]] show ?thesis by simp
next
  case DrainLineage
  with assms have refused: "refuses (authorize_request (ds_state S) h authorize_lineage_read)"
    by (intro refuses_authorize authorize_catalog_denied refused_claim) simp_all
  obtain e dw' where "drain_lineage_outbox S h dw = (Err e, dw')" "waits (dw_world dw) (dw_world dw')"
      "dw_sent dw' = dw_sent dw"
    unfolding drain_lineage_outbox_def using in_world_refuses [OF refused] by blast
  with DrainLineage show ?thesis by (auto simp: and_then_op_def)
qed

subsection \<open>What a projection sends\<close>

text \<open>
  A step from a receipt to a receipt keeps the books when the receipt it returns is the one it was
  given plus what it sent, all of it accepted. The history only grows, and the catalog is untouched.
\<close>

fun recorded :: "sent list \<Rightarrow> OutboxProjectionReceipt \<Rightarrow> OutboxProjectionReceipt" where
  "recorded [] receipt = receipt"
| "recorded (GraphSent ev r # new) receipt =
     recorded new (receipt\<lparr>op_graph_events := op_graph_events receipt + 1\<rparr>)"
| "recorded (LineageSent ev r # new) receipt =
     recorded new (case r of Inl _ \<Rightarrow> receipt | Inr lr \<Rightarrow> record_lineage lr receipt)"

inductive ticks :: "world \<Rightarrow> world \<Rightarrow> bool" where
  ticks_refl: "ticks w w"
| ticks_tick: "ticks w w' \<Longrightarrow> ticks w (tick w')"

definition books :: "OutboxProjectionReceipt \<Rightarrow> drain_world \<Rightarrow> OutboxProjectionReceipt result \<times> drain_world \<Rightarrow> bool" where
  "books receipt dw = (\<lambda>(r, dw'). ticks (dw_world dw) (dw_world dw') \<and>
     (\<exists>new. dw_sent dw' = dw_sent dw @ new \<and>
        (\<forall>receipt'. r = Ok receipt' \<longrightarrow> list_all accepted_by_sink new \<and> receipt' = recorded new receipt)))"

definition keeps_books :: "(OutboxProjectionReceipt \<Rightarrow> OutboxProjectionReceipt drain_op) \<Rightarrow> bool" where
  "keeps_books f \<longleftrightarrow> (\<forall>receipt dw. books receipt dw (f receipt dw))"

named_theorems book_rules \<open>steps of a projection that keep the books\<close>

lemma ticks_trans: "ticks v w \<Longrightarrow> ticks u v \<Longrightarrow> ticks u w"
  by (induction rule: ticks.induct) (auto intro: ticks.intros)

lemma ticks_keep: "ticks w w' \<Longrightarrow> wd_catalog w' = wd_catalog w \<and> wd_others w' = wd_others w \<and> wd_objects w' = wd_objects w"
  by (induction rule: ticks.induct) (auto simp: tick_def)

lemma ticks_waits: "ticks w w' \<Longrightarrow> waits w w'"
  by (induction rule: ticks.induct) (auto intro: waits.intros)

lemma recorded_append: "recorded (xs @ ys) receipt = recorded ys (recorded xs receipt)"
  by (induction xs receipt rule: recorded.induct) auto

lemma keeps_booksD: "keeps_books f \<Longrightarrow> books receipt dw (f receipt dw)"
  by (simp add: keeps_books_def)

lemma ticks_once: "ticks w (tick w)"
  by (intro ticks.intros)

lemma books_refused: "ticks (dw_world dw) (dw_world dw') \<Longrightarrow> dw_sent dw' = dw_sent dw @ new \<Longrightarrow> books receipt dw (Inl e, dw')"
  by (auto simp: books_def)

lemma books_accepted:
  "ticks (dw_world dw) (dw_world dw') \<Longrightarrow> dw_sent dw' = dw_sent dw @ new \<Longrightarrow> list_all accepted_by_sink new \<Longrightarrow>
     receipt' = recorded new receipt \<Longrightarrow> books receipt dw (Ok receipt', dw')"
  by (auto simp: books_def)

lemma books_append:
  assumes "books receipt dw (Ok receipt1, dw1)" "books receipt1 dw1 (r, dw')"
  shows "books receipt dw (r, dw')"
proof -
  from assms(1) obtain new1 where new1: "ticks (dw_world dw) (dw_world dw1)" "dw_sent dw1 = dw_sent dw @ new1"
    "list_all accepted_by_sink new1" "receipt1 = recorded new1 receipt" by (auto simp: books_def)
  from assms(2) obtain new2 where new2: "ticks (dw_world dw1) (dw_world dw')" "dw_sent dw' = dw_sent dw1 @ new2"
    "\<forall>receipt'. r = Ok receipt' \<longrightarrow> list_all accepted_by_sink new2 \<and> receipt' = recorded new2 receipt1"
    by (auto simp: books_def)
  have "ticks (dw_world dw) (dw_world dw')" using new1(1) new2(1) ticks_trans by blast
  moreover have "dw_sent dw' = dw_sent dw @ (new1 @ new2)" using new1(2) new2(2) by simp
  moreover have "\<forall>receipt'. r = Ok receipt' \<longrightarrow>
      list_all accepted_by_sink (new1 @ new2) \<and> receipt' = recorded (new1 @ new2) receipt"
    using new1(3,4) new2(3) by (simp add: recorded_append)
  ultimately show ?thesis unfolding books_def by blast
qed

lemma books_lift [book_rules]: "keeps_books (\<lambda>receipt. lift_drain (Ok receipt))"
  by (auto simp: keeps_books_def lift_drain_def intro!: books_accepted [where new = "[]"] ticks_refl)

lemma books_graph [book_rules]: "keeps_books (emit_graph S event_at)"
  unfolding keeps_books_def
proof (intro allI)
  fix receipt and dw :: drain_world
  let ?ev = "event_at (wd_clock (dw_world dw) (wd_ticks (dw_world dw)))"
  let ?r = "ds_graph S (dw_sent dw) ?ev"
  show "books receipt dw (emit_graph S event_at receipt dw)"
  proof (cases ?r)
    case (Inl e)
    then show ?thesis
      by (auto simp: emit_graph_def Let_def ticks_once intro!: books_refused [where new = "[GraphSent ?ev ?r]"])
  next
    case (Inr u)
    then show ?thesis
      by (auto simp: emit_graph_def Let_def ticks_once accepted_by_sink_def
          intro!: books_accepted [where new = "[GraphSent ?ev ?r]"])
  qed
qed

lemma books_lineage [book_rules]: "keeps_books (emit_lineage S lineage)"
  unfolding keeps_books_def
proof (intro allI)
  fix receipt and dw :: drain_world
  let ?r = "ds_lineage S (dw_sent dw) lineage"
  show "books receipt dw (emit_lineage S lineage receipt dw)"
  proof (cases ?r)
    case (Inl e)
    then show ?thesis
      by (auto simp: emit_lineage_def Let_def intro!: books_refused [where new = "[LineageSent lineage ?r]"] ticks_refl)
  next
    case (Inr lr)
    then show ?thesis
      by (auto simp: emit_lineage_def Let_def accepted_by_sink_def ticks_refl
          intro!: books_accepted [where new = "[LineageSent lineage ?r]"])
  qed
qed

lemma books_bind [book_rules]:
  assumes "keeps_books f" "keeps_books k"
  shows "keeps_books (\<lambda>receipt. and_then_op (f receipt) k)"
  unfolding keeps_books_def
proof (intro allI)
  fix receipt and dw :: drain_world
  obtain r1 dw1 where f: "f receipt dw = (r1, dw1)" by (cases "f receipt dw")
  have first: "books receipt dw (r1, dw1)"
    using keeps_booksD [OF assms(1), of receipt dw] f by simp
  show "books receipt dw (and_then_op (f receipt) k dw)"
  proof (cases r1)
    case (Inl e)
    with first f show ?thesis by (auto simp: and_then_op_def books_def)
  next
    case (Inr receipt1)
    obtain r2 dw2 where k: "k receipt1 dw1 = (r2, dw2)" by (cases "k receipt1 dw1")
    have "books receipt1 dw1 (r2, dw2)"
      using keeps_booksD [OF assms(2), of receipt1 dw1] k by simp
    with first Inr f k show ?thesis by (auto simp: and_then_op_def intro: books_append)
  qed
qed

lemma books_then_lift [book_rules]:
  assumes "\<And>a. keeps_books (k a)"
  shows "keeps_books (\<lambda>receipt. and_then_op (lift_drain x) (\<lambda>a. k a receipt))"
proof (cases x)
  case (Inl e)
  then show ?thesis
    by (auto simp: keeps_books_def and_then_op_def lift_drain_def intro!: books_refused [where new = "[]"] ticks_refl)
next
  case (Inr a)
  then show ?thesis using assms by (simp add: keeps_books_def and_then_op_def lift_drain_def)
qed

text \<open>Every branch of the projection keeps the books.\<close>

lemma books_emit_both [book_rules]: "keeps_books (emit_both S ev node_at lineage)"
  unfolding emit_both_def [abs_def] by (intro book_rules)

lemma books_if: "keeps_books f \<Longrightarrow> keeps_books g \<Longrightarrow> keeps_books (\<lambda>receipt. if b then f receipt else g receipt)"
  by (cases b) simp_all

lemma books_option:
  "keeps_books f \<Longrightarrow> (\<And>a. keeps_books (g a)) \<Longrightarrow>
     keeps_books (\<lambda>receipt. case x of None \<Rightarrow> f receipt | Some a \<Rightarrow> g a receipt)"
  by (cases x) simp_all

lemma books_option_pair:
  "keeps_books f \<Longrightarrow> (\<And>a b. keeps_books (g a b)) \<Longrightarrow>
     keeps_books (\<lambda>receipt. case x of None \<Rightarrow> f receipt | Some (a, b) \<Rightarrow> g a b receipt)"
  by (cases x) (simp_all add: split_def)

lemmas book_splits = books_if books_option books_option_pair

lemma books_columns [book_rules]: "keeps_books (emit_columns S ev action table metadata_graph members)"
proof (induction members)
  case Nil
  show ?case by (simp add: emit_columns.simps(1) [abs_def] book_rules)
next
  case (Cons field members)
  show ?case
    unfolding emit_columns.simps(2) [abs_def] by (intro book_splits book_rules Cons)
qed

lemma books_snapshot [book_rules]:
  "keeps_books (project_table_metadata_graph_events S ev action table payload)"
  unfolding project_table_metadata_graph_events_def [abs_def] by (intro book_splits book_rules)

lemma books_commit_history [book_rules]: "keeps_books (emit_commit_history S ev table payload entries)"
proof (induction entries)
  case Nil
  show ?case by (simp add: emit_commit_history.simps(1) [abs_def] book_rules)
next
  case (Cons entry entries)
  then show ?case
    by (cases entry) (simp add: emit_commit_history.simps(2) [abs_def] book_rules)
qed

lemma books_history_events [book_rules]: "keeps_books (project_table_commit_history_graph_events S ev table payload)"
  unfolding project_table_commit_history_graph_events_def [abs_def] by (intro book_rules)

lemma books_table [book_rules]: "keeps_books (project_table S ev action lineage_type p table payload)"
  unfolding project_table_def [abs_def] by (intro book_splits book_rules)

lemma books_principal [book_rules]: "keeps_books (emit_principal S ev p)"
  unfolding emit_principal_def [abs_def] by (intro book_splits book_rules)

definition branch_keeps_books :: "projection_branch \<Rightarrow> bool" where
  "branch_keeps_books branch \<longleftrightarrow> (\<forall>S ev p table payload. keeps_books (branch S ev p table payload))"

lemma branches_keep_books:
  "branch_keeps_books (project_warehouse action lineage_type redact)" "branch_keeps_books (project_namespace kinds)"
  "branch_keeps_books (lineage_only lineage_type')" "branch_keeps_books project_commits_listed"
  "branch_keeps_books project_policy" "branch_keeps_books project_model" "branch_keeps_books project_project"
  "branch_keeps_books project_server" "branch_keeps_books project_storage_profile"
  "branch_keeps_books project_view" "branch_keeps_books project_restored" "branch_keeps_books project_credentials"
  unfolding branch_keeps_books_def project_warehouse_def [abs_def] project_namespace_def [abs_def]
    lineage_only_def [abs_def] project_commits_listed_def [abs_def] project_policy_def [abs_def]
    project_model_def [abs_def] project_project_def [abs_def] project_server_def [abs_def]
    project_storage_profile_def [abs_def] project_view_def [abs_def] project_restored_def [abs_def]
    project_credentials_def [abs_def] Let_def split_def
  by (intro allI book_splits book_rules)+

lemma all_branches_keep_books: "list_all (\<lambda>branch. branch_keeps_books (snd branch)) projection_branches"
  by (simp add: projection_branches_def branches_keep_books)

lemma books_branch [book_rules]: "keeps_books (run_branch projection_branches S ev p table payload)"
proof (cases "find (\<lambda>branch. oe_event_type ev \<in> set (fst branch)) projection_branches")
  case None
  then show ?thesis by (simp add: run_branch_def [abs_def] book_rules)
next
  case (Some branch)
  then have "branch \<in> set projection_branches" by (metis find_Some_iff nth_mem)
  then have "branch_keeps_books (snd branch)" using all_branches_keep_books by (simp add: list_all_iff)
  with Some show ?thesis by (simp add: run_branch_def [abs_def] branch_keeps_books_def)
qed

lemma books_of_projection: "books empty_projection dw (project_outbox_event S ev dw)"
proof -
  have tail: "keeps_books (\<lambda>receipt. case outbox_table_projection (oe_event_type ev) of
        Some (action, lineage_type) \<Rightarrow>
          (case table of
             None \<Rightarrow> lift_drain (Ok receipt)
           | Some t \<Rightarrow> project_table S ev action lineage_type p t (evidence_payload ev) receipt)
      | None \<Rightarrow> run_branch projection_branches S ev p table (evidence_payload ev) receipt)" for table p
    by (cases "outbox_table_projection (oe_event_type ev)"; cases table) (auto simp: book_rules)
  have "keeps_books (\<lambda>receipt. and_then_op (lift_drain (outbox_table (ds_evidence S) ev)) (\<lambda>table.
      and_then_op (lift_drain (outbox_principal (ds_evidence S) ev)) (\<lambda>p.
      and_then_op (emit_principal S ev p receipt) (\<lambda>receipt.
      case outbox_table_projection (oe_event_type ev) of
        Some (action, lineage_type) \<Rightarrow>
          (case table of
             None \<Rightarrow> lift_drain (Ok receipt)
           | Some t \<Rightarrow> project_table S ev action lineage_type p t (evidence_payload ev) receipt)
      | None \<Rightarrow> run_branch projection_branches S ev p table (evidence_payload ev) receipt))))"
    by (intro books_then_lift books_bind books_principal tail)
  from keeps_booksD [OF this] show ?thesis
    by (simp add: project_outbox_event_def Let_def)
qed

end
