(* ===== verification/DrainLaws.thy ===== *)
theory DrainLaws
  imports OutboxDrain OutboxLaws
begin

section \<open>Laws of the drain\<close>

text \<open>
  What a run of the loop returns and sends, and which projection sent what; when its response is a valid
  manifest, how an acknowledgement counts, and the two outcomes of a drain. The properties of the drain
  are a few steps over these.
\<close>

subsection \<open>What was sent\<close>

definition graph_sent :: "sent list \<Rightarrow> GraphEvent list" where
  "graph_sent new = List.map_filter (\<lambda>s. case s of GraphSent ev _ \<Rightarrow> Some ev | LineageSent _ _ \<Rightarrow> None) new"

definition lineage_sent :: "sent list \<Rightarrow> LineageEvent list" where
  "lineage_sent new = List.map_filter (\<lambda>s. case s of GraphSent _ _ \<Rightarrow> None | LineageSent ev _ \<Rightarrow> Some ev) new"

lemma sent_simps [simp]:
  "graph_sent [] = []" "lineage_sent [] = []"
  "graph_sent (GraphSent ev r # new) = ev # graph_sent new" "graph_sent (LineageSent le lr # new) = graph_sent new"
  "lineage_sent (GraphSent ev r # new) = lineage_sent new" "lineage_sent (LineageSent le lr # new) = le # lineage_sent new"
  by (simp_all add: graph_sent_def lineage_sent_def List.map_filter_simps)

lemma sent_append [simp]:
  "graph_sent (xs @ ys) = graph_sent xs @ graph_sent ys" "lineage_sent (xs @ ys) = lineage_sent xs @ lineage_sent ys"
  by (simp_all add: graph_sent_def lineage_sent_def List.map_filter_def)

lemma recorded_counts:
  assumes "list_all accepted_by_sink new"
  shows "op_graph_events (recorded new receipt) = op_graph_events receipt + length (graph_sent new)"
    "op_lineage_events (recorded new receipt) = op_lineage_events receipt + length (lineage_sent new)"
  using assms
  by (induction new receipt rule: recorded.induct)
    (auto simp: accepted_by_sink_def record_lineage_def split: sum.splits)

subsection \<open>The loop\<close>

definition books_balance :: "drained \<Rightarrow> bool" where
  "books_balance d \<longleftrightarrow>
     dr_delivered d = map ls_event_id (dr_summaries d) \<and>
     dr_event_types d = map ls_event_type (dr_summaries d) \<and>
     dr_graph_events d = sum_list (map ls_graph_events (dr_summaries d)) \<and>
     dr_lineage_events d = sum_list (map ls_lineage_events (dr_summaries d))"

lemma books_balance_nothing: "books_balance nothing_drained"
  by (simp add: books_balance_def nothing_drained_def)

lemma books_balance_add:
  "books_balance d \<Longrightarrow> lineage_drain_event_summary X ev receipt = Ok summary \<Longrightarrow> books_balance (add_drained ev receipt summary d)"
  by (simp add: books_balance_def add_drained_def drain_event_summary_fields)

text \<open>What is drained later: the events in their order, and as many emissions as were sent.\<close>

definition drains_exactly :: "evidence_api \<Rightarrow> OutboxEvent list \<Rightarrow> sent list \<Rightarrow> drained \<Rightarrow> drained \<Rightarrow> bool" where
  "drains_exactly X events new d d' \<longleftrightarrow>
     list_all accepted_by_sink new \<and> list_all (\<lambda>ev. validate_outbox_event_evidence X ev = Ok ()) events \<and>
     dr_delivered d' = dr_delivered d @ map oe_event_id events \<and>
     dr_graph_events d' = dr_graph_events d + length (graph_sent new) \<and>
     dr_lineage_events d' = dr_lineage_events d + length (lineage_sent new) \<and>
     (books_balance d \<longrightarrow> books_balance d')"

lemma drains_nothing: "drains_exactly X [] [] d d"
  by (simp add: drains_exactly_def)

lemma drains_event:
  assumes "validate_outbox_event_evidence X ev = Ok ()" "list_all accepted_by_sink new1"
    "lineage_drain_event_summary X ev (recorded new1 empty_projection) = Ok summary"
    "drains_exactly X events new2 (add_drained ev (recorded new1 empty_projection) summary d) d'"
  shows "drains_exactly X (ev # events) (new1 @ new2) d d'"
  using assms books_balance_add [OF _ assms(3)] recorded_counts [OF assms(2), of empty_projection]
  by (simp add: drains_exactly_def add_drained_def empty_projection_def)

definition loop_outcome :: "DrainState \<Rightarrow> OutboxEvent list \<Rightarrow> drained \<Rightarrow> drain_world \<Rightarrow> drained result \<times> drain_world \<Rightarrow> bool" where
  "loop_outcome S events d dw = (\<lambda>(r, dw'). ticks (dw_world dw) (dw_world dw') \<and>
     (\<exists>new. dw_sent dw' = dw_sent dw @ new \<and> (\<forall>d'. r = Ok d' \<longrightarrow> drains_exactly (ds_evidence S) events new d d')))"

lemma loop_outcome_err:
  "ticks (dw_world dw) (dw_world dw') \<Longrightarrow> dw_sent dw' = dw_sent dw @ new \<Longrightarrow> loop_outcome S events d dw (Inl e, dw')"
  by (auto simp: loop_outcome_def)

lemma drain_loop_outcome: "loop_outcome S events d dw (drain_loop S events d dw)"
proof (induction events arbitrary: d dw)
  case Nil
  show ?case by (auto simp: loop_outcome_def lift_drain_def drains_nothing intro: ticks_refl)
next
  case (Cons ev events)
  let ?X = "ds_evidence S"
  obtain r1 dw1 where p: "project_outbox_event S ev dw = (r1, dw1)" by (cases "project_outbox_event S ev dw")
  from books_of_projection [of dw S ev] obtain new1 where new1: "ticks (dw_world dw) (dw_world dw1)"
    "dw_sent dw1 = dw_sent dw @ new1"
    "\<forall>receipt. r1 = Ok receipt \<longrightarrow> list_all accepted_by_sink new1 \<and> receipt = recorded new1 empty_projection"
    by (auto simp: p books_def)
  show ?case
  proof (cases "validate_outbox_event_evidence ?X ev")
    case (Inl e)
    then show ?thesis
      by (auto simp: and_then_op_def lift_drain_def Let_def intro!: loop_outcome_err [where new = "[]"] ticks_refl)
  next
    case valid: (Inr u)
    show ?thesis
    proof (cases r1)
      case (Inl e)
      with valid p new1 show ?thesis
        by (auto simp: and_then_op_def lift_drain_def Let_def intro!: loop_outcome_err)
    next
      case r1: (Inr receipt)
      show ?thesis
      proof (cases "and_then (validate_projection_receipt_evidence ?X ev receipt)
               (\<lambda>_. lineage_drain_event_summary ?X ev receipt)")
        case (Inl e)
        with valid p r1 new1 show ?thesis
          by (auto simp: and_then_op_def lift_drain_def Let_def and_then_err intro!: loop_outcome_err)
      next
        case (Inr summary)
        then have checked: "validate_projection_receipt_evidence ?X ev receipt = Ok ()"
          and summary: "lineage_drain_event_summary ?X ev receipt = Ok summary"
          by (auto simp: and_then_ok)
        have "drain_loop S (ev # events) d dw = drain_loop S events (add_drained ev receipt summary d) dw1"
          using valid p r1 checked summary by (simp add: and_then_op_def lift_drain_def Let_def)
        then show ?thesis
          using Cons.IH [of "add_drained ev receipt summary d" dw1] new1 r1 valid summary
            drains_event [of ?X ev new1 summary events _ d]
          by (auto simp: loop_outcome_def intro: ticks_trans)
      qed
    qed
  qed
qed

text \<open>
  Which projection sent what: one after the other, every event of the batch was validated and projected,
  the sinks accepted all its projection sent, the receipt counts it, and the event was summarised.
\<close>

inductive batch_projected ::
  "DrainState \<Rightarrow> OutboxEvent list \<Rightarrow> drain_world \<Rightarrow> (OutboxEvent \<times> sent list \<times> OutboxProjectionReceipt) list \<Rightarrow> drain_world \<Rightarrow> bool"
  for S where
  all_projected: "batch_projected S [] dw [] dw"
| event_projected: "validate_outbox_event_evidence (ds_evidence S) ev = Ok () \<Longrightarrow>
    project_outbox_event S ev dw = (Ok receipt, dw1) \<Longrightarrow> dw_sent dw1 = dw_sent dw @ new \<Longrightarrow>
    list_all accepted_by_sink new \<Longrightarrow> receipt = recorded new empty_projection \<Longrightarrow>
    validate_projection_receipt_evidence (ds_evidence S) ev receipt = Ok () \<Longrightarrow>
    lineage_drain_event_summary (ds_evidence S) ev receipt = Ok summary \<Longrightarrow>
    batch_projected S events dw1 parts dw2 \<Longrightarrow>
    batch_projected S (ev # events) dw ((ev, new, receipt) # parts) dw2"

definition sent_parts :: "(OutboxEvent \<times> sent list \<times> OutboxProjectionReceipt) list \<Rightarrow> sent list" where
  "sent_parts parts = concat (map (\<lambda>(ev, new, receipt). new) parts)"

lemma batch_projected_sends:
  "batch_projected S events dw parts dw' \<Longrightarrow> dw_sent dw' = dw_sent dw @ sent_parts parts"
  by (induction rule: batch_projected.induct) (auto simp: sent_parts_def)

lemma batch_projected_events: "batch_projected S events dw parts dw' \<Longrightarrow> map fst parts = events"
  by (induction rule: batch_projected.induct) auto

text \<open>An event was projected with every send accepted, after \<open>before\<close> had been sent.\<close>

definition projected_after :: "DrainState \<Rightarrow> sent list \<Rightarrow> string \<Rightarrow> sent list \<Rightarrow> bool" where
  "projected_after S before i sent \<longleftrightarrow>
     (\<exists>ev receipt pre new post dw dw'. oe_event_id ev = i \<and> project_outbox_event S ev dw = (Ok receipt, dw') \<and>
        dw_sent dw = before @ pre \<and> dw_sent dw' = before @ pre @ new \<and> list_all accepted_by_sink new \<and>
        sent = before @ pre @ new @ post)"

lemma projected_after_append: "projected_after S before i sent \<Longrightarrow> projected_after S before i (sent @ later)"
  by (fastforce simp: projected_after_def)

lemma projected_event:
  "batch_projected S events dw parts dw' \<Longrightarrow> ev \<in> set events \<Longrightarrow> dw_sent dw = before @ pre \<Longrightarrow>
     projected_after S before (oe_event_id ev) (dw_sent dw')"
proof (induction arbitrary: pre rule: batch_projected.induct)
  case (event_projected e dw receipt dw1 new summary events parts dw2)
  show ?case
  proof (cases "ev = e")
    case True
    have "dw_sent dw2 = before @ pre @ new @ sent_parts parts"
      using batch_projected_sends [OF event_projected(8)] event_projected(3,11) by simp
    with True event_projected(2-4,11) show ?thesis
      unfolding projected_after_def
      by (intro exI [of _ e] exI [of _ receipt] exI [of _ pre] exI [of _ new] exI [of _ "sent_parts parts"]
          exI [of _ dw] exI [of _ dw1]) simp
  next
    case False
    with event_projected.IH [of "pre @ new"] event_projected(3,10,11) show ?thesis by simp
  qed
qed simp

lemma drain_loop_projects:
  "drain_loop S events d dw = (Ok d', dw') \<Longrightarrow> \<exists>parts. batch_projected S events dw parts dw'"
proof (induction events arbitrary: d dw)
  case Nil
  then show ?case by (auto simp: lift_drain_def intro: batch_projected.intros)
next
  case (Cons ev events)
  then obtain receipt dw1 summary where step: "validate_outbox_event_evidence (ds_evidence S) ev = Ok ()"
    "project_outbox_event S ev dw = (Ok receipt, dw1)"
    "validate_projection_receipt_evidence (ds_evidence S) ev receipt = Ok ()"
    "lineage_drain_event_summary (ds_evidence S) ev receipt = Ok summary"
    "drain_loop S events (add_drained ev receipt summary d) dw1 = (Ok d', dw')"
    by (auto simp: and_then_op_ok lift_drain_def Let_def)
  from books_of_projection [of dw S ev] obtain new where new: "dw_sent dw1 = dw_sent dw @ new"
    "list_all accepted_by_sink new" "receipt = recorded new empty_projection"
    by (auto simp: step(2) books_def)
  obtain parts where "batch_projected S events dw1 parts dw'"
    using Cons.IH [OF step(5)] by blast
  with step new show ?case by (blast intro: batch_projected.event_projected)
qed

subsection \<open>The pending events\<close>

text \<open>The events a drain of a catalog takes: the oldest undelivered ones of its sink, up to the limit.\<close>

definition drain_batch :: "nat \<Rightarrow> MemoryState \<Rightarrow> OutboxEvent list" where
  "drain_batch limit s =
     take limit (sort_key drain_order
       (filter (\<lambda>ev. oe_delivered_at ev = None \<and> oe_sink ev = drain_sink) (ms_outbox_events s)))"

lemma drain_batch_due: "drain_batch limit s = take limit (due_events s (Some drain_sink))"
  by (simp add: drain_batch_def due_events_def drain_order_def [abs_def] undelivered_def sink_matches_def)

lemma drain_batch_sorted: "sort_key drain_order (drain_batch limit s) = drain_batch limit s"
  by (intro sort_key_id_if_sorted) (simp add: drain_batch_def take_map [symmetric] sorted_wrt_take)

lemma drain_batchD:
  "ev \<in> set (drain_batch limit s) \<Longrightarrow>
     ev \<in> set (ms_outbox_events s) \<and> oe_delivered_at ev = None \<and> oe_sink ev = drain_sink"
  by (auto simp: drain_batch_def dest: in_set_takeD)

lemma pending_batch:
  assumes "pending_outbox_events E s (Some drain_sink) limit = Ok events"
  shows "events = drain_batch limit s"
  using assms
  by (auto simp: pending_outbox_events_def drain_batch_def drain_order_def [abs_def] and_then_ok Let_def
      sink_matches_def filter_filter conj_commute)

lemma check_duplicate_ids_ok: "check_duplicate_ids E events = Ok () \<longleftrightarrow> distinct (map oe_event_id events)"
  using first_duplicate_none [of "[]" "map oe_event_id events"]
  by (auto simp: check_duplicate_ids_def split: option.split)

subsection \<open>The acknowledgement\<close>

lemma sha256_shape_not_blank: "validate_outbox_event_id_shape i = Ok () \<Longrightarrow> \<not> blank i"
proof -
  assume "validate_outbox_event_id_shape i = Ok ()"
  then have shape: "sha256_shape i" by (simp add: validate_sha256_ok)
  from shape obtain digest where i: "i = ''sha256:'' @ digest" and digest: "list_all is_ascii_hexdigit digest"
    by (auto simp: sha256_shape_def strip_prefix_Some split: option.splits)
  have "trim i = i"
    using digest by (intro trim_graphic) (auto simp: i list_all_iff is_ascii_hexdigit_def is_ascii_digit_def)
  then show ?thesis by (simp add: i)
qed

lemma mark_ids_not_blank:
  assumes "mark_outbox_delivered E now ids s = (Ok n, s')"
  shows "list_all (\<lambda>i. \<not> blank i) ids"
  using assms sha256_shape_not_blank
  by (auto simp: mark_outbox_delivered_def qmark_ok check_all_ok list_all_iff split: if_splits)

lemma manifest_of_drained:
  assumes "books_balance d" "distinct (dr_delivered d)" "list_all (\<lambda>i. \<not> blank i) (dr_delivered d)"
  shows "validate_lineage_drain_response_manifest (drain_response (length (dr_delivered d)) d) = Ok ()"
proof -
  have "list_all (\<lambda>(t, s). t = ls_event_type s) (zip (map ls_event_type ss) ss)" for ss
    by (induction ss) auto
  with assms show ?thesis
    by (simp add: validate_manifest_ok drain_response_def books_balance_def list_all_iff)
qed

text \<open>Among pairwise different ids the acknowledgement counts every event of the batch once.\<close>

lemma count_batch:
  assumes "distinct (map oe_event_id (filter undelivered evs))" "set batch \<subseteq> set (filter undelivered evs)"
    "distinct (map oe_event_id batch)"
  shows "length (filter (to_deliver (map oe_event_id batch)) evs) = length batch"
proof -
  have inj: "inj_on oe_event_id (set (filter undelivered evs))" and d: "distinct (filter undelivered evs)"
    using assms(1) by (simp_all add: distinct_map)
  have eq: "filter (to_deliver (map oe_event_id batch)) evs =
      filter (\<lambda>ev. oe_event_id ev \<in> oe_event_id ` set batch) (filter undelivered evs)"
    by (simp add: to_deliver_def [abs_def] undelivered_def conj_commute)
  have "set (filter (to_deliver (map oe_event_id batch)) evs) = set batch"
    using assms(2) inj unfolding eq by (auto simp: inj_on_def)
  moreover have "distinct (filter (to_deliver (map oe_event_id batch)) evs)"
    unfolding eq by (rule distinct_filter [OF d])
  moreover have "distinct batch" using assms(3) by (simp add: distinct_map)
  ultimately show ?thesis by (metis distinct_card)
qed

subsection \<open>The two outcomes of a drain\<close>

text \<open>
  Before the acknowledgement the catalog moves by the other requests alone; a drain that gets there has
  validated and sent its batch.
\<close>

lemma drain_cases:
  assumes "drain_outbox_once S limit dw = (r, dw')"
  defines "w1 \<equiv> others_run (dw_world dw)" and "E \<equiv> drain_env S"
  obtains
    (refused) e new where "r = Err e" "ticks w1 (dw_world dw')" "dw_sent dw' = dw_sent dw @ new"
  | (acknowledging) new d dw1 where "distinct (map oe_event_id (drain_batch limit (wd_catalog w1)))"
      "ticks w1 (dw_world dw1)" "dw_sent dw1 = dw_sent dw @ new"
      "drains_exactly (ds_evidence S) (drain_batch limit (wd_catalog w1)) new nothing_drained d"
      "acknowledge_drained S d dw1 = (r, dw')"
      "\<exists>parts. batch_projected S (drain_batch limit (wd_catalog w1)) (dw\<lparr>dw_world := w1\<rparr>) parts dw1"
proof -
  let ?dw0 = "dw\<lparr>dw_world := w1\<rparr>"
  let ?pending = "pending_outbox_events E (wd_catalog w1) (Some drain_sink) limit"
  have run: "drain_outbox_once S limit dw =
     (case ?pending of Inl e \<Rightarrow> (Inl e, ?dw0)
      | Inr events \<Rightarrow> (case check_duplicate_ids E (sort_key drain_order events) of Inl e \<Rightarrow> (Inl e, ?dw0)
        | Inr _ \<Rightarrow> and_then_op (drain_loop S (sort_key drain_order events) nothing_drained)
                    (acknowledge_drained S) ?dw0))"
    by (simp add: drain_outbox_once_def and_then_op_def in_world_def store_read_def lift_drain_def Let_def
        w1_def E_def split: sum.split)
  show ?thesis
  proof (cases ?pending)
    case (Inl e)
    with run assms(1) refused [of e "[]"] show ?thesis by (auto intro: ticks_refl)
  next
    case pending: (Inr events)
    have events: "sort_key drain_order events = drain_batch limit (wd_catalog w1)"
      using pending_batch [OF pending] drain_batch_sorted by simp
    let ?batch = "drain_batch limit (wd_catalog w1)"
    show ?thesis
    proof (cases "check_duplicate_ids E ?batch")
      case (Inl e)
      with run assms(1) pending events refused [of e "[]"] show ?thesis by (auto intro: ticks_refl)
    next
      case (Inr u)
      then have distinct: "distinct (map oe_event_id ?batch)" by (simp add: check_duplicate_ids_ok)
      obtain r1 dw1 where loop: "drain_loop S ?batch nothing_drained ?dw0 = (r1, dw1)"
        by (cases "drain_loop S ?batch nothing_drained ?dw0")
      from drain_loop_outcome [of S ?batch nothing_drained ?dw0] obtain new where
        new: "ticks w1 (dw_world dw1)" "dw_sent dw1 = dw_sent dw @ new"
          "\<forall>d'. r1 = Ok d' \<longrightarrow> drains_exactly (ds_evidence S) ?batch new nothing_drained d'"
        by (auto simp: loop loop_outcome_def)
      have eq: "drain_outbox_once S limit dw = (case r1 of Inl e \<Rightarrow> (Inl e, dw1) | Inr d \<Rightarrow> acknowledge_drained S d dw1)"
        using run pending events Inr loop by (simp add: and_then_op_def split: sum.split)
      show ?thesis
      proof (cases r1)
        case (Inl e)
        with eq assms(1) new refused show ?thesis by auto
      next
        case d: (Inr d)
        with loop have "\<exists>parts. batch_projected S ?batch ?dw0 parts dw1" by (auto intro: drain_loop_projects)
        with d eq assms(1) new distinct acknowledging [of dw1 new d] show ?thesis by auto
      qed
    qed
  qed
qed

text \<open>The acknowledgement, in the catalog the other requests left.\<close>

lemma acknowledge_cases:
  assumes "acknowledge_drained S d dw1 = (r, dw')"
  defines "w2 \<equiv> others_run (dw_world dw1)" and "E \<equiv> drain_env S"
  obtains
    (refused) e where "r = Err e" "dw_world dw' = tick w2" "dw_sent dw' = dw_sent dw1"
  | (marked) n s' now where "mark_outbox_delivered E now (dr_delivered d) (wd_catalog w2) = (Ok n, s')"
      "dw_world dw' = (tick w2)\<lparr>wd_catalog := s'\<rparr>" "dw_sent dw' = dw_sent dw1"
      "r = (if n \<noteq> length (dr_delivered d) then
              Err (Conflict (''outbox drain acknowledgement mismatch: projected '' @ nat_str (length (dr_delivered d)) @
                '' event(s) but marked '' @ nat_str n @ '' delivered''))
            else and_then (validate_lineage_drain_response_manifest (drain_response n d)) (\<lambda>_. Ok (drain_response n d)))"
proof -
  let ?now = "wd_clock w2 (wd_ticks w2)"
  obtain r0 s' where mark: "mark_outbox_delivered E ?now (dr_delivered d) (wd_catalog w2) = (r0, s')"
    by (cases "mark_outbox_delivered E ?now (dr_delivered d) (wd_catalog w2)")
  show ?thesis
  proof (cases r0)
    case (Inl e)
    with mark have "s' = wd_catalog w2" by (auto dest: mark_outbox_delivered_err)
    with Inl mark assms(1) show ?thesis
      by (intro refused [of e])
        (auto simp: acknowledge_drained_def and_then_op_def in_world_def store_call_def Let_def w2_def E_def tick_def)
  next
    case (Inr n)
    with mark assms(1) show ?thesis
      by (intro marked [of ?now n s'])
        (auto simp: acknowledge_drained_def and_then_op_def in_world_def store_call_def Let_def w2_def E_def
          lift_drain_def split: if_splits sum.splits)
  qed
qed

lemma others_run_alone: "wd_others w = [] \<Longrightarrow> others_run w = w"
  by (simp add: others_run_def)

lemma waits_others_run: "waits w (others_run w)"
  by (intro waits.intros)

end
