(* ===== verification/ServiceClaims.thy ===== *)
theory ServiceClaims
  imports ServiceMachine DrainLaws
begin

section \<open>Properties of the service\<close>

subsection \<open>Authorization before effects\<close>

text \<open>
  C16: Nothing happens without the engine's consent. On every route of the router, the drain of the
  lineage outbox included: a request whose principal (the one its headers name, after the verification
  of a TypeDID envelope) the engine denies the action of the route fails; it leaves the object store as
  it was and sends nothing to a sink, and the catalog moves only by what others do to it meanwhile, so it
  stays as it was when the request runs alone. The same holds for a request whose headers or envelope
  name no acceptable principal.
\<close>

theorem request_needs_its_action:
  assumes "refused_to (ds_state S) h (route_action q)"
  shows "\<exists>e dw'. serve_route S h q dw = (Err e, dw') \<and> waits (dw_world dw) (dw_world dw') \<and>
    dw_sent dw' = dw_sent dw \<and> wd_objects (dw_world dw') = wd_objects (dw_world dw) \<and>
    (wd_others (dw_world dw) = [] \<longrightarrow> wd_catalog (dw_world dw') = wd_catalog (dw_world dw))"
  using serve_route_refuses [OF assms, of dw] waits_objects waits_alone by metis

text \<open>A service whose engine allows everyone everything but the anonymous principal a drop and a drain.\<close>

definition demo_denier :: LakeCatState where
  "demo_denier = demo_writer\<lparr>lc_governance := (\<lambda>q.
     if aq_principal q = principal_anonymous \<and> aq_action q \<in> {TableDrop, LineageRead}
     then Err (Forbidden ''no'') else demo_allow q)\<rparr>"

definition demo_denier_routes :: DrainState where
  "demo_denier_routes =
     \<lparr>ds_state = demo_denier, ds_rfc3339_error = (\<lambda>_. None), ds_graph = (\<lambda>_ ev. noop_graph_emit ev),
      ds_lineage = (\<lambda>_ ev. hash_only_lineage_emit demo_urls ev)\<rparr>"

lemma demo_denies:
  "action \<in> {TableDrop, LineageRead} \<Longrightarrow> refused_to (ds_state demo_denier_routes) demo_headers action"
  by (auto simp: refused_to_def request_principal_def denies_def demo_denier_routes_def demo_denier_def
      demo_request_identity verify_typedid_identity_def demo_anonymous_def)

theorem request_needs_its_action_witness:
  "\<exists>e dw' e2 dw2. serve_route demo_denier_routes demo_headers (Handled (DeleteTable None ''sales'' ''orders''))
       \<lparr>dw_world = demo_world [], dw_sent = []\<rparr> = (Err e, dw') \<and> wd_catalog (dw_world dw') = demo_state \<and>
     serve_route demo_denier_routes demo_headers DrainLineage
       \<lparr>dw_world = demo_world [], dw_sent = []\<rparr> = (Err e2, dw2) \<and> dw_sent dw2 = []"
proof -
  let ?dw = "\<lparr>dw_world = demo_world [], dw_sent = []\<rparr>"
  have alone: "wd_others (dw_world ?dw) = []" "wd_catalog (dw_world ?dw) = demo_state" "dw_sent ?dw = []"
    by (simp_all add: demo_world_def)
  have "route_action (Handled (DeleteTable None ''sales'' ''orders'')) \<in> {TableDrop, LineageRead}"
    "route_action DrainLineage \<in> {TableDrop, LineageRead}" by simp_all
  from this [THEN demo_denies, THEN request_needs_its_action, of ?dw] show ?thesis
    using alone by metis
qed

subsection \<open>The service and the catalog machine\<close>

text \<open>
  C17: Whatever is requested, the service moves the catalog along the catalog machine only: after any run
  of requests, interleaved with any other steps of the catalog at each of their store calls, the
  catalog is a reachable state, so every row is valid and in its place and the chain of receipts of
  every view is intact.
\<close>

theorem service_refines_catalog:
  assumes "valid_name (lc_warehouse L)" "env_ok (lc_env L)" "runs_catalog (lc_env L) w"
    and run: "serve_all L requests w = (replies, w')"
  shows "\<exists>clock \<le> wd_clock w' (wd_ticks w'). reachable (lc_env L) clock (wd_catalog w') \<and>
    store_inv (lc_env L) (wd_catalog w') \<and>
    chains_inv (lc_env L) clock (ms_views (wd_catalog w')) (ms_view_version_receipts (wd_catalog w'))"
proof -
  from run have "w' = snd (serve_all L requests w)" by simp
  with service_states [OF assms(1,3)] have "runs_catalog (lc_env L) w'" by simp
  then obtain clock where "clock \<le> wd_clock w' (wd_ticks w')" "reachable (lc_env L) clock (wd_catalog w')"
    unfolding runs_catalog_def by blast
  with reachable_inv reachable_chains assms(2) show ?thesis by blast
qed

definition empty_world :: "(int \<Rightarrow> MemoryState \<Rightarrow> MemoryState) list \<Rightarrow> world" where
  "empty_world others = (demo_world others)\<lparr>wd_catalog := empty_state\<rparr>"

definition demo_run :: "(HeaderMap \<times> service_request) list" where
  "demo_run =
     [(demo_headers, PostNamespace None \<lparr>cn_namespace = [''sales''], cn_properties = []\<rparr>),
      (demo_headers, PostCommit None ''sales'' ''orders'' demo_commit_request)]"

theorem service_refines_catalog_witness:
  "\<exists>replies w'. serve_all demo_writer demo_run (empty_world [\<lambda>now s. snd (exec demo_urls now (CreateTable demo_table) s)]) =
     (replies, w') \<and> length replies = 2 \<and> store_inv demo_urls (wd_catalog w')"
proof -
  let ?w = "empty_world [\<lambda>now s. snd (exec demo_urls now (CreateTable demo_table) s)]"
  have "valid_ident (tr_ident demo_table)" by code_simp
  then have "catalog_steps demo_urls (\<lambda>now s. snd (exec demo_urls now (CreateTable demo_table) s))"
    by (intro catalog_steps_exec) simp
  then have runs: "runs_catalog demo_urls ?w"
    by (auto simp: runs_catalog_def empty_world_def demo_world_def mono_def intro: reachable.init)
  have ok: "valid_name (lc_warehouse demo_writer)" "env_ok (lc_env demo_writer)"
    using demo_env_ok by (simp_all add: valid_name_def name_char_def is_ascii_alphanumeric_def demo_urls_def env_ok_def)
  obtain replies w' where run: "serve_all demo_writer demo_run ?w = (replies, w')" by fastforce
  with service_refines_catalog [OF ok _ run] runs have "store_inv demo_urls (wd_catalog w')" by auto
  moreover from run have "length replies = 2"
    by (auto simp del: serve.simps simp: demo_run_def Let_def split: prod.splits)
  ultimately show ?thesis using run by blast
qed

subsection \<open>The outbox\<close>

text \<open>A row of an event in a run of the routes: as it was, or delivered by a drain of the run.\<close>

definition event_kept :: "DrainState \<Rightarrow> (HeaderMap \<times> route) list \<Rightarrow> sent list \<Rightarrow> OutboxEvent \<Rightarrow> drain_world \<Rightarrow> bool" where
  "event_kept S requests before ev dw \<longleftrightarrow>
     kept_row ev None (drain_env S) (dw_world dw) \<or>
     (\<exists>now. kept_row ev (Some now) (drain_env S) (dw_world dw) \<and> DrainLineage \<in> snd ` set requests \<and>
        projected_after S before (oe_event_id ev) (dw_sent dw))"

lemma event_kept_append:
  assumes "event_kept S requests before ev dw" "dw_sent dw' = dw_sent dw @ new"
    and "\<And>t. kept_row ev t (drain_env S) (dw_world dw) \<Longrightarrow> kept_row ev t (drain_env S) (dw_world dw')"
  shows "event_kept S requests before ev dw'"
  using assms unfolding event_kept_def by (metis projected_after_append)

lemma marked_row:
  assumes "mark_outbox_delivered E now ids s = (Ok n, s')" "ev\<lparr>oe_delivered_at := t\<rparr> \<in> set (ms_outbox_events s)"
  shows "ev\<lparr>oe_delivered_at := t\<rparr> \<in> set (ms_outbox_events s') \<or>
    t = None \<and> oe_event_id ev \<in> set ids \<and> ev\<lparr>oe_delivered_at := Some now\<rparr> \<in> set (ms_outbox_events s')"
proof -
  let ?row = "ev\<lparr>oe_delivered_at := t\<rparr>"
  let ?mark = "\<lambda>e. if to_deliver ids e then e\<lparr>oe_delivered_at := Some now\<rparr> else e"
  have "?mark ?row \<in> ?mark ` set (ms_outbox_events s)" using assms(2) by (rule imageI)
  then have "?mark ?row \<in> set (ms_outbox_events s')" by (simp add: mark_outbox_delivered_ok(2) [OF assms(1)])
  then show ?thesis by (auto simp: to_deliver_def undelivered_def split: if_splits)
qed

lemma drain_keeps_event:
  assumes kept: "event_kept S requests before ev dw" and asked: "DrainLineage \<in> snd ` set requests"
    and sent: "dw_sent dw = before @ pre" and drain: "drain_outbox_once S limit dw = (r, dw')"
  shows "event_kept S requests before ev dw' \<and> (\<exists>new. dw_sent dw' = dw_sent dw @ new)"
  using drain
proof (cases rule: drain_cases)
  case (refused e new)
  note refused(3)
  moreover have "waits (dw_world dw) (dw_world dw')"
    using ticks_waits [OF refused(2)] waits_others_run waits_trans by blast
  ultimately show ?thesis using event_kept_append [OF kept] waits_keeps_row by blast
next
  case (acknowledging new d dw1)
  let ?w2 = "others_run (dw_world dw1)"
  have waits2: "waits (dw_world dw) ?w2"
    using ticks_waits [OF acknowledging(2)] waits_others_run waits_trans by blast
  have kept1: "event_kept S requests before ev (dw1\<lparr>dw_world := ?w2\<rparr>)"
    by (rule event_kept_append [OF kept]) (simp_all add: acknowledging(3) waits_keeps_row [OF waits2])
  from acknowledging(5) show ?thesis
  proof (cases rule: acknowledge_cases)
    case (refused e)
    have "event_kept S requests before ev dw'"
      by (rule event_kept_append [OF kept1, where new = "[]"])
        (simp_all add: refused(2,3) outbox_run.ticks)
    with acknowledging(3) refused(3) show ?thesis by simp
  next
    case (marked n s' now)
    obtain parts where parts: "batch_projected S (drain_batch limit (wd_catalog (others_run (dw_world dw))))
        (dw\<lparr>dw_world := others_run (dw_world dw)\<rparr>) parts dw1"
      using acknowledging(6) by blast
    have delivered: "dr_delivered d = map oe_event_id (drain_batch limit (wd_catalog (others_run (dw_world dw))))"
      using acknowledging(4) by (simp add: drains_exactly_def nothing_drained_def)
    have projected: "projected_after S before (oe_event_id ev) (dw_sent dw')"
      if "oe_event_id ev \<in> set (dr_delivered d)"
      using that delivered projected_event [OF parts] sent marked(3) by auto
    have row: "kept_row ev t (drain_env S) (dw_world dw') \<or>
        t = None \<and> oe_event_id ev \<in> set (dr_delivered d) \<and> kept_row ev (Some now) (drain_env S) (dw_world dw')"
      if "kept_row ev t (drain_env S) ?w2" for t
      using that marked_row [OF marked(1), where ev = ev and t = t] marked(2) by (auto simp: kept_row_def tick_def)
    have same: "dw_sent dw' = dw_sent dw1" by (fact marked(3))
    from kept1 have "event_kept S requests before ev dw'"
      unfolding event_kept_def using row projected asked same by fastforce
    with acknowledging(3) same show ?thesis by simp
  qed
qed

lemma in_world_read:
  assumes "in_world (authorize_request L h auth) dw = (r, dw1)"
  shows "waits (dw_world dw) (dw_world dw1)" "dw_sent dw1 = dw_sent dw"
  using assms waiting_authorize [of L h auth]
  by (auto simp: in_world_def waiting_def split: prod.splits) (metis snd_conv)

lemma route_keeps_event:
  assumes name: "valid_name (lc_warehouse (ds_state S))" and kept: "event_kept S requests before ev dw"
    and asked: "q = DrainLineage \<Longrightarrow> DrainLineage \<in> snd ` set requests"
    and sent: "dw_sent dw = before @ pre" and route: "serve_route S h q dw = (r, dw')"
  shows "event_kept S requests before ev dw' \<and> (\<exists>new. dw_sent dw' = dw_sent dw @ new)"
proof (cases q)
  case (Handled k)
  with route have dw': "dw_world dw' = snd (serve (ds_state S) h k (dw_world dw))" "dw_sent dw' = dw_sent dw"
    by (auto simp: and_then_op_def in_world_def lift_drain_def split: prod.splits sum.splits)
  have "event_kept S requests before ev dw'"
    by (rule event_kept_append [OF kept, where new = "[]"])
      (use serve_keeps_row [OF name] in \<open>simp_all add: dw' drain_env_def\<close>)
  with dw' show ?thesis by simp
next
  case DrainLineage
  obtain a dw1 where auth: "in_world (authorize_request (ds_state S) h authorize_lineage_read) dw = (a, dw1)"
    by (cases "in_world (authorize_request (ds_state S) h authorize_lineage_read) dw")
  note read = in_world_read [OF auth]
  have kept1: "event_kept S requests before ev dw1"
    by (rule event_kept_append [OF kept, where new = "[]"]) (use read waits_keeps_row in auto)
  show ?thesis
  proof (cases a)
    case (Inl e)
    with route auth DrainLineage have "dw' = dw1"
      by (simp add: drain_lineage_outbox_def and_then_op_def)
    with kept1 read show ?thesis by simp
  next
    case (Inr cap)
    obtain b dw2 where drain: "drain_outbox_once S 100 dw1 = (b, dw2)"
      by (cases "drain_outbox_once S 100 dw1")
    have "dw' = dw2"
      using route auth Inr drain DrainLineage
      by (auto simp: drain_lineage_outbox_def and_then_op_def lift_drain_def split: sum.splits)
    with drain_keeps_event [OF kept1 asked _ drain] read(2) sent DrainLineage show ?thesis by auto
  qed
qed

lemma routes_keep_event:
  assumes "valid_name (lc_warehouse (ds_state S))" "set requests \<subseteq> set all"
    and "event_kept S all before ev dw" "dw_sent dw = before @ pre"
    and "serve_routes S requests dw = (replies, dw')"
  shows "event_kept S all before ev dw'"
  using assms(2-5)
proof (induction requests arbitrary: dw pre replies)
  case (Cons hq rest)
  obtain h q r dw1 rs where step: "hq = (h, q)" "serve_route S h q dw = (r, dw1)"
      "serve_routes S rest dw1 = (rs, dw')"
    using Cons.prems(4) by (cases hq) (auto simp: Let_def split: prod.splits)
  have asked: "DrainLineage \<in> snd ` set all" if "q = DrainLineage"
    using that step(1) Cons.prems(1) by force
  from route_keeps_event [OF assms(1) Cons.prems(2) asked Cons.prems(3) step(2)]
  obtain new where "event_kept S all before ev dw1" "dw_sent dw1 = before @ (pre @ new)"
    using Cons.prems(3) by auto
  with Cons.IH [OF _ _ _ step(3)] Cons.prems(1) show ?case by simp
qed simp

text \<open>
  C21: The outbox loses nothing. An event that is pending when a run of requests begins, over all routes
  of the service, is there when the run ends, provided that what the others do between the calls keeps
  its row. It is still pending; or it is marked delivered and is otherwise the same, the run contained a
  request to drain the lineage outbox, and in the run an event with its id was projected with everything
  its projection sent accepted by the sinks.
\<close>

theorem requests_keep_outbox_events:
  assumes "valid_name (lc_warehouse (ds_state S))"
    and "ev \<in> set (ms_outbox_events (wd_catalog (dw_world dw)))" "oe_delivered_at ev = None"
    and "list_all (keeps_event ev) (wd_others (dw_world dw))"
    and "serve_routes S requests dw = (replies, dw')"
  shows "ev \<in> set (ms_outbox_events (wd_catalog (dw_world dw'))) \<or>
    (\<exists>now. ev\<lparr>oe_delivered_at := Some now\<rparr> \<in> set (ms_outbox_events (wd_catalog (dw_world dw'))) \<and>
       DrainLineage \<in> snd ` set requests \<and>
       projected_after S (dw_sent dw) (oe_event_id ev) (dw_sent dw'))"
proof -
  have same: "ev\<lparr>oe_delivered_at := None\<rparr> = ev" using assms(3) by simp
  have "event_kept S requests (dw_sent dw) ev dw"
    using assms(2,4) by (simp add: event_kept_def kept_row_def same)
  from routes_keep_event [OF assms(1) order_refl this _ assms(5), of "[]"] show ?thesis
    unfolding event_kept_def kept_row_def same by auto
qed

definition demo_writer_routes :: DrainState where
  "demo_writer_routes = demo_denier_routes\<lparr>ds_state := demo_writer\<rparr>"

definition demo_route_run :: "(HeaderMap \<times> route) list" where
  "demo_route_run =
     [(demo_headers, Handled (PostCommit None ''sales'' ''orders'' demo_commit_request)),
      (demo_headers, DrainLineage)]"

theorem requests_keep_outbox_events_witness:
  "\<exists>ev replies dw'. ev \<in> set (ms_outbox_events (demo_race 3 demo_state)) \<and>
     serve_routes demo_writer_routes demo_route_run
       \<lparr>dw_world = (demo_world [])\<lparr>wd_catalog := demo_race 3 demo_state\<rparr>, dw_sent = []\<rparr> = (replies, dw') \<and>
     (ev \<in> set (ms_outbox_events (wd_catalog (dw_world dw'))) \<or>
      (\<exists>now. ev\<lparr>oe_delivered_at := Some now\<rparr> \<in> set (ms_outbox_events (wd_catalog (dw_world dw')))))"
proof -
  let ?dw = "\<lparr>dw_world = (demo_world [])\<lparr>wd_catalog := demo_race 3 demo_state\<rparr>, dw_sent = []\<rparr>"
  have "list_ex (\<lambda>ev. oe_delivered_at ev = None) (ms_outbox_events (demo_race 3 demo_state))" by code_simp
  then obtain ev where ev: "ev \<in> set (ms_outbox_events (demo_race 3 demo_state))" "oe_delivered_at ev = None"
    by (auto simp: list_ex_iff)
  moreover have "valid_name (lc_warehouse (ds_state demo_writer_routes))"
    by (simp add: demo_writer_routes_def valid_name_def name_char_def is_ascii_alphanumeric_def)
  moreover obtain replies dw' where "serve_routes demo_writer_routes demo_route_run ?dw = (replies, dw')"
    by (cases "serve_routes demo_writer_routes demo_route_run ?dw")
  ultimately show ?thesis
    using requests_keep_outbox_events [of demo_writer_routes ev ?dw demo_route_run replies dw']
    by (fastforce simp: demo_world_def)
qed

subsection \<open>Metadata objects\<close>

text \<open>
  C20: No request overwrites or removes a metadata object that was there before it: an object keeps its
  bytes under every request, in whatever order the object store fails, also when the cleanup of a
  refused commit runs.
\<close>

theorem requests_keep_objects:
  assumes "ow_objects (wd_objects w) key = Some bytes"
  shows "ow_objects (wd_objects (snd (serve_all L requests w))) key = Some bytes"
  using serve_all_keeps [where J = "holds key bytes", OF keeps_holds] assms by (simp add: holds_def)

theorem requests_keep_objects_witness:
  "ow_objects (wd_objects (snd (serve_all demo_writer demo_run ((demo_world demo_racing)\<lparr>wd_objects := demo_written\<rparr>))))
     (''s3'', demo_metadata_location) = Some ''{}''"
  by (rule requests_keep_objects) (simp add: demo_written_def)

text \<open>
  C19: A refused commit leaves no object behind: when the object store answers the write and fails at most
  two calls, a commit that ends in an error, however it is interleaved with others, leaves exactly the
  objects there were.
\<close>

theorem refused_commit_leaves_no_object:
  assumes "serve L h (PostCommit warehouse n t q) w = (Err e, w')" "bounded_faults (wd_objects w)"
  shows "ow_objects (wd_objects w') = ow_objects (wd_objects w)"
  using no_orphan_serve_commit [of L h warehouse n t q] assms unfolding no_orphan_def by blast

theorem refused_commit_leaves_no_object_witness:
  "\<exists>e w'. demo_commit_served (demo_world demo_racing) = (Inl e, w') \<and>
     ow_objects (wd_objects w') = (\<lambda>_. None)"
proof -
  have "bounded_faults (wd_objects (demo_world demo_racing))" "ow_objects (wd_objects (demo_world demo_racing)) = (\<lambda>_. None)"
    by (simp_all add: bounded_faults_def answered_def demo_world_def demo_objects_def)
  with demo_commit_refused refused_commit_leaves_no_object show ?thesis by metis
qed

text \<open>
  C18: An acknowledged commit is durable, for every route and with or without an idempotency key. The
  commit was authorized for the identity of its request on the table its path names, in the warehouse of
  the route. Its answer is one of two rows. With a key it may be the row recorded under this key of this
  table for the same request, and then the request itself has changed nothing. Otherwise it is the row
  the catalog holds at the end for this very table: the commit was planned from the row the table had
  at some moment of the request and was applied to a catalog that still had its metadata pointer, the
  row has the planned location as its pointer, and when the plan asks for a metadata object the object at
  that location holds the encoding of the planned metadata.
\<close>

theorem acknowledged_commit_is_durable:
  assumes "serve L h (PostCommit warehouse n t q) w = (Ok r, w')"
  shows "\<exists>ident claimed seen cap key table.
    rest_table_ident (requested_warehouse L warehouse) n t = Ok ident \<and>
    request_identity (lc_env L) (lc_header_str L) h = Ok claimed \<and> visits w seen \<and>
    authorize_table_commit L seen claimed ident = Ok cap \<and> request_idempotency_key h = Ok key \<and>
    r = Reply (commit_table_response table) \<and>
    (replayed_answer L w ident key q table \<and> visits w (wd_catalog w') \<or>
     committed_answer L w w' cap ident key q table)"
  using serve_commit_answered [OF assms] commit_handler_answered by blast

theorem acknowledged_commit_is_durable_witness:
  "\<exists>r w' table. demo_commit_served (demo_world []) = (Inr r, w') \<and>
     r = Reply (commit_table_response table) \<and>
     bt_get (ms_tables (wd_catalog w')) (table_key demo_ident) = Some table \<and>
     tr_metadata_location table = Some demo_metadata_location \<and>
     backed_by_object demo_writer (wd_objects w') demo_plan"
proof -
  obtain r w' where served: "demo_commit_served (demo_world []) = (Inr r, w')"
    using demo_commit_acknowledged by blast
  have plan: "cp_metadata_write_required demo_plan" "cp_new_metadata_location demo_plan = Some demo_metadata_location"
    by (simp_all add: demo_plan_def)
  have ident: "rest_table_ident (requested_warehouse demo_writer None) ''sales'' ''orders'' = Ok demo_ident"
    by (simp add: requested_warehouse_def demo_rest_ident)
  obtain cap table where "r = Reply (commit_table_response table)"
      "committed_answer demo_writer (demo_world []) w' cap demo_ident None demo_commit_request table"
    using acknowledged_commit_is_durable [OF served] demo_no_key
    by (auto simp: ident replayed_answer_def)
  with served plan show ?thesis by (auto simp: committed_answer_def)
qed

end
