(* ===== verification/DrainProperties.thy ===== *)
theory DrainProperties
  imports DrainLaws ServiceMachine QueueProperties
begin

section \<open>Properties of the drain\<close>

text \<open>
  A drain acknowledges all its events or none, and an event only once the sinks accepted all that its
  projection sends; what it reports is what it sent. An event of a type the drain does not know blocks
  the outbox, and listing tables records such an event.
\<close>

subsection \<open>All or nothing\<close>

lemma marked_response:
  assumes "drains_exactly X events new nothing_drained d" "distinct (map oe_event_id events)"
    and "mark_outbox_delivered E now (dr_delivered d) s = (Ok n, s')" "n = length (dr_delivered d)"
  shows "validate_lineage_drain_response_manifest (drain_response n d) = Ok ()"
proof -
  have d: "books_balance d" "dr_delivered d = map oe_event_id events"
    using assms(1) books_balance_nothing by (auto simp: drains_exactly_def) (simp add: nothing_drained_def)
  with manifest_of_drained [OF d(1)] assms(2,4) mark_ids_not_blank [OF assms(3)] show ?thesis by simp
qed

text \<open>
  C22: In a catalog nobody else changes meanwhile, whose undelivered events have different ids, a drain is
  all or nothing. Either it fails and the catalog is as before, whatever the sinks had accepted by then;
  or it answers with one summary for each of the oldest undelivered events of its sink, up to the limit,
  in the order of time and id, exactly these are marked delivered, everything its projections sent was
  accepted, and the counts it reports are the numbers of graph and lineage events sent.
\<close>

theorem drain_all_or_retry:
  assumes drain: "drain_outbox_once S limit dw = (r, dw')" and alone: "wd_others (dw_world dw) = []"
    and ids: "distinct (map oe_event_id (filter undelivered (ms_outbox_events (wd_catalog (dw_world dw)))))"
  shows "(\<exists>e. r = Err e \<and> wd_catalog (dw_world dw') = wd_catalog (dw_world dw)) \<or>
    (\<exists>response new now. r = Ok response \<and> dw_sent dw' = dw_sent dw @ new \<and> list_all accepted_by_sink new \<and>
       map ls_event_id (ld_events response) = map oe_event_id (drain_batch limit (wd_catalog (dw_world dw))) \<and>
       ld_delivered response = length (drain_batch limit (wd_catalog (dw_world dw))) \<and>
       ld_graph_events response = length (graph_sent new) \<and>
       ld_lineage_events response = length (lineage_sent new) \<and>
       wd_catalog (dw_world dw') = (wd_catalog (dw_world dw))\<lparr>ms_outbox_events :=
         map (\<lambda>ev. if oe_delivered_at ev = None \<and>
                      oe_event_id ev \<in> oe_event_id ` set (drain_batch limit (wd_catalog (dw_world dw)))
                   then ev\<lparr>oe_delivered_at := Some now\<rparr> else ev)
           (ms_outbox_events (wd_catalog (dw_world dw)))\<rparr>)"
proof -
  let ?s = "wd_catalog (dw_world dw)"
  let ?batch = "drain_batch limit ?s"
  note w1 = others_run_alone [OF alone]
  from drain show ?thesis
  proof (cases rule: drain_cases)
    case (refused e)
    with ticks_keep show ?thesis by (auto simp: w1)
  next
    case (acknowledging new d dw1)
    from ticks_keep [OF acknowledging(2)] have w2: "wd_catalog (dw_world dw1) = ?s" "others_run (dw_world dw1) = dw_world dw1"
      by (simp_all add: w1 alone others_run_alone)
    have delivered: "dr_delivered d = map oe_event_id ?batch"
      using acknowledging(4) by (simp add: drains_exactly_def nothing_drained_def w1)
    from acknowledging(5) show ?thesis
    proof (cases rule: acknowledge_cases)
      case (refused e)
      with w2 show ?thesis by (auto simp: tick_def)
    next
      case (marked n s' now)
      have mark: "mark_outbox_delivered (drain_env S) now (map oe_event_id ?batch) ?s = (Ok n, s')"
        using marked(1) by (simp add: w2 delivered)
      have n: "n = length ?batch"
        using mark_outbox_delivered_ok(1) [OF mark] acknowledging(1)
          count_batch [OF ids, of ?batch] drain_batchD [of _ limit ?s]
        by (auto simp: w1 undelivered_def)
      have "validate_lineage_drain_response_manifest (drain_response n d) = Ok ()"
        using marked_response [OF acknowledging(4,1) marked(1)] by (simp add: n delivered)
      then have r: "r = Ok (drain_response n d)"
        using marked(4) by (simp add: n delivered)
      have "wd_catalog (dw_world dw') = s'" using marked(2) by simp
      with mark_outbox_delivered_ok(2) [OF mark] show ?thesis
        using acknowledging(3,4) marked(3) r n books_balance_nothing
        by (intro disjI2 exI [of _ "drain_response n d"] exI [of _ new] exI [of _ now])
          (auto simp: drains_exactly_def drain_response_def books_balance_def nothing_drained_def to_deliver_def w1)
    qed
  qed
qed

text \<open>
  C23: Whatever other requests do to the catalog while a drain runs, the drain itself changes it at most
  once: it marks delivered the ids of the batch that was pending when it read the outbox, and only after
  it has run the projection of every event of this batch, in order: each event passed its validation,
  the sinks accepted everything its projection sent, and its receipt counts exactly that. What the drain
  sent is what these projections sent, and nothing else.
\<close>

theorem drain_marks_only_projected:
  assumes "drain_outbox_once S limit dw = (r, dw')"
  shows "waits (dw_world dw) (dw_world dw') \<or>
    (\<exists>seen before now n parts sent_all. waits (dw_world dw) seen \<and> waits seen before \<and>
       mark_outbox_delivered (drain_env S) now (map oe_event_id (drain_batch limit (wd_catalog seen)))
         (wd_catalog before) = (Ok n, wd_catalog (dw_world dw')) \<and>
       batch_projected S (drain_batch limit (wd_catalog seen)) (dw\<lparr>dw_world := seen\<rparr>) parts sent_all \<and>
       map fst parts = drain_batch limit (wd_catalog seen) \<and>
       dw_sent dw' = dw_sent dw @ sent_parts parts)"
  using assms
proof (cases rule: drain_cases)
  case (refused e)
  with ticks_waits waits_others_run waits_trans show ?thesis by blast
next
  case (acknowledging new d dw1)
  let ?seen = "others_run (dw_world dw)"
  let ?before = "others_run (dw_world dw1)"
  have seen: "waits (dw_world dw) ?seen" "waits ?seen ?before"
    using ticks_waits [OF acknowledging(2)] by (blast intro: waits_others_run waits_trans)+
  from acknowledging(5) show ?thesis
  proof (cases rule: acknowledge_cases)
    case (refused e)
    then have "waits (dw_world dw) (dw_world dw')"
      using seen waits_trans waits_tick by metis
    then show ?thesis ..
  next
    case (marked n s' now)
    from acknowledging(6) obtain parts where
      parts: "batch_projected S (drain_batch limit (wd_catalog ?seen)) (dw\<lparr>dw_world := ?seen\<rparr>) parts dw1" ..
    have "dw_sent dw' = dw_sent dw @ sent_parts parts"
      using batch_projected_sends [OF parts] marked(3) by simp
    with acknowledging(4) seen marked parts batch_projected_events [OF parts] show ?thesis
      by (intro disjI2 exI [of _ ?seen] exI [of _ ?before] exI [of _ now] exI [of _ n] exI [of _ parts]
          exI [of _ dw1])
        (simp add: drains_exactly_def nothing_drained_def)
  qed
qed

subsection \<open>Events the drain does not know\<close>

text \<open>An undelivered event of an unknown type among the oldest \<open>limit\<close> ones.\<close>

definition undeliverable :: "nat \<Rightarrow> OutboxEvent \<Rightarrow> MemoryState \<Rightarrow> bool" where
  "undeliverable limit ev s \<longleftrightarrow>
     ev \<in> set (ms_outbox_events s) \<and> oe_delivered_at ev = None \<and> oe_sink ev = drain_sink \<and>
     \<not> is_known_outbox_event_type (oe_event_type ev) \<and>
     length (filter (\<lambda>e. oe_delivered_at e = None \<and> oe_sink e = drain_sink \<and> drain_order e \<le> drain_order ev)
       (ms_outbox_events s)) \<le> limit"

lemma sorted_prefix:
  "sorted (map f xs) \<Longrightarrow> xs = filter (\<lambda>x. f x \<le> c) xs @ filter (\<lambda>x. \<not> f x \<le> c) xs" for c :: "'b :: linorder"
proof (induction xs)
  case (Cons x xs)
  show ?case
  proof (cases "f x \<le> c")
    case True
    with Cons show ?thesis by simp
  next
    case False
    then have "\<forall>y \<in> set xs. \<not> f y \<le> c" using Cons.prems by auto
    then have "filter (\<lambda>y. f y \<le> c) xs = []" "filter (\<lambda>y. \<not> f y \<le> c) xs = xs" by (auto simp: filter_empty_conv)
    with False show ?thesis by simp
  qed
qed simp

lemma undeliverable_in_batch:
  assumes "undeliverable limit ev s"
  shows "ev \<in> set (drain_batch limit s)"
proof -
  let ?pending = "filter (\<lambda>e. oe_delivered_at e = None \<and> oe_sink e = drain_sink) (ms_outbox_events s)"
  let ?sorted = "sort_key drain_order ?pending"
  let ?old = "filter (\<lambda>e. drain_order e \<le> drain_order ev) ?sorted"
  have split: "?sorted = ?old @ filter (\<lambda>e. \<not> drain_order e \<le> drain_order ev) ?sorted"
    by (rule sorted_prefix) simp
  have "length ?old = length (filter (\<lambda>e. drain_order e \<le> drain_order ev) ?pending)"
    by (simp add: filter_sort)
  then have "length ?old \<le> limit"
    using assms by (simp add: undeliverable_def conj_assoc)
  then have "set ?old \<subseteq> set (take limit (?old @ filter (\<lambda>e. \<not> drain_order e \<le> drain_order ev) ?sorted))"
    by simp
  moreover have "ev \<in> set ?old" using assms by (simp add: undeliverable_def)
  ultimately show ?thesis using split by (auto simp: drain_batch_def)
qed

lemma unknown_type_refused:
  "\<not> is_known_outbox_event_type (oe_event_type ev) \<Longrightarrow> validate_outbox_event_evidence X ev \<noteq> Ok ()"
  by (auto simp: validate_outbox_event_evidence_def evidence_simps Let_def)

lemma undeliverable_drain_fails:
  assumes "undeliverable limit ev (wd_catalog (dw_world dw))" "wd_others (dw_world dw) = []"
    and "drain_outbox_once S limit dw = (r, dw')"
  shows "\<exists>e. r = Err e" "wd_catalog (dw_world dw') = wd_catalog (dw_world dw)" "wd_others (dw_world dw') = []"
proof -
  note w1 = others_run_alone [OF assms(2)]
  have unknown: "\<not> is_known_outbox_event_type (oe_event_type ev)"
    using assms(1) by (simp add: undeliverable_def)
  have "(\<exists>e. r = Err e) \<and> wd_catalog (dw_world dw') = wd_catalog (dw_world dw) \<and> wd_others (dw_world dw') = []"
    using assms(3)
  proof (cases rule: drain_cases)
    case (refused e)
    with ticks_keep assms(2) show ?thesis by (auto simp: w1)
  next
    case (acknowledging new d dw1)
    have "validate_outbox_event_evidence (ds_evidence S) ev = Ok ()"
      using acknowledging(4) undeliverable_in_batch [OF assms(1)] by (simp add: drains_exactly_def w1 list_all_iff)
    with unknown_type_refused [OF unknown] show ?thesis by simp
  qed
  then show "\<exists>e. r = Err e" "wd_catalog (dw_world dw') = wd_catalog (dw_world dw)" "wd_others (dw_world dw') = []"
    by auto
qed

text \<open>What may happen to a catalog afterwards: drains, and requests that record events of a later time.\<close>

inductive later_traffic :: "DrainState \<Rightarrow> nat \<Rightarrow> OutboxEvent \<Rightarrow> MemoryState \<Rightarrow> MemoryState \<Rightarrow> bool"
  for S limit ev s where
  start: "later_traffic S limit ev s s"
| drained: "later_traffic S limit ev s s' \<Longrightarrow> wd_catalog (dw_world dw) = s' \<Longrightarrow> wd_others (dw_world dw) = [] \<Longrightarrow>
    drain_outbox_once S limit dw = (r, dw') \<Longrightarrow> later_traffic S limit ev s (wd_catalog (dw_world dw'))"
| requested: "later_traffic S limit ev s s' \<Longrightarrow> ms_outbox_events s'' = ms_outbox_events s' @ new \<Longrightarrow>
    list_all (\<lambda>e. drain_order ev < drain_order e) new \<Longrightarrow> later_traffic S limit ev s s''"

lemma undeliverable_stays:
  assumes "later_traffic S limit ev s s'" "undeliverable limit ev s"
  shows "undeliverable limit ev s'"
  using assms
proof (induction rule: later_traffic.induct)
  case (drained s' dw r dw')
  with undeliverable_drain_fails(2) [of limit ev dw S r dw'] show ?case by simp
next
  case (requested s' s'' new)
  from requested(3) have "filter (\<lambda>e. oe_delivered_at e = None \<and> oe_sink e = drain_sink \<and>
      drain_order e \<le> drain_order ev) new = []"
    by (auto simp: filter_empty_conv list_all_iff)
  with requested show ?case by (simp add: undeliverable_def)
qed simp

text \<open>
  C24: An undelivered event of a type the drain does not know stops the outbox for good: once it is among
  the oldest \<open>limit\<close> pending events, every drain fails and delivers nothing, also after any number of
  further drains and of requests that record later events.
\<close>

theorem unknown_event_blocks_outbox:
  assumes "undeliverable limit ev s" "later_traffic S limit ev s s'"
    and "wd_catalog (dw_world dw) = s'" "wd_others (dw_world dw) = []"
    and "drain_outbox_once S limit dw = (r, dw')"
  shows "(\<exists>e. r = Err e) \<and> wd_catalog (dw_world dw') = s' \<and> ev \<in> set (drain_batch limit s')"
  using undeliverable_stays [OF assms(2,1)] undeliverable_drain_fails [of limit ev dw S r dw']
    undeliverable_in_batch assms(3-5) by simp

subsection \<open>Listing tables\<close>

lemma alone_after: "waits w w' \<Longrightarrow> wd_others w = [] \<Longrightarrow> wd_others w' = [] \<and> wd_catalog w' = wd_catalog w"
  by (rule waits_alone)

lemma waiting_runs: "waiting f \<Longrightarrow> f w = (r, w') \<Longrightarrow> waits w w'"
  by (auto simp: waiting_def dest: spec [of _ w])

text \<open>A recorded event is appended to the outbox, undelivered.\<close>

definition appends :: "string \<Rightarrow> world \<Rightarrow> world \<Rightarrow> bool" where
  "appends event_type w w' \<longleftrightarrow> wd_others w' = [] \<and>
     (\<exists>audit ev. wd_catalog w' = push_events audit ev (wd_catalog w) \<and> oe_event_type ev = event_type \<and>
        oe_sink ev = drain_sink \<and> oe_delivered_at ev = None)"

lemma appends_after: "waits w w1 \<Longrightarrow> wd_others w = [] \<Longrightarrow> appends t w1 w' \<Longrightarrow> appends t w w'"
  using alone_after by (simp add: appends_def)

lemma record_event_appends:
  assumes "record_event L event_type table p payload w = (Ok u, w')" "wd_others w = []"
  shows "appends event_type w w'"
proof -
  let ?now = "wd_clock w (wd_ticks w)"
  obtain audit where audit: "audit_event_new (lc_env L) ?now event_type table p payload = Ok audit"
    using assms by (cases "audit_event_new (lc_env L) ?now event_type table p payload")
      (simp_all add: record_event_def and_then_op_def at_time_def)
  obtain r s' where rec: "record_audit_event (lc_env L) audit (wd_catalog w) = (r, s')"
    by (cases "record_audit_event (lc_env L) audit (wd_catalog w)")
  with audit assms have r: "r = Ok u" and w': "w' = (tick (tick w))\<lparr>wd_catalog := s'\<rparr>"
    by (simp_all add: record_event_def and_then_op_def at_time_def store_call_def Let_def others_run_def tick_def)
  from record_audit_event_ok [OF rec [unfolded r]] obtain i ev where
    ev: "outbox_event_from_payload (lc_env L) (audit_outbox_payload i audit) (ae_created_at audit) = Ok ev"
    and s': "s' = push_events audit ev (wd_catalog w)" by blast
  have type: "ae_event_type audit = event_type"
    using audit by (auto simp: audit_event_new_def and_then_ok)
  have "oe_event_type ev = event_type" "oe_sink ev = drain_sink" "oe_delivered_at ev = None"
    using ev audit_outbox_type [of i audit] type
    by (auto simp: outbox_event_from_payload_ok drain_sink_def outbox_sink_def)
  with s' w' assms(2) show ?thesis by (auto simp: appends_def tick_def)
qed

text \<open>A handler that only reads before it records one event appends that event.\<close>

definition appending :: "string \<Rightarrow> 'a world_op \<Rightarrow> bool" where
  "appending event_type f \<longleftrightarrow>
     (\<forall>w a w'. f w = (Inr a, w') \<longrightarrow> wd_others w = [] \<longrightarrow> appends event_type w w')"

lemma appending_record:
  assumes "\<And>u. k u = lift_result (r u)"
  shows "appending t (and_then_op (record_event L t table p payload) k)"
  using record_event_appends [of L t table p payload]
  by (auto simp: appending_def and_then_op_ok assms lift_result_def)

lemma appending_after:
  assumes "waiting f" "\<And>a. appending t (k a)"
  shows "appending t (and_then_op f k)"
  unfolding appending_def
proof (intro allI impI)
  fix w b w'
  assume run: "and_then_op f k w = (Inr b, w')" and alone: "wd_others w = []"
  from run obtain a w1 where f: "f w = (Inr a, w1)" and k: "k a w1 = (Inr b, w')"
    by (auto simp: and_then_op_ok)
  have "waits w w1" by (rule waiting_runs [OF assms(1) f])
  with alone_after [OF this alone] k assms(2) [of a] show "appends t w w'"
    by (auto simp: appending_def intro: appends_after [OF _ alone])
qed

lemma appending_list_tables: "appending ''table.listed'' (list_tables_in_warehouse v L h n)"
  unfolding list_tables_in_warehouse_def Let_def
  by (rule appending_record [OF refl] appending_after waiting_authorize waiting_rules)+

lemma appending_serve_list_tables: "appending ''table.listed'' (serve L h (GetTables warehouse n))"
proof (cases warehouse)
  case None
  then show ?thesis by (simp add: routed_def handle_list_tables_def appending_list_tables)
next
  case (Some v)
  then show ?thesis
    unfolding serve.simps routed_def list_tables_for_warehouse_def
    by (simp add: appending_after appending_list_tables waiting_steps)
qed

lemma length_filter_implies: "length (filter (\<lambda>x. P x \<and> Q x \<and> R x) xs) \<le> length (filter (\<lambda>x. P x \<and> Q x) xs)"
  by (induction xs) auto

lemma table_listed_unknown: "\<not> is_known_outbox_event_type ''table.listed''"
  by code_simp

text \<open>
  C25: Listing the tables of a namespace records an event the drain does not know. When fewer than
  \<open>limit\<close> events were pending before a listing that was served alone, this event stops the outbox for
  good: from then on, after any number of drains that run alone and of requests that record later
  events, every drain that runs alone fails, leaves the catalog as it is, and has the event of the
  listing in its batch.
\<close>

theorem listing_tables_blocks_outbox:
  assumes "serve L h (GetTables warehouse n) w = (Ok reply, w')" "wd_others w = []"
    and "length (filter (\<lambda>e. oe_delivered_at e = None \<and> oe_sink e = drain_sink) (ms_outbox_events (wd_catalog w))) < limit"
  shows "\<exists>ev. oe_event_type ev = ''table.listed'' \<and> oe_delivered_at ev = None \<and>
    ms_outbox_events (wd_catalog w') = ms_outbox_events (wd_catalog w) @ [ev] \<and>
    (\<forall>S s' dw r dw'. later_traffic S limit ev (wd_catalog w') s' \<longrightarrow> wd_catalog (dw_world dw) = s' \<longrightarrow>
       wd_others (dw_world dw) = [] \<longrightarrow> drain_outbox_once S limit dw = (r, dw') \<longrightarrow>
       (\<exists>e. r = Err e) \<and> wd_catalog (dw_world dw') = s' \<and> ev \<in> set (drain_batch limit s'))"
proof -
  obtain audit ev where ev: "wd_catalog w' = push_events audit ev (wd_catalog w)"
    "oe_event_type ev = ''table.listed''" "oe_sink ev = drain_sink" "oe_delivered_at ev = None"
    using appending_serve_list_tables [unfolded appending_def appends_def] assms(1,2) by blast
  let ?old = "filter (\<lambda>e. oe_delivered_at e = None \<and> oe_sink e = drain_sink \<and> drain_order e \<le> drain_order ev)
       (ms_outbox_events (wd_catalog w))"
  have "length ?old \<le> length (filter (\<lambda>e. oe_delivered_at e = None \<and> oe_sink e = drain_sink) (ms_outbox_events (wd_catalog w)))"
    by (rule length_filter_implies)
  then have u: "undeliverable limit ev (wd_catalog w')"
    using assms(3) ev by (simp add: undeliverable_def push_events_def table_listed_unknown)
  have blocks: "(\<exists>e. r = Err e) \<and> wd_catalog (dw_world dw') = s' \<and> ev \<in> set (drain_batch limit s')"
    if "later_traffic S limit ev (wd_catalog w') s'" "wd_catalog (dw_world dw) = s'"
      "wd_others (dw_world dw) = []" "drain_outbox_once S limit dw = (r, dw')" for S s' dw r dw'
    using undeliverable_stays [OF that(1) u] undeliverable_drain_fails [of limit ev dw S r dw']
      undeliverable_in_batch that(2-4) by simp
  show ?thesis
  proof (rule exI [of _ ev], intro conjI allI impI)
    show "oe_event_type ev = ''table.listed''" "oe_delivered_at ev = None" by (fact ev)+
    show "ms_outbox_events (wd_catalog w') = ms_outbox_events (wd_catalog w) @ [ev]"
      by (simp add: ev(1) push_events_def)
  qed (use blocks in blast)+
qed

subsection \<open>Closed instances\<close>

text \<open>The sinks of the repository over the demo service, and a catalog with one pending event.\<close>

definition demo_drain :: DrainState where
  "demo_drain =
     \<lparr>ds_state = demo_writer, ds_rfc3339_error = (\<lambda>_. None), ds_graph = (\<lambda>_ ev. noop_graph_emit ev),
      ds_lineage = (\<lambda>_ ev. hash_only_lineage_emit demo_urls ev)\<rparr>"

definition demo_pending :: "string \<Rightarrow> OutboxEvent" where
  "demo_pending event_type =
     \<lparr>oe_event_id = demo_digest, oe_sink = drain_sink, oe_event_type = event_type,
      oe_payload = jobj [(''event-type'', JStr event_type), (''warehouse'', JStr ''wh''), (''model-id'', JStr ''m'')],
      oe_created_at = 1, oe_delivered_at = None\<rparr>"

definition demo_outbox :: "string \<Rightarrow> drain_world" where
  "demo_outbox event_type =
     \<lparr>dw_world = (demo_world [])\<lparr>wd_catalog := empty_state\<lparr>ms_outbox_events := [demo_pending event_type]\<rparr>\<rparr>,
      dw_sent = []\<rparr>"

lemma demo_outbox_alone: "wd_others (dw_world (demo_outbox t)) = []"
  by (simp add: demo_outbox_def demo_world_def)

lemma demo_outbox_ids: "distinct (map oe_event_id (filter undelivered (ms_outbox_events (wd_catalog (dw_world (demo_outbox t))))))"
  by (simp add: demo_outbox_def)

lemma demo_drain_succeeds: "is_ok (fst (drain_outbox_once demo_drain 100 (demo_outbox ''model.published'')))"
  by code_simp

theorem drain_all_or_retry_witness:
  "\<exists>response new dw'. drain_outbox_once demo_drain 100 (demo_outbox ''model.published'') = (Ok response, dw') \<and>
     dw_sent dw' = dw_sent (demo_outbox ''model.published'') @ new \<and> list_all accepted_by_sink new \<and>
     ld_graph_events response = length (graph_sent new)"
proof -
  obtain response dw' where run: "drain_outbox_once demo_drain 100 (demo_outbox ''model.published'') = (Ok response, dw')"
    using demo_drain_succeeds by (rule is_okE)
  from drain_all_or_retry [OF run demo_outbox_alone demo_outbox_ids] run show ?thesis by auto
qed

theorem drain_marks_only_projected_witness:
  "\<exists>r dw'. drain_outbox_once demo_drain 100 (demo_outbox ''model.published'') = (r, dw') \<and>
     (waits (dw_world (demo_outbox ''model.published'')) (dw_world dw') \<or>
      (\<exists>seen parts sent_all. batch_projected demo_drain (drain_batch 100 (wd_catalog seen))
         ((demo_outbox ''model.published'')\<lparr>dw_world := seen\<rparr>) parts sent_all \<and>
         dw_sent dw' = dw_sent (demo_outbox ''model.published'') @ sent_parts parts))"
proof -
  obtain r dw' where run: "drain_outbox_once demo_drain 100 (demo_outbox ''model.published'') = (r, dw')"
    by (cases "drain_outbox_once demo_drain 100 (demo_outbox ''model.published'')")
  from drain_marks_only_projected [OF run] run show ?thesis by blast
qed

lemma demo_undeliverable: "undeliverable 100 (demo_pending ''table.listed'') (wd_catalog (dw_world (demo_outbox ''table.listed'')))"
  by (simp add: undeliverable_def demo_outbox_def demo_pending_def table_listed_unknown)

theorem unknown_event_blocks_outbox_witness:
  "\<exists>e dw'. drain_outbox_once demo_drain 100 (demo_outbox ''table.listed'') = (Err e, dw') \<and>
     wd_catalog (dw_world dw') = wd_catalog (dw_world (demo_outbox ''table.listed''))"
proof -
  obtain r dw' where run: "drain_outbox_once demo_drain 100 (demo_outbox ''table.listed'') = (r, dw')"
    by (cases "drain_outbox_once demo_drain 100 (demo_outbox ''table.listed'')")
  from unknown_event_blocks_outbox [OF demo_undeliverable later_traffic.start refl demo_outbox_alone run] run
  show ?thesis by auto
qed

lemma demo_listing_served: "is_ok (fst (serve demo_writer demo_headers (GetTables None ''sales'') (demo_world [])))"
  by code_simp

lemma demo_nothing_pending: "ms_outbox_events (wd_catalog (demo_world [])) = []"
  by code_simp

theorem listing_tables_blocks_outbox_witness:
  "\<exists>reply w' e dw'. serve demo_writer demo_headers (GetTables None ''sales'') (demo_world []) = (Ok reply, w') \<and>
     drain_outbox_once demo_drain 100 \<lparr>dw_world = w', dw_sent = []\<rparr> = (Err e, dw') \<and>
     wd_catalog (dw_world dw') = wd_catalog w'"
proof -
  obtain reply w' where served: "serve demo_writer demo_headers (GetTables None ''sales'') (demo_world []) = (Ok reply, w')"
    using demo_listing_served by (rule is_okE)
  have alone: "wd_others (demo_world []) = []" by (simp add: demo_world_def)
  have few: "length (filter (\<lambda>e. oe_delivered_at e = None \<and> oe_sink e = drain_sink)
      (ms_outbox_events (wd_catalog (demo_world [])))) < 100"
    by (simp add: demo_nothing_pending)
  have after: "wd_others w' = []"
    using appending_serve_list_tables served alone by (auto simp only: appending_def appends_def)
  let ?dw = "\<lparr>dw_world = w', dw_sent = []\<rparr>"
  obtain r dw' where run: "drain_outbox_once demo_drain 100 ?dw = (r, dw')"
    by (cases "drain_outbox_once demo_drain 100 ?dw")
  have "wd_catalog (dw_world ?dw) = wd_catalog w'" "wd_others (dw_world ?dw) = []" by (simp_all add: after)
  with listing_tables_blocks_outbox [OF served alone few] later_traffic.start run
  have "(\<exists>e. r = Err e) \<and> wd_catalog (dw_world dw') = wd_catalog w'" by blast
  with run served show ?thesis by auto
qed

end
