(* ===== verification/FieldIds.thy ===== *)
theory FieldIds
  imports SailEngine
begin

section \<open>The field ids of a new table\<close>

text \<open>
  What \<open>initial_table_metadata\<close> promises about the ids of a schema: in the order in which the walk
  visits fields, elements, keys and values they are 1, 2, up to the \<open>last-column-id\<close> of the
  document, whatever ids the request proposed, as long as the counter has not saturated.
\<close>

subsection \<open>The places of a schema that carry an id\<close>

text \<open>A place: the key of its id with the name of its object, and the id it holds.\<close>

type_synonym id_slot = "(string \<times> string option) \<times> int option"

definition slot_at :: "(string, json) btree \<Rightarrow> string \<Rightarrow> id_slot list" where
  "slot_at m key = [((key, Option.bind (bt_get m ''name'') as_str), Option.bind (bt_get m key) as_i64)]"

function slots_of_type :: "json \<Rightarrow> id_slot list" and slots_of_fields :: "json list \<Rightarrow> id_slot list" where
  "slots_of_type v =
     (case v of
        JObj m \<Rightarrow>
          (case Option.bind (bt_get m ''type'') as_str of
             None \<Rightarrow> []
           | Some t \<Rightarrow>
               if t = ''struct'' then
                 (case bt_get m ''fields'' of Some (JArr members) \<Rightarrow> slots_of_fields members | _ \<Rightarrow> [])
               else if t = ''list'' then
                 slot_at m ''element-id'' @
                 (case bt_get m ''element'' of None \<Rightarrow> [] | Some child \<Rightarrow> slots_of_type child)
               else if t = ''map'' then
                 slot_at m ''key-id'' @
                 (case bt_get m ''key'' of None \<Rightarrow> [] | Some child \<Rightarrow> slots_of_type child) @
                 slot_at m ''value-id'' @
                 (case bt_get m ''value'' of None \<Rightarrow> [] | Some child \<Rightarrow> slots_of_type child)
               else [])
      | _ \<Rightarrow> [])"
| "slots_of_fields [] = []"
| "slots_of_fields (field # rest) =
     (case field of
        JObj m \<Rightarrow>
          slot_at m ''id'' @ (case bt_get m ''type'' of None \<Rightarrow> [] | Some child \<Rightarrow> slots_of_type child)
      | _ \<Rightarrow> []) @ slots_of_fields rest"
  by pat_completeness auto
termination
  by (relation "measure (case_sum (\<lambda>v. 2 * size v) (\<lambda>vs. 2 * size_list size vs + 1))")
    (auto dest: size_bt_get)

declare slots_of_type.simps [simp del] slots_of_fields.simps [simp del]

definition schema_slots :: "json \<Rightarrow> id_slot list" where
  "schema_slots schema =
     (case jget schema ''fields'' of Some (JArr members) \<Rightarrow> slots_of_fields members | _ \<Rightarrow> [])"

subsection \<open>The counter\<close>

text \<open>
  The places \<open>old\<close> become \<open>new\<close> while the counter goes from \<open>a\<close> to \<open>b\<close>: the same places with the next
  ids. Nothing is claimed of the ids once the counter is full.
\<close>

definition counts_up :: "int \<Rightarrow> int \<Rightarrow> id_slot list \<Rightarrow> id_slot list \<Rightarrow> bool" where
  "counts_up a b old new \<longleftrightarrow> a \<le> b \<and> b \<le> i64_max \<and> map fst new = map fst old \<and>
     (b < i64_max \<longrightarrow> map snd new = map Some [a..b - 1])"

lemma counts_up_none: "a \<le> i64_max \<Longrightarrow> counts_up a a [] []"
  by (simp add: counts_up_def)

lemma counts_up_append: "counts_up a b xs xs' \<Longrightarrow> counts_up b c ys ys' \<Longrightarrow> counts_up a c (xs @ ys) (xs' @ ys')"
  using upto_split1 [of a b "c - 1"] by (cases "b = c") (auto simp: counts_up_def)

lemma counts_up_bounds: "counts_up a b old new \<Longrightarrow> a \<le> b \<and> b \<le> i64_max"
  by (simp add: counts_up_def)

lemma counts_up_one:
  "a \<le> i64_max \<Longrightarrow> fst y = fst x \<Longrightarrow> snd y = Some a \<Longrightarrow> counts_up a (min (a + 1) i64_max) [x] [y]"
  by (cases "a = i64_max") (auto simp: counts_up_def min_def)

lemma fresh_id_step:
  "fst (fresh_id key m st) = bt_insert key (JInt (fst st)) m"
  "fst (snd (fresh_id key m st)) = min (fst st + 1) i64_max"
  by (simp_all add: fresh_id_def Let_def)

lemma assigned_slot_at:
  assumes "1 \<le> n" "n \<le> i64_max" "k \<noteq> ''name''"
  shows "slot_at (bt_insert k (JInt n) m) k = [(fst (hd (slot_at m k)), Some n)]"
  using assms by (simp add: slot_at_def bt_get_insert i64_max_def)

subsection \<open>One step of the walk\<close>

definition child_slots :: "(string, json) btree \<Rightarrow> string \<Rightarrow> id_slot list" where
  "child_slots m key = (case bt_get m key of None \<Rightarrow> [] | Some child \<Rightarrow> slots_of_type child)"

lemma slots_of_kinds:
  "Option.bind (bt_get m ''type'') as_str = Some ''struct'' \<Longrightarrow>
     slots_of_type (JObj m) = (case bt_get m ''fields'' of Some (JArr members) \<Rightarrow> slots_of_fields members | _ \<Rightarrow> [])"
  "Option.bind (bt_get m ''type'') as_str = Some ''list'' \<Longrightarrow>
     slots_of_type (JObj m) = slot_at m ''element-id'' @ child_slots m ''element''"
  "Option.bind (bt_get m ''type'') as_str = Some ''map'' \<Longrightarrow>
     slots_of_type (JObj m) = slot_at m ''key-id'' @ child_slots m ''key'' @ slot_at m ''value-id'' @ child_slots m ''value''"
  by (simp_all add: slots_of_type.simps [of "JObj m"] child_slots_def)

lemma slots_of_field:
  "slots_of_fields (JObj m # rest) = (slot_at m ''id'' @ child_slots m ''type'') @ slots_of_fields rest"
  by (simp add: slots_of_fields.simps child_slots_def)

text \<open>A child, when there is one, continues the count and is put back under its key.\<close>

definition assign_child ::
  "string \<Rightarrow> (string, json) btree \<Rightarrow> (string, json) btree \<times> id_state \<Rightarrow> (string, json) btree \<times> id_state" where
  "assign_child key m x =
     (case bt_get m key of
        None \<Rightarrow> x
      | Some child \<Rightarrow>
          (case assign_type child (snd x) of (child', s) \<Rightarrow> (bt_insert key child' (fst x), s)))"

lemma assign_list_eq:
  assumes "Option.bind (bt_get m ''type'') as_str = Some ''list''"
  shows "assign_type (JObj m) st =
    apfst JObj (assign_child ''element'' m (fresh_id ''element-id'' m st))"
  using assms
  by (simp add: assign_type.simps [of "JObj m"] assign_child_def split: option.split prod.split)

lemma assign_map_eq:
  assumes "Option.bind (bt_get m ''type'') as_str = Some ''map''"
  shows "assign_type (JObj m) st =
    (let x = assign_child ''key'' m (fresh_id ''key-id'' m st);
         y = fresh_id ''value-id'' (fst x) (snd x)
     in apfst JObj (assign_child ''value'' m y))"
  using assms
  by (simp add: assign_type.simps [of "JObj m"] assign_child_def Let_def split: option.split prod.split)

lemma assign_field_eq:
  "assign_fields (JObj m # rest) st =
    (let x = assign_child ''type'' m (fresh_id ''id'' m st)
     in apfst (Cons (JObj (fst x))) (assign_fields rest (snd x)))"
  by (simp add: assign_fields.simps assign_child_def Let_def split: option.split prod.split)

subsection \<open>The walk counts up\<close>

definition counts_type :: "json \<Rightarrow> bool" where
  "counts_type v \<longleftrightarrow>
     (\<forall>st. 1 \<le> fst st \<longrightarrow> fst st \<le> i64_max \<longrightarrow>
        counts_up (fst st) (fst (snd (assign_type v st))) (slots_of_type v) (slots_of_type (fst (assign_type v st))))"

lemma counts_typeD:
  "counts_type v \<Longrightarrow> 1 \<le> fst st \<Longrightarrow> fst st \<le> i64_max \<Longrightarrow>
    counts_up (fst st) (fst (snd (assign_type v st))) (slots_of_type v) (slots_of_type (fst (assign_type v st)))"
  unfolding counts_type_def by blast

definition counts_fields :: "json list \<Rightarrow> bool" where
  "counts_fields vs \<longleftrightarrow>
     (\<forall>st. 1 \<le> fst st \<longrightarrow> fst st \<le> i64_max \<longrightarrow>
        counts_up (fst st) (fst (snd (assign_fields vs st))) (slots_of_fields vs) (slots_of_fields (fst (assign_fields vs st))))"

text \<open>
  What one step leaves behind: the object it built, the ids counted so far and the bounds of the
  counter, for a fresh id and for a child.
\<close>

lemma fresh_id_counts:
  assumes "1 \<le> fst st" "fst st \<le> i64_max" "key \<noteq> ''name''" "x = fresh_id key m st"
  shows "counts_up (fst st) (fst (snd x)) (slot_at m key) (slot_at (fst x) key)"
    and "\<And>j. j \<noteq> key \<Longrightarrow> bt_get (fst x) j = bt_get m j" and "1 \<le> fst (snd x)" "fst (snd x) \<le> i64_max"
  using assms by (auto simp: fresh_id_step assigned_slot_at bt_get_insert slot_at_def [of m] intro!: counts_up_one)

lemma assign_child_counts:
  assumes "1 \<le> fst (snd x)" "fst (snd x) \<le> i64_max" "\<And>child. bt_get m key = Some child \<Longrightarrow> counts_type child"
    and "bt_get (fst x) key = bt_get m key" "y = assign_child key m x"
  shows "counts_up (fst (snd x)) (fst (snd y)) (child_slots m key) (child_slots (fst y) key)"
    and "\<And>j. j \<noteq> key \<Longrightarrow> bt_get (fst y) j = bt_get (fst x) j"
    and "1 \<le> fst (snd y)" "fst (snd y) \<le> i64_max"
proof -
  show main: "counts_up (fst (snd x)) (fst (snd y)) (child_slots m key) (child_slots (fst y) key)"
  proof (cases "bt_get m key")
    case None
    then show ?thesis using assms by (simp add: assign_child_def child_slots_def counts_up_none)
  next
    case (Some child)
    then show ?thesis
      using counts_typeD [OF assms(3) assms(1,2), of child] assms(5)
      by (simp add: assign_child_def child_slots_def bt_get_insert case_prod_beta)
  qed
  show "bt_get (fst y) j = bt_get (fst x) j" if "j \<noteq> key" for j
    using that assms(5) by (auto simp: assign_child_def bt_get_insert split: option.splits prod.splits)
  show "1 \<le> fst (snd y)" "fst (snd y) \<le> i64_max" using counts_up_bounds [OF main] assms(1) by auto
qed

lemma counts_fieldsD:
  "counts_fields vs \<Longrightarrow> 1 \<le> fst st \<Longrightarrow> fst st \<le> i64_max \<Longrightarrow>
    counts_up (fst st) (fst (snd (assign_fields vs st))) (slots_of_fields vs) (slots_of_fields (fst (assign_fields vs st)))"
  unfolding counts_fields_def by blast

lemma counts_list:
  assumes "Option.bind (bt_get m ''type'') as_str = Some ''list''"
    and "\<And>child. bt_get m ''element'' = Some child \<Longrightarrow> counts_type child"
  shows "counts_type (JObj m)"
  unfolding counts_type_def
proof (intro allI impI)
  fix st :: id_state assume st: "1 \<le> fst st" "fst st \<le> i64_max"
  define x where "x = fresh_id ''element-id'' m st"
  define y where "y = assign_child ''element'' m x"
  note x = fresh_id_counts [OF st _ x_def, simplified]
  note y = assign_child_counts [OF x(3,4) assms(2) _ y_def]
  have keys: "bt_get (fst y) ''type'' = bt_get m ''type''" "slot_at (fst y) ''element-id'' = slot_at (fst x) ''element-id''"
    by (simp_all add: x(2) y(2) slot_at_def)
  have "slots_of_type (JObj (fst y)) = slot_at (fst x) ''element-id'' @ child_slots (fst y) ''element''"
    using assms(1) by (simp add: slots_of_kinds keys)
  then show "counts_up (fst st) (fst (snd (assign_type (JObj m) st))) (slots_of_type (JObj m)) (slots_of_type (fst (assign_type (JObj m) st)))"
    using counts_up_append [OF x(1) y(1)] x(2) by (simp add: assign_list_eq [OF assms(1)] slots_of_kinds(2) [OF assms(1)] flip: x_def y_def)
qed

lemma counts_map:
  assumes "Option.bind (bt_get m ''type'') as_str = Some ''map''"
    and "\<And>child. bt_get m ''key'' = Some child \<Longrightarrow> counts_type child"
    and "\<And>child. bt_get m ''value'' = Some child \<Longrightarrow> counts_type child"
  shows "counts_type (JObj m)"
  unfolding counts_type_def
proof (intro allI impI)
  fix st :: id_state assume st: "1 \<le> fst st" "fst st \<le> i64_max"
  define x where "x = fresh_id ''key-id'' m st"
  define y where "y = assign_child ''key'' m x"
  define z where "z = fresh_id ''value-id'' (fst y) (snd y)"
  define w where "w = assign_child ''value'' m z"
  note x = fresh_id_counts [OF st _ x_def, simplified]
  note y = assign_child_counts [OF x(3,4) assms(2) _ y_def]
  have y': "bt_get (fst x) ''key'' = bt_get m ''key''" by (simp add: x(2))
  note z = fresh_id_counts [OF y(3,4) _ z_def, simplified]
  note w = assign_child_counts [OF z(3,4) assms(3) _ w_def]
  have keys: "bt_get (fst w) ''type'' = bt_get m ''type''" "slot_at (fst w) ''key-id'' = slot_at (fst x) ''key-id''"
    "child_slots (fst w) ''key'' = child_slots (fst y) ''key''" "slot_at (fst w) ''value-id'' = slot_at (fst z) ''value-id''"
    "bt_get (fst z) ''value'' = bt_get m ''value''"
    "slot_at (fst y) ''value-id'' = slot_at m ''value-id''"
    by (simp_all add: x(2) y(2) z(2) w(2) y' slot_at_def child_slots_def)
  have "slots_of_type (JObj (fst w)) =
      (slot_at (fst x) ''key-id'' @ child_slots (fst y) ''key'') @ slot_at (fst z) ''value-id'' @ child_slots (fst w) ''value''"
    using assms(1) by (simp add: slots_of_kinds keys)
  then show "counts_up (fst st) (fst (snd (assign_type (JObj m) st))) (slots_of_type (JObj m)) (slots_of_type (fst (assign_type (JObj m) st)))"
    using counts_up_append [OF counts_up_append [OF x(1) y(1)] counts_up_append [OF z(1) w(1)]] y' keys(5)
    by (simp add: assign_map_eq [OF assms(1)] slots_of_kinds(3) [OF assms(1)] keys(6) Let_def flip: x_def y_def z_def w_def)
qed

lemma counts_struct:
  assumes "Option.bind (bt_get m ''type'') as_str = Some ''struct''"
    and "\<And>members. bt_get m ''fields'' = Some (JArr members) \<Longrightarrow> counts_fields members"
  shows "counts_type (JObj m)"
proof (cases "\<exists>members. bt_get m ''fields'' = Some (JArr members)")
  case True
  then obtain members where members: "bt_get m ''fields'' = Some (JArr members)" ..
  have "slots_of_type (JObj (bt_insert ''fields'' (JArr vs) m)) = slots_of_fields vs" for vs
    using assms(1) by (simp add: slots_of_kinds bt_get_insert)
  then show ?thesis
    using assms(2) [OF members] assms(1) members
    by (simp add: counts_type_def counts_fields_def assign_type.simps [of "JObj m"] slots_of_kinds(1) [of m] case_prod_beta del: split_paired_All)
next
  case False
  then show ?thesis
    using assms(1) by (auto simp: counts_type_def assign_type.simps [of "JObj m"] slots_of_kinds counts_up_none
        split: option.splits json.splits)
qed

lemma counts_other:
  assumes "\<And>m t. v = JObj m \<Longrightarrow> Option.bind (bt_get m ''type'') as_str = Some t \<Longrightarrow> t \<notin> {''struct'', ''list'', ''map''}"
  shows "counts_type v"
proof -
  have "assign_type v st = (v, st)" for st
    using assms by (subst assign_type.simps) (auto split: json.splits option.splits)
  moreover have "slots_of_type v = []"
    using assms by (subst slots_of_type.simps) (auto split: json.splits option.splits)
  ultimately show ?thesis by (simp add: counts_type_def counts_up_none)
qed

lemma counts_cons:
  assumes "\<And>m child. v = JObj m \<Longrightarrow> bt_get m ''type'' = Some child \<Longrightarrow> counts_type child" "counts_fields vs"
  shows "counts_fields (v # vs)"
  unfolding counts_fields_def
proof (intro allI impI)
  fix st :: id_state assume st: "1 \<le> fst st" "fst st \<le> i64_max"
  show "counts_up (fst st) (fst (snd (assign_fields (v # vs) st))) (slots_of_fields (v # vs)) (slots_of_fields (fst (assign_fields (v # vs) st)))"
  proof (cases "\<exists>m. v = JObj m")
    case True
    then obtain m where v: "v = JObj m" ..
    define x where "x = fresh_id ''id'' m st"
    define y where "y = assign_child ''type'' m x"
    note x = fresh_id_counts [OF st _ x_def, simplified]
    note y = assign_child_counts [OF x(3,4) assms(1) [OF v] _ y_def]
    have "counts_up (fst (snd y)) (fst (snd (assign_fields vs (snd y)))) (slots_of_fields vs) (slots_of_fields (fst (assign_fields vs (snd y))))"
      using x(2) by (intro counts_fieldsD assms(2) y(3,4)) simp_all
    then show ?thesis
      using counts_up_append [OF counts_up_append [OF x(1) y(1)]] x(2) y(2)
      by (simp add: v assign_field_eq Let_def slots_of_field slot_at_def flip: x_def y_def)
  next
    case False
    then have "assign_fields (v # vs) st = apfst (Cons v) (assign_fields vs st)"
      "slots_of_fields (v # rest) = slots_of_fields rest" for rest
      by (cases v; simp add: assign_fields.simps slots_of_fields.simps apfst_def map_prod_def case_prod_beta)+
    then show ?thesis using counts_fieldsD [OF assms(2) st] by simp
  qed
qed

lemma walk_counts: "counts_type v" "counts_fields vs"
proof -
  have "(2 * size v \<le> n \<longrightarrow> counts_type v) \<and> (2 * size_list size vs + 1 \<le> n \<longrightarrow> counts_fields vs)" for n v vs
  proof (induction n arbitrary: v vs rule: less_induct)
    case (less n)
    have child: "counts_type c" if "v = JObj m" "bt_get m k = Some c" "2 * size v \<le> n" for m k c
      using less [of "2 * size c"] that size_bt_get [of m k c] by simp
    have members: "counts_fields ms" if "v = JObj m" "bt_get m k = Some (JArr ms)" "2 * size v \<le> n" for m k ms
      using less [of "2 * size_list size ms + 1"] that size_bt_get [of m k "JArr ms"] by simp
    have "counts_type v" if "2 * size v \<le> n"
    proof (cases "\<exists>m t. v = JObj m \<and> Option.bind (bt_get m ''type'') as_str = Some t \<and> t \<in> {''struct'', ''list'', ''map''}")
      case True
      then show ?thesis
        using child members that by (auto intro: counts_struct counts_list counts_map)
    next
      case False
      then show ?thesis by (intro counts_other) blast
    qed
    moreover have "counts_fields vs" if size: "2 * size_list size vs + 1 \<le> n"
    proof (cases vs)
      case Nil
      then show ?thesis by (simp add: counts_fields_def assign_fields.simps slots_of_fields.simps counts_up_none)
    next
      case (Cons w ws)
      have "counts_type c" if "w = JObj m" "bt_get m ''type'' = Some c" for m c
        using less [of "2 * size c"] that size_bt_get [of m "''type''" c] size Cons by simp
      moreover have "counts_fields ws"
        using less [of "2 * size_list size ws + 1"] size Cons by simp
      ultimately show ?thesis using Cons counts_cons [of w ws] by simp
    qed
    ultimately show ?case by blast
  qed
  then show "counts_type v" "counts_fields vs" by blast+
qed

lemma assigned_schema_slots:
  assumes "assign_fresh_field_ids schema = (schema', n, mapping)"
  shows "map fst (schema_slots schema') = map fst (schema_slots schema)"
    and "n < i64_max - 1 \<Longrightarrow> map snd (schema_slots schema') = map Some [1..n]" and "0 \<le> n"
proof -
  have "map fst (schema_slots schema') = map fst (schema_slots schema) \<and> 0 \<le> n \<and>
      (n < i64_max - 1 \<longrightarrow> map snd (schema_slots schema') = map Some [1..n])"
  proof (cases "\<exists>m members. schema = JObj m \<and> bt_get m ''fields'' = Some (JArr members)")
    case True
    then obtain m members where schema: "schema = JObj m" "bt_get m ''fields'' = Some (JArr members)" by blast
    have "counts_up 1 (fst (snd (assign_fields members (1, [])))) (slots_of_fields members)
        (slots_of_fields (fst (assign_fields members (1, []))))"
      using counts_fieldsD [OF walk_counts(2), of "(1, [])" members] by (simp add: i64_max_def)
    then show ?thesis
      using assms schema
      by (auto simp: assign_fresh_field_ids_def schema_slots_def bt_get_insert counts_up_def split: prod.splits)
  next
    case False
    then show ?thesis
      using assms by (auto simp: assign_fresh_field_ids_def schema_slots_def split: json.splits option.splits)
  qed
  then show "map fst (schema_slots schema') = map fst (schema_slots schema)"
    "n < i64_max - 1 \<Longrightarrow> map snd (schema_slots schema') = map Some [1..n]" "0 \<le> n"
    by simp_all
qed

lemma schema_slots_with_id:
  "schema_slots (JObj (bt_insert ''schema-id'' v m)) = schema_slots (JObj m)"
  by (simp add: schema_slots_def bt_get_insert)

subsection \<open>The property\<close>

text \<open>
  C39: The metadata document of a new table numbers its columns 1, 2, ... up to its
  \<open>last-column-id\<close>: the fields, elements, keys and values of the requested schema, each once and in
  the order of the walk, whatever ids the request carried. The counter is an \<open>i64\<close> that saturates;
  below that limit no id is skipped, repeated or out of bounds.
\<close>

theorem fresh_field_ids_are_consecutive:
  assumes "document = initial_table_metadata now_ms table_uuid location schema partition_spec sort_order properties"
    and "jget document ''last-column-id'' = Some (JInt n)" "n < 2 ^ 63 - 2"
  shows "\<exists>created. jget document ''schemas'' = Some (JArr [created]) \<and>
      map fst (schema_slots created) = map fst (schema_slots schema) \<and>
      map snd (schema_slots created) = map Some [1..n] \<and> n = int (length (schema_slots schema))"
proof -
  define schema1 where "schema1 = (case schema of
      JObj m \<Rightarrow> if bt_get m ''schema-id'' = None then JObj (bt_insert ''schema-id'' (JInt 0) m) else schema
    | _ \<Rightarrow> schema)"
  obtain created k mapping where assigned: "assign_fresh_field_ids schema1 = (created, k, mapping)"
    by (metis prod_cases3)
  have document: "jget document ''last-column-id'' = Some (JInt k)" "jget document ''schemas'' = Some (JArr [created])"
    unfolding assms(1) initial_table_metadata_def schema1_def [symmetric] Let_def assigned by simp_all
  have slots: "schema_slots schema1 = schema_slots schema"
    by (simp add: schema1_def schema_slots_with_id split: json.split)
  have "k = n" "n < i64_max - 1" using assms(2,3) document(1) by (simp_all add: i64_max_def)
  then have ids: "map snd (schema_slots created) = map Some [1..n]" "0 \<le> n"
    and places: "map fst (schema_slots created) = map fst (schema_slots schema)"
    using assigned_schema_slots [OF assigned] by (simp_all add: slots)
  have "length (schema_slots schema) = nat n"
    using arg_cong [OF ids(1), of length] arg_cong [OF places, of length] by simp
  then show ?thesis using document(2) ids places by auto
qed

text \<open>A schema with a list and a map, with ids of the client in disorder.\<close>

definition demo_schema :: json where
  "demo_schema =
     jobj [(''type'', JStr ''struct''),
       (''fields'', JArr
         [jobj [(''id'', JInt 7), (''name'', JStr ''a''), (''type'', JStr ''long'')],
          jobj [(''id'', JInt 7), (''name'', JStr ''b''),
            (''type'', jobj [(''type'', JStr ''list''), (''element-id'', JInt 1), (''element'', JStr ''string'')])],
          jobj [(''id'', JInt 2), (''name'', JStr ''c''),
            (''type'', jobj [(''type'', JStr ''map''), (''key-id'', JInt 3), (''key'', JStr ''string''),
               (''value-id'', JInt 4), (''value'', JStr ''int'')])]])]"

definition demo_document :: json where
  "demo_document = initial_table_metadata 0 ''u'' ''s'' demo_schema None None JNull"

lemma demo_last_column: "jget demo_document ''last-column-id'' = Some (JInt 6)"
  by code_simp

lemma fresh_field_ids_are_consecutive_witness:
  "\<exists>created. jget demo_document ''schemas'' = Some (JArr [created]) \<and>
      map snd (schema_slots created) = map Some [1, 2, 3, 4, 5, 6]"
proof -
  have "[1..6] = [1, 2, 3, 4, 5, 6::int]" by (simp add: upto.simps)
  then show ?thesis
    using fresh_field_ids_are_consecutive [OF demo_document_def, of 6] demo_last_column by fastforce
qed

end
