(* ===== verification/BundleProperties.thy ===== *)
theory BundleProperties
  imports QueryGraph
begin

section \<open>Properties of QueryGraph bundles\<close>

text \<open>
  The canonical JSON of a bundle determines the bundle but for the time it was generated, so its hash
  binds its content; and what the constructor builds is what the verifier accepts.
\<close>

subsection \<open>Objects with the same keys\<close>

lemma jobj_eq_iff:
  assumes "map fst xs = map fst ys" "distinct (map fst xs)"
  shows "jobj xs = jobj ys \<longleftrightarrow> map snd xs = map snd ys"
proof
  assume eq: "jobj xs = jobj ys"
  have len: "length xs = length ys" using assms(1) by (metis length_map)
  show "map snd xs = map snd ys"
  proof (rule nth_equalityI)
    fix i assume "i < length (map snd xs)"
    then have i: "i < length xs" "i < length ys" using len by simp_all
    have key: "fst (xs ! i) = fst (ys ! i)" using assms(1) i by (metis nth_map)
    have "map_of (rev zs) (fst (zs ! i)) = Some (snd (zs ! i))"
      if "distinct (map fst zs)" "i < length zs" for zs :: "(string \<times> json) list"
      using that by (simp add: map_of_rev_distinct)
    from this [of xs] this [of ys] show "map snd xs ! i = map snd ys ! i"
      using arg_cong [OF eq, of "\<lambda>v. jget v (fst (xs ! i))"] assms i key by simp
  qed (simp add: len)
next
  assume "map snd xs = map snd ys"
  then have "xs = ys" using assms(1) by (metis zip_map_fst_snd)
  then show "jobj xs = jobj ys" by simp
qed

lemma map_inj_iff: "(\<And>x y. f x = f y \<longleftrightarrow> x = y) \<Longrightarrow> map f xs = map f ys \<longleftrightarrow> xs = ys"
  using inj_map_eq_map [of f xs ys] by (simp add: inj_def)

lemma json_leaves [simp]:
  "map JStr xs = map JStr ys \<longleftrightarrow> xs = ys"
  "jopt JInt a = jopt JInt b \<longleftrightarrow> a = b"
  "jopt JStr s = jopt JStr t \<longleftrightarrow> s = t"
  "jopt ju64 m = jopt ju64 n \<longleftrightarrow> m = n"
  "jopt jstrs p = jopt jstrs q \<longleftrightarrow> p = q"
  "uint (u :: 64 word) = uint v \<longleftrightarrow> u = v"
  by (auto simp: map_inj_iff jopt_def word_uint_eq_iff split: option.splits)

subsection \<open>The canonical JSON determines a bundle\<close>

lemma edge_json_inj [simp]: "edge_json a = edge_json b \<longleftrightarrow> a = b"
  by (cases a; cases b) (auto simp: edge_json_def jobj_eq_iff)

lemma node_json_inj [simp]: "node_json a = node_json b \<longleftrightarrow> a = b"
  by (cases a; cases b) (auto simp: node_json_def jobj_eq_iff)

lemma graph_json_inj [simp]: "graph_json a = graph_json b \<longleftrightarrow> a = b"
  by (cases a; cases b) (auto simp: graph_json_def jobj_eq_iff map_inj_iff)

lemma policy_binding_json_inj [simp]:
  "policy_binding_projection_json a = policy_binding_projection_json b \<longleftrightarrow> a = b"
  by (cases a; cases b) (auto simp: policy_binding_projection_json_def jobj_eq_iff)

lemma policy_bindings_json_inj [simp]:
  "policy_bindings_json a = policy_bindings_json b \<longleftrightarrow> qt_policy_bindings a = qt_policy_bindings b"
  by (simp add: policy_bindings_json_def map_inj_iff)

lemma table_projection_json_inj [simp]: "table_projection_json a = table_projection_json b \<longleftrightarrow> a = b"
  by (cases a; cases b)
    (auto simp: table_projection_json_def import_table_fields_def jobj_eq_iff ident_json_inj)

lemma view_projection_json_inj [simp]: "view_projection_json a = view_projection_json b \<longleftrightarrow> a = b"
  by (cases a; cases b) (auto simp: view_projection_json_def jobj_eq_iff)

lemma view_receipt_evidence_json_inj [simp]:
  "view_receipt_evidence_json a = view_receipt_evidence_json b \<longleftrightarrow> a = b"
  by (cases a; cases b) (auto simp: view_receipt_evidence_json_def jobj_eq_iff)

lemma table_artifact_json_inj [simp]: "table_artifact_json a = table_artifact_json b \<longleftrightarrow> a = b"
  by (cases a; cases b) (auto simp: table_artifact_json_def import_artifact_fields_def jobj_eq_iff)

lemma view_artifact_json_inj [simp]: "view_artifact_json a = view_artifact_json b \<longleftrightarrow> a = b"
  by (cases a; cases b) (auto simp: view_artifact_json_def jobj_eq_iff)

lemma querygraph_import_json_fields:
  "jget (querygraph_import_json i) ''graph-hash'' = Some (JStr (qi_graph_hash i))"
  "jget (querygraph_import_json i) ''schema-version'' = Some (JStr (qi_schema_version i))"
  "jget (querygraph_import_json i) ''table-only-bundle-hash'' = Some (JStr (qi_table_only_bundle_hash i))"
  "jget (querygraph_import_json i) ''view-count'' = Some (JInt (int (qi_view_count i)))"
  "jget (querygraph_import_json i) ''view-receipt-evidence'' =
     (if qi_view_receipt_evidence i = [] then None
      else Some (JArr (map view_receipt_evidence_json (qi_view_receipt_evidence i))))"
  "jget (querygraph_import_json i) ''view-receipt-evidence-hash'' =
     map_option JStr (qi_view_receipt_evidence_hash i)"
  by (simp_all add: querygraph_import_json_def jskip_def split: option.split)

lemma querygraph_import_json_inj [simp]: "querygraph_import_json i = querygraph_import_json j \<longleftrightarrow> i = j"
proof
  assume eq: "querygraph_import_json i = querygraph_import_json j"
  have hash: "map_option JStr (qi_view_receipt_evidence_hash i) = map_option JStr (qi_view_receipt_evidence_hash j)"
    by (metis eq querygraph_import_json_fields(6))
  then have "qi_view_receipt_evidence_hash i = qi_view_receipt_evidence_hash j"
    by (auto simp: map_option_case split: option.splits)
  moreover have "qi_view_receipt_evidence i = qi_view_receipt_evidence j"
    using querygraph_import_json_fields(5) [of i] querygraph_import_json_fields(5) [of j] eq
    by (auto simp: map_inj_iff split: if_splits)
  ultimately show "i = j"
    using querygraph_import_json_fields(1-4) [of i] querygraph_import_json_fields(1-4) [of j] eq
    by (cases i; cases j) simp
qed simp

lemma manifest_json_fields:
  "jget (manifest_json m) ''graph-hash'' = Some (JStr (qm_graph_hash m))"
  "jget (manifest_json m) ''open-lineage-hash'' = Some (JStr (qm_open_lineage_hash m))"
  "jget (manifest_json m) ''producer'' = Some (JStr (qm_producer m))"
  "jget (manifest_json m) ''schema-version'' = Some (JStr (qm_schema_version m))"
  "jget (manifest_json m) ''standards'' = Some (jstrs (qm_standards m))"
  "jget (manifest_json m) ''table-artifacts'' = Some (JArr (map table_artifact_json (qm_table_artifacts m)))"
  "jget (manifest_json m) ''view-artifacts'' = Some (JArr (map view_artifact_json (qm_view_artifacts m)))"
  "jget (manifest_json m) ''querygraph-import'' = map_option querygraph_import_json (qm_querygraph_import m)"
  by (simp_all add: manifest_json_def jskip_def split: option.split)

lemma manifest_json_inj [simp]: "manifest_json m = manifest_json n \<longleftrightarrow> m = n"
proof
  assume eq: "manifest_json m = manifest_json n"
  have "map_option querygraph_import_json (qm_querygraph_import m) =
      map_option querygraph_import_json (qm_querygraph_import n)"
    by (metis eq manifest_json_fields(8))
  then have "qm_querygraph_import m = qm_querygraph_import n"
    by (auto simp: map_option_case split: option.splits)
  then show "m = n"
    using manifest_json_fields(1-7) [of m] manifest_json_fields(1-7) [of n] eq
    by (cases m; cases n) (simp add: map_inj_iff)
qed simp

definition bundle_document :: "QueryGraphBootstrap \<Rightarrow> json" where
  "bundle_document b =
     bundle_json (bo_warehouse b) (bo_manifest b) (bo_tables b) (bo_views b) (bo_graph b) (bo_open_lineage b)"

lemma bundle_document_eq:
  "bundle_document a = bundle_document b \<longleftrightarrow>
     b = a\<lparr>bo_bundle_hash := bo_bundle_hash b, bo_generated_at := bo_generated_at b\<rparr>"
  by (cases a; cases b) (auto simp: bundle_document_def bundle_json_def jobj_eq_iff map_inj_iff)

subsection \<open>What the constructor builds\<close>

lemma table_artifact_verifies:
  "table_artifact_from_table E t = Ok a \<Longrightarrow> ta_stable_id a = qt_stable_id t \<and> table_artifact_verify E a t = Ok ()"
  by (auto simp: table_artifact_from_table_def table_artifact_verify_def verify_hash_def
      policy_bindings_hash_def result_simps)

lemma view_artifact_verifies:
  "view_artifact_from_view E v = Ok a \<Longrightarrow> va_stable_id a = qw_stable_id v \<and> view_artifact_verify E a v = Ok ()"
  by (auto simp: view_artifact_from_view_def view_artifact_verify_def verify_hash_def result_simps)

lemma list_all2_keys: "list_all2 (\<lambda>x y. g y = f x) xs ys \<Longrightarrow> map g ys = map f xs"
  by (induction rule: list_all2_induct) auto

lemma list_all2_indexed:
  assumes "list_all2 P xs ys" "distinct (map g ys)" "x \<in> set xs"
  obtains y where "y \<in> set ys" "P x y" "map_of (map (\<lambda>y. (g y, y)) ys) (g y) = Some y"
proof -
  obtain i where i: "i < length xs" "x = xs ! i" using assms(3) by (metis in_set_conv_nth)
  then have "i < length ys" "P x (ys ! i)" using assms(1) by (auto simp: list_all2_conv_all_nth)
  moreover from this have "map_of (map (\<lambda>y. (g y, y)) ys) (g (ys ! i)) = Some (ys ! i)"
    using assms(2) by (intro map_of_is_SomeI) (auto simp: comp_def)
  ultimately show ?thesis using that [of "ys ! i"] \<open>i < length ys\<close> nth_mem by blast
qed

lemma attached_evidence:
  assumes "attach_view_receipt_evidence E m views e = Ok m'" "qm_querygraph_import m = Some c"
    "qi_view_receipt_evidence_hash c = None"
  shows "\<exists>c'. m' = m\<lparr>qm_querygraph_import := Some c'\<rparr> \<and>
    qi_table_only_bundle_hash c' = qi_table_only_bundle_hash c \<and> qi_view_count c' = qi_view_count c \<and>
    qi_graph_hash c' = qi_graph_hash c \<and>
    validate_view_receipt_evidence views (qi_view_receipt_evidence c') = Ok () \<and> verify_import_evidence E c' = Ok ()"
  using assms
  by (auto simp: attach_view_receipt_evidence_def verify_import_evidence_def result_simps split: if_splits)

lemma bootstrap_facts:
  assumes "bootstrap_from_catalog_snapshot E now w tables views tenant e = Ok b"
  shows "bo_tables b = map table_projection_from_table_with_policies tables"
    "bo_views b = map view_projection_from_view views"
    "list_all2 (\<lambda>t a. table_artifact_from_table E t = Ok a) (bo_tables b) (qm_table_artifacts (bo_manifest b))"
    "list_all2 (\<lambda>v a. view_artifact_from_view E v = Ok a) (bo_views b) (qm_view_artifacts (bo_manifest b))"
    "graph_hash E (bo_graph b) = Ok (qm_graph_hash (bo_manifest b))"
    "content_hash_json E (bo_open_lineage b) = Ok (qm_open_lineage_hash (bo_manifest b))"
    "qm_schema_version (bo_manifest b) = bootstrap_schema_version"
    "computed_bundle_hash E b = Ok (bo_bundle_hash b)"
    "\<exists>c. qm_querygraph_import (bo_manifest b) = Some c \<and> verify_import_contract E b c = Ok ()"
proof -
  note unfolded = assms [unfolded bootstrap_from_catalog_snapshot_def bootstrap_from_catalog_snapshot_inner_def
      manifest_from_hashes_def import_from_table_only_bundle_def Let_def, simplified and_then_ok option.case]
  from unfolded show "bo_tables b = map table_projection_from_table_with_policies tables" by auto
  from unfolded show "bo_views b = map view_projection_from_view views" by auto
  from unfolded show
    "list_all2 (\<lambda>t a. table_artifact_from_table E t = Ok a) (bo_tables b) (qm_table_artifacts (bo_manifest b))"
    by (auto simp: traverse_ok_iff dest!: attached_evidence)
  from unfolded show
    "list_all2 (\<lambda>v a. view_artifact_from_view E v = Ok a) (bo_views b) (qm_view_artifacts (bo_manifest b))"
    by (auto simp: traverse_ok_iff dest!: attached_evidence)
  from unfolded show "graph_hash E (bo_graph b) = Ok (qm_graph_hash (bo_manifest b))"
    by (auto dest!: attached_evidence)
  from unfolded show "content_hash_json E (bo_open_lineage b) = Ok (qm_open_lineage_hash (bo_manifest b))"
    by (auto dest!: attached_evidence)
  from unfolded show "qm_schema_version (bo_manifest b) = bootstrap_schema_version"
    by (auto dest!: attached_evidence)
  from unfolded show "computed_bundle_hash E b = Ok (bo_bundle_hash b)"
    by (auto simp: computed_bundle_hash_def)
  from unfolded show "\<exists>c. qm_querygraph_import (bo_manifest b) = Some c \<and> verify_import_contract E b c = Ok ()"
    by (auto simp: verify_import_contract_def table_only_querygraph_import_hash_def import_json_def
        import_manifest_json_def split del: if_split dest!: attached_evidence)
qed

text \<open>The verifier, on a bundle whose hashes are those of its parts.\<close>

lemma verify_manifest_of_facts:
  assumes tables: "list_all2 (\<lambda>t a. table_artifact_from_table E t = Ok a) (bo_tables b) (qm_table_artifacts (bo_manifest b))"
    and views: "list_all2 (\<lambda>v a. view_artifact_from_view E v = Ok a) (bo_views b) (qm_view_artifacts (bo_manifest b))"
    and hashes: "graph_hash E (bo_graph b) = Ok (qm_graph_hash (bo_manifest b))"
      "content_hash_json E (bo_open_lineage b) = Ok (qm_open_lineage_hash (bo_manifest b))"
      "qm_schema_version (bo_manifest b) = bootstrap_schema_version"
      "computed_bundle_hash E b = Ok (bo_bundle_hash b)"
      "qm_querygraph_import (bo_manifest b) = Some c" "verify_import_contract E b c = Ok ()"
    and ids: "distinct (map qt_stable_id (bo_tables b))" "distinct (map qw_stable_id (bo_views b))"
  shows "verify_manifest E b = Ok (verification_summary b c)"
proof -
  let ?ta = "qm_table_artifacts (bo_manifest b)" and ?va = "qm_view_artifacts (bo_manifest b)"
  have lens: "length ?ta = length (bo_tables b)" "length ?va = length (bo_views b)"
    using tables views by (simp_all add: list_all2_lengthD)
  have keys: "map ta_stable_id ?ta = map qt_stable_id (bo_tables b)" "map va_stable_id ?va = map qw_stable_id (bo_views b)"
    using tables views
    by (auto intro!: list_all2_keys elim!: list_all2_mono dest: table_artifact_verifies view_artifact_verifies)
  have "verify_table_artifact E (map_of (map (\<lambda>a. (ta_stable_id a, a)) ?ta)) t = Ok ()"
    if "t \<in> set (bo_tables b)" for t
    by (rule list_all2_indexed [OF tables _ that, of ta_stable_id])
      (use ids keys in \<open>auto simp: verify_table_artifact_def dest!: table_artifact_verifies\<close>)
  moreover have "verify_view_artifact E (map_of (map (\<lambda>a. (va_stable_id a, a)) ?va)) v = Ok ()"
    if "v \<in> set (bo_views b)" for v
    by (rule list_all2_indexed [OF views _ that, of va_stable_id])
      (use ids keys in \<open>auto simp: verify_view_artifact_def dest!: view_artifact_verifies\<close>)
  ultimately show ?thesis
    using hashes ids lens keys
    by (simp add: verify_manifest_def verify_counts_def validate_duplicate_free_stable_ids_def
        index_duplicate_free_stable_ids_def first_duplicate_none [THEN iffD2] comp_def check_all_ok [THEN iffD2])
qed

lemma verify_manifest_needs_ids:
  "verify_manifest E b = Ok s \<Longrightarrow> distinct (map qt_stable_id (bo_tables b)) \<and> distinct (map qw_stable_id (bo_views b))"
  by (auto simp: verify_manifest_def validate_duplicate_free_stable_ids_def result_simps first_duplicate_none
      split: option.splits)

lemma verify_manifest_bundle_hash: "verify_manifest E b = Ok s \<Longrightarrow> computed_bundle_hash E b = Ok (bo_bundle_hash b)"
  by (auto simp: verify_manifest_def Let_def result_simps hash_mismatch_def import_contract_missing_def
      split: option.splits if_splits)

lemma verified_bundle_hash:
  "verify_manifest E b = Ok s \<Longrightarrow>
     \<exists>x. json_encode E (bundle_document b) = Inr x \<and> bo_bundle_hash b = finalize_json_hash E x"
  by (drule verify_manifest_bundle_hash)
    (auto simp: computed_bundle_hash_def querygraph_bundle_hash_def content_hash_json_def bundle_document_def
      split: sum.splits)

lemma verify_manifest_generated_at:
  "verify_manifest E (b\<lparr>bo_generated_at := n\<rparr>) = verify_manifest E b"
  by (cases b) (simp add: verify_manifest_def verify_counts_def verify_import_contract_def computed_bundle_hash_def
      verification_summary_def Let_def cong: if_cong option.case_cong)

text \<open>
  C35: a bundle built from a snapshot of the catalog is accepted by the verifier, with the summary taken at
  its construction, exactly when no two of its tables and no two of its views share a stable id: every hash
  the manifest stores is the one the verifier computes, each artifact is found under the stable id of its
  projection, the import contract and the evidence of the receipts agree with the bundle. A bundle with two
  projections under one stable id is built all the same, and refused.
\<close>

theorem built_bundle_verifies:
  assumes "bootstrap_from_catalog_snapshot E now warehouse tables views tenant evidence = Ok b"
  shows "if distinct (map (\<lambda>t. table_stable_id (tr_ident (fst t))) tables) \<and> distinct (map querygraph_view_stable_id views)
    then verify_manifest E b = construction_summary b \<and> is_ok (construction_summary b)
    else \<not> is_ok (verify_manifest E b)"
proof -
  note facts = bootstrap_facts [OF assms]
  have ids: "map qt_stable_id (bo_tables b) = map (\<lambda>t. table_stable_id (tr_ident (fst t))) tables"
    "map qw_stable_id (bo_views b) = map querygraph_view_stable_id views"
    by (simp_all add: facts(1,2) table_projection_from_table_with_policies_def view_projection_from_view_def
        Let_def comp_def split: prod.splits)
  from facts(9) obtain c where c: "qm_querygraph_import (bo_manifest b) = Some c" "verify_import_contract E b c = Ok ()"
    by blast
  show ?thesis
  proof (cases "distinct (map qt_stable_id (bo_tables b)) \<and> distinct (map qw_stable_id (bo_views b))")
    case True
    then have "verify_manifest E b = Ok (verification_summary b c)"
      using verify_manifest_of_facts [OF facts(3-8) c] by blast
    then show ?thesis using True c by (simp add: ids construction_summary_def)
  next
    case False
    then show ?thesis using verify_manifest_needs_ids [of E b] by (auto simp: ids is_ok_def split: sum.splits)
  qed
qed

definition demo_bundle_view :: ViewRecord where
  "demo_bundle_view =
     \<lparr>vw_warehouse = ''wh'', vw_namespace = [''sales''], vw_name = ''daily'', vw_view_version = 1,
      vw_sql = ''select 1'', vw_dialect = ''spark'', vw_schema_version = None, vw_columns = [],
      vw_properties = [], vw_created = audit_stamp_now 0 principal_anonymous, vw_updated_at = 0\<rparr>"

definition demo_bundle_table :: "Namespace \<Rightarrow> TableRecord \<times> PolicyBinding list" where
  "demo_bundle_table ns =
     (table_record_new 0 \<lparr>ti_warehouse = ''wh'', ti_namespace = ns, ti_name = ''orders''\<rparr> ''file:///wh/orders'' None
        (jobj []) principal_anonymous, [])"

definition demo_bundle :: "Namespace list \<Rightarrow> QueryGraphBootstrap result" where
  "demo_bundle spaces =
     bootstrap_from_catalog_snapshot demo_env 0 ''wh'' (map demo_bundle_table spaces) [demo_bundle_view]
       tenant_projection_default
       [\<lparr>qv_stable_id = querygraph_view_stable_id demo_bundle_view, qv_view_version = 1, qv_receipt_hash = ''r'',
         qv_receipt_chain_hash = ''c''\<rparr>]"

lemma demo_bundle_built: "is_ok (demo_bundle [[''sales'']])" "is_ok (demo_bundle [[''a.b''], [''a'', ''b'']])"
  by code_simp+

lemma demo_bundle_ids:
  "distinct (map (\<lambda>t. table_stable_id (tr_ident (fst t))) (map demo_bundle_table [[''sales'']]))"
  "\<not> distinct (map (\<lambda>t. table_stable_id (tr_ident (fst t))) (map demo_bundle_table [[''a.b''], [''a'', ''b'']]))"
  "distinct (map querygraph_view_stable_id [demo_bundle_view])"
  by code_simp+

lemma is_ok_value: "is_ok r \<Longrightarrow> \<exists>b. r = Ok b"
  by (cases r) auto

theorem built_bundle_verifies_witness:
  "(\<exists>b. demo_bundle [[''sales'']] = Ok b \<and> is_ok (verify_manifest demo_env b)) \<and>
   (\<exists>b. demo_bundle [[''a.b''], [''a'', ''b'']] = Ok b \<and> \<not> is_ok (verify_manifest demo_env b))"
proof -
  obtain a where a: "demo_bundle [[''sales'']] = Ok a" using is_ok_value [OF demo_bundle_built(1)] by blast
  obtain b where b: "demo_bundle [[''a.b''], [''a'', ''b'']] = Ok b"
    using is_ok_value [OF demo_bundle_built(2)] by blast
  note one = built_bundle_verifies [OF a [unfolded demo_bundle_def]]
    and two = built_bundle_verifies [OF b [unfolded demo_bundle_def]]
  have "is_ok (verify_manifest demo_env a)" using one demo_bundle_ids(1,3) by (simp split: if_splits)
  moreover have "\<not> is_ok (verify_manifest demo_env b)" using two demo_bundle_ids(2) by (simp split: if_splits)
  ultimately show ?thesis using a b by blast
qed

lemma demo_bundle_verified: "is_ok (and_then (demo_bundle [[''sales'']]) (verify_manifest demo_env))"
  by code_simp

text \<open>
  C36: the bundle hash binds everything a bundle says but the time it was generated. Two bundles the verifier
  accepts under one bundle hash are equal up to that time: warehouse, manifest with the import contract and
  the evidence of the receipts, tables, views, graph and lineage document. Otherwise their two canonical
  documents differ and encode to texts with one SHA-256 digest. No field of a projection, an artifact, a node
  or an edge is left out of the document.
\<close>

theorem bundle_hash_binds_content:
  assumes "verify_manifest E a = Ok summary" "verify_manifest E b = Ok other" "bo_bundle_hash a = bo_bundle_hash b"
  shows "b = a\<lparr>bo_generated_at := bo_generated_at b\<rparr> \<or>
    (\<exists>x y. bundle_document a \<noteq> bundle_document b \<and> json_encode E (bundle_document a) = Inr x \<and>
      json_encode E (bundle_document b) = Inr y \<and> sha256_hex E x = sha256_hex E y)"
proof (cases "bundle_document a = bundle_document b")
  case True
  then have "b = a\<lparr>bo_bundle_hash := bo_bundle_hash b, bo_generated_at := bo_generated_at b\<rparr>"
    by (simp only: bundle_document_eq)
  moreover have "a\<lparr>bo_bundle_hash := bo_bundle_hash b\<rparr> = a" using assms(3) by (cases a) simp
  ultimately show ?thesis by simp
next
  case False
  obtain x where x: "json_encode E (bundle_document a) = Inr x" "bo_bundle_hash a = finalize_json_hash E x"
    using verified_bundle_hash [OF assms(1)] by blast
  obtain y where y: "json_encode E (bundle_document b) = Inr y" "bo_bundle_hash b = finalize_json_hash E y"
    using verified_bundle_hash [OF assms(2)] by blast
  have "sha256_hex E x = sha256_hex E y" using x(2) y(2) assms(3) by (simp add: finalize_json_hash_def)
  then show ?thesis using False x(1) y(1) by blast
qed

theorem bundle_hash_binds_content_witness:
  "\<exists>a b. demo_bundle [[''sales'']] = Ok a \<and> b = a\<lparr>bo_generated_at := 5\<rparr> \<and> is_ok (verify_manifest demo_env b) \<and>
    (b = a\<lparr>bo_generated_at := bo_generated_at b\<rparr> \<or>
     (\<exists>x y. bundle_document a \<noteq> bundle_document b \<and> json_encode demo_env (bundle_document a) = Inr x \<and>
       json_encode demo_env (bundle_document b) = Inr y \<and> sha256_hex demo_env x = sha256_hex demo_env y))"
proof -
  obtain a where a: "demo_bundle [[''sales'']] = Ok a" using is_ok_value [OF demo_bundle_built(1)] by blast
  obtain summary where ok: "verify_manifest demo_env a = Ok summary"
    using demo_bundle_verified a is_ok_value by fastforce
  have again: "is_ok (verify_manifest demo_env (a\<lparr>bo_generated_at := 5\<rparr>))"
    using ok by (simp add: verify_manifest_generated_at)
  then obtain other where "verify_manifest demo_env (a\<lparr>bo_generated_at := 5\<rparr>) = Ok other"
    using is_ok_value by blast
  then show ?thesis using a ok again bundle_hash_binds_content [OF ok, of "a\<lparr>bo_generated_at := 5\<rparr>"] by auto
qed

end
