(* ===== verification/CliReceipts.thy ===== *)
theory CliReceipts
  imports EvidenceFields ViewRecords
begin

section \<open>The client's check of view receipt chains\<close>

text \<open>
  \<open>crates/lakecat-cli/src/cli.rs\<close> and \<open>verify_receipts.rs\<close>: the field accessors of the client's
  verifiers, and the verification of the evidence for the receipts of views. An object is the JSON value
  that holds it; a sorted set of strings is a set. A verifier returns \<open>Ok\<close> or the error of the first
  check that fails. How chrono reads an RFC 3339 time and writes it in UTC is a parameter.
\<close>

record cli_api =
  ca_env :: env
  ca_normalize_utc :: "string \<Rightarrow> string + string"
  ca_url_error :: "string \<Rightarrow> string"

definition cli_invalid :: "string \<Rightarrow> 'a result" where
  "cli_invalid message = Err (InvalidArgument message)"

definition cli_reject :: "bool \<Rightarrow> string \<Rightarrow> unit result" where
  "cli_reject b message = (if b then cli_invalid message else Ok ())"

text \<open>A loop over a list with the index of each item and a state that is threaded.\<close>

fun loop_indexed :: "(nat \<Rightarrow> 'a \<Rightarrow> 's \<Rightarrow> 's result) \<Rightarrow> nat \<Rightarrow> 'a list \<Rightarrow> 's \<Rightarrow> 's result" where
  "loop_indexed f i [] s = Ok s"
| "loop_indexed f i (x # xs) s = and_then (f i x s) (loop_indexed f (Suc i) xs)"

definition indexed :: "string \<Rightarrow> nat \<Rightarrow> string" where
  "indexed label i = label @ ''['' @ nat_str i @ '']''"

subsection \<open>Fields\<close>

definition required_value :: "json \<Rightarrow> string \<Rightarrow> string \<Rightarrow> json result" where
  "required_value v field label =
     ok_or (InvalidArgument (label @ '' is missing required field '' @ field)) (jget v field)"

definition required_object :: "json \<Rightarrow> string \<Rightarrow> string \<Rightarrow> json result" where
  "required_object v field label =
     and_then (required_value v field label) (\<lambda>w.
       if is_object w then Ok w else cli_invalid (label @ ''.'' @ field @ '' must be an object''))"

definition object_keys :: "json \<Rightarrow> string list" where
  "object_keys v = (case v of JObj m \<Rightarrow> map fst m | _ \<Rightarrow> [])"

definition require_only_fields :: "json \<Rightarrow> string list \<Rightarrow> string \<Rightarrow> unit result" where
  "require_only_fields v allowed_fields label =
     check_all (\<lambda>field. cli_reject (field \<notin> set allowed_fields) (label @ '' contains unexpected field '' @ field))
       (object_keys v)"

definition require_present_fields :: "json \<Rightarrow> string list \<Rightarrow> string \<Rightarrow> unit result" where
  "require_present_fields v required_fields label =
     check_all (\<lambda>field. cli_reject (jget v field = None) (label @ '' is missing required field '' @ field))
       required_fields"

definition required_array :: "json \<Rightarrow> string \<Rightarrow> string \<Rightarrow> json list result" where
  "required_array v field label =
     ok_or (InvalidArgument (label @ ''.'' @ field @ '' must be an array'')) (field_array v field)"

definition required_string_array :: "json \<Rightarrow> string \<Rightarrow> string \<Rightarrow> string list result" where
  "required_string_array v field label =
     and_then (required_array v field label) (\<lambda>xs.
       traverse (\<lambda>(i, item). ok_or (InvalidArgument (indexed (label @ ''.'' @ field) i @ '' must be a string''))
                    (as_str item)) (enumerate 0 xs))"

definition require_non_empty_unique_strings :: "string list \<Rightarrow> string \<Rightarrow> unit result" where
  "require_non_empty_unique_strings values label =
     checks
       [cli_reject (list_ex blank values) (label @ '' must contain non-empty strings''),
        cli_reject (\<not> distinct values) (label @ '' must be duplicate-free'')]"

definition required_str :: "json \<Rightarrow> string \<Rightarrow> string \<Rightarrow> string result" where
  "required_str v field label =
     and_then (required_value v field label) (\<lambda>w.
       ok_or (InvalidArgument (label @ ''.'' @ field @ '' must be a string'')) (as_str w))"

definition required_bool :: "json \<Rightarrow> string \<Rightarrow> string \<Rightarrow> bool result" where
  "required_bool v field label =
     ok_or (InvalidArgument (label @ ''.'' @ field @ '' must be a boolean'')) (field_bool v field)"

definition require_absent_or_null_field :: "json \<Rightarrow> string \<Rightarrow> string \<Rightarrow> unit result" where
  "require_absent_or_null_field v field label =
     cli_reject (case jget v field of None \<Rightarrow> False | Some w \<Rightarrow> w \<noteq> JNull)
       (label @ ''.'' @ field @ '' must be absent or null'')"

definition required_u64 :: "json \<Rightarrow> string \<Rightarrow> string \<Rightarrow> 64 word result" where
  "required_u64 v field label =
     ok_or (InvalidArgument (label @ ''.'' @ field @ '' must be a non-negative integer'')) (field_u64 v field)"

definition require_positive_u64 :: "json \<Rightarrow> string \<Rightarrow> string \<Rightarrow> 64 word result" where
  "require_positive_u64 v field label =
     and_then (required_u64 v field label) (\<lambda>n.
       if n = 0 then cli_invalid (label @ ''.'' @ field @ '' must be positive'') else Ok n)"

definition require_non_empty_str :: "json \<Rightarrow> string \<Rightarrow> string \<Rightarrow> string result" where
  "require_non_empty_str v field label =
     and_then (required_str v field label) (\<lambda>s.
       if s = [] then cli_invalid (label @ ''.'' @ field @ '' must not be empty'') else Ok s)"

definition require_non_blank_input :: "string \<Rightarrow> string \<Rightarrow> string result" where
  "require_non_blank_input s label =
     (if blank s then cli_invalid (label @ '' must not be blank'') else Ok s)"

definition require_non_blank_str :: "json \<Rightarrow> string \<Rightarrow> string \<Rightarrow> string result" where
  "require_non_blank_str v field label =
     and_then (require_non_empty_str v field label) (\<lambda>s. require_non_blank_input s (label @ ''.'' @ field))"

definition is_sha256_hash :: "string \<Rightarrow> bool" where
  "is_sha256_hash s \<longleftrightarrow> starts_with s ''sha256:''"

definition is_full_sha256_hash :: "string \<Rightarrow> bool" where
  "is_full_sha256_hash s =
     (case strip_prefix s ''sha256:'' of
        None \<Rightarrow> False
      | Some digest \<Rightarrow> length digest = 64 \<and> list_all is_ascii_hexdigit digest)"

definition require_hash_str :: "json \<Rightarrow> string \<Rightarrow> string \<Rightarrow> string result" where
  "require_hash_str v field label =
     and_then (require_non_empty_str v field label) (\<lambda>s.
       if \<not> is_sha256_hash s then cli_invalid (label @ ''.'' @ field @ '' must be a sha256 hash'') else Ok s)"

definition require_full_hash_str :: "json \<Rightarrow> string \<Rightarrow> string \<Rightarrow> string result" where
  "require_full_hash_str v field label =
     and_then (require_non_empty_str v field label) (\<lambda>s.
       if \<not> is_full_sha256_hash s then cli_invalid (label @ ''.'' @ field @ '' must be a full SHA-256 hash'')
       else Ok s)"

definition require_optional_hash_value :: "json \<Rightarrow> string \<Rightarrow> string \<Rightarrow> bool result" where
  "require_optional_hash_value v field label =
     and_then (required_value v field label) (\<lambda>w.
       if w = JNull then Ok False
       else if str_filter is_full_sha256_hash (as_str w) \<noteq> None then Ok True
       else cli_invalid (label @ ''.'' @ field @ '' must be null or a full SHA-256 hash''))"

text \<open>\<open>filter_map(Value::as_str)\<close>.\<close>

definition strings_of :: "json list \<Rightarrow> string list" where
  "strings_of xs = List.map_filter as_str xs"

definition require_full_hash_array :: "json \<Rightarrow> string \<Rightarrow> string \<Rightarrow> unit result" where
  "require_full_hash_array v field label =
     and_then (required_array v field label) (\<lambda>xs.
     checks
       [cli_reject (xs = [] \<or> list_ex (\<lambda>item. str_filter is_full_sha256_hash (as_str item) = None) xs)
          (label @ ''.'' @ field @ '' must contain full SHA-256 hashes''),
        cli_reject (\<not> distinct (strings_of xs)) (label @ ''.'' @ field @ '' must be duplicate-free'')])"

definition require_string_match :: "json \<Rightarrow> string \<Rightarrow> string \<Rightarrow> string \<Rightarrow> unit result" where
  "require_string_match v field expected label =
     and_then (required_str v field label) (\<lambda>actual.
       cli_reject (actual \<noteq> expected)
         (label @ ''.'' @ field @ '' mismatch: expected='' @ expected @ '' actual='' @ actual))"

definition require_string_eq :: "json \<Rightarrow> string \<Rightarrow> string \<Rightarrow> string \<Rightarrow> unit result" where
  "require_string_eq v field expected label = require_string_match v field expected label"

definition require_u64_match :: "json \<Rightarrow> string \<Rightarrow> 64 word \<Rightarrow> string \<Rightarrow> unit result" where
  "require_u64_match v field expected label =
     and_then (required_u64 v field label) (\<lambda>actual.
       cli_reject (actual \<noteq> expected)
         (label @ ''.'' @ field @ '' mismatch: expected='' @ nat_str (unat expected) @ '' actual='' @
           nat_str (unat actual)))"

definition require_value_match :: "json \<Rightarrow> string \<Rightarrow> json \<Rightarrow> string \<Rightarrow> unit result" where
  "require_value_match v field expected label =
     and_then (required_value v field label) (\<lambda>actual.
       cli_reject (actual \<noteq> expected) (label @ ''.'' @ field @ '' mismatch''))"

definition require_optional_null_value_match :: "json \<Rightarrow> string \<Rightarrow> json option \<Rightarrow> string \<Rightarrow> unit result" where
  "require_optional_null_value_match v field expected label =
     (case expected of
        Some w \<Rightarrow> if w \<noteq> JNull then require_value_match v field w label
                  else require_absent_or_null_field v field label
      | None \<Rightarrow> require_absent_or_null_field v field label)"

definition object_at :: "string \<Rightarrow> json \<Rightarrow> json result" where
  "object_at place v = (if is_object v then Ok v else cli_invalid (place @ '' must be an object''))"

subsection \<open>Names of the evidence\<close>

definition chain_proof :: string where
  "chain_proof = ''viewReceiptChainProof''"

definition view_item :: string where
  "view_item = ''viewReceiptChainProof.views[]''"

definition tombstone_item :: string where
  "tombstone_item = ''viewReceiptChainProof.tombstoneReceipts[]''"

definition group_item :: string where
  "group_item = ''viewReceiptChainProof.receiptChains[]''"

definition chain_item :: string where
  "chain_item = ''viewReceiptChainProof.receiptChains[].chains[]''"

definition receipt_item :: string where
  "receipt_item = ''viewReceiptChainProof.receiptChains[].chains[].receipts[]''"

definition group_at :: "nat \<Rightarrow> string" where
  "group_at i = indexed ''viewReceiptChainProof.receiptChains'' i"

definition chain_at :: "nat \<Rightarrow> nat \<Rightarrow> string" where
  "chain_at i j = indexed (group_at i @ ''.chains'') j"

definition receipt_at :: "nat \<Rightarrow> nat \<Rightarrow> nat \<Rightarrow> string" where
  "receipt_at i j k = indexed (chain_at i j @ ''.receipts'') k"

subsection \<open>Identity of a view\<close>

definition namespace_components_path :: "json list \<Rightarrow> string \<Rightarrow> string result" where
  "namespace_components_path namespace label =
     and_then (traverse (\<lambda>(i, component).
         ok_or (InvalidArgument (indexed (label @ ''.namespace'') i @ '' must be a non-empty string''))
           (str_filter (\<lambda>s. s \<noteq> []) (as_str component))) (enumerate 0 namespace)) (\<lambda>components.
     if components = [] then cli_invalid (label @ ''.namespace must contain namespace components'')
     else Ok (join_with ''.'' components))"

definition require_view_stable_id_matches_components ::
  "string \<Rightarrow> string \<Rightarrow> json list \<Rightarrow> string \<Rightarrow> string \<Rightarrow> unit result" where
  "require_view_stable_id_matches_components stable_id warehouse namespace name label =
     and_then (namespace_components_path namespace label) (\<lambda>path.
     let expected = ''lakecat:view:'' @ warehouse @ '':'' @ path @ '':'' @ name in
     cli_reject (stable_id \<noteq> expected)
       (label @ ''.stableId must match warehouse/namespace/name: expected='' @ expected @ '' actual='' @ stable_id))"

definition no_components :: "json list \<Rightarrow> bool" where
  "no_components namespace \<longleftrightarrow>
     namespace = [] \<or> list_ex (\<lambda>c. str_filter (\<lambda>s. s \<noteq> []) (as_str c) = None) namespace"

subsection \<open>Fields of the evidence\<close>

definition VIEW_RECEIPT_CHAIN_PROOF_FIELDS :: "string list" where
  "VIEW_RECEIPT_CHAIN_PROOF_FIELDS = [''viewCount'', ''views'', ''tombstoneReceipts'', ''receiptChains'']"

definition VIEW_RECEIPT_CHAIN_VIEW_FIELDS :: "string list" where
  "VIEW_RECEIPT_CHAIN_VIEW_FIELDS =
     [''stableId'', ''warehouse'', ''namespace'', ''name'', ''viewVersion'', ''acceptedViewVersion'',
      ''acceptedReceiptHash'', ''acceptedReceiptChainHash'', ''eventType'', ''expectedViewVersion'',
      ''graphEvents'', ''replayEventHashes'', ''openLineageHashes'']"

definition VIEW_RECEIPT_CHAIN_TOMBSTONE_FIELDS :: "string list" where
  "VIEW_RECEIPT_CHAIN_TOMBSTONE_FIELDS =
     [''stableId'', ''warehouse'', ''namespace'', ''name'', ''expectedViewVersion'', ''receiptHashes'',
      ''replayEventHashes'', ''openLineageHashes'']"

definition VIEW_RECEIPT_CHAIN_GROUP_FIELDS :: "string list" where
  "VIEW_RECEIPT_CHAIN_GROUP_FIELDS =
     [''warehouse'', ''namespace'', ''verifiedChainCount'', ''receiptHashes'', ''chainHashes'', ''chains'',
      ''replayEventHashes'', ''openLineageHashes'']"

definition VIEW_RECEIPT_CHAIN_CHAIN_FIELDS :: "string list" where
  "VIEW_RECEIPT_CHAIN_CHAIN_FIELDS =
     [''stableId'', ''warehouse'', ''namespace'', ''name'', ''chainHash'', ''chainVerified'',
      ''latestViewVersion'', ''latestOperation'', ''tombstoned'', ''receiptCount'', ''receipts'']"

definition VIEW_RECEIPT_CHAIN_RECEIPT_FIELDS :: "string list" where
  "VIEW_RECEIPT_CHAIN_RECEIPT_FIELDS =
     [''stableId'', ''warehouse'', ''namespace'', ''name'', ''viewVersion'', ''previousViewVersion'',
      ''previousReceiptHash'', ''operation'', ''viewHash'', ''receiptHash'', ''principalSubject'',
      ''principalKind'', ''recordedAt'']"

definition checked_item :: "string list \<Rightarrow> string \<Rightarrow> string \<Rightarrow> json \<Rightarrow> unit result" where
  "checked_item allowed label place v =
     and_then (object_at place v) (\<lambda>item. require_only_fields item allowed label)"

definition require_chain_fields :: "string \<Rightarrow> nat \<Rightarrow> nat \<times> json \<Rightarrow> unit result" where
  "require_chain_fields label group_index entry =
     (case entry of (chain_index, v) \<Rightarrow>
      let place = indexed (indexed (label @ ''.receiptChains'') group_index @ ''.chains'') chain_index;
          chain_label = label @ ''.receiptChains[].chains[]'' in
      and_then (object_at place v) (\<lambda>chain.
      and_then (require_only_fields chain VIEW_RECEIPT_CHAIN_CHAIN_FIELDS chain_label) (\<lambda>_.
      and_then (required_array chain ''receipts'' chain_label) (\<lambda>receipts.
      check_all (\<lambda>(receipt_index, receipt).
          checked_item VIEW_RECEIPT_CHAIN_RECEIPT_FIELDS (chain_label @ ''.receipts[]'')
            (indexed (place @ ''.receipts'') receipt_index) receipt)
        (enumerate 0 receipts)))))"

definition require_group_fields :: "string \<Rightarrow> nat \<times> json \<Rightarrow> unit result" where
  "require_group_fields label entry =
     (case entry of (group_index, v) \<Rightarrow>
      let group_label = label @ ''.receiptChains[]'' in
      and_then (object_at (indexed (label @ ''.receiptChains'') group_index) v) (\<lambda>chain_group.
      and_then (require_only_fields chain_group VIEW_RECEIPT_CHAIN_GROUP_FIELDS group_label) (\<lambda>_.
      and_then (required_array chain_group ''chains'' group_label) (\<lambda>chains.
      check_all (require_chain_fields label group_index) (enumerate 0 chains)))))"

definition require_view_receipt_chain_schema :: "json \<Rightarrow> string \<Rightarrow> unit result" where
  "require_view_receipt_chain_schema views label =
     and_then (require_only_fields views VIEW_RECEIPT_CHAIN_PROOF_FIELDS label) (\<lambda>_.
     and_then (required_array views ''views'' label) (\<lambda>items.
     and_then (check_all (\<lambda>(index, view).
         checked_item VIEW_RECEIPT_CHAIN_VIEW_FIELDS (label @ ''.views[]'') (indexed (label @ ''.views'') index) view)
       (enumerate 0 items)) (\<lambda>_.
     and_then (required_array views ''tombstoneReceipts'' label) (\<lambda>tombstones.
     and_then (check_all (\<lambda>(index, receipt).
         checked_item VIEW_RECEIPT_CHAIN_TOMBSTONE_FIELDS (label @ ''.tombstoneReceipts[]'')
           (indexed (label @ ''.tombstoneReceipts'') index) receipt)
       (enumerate 0 tombstones)) (\<lambda>_.
     and_then (required_array views ''receiptChains'' label) (\<lambda>groups.
     check_all (require_group_fields label) (enumerate 0 groups)))))))"

subsection \<open>The digest of a receipt and of a chain\<close>

definition normalized_utc_recorded_at :: "cli_api \<Rightarrow> json \<Rightarrow> string \<Rightarrow> string result" where
  "normalized_utc_recorded_at X receipt label =
     and_then (require_non_empty_str receipt ''recordedAt'' label) (\<lambda>recorded_at.
     case ca_normalize_utc X recorded_at of
       Inl err \<Rightarrow> cli_invalid (label @ ''.recordedAt must be an RFC3339 timestamp: '' @ err)
     | Inr utc \<Rightarrow> Ok utc)"

text \<open>A link of the receipt to the one before it, left out of the digest when it is null.\<close>

definition previous_link :: "json \<Rightarrow> string \<Rightarrow> string \<Rightarrow> string \<Rightarrow> json result \<Rightarrow> (string \<times> json) list result" where
  "previous_link receipt field label key present =
     and_then (required_value receipt field label) (\<lambda>v.
       if v = JNull then Ok [] else and_then present (\<lambda>w. Ok [(key, w)]))"

definition view_receipt_hash_from_compact_structure :: "cli_api \<Rightarrow> json \<Rightarrow> string \<Rightarrow> string result" where
  "view_receipt_hash_from_compact_structure X receipt label =
     and_then (require_non_empty_str receipt ''stableId'' label) (\<lambda>stable_id.
     and_then (require_non_empty_str receipt ''warehouse'' label) (\<lambda>warehouse.
     and_then (required_array receipt ''namespace'' label) (\<lambda>namespace.
     and_then (require_non_empty_str receipt ''name'' label) (\<lambda>name.
     and_then (required_u64 receipt ''viewVersion'' label) (\<lambda>view_version.
     and_then (previous_link receipt ''previousViewVersion'' label ''previous-view-version''
         (and_then (required_u64 receipt ''previousViewVersion'' label) (\<lambda>n. Ok (ju64 n)))) (\<lambda>previous_version.
     and_then (previous_link receipt ''previousReceiptHash'' label ''previous-receipt-hash''
         (and_then (require_full_hash_str receipt ''previousReceiptHash'' label) (\<lambda>h. Ok (JStr h)))) (\<lambda>previous_hash.
     and_then (required_str receipt ''operation'' label) (\<lambda>operation.
     and_then (require_full_hash_str receipt ''viewHash'' label) (\<lambda>view_hash.
     and_then (require_non_empty_str receipt ''principalSubject'' label) (\<lambda>subject.
     and_then (require_non_empty_str receipt ''principalKind'' label) (\<lambda>kind.
     and_then (normalized_utc_recorded_at X receipt label) (\<lambda>recorded_at.
     content_hash_json (ca_env X)
       (jobj ([(''stable-id'', JStr stable_id), (''warehouse'', JStr warehouse), (''namespace'', JArr namespace),
               (''name'', JStr name), (''view-version'', ju64 view_version)] @ previous_version @ previous_hash @
              [(''operation'', JStr operation), (''view-hash'', JStr view_hash),
               (''principal'', jobj [(''subject'', JStr subject), (''kind'', JStr kind)]),
               (''recorded-at'', JStr recorded_at)]))))))))))))))"

record CompactViewReceiptChain =
  cc_stable_id :: string
  cc_warehouse :: string
  cc_namespace :: "json list"
  cc_name :: string
  cc_latest_view_version :: "64 word"
  cc_latest_operation :: string
  cc_tombstoned :: bool
  cc_receipts :: "json list"

definition compact_receipt_hash :: "json \<Rightarrow> string result" where
  "compact_receipt_hash v =
     (if is_object v then required_str v ''receiptHash'' receipt_item
      else cli_invalid ''viewReceiptChainProof receipt-chain digest requires object receipts'')"

definition view_receipt_chain_hash_from_compact_structure :: "cli_api \<Rightarrow> CompactViewReceiptChain \<Rightarrow> string result" where
  "view_receipt_chain_hash_from_compact_structure X chain =
     and_then (traverse compact_receipt_hash (cc_receipts chain)) (\<lambda>receipt_hashes.
     content_hash_json (ca_env X)
       (jobj [(''stable-id'', JStr (cc_stable_id chain)), (''warehouse'', JStr (cc_warehouse chain)),
              (''namespace'', JArr (cc_namespace chain)), (''name'', JStr (cc_name chain)),
              (''latest-view-version'', ju64 (cc_latest_view_version chain)),
              (''latest-operation'', JStr (cc_latest_operation chain)),
              (''tombstoned'', JBool (cc_tombstoned chain)), (''receipt-hashes'', jstrs receipt_hashes)]))"

subsection \<open>The receipts of a chain\<close>

text \<open>What the verification collects: for each view the digests of its chains and receipts, and for one
  group the digests it has seen.\<close>

record ViewReceiptVerificationState =
  vs_verified_chain_hashes_by_view :: "(string, string set) btree"
  vs_chain_receipt_hashes_by_view :: "(string, string set) btree"
  vs_structural_chain_hashes :: "string set"
  vs_structural_receipt_hashes :: "string set"

text \<open>\<open>entry(key).or_default().insert(value)\<close>.\<close>

definition add_under :: "string \<Rightarrow> string \<Rightarrow> (string, string set) btree \<Rightarrow> (string, string set) btree" where
  "add_under key v m = bt_insert key (insert v (case bt_get m key of None \<Rightarrow> {} | Some s \<Rightarrow> s)) m"

definition covered_by :: "(string, string set) btree \<Rightarrow> string \<Rightarrow> string set" where
  "covered_by m key = (case bt_get m key of None \<Rightarrow> {} | Some s \<Rightarrow> s)"

text \<open>The receipt before: its version, its digest and its operation.\<close>

type_synonym receipt_cursor = "(64 word \<times> string \<times> string) option"

definition verify_receipt_identity ::
  "CompactViewReceiptChain \<Rightarrow> string \<Rightarrow> json \<Rightarrow> unit result" where
  "verify_receipt_identity chain place receipt =
     and_then (require_non_empty_str receipt ''stableId'' receipt_item) (\<lambda>stable_id.
     and_then (cli_reject (stable_id \<noteq> cc_stable_id chain) (place @ ''.stableId must match chain stableId'')) (\<lambda>_.
     and_then (require_non_empty_str receipt ''warehouse'' receipt_item) (\<lambda>warehouse.
     and_then (cli_reject (warehouse \<noteq> cc_warehouse chain) (place @ ''.warehouse must match chain warehouse'')) (\<lambda>_.
     and_then (required_array receipt ''namespace'' receipt_item) (\<lambda>namespace.
     and_then (cli_reject (no_components namespace) (place @ ''.namespace must contain namespace components'')) (\<lambda>_.
     and_then (cli_reject (namespace \<noteq> cc_namespace chain) (place @ ''.namespace must match chain namespace'')) (\<lambda>_.
     and_then (require_non_empty_str receipt ''name'' receipt_item) (\<lambda>name.
     cli_reject (name \<noteq> cc_name chain) (place @ ''.name must match chain name'')))))))))"

text \<open>
  The links of a receipt. The operands of the or are evaluated in order and stop at the first that holds:
  a missing link is an error only when the ones before it held.
\<close>

definition verify_receipt_links ::
  "string \<Rightarrow> receipt_cursor \<Rightarrow> json \<Rightarrow> 64 word \<Rightarrow> string \<Rightarrow> unit result" where
  "verify_receipt_links place previous receipt view_version operation =
     (case previous of
        None \<Rightarrow>
          let refused = cli_invalid (place @ '' must be a version 1 upsert without previous links'') in
          if operation \<noteq> ''upsert'' \<or> view_version \<noteq> 1 then refused
          else and_then (required_value receipt ''previousViewVersion'' receipt_item) (\<lambda>v.
            if v \<noteq> JNull then refused
            else and_then (required_value receipt ''previousReceiptHash'' receipt_item) (\<lambda>h.
              if h \<noteq> JNull then refused else Ok ()))
      | Some (previous_version, previous_hash, _) \<Rightarrow>
          let refused = cli_invalid (place @ '' previous links must match the prior receipt'') in
          and_then (required_u64 receipt ''previousViewVersion'' receipt_item) (\<lambda>v.
          and_then (if v \<noteq> previous_version then refused
                    else and_then (required_str receipt ''previousReceiptHash'' receipt_item) (\<lambda>h.
                      if h \<noteq> previous_hash then refused else Ok ())) (\<lambda>_.
          cli_reject
            (\<not> (operation = ''upsert'' \<and> view_version = saturating_add_u64 previous_version 1 \<or>
                operation = ''drop'' \<and> view_version = previous_version))
            (place @ '' transition is invalid''))))"

definition verify_compact_receipt ::
  "cli_api \<Rightarrow> CompactViewReceiptChain \<Rightarrow> nat \<Rightarrow> nat \<Rightarrow> nat \<Rightarrow> json \<Rightarrow>
   ViewReceiptVerificationState \<times> receipt_cursor \<Rightarrow> (ViewReceiptVerificationState \<times> receipt_cursor) result" where
  "verify_compact_receipt X chain group_index chain_index receipt_index v sc =
     (case sc of (state, previous) \<Rightarrow>
      let place = receipt_at group_index chain_index receipt_index in
      and_then (object_at place v) (\<lambda>receipt.
      and_then (verify_receipt_identity chain place receipt) (\<lambda>_.
      and_then (require_positive_u64 receipt ''viewVersion'' receipt_item) (\<lambda>view_version.
      and_then (required_str receipt ''operation'' receipt_item) (\<lambda>operation.
      and_then (require_full_hash_str receipt ''receiptHash'' receipt_item) (\<lambda>receipt_hash.
      and_then (verify_receipt_links place previous receipt view_version operation) (\<lambda>_.
      and_then (view_receipt_hash_from_compact_structure X receipt receipt_item) (\<lambda>computed.
      if receipt_hash \<noteq> computed then
        cli_invalid (place @ ''.receiptHash must match the structural view receipt digest'')
      else
        Ok (state\<lparr>vs_chain_receipt_hashes_by_view :=
                     add_under (cc_stable_id chain) receipt_hash (vs_chain_receipt_hashes_by_view state),
                  vs_structural_receipt_hashes := insert receipt_hash (vs_structural_receipt_hashes state)\<rparr>,
            Some (view_version, receipt_hash, operation))))))))))"

definition require_verified_view_receipts ::
  "cli_api \<Rightarrow> CompactViewReceiptChain \<Rightarrow> nat \<Rightarrow> nat \<Rightarrow> ViewReceiptVerificationState \<Rightarrow>
   ViewReceiptVerificationState result" where
  "require_verified_view_receipts X chain group_index chain_index state =
     and_then (loop_indexed (verify_compact_receipt X chain group_index chain_index) 0 (cc_receipts chain)
         (state, None)) (\<lambda>(state', latest).
     let refused = cli_invalid (chain_at group_index chain_index @ '' latest receipt does not match chain head'') in
     case latest of
       None \<Rightarrow> refused
     | Some (version, _, operation) \<Rightarrow>
         if version \<noteq> cc_latest_view_version chain \<or> operation \<noteq> cc_latest_operation chain then refused
         else Ok state')"

subsection \<open>Chains and groups of chains\<close>

record ViewReceiptChainGroup =
  vg_declared_chain_hashes :: "string set"
  vg_warehouse :: string
  vg_namespace :: "json list"

text \<open>The fields that name a chain, up to its digest.\<close>

definition verify_chain_identity ::
  "ViewReceiptChainGroup \<Rightarrow> string \<Rightarrow> json \<Rightarrow> (string \<times> string \<times> json list \<times> string \<times> string) result" where
  "verify_chain_identity grp place chain =
     and_then (require_non_empty_str chain ''stableId'' chain_item) (\<lambda>stable_id.
     and_then (require_non_empty_str chain ''warehouse'' chain_item) (\<lambda>warehouse.
     and_then (cli_reject (warehouse \<noteq> vg_warehouse grp)
         (place @ ''.warehouse must match receipt-chain group warehouse'')) (\<lambda>_.
     and_then (required_array chain ''namespace'' chain_item) (\<lambda>namespace.
     and_then (cli_reject (no_components namespace) (place @ ''.namespace must contain namespace components'')) (\<lambda>_.
     and_then (cli_reject (namespace \<noteq> vg_namespace grp)
         (place @ ''.namespace must match receipt-chain group namespace'')) (\<lambda>_.
     and_then (require_non_empty_str chain ''name'' chain_item) (\<lambda>name.
     and_then (require_view_stable_id_matches_components stable_id warehouse namespace name chain_item) (\<lambda>_.
     and_then (require_full_hash_str chain ''chainHash'' chain_item) (\<lambda>chain_hash.
     Ok (stable_id, warehouse, namespace, name, chain_hash))))))))))"

text \<open>The head a chain declares, with its receipts.\<close>

definition verify_chain_head ::
  "string \<Rightarrow> json \<Rightarrow> (64 word \<times> string \<times> bool \<times> json list) result" where
  "verify_chain_head place chain =
     and_then (required_bool chain ''chainVerified'' chain_item) (\<lambda>verified.
     and_then (cli_reject (\<not> verified) (place @ ''.chainVerified must be true'')) (\<lambda>_.
     and_then (require_positive_u64 chain ''latestViewVersion'' chain_item) (\<lambda>latest_view_version.
     and_then (required_str chain ''latestOperation'' chain_item) (\<lambda>latest_operation.
     and_then (cli_reject (latest_operation \<notin> {''upsert'', ''drop''})
         (place @ ''.latestOperation is unsupported'')) (\<lambda>_.
     and_then (required_bool chain ''tombstoned'' chain_item) (\<lambda>tombstoned.
     and_then (cli_reject (tombstoned \<noteq> (latest_operation = ''drop''))
         (place @ ''.tombstoned must match latestOperation'')) (\<lambda>_.
     and_then (require_positive_u64 chain ''receiptCount'' chain_item) (\<lambda>receipt_count.
     and_then (required_array chain ''receipts'' chain_item) (\<lambda>receipts.
     and_then (cli_reject (len_u64 receipts \<noteq> receipt_count)
         (place @ ''.receiptCount mismatch: expected='' @ nat_str (length receipts) @ '' actual='' @
           nat_str (unat receipt_count))) (\<lambda>_.
     Ok (latest_view_version, latest_operation, tombstoned, receipts)))))))))))"

definition require_verified_view_receipt_chain_structure ::
  "cli_api \<Rightarrow> ViewReceiptChainGroup \<Rightarrow> nat \<Rightarrow> nat \<Rightarrow> json \<Rightarrow> ViewReceiptVerificationState \<Rightarrow>
   ViewReceiptVerificationState result" where
  "require_verified_view_receipt_chain_structure X grp group_index chain_index v state =
     (let place = chain_at group_index chain_index in
      and_then (object_at place v) (\<lambda>chain.
      and_then (verify_chain_identity grp place chain) (\<lambda>(stable_id, warehouse, namespace, name, chain_hash).
      and_then (cli_reject (chain_hash \<notin> vg_declared_chain_hashes grp)
          (place @ ''.chainHash is not covered by chainHashes'')) (\<lambda>_.
      and_then (cli_reject (chain_hash \<in> vs_structural_chain_hashes state)
          (group_at group_index @ ''.chains[] must not contain duplicate chainHash values'')) (\<lambda>_.
      and_then (verify_chain_head place chain) (\<lambda>(latest_view_version, latest_operation, tombstoned, receipts).
      let compact = \<lparr>cc_stable_id = stable_id, cc_warehouse = warehouse, cc_namespace = namespace, cc_name = name,
                     cc_latest_view_version = latest_view_version, cc_latest_operation = latest_operation,
                     cc_tombstoned = tombstoned, cc_receipts = receipts\<rparr>;
          state1 = state\<lparr>vs_structural_chain_hashes := insert chain_hash (vs_structural_chain_hashes state),
                         vs_verified_chain_hashes_by_view :=
                           add_under stable_id chain_hash (vs_verified_chain_hashes_by_view state)\<rparr> in
      and_then (require_verified_view_receipts X compact group_index chain_index state1) (\<lambda>state2.
      and_then (view_receipt_chain_hash_from_compact_structure X compact) (\<lambda>computed.
      if chain_hash \<noteq> computed then
        cli_invalid (place @ ''.chainHash must match the structural receipt-chain digest'')
      else Ok state2))))))))"

text \<open>The two maps over all groups, before and after one group.\<close>

type_synonym chain_books = "(string, string set) btree \<times> (string, string set) btree"

definition require_verified_view_receipt_chain_structures ::
  "cli_api \<Rightarrow> json \<Rightarrow> nat \<Rightarrow> chain_books \<Rightarrow> chain_books result" where
  "require_verified_view_receipt_chain_structures X chain_group group_index books =
     (let place = group_at group_index in
      and_then (require_positive_u64 chain_group ''verifiedChainCount'' group_item) (\<lambda>verified_chain_count.
      and_then (required_array chain_group ''chainHashes'' group_item) (\<lambda>chain_hash_values.
      let chain_hashes = set (strings_of chain_hash_values) in
      and_then (cli_reject (length chain_hash_values \<noteq> card chain_hashes)
          (place @ ''.chainHashes must not contain duplicate hashes'')) (\<lambda>_.
      and_then (required_array chain_group ''receiptHashes'' group_item) (\<lambda>receipt_hash_values.
      let receipt_hashes = set (strings_of receipt_hash_values) in
      and_then (cli_reject (length receipt_hash_values \<noteq> card receipt_hashes)
          (place @ ''.receiptHashes must not contain duplicate hashes'')) (\<lambda>_.
      and_then (required_array chain_group ''chains'' group_item) (\<lambda>chains.
      and_then (cli_reject (len_u64 chains \<noteq> verified_chain_count)
          (place @ ''.chains length mismatch: expected='' @ nat_str (unat verified_chain_count) @ '' actual='' @
            nat_str (length chains))) (\<lambda>_.
      and_then (required_str chain_group ''warehouse'' group_item) (\<lambda>warehouse.
      and_then (required_array chain_group ''namespace'' group_item) (\<lambda>namespace.
      and_then (loop_indexed
          (require_verified_view_receipt_chain_structure X
             \<lparr>vg_declared_chain_hashes = chain_hashes, vg_warehouse = warehouse, vg_namespace = namespace\<rparr>
             group_index) 0 chains
          \<lparr>vs_verified_chain_hashes_by_view = fst books, vs_chain_receipt_hashes_by_view = snd books,
           vs_structural_chain_hashes = {}, vs_structural_receipt_hashes = {}\<rparr>) (\<lambda>state.
      if vs_structural_receipt_hashes state \<noteq> receipt_hashes then
        cli_invalid (place @
          ''.receiptHashes must match receiptChains[].chains[].receipts[].receiptHash exactly'')
      else Ok (vs_verified_chain_hashes_by_view state, vs_chain_receipt_hashes_by_view state))))))))))))"

subsection \<open>The evidence\<close>

text \<open>One accepted view: its stable id, its version and the digest of its chain.\<close>

definition verify_accepted_view :: "nat \<times> json \<Rightarrow> (string \<times> 64 word \<times> string) result" where
  "verify_accepted_view entry =
     (case entry of (index, v) \<Rightarrow>
      let place = indexed (chain_proof @ ''.views'') index in
      and_then (object_at place v) (\<lambda>view.
      and_then (require_non_empty_str view ''stableId'' view_item) (\<lambda>stable_id.
      and_then (require_non_empty_str view ''warehouse'' view_item) (\<lambda>warehouse.
      and_then (required_array view ''namespace'' view_item) (\<lambda>namespace.
      and_then (cli_reject (no_components namespace)
          (view_item @ ''.namespace must contain namespace components'')) (\<lambda>_.
      and_then (require_non_empty_str view ''name'' view_item) (\<lambda>name.
      and_then (require_view_stable_id_matches_components stable_id warehouse namespace name view_item) (\<lambda>_.
      and_then (required_u64 view ''viewVersion'' view_item) (\<lambda>view_version.
      and_then (required_u64 view ''acceptedViewVersion'' view_item) (\<lambda>accepted_view_version.
      and_then (cli_reject (view_version = 0 \<or> view_version \<noteq> accepted_view_version)
          (place @ '' must prove accepted view version: viewVersion='' @ nat_str (unat view_version) @
            '' acceptedViewVersion='' @ nat_str (unat accepted_view_version))) (\<lambda>_.
      and_then (require_full_hash_str view ''acceptedReceiptHash'' view_item) (\<lambda>_.
      and_then (require_positive_u64 view ''graphEvents'' view_item) (\<lambda>_.
      and_then (require_full_hash_str view ''acceptedReceiptChainHash'' view_item) (\<lambda>chain_hash.
      and_then (require_full_hash_array view ''replayEventHashes'' view_item) (\<lambda>_.
      and_then (require_full_hash_array view ''openLineageHashes'' view_item) (\<lambda>_.
      Ok (stable_id, accepted_view_version, chain_hash)))))))))))))))))"

definition verify_tombstone ::
  "nat \<Rightarrow> json \<Rightarrow> (string, string set) btree \<Rightarrow> (string, string set) btree result" where
  "verify_tombstone index v tombstones =
     and_then (object_at (indexed (chain_proof @ ''.tombstoneReceipts'') index) v) (\<lambda>receipt.
     and_then (required_str receipt ''stableId'' tombstone_item) (\<lambda>stable_id.
     and_then (require_full_hash_array receipt ''receiptHashes'' tombstone_item) (\<lambda>_.
     and_then (required_array receipt ''receiptHashes'' tombstone_item) (\<lambda>hashes.
     and_then (require_full_hash_array receipt ''replayEventHashes'' tombstone_item) (\<lambda>_.
     and_then (require_full_hash_array receipt ''openLineageHashes'' tombstone_item) (\<lambda>_.
     Ok (fold (add_under stable_id) (strings_of hashes) tombstones)))))))"

definition verify_chain_group :: "cli_api \<Rightarrow> nat \<Rightarrow> json \<Rightarrow> chain_books \<Rightarrow> chain_books result" where
  "verify_chain_group X index v books =
     and_then (object_at (group_at index) v) (\<lambda>chain.
     and_then (require_non_empty_str chain ''warehouse'' group_item) (\<lambda>_.
     and_then (required_array chain ''namespace'' group_item) (\<lambda>namespace.
     and_then (cli_reject (no_components namespace)
         (group_item @ ''.namespace must contain namespace components'')) (\<lambda>_.
     and_then (require_positive_u64 chain ''verifiedChainCount'' group_item) (\<lambda>verified_chain_count.
     and_then (required_array chain ''receiptHashes'' group_item) (\<lambda>receipt_hashes.
     and_then (require_full_hash_array chain ''receiptHashes'' group_item) (\<lambda>_.
     and_then (required_array chain ''chainHashes'' group_item) (\<lambda>chain_hashes.
     and_then (require_full_hash_array chain ''chainHashes'' group_item) (\<lambda>_.
     and_then (cli_reject (len_u64 chain_hashes \<noteq> verified_chain_count)
         (group_at index @ ''.verifiedChainCount mismatch: expected='' @ nat_str (length chain_hashes) @
           '' actual='' @ nat_str (unat verified_chain_count))) (\<lambda>_.
     and_then (cli_reject (length receipt_hashes < length chain_hashes)
         (group_at index @ ''.receiptHashes must cover every verified chain hash'')) (\<lambda>_.
     and_then (require_verified_view_receipt_chain_structures X chain index books) (\<lambda>books'.
     and_then (require_full_hash_array chain ''replayEventHashes'' group_item) (\<lambda>_.
     and_then (require_full_hash_array chain ''openLineageHashes'' group_item) (\<lambda>_.
     Ok books'))))))))))))))"

definition accepted_chain_covered ::
  "(string, string set) btree \<Rightarrow> string \<times> 64 word \<times> string \<Rightarrow> unit result" where
  "accepted_chain_covered verified accepted =
     (case accepted of (stable_id, version, chain_hash) \<Rightarrow>
      cli_reject (chain_hash \<notin> covered_by verified stable_id)
        (''viewReceiptChainProof.views[] accepted view '' @ stable_id @ '' version '' @ nat_str (unat version) @
         '' acceptedReceiptChainHash '' @ chain_hash @
         '' is not covered by the same view'' @ [CHR 0x27] @ ''s receiptChains[].chains[].chainHash''))"

definition tombstones_covered ::
  "(string, string set) btree \<Rightarrow> string \<times> string set \<Rightarrow> unit result" where
  "tombstones_covered chain_receipts tombstone =
     (case tombstone of (stable_id, hashes) \<Rightarrow>
      cli_reject (bt_get chain_receipts stable_id = None \<or> \<not> hashes \<subseteq> covered_by chain_receipts stable_id)
        (''viewReceiptChainProof.tombstoneReceipts[].receiptHashes for '' @ stable_id @
         '' must be covered by the same view'' @ [CHR 0x27] @ ''s receiptChains[].chains[].receipts[].receiptHash''))"

definition require_view_receipt_chain_evidence :: "cli_api \<Rightarrow> json \<Rightarrow> unit result" where
  "require_view_receipt_chain_evidence X views =
     and_then (require_view_receipt_chain_schema views chain_proof) (\<lambda>_.
     and_then (required_u64 views ''viewCount'' chain_proof) (\<lambda>view_count.
     if view_count = 0 then Ok ()
     else
       and_then (required_array views ''views'' chain_proof) (\<lambda>accepted_views.
       and_then (cli_reject (length accepted_views \<noteq> unat view_count)
           (chain_proof @ ''.views length mismatch: expected='' @ nat_str (unat view_count) @ '' actual='' @
             nat_str (length accepted_views))) (\<lambda>_.
       and_then (traverse verify_accepted_view (enumerate 0 accepted_views)) (\<lambda>accepted.
       and_then (required_array views ''tombstoneReceipts'' chain_proof) (\<lambda>tombstone_values.
       and_then (loop_indexed verify_tombstone 0 tombstone_values []) (\<lambda>tombstones.
       and_then (required_array views ''receiptChains'' chain_proof) (\<lambda>receipt_chains.
       and_then (cli_reject (receipt_chains = [])
           (chain_proof @ ''.receiptChains must contain verified receipt-chain evidence'')) (\<lambda>_.
       and_then (loop_indexed (verify_chain_group X) 0 receipt_chains ([], [])) (\<lambda>books.
       and_then (check_all (accepted_chain_covered (fst books)) accepted) (\<lambda>_.
       check_all (tombstones_covered (snd books)) tombstones)))))))))))"

definition accepted_version :: "nat \<Rightarrow> json \<Rightarrow> (string, 64 word) btree \<Rightarrow> (string, 64 word) btree result" where
  "accepted_version index v accepted =
     and_then (object_at (indexed (chain_proof @ ''.views'') index) v) (\<lambda>view.
     and_then (required_str view ''stableId'' view_item) (\<lambda>stable_id.
     and_then (required_u64 view ''acceptedViewVersion'' view_item) (\<lambda>version.
     Ok (bt_insert stable_id version accepted))))"

definition tombstone_expected_version :: "(string, 64 word) btree \<Rightarrow> nat \<times> json \<Rightarrow> unit result" where
  "tombstone_expected_version accepted entry =
     (case entry of (index, v) \<Rightarrow>
      let place = indexed (chain_proof @ ''.tombstoneReceipts'') index in
      and_then (object_at place v) (\<lambda>receipt.
      and_then (required_str receipt ''stableId'' tombstone_item) (\<lambda>stable_id.
      and_then (required_str receipt ''warehouse'' tombstone_item) (\<lambda>warehouse.
      and_then (required_array receipt ''namespace'' tombstone_item) (\<lambda>namespace.
      and_then (required_str receipt ''name'' tombstone_item) (\<lambda>name.
      and_then (require_view_stable_id_matches_components stable_id warehouse namespace name tombstone_item) (\<lambda>_.
      and_then (required_u64 receipt ''expectedViewVersion'' tombstone_item) (\<lambda>expected.
      case bt_get accepted stable_id of
        None \<Rightarrow> cli_invalid (place @ '' references unknown accepted view '' @ stable_id)
      | Some version \<Rightarrow>
          cli_reject (expected \<noteq> version)
            (place @ ''.expectedViewVersion mismatch: expected='' @ nat_str (unat version) @ '' actual='' @
              nat_str (unat expected))))))))))"

definition require_view_tombstone_expected_versions :: "json \<Rightarrow> unit result" where
  "require_view_tombstone_expected_versions views =
     and_then (required_array views ''views'' chain_proof) (\<lambda>items.
     and_then (loop_indexed accepted_version 0 items []) (\<lambda>accepted.
     and_then (required_array views ''tombstoneReceipts'' chain_proof) (\<lambda>tombstones.
     check_all (tombstone_expected_version accepted) (enumerate 0 tombstones))))"

definition accepted_receipt_hash :: "nat \<times> json \<Rightarrow> string result" where
  "accepted_receipt_hash entry =
     (case entry of (index, v) \<Rightarrow>
      and_then (object_at (indexed (chain_proof @ ''.views'') index) v) (\<lambda>view.
      require_full_hash_str view ''acceptedReceiptHash'' view_item))"

definition require_bootstrap_view_receipt_hashes_match_views :: "json \<Rightarrow> json \<Rightarrow> unit result" where
  "require_bootstrap_view_receipt_hashes_match_views bootstrap views =
     (let proof_label = ''queryGraphBootstrapProof''; field = ''viewVersionReceiptHashes'' in
      and_then (required_array bootstrap field proof_label) (\<lambda>bootstrap_hashes.
      and_then (required_u64 views ''viewCount'' chain_proof) (\<lambda>view_count.
      if view_count = 0 then
        cli_reject (bootstrap_hashes \<noteq> [])
          (proof_label @ ''.viewVersionReceiptHashes must be empty when viewReceiptChainProof.viewCount is 0'')
      else
        and_then (require_full_hash_array bootstrap field proof_label) (\<lambda>_.
        and_then (required_array views ''views'' chain_proof) (\<lambda>accepted_views.
        and_then (cli_reject (length bootstrap_hashes \<noteq> length accepted_views)
            (proof_label @ ''.viewVersionReceiptHashes length mismatch with viewReceiptChainProof.views[].acceptedReceiptHash: expected='' @
              nat_str (length accepted_views) @ '' actual='' @ nat_str (length bootstrap_hashes))) (\<lambda>_.
        and_then (traverse accepted_receipt_hash (enumerate 0 accepted_views)) (\<lambda>accepted_hashes.
        cli_reject (set (strings_of bootstrap_hashes) \<noteq> set accepted_hashes)
          (proof_label @ ''.viewVersionReceiptHashes must match viewReceiptChainProof.views[].acceptedReceiptHash exactly''))))))))"

end
