(* ===== verification/ReplayEvidence.thy ===== *)
theory ReplayEvidence
  imports CliReceipts QglakeBundle DrainSummary
begin

section \<open>The client's replay evidence\<close>

text \<open>
  \<open>crates/lakecat-cli/src/replay_evidence.rs\<close>: what the client reports of a bundle it verified and of the
  outbox it drained. The evidence is JSON over the summaries of the drained events; a summary keeps its
  fields by the names Serde writes, so an optional field is absent and an empty list may be.
\<close>

subsection \<open>Fields of a summary\<close>

definition event_field :: "LineageDrainEventSummary \<Rightarrow> string \<Rightarrow> json option" where
  "event_field ev k = map_of (ls_other_fields ev) k"

definition event_str :: "LineageDrainEventSummary \<Rightarrow> string \<Rightarrow> string option" where
  "event_str ev k = Option.bind (event_field ev k) as_str"

text \<open>An optional field in a \<open>json!\<close> literal, a list, a count with its default, a flag with its default.\<close>

definition opt_json :: "LineageDrainEventSummary \<Rightarrow> string \<Rightarrow> json" where
  "opt_json ev k = (case event_field ev k of None \<Rightarrow> JNull | Some v \<Rightarrow> v)"

definition list_json :: "LineageDrainEventSummary \<Rightarrow> string \<Rightarrow> json" where
  "list_json ev k = (case event_field ev k of None \<Rightarrow> JArr [] | Some v \<Rightarrow> v)"

definition event_count_json :: "LineageDrainEventSummary \<Rightarrow> string \<Rightarrow> json" where
  "event_count_json ev k = (case event_field ev k of None \<Rightarrow> JInt 0 | Some v \<Rightarrow> v)"

definition flag_json :: "LineageDrainEventSummary \<Rightarrow> string \<Rightarrow> json" where
  "flag_json ev k = (case event_field ev k of None \<Rightarrow> JBool False | Some v \<Rightarrow> v)"

definition event_count :: "LineageDrainEventSummary \<Rightarrow> string \<Rightarrow> nat" where
  "event_count ev k = (case Option.bind (event_field ev k) as_u64 of None \<Rightarrow> 0 | Some n \<Rightarrow> unat n)"

definition event_strings :: "LineageDrainEventSummary \<Rightarrow> string \<Rightarrow> string list" where
  "event_strings ev k = (case Option.bind (event_field ev k) as_array of None \<Rightarrow> [] | Some xs \<Rightarrow> strings_of xs)"

definition event_u64s :: "LineageDrainEventSummary \<Rightarrow> string \<Rightarrow> 64 word list" where
  "event_u64s ev k =
     (case Option.bind (event_field ev k) as_array of None \<Rightarrow> [] | Some xs \<Rightarrow> List.map_filter as_u64 xs)"

definition event_receipt_chains :: "LineageDrainEventSummary \<Rightarrow> ViewVersionReceiptChainResponse list" where
  "event_receipt_chains ev =
     (case Option.bind (event_field ev ''view-version-receipt-chains'') as_array of
        None \<Rightarrow> [] | Some xs \<Rightarrow> List.map_filter chain_response_from_json xs)"

definition graph_events_json :: "LineageDrainEventSummary \<Rightarrow> json" where
  "graph_events_json ev = JInt (int (ls_graph_events ev))"

text \<open>The two lists of hashes every proof ends with.\<close>

definition event_hashes :: "LineageDrainEventSummary \<Rightarrow> (string \<times> json) list" where
  "event_hashes ev =
     [(''replayEventHashes'', jstrs (ls_replay_event_hashes ev)),
      (''openLineageHashes'', jstrs (ls_replay_open_lineage_hashes ev))]"

definition event_receipt :: "LineageDrainEventSummary \<Rightarrow> (string \<times> json) list" where
  "event_receipt ev =
     [(''principalSubject'', opt_json ev ''principal-subject''), (''principalKind'', opt_json ev ''principal-kind''),
      (''authorizationReceiptHash'', opt_json ev ''authorization-receipt-hash''),
      (''authorizationReceiptAction'', opt_json ev ''authorization-receipt-action'')]"

definition qglake_drain_event :: "LineageDrainResponse \<Rightarrow> string \<Rightarrow> LineageDrainEventSummary option" where
  "qglake_drain_event drain event_type = find (\<lambda>ev. ls_event_type ev = event_type) (ld_events drain)"

definition qglake_credential_event ::
  "LineageDrainResponse \<Rightarrow> string \<Rightarrow> string \<Rightarrow> LineageDrainEventSummary option" where
  "qglake_credential_event drain principal_subject principal_kind =
     find (\<lambda>ev. ls_event_type ev = ''credentials.vend-attempted'' \<and>
        event_str ev ''principal-subject'' = Some principal_subject \<and>
        event_str ev ''principal-kind'' = Some principal_kind) (ld_events drain)"

definition qglake_event_max_credential_ttl_seconds :: "LineageDrainEventSummary \<Rightarrow> 64 word option" where
  "qglake_event_max_credential_ttl_seconds ev =
     Option.bind (Option.bind (event_field ev ''read-restriction'') (\<lambda>r. jget r ''max-credential-ttl-seconds'')) as_u64"

definition qglake_event_read_restriction_purpose :: "LineageDrainEventSummary \<Rightarrow> string option" where
  "qglake_event_read_restriction_purpose ev =
     str_filter (\<lambda>p. \<not> blank p)
       (Option.bind (Option.bind (event_field ev ''read-restriction'') (\<lambda>r. jget r ''purpose'')) as_str)"

subsection \<open>Evidence of single events\<close>

definition qglake_request_identity_replay_evidence_json :: "LineageDrainResponse \<Rightarrow> json option" where
  "qglake_request_identity_replay_evidence_json drain =
     Option.bind (ld_principal_subject drain) (\<lambda>subject.
     Option.bind (ld_principal_kind drain) (\<lambda>kind.
     Option.bind (ld_request_identity_source drain) (\<lambda>source.
     Option.bind (ld_authorization_receipt_hash drain) (\<lambda>hash.
     Option.bind (ld_authorization_receipt_action drain) (\<lambda>action.
     Option.bind (ld_request_identity_state drain) (\<lambda>state.
     Some (jobj [(''principalSubject'', JStr subject), (''principalKind'', JStr kind),
        (''requestIdentitySource'', JStr source), (''authorizationReceiptHash'', JStr hash),
        (''authorizationReceiptAction'', JStr action), (''requestIdentityState'', JStr state),
        (''typedidEnvelopeHash'', jopt JStr (ld_typedid_envelope_hash drain)),
        (''typedidProofHash'', jopt JStr (ld_typedid_proof_hash drain))])))))))"

definition qglake_querygraph_bootstrap_replay_evidence_json :: "LineageDrainResponse \<Rightarrow> json option" where
  "qglake_querygraph_bootstrap_replay_evidence_json drain =
     map_option (\<lambda>ev. jobj
       ([(''bundleHash'', opt_json ev ''bundle-hash''), (''graphHash'', opt_json ev ''graph-hash''),
         (''openLineageHash'', opt_json ev ''open-lineage-hash''),
         (''queryGraphImportHash'', opt_json ev ''querygraph-import-hash''),
         (''tableArtifactCount'', event_count_json ev ''table-artifact-count''),
         (''viewArtifactCount'', event_count_json ev ''view-artifact-count''),
         (''policyBindingCount'', event_count_json ev ''policy-binding-count''), (''standards'', list_json ev ''standards''),
         (''requestIdentitySource'', opt_json ev ''request-identity-source''),
         (''requestIdentityState'', opt_json ev ''request-identity-state''),
         (''agentDelegationHash'', opt_json ev ''agent-delegation-hash''),
         (''agentSummarySignatureHash'', opt_json ev ''agent-summary-signature-hash''),
         (''typedidEnvelopeHash'', opt_json ev ''typedid-envelope-hash''),
         (''typedidProofHash'', opt_json ev ''typedid-proof-hash''),
         (''viewVersionReceiptHashes'', list_json ev ''view-version-receipt-hashes'')] @
        event_receipt ev @ event_hashes ev)) (qglake_drain_event drain ''querygraph.bootstrap'')"

definition qglake_catalog_config_replay_evidence_json :: "LineageDrainResponse \<Rightarrow> json option" where
  "qglake_catalog_config_replay_evidence_json drain =
     map_option (\<lambda>ev. jobj
       ([(''defaults'', list_json ev ''catalog-config-defaults''),
         (''overrides'', list_json ev ''catalog-config-overrides''),
         (''endpoints'', list_json ev ''catalog-config-endpoints''), (''graphEvents'', graph_events_json ev)] @
        event_receipt ev @ event_hashes ev)) (qglake_drain_event drain ''catalog.config-read'')"

definition qglake_scan_replay_evidence_json :: "LineageDrainResponse \<Rightarrow> json option" where
  "qglake_scan_replay_evidence_json drain =
     Option.bind (qglake_drain_event drain ''table.scan-planned'') (\<lambda>planned.
     Option.bind (qglake_drain_event drain ''table.scan-tasks-fetched'') (\<lambda>fetched.
     Some (jobj
       [(''planTaskCount'', event_count_json planned ''scan-task-count''), (''planGraphEvents'', graph_events_json planned),
        (''fileTaskCount'', event_count_json fetched ''file-scan-task-count''),
        (''deleteFileCount'', event_count_json fetched ''delete-file-count''),
        (''childPlanTaskCount'', event_count_json fetched ''child-plan-task-count''),
        (''plannedPrincipalSubject'', opt_json planned ''principal-subject''),
        (''plannedPrincipalKind'', opt_json planned ''principal-kind''),
        (''plannedAuthorizationReceiptHash'', opt_json planned ''authorization-receipt-hash''),
        (''plannedAuthorizationReceiptAction'', opt_json planned ''authorization-receipt-action''),
        (''fetchedPrincipalSubject'', opt_json fetched ''principal-subject''),
        (''fetchedPrincipalKind'', opt_json fetched ''principal-kind''),
        (''fetchedAuthorizationReceiptHash'', opt_json fetched ''authorization-receipt-hash''),
        (''fetchedAuthorizationReceiptAction'', opt_json fetched ''authorization-receipt-action''),
        (''plannedReadRestriction'', opt_json planned ''read-restriction''),
        (''fetchedReadRestriction'', opt_json fetched ''read-restriction''),
        (''plannedRequestedProjection'', list_json planned ''requested-projection''),
        (''plannedEffectiveProjection'', list_json planned ''effective-projection''),
        (''plannedRequestedStatsFields'', list_json planned ''requested-stats-fields''),
        (''plannedEffectiveStatsFields'', list_json planned ''effective-stats-fields''),
        (''fetchedRequestedStatsFields'', list_json fetched ''requested-stats-fields''),
        (''fetchedEffectiveStatsFields'', list_json fetched ''effective-stats-fields''),
        (''fetchedRequiredProjection'', list_json fetched ''required-projection''),
        (''fetchedEffectiveProjection'', list_json fetched ''effective-projection''),
        (''fetchedRequiredFilters'', list_json fetched ''required-filters''),
        (''plannedReplayEventHashes'', jstrs (ls_replay_event_hashes planned)),
        (''fetchedReplayEventHashes'', jstrs (ls_replay_event_hashes fetched)),
        (''plannedOpenLineageHashes'', jstrs (ls_replay_open_lineage_hashes planned)),
        (''fetchedOpenLineageHashes'', jstrs (ls_replay_open_lineage_hashes fetched))])))"

definition storage_profile_upsert_proof :: "LineageDrainEventSummary \<Rightarrow> json" where
  "storage_profile_upsert_proof ev =
     jobj ([(''profileId'', opt_json ev ''storage-profile-id''), (''provider'', opt_json ev ''storage-profile-provider''),
        (''issuanceMode'', opt_json ev ''storage-profile-issuance-mode''),
        (''locationPrefixHash'', opt_json ev ''storage-profile-location-prefix-hash''),
        (''secretRefPresent'', flag_json ev ''storage-profile-secret-ref-present''),
        (''secretRefProvider'', opt_json ev ''storage-profile-secret-ref-provider''),
        (''secretRefHash'', opt_json ev ''storage-profile-secret-ref-hash''), (''graphEvents'', graph_events_json ev)] @
       event_receipt ev @ event_hashes ev)"

definition policy_upsert_proof :: "LineageDrainEventSummary \<Rightarrow> json" where
  "policy_upsert_proof ev =
     jobj ([(''policyId'', opt_json ev ''policy-id''), (''odrlHash'', opt_json ev ''policy-odrl-hash''),
        (''graphEvents'', graph_events_json ev)] @ event_receipt ev @ event_hashes ev)"

text \<open>The counts, ids and graph events of one listing, and its two lists of hashes.\<close>

definition listing_proof ::
  "LineageDrainEventSummary \<Rightarrow> string \<Rightarrow> string \<times> string \<Rightarrow> string \<times> string \<Rightarrow> (string \<times> json) list" where
  "listing_proof ev name counted ids =
     [(fst counted, event_count_json ev (snd counted)), (fst ids, list_json ev (snd ids)),
      (name @ ''GraphEvents'', graph_events_json ev),
      (name @ ''ReplayEventHashes'', jstrs (ls_replay_event_hashes ev)),
      (name @ ''OpenLineageHashes'', jstrs (ls_replay_open_lineage_hashes ev))]"

definition qglake_management_replay_evidence_json :: "LineageDrainResponse \<Rightarrow> json option" where
  "qglake_management_replay_evidence_json drain =
     Option.bind (qglake_drain_event drain ''server.listed'') (\<lambda>server.
     Option.bind (qglake_drain_event drain ''project.listed'') (\<lambda>project.
     Option.bind (qglake_drain_event drain ''warehouse.listed'') (\<lambda>warehouse.
     Option.bind (qglake_drain_event drain ''policy-binding.listed'') (\<lambda>policy.
     Option.bind (qglake_drain_event drain ''storage-profile.listed'') (\<lambda>storage_profile.
     Option.bind (qglake_drain_event drain ''storage-profile.upserted'') (\<lambda>storage_profile_upsert.
     Option.bind (qglake_drain_event drain ''policy-binding.upserted'') (\<lambda>policy_upsert.
     Some (jobj
       (listing_proof server ''server'' (''serverCount'', ''server-count'') (''serverIds'', ''server-ids'') @
        listing_proof project ''project'' (''projectCount'', ''project-count'') (''projectIds'', ''project-ids'') @
        listing_proof warehouse ''warehouse'' (''warehouseCount'', ''warehouse-count'')
          (''warehouseNames'', ''warehouse-names'') @
        [(''warehouseProjectId'', opt_json warehouse ''management-scope-project-id'')] @
        listing_proof policy ''policy'' (''policyBindingCount'', ''policy-binding-count'') (''policyIds'', ''policy-ids'') @
        [(''policyUpsertProof'', policy_upsert_proof policy_upsert)] @
        listing_proof storage_profile ''storageProfile'' (''storageProfileCount'', ''storage-profile-count'')
          (''storageProfileIds'', ''storage-profile-ids'') @
        [(''storageProfileUpsert'', storage_profile_upsert_proof storage_profile_upsert)])))))))))"

definition qglake_credential_storage_profile_evidence_json :: "LineageDrainEventSummary \<Rightarrow> json" where
  "qglake_credential_storage_profile_evidence_json ev =
     jobj [(''profileId'', opt_json ev ''storage-profile-id''), (''provider'', opt_json ev ''storage-profile-provider''),
       (''issuanceMode'', opt_json ev ''storage-profile-issuance-mode''),
       (''locationPrefixHash'', opt_json ev ''storage-profile-location-prefix-hash''),
       (''secretRefPresent'', flag_json ev ''storage-profile-secret-ref-present''),
       (''secretRefProvider'', opt_json ev ''storage-profile-secret-ref-provider''),
       (''secretRefHash'', opt_json ev ''storage-profile-secret-ref-hash''), (''graphEvents'', graph_events_json ev)]"

definition credential_branch :: "LineageDrainEventSummary \<Rightarrow> (string \<times> json) list" where
  "credential_branch ev =
     [(''credentialCount'', event_count_json ev ''credential-count''),
      (''credentialPrefixHashes'', list_json ev ''credential-prefix-hashes''),
      (''rawCredentialExceptionAllowed'', flag_json ev ''raw-credential-exception-allowed''),
      (''blockReason'', opt_json ev ''credential-block-reason''),
      (''maxCredentialTtlSeconds'', jopt ju64 (qglake_event_max_credential_ttl_seconds ev)),
      (''storageProfile'', qglake_credential_storage_profile_evidence_json ev)] @ event_receipt ev @ event_hashes ev"

definition restricted_principal :: "string option \<Rightarrow> string \<times> string" where
  "restricted_principal who =
     (case who of None \<Rightarrow> (''anonymous'', ''anonymous'') | Some p \<Rightarrow> (p, ''agent''))"

definition qglake_credential_replay_evidence_json :: "LineageDrainResponse \<Rightarrow> string option \<Rightarrow> json option" where
  "qglake_credential_replay_evidence_json drain who =
     (case restricted_principal who of (subject, kind) \<Rightarrow>
      Option.bind (qglake_credential_event drain subject kind) (\<lambda>restricted.
      Option.bind (qglake_credential_event drain ''human:qglake-operator'' ''human'') (\<lambda>human.
      Some (jobj [(''restricted'', jobj (credential_branch restricted)),
        (''trustedHuman'', jobj (credential_branch human @
           [(''rawCredentialExceptionReason'', opt_json human ''raw-credential-exception-reason'')]))]))))"

definition qglake_table_commit_history_replay_evidence_json :: "LineageDrainResponse \<Rightarrow> json option" where
  "qglake_table_commit_history_replay_evidence_json drain =
     map_option (\<lambda>ev. jobj
       ([(''commitCount'', event_count_json ev ''table-commit-count''),
         (''sequenceNumbers'', list_json ev ''table-commit-sequence-numbers''),
         (''commitHashes'', list_json ev ''table-commit-hashes''), (''graphEvents'', graph_events_json ev)] @
        event_receipt ev @ event_hashes ev)) (qglake_drain_event drain ''table.commits-listed'')"

subsection \<open>Evidence of views\<close>

definition qglake_compact_view_receipt :: "ViewVersionReceiptResponse \<Rightarrow> json" where
  "qglake_compact_view_receipt r =
     jobj [(''stableId'', JStr (vx_stable_id r)), (''warehouse'', JStr (vx_warehouse r)),
       (''namespace'', jstrs (vx_namespace r)), (''name'', JStr (vx_name r)), (''viewVersion'', ju64 (vx_view_version r)),
       (''previousViewVersion'', jopt ju64 (vx_previous_view_version r)),
       (''previousReceiptHash'', jopt JStr (vx_previous_receipt_hash r)), (''operation'', JStr (vx_operation r)),
       (''viewHash'', JStr (vx_view_hash r)), (''receiptHash'', JStr (vx_receipt_hash r)),
       (''principalSubject'', JStr (vx_principal_subject r)), (''principalKind'', JStr (vx_principal_kind r)),
       (''recordedAt'', JStr (vx_recorded_at r))]"

definition qglake_compact_view_receipt_chain :: "ViewVersionReceiptChainResponse \<Rightarrow> json" where
  "qglake_compact_view_receipt_chain c =
     jobj [(''stableId'', JStr (vh_stable_id c)), (''warehouse'', JStr (vh_warehouse c)),
       (''namespace'', jstrs (vh_namespace c)), (''name'', JStr (vh_name c)), (''chainHash'', JStr (vh_chain_hash c)),
       (''chainVerified'', JBool (vh_chain_verified c)), (''latestViewVersion'', ju64 (vh_latest_view_version c)),
       (''latestOperation'', JStr (vh_latest_operation c)), (''tombstoned'', JBool (vh_tombstoned c)),
       (''receiptCount'', JInt (int (vh_receipt_count c))),
       (''receipts'', JArr (map qglake_compact_view_receipt (vh_receipts c)))]"

text \<open>The position of the first receipt with a hash.\<close>

definition receipt_position :: "string \<Rightarrow> ViewVersionReceiptResponse list \<Rightarrow> nat option" where
  "receipt_position h rs =
     (let n = length (takeWhile (\<lambda>r. vx_receipt_hash r \<noteq> h) rs) in if n < length rs then Some n else None)"

text \<open>
  The prefix of a chain up to the accepted receipt, when the chain went on after the bundle was built and
  its accepted digest is not among those collected.
\<close>

definition accepted_prefix_chain ::
  "QueryGraphBootstrapVerification \<Rightarrow> ViewVersionReceiptChainResponse list \<Rightarrow> string \<Rightarrow> (string \<times> json) option" where
  "accepted_prefix_chain v chain_list view_id =
     Option.bind (bt_get (bv_verified_view_receipt_chain_hashes v) view_id) (\<lambda>chain_hash.
     Option.bind (bt_get (bv_verified_view_receipt_hashes v) view_id) (\<lambda>receipt_hash.
     Option.bind (bt_get (bv_verified_view_versions v) view_id) (\<lambda>version.
     Option.bind (find (\<lambda>c. vh_stable_id c = view_id) chain_list) (\<lambda>chain.
     Option.bind (receipt_position receipt_hash (vh_receipts chain)) (\<lambda>index.
     let receipts = take (Suc index) (vh_receipts chain) in
     Some (chain_hash, jobj [(''stableId'', JStr (vh_stable_id chain)), (''warehouse'', JStr (vh_warehouse chain)),
       (''namespace'', jstrs (vh_namespace chain)), (''name'', JStr (vh_name chain)), (''chainHash'', JStr chain_hash),
       (''chainVerified'', JBool True), (''latestViewVersion'', ju64 version),
       (''latestOperation'', JStr (vx_operation (vh_receipts chain ! index))), (''tombstoned'', JBool False),
       (''receiptCount'', JInt (int (length receipts))),
       (''receipts'', JArr (map qglake_compact_view_receipt receipts))]))))))"

fun add_accepted_prefixes ::
  "QueryGraphBootstrapVerification \<Rightarrow> ViewVersionReceiptChainResponse list \<Rightarrow> string list \<Rightarrow> json list \<Rightarrow> string set \<Rightarrow>
   json list" where
  "add_accepted_prefixes v chain_list [] collected hashes = collected"
| "add_accepted_prefixes v chain_list (i # views) collected hashes =
     (case bt_get (bv_verified_view_receipt_chain_hashes v) i of
        None \<Rightarrow> add_accepted_prefixes v chain_list views collected hashes
      | Some accepted \<Rightarrow>
          if accepted \<in> hashes then add_accepted_prefixes v chain_list views collected hashes
          else case accepted_prefix_chain v chain_list i of
            None \<Rightarrow> add_accepted_prefixes v chain_list views collected hashes
          | Some (chain_hash, chain) \<Rightarrow>
              add_accepted_prefixes v chain_list views (collected @ [chain]) (insert chain_hash hashes))"

definition qglake_compact_view_receipt_chains ::
  "LineageDrainEventSummary \<Rightarrow> QueryGraphBootstrapVerification \<Rightarrow> json list" where
  "qglake_compact_view_receipt_chains ev v =
     (let collected = map qglake_compact_view_receipt_chain (filter vh_chain_verified (event_receipt_chains ev)) in
      add_accepted_prefixes v (event_receipt_chains ev) (bv_verified_views v) collected
        (set (List.map_filter (\<lambda>c. field_str c ''chainHash'') collected)))"

definition is_view_replay :: "string \<Rightarrow> LineageDrainEventSummary \<Rightarrow> bool" where
  "is_view_replay view_id ev \<longleftrightarrow>
     ls_event_type ev \<in> {''view.upserted'', ''view.loaded'', ''view.dropped''} \<and>
     event_str ev ''view-stable-id'' = Some view_id"

definition view_replay_json ::
  "LineageDrainResponse \<Rightarrow> QueryGraphBootstrapVerification \<Rightarrow> string \<Rightarrow> json option" where
  "view_replay_json drain v i =
     map_option (\<lambda>ev. jobj
       ([(''stableId'', JStr i), (''warehouse'', opt_json ev ''view-warehouse''),
         (''namespace'', list_json ev ''view-namespace''), (''name'', opt_json ev ''view-name''),
         (''viewVersion'', opt_json ev ''view-version''),
         (''acceptedViewVersion'', jopt ju64 (bt_get (bv_verified_view_versions v) i)),
         (''acceptedReceiptHash'', jopt JStr (bt_get (bv_verified_view_receipt_hashes v) i)),
         (''acceptedReceiptChainHash'', jopt JStr (bt_get (bv_verified_view_receipt_chain_hashes v) i)),
         (''eventType'', JStr (ls_event_type ev)), (''expectedViewVersion'', opt_json ev ''expected-view-version''),
         (''graphEvents'', graph_events_json ev)] @ event_hashes ev)) (find (is_view_replay i) (ld_events drain))"

definition tombstone_json :: "LineageDrainResponse \<Rightarrow> LineageDrainEventSummary \<Rightarrow> json" where
  "tombstone_json drain ev =
     jobj ([(''stableId'', opt_json ev ''view-stable-id''), (''warehouse'', opt_json ev ''view-warehouse''),
       (''namespace'', list_json ev ''view-namespace''), (''name'', opt_json ev ''view-name''),
       (''expectedViewVersion'',
         case Option.bind (event_str ev ''view-stable-id'') (\<lambda>i.
             find (\<lambda>candidate. ls_event_type candidate = ''view.dropped'' \<and>
               event_str candidate ''view-stable-id'' = Some i) (ld_events drain)) of
           None \<Rightarrow> JNull | Some candidate \<Rightarrow> opt_json candidate ''expected-view-version''),
       (''receiptHashes'', list_json ev ''view-version-receipt-hashes'')] @ event_hashes ev)"

text \<open>The digests a group declares, in the order of a sorted set.\<close>

definition group_chain_hashes ::
  "LineageDrainResponse \<Rightarrow> QueryGraphBootstrapVerification \<Rightarrow> LineageDrainEventSummary \<Rightarrow> json list \<Rightarrow> string list" where
  "group_chain_hashes drain v ev chain_values =
     (let accepted = List.map_filter (\<lambda>i.
            Option.bind (bt_get (bv_verified_view_receipt_chain_hashes v) i) (\<lambda>chain_hash.
            Option.bind (find (is_view_replay i) (ld_events drain)) (\<lambda>replay.
            if event_str replay ''view-warehouse'' = event_str ev ''view-warehouse'' \<and>
               event_strings replay ''view-namespace'' = event_strings ev ''view-namespace''
            then Some chain_hash else None))) (bv_verified_views v) in
      map fst (bt_from (map (\<lambda>h. (h, ())) (event_strings ev ''view-version-receipt-chain-hashes'' @ accepted @
        List.map_filter (\<lambda>c. field_str c ''chainHash'') chain_values))))"

definition receipt_chain_group_json ::
  "LineageDrainResponse \<Rightarrow> QueryGraphBootstrapVerification \<Rightarrow> LineageDrainEventSummary \<Rightarrow> json" where
  "receipt_chain_group_json drain v ev =
     (let chain_values = qglake_compact_view_receipt_chains ev v in
      jobj ([(''warehouse'', opt_json ev ''view-warehouse''), (''namespace'', list_json ev ''view-namespace''),
        (''receiptHashes'', list_json ev ''view-version-receipt-hashes''),
        (''chainHashes'', jstrs (group_chain_hashes drain v ev chain_values)),
        (''verifiedChainCount'', JInt (int (length chain_values))), (''chains'', JArr chain_values)] @ event_hashes ev))"

definition qglake_view_replay_evidence_json ::
  "LineageDrainResponse \<Rightarrow> QueryGraphBootstrapVerification \<Rightarrow> json option" where
  "qglake_view_replay_evidence_json drain v =
     (if bv_verified_views v = [] then
        Some (jobj [(''viewCount'', JInt 0), (''views'', JArr []), (''tombstoneReceipts'', JArr []),
          (''receiptChains'', JArr [])])
      else
        let views = map (view_replay_json drain v) (bv_verified_views v) in
        if None \<in> set views then None
        else Some (jobj
          [(''viewCount'', JInt (int (bv_view_count v))), (''views'', JArr (map the views)),
           (''tombstoneReceipts'', JArr (map (tombstone_json drain)
              (filter (\<lambda>ev. ls_event_type ev = ''view.version-receipts-listed'') (ld_events drain)))),
           (''receiptChains'', JArr (map (receipt_chain_group_json drain v)
              (filter (\<lambda>ev. ls_event_type ev = ''view.version-receipt-chains-listed'') (ld_events drain))))]))"

definition qglake_replay_evidence_json ::
  "LineageDrainResponse \<Rightarrow> string option \<Rightarrow> QueryGraphBootstrapVerification \<Rightarrow> json" where
  "qglake_replay_evidence_json drain who v =
     (let opt = (\<lambda>x. case x of None \<Rightarrow> JNull | Some w \<Rightarrow> w) in
      jobj [(''requestIdentity'', opt (qglake_request_identity_replay_evidence_json drain)),
        (''queryGraphBootstrap'', opt (qglake_querygraph_bootstrap_replay_evidence_json drain)),
        (''catalogConfig'', opt (qglake_catalog_config_replay_evidence_json drain)),
        (''scan'', opt (qglake_scan_replay_evidence_json drain)),
        (''management'', opt (qglake_management_replay_evidence_json drain)),
        (''credentials'', opt (qglake_credential_replay_evidence_json drain who)),
        (''tableCommitHistory'', opt (qglake_table_commit_history_replay_evidence_json drain)),
        (''views'', opt (qglake_view_replay_evidence_json drain v))])"

definition qglake_replay_verification_json ::
  "QueryGraphBootstrapVerification \<Rightarrow> string option \<Rightarrow> string option \<Rightarrow> string option \<Rightarrow> string option \<Rightarrow> json \<Rightarrow> json" where
  "qglake_replay_verification_json v scan_replay management_replay credential_replay commit_history_replay evidence =
     jobj [(''schema-version'', JStr ''lakecat.qglake.replay-verification.v1''), (''status'', JStr ''verified''),
       (''bundle-hash'', JStr (bv_bundle_hash v)), (''graph-hash'', JStr (bv_graph_hash v)),
       (''open-lineage-hash'', JStr (bv_open_lineage_hash v)),
       (''querygraph-import-hash'', JStr (bv_querygraph_import_hash v)),
       (''table-count'', JInt (int (bv_table_count v))), (''view-count'', JInt (int (bv_view_count v))),
       (''verified-tables'', jstrs (bv_verified_tables v)), (''verified-views'', jstrs (bv_verified_views v)),
       (''standards'', jstrs (bv_standards v)), (''scan-replay'', jopt JStr scan_replay),
       (''management-replay'', jopt JStr management_replay), (''credential-replay'', jopt JStr credential_replay),
       (''table-commit-history-replay'', jopt JStr commit_history_replay), (''replay-evidence'', evidence)]"

subsection \<open>Replay lines\<close>

definition join_u64s :: "64 word list \<Rightarrow> string" where
  "join_u64s values = join_with '','' (map (\<lambda>n. nat_str (unat n)) values)"

definition required_text :: "(string \<Rightarrow> bool) \<Rightarrow> LineageDrainEventSummary \<Rightarrow> string \<Rightarrow> string option" where
  "required_text P ev k = str_filter P (map_option trim (event_str ev k))"

definition nonempty :: "string \<Rightarrow> bool" where
  "nonempty s \<longleftrightarrow> s \<noteq> []"

definition qglake_policy_upsert_line :: "LineageDrainEventSummary \<Rightarrow> string option" where
  "qglake_policy_upsert_line ev =
     Option.bind (required_text nonempty ev ''policy-id'') (\<lambda>policy_id.
     Option.bind (required_text is_full_sha256_hash ev ''policy-odrl-hash'') (\<lambda>odrl_hash.
     Some (policy_id @ '':odrl_hash='' @ odrl_hash)))"

text \<open>The reference to the secret of a profile: its provider and its hash, or none.\<close>

definition secret_ref_text :: "LineageDrainEventSummary \<Rightarrow> string option" where
  "secret_ref_text ev =
     Option.bind (Option.bind (event_field ev ''storage-profile-secret-ref-present'') as_bool) (\<lambda>present.
     if present then
       Option.bind (str_filter (\<lambda>p. \<not> blank p) (event_str ev ''storage-profile-secret-ref-provider'')) (\<lambda>provider.
       Option.bind (str_filter is_full_sha256_hash (event_str ev ''storage-profile-secret-ref-hash'')) (\<lambda>hash.
       Some (provider @ '':secret_ref_hash='' @ hash)))
     else if event_str ev ''storage-profile-secret-ref-provider'' \<noteq> None \<or>
             event_str ev ''storage-profile-secret-ref-hash'' \<noteq> None then None
     else Some ''none'')"

definition storage_profile_text :: "LineageDrainEventSummary \<Rightarrow> string option" where
  "storage_profile_text ev =
     Option.bind (required_text nonempty ev ''storage-profile-id'') (\<lambda>profile_id.
     Option.bind (required_text nonempty ev ''storage-profile-provider'') (\<lambda>provider.
     Option.bind (required_text nonempty ev ''storage-profile-issuance-mode'') (\<lambda>issuance_mode.
     Option.bind (required_text is_full_sha256_hash ev ''storage-profile-location-prefix-hash'') (\<lambda>prefix_hash.
     Some (profile_id @ '':'' @ provider @ '':'' @ issuance_mode @ '':location_prefix_hash='' @ prefix_hash)))))"

definition qglake_storage_profile_upsert_line :: "LineageDrainEventSummary \<Rightarrow> string option" where
  "qglake_storage_profile_upsert_line ev =
     Option.bind (storage_profile_text ev) (\<lambda>profile.
     Option.bind (secret_ref_text ev) (\<lambda>secret_ref. Some (profile @ '':secret_ref='' @ secret_ref)))"

definition qglake_credential_storage_profile_line :: "LineageDrainEventSummary \<Rightarrow> string option" where
  "qglake_credential_storage_profile_line ev =
     Option.bind (storage_profile_text ev) (\<lambda>profile.
     if ls_graph_events ev = 0 then None
     else Option.bind (secret_ref_text ev) (\<lambda>secret_ref.
       Some (profile @ '':secret_ref='' @ secret_ref @ '':graph_events='' @ nat_str (ls_graph_events ev))))"

definition qglake_management_replay_line :: "LineageDrainResponse \<Rightarrow> string option" where
  "qglake_management_replay_line drain =
     Option.bind (qglake_drain_event drain ''storage-profile.upserted'') (\<lambda>storage_profile_upsert.
     Option.bind (qglake_storage_profile_upsert_line storage_profile_upsert) (\<lambda>credential_root.
     Option.bind (qglake_drain_event drain ''policy-binding.upserted'') (\<lambda>policy_upsert.
     Option.bind (qglake_policy_upsert_line policy_upsert) (\<lambda>policy.
     Option.bind (qglake_drain_event drain ''server.listed'') (\<lambda>server.
     Option.bind (qglake_drain_event drain ''project.listed'') (\<lambda>project.
     Option.bind (qglake_drain_event drain ''warehouse.listed'') (\<lambda>warehouse.
     Option.bind (qglake_drain_event drain ''policy-binding.listed'') (\<lambda>policies.
     Option.bind (qglake_drain_event drain ''storage-profile.listed'') (\<lambda>profiles.
     Some (''management replay servers='' @ nat_str (event_count server ''server-count'') @
       '' projects='' @ nat_str (event_count project ''project-count'') @
       '' warehouses='' @ nat_str (event_count warehouse ''warehouse-count'') @
       '' policies='' @ nat_str (event_count policies ''policy-binding-count'') @
       '' policy_upserts='' @ (if event_str policy_upsert ''policy-id'' = None then ''0'' else ''1'') @
       '' policy='' @ policy @
       '' storage_profiles='' @ nat_str (event_count profiles ''storage-profile-count'') @
       '' storage_profile_upserts='' @
         (if event_str storage_profile_upsert ''storage-profile-id'' = None then ''0'' else ''1'') @
       '' credential_root='' @ credential_root))))))))))"

definition QGLAKE_RESTRICTED_CREDENTIAL_BLOCK_REASON :: string where
  "QGLAKE_RESTRICTED_CREDENTIAL_BLOCK_REASON = ''fine-grained read restriction requires Sail-planned reads''"

definition QGLAKE_HUMAN_RAW_CREDENTIAL_EXCEPTION_REASON :: string where
  "QGLAKE_HUMAN_RAW_CREDENTIAL_EXCEPTION_REASON =
     ''trusted human principal may use audited raw credential vending''"

definition qglake_credential_replay_line :: "LineageDrainResponse \<Rightarrow> string option \<Rightarrow> string option" where
  "qglake_credential_replay_line drain who =
     (case restricted_principal who of (subject, kind) \<Rightarrow>
      Option.bind (qglake_credential_event drain subject kind) (\<lambda>restricted.
      Option.bind (qglake_credential_event drain ''human:qglake-operator'' ''human'') (\<lambda>human.
      if event_str restricted ''credential-block-reason'' \<noteq> Some QGLAKE_RESTRICTED_CREDENTIAL_BLOCK_REASON \<or>
         event_str human ''raw-credential-exception-reason'' \<noteq> Some QGLAKE_HUMAN_RAW_CREDENTIAL_EXCEPTION_REASON
      then None
      else
        Option.bind (qglake_credential_storage_profile_line restricted) (\<lambda>restricted_profile.
        Option.bind (qglake_credential_storage_profile_line human) (\<lambda>human_profile.
        Option.bind (qglake_event_max_credential_ttl_seconds restricted) (\<lambda>restricted_ttl.
        Option.bind (qglake_event_max_credential_ttl_seconds human) (\<lambda>human_ttl.
        Some (''credential replay restricted=blocked:sail-planned-read-required restricted_count='' @
          nat_str (event_count restricted ''credential-count'') @ '' restricted_ttl='' @ nat_str (unat restricted_ttl) @
          '' restricted_profile='' @ restricted_profile @ '' human=allowed:trusted-human-audited-raw human_count='' @
          nat_str (event_count human ''credential-count'') @ '' human_ttl='' @ nat_str (unat human_ttl) @
          '' human_profile='' @ human_profile))))))))"

definition qglake_table_commit_history_replay_line :: "LineageDrainResponse \<Rightarrow> string option" where
  "qglake_table_commit_history_replay_line drain =
     map_option (\<lambda>ev. ''table commit history commits='' @ nat_str (event_count ev ''table-commit-count'') @
       '' sequences='' @ join_u64s (event_u64s ev ''table-commit-sequence-numbers'') @
       '' hashes='' @ join_with '','' (event_strings ev ''table-commit-hashes'') @
       '' graph_events='' @ nat_str (ls_graph_events ev)) (qglake_drain_event drain ''table.commits-listed'')"

definition qglake_scan_replay_line :: "LineageDrainResponse \<Rightarrow> string option" where
  "qglake_scan_replay_line drain =
     Option.bind (qglake_drain_event drain ''table.scan-planned'') (\<lambda>planned.
     Option.bind (qglake_drain_event drain ''table.scan-tasks-fetched'') (\<lambda>fetched.
     Option.bind (qglake_event_max_credential_ttl_seconds planned) (\<lambda>planned_ttl.
     Option.bind (qglake_event_max_credential_ttl_seconds fetched) (\<lambda>fetched_ttl.
     Option.bind (qglake_event_read_restriction_purpose planned) (\<lambda>planned_purpose.
     Option.bind (qglake_event_read_restriction_purpose fetched) (\<lambda>fetched_purpose.
     Some (''scan replay plan_tasks='' @ nat_str (event_count planned ''scan-task-count'') @
       '' plan_graph_events='' @ nat_str (ls_graph_events planned) @ '' planned_ttl='' @ nat_str (unat planned_ttl) @
       '' planned_purpose='' @ planned_purpose @ '' file_tasks='' @ nat_str (event_count fetched ''file-scan-task-count'') @
       '' delete_files='' @ nat_str (event_count fetched ''delete-file-count'') @
       '' child_plan_tasks='' @ nat_str (event_count fetched ''child-plan-task-count'') @
       '' fetched_ttl='' @ nat_str (unat fetched_ttl) @ '' fetched_purpose='' @ fetched_purpose)))))))"

end
