(* ===== verification/ReceiptProperties.thy ===== *)
theory ReceiptProperties
  imports ReplayEvidence ViewProperties
begin

section \<open>Properties of the client's receipt check\<close>

subsection \<open>When the field accessors succeed\<close>

lemma cli_field_ok:
  "required_value v field label = Ok w \<longleftrightarrow> jget v field = Some w"
  "required_array v field label = Ok xs \<longleftrightarrow> field_array v field = Some xs"
  "required_str v field label = Ok s \<longleftrightarrow> field_str v field = Some s"
  "required_bool v field label = Ok b \<longleftrightarrow> field_bool v field = Some b"
  "required_u64 v field label = Ok n \<longleftrightarrow> field_u64 v field = Some n"
  "require_positive_u64 v field label = Ok n \<longleftrightarrow> field_u64 v field = Some n \<and> n \<noteq> 0"
  "require_non_empty_str v field label = Ok s \<longleftrightarrow> field_str v field = Some s \<and> s \<noteq> []"
  "object_at place v = Ok w \<longleftrightarrow> is_object v \<and> w = v"
  "cli_reject b message = Ok () \<longleftrightarrow> \<not> b"
  "cli_invalid message = Ok x \<longleftrightarrow> False"
  by (auto simp: required_value_def required_array_def required_str_def required_bool_def required_u64_def
      require_positive_u64_def require_non_empty_str_def object_at_def cli_reject_def cli_invalid_def field_str_def
      ok_or_ok and_then_ok bind_eq_Some_conv split: if_splits)

lemma full_hash_not_empty: "is_full_sha256_hash s \<Longrightarrow> s \<noteq> []"
  by (auto simp: is_full_sha256_hash_def strip_prefix_def starts_with_def)

lemma full_hash_str_ok: "require_full_hash_str v field label = Ok s \<longleftrightarrow> field_str v field = Some s \<and> is_full_sha256_hash s"
proof -
  have "require_full_hash_str v field label = Ok s \<longleftrightarrow>
      require_non_empty_str v field label = Ok s \<and> is_full_sha256_hash s"
    by (auto simp: require_full_hash_str_def and_then_ok cli_invalid_def split: if_splits)
  then show ?thesis using full_hash_not_empty [of s] by (auto simp: cli_field_ok)
qed


subsection \<open>What a verified chain is\<close>


definition receipt_digests :: "json list \<Rightarrow> string list" where
  "receipt_digests rs = List.map_filter (\<lambda>r. field_str r ''receiptHash'') rs"



subsection \<open>The steps of the verification\<close>






lemma receipt_digests_simps [simp]:
  "receipt_digests [] = []"
  "field_str r ''receiptHash'' = Some h \<Longrightarrow> receipt_digests (r # rs) = h # receipt_digests rs"
  by (simp_all add: receipt_digests_def List.map_filter_simps)








subsection \<open>The evidence as a whole\<close>












definition demo_cli :: cli_api where
  "demo_cli = \<lparr>ca_env = demo_env, ca_normalize_utc = Inr, ca_url_error = (\<lambda>_. [])\<rparr>"









subsection \<open>A chain the service reports is one the client accepts\<close>

text \<open>
  The client over the environment of the service: what the service writes as a time, the client reads and
  writes back as the JSON form of the same time.
\<close>

definition client_of :: "env \<Rightarrow> cli_api \<Rightarrow> bool" where
  "client_of E X \<longleftrightarrow> ca_env X = E \<and>
     (\<forall>t. dt_rfc3339 E t \<noteq> [] \<and> ca_normalize_utc X (dt_rfc3339 E t) = Inr (dt_json E t))"

definition client_receipt :: "string \<Rightarrow> WarehouseName \<Rightarrow> Namespace \<Rightarrow> TableName \<Rightarrow> ViewVersionReceipt \<Rightarrow> bool" where
  "client_receipt sid w ns n r \<longleftrightarrow>
     vr_stable_id r = sid \<and> vr_warehouse r = w \<and> vr_namespace r = ns \<and> vr_name r = n \<and> vr_view_version r \<noteq> 0 \<and>
     is_full_sha256_hash (vr_view_hash r) \<and> (\<forall>h. vr_previous_receipt_hash r = Some h \<longrightarrow> is_full_sha256_hash h) \<and>
     pr_subject (vr_principal r) \<noteq> []"

lemma compact_fields:
  "jget (qglake_compact_view_receipt x) ''stableId'' = Some (JStr (vx_stable_id x))"
  "jget (qglake_compact_view_receipt x) ''warehouse'' = Some (JStr (vx_warehouse x))"
  "jget (qglake_compact_view_receipt x) ''namespace'' = Some (jstrs (vx_namespace x))"
  "jget (qglake_compact_view_receipt x) ''name'' = Some (JStr (vx_name x))"
  "jget (qglake_compact_view_receipt x) ''viewVersion'' = Some (ju64 (vx_view_version x))"
  "jget (qglake_compact_view_receipt x) ''previousViewVersion'' = Some (jopt ju64 (vx_previous_view_version x))"
  "jget (qglake_compact_view_receipt x) ''previousReceiptHash'' = Some (jopt JStr (vx_previous_receipt_hash x))"
  "jget (qglake_compact_view_receipt x) ''operation'' = Some (JStr (vx_operation x))"
  "jget (qglake_compact_view_receipt x) ''viewHash'' = Some (JStr (vx_view_hash x))"
  "jget (qglake_compact_view_receipt x) ''receiptHash'' = Some (JStr (vx_receipt_hash x))"
  "jget (qglake_compact_view_receipt x) ''principalSubject'' = Some (JStr (vx_principal_subject x))"
  "jget (qglake_compact_view_receipt x) ''principalKind'' = Some (JStr (vx_principal_kind x))"
  "jget (qglake_compact_view_receipt x) ''recordedAt'' = Some (JStr (vx_recorded_at x))"
  by (simp_all add: qglake_compact_view_receipt_def)

lemma compact_object: "is_object (qglake_compact_view_receipt x)"
  by (simp add: qglake_compact_view_receipt_def jobj_def)

lemma accessor_values:
  "jget v k = Some (JStr s) \<Longrightarrow> required_str v k label = Ok s"
  "jget v k = Some (JStr s) \<Longrightarrow> s \<noteq> [] \<Longrightarrow> require_non_empty_str v k label = Ok s"
  "jget v k = Some (JStr s) \<Longrightarrow> is_full_sha256_hash s \<Longrightarrow> require_full_hash_str v k label = Ok s"
  "jget v k = Some (JArr xs) \<Longrightarrow> required_array v k label = Ok xs"
  "jget v k = Some (JBool b) \<Longrightarrow> required_bool v k label = Ok b"
  "jget v k = Some (ju64 n) \<Longrightarrow> required_u64 v k label = Ok n"
  "jget v k = Some (ju64 n) \<Longrightarrow> n \<noteq> 0 \<Longrightarrow> require_positive_u64 v k label = Ok n"
  "jget v k = Some w \<Longrightarrow> required_value v k label = Ok w"
  by (simp_all add: cli_field_ok full_hash_str_ok field_simps)

lemma kind_name_not_empty: "principal_kind_name k \<noteq> []"
  by (cases k) simp_all

lemma hash_of_content: "content_hash_json E v = Ok h \<Longrightarrow> env_ok E \<Longrightarrow> is_full_sha256_hash h"
  using content_hash_json_Ok [of E v h]
  by (auto simp: is_full_sha256_hash_def sha256_shape_def split: option.splits)

lemma compact_receipt_digest:
  assumes "client_of E X" "client_receipt sid w ns n r" "view_version_receipt_response E r = Ok x" "sid \<noteq> []" "w \<noteq> []" "n \<noteq> []"
  shows "view_receipt_hash_from_compact_structure X (qglake_compact_view_receipt x) label = Ok (vx_receipt_hash x)"
proof -
  from assms(3) obtain h where h: "content_hash_json E (receipt_json E r) = Ok h" and
    x: "x = \<lparr>vx_stable_id = vr_stable_id r, vx_warehouse = vr_warehouse r, vx_namespace = vr_namespace r,
       vx_name = vr_name r, vx_view_version = vr_view_version r, vx_previous_view_version = vr_previous_view_version r,
       vx_previous_receipt_hash = vr_previous_receipt_hash r, vx_operation = operation_name (vr_operation r),
       vx_view_hash = vr_view_hash r, vx_receipt_hash = h, vx_principal_subject = pr_subject (vr_principal r),
       vx_principal_kind = principal_kind_name (pr_kind (vr_principal r)),
       vx_recorded_at = dt_rfc3339 E (vr_recorded_at r)\<rparr>"
    by (auto simp: view_version_receipt_response_def and_then_ok)
  let ?c = "qglake_compact_view_receipt x"
  have version: "previous_link ?c ''previousViewVersion'' label ''previous-view-version''
      (and_then (required_u64 ?c ''previousViewVersion'' label) (\<lambda>n. Ok (ju64 n))) =
      Ok (jskip ''previous-view-version'' ju64 (vr_previous_view_version r))"
    using compact_fields(6) [of x]
    by (cases "vr_previous_view_version r") (simp_all add: x previous_link_def accessor_values jskip_def jopt_def)
  have hash: "previous_link ?c ''previousReceiptHash'' label ''previous-receipt-hash''
      (and_then (require_full_hash_str ?c ''previousReceiptHash'' label) (\<lambda>h. Ok (JStr h))) =
      Ok (jskip ''previous-receipt-hash'' JStr (vr_previous_receipt_hash r))"
    using compact_fields(7) [of x] assms(2)
    by (cases "vr_previous_receipt_hash r")
      (simp_all add: x previous_link_def accessor_values jskip_def jopt_def client_receipt_def)
  have time: "normalized_utc_recorded_at X ?c label = Ok (dt_json E (vr_recorded_at r))"
    using compact_fields(13) [of x] assms(1)
    by (simp add: x normalized_utc_recorded_at_def accessor_values client_of_def)
  have "view_receipt_hash_from_compact_structure X ?c label = content_hash_json (ca_env X) (receipt_json E r)"
    unfolding view_receipt_hash_from_compact_structure_def version hash time receipt_json_def principal_json_def
    using assms(2,4-6) compact_fields [of x] kind_name_not_empty [of "pr_kind (vr_principal r)"]
    by (simp add: x accessor_values client_receipt_def)
  then show ?thesis using h assms(1) by (simp add: x client_of_def)
qed

definition cursor_of :: "ViewVersionReceiptResponse option \<Rightarrow> receipt_cursor" where
  "cursor_of previous = map_option (\<lambda>p. (vx_view_version p, vx_receipt_hash p, vx_operation p)) previous"

lemma response_fields:
  assumes "view_version_receipt_response E r = Ok x"
  shows "vx_stable_id x = vr_stable_id r" "vx_warehouse x = vr_warehouse r" "vx_namespace x = vr_namespace r"
    "vx_name x = vr_name r" "vx_view_version x = vr_view_version r"
    "vx_previous_view_version x = vr_previous_view_version r"
    "vx_previous_receipt_hash x = vr_previous_receipt_hash r" "vx_operation x = operation_name (vr_operation r)"
    "view_receipt_hash E r = Ok (vx_receipt_hash x)"
  using assms by (auto simp: view_version_receipt_response_def view_receipt_hash_def and_then_ok)

lemma components_ok: "valid_namespace ns \<Longrightarrow> \<not> no_components (map JStr ns)"
  by (auto simp: no_components_def valid_namespace_def valid_name_def str_filter_def list_ex_iff list_all_iff)

lemma compact_identity:
  assumes "view_version_receipt_response E r = Ok x" "client_receipt sid w ns n r" "sid \<noteq> []" "w \<noteq> []" "n \<noteq> []" "valid_namespace ns"
    and "cc_stable_id chain = sid" "cc_warehouse chain = w" "cc_namespace chain = map JStr ns" "cc_name chain = n"
  shows "verify_receipt_identity chain place (qglake_compact_view_receipt x) = Ok ()"
  using assms(2-10) compact_fields(1-4) [of x] components_ok [OF assms(6)] response_fields(1-4) [OF assms(1)]
  by (simp add: verify_receipt_identity_def accessor_values client_receipt_def cli_reject_def)

lemma compact_links:
  assumes "receipt_link_verified previous x" "vx_operation x = ''upsert'' \<or> vx_operation x = ''drop''"
  shows "verify_receipt_links place (cursor_of previous) (qglake_compact_view_receipt x) (vx_view_version x) (vx_operation x) = Ok ()"
  using assms compact_fields(6,7) [of x]
  by (auto simp: receipt_link_verified_def verify_receipt_links_def cursor_of_def accessor_values jopt_def cli_reject_def
      split: option.splits if_splits)

lemma operation_names: "operation_name o1 = ''upsert'' \<or> operation_name o1 = ''drop''"
  by (cases o1) simp_all

lemma compact_receipt_accepted:
  assumes "client_of E X" "env_ok E" "view_version_receipt_response E r = Ok x" "client_receipt sid w ns n r"
    "sid \<noteq> []" "w \<noteq> []" "n \<noteq> []" "valid_namespace ns" "receipt_link_verified previous x"
    and "cc_stable_id chain = sid" "cc_warehouse chain = w" "cc_namespace chain = map JStr ns" "cc_name chain = n"
  shows "\<exists>s'. verify_compact_receipt X chain i j k (qglake_compact_view_receipt x) (s, cursor_of previous) =
    Ok (s', cursor_of (Some x))"
proof -
  have op: "vx_operation x = ''upsert'' \<or> vx_operation x = ''drop''"
    using response_fields(8) [OF assms(3)] operation_names by simp
  have "is_full_sha256_hash (vx_receipt_hash x)"
    using response_fields(9) [OF assms(3)] hash_of_content assms(2) by (simp add: view_receipt_hash_def)
  moreover have "vx_view_version x \<noteq> 0"
    using response_fields(5) [OF assms(3)] assms(4) by (simp add: client_receipt_def)
  moreover note compact_identity [OF assms(3-8,10-13)] compact_links [OF assms(9) op]
    compact_receipt_digest [OF assms(1,4,3,5-7)]
  ultimately show ?thesis
    using compact_fields(5,8,10) [of x]
    by (simp add: verify_compact_receipt_def object_at_def compact_object accessor_values cursor_of_def)
qed

lemma compact_receipts_accepted:
  assumes "client_of E X" "env_ok E" "sid \<noteq> []" "w \<noteq> []" "n \<noteq> []" "valid_namespace ns"
    and "cc_stable_id chain = sid" "cc_warehouse chain = w" "cc_namespace chain = map JStr ns" "cc_name chain = n"
    and "list_all2 (\<lambda>r x. view_version_receipt_response E r = Ok x) rs xs" "\<forall>r \<in> set rs. client_receipt sid w ns n r"
    "links_verified previous xs"
  shows "\<exists>s'. loop_indexed (verify_compact_receipt X chain i j) k (map qglake_compact_view_receipt xs)
      (s, cursor_of previous) = Ok (s', cursor_of (if xs = [] then previous else Some (last xs)))"
  using assms(11-13)
proof (induction rs xs arbitrary: k s previous rule: list_all2_induct)
  case (Cons r rs x xs)
  then obtain s1 where "verify_compact_receipt X chain i j k (qglake_compact_view_receipt x) (s, cursor_of previous) =
      Ok (s1, cursor_of (Some x))"
    using compact_receipt_accepted [OF assms(1,2) Cons.hyps(1) _ assms(3-6) _ assms(7-10)] by fastforce
  moreover obtain s' where "loop_indexed (verify_compact_receipt X chain i j) (Suc k) (map qglake_compact_view_receipt xs)
      (s1, cursor_of (Some x)) = Ok (s', cursor_of (if xs = [] then Some x else Some (last xs)))"
    using Cons.IH [of "Some x" "Suc k" s1] Cons.prems by auto
  ultimately show ?case by auto
qed simp

lemma chain_fields:
  "jget (qglake_compact_view_receipt_chain c) ''stableId'' = Some (JStr (vh_stable_id c))"
  "jget (qglake_compact_view_receipt_chain c) ''warehouse'' = Some (JStr (vh_warehouse c))"
  "jget (qglake_compact_view_receipt_chain c) ''namespace'' = Some (jstrs (vh_namespace c))"
  "jget (qglake_compact_view_receipt_chain c) ''name'' = Some (JStr (vh_name c))"
  "jget (qglake_compact_view_receipt_chain c) ''chainHash'' = Some (JStr (vh_chain_hash c))"
  "jget (qglake_compact_view_receipt_chain c) ''chainVerified'' = Some (JBool (vh_chain_verified c))"
  "jget (qglake_compact_view_receipt_chain c) ''latestViewVersion'' = Some (ju64 (vh_latest_view_version c))"
  "jget (qglake_compact_view_receipt_chain c) ''latestOperation'' = Some (JStr (vh_latest_operation c))"
  "jget (qglake_compact_view_receipt_chain c) ''tombstoned'' = Some (JBool (vh_tombstoned c))"
  "jget (qglake_compact_view_receipt_chain c) ''receiptCount'' = Some (JInt (int (vh_receipt_count c)))"
  "jget (qglake_compact_view_receipt_chain c) ''receipts'' = Some (JArr (map qglake_compact_view_receipt (vh_receipts c)))"
  by (simp_all add: qglake_compact_view_receipt_chain_def)

lemma compact_receipt_hashes: "traverse compact_receipt_hash (map qglake_compact_view_receipt xs) = Ok (map vx_receipt_hash xs)"
  by (induction xs) (simp_all add: compact_receipt_hash_def compact_object accessor_values compact_fields)

lemma count_accepted:
  assumes "jget v k = Some (JInt (int m))" "0 < m" "m < 2 ^ 64"
  shows "require_positive_u64 v k label = Ok (of_nat m)"
proof -
  have "unat (of_nat m :: 64 word) = m" using assms(3) by (simp add: unat_of_nat take_bit_nat_eq_self)
  then have "(of_nat m :: 64 word) \<noteq> 0" using assms(2) by fastforce
  moreover have "field_u64 v k = Some (of_nat m)"
    using assms(1,3) by (simp add: field_u64_def as_u64_JInt)
  ultimately show ?thesis by (simp add: cli_field_ok)
qed

lemma components_path: "valid_namespace ns \<Longrightarrow> namespace_components_path (map JStr ns) label = Ok (join_with ''.'' ns)"
proof -
  assume ns: "valid_namespace ns"
  then have "ns \<noteq> []" "\<forall>s \<in> set ns. s \<noteq> []"
    by (auto simp: valid_namespace_def valid_name_def list_all_iff)
  moreover have "traverse (\<lambda>(i, component). ok_or (InvalidArgument (indexed (label @ ''.namespace'') i @ '' must be a non-empty string''))
      (str_filter (\<lambda>s. s \<noteq> []) (as_str component))) (enumerate m (map JStr ns)) = Ok ns" if "\<forall>s \<in> set ns. s \<noteq> []" for m
    using that by (induction ns arbitrary: m) (auto simp: str_filter_def)
  ultimately show ?thesis by (simp add: namespace_components_path_def)
qed

lemma list_all2_last: "list_all2 P xs ys \<Longrightarrow> xs \<noteq> [] \<Longrightarrow> P (last xs) (last ys)"
  by (induction rule: list_all2_induct) auto

text \<open>A verified chain response, over receipts of one view in the order of the response.\<close>

lemma compact_chain_accepted:
  assumes client: "client_of E X" and env: "env_ok E" and ns: "valid_namespace ns" and names: "w \<noteq> []" "n \<noteq> []"
    and sid: "sid = ''lakecat:view:'' @ w @ '':'' @ join_with ''.'' ns @ '':'' @ n"
    and xs: "list_all2 (\<lambda>r x. view_version_receipt_response E r = Ok x) rs xs" "rs \<noteq> []" "length rs < 2 ^ 64"
    and rs: "\<forall>r \<in> set rs. client_receipt sid w ns n r" and verified: "links_verified None xs"
    and hash: "view_version_receipt_chain_hash E xs = Ok h"
    and c: "c = \<lparr>vh_stable_id = vr_stable_id (last rs), vh_warehouse = vr_warehouse (last rs),
       vh_namespace = vr_namespace (last rs), vh_name = vr_name (last rs), vh_chain_hash = h, vh_chain_verified = True,
       vh_latest_view_version = vr_view_version (last rs), vh_latest_operation = operation_name (vr_operation (last rs)),
       vh_tombstoned = (vr_operation (last rs) = Drop), vh_receipt_count = length xs, vh_receipts = xs\<rparr>"
    and declared: "h \<in> vg_declared_chain_hashes grp" "vg_warehouse grp = w" "vg_namespace grp = map JStr ns"
      "h \<notin> vs_structural_chain_hashes st"
  shows "is_ok (require_verified_view_receipt_chain_structure X grp i j (qglake_compact_view_receipt_chain c) st)"
proof -
  let ?v = "qglake_compact_view_receipt_chain c" and ?place = "chain_at i j"
  have last: "client_receipt sid w ns n (last rs)" using rs xs(2) by simp
  then have ids: "vr_stable_id (last rs) = sid" "vr_warehouse (last rs) = w" "vr_namespace (last rs) = ns"
    "vr_name (last rs) = n" "vr_view_version (last rs) \<noteq> 0" by (simp_all add: client_receipt_def)
  note heads = response_fields [OF list_all2_last [OF xs(1,2)]]
  have xs_ne: "xs \<noteq> []" "length xs = length rs" using xs(1,2) by (auto dest: list_all2_lengthD)
  have sid_ne: "sid \<noteq> []" by (simp add: sid)
  have "is_full_sha256_hash h"
    using hash xs_ne(1) hash_of_content [OF _ env] by (simp add: view_version_receipt_chain_hash_def Let_def)
  then have identity: "verify_chain_identity grp ?place ?v = Ok (sid, w, map JStr ns, n, h)"
    using chain_fields(1-5) [of c] names sid_ne ids components_ok [OF ns] declared(2,3)
    by (simp add: c verify_chain_identity_def accessor_values cli_reject_def components_path [OF ns]
        require_view_stable_id_matches_components_def Let_def sid)
  let ?op = "operation_name (vr_operation (last rs))"
  have op: "?op = ''upsert'' \<or> ?op = ''drop''" "?op = ''drop'' \<longleftrightarrow> vr_operation (last rs) = Drop"
    by (cases "vr_operation (last rs)"; simp)+
  have count: "require_positive_u64 ?v ''receiptCount'' chain_item = Ok (of_nat (length xs))"
    using count_accepted [OF chain_fields(10) [of c], of chain_item] xs_ne xs(2,3) by (simp add: c)
  have head: "verify_chain_head ?place ?v =
      Ok (vr_view_version (last rs), ?op, vr_operation (last rs) = Drop, map qglake_compact_view_receipt xs)"
    using chain_fields(6-9,11) [of c] ids(5) op count
    by (auto simp: c verify_chain_head_def accessor_values cli_reject_def len_u64_def)
  let ?compact = "\<lparr>cc_stable_id = sid, cc_warehouse = w, cc_namespace = map JStr ns, cc_name = n,
     cc_latest_view_version = vr_view_version (last rs), cc_latest_operation = ?op,
     cc_tombstoned = (vr_operation (last rs) = Drop), cc_receipts = map qglake_compact_view_receipt xs\<rparr>"
  let ?st = "st\<lparr>vs_structural_chain_hashes := insert h (vs_structural_chain_hashes st),
     vs_verified_chain_hashes_by_view := add_under sid h (vs_verified_chain_hashes_by_view st)\<rparr>"
  obtain s' where "loop_indexed (verify_compact_receipt X ?compact i j) 0 (map qglake_compact_view_receipt xs) (?st, None) =
      Ok (s', cursor_of (Some (last xs)))"
    using compact_receipts_accepted [OF client env sid_ne names ns, of ?compact rs xs None i j 0 ?st] xs(1) rs verified xs_ne(1)
    by (auto simp: cursor_of_def)
  then have receipts: "require_verified_view_receipts X ?compact i j ?st = Ok s'"
    using heads(5,8) by (simp add: require_verified_view_receipts_def cursor_of_def Let_def)
  have "view_receipt_chain_hash_from_compact_structure X ?compact = view_version_receipt_chain_hash E xs"
    using heads(1-5,8) ids xs_ne(1) op(2) client
    by (simp add: view_receipt_chain_hash_from_compact_structure_def view_version_receipt_chain_hash_def
        compact_receipt_hashes client_of_def Let_def)
  then have digest: "view_receipt_chain_hash_from_compact_structure X ?compact = Ok h" using hash by simp
  show ?thesis
    using identity head receipts digest declared(1,4)
    by (simp add: require_verified_view_receipt_chain_structure_def object_at_def qglake_compact_view_receipt_chain_def
        jobj_def cli_reject_def)
qed

text \<open>The receipts of a view in the order of the store are links the service verifies.\<close>

lemma checked_links_verified:
  assumes "check_chain E previous rs = Ok ()" "list_all2 (\<lambda>r x. view_version_receipt_response E r = Ok x) rs xs"
    and "rel_option (\<lambda>r x. view_version_receipt_response E r = Ok x) previous before"
  shows "links_verified before xs"
  using assms
proof (induction E previous rs arbitrary: xs before rule: check_chain.induct)
  case (2 E previous r rs)
  then obtain x ys where xs: "xs = x # ys" "view_version_receipt_response E r = Ok x"
    "list_all2 (\<lambda>r x. view_version_receipt_response E r = Ok x) rs ys" by (auto simp: list_all2_Cons1)
  have steps: "receipt_validate r = Ok ()" "check_link E previous r = Ok ()" "check_chain E (Some r) rs = Ok ()"
    using "2.prems"(1) by (auto simp: and_then_ok)
  note fields = response_fields [OF xs(2)]
  have nonzero: "vr_view_version r \<noteq> 0" using steps(1) by (auto simp: receipt_validate_def split: if_splits)
  have "receipt_link_verified before x"
  proof (cases previous)
    case None
    then show ?thesis
      using "2.prems"(3) steps(2) nonzero fields
      by (auto simp: receipt_link_verified_def check_link_def split: if_splits)
  next
    case (Some p)
    then obtain y where y: "before = Some y" "view_version_receipt_response E p = Ok y"
      using "2.prems"(3) by (cases before) auto
    show ?thesis
      using steps(2) nonzero fields response_fields [OF y(2)] Some y(1)
      by (cases "vr_operation r") (auto simp: receipt_link_verified_def check_link_def and_then_ok split: if_splits)
  qed
  moreover have "links_verified (Some x) ys"
    using "2.IH" steps xs by auto
  ultimately show ?case by (simp add: xs(1))
qed simp

lemma response_sorted:
  assumes "sorted (map receipt_order rs)" "distinct (map (\<lambda>r. (vr_view_version r, vr_recorded_at r)) rs)"
  shows "sort_key receipt_response_order rs = rs"
proof (rule sort_key_id_if_sorted)
  have "receipt_response_order (rs ! i) \<le> receipt_response_order (rs ! j)" if ij: "i < j" "j < length rs" for i j
  proof -
    have "receipt_order (rs ! i) \<le> receipt_order (rs ! j)"
      using assms(1) ij by (simp add: sorted_map sorted_wrt_iff_nth_less)
    moreover have "(vr_view_version (rs ! i), vr_recorded_at (rs ! i)) \<noteq> (vr_view_version (rs ! j), vr_recorded_at (rs ! j))"
      using assms(2) ij by (fastforce simp: distinct_conv_nth)
    ultimately show ?thesis
      by (auto simp: receipt_order_def receipt_response_order_def word_less_nat_alt word_le_nat_alt word_unat_eq_iff)
  qed
  then show "sorted (map receipt_response_order rs)" by (simp add: sorted_map sorted_wrt_iff_nth_less)
qed

lemma validated_receipt:
  assumes "receipt_validate r = Ok ()"
  shows "vr_view_version r \<noteq> 0" "is_full_sha256_hash (vr_view_hash r)"
    "vr_previous_receipt_hash r = Some h \<Longrightarrow> is_full_sha256_hash h"
  using assms
  by (auto simp: receipt_validate_def and_then_ok validate_sha256_ok validate_sha256_option_def sha256_shape_def
      is_full_sha256_hash_def split: if_splits option.splits)

lemma responses_total: "env_ok E \<Longrightarrow> \<exists>xs. traverse (view_version_receipt_response E) rs = Ok xs"
proof (induction rs)
  case (Cons r rs)
  then show ?case using content_hash_json_total [OF Cons.prems, of "receipt_json E r"]
    by (auto simp: view_version_receipt_response_def)
qed simp

text \<open>
  C30: the client accepts the chains the service reports. For a view of a reachable catalog, whose receipts were
  written by principals with a subject and of which no two of one version have the same time, the service
  reports one verified chain, and its compact form passes every check of the client under a group of the same
  scope that declares the digest of the chain and has not yet had it.
\<close>

theorem client_accepts_reported_chain:
  assumes "env_ok E" "reachable E clock s" "client_of E X" "valid_name w" "valid_namespace ns" "valid_name n"
    and "list_view_version_receipts E s w ns n = Ok rs" "rs \<noteq> []" "length rs < 2 ^ 64"
    and subjects: "\<forall>r \<in> set rs. pr_subject (vr_principal r) \<noteq> []"
    and times: "distinct (map (\<lambda>r. (vr_view_version r, vr_recorded_at r)) rs)"
  shows "\<exists>c. receipt_chain_response E rs = Ok c \<and> vh_chain_verified c \<and> vh_receipt_count c = length rs \<and>
    (\<forall>grp i j st. vg_warehouse grp = w \<and> vg_namespace grp = map JStr ns \<and>
       vh_chain_hash c \<in> vg_declared_chain_hashes grp \<and> vh_chain_hash c \<notin> vs_structural_chain_hashes st \<longrightarrow>
       is_ok (require_verified_view_receipt_chain_structure X grp i j (qglake_compact_view_receipt_chain c) st))"
proof -
  have inv: "chains_inv E clock (ms_views s) (ms_view_version_receipts s)"
    by (rule reachable_chains [OF assms(2,1)])
  have rs: "rs = key_chain (view_key_parts w ns n) (ms_view_version_receipts s)" "check_chain E None rs = Ok ()"
    using list_receipts_eq [OF inv assms(4,5), of n] assms(7) by simp_all
  have sorted_rs: "sort_key receipt_response_order rs = rs"
    using chains_invD(2) [OF inv, of "view_key_parts w ns n"] times
    by (intro response_sorted) (simp_all add: rs(1) chain_ok_def Let_def)
  define sid where "sid = ''lakecat:view:'' @ w @ '':'' @ join_with ''.'' ns @ '':'' @ n"
  have accepted: "client_receipt sid w ns n r" if r: "r \<in> set rs" for r
  proof -
    have "receipt_validate r = Ok ()" by (rule check_chain_validates [OF rs(2) r])
    moreover note key_chain_rows [OF chains_invD(1) [OF inv] assms(4,5) r [unfolded rs(1)]]
    ultimately show ?thesis
      using validated_receipt [of r] receipt_validate_stable_id [of r] subjects r
      by (simp add: client_receipt_def sid_def view_stable_id_parts_def namespace_path_def)
  qed
  obtain xs where xs: "traverse (view_version_receipt_response E) rs = Ok xs" using responses_total [OF assms(1)] by blast
  then have pairs: "list_all2 (\<lambda>r x. view_version_receipt_response E r = Ok x) rs xs" by (simp add: traverse_ok_iff)
  have links: "links_verified None xs" by (rule checked_links_verified [OF rs(2) pairs]) simp
  have ne: "xs \<noteq> []" using pairs assms(8) by auto
  have "\<exists>h. view_version_receipt_chain_hash E xs = Ok h"
    unfolding view_version_receipt_chain_hash_def Let_def if_not_P [OF ne] by (rule content_hash_json_total [OF assms(1)])
  then obtain h where h: "view_version_receipt_chain_hash E xs = Ok h" by blast
  have names: "w \<noteq> []" "n \<noteq> []" using assms(4,6) by (auto simp: valid_name_def)
  let ?c = "\<lparr>vh_stable_id = vr_stable_id (last rs), vh_warehouse = vr_warehouse (last rs),
       vh_namespace = vr_namespace (last rs), vh_name = vr_name (last rs), vh_chain_hash = h, vh_chain_verified = True,
       vh_latest_view_version = vr_view_version (last rs), vh_latest_operation = operation_name (vr_operation (last rs)),
       vh_tombstoned = (vr_operation (last rs) = Drop), vh_receipt_count = length xs, vh_receipts = xs\<rparr>"
  have "receipt_chain_response E rs = Ok ?c"
    using xs h links ne by (simp add: receipt_chain_response_def sorted_rs view_version_receipt_chain_verified_def Let_def)
  moreover have "is_ok (require_verified_view_receipt_chain_structure X grp i j (qglake_compact_view_receipt_chain ?c) st)"
    if "vg_warehouse grp = w" "vg_namespace grp = map JStr ns" "h \<in> vg_declared_chain_hashes grp"
      "h \<notin> vs_structural_chain_hashes st" for grp i j st
    by (rule compact_chain_accepted [OF assms(3,1,5) names sid_def pairs assms(8,9) _ links h refl that(3,1,2,4)])
      (use accepted in blast)
  moreover have "length xs = length rs" using pairs by (simp add: list_all2_lengthD)
  ultimately show ?thesis by auto
qed

lemma demo_client: "client_of demo_env demo_cli"
  by (simp add: client_of_def demo_cli_def demo_env_def)

lemma view_state_receipts:
  "case list_view_version_receipts demo_env view_state ''wh'' [''sales''] ''top'' of
     Ok rs \<Rightarrow> length rs = 1 \<and> pr_subject (vr_principal (hd rs)) \<noteq> [] | Err _ \<Rightarrow> False"
  by code_simp

theorem client_accepts_reported_chain_witness:
  "\<exists>rs c. list_view_version_receipts demo_env view_state ''wh'' [''sales''] ''top'' = Ok rs \<and>
     receipt_chain_response demo_env rs = Ok c \<and> vh_chain_verified c \<and> vh_receipt_count c = 1"
proof -
  obtain r where r: "list_view_version_receipts demo_env view_state ''wh'' [''sales''] ''top'' = Ok [r]"
    "pr_subject (vr_principal r) \<noteq> []"
    using view_state_receipts by (auto simp: length_Suc_conv split: sum.splits)
  have valid: "valid_name ''wh''" "valid_namespace [''sales'']" "valid_name ''top''" by code_simp+
  show ?thesis
    using client_accepts_reported_chain [OF demo_env_ok view_state_reachable demo_client valid r(1)] r by auto
qed

text \<open>
  The condition on times is needed: a view upserted and dropped at one time has an intact chain in the store,
  which the service reads in the order of the names of the operations and reports as unverified.
\<close>

lemma tied_receipts_unverified:
  "case list_view_version_receipts demo_env
       (snd (drop_view_if_version demo_env 3 ''wh'' [''sales''] ''top'' demo_principal (Some 1) view_state))
       ''wh'' [''sales''] ''top'' of
     Ok rs \<Rightarrow> map vr_operation rs = [Upsert, Drop] \<and>
       (case receipt_chain_response demo_env rs of
          Ok c \<Rightarrow> \<not> vh_chain_verified c \<and> \<not> vh_tombstoned c | Err _ \<Rightarrow> False)
   | Err _ \<Rightarrow> False"
  by code_simp

end
