(* ===== verification/Spec2Isabelle.thy ===== *)
theory Spec2Isabelle
  imports CommitProperties TableProperties RegistryProperties PolicyProperties ViewProperties QueueProperties
    GrantProperties ServiceNamespace ServiceClaims DrainProperties FieldIds BundleProperties
    ReceiptProperties
begin

text \<open>
  LakeCat is an Iceberg REST catalog: a store of namespaces, tables, views, registries, policies,
  model publications and scan grants, a governance layer that decides who may read what, and an HTTP
  service that joins the two, writes metadata objects, and hands every change to a graph and a lineage
  sink through an outbox. This development models the store, the governance layer and the service as
  functions over explicit state, and proves what each promises. All paths are under \<open>src/crates\<close>.

  \<^bold>\<open>Conventions.\<close> A Rust \<open>Result\<close> is \<open>error + 'a\<close> with \<open>Err\<close> and \<open>Ok\<close>; \<open>and_then\<close> is the \<open>?\<close>
  operator, so every early return of the code is a branch of a definition. Structs are records with a
  short prefix per type, enums are datatypes, \<open>u64\<close> is \<open>64 word\<close>, \<open>i64\<close> is \<open>int\<close> with its bounds
  written out, strings are lists of bytes as characters, \<open>BTreeMap\<close> is a sorted association list
  (\<open>OrderedMap\<close>), \<open>serde_json::Value\<close> is the datatype \<open>json\<close> (\<open>LakeJson\<close>). A stateful operation
  returns its result with the state after it: over the catalog (\<open>MemoryState\<close>), over catalog, object
  store and clock (\<open>world_op\<close>), or over those with the history of what was sent (\<open>drain_op\<close>). A panic of
  the code is the value \<open>Panicked\<close> of the error type, which the theorems on commits exclude.

  \<^bold>\<open>Parameters.\<close> Code that is not in the repository is an argument. The record \<open>env\<close> holds the
  JSON encoder, SHA-256, the rendering of times and the URL parser; \<open>object_api\<close> the object store, which
  may refuse a call or lose its answer; \<open>evidence_api\<close> the texts of Serde errors and the check of
  RFC 3339 times; the table
  engine, the governance engine, the TypeDID verifier, the credential issuer and the two sinks are
  functions in the state of the service. Hypotheses on them are documented behaviour (a hash has 64
  hexadecimal digits, the engine answers with a receipt of the request) and every property with such a
  hypothesis has a witness on concrete functions.

  \<^bold>\<open>Library.\<close> \<open>LakePrelude\<close> (results, bytes, ordered maps as locale \<open>row_store\<close>, interpreted by
  \<open>OrderedMap\<close>), \<open>LakeJson\<close>, \<open>LakeCore\<close> (\<open>lakecat-core/src/lib.rs\<close>: names, namespaces, identities,
  principals, hashes), \<open>CompareAndSwap\<close> (locale \<open>cas_cell\<close>: of the attempts on one cell at most one
  succeeds, and the successes form one history).

  \<^bold>\<open>Store\<close> (\<open>lakecat-store\<close>). \<open>StoreValidation\<close> and \<open>StoreScopes\<close> are \<open>helpers.rs\<close> (locations,
  public configuration, keys and scopes), \<open>StoreRecords\<close>, \<open>StoreEvents\<close> and \<open>ViewRecords\<close> are
  \<open>records.rs\<close>, and \<open>MemoryState\<close>, \<open>MemoryTables\<close>, \<open>MemoryCommits\<close> (also renames), \<open>MemoryViews\<close>,
  \<open>MemoryRegistry\<close> and \<open>MemoryOutbox\<close> are the operations of \<open>memory.rs\<close>, one definition each. The record
  \<open>MemoryState\<close> has one field per map of the struct; the mutex of the code makes an operation one step.
  \<open>CatalogMachine\<close> makes the operations the steps of an inductive relation; \<open>StoreInvariant\<close> is the
  invariant of its reachable states. \<open>CommitLaws\<close>, \<open>TableLaws\<close>, \<open>RenameLaws\<close>, \<open>ViewLaws\<close>,
  \<open>RegistryLaws\<close> and \<open>OutboxLaws\<close> hold what each operation keeps and changes; their interpretations of
  \<open>cas_cell\<close> (pointers of tables, versions of views and of models), \<open>registry\<close> (the five
  registries) and \<open>event_queue\<close> (the outbox) give the properties of \<open>CommitProperties\<close>,
  \<open>TableProperties\<close>, \<open>RegistryProperties\<close>, \<open>PolicyProperties\<close>, \<open>ViewProperties\<close> and
  \<open>QueueProperties\<close>: commits are linear and atomic and replay by idempotency key, receipts of a view
  form a hash chain, renames carry policies along, the longest matching storage profile is chosen, no
  outbox event is lost.

  \<^bold>\<open>Governance\<close> (\<open>lakecat-security\<close>, \<open>lakecat-core/src/governed_scan\<close>). \<open>OdrlPolicies\<close>
  composes policies into one restriction, \<open>Capabilities\<close> turns authorization receipts
  into the 25 typed capabilities, \<open>GovernedScan\<close> builds and checks proofs of governed scans.
  \<open>SecurityProperties\<close> shows that composition is intersection and that a capability proves its receipt.

  \<^bold>\<open>Service\<close> (\<open>lakecat-service\<close>, with \<open>lakecat-api\<close> and \<open>lakecat-core/src/sail.rs\<close>).
  \<open>ServiceErrors\<close> (\<open>error.rs\<close>), \<open>ServiceIdentity\<close> (\<open>identity.rs\<close>), \<open>ServiceNamespace\<close>
  (\<open>namespace.rs\<close>: multipart namespaces and pages), \<open>ServiceGovernedScan\<close> (\<open>governed_scan.rs\<close>),
  \<open>SailEngine\<close> and \<open>FieldIds\<close> (\<open>sail.rs\<close>: the engine seam, the metadata of a new table and its column
  ids), \<open>ServiceLocation\<close> (\<open>location.rs\<close>: metadata objects), \<open>ServiceApi\<close> (request and response
  types), \<open>ServiceResponses\<close> (\<open>responses.rs\<close>), the handlers in \<open>HandleNamespaces\<close>,
  \<open>HandleTables\<close> (also \<open>commit.rs\<close>, \<open>table_registration.rs\<close>, \<open>table_rename.rs\<close>), \<open>HandleManagement\<close>,
  \<open>HandleViews\<close> and \<open>ServiceScan\<close> (\<open>handlers.rs\<close>, \<open>scan.rs\<close>), and \<open>ServiceRouter\<close>, where \<open>serve\<close>
  dispatches a decoded request (\<open>router.rs\<close>). A handler runs in a \<open>ServiceWorld\<close>: between any two
  calls of the store an arbitrary step of other requests may run, taken from a list in the world
  (\<open>wd_others\<close>), so the interleavings of concurrent requests are covered. \<open>ServiceMachine\<close>
  (locale \<open>world_invariant\<close> of \<open>HandlerLaws\<close>), \<open>ServiceSafety\<close> and \<open>ServiceObjects\<close> lift the
  invariants of the catalog to \<open>serve\<close>; \<open>ServiceProperties\<close>, \<open>GrantProperties\<close> and \<open>ServiceClaims\<close> state
  the results: every request needs its action, the service refines the catalog machine, an acknowledged
  commit is durable, a refused one leaves no object, stale grants are refused.

  \<^bold>\<open>Outbox\<close> (\<open>lakecat-service/src/evidence\<close>, \<open>outbox.rs\<close>, \<open>lineage_summary.rs\<close>,
  \<open>lakecat-graph\<close>, \<open>lakecat-lineage\<close>). \<open>EvidenceFields\<close>, \<open>EvidenceReceipts\<close>,
  \<open>EvidenceManagement\<close>, \<open>EvidenceTables\<close>, \<open>EvidenceScans\<close>, \<open>EvidenceCredentials\<close>
  and \<open>OutboxEvidence\<close> are the checks of the payload of every event type, in the order of the code;
  \<open>SinkEvents\<close> the documents that are sent;
  \<open>LineageSummary\<close> and \<open>DrainSummary\<close> the summary of a drained event; 
  \<open>OutboxProjection\<close> and \<open>OutboxDrain\<close> the projection of an event and the drain itself.
  \<open>OutboxDrain\<close> shows that every branch of the projection keeps the books: its receipt counts exactly
  what the sinks accepted. \<open>DrainLaws\<close> and \<open>DrainProperties\<close> state the contract of the drain (all or
  retry, only projected events are marked) and its limit: an event of an unknown type blocks it, and the
  listing of tables records one.

  \<^bold>\<open>QueryGraph\<close> (\<open>qglake-bundle\<close>, \<open>lakecat-querygraph\<close>). \<open>QglakeBundle\<close> is the bundle, the canonical
  JSON of its parts, their hashes and the verifier; \<open>QueryGraph\<close> builds the documents of tables and views,
  the catalog graph and the bundle from a snapshot of the catalog, which the handler of \<open>ServiceScan\<close>
  takes. \<open>BundleProperties\<close> shows that a bundle that was built verifies when its stable ids are distinct,
  and that the bundle hash binds all of it but the time it was generated.

  \<^bold>\<open>Client\<close> (\<open>lakecat-cli\<close>). \<open>CliReceipts\<close> is the field accessors of \<open>cli.rs\<close> and the verification of
  the receipt chains of views (\<open>verify_receipts.rs\<close>); \<open>ReplayEvidence\<close> is the evidence the client makes of a
  verified bundle and a drained outbox (\<open>replay_evidence.rs\<close>). How chrono reads and writes a time is the
  parameter \<open>ca_normalize_utc\<close>. \<open>ReceiptProperties\<close> shows what accepted evidence proves, and that the chain
  the service reports for a view of a reachable catalog, in the form the client gives it, is accepted.

  \<^bold>\<open>Termination and bounds.\<close> Every function is total; recursion that is not structural has a measure.
  Following page tokens takes fuel, and the property shows that the number of children plus one is
  enough. Retries of a cleanup are the constant of the code. Counters saturate or report an overflow
  where the code does.

  \<^bold>\<open>Not modelled.\<close> The Turso store (\<open>turso_store/mod.rs\<close>) implements the same contract over SQL text
  run by a database that is not in the repository. The Sail integration and the catalog provider
  (\<open>lakecat-sail\<close>) and the Grust sink (\<open>grust_integration\<close>) convert to types of crates that are not in the
  repository, as do the adapters of the credential issuer and the TypeDID verifier (\<open>typesec_*.rs\<close>). The
  client's commands, HTTP calls and fixtures are input and output; its checks of proof, handoff and replay
  files (\<open>verify_proof.rs\<close>, \<open>verify_handoff.rs\<close>, \<open>verify_replay.rs\<close>) are lists of comparisons over the
  accessors of \<open>CliReceipts\<close>. Decoding of request bodies and route matching are Serde and axum: \<open>serve\<close> takes a
  decoded request. Timing, logging and start-up are not modelled.
\<close>

end
